(* ===== verification/Prelude.thy ===== *)
theory Prelude
  imports Main "HOL-Library.AList" "HOL-Library.List_Lexorder" "HOL-Library.Product_Lexorder"
    "HOL-Library.Char_ord"
begin

text \<open>
  Shared ground of the development: the exceptions the code raises, the result type of
  fallible code, the insertion-ordered dictionary of Python, and the generic lemmas and
  named collections the component theories rely on.
\<close>

section \<open>Exceptions and results\<close>

text \<open>
  One constructor per exception class the modelled code raises or lets escape, with the
  arguments the code passes (message texts where the class carries only a message).
  \<open>InstrumentIdentityError\<close>, \<open>ProviderPriceIncrementError\<close>,
  \<open>ChartHistoryRangeError\<close> and \<open>PaperJournalError\<close> are subclasses of \<open>ValueError\<close> in the code;
  \<open>is_value_error\<close> is what \<open>except ValueError\<close> catches.
\<close>

datatype exn =
    ValueError string
  | TypeError string
  | OverflowError
  | ZeroDivisionError
  | IndexError
  | KeyError
  | AttributeError
  | AssertionError
  | RuntimeError string
  | CancelledError
  | InstrumentIdentityError string
  | ProviderPriceIncrementError string
  | ChartHistoryRangeError string string string "int option"
  | ChartBarsGenerationChanged int int bool bool
  | PaperJournalError string

fun is_value_error :: "exn \<Rightarrow> bool" where
  "is_value_error (ValueError _) = True"
| "is_value_error (InstrumentIdentityError _) = True"
| "is_value_error (ProviderPriceIncrementError _) = True"
| "is_value_error (ChartHistoryRangeError _ _ _ _) = True"
| "is_value_error (PaperJournalError _) = True"
| "is_value_error _ = False"

fun is_type_error :: "exn \<Rightarrow> bool" where
  "is_type_error (TypeError _) = True"
| "is_type_error _ = False"

type_synonym 'a res = "exn + 'a"

text \<open>Sequencing: the first exception ends the computation.\<close>

primrec rbind :: "'a res \<Rightarrow> ('a \<Rightarrow> 'b res) \<Rightarrow> 'b res" where
  "rbind (Inl e) f = Inl e"
| "rbind (Inr x) f = f x"

definition require :: "bool \<Rightarrow> exn \<Rightarrow> unit res" where
  "require b e = (if b then Inr () else Inl e)"

text \<open>A comprehension whose element expression may raise: left to right, first exception wins.\<close>

primrec mapM :: "('a \<Rightarrow> 'b res) \<Rightarrow> 'a list \<Rightarrow> 'b list res" where
  "mapM f [] = Inr []"
| "mapM f (x # xs) = rbind (f x) (\<lambda>y. rbind (mapM f xs) (\<lambda>ys. Inr (y # ys)))"

primrec foldM :: "('s \<Rightarrow> 'a \<Rightarrow> 's res) \<Rightarrow> 's \<Rightarrow> 'a list \<Rightarrow> 's res" where
  "foldM f s [] = Inr s"
| "foldM f s (x # xs) = rbind (f s x) (\<lambda>s'. foldM f s' xs)"

definition is_ok :: "'a res \<Rightarrow> bool" where
  "is_ok r = (case r of Inl _ \<Rightarrow> False | Inr _ \<Rightarrow> True)"

named_theorems res_simps "unfolding of result-monad terms that returned a value"

lemma rbind_Inr_iff [res_simps]: "rbind m f = Inr y \<longleftrightarrow> (\<exists>x. m = Inr x \<and> f x = Inr y)"
  by (cases m) auto

lemma rbind_Inl_iff: "rbind m f = Inl e \<longleftrightarrow> m = Inl e \<or> (\<exists>x. m = Inr x \<and> f x = Inl e)"
  by (cases m) auto

lemma rbind_assoc: "rbind (rbind m f) g = rbind m (\<lambda>x. rbind (f x) g)"
  by (cases m) auto

lemma rbind_Inr_right [simp]: "rbind m Inr = m"
  by (cases m) auto

lemma require_Inr_iff [res_simps]: "require b e = Inr u \<longleftrightarrow> b"
  by (simp add: require_def)

lemma require_True [simp]: "require True e = Inr ()"
  and require_False [simp]: "require False e = Inl e"
  by (simp_all add: require_def)

lemma is_ok_iff: "is_ok r \<longleftrightarrow> (\<exists>x. r = Inr x)"
  by (cases r) (auto simp: is_ok_def)

lemma mapM_length: "mapM f xs = Inr ys \<Longrightarrow> length ys = length xs"
  by (induction xs arbitrary: ys) (auto simp: res_simps)

lemma mapM_Inr_iff: "mapM f xs = Inr ys \<longleftrightarrow> list_all2 (\<lambda>x y. f x = Inr y) xs ys"
  by (induction xs arbitrary: ys) (auto simp: res_simps list_all2_Cons1)

lemma mapM_set: "mapM f xs = Inr ys \<Longrightarrow> y \<in> set ys \<Longrightarrow> \<exists>x \<in> set xs. f x = Inr y"
  by (induction xs arbitrary: ys) (auto simp: res_simps)

lemma foldM_inv:
  assumes "foldM f s xs = Inr s'" and "I s"
    and "\<And>s x s'. x \<in> set xs \<Longrightarrow> I s \<Longrightarrow> f s x = Inr s' \<Longrightarrow> I s'"
  shows "I s'"
  using assms
proof (induction xs arbitrary: s)
  case Nil
  then show ?case by simp
next
  case (Cons x xs)
  then obtain t where "f s x = Inr t" "foldM f t xs = Inr s'"
    by (auto simp: res_simps)
  with Cons show ?case by (metis list.set_intros(1) list.set_intros(2))
qed

section \<open>Python dictionaries\<close>

text \<open>
  A dictionary that is iterated (or trimmed in insertion order) is an association list
  with distinct keys: assigning an existing key keeps its position, a new key goes last,
  \<open>pop(key, None)\<close> removes the key if it is there. \<^theory_text>\<open>AList.update\<close> and
  \<^theory_text>\<open>AList.delete\<close> do exactly this.
\<close>

type_synonym ('k, 'v) pydict = "('k \<times> 'v) list"

definition dget :: "('k, 'v) pydict \<Rightarrow> 'k \<Rightarrow> 'v option" where
  "dget d k = map_of d k"

definition dget_default :: "('k, 'v) pydict \<Rightarrow> 'k \<Rightarrow> 'v \<Rightarrow> 'v" where
  "dget_default d k v = (case map_of d k of None \<Rightarrow> v | Some w \<Rightarrow> w)"

definition dhas :: "('k, 'v) pydict \<Rightarrow> 'k \<Rightarrow> bool" where
  "dhas d k = (map_of d k \<noteq> None)"

definition dset :: "'k \<Rightarrow> 'v \<Rightarrow> ('k, 'v) pydict \<Rightarrow> ('k, 'v) pydict" where
  "dset k v d = AList.update k v d"

definition dpop :: "'k \<Rightarrow> ('k, 'v) pydict \<Rightarrow> ('k, 'v) pydict" where
  "dpop k d = AList.delete k d"

definition dkeys :: "('k, 'v) pydict \<Rightarrow> 'k list" where
  "dkeys d = map fst d"

definition dict_ok :: "('k, 'v) pydict \<Rightarrow> bool" where
  "dict_ok d = distinct (map fst d)"

text \<open>\<open>{**a, **b}\<close>: the entries of \<open>b\<close> assigned over \<open>a\<close>, in order.\<close>

definition dmerge :: "('k, 'v) pydict \<Rightarrow> ('k, 'v) pydict \<Rightarrow> ('k, 'v) pydict" where
  "dmerge a b = fold (\<lambda>(k, v) d. dset k v d) b a"

named_theorems dict_simps "how lookups see dictionary updates"

lemma dhas_Nil [simp]: "\<not> dhas [] k" and dget_Nil [simp]: "dget [] k = None"
  and dkeys_Nil [simp]: "dkeys [] = []"
  by (simp_all add: dhas_def dget_def dkeys_def)

lemma dget_dset [simp, dict_simps]: "dget (dset k v d) k' = (if k' = k then Some v else dget d k')"
  by (simp add: dget_def dset_def update_conv')

lemma dget_dpop [simp, dict_simps]: "dget (dpop k d) k' = (if k' = k then None else dget d k')"
  by (simp add: dget_def dpop_def delete_conv')

lemma dget_default_dset [simp, dict_simps]:
  "dget_default (dset k v d) k' w = (if k' = k then v else dget_default d k' w)"
  by (simp add: dget_default_def dset_def update_conv')

lemma dget_default_dpop [simp, dict_simps]:
  "dget_default (dpop k d) k' w = (if k' = k then w else dget_default d k' w)"
  by (simp add: dget_default_def dpop_def delete_conv')

lemma dhas_iff: "dhas d k \<longleftrightarrow> (\<exists>v. dget d k = Some v)"
  by (auto simp: dhas_def dget_def)

lemma dhas_dset [simp, dict_simps]: "dhas (dset k v d) k' \<longleftrightarrow> k' = k \<or> dhas d k'"
  by (auto simp: dhas_iff)

lemma dhas_dpop [simp, dict_simps]: "dhas (dpop k d) k' \<longleftrightarrow> k' \<noteq> k \<and> dhas d k'"
  by (auto simp: dhas_iff)

lemma dget_default_None: "dget d k = None \<Longrightarrow> dget_default d k v = v"
  by (simp add: dget_def dget_default_def)

lemma dget_default_Some: "dget d k = Some w \<Longrightarrow> dget_default d k v = w"
  by (simp add: dget_def dget_default_def)

lemma dhas_in_dkeys: "dhas d k \<longleftrightarrow> k \<in> set (dkeys d)"
  by (auto simp: dhas_def dkeys_def map_of_eq_None_iff)

lemma dict_ok_empty [simp]: "dict_ok []"
  by (simp add: dict_ok_def)

lemma dict_ok_dset [simp, intro]: "dict_ok d \<Longrightarrow> dict_ok (dset k v d)"
  unfolding dict_ok_def dset_def by (rule distinct_update)

lemma dict_ok_dpop [simp, intro]: "dict_ok d \<Longrightarrow> dict_ok (dpop k d)"
  unfolding dict_ok_def dpop_def by (rule distinct_delete)

lemma dset_length: "length (dset k v d) = (if dhas d k then length d else Suc (length d))"
  by (induction d) (auto simp: dset_def dhas_def)

lemma dpop_length_le: "length (dpop k d) \<le> length d"
  unfolding dpop_def by (rule length_delete_le)

lemma dpop_length:
  "dict_ok d \<Longrightarrow> dhas d k \<Longrightarrow> Suc (length (dpop k d)) = length d"
proof (induction d)
  case Nil
  then show ?case by (simp add: dhas_def)
next
  case (Cons p d)
  show ?case
  proof (cases "fst p = k")
    case True
    with Cons.prems have "k \<notin> fst ` set d" by (auto simp: dict_ok_def)
    then have "AList.delete k d = d" by (induction d) auto
    with True show ?thesis by (cases p) (simp add: dpop_def)
  next
    case False
    with Cons show ?thesis by (cases p) (auto simp: dpop_def dict_ok_def dhas_def)
  qed
qed

lemma dpop_length_less: "k \<in> set (dkeys d) \<Longrightarrow> length (dpop k d) < length d"
proof (induction d)
  case (Cons p d)
  show ?case
  proof (cases "fst p = k")
    case True
    then have "dpop k (p # d) = dpop k d" by (cases p) (simp add: dpop_def)
    then show ?thesis using dpop_length_le [of k d] by simp
  next
    case False
    with Cons show ?thesis by (cases p) (auto simp: dpop_def dkeys_def)
  qed
qed (simp add: dkeys_def)

lemma dkeys_dset: "dkeys (dset k v d) = (if dhas d k then dkeys d else dkeys d @ [k])"
  by (induction d) (auto simp: dset_def dkeys_def dhas_def)

lemma set_dset: "dict_ok d \<Longrightarrow> set (dset k v d) = {(k, v)} \<union> {p \<in> set d. fst p \<noteq> k}"
  by (induction d) (auto simp: dset_def dict_ok_def image_iff)

lemma dget_in_set: "dget d k = Some v \<Longrightarrow> (k, v) \<in> set d"
  by (simp add: dget_def map_of_SomeD)

lemma in_set_dget: "dict_ok d \<Longrightarrow> (k, v) \<in> set d \<Longrightarrow> dget d k = Some v"
  by (simp add: dget_def dict_ok_def)

section \<open>Lists\<close>

text \<open>\<open>next((x for x in xs if p x), None)\<close>\<close>

definition first_where :: "('a \<Rightarrow> bool) \<Rightarrow> 'a list \<Rightarrow> 'a option" where
  "first_where p xs = List.find p xs"

lemma first_where_Some: "first_where p xs = Some x \<Longrightarrow> x \<in> set xs \<and> p x"
  by (auto simp: first_where_def find_Some_iff)

lemma first_where_None: "first_where p xs = None \<longleftrightarrow> (\<forall>x \<in> set xs. \<not> p x)"
  by (auto simp: first_where_def find_None_iff)

lemma set_keep_last: "set (drop n xs) \<subseteq> set xs"
  by (rule set_drop_subset)

section \<open>Interface of a keyed store\<close>

text \<open>
  What the components rely on when they keep their state in dictionaries: a lookup after
  an assignment or a removal, whatever the representation. The eviction lemma is the one
  every bounded cache of the code needs: dropping one victim leaves all other keys alone.
\<close>

locale keyed_store =
  fixes get :: "'m \<Rightarrow> 'k \<Rightarrow> 'v option"
    and put :: "'k \<Rightarrow> 'v \<Rightarrow> 'm \<Rightarrow> 'm"
    and drop_key :: "'k \<Rightarrow> 'm \<Rightarrow> 'm"
    and ok :: "'m \<Rightarrow> bool"
  assumes get_put: "get (put k v m) k' = (if k' = k then Some v else get m k')"
    and get_drop: "get (drop_key k m) k' = (if k' = k then None else get m k')"
    and ok_put: "ok m \<Longrightarrow> ok (put k v m)"
    and ok_drop: "ok m \<Longrightarrow> ok (drop_key k m)"
begin

definition evict :: "'k option \<Rightarrow> 'm \<Rightarrow> 'm" where
  "evict victim m = (case victim of None \<Rightarrow> m | Some k \<Rightarrow> drop_key k m)"

lemma get_evict: "victim \<noteq> Some k \<Longrightarrow> get (evict victim m) k = get m k"
  by (auto simp: evict_def get_drop split: option.splits)

lemma ok_evict: "ok m \<Longrightarrow> ok (evict victim m)"
  by (auto simp: evict_def ok_drop split: option.splits)

lemma put_then_evict_keeps:
  "victim \<noteq> Some k \<Longrightarrow> get (evict victim (put k v m)) k = Some v"
  by (simp add: get_evict get_put)

lemma put_idem: "get (put k v (put k w m)) k' = get (put k v m) k'"
  by (simp add: get_put)

end

interpretation dict_store: keyed_store dget dset dpop dict_ok
  by unfold_locales auto

section \<open>Interface of a state machine with an invariant\<close>

text \<open>
  A component with shared state is a start state and steps; an invariant that holds at
  the start and is kept by every step holds after every run. The components interpret
  this on their own step functions.
\<close>

locale guarded_machine =
  fixes init :: 's
    and step :: "'e \<Rightarrow> 's \<Rightarrow> 's"
    and inv :: "'s \<Rightarrow> bool"
  assumes inv_init: "inv init"
    and inv_step: "inv s \<Longrightarrow> inv (step e s)"
begin

definition run :: "'e list \<Rightarrow> 's \<Rightarrow> 's" where
  "run es s = fold step es s"

lemma run_inv: "inv s \<Longrightarrow> inv (run es s)"
  unfolding run_def by (induction es arbitrary: s) (auto intro: inv_step)

lemma reachable_inv: "inv (fold step es init)"
  using run_inv [OF inv_init, of es] by (simp add: run_def)

lemma run_append: "run (es @ fs) s = run fs (run es s)"
  by (simp add: run_def)

lemma run_preserves:
  assumes "\<And>s e. inv s \<Longrightarrow> f s \<le> (f (step e s) :: 'b::preorder)" and "inv s"
  shows "f s \<le> f (fold step es s)"
  using assms(2)
proof (induction es arbitrary: s)
  case Nil
  then show ?case by simp
next
  case (Cons e es)
  have "f s \<le> f (step e s)" using assms(1) Cons.prems by blast
  also have "\<dots> \<le> f (fold step es (step e s))"
    using Cons.IH [OF inv_step [OF Cons.prems]] .
  finally show ?case by simp
qed

end

end
