(* ===== verification/PyFloat.thy ===== *)
theory PyFloat
  imports Complex_Main "HOL-Library.Log_Nat" Prelude
begin

text \<open>
  Python's \<open>float\<close>: IEEE 754 binary64 with round-half-to-even. A finite float is the
  rational number it denotes; arithmetic is the exact rational operation followed by
  \<open>rnd\<close>. The two zeros are one value (nothing modelled here tells them apart).
  \<open>fl_ok\<close> says that a finite value is representable, i.e.\ a fixed point of \<open>rnd\<close>.
\<close>

section \<open>Rounding a rational to binary64\<close>

abbreviation pow2 :: "int \<Rightarrow> rat" where
  "pow2 e \<equiv> 2 powi e"

text \<open>The exponent of the leading bit of a positive rational.\<close>

definition ilog2 :: "rat \<Rightarrow> int" where
  "ilog2 x = (let (a, b) = quotient_of x; k = bitlen a - bitlen b
     in if pow2 k \<le> x then k else k - 1)"

definition round_half_even :: "rat \<Rightarrow> int" where
  "round_half_even y = (let f = \<lfloor>y\<rfloor>; d = y - of_int f in
     if d < 1 / 2 then f else if 1 / 2 < d then f + 1 else if even f then f else f + 1)"

text \<open>The exponent of one unit in the last place; subnormal numbers share the smallest.\<close>

definition ulp_exp :: "rat \<Rightarrow> int" where
  "ulp_exp x = max (ilog2 \<bar>x\<bar>) (- 1022) - 52"

definition rnd_val :: "rat \<Rightarrow> rat" where
  "rnd_val x = of_int (round_half_even (x / pow2 (ulp_exp x))) * pow2 (ulp_exp x)"

datatype pyfloat = Fin rat | PInf | NInf | NaN

definition rnd :: "rat \<Rightarrow> pyfloat" where
  "rnd x = (let r = rnd_val x in
     if 2 ^ 1024 \<le> r then PInf else if r \<le> - (2 ^ 1024) then NInf else Fin r)"

fun fl_ok :: "pyfloat \<Rightarrow> bool" where
  "fl_ok (Fin r) = (rnd r = Fin r)"
| "fl_ok _ = True"

section \<open>Operations\<close>

fun isfinite :: "pyfloat \<Rightarrow> bool" where
  "isfinite (Fin _) = True"
| "isfinite _ = False"

fun flt :: "pyfloat \<Rightarrow> pyfloat \<Rightarrow> bool" where
  "flt (Fin a) (Fin b) = (a < b)"
| "flt NInf (Fin b) = True"
| "flt NInf PInf = True"
| "flt (Fin a) PInf = True"
| "flt _ _ = False"

fun fle :: "pyfloat \<Rightarrow> pyfloat \<Rightarrow> bool" where
  "fle (Fin a) (Fin b) = (a \<le> b)"
| "fle NInf b = (b \<noteq> NaN)"
| "fle a PInf = (a \<noteq> NaN)"
| "fle _ _ = False"

text \<open>\<open>==\<close> on floats: \<open>nan\<close> differs from itself.\<close>

definition feq :: "pyfloat \<Rightarrow> pyfloat \<Rightarrow> bool" where
  "feq a b = (a \<noteq> NaN \<and> a = b)"

fun fneg :: "pyfloat \<Rightarrow> pyfloat" where
  "fneg (Fin a) = Fin (- a)"
| "fneg PInf = NInf"
| "fneg NInf = PInf"
| "fneg NaN = NaN"

fun fabs :: "pyfloat \<Rightarrow> pyfloat" where
  "fabs (Fin a) = Fin \<bar>a\<bar>"
| "fabs PInf = PInf"
| "fabs NInf = PInf"
| "fabs NaN = NaN"

fun fadd :: "pyfloat \<Rightarrow> pyfloat \<Rightarrow> pyfloat" where
  "fadd (Fin a) (Fin b) = rnd (a + b)"
| "fadd NaN _ = NaN"
| "fadd _ NaN = NaN"
| "fadd PInf NInf = NaN"
| "fadd NInf PInf = NaN"
| "fadd PInf _ = PInf"
| "fadd _ PInf = PInf"
| "fadd NInf _ = NInf"
| "fadd _ NInf = NInf"

definition fsub :: "pyfloat \<Rightarrow> pyfloat \<Rightarrow> pyfloat" where
  "fsub a b = fadd a (fneg b)"

definition inf_of_sign :: "bool \<Rightarrow> pyfloat" where
  "inf_of_sign positive = (if positive then PInf else NInf)"

fun fmul :: "pyfloat \<Rightarrow> pyfloat \<Rightarrow> pyfloat" where
  "fmul (Fin a) (Fin b) = rnd (a * b)"
| "fmul NaN _ = NaN"
| "fmul _ NaN = NaN"
| "fmul (Fin a) PInf = (if a = 0 then NaN else inf_of_sign (0 < a))"
| "fmul (Fin a) NInf = (if a = 0 then NaN else inf_of_sign (a < 0))"
| "fmul PInf (Fin a) = (if a = 0 then NaN else inf_of_sign (0 < a))"
| "fmul NInf (Fin a) = (if a = 0 then NaN else inf_of_sign (a < 0))"
| "fmul PInf PInf = PInf"
| "fmul NInf NInf = PInf"
| "fmul _ _ = NInf"

text \<open>Division by zero raises in Python, whatever the dividend.\<close>

fun fdiv :: "pyfloat \<Rightarrow> pyfloat \<Rightarrow> pyfloat res" where
  "fdiv (Fin a) (Fin b) = (if b = 0 then Inl ZeroDivisionError else Inr (rnd (a / b)))"
| "fdiv NaN (Fin b) = (if b = 0 then Inl ZeroDivisionError else Inr NaN)"
| "fdiv PInf (Fin b) = (if b = 0 then Inl ZeroDivisionError else Inr (inf_of_sign (0 < b)))"
| "fdiv NInf (Fin b) = (if b = 0 then Inl ZeroDivisionError else Inr (inf_of_sign (b < 0)))"
| "fdiv NaN _ = Inr NaN"
| "fdiv _ NaN = Inr NaN"
| "fdiv (Fin a) _ = Inr (Fin 0)"
| "fdiv _ _ = Inr NaN"

text \<open>\<open>max(a, b)\<close> and \<open>min(a, b)\<close> keep the first argument unless the second is strictly
  better, which also fixes what they do with \<open>nan\<close>.\<close>

definition fmax :: "pyfloat \<Rightarrow> pyfloat \<Rightarrow> pyfloat" where
  "fmax a b = (if flt a b then b else a)"

definition fmin :: "pyfloat \<Rightarrow> pyfloat \<Rightarrow> pyfloat" where
  "fmin a b = (if flt b a then b else a)"

text \<open>\<open>round(x, n)\<close>: the decimal rounding is exact half-even, then the nearest float.\<close>

fun fround :: "nat \<Rightarrow> pyfloat \<Rightarrow> pyfloat" where
  "fround n (Fin a) = rnd (of_int (round_half_even (a * 10 ^ n)) / 10 ^ n)"
| "fround n x = x"

text \<open>\<open>float(n)\<close> of an integer, and \<open>int(x)\<close> of a float (towards zero).\<close>

definition float_of_int :: "int \<Rightarrow> pyfloat res" where
  "float_of_int n = (case rnd (of_int n) of Fin r \<Rightarrow> Inr (Fin r) | _ \<Rightarrow> Inl OverflowError)"

definition trunc_rat :: "rat \<Rightarrow> int" where
  "trunc_rat r = (if 0 \<le> r then \<lfloor>r\<rfloor> else \<lceil>r\<rceil>)"

fun int_of_float :: "pyfloat \<Rightarrow> int res" where
  "int_of_float (Fin r) = Inr (trunc_rat r)"
| "int_of_float NaN = Inl (ValueError ''cannot convert float NaN to integer'')"
| "int_of_float _ = Inl OverflowError"

section \<open>Facts about rounding\<close>

lemma pow2_pos [simp]: "0 < pow2 e"
  by simp

lemma pow2_add: "pow2 (a + b) = pow2 a * pow2 b"
  by (simp add: power_int_add)

lemma pow2_le_iff [simp]: "pow2 a \<le> pow2 b \<longleftrightarrow> a \<le> b"
  by (meson linorder_not_le one_less_numeral_iff power_int_increasing
      power_int_strict_increasing semiring_norm(76) order_less_imp_le)

lemma pow2_less_iff [simp]: "pow2 a < pow2 b \<longleftrightarrow> a < b"
  by (simp flip: not_le)

lemma pow2_nat: "0 \<le> e \<Longrightarrow> pow2 e = of_int (2 ^ nat e)"
  by (simp add: power_int_nonneg_exp)

lemma bitlen_pow2: "0 < a \<Longrightarrow> pow2 (bitlen a - 1) \<le> of_int a \<and> of_int a < pow2 (bitlen a)"
proof -
  assume a: "0 < a"
  then have b: "1 \<le> bitlen a" by (auto simp: bitlen_alt_def)
  from bitlen_bounds [OF a] have "2 ^ nat (bitlen a - 1) \<le> a" "a < 2 ^ nat (bitlen a)" by auto
  then have "of_int (2 ^ nat (bitlen a - 1)) \<le> (of_int a :: rat)"
    "(of_int a :: rat) < of_int (2 ^ nat (bitlen a))"
    by (simp_all only: of_int_le_iff of_int_less_iff)
  moreover have "of_int (2 ^ nat (bitlen a - 1)) = pow2 (bitlen a - 1)"
    using b by (simp only: pow2_nat)
  moreover have "of_int (2 ^ nat (bitlen a)) = pow2 (bitlen a)"
    using b by (simp only: pow2_nat)
  ultimately show ?thesis by (simp only: simp_thms)
qed

lemma ilog2_bounds:
  assumes x: "0 < x"
  shows "pow2 (ilog2 x) \<le> x" "x < pow2 (ilog2 x + 1)"
proof -
  obtain a b where q: "quotient_of x = (a, b)" by fastforce
  have b: "0 < b" using quotient_of_denom_pos [OF q] .
  have xab: "x = of_int a / of_int b" using quotient_of_div [OF q] .
  with x b have a: "0 < a" by (simp add: zero_less_divide_iff)
  let ?k = "bitlen a - bitlen b"
  have bl: "pow2 (bitlen b - 1) \<le> of_int b" "of_int b < pow2 (bitlen b)"
    and al: "pow2 (bitlen a - 1) \<le> of_int a" "of_int a < pow2 (bitlen a)"
    using bitlen_pow2 [OF a] bitlen_pow2 [OF b] by auto
  have b0: "(0::rat) < of_int b" using b by simp
  have "x * pow2 (bitlen b - 1) \<le> x * of_int b"
    using bl x by (intro mult_left_mono) auto
  also have "\<dots> = of_int a" using xab b0 by simp
  also have "\<dots> < pow2 (bitlen a)" by (rule al)
  also have "\<dots> = pow2 (?k + 1) * pow2 (bitlen b - 1)" by (simp flip: pow2_add)
  finally have up: "x < pow2 (?k + 1)" by simp
  have "pow2 (?k - 1) * pow2 (bitlen b) = pow2 (bitlen a - 1)" by (simp flip: pow2_add)
  also have "\<dots> \<le> of_int a" by (rule al)
  also have "\<dots> = x * of_int b" using xab b0 by simp
  also have "\<dots> \<le> x * pow2 (bitlen b)" using bl x by (intro mult_left_mono) auto
  finally have lo: "pow2 (?k - 1) \<le> x" by simp
  show "pow2 (ilog2 x) \<le> x" "x < pow2 (ilog2 x + 1)"
    using up lo by (auto simp: ilog2_def q Let_def)
qed

lemma ilog2_unique: "pow2 i \<le> x \<Longrightarrow> x < pow2 (i + 1) \<Longrightarrow> ilog2 x = i"
proof -
  assume lo: "pow2 i \<le> x" and up: "x < pow2 (i + 1)"
  then have x: "0 < x" by (meson less_le_trans pow2_pos)
  from ilog2_bounds [OF x] lo up have "pow2 i < pow2 (ilog2 x + 1)" "pow2 (ilog2 x) < pow2 (i + 1)"
    by (meson le_less_trans)+
  then show ?thesis by simp
qed

lemma ilog2_mono: "0 < x \<Longrightarrow> x \<le> y \<Longrightarrow> ilog2 x \<le> ilog2 y"
proof -
  assume "0 < x" "x \<le> y"
  then have "pow2 (ilog2 x) < pow2 (ilog2 y + 1)"
    using ilog2_bounds [of x] ilog2_bounds [of y] by linarith
  then show ?thesis by simp
qed

lemma rhe_bounds:
  "of_int (round_half_even y) - 1 / 2 \<le> y" "y \<le> of_int (round_half_even y) + 1 / 2"
  unfolding round_half_even_def Let_def by (auto simp: algebra_simps; linarith)+

lemma floor_numeral_divide [simp]: "\<lfloor>numeral a / numeral b :: rat\<rfloor> = numeral a div numeral b"
  using floor_divide_of_int_eq [of "numeral a" "numeral b", where ?'a = rat] by simp

lemma rhe_abs: "\<bar>y - of_int (round_half_even y)\<bar> \<le> 1 / 2"
  unfolding abs_le_iff using rhe_bounds [of y] by linarith

lemma rhe_even: "\<bar>y - of_int (round_half_even y)\<bar> = 1 / 2 \<Longrightarrow> even (round_half_even y)"
proof -
  assume h: "\<bar>y - of_int (round_half_even y)\<bar> = 1 / 2"
  have fl: "of_int \<lfloor>y\<rfloor> \<le> y" "y < of_int \<lfloor>y\<rfloor> + 1" by linarith+
  consider "y - of_int \<lfloor>y\<rfloor> < 1 / 2" | "1 / 2 < y - of_int \<lfloor>y\<rfloor>" | "y - of_int \<lfloor>y\<rfloor> = 1 / 2"
    by linarith
  then show ?thesis
  proof cases
    case 1
    then have "round_half_even y = \<lfloor>y\<rfloor>" by (simp add: round_half_even_def Let_def)
    with 1 h fl show ?thesis by linarith
  next
    case 2
    then have "round_half_even y = \<lfloor>y\<rfloor> + 1" by (simp add: round_half_even_def Let_def)
    with 2 h fl show ?thesis by (simp add: abs_if split: if_splits)
  next
    case 3
    then show ?thesis by (simp add: round_half_even_def Let_def)
  qed
qed

lemma rhe_mono: "x \<le> y \<Longrightarrow> round_half_even x \<le> round_half_even y"
proof (rule ccontr)
  assume le: "x \<le> y" and "\<not> round_half_even x \<le> round_half_even y"
  then have "round_half_even y + 1 \<le> round_half_even x" by simp
  then have "of_int (round_half_even y) + 1 \<le> (of_int (round_half_even x) :: rat)"
    by (metis of_int_1 of_int_add of_int_le_iff)
  with le rhe_bounds [of x] rhe_bounds [of y] have "x = y" by linarith
  with \<open>\<not> round_half_even x \<le> round_half_even y\<close> show False by simp
qed

lemma rhe_of_int [simp]: "round_half_even (of_int k) = k"
  by (simp add: round_half_even_def)

lemma rhe_unique:
  assumes "\<bar>y - of_int m\<bar> \<le> 1 / 2" and "\<bar>y - of_int m\<bar> = 1 / 2 \<Longrightarrow> even m"
  shows "round_half_even y = m"
proof (rule ccontr)
  let ?r = "round_half_even y"
  assume ne: "?r \<noteq> m"
  have r: "\<bar>y - of_int ?r\<bar> \<le> 1 / 2" by (rule rhe_abs)
  have "\<bar>of_int ?r - of_int m :: rat\<bar> \<ge> 1"
    using ne by (metis int_one_le_iff_zero_less of_int_1_le_iff of_int_abs of_int_diff
        right_minus_eq zero_less_abs_iff)
  with r assms(1) have eq: "\<bar>y - of_int ?r\<bar> = 1 / 2" "\<bar>y - of_int m\<bar> = 1 / 2"
    "\<bar>of_int ?r - of_int m :: rat\<bar> = 1"
    by (auto simp: abs_if split: if_splits)
  then have "\<bar>?r - m\<bar> = 1" by (metis of_int_1 of_int_abs of_int_diff of_int_eq_iff)
  moreover have "even ?r" "even m" using eq rhe_even assms(2) by auto
  ultimately show False by (auto simp: abs_if split: if_splits) presburger+
qed

lemma rhe_minus: "round_half_even (- y) = - round_half_even y"
proof (rule rhe_unique)
  have "- y - of_int (- round_half_even y) = - (y - of_int (round_half_even y))" by simp
  then have abs: "\<bar>- y - of_int (- round_half_even y)\<bar> = \<bar>y - of_int (round_half_even y)\<bar>"
    by (simp only: abs_minus_cancel)
  show "\<bar>- y - of_int (- round_half_even y)\<bar> \<le> 1 / 2"
    unfolding abs by (rule rhe_abs)
  show "even (- round_half_even y)" if "\<bar>- y - of_int (- round_half_even y)\<bar> = 1 / 2"
    using that unfolding abs by (simp add: rhe_even)
qed

lemma ulp_exp_minus [simp]: "ulp_exp (- x) = ulp_exp x"
  by (simp add: ulp_exp_def)

lemma rnd_val_minus: "rnd_val (- x) = - rnd_val x"
  by (simp add: rnd_val_def rhe_minus)

lemma rnd_val_zero [simp]: "rnd_val 0 = 0"
  using rhe_of_int [of 0] by (simp add: rnd_val_def)

lemma rnd_val_error: "\<bar>rnd_val x - x\<bar> \<le> pow2 (ulp_exp x) / 2"
proof -
  let ?u = "pow2 (ulp_exp x)"
  let ?m = "round_half_even (x / ?u)"
  have "\<bar>rnd_val x - x\<bar> = \<bar>(x / ?u - of_int ?m) * ?u\<bar>"
    by (simp add: rnd_val_def left_diff_distrib abs_minus_commute)
  also have "\<dots> = \<bar>x / ?u - of_int ?m\<bar> * ?u"
    by (simp add: abs_mult)
  also have "\<dots> \<le> 1 / 2 * ?u"
    using rhe_abs [of "x / ?u"] by (intro mult_right_mono) auto
  finally show ?thesis by simp
qed

text \<open>Multiples of the last place (or of anything coarser) are kept.\<close>

lemma rnd_val_multiple:
  assumes "x = of_int m * pow2 q" and "ulp_exp x \<le> q"
  shows "rnd_val x = x"
proof -
  let ?e = "ulp_exp x"
  have "x / pow2 ?e = of_int m * pow2 (q - ?e)"
    using assms(1) by (simp add: power_int_diff)
  also have "\<dots> = of_int (m * 2 ^ nat (q - ?e))"
    using assms(2) by (simp add: power_int_nonneg_exp)
  finally have eq: "x / pow2 ?e = of_int (m * 2 ^ nat (q - ?e))" .
  then have "round_half_even (x / pow2 ?e) = m * 2 ^ nat (q - ?e)"
    by (simp only: rhe_of_int)
  then have "rnd_val x = x / pow2 ?e * pow2 ?e"
    by (simp only: rnd_val_def eq)
  then show ?thesis by simp
qed

lemma ulp_exp_le:
  assumes "\<bar>x\<bar> \<le> of_int (2 ^ 53) * pow2 q" and "- 1074 \<le> q" and "x \<noteq> 0"
  shows "ulp_exp x \<le> q \<or> \<bar>x\<bar> = pow2 (q + 53)"
proof (cases "\<bar>x\<bar> = pow2 (q + 53)")
  case False
  have "of_int (2 ^ 53) * pow2 q = pow2 (q + 53)"
    by (simp add: power_int_add)
  with assms(1) False have lt: "\<bar>x\<bar> < pow2 (q + 53)" by simp
  have "pow2 (ilog2 \<bar>x\<bar>) \<le> \<bar>x\<bar>" using assms(3) by (intro ilog2_bounds) simp
  with lt have "pow2 (ilog2 \<bar>x\<bar>) < pow2 (q + 53)" by linarith
  then have "ilog2 \<bar>x\<bar> < q + 53" by simp
  with assms(2) have "ulp_exp x \<le> q" unfolding ulp_exp_def by linarith
  then show ?thesis ..
qed simp

lemma rnd_val_exact:
  assumes x: "x = of_int m * pow2 q" and m: "\<bar>m\<bar> \<le> 2 ^ 53" and q: "- 1074 \<le> q"
  shows "rnd_val x = x"
proof (cases "x = 0")
  case False
  have "\<bar>x\<bar> = of_int \<bar>m\<bar> * pow2 q" by (simp add: x abs_mult)
  also have "\<dots> \<le> of_int (2 ^ 53) * pow2 q"
    using m by (intro mult_right_mono) (simp_all only: of_int_le_iff pow2_pos less_imp_le)
  finally have "ulp_exp x \<le> q \<or> \<bar>x\<bar> = pow2 (q + 53)"
    using q False by (rule ulp_exp_le)
  then show ?thesis
  proof
    assume "ulp_exp x \<le> q"
    with x show ?thesis by (rule rnd_val_multiple)
  next
    assume a: "\<bar>x\<bar> = pow2 (q + 53)"
    then have "ilog2 \<bar>x\<bar> = q + 53" by (simp add: ilog2_unique)
    with q have u: "ulp_exp x \<le> q + 53" by (simp add: ulp_exp_def)
    from a have "x = of_int (if x < 0 then - 1 else 1) * pow2 (q + 53)"
      by (auto simp: abs_if split: if_splits)
    then show ?thesis using u by (rule rnd_val_multiple)
  qed
qed simp

lemma rnd_val_mono_pos:
  assumes x: "0 < x" and xy: "x \<le> y"
  shows "rnd_val x \<le> rnd_val y"
proof -
  have y: "0 < y" using assms by simp
  have ile: "ilog2 x \<le> ilog2 y" using assms by (rule ilog2_mono)
  then have ule: "ulp_exp x \<le> ulp_exp y" using x y by (simp add: ulp_exp_def)
  show ?thesis
  proof (cases "ulp_exp x = ulp_exp y")
    case True
    have "round_half_even (x / pow2 (ulp_exp x)) \<le> round_half_even (y / pow2 (ulp_exp x))"
      using xy by (intro rhe_mono divide_right_mono) auto
    then show ?thesis by (simp add: rnd_val_def True)
  next
    case False
    let ?e = "ilog2 y"
    from False ule have e: "ulp_exp y = ?e - 52" "ulp_exp x < ?e - 52" "ilog2 x < ?e"
      using x y by (auto simp: ulp_exp_def max_def split: if_splits)
    have "x < pow2 (ilog2 x + 1)" using x by (rule ilog2_bounds)
    also have "\<dots> \<le> pow2 ?e" using e by simp
    finally have "x / pow2 (ulp_exp x) \<le> pow2 (?e - ulp_exp x)"
      by (simp add: power_int_diff divide_right_mono)
    then have "x / pow2 (ulp_exp x) \<le> of_int (2 ^ nat (?e - ulp_exp x))"
      using e by (simp add: pow2_nat)
    then have "round_half_even (x / pow2 (ulp_exp x)) \<le> 2 ^ nat (?e - ulp_exp x)"
      using rhe_mono rhe_of_int by metis
    then have "of_int (round_half_even (x / pow2 (ulp_exp x))) \<le> pow2 (?e - ulp_exp x)"
      using e by (metis diff_ge_0_iff_ge less_imp_le of_int_le_iff order_trans pow2_nat
          le_add_same_cancel1 zero_le_numeral diff_add_cancel)
    then have "rnd_val x \<le> pow2 (?e - ulp_exp x) * pow2 (ulp_exp x)"
      unfolding rnd_val_def by (rule mult_right_mono) simp
    also have "\<dots> = pow2 ?e" by (simp flip: pow2_add)
    finally have le: "rnd_val x \<le> pow2 ?e" .
    have "pow2 ?e / pow2 (ulp_exp y) \<le> y / pow2 (ulp_exp y)"
      using ilog2_bounds [OF y] by (intro divide_right_mono) auto
    then have "of_int (2 ^ 52) \<le> y / pow2 (ulp_exp y)"
      by (simp add: e power_int_diff)
    then have "2 ^ 52 \<le> round_half_even (y / pow2 (ulp_exp y))"
      using rhe_mono rhe_of_int by metis
    then have "(of_int (2 ^ 52) :: rat) \<le> of_int (round_half_even (y / pow2 (ulp_exp y)))"
      by (simp only: of_int_le_iff)
    then have "of_int (2 ^ 52) * pow2 (ulp_exp y) \<le> rnd_val y"
      unfolding rnd_val_def by (rule mult_right_mono) simp
    then have "pow2 ?e \<le> rnd_val y" by (simp add: e power_int_diff)
    with le show ?thesis by simp
  qed
qed

lemma rnd_val_nonneg: "0 \<le> x \<Longrightarrow> 0 \<le> rnd_val x"
  using rhe_mono [of 0 "x / pow2 (ulp_exp x)"] rhe_of_int [of 0] by (simp add: rnd_val_def)

lemma rnd_val_mono: "x \<le> y \<Longrightarrow> rnd_val x \<le> rnd_val y"
proof -
  assume xy: "x \<le> y"
  consider "0 < x" | "x \<le> 0" "0 \<le> y" | "y < 0" by linarith
  then show ?thesis
  proof cases
    case 1
    then show ?thesis using xy by (rule rnd_val_mono_pos)
  next
    case 2
    then show ?thesis
      using rnd_val_nonneg [of y] rnd_val_nonneg [of "- x"] by (simp add: rnd_val_minus)
  next
    case 3
    then show ?thesis
      using rnd_val_mono_pos [of "- y" "- x"] xy by (simp add: rnd_val_minus)
  qed
qed

lemma rnd_mono: "x \<le> y \<Longrightarrow> fle (rnd x) (rnd y)"
  using rnd_val_mono [of x y] by (auto simp: rnd_def Let_def)

section \<open>Representable values\<close>

lemma rnd_Fin_iff: "rnd x = Fin r \<longleftrightarrow> rnd_val x = r \<and> \<bar>r\<bar> < 2 ^ 1024"
  by (auto simp: rnd_def Let_def abs_less_iff)

lemma rnd_not_NaN [simp]: "rnd x \<noteq> NaN"
  by (simp add: rnd_def Let_def)

lemma rnd_val_form:
  obtains m where "rnd_val x = of_int m * pow2 (ulp_exp x)" "\<bar>m\<bar> \<le> 2 ^ 53" "- 1074 \<le> ulp_exp x"
proof -
  let ?y = "x / pow2 (ulp_exp x)"
  have "\<bar>x\<bar> \<le> pow2 (ulp_exp x + 53)"
  proof (cases "x = 0")
    case False
    then have "\<bar>x\<bar> < pow2 (ilog2 \<bar>x\<bar> + 1)" by (intro ilog2_bounds) simp
    also have "\<dots> \<le> pow2 (ulp_exp x + 53)" by (simp add: ulp_exp_def)
    finally show ?thesis by simp
  qed simp
  then have "\<bar>?y\<bar> \<le> of_int (2 ^ 53)"
    by (simp add: power_int_add divide_le_eq abs_if field_simps split: if_splits)
  then have "?y \<le> of_int (2 ^ 53)" "- of_int (2 ^ 53) \<le> ?y" by (simp_all only: abs_le_iff) auto
  then have "round_half_even ?y \<le> 2 ^ 53" "- (2 ^ 53) \<le> round_half_even ?y"
    by (metis rhe_mono rhe_of_int, metis rhe_mono rhe_of_int of_int_minus)
  moreover have "- 1074 \<le> ulp_exp x" by (simp add: ulp_exp_def)
  ultimately show thesis using that [of "round_half_even ?y"] by (simp add: rnd_val_def)
qed

lemma rnd_val_idem [simp]: "rnd_val (rnd_val x) = rnd_val x"
  by (rule rnd_val_form [of x]) (metis rnd_val_exact)

lemma fl_ok_rnd [simp]: "fl_ok (rnd x)"
  by (auto simp: rnd_def Let_def)

lemma fl_ok_int: "\<bar>n\<bar> \<le> 2 ^ 53 \<Longrightarrow> fl_ok (Fin (of_int n))"
proof -
  assume n: "\<bar>n\<bar> \<le> 2 ^ 53"
  then have "rnd_val (of_int n) = of_int n"
    using rnd_val_exact [of "of_int n" n 0] by simp
  moreover have "\<bar>of_int n :: rat\<bar> < 2 ^ 1024"
  proof -
    have "of_int \<bar>n\<bar> \<le> (of_int (2 ^ 53) :: rat)" using n by (simp only: of_int_le_iff)
    then show ?thesis by (simp add: le_less_trans)
  qed
  ultimately show ?thesis by (simp add: rnd_Fin_iff)
qed

lemma fl_ok_zero [simp]: "fl_ok (Fin 0)"
  using fl_ok_int [of 0] by simp

lemma fl_ok_grid:
  assumes "fl_ok (Fin r)"
  obtains m where "r = of_int m * pow2 (- 1074)"
proof -
  have r: "rnd_val r = r" using assms by (simp add: rnd_Fin_iff)
  obtain m where m: "rnd_val r = of_int m * pow2 (ulp_exp r)" "- 1074 \<le> ulp_exp r"
    by (rule rnd_val_form [of r])
  have "of_int (2 ^ nat (ulp_exp r + 1074)) = pow2 (ulp_exp r + 1074)"
    using m(2) by (simp only: pow2_nat)
  also have "\<dots> * pow2 (- 1074) = pow2 (ulp_exp r)"
    by (simp only: pow2_add [symmetric]) simp
  finally have "pow2 (ulp_exp r) = of_int (2 ^ nat (ulp_exp r + 1074)) * pow2 (- 1074)" ..
  with m(1) r have "r = of_int (m * 2 ^ nat (ulp_exp r + 1074)) * pow2 (- 1074)"
    by simp
  then show thesis by (rule that)
qed

text \<open>
  Gradual underflow: the difference of two different floats never rounds to zero, and has
  the sign of the exact difference.
\<close>

lemma rnd_val_diff_pos:
  assumes a: "fl_ok (Fin a)" and b: "fl_ok (Fin b)" and "b < a"
  shows "0 < rnd_val (a - b)"
proof -
  obtain m n where mn: "a = of_int m * pow2 (- 1074)" "b = of_int n * pow2 (- 1074)"
    using fl_ok_grid [OF a] fl_ok_grid [OF b] by metis
  with \<open>b < a\<close> have "n < m" by simp
  then have "(of_int 1 :: rat) \<le> of_int (m - n)" by (simp only: of_int_le_iff)
  then have "of_int 1 * pow2 (- 1074) \<le> of_int (m - n) * pow2 (- 1074)"
    by (rule mult_right_mono) simp
  then have "pow2 (- 1074) \<le> a - b" by (simp add: mn left_diff_distrib)
  then have "rnd_val (pow2 (- 1074)) \<le> rnd_val (a - b)" by (rule rnd_val_mono)
  moreover have "rnd_val (pow2 (- 1074)) = pow2 (- 1074)"
    using rnd_val_exact [of "pow2 (- 1074)" 1 "- 1074"] by simp
  ultimately show ?thesis by (metis less_le_trans pow2_pos)
qed

lemma fsub_Fin: "fsub (Fin a) (Fin b) = rnd (a - b)"
  by (simp add: fsub_def)

lemma fsub_pos:
  "fl_ok (Fin a) \<Longrightarrow> fl_ok (Fin b) \<Longrightarrow> b < a \<Longrightarrow> flt (Fin 0) (fsub (Fin a) (Fin b))"
  using rnd_val_diff_pos [of a b] by (auto simp: fsub_Fin rnd_def Let_def)

text \<open>Evaluation at concrete values: integers and binary fractions are exact, any other
  rational is rounded at the binade it lies in.\<close>

lemma rnd_exact:
  "x = of_int m * pow2 q \<Longrightarrow> \<bar>m\<bar> \<le> 2 ^ 53 \<Longrightarrow> - 1074 \<le> q \<Longrightarrow> \<bar>x\<bar> < 2 ^ 1024 \<Longrightarrow> rnd x = Fin x"
  by (simp add: rnd_Fin_iff rnd_val_exact)

lemma rnd_of_int: "\<bar>n\<bar> \<le> 2 ^ 53 \<Longrightarrow> rnd (of_int n) = Fin (of_int n)"
  using fl_ok_int by simp

lemma rnd_0 [simp]: "rnd 0 = Fin 0"
  using rnd_of_int [of 0] by simp

lemma rnd_1 [simp]: "rnd 1 = Fin 1"
  using rnd_of_int [of 1] by simp

lemma rnd_numeral [simp]: "numeral k \<le> (2 ^ 53 :: int) \<Longrightarrow> rnd (numeral k) = Fin (numeral k)"
  using rnd_of_int [of "numeral k"] by simp

lemma rnd_neg_numeral [simp]:
  "numeral k \<le> (2 ^ 53 :: int) \<Longrightarrow> rnd (- numeral k) = Fin (- numeral k)"
  using rnd_of_int [of "- numeral k"] by simp

lemma rnd_half [simp]: "numeral k \<le> (2 ^ 53 :: int) \<Longrightarrow> rnd (numeral k / 2) = Fin (numeral k / 2)"
proof -
  assume k: "numeral k \<le> (2 ^ 53 :: int)"
  then have "(numeral k :: rat) \<le> 2 ^ 53"
    by (metis of_int_le_iff of_int_numeral of_int_power)
  moreover have "(2 ^ 53 :: rat) < 2 ^ 1024" by (rule power_strict_increasing) simp_all
  moreover have "0 \<le> (numeral k :: rat)" by simp
  ultimately have "\<bar>numeral k / 2 :: rat\<bar> < 2 ^ 1024" by linarith
  then show ?thesis
    by (rule rnd_exact [of _ "numeral k" "- 1", rotated 3]) (use k in \<open>simp_all add: power_int_minus\<close>)
qed

lemma rnd_one_half [simp]: "rnd (1 / 2) = Fin (1 / 2)"
  by (rule rnd_exact [of _ 1 "- 1"]) (simp_all add: power_int_minus)

lemma rnd_val_eval:
  "pow2 i \<le> x \<Longrightarrow> x < pow2 (i + 1) \<Longrightarrow> - 1022 \<le> i \<Longrightarrow>
   rnd_val x = of_int (round_half_even (x / pow2 (i - 52))) * pow2 (i - 52)"
proof -
  assume h: "pow2 i \<le> x" "x < pow2 (i + 1)" "- 1022 \<le> i"
  then have "0 < x" by (meson less_le_trans pow2_pos)
  with h have "ulp_exp x = i - 52" using ilog2_unique [OF h(1,2)] by (simp add: ulp_exp_def)
  then show ?thesis by (simp add: rnd_val_def)
qed

section \<open>Order\<close>

lemma flt_irrefl [simp]: "\<not> flt a a"
  by (cases a) auto

lemma flt_imp_fle: "flt a b \<Longrightarrow> fle a b"
  by (cases a; cases b) auto

lemma fle_refl: "a \<noteq> NaN \<Longrightarrow> fle a a"
  by (cases a) auto

lemma fle_trans: "fle a b \<Longrightarrow> fle b c \<Longrightarrow> fle a c"
  by (cases a; cases b; cases c) auto

lemma flt_fle_trans: "flt a b \<Longrightarrow> fle b c \<Longrightarrow> flt a c"
  by (cases a; cases b; cases c) auto

lemma fle_flt_trans: "fle a b \<Longrightarrow> flt b c \<Longrightarrow> flt a c"
  by (cases a; cases b; cases c) auto

lemma not_flt_fle: "a \<noteq> NaN \<Longrightarrow> b \<noteq> NaN \<Longrightarrow> \<not> flt a b \<longleftrightarrow> fle b a"
  by (cases a; cases b) auto

lemma fle_not_NaN: "fle a b \<Longrightarrow> a \<noteq> NaN \<and> b \<noteq> NaN"
  by (cases a; cases b) auto

lemma isfinite_iff: "isfinite a \<longleftrightarrow> (\<exists>r. a = Fin r)"
  by (cases a) auto

lemma fmax_ge: "a \<noteq> NaN \<Longrightarrow> fle a (fmax a b)"
  by (auto simp: fmax_def fle_refl flt_imp_fle)

lemma fmin_le: "a \<noteq> NaN \<Longrightarrow> fle (fmin a b) a"
  by (auto simp: fmin_def fle_refl flt_imp_fle)

lemma fround_mono: "a \<le> b \<Longrightarrow> fle (fround n (Fin a)) (fround n (Fin b))"
proof -
  assume "a \<le> b"
  then have "a * 10 ^ n \<le> b * 10 ^ n" by (simp add: mult_right_mono)
  then have "round_half_even (a * 10 ^ n) \<le> round_half_even (b * 10 ^ n)" by (rule rhe_mono)
  then have "of_int (round_half_even (a * 10 ^ n)) / 10 ^ n \<le>
      (of_int (round_half_even (b * 10 ^ n)) / 10 ^ n :: rat)"
    by (simp add: divide_right_mono)
  then show ?thesis by (simp add: rnd_mono)
qed

section \<open>Epoch seconds\<close>

text \<open>
  \<open>int(ts.timestamp())\<close>: the microsecond count divided by a million in floating point and
  truncated. For instants from 1970 up to the year 2242 it is the exact floor; beyond, a
  fraction of a second can round up to the next second.
\<close>

lemma rnd_val_seconds:
  assumes m0: "0 \<le> m" and m1: "m < 2 ^ 33 * 10 ^ 6"
  shows "\<lfloor>rnd_val (of_int m / 10 ^ 6)\<rfloor> = m div 10 ^ 6"
proof -
  define x :: rat where "x = of_int m / 10 ^ 6"
  define n where "n = m div 10 ^ 6"
  have n: "0 \<le> n" "n < 2 ^ 33" using m0 m1 by (auto simp: n_def)
  have "n * 10 ^ 6 \<le> m" unfolding n_def by simp
  moreover have "m + 1 \<le> (n + 1) * 10 ^ 6" unfolding n_def by simp
  ultimately have "of_int (n * 10 ^ 6) \<le> (of_int m :: rat)" "of_int (m + 1) \<le> (of_int ((n + 1) * 10 ^ 6) :: rat)"
    by (simp_all only: of_int_le_iff)
  then have lo: "of_int n \<le> x" and hi: "x + 1 / 10 ^ 6 \<le> of_int n + 1"
    by (simp_all add: x_def field_simps)
  have exact: "rnd_val (of_int n) = of_int n"
    using rnd_val_exact [of "of_int n" n 0] n by simp
  have low: "of_int n \<le> rnd_val x"
    using rnd_val_mono [OF lo] exact by simp
  have "rnd_val x < of_int n + 1"
  proof (cases "x = 0")
    case True
    then show ?thesis using n by simp
  next
    case False
    with lo n have x0: "0 < x" by (metis of_int_0_le_iff order_le_less order_trans)
    have "of_int (n + 1) \<le> (of_int (2 ^ 33) :: rat)"
      using n by (simp only: of_int_le_iff)
    with hi have "x < pow2 33" by simp
    with ilog2_bounds [OF x0] have "pow2 (ilog2 x) < pow2 33" by linarith
    then have "ilog2 x < 33" by (simp only: pow2_less_iff)
    then have "ulp_exp x \<le> - 20" using x0 by (simp add: ulp_exp_def)
    then have "pow2 (ulp_exp x) \<le> pow2 (- 20)" by (simp only: pow2_le_iff)
    with rnd_val_error [of x] have "rnd_val x \<le> x + pow2 (- 20) / 2"
      by linarith
    also have "pow2 (- 20) / 2 < 1 / 10 ^ 6" by (simp add: power_int_minus)
    finally show ?thesis using hi by linarith
  qed
  with low have "\<lfloor>rnd_val x\<rfloor> = n" by (simp only: floor_eq_iff simp_thms)
  then show ?thesis by (simp only: x_def n_def)
qed

end
