(* ===== verification/PyText.thy ===== *)
theory PyText
  imports Prelude
begin

text \<open>
  Python's \<open>str\<close> operations on the code points below 256 that \<^typ>\<open>char\<close> holds: \<open>strip\<close>,
  \<open>lower\<close>, the character classes, \<open>endswith\<close>, \<open>split\<close>-free joining, \<open>int(text)\<close> and
  \<open>str(n)\<close>. The tables are those of the Unicode database restricted to this range.
\<close>

section \<open>Character classes\<close>

definition code_point :: "char \<Rightarrow> nat" where
  "code_point c = of_char c"

definition is_space_chr :: "char \<Rightarrow> bool" where
  "is_space_chr c = (let n = code_point c in
     (9 \<le> n \<and> n \<le> 13) \<or> (28 \<le> n \<and> n \<le> 32) \<or> n = 133 \<or> n = 160)"

definition is_decimal_chr :: "char \<Rightarrow> bool" where
  "is_decimal_chr c = (let n = code_point c in 48 \<le> n \<and> n \<le> 57)"

text \<open>\<open>isdigit\<close> also accepts the superscripts 2, 3 and 1.\<close>

definition is_digit_chr :: "char \<Rightarrow> bool" where
  "is_digit_chr c = (is_decimal_chr c \<or> code_point c \<in> {178, 179, 185})"

definition is_alpha_chr :: "char \<Rightarrow> bool" where
  "is_alpha_chr c = (let n = code_point c in
     (65 \<le> n \<and> n \<le> 90) \<or> (97 \<le> n \<and> n \<le> 122) \<or> n \<in> {170, 181, 186}
     \<or> (192 \<le> n \<and> n \<noteq> 215 \<and> n \<noteq> 247))"

definition is_alnum_chr :: "char \<Rightarrow> bool" where
  "is_alnum_chr c = (is_alpha_chr c \<or> is_digit_chr c \<or> code_point c \<in> {188, 189, 190})"

definition is_ascii_chr :: "char \<Rightarrow> bool" where
  "is_ascii_chr c = (code_point c < 128)"

definition lower_chr :: "char \<Rightarrow> char" where
  "lower_chr c = (let n = code_point c in
     if (65 \<le> n \<and> n \<le> 90) \<or> (192 \<le> n \<and> n \<le> 222 \<and> n \<noteq> 215) then char_of (n + 32) else c)"

section \<open>String methods\<close>

definition py_lstrip :: "string \<Rightarrow> string" where
  "py_lstrip s = dropWhile is_space_chr s"

definition py_strip :: "string \<Rightarrow> string" where
  "py_strip s = rev (py_lstrip (rev (py_lstrip s)))"

definition py_lower :: "string \<Rightarrow> string" where
  "py_lower s = map lower_chr s"

definition py_isascii :: "string \<Rightarrow> bool" where
  "py_isascii s = list_all is_ascii_chr s"

definition py_isdecimal :: "string \<Rightarrow> bool" where
  "py_isdecimal s = (s \<noteq> [] \<and> list_all is_decimal_chr s)"

definition py_isdigit :: "string \<Rightarrow> bool" where
  "py_isdigit s = (s \<noteq> [] \<and> list_all is_digit_chr s)"

definition py_endswith :: "string \<Rightarrow> string \<Rightarrow> bool" where
  "py_endswith s suf = (length suf \<le> length s \<and> drop (length s - length suf) s = suf)"

text \<open>\<open>s[:-n]\<close> for a positive \<open>n\<close>.\<close>

definition drop_last :: "nat \<Rightarrow> string \<Rightarrow> string" where
  "drop_last n s = take (length s - n) s"

primrec py_join :: "string \<Rightarrow> string list \<Rightarrow> string" where
  "py_join sep [] = []"
| "py_join sep (x # xs) = (if xs = [] then x else x @ sep @ py_join sep xs)"

section \<open>Decimal integers\<close>

definition digit_of_chr :: "char \<Rightarrow> int" where
  "digit_of_chr c = int (code_point c) - 48"

definition chr_of_digit :: "nat \<Rightarrow> char" where
  "chr_of_digit d = char_of (48 + d)"

definition decimal_value :: "string \<Rightarrow> int" where
  "decimal_value ds = foldl (\<lambda>a c. 10 * a + digit_of_chr c) 0 ds"

fun str_of_nat :: "nat \<Rightarrow> string" where
  "str_of_nat n = (if n < 10 then [chr_of_digit n]
     else str_of_nat (n div 10) @ [chr_of_digit (n mod 10)])"

declare str_of_nat.simps [simp del]

definition str_of_int :: "int \<Rightarrow> string" where
  "str_of_int k = (if k < 0 then ''-'' @ str_of_nat (nat (- k)) else str_of_nat (nat k))"

text \<open>
  The digits of an \<open>int\<close> literal: single underscores may stand between digits.
  \<open>after_digit\<close> tells whether the previous character was a digit.
\<close>

fun digit_run :: "bool \<Rightarrow> string \<Rightarrow> string option" where
  "digit_run after_digit [] = (if after_digit then Some [] else None)"
| "digit_run after_digit (c # cs) =
     (if is_decimal_chr c then map_option ((#) c) (digit_run True cs)
      else if c = CHR ''_'' \<and> after_digit then digit_run False cs
      else None)"

text \<open>The interpreter refuses to convert more digits than this (\<open>sys.int_info\<close>).\<close>

definition int_max_str_digits :: nat where
  "int_max_str_digits = 4300"

definition py_int_of_str :: "string \<Rightarrow> int res" where
  "py_int_of_str s =
    (let t = py_strip s;
         neg = (case t of [] \<Rightarrow> False | c # _ \<Rightarrow> c = CHR ''-'');
         body = (case t of [] \<Rightarrow> [] | c # cs \<Rightarrow> if c = CHR ''-'' \<or> c = CHR ''+'' then cs else t)
     in case digit_run False body of
          None \<Rightarrow> Inl (ValueError ''invalid literal for int() with base 10'')
        | Some ds \<Rightarrow>
            if int_max_str_digits < length ds
            then Inl (ValueError ''Exceeds the limit for integer string conversion'')
            else Inr (if neg then - decimal_value ds else decimal_value ds))"

section \<open>Facts\<close>

lemma py_strip_Nil [simp]: "py_strip [] = []"
  by (simp add: py_strip_def py_lstrip_def)

lemma py_lower_Nil [simp]: "py_lower [] = []"
  by (simp add: py_lower_def)

lemma py_lower_append: "py_lower (s @ t) = py_lower s @ py_lower t"
  by (simp add: py_lower_def)

lemma lower_chr_idem [simp]: "lower_chr (lower_chr c) = lower_chr c"
proof (cases "lower_chr c = c")
  case False
  let ?n = "code_point c"
  from False have n: "(65 \<le> ?n \<and> ?n \<le> 90) \<or> (192 \<le> ?n \<and> ?n \<le> 222 \<and> ?n \<noteq> 215)"
    and low: "lower_chr c = char_of (?n + 32)"
    by (auto simp: lower_chr_def Let_def split: if_splits)
  from n have "?n + 32 < 256" by auto
  then have "code_point (lower_chr c) = ?n + 32"
    unfolding low code_point_def by simp
  with n have "\<not> ((65 \<le> code_point (lower_chr c) \<and> code_point (lower_chr c) \<le> 90) \<or>
      (192 \<le> code_point (lower_chr c) \<and> code_point (lower_chr c) \<le> 222
        \<and> code_point (lower_chr c) \<noteq> 215))"
    by auto
  then show ?thesis unfolding lower_chr_def [of "lower_chr c"] Let_def by (simp only: if_False)
qed simp

lemma py_lower_idem [simp]: "py_lower (py_lower s) = py_lower s"
  by (simp add: py_lower_def)

lemma digit_of_chr_of_digit [simp]: "d < 10 \<Longrightarrow> digit_of_chr (chr_of_digit d) = int d"
  by (simp add: digit_of_chr_def chr_of_digit_def code_point_def)

lemma is_decimal_chr_of_digit [simp]: "d < 10 \<Longrightarrow> is_decimal_chr (chr_of_digit d)"
  by (simp add: is_decimal_chr_def chr_of_digit_def code_point_def Let_def)

lemma decimal_value_snoc: "decimal_value (ds @ [c]) = 10 * decimal_value ds + digit_of_chr c"
  by (simp add: decimal_value_def)

lemma str_of_nat_not_Nil [simp]: "str_of_nat n \<noteq> []"
  by (subst str_of_nat.simps) simp

lemma decimal_value_str_of_nat [simp]: "decimal_value (str_of_nat n) = int n"
proof (induction n rule: str_of_nat.induct)
  case (1 n)
  show ?case
  proof (cases "n < 10")
    case True
    then show ?thesis by (subst str_of_nat.simps) (simp add: decimal_value_def)
  next
    case False
    with 1 have "decimal_value (str_of_nat n) = 10 * int (n div 10) + int (n mod 10)"
      by (subst str_of_nat.simps) (simp add: decimal_value_snoc)
    also have "\<dots> = int n" by presburger
    finally show ?thesis .
  qed
qed

lemma str_of_nat_decimal: "list_all is_decimal_chr (str_of_nat n)"
proof (induction n rule: str_of_nat.induct)
  case (1 n)
  then show ?case by (cases "n < 10") (subst str_of_nat.simps, simp)+
qed

lemma digit_run_decimals: "list_all is_decimal_chr ds \<Longrightarrow> ds \<noteq> [] \<or> b \<Longrightarrow> digit_run b ds = Some ds"
  by (induction ds arbitrary: b) auto

lemma str_of_nat_inj: "str_of_nat m = str_of_nat n \<longleftrightarrow> m = n"
  by (metis decimal_value_str_of_nat of_nat_eq_iff)

lemma decimal_chr_not_space: "is_decimal_chr c \<Longrightarrow> \<not> is_space_chr c"
  by (auto simp: is_decimal_chr_def is_space_chr_def Let_def)

lemma dropWhile_id: "(\<forall>c \<in> set s. \<not> p c) \<Longrightarrow> dropWhile p s = s"
  by (cases s) auto

lemma dropWhile_idem: "dropWhile p (dropWhile p s) = dropWhile p s"
  by (induction s) auto

lemma rdropWhile_prefix: "\<exists>v. u = rev (dropWhile p (rev u)) @ v"
proof -
  have "rev u = takeWhile p (rev u) @ dropWhile p (rev u)" by simp
  then have "u = rev (dropWhile p (rev u)) @ rev (takeWhile p (rev u))"
    by (metis rev_append rev_rev_ident)
  then show ?thesis by blast
qed

lemma py_strip_no_space: "(\<forall>c \<in> set s. \<not> is_space_chr c) \<Longrightarrow> py_strip s = s"
  by (simp add: py_strip_def py_lstrip_def dropWhile_id)

lemma py_strip_idem [simp]: "py_strip (py_strip s) = py_strip s"
proof -
  let ?dw = "dropWhile is_space_chr"
  define u where "u = ?dw s"
  define w where "w = rev (?dw (rev u))"
  have "?dw w = w"
  proof (cases w)
    case (Cons c t)
    obtain v where "u = w @ v" using rdropWhile_prefix [of u is_space_chr] by (auto simp: w_def)
    with Cons have "hd u = c" "u \<noteq> []" by auto
    then have "\<not> is_space_chr c" unfolding u_def by (metis hd_dropWhile)
    with Cons show ?thesis by simp
  qed simp
  moreover have "?dw (rev w) = rev w"
    by (simp add: w_def dropWhile_idem)
  ultimately have "py_strip w = w" by (simp add: py_strip_def py_lstrip_def)
  moreover have "py_strip s = w" by (simp add: py_strip_def py_lstrip_def w_def u_def)
  ultimately show ?thesis by simp
qed

text \<open>\<open>int(str(n)) == n\<close>, within the interpreter's digit limit.\<close>

lemma py_int_of_decimals:
  assumes "list_all is_decimal_chr s" "s \<noteq> []" "length s \<le> int_max_str_digits"
  shows "py_int_of_str s = Inr (decimal_value s)"
proof -
  have dec: "\<forall>c \<in> set s. is_decimal_chr c" using assms(1) by (simp add: list_all_iff)
  then have strip: "py_strip s = s"
    by (intro py_strip_no_space) (auto dest: decimal_chr_not_space)
  obtain c cs where eq: "s = c # cs" using assms(2) by (cases s) auto
  with dec have "is_decimal_chr c" by simp
  then have "c \<noteq> CHR ''-''" "c \<noteq> CHR ''+''" by (auto simp: is_decimal_chr_def code_point_def)
  moreover have "digit_run False s = Some s" using assms(1,2) by (simp add: digit_run_decimals)
  ultimately show ?thesis using assms(3) strip by (simp add: py_int_of_str_def Let_def eq)
qed

lemma py_int_of_decimals_value:
  assumes "list_all is_decimal_chr s" "s \<noteq> []" "py_int_of_str s = Inr n"
  shows "n = decimal_value s"
proof -
  have dec: "\<forall>c \<in> set s. is_decimal_chr c" using assms(1) by (simp add: list_all_iff)
  then have strip: "py_strip s = s"
    by (intro py_strip_no_space) (auto dest: decimal_chr_not_space)
  obtain c cs where eq: "s = c # cs" using assms(2) by (cases s) auto
  with dec have "is_decimal_chr c" by simp
  then have "c \<noteq> CHR ''-''" "c \<noteq> CHR ''+''" by (auto simp: is_decimal_chr_def code_point_def)
  moreover have "digit_run False s = Some s" using assms(1,2) by (simp add: digit_run_decimals)
  ultimately show ?thesis
    using assms(3) strip by (simp add: py_int_of_str_def Let_def eq split: if_splits)
qed

lemma digit_of_chr_range: "is_decimal_chr c \<Longrightarrow> 0 \<le> digit_of_chr c \<and> digit_of_chr c \<le> 9"
  by (simp add: is_decimal_chr_def digit_of_chr_def Let_def)

lemma code_point_zero: "code_point c = 48 \<longleftrightarrow> c = CHR ''0''"
proof
  assume "code_point c = 48"
  then have "of_char c = (of_char (CHR ''0'') :: nat)" by (simp add: code_point_def)
  then show "c = CHR ''0''" by (simp only: of_char_eq_iff)
qed (simp add: code_point_def)

lemma decimal_value_ge_hd:
  "list_all is_decimal_chr s \<Longrightarrow> s \<noteq> [] \<Longrightarrow> digit_of_chr (hd s) \<le> decimal_value s"
proof (induction s rule: rev_induct)
  case (snoc c s)
  show ?case
  proof (cases "s = []")
    case True
    then show ?thesis by (simp add: decimal_value_def)
  next
    case False
    with snoc have "digit_of_chr (hd s) \<le> decimal_value s" "0 \<le> digit_of_chr c"
      "is_decimal_chr (hd s)"
      using digit_of_chr_range by (auto simp: list_all_iff)
    moreover from this have "0 \<le> digit_of_chr (hd s)" using digit_of_chr_range by blast
    ultimately show ?thesis using False by (simp add: decimal_value_snoc)
  qed
qed simp

lemma py_int_of_str_of_nat:
  "length (str_of_nat n) \<le> int_max_str_digits \<Longrightarrow> py_int_of_str (str_of_nat n) = Inr (int n)"
  by (simp add: py_int_of_decimals str_of_nat_decimal)

end
