(* ===== verification/PyTime.thy ===== *)
theory PyTime
  imports PyText
begin

text \<open>
  \<open>datetime\<close> values. A datetime is its wall clock in microseconds since 1970-01-01 and its
  UTC offset (\<open>None\<close>: naive). Aware datetimes are compared and subtracted by the instant
  they denote, so code that only does that works on \<open>instant\<close>s. Arithmetic that leaves
  the years 1 to 9999 raises \<open>OverflowError\<close>.
\<close>

section \<open>Instants and datetimes\<close>

type_synonym instant = int

definition us_per_second :: int where
  "us_per_second = 1000000"

definition us_per_day :: int where
  "us_per_day = 86400000000"

definition dt_min :: int where
  "dt_min = - 62135596800000000"

definition dt_max :: int where
  "dt_max = 253402300799999999"

definition in_dt_range :: "int \<Rightarrow> bool" where
  "in_dt_range t = (dt_min \<le> t \<and> t \<le> dt_max)"

datatype pydatetime = DateTime (dt_wall: int) (dt_offset: "int option")

definition is_aware :: "pydatetime \<Rightarrow> bool" where
  "is_aware d = (dt_offset d \<noteq> None)"

text \<open>\<open>d.astimezone(UTC)\<close> of an aware datetime, as the instant it denotes.\<close>

definition astimezone_utc :: "pydatetime \<Rightarrow> instant res" where
  "astimezone_utc d = (let t = dt_wall d - (case dt_offset d of None \<Rightarrow> 0 | Some off \<Rightarrow> off)
     in if in_dt_range t then Inr t else Inl OverflowError)"

definition utc_datetime :: "instant \<Rightarrow> pydatetime" where
  "utc_datetime t = DateTime t (Some 0)"

text \<open>\<open>t + timedelta\<close> and \<open>t - timedelta\<close>, the difference given in microseconds.\<close>

definition instant_add :: "instant \<Rightarrow> int \<Rightarrow> instant res" where
  "instant_add t d = (if in_dt_range (t + d) then Inr (t + d) else Inl OverflowError)"

lemma instant_add_Inr: "instant_add t d = Inr u \<longleftrightarrow> u = t + d \<and> in_dt_range u"
  by (auto simp: instant_add_def)

lemma astimezone_utc_datetime [simp]: "in_dt_range t \<Longrightarrow> astimezone_utc (utc_datetime t) = Inr t"
  by (simp add: astimezone_utc_def utc_datetime_def)

lemma is_aware_utc [simp]: "is_aware (utc_datetime t)"
  by (simp add: is_aware_def utc_datetime_def)

section \<open>Calendar dates and \<open>isoformat\<close>\<close>

text \<open>The proleptic Gregorian date of a day number counted from 1970-01-01.\<close>

definition date_of_days :: "int \<Rightarrow> int \<times> int \<times> int" where
  "date_of_days z =
    (let z' = z + 719468;
         era = z' div 146097;
         doe = z' mod 146097;
         yoe = (doe - doe div 1460 + doe div 36524 - doe div 146096) div 365;
         doy = doe - (365 * yoe + yoe div 4 - yoe div 100);
         mp = (5 * doy + 2) div 153;
         d = doy - (153 * mp + 2) div 5 + 1;
         m = (if mp < 10 then mp + 3 else mp - 9);
         y = yoe + era * 400 + (if m \<le> 2 then 1 else 0)
     in (y, m, d))"

definition pad_int :: "nat \<Rightarrow> int \<Rightarrow> string" where
  "pad_int w n = (let s = str_of_int n in replicate (w - length s) (CHR ''0'') @ s)"

definition isoformat_date :: "int \<Rightarrow> string" where
  "isoformat_date days = (case date_of_days days of (y, m, d) \<Rightarrow>
     pad_int 4 y @ ''-'' @ pad_int 2 m @ ''-'' @ pad_int 2 d)"

text \<open>\<open>isoformat()\<close> of the UTC datetime at an instant.\<close>

definition isoformat_utc :: "instant \<Rightarrow> string" where
  "isoformat_utc t =
    (let days = t div us_per_day; rest = t mod us_per_day;
         us = rest mod 1000000; secs = rest div 1000000
     in isoformat_date days @ ''T'' @ pad_int 2 (secs div 3600) @ '':''
        @ pad_int 2 (secs div 60 mod 60) @ '':'' @ pad_int 2 (secs mod 60)
        @ (if us = 0 then [] else ''.'' @ pad_int 6 us) @ ''+00:00'')"

lemma isoformat_utc_not_Nil [simp]: "isoformat_utc t \<noteq> []"
  by (simp add: isoformat_utc_def Let_def)

text \<open>
  \<open>datetime.fromisoformat\<close> is part of the interpreter. Definitions that call it take it as
  the argument \<open>piso\<close>: \<open>None\<close> stands for the \<open>ValueError\<close> of a text that is no ISO
  datetime. What the code relies on is named here: the parser reads back what
  \<open>isoformat\<close> wrote for a UTC datetime.
\<close>

type_synonym iso_parser = "string \<Rightarrow> pydatetime option"

definition reads_back :: "iso_parser \<Rightarrow> instant \<Rightarrow> bool" where
  "reads_back piso t = (piso (isoformat_utc t) = Some (utc_datetime t))"

end
