(* ===== verification/PyValue.thy ===== *)
theory PyValue
  imports PyFloat PyTime
begin

text \<open>
  Dynamically typed values: what a function annotated \<open>Any\<close> or \<open>object\<close> may be handed, and
  the entries of the JSON-like dictionaries the program passes around. The enumerations of
  the program derive from \<open>str\<close>, so a member is a string that also knows its class.
\<close>

section \<open>Values\<close>

datatype pyval =
    VNone
  | VBool bool
  | VInt int
  | VFloat pyfloat
  | VStr string
  | VEnum string string      \<comment> \<open>class name, value\<close>
  | VBytes string
  | VDateTime pydatetime
  | VList "pyval list"
  | VTuple "pyval list"
  | VDict "(pyval \<times> pyval) list"
  | VFrozen "(pyval \<times> pyval) list"   \<comment> \<open>MappingProxyType\<close>
  | VFact string "(string \<times> pyval) list"   \<comment> \<open>DomainFact: code, attributes\<close>
  | VOther string            \<comment> \<open>any other object, by its type\<close>

type_synonym vdict = "(pyval \<times> pyval) list"

text \<open>\<open>isinstance\<close> tests. \<open>bool\<close> is a subclass of \<open>int\<close>.\<close>

fun is_str :: "pyval \<Rightarrow> bool" where
  "is_str (VStr _) = True"
| "is_str (VEnum _ _) = True"
| "is_str _ = False"

fun str_of :: "pyval \<Rightarrow> string" where
  "str_of (VStr s) = s"
| "str_of (VEnum _ s) = s"
| "str_of _ = []"

fun is_bool :: "pyval \<Rightarrow> bool" where
  "is_bool (VBool _) = True"
| "is_bool _ = False"

fun is_int :: "pyval \<Rightarrow> bool" where
  "is_int (VInt _) = True"
| "is_int (VBool _) = True"
| "is_int _ = False"

fun is_dict :: "pyval \<Rightarrow> bool" where
  "is_dict (VDict _) = True"
| "is_dict _ = False"

fun mapping_items :: "pyval \<Rightarrow> vdict option" where
  "mapping_items (VDict d) = Some d"
| "mapping_items (VFrozen d) = Some d"
| "mapping_items _ = None"

fun truthy :: "pyval \<Rightarrow> bool" where
  "truthy VNone = False"
| "truthy (VBool b) = b"
| "truthy (VInt n) = (n \<noteq> 0)"
| "truthy (VFloat x) = (x \<noteq> Fin 0)"
| "truthy (VStr s) = (s \<noteq> [])"
| "truthy (VEnum _ s) = (s \<noteq> [])"
| "truthy (VBytes s) = (s \<noteq> [])"
| "truthy (VList xs) = (xs \<noteq> [])"
| "truthy (VTuple xs) = (xs \<noteq> [])"
| "truthy (VDict d) = (d \<noteq> [])"
| "truthy (VFrozen d) = (d \<noteq> [])"
| "truthy _ = True"

text \<open>\<open>d.get(key)\<close> and \<open>d.get(key, default)\<close> for a text key.\<close>

definition vget :: "vdict \<Rightarrow> string \<Rightarrow> pyval" where
  "vget d k = (case map_of d (VStr k) of None \<Rightarrow> VNone | Some v \<Rightarrow> v)"

definition vget_default :: "vdict \<Rightarrow> string \<Rightarrow> pyval \<Rightarrow> pyval" where
  "vget_default d k dflt = (case map_of d (VStr k) of None \<Rightarrow> dflt | Some v \<Rightarrow> v)"

definition vhas :: "vdict \<Rightarrow> string \<Rightarrow> bool" where
  "vhas d k = (map_of d (VStr k) \<noteq> None)"

definition vset :: "string \<Rightarrow> pyval \<Rightarrow> vdict \<Rightarrow> vdict" where
  "vset k v d = dset (VStr k) v d"

lemma vget_vset [simp]: "vget (vset k v d) k' = (if k' = k then v else vget d k')"
  by (simp add: vget_def vset_def dset_def update_conv')

lemma vget_Nil [simp]: "vget [] k = VNone"
  by (simp add: vget_def)

text \<open>
  A text value or the empty text: the pattern \<open>value if isinstance(value, str) else ""\<close>.
\<close>

lemma str_of_not_str [simp]: "\<not> is_str v \<Longrightarrow> str_of v = []"
  by (cases v) auto

fun dict_items :: "pyval \<Rightarrow> vdict option" where
  "dict_items (VDict d) = Some d"
| "dict_items _ = None"

text \<open>\<open>pystr\<close>: the constructor \<open>str\<close> on a value that is not text.\<close>

definition text_of :: "(pyval \<Rightarrow> string) \<Rightarrow> pyval \<Rightarrow> string" where
  "text_of pystr v = (if is_str v then str_of v else pystr v)"

section \<open>\<open>float(text)\<close>\<close>

text \<open>The longest run of digits, single underscores allowed between two digits.\<close>

fun scan_digits :: "string \<Rightarrow> string \<times> string" where
  "scan_digits [] = ([], [])"
| "scan_digits (c # cs) =
    (if is_decimal_chr c then
       (case cs of
          u # d # ds \<Rightarrow>
            if u = CHR ''_'' \<and> is_decimal_chr d
            then (case scan_digits (d # ds) of (a, b) \<Rightarrow> (c # a, b))
            else (case scan_digits cs of (a, b) \<Rightarrow> (c # a, b))
        | _ \<Rightarrow> (case scan_digits cs of (a, b) \<Rightarrow> (c # a, b)))
     else ([], c # cs))"

text \<open>An exponent part: \<open>e\<close> or \<open>E\<close>, a sign, digits; nothing means exponent 0.\<close>

definition scan_exponent :: "string \<Rightarrow> int option" where
  "scan_exponent s = (case s of [] \<Rightarrow> Some 0
     | c # cs \<Rightarrow> if c \<noteq> CHR ''e'' \<and> c \<noteq> CHR ''E'' then None else
         (let neg = (cs \<noteq> [] \<and> hd cs = CHR ''-'');
              body = (if cs \<noteq> [] \<and> (hd cs = CHR ''-'' \<or> hd cs = CHR ''+'') then tl cs else cs)
          in case scan_digits body of (ds, rest) \<Rightarrow>
             if ds = [] \<or> rest \<noteq> [] then None
             else Some (if neg then - decimal_value ds else decimal_value ds)))"

definition scan_unsigned_float :: "string \<Rightarrow> pyfloat option" where
  "scan_unsigned_float s =
    (if py_lower s = ''inf'' \<or> py_lower s = ''infinity'' then Some PInf
     else if py_lower s = ''nan'' then Some NaN
     else case scan_digits s of (ip, r1) \<Rightarrow>
       (let frac = (r1 \<noteq> [] \<and> hd r1 = CHR ''.'');
            (fp, r2) = (if frac then scan_digits (tl r1) else ([], r1))
        in if ip = [] \<and> fp = [] then None else
           map_option (\<lambda>e. rnd (of_int (decimal_value (ip @ fp)) * 10 powi (e - int (length fp))))
             (scan_exponent r2)))"

definition py_float_of_str :: "string \<Rightarrow> pyfloat res" where
  "py_float_of_str s =
    (let t = py_strip s;
         neg = (t \<noteq> [] \<and> hd t = CHR ''-'');
         body = (if t \<noteq> [] \<and> (hd t = CHR ''-'' \<or> hd t = CHR ''+'') then tl t else t)
     in case scan_unsigned_float body of
          None \<Rightarrow> Inl (ValueError ''could not convert string to float'')
        | Some x \<Rightarrow> Inr (if neg then fneg x else x))"

text \<open>The constructor \<open>float(value)\<close>.\<close>

fun py_float :: "pyval \<Rightarrow> pyfloat res" where
  "py_float (VBool b) = Inr (Fin (if b then 1 else 0))"
| "py_float (VInt n) = float_of_int n"
| "py_float (VFloat x) = Inr x"
| "py_float (VStr s) = py_float_of_str s"
| "py_float (VEnum _ s) = py_float_of_str s"
| "py_float (VBytes s) = py_float_of_str s"
| "py_float _ = Inl (TypeError ''float() argument must be a string or a real number'')"

end
