(* ===== verification/Identity.thy ===== *)
theory Identity
  imports PyValue
begin

text \<open>
  \<open>data/instrument_identity.py\<close>: which persisted instrument row may select a provider
  route. An instrument is a dictionary (or \<open>None\<close>); every accessor is one definition with
  the code's name. \<open>require_provider_identity\<close> is the gate: it returns the row unchanged or
  raises, in the order of the code's checks.
\<close>

section \<open>Exact tokens and numbers\<close>

definition parse_exact_positive_decimal_provider_id :: "pyval \<Rightarrow> int res" where
  "parse_exact_positive_decimal_provider_id v = (case v of
      VInt n \<Rightarrow> Inr (if 0 < n then n else 0)
    | _ \<Rightarrow>
      if \<not> is_str v then Inr 0
      else let text = str_of v in
        if text = [] \<or> \<not> py_isascii text \<or> \<not> py_isdecimal text then Inr 0
        else rbind (py_int_of_str text) (\<lambda>parsed.
          Inr (if 0 < parsed \<and> str_of_int parsed = text then parsed else 0)))"

definition require_exact_positive_number :: "pyval \<Rightarrow> string \<Rightarrow> pyfloat res" where
  "require_exact_positive_number v field =
    (let err = InstrumentIdentityError (field @ '' must be an exact finite positive number'') in
     case v of
       VInt n \<Rightarrow> (case float_of_int n of
            Inl _ \<Rightarrow> Inl err
          | Inr x \<Rightarrow> if \<not> isfinite x \<or> fle x (Fin 0) then Inl err else Inr x)
     | VFloat x \<Rightarrow> if \<not> isfinite x \<or> fle x (Fin 0) then Inl err else Inr x
     | _ \<Rightarrow> Inl err)"

fun sequence_items :: "pyval \<Rightarrow> pyval list option" where
  "sequence_items (VList xs) = Some xs"
| "sequence_items (VTuple xs) = Some xs"
| "sequence_items _ = None"

definition require_exact_instrument_id_sequence :: "pyval \<Rightarrow> bool \<Rightarrow> string list res" where
  "require_exact_instrument_id_sequence v allow_empty =
    (case sequence_items v of
       None \<Rightarrow> Inl (TypeError ''instrument_ids must be a typed sequence'')
     | Some ids \<Rightarrow>
        if list_ex (\<lambda>x. \<not> is_str x \<or> str_of x = []) ids
        then Inl (InstrumentIdentityError ''instrument_ids must contain exact non-empty strings'')
        else if \<not> distinct ids
        then Inl (InstrumentIdentityError ''instrument_ids cannot contain duplicates'')
        else if \<not> allow_empty \<and> ids = []
        then Inl (InstrumentIdentityError ''instrument_ids are required'')
        else Inr (map str_of ids))"

definition require_exact_identity_text :: "pyval \<Rightarrow> string \<Rightarrow> bool \<Rightarrow> string res" where
  "require_exact_identity_text v field allow_empty =
    (if \<not> is_str v then Inl (InstrumentIdentityError (field @ '' must be an exact string''))
     else if str_of v = [] \<and> \<not> allow_empty
     then Inl (InstrumentIdentityError (field @ '' is required''))
     else Inr (str_of v))"

section \<open>Accessors\<close>

type_synonym instrument = "vdict option"

definition entry_of :: "instrument \<Rightarrow> string \<Rightarrow> pyval" where
  "entry_of i k = (case i of None \<Rightarrow> VNone | Some d \<Rightarrow> vget d k)"

definition dict_or_empty :: "pyval \<Rightarrow> vdict" where
  "dict_or_empty v = (case v of VDict d \<Rightarrow> d | _ \<Rightarrow> [])"

definition identity_payload :: "instrument \<Rightarrow> vdict" where
  "identity_payload i = dict_or_empty (entry_of i ''contract_identity'')"

definition instrument_provider :: "instrument \<Rightarrow> string" where
  "instrument_provider i = str_of (entry_of i ''provider'')"

definition instrument_asset_class :: "instrument \<Rightarrow> string" where
  "instrument_asset_class i = str_of (entry_of i ''asset_class'')"

definition asset_class_is_futures :: "string \<Rightarrow> bool" where
  "asset_class_is_futures c = (c \<in> {''future''})"

definition instrument_is_futures :: "instrument \<Rightarrow> bool" where
  "instrument_is_futures i = asset_class_is_futures (instrument_asset_class i)"

definition scope_contract :: string where
  "scope_contract = ''contract''"

definition scope_root :: string where
  "scope_root = ''root''"

definition instrument_identity_scope :: "instrument \<Rightarrow> string" where
  "instrument_identity_scope i =
    (let raw = vget (identity_payload i) ''identity_scope'' in
     if is_str raw \<and> str_of raw \<noteq> [] then str_of raw
     else if (case i of None \<Rightarrow> False | Some d \<Rightarrow> d \<noteq> []) \<and> \<not> instrument_is_futures i
     then scope_contract else [])"

definition instrument_is_futures_root :: "instrument \<Rightarrow> bool" where
  "instrument_is_futures_root i =
    (instrument_is_futures i \<and> instrument_identity_scope i = scope_root)"

definition instrument_is_exact_futures_contract :: "instrument \<Rightarrow> bool" where
  "instrument_is_exact_futures_contract i =
    (instrument_is_futures i \<and> instrument_identity_scope i = scope_contract)"

definition instrument_key :: "instrument \<Rightarrow> string" where
  "instrument_key i = str_of (entry_of i ''instrument_key'')"

definition futures_root :: "instrument \<Rightarrow> string" where
  "futures_root i =
    (if \<not> instrument_is_futures_root i then []
     else str_of (vget (identity_payload i) ''root''))"

definition provider_contract_id :: "instrument \<Rightarrow> string" where
  "provider_contract_id i = str_of (entry_of i ''provider_contract_id'')"

definition current_futures_contract :: "instrument \<Rightarrow> vdict" where
  "current_futures_contract i = dict_or_empty (vget (identity_payload i) ''current_contract'')"

definition current_futures_contract_id :: "instrument \<Rightarrow> string" where
  "current_futures_contract_id i =
    str_of (vget (current_futures_contract i) ''provider_contract_id'')"

definition provider_price_increment :: "instrument \<Rightarrow> pyfloat option res" where
  "provider_price_increment i =
    (let (owner, field) =
       (if instrument_is_futures_root i
        then (current_futures_contract i, ''current_contract.min_tick'')
        else (identity_payload i, ''contract_identity.min_tick''));
       raw = vget owner ''min_tick''
     in if raw = VNone then Inr None
        else case require_exact_positive_number raw field of
               Inr x \<Rightarrow> Inr (Some x)
             | Inl (InstrumentIdentityError m) \<Rightarrow> Inl (ProviderPriceIncrementError m)
             | Inl e \<Rightarrow> Inl e)"

section \<open>The provider identity gate\<close>

definition require_matching_field :: "vdict \<Rightarrow> string \<Rightarrow> string \<Rightarrow> string \<Rightarrow> unit res" where
  "require_matching_field identity field expected key =
    (let actual = str_of (vget identity field) in
     if actual = []
     then Inl (InstrumentIdentityError
       (''CONTRACT_IDENTITY_FIELD_REQUIRED field='' @ field @ '' instrument_key='' @ key))
     else if actual \<noteq> expected
     then Inl (InstrumentIdentityError
       (''CONTRACT_IDENTITY_MISMATCH field='' @ field @ '' expected='' @ expected
         @ '' actual='' @ actual @ '' instrument_key='' @ key))
     else Inr ())"

definition canonical_token_chars :: "char set" where
  "canonical_token_chars = set ''abcdefghijklmnopqrstuvwxyz0123456789_-''"

text \<open>The condition the gate spells out for the provider, the asset class and the expected
  provider (the text is not empty where it is asked).\<close>

definition canonical_token :: "string \<Rightarrow> bool" where
  "canonical_token s =
    (py_isascii s \<and> s \<noteq> [] \<and> is_alnum_chr (hd s) \<and> list_all (\<lambda>c. c \<in> canonical_token_chars) s)"

definition provider_or_unknown :: "string option \<Rightarrow> string" where
  "provider_or_unknown p = (case p of Some s \<Rightarrow> if s = [] then ''unknown'' else s | None \<Rightarrow> ''unknown'')"

definition require_root_identity :: "vdict \<Rightarrow> string \<Rightarrow> string \<Rightarrow> unit res" where
  "require_root_identity d prov key =
    (let i = Some d; identity = identity_payload i;
         raw_exchange = vget identity ''exchange''; raw_currency = vget identity ''currency'' in
     if \<not> instrument_is_futures i
     then Inl (InstrumentIdentityError (''INSTRUMENT_ROOT_SCOPE_REQUIRES_FUTURES instrument_key='' @ key))
     else if provider_contract_id i \<noteq> []
     then Inl (InstrumentIdentityError
       (''FUTURES_ROOT_PROVIDER_CONTRACT_ID_FORBIDDEN instrument_key='' @ key))
     else if futures_root i = []
     then Inl (InstrumentIdentityError (''FUTURES_ROOT_IDENTITY_REQUIRED instrument_key='' @ key))
     else if \<not> is_str raw_exchange \<or> str_of raw_exchange = []
       \<or> \<not> is_str raw_currency \<or> str_of raw_currency = []
     then Inl (InstrumentIdentityError
       (''FUTURES_PROVIDER_METADATA_REQUIRED provider='' @ prov @ '' instrument_key='' @ key))
     else if current_futures_contract i \<noteq> [] \<and> current_futures_contract_id i = []
     then Inl (InstrumentIdentityError
       (''FUTURES_CURRENT_PROVIDER_CONTRACT_ID_REQUIRED provider='' @ prov
         @ '' instrument_key='' @ key))
     else Inr ())"

definition require_contract_identity :: "vdict \<Rightarrow> string \<Rightarrow> string \<Rightarrow> unit res" where
  "require_contract_identity d prov key =
    (let i = Some d; identity = identity_payload i; contract_id = provider_contract_id i;
         product_id = str_of (vget identity ''product_id'') in
     if instrument_is_futures i \<and> str_of (vget identity ''root'') \<noteq> []
     then Inl (InstrumentIdentityError (''FUTURES_CONTRACT_ROOT_FORBIDDEN instrument_key='' @ key))
     else if instrument_is_futures i \<and> current_futures_contract i \<noteq> []
     then Inl (InstrumentIdentityError
       (''FUTURES_CONTRACT_CURRENT_CONTRACT_FORBIDDEN instrument_key='' @ key))
     else if instrument_is_futures i \<and> dict_or_empty (vget d ''continuous_series'') \<noteq> []
     then Inl (InstrumentIdentityError
       (''FUTURES_CONTRACT_CONTINUOUS_SERIES_FORBIDDEN instrument_key='' @ key))
     else if contract_id = []
     then Inl (InstrumentIdentityError
       (''PROVIDER_CONTRACT_ID_REQUIRED provider='' @ prov @ '' instrument_key='' @ key))
     else if str_of (vget identity ''provider_contract_id'') \<noteq> contract_id
     then Inl (InstrumentIdentityError
       (''PROVIDER_CONTRACT_ID_MISMATCH provider='' @ prov @ '' instrument_key='' @ key))
     else if product_id \<noteq> [] \<and> product_id \<noteq> contract_id
     then Inl (InstrumentIdentityError
       (''PROVIDER_PRODUCT_ID_MISMATCH provider='' @ prov @ '' instrument_key='' @ key))
     else Inr ())"

definition expected_instrument_id :: "vdict \<Rightarrow> string" where
  "expected_instrument_id d =
    (let i = Some d; identity = identity_payload i in
     if instrument_identity_scope i = scope_root
     then py_join ''|'' [instrument_provider i, ''future_root'', futures_root i,
            str_of (vget identity ''exchange''), str_of (vget identity ''currency''),
            str_of (vget identity ''trading_class'')]
     else py_join ''|'' [instrument_provider i, ''contract'', provider_contract_id i])"

definition require_expected_provider :: "string option \<Rightarrow> string \<Rightarrow> string res" where
  "require_expected_provider provider key = (case provider of
      None \<Rightarrow> Inr []
    | Some p \<Rightarrow>
        rbind (require_exact_identity_text (VStr p) ''expected_provider'' False) (\<lambda>e.
          if CHR '':'' \<in> set e \<or> \<not> canonical_token e
          then Inl (InstrumentIdentityError
            (''EXPECTED_PROVIDER_NOT_CANONICAL expected='' @ e @ '' instrument_key='' @ key))
          else Inr e))"

definition require_provider_identity :: "instrument \<Rightarrow> string option \<Rightarrow> vdict res" where
  "require_provider_identity inst provider = (case inst of
      None \<Rightarrow> Inl (InstrumentIdentityError
        (''INSTRUMENT_IDENTITY_REQUIRED provider='' @ provider_or_unknown provider))
    | Some d \<Rightarrow>
       (let prov = instrument_provider inst; key = instrument_key inst;
            asset = instrument_asset_class inst; iid = str_of (vget d ''instrument_id'');
            identity = identity_payload inst; scope = instrument_identity_scope inst in
        rbind (require (prov \<noteq> [] \<and> key \<noteq> [] \<and> asset \<noteq> [] \<and> iid \<noteq> [])
          (InstrumentIdentityError (''INSTRUMENT_IDENTITY_INCOMPLETE provider=''
            @ (if prov \<noteq> [] then prov else provider_or_unknown provider)))) (\<lambda>_.
        rbind (require (CHR '':'' \<notin> set prov \<and> canonical_token prov)
          (InstrumentIdentityError (''INSTRUMENT_PROVIDER_NOT_CANONICAL actual='' @ prov
            @ '' instrument_key='' @ key))) (\<lambda>_.
        rbind (require (canonical_token asset)
          (InstrumentIdentityError (''INSTRUMENT_ASSET_CLASS_NOT_CANONICAL actual='' @ asset
            @ '' instrument_key='' @ key))) (\<lambda>_.
        rbind (require (identity \<noteq> [])
          (InstrumentIdentityError (''CONTRACT_IDENTITY_REQUIRED provider='' @ prov
            @ '' instrument_key='' @ key))) (\<lambda>_.
        rbind (require_matching_field identity ''provider'' prov key) (\<lambda>_.
        rbind (require_matching_field identity ''asset_class'' asset key) (\<lambda>_.
        rbind (require (str_of (vget d ''provider_symbol'') \<noteq> [])
          (InstrumentIdentityError (''PROVIDER_SYMBOL_REQUIRED provider='' @ prov
            @ '' instrument_key='' @ key))) (\<lambda>_.
        rbind (require_expected_provider provider key) (\<lambda>expected.
        rbind (require (expected = [] \<or> prov = expected)
          (InstrumentIdentityError (''INSTRUMENT_PROVIDER_MISMATCH expected='' @ expected
            @ '' actual='' @ prov @ '' instrument_key='' @ key))) (\<lambda>_.
        rbind (require (scope \<in> {scope_contract, scope_root})
          (InstrumentIdentityError (''INSTRUMENT_IDENTITY_SCOPE_REQUIRED provider='' @ prov
            @ '' instrument_key='' @ key))) (\<lambda>_.
        rbind (if scope = scope_root then require_root_identity d prov key
               else require_contract_identity d prov key) (\<lambda>_.
        rbind (require (iid = expected_instrument_id d)
          (InstrumentIdentityError (''INSTRUMENT_ID_MISMATCH expected='' @ expected_instrument_id d
            @ '' actual='' @ iid))) (\<lambda>_.
        Inr d))))))))))))))"

definition provider_symbol :: "vdict \<Rightarrow> string \<Rightarrow> string res" where
  "provider_symbol d provider =
    rbind (require_provider_identity (Some d) (Some provider)) (\<lambda>qualified.
      let route = str_of (vget qualified ''provider_symbol'') in
      if route = []
      then Inl (InstrumentIdentityError
        (''PROVIDER_SYMBOL_REQUIRED provider='' @ instrument_provider (Some qualified)
          @ '' instrument_key='' @ instrument_key (Some qualified)))
      else Inr route)"

definition qualified_instrument_id :: "instrument \<Rightarrow> string res" where
  "qualified_instrument_id i =
    rbind (require_provider_identity i None) (\<lambda>q. Inr (str_of (vget q ''instrument_id'')))"

definition route_fingerprint :: "instrument \<Rightarrow> string res" where
  "route_fingerprint i =
    rbind (qualified_instrument_id i) (\<lambda>binding.
      Inr (if instrument_is_futures_root i
           then binding @ ''|current:'' @ current_futures_contract_id i else binding))"

section \<open>What the gate guarantees\<close>

lemma gate_facts:
  assumes "require_provider_identity inst provider = Inr row"
  shows "inst = Some row"
    and "canonical_token (instrument_provider inst)" and "CHR '':'' \<notin> set (instrument_provider inst)"
    and "str_of (vget row ''instrument_id'') = expected_instrument_id row"
    and "instrument_identity_scope inst \<in> {scope_contract, scope_root}"
    and "instrument_identity_scope inst = scope_root \<Longrightarrow>
      require_root_identity row (instrument_provider inst) (instrument_key inst) = Inr ()"
    and "instrument_identity_scope inst \<noteq> scope_root \<Longrightarrow>
      require_contract_identity row (instrument_provider inst) (instrument_key inst) = Inr ()"
    and "require_provider_identity inst None = Inr row"
    and "\<forall>p. provider = Some p \<longrightarrow> p = instrument_provider inst"
  using assms
  by (auto simp: require_provider_identity_def Let_def res_simps require_expected_provider_def
      require_exact_identity_text_def split: option.splits if_splits)

lemma root_identity_facts:
  "require_root_identity d prov key = Inr () \<Longrightarrow>
    instrument_is_futures (Some d) \<and> provider_contract_id (Some d) = [] \<and> futures_root (Some d) \<noteq> []
    \<and> (current_futures_contract (Some d) \<noteq> [] \<longrightarrow> current_futures_contract_id (Some d) \<noteq> [])"
  by (auto simp: require_root_identity_def Let_def split: if_splits)

lemma contract_identity_facts:
  "require_contract_identity d prov key = Inr () \<Longrightarrow>
    provider_contract_id (Some d) \<noteq> []
    \<and> str_of (vget (identity_payload (Some d)) ''provider_contract_id'') = provider_contract_id (Some d)
    \<and> (instrument_is_futures (Some d) \<longrightarrow> current_futures_contract (Some d) = [])"
  unfolding require_contract_identity_def Let_def by (simp split: if_split_asm)

lemma canonical_no_bar: "canonical_token s \<Longrightarrow> CHR ''|'' \<notin> set s"
proof
  assume "canonical_token s" "CHR ''|'' \<in> set s"
  then have "CHR ''|'' \<in> canonical_token_chars"
    unfolding canonical_token_def list_all_iff by blast
  then show False by (simp add: canonical_token_chars_def)
qed

lemma split_at_bar:
  assumes "CHR ''|'' \<notin> set p" "CHR ''|'' \<notin> set q"
    and "p @ CHR ''|'' # x = q @ CHR ''|'' # y"
  shows "p = q \<and> x = y"
proof -
  have t: "takeWhile (\<lambda>c. c \<noteq> CHR ''|'') (r @ CHR ''|'' # z) = r"
    if "CHR ''|'' \<notin> set r" for r z
    using that by (induction r) auto
  have "p = takeWhile (\<lambda>c. c \<noteq> CHR ''|'') (p @ CHR ''|'' # x)" using t assms(1) by simp
  also have "\<dots> = q" using t assms(2) assms(3) by simp
  finally show ?thesis using assms(3) by simp
qed

text \<open>The identifier of an admitted row: provider, kind and the rest, separated by bars.\<close>

definition id_kind :: "instrument \<Rightarrow> string" where
  "id_kind i = (if instrument_identity_scope i = scope_root then ''future_root'' else ''contract'')"

lemma expected_id_shape:
  "\<exists>rest. expected_instrument_id d
      = instrument_provider (Some d) @ CHR ''|'' # id_kind (Some d) @ CHR ''|'' # rest
    \<and> (instrument_identity_scope (Some d) \<noteq> scope_root \<longrightarrow> rest = provider_contract_id (Some d))"
  by (auto simp: expected_instrument_id_def Let_def id_kind_def)

lemma qualified_id_facts:
  assumes "qualified_instrument_id i = Inr n"
  obtains d where "i = Some d" "require_provider_identity i None = Inr d" "n = expected_instrument_id d"
  using assms gate_facts(1,4) [of i None] by (auto simp: qualified_instrument_id_def res_simps)

lemma bar_prefix_same:
  assumes "require_provider_identity (Some a) None = Inr a" "require_provider_identity (Some b) None = Inr b"
    and "expected_instrument_id a @ u = expected_instrument_id b @ v"
  shows "instrument_provider (Some a) = instrument_provider (Some b)
    \<and> instrument_identity_scope (Some a) = instrument_identity_scope (Some b)
    \<and> (instrument_identity_scope (Some a) \<noteq> scope_root \<longrightarrow>
        provider_contract_id (Some a) @ u = provider_contract_id (Some b) @ v)"
proof -
  obtain ra where ra: "expected_instrument_id a
      = instrument_provider (Some a) @ CHR ''|'' # id_kind (Some a) @ CHR ''|'' # ra"
    "instrument_identity_scope (Some a) \<noteq> scope_root \<longrightarrow> ra = provider_contract_id (Some a)"
    using expected_id_shape [of a] by blast
  obtain rb where rb: "expected_instrument_id b
      = instrument_provider (Some b) @ CHR ''|'' # id_kind (Some b) @ CHR ''|'' # rb"
    "instrument_identity_scope (Some b) \<noteq> scope_root \<longrightarrow> rb = provider_contract_id (Some b)"
    using expected_id_shape [of b] by blast
  have kinds: "CHR ''|'' \<notin> set (id_kind i)" for i by (simp add: id_kind_def)
  have p: "instrument_provider (Some a) = instrument_provider (Some b)
      \<and> id_kind (Some a) @ CHR ''|'' # ra @ u = id_kind (Some b) @ CHR ''|'' # rb @ v"
    using assms(3) canonical_no_bar gate_facts(2) [OF assms(1)] gate_facts(2) [OF assms(2)]
    by (intro split_at_bar) (simp_all add: ra(1) rb(1))
  then have k: "id_kind (Some a) = id_kind (Some b) \<and> ra @ u = rb @ v"
    using kinds split_at_bar by blast
  have "instrument_identity_scope (Some a) = instrument_identity_scope (Some b)"
    using k gate_facts(5) [OF assms(1)] gate_facts(5) [OF assms(2)]
    by (auto simp: id_kind_def split: if_splits)
  with p k ra(2) rb(2) show ?thesis by auto
qed

lemma fingerprint_facts:
  assumes "route_fingerprint i = Inr f"
  obtains d where "i = Some d" "require_provider_identity i None = Inr d"
    "f = (if instrument_is_futures_root i
      then expected_instrument_id d @ ''|current:'' @ current_futures_contract_id i
      else expected_instrument_id d)"
  using assms by (auto simp: route_fingerprint_def res_simps elim!: qualified_id_facts)

lemma admitted_root_iff:
  assumes "require_provider_identity (Some d) None = Inr d"
  shows "instrument_is_futures_root (Some d) \<longleftrightarrow> instrument_identity_scope (Some d) = scope_root"
  using gate_facts(6) [OF assms] root_identity_facts
  by (auto simp: instrument_is_futures_root_def)

text \<open>two rows with the same route fingerprint have the same provider, are both futures
  roots or both not, and outside roots name the same provider contract: a route is never shared
  across providers, scopes or contracts.\<close>

theorem route_fingerprint_separates_contracts:
  assumes "route_fingerprint i = Inr f" and "route_fingerprint j = Inr f"
  shows "instrument_provider i = instrument_provider j
    \<and> instrument_is_futures_root i = instrument_is_futures_root j
    \<and> (\<not> instrument_is_futures_root i \<longrightarrow> provider_contract_id i = provider_contract_id j)"
proof -
  obtain a where a: "i = Some a" "require_provider_identity (Some a) None = Inr a"
    "f = expected_instrument_id a @ (if instrument_is_futures_root (Some a)
      then ''|current:'' @ current_futures_contract_id (Some a) else [])"
    using assms(1) by (elim fingerprint_facts) auto
  obtain b where b: "j = Some b" "require_provider_identity (Some b) None = Inr b"
    "f = expected_instrument_id b @ (if instrument_is_futures_root (Some b)
      then ''|current:'' @ current_futures_contract_id (Some b) else [])"
    using assms(2) by (elim fingerprint_facts) auto
  show ?thesis
    using bar_prefix_same [OF a(2) b(2) trans [OF a(3) [symmetric] b(3)]]
      admitted_root_iff [OF a(2)] admitted_root_iff [OF b(2)]
    by (auto simp: a(1) b(1) split: if_splits)
qed

text \<open>Of two admitted rows with the same instrument id, if one is a futures root so is the
  other, and their route fingerprints agree exactly when their current contracts do: a roll of
  the root changes the route, nothing else does.\<close>

theorem route_fingerprint_tracks_current_contract:
  assumes "qualified_instrument_id i = Inr n" and "qualified_instrument_id j = Inr n"
    and "instrument_is_futures_root i"
  shows "instrument_is_futures_root j
    \<and> (route_fingerprint i = route_fingerprint j \<longleftrightarrow>
        current_futures_contract_id i = current_futures_contract_id j)"
proof -
  obtain a where a: "i = Some a" "require_provider_identity (Some a) None = Inr a" "n = expected_instrument_id a"
    using assms(1) by (elim qualified_id_facts) auto
  obtain b where b: "j = Some b" "require_provider_identity (Some b) None = Inr b" "n = expected_instrument_id b"
    using assms(2) by (elim qualified_id_facts) auto
  have "instrument_is_futures_root j"
    using bar_prefix_same [OF a(2) b(2), of "[]" "[]"] a b assms(3)
      admitted_root_iff [OF a(2)] admitted_root_iff [OF b(2)] by auto
  with assms show ?thesis by (simp add: route_fingerprint_def)
qed

text \<open>Naming an expected provider only narrows the gate: the row is admitted exactly when it
  is admitted without one and its own provider is the named one.\<close>

theorem expected_provider_only_narrows:
  "require_provider_identity inst (Some p) = Inr row \<longleftrightarrow>
     require_provider_identity inst None = Inr row \<and> instrument_provider inst = p"
proof
  assume "require_provider_identity inst (Some p) = Inr row"
  from gate_facts(8,9) [OF this] show "require_provider_identity inst None = Inr row \<and> instrument_provider inst = p"
    by simp
next
  assume h: "require_provider_identity inst None = Inr row \<and> instrument_provider inst = p"
  then have "canonical_token p" "CHR '':'' \<notin> set p" "p \<noteq> []"
    using gate_facts(2,3) [of inst None row] by (auto simp: canonical_token_def)
  with h show "require_provider_identity inst (Some p) = Inr row"
    by (auto simp: require_provider_identity_def Let_def res_simps require_expected_provider_def
      require_exact_identity_text_def split: option.splits if_splits)
qed

text \<open>The exact provider id parser reads back every positive number it would print, from
  text and from an integer, and no other text denotes that number.\<close>

theorem provider_id_round_trip:
  assumes "length (str_of_nat n) \<le> int_max_str_digits" and "0 < n"
  shows "parse_exact_positive_decimal_provider_id (VStr (str_of_nat n)) = Inr (int n)
    \<and> parse_exact_positive_decimal_provider_id (VInt (int n)) = Inr (int n)
    \<and> (\<forall>s. parse_exact_positive_decimal_provider_id (VStr s) = Inr (int n) \<longrightarrow> s = str_of_nat n)"
proof -
  have dec: "list_all is_decimal_chr (str_of_nat n)" by (rule str_of_nat_decimal)
  moreover have "py_isascii (str_of_nat n)"
    using dec by (auto simp: py_isascii_def list_all_iff is_ascii_chr_def is_decimal_chr_def Let_def)
  moreover have "s = str_of_nat n"
    if "parse_exact_positive_decimal_provider_id (VStr s) = Inr (int n)" for s
    using that assms(2)
    by (auto simp: parse_exact_positive_decimal_provider_id_def Let_def res_simps str_of_int_def
      split: if_splits)
  ultimately show ?thesis
    using assms py_int_of_str_of_nat [OF assms(1)]
    by (auto simp: parse_exact_positive_decimal_provider_id_def Let_def py_isdecimal_def str_of_int_def)
qed

section \<open>Witnesses\<close>

definition example_contract_row :: "string \<Rightarrow> vdict" where
  "example_contract_row symbol =
    [(VStr ''provider'', VStr ''ibkr''), (VStr ''instrument_key'', VStr ''k1''),
     (VStr ''asset_class'', VStr ''equity''), (VStr ''instrument_id'', VStr ''ibkr|contract|42''),
     (VStr ''provider_symbol'', VStr symbol), (VStr ''provider_contract_id'', VStr ''42''),
     (VStr ''contract_identity'', VDict
       [(VStr ''provider'', VStr ''ibkr''), (VStr ''asset_class'', VStr ''equity''),
        (VStr ''provider_contract_id'', VStr ''42'')])]"

definition example_root_row :: "string \<Rightarrow> vdict" where
  "example_root_row current =
    [(VStr ''provider'', VStr ''ibkr''), (VStr ''instrument_key'', VStr ''es''),
     (VStr ''asset_class'', VStr ''future''),
     (VStr ''instrument_id'', VStr ''ibkr|future_root|ES|CME|USD|ES''),
     (VStr ''provider_symbol'', VStr ''ES''),
     (VStr ''contract_identity'', VDict
       [(VStr ''provider'', VStr ''ibkr''), (VStr ''asset_class'', VStr ''future''),
        (VStr ''identity_scope'', VStr ''root''), (VStr ''root'', VStr ''ES''),
        (VStr ''exchange'', VStr ''CME''), (VStr ''currency'', VStr ''USD''),
        (VStr ''trading_class'', VStr ''ES''),
        (VStr ''current_contract'', VDict [(VStr ''provider_contract_id'', VStr current)])])]"

lemmas row_eval = vget_def entry_of_def dict_or_empty_def identity_payload_def instrument_provider_def
  instrument_asset_class_def asset_class_is_futures_def instrument_is_futures_def scope_contract_def
  scope_root_def instrument_identity_scope_def instrument_is_futures_root_def instrument_key_def
  futures_root_def provider_contract_id_def current_futures_contract_def
  current_futures_contract_id_def Let_def

lemma token_eval: "canonical_token ''ibkr''" "canonical_token ''equity''" "canonical_token ''future''"
  by code_simp+

lemma example_contract_admitted:
  "symbol \<noteq> [] \<Longrightarrow> require_provider_identity (Some (example_contract_row symbol)) None
     = Inr (example_contract_row symbol)"
  by (simp add: require_provider_identity_def example_contract_row_def row_eval token_eval
      require_matching_field_def require_expected_provider_def require_contract_identity_def
      expected_instrument_id_def)

lemma example_root_admitted:
  "c \<noteq> [] \<Longrightarrow> require_provider_identity (Some (example_root_row c)) None = Inr (example_root_row c)"
  by (simp add: require_provider_identity_def example_root_row_def row_eval token_eval
      require_matching_field_def require_expected_provider_def require_root_identity_def
      expected_instrument_id_def)

lemma example_contract_fingerprint:
  "symbol \<noteq> [] \<Longrightarrow> route_fingerprint (Some (example_contract_row symbol)) = Inr ''ibkr|contract|42''"
  by (simp add: route_fingerprint_def qualified_instrument_id_def example_contract_admitted)
    (simp add: example_contract_row_def row_eval)

lemma route_fingerprint_separates_contracts_witness:
  "provider_contract_id (Some (example_contract_row ''AAPL'')) =
   provider_contract_id (Some (example_contract_row ''AAPL.O''))"
  using route_fingerprint_separates_contracts [of "Some (example_contract_row ''AAPL'')"
      "''ibkr|contract|42''" "Some (example_contract_row ''AAPL.O'')"]
  by (simp add: example_contract_fingerprint) (simp add: example_contract_row_def row_eval)

lemma example_root_id: "c \<noteq> [] \<Longrightarrow>
  qualified_instrument_id (Some (example_root_row c)) = Inr ''ibkr|future_root|ES|CME|USD|ES''"
  by (simp add: qualified_instrument_id_def example_root_admitted)
    (simp add: example_root_row_def row_eval)

lemma route_fingerprint_tracks_current_contract_witness:
  "route_fingerprint (Some (example_root_row ''1'')) \<noteq> route_fingerprint (Some (example_root_row ''2''))"
proof -
  have "instrument_is_futures_root (Some (example_root_row ''1''))"
    by (simp add: example_root_row_def row_eval)
  moreover have "current_futures_contract_id (Some (example_root_row ''1'')) \<noteq>
      current_futures_contract_id (Some (example_root_row ''2''))"
    by (simp add: example_root_row_def row_eval)
  ultimately show ?thesis
    using route_fingerprint_tracks_current_contract [OF example_root_id example_root_id, of "''1''" "''2''"]
    by simp
qed

lemma provider_id_round_trip_witness:
  "parse_exact_positive_decimal_provider_id (VStr (str_of_nat 42)) = Inr 42"
proof -
  have "length (str_of_nat 42) \<le> int_max_str_digits" by code_simp
  from provider_id_round_trip [OF this] show ?thesis by simp
qed

end
