(* ===== verification/MathUtils.thy ===== *)
theory MathUtils
  imports PyValue
begin

text \<open>
  \<open>runtime/math_utils.py\<close>: the numeric coercions every price and score goes through. What
  each accepts and rejects decides which values later comparisons can see: a result of
  \<open>float_or_none\<close> or \<open>exact_finite_number_or_none\<close> is never an infinity or a NaN.
\<close>

definition clamp :: "pyfloat \<Rightarrow> pyfloat \<Rightarrow> pyfloat \<Rightarrow> pyfloat" where
  "clamp x low high = fmax low (fmin high x)"

definition safe_float :: "pyval \<Rightarrow> pyfloat \<Rightarrow> pyfloat res" where
  "safe_float v dflt = (case py_float v of
      Inl e \<Rightarrow> if is_type_error e \<or> is_value_error e then Inr dflt else Inl e
    | Inr out \<Rightarrow> Inr (if isfinite out then out else dflt))"

definition float_or_none :: "pyval \<Rightarrow> pyfloat option res" where
  "float_or_none v =
    (if v = VNone \<or> is_bool v then Inr None
     else case py_float v of
        Inl e \<Rightarrow> if is_type_error e \<or> is_value_error e then Inr None else Inl e
      | Inr out \<Rightarrow> Inr (if isfinite out then Some out else None))"

fun exact_finite_number_or_none :: "pyval \<Rightarrow> pyfloat option" where
  "exact_finite_number_or_none (VInt n) =
     (case float_of_int n of Inl _ \<Rightarrow> None | Inr x \<Rightarrow> if isfinite x then Some x else None)"
| "exact_finite_number_or_none (VFloat x) = (if isfinite x then Some x else None)"
| "exact_finite_number_or_none _ = None"

definition is_exact_finite_number :: "pyval \<Rightarrow> bool" where
  "is_exact_finite_number v = (exact_finite_number_or_none v \<noteq> None)"

definition clamp_float :: "pyval \<Rightarrow> pyfloat \<Rightarrow> pyfloat \<Rightarrow> pyfloat \<Rightarrow> pyfloat res" where
  "clamp_float v dflt low high = rbind (safe_float v dflt) (\<lambda>x. Inr (clamp x low high))"

definition round_optional :: "pyfloat option \<Rightarrow> nat \<Rightarrow> pyfloat option" where
  "round_optional v digits = map_option (fround digits) v"

definition safe_div :: "pyfloat \<Rightarrow> pyfloat \<Rightarrow> pyfloat \<Rightarrow> pyfloat res" where
  "safe_div numerator denominator dflt =
     (if flt (fabs denominator) (rnd (1 / 10 ^ 12)) then Inr dflt else fdiv numerator denominator)"

text \<open>
  \<open>float_or_none\<close> at an argument the code declares \<open>float | None\<close>; \<open>opt_val\<close> is that
  argument as a dynamic value.
\<close>

definition opt_val :: "pyfloat option \<Rightarrow> pyval" where
  "opt_val x = (case x of None \<Rightarrow> VNone | Some f \<Rightarrow> VFloat f)"

definition finite_or_none :: "pyfloat option \<Rightarrow> pyfloat option" where
  "finite_or_none x = (case x of None \<Rightarrow> None | Some f \<Rightarrow> if isfinite f then Some f else None)"

section \<open>Facts\<close>

lemma float_or_none_opt: "float_or_none (opt_val x) = Inr (finite_or_none x)"
  by (cases x) (auto simp: float_or_none_def opt_val_def finite_or_none_def)

lemma float_or_none_finite: "float_or_none v = Inr (Some x) \<Longrightarrow> isfinite x"
  by (auto simp: float_or_none_def split: if_splits sum.splits)

lemma exact_finite_number_finite: "exact_finite_number_or_none v = Some x \<Longrightarrow> isfinite x"
  by (cases v) (auto split: if_splits sum.splits)

lemma finite_or_none_Some [simp]: "finite_or_none x = Some f \<longleftrightarrow> x = Some f \<and> isfinite f"
  by (auto simp: finite_or_none_def split: option.splits)

lemma finite_or_none_None [simp]: "finite_or_none None = None"
  by (simp add: finite_or_none_def)

lemma finite_or_none_Fin [simp]: "finite_or_none (Some (Fin r)) = Some (Fin r)"
  by (simp add: finite_or_none_def)

lemma finite_or_none_idem [simp]: "finite_or_none (finite_or_none x) = finite_or_none x"
  by (auto simp: finite_or_none_def split: option.splits)

lemma clamp_bounds:
  assumes "fle low high" and "x \<noteq> NaN"
  shows "fle low (clamp x low high)" and "fle (clamp x low high) high"
proof -
  show "fle low (clamp x low high)"
    unfolding clamp_def using assms fle_not_NaN by (intro fmax_ge) blast
  have "high \<noteq> NaN" using assms fle_not_NaN by blast
  then have "fle (fmin high x) high" by (rule fmin_le)
  then show "fle (clamp x low high) high"
    using assms by (simp add: clamp_def fmax_def)
qed

end
