(* ===== verification/Timeframes.thy ===== *)
theory Timeframes
  imports MathUtils
begin

text \<open>
  \<open>runtime/timeframes.py\<close>: bar intervals, epoch buckets, and the half-open history windows
  one request shares. \<open>datetime.now(tz=UTC)\<close> is the argument \<open>now\<close> everywhere. Instants are
  microseconds; \<open>int(ts.timestamp())\<close> goes through a float, as in the code.
\<close>

section \<open>Intervals\<close>

definition CHART_HISTORY_INTERVALS :: "string list" where
  "CHART_HISTORY_INTERVALS = [''1m'', ''3m'', ''5m'', ''15m'', ''60m'']"

definition PERSISTED_BAR_INTERVALS :: "string list" where
  "PERSISTED_BAR_INTERVALS = [''1m'', ''5m'', ''15m'', ''60m'']"

definition DERIVED_CHART_INTERVAL_SOURCES :: "(string, string) pydict" where
  "DERIVED_CHART_INTERVAL_SOURCES = [(''3m'', ''1m'')]"

definition MAX_CHART_HISTORY_CALENDAR_SLOTS :: int where
  "MAX_CHART_HISTORY_CALENDAR_SLOTS = 60000"

text \<open>The fallback after \<open>ValueError\<close> is 5; the later test for \<open>60m\<close> is never reached.\<close>

definition interval_minutes :: "string \<Rightarrow> int" where
  "interval_minutes interval =
    (let normalized = py_strip (py_lower interval) in
     if py_endswith normalized ''m'' then
       (let body = drop_last 1 normalized in
        if body = [] then 1
        else case py_int_of_str body of Inl _ \<Rightarrow> 5 | Inr n \<Rightarrow> max n 1)
     else if normalized = ''60m'' then 60 else 5)"

definition interval_seconds :: "string \<Rightarrow> int" where
  "interval_seconds interval = interval_minutes interval * 60"

definition epoch_seconds :: "instant \<Rightarrow> int" where
  "epoch_seconds t = trunc_rat (rnd_val (of_int t / 10 ^ 6))"

definition timestamp_is_bucket_aligned :: "instant \<Rightarrow> int \<Rightarrow> bool res" where
  "timestamp_is_bucket_aligned t step =
    (if t mod 1000000 \<noteq> 0 then Inr False
     else if step = 0 then Inl ZeroDivisionError
     else Inr (epoch_seconds t mod step = 0))"

definition canonical_bar_source_interval :: "string \<Rightarrow> string res" where
  "canonical_bar_source_interval interval =
    (let normalized = py_lower (py_strip interval) in
     if normalized \<notin> set CHART_HISTORY_INTERVALS
     then Inl (ValueError (''CHART_INTERVAL_UNSUPPORTED interval='' @ normalized))
     else Inr (dget_default DERIVED_CHART_INTERVAL_SOURCES normalized normalized))"

definition is_derived_chart_interval :: "string \<Rightarrow> bool" where
  "is_derived_chart_interval interval =
    dhas DERIVED_CHART_INTERVAL_SOURCES (py_lower (py_strip interval))"

definition require_persisted_bar_timeframe :: "string \<Rightarrow> string res" where
  "require_persisted_bar_timeframe timeframe =
    (let normalized = py_lower (py_strip timeframe) in
     if normalized \<notin> set PERSISTED_BAR_INTERVALS
     then Inl (ValueError (''CANONICAL_BAR_STORAGE_TIMEFRAME_UNSUPPORTED timeframe='' @ normalized))
     else Inr normalized)"

section \<open>Admission of timestamps\<close>

text \<open>\<open>text.replace("Z", "+00:00")\<close>\<close>

definition replace_Z :: "string \<Rightarrow> string" where
  "replace_Z s = concat (map (\<lambda>c. if c = CHR ''Z'' then ''+00:00'' else [c]) s)"

text \<open>
  \<open>str(value)\<close> of a value that is neither text nor a datetime never carries a UTC offset,
  so the parse fails or gives a naive datetime: both are \<open>None\<close>. The conversion to UTC is
  outside the \<open>try\<close>, so its \<open>OverflowError\<close> escapes.
\<close>

definition parse_aware_utc_ts :: "iso_parser \<Rightarrow> pyval \<Rightarrow> instant option res" where
  "parse_aware_utc_ts piso v =
    (if \<not> truthy v then Inr None
     else case (case v of VDateTime d \<Rightarrow> Some d
                | VStr s \<Rightarrow> piso (replace_Z s) | _ \<Rightarrow> None) of
            None \<Rightarrow> Inr None
          | Some d \<Rightarrow>
              if \<not> is_aware d then Inr None
              else rbind (astimezone_utc d) (\<lambda>t. Inr (Some t)))"

definition require_aware_utc_datetime :: "pyval \<Rightarrow> string \<Rightarrow> instant res" where
  "require_aware_utc_datetime v field =
    (case v of VDateTime d \<Rightarrow>
        if is_aware d then astimezone_utc d
        else Inl (ValueError (field @ '' must be timezone-aware''))
     | _ \<Rightarrow> Inl (ValueError (field @ '' must be timezone-aware'')))"

section \<open>Bar counts and buckets\<close>

text \<open>\<open>a / b\<close> on integers is the correctly rounded quotient; \<open>round(x)\<close> is half-even.\<close>

definition int_truediv :: "int \<Rightarrow> int \<Rightarrow> pyfloat res" where
  "int_truediv a b = (if b = 0 then Inl ZeroDivisionError
     else case rnd (of_int a / of_int b) of Fin r \<Rightarrow> Inr (Fin r) | _ \<Rightarrow> Inl OverflowError)"

definition round_int_truediv :: "int \<Rightarrow> int \<Rightarrow> int res" where
  "round_int_truediv a b = rbind (int_truediv a b) (\<lambda>x.
     case x of Fin r \<Rightarrow> Inr (round_half_even r) | _ \<Rightarrow> Inl OverflowError)"

definition adapt_bars :: "int \<Rightarrow> string \<Rightarrow> int \<Rightarrow> int \<Rightarrow> int res" where
  "adapt_bars base timeframe source_minutes min_bars =
    (let minutes = max (interval_minutes timeframe) 1 in
     if minutes \<le> 1 then Inr (max min_bars (base * max source_minutes 1))
     else if 60 \<le> minutes \<and> source_minutes = 5
     then rbind (round_int_truediv base 2) (\<lambda>n. Inr (max min_bars n))
     else rbind (round_int_truediv (base * max source_minutes 1) minutes) (\<lambda>n. Inr (max min_bars n)))"

definition expiry_after_bars :: "instant \<Rightarrow> string \<Rightarrow> int \<Rightarrow> instant res" where
  "expiry_after_bars ts timeframe bars_count =
    instant_add ts (max 1 bars_count * interval_minutes timeframe * 60 * us_per_second)"

definition from_timestamp_utc :: "int \<Rightarrow> instant res" where
  "from_timestamp_utc secs = (let t = secs * us_per_second in
     if in_dt_range t then Inr t else Inl (ValueError ''year is out of range''))"

definition interval_bucket :: "instant \<Rightarrow> string \<Rightarrow> instant res" where
  "interval_bucket ts interval =
    (let seconds = interval_seconds interval; epoch = epoch_seconds ts
     in from_timestamp_utc (epoch - epoch mod seconds))"

definition interval_is_closed :: "instant \<Rightarrow> string \<Rightarrow> instant \<Rightarrow> bool res" where
  "interval_is_closed ts interval now =
    rbind (interval_bucket ts interval) (\<lambda>bucket.
    rbind (instant_add bucket (interval_seconds interval * us_per_second)) (\<lambda>bar_end.
      Inr (bar_end \<le> now)))"

section \<open>History windows\<close>

record history_window =
  hw_range_key :: string
  hw_starts_at :: "pydatetime option"
  hw_ends_at :: pydatetime

definition range_start_utc :: "string \<Rightarrow> instant \<Rightarrow> instant option res" where
  "range_start_utc range_key now =
    (let normalized = py_lower (py_strip range_key);
         back = (\<lambda>body days. rbind (py_int_of_str body) (\<lambda>n.
           rbind (instant_add now (- (days (max n 1)) * us_per_day)) (\<lambda>t. Inr (Some t))))
     in if normalized = ''all'' then Inr None
        else if py_endswith normalized ''mo'' then back (drop_last 2 normalized) (\<lambda>n. n * 32)
        else if py_endswith normalized ''d'' then back (drop_last 1 normalized) (\<lambda>n. n + 1)
        else if py_endswith normalized ''y'' then back (drop_last 1 normalized) (\<lambda>n. n * 370)
        else Inr None)"

definition history_range_window :: "string \<Rightarrow> string \<Rightarrow> instant \<Rightarrow> history_window res" where
  "history_range_window range_key interval now =
    rbind (interval_bucket now interval) (\<lambda>ends_at.
    rbind (range_start_utc range_key now) (\<lambda>raw_start.
    rbind (case raw_start of None \<Rightarrow> Inr None
           | Some r \<Rightarrow> rbind (interval_bucket r interval) (\<lambda>b. Inr (Some (utc_datetime b)))) (\<lambda>starts_at.
      Inr \<lparr>hw_range_key = range_key, hw_starts_at = starts_at, hw_ends_at = utc_datetime ends_at\<rparr>)))"

definition history_lookback_window :: "pyval \<Rightarrow> string \<Rightarrow> instant \<Rightarrow> history_window res" where
  "history_lookback_window days interval now = (case days of
      VInt n \<Rightarrow>
       (if n \<le> 0 then Inl (ValueError ''history lookback days must be a positive integer'')
        else
          rbind (interval_bucket now interval) (\<lambda>ends_at.
          rbind (instant_add ends_at (- n * us_per_day)) (\<lambda>starts_at.
          rbind (interval_bucket starts_at interval) (\<lambda>b.
            if b \<noteq> starts_at
            then Inl (ValueError ''history lookback duration must align to the interval grid'')
            else Inr \<lparr>hw_range_key = str_of_int n @ ''d'',
                      hw_starts_at = Some (utc_datetime starts_at),
                      hw_ends_at = utc_datetime ends_at\<rparr>))))
    | _ \<Rightarrow> Inl (ValueError ''history lookback days must be a positive integer''))"

text \<open>The pattern \<open>[1-9][0-9]*(mo|d|y)\<close>, matched against the whole text: digits and unit.\<close>

definition match_history_range :: "string \<Rightarrow> (string \<times> string) option" where
  "match_history_range s =
    (let ds = takeWhile is_decimal_chr s; unit = dropWhile is_decimal_chr s in
     if ds \<noteq> [] \<and> hd ds \<noteq> CHR ''0'' \<and> unit \<in> {''mo'', ''d'', ''y''} then Some (ds, unit) else None)"

definition calendar_days :: "int \<Rightarrow> string \<Rightarrow> int" where
  "calendar_days count unit =
    (if unit = ''d'' then count + 1 else if unit = ''mo'' then count * 32 else count * 370)"

text \<open>
  The two float operations on \<open>total_seconds()\<close>: the quotient floor and whether the
  remainder is zero. The dividend is a float below \<open>2^39\<close> and the divisor an integer, so
  Python's \<open>//\<close> and \<open>%\<close> are the exact ones.
\<close>

definition total_seconds :: "int \<Rightarrow> rat" where
  "total_seconds us = rnd_val (of_int us / 10 ^ 6)"

definition float_is_multiple :: "rat \<Rightarrow> int \<Rightarrow> bool" where
  "float_is_multiple x n = (of_int \<lfloor>x / of_int n\<rfloor> = x / of_int n)"

definition reject_range :: "string \<Rightarrow> string \<Rightarrow> string \<Rightarrow> int option \<Rightarrow> 'a res" where
  "reject_range code iv rk slots = Inl (ChartHistoryRangeError code iv rk slots)"

text \<open>Whether the code's four-way test calls the window invalid; the tests run in order.\<close>

definition window_invalid :: "string \<Rightarrow> instant \<Rightarrow> instant \<Rightarrow> bool res" where
  "window_invalid iv starts_at ends_at =
    (let actual_seconds = total_seconds (ends_at - starts_at) in
     if actual_seconds \<le> 0 \<or> \<not> float_is_multiple actual_seconds (interval_seconds iv) then Inr True
     else rbind (interval_bucket starts_at iv) (\<lambda>b.
       if b \<noteq> starts_at then Inr True
       else rbind (interval_bucket ends_at iv) (\<lambda>b'. Inr (b' \<noteq> ends_at))))"

text \<open>The checks of one window, the caller's or the one just frozen.\<close>

definition admit_chart_window :: "string \<Rightarrow> string \<Rightarrow> history_window \<Rightarrow> history_window res" where
  "admit_chart_window iv rk w =
    (if py_lower (py_strip (hw_range_key w)) \<noteq> rk
     then reject_range ''CHART_HISTORY_WINDOW_MISMATCH'' iv rk None
     else case hw_starts_at w of
       None \<Rightarrow> reject_range ''CHART_HISTORY_RANGE_UNBOUNDED'' iv rk None
     | Some raw_start \<Rightarrow>
       if \<not> is_aware raw_start \<or> \<not> is_aware (hw_ends_at w)
       then reject_range ''CHART_HISTORY_WINDOW_INVALID'' iv rk None
       else
       rbind (astimezone_utc raw_start) (\<lambda>starts_at.
       rbind (astimezone_utc (hw_ends_at w)) (\<lambda>ends_at.
       let actual_slots = \<lfloor>total_seconds (ends_at - starts_at) / of_int (interval_seconds iv)\<rfloor> in
       rbind (window_invalid iv starts_at ends_at) (\<lambda>invalid.
       if invalid then reject_range ''CHART_HISTORY_WINDOW_INVALID'' iv rk None
       else if MAX_CHART_HISTORY_CALENDAR_SLOTS < actual_slots
       then reject_range ''CHART_HISTORY_RANGE_TOO_LARGE'' iv rk (Some actual_slots)
       else Inr w))))"

definition chart_history_range_window ::
  "string \<Rightarrow> string \<Rightarrow> instant \<Rightarrow> history_window option \<Rightarrow> history_window res" where
  "chart_history_range_window range_key interval now window =
    (let iv = py_lower (py_strip interval); rk = py_lower (py_strip range_key) in
     if iv \<notin> set CHART_HISTORY_INTERVALS
     then reject_range ''CHART_HISTORY_INTERVAL_UNSUPPORTED'' iv rk None
     else if rk = ''all'' then reject_range ''CHART_HISTORY_RANGE_UNBOUNDED'' iv rk None
     else case match_history_range rk of
       None \<Rightarrow> reject_range ''CHART_HISTORY_RANGE_INVALID'' iv rk None
     | Some (digits, unit) \<Rightarrow>
       rbind (py_int_of_str digits) (\<lambda>count.
       let calendar_slots = calendar_days count unit * 86400 div interval_seconds iv in
       if MAX_CHART_HISTORY_CALENDAR_SLOTS < calendar_slots
       then reject_range ''CHART_HISTORY_RANGE_TOO_LARGE'' iv rk (Some calendar_slots)
       else
       rbind (case window of Some w \<Rightarrow> Inr w | None \<Rightarrow> history_range_window rk iv now)
         (admit_chart_window iv rk)))"

section \<open>Facts about intervals and buckets\<close>

lemma interval_minutes_pos: "1 \<le> interval_minutes interval"
  by (simp add: interval_minutes_def Let_def max_def split: sum.splits)

lemma interval_seconds_pos [simp]: "0 < interval_seconds interval"
  using interval_minutes_pos [of interval] by (simp add: interval_seconds_def)

text \<open>The instants for which the code's float arithmetic on epoch seconds is exact: 1970 to 2242.\<close>

definition exact_epoch :: "instant \<Rightarrow> bool" where
  "exact_epoch t = (0 \<le> t \<and> t < 2 ^ 33 * 10 ^ 6)"

lemma epoch_seconds_exact: "exact_epoch t \<Longrightarrow> epoch_seconds t = t div us_per_second"
proof -
  assume "exact_epoch t"
  then have t: "0 \<le> t" "t < 2 ^ 33 * 10 ^ 6" by (auto simp: exact_epoch_def)
  have "0 \<le> rnd_val (of_int t / 10 ^ 6)"
    using t by (intro rnd_val_nonneg) simp
  then show ?thesis
    using rnd_val_seconds [OF t] by (simp add: epoch_seconds_def trunc_rat_def us_per_second_def)
qed

lemma interval_bucket_exact:
  assumes "exact_epoch t"
  shows "interval_bucket t i =
    Inr (t div us_per_second * us_per_second
      - t div us_per_second mod interval_seconds i * us_per_second)"
proof -
  let ?s = "t div us_per_second" and ?n = "interval_seconds i"
  have n: "0 < ?n" by simp
  have s: "0 \<le> ?s" "?s < 2 ^ 33"
    using assms by (auto simp: exact_epoch_def us_per_second_def)
  have "0 \<le> ?s mod ?n" "?s mod ?n \<le> ?s" using n s by (simp_all add: zmod_le_nonneg_dividend)
  with s have "0 \<le> ?s - ?s mod ?n" "?s - ?s mod ?n < 2 ^ 33" by linarith+
  then have "in_dt_range ((?s - ?s mod ?n) * us_per_second)"
    by (simp add: in_dt_range_def dt_min_def dt_max_def us_per_second_def)
  then show ?thesis
    using assms by (simp add: interval_bucket_def epoch_seconds_exact from_timestamp_utc_def Let_def
      left_diff_distrib)
qed

section \<open>Buckets, closed bars and history windows\<close>

lemma chart_interval_seconds:
  "i \<in> set CHART_HISTORY_INTERVALS \<Longrightarrow> interval_seconds i \<in> {60, 180, 300, 900, 3600}"
proof -
  have "interval_seconds ''1m'' = 60" by code_simp
  moreover have "interval_seconds ''3m'' = 180" by code_simp
  moreover have "interval_seconds ''5m'' = 300" by code_simp
  moreover have "interval_seconds ''15m'' = 900" by code_simp
  moreover have "interval_seconds ''60m'' = 3600" by code_simp
  ultimately show "i \<in> set CHART_HISTORY_INTERVALS \<Longrightarrow> ?thesis"
    by (auto simp: CHART_HISTORY_INTERVALS_def)
qed

text \<open>The bucket of an instant in microseconds.\<close>

definition bucket_us :: "int \<Rightarrow> int \<Rightarrow> int" where
  "bucket_us n t = t div (n * us_per_second) * (n * us_per_second)"

lemma bucket_us_eq:
  assumes "0 < n"
  shows "t div us_per_second * us_per_second - t div us_per_second mod n * us_per_second = bucket_us n t"
proof -
  have "t div (us_per_second * n) = t div us_per_second div n"
    by (rule zdiv_zmult2_eq) (use assms in simp)
  then have "bucket_us n t = t div us_per_second div n * n * us_per_second"
    by (simp add: bucket_us_def mult.commute mult.left_commute)
  moreover have "t div us_per_second div n * n = t div us_per_second - t div us_per_second mod n"
    by (simp add: minus_mod_eq_div_mult)
  ultimately show ?thesis by (simp add: left_diff_distrib)
qed

lemma interval_bucket_us: "exact_epoch t \<Longrightarrow> interval_bucket t i = Inr (bucket_us (interval_seconds i) t)"
  by (simp add: interval_bucket_exact bucket_us_eq)

lemma bucket_us_bounds:
  assumes "0 < n"
  shows "bucket_us n t \<le> t" "t < bucket_us n t + n * us_per_second"
    "n * us_per_second dvd bucket_us n t" "bucket_us n (bucket_us n t) = bucket_us n t"
proof -
  have p: "0 < n * us_per_second" using assms by (simp add: us_per_second_def)
  show "bucket_us n t \<le> t" "t < bucket_us n t + n * us_per_second"
    "n * us_per_second dvd bucket_us n t" "bucket_us n (bucket_us n t) = bucket_us n t"
    using p pos_mod_bound [OF p, of t] pos_mod_sign [OF p, of t] div_mult_mod_eq [of t "n * us_per_second"]
    unfolding bucket_us_def by (linarith, linarith, simp, simp)
qed

lemma bucket_us_exact:
  assumes "exact_epoch t" "0 < n"
  shows "exact_epoch (bucket_us n t)"
proof -
  have "0 \<le> bucket_us n t"
    using assms by (simp add: bucket_us_def us_per_second_def exact_epoch_def pos_imp_zdiv_nonneg_iff)
  then show ?thesis using assms bucket_us_bounds(1) [of n t] by (simp add: exact_epoch_def)
qed

lemma bucket_us_fixed_iff: "0 < n \<Longrightarrow> bucket_us n t = t \<longleftrightarrow> n * us_per_second dvd t"
  unfolding bucket_us_def by (metis bucket_us_bounds(3) bucket_us_def dvd_div_mult_self)

lemma bucket_us_mono: "0 < n \<Longrightarrow> s \<le> t \<Longrightarrow> bucket_us n s \<le> bucket_us n t"
  unfolding bucket_us_def
  by (intro mult_right_mono zdiv_mono1) (simp_all add: us_per_second_def)

lemma next_multiple_le_iff: "0 < (m::int) \<Longrightarrow> (q + 1) * m \<le> t \<longleftrightarrow> q < t div m"
proof
  assume m: "0 < m" and "(q + 1) * m \<le> t"
  then have "(q + 1) * m div m \<le> t div m" by (intro zdiv_mono1)
  with m show "q < t div m" by simp
next
  assume m: "0 < m" and "q < t div m"
  then have "(q + 1) * m \<le> t div m * m" by (intro mult_right_mono) simp_all
  also have "\<dots> \<le> t" using m pos_mod_sign [OF m, of t] div_mult_mod_eq [of t m] by linarith
  finally show "(q + 1) * m \<le> t" .
qed

lemma bucket_us_less_iff:
  assumes "0 < n"
  shows "bucket_us n s + n * us_per_second \<le> t \<longleftrightarrow> bucket_us n s < bucket_us n t"
proof -
  have m: "0 < n * us_per_second" using assms by (simp add: us_per_second_def)
  show ?thesis
    unfolding bucket_us_def mult_less_cancel_right_pos [OF m]
      next_multiple_le_iff [OF m, symmetric] distrib_right mult_1 by (rule refl)
qed

lemma aligned_iff:
  assumes "exact_epoch t" "0 < n"
  shows "timestamp_is_bucket_aligned t n = Inr (n * us_per_second dvd t)"
proof (cases "t mod 1000000 = 0")
  case True
  then obtain k where k: "t = k * us_per_second" by (auto simp: us_per_second_def)
  then have "t div us_per_second = k" by (simp add: us_per_second_def)
  with True assms show ?thesis
    by (simp add: timestamp_is_bucket_aligned_def epoch_seconds_exact k us_per_second_def
      dvd_eq_mod_eq_0 [symmetric])
next
  case False
  then have "\<not> us_per_second dvd t" by (simp add: us_per_second_def dvd_eq_mod_eq_0)
  then have "\<not> n * us_per_second dvd t" by (meson dvd_mult_right dvd_trans)
  with False show ?thesis by (simp add: timestamp_is_bucket_aligned_def)
qed

text \<open>The bucket of an instant (1970 to 2242) is the aligned half-open slot of one interval
  that contains it, and the bucket of a bucket is the bucket itself, although the code goes
  through the float \<open>timestamp()\<close>.\<close>

theorem interval_bucket_correct:
  assumes "exact_epoch ts"
  shows "\<exists>bucket. interval_bucket ts interval = Inr bucket
    \<and> bucket \<le> ts \<and> ts < bucket + interval_seconds interval * us_per_second
    \<and> timestamp_is_bucket_aligned bucket (interval_seconds interval) = Inr True
    \<and> interval_bucket bucket interval = Inr bucket"
proof -
  let ?n = "interval_seconds interval"
  have n: "0 < ?n" by simp
  show ?thesis
    using bucket_us_bounds [OF n, of ts] bucket_us_exact [OF assms n]
    by (simp add: interval_bucket_us assms aligned_iff)
qed

lemma interval_bucket_correct_witness:
  "\<exists>bucket. interval_bucket 1700000123456789 ''5m'' = Inr bucket
    \<and> bucket \<le> 1700000123456789
    \<and> 1700000123456789 < bucket + interval_seconds ''5m'' * us_per_second
    \<and> timestamp_is_bucket_aligned bucket (interval_seconds ''5m'') = Inr True
    \<and> interval_bucket bucket ''5m'' = Inr bucket"
  by (rule interval_bucket_correct) (simp add: exact_epoch_def)

text \<open>A bar of a chart interval is closed at \<open>now\<close> exactly when \<open>now\<close> lies in a later bucket
  than the bar.\<close>

theorem interval_is_closed_iff_later_bucket:
  assumes "interval \<in> set CHART_HISTORY_INTERVALS"
    and "exact_epoch ts" and "exact_epoch now"
    and "interval_bucket ts interval = Inr bar" and "interval_bucket now interval = Inr current"
  shows "interval_is_closed ts interval now = Inr (bar < current)"
proof -
  let ?n = "interval_seconds interval"
  have n: "0 < ?n" "?n \<le> 3600" using chart_interval_seconds [OF assms(1)] by auto
  have b: "bar = bucket_us ?n ts" "current = bucket_us ?n now"
    using assms by (simp_all add: interval_bucket_us)
  have "0 \<le> bar" "bar < 8589934592000000"
    using b bucket_us_exact [OF assms(2) n(1)] by (simp_all add: exact_epoch_def)
  then have "in_dt_range (bar + ?n * us_per_second)"
    using n unfolding in_dt_range_def dt_min_def dt_max_def us_per_second_def by linarith
  then show ?thesis
    using bucket_us_less_iff [OF n(1), of ts now] assms(4)
    by (simp add: interval_is_closed_def instant_add_def b)
qed

lemma interval_is_closed_iff_later_bucket_witness:
  "interval_is_closed 59999999 ''1m'' 60000000 = Inr True"
proof -
  have e: "exact_epoch 59999999" "exact_epoch 60000000" by (simp_all add: exact_epoch_def)
  have "interval_seconds ''1m'' = 60" by code_simp
  with e have "interval_bucket 59999999 ''1m'' = Inr 0" "interval_bucket 60000000 ''1m'' = Inr 60000000"
    by (simp_all add: interval_bucket_us bucket_us_def us_per_second_def)
  from interval_is_closed_iff_later_bucket [OF _ e this] show ?thesis
    by (simp add: CHART_HISTORY_INTERVALS_def)
qed

lemma total_seconds_exact: "0 \<le> s \<Longrightarrow> s \<le> 2 ^ 53 \<Longrightarrow> total_seconds (s * us_per_second) = of_int s"
proof -
  assume s: "0 \<le> s" "s \<le> 2 ^ 53"
  have "(of_int (s * us_per_second) / 10 ^ 6 :: rat) = of_int s"
    unfolding us_per_second_def of_int_mult by simp
  moreover have "rnd_val (of_int s) = of_int s"
    by (rule rnd_val_exact [where m = s and q = 0]) (use s in simp_all)
  ultimately show ?thesis by (simp only: total_seconds_def)
qed

lemma float_is_multiple_of_int: "0 < n \<Longrightarrow> float_is_multiple (of_int s) n \<longleftrightarrow> n dvd s"
proof -
  assume n: "0 < n"
  have "\<lfloor>(of_int s :: rat) / of_int n\<rfloor> = s div n" by (rule floor_divide_of_int_eq)
  then have "float_is_multiple (of_int s) n \<longleftrightarrow> (of_int (s div n * n) :: rat) = of_int s"
    using n by (simp add: float_is_multiple_def field_simps)
  then show ?thesis by (simp only: of_int_eq_iff) (metis dvd_div_mult_self dvd_triv_right)
qed

lemma match_history_range_Some:
  assumes "match_history_range rk = Some (digits, unit)" and "py_int_of_str digits = Inr n"
  shows "1 \<le> n" and "rk = digits @ unit" and "list_all is_decimal_chr digits" and "digits \<noteq> []"
    and "unit = ''mo'' \<or> unit = ''d'' \<or> unit = ''y''"
proof -
  have d: "digits = takeWhile is_decimal_chr rk" "unit = dropWhile is_decimal_chr rk"
    "digits \<noteq> []" "hd digits \<noteq> CHR ''0''" "unit \<in> {''mo'', ''d'', ''y''}"
    using assms(1) by (auto simp: match_history_range_def Let_def split: if_splits)
  show rk: "rk = digits @ unit" and "digits \<noteq> []"
    "unit = ''mo'' \<or> unit = ''d'' \<or> unit = ''y''"
    using d by auto
  show dec: "list_all is_decimal_chr digits"
    using d(1) by (auto simp: list_all_iff dest: set_takeWhileD)
  with d have "is_decimal_chr (hd digits)" by (simp add: list_all_iff)
  then have "1 \<le> digit_of_chr (hd digits)"
    using d(4) code_point_zero [of "hd digits"] by (auto simp: is_decimal_chr_def digit_of_chr_def Let_def)
  then show "1 \<le> n"
    using decimal_value_ge_hd [OF dec d(3)] py_int_of_decimals_value [OF dec d(3) assms(2)] by simp
qed

lemma decimal_lower: "is_decimal_chr c \<Longrightarrow> lower_chr c = c"
  by (simp add: is_decimal_chr_def lower_chr_def Let_def)

lemma matched_range_normal:
  assumes "match_history_range rk = Some (digits, unit)" and "py_int_of_str digits = Inr n"
  shows "py_lower (py_strip rk) = rk"
proof -
  note m = match_history_range_Some [OF assms]
  have dec: "\<forall>c \<in> set digits. is_decimal_chr c" using m by (simp add: list_all_iff)
  have "\<forall>c \<in> set unit. \<not> is_space_chr c" "py_lower unit = unit"
    using m(5) by (auto simp: is_space_chr_def code_point_def py_lower_def lower_chr_def)
  moreover have "py_lower digits = digits"
    using dec by (simp add: py_lower_def map_idI decimal_lower)
  ultimately show ?thesis
    using m(2) dec by (subst py_strip_no_space) (auto simp: py_lower_append dest: decimal_chr_not_space)
qed

lemma range_start_matched:
  assumes "match_history_range rk = Some (digits, unit)" and "py_int_of_str digits = Inr n"
  shows "range_start_utc rk now =
    rbind (instant_add now (- (calendar_days n unit * us_per_day))) (\<lambda>t. Inr (Some t))"
proof -
  note m = match_history_range_Some [OF assms]
  have last_dec: "is_decimal_chr (last digits)"
    using m(3,4) by (simp add: list_all_iff)
  have o: "last digits \<noteq> CHR ''m''"
    using last_dec by (auto simp: is_decimal_chr_def code_point_def)
  have snoc: "digits = butlast digits @ [last digits]" using m(4) by simp
  have "rk \<noteq> ''all''"
  proof
    assume "rk = ''all''"
    then have "hd digits = CHR ''a''" using m(2,4) by (cases digits) auto
    then show False using m(3,4) by (cases digits) (auto simp: is_decimal_chr_def code_point_def)
  qed
  have long: "py_endswith (digits @ [x]) ''mo'' = False" for x
  proof -
    have "drop (length digits - 1) (digits @ [x]) = [last digits, x]"
      using m(4) by (subst (2) snoc) (simp del: append_butlast_last_id)
    then show ?thesis using o by (simp add: py_endswith_def)
  qed
  have long_mo: "py_endswith (digits @ ''mo'') ''mo''" "drop_last 2 (digits @ ''mo'') = digits"
    by (simp_all add: py_endswith_def drop_last_def)
  have short: "py_endswith (digits @ [x]) [y] = (x = y)" "drop_last 1 (digits @ [x]) = digits" for x y
    by (simp_all add: py_endswith_def drop_last_def)
  have normal: "py_lower (py_strip (digits @ unit)) = digits @ unit" "digits @ unit \<noteq> ''all''"
    using matched_range_normal [OF assms] \<open>rk \<noteq> ''all''\<close> m(2) by simp_all
  note defs = range_start_utc_def Let_def calendar_days_def
  from m(5) show ?thesis
  proof (elim disjE)
    assume "unit = ''mo''"
    then show ?thesis using m(1,2) normal assms(2) long_mo by (simp add: defs)
  next
    assume "unit = ''d''"
    then show ?thesis using m(1,2) normal assms(2) long short by (simp add: defs)
  next
    assume "unit = ''y''"
    then show ?thesis using m(1,2) normal assms(2) long short by (simp add: defs)
  qed
qed

lemma in_range_exact: "exact_epoch t \<Longrightarrow> in_dt_range t"
  by (simp add: exact_epoch_def in_dt_range_def dt_min_def dt_max_def)

lemma aligned_difference:
  assumes "0 < n" "n * us_per_second dvd s" "n * us_per_second dvd e" "exact_epoch s" "exact_epoch e"
    and "s < e"
  obtains k where "e - s = k * n * us_per_second" "0 < k" "k * n \<le> 2 ^ 33"
    "total_seconds (e - s) = of_int (k * n)"
proof -
  have "n * us_per_second dvd e - s" using assms by simp
  then obtain k where k: "e - s = n * us_per_second * k" by (elim dvdE)
  then have k': "e - s = k * n * us_per_second" by (simp add: mult.commute mult.left_commute)
  have "0 < n * us_per_second" using assms(1) by (simp add: us_per_second_def)
  moreover have "0 < n * us_per_second * k" using k assms(6) by linarith
  ultimately have "0 < k" by (rule zero_less_mult_pos [rotated])
  moreover have "k * n * us_per_second < 2 ^ 33 * us_per_second"
    using k' assms(4,5) by (simp add: exact_epoch_def us_per_second_def)
  then have "k * n \<le> 2 ^ 33" by (simp add: us_per_second_def)
  moreover have "total_seconds (e - s) = of_int (k * n)"
    unfolding k' using calculation assms(1) by (intro total_seconds_exact) simp_all
  ultimately show thesis using that k' by blast
qed

lemma admit_chart_windowE:
  assumes "admit_chart_window iv rk v = Inr w" "hw_starts_at w = Some raw_start"
    "astimezone_utc raw_start = Inr s" "astimezone_utc (hw_ends_at w) = Inr e"
  shows "window_invalid iv s e = Inr False \<and> v = w
    \<and> \<lfloor>total_seconds (e - s) / of_int (interval_seconds iv)\<rfloor> \<le> MAX_CHART_HISTORY_CALENDAR_SLOTS"
  using assms
  by (auto simp: admit_chart_window_def Let_def reject_range_def res_simps
      split: if_splits option.splits)

text \<open>a window the chart history check returns is a whole positive number of slots of the
  interval, at most 60000, starts and ends on slot boundaries, and is the caller's own window
  when the caller gave one.\<close>

theorem chart_history_range_window_admits:
  assumes "chart_history_range_window range_key interval now window = Inr w"
    and "hw_starts_at w = Some raw_start"
    and "astimezone_utc raw_start = Inr s" and "astimezone_utc (hw_ends_at w) = Inr e"
    and "exact_epoch s" and "exact_epoch e"
  shows "py_lower (py_strip interval) \<in> set CHART_HISTORY_INTERVALS
    \<and> (\<exists>slots. 0 < slots \<and> slots \<le> MAX_CHART_HISTORY_CALENDAR_SLOTS
        \<and> e = s + slots * interval_seconds (py_lower (py_strip interval)) * us_per_second)
    \<and> timestamp_is_bucket_aligned s (interval_seconds (py_lower (py_strip interval))) = Inr True
    \<and> timestamp_is_bucket_aligned e (interval_seconds (py_lower (py_strip interval))) = Inr True
    \<and> (window = None \<or> window = Some w)"
proof -
  define iv where "iv = py_lower (py_strip interval)"
  define n where "n = interval_seconds iv"
  have n: "0 < n" by (simp add: n_def)
  obtain v where v: "admit_chart_window iv (py_lower (py_strip range_key)) v = Inr w"
    "iv \<in> set CHART_HISTORY_INTERVALS" "window = None \<or> window = Some v"
    using assms(1)
    by (auto simp: chart_history_range_window_def Let_def iv_def reject_range_def res_simps
        split: if_splits option.splits)
  note admitted = admit_chart_windowE [OF v(1) assms(2-4)]
  have g: "0 < total_seconds (e - s)" "interval_bucket s iv = Inr s" "interval_bucket e iv = Inr e"
    "\<lfloor>total_seconds (e - s) / of_int n\<rfloor> \<le> MAX_CHART_HISTORY_CALENDAR_SLOTS" "v = w"
    using admitted by (auto simp: window_invalid_def Let_def n_def res_simps split: if_splits)
  have d: "n * us_per_second dvd s" "n * us_per_second dvd e"
    using g(2,3) assms(5,6) bucket_us_fixed_iff [OF n] by (simp_all add: interval_bucket_us n_def)
  have "s < e"
  proof (rule ccontr)
    assume "\<not> s < e"
    then have "of_int (e - s) / 10 ^ 6 \<le> (0 :: rat)" by simp
    then have "total_seconds (e - s) \<le> 0"
      using rnd_val_mono [of "of_int (e - s) / 10 ^ 6" 0] by (simp add: total_seconds_def)
    with g(1) show False by simp
  qed
  with n d assms(5,6) obtain k where k: "e - s = k * n * us_per_second" "0 < k"
    "total_seconds (e - s) = of_int (k * n)"
    using aligned_difference by blast
  have "\<lfloor>of_int (k * n) / of_int n :: rat\<rfloor> = k" using n by simp
  then have "k \<le> MAX_CHART_HISTORY_CALENDAR_SLOTS" using g(4) k(3) by simp
  moreover have "e = s + k * n * us_per_second" using k(1) by linarith
  ultimately have "\<exists>slots. 0 < slots \<and> slots \<le> MAX_CHART_HISTORY_CALENDAR_SLOTS
      \<and> e = s + slots * n * us_per_second" using k(2) by blast
  then show ?thesis
    using g(5) v(2,3) d assms(5,6) n by (simp add: aligned_iff flip: iv_def n_def)
qed

lemma chart_days_multiple:
  assumes "iv \<in> set CHART_HISTORY_INTERVALS"
  obtains m where "86400 = interval_seconds iv * m" "0 < m"
  using chart_interval_seconds [OF assms] that [of 1440] that [of 480] that [of 288] that [of 96]
    that [of 24] by auto

lemma bucket_us_days:
  assumes "iv \<in> set CHART_HISTORY_INTERVALS"
  shows "bucket_us (interval_seconds iv) (now - d * us_per_day)
    = bucket_us (interval_seconds iv) now - d * us_per_day"
proof -
  let ?m = "interval_seconds iv * us_per_second"
  from chart_days_multiple [OF assms] obtain m where m: "86400 = interval_seconds iv * m" by blast
  then have day: "us_per_day = m * ?m" by (simp add: us_per_day_def us_per_second_def mult.commute)
  have "?m \<noteq> 0" using interval_seconds_pos [of iv] by (simp only: us_per_second_def)
  then have "(now + (- (d * m)) * ?m) div ?m = - (d * m) + now div ?m" by (rule div_mult_self1)
  then show ?thesis unfolding bucket_us_def day by (simp add: left_diff_distrib mult.assoc)
qed

text \<open>A range of digits and unit within the slot limit is never rejected on the window the
  code freezes itself: the load gets exactly the calendar days the range stands for, ending
  at the bucket of the current instant.\<close>

theorem fresh_chart_window_is_admitted:
  assumes "interval \<in> set CHART_HISTORY_INTERVALS"
    and "match_history_range range_key = Some (digits, unit)" and "py_int_of_str digits = Inr count"
    and "calendar_days count unit * 86400 div interval_seconds interval \<le> MAX_CHART_HISTORY_CALENDAR_SLOTS"
    and "exact_epoch now" and "exact_epoch (now - calendar_days count unit * us_per_day)"
    and "interval_bucket now interval = Inr bucket"
  shows "chart_history_range_window range_key interval now None =
    Inr \<lparr>hw_range_key = range_key,
         hw_starts_at = Some (utc_datetime (bucket - calendar_days count unit * us_per_day)),
         hw_ends_at = utc_datetime bucket\<rparr>"
proof -
  define n where "n = interval_seconds interval"
  define d where "d = calendar_days count unit"
  define start where "start = bucket - d * us_per_day"
  have n: "0 < n" by (simp add: n_def)
  have iv: "py_lower (py_strip interval) = interval"
    using assms(1) by (auto simp: CHART_HISTORY_INTERVALS_def py_strip_def py_lstrip_def py_lower_def
      is_space_chr_def lower_chr_def code_point_def)
  note m = match_history_range_Some [OF assms(2,3)]
  note rk = matched_range_normal [OF assms(2,3)]
  have d: "0 < d" using m(1,5) by (auto simp: d_def calendar_days_def)
  have b: "bucket = bucket_us n now" using assms(5,7) by (simp add: interval_bucket_us n_def)
  have sb: "start = bucket_us n (now - d * us_per_day)"
    using bucket_us_days [OF assms(1)] by (simp add: start_def b n_def)
  have ex: "exact_epoch bucket" "exact_epoch start"
    using assms(5,6) bucket_us_exact n by (simp_all add: b sb d_def)
  have al: "n * us_per_second dvd bucket" "n * us_per_second dvd start"
    using bucket_us_bounds(3) [OF n] by (simp_all add: b sb)
  have fixed: "interval_bucket bucket interval = Inr bucket" "interval_bucket start interval = Inr start"
    using ex al bucket_us_fixed_iff [OF n] by (simp_all add: interval_bucket_us n_def)
  have "start < bucket" using d by (simp add: start_def us_per_day_def)
  then obtain k where k: "bucket - start = k * n * us_per_second" "0 < k"
    "total_seconds (bucket - start) = of_int (k * n)"
    using aligned_difference n al ex by blast
  have "d * 86400 = k * n"
    using k(1) by (simp add: start_def us_per_day_def us_per_second_def)
  then have slots: "k \<le> MAX_CHART_HISTORY_CALENDAR_SLOTS"
    using assms(4) n by (simp flip: n_def d_def)
  have fl: "\<lfloor>of_int (k * n) / of_int n :: rat\<rfloor> = k" using n by simp
  have mult: "float_is_multiple (of_int (k * n)) n" using n by (simp only: float_is_multiple_of_int) simp
  have w: "history_range_window range_key interval now = Inr \<lparr>hw_range_key = range_key,
      hw_starts_at = Some (utc_datetime start), hw_ends_at = utc_datetime bucket\<rparr>"
    using assms(5,6,7) ex(2) sb
    by (simp add: history_range_window_def range_start_matched [OF assms(2,3)] instant_add_def
      in_range_exact interval_bucket_us n_def d_def)
  have notall: "range_key \<noteq> ''all''"
    using assms(2) by (auto simp: match_history_range_def is_decimal_chr_def code_point_def)
  have pos: "\<not> (of_int (k * n) :: rat) \<le> 0" using k(2) n by (simp add: mult_pos_pos not_le)
  show ?thesis
    unfolding chart_history_range_window_def admit_chart_window_def window_invalid_def Let_def iv rk
    using assms(1,2,3,4) rk notall w ex fixed k(3) slots fl mult pos
    by (simp add: in_range_exact n_def del: of_int_mult flip: d_def start_def)
qed

lemma fresh_chart_window_is_admitted_witness:
  "chart_history_range_window ''1d'' ''60m'' 1700000000000000 None =
    Inr \<lparr>hw_range_key = ''1d'', hw_starts_at = Some (utc_datetime (1699999200000000 - 172800000000)),
         hw_ends_at = utc_datetime 1699999200000000\<rparr>"
proof -
  have s: "interval_seconds ''60m'' = 3600" by code_simp
  have d: "calendar_days 1 ''d'' = 2" by (simp add: calendar_days_def)
  have m: "match_history_range ''1d'' = Some (''1'', ''d'')" "py_int_of_str ''1'' = Inr 1"
    by code_simp+
  have b: "interval_bucket 1700000000000000 ''60m'' = Inr 1699999200000000"
    by (simp add: interval_bucket_us exact_epoch_def s bucket_us_def us_per_second_def)
  show ?thesis
    using fresh_chart_window_is_admitted [OF _ m _ _ _ b]
    by (simp add: CHART_HISTORY_INTERVALS_def s d exact_epoch_def us_per_day_def
      MAX_CHART_HISTORY_CALENDAR_SLOTS_def)
qed

lemma chart_history_range_window_admits_witness:
  "\<exists>slots. 0 < slots \<and> slots \<le> MAX_CHART_HISTORY_CALENDAR_SLOTS
    \<and> 1699999200000000 = 1699826400000000 + slots * interval_seconds ''60m'' * us_per_second"
proof -
  let ?w = "\<lparr>hw_range_key = ''1d'', hw_starts_at = Some (utc_datetime 1699826400000000),
         hw_ends_at = utc_datetime 1699999200000000\<rparr>"
  have s: "interval_seconds ''60m'' = 3600" by code_simp
  have n: "py_lower (py_strip ''60m'') = ''60m''" "py_lower (py_strip ''1d'') = ''1d''" by code_simp+
  have m: "match_history_range ''1d'' = Some (''1'', ''d'')" "py_int_of_str ''1'' = Inr 1"
    by code_simp+
  have t: "total_seconds 172800000000 = 172800"
    using total_seconds_exact [of 172800] by (simp add: us_per_second_def)
  have f: "float_is_multiple 172800 3600"
    using float_is_multiple_of_int [of 3600 172800] by simp
  have w: "chart_history_range_window ''1d'' ''60m'' 0 (Some ?w) = Inr ?w"
    by (simp add: chart_history_range_window_def Let_def n m s calendar_days_def
      CHART_HISTORY_INTERVALS_def MAX_CHART_HISTORY_CALENDAR_SLOTS_def admit_chart_window_def
      window_invalid_def t f in_dt_range_def dt_min_def dt_max_def interval_bucket_us exact_epoch_def
      bucket_us_def us_per_second_def)
  show ?thesis
    using chart_history_range_window_admits [OF w, of "utc_datetime 1699826400000000"
        1699826400000000 1699999200000000]
    by (simp add: n in_dt_range_def dt_min_def dt_max_def exact_epoch_def)
qed

end
