(* ===== verification/HistoryCoverage.thy ===== *)
theory HistoryCoverage
  imports Identity Timeframes
begin

text \<open>
  \<open>data/history_coverage.py\<close>: receipts for admitted provider-complete ranges, their union,
  and the two queries on it. The union and the queries are related to the sets of instants
  they stand for; \<open>range_union\<close> is the interface the queries need from a union routine.
\<close>

section \<open>Contract and receipts\<close>

definition positive_version :: "pyval \<Rightarrow> string \<Rightarrow> int res" where
  "positive_version v field = (case v of
      VInt n \<Rightarrow> if n \<le> 0 then Inl (ValueError (field @ '' must be a positive integer'')) else Inr n
    | _ \<Rightarrow> Inl (ValueError (field @ '' must be a positive integer'')))"

definition non_negative_count :: "pyval \<Rightarrow> string \<Rightarrow> int res" where
  "non_negative_count v field = (case v of
      VInt n \<Rightarrow> if n < 0 then Inl (ValueError (field @ '' must be a non-negative integer'')) else Inr n
    | _ \<Rightarrow> Inl (ValueError (field @ '' must be a non-negative integer'')))"

record coverage_contract =
  cc_provider :: string
  cc_instrument_id :: string
  cc_route_fingerprint :: string
  cc_timeframe :: string
  cc_receipt_version :: int
  cc_request_version :: int
  cc_admission_version :: int
  cc_request_mode :: string
  cc_request_type :: string
  cc_provider_source :: string
  cc_provider_contract_id :: string
  cc_provider_contract_type :: string
  cc_data_type :: string

text \<open>The dataclass constructor with its \<open>__post_init__\<close>, over the arguments as they come.\<close>

definition HistoryCoverageContract ::
  "pyval \<Rightarrow> pyval \<Rightarrow> pyval \<Rightarrow> pyval \<Rightarrow> pyval \<Rightarrow> pyval \<Rightarrow> pyval \<Rightarrow> pyval \<Rightarrow> pyval \<Rightarrow> pyval \<Rightarrow> pyval
    \<Rightarrow> pyval \<Rightarrow> pyval \<Rightarrow> coverage_contract res" where
  "HistoryCoverageContract provider instrument_id fingerprint timeframe receipt_v request_v
      admission_v request_mode request_type provider_source contract_id contract_type data_type =
    rbind (require_exact_identity_text provider ''provider'' False) (\<lambda>p.
    rbind (require_exact_identity_text instrument_id ''instrument_id'' False) (\<lambda>i.
    rbind (require_exact_identity_text fingerprint ''route_fingerprint'' False) (\<lambda>f.
    rbind (require_exact_identity_text timeframe ''timeframe'' False) (\<lambda>tf.
    rbind (require_exact_identity_text request_mode ''request_mode'' False) (\<lambda>rm.
    rbind (require_exact_identity_text request_type ''request_type'' False) (\<lambda>rt.
    rbind (require_exact_identity_text provider_source ''provider_source'' False) (\<lambda>ps.
    rbind (require_exact_identity_text contract_id ''provider_contract_id'' False) (\<lambda>ci.
    rbind (require_exact_identity_text contract_type ''provider_contract_type'' False) (\<lambda>ct.
    rbind (require_exact_identity_text data_type ''data_type'' False) (\<lambda>dt.
    rbind (require (tf \<in> set PERSISTED_BAR_INTERVALS)
      (ValueError ''history coverage timeframe must be canonical'')) (\<lambda>_.
    rbind (require (rt = ''historical'')
      (ValueError ''history coverage request_type must be historical'')) (\<lambda>_.
    rbind (require (dt = ''TRADES'')
      (ValueError ''history coverage data_type must be TRADES'')) (\<lambda>_.
    rbind (positive_version receipt_v ''receipt_contract_version'') (\<lambda>v1.
    rbind (positive_version request_v ''request_contract_version'') (\<lambda>v2.
    rbind (positive_version admission_v ''admission_contract_version'') (\<lambda>v3.
    Inr \<lparr>cc_provider = p, cc_instrument_id = i, cc_route_fingerprint = f, cc_timeframe = tf,
         cc_receipt_version = v1, cc_request_version = v2, cc_admission_version = v3,
         cc_request_mode = rm, cc_request_type = rt, cc_provider_source = ps,
         cc_provider_contract_id = ci, cc_provider_contract_type = ct,
         cc_data_type = dt\<rparr>))))))))))))))))"

definition current_history_coverage_contract ::
  "pyval \<Rightarrow> pyval \<Rightarrow> pyval \<Rightarrow> pyval \<Rightarrow> pyval \<Rightarrow> pyval \<Rightarrow> pyval \<Rightarrow> pyval \<Rightarrow> pyval \<Rightarrow> pyval
    \<Rightarrow> coverage_contract res" where
  "current_history_coverage_contract provider instrument_id fingerprint timeframe request_mode
      request_type provider_source contract_id contract_type data_type =
    HistoryCoverageContract provider instrument_id fingerprint timeframe (VInt 2) (VInt 2) (VInt 2)
      request_mode request_type provider_source contract_id contract_type data_type"

record coverage_receipt =
  cr_contract :: coverage_contract
  cr_covered_from :: instant
  cr_covered_to :: instant
  cr_response_count :: int
  cr_completed_at :: instant
  cr_provider_limit :: "int option"

definition HistoryCoverageReceipt ::
  "coverage_contract \<Rightarrow> pyval \<Rightarrow> pyval \<Rightarrow> pyval \<Rightarrow> pyval \<Rightarrow> pyval \<Rightarrow> coverage_receipt res" where
  "HistoryCoverageReceipt contract covered_from covered_to response_count completed_at limit =
    rbind (require_aware_utc_datetime covered_from ''covered_from'') (\<lambda>f.
    rbind (require_aware_utc_datetime covered_to ''covered_to'') (\<lambda>t.
    rbind (require_aware_utc_datetime completed_at ''completed_at'') (\<lambda>c.
    rbind (require (f < t) (ValueError ''history coverage range must be non-empty'')) (\<lambda>_.
    rbind (require (t \<le> c) (ValueError ''history coverage range must be fully elapsed'')) (\<lambda>_.
    rbind (non_negative_count response_count ''response_count'') (\<lambda>n.
    rbind (if limit = VNone then Inr None
           else rbind (positive_version limit ''provider_limit'') (\<lambda>l.
             if l \<le> n then Inl (ValueError ''history coverage response must not be saturated'')
             else Inr (Some l))) (\<lambda>l.
    Inr \<lparr>cr_contract = contract, cr_covered_from = f, cr_covered_to = t, cr_response_count = n,
         cr_completed_at = c, cr_provider_limit = l\<rparr>)))))))"

text \<open>
  \<open>CanonicalHistoryCommitReceipt\<close>: the bar receipt enters with its \<open>written\<close> and \<open>deleted\<close>
  counts, the only fields read.
\<close>

record history_commit_receipt =
  hc_written :: int
  hc_deleted :: int
  hc_coverage_inserted :: int
  hc_coverage_expanded :: bool
  hc_mutated :: bool

definition CanonicalHistoryCommitReceipt ::
  "int \<Rightarrow> int \<Rightarrow> pyval \<Rightarrow> pyval \<Rightarrow> history_commit_receipt res" where
  "CanonicalHistoryCommitReceipt written deleted inserted expanded = (case inserted of
      VInt n \<Rightarrow>
        if n < 0 then Inl (TypeError ''coverage_inserted must be a non-negative integer'')
        else (case expanded of
            VBool e \<Rightarrow>
              if e \<and> n = 0 then Inl (ValueError ''coverage expansion requires inserted receipts'')
              else Inr \<lparr>hc_written = written, hc_deleted = deleted, hc_coverage_inserted = n,
                        hc_coverage_expanded = e,
                        hc_mutated = (written \<noteq> 0 \<or> deleted \<noteq> 0 \<or> e)\<rparr>
          | _ \<Rightarrow> Inl (TypeError ''coverage_expanded must be bool''))
    | _ \<Rightarrow> Inl (TypeError ''coverage_inserted must be a non-negative integer''))"

section \<open>Union of receipts\<close>

type_synonym span = "instant \<times> instant"

definition merge_step :: "span list \<Rightarrow> span \<Rightarrow> span list" where
  "merge_step merged r =
    (if merged = [] \<or> snd (last merged) < fst r then merged @ [r]
     else butlast merged @ [(fst (last merged), max (snd (last merged)) (snd r))])"

definition merge_spans :: "span list \<Rightarrow> span list" where
  "merge_spans spans = foldl merge_step [] (sort spans)"

definition receipt_span :: "coverage_receipt \<Rightarrow> span" where
  "receipt_span r = (cr_covered_from r, cr_covered_to r)"

text \<open>Sorting the receipts by their range and merging the ranges looks at the ranges only.\<close>

definition history_coverage_union :: "coverage_receipt list \<Rightarrow> span list res" where
  "history_coverage_union receipts = (case receipts of
      [] \<Rightarrow> Inr []
    | r # _ \<Rightarrow>
        if list_ex (\<lambda>x. cr_contract x \<noteq> cr_contract r) receipts
        then Inl (ValueError ''history coverage union requires one exact contract'')
        else Inr (merge_spans (map receipt_span receipts)))"

section \<open>Queries\<close>

definition query_range :: "pyval \<Rightarrow> pyval \<Rightarrow> span res" where
  "query_range starts_at ends_at =
    rbind (require_aware_utc_datetime starts_at ''starts_at'') (\<lambda>s.
    rbind (require_aware_utc_datetime ends_at ''ends_at'') (\<lambda>e.
      if e \<le> s then Inl (ValueError ''history coverage query range must be non-empty'')
      else Inr (s, e)))"

definition history_range_is_covered :: "coverage_receipt list \<Rightarrow> pyval \<Rightarrow> pyval \<Rightarrow> bool res" where
  "history_range_is_covered receipts starts_at ends_at =
    rbind (query_range starts_at ends_at) (\<lambda>(s, e).
    rbind (history_coverage_union receipts) (\<lambda>spans.
      Inr (list_ex (\<lambda>(f, t). f \<le> s \<and> e \<le> t) spans)))"

text \<open>The scan of the union with the cursor and the gaps found so far; \<open>break\<close> ends it.\<close>

fun uncovered_loop :: "instant \<Rightarrow> instant \<Rightarrow> span list \<Rightarrow> instant \<Rightarrow> span list \<Rightarrow> instant \<times> span list" where
  "uncovered_loop s e [] cursor gaps = (cursor, gaps)"
| "uncovered_loop s e ((f, t) # rest) cursor gaps =
    (if t \<le> cursor then uncovered_loop s e rest cursor gaps
     else if e \<le> f then (cursor, gaps)
     else let cf = max f s; ct = min t e;
              gaps' = (if cursor < cf then gaps @ [(cursor, cf)] else gaps);
              cursor' = max cursor ct
          in if e \<le> cursor' then (cursor', gaps') else uncovered_loop s e rest cursor' gaps')"

definition uncovered_spans :: "span list \<Rightarrow> instant \<Rightarrow> instant \<Rightarrow> span list" where
  "uncovered_spans spans s e = (case uncovered_loop s e spans s [] of
     (cursor, gaps) \<Rightarrow> if cursor < e then gaps @ [(cursor, e)] else gaps)"

definition history_uncovered_ranges ::
  "coverage_receipt list \<Rightarrow> pyval \<Rightarrow> pyval \<Rightarrow> span list res" where
  "history_uncovered_ranges receipts starts_at ends_at =
    rbind (query_range starts_at ends_at) (\<lambda>(s, e).
    rbind (history_coverage_union receipts) (\<lambda>spans. Inr (uncovered_spans spans s e)))"

section \<open>What spans denote\<close>

definition span_points :: "span \<Rightarrow> instant set" where
  "span_points p = {t. fst p \<le> t \<and> t < snd p}"

definition points :: "span list \<Rightarrow> instant set" where
  "points ps = (\<Union>p \<in> set ps. span_points p)"

text \<open>Non-empty spans in ascending order with a gap between neighbours.\<close>

definition separated :: "span list \<Rightarrow> bool" where
  "separated ps = ((\<forall>p \<in> set ps. fst p < snd p) \<and> sorted_wrt (\<lambda>p q. snd p < fst q) ps)"

lemma points_simps [simp]:
  "points [] = {}"
  "points (p # ps) = span_points p \<union> points ps"
  "points (ps @ qs) = points ps \<union> points qs"
  by (auto simp: points_def)

lemma separated_simps:
  "separated []"
  "separated (p # ps) \<longleftrightarrow> fst p < snd p \<and> (\<forall>q \<in> set ps. snd p < fst q) \<and> separated ps"
  by (auto simp: separated_def)

lemma separated_append:
  "separated (ps @ qs) \<longleftrightarrow> separated ps \<and> separated qs \<and> (\<forall>p \<in> set ps. \<forall>q \<in> set qs. snd p < fst q)"
  by (auto simp: separated_def sorted_wrt_append)

section \<open>Correctness of the union\<close>

lemma merge_step_correct:
  assumes sep: "separated acc" and r: "fst r < snd r"
    and ord: "acc \<noteq> [] \<Longrightarrow> fst (last acc) \<le> fst r"
  shows "separated (merge_step acc r)" "points (merge_step acc r) = points acc \<union> span_points r"
    "merge_step acc r \<noteq> []" "fst (last (merge_step acc r)) \<le> fst r"
proof -
  have "separated (merge_step acc r) \<and> points (merge_step acc r) = points acc \<union> span_points r
    \<and> merge_step acc r \<noteq> [] \<and> fst (last (merge_step acc r)) \<le> fst r"
  proof (cases acc rule: rev_cases)
    case Nil
    then show ?thesis using r by (simp add: merge_step_def separated_simps)
  next
    case (snoc ps q)
    with sep ord have q: "fst q < snd q" "\<forall>p \<in> set ps. snd p < fst q" "fst q \<le> fst r"
      "separated ps"
      by (auto simp: separated_append separated_simps)
    show ?thesis
    proof (cases "snd q < fst r")
      case True
      with snoc q r show ?thesis
        by (force simp: merge_step_def separated_append separated_simps)
    next
      case False
      then have "span_points (fst q, max (snd q) (snd r)) = span_points q \<union> span_points r"
        using q r by (auto simp: span_points_def max_def)
      with False snoc q r show ?thesis
        by (auto simp: merge_step_def separated_append separated_simps max_def)
    qed
  qed
  then show "separated (merge_step acc r)" "points (merge_step acc r) = points acc \<union> span_points r"
    "merge_step acc r \<noteq> []" "fst (last (merge_step acc r)) \<le> fst r"
    by blast+
qed

lemma foldl_merge_step:
  assumes "separated acc" "\<forall>r \<in> set rs. fst r < snd r" "sorted_wrt (\<lambda>p q. fst p \<le> fst q) rs"
    "acc \<noteq> [] \<Longrightarrow> \<forall>r \<in> set rs. fst (last acc) \<le> fst r"
  shows "separated (foldl merge_step acc rs) \<and> points (foldl merge_step acc rs) = points acc \<union> points rs"
  using assms
proof (induction rs arbitrary: acc)
  case Nil
  then show ?case by simp
next
  case (Cons r rs)
  have m: "separated (merge_step acc r)" "points (merge_step acc r) = points acc \<union> span_points r"
    "fst (last (merge_step acc r)) \<le> fst r"
    using Cons.prems merge_step_correct [of acc r] by auto
  with Cons.prems have "\<forall>q \<in> set rs. fst (last (merge_step acc r)) \<le> fst q" by fastforce
  with m Cons.prems Cons.IH [of "merge_step acc r"] show ?case by auto
qed

lemma sorted_spans_fst: "sorted (ps :: span list) \<Longrightarrow> sorted_wrt (\<lambda>p q. fst p \<le> fst q) ps"
  by (erule sorted_wrt_mono_rel [rotated]) (auto simp: less_eq_prod_def)

lemma merge_spans_correct:
  assumes "\<forall>p \<in> set ps. fst p < snd p"
  shows "separated (merge_spans ps)" and "points (merge_spans ps) = points ps"
proof -
  have "separated (merge_spans ps) \<and> points (merge_spans ps) = points [] \<union> points (sort ps)"
    unfolding merge_spans_def using assms
    by (intro foldl_merge_step) (auto simp: separated_simps sorted_spans_fst)
  moreover have "points (sort ps) = points ps" by (simp add: points_def)
  ultimately show "separated (merge_spans ps)" "points (merge_spans ps) = points ps" by auto
qed

section \<open>Correctness of the queries on separated spans\<close>

lemma separated_covers_iff:
  assumes sep: "separated ps" and se: "s < e"
  shows "list_ex (\<lambda>(f, t). f \<le> s \<and> e \<le> t) ps \<longleftrightarrow> span_points (s, e) \<subseteq> points ps"
proof
  assume "list_ex (\<lambda>(f, t). f \<le> s \<and> e \<le> t) ps"
  then show "span_points (s, e) \<subseteq> points ps"
    by (force simp: list_ex_iff points_def span_points_def)
next
  assume sub: "span_points (s, e) \<subseteq> points ps"
  have "s \<in> span_points (s, e)" using se by (simp add: span_points_def)
  with sub obtain p where p: "p \<in> set ps" "fst p \<le> s" "s < snd p"
    by (auto simp: points_def span_points_def)
  have "e \<le> snd p"
  proof (rule ccontr)
    assume "\<not> e \<le> snd p"
    with p have "snd p \<in> span_points (s, e)" by (simp add: span_points_def)
    with sub obtain q where q: "q \<in> set ps" "fst q \<le> snd p" "snd p < snd q"
      by (auto simp: points_def span_points_def)
    have "p = q \<or> snd p < fst q \<or> snd q < fst p"
      using sep p(1) q(1)
      by (induction ps) (auto simp: separated_simps)
    with p q show False by auto
  qed
  with p show "list_ex (\<lambda>(f, t). f \<le> s \<and> e \<le> t) ps"
    by (auto simp: list_ex_iff)
qed

definition close_gaps :: "instant \<Rightarrow> instant \<times> span list \<Rightarrow> span list" where
  "close_gaps e r = (case r of (cursor, gaps) \<Rightarrow> if cursor < e then gaps @ [(cursor, e)] else gaps)"

lemma uncovered_loop_correct:
  assumes "separated ps" "s \<le> c" "c < e" "separated gaps" "\<forall>g \<in> set gaps. snd g < c"
  shows "points (close_gaps e (uncovered_loop s e ps c gaps)) =
      points gaps \<union> (span_points (c, e) - points ps)
    \<and> separated (close_gaps e (uncovered_loop s e ps c gaps))"
  using assms
proof (induction ps arbitrary: c gaps)
  case Nil
  then show ?case by (auto simp: close_gaps_def separated_append separated_simps)
next
  case (Cons p rest)
  obtain f t where p: "p = (f, t)" by (cases p)
  from Cons.prems(1) have ft: "f < t" and later: "\<forall>q \<in> set rest. t < fst q" and sep: "separated rest"
    by (auto simp: p separated_simps)
  consider "t \<le> c" | "c < t" "e \<le> f" | "c < t" "f < e" by linarith
  then show ?case
  proof cases
    case 1
    have "span_points (c, e) - points (p # rest) = span_points (c, e) - points rest"
      using 1 by (auto simp: p span_points_def)
    then show ?thesis using Cons.IH [OF sep] Cons.prems 1 by (simp add: p)
  next
    case 2
    have "points (p # rest) \<inter> span_points (c, e) = {}"
      using 2 ft later by (force simp: p points_def span_points_def)
    then show ?thesis
      using Cons.prems 2 by (auto simp: p close_gaps_def separated_append separated_simps)
  next
    case 3
    define ct where "ct = min t e"
    define gaps' where "gaps' = (if c < f then gaps @ [(c, f)] else gaps)"
    have ct: "max c (min t e) = ct" "c < ct" "f < ct" "s \<le> ct"
      using 3 Cons.prems ft by (auto simp: ct_def)
    have g: "(if c < max f s then gaps @ [(c, max f s)] else gaps) = gaps'"
      using Cons.prems by (auto simp: gaps'_def max_def)
    have loop: "uncovered_loop s e (p # rest) c gaps =
        (if e \<le> ct then (ct, gaps') else uncovered_loop s e rest ct gaps')"
      using 3 ct g by (simp only: p uncovered_loop.simps Let_def) auto
    have gp: "points gaps' = points gaps \<union> {x. c \<le> x \<and> x < f}"
      by (auto simp: gaps'_def span_points_def)
    have gs: "separated gaps'" "\<forall>g \<in> set gaps'. snd g < ct"
      using Cons.prems ct by (auto simp: gaps'_def separated_append separated_simps)
    have rest_late: "x \<in> points rest \<Longrightarrow> t < x" for x
      using later by (force simp: points_def span_points_def)
    have split: "span_points (c, e) - points (p # rest) =
        {x. c \<le> x \<and> x < f} \<union> (span_points (ct, e) - points rest)"
      using 3 ct rest_late ft by (fastforce simp: p span_points_def ct_def)
    show ?thesis
    proof (cases "e \<le> ct")
      case True
      then have "span_points (ct, e) = {}" by (auto simp: span_points_def)
      with True show ?thesis using gs by (simp only: loop split) (auto simp: close_gaps_def gp)
    next
      case False
      then show ?thesis
        using Cons.IH [OF sep ct(4) _ gs(1,2)] by (simp only: loop split) (auto simp: gp)
    qed
  qed
qed

lemma uncovered_spans_correct:
  assumes "separated ps" "s < e"
  shows "points (uncovered_spans ps s e) = span_points (s, e) - points ps"
    and "separated (uncovered_spans ps s e)"
proof -
  have "uncovered_spans ps s e = close_gaps e (uncovered_loop s e ps s [])"
    by (simp add: uncovered_spans_def close_gaps_def)
  with uncovered_loop_correct [of ps s s e "[]"] assms
  show "points (uncovered_spans ps s e) = span_points (s, e) - points ps"
    "separated (uncovered_spans ps s e)"
    by (auto simp: separated_simps)
qed

lemma separated_empty_iff: "separated ps \<Longrightarrow> ps = [] \<longleftrightarrow> points ps = {}"
  by (cases ps) (auto simp: separated_simps span_points_def)

section \<open>The interface of a union routine\<close>

text \<open>
  What the two queries need of the union they scan: it stands for the same instants as the
  ranges it was built from and its spans are separated. Any routine with these two laws
  answers both queries correctly.
\<close>

locale range_union =
  fixes span :: "'r \<Rightarrow> span"
    and union_of :: "span list \<Rightarrow> span list"
    and ok :: "'r \<Rightarrow> bool"
  assumes union_separated: "\<forall>r \<in> set rs. ok r \<Longrightarrow> separated (union_of (map span rs))"
    and union_points: "\<forall>r \<in> set rs. ok r \<Longrightarrow> points (union_of (map span rs)) = points (map span rs)"
begin

definition covers :: "'r list \<Rightarrow> instant \<Rightarrow> instant \<Rightarrow> bool" where
  "covers rs s e = list_ex (\<lambda>(f, t). f \<le> s \<and> e \<le> t) (union_of (map span rs))"

definition gaps :: "'r list \<Rightarrow> instant \<Rightarrow> instant \<Rightarrow> span list" where
  "gaps rs s e = uncovered_spans (union_of (map span rs)) s e"

lemma covers_iff:
  assumes "\<forall>r \<in> set rs. ok r" and "s < e"
  shows "covers rs s e \<longleftrightarrow> span_points (s, e) \<subseteq> points (map span rs)"
  using separated_covers_iff [OF union_separated [OF assms(1)] assms(2)] union_points [OF assms(1)]
  by (simp add: covers_def)

lemma gaps_points:
  assumes "\<forall>r \<in> set rs. ok r" and "s < e"
  shows "points (gaps rs s e) = span_points (s, e) - points (map span rs)"
  using uncovered_spans_correct(1) [OF union_separated [OF assms(1)] assms(2)]
    union_points [OF assms(1)]
  by (simp add: gaps_def)

lemma gaps_separated:
  assumes "\<forall>r \<in> set rs. ok r" and "s < e"
  shows "separated (gaps rs s e)"
  using uncovered_spans_correct(2) [OF union_separated [OF assms(1)] assms(2)]
  by (simp add: gaps_def)

lemma covers_iff_no_gap:
  assumes "\<forall>r \<in> set rs. ok r" and "s < e"
  shows "covers rs s e \<longleftrightarrow> gaps rs s e = []"
  using assms covers_iff gaps_points gaps_separated separated_empty_iff by simp

lemma refetch_covers:
  assumes "\<forall>r \<in> set rs. ok r" "\<forall>r \<in> set qs. ok r" and "s < e"
    and "points (gaps rs s e) \<subseteq> points (map span qs)"
  shows "covers (rs @ qs) s e"
proof -
  have "\<forall>r \<in> set (rs @ qs). ok r" using assms by auto
  with assms show ?thesis by (auto simp: covers_iff gaps_points)
qed

end

text \<open>A receipt the constructor accepted has a non-empty range.\<close>

definition receipt_ok :: "coverage_receipt \<Rightarrow> bool" where
  "receipt_ok r = (cr_covered_from r < cr_covered_to r)"

interpretation ru: range_union receipt_span merge_spans receipt_ok
proof unfold_locales
  fix rs :: "coverage_receipt list"
  assume "\<forall>r \<in> set rs. receipt_ok r"
  then have ok: "\<forall>p \<in> set (map receipt_span rs). fst p < snd p"
    by (auto simp: receipt_ok_def receipt_span_def)
  show "separated (merge_spans (map receipt_span rs))"
    "points (merge_spans (map receipt_span rs)) = points (map receipt_span rs)"
    using merge_spans_correct [OF ok] by auto
qed

section \<open>The code's queries in terms of the interface\<close>

definition one_contract :: "coverage_receipt list \<Rightarrow> bool" where
  "one_contract rs = (\<forall>r \<in> set rs. \<forall>q \<in> set rs. cr_contract r = cr_contract q)"

lemma union_one_contract:
  "history_coverage_union rs =
     (if one_contract rs then Inr (merge_spans (map receipt_span rs))
      else Inl (ValueError ''history coverage union requires one exact contract''))"
proof (cases rs)
  case Nil
  then show ?thesis by (simp add: history_coverage_union_def one_contract_def merge_spans_def)
next
  case (Cons r rest)
  have "list_ex (\<lambda>x. cr_contract x \<noteq> cr_contract r) rs \<longleftrightarrow> \<not> one_contract rs"
    using Cons by (auto simp: one_contract_def list_ex_iff) metis+
  with Cons show ?thesis by (auto simp: history_coverage_union_def)
qed

lemma receipt_constructor_ok:
  "HistoryCoverageReceipt c f t n completed lmt = Inr r \<Longrightarrow> receipt_ok r"
  by (auto simp: HistoryCoverageReceipt_def receipt_ok_def res_simps)

lemma query_range_Inr: "query_range a b = Inr (s, e) \<Longrightarrow> s < e"
  by (auto simp: query_range_def res_simps split: if_splits)

lemma covered_query:
  assumes "query_range a b = Inr (s, e)" and "one_contract rs"
  shows "history_range_is_covered rs a b = Inr (ru.covers rs s e)"
  using assms by (simp add: history_range_is_covered_def union_one_contract ru.covers_def)

lemma uncovered_query:
  assumes "query_range a b = Inr (s, e)" and "one_contract rs"
  shows "history_uncovered_ranges rs a b = Inr (ru.gaps rs s e)"
  using assms by (simp add: history_uncovered_ranges_def union_one_contract ru.gaps_def)

section \<open>A separated list is determined by its points\<close>

lemma separated_first:
  assumes "separated (p # ps)" "t \<in> points (p # ps)"
  shows "fst p \<le> t"
  using assms by (fastforce simp: points_def span_points_def separated_simps)

lemma separated_unique:
  assumes "separated ps" "separated qs" "points ps = points qs"
  shows "ps = qs"
  using assms
proof (induction ps arbitrary: qs)
  case Nil
  then show ?case using separated_empty_iff by fastforce
next
  case (Cons p ps)
  then have "qs \<noteq> []" using separated_empty_iff [of "p # ps"] by auto
  then obtain q qs' where qs: "qs = q # qs'" by (cases qs) auto
  have sp: "fst p < snd p" "\<forall>r \<in> set ps. snd p < fst r" "separated ps"
    and sq: "fst q < snd q" "\<forall>r \<in> set qs'. snd q < fst r" "separated qs'"
    using Cons.prems qs by (auto simp: separated_simps)
  have late_p: "x \<in> points ps \<Longrightarrow> snd p < x" and late_q: "x \<in> points qs' \<Longrightarrow> snd q < x" for x
    using sp sq by (fastforce simp: points_def span_points_def)+
  have mem: "x \<in> span_points p \<or> x \<in> points ps \<longleftrightarrow> x \<in> span_points q \<or> x \<in> points qs'" for x
    using Cons.prems(3) by (auto simp: qs)
  have "fst p \<le> fst q"
  proof -
    have "fst q \<in> span_points p \<or> fst q \<in> points ps"
      unfolding mem using sq(1) by (simp add: span_points_def)
    then show ?thesis using late_p [of "fst q"] sp(1) by (auto simp: span_points_def)
  qed
  moreover have "fst q \<le> fst p"
  proof -
    have "fst p \<in> span_points q \<or> fst p \<in> points qs'"
      unfolding mem [symmetric] using sp(1) by (simp add: span_points_def)
    then show ?thesis using late_q [of "fst p"] sq(1) by (auto simp: span_points_def)
  qed
  ultimately have f: "fst p = fst q" by simp
  have "\<not> snd p < snd q"
  proof
    assume l: "snd p < snd q"
    then have "snd p \<in> span_points p \<or> snd p \<in> points ps"
      unfolding mem using f sp(1) by (simp add: span_points_def)
    then show False using late_p [of "snd p"] by (auto simp: span_points_def)
  qed
  moreover have "\<not> snd q < snd p"
  proof
    assume l: "snd q < snd p"
    then have "snd q \<in> span_points q \<or> snd q \<in> points qs'"
      unfolding mem [symmetric] using f sq(1) by (simp add: span_points_def)
    then show False using late_q [of "snd q"] by (auto simp: span_points_def)
  qed
  ultimately have pq: "p = q" using f by (simp add: prod_eq_iff)
  have "x \<in> points ps \<longleftrightarrow> x \<in> points qs'" for x
    using mem [of x] late_p [of x] late_q [of x] pq by (auto simp: span_points_def)
  then have "points ps = points qs'" by blast
  then show ?case using Cons.IH [OF sp(3) sq(3)] pq qs by simp
qed

section \<open>Properties\<close>

text \<open>The union of receipts either is refused, exactly when two receipts carry different
  contracts, or is a list of non-empty, ascending, pairwise non-adjacent ranges that together
  contain exactly the instants the receipts cover: nothing is lost and no slot is invented.\<close>

theorem history_coverage_union_exact:
  assumes "\<forall>r \<in> set receipts. receipt_ok r"
  shows "case history_coverage_union receipts of
      Inl e \<Rightarrow> e = ValueError ''history coverage union requires one exact contract''
        \<and> \<not> one_contract receipts
    | Inr spans \<Rightarrow> one_contract receipts
        \<and> separated spans \<and> points spans = points (map receipt_span receipts)"
  using ru.union_separated [OF assms] ru.union_points [OF assms]
  by (simp add: union_one_contract)

definition example_contract :: coverage_contract where
  "example_contract = \<lparr>cc_provider = ''ibkr'', cc_instrument_id = ''ibkr|contract|1'',
    cc_route_fingerprint = ''ibkr|contract|1'', cc_timeframe = ''1m'', cc_receipt_version = 2,
    cc_request_version = 2, cc_admission_version = 2, cc_request_mode = ''rth'',
    cc_request_type = ''historical'', cc_provider_source = ''ibkr'',
    cc_provider_contract_id = ''1'', cc_provider_contract_type = ''STK'', cc_data_type = ''TRADES''\<rparr>"

definition example_receipt :: "instant \<Rightarrow> instant \<Rightarrow> coverage_receipt" where
  "example_receipt f t = \<lparr>cr_contract = example_contract, cr_covered_from = f, cr_covered_to = t,
    cr_response_count = 1, cr_completed_at = t, cr_provider_limit = None\<rparr>"

definition example_receipts :: "coverage_receipt list" where
  "example_receipts = [example_receipt 60 90, example_receipt 0 30, example_receipt 30 45]"

lemma example_receipts_ok:
  "\<forall>r \<in> set example_receipts. receipt_ok r" "one_contract example_receipts"
  by (simp_all add: example_receipts_def example_receipt_def receipt_ok_def one_contract_def)

lemma example_union: "history_coverage_union example_receipts = Inr [(0, 45), (60, 90)]"
  using example_receipts_ok(2)
  by (simp add: union_one_contract merge_spans_def merge_step_def example_receipts_def
    example_receipt_def receipt_span_def)

lemma example_query:
  assumes "0 \<le> s" "s < e" "e < 1000"
  shows "query_range (VDateTime (utc_datetime s)) (VDateTime (utc_datetime e)) = Inr (s, e)"
  using assms by (simp add: query_range_def require_aware_utc_datetime_def in_dt_range_def dt_min_def
    dt_max_def)

lemma example_uncovered:
  "history_uncovered_ranges example_receipts (VDateTime (utc_datetime 20)) (VDateTime (utc_datetime 120))
    = Inr [(45, 60), (90, 120)]"
  by (simp add: history_uncovered_ranges_def example_query example_union uncovered_spans_def)

lemma history_coverage_union_exact_witness:
  "separated [(0, 45), (60, 90)] \<and> points [(0, 45), (60, 90)] = points (map receipt_span example_receipts)"
  using history_coverage_union_exact [OF example_receipts_ok(1)] by (simp add: example_union)

text \<open>A half-open range counts as covered if and only if every instant of it lies in
  some receipt, although the code only looks for one merged range that contains it.\<close>

theorem history_range_is_covered_iff_subset:
  assumes "\<forall>r \<in> set receipts. receipt_ok r"
    and "one_contract receipts"
    and "require_aware_utc_datetime starts_at ''starts_at'' = Inr s"
    and "require_aware_utc_datetime ends_at ''ends_at'' = Inr e"
    and "s < e"
  shows "history_range_is_covered receipts starts_at ends_at =
    Inr (span_points (s, e) \<subseteq> points (map receipt_span receipts))"
proof -
  have "query_range starts_at ends_at = Inr (s, e)" "one_contract receipts"
    using assms by (simp_all add: query_range_def)
  then show ?thesis using assms by (simp add: covered_query ru.covers_iff)
qed

lemma history_range_is_covered_iff_subset_witness:
  "history_range_is_covered example_receipts (VDateTime (utc_datetime 5)) (VDateTime (utc_datetime 40))
    = Inr (span_points (5, 40) \<subseteq> points (map receipt_span example_receipts))"
  by (rule history_range_is_covered_iff_subset)
    (use example_receipts_ok in \<open>auto simp: require_aware_utc_datetime_def
      in_dt_range_def dt_min_def dt_max_def\<close>)

text \<open>The ranges reported as uncovered are exactly the instants of the query that no
  receipt covers, as non-empty, ascending, non-adjacent ranges, and there is none exactly
  when the query counts as covered.\<close>

theorem history_uncovered_ranges_exact:
  assumes "\<forall>r \<in> set receipts. receipt_ok r"
    and "one_contract receipts"
    and "require_aware_utc_datetime starts_at ''starts_at'' = Inr s"
    and "require_aware_utc_datetime ends_at ''ends_at'' = Inr e"
    and "s < e"
  shows "\<exists>missing. history_uncovered_ranges receipts starts_at ends_at = Inr missing
    \<and> separated missing
    \<and> points missing = span_points (s, e) - points (map receipt_span receipts)
    \<and> history_range_is_covered receipts starts_at ends_at = Inr (missing = [])"
proof -
  have "query_range starts_at ends_at = Inr (s, e)" "one_contract receipts"
    using assms by (simp_all add: query_range_def)
  then show ?thesis using assms
    by (simp add: covered_query uncovered_query ru.gaps_points ru.gaps_separated ru.covers_iff_no_gap)
qed

lemma history_uncovered_ranges_exact_witness:
  "history_range_is_covered example_receipts (VDateTime (utc_datetime 20)) (VDateTime (utc_datetime 120))
    = Inr False"
proof -
  have "history_uncovered_ranges example_receipts (VDateTime (utc_datetime 20)) (VDateTime (utc_datetime 120))
      = Inr [(45, 60), (90, 120)]"
    by (rule example_uncovered)
  moreover have "\<exists>missing. history_uncovered_ranges example_receipts (VDateTime (utc_datetime 20))
      (VDateTime (utc_datetime 120)) = Inr missing \<and> separated missing
    \<and> points missing = span_points (20, 120) - points (map receipt_span example_receipts)
    \<and> history_range_is_covered example_receipts (VDateTime (utc_datetime 20))
        (VDateTime (utc_datetime 120)) = Inr (missing = [])"
    by (rule history_uncovered_ranges_exact)
      (use example_receipts_ok in \<open>auto simp: require_aware_utc_datetime_def
        in_dt_range_def dt_min_def dt_max_def\<close>)
  ultimately show ?thesis by simp
qed

text \<open>Once receipts for the reported gaps are added (they may cover more), the same query
  counts as covered: a refill of the gaps always ends the refill.\<close>

theorem fetching_the_gaps_completes_coverage:
  assumes "\<forall>r \<in> set (receipts @ fetched). receipt_ok r"
    and "one_contract (receipts @ fetched)"
    and "history_uncovered_ranges receipts starts_at ends_at = Inr missing"
    and "points missing \<subseteq> points (map receipt_span fetched)"
  shows "history_range_is_covered (receipts @ fetched) starts_at ends_at = Inr True"
proof -
  have one: "one_contract receipts"
    using assms(2) unfolding one_contract_def set_append by blast
  obtain s e where q: "query_range starts_at ends_at = Inr (s, e)"
    using assms(3) by (auto simp: history_uncovered_ranges_def res_simps)
  from q assms one query_range_Inr [OF q] show ?thesis
    by (simp add: covered_query uncovered_query ru.refetch_covers)
qed

lemma fetching_the_gaps_completes_coverage_witness:
  "history_range_is_covered (example_receipts @ [example_receipt 45 61, example_receipt 90 120])
     (VDateTime (utc_datetime 20)) (VDateTime (utc_datetime 120)) = Inr True"
proof (rule fetching_the_gaps_completes_coverage)
  show "history_uncovered_ranges example_receipts (VDateTime (utc_datetime 20))
    (VDateTime (utc_datetime 120)) = Inr [(45, 60), (90, 120)]"
    by (rule example_uncovered)
qed (auto simp: example_receipts_def example_receipt_def receipt_ok_def receipt_span_def
    one_contract_def points_def span_points_def)

text \<open>The union depends on the set of receipts only, not on their order or repetition.\<close>

theorem history_coverage_union_order_independent:
  assumes "\<forall>r \<in> set receipts. receipt_ok r"
    and "set (permuted) = set receipts"
  shows "history_coverage_union permuted = history_coverage_union receipts"
proof -
  have "one_contract permuted = one_contract receipts" by (simp add: one_contract_def assms)
  moreover have "points (map receipt_span permuted) = points (map receipt_span receipts)"
    by (simp add: points_def assms)
  then have "merge_spans (map receipt_span permuted) = merge_spans (map receipt_span receipts)"
    using ru.union_separated ru.union_points assms by (intro separated_unique) auto
  ultimately show ?thesis by (simp add: union_one_contract)
qed

lemma history_coverage_union_order_independent_witness:
  "history_coverage_union (example_receipts @ rev example_receipts) = Inr [(0, 45), (60, 90)]"
proof -
  have "history_coverage_union (example_receipts @ rev example_receipts)
      = history_coverage_union example_receipts"
    by (rule history_coverage_union_order_independent) (use example_receipts_ok in auto)
  then show ?thesis by (simp add: example_union)
qed

end
