(* ===== verification/Bars.thy ===== *)
theory Bars
  imports Identity Timeframes
begin

text \<open>
  The market data types of \<open>domain.py\<close>: the provenance of a bar, the bar with its admission
  checks, the two revision signatures, and the trade tick. Constructors take the arguments as
  they come and return the normalised object or the exception.
\<close>

section \<open>Enumerations\<close>

datatype bar_state = FORMING | AWAITING_PROVIDER_CONFIRMATION | CONFIRMED

fun bar_state_text :: "bar_state \<Rightarrow> string" where
  "bar_state_text FORMING = ''forming''"
| "bar_state_text AWAITING_PROVIDER_CONFIRMATION = ''awaiting_provider_confirmation''"
| "bar_state_text CONFIRMED = ''confirmed''"

datatype provider_request =
  HISTORICAL | KEEP_UP_TO_DATE | DETERMINISTIC_AGGREGATION | CANONICAL_STORAGE

fun provider_request_text :: "provider_request \<Rightarrow> string" where
  "provider_request_text HISTORICAL = ''historical''"
| "provider_request_text KEEP_UP_TO_DATE = ''keep_up_to_date''"
| "provider_request_text DETERMINISTIC_AGGREGATION = ''deterministic_aggregation''"
| "provider_request_text CANONICAL_STORAGE = ''canonical_storage''"

text \<open>\<open>BarState(text)\<close> and \<open>BarProviderRequest(text)\<close>: \<open>None\<close> is the \<open>ValueError\<close>.\<close>

definition bar_state_of :: "string \<Rightarrow> bar_state option" where
  "bar_state_of s = first_where (\<lambda>m. bar_state_text m = s)
     [FORMING, AWAITING_PROVIDER_CONFIRMATION, CONFIRMED]"

definition provider_request_of :: "string \<Rightarrow> provider_request option" where
  "provider_request_of s = first_where (\<lambda>m. provider_request_text m = s)
     [HISTORICAL, KEEP_UP_TO_DATE, DETERMINISTIC_AGGREGATION, CANONICAL_STORAGE]"

text \<open>
  A state argument: a member of the enumeration itself, or \<open>BarState(str(raw))\<close>. The text of
  a member of another enumeration is its qualified name and never a state.
\<close>

fun parse_bar_state :: "pyval \<Rightarrow> bar_state option" where
  "parse_bar_state (VEnum c s) = (if c = ''BarState'' then bar_state_of s else None)"
| "parse_bar_state (VStr s) = bar_state_of s"
| "parse_bar_state _ = None"

section \<open>Numbers\<close>

definition finite_domain_number :: "pyval \<Rightarrow> string \<Rightarrow> pyfloat res" where
  "finite_domain_number v field_name = (case v of
      VInt n \<Rightarrow> rbind (float_of_int n) (\<lambda>x.
        if isfinite x then Inr x else Inl (ValueError (field_name @ '' must be a finite number'')))
    | VFloat x \<Rightarrow>
        if isfinite x then Inr x else Inl (ValueError (field_name @ '' must be a finite number''))
    | _ \<Rightarrow> Inl (TypeError (field_name @ '' must be a finite number'')))"

definition finite_optional_domain_number :: "pyval \<Rightarrow> string \<Rightarrow> pyfloat option res" where
  "finite_optional_domain_number v field_name =
    (if v = VNone then Inr None
     else rbind (finite_domain_number v field_name) (\<lambda>x. Inr (Some x)))"

text \<open>\<open>except (TypeError, ValueError) as exc: raise ValueError(message) from exc\<close>\<close>

definition as_value_error :: "string \<Rightarrow> 'a res \<Rightarrow> 'a res" where
  "as_value_error message r = (case r of
      Inl e \<Rightarrow> Inl (if is_type_error e \<or> is_value_error e then ValueError message else e)
    | Inr x \<Rightarrow> Inr x)"

section \<open>Provenance\<close>

record bar_provenance =
  bp_provider :: string
  bp_instrument_id :: string
  bp_route_fingerprint :: string
  bp_request_type :: provider_request
  bp_provider_contract_id :: string
  bp_provider_contract_type :: string
  bp_data_type :: string
  bp_source_timeframe :: "string option"

definition nonempty_text :: "pyval \<Rightarrow> bool" where
  "nonempty_text v = (is_str v \<and> str_of v \<noteq> [])"

definition stripped_text :: "pyval \<Rightarrow> bool" where
  "stripped_text v = (nonempty_text v \<and> str_of v = py_strip (str_of v))"

text \<open>The aggregation source: a positive minute count in canonical decimal, followed by \<open>m\<close>.\<close>

definition aggregation_source :: "pyval \<Rightarrow> string res" where
  "aggregation_source v =
    (let err = Inl (ValueError ''BAR_PROVENANCE_AGGREGATION_SOURCE_TIMEFRAME_INVALID'');
         s = str_of v; body = drop_last 1 s in
     if \<not> stripped_text v \<or> \<not> py_endswith s ''m'' \<or> \<not> py_isdigit body then err
     else rbind (py_int_of_str body) (\<lambda>n.
       if n \<le> 0 \<or> s \<noteq> str_of_int n @ ''m'' then err else Inr s))"

definition BarProvenance ::
  "pyval \<Rightarrow> pyval \<Rightarrow> pyval \<Rightarrow> pyval \<Rightarrow> pyval \<Rightarrow> pyval \<Rightarrow> pyval \<Rightarrow> pyval \<Rightarrow> bar_provenance res" where
  "BarProvenance provider instrument_id fingerprint request_type contract_id contract_type data_type
      source_timeframe =
    (case (if is_str request_type then provider_request_of (str_of request_type) else None) of
       None \<Rightarrow> Inl (ValueError ''BAR_PROVENANCE_REQUEST_TYPE_INVALID'')
     | Some rt \<Rightarrow>
       rbind (require (nonempty_text provider) (ValueError ''BAR_PROVENANCE_PROVIDER_INVALID'')) (\<lambda>_.
       rbind (require (nonempty_text instrument_id)
         (ValueError ''BAR_PROVENANCE_INSTRUMENT_ID_INVALID'')) (\<lambda>_.
       rbind (require (nonempty_text fingerprint)
         (ValueError ''BAR_PROVENANCE_ROUTE_FINGERPRINT_INVALID'')) (\<lambda>_.
       rbind (require (stripped_text data_type) (ValueError ''BAR_PROVENANCE_DATA_TYPE_INVALID'')) (\<lambda>_.
       rbind (require (is_str contract_id \<and> (str_of contract_id \<noteq> [] \<or> rt = CANONICAL_STORAGE))
         (ValueError ''BAR_PROVENANCE_PROVIDER_CONTRACT_ID_INVALID'')) (\<lambda>_.
       rbind (require (stripped_text contract_type)
         (ValueError ''BAR_PROVENANCE_PROVIDER_CONTRACT_TYPE_INVALID'')) (\<lambda>_.
       rbind (require (str_of provider = py_lower (str_of provider) \<and> CHR '':'' \<notin> set (str_of provider)
           \<and> canonical_token (str_of provider))
         (ValueError ''BAR_PROVENANCE_PROVIDER_INVALID'')) (\<lambda>_.
       rbind (if rt = DETERMINISTIC_AGGREGATION
              then rbind (aggregation_source source_timeframe) (\<lambda>s. Inr (Some s))
              else if source_timeframe \<noteq> VNone
              then Inl (ValueError ''BAR_PROVENANCE_SOURCE_TIMEFRAME_REQUIRES_AGGREGATION'')
              else Inr None) (\<lambda>tf.
       Inr \<lparr>bp_provider = str_of provider, bp_instrument_id = str_of instrument_id,
            bp_route_fingerprint = str_of fingerprint, bp_request_type = rt,
            bp_provider_contract_id = str_of contract_id,
            bp_provider_contract_type = str_of contract_type, bp_data_type = str_of data_type,
            bp_source_timeframe = tf\<rparr>)))))))))"

section \<open>Bars\<close>

record bar =
  bar_symbol :: string
  bar_ts :: instant
  bar_open :: pyfloat
  bar_high :: pyfloat
  bar_low :: pyfloat
  bar_close :: pyfloat
  bar_volume :: pyfloat
  bar_timeframe :: string
  bar_source :: string
  bar_closed :: bool
  bar_state :: bar_state
  bar_provenance :: "bar_provenance option"

definition visible_text :: "pyval \<Rightarrow> bool" where
  "visible_text v = (is_str v \<and> py_strip (str_of v) \<noteq> [])"

definition ohlc_geometry_invalid :: "pyfloat \<Rightarrow> pyfloat \<Rightarrow> pyfloat \<Rightarrow> pyfloat \<Rightarrow> bool" where
  "ohlc_geometry_invalid opn h l c =
    (flt h l \<or> flt h (fmax opn c) \<or> flt (fmin opn c) l)"

definition Bar ::
  "pyval \<Rightarrow> pyval \<Rightarrow> pyval \<Rightarrow> pyval \<Rightarrow> pyval \<Rightarrow> pyval \<Rightarrow> pyval \<Rightarrow> pyval \<Rightarrow> pyval \<Rightarrow> pyval \<Rightarrow> pyval
    \<Rightarrow> bar_provenance option \<Rightarrow> bar res" where
  "Bar symbol ts opn h l c v timeframe source flag state provenance =
    rbind (require (visible_text symbol) (ValueError ''BAR_SYMBOL_INVALID'')) (\<lambda>_.
    rbind (require (visible_text timeframe) (ValueError ''BAR_TIMEFRAME_INVALID'')) (\<lambda>_.
    rbind (require (visible_text source) (ValueError ''BAR_SOURCE_INVALID'')) (\<lambda>_.
    rbind (case flag of VBool b \<Rightarrow> Inr b | _ \<Rightarrow> Inl (TypeError ''BAR_CLOSED_NOT_BOOL'')) (\<lambda>cl.
    rbind (case ts of VDateTime d \<Rightarrow> if is_aware d then Inr d
             else Inl (ValueError ''BAR_TIMESTAMP_NOT_AWARE'')
           | _ \<Rightarrow> Inl (ValueError ''BAR_TIMESTAMP_NOT_AWARE'')) (\<lambda>d.
    rbind (astimezone_utc d) (\<lambda>timestamp.
    rbind (as_value_error ''BAR_OPEN_NOT_FINITE'' (finite_domain_number opn ''Bar.open'')) (\<lambda>fo.
    rbind (as_value_error ''BAR_HIGH_NOT_FINITE'' (finite_domain_number h ''Bar.high'')) (\<lambda>fh.
    rbind (as_value_error ''BAR_LOW_NOT_FINITE'' (finite_domain_number l ''Bar.low'')) (\<lambda>f_l.
    rbind (as_value_error ''BAR_CLOSE_NOT_FINITE'' (finite_domain_number c ''Bar.close'')) (\<lambda>fc.
    rbind (as_value_error ''BAR_VOLUME_NOT_FINITE'' (finite_domain_number v ''Bar.volume'')) (\<lambda>fv.
    rbind (require (\<not> flt fv (Fin 0)) (ValueError ''BAR_VOLUME_NEGATIVE'')) (\<lambda>_.
    rbind (require (\<not> ohlc_geometry_invalid fo fh f_l fc) (ValueError ''BAR_OHLC_GEOMETRY_INVALID'')) (\<lambda>_.
    rbind (if state = VNone then Inr (if cl then CONFIRMED else FORMING)
           else case parse_bar_state state of
                  None \<Rightarrow> Inl (ValueError ''BAR_STATE_INVALID'')
                | Some st \<Rightarrow>
                    if cl \<noteq> (st = CONFIRMED)
                    then Inl (ValueError (''BAR_LIFECYCLE_CONTRADICTION closed=''
                      @ (if cl then ''True'' else ''False'') @ '' state='' @ bar_state_text st))
                    else Inr st) (\<lambda>st.
    Inr \<lparr>bar_symbol = str_of symbol, bar_ts = timestamp, bar_open = fo, bar_high = fh, bar_low = f_l,
         bar_close = fc, bar_volume = fv, bar_timeframe = str_of timeframe,
         bar_source = str_of source, bar_closed = cl, bar_state = st,
         bar_provenance = provenance\<rparr>))))))))))))))"

section \<open>Signatures\<close>

type_synonym revision_signature =
  "instant \<times> pyfloat \<times> pyfloat \<times> pyfloat \<times> pyfloat \<times> pyfloat \<times> string \<times> string"

definition signature_of_bar :: "bar \<Rightarrow> revision_signature" where
  "signature_of_bar b = (bar_ts b, bar_open b, bar_high b, bar_low b, bar_close b, bar_volume b,
     bar_state_text (bar_state b), bar_source b)"

definition signature_number :: "vdict \<Rightarrow> string \<Rightarrow> string \<Rightarrow> pyfloat res" where
  "signature_number d field upper =
    (if vget d field = VNone then Inl (ValueError (''BAR_SIGNATURE_'' @ upper @ ''_MISSING''))
     else as_value_error (''BAR_SIGNATURE_'' @ upper @ ''_NOT_FINITE'')
       (finite_domain_number (vget d field) (''bar_signature.'' @ field)))"

definition signature_timestamp :: "iso_parser \<Rightarrow> pyval \<Rightarrow> pydatetime res" where
  "signature_timestamp piso raw =
    (let invalid = Inl (ValueError ''BAR_SIGNATURE_TIMESTAMP_INVALID'') in
     rbind (case raw of VDateTime d \<Rightarrow> Inr d
            | _ \<Rightarrow> if is_str raw \<and> str_of raw \<noteq> []
                  then (case piso (replace_Z (str_of raw)) of None \<Rightarrow> invalid | Some d \<Rightarrow> Inr d)
                  else invalid) (\<lambda>d.
       if is_aware d then Inr d else Inl (ValueError ''BAR_SIGNATURE_TIMESTAMP_NOT_AWARE'')))"

definition signature_lifecycle :: "vdict \<Rightarrow> bar_state res" where
  "signature_lifecycle d =
    rbind (case vget d ''closed'' of VBool b \<Rightarrow> Inr b
           | _ \<Rightarrow> Inl (TypeError ''BAR_SIGNATURE_CLOSED_NOT_BOOL'')) (\<lambda>cl.
    rbind (if vget d ''state'' = VNone then Inr (if cl then CONFIRMED else FORMING)
           else case parse_bar_state (vget d ''state'') of
                  None \<Rightarrow> Inl (ValueError ''BAR_SIGNATURE_STATE_INVALID'')
                | Some st \<Rightarrow> Inr st) (\<lambda>st.
    rbind (require (cl = (st = CONFIRMED)) (ValueError ''BAR_SIGNATURE_LIFECYCLE_CONTRADICTION''))
      (\<lambda>_. Inr st)))"

definition signature_of_mapping :: "iso_parser \<Rightarrow> vdict \<Rightarrow> revision_signature res" where
  "signature_of_mapping piso d =
    rbind (signature_timestamp piso (vget d ''ts'')) (\<lambda>ts.
    rbind (signature_number d ''open'' ''OPEN'') (\<lambda>fo.
    rbind (signature_number d ''high'' ''HIGH'') (\<lambda>fh.
    rbind (signature_number d ''low'' ''LOW'') (\<lambda>f_l.
    rbind (signature_number d ''close'' ''CLOSE'') (\<lambda>fc.
    rbind (signature_number d ''volume'' ''VOLUME'') (\<lambda>fv.
    rbind (require (\<not> flt fv (Fin 0)) (ValueError ''BAR_SIGNATURE_VOLUME_NEGATIVE'')) (\<lambda>_.
    rbind (require (\<not> ohlc_geometry_invalid fo fh f_l fc)
      (ValueError ''BAR_SIGNATURE_OHLC_GEOMETRY_INVALID'')) (\<lambda>_.
    rbind (signature_lifecycle d) (\<lambda>st.
    rbind (require (visible_text (vget d ''source'')) (ValueError ''BAR_SIGNATURE_SOURCE_INVALID'')) (\<lambda>_.
    rbind (astimezone_utc ts) (\<lambda>t.
    Inr (t, fo, fh, f_l, fc, fv, bar_state_text st, str_of (vget d ''source'')))))))))))))"

type_synonym provenance_signature =
  "string \<times> string \<times> string \<times> string \<times> string \<times> string \<times> string \<times> string option"

definition provenance_signature :: "bar_provenance \<Rightarrow> provenance_signature" where
  "provenance_signature p = (bp_provider p, bp_instrument_id p, bp_route_fingerprint p,
     provider_request_text (bp_request_type p), bp_provider_contract_id p,
     bp_provider_contract_type p, bp_data_type p, bp_source_timeframe p)"

type_synonym ingress_signature = "revision_signature \<times> provenance_signature option"

definition bar_ingress_revision_signature :: "bar \<Rightarrow> ingress_signature" where
  "bar_ingress_revision_signature b =
    (signature_of_bar b, map_option provenance_signature (bar_provenance b))"

section \<open>Ticks\<close>

record tick =
  tk_route_fingerprint :: string
  tk_ts :: instant
  tk_price :: pyfloat
  tk_volume :: int
  tk_delta_sign :: int
  tk_instrument_id :: string
  tk_tick_type :: string
  tk_bid :: "pyfloat option"
  tk_ask :: "pyfloat option"
  tk_exchange :: string
  tk_conditions :: "string list"

definition tick_quote :: "pyval \<Rightarrow> string \<Rightarrow> string \<Rightarrow> pyfloat option res" where
  "tick_quote v field upper =
    (if v = VNone then Inr None
     else rbind (as_value_error (''TICK_'' @ upper @ ''_NOT_FINITE'')
       (finite_domain_number v (''Tick.'' @ field))) (\<lambda>x. Inr (Some x)))"

definition Tick ::
  "pyval \<Rightarrow> pyval \<Rightarrow> pyval \<Rightarrow> pyval \<Rightarrow> pyval \<Rightarrow> pyval \<Rightarrow> pyval \<Rightarrow> pyval \<Rightarrow> pyval \<Rightarrow> pyval \<Rightarrow> pyval
    \<Rightarrow> tick res" where
  "Tick fingerprint ts price volume delta_sign instrument_id tick_type bid ask exchange conditions =
    rbind (require (nonempty_text instrument_id)
      (ValueError ''Tick.instrument_id must be an exact non-empty string'')) (\<lambda>_.
    rbind (require (nonempty_text fingerprint)
      (ValueError ''Tick.route_fingerprint must be an exact non-empty string'')) (\<lambda>_.
    rbind (case ts of VDateTime d \<Rightarrow> if is_aware d then Inr d
             else Inl (ValueError ''TICK_TIMESTAMP_NOT_AWARE'')
           | _ \<Rightarrow> Inl (ValueError ''TICK_TIMESTAMP_NOT_AWARE'')) (\<lambda>d.
    rbind (as_value_error ''TICK_PRICE_NOT_FINITE'' (finite_domain_number price ''Tick.price'')) (\<lambda>p.
    rbind (case volume of VInt n \<Rightarrow>
             if n < 0 then Inl (ValueError ''TICK_VOLUME_NEGATIVE'') else Inr n
           | _ \<Rightarrow> Inl (TypeError ''TICK_VOLUME_NOT_EXACT_INT'')) (\<lambda>vol.
    rbind (case delta_sign of VInt n \<Rightarrow>
             if n \<in> {- 1, 0, 1} then Inr n else Inl (ValueError ''TICK_DELTA_SIGN_INVALID'')
           | _ \<Rightarrow> Inl (ValueError ''TICK_DELTA_SIGN_INVALID'')) (\<lambda>sgn.
    rbind (require (visible_text tick_type) (ValueError ''TICK_TYPE_INVALID'')) (\<lambda>_.
    rbind (tick_quote bid ''bid'' ''BID'') (\<lambda>b.
    rbind (tick_quote ask ''ask'' ''ASK'') (\<lambda>a.
    rbind (require (is_str exchange) (TypeError ''TICK_EXCHANGE_NOT_STRING'')) (\<lambda>_.
    rbind (case sequence_items conditions of None \<Rightarrow> Inl (TypeError ''TICK_CONDITIONS_NOT_SEQUENCE'')
           | Some cs \<Rightarrow> if list_ex (\<lambda>c. \<not> visible_text c) cs
               then Inl (ValueError ''TICK_CONDITION_INVALID'') else Inr (map str_of cs)) (\<lambda>conds.
    rbind (astimezone_utc d) (\<lambda>t.
    Inr \<lparr>tk_route_fingerprint = str_of fingerprint, tk_ts = t, tk_price = p, tk_volume = vol,
         tk_delta_sign = sgn, tk_instrument_id = str_of instrument_id,
         tk_tick_type = str_of tick_type, tk_bid = b, tk_ask = a, tk_exchange = str_of exchange,
         tk_conditions = conds\<rparr>))))))))))))"

section \<open>Facts\<close>

lemma bar_state_text_inj [simp]: "bar_state_text a = bar_state_text b \<longleftrightarrow> a = b"
  by (cases a; cases b) simp_all

lemma provider_request_text_inj [simp]:
  "provider_request_text a = provider_request_text b \<longleftrightarrow> a = b"
  by (cases a; cases b) simp_all

lemma bar_state_of_text [simp]: "bar_state_of (bar_state_text s) = Some s"
  by (cases s) (simp_all add: bar_state_of_def first_where_def)

lemma provider_request_of_text [simp]: "provider_request_of (provider_request_text r) = Some r"
  by (cases r) (simp_all add: provider_request_of_def first_where_def)

lemma finite_domain_number_finite: "finite_domain_number v n = Inr x \<Longrightarrow> isfinite x"
  by (auto simp: finite_domain_number_def res_simps split: pyval.splits if_splits)

lemma finite_domain_number_float [simp]: "isfinite x \<Longrightarrow> finite_domain_number (VFloat x) n = Inr x"
  by (simp add: finite_domain_number_def)

lemma as_value_error_Inr [simp]: "as_value_error m r = Inr x \<longleftrightarrow> r = Inr x"
  by (cases r) (auto simp: as_value_error_def)

section \<open>What accepted bars and signatures guarantee\<close>

text \<open>What every later stage may assume of a bar.\<close>

definition bar_ok :: "bar \<Rightarrow> bool" where
  "bar_ok b \<longleftrightarrow> isfinite (bar_open b) \<and> isfinite (bar_high b) \<and> isfinite (bar_low b)
     \<and> isfinite (bar_close b) \<and> isfinite (bar_volume b) \<and> fle (Fin 0) (bar_volume b)
     \<and> fle (bar_low b) (bar_open b) \<and> fle (bar_open b) (bar_high b)
     \<and> fle (bar_low b) (bar_close b) \<and> fle (bar_close b) (bar_high b)
     \<and> (bar_closed b \<longleftrightarrow> bar_state b = CONFIRMED) \<and> in_dt_range (bar_ts b)"

lemma geometry_valid_iff:
  assumes "isfinite opn" "isfinite h" "isfinite l" "isfinite c"
  shows "\<not> ohlc_geometry_invalid opn h l c \<longleftrightarrow>
    fle l opn \<and> fle opn h \<and> fle l c \<and> fle c h"
  using assms by (auto simp: isfinite_iff ohlc_geometry_invalid_def fmax_def fmin_def)

lemma astimezone_in_range: "astimezone_utc d = Inr t \<Longrightarrow> in_dt_range t"
  by (simp add: astimezone_utc_def Let_def split: if_splits)

lemma finite_domain_number_iff:
  "finite_domain_number v n = Inr x \<longleftrightarrow> exact_finite_number_or_none v = Some x"
  by (cases v) (auto simp: finite_domain_number_def res_simps split: sum.splits if_splits)

definition lifecycle_state :: "pyval \<Rightarrow> bool \<Rightarrow> bar_state option" where
  "lifecycle_state v cl = (if v = VNone then Some (if cl then CONFIRMED else FORMING)
     else case parse_bar_state v of None \<Rightarrow> None
       | Some st \<Rightarrow> if cl = (st = CONFIRMED) then Some st else None)"

lemma lifecycle_state_closed: "lifecycle_state v cl = Some st \<Longrightarrow> cl = (st = CONFIRMED)"
  by (auto simp: lifecycle_state_def split: if_splits option.splits)

lemma Bar_Inr_iff:
  "Bar symbol ts opn h l c v timeframe source flag state provenance = Inr b \<longleftrightarrow>
     visible_text symbol \<and> visible_text timeframe \<and> visible_text source
     \<and> flag = VBool (bar_closed b)
     \<and> (\<exists>d. ts = VDateTime d \<and> is_aware d \<and> astimezone_utc d = Inr (bar_ts b))
     \<and> exact_finite_number_or_none opn = Some (bar_open b)
     \<and> exact_finite_number_or_none h = Some (bar_high b)
     \<and> exact_finite_number_or_none l = Some (bar_low b)
     \<and> exact_finite_number_or_none c = Some (bar_close b)
     \<and> exact_finite_number_or_none v = Some (bar_volume b)
     \<and> \<not> flt (bar_volume b) (Fin 0)
     \<and> \<not> ohlc_geometry_invalid (bar_open b) (bar_high b) (bar_low b) (bar_close b)
     \<and> lifecycle_state state (bar_closed b) = Some (bar_state b)
     \<and> bar_symbol b = str_of symbol \<and> bar_timeframe b = str_of timeframe
     \<and> bar_source b = str_of source \<and> bar_provenance b = provenance"
  (is "?l = ?r")
proof
  assume ?l
  then show ?r
    unfolding Bar_def
    by (auto simp: res_simps finite_domain_number_iff lifecycle_state_def
        split: pyval.splits if_splits option.splits)
next
  assume r: ?r
  then obtain d where "ts = VDateTime d" "is_aware d" "astimezone_utc d = Inr (bar_ts b)" by blast
  with r have "Bar symbol ts opn h l c v timeframe source flag state provenance =
      Inr \<lparr>bar_symbol = bar_symbol b, bar_ts = bar_ts b, bar_open = bar_open b, bar_high = bar_high b,
        bar_low = bar_low b, bar_close = bar_close b, bar_volume = bar_volume b,
        bar_timeframe = bar_timeframe b, bar_source = bar_source b, bar_closed = bar_closed b,
        bar_state = bar_state b, bar_provenance = bar_provenance b\<rparr>"
    unfolding Bar_def
    by (simp add: res_simps finite_domain_number_iff lifecycle_state_def
        split: if_splits option.splits)
  then show ?l by simp
qed

lemma mapping_signature_Inr_iff:
  "signature_of_mapping piso d = Inr (t, fo, fh, f_l, fc, fv, st, src) \<longleftrightarrow>
     (\<exists>dt. signature_timestamp piso (vget d ''ts'') = Inr dt \<and> astimezone_utc dt = Inr t)
     \<and> exact_finite_number_or_none (vget d ''open'') = Some fo
     \<and> exact_finite_number_or_none (vget d ''high'') = Some fh
     \<and> exact_finite_number_or_none (vget d ''low'') = Some f_l
     \<and> exact_finite_number_or_none (vget d ''close'') = Some fc
     \<and> exact_finite_number_or_none (vget d ''volume'') = Some fv
     \<and> \<not> flt fv (Fin 0) \<and> \<not> ohlc_geometry_invalid fo fh f_l fc
     \<and> (\<exists>cl s. vget d ''closed'' = VBool cl \<and> lifecycle_state (vget d ''state'') cl = Some s
          \<and> st = bar_state_text s)
     \<and> visible_text (vget d ''source'') \<and> src = str_of (vget d ''source'')"
proof -
  have num: "signature_number d f u = Inr x \<longleftrightarrow> exact_finite_number_or_none (vget d f) = Some x"
    for f u x
    by (cases "vget d f = VNone") (simp_all add: signature_number_def finite_domain_number_iff)
  have life: "signature_lifecycle d = Inr s \<longleftrightarrow>
      (\<exists>cl. vget d ''closed'' = VBool cl \<and> lifecycle_state (vget d ''state'') cl = Some s)" for s
    by (auto simp: signature_lifecycle_def lifecycle_state_def res_simps
        split: pyval.splits if_splits option.splits)
  show ?thesis
    unfolding signature_of_mapping_def rbind_Inr_iff require_Inr_iff num life by auto
qed

text \<open>Every bar the constructor accepts is finite, has its open and close between low and
  high and a non-negative volume, is closed exactly when its state is confirmed, and carries an
  instant of the supported calendar.\<close>

theorem accepted_bar_ok:
  assumes "Bar symbol ts opn h l c v timeframe source flag state provenance = Inr b"
  shows "bar_ok b"
proof -
  have num: "exact_finite_number_or_none opn = Some (bar_open b)"
    "exact_finite_number_or_none h = Some (bar_high b)"
    "exact_finite_number_or_none l = Some (bar_low b)"
    "exact_finite_number_or_none c = Some (bar_close b)"
    "exact_finite_number_or_none v = Some (bar_volume b)"
    and rest: "\<not> flt (bar_volume b) (Fin 0)"
    "\<not> ohlc_geometry_invalid (bar_open b) (bar_high b) (bar_low b) (bar_close b)"
    "lifecycle_state state (bar_closed b) = Some (bar_state b)"
    "\<exists>d. astimezone_utc d = Inr (bar_ts b)"
    using assms by (auto simp: Bar_Inr_iff)
  note fin = num [THEN exact_finite_number_finite]
  have "fle (Fin 0) (bar_volume b)" using fin(5) rest(1) by (auto simp: isfinite_iff)
  then show ?thesis
    using fin rest geometry_valid_iff [OF fin(1-4)] lifecycle_state_closed astimezone_in_range
    by (auto simp: bar_ok_def)
qed

text \<open>The entries of a bar in a mapping and the bar built from the same entries have the
  same revision signature, and one is refused exactly when the other is.\<close>

theorem mapping_signature_agrees_with_bar:
  assumes "visible_text symbol" and "visible_text timeframe" and "vget d ''ts'' = VDateTime ts"
  shows "signature_of_mapping piso d = Inr sig \<longleftrightarrow>
    (\<exists>b. Bar symbol (vget d ''ts'') (vget d ''open'') (vget d ''high'') (vget d ''low'')
        (vget d ''close'') (vget d ''volume'') timeframe (vget d ''source'') (vget d ''closed'')
        (vget d ''state'') provenance = Inr b
      \<and> signature_of_bar b = sig)"
proof -
  obtain t r where "sig = (t, r)" by (cases sig)
  moreover obtain fo fh f_l fc fv st src where "r = (fo, fh, f_l, fc, fv, st, src)" by (cases r)
  ultimately have sig: "sig = (t, fo, fh, f_l, fc, fv, st, src)" by simp
  have ts: "signature_timestamp piso (VDateTime ts) = Inr dt \<longleftrightarrow> dt = ts \<and> is_aware ts" for dt
    by (auto simp: signature_timestamp_def Let_def)
  show ?thesis
  proof
    assume "signature_of_mapping piso d = Inr sig"
    then obtain cl s where m: "vget d ''closed'' = VBool cl"
      "lifecycle_state (vget d ''state'') cl = Some s" "st = bar_state_text s"
      and rest: "signature_of_mapping piso d = Inr (t, fo, fh, f_l, fc, fv, st, src)"
      unfolding sig by (auto simp: mapping_signature_Inr_iff)
    let ?b = "\<lparr>bar_symbol = str_of symbol, bar_ts = t, bar_open = fo, bar_high = fh, bar_low = f_l,
      bar_close = fc, bar_volume = fv, bar_timeframe = str_of timeframe, bar_source = src,
      bar_closed = cl, bar_state = s, bar_provenance = provenance\<rparr>"
    have "Bar symbol (vget d ''ts'') (vget d ''open'') (vget d ''high'') (vget d ''low'')
        (vget d ''close'') (vget d ''volume'') timeframe (vget d ''source'') (vget d ''closed'')
        (vget d ''state'') provenance = Inr ?b"
      using rest m assms by (simp add: Bar_Inr_iff mapping_signature_Inr_iff ts)
    moreover have "signature_of_bar ?b = sig" by (simp add: signature_of_bar_def sig m)
    ultimately show "\<exists>b. Bar symbol (vget d ''ts'') (vget d ''open'') (vget d ''high'') (vget d ''low'')
        (vget d ''close'') (vget d ''volume'') timeframe (vget d ''source'') (vget d ''closed'')
        (vget d ''state'') provenance = Inr b \<and> signature_of_bar b = sig" by blast
  next
    assume "\<exists>b. Bar symbol (vget d ''ts'') (vget d ''open'') (vget d ''high'') (vget d ''low'')
        (vget d ''close'') (vget d ''volume'') timeframe (vget d ''source'') (vget d ''closed'')
        (vget d ''state'') provenance = Inr b \<and> signature_of_bar b = sig"
    then show "signature_of_mapping piso d = Inr sig"
      using assms
      by (auto simp: sig signature_of_bar_def Bar_Inr_iff mapping_signature_Inr_iff ts)
  qed
qed

text \<open>The ingress signature identifies a revision: two accepted bars with the same signature
  agree in instant, prices, volume, state, closing flag, source and provenance.\<close>

theorem ingress_signature_identifies_revision:
  assumes "bar_ok a" and "bar_ok b"
    and "bar_ingress_revision_signature a = bar_ingress_revision_signature b"
  shows "b = a\<lparr>bar_symbol := bar_symbol b, bar_timeframe := bar_timeframe b\<rparr>"
proof -
  have inj: "provenance_signature p = provenance_signature q \<Longrightarrow> p = q" for p q
    by (cases p; cases q) (simp add: provenance_signature_def)
  have "map_option provenance_signature (bar_provenance a) =
      map_option provenance_signature (bar_provenance b)"
    using assms(3) by (simp add: bar_ingress_revision_signature_def)
  then have "bar_provenance a = bar_provenance b"
    using inj by (cases "bar_provenance a"; cases "bar_provenance b") auto
  then show ?thesis
    using assms
    by (cases a; cases b) (simp add: bar_ingress_revision_signature_def signature_of_bar_def bar_ok_def)
qed

section \<open>Witnesses\<close>

definition example_bar :: bar where
  "example_bar = \<lparr>bar_symbol = ''ES'', bar_ts = 60000000, bar_open = Fin 100, bar_high = Fin 103,
    bar_low = Fin 99, bar_close = Fin 102, bar_volume = Fin 7, bar_timeframe = ''1m'',
    bar_source = ''ibkr'', bar_closed = True, bar_state = CONFIRMED, bar_provenance = None\<rparr>"

definition example_mapping :: vdict where
  "example_mapping = [(VStr ''ts'', VDateTime (utc_datetime 60000000)), (VStr ''open'', VFloat (Fin 100)),
    (VStr ''high'', VFloat (Fin 103)), (VStr ''low'', VFloat (Fin 99)), (VStr ''close'', VFloat (Fin 102)),
    (VStr ''volume'', VFloat (Fin 7)), (VStr ''closed'', VBool True), (VStr ''source'', VStr ''ibkr'')]"

lemma visible_example: "visible_text (VStr ''ES'')" "visible_text (VStr ''1m'')" "visible_text (VStr ''ibkr'')"
  by code_simp+

lemma example_bar_accepted:
  "Bar (VStr ''ES'') (VDateTime (utc_datetime 60000000)) (VFloat (Fin 100)) (VFloat (Fin 103))
     (VFloat (Fin 99)) (VFloat (Fin 102)) (VFloat (Fin 7)) (VStr ''1m'') (VStr ''ibkr'') (VBool True)
     VNone None = Inr example_bar"
  by (simp add: Bar_Inr_iff example_bar_def visible_example lifecycle_state_def ohlc_geometry_invalid_def
      fmax_def fmin_def in_dt_range_def dt_min_def dt_max_def)

lemma example_bar_ok: "bar_ok example_bar"
  by (simp add: bar_ok_def example_bar_def in_dt_range_def dt_min_def dt_max_def)

lemma accepted_bar_ok_witness: "bar_ok example_bar"
  by (rule accepted_bar_ok [OF example_bar_accepted])

lemma mapping_signature_agrees_with_bar_witness:
  "signature_of_mapping (\<lambda>_. None) example_mapping = Inr (signature_of_bar example_bar)"
  using mapping_signature_agrees_with_bar [OF visible_example(1,2),
      of example_mapping "utc_datetime 60000000" "\<lambda>_. None" "signature_of_bar example_bar" None]
    example_bar_accepted
  by (auto simp: example_mapping_def vget_def)

lemma ingress_signature_identifies_revision_witness:
  "example_bar = (example_bar\<lparr>bar_symbol := ''MES''\<rparr>)\<lparr>bar_symbol := ''ES'', bar_timeframe := ''1m''\<rparr>"
  using ingress_signature_identifies_revision [of "example_bar\<lparr>bar_symbol := ''MES''\<rparr>" example_bar]
    example_bar_ok
  by (simp add: bar_ok_def bar_ingress_revision_signature_def signature_of_bar_def example_bar_def)

end
