(* ===== verification/ChartEvents.thy ===== *)
theory ChartEvents
  imports Bars
begin

text \<open>
  \<open>runtime/chart_events.py\<close>: the in-process registry that fences readers, writers and
  publications of canonical chart bars by a generation per key. The module's globals are one
  record; every critical section under \<open>_lock\<close> is one step. An operation takes the state and
  returns its result (a value or the exception raised) with the new state. A waiter is its key
  and the identity of its asyncio event; waking it adds that identity to \<open>ce_set\<close>.
\<close>

declare split_paired_All [simp del] split_paired_Ex [simp del]

section \<open>State\<close>

type_synonym chart_key = "string \<times> string \<times> string"   \<comment> \<open>instrument, fingerprint, interval\<close>

record updated_event =
  ue_provider :: string
  ue_instrument_id :: string
  ue_interval :: string
  ue_generation :: int
  ue_route_fingerprint :: string
  ue_reason :: string
  ue_bars :: "bar list"
  ue_gap :: vdict
  ue_repair :: vdict

record live_event =
  le_provider :: string
  le_instrument_id :: string
  le_interval :: string
  le_generation :: int
  le_route_fingerprint :: string
  le_bars :: "bar list"
  le_observed_at :: instant
  le_reason :: string

record write_guard =
  wg_instrument_id :: string
  wg_route_fingerprint :: string
  wg_interval :: string
  wg_expected_generation :: int
  wg_token :: int

record generation_scope =
  gs_instrument_id :: string
  gs_route_fingerprint :: string
  gs_interval :: string
  gs_generation :: pyval

record publication_guard =
  pg_scopes :: "(chart_key \<times> int) list"
  pg_token :: int

type_synonym waiter = "chart_key \<times> nat"

record chart_state =
  ce_generations :: "(chart_key, int) pydict"
  ce_events :: "(chart_key, updated_event list) pydict"
  ce_writes :: "(chart_key, int) pydict"
  ce_publications :: "(chart_key, int set) pydict"
  ce_next_write_token :: int
  ce_next_publication_token :: int
  ce_waiters :: "waiter list"
  ce_stable_waiters :: "waiter list"
  ce_live_generations :: "(chart_key, int) pydict"
  ce_live_events :: "(chart_key, live_event) pydict"
  ce_live_signatures :: "(chart_key, ingress_signature list) pydict"
  ce_live_waiters :: "waiter list"
  ce_set :: "nat set"

definition chart_init :: chart_state where
  "chart_init = \<lparr>ce_generations = [], ce_events = [], ce_writes = [], ce_publications = [],
     ce_next_write_token = 0, ce_next_publication_token = 0, ce_waiters = [],
     ce_stable_waiters = [], ce_live_generations = [], ce_live_events = [],
     ce_live_signatures = [], ce_live_waiters = [], ce_set = {}\<rparr>"

definition MAX_EVENTS_PER_KEY :: nat where
  "MAX_EVENTS_PER_KEY = 32"

definition MAX_REFRESH_KEYS :: nat where
  "MAX_REFRESH_KEYS = 1024"

definition MAX_GENERATION_KEYS :: nat where
  "MAX_GENERATION_KEYS = 4096"

definition MAX_LIVE_KEYS :: nat where
  "MAX_LIVE_KEYS = 512"

section \<open>Keys and generations\<close>

definition chart_key :: "string \<Rightarrow> string \<Rightarrow> string \<Rightarrow> chart_key res" where
  "chart_key instrument_id interval fingerprint =
    rbind (require_exact_identity_text (VStr instrument_id) ''instrument_id'' False) (\<lambda>i.
    rbind (require_exact_identity_text (VStr fingerprint) ''route_fingerprint'' False) (\<lambda>f.
    rbind (canonical_bar_source_interval interval) (\<lambda>tf. Inr (i, f, tf))))"

definition key_complete :: "chart_key \<Rightarrow> bool" where
  "key_complete k = (fst k \<noteq> [] \<and> fst (snd k) \<noteq> [] \<and> snd (snd k) \<noteq> [])"

definition generation_of :: "chart_state \<Rightarrow> chart_key \<Rightarrow> int" where
  "generation_of s k = dget_default (ce_generations s) k 0"

definition exact_generation :: "pyval \<Rightarrow> string \<Rightarrow> int res" where
  "exact_generation v message = (case v of
      VInt n \<Rightarrow> if n < 0 then Inl (ValueError message) else Inr n
    | _ \<Rightarrow> Inl (ValueError message))"

definition chart_bars_updated_generation ::
  "string \<Rightarrow> string \<Rightarrow> string \<Rightarrow> chart_state \<Rightarrow> int res" where
  "chart_bars_updated_generation interval fingerprint instrument_id s =
    rbind (chart_key instrument_id interval fingerprint) (\<lambda>k. Inr (generation_of s k))"

definition require_chart_bars_generation ::
  "pyval \<Rightarrow> string \<Rightarrow> string \<Rightarrow> string \<Rightarrow> chart_state \<Rightarrow> int res" where
  "require_chart_bars_generation expected interval fingerprint instrument_id s =
    rbind (exact_generation expected ''expected canonical generation must be a non-negative integer'') (\<lambda>n.
    rbind (chart_key instrument_id interval fingerprint) (\<lambda>k.
      let observed = generation_of s k; writing = dhas (ce_writes s) k in
      if writing \<or> observed \<noteq> n
      then Inl (ChartBarsGenerationChanged n observed writing False)
      else Inr observed))"

section \<open>Write guards\<close>

definition begin_chart_bars_write ::
  "pyval \<Rightarrow> string \<Rightarrow> string \<Rightarrow> string \<Rightarrow> chart_state \<Rightarrow> write_guard res \<times> chart_state" where
  "begin_chart_bars_write expected interval fingerprint instrument_id s =
    (case rbind (exact_generation expected ''expected canonical generation must be a non-negative integer'')
        (\<lambda>n. rbind (chart_key instrument_id interval fingerprint) (\<lambda>k. Inr (n, k))) of
       Inl e \<Rightarrow> (Inl e, s)
     | Inr (n, k) \<Rightarrow>
        (let observed = generation_of s k in
         if \<not> key_complete k
         then (Inl (ValueError ''canonical chart write identity is required''), s)
         else if dhas (ce_writes s) k
         then (Inl (ChartBarsGenerationChanged n observed True False), s)
         else if dget_default (ce_publications s) k {} \<noteq> {}
         then (Inl (ChartBarsGenerationChanged n observed False True), s)
         else if observed \<noteq> n
         then (Inl (ChartBarsGenerationChanged n observed False False), s)
         else let token = ce_next_write_token s + 1 in
           (Inr \<lparr>wg_instrument_id = fst k, wg_route_fingerprint = fst (snd k),
                 wg_interval = snd (snd k), wg_expected_generation = n, wg_token = token\<rparr>,
            s\<lparr>ce_next_write_token := token, ce_writes := dset k token (ce_writes s)\<rparr>)))"

definition guard_key :: "write_guard \<Rightarrow> chart_key res" where
  "guard_key g = chart_key (wg_instrument_id g) (wg_interval g) (wg_route_fingerprint g)"

definition waiters_of :: "chart_key \<Rightarrow> waiter list \<Rightarrow> nat list" where
  "waiters_of k ws = map snd (filter (\<lambda>w. fst w = k) ws)"

definition wake :: "nat list \<Rightarrow> chart_state \<Rightarrow> chart_state" where
  "wake ids s = s\<lparr>ce_set := set ids \<union> ce_set s\<rparr>"

definition end_chart_bars_write :: "write_guard \<Rightarrow> chart_state \<Rightarrow> unit res \<times> chart_state" where
  "end_chart_bars_write g s = (case guard_key g of
      Inl e \<Rightarrow> (Inl e, s)
    | Inr k \<Rightarrow>
        if dget (ce_writes s) k \<noteq> Some (wg_token g)
        then (Inl (RuntimeError ''CHART_BARS_WRITE_GUARD_OWNERSHIP_LOST''), s)
        else (Inr (), wake (waiters_of k (ce_stable_waiters s))
               (s\<lparr>ce_writes := dpop k (ce_writes s)\<rparr>)))"

section \<open>Publication guards\<close>

definition add_scope :: "(chart_key, int) pydict \<Rightarrow> generation_scope \<Rightarrow> (chart_key, int) pydict res" where
  "add_scope normalized scope =
    rbind (exact_generation (gs_generation scope)
      ''canonical chart generation must be a non-negative integer'') (\<lambda>n.
    rbind (chart_key (gs_instrument_id scope) (gs_interval scope) (gs_route_fingerprint scope)) (\<lambda>k.
      case dget normalized k of
        Some m \<Rightarrow> if m \<noteq> n
          then Inl (ValueError ''canonical chart publication scope generations conflict'')
          else Inr (dset k n normalized)
      | None \<Rightarrow> Inr (dset k n normalized)))"

text \<open>The first scope that is being written or has moved on.\<close>

definition stale_scope :: "chart_state \<Rightarrow> (chart_key \<times> int) list \<Rightarrow> (chart_key \<times> int) option" where
  "stale_scope s ordered =
    first_where (\<lambda>(k, n). dhas (ce_writes s) k \<or> generation_of s k \<noteq> n) ordered"

definition add_token :: "int \<Rightarrow> (chart_key, int set) pydict \<Rightarrow> chart_key \<Rightarrow> (chart_key, int set) pydict" where
  "add_token token pubs k = dset k (insert token (dget_default pubs k {})) pubs"

definition begin_chart_bars_publication ::
  "generation_scope list \<Rightarrow> chart_state \<Rightarrow> publication_guard res \<times> chart_state" where
  "begin_chart_bars_publication scopes s =
    (case foldM add_scope [] scopes of
       Inl e \<Rightarrow> (Inl e, s)
     | Inr [] \<Rightarrow> (Inl (ValueError ''canonical chart publication requires at least one scope''), s)
     | Inr normalized \<Rightarrow>
        (let ordered = sort normalized in
         case stale_scope s ordered of
           Some (k, n) \<Rightarrow>
             (Inl (ChartBarsGenerationChanged n (generation_of s k) (dhas (ce_writes s) k) False), s)
         | None \<Rightarrow>
            (let token = ce_next_publication_token s + 1 in
             (Inr \<lparr>pg_scopes = ordered, pg_token = token\<rparr>,
              s\<lparr>ce_next_publication_token := token,
                ce_publications := foldl (add_token token) (ce_publications s) (map fst ordered)\<rparr>))))"

text \<open>
  Releasing one scope: a missing entry and a missing token both raise \<open>KeyError\<close>; the last token
  of a key removes the entry.
\<close>

definition drop_token :: "int \<Rightarrow> chart_key \<Rightarrow> (chart_key, int set) pydict \<Rightarrow> (chart_key, int set) pydict" where
  "drop_token token k pubs =
    (let rest = dget_default pubs k {} - {token} in if rest = {} then dpop k pubs else dset k rest pubs)"

fun release_scopes ::
  "int \<Rightarrow> chart_key list \<Rightarrow> (chart_key, int set) pydict \<Rightarrow> unit res \<times> (chart_key, int set) pydict" where
  "release_scopes token [] pubs = (Inr (), pubs)"
| "release_scopes token (k # ks) pubs =
    (if token \<notin> dget_default pubs k {} then (Inl KeyError, pubs)
     else release_scopes token ks (drop_token token k pubs))"

definition end_chart_bars_publication ::
  "publication_guard \<Rightarrow> chart_state \<Rightarrow> unit res \<times> chart_state" where
  "end_chart_bars_publication g s =
    (if list_ex (\<lambda>(k, _). pg_token g \<notin> dget_default (ce_publications s) k {}) (pg_scopes g)
     then (Inl (RuntimeError ''CHART_BARS_PUBLICATION_GUARD_OWNERSHIP_LOST''), s)
     else case release_scopes (pg_token g) (map fst (pg_scopes g)) (ce_publications s) of
       (r, pubs) \<Rightarrow> (r, s\<lparr>ce_publications := pubs\<rparr>))"

section \<open>Publishing an update\<close>

definition or_text :: "string \<Rightarrow> string \<Rightarrow> string" where
  "or_text s dflt = (if s = [] then dflt else s)"

definition dict_or_none :: "vdict option \<Rightarrow> vdict" where
  "dict_or_none d = (case d of None \<Rightarrow> [] | Some e \<Rightarrow> e)"

definition waiter_keys :: "chart_state \<Rightarrow> chart_key set" where
  "waiter_keys s = set (map fst (ce_waiters s @ ce_stable_waiters s))"

definition drop_victim :: "chart_key option \<Rightarrow> (chart_key, 'v) pydict \<Rightarrow> (chart_key, 'v) pydict" where
  "drop_victim victim d = (case victim of None \<Rightarrow> d | Some k \<Rightarrow> dpop k d)"

definition append_event :: "chart_key \<Rightarrow> updated_event \<Rightarrow> chart_state \<Rightarrow> chart_state" where
  "append_event k event s =
    (let queue = dget_default (ce_events s) k [] @ [event];
         kept = drop (length queue - MAX_EVENTS_PER_KEY) queue
     in s\<lparr>ce_events := dset k kept (ce_events s)\<rparr>)"

definition evict_events :: "chart_key \<Rightarrow> chart_state \<Rightarrow> chart_state" where
  "evict_events k s =
    (if length (ce_events s) > MAX_REFRESH_KEYS
     then s\<lparr>ce_events := drop_victim
       (first_where (\<lambda>c. c \<noteq> k \<and> c \<notin> waiter_keys s) (dkeys (ce_events s))) (ce_events s)\<rparr>
     else s)"

definition evict_generation :: "chart_key \<Rightarrow> chart_state \<Rightarrow> chart_state" where
  "evict_generation k s =
    (if length (ce_generations s) > MAX_GENERATION_KEYS
     then s\<lparr>ce_generations := drop_victim
       (first_where (\<lambda>c. c \<noteq> k \<and> \<not> dhas (ce_events s) c \<and> c \<notin> waiter_keys s
          \<and> \<not> dhas (ce_writes s) c \<and> \<not> dhas (ce_publications s) c) (dkeys (ce_generations s)))
       (ce_generations s)\<rparr>
     else s)"

text \<open>\<open>_record_chart_bars_updated_locked\<close>: the new state and the waiters to wake.\<close>

definition record_chart_bars_updated ::
  "chart_key \<Rightarrow> string \<Rightarrow> int \<Rightarrow> string \<Rightarrow> bar list \<Rightarrow> vdict option \<Rightarrow> vdict option
    \<Rightarrow> chart_state \<Rightarrow> nat list \<times> chart_state" where
  "record_chart_bars_updated k provider generation reason bars gap repair s =
    (let event = \<lparr>ue_provider = py_lower (py_strip provider), ue_instrument_id = fst k,
           ue_interval = snd (snd k), ue_generation = generation, ue_route_fingerprint = fst (snd k),
           ue_reason = or_text reason ''canonical_commit'', ue_bars = bars,
           ue_gap = dict_or_none gap, ue_repair = dict_or_none repair\<rparr>;
         s' = evict_generation k (evict_events k (append_event k event s))
     in (waiters_of k (ce_waiters s'), s'))"

definition set_generation :: "chart_key \<Rightarrow> int \<Rightarrow> chart_state \<Rightarrow> chart_state" where
  "set_generation k n s = s\<lparr>ce_generations := dset k n (ce_generations s)\<rparr>"

definition invalidate_chart_bars_write ::
  "write_guard \<Rightarrow> string \<Rightarrow> string \<Rightarrow> vdict option \<Rightarrow> chart_state \<Rightarrow> int res \<times> chart_state" where
  "invalidate_chart_bars_write g provider reason repair s = (case guard_key g of
      Inl e \<Rightarrow> (Inl e, s)
    | Inr k \<Rightarrow>
       (let observed = generation_of s k in
        if dget (ce_writes s) k \<noteq> Some (wg_token g)
        then (Inl (RuntimeError ''CHART_BARS_WRITE_GUARD_OWNERSHIP_LOST''), s)
        else if observed < wg_expected_generation g
        then (Inl (RuntimeError ''CHART_BARS_WRITE_GENERATION_REGRESSED''), s)
        else let (waiters, s1) =
            (if observed = wg_expected_generation g
             then record_chart_bars_updated k provider (observed + 1) reason [] None repair
                    (set_generation k (observed + 1) s)
             else ([], s));
            generation = (if observed = wg_expected_generation g then observed + 1 else observed);
            s2 = s1\<lparr>ce_writes := dpop k (ce_writes s1)\<rparr>
          in (Inr generation, wake (waiters_of k (ce_stable_waiters s2)) (wake waiters s2))))"

definition publish_chart_bars_updated ::
  "string \<Rightarrow> string \<Rightarrow> string \<Rightarrow> string \<Rightarrow> string \<Rightarrow> bar list \<Rightarrow> vdict option \<Rightarrow> vdict option \<Rightarrow> pyval
    \<Rightarrow> chart_state \<Rightarrow> int res \<times> chart_state" where
  "publish_chart_bars_updated provider interval instrument_id fingerprint reason bars gap repair
      expected s =
    (case rbind (chart_key instrument_id interval fingerprint) (\<lambda>k.
        rbind (if expected = VNone \<or> \<not> key_complete k then Inr None
               else rbind (exact_generation expected ''expected_generation must be a non-negative integer'')
                 (\<lambda>n. Inr (Some n))) (\<lambda>e. Inr (k, e))) of
       Inl e \<Rightarrow> (Inl e, s)
     | Inr (k, e) \<Rightarrow>
        if \<not> key_complete k then (Inr 0, s)
        else if (case e of None \<Rightarrow> False | Some n \<Rightarrow> generation_of s k \<noteq> n) then (Inr 0, s)
        else (let generation = generation_of s k + 1;
                  (waiters, s') = record_chart_bars_updated k provider generation reason bars gap
                    repair (set_generation k generation s)
              in (Inr generation, wake waiters s')))"

section \<open>Reading and waiting\<close>

definition events_since :: "chart_key \<Rightarrow> int \<Rightarrow> chart_state \<Rightarrow> int \<times> updated_event list" where
  "events_since k seen s =
    (generation_of s k, filter (\<lambda>e. seen < ue_generation e) (dget_default (ce_events s) k []))"

definition chart_bars_updated_events_since ::
  "string \<Rightarrow> string \<Rightarrow> int \<Rightarrow> string \<Rightarrow> chart_state \<Rightarrow> (int \<times> updated_event list) res" where
  "chart_bars_updated_events_since interval fingerprint seen instrument_id s =
    rbind (chart_key instrument_id interval fingerprint) (\<lambda>k. Inr (events_since k seen s))"

text \<open>
  A coroutine is cut at its \<open>await\<close>: the part before either returns or suspends with the
  waiter registered; the part after runs when the event was set or the timeout elapsed.
\<close>

datatype 'a wait = Returned 'a | Suspended chart_key

definition wait_for_chart_bars_updated ::
  "string \<Rightarrow> string \<Rightarrow> int \<Rightarrow> pyfloat \<Rightarrow> string \<Rightarrow> nat \<Rightarrow> chart_state
    \<Rightarrow> (int \<times> updated_event list) wait res \<times> chart_state" where
  "wait_for_chart_bars_updated interval fingerprint seen timeout instrument_id wid s =
    (case chart_key instrument_id interval fingerprint of
       Inl e \<Rightarrow> (Inl e, s)
     | Inr k \<Rightarrow>
        if \<not> key_complete k \<or> fle timeout (Fin 0) \<or> generation_of s k \<noteq> seen
        then (Inr (Returned (events_since k seen s)), s)
        else (Inr (Suspended k), s\<lparr>ce_waiters := ce_waiters s @ [(k, wid)]\<rparr>))"

definition resume_chart_bars_updated ::
  "chart_key \<Rightarrow> int \<Rightarrow> nat \<Rightarrow> chart_state \<Rightarrow> (int \<times> updated_event list) \<times> chart_state" where
  "resume_chart_bars_updated k seen wid s =
    (events_since k seen s, s\<lparr>ce_waiters := remove1 (k, wid) (ce_waiters s)\<rparr>)"

definition stable_deadline :: "pyfloat \<Rightarrow> pyfloat \<Rightarrow> pyfloat" where
  "stable_deadline now timeout = fadd now (fmax timeout (Fin 0))"

text \<open>One pass of the \<open>while\<close> loop up to its \<open>await\<close>.\<close>

definition wait_for_chart_bars_stable ::
  "chart_key \<Rightarrow> pyfloat \<Rightarrow> pyfloat \<Rightarrow> nat \<Rightarrow> chart_state \<Rightarrow> int wait res \<times> chart_state" where
  "wait_for_chart_bars_stable k deadline now wid s =
    (let observed = generation_of s k; remaining = fsub deadline now in
     if \<not> dhas (ce_writes s) k then (Inr (Returned observed), s)
     else if fle remaining (Fin 0)
     then (Inl (ChartBarsGenerationChanged observed observed True False), s)
     else (Inr (Suspended k),
           if flt (Fin 0) remaining
           then s\<lparr>ce_stable_waiters := ce_stable_waiters s @ [(k, wid)]\<rparr> else s))"

text \<open>After the \<open>await\<close>: \<open>None\<close> means the loop runs again.\<close>

definition resume_chart_bars_stable ::
  "chart_key \<Rightarrow> bool \<Rightarrow> nat \<Rightarrow> chart_state \<Rightarrow> int option res \<times> chart_state" where
  "resume_chart_bars_stable k timed_out wid s =
    (let observed = generation_of s k;
         s' = s\<lparr>ce_stable_waiters := remove1 (k, wid) (ce_stable_waiters s)\<rparr>
     in if \<not> timed_out then (Inr None, s')
        else if \<not> dhas (ce_writes s) k then (Inr (Some observed), s')
        else (Inl (ChartBarsGenerationChanged observed observed True False), s'))"

section \<open>Live bars\<close>

definition live_waiter_keys :: "chart_state \<Rightarrow> chart_key set" where
  "live_waiter_keys s = set (map fst (ce_live_waiters s))"

definition stale_live_key :: "chart_key \<Rightarrow> chart_state \<Rightarrow> chart_key option" where
  "stale_live_key protected s =
    first_where (\<lambda>c. c \<noteq> protected \<and> c \<notin> live_waiter_keys s) (dkeys (ce_live_events s))"

definition drop_live :: "chart_key \<Rightarrow> chart_state \<Rightarrow> chart_state" where
  "drop_live k s = s\<lparr>ce_live_events := dpop k (ce_live_events s),
     ce_live_signatures := dpop k (ce_live_signatures s)\<rparr>"

lemma stale_live_key_shrinks:
  assumes "stale_live_key protected s = Some k"
  shows "length (ce_live_events (drop_live k s)) < length (ce_live_events s)"
proof -
  have "k \<in> set (dkeys (ce_live_events s))"
    using assms by (auto simp: stale_live_key_def dest: first_where_Some)
  then show ?thesis using dpop_length_less by (simp add: drop_live_def)
qed

function trim_live_loop :: "chart_key \<Rightarrow> chart_state \<Rightarrow> chart_state" where
  "trim_live_loop protected s =
    (if length (ce_live_events s) > MAX_LIVE_KEYS
     then case stale_live_key protected s of
        None \<Rightarrow> s
      | Some k \<Rightarrow> trim_live_loop protected (drop_live k s)
     else s)"
  by auto
termination
  by (relation "measure (\<lambda>(_, s). length (ce_live_events s))") (auto simp: stale_live_key_shrinks)

declare trim_live_loop.simps [simp del]

definition trim_live_generation :: "chart_key \<Rightarrow> chart_state \<Rightarrow> chart_state" where
  "trim_live_generation protected s =
    (if length (ce_live_generations s) > MAX_GENERATION_KEYS
     then s\<lparr>ce_live_generations := drop_victim
       (first_where (\<lambda>c. c \<noteq> protected \<and> \<not> dhas (ce_live_events s) c \<and> c \<notin> live_waiter_keys s)
         (dkeys (ce_live_generations s))) (ce_live_generations s)\<rparr>
     else s)"

definition trim_live_events :: "chart_key \<Rightarrow> chart_state \<Rightarrow> chart_state" where
  "trim_live_events protected s = trim_live_generation protected (trim_live_loop protected s)"

definition live_generation_of :: "chart_state \<Rightarrow> chart_key \<Rightarrow> int" where
  "live_generation_of s k = dget_default (ce_live_generations s) k 0"

definition publish_live_chart_bars ::
  "string \<Rightarrow> string \<Rightarrow> string \<Rightarrow> string \<Rightarrow> bar list \<Rightarrow> string \<Rightarrow> instant \<Rightarrow> chart_state
    \<Rightarrow> int res \<times> chart_state" where
  "publish_live_chart_bars provider interval instrument_id fingerprint bars reason now s =
    (case chart_key instrument_id interval fingerprint of
       Inl e \<Rightarrow> (Inl e, s)
     | Inr k \<Rightarrow>
        if \<not> key_complete k then (Inl (ValueError ''LIVE_CHART_EVENT_IDENTITY_REQUIRED''), s)
        else
        let signature = map bar_ingress_revision_signature bars in
        if dget (ce_live_signatures s) k = Some signature then (Inr (live_generation_of s k), s)
        else
        let generation = live_generation_of s k + 1;
            event = \<lparr>le_provider = py_lower (py_strip provider), le_instrument_id = fst k,
              le_interval = snd (snd k), le_generation = generation,
              le_route_fingerprint = fst (snd k), le_bars = bars, le_observed_at = now,
              le_reason = or_text reason ''provider_update''\<rparr>;
            s1 = trim_live_events k
              (s\<lparr>ce_live_generations := dset k generation (ce_live_generations s),
                 ce_live_signatures := dset k signature (ce_live_signatures s),
                 ce_live_events := dset k event (ce_live_events s)\<rparr>)
        in (Inr generation, wake (waiters_of k (ce_live_waiters s1)) s1))"

definition live_chart_bars_snapshot ::
  "string \<Rightarrow> string \<Rightarrow> string \<Rightarrow> chart_state \<Rightarrow> live_event option res" where
  "live_chart_bars_snapshot interval fingerprint instrument_id s =
    rbind (chart_key instrument_id interval fingerprint) (\<lambda>k. Inr (dget (ce_live_events s) k))"

definition wait_for_live_chart_bars ::
  "string \<Rightarrow> string \<Rightarrow> int \<Rightarrow> pyfloat \<Rightarrow> string \<Rightarrow> nat \<Rightarrow> chart_state
    \<Rightarrow> (int \<times> live_event option) wait res \<times> chart_state" where
  "wait_for_live_chart_bars interval fingerprint seen timeout instrument_id wid s =
    (case chart_key instrument_id interval fingerprint of
       Inl e \<Rightarrow> (Inl e, s)
     | Inr k \<Rightarrow>
        if live_generation_of s k \<noteq> seen \<or> fle timeout (Fin 0)
        then (Inr (Returned (live_generation_of s k, dget (ce_live_events s) k)), s)
        else (Inr (Suspended k), s\<lparr>ce_live_waiters := ce_live_waiters s @ [(k, wid)]\<rparr>))"

definition resume_live_chart_bars ::
  "chart_key \<Rightarrow> nat \<Rightarrow> chart_state \<Rightarrow> (int \<times> live_event option) \<times> chart_state" where
  "resume_live_chart_bars k wid s =
    ((live_generation_of s k, dget (ce_live_events s) k),
     s\<lparr>ce_live_waiters := remove1 (k, wid) (ce_live_waiters s)\<rparr>)"

definition clear_live_chart_bars ::
  "string \<Rightarrow> string \<Rightarrow> string \<Rightarrow> instant \<Rightarrow> chart_state \<Rightarrow> unit res \<times> chart_state" where
  "clear_live_chart_bars interval fingerprint instrument_id now s =
    (case chart_key instrument_id interval fingerprint of
       Inl e \<Rightarrow> (Inl e, s)
     | Inr k \<Rightarrow>
        let generation = live_generation_of s k + 1;
            event = \<lparr>le_provider = [], le_instrument_id = fst k, le_interval = snd (snd k),
              le_generation = generation, le_route_fingerprint = fst (snd k), le_bars = [],
              le_observed_at = now, le_reason = ''stream_closed''\<rparr>;
            s1 = trim_live_events k
              (s\<lparr>ce_live_generations := dset k generation (ce_live_generations s),
                 ce_live_signatures := dpop k (ce_live_signatures s),
                 ce_live_events := dset k event (ce_live_events s)\<rparr>)
        in (Inr (), wake (waiters_of k (ce_live_waiters s1)) s1))"

end
