(* ===== verification/ChartCore.thy ===== *)
theory ChartCore
  imports ChartEvents
begin

text \<open>
  The operations of \<open>ChartEvents\<close> as the steps of one machine, the six kinds of change they make
  to the canonical part of the registry, and the invariant every run keeps. Proofs about runs
  go through the relation \<open>core\<close>: an operation is at most two labelled core changes, and the
  label says which guard or key it touches.
\<close>

section \<open>Steps\<close>

datatype chart_op =
    BeginWrite pyval string string string
  | EndWrite write_guard
  | InvalidateWrite write_guard string string "vdict option"
  | BeginPublication "generation_scope list"
  | EndPublication publication_guard
  | PublishUpdate string string string string string "bar list" "vdict option" "vdict option" pyval
  | WaitUpdate string string int pyfloat string nat
  | ResumeUpdate chart_key int nat
  | WaitStable chart_key pyfloat pyfloat nat
  | ResumeStable chart_key bool nat
  | PublishLive string string string string "bar list" string instant
  | WaitLive string string int pyfloat string nat
  | ResumeLive chart_key nat
  | ClearLive string string string instant

fun chart_step :: "chart_op \<Rightarrow> chart_state \<Rightarrow> chart_state" where
  "chart_step (BeginWrite e i f n) s = snd (begin_chart_bars_write e i f n s)"
| "chart_step (EndWrite g) s = snd (end_chart_bars_write g s)"
| "chart_step (InvalidateWrite g p r rep) s = snd (invalidate_chart_bars_write g p r rep s)"
| "chart_step (BeginPublication sc) s = snd (begin_chart_bars_publication sc s)"
| "chart_step (EndPublication g) s = snd (end_chart_bars_publication g s)"
| "chart_step (PublishUpdate p i n f r bs gap rep e) s =
     snd (publish_chart_bars_updated p i n f r bs gap rep e s)"
| "chart_step (WaitUpdate i f seen t n w) s = snd (wait_for_chart_bars_updated i f seen t n w s)"
| "chart_step (ResumeUpdate k seen w) s = snd (resume_chart_bars_updated k seen w s)"
| "chart_step (WaitStable k d t w) s = snd (wait_for_chart_bars_stable k d t w s)"
| "chart_step (ResumeStable k to w) s = snd (resume_chart_bars_stable k to w s)"
| "chart_step (PublishLive p i n f bs r t) s = snd (publish_live_chart_bars p i n f bs r t s)"
| "chart_step (WaitLive i f seen t n w) s = snd (wait_for_live_chart_bars i f seen t n w s)"
| "chart_step (ResumeLive k w) s = snd (resume_live_chart_bars k w s)"
| "chart_step (ClearLive i f n t) s = snd (clear_live_chart_bars i f n t s)"

section \<open>The canonical part of the state\<close>

text \<open>The six ways a step changes the generations, events, guards and waiters.\<close>

definition publish_at :: "chart_key \<Rightarrow> updated_event \<Rightarrow> chart_state \<Rightarrow> chart_state" where
  "publish_at k event s =
    evict_generation k (evict_events k (append_event k event (set_generation k (ue_generation event) s)))"

definition kept_events :: "updated_event list \<Rightarrow> updated_event list" where
  "kept_events q = drop (length q - MAX_EVENTS_PER_KEY) q"

text \<open>What no update touches.\<close>

definition same_guards :: "chart_state \<Rightarrow> chart_state \<Rightarrow> bool" where
  "same_guards s s' \<longleftrightarrow> ce_writes s' = ce_writes s \<and> ce_publications s' = ce_publications s
     \<and> ce_next_write_token s' = ce_next_write_token s
     \<and> ce_next_publication_token s' = ce_next_publication_token s"

definition same_canonical :: "chart_state \<Rightarrow> chart_state \<Rightarrow> bool" where
  "same_canonical s s' \<longleftrightarrow> same_guards s s' \<and> ce_generations s' = ce_generations s
     \<and> ce_events s' = ce_events s"

lemmas same_defs = same_canonical_def same_guards_def

lemma drop_victim_get:
  "dget (drop_victim v d) k = (if v = Some k then None else dget d k)"
  by (cases v) (auto simp: drop_victim_def)

lemma drop_victim_ok [simp]: "dict_ok d \<Longrightarrow> dict_ok (drop_victim v d)"
  by (cases v) (auto simp: drop_victim_def)

lemma append_event_simps [simp]:
  "ce_generations (append_event k e s) = ce_generations s"
  "ce_writes (append_event k e s) = ce_writes s"
  "ce_publications (append_event k e s) = ce_publications s"
  "ce_next_write_token (append_event k e s) = ce_next_write_token s"
  "ce_next_publication_token (append_event k e s) = ce_next_publication_token s"
  "ce_waiters (append_event k e s) = ce_waiters s"
  "ce_stable_waiters (append_event k e s) = ce_stable_waiters s"
  "ce_set (append_event k e s) = ce_set s"
  "ce_events (append_event k e s) =
     dset k (kept_events (dget_default (ce_events s) k [] @ [e])) (ce_events s)"
  by (simp_all add: append_event_def kept_events_def Let_def)

lemma evict_events_simps [simp]:
  "ce_generations (evict_events k s) = ce_generations s"
  "ce_writes (evict_events k s) = ce_writes s"
  "ce_publications (evict_events k s) = ce_publications s"
  "ce_next_write_token (evict_events k s) = ce_next_write_token s"
  "ce_next_publication_token (evict_events k s) = ce_next_publication_token s"
  "ce_waiters (evict_events k s) = ce_waiters s"
  "ce_stable_waiters (evict_events k s) = ce_stable_waiters s"
  "ce_set (evict_events k s) = ce_set s"
  "waiter_keys (evict_events k s) = waiter_keys s"
  by (simp_all add: evict_events_def waiter_keys_def)

lemma evict_generation_simps [simp]:
  "ce_events (evict_generation k s) = ce_events s"
  "ce_writes (evict_generation k s) = ce_writes s"
  "ce_publications (evict_generation k s) = ce_publications s"
  "ce_next_write_token (evict_generation k s) = ce_next_write_token s"
  "ce_next_publication_token (evict_generation k s) = ce_next_publication_token s"
  "ce_waiters (evict_generation k s) = ce_waiters s"
  "ce_stable_waiters (evict_generation k s) = ce_stable_waiters s"
  "ce_set (evict_generation k s) = ce_set s"
  by (simp_all add: evict_generation_def)

lemma set_generation_simps [simp]:
  "ce_events (set_generation k n s) = ce_events s"
  "ce_writes (set_generation k n s) = ce_writes s"
  "ce_publications (set_generation k n s) = ce_publications s"
  "ce_next_write_token (set_generation k n s) = ce_next_write_token s"
  "ce_next_publication_token (set_generation k n s) = ce_next_publication_token s"
  "ce_waiters (set_generation k n s) = ce_waiters s"
  "ce_stable_waiters (set_generation k n s) = ce_stable_waiters s"
  "ce_set (set_generation k n s) = ce_set s"
  "ce_generations (set_generation k n s) = dset k n (ce_generations s)"
  by (simp_all add: set_generation_def)

lemma waiter_keys_simps [simp]:
  "waiter_keys (append_event k e s) = waiter_keys s"
  "waiter_keys (set_generation k n s) = waiter_keys s"
  by (simp_all add: waiter_keys_def)

lemma evict_events_get:
  "dget (ce_events (evict_events k s)) c = dget (ce_events s) c
    \<or> dget (ce_events (evict_events k s)) c = None \<and> c \<noteq> k \<and> c \<notin> waiter_keys s"
proof (cases "length (ce_events s) > MAX_REFRESH_KEYS")
  case True
  let ?v = "first_where (\<lambda>c. c \<noteq> k \<and> c \<notin> waiter_keys s) (dkeys (ce_events s))"
  have "?v = Some c \<Longrightarrow> c \<noteq> k \<and> c \<notin> waiter_keys s" by (auto dest: first_where_Some)
  with True show ?thesis by (simp add: evict_events_def drop_victim_get)
qed (simp add: evict_events_def)

lemma evict_generation_get:
  "dget (ce_generations (evict_generation k s)) c = dget (ce_generations s) c
    \<or> dget (ce_generations (evict_generation k s)) c = None \<and> c \<noteq> k \<and> \<not> dhas (ce_events s) c
      \<and> c \<notin> waiter_keys s \<and> \<not> dhas (ce_writes s) c \<and> \<not> dhas (ce_publications s) c"
proof (cases "length (ce_generations s) > MAX_GENERATION_KEYS")
  case True
  let ?v = "first_where (\<lambda>c. c \<noteq> k \<and> \<not> dhas (ce_events s) c \<and> c \<notin> waiter_keys s
          \<and> \<not> dhas (ce_writes s) c \<and> \<not> dhas (ce_publications s) c) (dkeys (ce_generations s))"
  have "?v = Some c \<Longrightarrow> c \<noteq> k \<and> \<not> dhas (ce_events s) c \<and> c \<notin> waiter_keys s
      \<and> \<not> dhas (ce_writes s) c \<and> \<not> dhas (ce_publications s) c"
    by (auto dest: first_where_Some)
  with True show ?thesis by (simp add: evict_generation_def drop_victim_get)
qed (simp add: evict_generation_def)

lemma evict_ok [simp]:
  "dict_ok (ce_events s) \<Longrightarrow> dict_ok (ce_events (evict_events k s))"
  "dict_ok (ce_generations s) \<Longrightarrow> dict_ok (ce_generations (evict_generation k s))"
  by (simp_all add: evict_events_def evict_generation_def)

lemma publish_at_guards [simp]:
  "ce_writes (publish_at k e s) = ce_writes s"
  "ce_publications (publish_at k e s) = ce_publications s"
  "ce_next_write_token (publish_at k e s) = ce_next_write_token s"
  "ce_next_publication_token (publish_at k e s) = ce_next_publication_token s"
  "ce_waiters (publish_at k e s) = ce_waiters s"
  "ce_stable_waiters (publish_at k e s) = ce_stable_waiters s"
  "ce_set (publish_at k e s) = ce_set s"
  by (simp_all add: publish_at_def)

lemma publish_at_generation:
  "dget (ce_generations (publish_at k e s)) k = Some (ue_generation e)"
  using evict_generation_get [of k _ k] by (simp add: publish_at_def)

lemma publish_at_event:
  "dget (ce_events (publish_at k e s)) k =
     Some (kept_events (dget_default (ce_events s) k [] @ [e]))"
  using evict_events_get [of k _ k] by (simp add: publish_at_def)

lemma publish_at_other_event:
  "c \<noteq> k \<Longrightarrow> dget (ce_events (publish_at k e s)) c = dget (ce_events s) c
    \<or> dget (ce_events (publish_at k e s)) c = None"
  using evict_events_get [of k "append_event k e (set_generation k (ue_generation e) s)" c]
  by (auto simp: publish_at_def)

lemma publish_at_other_generation:
  assumes "c \<noteq> k"
  shows "dget (ce_generations (publish_at k e s)) c = dget (ce_generations s) c
    \<or> dget (ce_generations (publish_at k e s)) c = None \<and> \<not> dhas (ce_events (publish_at k e s)) c
      \<and> c \<notin> waiter_keys s \<and> \<not> dhas (ce_writes s) c \<and> \<not> dhas (ce_publications s) c"
  using assms evict_generation_get [of k "evict_events k (append_event k e (set_generation k (ue_generation e) s))" c]
  by (simp add: publish_at_def)

lemma publish_at_ok [simp]:
  "dict_ok (ce_events s) \<Longrightarrow> dict_ok (ce_events (publish_at k e s))"
  "dict_ok (ce_generations s) \<Longrightarrow> dict_ok (ce_generations (publish_at k e s))"
  by (auto simp: publish_at_def)

lemma record_is_publish_at:
  "\<exists>e. ue_generation e = n \<and> ue_instrument_id e = fst k \<and> ue_route_fingerprint e = fst (snd k)
     \<and> ue_interval e = snd (snd k)
     \<and> record_chart_bars_updated k p n r bs gap rep (set_generation k n s)
       = (waiters_of k (ce_waiters s), publish_at k e s)"
  by (rule exI [of _ "\<lparr>ue_provider = py_lower (py_strip p), ue_instrument_id = fst k,
           ue_interval = snd (snd k), ue_generation = n, ue_route_fingerprint = fst (snd k),
           ue_reason = or_text r ''canonical_commit'', ue_bars = bs,
           ue_gap = dict_or_none gap, ue_repair = dict_or_none rep\<rparr>"])
    (simp add: record_chart_bars_updated_def publish_at_def Let_def)


definition event_for :: "chart_key \<Rightarrow> updated_event \<Rightarrow> bool" where
  "event_for k e \<longleftrightarrow> ue_instrument_id e = fst k \<and> ue_route_fingerprint e = fst (snd k)
     \<and> ue_interval e = snd (snd k)"

datatype core_label = Idle | Acquire chart_key int | Release chart_key int
  | Fence "chart_key list" int | Unfence "chart_key list" int | Publish chart_key

inductive core :: "core_label \<Rightarrow> chart_state \<Rightarrow> chart_state \<Rightarrow> bool" where
  core_idle: "same_canonical s s' \<Longrightarrow> core Idle s s'"
| core_acquire: "\<not> dhas (ce_writes s) k \<Longrightarrow> dget_default (ce_publications s) k {} = {} \<Longrightarrow>
    t = ce_next_write_token s + 1 \<Longrightarrow>
    same_canonical (s\<lparr>ce_next_write_token := t, ce_writes := dset k t (ce_writes s)\<rparr>) s' \<Longrightarrow>
    core (Acquire k t) s s'"
| core_release: "dget (ce_writes s) k = Some t \<Longrightarrow>
    same_canonical (s\<lparr>ce_writes := dpop k (ce_writes s)\<rparr>) s' \<Longrightarrow> core (Release k t) s s'"
| core_fence: "distinct ks \<Longrightarrow> \<forall>k \<in> set ks. \<not> dhas (ce_writes s) k \<Longrightarrow>
    t = ce_next_publication_token s + 1 \<Longrightarrow>
    same_canonical (s\<lparr>ce_next_publication_token := t,
      ce_publications := foldl (add_token t) (ce_publications s) ks\<rparr>) s' \<Longrightarrow>
    core (Fence ks t) s s'"
| core_unfence: "same_canonical (s\<lparr>ce_publications := snd (release_scopes t ks (ce_publications s))\<rparr>) s' \<Longrightarrow>
    core (Unfence ks t) s s'"
| core_publish: "ue_generation e = generation_of s k + 1 \<Longrightarrow> event_for k e \<Longrightarrow>
    same_canonical (publish_at k e s) s' \<Longrightarrow> core (Publish k) s s'"

inductive_cases coreE: "core l s s'"
inductive_cases core_idleE: "core Idle s s'"

fun core_run :: "core_label list \<Rightarrow> chart_state \<Rightarrow> chart_state \<Rightarrow> bool" where
  "core_run [] s s' = (s' = s)"
| "core_run (l # ls) s s' = (\<exists>s1. core l s s1 \<and> core_run ls s1 s')"

text \<open>The labels an operation may have.\<close>

fun op_label :: "chart_op \<Rightarrow> core_label \<Rightarrow> bool" where
  "op_label (BeginWrite e i f n) (Acquire k t) = (chart_key n i f = Inr k)"
| "op_label (EndWrite g) (Release k t) = (t = wg_token g \<and> guard_key g = Inr k)"
| "op_label (InvalidateWrite g p r rep) (Release k t) = (t = wg_token g \<and> guard_key g = Inr k)"
| "op_label (InvalidateWrite g p r rep) (Publish k) = (guard_key g = Inr k)"
| "op_label (BeginPublication sc) (Fence ks t) = True"
| "op_label (EndPublication g) (Unfence ks t) = (t = pg_token g)"
| "op_label (PublishUpdate p i n f r bs gap rep e) (Publish k) = (chart_key n i f = Inr k)"
| "op_label op Idle = True"
| "op_label op l = False"

lemma same_canonical_refl [simp]: "same_canonical s s"
  by (simp add: same_defs)

lemma same_canonical_wake [simp]: "same_canonical s (wake w s') = same_canonical s s'"
  "same_canonical (wake w s) s' = same_canonical s s'"
  by (simp_all add: same_defs wake_def)

lemma core_run_idle: "same_canonical s s' \<Longrightarrow> \<exists>ls. core_run ls s s' \<and> (\<forall>l \<in> set ls. op_label op l)"
  by (rule exI [of _ "[Idle]"]) (auto intro: core_idle)

lemma core_run_one: "core l s s' \<Longrightarrow> op_label op l \<Longrightarrow> \<exists>ls. core_run ls s s' \<and> (\<forall>l \<in> set ls. op_label op l)"
  by (rule exI [of _ "[l]"]) auto

lemma begin_write_core:
  "\<exists>ls. core_run ls s (snd (begin_chart_bars_write e i f n s)) \<and> (\<forall>l \<in> set ls. op_label (BeginWrite e i f n) l)"
proof (cases "\<exists>g. fst (begin_chart_bars_write e i f n s) = Inr g")
  case False
  then have "snd (begin_chart_bars_write e i f n s) = s"
    by (auto simp: begin_chart_bars_write_def Let_def split: sum.splits if_splits)
  then show ?thesis by (metis core_run_idle same_canonical_refl)
next
  case True
  then obtain k where k: "chart_key n i f = Inr k" "\<not> dhas (ce_writes s) k"
    "dget_default (ce_publications s) k {} = {}"
    "snd (begin_chart_bars_write e i f n s) = s\<lparr>ce_next_write_token := ce_next_write_token s + 1,
       ce_writes := dset k (ce_next_write_token s + 1) (ce_writes s)\<rparr>"
    by (auto simp: begin_chart_bars_write_def Let_def rbind_Inr_iff split: sum.splits if_splits)
  have "core (Acquire k (ce_next_write_token s + 1)) s (snd (begin_chart_bars_write e i f n s))"
    by (rule core_acquire [OF k(2,3) refl]) (simp add: k(4))
  then show ?thesis using k(1) by (intro core_run_one) auto
qed

lemma end_write_core:
  "\<exists>ls. core_run ls s (snd (end_chart_bars_write g s)) \<and> (\<forall>l \<in> set ls. op_label (EndWrite g) l)"
proof (cases "fst (end_chart_bars_write g s) = Inr ()")
  case False
  then have "snd (end_chart_bars_write g s) = s"
    by (auto simp: end_chart_bars_write_def split: sum.splits if_splits)
  then show ?thesis by (metis core_run_idle same_canonical_refl)
next
  case True
  then obtain k where k: "guard_key g = Inr k" "dget (ce_writes s) k = Some (wg_token g)"
    "snd (end_chart_bars_write g s) =
       wake (waiters_of k (ce_stable_waiters s)) (s\<lparr>ce_writes := dpop k (ce_writes s)\<rparr>)"
    by (auto simp: end_chart_bars_write_def split: sum.splits if_splits)
  have "core (Release k (wg_token g)) s (snd (end_chart_bars_write g s))"
    by (rule core_release [OF k(2)]) (simp add: k(3))
  then show ?thesis using k(1) by (intro core_run_one) auto
qed

lemma publish_update_core:
  "\<exists>ls. core_run ls s (snd (publish_chart_bars_updated p i n f r bs gap rep e s))
    \<and> (\<forall>l \<in> set ls. op_label (PublishUpdate p i n f r bs gap rep e) l)"
proof (cases "snd (publish_chart_bars_updated p i n f r bs gap rep e s) = s")
  case True
  then show ?thesis by (metis core_run_idle same_canonical_refl)
next
  case False
  then obtain k where k: "chart_key n i f = Inr k"
    and res: "snd (publish_chart_bars_updated p i n f r bs gap rep e s) =
      (case record_chart_bars_updated k p (generation_of s k + 1) r bs gap rep
         (set_generation k (generation_of s k + 1) s) of (w, s') \<Rightarrow> wake w s')"
    by (auto simp: publish_chart_bars_updated_def Let_def rbind_Inr_iff
        split: sum.splits if_splits prod.splits option.splits)
  obtain ev where "ue_generation ev = generation_of s k + 1" "event_for k ev"
    "record_chart_bars_updated k p (generation_of s k + 1) r bs gap rep
         (set_generation k (generation_of s k + 1) s) = (waiters_of k (ce_waiters s), publish_at k ev s)"
    using record_is_publish_at [of "generation_of s k + 1" k p r bs gap rep s]
    by (auto simp: event_for_def)
  then have "core (Publish k) s (snd (publish_chart_bars_updated p i n f r bs gap rep e s))"
    unfolding res by (auto intro!: core_publish)
  then show ?thesis using k by (intro core_run_one) auto
qed

lemma invalidate_core:
  "\<exists>ls. core_run ls s (snd (invalidate_chart_bars_write g p r rep s))
    \<and> (\<forall>l \<in> set ls. op_label (InvalidateWrite g p r rep) l)"
proof (cases "\<exists>n. fst (invalidate_chart_bars_write g p r rep s) = Inr n")
  case False
  then have "snd (invalidate_chart_bars_write g p r rep s) = s"
    by (auto simp: invalidate_chart_bars_write_def Let_def split: sum.splits if_splits prod.splits)
  then show ?thesis by (metis core_run_idle same_canonical_refl)
next
  case True
  then obtain k where k: "guard_key g = Inr k" "dget (ce_writes s) k = Some (wg_token g)"
    "wg_expected_generation g \<le> generation_of s k"
    by (auto simp: invalidate_chart_bars_write_def Let_def split: sum.splits if_splits prod.splits)
  show ?thesis
  proof (cases "generation_of s k = wg_expected_generation g")
    case True
    obtain ev where ev: "ue_generation ev = generation_of s k + 1" "event_for k ev"
      "record_chart_bars_updated k p (generation_of s k + 1) r [] None rep
         (set_generation k (generation_of s k + 1) s) = (waiters_of k (ce_waiters s), publish_at k ev s)"
      using record_is_publish_at [of "generation_of s k + 1" k p r "[]" None rep s]
      by (auto simp: event_for_def)
    have "core (Publish k) s (publish_at k ev s)" using ev by (intro core_publish) auto
    moreover have "core (Release k (wg_token g)) (publish_at k ev s)
        (snd (invalidate_chart_bars_write g p r rep s))"
      using k ev True by (intro core_release) (auto simp: invalidate_chart_bars_write_def Let_def)
    ultimately show ?thesis
      using k(1) by (intro exI [of _ "[Publish k, Release k (wg_token g)]"]) auto
  next
    case False
    then have "core (Release k (wg_token g)) s (snd (invalidate_chart_bars_write g p r rep s))"
      using k by (intro core_release) (auto simp: invalidate_chart_bars_write_def Let_def)
    then show ?thesis using k(1) by (intro core_run_one) auto
  qed
qed

lemma dict_ok_add_scopes:
  assumes "foldM add_scope d scopes = Inr n" and "dict_ok d"
  shows "dict_ok n"
  using assms
  by (rule foldM_inv) (auto simp: add_scope_def res_simps split: option.splits if_splits)

lemma begin_publication_core:
  "\<exists>ls. core_run ls s (snd (begin_chart_bars_publication sc s))
    \<and> (\<forall>l \<in> set ls. op_label (BeginPublication sc) l)"
proof (cases "\<exists>g. fst (begin_chart_bars_publication sc s) = Inr g")
  case False
  then have "snd (begin_chart_bars_publication sc s) = s"
    by (auto simp: begin_chart_bars_publication_def Let_def split: sum.splits list.splits option.splits)
  then show ?thesis by (metis core_run_idle same_canonical_refl)
next
  case True
  then obtain norm where n: "foldM add_scope [] sc = Inr norm" "norm \<noteq> []"
    "stale_scope s (sort norm) = None"
    by (auto simp: begin_chart_bars_publication_def Let_def split: sum.splits list.splits option.splits)
  have "dict_ok norm" using dict_ok_add_scopes [OF n(1)] by simp
  then have "distinct (map fst (sort norm))"
    by (simp add: dict_ok_def distinct_map)
  moreover have "\<forall>k \<in> set (map fst (sort norm)). \<not> dhas (ce_writes s) k"
    using n(3) by (auto simp: stale_scope_def first_where_None)
  ultimately have "core (Fence (map fst (sort norm)) (ce_next_publication_token s + 1)) s
      (snd (begin_chart_bars_publication sc s))"
    using n by (intro core_fence) (auto simp: begin_chart_bars_publication_def Let_def split: list.splits)
  then show ?thesis by (intro core_run_one) auto
qed

lemma end_publication_core:
  "\<exists>ls. core_run ls s (snd (end_chart_bars_publication g s))
    \<and> (\<forall>l \<in> set ls. op_label (EndPublication g) l)"
proof (cases "snd (end_chart_bars_publication g s) = s")
  case True
  then show ?thesis by (metis core_run_idle same_canonical_refl)
next
  case False
  then have "core (Unfence (map fst (pg_scopes g)) (pg_token g)) s (snd (end_chart_bars_publication g s))"
    by (intro core_unfence) (auto simp: end_chart_bars_publication_def split: prod.splits if_splits)
  then show ?thesis by (intro core_run_one) auto
qed

lemma trim_live_loop_canonical:
  "same_canonical s (trim_live_loop k s) \<and> ce_waiters (trim_live_loop k s) = ce_waiters s
    \<and> ce_stable_waiters (trim_live_loop k s) = ce_stable_waiters s
    \<and> ce_live_waiters (trim_live_loop k s) = ce_live_waiters s
    \<and> ce_live_generations (trim_live_loop k s) = ce_live_generations s
    \<and> ce_set (trim_live_loop k s) = ce_set s"
proof (induction k s rule: trim_live_loop.induct)
  case (1 k s)
  show ?case
  proof (cases "length (ce_live_events s) > MAX_LIVE_KEYS \<and> stale_live_key k s \<noteq> None")
    case True
    then obtain v where v: "stale_live_key k s = Some v" by blast
    have "trim_live_loop k s = trim_live_loop k (drop_live v s)"
      using True v by (subst trim_live_loop.simps) simp
    moreover have "same_canonical s s' = same_canonical (drop_live v s) s'" for s'
      by (simp add: same_defs drop_live_def)
    ultimately show ?thesis using 1 True v by (auto simp: drop_live_def)
  next
    case False
    then have "trim_live_loop k s = s"
      by (subst trim_live_loop.simps) (auto split: option.splits)
    then show ?thesis by simp
  qed
qed

lemma trim_live_events_canonical [simp]:
  "same_canonical s (trim_live_events k s)"
  "ce_waiters (trim_live_events k s) = ce_waiters s"
  "ce_stable_waiters (trim_live_events k s) = ce_stable_waiters s"
  "ce_live_waiters (trim_live_events k s) = ce_live_waiters s"
  "ce_set (trim_live_events k s) = ce_set s"
  using trim_live_loop_canonical [of s k]
  by (auto simp: trim_live_events_def trim_live_generation_def same_defs)

lemma same_canonical_trim: "same_canonical s s1 \<Longrightarrow> same_canonical s (trim_live_events k s1)"
  using trim_live_events_canonical(1) [of s1 k] by (simp add: same_defs)

lemma wait_core:
  "same_canonical s (snd (wait_for_chart_bars_updated i f seen t n w s))"
  "same_canonical s (snd (resume_chart_bars_updated k seen w s))"
  "same_canonical s (snd (wait_for_chart_bars_stable k d tm w s))"
  "same_canonical s (snd (resume_chart_bars_stable k b w s))"
  "same_canonical s (snd (wait_for_live_chart_bars i f seen t n w s))"
  "same_canonical s (snd (resume_live_chart_bars k w s))"
  by (auto simp: wait_for_chart_bars_updated_def resume_chart_bars_updated_def Let_def
      wait_for_chart_bars_stable_def resume_chart_bars_stable_def wait_for_live_chart_bars_def
      resume_live_chart_bars_def same_defs split: sum.splits)

lemma live_core:
  "same_canonical s (snd (publish_live_chart_bars p i n f bs r now s))"
  "same_canonical s (snd (clear_live_chart_bars i f n now s))"
proof -
  have "same_canonical s (s\<lparr>ce_live_generations := a, ce_live_signatures := b, ce_live_events := c\<rparr>)"
    for a b c by (simp add: same_defs)
  note trimmed = same_canonical_trim [OF this]
  show "same_canonical s (snd (publish_live_chart_bars p i n f bs r now s))"
    "same_canonical s (snd (clear_live_chart_bars i f n now s))"
    using trimmed
    by (auto simp: publish_live_chart_bars_def clear_live_chart_bars_def Let_def split: sum.splits)
qed

lemma chart_step_core:
  "\<exists>ls. core_run ls s (chart_step op s) \<and> (\<forall>l \<in> set ls. op_label op l)"
proof (cases op)
  case BeginWrite then show ?thesis using begin_write_core by simp
next
  case EndWrite then show ?thesis using end_write_core by simp
next
  case InvalidateWrite then show ?thesis using invalidate_core by simp
next
  case BeginPublication then show ?thesis using begin_publication_core by simp
next
  case EndPublication then show ?thesis using end_publication_core by simp
next
  case PublishUpdate then show ?thesis using publish_update_core by simp
qed (auto intro!: core_run_idle wait_core live_core)

section \<open>The invariant\<close>

text \<open>
  Guards: tokens are positive, already issued and unique; a key is never both written and
  published; a fenced key has at least one token. Events: the queue of a key is a gap-free run
  of at most 32 generations that ends at the current one, and every event carries its key.
\<close>

definition guards_ok :: "chart_state \<Rightarrow> bool" where
  "guards_ok s \<longleftrightarrow> dict_ok (ce_writes s) \<and> dict_ok (ce_publications s)
     \<and> 0 \<le> ce_next_write_token s \<and> 0 \<le> ce_next_publication_token s
     \<and> (\<forall>k t. dget (ce_writes s) k = Some t \<longrightarrow> 0 < t \<and> t \<le> ce_next_write_token s)
     \<and> (\<forall>k k' t. dget (ce_writes s) k = Some t \<longrightarrow> dget (ce_writes s) k' = Some t \<longrightarrow> k = k')
     \<and> (\<forall>k T. dget (ce_publications s) k = Some T \<longrightarrow>
          T \<noteq> {} \<and> (\<forall>t \<in> T. 0 < t \<and> t \<le> ce_next_publication_token s))
     \<and> (\<forall>k. dhas (ce_writes s) k \<longrightarrow> \<not> dhas (ce_publications s) k)"

definition events_ok :: "chart_state \<Rightarrow> bool" where
  "events_ok s \<longleftrightarrow> dict_ok (ce_generations s) \<and> dict_ok (ce_events s)
     \<and> (\<forall>k g. dget (ce_generations s) k = Some g \<longrightarrow> 1 \<le> g)
     \<and> (\<forall>k q. dget (ce_events s) k = Some q \<longrightarrow> q \<noteq> [] \<and> length q \<le> MAX_EVENTS_PER_KEY
          \<and> int (length q) \<le> generation_of s k
          \<and> map ue_generation q = [generation_of s k - int (length q) + 1 .. generation_of s k]
          \<and> (\<forall>e \<in> set q. event_for k e))"

definition chart_inv :: "chart_state \<Rightarrow> bool" where
  "chart_inv s \<longleftrightarrow> guards_ok s \<and> events_ok s"

lemma same_canonical_inv:
  assumes "same_canonical s s'"
  shows "guards_ok s' = guards_ok s" "events_ok s' = events_ok s" "generation_of s' = generation_of s"
  using assms by (simp_all add: same_defs guards_ok_def events_ok_def generation_of_def fun_eq_iff)

lemma chart_init_inv: "chart_inv chart_init"
  by (simp add: chart_inv_def guards_ok_def events_ok_def chart_init_def dget_def dhas_def)

lemma add_token_get:
  "distinct ks \<Longrightarrow> dget (foldl (add_token t) pubs ks) k =
     (if k \<in> set ks then Some (insert t (dget_default pubs k {})) else dget pubs k)"
proof (induction ks arbitrary: pubs)
  case (Cons c ks)
  have "dget_default (add_token t pubs c) k {} = dget_default pubs k {}" if "k \<noteq> c"
    using that by (simp add: add_token_def)
  with Cons show ?case by (auto simp: add_token_def)
qed simp

lemma add_token_ok: "dict_ok pubs \<Longrightarrow> dict_ok (foldl (add_token t) pubs ks)"
  by (induction ks arbitrary: pubs) (auto simp: add_token_def)

lemma drop_token_get:
  "dget (drop_token t c pubs) k =
    (if k = c then let rest = dget_default pubs c {} - {t} in if rest = {} then None else Some rest
     else dget pubs k)"
  by (simp add: drop_token_def Let_def)

lemma drop_token_ok: "dict_ok pubs \<Longrightarrow> dict_ok (drop_token t k pubs)"
  by (simp add: drop_token_def Let_def)

lemma release_scopes_ok: "dict_ok pubs \<Longrightarrow> dict_ok (snd (release_scopes t ks pubs))"
  by (induction t ks pubs rule: release_scopes.induct) (auto simp: drop_token_ok)

text \<open>Releasing removes nothing but the token, and no entry is left empty.\<close>

lemma release_scopes_get:
  assumes "\<forall>c U. dget pubs c = Some U \<longrightarrow> U \<noteq> {}"
    and "dget (snd (release_scopes t ks pubs)) k = Some T"
  shows "T \<noteq> {} \<and> (\<exists>U. dget pubs k = Some U \<and> T \<subseteq> U \<and> U \<subseteq> insert t T)"
  using assms
proof (induction t ks pubs rule: release_scopes.induct)
  case (2 t c ks pubs)
  show ?case
  proof (cases "t \<in> dget_default pubs c {}")
    case False
    then show ?thesis using 2(2,3) by auto
  next
    case True
    have ne: "\<forall>d V. dget (drop_token t c pubs) d = Some V \<longrightarrow> V \<noteq> {}"
      using 2(2) by (auto simp: drop_token_get Let_def split: if_splits)
    obtain V where V: "T \<noteq> {}" "dget (drop_token t c pubs) k = Some V" "T \<subseteq> V" "V \<subseteq> insert t T"
      using 2(1) [OF _ ne] True 2(3) by auto
    show ?thesis
    proof (cases "k = c")
      case True
      then have "V = dget_default pubs c {} - {t}" "dhas pubs c"
        using V(2) by (auto simp: drop_token_get Let_def dhas_iff dget_default_None
          split: if_splits intro: ccontr)
      then show ?thesis using V True by (auto simp: dhas_iff dget_default_Some)
    next
      case False
      then show ?thesis using V by (simp add: drop_token_get)
    qed
  qed
qed auto

lemma release_scopes_has:
  assumes "dhas (snd (release_scopes t ks pubs)) k" shows "dhas pubs k"
  using assms
proof (induction t ks pubs rule: release_scopes.induct)
  case (2 t c ks pubs)
  show ?case
  proof (cases "t \<in> dget_default pubs c {}")
    case True
    then have "dhas (drop_token t c pubs) k" using 2 by simp
    moreover have "dhas pubs c" using True by (cases "dget pubs c") (auto simp: dhas_iff dget_default_None)
    ultimately show ?thesis by (auto simp: dhas_iff drop_token_get split: if_splits)
  qed (use 2 in simp)
qed simp

lemma events_ok_same:
  assumes "ce_generations s' = ce_generations s" "ce_events s' = ce_events s"
  shows "events_ok s' = events_ok s"
  using assms by (simp add: events_ok_def generation_of_def)

lemma guards_ok_same: "same_guards s s' \<Longrightarrow> guards_ok s' = guards_ok s"
  by (simp add: same_guards_def guards_ok_def)

lemma publish_at_same_guards: "same_guards s (publish_at k e s)"
  by (simp add: same_guards_def)

lemma guards_ok_acquire:
  assumes g: "guards_ok s" and k: "\<not> dhas (ce_writes s) k" "dget_default (ce_publications s) k {} = {}"
    and t: "t = ce_next_write_token s + 1"
  shows "guards_ok (s\<lparr>ce_next_write_token := t, ce_writes := dset k t (ce_writes s)\<rparr>)"
proof -
  have nopub: "\<not> dhas (ce_publications s) k"
  proof
    assume "dhas (ce_publications s) k"
    then obtain T where T: "dget (ce_publications s) k = Some T" by (auto simp: dhas_iff)
    then have "T = {}" using k(2) by (simp add: dget_default_Some)
    then show False using T g unfolding guards_ok_def by blast
  qed
  have fresh: "dget (ce_writes s) c = Some t \<Longrightarrow> False" for c
    using g t by (fastforce simp: guards_ok_def)
  have old: "dget (ce_writes s) c = Some u \<Longrightarrow> 0 < u \<and> u \<le> t" for c u
    using g t by (fastforce simp: guards_ok_def)
  have "0 < t" using g t by (simp add: guards_ok_def)
  then show ?thesis
    using g nopub fresh old unfolding guards_ok_def
    by (auto split: if_splits)
qed

lemma guards_ok_release:
  assumes g: "guards_ok s"
  shows "guards_ok (s\<lparr>ce_writes := dpop k (ce_writes s)\<rparr>)"
  using g unfolding guards_ok_def by (auto split: if_splits)

lemma guards_ok_fence:
  assumes g: "guards_ok s" and ks: "distinct ks" "\<forall>k \<in> set ks. \<not> dhas (ce_writes s) k"
    and t: "t = ce_next_publication_token s + 1"
  shows "guards_ok (s\<lparr>ce_next_publication_token := t,
      ce_publications := foldl (add_token t) (ce_publications s) ks\<rparr>)"
proof -
  let ?p = "foldl (add_token t) (ce_publications s) ks"
  have old: "u \<in> T \<Longrightarrow> dget (ce_publications s) c = Some T \<Longrightarrow> 0 < u \<and> u \<le> t" for c u T
    using g t by (fastforce simp: guards_ok_def)
  have "0 < t" using g t by (simp add: guards_ok_def)
  moreover have "T \<noteq> {} \<and> (\<forall>u \<in> T. 0 < u \<and> u \<le> t)" if "dget ?p k = Some T" for k T
  proof (cases "k \<in> set ks")
    case True
    with that have T: "T = insert t (dget_default (ce_publications s) k {})"
      by (simp add: add_token_get [OF ks(1)])
    show ?thesis
      using T old \<open>0 < t\<close>
      by (cases "dget (ce_publications s) k") (auto simp: dget_default_None dget_default_Some)
  next
    case False
    then show ?thesis using that old g by (auto simp: add_token_get [OF ks(1)] guards_ok_def)
  qed
  moreover have "\<not> dhas ?p k" if "dhas (ce_writes s) k" for k
  proof -
    have "k \<notin> set ks" using that ks(2) by blast
    then show ?thesis using that g by (simp add: dhas_iff add_token_get [OF ks(1)] guards_ok_def)
  qed
  ultimately show ?thesis
    using g by (simp add: guards_ok_def add_token_ok)
qed

lemma guards_ok_unfence:
  assumes g: "guards_ok s"
  shows "guards_ok (s\<lparr>ce_publications := snd (release_scopes t ks (ce_publications s))\<rparr>)"
proof -
  let ?p = "snd (release_scopes t ks (ce_publications s))"
  have ne: "\<forall>c U. dget (ce_publications s) c = Some U \<longrightarrow> U \<noteq> {}"
    using g by (auto simp: guards_ok_def)
  have "T \<noteq> {} \<and> (\<forall>u \<in> T. 0 < u \<and> u \<le> ce_next_publication_token s)" if "dget ?p k = Some T" for k T
  proof -
    from release_scopes_get [OF ne that] obtain U where
      "T \<noteq> {}" "dget (ce_publications s) k = Some U" "T \<subseteq> U" by blast
    then show ?thesis using g by (auto simp: guards_ok_def)
  qed
  moreover have "\<not> dhas ?p k" if "dhas (ce_writes s) k" for k
    using that g release_scopes_has [of t ks "ce_publications s" k] by (auto simp: guards_ok_def)
  ultimately show ?thesis
    using g by (simp add: guards_ok_def release_scopes_ok)
qed

lemma core_guards_ok: "core l s s' \<Longrightarrow> guards_ok s \<Longrightarrow> guards_ok s'"
  by (induction rule: core.induct)
    (simp_all add: same_canonical_inv guards_ok_acquire guards_ok_release guards_ok_fence
      guards_ok_unfence guards_ok_same [OF publish_at_same_guards])

lemma kept_events_map:
  assumes "map ue_generation q = [a .. b]" "a \<le> b"
  shows "map ue_generation (kept_events q) = [b - int (length (kept_events q)) + 1 .. b]"
    "kept_events q \<noteq> []" "length (kept_events q) \<le> MAX_EVENTS_PER_KEY"
    "length (kept_events q) \<le> length q"
proof -
  let ?n = "length q - MAX_EVENTS_PER_KEY"
  have len: "length q = nat (b - a + 1)" using arg_cong [OF assms(1), of length] by simp
  have drop: "drop n [a .. b] = [a + int n .. b]" for n
  proof (induction n arbitrary: a)
    case (Suc n)
    show ?case
    proof (cases "a \<le> b")
      case True
      then have "drop (Suc n) [a .. b] = drop n [a + 1 .. b]" by (simp add: upto_rec1)
      then show ?thesis using Suc by (simp add: algebra_simps)
    qed simp
  qed simp
  have "map ue_generation (kept_events q) = [a + int ?n .. b]"
    by (simp add: kept_events_def drop_map [symmetric] assms(1) drop)
  moreover have "int (length (kept_events q)) = b - a + 1 - int ?n"
    using len assms(2) by (simp add: kept_events_def MAX_EVENTS_PER_KEY_def of_nat_diff)
  ultimately show "map ue_generation (kept_events q) = [b - int (length (kept_events q)) + 1 .. b]"
    by simp
  show "kept_events q \<noteq> []" "length (kept_events q) \<le> MAX_EVENTS_PER_KEY"
    "length (kept_events q) \<le> length q"
    using len assms(2) by (auto simp: kept_events_def MAX_EVENTS_PER_KEY_def)
qed

lemma kept_events_set: "set (kept_events q) \<subseteq> set q"
  by (simp add: kept_events_def set_drop_subset)

lemma events_ok_publish:
  assumes ok: "events_ok s" and e: "ue_generation e = generation_of s k + 1" "event_for k e"
  shows "events_ok (publish_at k e s)"
proof -
  let ?s' = "publish_at k e s" and ?g = "generation_of s k + 1"
  let ?q = "dget_default (ce_events s) k []"
  have gpos: "0 \<le> generation_of s k"
    using ok by (cases "dget (ce_generations s) k")
      (fastforce simp: events_ok_def generation_of_def dget_default_None dget_default_Some)+
  have "map ue_generation ?q = [?g - int (length ?q) .. ?g - 1] \<and> int (length ?q) \<le> ?g - 1
      \<and> (\<forall>x \<in> set ?q. event_for k x)"
  proof (cases "dget (ce_events s) k")
    case None
    then show ?thesis using gpos by (simp add: dget_default_None)
  next
    case (Some q)
    then show ?thesis using ok by (simp add: events_ok_def dget_default_Some algebra_simps)
  qed
  then have q: "map ue_generation ?q = [?g - int (length ?q) .. ?g - 1]" "int (length ?q) \<le> ?g - 1"
    "\<forall>x \<in> set ?q. event_for k x" by blast+
  have qe: "map ue_generation (?q @ [e]) = [?g - int (length ?q) .. ?g]"
    using q(1) e(1) upto_rec2 [of "?g - int (length ?q)" ?g] by simp
  note kept = kept_events_map [OF qe]
  have gk: "generation_of ?s' k = ?g"
    using publish_at_generation [of k e s] e(1) by (simp add: generation_of_def dget_default_Some)
  have dk: "dict_ok (ce_generations s)" "dict_ok (ce_events s)" using ok by (auto simp: events_ok_def)
  have gens: "1 \<le> n" if "dget (ce_generations ?s') c = Some n" for c n
  proof (cases "c = k")
    case True
    then show ?thesis using that e(1) gpos by (simp add: publish_at_generation)
  next
    case False
    then show ?thesis
      using that publish_at_other_generation [OF False, of e s] ok by (auto simp: events_ok_def)
  qed
  have evs: "r \<noteq> [] \<and> length r \<le> MAX_EVENTS_PER_KEY \<and> int (length r) \<le> generation_of ?s' c
      \<and> map ue_generation r = [generation_of ?s' c - int (length r) + 1 .. generation_of ?s' c]
      \<and> (\<forall>x \<in> set r. event_for c x)" if r: "dget (ce_events ?s') c = Some r" for c r
  proof (cases "c = k")
    case True
    then have "r = kept_events (?q @ [e])" using r by (simp add: publish_at_event)
    moreover have "set (kept_events (?q @ [e])) \<subseteq> insert e (set ?q)"
      using kept_events_set [of "?q @ [e]"] by simp
    ultimately show ?thesis
      using kept q(2,3) e(2) gk True by auto
  next
    case False
    have has: "dhas (ce_events ?s') c" using r by (simp add: dhas_iff)
    then have "dget (ce_generations ?s') c = dget (ce_generations s) c"
      using publish_at_other_generation [OF False, of e s] by blast
    then have "generation_of ?s' c = generation_of s c"
      by (simp add: generation_of_def dget_default_def dget_def)
    moreover have "dget (ce_events s) c = Some r"
      using publish_at_other_event [OF False, of e s] r by auto
    ultimately show ?thesis using ok by (simp add: events_ok_def)
  qed
  show ?thesis
    unfolding events_ok_def using gens evs dk by simp
qed

lemma core_events_ok: "core l s s' \<Longrightarrow> events_ok s \<Longrightarrow> events_ok s'"
proof (induction rule: core.induct)
  case (core_publish e s k s')
  then show ?case using events_ok_publish by (simp add: same_canonical_inv)
qed (simp_all add: same_canonical_inv, simp_all add: events_ok_def generation_of_def)

lemma core_run_inv: "core_run ls s s' \<Longrightarrow> chart_inv s \<Longrightarrow> chart_inv s'"
  by (induction ls arbitrary: s) (auto simp: chart_inv_def intro: core_guards_ok core_events_ok)

lemma chart_step_inv: "chart_inv s \<Longrightarrow> chart_inv (chart_step op s)"
  using chart_step_core [of s op] core_run_inv by blast

interpretation chart: guarded_machine chart_init chart_step chart_inv
  by unfold_locales (rule chart_init_inv, rule chart_step_inv)

end
