(* ===== verification/ChartFence.thy ===== *)
theory ChartFence
  imports ChartCore
begin

text \<open>
  What the guards of the registry guarantee over whole runs: a write guard is exclusive and
  survives until its owner releases it, an invalidation always advances the generation, a
  publication guard pins the generations it was given, and events are handed out without gaps.
\<close>

section \<open>Write guards\<close>

fun releases_write :: "chart_op \<Rightarrow> int \<Rightarrow> bool" where
  "releases_write (EndWrite g) t = (wg_token g = t)"
| "releases_write (InvalidateWrite g p r rep) t = (wg_token g = t)"
| "releases_write op t = False"

fun releases_publication :: "chart_op \<Rightarrow> int \<Rightarrow> bool" where
  "releases_publication (EndPublication g) t = (pg_token g = t)"
| "releases_publication op t = False"

lemma op_label_release: "op_label op (Release k t) \<Longrightarrow> releases_write op t"
  by (cases op) auto

lemma op_label_unfence: "op_label op (Unfence ks t) \<Longrightarrow> releases_publication op t"
  by (cases op) auto

lemma generation_of_get: "dget (ce_generations s) k = dget (ce_generations s') k \<Longrightarrow> generation_of s k = generation_of s' k"
  by (simp add: generation_of_def dget_default_def dget_def)

lemma core_generation:
  assumes "core l s s'" and "dhas (ce_writes s) k \<or> dhas (ce_publications s) k"
  shows "generation_of s' k = (if l = Publish k then generation_of s k + 1 else generation_of s k)"
  using assms
proof (induction rule: core.induct)
  case (core_publish e s c s')
  have eq: "generation_of s' = generation_of (publish_at c e s)"
    using core_publish(3) by (simp add: same_canonical_inv)
  show ?case
  proof (cases "c = k")
    case True
    then show ?thesis
      using core_publish(1) publish_at_generation [of k e s]
      by (simp add: eq generation_of_def dget_default_Some)
  next
    case False
    then have "generation_of (publish_at c e s) k = generation_of s k"
      using core_publish(4) publish_at_other_generation [of k c e s] generation_of_get by blast
    then show ?thesis using False by (simp add: eq)
  qed
qed (simp_all add: same_canonical_inv, simp_all add: generation_of_def)

lemma core_writes:
  assumes "core l s s'" and "dget (ce_writes s) k = Some t" and "l \<noteq> Release k t"
  shows "dget (ce_writes s') k = Some t"
  using assms by (induction rule: core.induct) (auto simp: same_defs dhas_iff)

lemma core_run_write_kept:
  assumes "core_run ls s s'" and "dget (ce_writes s) k = Some t" and "Release k t \<notin> set ls"
  shows "dget (ce_writes s') k = Some t \<and> generation_of s k \<le> generation_of s' k"
  using assms
proof (induction ls arbitrary: s)
  case (Cons l ls)
  then obtain s1 where s1: "core l s s1" "core_run ls s1 s'" by auto
  have "dget (ce_writes s1) k = Some t" using core_writes [OF s1(1) Cons.prems(2)] Cons.prems(3) by auto
  moreover have "generation_of s k \<le> generation_of s1 k"
    using core_generation [OF s1(1), of k] Cons.prems(2) by (auto simp: dhas_iff)
  ultimately show ?case using Cons.IH [OF s1(2)] Cons.prems(3) by fastforce
qed simp

lemma run_write_kept:
  assumes "dget (ce_writes s) k = Some t" and "\<forall>op \<in> set ops. \<not> releases_write op t"
  shows "dget (ce_writes (fold chart_step ops s)) k = Some t
    \<and> generation_of s k \<le> generation_of (fold chart_step ops s) k"
  using assms
proof (induction ops arbitrary: s)
  case (Cons op ops)
  obtain ls where ls: "core_run ls s (chart_step op s)" "\<forall>l \<in> set ls. op_label op l"
    using chart_step_core by blast
  have "Release k t \<notin> set ls" using ls(2) Cons.prems(2) op_label_release [of op k t] by auto
  from core_run_write_kept [OF ls(1) Cons.prems(1) this] Cons.IH [of "chart_step op s"] Cons.prems(2)
  show ?case by fastforce
qed simp

lemma begin_write_facts:
  assumes "begin_chart_bars_write e i f n s = (Inr g, s1)"
  obtains k where "chart_key n i f = Inr k" "guard_key g = chart_key (fst k) (snd (snd k)) (fst (snd k))"
    "e = VInt (wg_expected_generation g)" "0 \<le> wg_expected_generation g"
    "generation_of s k = wg_expected_generation g"
    "s1 = s\<lparr>ce_next_write_token := wg_token g, ce_writes := dset k (wg_token g) (ce_writes s)\<rparr>"
    "\<not> dhas (ce_writes s) k" "dget_default (ce_publications s) k {} = {}"
  using assms
  by (auto simp: begin_chart_bars_write_def Let_def rbind_Inr_iff exact_generation_def guard_key_def
      split: sum.splits if_splits pyval.splits)

text \<open>A key is its own source: normalising its interval again gives the same key.\<close>

lemma source_interval_idem:
  assumes "canonical_bar_source_interval i = Inr tf" shows "canonical_bar_source_interval tf = Inr tf"
proof -
  have "tf \<in> {''1m'', ''5m'', ''15m'', ''60m''}"
    using assms by (auto simp: canonical_bar_source_interval_def Let_def CHART_HISTORY_INTERVALS_def
      DERIVED_CHART_INTERVAL_SOURCES_def dget_default_def split: if_splits)
  moreover have "canonical_bar_source_interval ''1m'' = Inr ''1m''" by code_simp
  moreover have "canonical_bar_source_interval ''5m'' = Inr ''5m''" by code_simp
  moreover have "canonical_bar_source_interval ''15m'' = Inr ''15m''" by code_simp
  moreover have "canonical_bar_source_interval ''60m'' = Inr ''60m''" by code_simp
  ultimately show ?thesis by auto
qed

lemma chart_key_idem:
  "chart_key n i f = Inr k \<Longrightarrow> chart_key (fst k) (snd (snd k)) (fst (snd k)) = Inr k"
  by (auto simp: chart_key_def res_simps require_exact_identity_text_def source_interval_idem
      split: if_splits)

lemma begin_write_blocked:
  assumes "chart_key n i f = Inr k" "dhas (ce_writes s) k \<or> dget_default (ce_publications s) k {} \<noteq> {}"
  shows "\<not> is_ok (fst (begin_chart_bars_write e i f n s))"
  using assms
  by (auto simp: begin_chart_bars_write_def Let_def is_ok_def rbind_Inr_iff split: sum.splits if_splits)

lemma require_generation_blocked:
  assumes "chart_key n i f = Inr k" "dhas (ce_writes s) k"
  shows "\<not> is_ok (require_chart_bars_generation e i f n s)"
  using assms
  by (auto simp: require_chart_bars_generation_def Let_def is_ok_iff rbind_Inr_iff)

text \<open>C1: a write guard is exclusive and cannot be lost: until the guard's own token is released,
  whatever else runs, its key stays marked as written, its generation does not fall below the
  expected one, no publication fences the key, every further write and every read of a fixed
  generation is refused, and releasing the guard succeeds.\<close>

theorem write_guard_is_exclusive:
  assumes "chart_inv s"
    and "begin_chart_bars_write expected interval fingerprint instrument_id s = (Inr g, s1)"
    and "\<forall>op \<in> set ops. \<not> releases_write op (wg_token g)"
    and "s2 = fold chart_step ops s1"
    and "chart_key instrument_id interval fingerprint = Inr k"
  shows "dget (ce_writes s2) k = Some (wg_token g)
    \<and> wg_expected_generation g \<le> generation_of s2 k
    \<and> dget_default (ce_publications s2) k {} = {}
    \<and> (\<forall>e. \<not> is_ok (fst (begin_chart_bars_write e interval fingerprint instrument_id s2)))
    \<and> (\<forall>e. \<not> is_ok (require_chart_bars_generation e interval fingerprint instrument_id s2))
    \<and> end_chart_bars_write g s2 = (Inr (), snd (end_chart_bars_write g s2))"
proof -
  from assms(2) obtain k' where k': "chart_key instrument_id interval fingerprint = Inr k'"
    "guard_key g = chart_key (fst k') (snd (snd k')) (fst (snd k'))"
    "generation_of s k' = wg_expected_generation g"
    "s1 = s\<lparr>ce_next_write_token := wg_token g, ce_writes := dset k' (wg_token g) (ce_writes s)\<rparr>"
    by (rule begin_write_facts)
  then have k: "k' = k" "guard_key g = Inr k"
    using assms(5) chart_key_idem [OF assms(5)] by auto
  have s1: "dget (ce_writes s1) k = Some (wg_token g)" "generation_of s1 k = wg_expected_generation g"
    using k' k(1) by (simp_all add: generation_of_def)
  have w: "dget (ce_writes s2) k = Some (wg_token g)" "wg_expected_generation g \<le> generation_of s2 k"
    using run_write_kept [OF s1(1) assms(3)] s1(2) assms(4) by simp_all
  have "s2 = fold chart_step (BeginWrite expected interval fingerprint instrument_id # ops) s"
    using assms(2,4) by simp
  then have "chart_inv s2"
    using chart.run_inv [OF assms(1), of "BeginWrite expected interval fingerprint instrument_id # ops"]
    by (simp only: chart.run_def)
  then have "\<not> dhas (ce_publications s2) k"
    using w by (auto simp: chart_inv_def guards_ok_def dhas_iff)
  then have p: "dget_default (ce_publications s2) k {} = {}"
    by (simp add: dhas_def dget_default_def)
  have h: "dhas (ce_writes s2) k" using w by (auto simp: dhas_iff)
  show ?thesis
    using w p begin_write_blocked [OF assms(5)] require_generation_blocked [OF assms(5) h] h
    by (simp add: end_chart_bars_write_def k(2))
qed

text \<open>C2: invalidating a write whose guard is held always succeeds, whatever ran in between: it
  leaves the key readable at a generation above the one the writer started from, so a reader
  that still expects the old generation is refused.\<close>

theorem invalidation_always_fails_old_readers:
  assumes "chart_inv s"
    and "begin_chart_bars_write expected interval fingerprint instrument_id s = (Inr g, s1)"
    and "\<forall>op \<in> set ops. \<not> releases_write op (wg_token g)"
    and "s2 = fold chart_step ops s1"
    and "chart_key instrument_id interval fingerprint = Inr k"
    and "invalidate_chart_bars_write g provider reason repair s2 = (r, s3)"
  shows "\<exists>n. r = Inr n \<and> wg_expected_generation g < n \<and> generation_of s3 k = n
    \<and> \<not> dhas (ce_writes s3) k
    \<and> require_chart_bars_generation expected interval fingerprint instrument_id s3
      = Inl (ChartBarsGenerationChanged (wg_expected_generation g) n False False)"
proof -
  from assms(2) obtain k' where k': "chart_key instrument_id interval fingerprint = Inr k'"
    "guard_key g = chart_key (fst k') (snd (snd k')) (fst (snd k'))"
    "expected = VInt (wg_expected_generation g)" "0 \<le> wg_expected_generation g"
    "generation_of s k' = wg_expected_generation g"
    "s1 = s\<lparr>ce_next_write_token := wg_token g, ce_writes := dset k' (wg_token g) (ce_writes s)\<rparr>"
    by (rule begin_write_facts)
  then have k: "k' = k" "guard_key g = Inr k"
    using assms(5) chart_key_idem [OF assms(5)] by auto
  have s1: "dget (ce_writes s1) k = Some (wg_token g)" "generation_of s1 k = wg_expected_generation g"
    using k' k(1) by (simp_all add: generation_of_def)
  have w: "dget (ce_writes s2) k = Some (wg_token g)" "wg_expected_generation g \<le> generation_of s2 k"
    using run_write_kept [OF s1(1) assms(3)] s1(2) assms(4) by simp_all
  have fin: "r = Inr n \<and> wg_expected_generation g < n \<and> generation_of s3 k = n
    \<and> \<not> dhas (ce_writes s3) k \<Longrightarrow> ?thesis" for n
    using k'(3,4) assms(5) by (auto simp: require_chart_bars_generation_def exact_generation_def)
  show ?thesis
  proof (cases "generation_of s2 k = wg_expected_generation g")
    case True
    obtain ev where ev: "ue_generation ev = generation_of s2 k + 1"
      "record_chart_bars_updated k provider (generation_of s2 k + 1) reason [] None repair
         (set_generation k (generation_of s2 k + 1) s2)
       = (waiters_of k (ce_waiters s2), publish_at k ev s2)"
      using record_is_publish_at [of "generation_of s2 k + 1" k provider reason "[]" None repair s2] by blast
    have "r = Inr (generation_of s2 k + 1)"
      "ce_generations s3 = ce_generations (publish_at k ev s2)" "\<not> dhas (ce_writes s3) k"
      using assms(6) k w True ev
      by (auto simp: invalidate_chart_bars_write_def Let_def wake_def)
    moreover from this have "generation_of s3 k = generation_of s2 k + 1"
      using publish_at_generation [of k ev s2] ev(1) by (simp add: generation_of_def dget_default_Some)
    ultimately show ?thesis using True by (intro fin [of "generation_of s2 k + 1"]) simp
  next
    case False
    then have "r = Inr (generation_of s2 k)" "generation_of s3 k = generation_of s2 k"
      "\<not> dhas (ce_writes s3) k"
      using assms(6) k w
      by (auto simp: invalidate_chart_bars_write_def Let_def wake_def generation_of_def)
    then show ?thesis using False w(2) by (intro fin [of "generation_of s2 k"]) simp
  qed
qed


section \<open>Publication guards\<close>

text \<open>The discipline of the module's callers: a key is published only by the owner of its write
  guard. \<open>publish_chart_bars_updated\<close> itself does not check this.\<close>

fun publishes_guarded :: "chart_op \<Rightarrow> chart_state \<Rightarrow> bool" where
  "publishes_guarded (PublishUpdate p i n f r bs gap rep e) s =
     (case chart_key n i f of Inl _ \<Rightarrow> True | Inr k \<Rightarrow> dhas (ce_writes s) k)"
| "publishes_guarded op s = True"

fun disciplined :: "chart_op list \<Rightarrow> chart_state \<Rightarrow> bool" where
  "disciplined [] s = True"
| "disciplined (op # ops) s = (publishes_guarded op s \<and> disciplined ops (chart_step op s))"

definition fenced :: "chart_key \<Rightarrow> int \<Rightarrow> chart_state \<Rightarrow> bool" where
  "fenced k t s \<longleftrightarrow> t \<in> dget_default (ce_publications s) k {}"

lemma fenced_has: "fenced k t s \<Longrightarrow> dhas (ce_publications s) k"
  by (cases "dget (ce_publications s) k") (auto simp: fenced_def dhas_iff dget_default_None)

lemma fenced_no_write: "guards_ok s \<Longrightarrow> fenced k t s \<Longrightarrow> \<not> dhas (ce_writes s) k"
  using fenced_has [of k t s] by (auto simp: guards_ok_def)

lemma release_scopes_keeps:
  "t \<in> dget_default pubs k {} \<Longrightarrow> u \<noteq> t \<Longrightarrow>
    t \<in> dget_default (snd (release_scopes u ks pubs)) k {}"
proof (induction u ks pubs rule: release_scopes.induct)
  case (2 u c ks pubs)
  have "t \<in> dget_default (drop_token u c pubs) k {}"
    using 2(2,3) by (auto simp: drop_token_def Let_def)
  with 2 show ?case by simp
qed simp

lemma add_token_keeps:
  "t \<in> dget_default pubs k {} \<Longrightarrow> t \<in> dget_default (foldl (add_token u) pubs ks) k {}"
proof (induction ks arbitrary: pubs)
  case (Cons c ks)
  have "t \<in> dget_default (add_token u pubs c) k {}" using Cons.prems by (auto simp: add_token_def)
  then show ?case using Cons.IH by simp
qed simp

lemma core_fenced:
  assumes "core l s s'" and "fenced k t s" and "\<forall>ks. l \<noteq> Unfence ks t"
  shows "fenced k t s'"
  using assms
  by (induction rule: core.induct)
    (auto simp: same_defs fenced_def intro: add_token_keeps release_scopes_keeps)

lemma core_run_fenced:
  assumes "core_run ls s s'" and "fenced k t s" and "\<forall>ks. Unfence ks t \<notin> set ls"
    and "Publish k \<notin> set ls"
  shows "fenced k t s' \<and> generation_of s' k = generation_of s k"
  using assms
proof (induction ls arbitrary: s)
  case (Cons l ls)
  then obtain s1 where s1: "core l s s1" "core_run ls s1 s'" by auto
  have "fenced k t s1" using core_fenced [OF s1(1) Cons.prems(2)] Cons.prems(3) by auto
  moreover have "generation_of s1 k = generation_of s k"
    using core_generation [OF s1(1), of k] fenced_has [OF Cons.prems(2)] Cons.prems(4) by auto
  ultimately show ?case using Cons.IH [OF s1(2)] Cons.prems(3,4) by simp
qed simp

text \<open>Only a publish on the key and an invalidation of its write publish the key.\<close>

lemma no_publish_when_fenced:
  assumes "guards_ok s" "fenced k t s" "publishes_guarded op s"
  shows "\<exists>ls. core_run ls s (chart_step op s) \<and> (\<forall>l \<in> set ls. op_label op l) \<and> Publish k \<notin> set ls"
proof -
  have nw: "\<not> dhas (ce_writes s) k" using fenced_no_write assms by blast
  obtain ls where ls: "core_run ls s (chart_step op s)" "\<forall>l \<in> set ls. op_label op l"
    using chart_step_core by blast
  have idle: ?thesis if "chart_step op s = s"
    using that core_run_idle [OF same_canonical_refl, of s op] by (intro exI [of _ "[]"]) auto
  show ?thesis
  proof (cases "Publish k \<in> set ls")
    case False
    then show ?thesis using ls by blast
  next
    case True
    then have "op_label op (Publish k)" using ls(2) by blast
    then consider g p r rep where "op = InvalidateWrite g p r rep" "guard_key g = Inr k"
      | p i n f r bs gap rep e where "op = PublishUpdate p i n f r bs gap rep e" "chart_key n i f = Inr k"
      by (cases op) auto
    then show ?thesis
    proof cases
      case 1
      have "dget (ce_writes s) k = None" using nw by (auto simp: dhas_iff)
      then show ?thesis using 1 by (intro idle) (simp add: invalidate_chart_bars_write_def Let_def)
    next
      case 2
      then show ?thesis using assms(3) nw by simp
    qed
  qed
qed

lemma run_fenced:
  assumes "chart_inv s" and "fenced k t s" and "\<forall>op \<in> set ops. \<not> releases_publication op t"
    and "disciplined ops s"
  shows "fenced k t (fold chart_step ops s)
    \<and> generation_of (fold chart_step ops s) k = generation_of s k"
  using assms
proof (induction ops arbitrary: s)
  case (Cons op ops)
  have g: "guards_ok s" "publishes_guarded op s" using Cons.prems by (simp_all add: chart_inv_def)
  obtain ls where ls: "core_run ls s (chart_step op s)" "\<forall>l \<in> set ls. op_label op l" "Publish k \<notin> set ls"
    using no_publish_when_fenced [OF g(1) Cons.prems(2) g(2)] by blast
  have nu: "\<forall>ks. Unfence ks t \<notin> set ls"
    using ls(2) Cons.prems(3) op_label_unfence [of op _ t] by auto
  have "fenced k t (chart_step op s) \<and> generation_of (chart_step op s) k = generation_of s k"
    using core_run_fenced [OF ls(1) Cons.prems(2) nu ls(3)] .
  then show ?case
    using Cons.IH [of "chart_step op s"] chart_step_inv [OF Cons.prems(1)] Cons.prems(3,4) by simp
qed simp

lemma begin_publication_facts:
  assumes "begin_chart_bars_publication sc s = (Inr g, s1)"
  shows "distinct (map fst (pg_scopes g))" "pg_scopes g \<noteq> []"
    "\<forall>(k, n) \<in> set (pg_scopes g). \<not> dhas (ce_writes s) k \<and> generation_of s k = n"
    "s1 = s\<lparr>ce_next_publication_token := pg_token g, ce_publications :=
       foldl (add_token (pg_token g)) (ce_publications s) (map fst (pg_scopes g))\<rparr>"
proof -
  obtain norm where n: "foldM add_scope [] sc = Inr norm" "norm \<noteq> []" "stale_scope s (sort norm) = None"
    "g = \<lparr>pg_scopes = sort norm, pg_token = ce_next_publication_token s + 1\<rparr>"
    "s1 = s\<lparr>ce_next_publication_token := pg_token g, ce_publications :=
       foldl (add_token (pg_token g)) (ce_publications s) (map fst (pg_scopes g))\<rparr>"
    using assms
    by (auto simp: begin_chart_bars_publication_def Let_def split: sum.splits list.splits option.splits)
  show "s1 = s\<lparr>ce_next_publication_token := pg_token g, ce_publications :=
       foldl (add_token (pg_token g)) (ce_publications s) (map fst (pg_scopes g))\<rparr>" by (rule n(5))
  have "dict_ok norm" using dict_ok_add_scopes [OF n(1)] by simp
  then show "distinct (map fst (pg_scopes g))" by (simp add: n(4) dict_ok_def distinct_map)
  show "pg_scopes g \<noteq> []" using n(2,4) by (metis publication_guard.select_convs(1) set_empty set_sort)
  show "\<forall>(k, m) \<in> set (pg_scopes g). \<not> dhas (ce_writes s) k \<and> generation_of s k = m"
    using n(3,4) by (auto simp: stale_scope_def first_where_None)
qed

text \<open>C13: while a publication guard is held and updates are published only by the owners of
  write guards, every fenced key keeps exactly the generation the publication was checked
  against, is not being written, and no write can begin on it.\<close>

theorem publication_fence_pins_generations:
  assumes "chart_inv s"
    and "begin_chart_bars_publication scopes s = (Inr g, s1)"
    and "\<forall>op \<in> set ops. \<not> releases_publication op (pg_token g)"
    and "disciplined ops s1"
    and "s2 = fold chart_step ops s1"
    and "(k, n) \<in> set (pg_scopes g)"
  shows "generation_of s2 k = n \<and> \<not> dhas (ce_writes s2) k
    \<and> (\<forall>e i f m. chart_key m i f = Inr k \<longrightarrow> \<not> is_ok (fst (begin_chart_bars_write e i f m s2)))"
proof -
  note b = begin_publication_facts [OF assms(2)]
  have k: "k \<in> set (map fst (pg_scopes g))" using assms(6) by (force intro: image_eqI)
  have "generation_of s1 k = generation_of s k" by (simp add: b(4) generation_of_def)
  then have g: "generation_of s1 k = n" using b(3) assms(6) by auto
  have f: "fenced k (pg_token g) s1"
    using k by (simp add: fenced_def b(4) dget_default_Some add_token_get [OF b(1)])
  have i1: "chart_inv s1" using chart_step_inv [OF assms(1), of "BeginPublication scopes"] assms(2) by simp
  have r: "fenced k (pg_token g) s2" "generation_of s2 k = n"
    using run_fenced [OF i1 f assms(3,4)] g assms(5) by simp_all
  have "chart_inv s2" using chart.run_inv [OF i1, of ops] assms(5) by (simp add: chart.run_def)
  then have "\<not> dhas (ce_writes s2) k" using fenced_no_write r(1) by (simp add: chart_inv_def)
  moreover have "dget_default (ce_publications s2) k {} \<noteq> {}" using r(1) by (auto simp: fenced_def)
  ultimately show ?thesis using r(2) begin_write_blocked by blast
qed

section \<open>Events\<close>

lemma filter_upto: "filter (\<lambda>x. a < x) [b .. c] = [max (a + 1) b .. (c::int)]"
proof (induction "nat (c - b + 1)" arbitrary: b)
  case (Suc n)
  then have "b \<le> c" "n = nat (c - (b + 1) + 1)" by auto
  then show ?case using Suc(1) [of "b + 1"] by (auto simp: upto_rec1 max_def)
qed simp

text \<open>C14: the events a reader gets are a gap-free ascending run that ends at the current
  generation and starts right after the generation it has seen, or at the oldest of the at most
  32 retained events if that is later; all of them carry the key of the reader.\<close>

theorem events_since_is_gap_free:
  assumes "chart_inv s" and "events_since k seen s = (generation, events)"
  shows "map ue_generation events =
      [max (seen + 1) (generation - int (length (dget_default (ce_events s) k [])) + 1) .. generation]
    \<and> (\<forall>e \<in> set events. event_for k e)
    \<and> length (dget_default (ce_events s) k []) \<le> MAX_EVENTS_PER_KEY
    \<and> generation = generation_of s k"
proof (cases "dget (ce_events s) k")
  case None
  then show ?thesis
    using assms(2) by (auto simp: events_since_def dget_default_None)
next
  case (Some q)
  then have q: "map ue_generation q = [generation_of s k - int (length q) + 1 .. generation_of s k]"
    "\<forall>e \<in> set q. event_for k e" "length q \<le> MAX_EVENTS_PER_KEY"
    using assms(1) by (auto simp: chart_inv_def events_ok_def)
  have ev: "events = filter (\<lambda>e. seen < ue_generation e) q" "generation = generation_of s k"
    using assms(2) Some by (auto simp: events_since_def dget_default_Some)
  have "map ue_generation events = filter (\<lambda>x. seen < x) (map ue_generation q)"
    by (simp add: ev filter_map comp_def)
  then show ?thesis
    using q ev by (auto simp: q(1) filter_upto Some dget_default_Some)
qed

section \<open>Witnesses\<close>

definition example_key :: chart_key where
  "example_key = (''n'', ''f'', ''1m'')"

lemma example_key: "chart_key ''n'' ''1m'' ''f'' = Inr example_key"
  unfolding example_key_def by code_simp

lemma example_complete [simp]: "key_complete example_key"
  by (simp add: example_key_def key_complete_def)

definition example_publish :: chart_op where
  "example_publish = PublishUpdate ''ibkr'' ''1m'' ''n'' ''f'' ''commit'' [] None None VNone"

definition example_guard :: write_guard where
  "example_guard = \<lparr>wg_instrument_id = ''n'', wg_route_fingerprint = ''f'', wg_interval = ''1m'',
     wg_expected_generation = 0, wg_token = 1\<rparr>"

definition example_written :: chart_state where
  "example_written = chart_init\<lparr>ce_next_write_token := 1, ce_writes := [(example_key, 1)]\<rparr>"

lemma example_begin:
  "begin_chart_bars_write (VInt 0) ''1m'' ''f'' ''n'' chart_init = (Inr example_guard, example_written)"
  by (simp add: begin_chart_bars_write_def exact_generation_def example_key generation_of_def
      example_guard_def example_written_def chart_init_def dset_def dhas_def dget_default_def)
    (simp add: example_key_def)

lemma example_not_released: "\<forall>op \<in> set [example_publish]. \<not> releases_write op (wg_token example_guard)"
  by (simp add: example_publish_def)

lemma write_guard_is_exclusive_witness:
  "dget (ce_writes (chart_step example_publish example_written)) example_key = Some 1"
  using write_guard_is_exclusive [OF chart_init_inv example_begin example_not_released refl example_key]
  by (simp add: example_guard_def)

lemma invalidation_always_fails_old_readers_witness:
  "\<exists>n. fst (invalidate_chart_bars_write example_guard ''ibkr'' ''lost'' None
      (chart_step example_publish example_written)) = Inr n \<and> 0 < n"
  using invalidation_always_fails_old_readers [OF chart_init_inv example_begin example_not_released refl
      example_key prod.collapse [symmetric], of "''ibkr''" "''lost''" None]
  by (auto simp: example_guard_def)

definition example_scope :: generation_scope where
  "example_scope = \<lparr>gs_instrument_id = ''n'', gs_route_fingerprint = ''f'', gs_interval = ''1m'',
     gs_generation = VInt 0\<rparr>"

definition example_publication :: publication_guard where
  "example_publication = \<lparr>pg_scopes = [(example_key, 0)], pg_token = 1\<rparr>"

lemma example_fence:
  "begin_chart_bars_publication [example_scope] chart_init =
    (Inr example_publication, chart_init\<lparr>ce_next_publication_token := 1,
       ce_publications := [(example_key, {1})]\<rparr>)"
  by (simp add: begin_chart_bars_publication_def add_scope_def example_scope_def exact_generation_def
      example_key stale_scope_def first_where_def generation_of_def chart_init_def dhas_def
      dget_default_def dget_def dset_def example_publication_def add_token_def)

lemma publication_fence_pins_generations_witness:
  "generation_of (chart_step (BeginWrite (VInt 0) ''1m'' ''f'' ''n'')
     (chart_init\<lparr>ce_next_publication_token := 1, ce_publications := [(example_key, {1})]\<rparr>)) example_key = 0"
  using publication_fence_pins_generations [OF chart_init_inv example_fence,
      of "[BeginWrite (VInt 0) ''1m'' ''f'' ''n'']", OF _ _ refl, of example_key 0]
  by (simp add: example_publication_def)

definition example_event :: updated_event where
  "example_event = \<lparr>ue_provider = ''ibkr'', ue_instrument_id = ''n'', ue_interval = ''1m'',
     ue_generation = 1, ue_route_fingerprint = ''f'', ue_reason = ''commit'', ue_bars = [],
     ue_gap = [], ue_repair = []\<rparr>"

lemma example_published_inv: "chart_inv (chart_step example_publish chart_init)"
  by (rule chart_step_inv [OF chart_init_inv])

lemma events_since_is_gap_free_witness:
  "map ue_generation (snd (events_since example_key 0 (chart_step example_publish chart_init))) =
    [max 1 (generation_of (chart_step example_publish chart_init) example_key
      - int (length (dget_default (ce_events (chart_step example_publish chart_init)) example_key [])) + 1)
     .. generation_of (chart_step example_publish chart_init) example_key]"
  using events_since_is_gap_free [OF example_published_inv prod.collapse [symmetric], of example_key 0]
  by simp

end
