(* ===== verification/ChartWait.thy ===== *)
theory ChartWait
  imports ChartFence
begin

text \<open>
  The waiting side of the registry and the live bars: no update and no release of a writer is
  missed by a registered waiter, and what a live publication leaves behind.
\<close>

section \<open>Waiters\<close>

lemma wake_simps [simp]:
  "ce_set (wake ids s) = set ids \<union> ce_set s" "ce_waiters (wake ids s) = ce_waiters s"
  "ce_stable_waiters (wake ids s) = ce_stable_waiters s" "ce_writes (wake ids s) = ce_writes s"
  "generation_of (wake ids s) = generation_of s" "ce_generations (wake ids s) = ce_generations s"
  "ce_live_waiters (wake ids s) = ce_live_waiters s"
  by (simp_all add: wake_def generation_of_def fun_eq_iff)

lemma waiters_of_iff: "w \<in> set (waiters_of k ws) \<longleftrightarrow> (k, w) \<in> set ws"
  by (force simp: waiters_of_def)

lemma waiting_key: "(k, w) \<in> set (ce_waiters s) \<Longrightarrow> k \<in> waiter_keys s"
  by (force simp: waiter_keys_def)

lemma publish_update_result:
  obtains "snd (publish_chart_bars_updated p i n f r bs gap rep e s) = s"
  | k ev where "chart_key n i f = Inr k"
      "snd (publish_chart_bars_updated p i n f r bs gap rep e s) =
        wake (waiters_of k (ce_waiters s)) (publish_at k ev s)"
proof (cases "snd (publish_chart_bars_updated p i n f r bs gap rep e s) = s")
  case False
  then obtain k where k: "chart_key n i f = Inr k"
    and res: "snd (publish_chart_bars_updated p i n f r bs gap rep e s) =
      (case record_chart_bars_updated k p (generation_of s k + 1) r bs gap rep
         (set_generation k (generation_of s k + 1) s) of (w, s') \<Rightarrow> wake w s')"
    by (auto simp: publish_chart_bars_updated_def Let_def rbind_Inr_iff
        split: sum.splits if_splits prod.splits option.splits)
  obtain ev where "record_chart_bars_updated k p (generation_of s k + 1) r bs gap rep
         (set_generation k (generation_of s k + 1) s) = (waiters_of k (ce_waiters s), publish_at k ev s)"
    using record_is_publish_at [of "generation_of s k + 1" k p r bs gap rep s] by blast
  with res k that(2) show thesis by simp
qed (rule that(1))

lemma invalidate_result:
  obtains "snd (invalidate_chart_bars_write g p r rep s) = s"
  | k ev where "guard_key g = Inr k" "snd (invalidate_chart_bars_write g p r rep s) =
        wake (waiters_of k (ce_stable_waiters s)) (wake (waiters_of k (ce_waiters s))
          ((publish_at k ev s)\<lparr>ce_writes := dpop k (ce_writes s)\<rparr>))"
  | k where "guard_key g = Inr k" "snd (invalidate_chart_bars_write g p r rep s) =
        wake (waiters_of k (ce_stable_waiters s)) (wake [] (s\<lparr>ce_writes := dpop k (ce_writes s)\<rparr>))"
proof (cases "\<exists>n. fst (invalidate_chart_bars_write g p r rep s) = Inr n")
  case False
  then have "snd (invalidate_chart_bars_write g p r rep s) = s"
    by (auto simp: invalidate_chart_bars_write_def Let_def split: sum.splits if_splits prod.splits)
  then show thesis by (rule that(1))
next
  case True
  then obtain k where k: "guard_key g = Inr k" "dget (ce_writes s) k = Some (wg_token g)"
    "wg_expected_generation g \<le> generation_of s k"
    by (auto simp: invalidate_chart_bars_write_def Let_def split: sum.splits if_splits prod.splits)
  obtain ev where ev: "record_chart_bars_updated k p (generation_of s k + 1) r [] None rep
         (set_generation k (generation_of s k + 1) s) = (waiters_of k (ce_waiters s), publish_at k ev s)"
    using record_is_publish_at [of "generation_of s k + 1" k p r "[]" None rep s] by blast
  show thesis
  proof (cases "generation_of s k = wg_expected_generation g")
    case True
    show thesis
      by (rule that(2) [OF k(1)]) (use k ev True in \<open>simp add: invalidate_chart_bars_write_def Let_def\<close>)
  next
    case False
    show thesis
      by (rule that(3) [OF k(1)]) (use k False in \<open>simp add: invalidate_chart_bars_write_def Let_def\<close>)
  qed
qed

lemma begin_end_waiters:
  "ce_waiters (snd (begin_chart_bars_write e i f n s)) = ce_waiters s"
  "ce_stable_waiters (snd (begin_chart_bars_write e i f n s)) = ce_stable_waiters s"
  "ce_set (snd (begin_chart_bars_write e i f n s)) = ce_set s"
  "generation_of (snd (begin_chart_bars_write e i f n s)) = generation_of s"
  "ce_waiters (snd (end_chart_bars_write g s)) = ce_waiters s"
  "ce_stable_waiters (snd (end_chart_bars_write g s)) = ce_stable_waiters s"
  "ce_set s \<subseteq> ce_set (snd (end_chart_bars_write g s))"
  "generation_of (snd (end_chart_bars_write g s)) = generation_of s"
  "ce_waiters (snd (begin_chart_bars_publication sc s)) = ce_waiters s"
  "ce_stable_waiters (snd (begin_chart_bars_publication sc s)) = ce_stable_waiters s"
  "ce_set (snd (begin_chart_bars_publication sc s)) = ce_set s"
  "generation_of (snd (begin_chart_bars_publication sc s)) = generation_of s"
  "ce_waiters (snd (end_chart_bars_publication pg s)) = ce_waiters s"
  "ce_stable_waiters (snd (end_chart_bars_publication pg s)) = ce_stable_waiters s"
  "ce_set (snd (end_chart_bars_publication pg s)) = ce_set s"
  "generation_of (snd (end_chart_bars_publication pg s)) = generation_of s"
  by (auto simp: begin_chart_bars_write_def end_chart_bars_write_def begin_chart_bars_publication_def
      end_chart_bars_publication_def Let_def generation_of_def fun_eq_iff
      split: sum.splits list.splits option.splits prod.splits)

lemma live_waiters_same:
  "ce_waiters (snd (publish_live_chart_bars p i n f bs r now s)) = ce_waiters s"
  "ce_stable_waiters (snd (publish_live_chart_bars p i n f bs r now s)) = ce_stable_waiters s"
  "ce_set s \<subseteq> ce_set (snd (publish_live_chart_bars p i n f bs r now s))"
  "ce_waiters (snd (clear_live_chart_bars i f n now s)) = ce_waiters s"
  "ce_stable_waiters (snd (clear_live_chart_bars i f n now s)) = ce_stable_waiters s"
  "ce_set s \<subseteq> ce_set (snd (clear_live_chart_bars i f n now s))"
  by (auto simp: publish_live_chart_bars_def clear_live_chart_bars_def Let_def split: sum.splits)

lemma remove1_other: "x \<noteq> y \<Longrightarrow> x \<in> set xs \<Longrightarrow> x \<in> set (remove1 y xs)"
  by (simp add: in_set_remove1)

lemma same_canonical_generation: "same_canonical s s' \<Longrightarrow> generation_of s' = generation_of s"
  by (rule same_canonical_inv)

lemma step_waiter:
  assumes w: "(k, w) \<in> set (ce_waiters s)" and op: "\<forall>seen. op \<noteq> ResumeUpdate k seen w"
  shows "(k, w) \<in> set (ce_waiters (chart_step op s)) \<and> ce_set s \<subseteq> ce_set (chart_step op s)
    \<and> (generation_of (chart_step op s) k = generation_of s k \<or> w \<in> ce_set (chart_step op s))"
proof -
  have other: "generation_of (publish_at c ev s) k = generation_of s k" if "c \<noteq> k" for c ev
    using that publish_at_other_generation [of k c ev s] waiting_key [OF w] generation_of_get by blast
  have pub: "(k, w) \<in> set (ce_waiters s') \<and> ce_set s \<subseteq> ce_set s'
      \<and> (generation_of s' k = generation_of s k \<or> w \<in> ce_set s')"
    if "ce_waiters s' = ce_waiters s" "set (waiters_of c (ce_waiters s)) \<union> ce_set s \<subseteq> ce_set s'"
      "generation_of s' k = generation_of (publish_at c ev s) k" for s' c ev
    using that other [of c ev] w by (cases "c = k") (auto simp: waiters_of_iff)
  show ?thesis
  proof (cases op)
    case (PublishUpdate p i n f r bs gap rep e)
    show ?thesis
    proof (rule publish_update_result [of p i n f r bs gap rep e s])
      fix c ev assume "snd (publish_chart_bars_updated p i n f r bs gap rep e s) =
        wake (waiters_of c (ce_waiters s)) (publish_at c ev s)"
      then show ?thesis using pub [of "chart_step op s" c ev] PublishUpdate by simp
    qed (use w PublishUpdate in simp)
  next
    case (InvalidateWrite g p r rep)
    show ?thesis
    proof (rule invalidate_result [of g p r rep s])
      fix c ev assume "snd (invalidate_chart_bars_write g p r rep s) =
        wake (waiters_of c (ce_stable_waiters s)) (wake (waiters_of c (ce_waiters s))
          ((publish_at c ev s)\<lparr>ce_writes := dpop c (ce_writes s)\<rparr>))"
      then show ?thesis using InvalidateWrite
        by (intro pub [of "chart_step op s" c ev]) (auto simp: generation_of_def)
    qed (use w InvalidateWrite in \<open>auto simp: generation_of_def\<close>)
  next
    case (ResumeUpdate c seen v)
    then have "(c, v) \<noteq> (k, w)" using op by auto
    then show ?thesis using w ResumeUpdate
      by (auto simp: resume_chart_bars_updated_def generation_of_def intro: remove1_other)
  next
    case (PublishLive p i n f bs r t)
    then show ?thesis using w live_waiters_same(3) [of s p i n f bs r t]
        same_canonical_generation [OF live_core(1)] by (simp add: live_waiters_same)
  next
    case (ClearLive i f n t)
    then show ?thesis using w live_waiters_same(6) [of s i f n t]
        same_canonical_generation [OF live_core(2)] by (simp add: live_waiters_same)
  qed (use w in \<open>auto simp: begin_end_waiters wait_for_chart_bars_updated_def generation_of_def
      wait_for_chart_bars_stable_def resume_chart_bars_stable_def wait_for_live_chart_bars_def
      resume_live_chart_bars_def Let_def subset_iff split: sum.splits
      intro: subsetD [OF begin_end_waiters(7)]\<close>)
qed

lemma run_waiter:
  assumes "(k, w) \<in> set (ce_waiters s)" and "\<forall>op \<in> set ops. \<forall>seen. op \<noteq> ResumeUpdate k seen w"
    and "generation_of s k = g \<or> w \<in> ce_set s"
  shows "generation_of (fold chart_step ops s) k = g \<or> w \<in> ce_set (fold chart_step ops s)"
  using assms
proof (induction ops arbitrary: s)
  case (Cons op ops)
  have "\<forall>seen. op \<noteq> ResumeUpdate k seen w" using Cons.prems(2) by simp
  from step_waiter [OF Cons.prems(1) this]
  have "(k, w) \<in> set (ce_waiters (chart_step op s))"
    "generation_of (chart_step op s) k = g \<or> w \<in> ce_set (chart_step op s)"
    using Cons.prems(3) by auto
  then show ?case using Cons.IH [of "chart_step op s"] Cons.prems(2) by simp
qed simp

text \<open>C15: no lost wake-up: when a reader suspended after it had seen a generation and the
  generation of its key has changed since, its event has been set, whatever ran in between.\<close>

theorem no_update_is_missed:
  assumes "wait_for_chart_bars_updated interval fingerprint seen timeout instrument_id w s
      = (Inr (Suspended k), s1)"
    and "\<forall>op \<in> set ops. \<forall>seen. op \<noteq> ResumeUpdate k seen w"
    and "generation_of (fold chart_step ops s1) k \<noteq> seen"
  shows "w \<in> ce_set (fold chart_step ops s1)"
proof -
  have "(k, w) \<in> set (ce_waiters s1)" "generation_of s1 k = seen"
    using assms(1)
    by (auto simp: wait_for_chart_bars_updated_def generation_of_def split: sum.splits if_splits)
  then show ?thesis using run_waiter [OF _ assms(2)] assms(3) by blast
qed

lemma step_stable_waiter:
  assumes w: "(k, w) \<in> set (ce_stable_waiters s)" and op: "\<forall>b. op \<noteq> ResumeStable k b w"
  shows "(k, w) \<in> set (ce_stable_waiters (chart_step op s)) \<and> ce_set s \<subseteq> ce_set (chart_step op s)
    \<and> (dhas (ce_writes s) k \<longrightarrow> dhas (ce_writes (chart_step op s)) k \<or> w \<in> ce_set (chart_step op s))"
proof (cases op)
  case (BeginWrite e i f n)
  have "dhas (ce_writes s) k \<longrightarrow> dhas (ce_writes (snd (begin_chart_bars_write e i f n s))) k"
    by (auto simp: begin_chart_bars_write_def Let_def split: sum.splits)
  then show ?thesis using w BeginWrite by (simp add: begin_end_waiters)
next
  case (EndWrite g)
  have "dhas (ce_writes s) k \<longrightarrow> dhas (ce_writes (snd (end_chart_bars_write g s))) k
      \<or> w \<in> ce_set (snd (end_chart_bars_write g s))"
    using w by (auto simp: end_chart_bars_write_def waiters_of_iff split: sum.splits)
  then show ?thesis using w EndWrite begin_end_waiters(7) [of s g] by (simp add: begin_end_waiters)
next
  case (InvalidateWrite g p r rep)
  show ?thesis
    by (rule invalidate_result [of g p r rep s])
      (use w InvalidateWrite in \<open>auto simp: waiters_of_iff\<close>)
next
  case (BeginPublication sc)
  have "ce_writes (snd (begin_chart_bars_publication sc s)) = ce_writes s"
    by (auto simp: begin_chart_bars_publication_def Let_def split: sum.splits list.splits option.splits)
  then show ?thesis using w BeginPublication by (simp add: begin_end_waiters)
next
  case (EndPublication g)
  have "ce_writes (snd (end_chart_bars_publication g s)) = ce_writes s"
    by (simp add: end_chart_bars_publication_def split: prod.splits)
  then show ?thesis using w EndPublication by (simp add: begin_end_waiters)
next
  case (PublishUpdate p i n f r bs gap rep e)
  show ?thesis
    by (rule publish_update_result [of p i n f r bs gap rep e s])
      (use w PublishUpdate in auto)
next
  case (ResumeStable c b v)
  then have "(c, v) \<noteq> (k, w)" using op by auto
  then show ?thesis using w ResumeStable
    by (auto simp: resume_chart_bars_stable_def Let_def intro: remove1_other)
next
  case (PublishLive p i n f bs r t)
  then show ?thesis using w live_waiters_same(3) [of s p i n f bs r t] live_core(1) [of s p i n f bs r t]
    by (simp add: live_waiters_same same_defs)
next
  case (ClearLive i f n t)
  then show ?thesis using w live_waiters_same(6) [of s i f n t] live_core(2) [of s i f n t]
    by (simp add: live_waiters_same same_defs)
qed (use w in \<open>auto simp: wait_for_chart_bars_updated_def resume_chart_bars_updated_def
      wait_for_chart_bars_stable_def wait_for_live_chart_bars_def resume_live_chart_bars_def Let_def
      split: sum.splits\<close>)

lemma run_stable_waiter:
  assumes "(k, w) \<in> set (ce_stable_waiters s)" and "\<forall>op \<in> set ops. \<forall>b. op \<noteq> ResumeStable k b w"
    and "dhas (ce_writes s) k \<or> w \<in> ce_set s"
  shows "dhas (ce_writes (fold chart_step ops s)) k \<or> w \<in> ce_set (fold chart_step ops s)"
  using assms
proof (induction ops arbitrary: s)
  case (Cons op ops)
  have "\<forall>b. op \<noteq> ResumeStable k b w" using Cons.prems(2) by simp
  from step_stable_waiter [OF Cons.prems(1) this]
  have "(k, w) \<in> set (ce_stable_waiters (chart_step op s))"
    "dhas (ce_writes (chart_step op s)) k \<or> w \<in> ce_set (chart_step op s)"
    using Cons.prems(3) by auto
  then show ?case using Cons.IH [of "chart_step op s"] Cons.prems(2) by simp
qed simp

text \<open>A reader that suspended because its key was being written, with a remaining time that
  is a number, has had its event set by the time the key is no longer written: it waits no
  longer than the writer.\<close>

theorem no_release_is_missed:
  assumes "wait_for_chart_bars_stable k deadline now w s = (Inr (Suspended k'), s1)"
    and "fsub deadline now \<noteq> NaN"
    and "\<forall>op \<in> set ops. \<forall>b. op \<noteq> ResumeStable k b w"
    and "\<not> dhas (ce_writes (fold chart_step ops s1)) k"
  shows "w \<in> ce_set (fold chart_step ops s1)"
proof -
  have "(k, w) \<in> set (ce_stable_waiters s1)" "dhas (ce_writes s1) k"
    using assms(1,2) not_flt_fle [of "Fin 0" "fsub deadline now"]
    by (auto simp: wait_for_chart_bars_stable_def Let_def split: if_splits)
  then show ?thesis using run_stable_waiter [OF _ assms(3)] assms(4) by blast
qed

section \<open>Live bars\<close>

lemma trim_live_loop_keeps:
  "dget (ce_live_events (trim_live_loop k s)) k = dget (ce_live_events s) k
    \<and> dget (ce_live_signatures (trim_live_loop k s)) k = dget (ce_live_signatures s) k
    \<and> (length (ce_live_events (trim_live_loop k s)) \<le> MAX_LIVE_KEYS
       \<or> (\<forall>c. dhas (ce_live_events (trim_live_loop k s)) c \<longrightarrow> c = k \<or> c \<in> live_waiter_keys s))"
proof (induction k s rule: trim_live_loop.induct)
  case (1 k s)
  consider "length (ce_live_events s) \<le> MAX_LIVE_KEYS"
    | "MAX_LIVE_KEYS < length (ce_live_events s)" "stale_live_key k s = None"
    | v where "MAX_LIVE_KEYS < length (ce_live_events s)" "stale_live_key k s = Some v"
    by (metis linorder_not_le option.exhaust)
  then show ?case
  proof cases
    case 1
    then show ?thesis by (subst (1 2 3 4) trim_live_loop.simps) simp
  next
    case 2
    then have "trim_live_loop k s = s" by (subst trim_live_loop.simps) simp
    then show ?thesis
      using 2 by (auto simp: stale_live_key_def first_where_None dhas_in_dkeys)
  next
    case 3
    then have step: "trim_live_loop k s = trim_live_loop k (drop_live v s)"
      by (subst trim_live_loop.simps) simp
    have "v \<noteq> k" using 3(2) by (auto simp: stale_live_key_def dest: first_where_Some)
    then show ?thesis
      using 1 [OF 3] unfolding step by (simp add: drop_live_def live_waiter_keys_def)
  qed
qed

lemma trim_live_generation_get:
  "dget (ce_live_generations (trim_live_generation k s)) k = dget (ce_live_generations s) k"
proof (cases "length (ce_live_generations s) > MAX_GENERATION_KEYS")
  case True
  let ?v = "first_where (\<lambda>c. c \<noteq> k \<and> \<not> dhas (ce_live_events s) c \<and> c \<notin> live_waiter_keys s)
         (dkeys (ce_live_generations s))"
  have "?v \<noteq> Some k" by (auto dest: first_where_Some)
  then show ?thesis using True by (simp add: trim_live_generation_def drop_victim_get)
qed (simp add: trim_live_generation_def)

lemma trim_live_events_facts:
  "dget (ce_live_events (trim_live_events k s)) k = dget (ce_live_events s) k"
  "dget (ce_live_signatures (trim_live_events k s)) k = dget (ce_live_signatures s) k"
  "live_generation_of (trim_live_events k s) k = live_generation_of s k"
  "length (ce_live_events (trim_live_events k s)) \<le> MAX_LIVE_KEYS
    \<or> (\<forall>c. dhas (ce_live_events (trim_live_events k s)) c \<longrightarrow> c = k \<or> c \<in> live_waiter_keys s)"
proof -
  have same: "ce_live_events (trim_live_events k s) = ce_live_events (trim_live_loop k s)"
    "ce_live_signatures (trim_live_events k s) = ce_live_signatures (trim_live_loop k s)"
    by (simp_all add: trim_live_events_def trim_live_generation_def)
  show "dget (ce_live_events (trim_live_events k s)) k = dget (ce_live_events s) k"
    "dget (ce_live_signatures (trim_live_events k s)) k = dget (ce_live_signatures s) k"
    "length (ce_live_events (trim_live_events k s)) \<le> MAX_LIVE_KEYS
    \<or> (\<forall>c. dhas (ce_live_events (trim_live_events k s)) c \<longrightarrow> c = k \<or> c \<in> live_waiter_keys s)"
    using trim_live_loop_keeps [of k s] by (simp_all add: same)
  have "dget (ce_live_generations (trim_live_events k s)) k = dget (ce_live_generations s) k"
    using trim_live_generation_get [of k "trim_live_loop k s"] trim_live_loop_canonical [of s k]
    by (simp add: trim_live_events_def)
  then show "live_generation_of (trim_live_events k s) k = live_generation_of s k"
    by (simp add: live_generation_of_def dget_default_def dget_def)
qed

lemma chart_key_complete: "chart_key n i f = Inr k \<Longrightarrow> key_complete k"
  by (auto simp: chart_key_def res_simps require_exact_identity_text_def key_complete_def
      canonical_bar_source_interval_def Let_def CHART_HISTORY_INTERVALS_def
      DERIVED_CHART_INTERVAL_SOURCES_def dget_default_def split: if_splits)

text \<open>Publishing live bars whose revision signatures are those already published changes
  nothing; any other publication moves the live generation of the key up by one, leaves exactly
  these bars as the key's snapshot, wakes every live waiter of the key, makes an immediate
  repetition a no-op, and keeps at most 512 snapshots apart from those still waited for.\<close>

theorem publish_live_effect:
  assumes "chart_key instrument_id interval fingerprint = Inr k"
    and "publish_live_chart_bars provider interval instrument_id fingerprint bars reason now s = (r, s')"
  shows "if dget (ce_live_signatures s) k = Some (map bar_ingress_revision_signature bars)
    then r = Inr (live_generation_of s k) \<and> s' = s
    else r = Inr (live_generation_of s k + 1) \<and> live_generation_of s' k = live_generation_of s k + 1
      \<and> (\<exists>e. live_chart_bars_snapshot interval fingerprint instrument_id s' = Inr (Some e)
           \<and> le_bars e = bars \<and> le_generation e = live_generation_of s' k)
      \<and> (\<forall>w. (k, w) \<in> set (ce_live_waiters s) \<longrightarrow> w \<in> ce_set s')
      \<and> (\<forall>p re t. publish_live_chart_bars p interval instrument_id fingerprint bars re t s'
           = (Inr (live_generation_of s' k), s'))
      \<and> (length (ce_live_events s') \<le> MAX_LIVE_KEYS
         \<or> (\<forall>c. dhas (ce_live_events s') c \<longrightarrow> c = k \<or> c \<in> live_waiter_keys s'))"
proof (cases "dget (ce_live_signatures s) k = Some (map bar_ingress_revision_signature bars)")
  case True
  have "key_complete k"
    using chart_key_complete [OF assms(1)] .
  then show ?thesis using True assms by (auto simp: publish_live_chart_bars_def)
next
  case False
  have kc: "key_complete k"
    using chart_key_complete [OF assms(1)] .
  define g where "g = live_generation_of s k + 1"
  define ev where "ev = \<lparr>le_provider = py_lower (py_strip provider), le_instrument_id = fst k,
              le_interval = snd (snd k), le_generation = g,
              le_route_fingerprint = fst (snd k), le_bars = bars, le_observed_at = now,
              le_reason = or_text reason ''provider_update''\<rparr>"
  define s0 where "s0 = s\<lparr>ce_live_generations := dset k g (ce_live_generations s),
                 ce_live_signatures := dset k (map bar_ingress_revision_signature bars) (ce_live_signatures s),
                 ce_live_events := dset k ev (ce_live_events s)\<rparr>"
  define s1 where "s1 = trim_live_events k s0"
  have res: "r = Inr g" "s' = wake (waiters_of k (ce_live_waiters s1)) s1"
    using assms kc False
    by (auto simp: publish_live_chart_bars_def Let_def g_def ev_def s0_def s1_def)
  have lw: "ce_live_waiters s1 = ce_live_waiters s" by (simp add: s1_def s0_def)
  have g1: "live_generation_of s1 k = g"
    by (simp add: s1_def trim_live_events_facts) (simp add: s0_def live_generation_of_def)
  have e1: "dget (ce_live_events s1) k = Some ev"
    by (simp add: s1_def trim_live_events_facts) (simp add: s0_def)
  have sig1: "dget (ce_live_signatures s1) k = Some (map bar_ingress_revision_signature bars)"
    by (simp add: s1_def trim_live_events_facts) (simp add: s0_def)
  have bound: "length (ce_live_events s1) \<le> MAX_LIVE_KEYS
      \<or> (\<forall>c. dhas (ce_live_events s1) c \<longrightarrow> c = k \<or> c \<in> live_waiter_keys s0)"
    unfolding s1_def by (rule trim_live_events_facts)
  have s': "live_generation_of s' k = g" "dget (ce_live_events s') k = Some ev"
    "dget (ce_live_signatures s') k = Some (map bar_ingress_revision_signature bars)"
    "ce_live_events s' = ce_live_events s1" "live_waiter_keys s' = live_waiter_keys s0"
    using g1 e1 sig1 lw
    by (simp_all add: res(2) wake_def live_generation_of_def live_waiter_keys_def s0_def)
  have rep: "publish_live_chart_bars p interval instrument_id fingerprint bars re t s' = (Inr g, s')" for p re t
    using s' kc assms(1) by (simp add: publish_live_chart_bars_def)
  show ?thesis
    using False res(1) s' bound rep assms(1) lw
    by (auto simp: live_chart_bars_snapshot_def g_def ev_def res(2) waiters_of_iff)
qed

section \<open>Witnesses\<close>

lemma example_wait:
  "wait_for_chart_bars_updated ''1m'' ''f'' 0 (Fin 5) ''n'' 7 chart_init
    = (Inr (Suspended example_key), chart_init\<lparr>ce_waiters := [(example_key, 7)]\<rparr>)"
  by (simp add: wait_for_chart_bars_updated_def example_key generation_of_def chart_init_def dget_default_def)

lemma example_publish_step:
  assumes "ce_generations s = []"
  shows "generation_of (chart_step example_publish s) example_key = 1"
proof -
  have g: "generation_of s example_key = 0" by (simp add: generation_of_def assms dget_default_def)
  obtain ev where ev: "ue_generation ev = generation_of s example_key + 1"
    "record_chart_bars_updated example_key ''ibkr'' (generation_of s example_key + 1) ''commit'' [] None None
       (set_generation example_key (generation_of s example_key + 1) s)
     = (waiters_of example_key (ce_waiters s), publish_at example_key ev s)"
    using record_is_publish_at by blast
  have "chart_step example_publish s = wake (waiters_of example_key (ce_waiters s)) (publish_at example_key ev s)"
    using ev by (simp add: example_publish_def publish_chart_bars_updated_def example_key Let_def)
  then show ?thesis
    using publish_at_generation [of example_key ev s] ev g
    by (simp add: generation_of_def dget_default_Some)
qed

lemma no_update_is_missed_witness:
  "7 \<in> ce_set (chart_step example_publish (chart_init\<lparr>ce_waiters := [(example_key, 7)]\<rparr>))"
proof -
  have "generation_of (chart_step example_publish (chart_init\<lparr>ce_waiters := [(example_key, 7)]\<rparr>))
      example_key \<noteq> 0"
    by (subst example_publish_step) (simp_all add: chart_init_def)
  then show ?thesis
    using no_update_is_missed [OF example_wait, of "[example_publish]"]
    by (simp add: example_publish_def)
qed

lemma no_release_is_missed_witness:
  "9 \<in> ce_set (chart_step (EndWrite example_guard)
     (example_written\<lparr>ce_stable_waiters := [(example_key, 9)]\<rparr>))"
proof -
  have w: "wait_for_chart_bars_stable example_key (Fin 5) (Fin 1) 9 example_written
      = (Inr (Suspended example_key), example_written\<lparr>ce_stable_waiters := [(example_key, 9)]\<rparr>)"
    by (simp add: wait_for_chart_bars_stable_def example_written_def chart_init_def dhas_def fsub_Fin)
  have k: "guard_key example_guard = Inr example_key"
    by (simp add: guard_key_def example_guard_def example_key)
  have "\<not> dhas (ce_writes (fold chart_step [EndWrite example_guard]
      (example_written\<lparr>ce_stable_waiters := [(example_key, 9)]\<rparr>))) example_key"
    by (simp add: end_chart_bars_write_def k) (simp add: example_written_def example_guard_def dget_def)
  from no_release_is_missed [OF w _ _ this] show ?thesis by (simp add: fsub_Fin)
qed

lemma publish_live_effect_witness:
  "fst (publish_live_chart_bars ''ibkr'' ''1m'' ''n'' ''f'' [] ''tick'' 5 chart_init) = Inr 1"
  using publish_live_effect [where s = chart_init and bars = "[]" and provider = "''ibkr''"
      and reason = "''tick''" and now = 5, OF example_key prod.collapse [symmetric]]
  by (simp add: chart_init_def dget_def live_generation_of_def dget_default_def)

end
