(* ===== verification/TickBuffer.thy ===== *)
theory TickBuffer
  imports Bars
begin

text \<open>
  \<open>data/tick_buffer.py\<close>: the micro-batch tick writer. The writer's fields are one record; a
  flush is cut at the database call into the part that takes the batch and the part that
  settles its outcome, with the batch in flight between them (the code holds \<open>_flush_lock\<close>
  there). The clock, the outcome of the database call and the answer of the owner loop are
  arguments. Metrics are not modelled.
\<close>

section \<open>State\<close>

definition MAX_CONSECUTIVE_DB_ERRORS_BEFORE_DROP :: int where
  "MAX_CONSECUTIVE_DB_ERRORS_BEFORE_DROP = 30"

record drop_event =
  de_start_at :: instant
  de_end_at :: instant
  de_instrument_id :: string
  de_route_fingerprint :: string
  de_reason :: string
  de_count :: int

record ingest_snapshot =
  is_drop_events :: "drop_event list"
  is_db_consecutive_errors :: int

record tick_writer =
  tw_max_batch :: nat
  tw_max_flush_batches :: nat
  tw_max_buffer :: nat
  tw_retention_hours :: pyfloat
  tw_purge_interval :: pyfloat
  tw_buffer :: "tick list"
  tw_inflight :: "tick list"
  tw_high_water_depth :: nat
  tw_started :: bool
  tw_flush_event :: bool
  tw_closed :: bool
  tw_written :: int
  tw_accepted :: int
  tw_dropped :: int
  tw_last_drop_at :: "instant option"
  tw_last_drop_reason :: string
  tw_drop_events :: "drop_event list"
  tw_last_flush_at :: "instant option"
  tw_last_purge_at :: "instant option"
  tw_last_purge :: "(string, int) pydict"
  tw_db_consecutive_errors :: int
  tw_purge_consecutive_errors :: int
  tw_last_purge_error :: string
  tw_last_error :: string
  tw_published :: ingest_snapshot

definition publish_ingest_quality :: "tick_writer \<Rightarrow> tick_writer" where
  "publish_ingest_quality w = w\<lparr>tw_published :=
     \<lparr>is_drop_events = tw_drop_events w, is_db_consecutive_errors = tw_db_consecutive_errors w\<rparr>\<rparr>"

text \<open>The constructor, after its integer arguments were converted by \<open>int\<close> and the floats by \<open>float\<close>.\<close>

definition TickBulkAggregator :: "int \<Rightarrow> int \<Rightarrow> int \<Rightarrow> pyfloat \<Rightarrow> pyfloat \<Rightarrow> tick_writer" where
  "TickBulkAggregator max_batch max_flush_batches max_buffer retention_hours purge_interval =
    (let batch = max max_batch 1 in
     publish_ingest_quality
     \<lparr>tw_max_batch = nat batch, tw_max_flush_batches = nat (max max_flush_batches 1),
      tw_max_buffer = nat (max max_buffer batch),
      tw_retention_hours = fmax retention_hours (rnd (1 / 20)),
      tw_purge_interval = fmax purge_interval (Fin 30),
      tw_buffer = [], tw_inflight = [], tw_high_water_depth = 0, tw_started = False,
      tw_flush_event = False, tw_closed = False, tw_written = 0, tw_accepted = 0, tw_dropped = 0,
      tw_last_drop_at = None, tw_last_drop_reason = [], tw_drop_events = [],
      tw_last_flush_at = None, tw_last_purge_at = None,
      tw_last_purge = [(''delta_rows'', 0), (''profile_rows'', 0), (''deleted_ticks'', 0),
        (''dropped_chunks'', 0), (''has_more'', 0)],
      tw_db_consecutive_errors = 0, tw_purge_consecutive_errors = 0, tw_last_purge_error = [],
      tw_last_error = [], tw_published = \<lparr>is_drop_events = [], is_db_consecutive_errors = 0\<rparr>\<rparr>)"

text \<open>\<open>running\<close>: the flush task of an earlier start exists and is not done.\<close>

definition start :: "bool \<Rightarrow> tick_writer \<Rightarrow> tick_writer" where
  "start running w = (if running then w
     else w\<lparr>tw_started := True, tw_closed := False, tw_flush_event := False\<rparr>)"

definition buffered_count :: "tick_writer \<Rightarrow> nat" where
  "buffered_count w = length (tw_buffer w)"

section \<open>Loss accounting\<close>

record route_loss =
  rl_count :: int
  rl_start_at :: instant
  rl_end_at :: instant

type_synonym route_key = "string \<times> string"

definition add_loss :: "(route_key, route_loss) pydict \<Rightarrow> tick \<Rightarrow> (route_key, route_loss) pydict" where
  "add_loss losses t =
    (let k = (tk_instrument_id t, tk_route_fingerprint t);
         l = dget_default losses k \<lparr>rl_count = 0, rl_start_at = tk_ts t, rl_end_at = tk_ts t\<rparr>
     in dset k \<lparr>rl_count = rl_count l + 1, rl_start_at = min (rl_start_at l) (tk_ts t),
                rl_end_at = max (rl_end_at l) (tk_ts t)\<rparr> losses)"

definition route_losses :: "int \<Rightarrow> instant \<Rightarrow> tick list \<Rightarrow> (route_key, route_loss) pydict" where
  "route_losses dropped now ticks =
    (let losses = foldl add_loss [] ticks in
     if losses = [] then [(([], []), \<lparr>rl_count = dropped, rl_start_at = now, rl_end_at = now\<rparr>)]
     else losses)"

text \<open>
  \<open>timedelta(hours=h)\<close> in microseconds: the whole hours exactly, the fraction through a float
  product, the sum rounded half to even.
\<close>

definition us_per_minute :: int where
  "us_per_minute = 60000000"

definition timedelta_hours :: "pyfloat \<Rightarrow> int res" where
  "timedelta_hours h = (case h of
      Fin r \<Rightarrow> (let us = round_half_even (of_int (trunc_rat r * 3600000000)
                  + rnd_val (3600000000 * (r - of_int (trunc_rat r)))) in
        if \<bar>us div us_per_day\<bar> > 999999999 then Inl OverflowError else Inr us)
    | NaN \<Rightarrow> Inl (ValueError ''cannot convert float NaN to integer'')
    | _ \<Rightarrow> Inl OverflowError)"

text \<open>The condition of the generator for one event: the shifts may leave the calendar.\<close>

definition event_matches :: "route_key \<Rightarrow> string \<Rightarrow> route_loss \<Rightarrow> drop_event \<Rightarrow> bool res" where
  "event_matches k reason l e =
    (if de_instrument_id e \<noteq> fst k \<or> de_route_fingerprint e \<noteq> snd k \<or> de_reason e \<noteq> reason then Inr False
     else rbind (instant_add (de_end_at e) us_per_minute) (\<lambda>late.
       if \<not> rl_start_at l \<le> late then Inr False
       else rbind (instant_add (de_start_at e) (- us_per_minute)) (\<lambda>early.
         Inr (early \<le> rl_end_at l))))"

fun first_match :: "(drop_event \<Rightarrow> bool res) \<Rightarrow> drop_event list \<Rightarrow> drop_event option res" where
  "first_match p [] = Inr None"
| "first_match p (e # es) = rbind (p e) (\<lambda>b. if b then Inr (Some e) else first_match p es)"

definition place_loss :: "string \<Rightarrow> drop_event list \<Rightarrow> route_key \<times> route_loss \<Rightarrow> drop_event list res" where
  "place_loss reason events kl = (case kl of (k, l) \<Rightarrow>
    rbind (first_match (event_matches k reason l) (rev events)) (\<lambda>previous. Inr (case previous of
        Some e \<Rightarrow> remove1 e events @
          [e\<lparr>de_start_at := min (de_start_at e) (rl_start_at l),
             de_end_at := max (de_end_at e) (rl_end_at l), de_count := de_count e + rl_count l\<rparr>]
      | None \<Rightarrow> events @
          [\<lparr>de_start_at = rl_start_at l, de_end_at = rl_end_at l, de_instrument_id = fst k,
            de_route_fingerprint = snd k, de_reason = reason, de_count = rl_count l\<rparr>])))"

text \<open>The losses placed one after the other; on an exception the events placed so far remain.\<close>

fun place_losses ::
  "string \<Rightarrow> drop_event list \<Rightarrow> (route_key \<times> route_loss) list \<Rightarrow> unit res \<times> drop_event list" where
  "place_losses reason events [] = (Inr (), events)"
| "place_losses reason events (kl # kls) = (case place_loss reason events kl of
      Inl e \<Rightarrow> (Inl e, events)
    | Inr events' \<Rightarrow> place_losses reason events' kls)"

definition reason_or_unknown :: "string \<Rightarrow> string" where
  "reason_or_unknown r = (if r = [] then ''unknown'' else r)"

definition record_drop_locked ::
  "instant \<Rightarrow> int \<Rightarrow> string \<Rightarrow> tick list \<Rightarrow> tick_writer \<Rightarrow> unit res \<times> tick_writer" where
  "record_drop_locked now count reason ticks w =
    (let dropped = max count 0 in
     if dropped \<le> 0 then (Inr (), w)
     else
      let why = reason_or_unknown reason;
          w1 = w\<lparr>tw_dropped := tw_dropped w + dropped, tw_last_drop_at := Some now,
                 tw_last_drop_reason := why\<rparr>
      in case rbind (timedelta_hours (tw_retention_hours w)) (\<lambda>d. instant_add now (- d)) of
           Inl e \<Rightarrow> (Inl e, w1)
         | Inr cutoff \<Rightarrow>
            (case place_losses why (filter (\<lambda>e. cutoff \<le> de_end_at e) (tw_drop_events w1))
                (route_losses dropped now ticks) of
               (Inl e, events) \<Rightarrow> (Inl e, w1\<lparr>tw_drop_events := events\<rparr>)
             | (Inr _, events) \<Rightarrow> (Inr (), publish_ingest_quality (w1\<lparr>tw_drop_events := events\<rparr>))))"

definition drop_buffered :: "instant \<Rightarrow> string \<Rightarrow> tick_writer \<Rightarrow> unit res \<times> tick_writer" where
  "drop_buffered now reason w =
    record_drop_locked now (int (length (tw_buffer w))) reason (tw_buffer w) (w\<lparr>tw_buffer := []\<rparr>)"

section \<open>Producers\<close>

text \<open>\<open>tuple(value)\<close>\<close>

fun py_tuple :: "pyval \<Rightarrow> pyval res" where
  "py_tuple (VTuple xs) = Inr (VTuple xs)"
| "py_tuple (VList xs) = Inr (VTuple xs)"
| "py_tuple (VStr s) = Inr (VTuple (map (\<lambda>c. VStr [c]) s))"
| "py_tuple (VEnum _ s) = Inr (VTuple (map (\<lambda>c. VStr [c]) s))"
| "py_tuple (VDict d) = Inr (VTuple (map fst d))"
| "py_tuple (VFrozen d) = Inr (VTuple (map fst d))"
| "py_tuple (VBytes s) = Inr (VTuple (map (\<lambda>c. VInt (int (code_point c))) s))"
| "py_tuple _ = Inl (TypeError ''object is not iterable'')"

definition build_tick ::
  "pyval \<Rightarrow> pyval \<Rightarrow> pyval \<Rightarrow> pyval \<Rightarrow> pyval \<Rightarrow> pyval \<Rightarrow> pyval \<Rightarrow> pyval \<Rightarrow> pyval \<Rightarrow> pyval \<Rightarrow> pyval
    \<Rightarrow> tick res" where
  "build_tick ts fingerprint price volume delta_sign instrument_id tick_type bid ask exchange conditions =
    rbind (require_exact_identity_text instrument_id ''instrument_id'' False) (\<lambda>i.
    rbind (require_exact_identity_text fingerprint ''route_fingerprint'' False) (\<lambda>f.
    rbind (py_tuple conditions) (\<lambda>cs.
    Tick (VStr f) ts price volume delta_sign (VStr i) tick_type bid ask exchange cs)))"

text \<open>
  The part of \<open>add_tick\<close> after the tick was built. \<open>loop_accepts\<close>: the owner loop is open and
  takes the callback.
\<close>

definition admit_tick :: "instant \<Rightarrow> bool \<Rightarrow> tick \<Rightarrow> tick_writer \<Rightarrow> bool res \<times> tick_writer" where
  "admit_tick now loop_accepts t w =
    (if tw_closed w
     then (case record_drop_locked now 1 ''writer_stopped'' [t] w of (r, w') \<Rightarrow> (rbind r (\<lambda>_. Inr False), w'))
     else if tw_max_buffer w \<le> length (tw_buffer w)
     then (case record_drop_locked now 1 ''buffer_full'' [t] w of (r, w') \<Rightarrow> (rbind r (\<lambda>_. Inr False), w'))
     else
      let depth = length (tw_buffer w) + 1;
          signal = (tw_max_batch w \<le> depth \<and> tw_started w \<and> loop_accepts)
      in (Inr True, w\<lparr>tw_buffer := tw_buffer w @ [t],
            tw_high_water_depth := (if tw_high_water_depth w < depth then depth else tw_high_water_depth w),
            tw_accepted := tw_accepted w + 1,
            tw_flush_event := (signal \<or> tw_flush_event w)\<rparr>))"

definition add_tick ::
  "instant \<Rightarrow> bool \<Rightarrow> pyval \<Rightarrow> pyval \<Rightarrow> pyval \<Rightarrow> pyval \<Rightarrow> pyval \<Rightarrow> pyval \<Rightarrow> pyval \<Rightarrow> pyval \<Rightarrow> pyval
    \<Rightarrow> pyval \<Rightarrow> pyval \<Rightarrow> tick_writer \<Rightarrow> bool res \<times> tick_writer" where
  "add_tick now loop_accepts ts fingerprint price volume delta_sign instrument_id tick_type bid ask
      exchange conditions w =
    (case build_tick ts fingerprint price volume delta_sign instrument_id tick_type bid ask exchange
        conditions of
       Inl e \<Rightarrow> (Inl e, w)
     | Inr t \<Rightarrow> admit_tick now loop_accepts t w)"

section \<open>Flushing\<close>

definition take_batch :: "tick_writer \<Rightarrow> tick list \<times> tick_writer" where
  "take_batch w =
    (let count = min (length (tw_buffer w)) (tw_max_batch w)
     in (take count (tw_buffer w), w\<lparr>tw_buffer := drop count (tw_buffer w)\<rparr>))"

definition restore_batch :: "instant \<Rightarrow> tick list \<Rightarrow> tick_writer \<Rightarrow> unit res \<times> tick_writer" where
  "restore_batch now batch w =
    (let room = tw_max_buffer w - length (tw_buffer w);
         restored = take room batch; not_restored = drop room batch;
         depth = length restored + length (tw_buffer w);
         w1 = (if restored = [] then w
               else w\<lparr>tw_buffer := restored @ tw_buffer w,
                      tw_high_water_depth :=
                        (if tw_high_water_depth w < depth then depth else tw_high_water_depth w)\<rparr>)
     in if not_restored = [] then (Inr (), w1)
        else record_drop_locked now (int (length not_restored)) ''restore_overflow'' not_restored w1)"

datatype commit_outcome = NotCommitted | Unknown

text \<open>
  The outcome of the storage call as \<open>settle_physical_task\<close> reports it: a typed batch error with
  its commit outcome and retry flag, any other error, a cancelled worker future, or a result
  with its \<open>repr\<close>. The texts are what \<open>str(error)\<close> (or the class name) gives.
\<close>

datatype write_outcome =
    BatchWriteError string commit_outcome bool
  | OtherWriteError string
  | WriteFutureCancelled
  | WriteResult pyval string

fun write_error :: "write_outcome \<Rightarrow> (string \<times> (commit_outcome \<times> bool) option) option" where
  "write_error (BatchWriteError m c r) = Some (m, Some (c, r))"
| "write_error (OtherWriteError m) = Some (m, None)"
| "write_error WriteFutureCancelled =
     Some (''tick batch completion future was cancelled'', Some (Unknown, False))"
| "write_error (WriteResult v s) = None"

definition ack_mismatch_text :: "nat \<Rightarrow> string \<Rightarrow> string" where
  "ack_mismatch_text n got = ''tick batch acknowledgement mismatch: expected '' @ str_of_nat n
     @ '', got '' @ got"

definition settle_error ::
  "instant \<Rightarrow> tick list \<Rightarrow> string \<Rightarrow> (commit_outcome \<times> bool) option \<Rightarrow> tick_writer \<Rightarrow> unit res \<times> tick_writer" where
  "settle_error now batch message typed w =
    (let errors = tw_db_consecutive_errors w + 1;
         w1 = publish_ingest_quality (w\<lparr>tw_db_consecutive_errors := errors, tw_last_error := message\<rparr>);
         retry_safe = (typed = Some (NotCommitted, True))
     in if retry_safe \<and> errors < MAX_CONSECUTIVE_DB_ERRORS_BEFORE_DROP then restore_batch now batch w1
        else if retry_safe
        then record_drop_locked now (int (length batch)) ''db_error_circuit_open'' batch w1
        else record_drop_locked now (int (length batch))
          (case typed of Some (NotCommitted, _) \<Rightarrow> ''db_write_rejected'' | _ \<Rightarrow> ''db_commit_unknown'')
          batch w1)"

definition settle_mismatch :: "instant \<Rightarrow> tick list \<Rightarrow> string \<Rightarrow> tick_writer \<Rightarrow> unit res \<times> tick_writer" where
  "settle_mismatch now batch got w =
    record_drop_locked now (int (length batch)) ''db_ack_mismatch'' batch
      (w\<lparr>tw_db_consecutive_errors := tw_db_consecutive_errors w + 1,
         tw_last_error := ack_mismatch_text (length batch) got\<rparr>)"

definition settle_success :: "instant \<Rightarrow> tick list \<Rightarrow> tick_writer \<Rightarrow> tick_writer" where
  "settle_success now batch w =
    (let w1 = w\<lparr>tw_written := tw_written w + int (length batch), tw_db_consecutive_errors := 0,
                tw_last_error := tw_last_purge_error w\<rparr>;
         w2 = (if tw_db_consecutive_errors w > 0 then publish_ingest_quality w1 else w1)
     in w2\<lparr>tw_last_flush_at := Some now\<rparr>)"

text \<open>The two halves of \<open>flush_once\<close>.\<close>

definition flush_begin :: "tick_writer \<Rightarrow> tick_writer" where
  "flush_begin w = (case take_batch w of (batch, w') \<Rightarrow> w'\<lparr>tw_inflight := batch\<rparr>)"

definition flush_settle ::
  "instant \<Rightarrow> write_outcome \<Rightarrow> bool \<Rightarrow> tick_writer \<Rightarrow> int res \<times> tick_writer" where
  "flush_settle now outcome cancelled w =
    (let batch = tw_inflight w; w0 = w\<lparr>tw_inflight := []\<rparr>;
         finish = (\<lambda>n (r, w'). (rbind r (\<lambda>_. if cancelled then Inl CancelledError else Inr n), w'))
     in case write_error outcome of
          Some (message, typed) \<Rightarrow> finish 0 (settle_error now batch message typed w0)
        | None \<Rightarrow>
           (case outcome of WriteResult v got \<Rightarrow>
              if v = VInt (int (length batch))
              then finish (int (length batch)) (Inr (), settle_success now batch w0)
              else finish 0 (settle_mismatch now batch got w0)))"

text \<open>A flush that nothing interleaves with.\<close>

definition flush_once :: "instant \<Rightarrow> write_outcome \<Rightarrow> bool \<Rightarrow> tick_writer \<Rightarrow> int res \<times> tick_writer" where
  "flush_once now outcome cancelled w =
    (if tw_buffer w = [] then (Inr 0, w) else flush_settle now outcome cancelled (flush_begin w))"

text \<open>The loop of \<open>flush_pending\<close>; \<open>env\<close> gives clock, outcome and cancellation of each call.\<close>

type_synonym flush_env = "nat \<Rightarrow> instant \<times> write_outcome \<times> bool"

fun flush_pending_loop :: "nat \<Rightarrow> flush_env \<Rightarrow> nat \<Rightarrow> int \<Rightarrow> tick_writer \<Rightarrow> int res \<times> tick_writer" where
  "flush_pending_loop 0 env i written_so_far w = (Inr written_so_far, w)"
| "flush_pending_loop (Suc n) env i written_so_far w = (case env i of (now, outcome, cancelled) \<Rightarrow>
    (case flush_once now outcome cancelled w of
       (Inl e, w') \<Rightarrow> (Inl e, w')
     | (Inr written, w') \<Rightarrow>
        if written \<le> 0 then (Inr written_so_far, w')
        else if tw_buffer w' = [] then (Inr (written_so_far + written), w')
        else flush_pending_loop n env (Suc i) (written_so_far + written) w'))"

text \<open>After the batches the event is set again when another full batch is waiting.\<close>

definition flush_rearm :: "int res \<times> tick_writer \<Rightarrow> int res \<times> tick_writer" where
  "flush_rearm rw = (case rw of
      (Inl e, w') \<Rightarrow> (Inl e, w')
    | (Inr written_so_far, w') \<Rightarrow>
        (Inr written_so_far, if tw_max_batch w' \<le> length (tw_buffer w') \<and> tw_started w'
                    then w'\<lparr>tw_flush_event := True\<rparr> else w'))"

definition flush_pending :: "flush_env \<Rightarrow> tick_writer \<Rightarrow> int res \<times> tick_writer" where
  "flush_pending env w = flush_rearm (flush_pending_loop (tw_max_flush_batches w) env 0 0 w)"

section \<open>Retention\<close>

definition record_purge_error :: "string \<Rightarrow> tick_writer \<Rightarrow> tick_writer" where
  "record_purge_error message w =
    (let m = (if message = [] then ''tick purge failed'' else message) in
     w\<lparr>tw_purge_consecutive_errors := tw_purge_consecutive_errors w + 1,
       tw_last_purge_error := m, tw_last_error := m\<rparr>)"

definition purge_due :: "bool \<Rightarrow> instant \<Rightarrow> tick_writer \<Rightarrow> bool" where
  "purge_due force now w = (force \<or> (case tw_last_purge_at w of None \<Rightarrow> True
     | Some t \<Rightarrow> \<not> flt (Fin (total_seconds (now - t))) (tw_purge_interval w)))"

text \<open>\<open>now - timedelta(hours=self.retention_hours)\<close>, the argument of the purge.\<close>

definition purge_cutoff :: "instant \<Rightarrow> tick_writer \<Rightarrow> instant res" where
  "purge_cutoff now w = rbind (timedelta_hours (tw_retention_hours w)) (\<lambda>d. instant_add now (- d))"

datatype purge_outcome = PurgeError string | PurgeResult pyval

text \<open>\<open>int(value or 0)\<close> for the values a purge reports.\<close>

fun int_or_zero :: "pyval \<Rightarrow> int res" where
  "int_or_zero (VInt n) = Inr n"
| "int_or_zero (VBool b) = Inr (if b then 1 else 0)"
| "int_or_zero (VFloat x) = (if x = Fin 0 then Inr 0 else int_of_float x)"
| "int_or_zero (VStr s) = (if s = [] then Inr 0 else py_int_of_str s)"
| "int_or_zero v = (if truthy v then Inl (TypeError ''int() argument must be a string or a real number'')
     else Inr 0)"

definition purge_counts :: "vdict \<Rightarrow> (string, int) pydict res" where
  "purge_counts d = mapM (\<lambda>(k, v). rbind (int_or_zero v) (\<lambda>n. Inr (str_of k, n))) d"

definition purge_settle ::
  "instant \<Rightarrow> purge_outcome \<Rightarrow> bool \<Rightarrow> tick_writer \<Rightarrow> (string, int) pydict res \<times> tick_writer" where
  "purge_settle now outcome cancelled w =
    (let finish = (\<lambda>w'. (if cancelled then Inl CancelledError else Inr (tw_last_purge w'), w')) in
     case outcome of
       PurgeError message \<Rightarrow> finish (record_purge_error message w)
     | PurgeResult (VDict d) \<Rightarrow>
        (let w1 = w\<lparr>tw_purge_consecutive_errors := 0, tw_last_purge_error := [],
                    tw_last_error := (if tw_db_consecutive_errors w = 0 then [] else tw_last_error w)\<rparr>
         in case purge_counts d of
              Inl e \<Rightarrow> (Inl e, w1)
            | Inr counts \<Rightarrow>
               (let more = (dget_default counts ''has_more'' 0 \<noteq> 0) in
                finish (w1\<lparr>tw_last_purge := counts,
                  tw_last_purge_at := (if more then None else Some now),
                  tw_flush_event := (more \<and> tw_started w \<or> tw_flush_event w)\<rparr>)))
     | PurgeResult _ \<Rightarrow> finish (record_purge_error ''tick purge acknowledgement must be an object'' w))"

definition purge_once_if_due ::
  "bool \<Rightarrow> instant \<Rightarrow> purge_outcome \<Rightarrow> bool \<Rightarrow> tick_writer \<Rightarrow> (string, int) pydict res \<times> tick_writer" where
  "purge_once_if_due force now outcome cancelled w =
    (if \<not> purge_due force now w then (Inr (tw_last_purge w), w)
     else case purge_cutoff now w of
            Inl e \<Rightarrow> (Inl e, w)
          | Inr _ \<Rightarrow> purge_settle now outcome cancelled w)"

section \<open>Shutdown\<close>

definition close_writer :: "tick_writer \<Rightarrow> tick_writer" where
  "close_writer w = w\<lparr>tw_closed := True, tw_flush_event := (tw_started w \<or> tw_flush_event w)\<rparr>"

text \<open>
  \<open>_drain_for_shutdown\<close>: every round flushes or gives up, so it ends; the termination proof is
  that a flush that returned a positive count took its batch out of the buffer.
\<close>

lemma record_drop_buffer [simp]:
  "tw_buffer (snd (record_drop_locked now c r ts w)) = tw_buffer w"
  "tw_inflight (snd (record_drop_locked now c r ts w)) = tw_inflight w"
  "tw_max_batch (snd (record_drop_locked now c r ts w)) = tw_max_batch w"
  "tw_max_buffer (snd (record_drop_locked now c r ts w)) = tw_max_buffer w"
  "tw_accepted (snd (record_drop_locked now c r ts w)) = tw_accepted w"
  "tw_written (snd (record_drop_locked now c r ts w)) = tw_written w"
  "tw_high_water_depth (snd (record_drop_locked now c r ts w)) = tw_high_water_depth w"
  "tw_closed (snd (record_drop_locked now c r ts w)) = tw_closed w"
  "tw_started (snd (record_drop_locked now c r ts w)) = tw_started w"
  "tw_retention_hours (snd (record_drop_locked now c r ts w)) = tw_retention_hours w"
  "tw_db_consecutive_errors (snd (record_drop_locked now c r ts w)) = tw_db_consecutive_errors w"
  "tw_dropped (snd (record_drop_locked now c r ts w)) = tw_dropped w + max c 0"
  by (auto simp: record_drop_locked_def Let_def publish_ingest_quality_def split: sum.splits prod.splits)

lemma flush_once_shrinks:
  assumes "flush_once now outcome cancelled w = (Inr n, w')" "0 < n"
  shows "length (tw_buffer w') < length (tw_buffer w)"
proof -
  have ne: "tw_buffer w \<noteq> []" using assms by (auto simp: flush_once_def)
  obtain v got where o: "outcome = WriteResult v got"
    "v = VInt (int (length (tw_inflight (flush_begin w))))"
    using assms ne
    by (auto simp: flush_once_def flush_settle_def Let_def rbind_Inr_iff
        split: option.splits prod.splits write_outcome.splits if_splits)
  have len: "n = int (length (tw_inflight (flush_begin w)))"
    "tw_buffer w' = tw_buffer (flush_begin w)"
    using assms ne o
    by (auto simp: flush_once_def flush_settle_def Let_def settle_success_def publish_ingest_quality_def
        split: if_splits)
  show ?thesis
    using assms(2) len ne by (auto simp: flush_begin_def take_batch_def Let_def)
qed

function drain_for_shutdown :: "flush_env \<Rightarrow> nat \<Rightarrow> tick_writer \<Rightarrow> unit res \<times> tick_writer" where
  "drain_for_shutdown env i w =
    (if tw_buffer w = [] then (Inr (), w)
     else case env i of (now, outcome, cancelled) \<Rightarrow>
      (case flush_once now outcome cancelled w of
         (Inl e, w') \<Rightarrow> (Inl e, w')
       | (Inr n, w') \<Rightarrow>
          if n \<le> 0 then drop_buffered now ''shutdown_flush_failed'' w'
          else drain_for_shutdown env (Suc i) w'))"
  by auto
termination
  by (relation "measure (\<lambda>(env, i, w). length (tw_buffer w))")
    (auto simp: flush_once_shrinks [OF sym])

declare drain_for_shutdown.simps [simp del]

text \<open>
  The flush task, at the moment \<open>stop\<close> awaits it: it has ended, by itself or with an exception; it waits
  for the event or its timeout (or the wait is cancelled); storage writes its batch, the one in flight, with so many
  more batches left in this call of \<open>flush_pending\<close>; or a purge is under way. It then finishes the
  round it is in; the next test of \<open>_closed\<close> ends it. What the outside contributes is \<open>env\<close> (clock, outcome
  and cancellation of each write) and \<open>purge\<close> (the same for the purge).
\<close>

datatype flush_task = TaskEnded "exn option" | TaskWaiting bool | TaskWriting nat | TaskPurging

type_synonym purge_env = "instant \<times> purge_outcome \<times> bool"

text \<open>What follows \<open>flush_pending\<close> in a round of the task.\<close>

definition round_end :: "purge_env \<Rightarrow> int res \<times> tick_writer \<Rightarrow> unit res \<times> tick_writer" where
  "round_end purge rw = (case rw of
      (Inl e, w) \<Rightarrow> (Inl e, w)
    | (Inr _, w) \<Rightarrow> (case purge of (now, outcome, cancelled) \<Rightarrow>
       (case purge_once_if_due False now outcome cancelled w of (r, w') \<Rightarrow> (rbind r (\<lambda>_. Inr ()), w'))))"

definition await_flush_task :: "flush_task \<Rightarrow> flush_env \<Rightarrow> purge_env \<Rightarrow> tick_writer \<Rightarrow> unit res \<times> tick_writer" where
  "await_flush_task task env purge w = (case task of
      TaskEnded None \<Rightarrow> (Inr (), w)
    | TaskEnded (Some e) \<Rightarrow> (Inl e, w)
    | TaskWaiting cancelled \<Rightarrow>
        (if cancelled then (Inl CancelledError, w)
         else round_end purge (flush_pending env (w\<lparr>tw_flush_event := False\<rparr>)))
    | TaskWriting more_batches \<Rightarrow> (case env 0 of (now, outcome, cancelled) \<Rightarrow>
        (case flush_settle now outcome cancelled w of
           (Inl e, w') \<Rightarrow> (Inl e, w')
         | (Inr written, w') \<Rightarrow> round_end purge (flush_rearm
             (if written \<le> 0 \<or> tw_buffer w' = [] then (Inr written, w')
              else flush_pending_loop more_batches env 1 written w'))))
    | TaskPurging \<Rightarrow> (case purge of (now, outcome, cancelled) \<Rightarrow>
        (case purge_settle now outcome cancelled w of (r, w') \<Rightarrow> (rbind r (\<lambda>_. Inr ()), w'))))"

text \<open>
  \<open>stop\<close>: refuse further ticks, let the flush task finish, drain. Whatever these raised, the \<open>finally\<close>
  part drops what is still buffered; an exception of that drop replaces the failure.
\<close>

definition stop_finally :: "instant \<Rightarrow> tick_writer \<Rightarrow> unit res \<times> tick_writer" where
  "stop_finally now w =
    (case (if tw_buffer w \<noteq> [] then drop_buffered now ''shutdown_incomplete'' w else (Inr (), w)) of
       (Inl e, w') \<Rightarrow> (Inl e, w')
     | (Inr _, w') \<Rightarrow> (Inr (), w'\<lparr>tw_started := False, tw_flush_event := False\<rparr>))"

definition stop ::
  "instant \<Rightarrow> flush_task \<Rightarrow> flush_env \<Rightarrow> purge_env \<Rightarrow> flush_env \<Rightarrow> tick_writer \<Rightarrow> unit res \<times> tick_writer" where
  "stop now task env purge drain_env w =
    (let (r, w1) = (case await_flush_task task env purge (close_writer w) of
           (Inl e, w') \<Rightarrow> (Inl e, w')
         | (Inr _, w') \<Rightarrow> drain_for_shutdown drain_env 0 w')
     in case stop_finally now w1 of
          (Inl e, w2) \<Rightarrow> (Inl e, w2)
        | (Inr _, w2) \<Rightarrow> (r, w2))"

section \<open>Quality and health\<close>

record ingest_quality =
  iq_complete :: bool
  iq_dropped :: int
  iq_drop_in_window :: bool
  iq_last_drop_at :: "instant option"
  iq_last_drop_reason :: string
  iq_db_consecutive_errors :: int

definition in_window :: "string \<Rightarrow> string \<Rightarrow> instant option \<Rightarrow> instant option \<Rightarrow> drop_event \<Rightarrow> bool" where
  "in_window identity route first_at last_at e =
    (de_instrument_id e = identity \<and> de_route_fingerprint e = route
     \<and> (case first_at of None \<Rightarrow> True | Some t \<Rightarrow> t \<le> de_end_at e)
     \<and> (case last_at of None \<Rightarrow> True | Some t \<Rightarrow> de_start_at e \<le> t))"

text \<open>\<open>snapshot\<close>: what was last published for the provider, if anything.\<close>

definition tick_ingest_quality ::
  "ingest_snapshot option \<Rightarrow> pyval \<Rightarrow> pyval \<Rightarrow> instant option \<Rightarrow> instant option \<Rightarrow> ingest_quality res" where
  "tick_ingest_quality snapshot instrument_id fingerprint first_at last_at =
    rbind (require_exact_identity_text instrument_id ''instrument_id'' False) (\<lambda>identity.
    rbind (require_exact_identity_text fingerprint ''route_fingerprint'' False) (\<lambda>route.
      let all_events = (case snapshot of None \<Rightarrow> [] | Some p \<Rightarrow> is_drop_events p);
          errors = (case snapshot of None \<Rightarrow> 0 | Some p \<Rightarrow> is_db_consecutive_errors p);
          events = sort_key de_end_at (filter (in_window identity route first_at last_at) all_events)
      in Inr \<lparr>iq_complete = (events = [] \<and> errors = 0),
              iq_dropped = sum_list (map (\<lambda>e. max (de_count e) 0) events),
              iq_drop_in_window = (events \<noteq> []),
              iq_last_drop_at = (if events = [] then None else Some (de_end_at (last events))),
              iq_last_drop_reason = (if events = [] then [] else de_reason (last events)),
              iq_db_consecutive_errors = errors\<rparr>))"

datatype severity = SevOk | SevWarn | SevError

record writer_health =
  wh_severity :: severity
  wh_reason :: string
  wh_buffer_ratio :: pyfloat
  wh_drop_ratio :: pyfloat

text \<open>\<open>int / float\<close>: the integer is converted first.\<close>

definition ratio :: "int \<Rightarrow> int \<Rightarrow> pyfloat res" where
  "ratio a b = rbind (float_of_int a) (\<lambda>x. rbind (float_of_int b) (\<lambda>y. fdiv x (fmax y (Fin 1))))"

definition health :: "nat \<Rightarrow> tick_writer \<Rightarrow> writer_health res" where
  "health buffered w =
    rbind (ratio (int buffered) (int (tw_max_buffer w))) (\<lambda>buffer_ratio.
    rbind (ratio (tw_dropped w) (tw_accepted w + tw_dropped w)) (\<lambda>drop_ratio.
      let (sev, reason) =
        (if tw_dropped w > 0
         then (SevError, if tw_last_drop_reason w = [] then ''dropped_ticks'' else tw_last_drop_reason w)
         else if tw_db_consecutive_errors w \<ge> MAX_CONSECUTIVE_DB_ERRORS_BEFORE_DROP
         then (SevError, ''db_error_circuit_open'')
         else if tw_db_consecutive_errors w > 0 then (SevWarn, ''db_errors'')
         else if tw_purge_consecutive_errors w > 0 then (SevWarn, ''purge_errors'')
         else if fle (rnd (4 / 5)) buffer_ratio then (SevWarn, ''buffer_high'')
         else (SevOk, ''ok''))
      in Inr \<lparr>wh_severity = sev, wh_reason = reason, wh_buffer_ratio = fround 4 buffer_ratio,
              wh_drop_ratio = fround 6 drop_ratio\<rparr>))"

end
