(* ===== verification/TickAccounting.thy ===== *)
theory TickAccounting
  imports TickBuffer "HOL-Library.Sublist"
begin

text \<open>
  Runs of the tick writer of \<^theory_text>\<open>TickBuffer\<close>: producers, the flusher's two halves, drops, restarts
  and purges in any order. The invariant relates the writer to what the run accepted, refused
  and had acknowledged by storage.
\<close>

section \<open>Operations as steps\<close>

datatype tick_op =
    AddTick instant bool tick
  | FlushBegin
  | FlushSettle instant write_outcome bool
  | DropBuffered instant string
  | Start bool
  | Close
  | PurgeSettle instant purge_outcome bool

text \<open>The flush lock: a flush begins only when no batch is in flight, and settles one that is.\<close>

fun tick_step :: "tick_op \<Rightarrow> tick_writer \<Rightarrow> tick_writer" where
  "tick_step (AddTick now ok t) w = snd (admit_tick now ok t w)"
| "tick_step FlushBegin w = (if tw_inflight w = [] then flush_begin w else w)"
| "tick_step (FlushSettle now outcome cancelled) w =
     (if tw_inflight w = [] then w else snd (flush_settle now outcome cancelled w))"
| "tick_step (DropBuffered now reason) w = snd (drop_buffered now reason w)"
| "tick_step (Start running) w = start running w"
| "tick_step Close w = close_writer w"
| "tick_step (PurgeSettle now outcome cancelled) w = snd (purge_settle now outcome cancelled w)"

text \<open>What a run did: the ticks accepted and acknowledged by storage, in order, and the number
  of ticks refused.\<close>

record tick_trace =
  tr_writer :: tick_writer
  tr_accepted :: "tick list"
  tr_written :: "tick list"
  tr_rejected :: int

definition trace_init :: "tick_writer \<Rightarrow> tick_trace" where
  "trace_init w = \<lparr>tr_writer = w, tr_accepted = [], tr_written = [], tr_rejected = 0\<rparr>"

fun trace_step :: "tick_op \<Rightarrow> tick_trace \<Rightarrow> tick_trace" where
  "trace_step (AddTick now ok t) tr =
     (if fst (admit_tick now ok t (tr_writer tr)) = Inr True
      then tr\<lparr>tr_writer := tick_step (AddTick now ok t) (tr_writer tr), tr_accepted := tr_accepted tr @ [t]\<rparr>
      else tr\<lparr>tr_writer := tick_step (AddTick now ok t) (tr_writer tr), tr_rejected := tr_rejected tr + 1\<rparr>)"
| "trace_step (FlushSettle now outcome cancelled) tr =
     (let w' = tick_step (FlushSettle now outcome cancelled) (tr_writer tr) in
      tr\<lparr>tr_writer := w',
         tr_written := (if tw_written w' = tw_written (tr_writer tr) then tr_written tr
                        else tr_written tr @ tw_inflight (tr_writer tr))\<rparr>)"
| "trace_step op tr = tr\<lparr>tr_writer := tick_step op (tr_writer tr)\<rparr>"

section \<open>What each operation does to the queues and counters\<close>

definition queued :: "tick_writer \<Rightarrow> int" where
  "queued w = int (length (tw_buffer w)) + int (length (tw_inflight w))"

text \<open>Everything that left the producers' side, less what was accepted.\<close>

definition balance :: "tick_writer \<Rightarrow> int" where
  "balance w = tw_written w + tw_dropped w + queued w - tw_accepted w"

definition sizes_ok :: "tick_writer \<Rightarrow> bool" where
  "sizes_ok w \<longleftrightarrow> 1 \<le> tw_max_batch w \<and> tw_max_batch w \<le> tw_max_buffer w
     \<and> length (tw_buffer w) \<le> tw_max_buffer w \<and> length (tw_inflight w) \<le> tw_max_batch w
     \<and> length (tw_buffer w) \<le> tw_high_water_depth w \<and> tw_high_water_depth w \<le> tw_max_buffer w"

lemma admit_accept:
  assumes "fst (admit_tick now ok t w) = Inr True"
  shows "tw_buffer (snd (admit_tick now ok t w)) = tw_buffer w @ [t]"
    "tw_inflight (snd (admit_tick now ok t w)) = tw_inflight w"
    "tw_accepted (snd (admit_tick now ok t w)) = tw_accepted w + 1"
    "tw_written (snd (admit_tick now ok t w)) = tw_written w"
    "tw_dropped (snd (admit_tick now ok t w)) = tw_dropped w"
    "sizes_ok w \<Longrightarrow> sizes_ok (snd (admit_tick now ok t w))"
  using assms
  by (auto simp: admit_tick_def Let_def rbind_Inr_iff sizes_ok_def split: if_splits prod.splits)

lemma admit_reject:
  assumes "fst (admit_tick now ok t w) \<noteq> Inr True"
  shows "tw_buffer (snd (admit_tick now ok t w)) = tw_buffer w"
    "tw_inflight (snd (admit_tick now ok t w)) = tw_inflight w"
    "tw_accepted (snd (admit_tick now ok t w)) = tw_accepted w"
    "tw_written (snd (admit_tick now ok t w)) = tw_written w"
    "tw_dropped (snd (admit_tick now ok t w)) = tw_dropped w + 1"
    "sizes_ok w \<Longrightarrow> sizes_ok (snd (admit_tick now ok t w))"
proof -
  obtain reason where r: "snd (admit_tick now ok t w) = snd (record_drop_locked now 1 reason [t] w)"
    using assms by (auto simp: admit_tick_def Let_def split: if_splits prod.splits) (metis snd_conv)+
  show "tw_buffer (snd (admit_tick now ok t w)) = tw_buffer w"
    "tw_inflight (snd (admit_tick now ok t w)) = tw_inflight w"
    "tw_accepted (snd (admit_tick now ok t w)) = tw_accepted w"
    "tw_written (snd (admit_tick now ok t w)) = tw_written w"
    "tw_dropped (snd (admit_tick now ok t w)) = tw_dropped w + 1"
    "sizes_ok w \<Longrightarrow> sizes_ok (snd (admit_tick now ok t w))"
    by (simp_all add: r sizes_ok_def)
qed

lemma snd_case_prod [simp]: "snd (case p of (r, w') \<Rightarrow> (f r, w')) = snd p"
  by (cases p) simp

lemma publish_quality_simps [simp]:
  "tw_buffer (publish_ingest_quality w) = tw_buffer w"
  "tw_inflight (publish_ingest_quality w) = tw_inflight w"
  "tw_accepted (publish_ingest_quality w) = tw_accepted w"
  "tw_written (publish_ingest_quality w) = tw_written w"
  "tw_dropped (publish_ingest_quality w) = tw_dropped w"
  "tw_max_batch (publish_ingest_quality w) = tw_max_batch w"
  "tw_max_buffer (publish_ingest_quality w) = tw_max_buffer w"
  "tw_high_water_depth (publish_ingest_quality w) = tw_high_water_depth w"
  "tw_db_consecutive_errors (publish_ingest_quality w) = tw_db_consecutive_errors w"
  by (simp_all add: publish_ingest_quality_def)

lemma restore_batch_effect:
  fixes w batch
  defines "room \<equiv> tw_max_buffer w - length (tw_buffer w)"
  shows "tw_buffer (snd (restore_batch now batch w)) = take room batch @ tw_buffer w"
    "tw_inflight (snd (restore_batch now batch w)) = tw_inflight w"
    "tw_accepted (snd (restore_batch now batch w)) = tw_accepted w"
    "tw_written (snd (restore_batch now batch w)) = tw_written w"
    "tw_dropped (snd (restore_batch now batch w)) = tw_dropped w + int (length (drop room batch))"
    "tw_db_consecutive_errors (snd (restore_batch now batch w)) = tw_db_consecutive_errors w"
    "sizes_ok w \<Longrightarrow> sizes_ok (snd (restore_batch now batch w))"
  by (auto simp: restore_batch_def Let_def sizes_ok_def room_def)

text \<open>The three ways a batch in flight ends.\<close>

inductive settled :: "tick_writer \<Rightarrow> write_outcome \<Rightarrow> tick_writer \<Rightarrow> bool" where
  settled_written: "tw_buffer w' = tw_buffer w \<Longrightarrow>
    tw_written w' = tw_written w + int (length (tw_inflight w)) \<Longrightarrow> tw_dropped w' = tw_dropped w \<Longrightarrow>
    tw_db_consecutive_errors w' = 0 \<Longrightarrow>
    settled w (WriteResult (VInt (int (length (tw_inflight w)))) got) w'"
| settled_restored: "tw_db_consecutive_errors w + 1 < MAX_CONSECUTIVE_DB_ERRORS_BEFORE_DROP \<Longrightarrow>
    room = tw_max_buffer w - length (tw_buffer w) \<Longrightarrow>
    tw_buffer w' = take room (tw_inflight w) @ tw_buffer w \<Longrightarrow>
    tw_written w' = tw_written w \<Longrightarrow>
    tw_dropped w' = tw_dropped w + int (length (drop room (tw_inflight w))) \<Longrightarrow>
    tw_db_consecutive_errors w' = tw_db_consecutive_errors w + 1 \<Longrightarrow>
    settled w (BatchWriteError m NotCommitted True) w'"
| settled_dropped: "tw_buffer w' = tw_buffer w \<Longrightarrow> tw_written w' = tw_written w \<Longrightarrow>
    tw_dropped w' = tw_dropped w + int (length (tw_inflight w)) \<Longrightarrow>
    tw_db_consecutive_errors w' = tw_db_consecutive_errors w + 1 \<Longrightarrow>
    (\<And>m. outcome = BatchWriteError m NotCommitted True \<Longrightarrow>
      MAX_CONSECUTIVE_DB_ERRORS_BEFORE_DROP \<le> tw_db_consecutive_errors w + 1) \<Longrightarrow>
    (\<And>got. outcome \<noteq> WriteResult (VInt (int (length (tw_inflight w)))) got) \<Longrightarrow>
    settled w outcome w'"

lemma flush_settle_settled:
  "settled w outcome (snd (flush_settle now outcome cancelled w))
    \<and> tw_inflight (snd (flush_settle now outcome cancelled w)) = []
    \<and> tw_accepted (snd (flush_settle now outcome cancelled w)) = tw_accepted w
    \<and> (sizes_ok w \<longrightarrow> sizes_ok (snd (flush_settle now outcome cancelled w)))"
proof (cases "write_error outcome")
  case None
  then obtain v got where o: "outcome = WriteResult v got" by (cases outcome) auto
  show ?thesis
  proof (cases "v = VInt (int (length (tw_inflight w)))")
    case True
    then show ?thesis
      unfolding o by (auto simp: flush_settle_def Let_def settle_success_def sizes_ok_def
        intro!: settled_written)
  next
    case False
    then show ?thesis
      unfolding o by (auto simp: flush_settle_def Let_def settle_mismatch_def sizes_ok_def
        intro!: settled_dropped)
  qed
next
  case (Some p)
  obtain message typed where p: "p = (message, typed)" by (cases p)
  define w0 where "w0 = publish_ingest_quality (w\<lparr>tw_inflight := [],
    tw_db_consecutive_errors := tw_db_consecutive_errors w + 1, tw_last_error := message\<rparr>)"
  have w0: "tw_buffer w0 = tw_buffer w" "tw_inflight w0 = []" "tw_accepted w0 = tw_accepted w"
    "tw_written w0 = tw_written w" "tw_dropped w0 = tw_dropped w" "tw_max_buffer w0 = tw_max_buffer w"
    "tw_db_consecutive_errors w0 = tw_db_consecutive_errors w + 1" "sizes_ok w \<Longrightarrow> sizes_ok w0"
    by (simp_all add: w0_def sizes_ok_def)
  have res: "snd (flush_settle now outcome cancelled w) =
      (if typed = Some (NotCommitted, True)
         \<and> tw_db_consecutive_errors w + 1 < MAX_CONSECUTIVE_DB_ERRORS_BEFORE_DROP
       then snd (restore_batch now (tw_inflight w) w0)
       else snd (record_drop_locked now (int (length (tw_inflight w)))
         (if typed = Some (NotCommitted, True) then ''db_error_circuit_open''
          else case typed of Some (NotCommitted, _) \<Rightarrow> ''db_write_rejected'' | _ \<Rightarrow> ''db_commit_unknown'')
         (tw_inflight w) w0))"
    using Some p by (auto simp: flush_settle_def Let_def settle_error_def w0_def split: prod.splits)
  show ?thesis
  proof (cases "typed = Some (NotCommitted, True)
      \<and> tw_db_consecutive_errors w + 1 < MAX_CONSECUTIVE_DB_ERRORS_BEFORE_DROP")
    case True
    then have o: "outcome = BatchWriteError message NotCommitted True"
      using Some p by (cases outcome) auto
    have "settled w outcome (snd (restore_batch now (tw_inflight w) w0))"
      unfolding o using True by (intro settled_restored) (simp_all add: restore_batch_effect w0)
    then show ?thesis using True w0 restore_batch_effect(7) by (simp add: res restore_batch_effect)
  next
    case False
    have "settled w outcome (snd (record_drop_locked now (int (length (tw_inflight w))) r (tw_inflight w) w0))" for r
      using False Some p by (intro settled_dropped) (auto simp: w0)
    then show ?thesis using False w0 by (auto simp: res sizes_ok_def)
  qed
qed


section \<open>The invariant of a run\<close>

definition trace_inv :: "tick_trace \<Rightarrow> bool" where
  "trace_inv tr \<longleftrightarrow> (let w = tr_writer tr in
     subseq (tr_written tr @ tw_inflight w @ tw_buffer w) (tr_accepted tr)
     \<and> tw_written w = int (length (tr_written tr)) \<and> tw_accepted w = int (length (tr_accepted tr))
     \<and> balance w = tr_rejected tr \<and> sizes_ok w)"

lemma trace_invI:
  assumes "subseq (tr_written tr @ tw_inflight (tr_writer tr) @ tw_buffer (tr_writer tr)) (tr_accepted tr)"
    "tw_written (tr_writer tr) = int (length (tr_written tr))"
    "tw_accepted (tr_writer tr) = int (length (tr_accepted tr))"
    "balance (tr_writer tr) = tr_rejected tr" "sizes_ok (tr_writer tr)"
  shows "trace_inv tr"
  using assms by (simp add: trace_inv_def Let_def)

lemma trace_inv_unchanged:
  assumes "trace_inv tr" "tw_inflight w' = tw_inflight (tr_writer tr)" "tw_buffer w' = tw_buffer (tr_writer tr)"
    "tw_written w' = tw_written (tr_writer tr)" "tw_accepted w' = tw_accepted (tr_writer tr)"
    "tw_dropped w' = tw_dropped (tr_writer tr)" "sizes_ok w'"
  shows "trace_inv (tr\<lparr>tr_writer := w'\<rparr>)"
  using assms by (simp add: trace_inv_def Let_def balance_def queued_def)

lemma subseq_drop_middle: "subseq (xs @ ys @ zs) as \<Longrightarrow> subseq (xs @ zs) as"
  by (rule subseq_order.order_trans [of _ "xs @ ys @ zs"]) (auto intro!: list_emb_append_mono)

lemma subseq_drop_end: "subseq (xs @ ys) as \<Longrightarrow> subseq xs as"
  using subseq_drop_middle [of xs ys "[]" as] by simp

lemma subseq_take_middle: "subseq (xs @ ys @ zs) as \<Longrightarrow> subseq (xs @ take n ys @ zs) as"
proof -
  assume "subseq (xs @ ys @ zs) as"
  then have "subseq (xs @ (take n ys @ drop n ys) @ zs) as"
    by (simp only: append_take_drop_id)
  then have "subseq ((xs @ take n ys) @ drop n ys @ zs) as"
    by (simp only: append.assoc)
  then show ?thesis
    using subseq_drop_middle [of "xs @ take n ys" "drop n ys" zs as] by (simp only: append.assoc)
qed

lemma trace_add_inv: "trace_inv tr \<Longrightarrow> trace_inv (trace_step (AddTick now ok t) tr)"
proof -
  assume inv: "trace_inv tr"
  let ?w = "tr_writer tr"
  show ?thesis
  proof (cases "fst (admit_tick now ok t ?w) = Inr True")
    case True
    note e = admit_accept [OF True]
    have "subseq ((tr_written tr @ tw_inflight ?w @ tw_buffer ?w) @ [t]) (tr_accepted tr @ [t])"
      using inv by (intro list_emb_append_mono) (simp_all add: trace_inv_def Let_def)
    then show ?thesis
      using inv e True by (simp add: trace_inv_def Let_def balance_def queued_def)
  next
    case False
    note e = admit_reject [OF False]
    show ?thesis
      using inv e False by (simp add: trace_inv_def Let_def balance_def queued_def)
  qed
qed

lemma flush_begin_effect:
  "tw_inflight (flush_begin w) = take (min (length (tw_buffer w)) (tw_max_batch w)) (tw_buffer w)"
  "tw_buffer (flush_begin w) = drop (min (length (tw_buffer w)) (tw_max_batch w)) (tw_buffer w)"
  "tw_written (flush_begin w) = tw_written w" "tw_dropped (flush_begin w) = tw_dropped w"
  "tw_accepted (flush_begin w) = tw_accepted w"
  "sizes_ok w \<Longrightarrow> sizes_ok (flush_begin w)"
  by (auto simp: flush_begin_def take_batch_def Let_def sizes_ok_def)

lemma trace_begin_inv: "trace_inv tr \<Longrightarrow> trace_inv (trace_step FlushBegin tr)"
proof -
  assume inv: "trace_inv tr"
  let ?w = "tr_writer tr"
  let ?n = "min (length (tw_buffer ?w)) (tw_max_batch ?w)"
  show ?thesis
  proof (cases "tw_inflight ?w = []")
    case True
    have "length (take ?n (tw_buffer ?w)) + length (drop ?n (tw_buffer ?w)) = length (tw_buffer ?w)"
      by simp
    then have "queued (flush_begin ?w) = queued ?w"
      using True by (simp add: queued_def flush_begin_effect)
    then show ?thesis
      using inv True flush_begin_effect(6)
      by (auto simp: trace_inv_def Let_def balance_def flush_begin_effect)
  next
    case False
    then show ?thesis using inv by simp
  qed
qed

lemma settled_balance:
  "settled w outcome w' \<Longrightarrow> tw_inflight w' = [] \<Longrightarrow> tw_accepted w' = tw_accepted w \<Longrightarrow> balance w' = balance w"
proof (induction rule: settled.induct)
  case (settled_restored w room w' m)
  have "length (take room (tw_inflight w)) + length (drop room (tw_inflight w)) = length (tw_inflight w)"
    by (metis append_take_drop_id length_append)
  then show ?case using settled_restored by (simp add: balance_def queued_def)
qed (simp_all add: balance_def queued_def)

lemma trace_settle_inv: "trace_inv tr \<Longrightarrow> trace_inv (trace_step (FlushSettle now outcome cancelled) tr)"
proof -
  assume inv: "trace_inv tr"
  let ?w = "tr_writer tr"
  show ?thesis
  proof (cases "tw_inflight ?w = []")
    case True
    then show ?thesis using inv by (simp add: Let_def)
  next
    case False
    define w' where "w' = snd (flush_settle now outcome cancelled ?w)"
    have s: "settled ?w outcome w'" "tw_inflight w' = []" "tw_accepted w' = tw_accepted ?w" "sizes_ok w'"
      using flush_settle_settled [of ?w outcome now cancelled] inv
      by (auto simp: w'_def trace_inv_def Let_def)
    have b: "balance w' = tr_rejected tr"
      using settled_balance [OF s(1,2,3)] inv by (simp add: trace_inv_def Let_def)
    have sub: "subseq (tr_written tr @ tw_inflight ?w @ tw_buffer ?w) (tr_accepted tr)"
      and len: "tw_written ?w = int (length (tr_written tr))" "tw_accepted ?w = int (length (tr_accepted tr))"
      using inv by (simp_all add: trace_inv_def Let_def)
    define written where "written = (if tw_written w' = tw_written ?w then tr_written tr
        else tr_written tr @ tw_inflight ?w)"
    have "subseq (written @ tw_buffer w') (tr_accepted tr) \<and> tw_written w' = int (length written)"
      using s(1) sub len False
      by (cases rule: settled.cases)
        (auto simp: written_def dest: subseq_drop_middle subseq_take_middle)
    moreover have "trace_step (FlushSettle now outcome cancelled) tr
        = tr\<lparr>tr_writer := w', tr_written := written\<rparr>"
      using False by (simp add: Let_def w'_def written_def)
    ultimately show ?thesis
      using b s len by (simp add: trace_inv_def Let_def)
  qed
qed

lemma trace_drop_inv: "trace_inv tr \<Longrightarrow> trace_inv (trace_step (DropBuffered now reason) tr)"
  using subseq_drop_end [of "tr_written tr @ tw_inflight (tr_writer tr)" "tw_buffer (tr_writer tr)"
      "tr_accepted tr"]
  by (simp add: trace_inv_def Let_def drop_buffered_def balance_def queued_def sizes_ok_def)

lemma purge_settle_effect:
  "tw_inflight (snd (purge_settle now outcome cancelled w)) = tw_inflight w
    \<and> tw_buffer (snd (purge_settle now outcome cancelled w)) = tw_buffer w
    \<and> tw_written (snd (purge_settle now outcome cancelled w)) = tw_written w
    \<and> tw_accepted (snd (purge_settle now outcome cancelled w)) = tw_accepted w
    \<and> tw_dropped (snd (purge_settle now outcome cancelled w)) = tw_dropped w
    \<and> tw_max_batch (snd (purge_settle now outcome cancelled w)) = tw_max_batch w
    \<and> tw_max_buffer (snd (purge_settle now outcome cancelled w)) = tw_max_buffer w
    \<and> tw_high_water_depth (snd (purge_settle now outcome cancelled w)) = tw_high_water_depth w"
  by (cases outcome; (rename_tac v, case_tac v)?)
    (simp_all add: purge_settle_def record_purge_error_def Let_def split: sum.split)

lemma trace_purge_inv: "trace_inv tr \<Longrightarrow> trace_inv (trace_step (PurgeSettle now outcome cancelled) tr)"
proof -
  assume inv: "trace_inv tr"
  note e = purge_settle_effect [of now outcome cancelled "tr_writer tr"]
  have "sizes_ok (snd (purge_settle now outcome cancelled (tr_writer tr)))"
    using inv e by (simp add: trace_inv_def Let_def sizes_ok_def)
  then have "trace_inv (tr\<lparr>tr_writer := snd (purge_settle now outcome cancelled (tr_writer tr))\<rparr>)"
    using e by (intro trace_inv_unchanged [OF inv]) (simp_all only:)
  then show ?thesis by (simp only: trace_step.simps tick_step.simps)
qed

lemma trace_step_inv: "trace_inv tr \<Longrightarrow> trace_inv (trace_step op tr)"
proof (cases op)
  case AddTick then show "trace_inv tr \<Longrightarrow> ?thesis" using trace_add_inv by simp
next
  case FlushBegin then show "trace_inv tr \<Longrightarrow> ?thesis" using trace_begin_inv by simp
next
  case FlushSettle then show "trace_inv tr \<Longrightarrow> ?thesis" using trace_settle_inv by simp
next
  case DropBuffered then show "trace_inv tr \<Longrightarrow> ?thesis" using trace_drop_inv by simp
next
  case PurgeSettle then show "trace_inv tr \<Longrightarrow> ?thesis" using trace_purge_inv by simp
qed (auto simp: trace_inv_def Let_def start_def close_writer_def balance_def queued_def sizes_ok_def)

lemma trace_init_inv: "trace_inv (trace_init (TickBulkAggregator a b c d e))"
  by (auto simp: trace_inv_def trace_init_def TickBulkAggregator_def Let_def balance_def queued_def
      sizes_ok_def nat_le_iff le_nat_iff)

interpretation ticks: guarded_machine "trace_init (TickBulkAggregator a b c d e)" trace_step trace_inv
  by unfold_locales (rule trace_init_inv, rule trace_step_inv)

section \<open>Properties of every run\<close>

text \<open>C17: storage acknowledges accepted ticks in the order they were accepted, each at most
  once, whatever fails and is retried in between: what was acknowledged, then the batch in
  flight, then the buffer is a subsequence of what was accepted.\<close>

theorem ticks_delivered_in_order_at_most_once:
  "subseq (tr_written (fold trace_step ops (trace_init (TickBulkAggregator a b c d e)))
     @ tw_inflight (tr_writer (fold trace_step ops (trace_init (TickBulkAggregator a b c d e))))
     @ tw_buffer (tr_writer (fold trace_step ops (trace_init (TickBulkAggregator a b c d e)))))
   (tr_accepted (fold trace_step ops (trace_init (TickBulkAggregator a b c d e))))"
  using ticks.reachable_inv [of ops a b c d e] by (simp add: trace_inv_def Let_def)

text \<open>C16: no tick vanishes: accepted plus refused ticks are exactly the written, the dropped,
  the buffered and those in flight, in every state of every run.\<close>

theorem every_tick_is_accounted_for:
  "let tr = fold trace_step ops (trace_init (TickBulkAggregator a b c d e)); w = tr_writer tr in
     int (length (tr_accepted tr)) + tr_rejected tr
       = int (length (tr_written tr)) + tw_dropped w
         + int (length (tw_buffer w)) + int (length (tw_inflight w))
     \<and> tw_accepted w = int (length (tr_accepted tr)) \<and> tw_written w = int (length (tr_written tr))"
  using ticks.reachable_inv [of ops a b c d e] by (simp add: trace_inv_def Let_def balance_def queued_def)

text \<open>C19: the buffer never exceeds its configured maximum, a batch never its own, and the
  high-water mark lies between the depth and the maximum.\<close>

theorem buffer_is_bounded:
  "sizes_ok (tr_writer (fold trace_step ops (trace_init (TickBulkAggregator a b c d e))))"
  using ticks.reachable_inv [of ops a b c d e] by (simp add: trace_inv_def Let_def)

end
