(* ===== verification/TickLoss.thy ===== *)
theory TickLoss
  imports TickAccounting
begin

text \<open>
  What the tick writer of \<^theory_text>\<open>TickBuffer\<close> promises about losses and at its boundaries: every loss is
  recorded where the quality query of the lost ticks finds it, every outcome of the storage call
  settles the batch once, \<open>flush_pending\<close> reports what was written, and shutdown accounts for
  everything that was buffered.
\<close>

section \<open>Recorded losses cover the lost ticks\<close>

definition covers :: "drop_event list \<Rightarrow> route_key \<Rightarrow> instant \<Rightarrow> instant \<Rightarrow> bool" where
  "covers events k a b \<longleftrightarrow> (\<exists>e \<in> set events. de_instrument_id e = fst k
     \<and> de_route_fingerprint e = snd k \<and> de_start_at e \<le> a \<and> b \<le> de_end_at e)"

lemma coversI: "e \<in> set events \<Longrightarrow> de_instrument_id e = fst k \<Longrightarrow> de_route_fingerprint e = snd k \<Longrightarrow>
  de_start_at e \<le> a \<Longrightarrow> b \<le> de_end_at e \<Longrightarrow> covers events k a b"
  by (auto simp: covers_def)

lemma covers_mono: "covers events k a b \<Longrightarrow> a \<le> a' \<Longrightarrow> b' \<le> b \<Longrightarrow> covers events k a' b'"
  by (force simp: covers_def)

lemma first_match_Some: "first_match p es = Inr (Some e) \<Longrightarrow> e \<in> set es \<and> p e = Inr True"
  by (induction es) (auto simp: rbind_Inr_iff split: if_splits)

lemma event_matches_route: "event_matches k reason l e = Inr True \<Longrightarrow>
  de_instrument_id e = fst k \<and> de_route_fingerprint e = snd k"
  by (simp add: event_matches_def split: if_splits)

lemma place_loss_covers:
  assumes "place_loss reason events (k, l) = Inr events'"
  shows "covers events' k (rl_start_at l) (rl_end_at l)"
    and "covers events k' a b \<Longrightarrow> covers events' k' a b"
proof -
  obtain previous where m: "first_match (event_matches k reason l) (rev events) = Inr previous"
    and e': "events' = (case previous of
        Some e \<Rightarrow> remove1 e events @
          [e\<lparr>de_start_at := min (de_start_at e) (rl_start_at l),
             de_end_at := max (de_end_at e) (rl_end_at l), de_count := de_count e + rl_count l\<rparr>]
      | None \<Rightarrow> events @
          [\<lparr>de_start_at = rl_start_at l, de_end_at = rl_end_at l, de_instrument_id = fst k,
            de_route_fingerprint = snd k, de_reason = reason, de_count = rl_count l\<rparr>])"
    using assms by (auto simp: place_loss_def rbind_Inr_iff)
  show "covers events' k (rl_start_at l) (rl_end_at l)"
  proof (cases previous)
    case None
    then show ?thesis by (auto simp: e' covers_def)
  next
    case (Some e)
    then show ?thesis
      using first_match_Some [of "event_matches k reason l" "rev events" e] m
        event_matches_route [of k reason l e]
      by (auto simp: e' covers_def)
  qed
  show "covers events' k' a b" if c: "covers events k' a b"
  proof (cases previous)
    case None
    then show ?thesis using c by (auto simp: e' covers_def)
  next
    case (Some e)
    obtain f where f: "f \<in> set events" "de_instrument_id f = fst k'" "de_route_fingerprint f = snd k'"
      "de_start_at f \<le> a" "b \<le> de_end_at f"
      using c by (auto simp: covers_def)
    show ?thesis
    proof (cases "f = e")
      case True
      then show ?thesis using f Some by (intro coversI [of "last events'"]) (auto simp: e')
    next
      case False
      then show ?thesis using f Some by (intro coversI [of f]) (auto simp: e')
    qed
  qed
qed

lemma place_losses_covers:
  assumes "place_losses reason events kls = (Inr (), events')"
  shows "covers events k a b \<Longrightarrow> covers events' k a b"
    and "(k, l) \<in> set kls \<Longrightarrow> covers events' k (rl_start_at l) (rl_end_at l)"
proof -
  have keep: "covers events k a b \<Longrightarrow> covers events' k a b"
    if "place_losses reason events kls = (Inr (), events')" for events kls k a b
    using that
  proof (induction kls arbitrary: events)
    case (Cons kl kls)
    obtain k' l' where kl: "kl = (k', l')" by (cases kl)
    obtain e2 where "place_loss reason events (k', l') = Inr e2"
      "place_losses reason e2 kls = (Inr (), events')"
      using Cons.prems(2) by (auto simp: kl split: sum.splits)
    with Cons place_loss_covers(2) show ?case by blast
  qed simp
  show "covers events k a b \<Longrightarrow> covers events' k a b" using keep assms .
  show "covers events' k (rl_start_at l) (rl_end_at l)" if "(k, l) \<in> set kls"
    using assms that
  proof (induction kls arbitrary: events)
    case (Cons kl kls)
    obtain k' l' where kl: "kl = (k', l')" by (cases kl)
    obtain e2 where "place_loss reason events (k', l') = Inr e2"
      "place_losses reason e2 kls = (Inr (), events')"
      using Cons.prems(1) by (auto simp: kl split: sum.splits)
    with Cons kl keep place_loss_covers(1) show ?case by (metis Pair_inject set_ConsD)
  qed simp
qed

abbreviation tick_key :: "tick \<Rightarrow> route_key" where
  "tick_key t \<equiv> (tk_instrument_id t, tk_route_fingerprint t)"

definition loss_has :: "(route_key, route_loss) pydict \<Rightarrow> tick \<Rightarrow> bool" where
  "loss_has d t \<longleftrightarrow> (\<exists>l. dget d (tick_key t) = Some l \<and> rl_start_at l \<le> tk_ts t \<and> tk_ts t \<le> rl_end_at l)"

lemma add_loss_has: "loss_has (add_loss d t) t" "loss_has d s \<Longrightarrow> loss_has (add_loss d t) s"
proof -
  show "loss_has (add_loss d t) t"
    by (simp add: loss_has_def add_loss_def Let_def)
  assume h: "loss_has d s"
  show "loss_has (add_loss d t) s"
  proof (cases "tick_key s = tick_key t")
    case True
    then obtain l where l: "dget d (tick_key t) = Some l" "rl_start_at l \<le> tk_ts s" "tk_ts s \<le> rl_end_at l"
      using h by (auto simp: loss_has_def)
    show ?thesis
      using True l by (simp add: loss_has_def add_loss_def Let_def dget_default_Some [OF l(1)]
        min_le_iff_disj le_max_iff_disj)
  next
    case False
    then show ?thesis using h by (auto simp: loss_has_def add_loss_def Let_def)
  qed
qed

lemma foldl_add_loss_has: "loss_has d s \<or> s \<in> set ts \<Longrightarrow> loss_has (foldl add_loss d ts) s"
  by (induction ts arbitrary: d) (auto simp: add_loss_has)

lemma route_losses_has:
  "t \<in> set ticks \<Longrightarrow> \<exists>l. (tick_key t, l) \<in> set (route_losses c now ticks)
    \<and> rl_start_at l \<le> tk_ts t \<and> tk_ts t \<le> rl_end_at l"
proof -
  assume "t \<in> set ticks"
  then have h: "loss_has (foldl add_loss [] ticks) t" by (simp add: foldl_add_loss_has)
  then have "foldl add_loss [] ticks \<noteq> []" by (auto simp: loss_has_def dget_def)
  with h show ?thesis
    using dget_in_set by (fastforce simp: route_losses_def Let_def loss_has_def)
qed

lemma record_drop_covers:
  assumes "record_drop_locked now count reason ticks w = (Inr (), w')" "0 < count"
  shows "tw_published w' = \<lparr>is_drop_events = tw_drop_events w',
      is_db_consecutive_errors = tw_db_consecutive_errors w\<rparr>"
    and "t \<in> set ticks \<Longrightarrow> covers (tw_drop_events w') (tick_key t) (tk_ts t) (tk_ts t)"
    and "\<exists>cutoff. rbind (timedelta_hours (tw_retention_hours w)) (\<lambda>d. instant_add now (- d)) = Inr cutoff
      \<and> (\<forall>e \<in> set (tw_drop_events w). cutoff \<le> de_end_at e \<longrightarrow>
           covers (tw_drop_events w') (de_instrument_id e, de_route_fingerprint e) (de_start_at e) (de_end_at e))"
proof -
  obtain cutoff events where c: "rbind (timedelta_hours (tw_retention_hours w)) (\<lambda>d. instant_add now (- d)) = Inr cutoff"
    and p: "place_losses (reason_or_unknown reason) (filter (\<lambda>e. cutoff \<le> de_end_at e) (tw_drop_events w))
      (route_losses (max count 0) now ticks) = (Inr (), events)"
    and w': "tw_drop_events w' = events" "tw_published w' = \<lparr>is_drop_events = tw_drop_events w',
      is_db_consecutive_errors = tw_db_consecutive_errors w\<rparr>"
    using assms by (auto simp: record_drop_locked_def Let_def publish_ingest_quality_def
      split: sum.splits prod.splits if_splits)
  show "tw_published w' = \<lparr>is_drop_events = tw_drop_events w',
      is_db_consecutive_errors = tw_db_consecutive_errors w\<rparr>"
    by (rule w')
  show "covers (tw_drop_events w') (tick_key t) (tk_ts t) (tk_ts t)" if "t \<in> set ticks"
    using route_losses_has [OF that] place_losses_covers(2) [OF p] covers_mono w'(1) by metis
  have "covers events (de_instrument_id e, de_route_fingerprint e) (de_start_at e) (de_end_at e)"
    if "e \<in> set (tw_drop_events w)" "cutoff \<le> de_end_at e" for e
    using that by (intro place_losses_covers(1) [OF p] coversI [of e]) auto
  then show "\<exists>cutoff. rbind (timedelta_hours (tw_retention_hours w)) (\<lambda>d. instant_add now (- d)) = Inr cutoff
      \<and> (\<forall>e \<in> set (tw_drop_events w). cutoff \<le> de_end_at e \<longrightarrow>
           covers (tw_drop_events w') (de_instrument_id e, de_route_fingerprint e) (de_start_at e) (de_end_at e))"
    using c w'(1) by blast
qed

lemma covered_window_incomplete:
  assumes q: "tick_ingest_quality (Some \<lparr>is_drop_events = events, is_db_consecutive_errors = n\<rparr>)
      (VStr i) (VStr f) (Some a) (Some b) = Inr q"
    and c: "covers events (i, f) s e" and o: "s \<le> b" "a \<le> e"
  shows "\<not> iq_complete q \<and> iq_drop_in_window q"
proof -
  have "filter (in_window i f (Some a) (Some b)) events \<noteq> []"
    using c o by (force simp: covers_def in_window_def filter_empty_conv)
  then have srt: "sort_key de_end_at (filter (in_window i f (Some a) (Some b)) events) \<noteq> []"
    by (metis length_0_conv length_sort)
  have "require_exact_identity_text (VStr x) y False = Inr z \<Longrightarrow> z = x" for x y z
    by (auto simp: require_exact_identity_text_def split: if_splits)
  then obtain "require_exact_identity_text (VStr i) ''instrument_id'' False = Inr i"
    "require_exact_identity_text (VStr f) ''route_fingerprint'' False = Inr f"
    using q by (fastforce simp: tick_ingest_quality_def rbind_Inr_iff)
  then show ?thesis
    using q srt by (auto simp: tick_ingest_quality_def Let_def)
qed

section \<open>What a flush and the shutdown do to the counters\<close>

lemma record_drop_last_reason [simp]:
  "0 < c \<Longrightarrow> tw_last_drop_reason (snd (record_drop_locked now c r ts w)) = reason_or_unknown r"
  by (simp add: record_drop_locked_def Let_def publish_ingest_quality_def split: sum.split prod.split)

lemma reason_or_unknown_Cons [simp]: "reason_or_unknown (x # xs) = x # xs"
  by (simp add: reason_or_unknown_def)

lemma restore_batch_closed [simp]: "tw_closed (snd (restore_batch now batch w)) = tw_closed w"
  by (simp add: restore_batch_def Let_def)

lemma publish_closed [simp]: "tw_closed (publish_ingest_quality w) = tw_closed w"
  by (simp add: publish_ingest_quality_def)

lemma flush_settle_snd: "snd (flush_settle now outcome cancelled w) =
    (case write_error outcome of
       Some (message, typed) \<Rightarrow> snd (settle_error now (tw_inflight w) message typed (w\<lparr>tw_inflight := []\<rparr>))
     | None \<Rightarrow> (case outcome of WriteResult v got \<Rightarrow>
         if v = VInt (int (length (tw_inflight w))) then settle_success now (tw_inflight w) (w\<lparr>tw_inflight := []\<rparr>)
         else snd (settle_mismatch now (tw_inflight w) got (w\<lparr>tw_inflight := []\<rparr>))))"
  by (cases outcome) (simp_all add: flush_settle_def Let_def)

lemma flush_settle_closed: "tw_closed (snd (flush_settle now outcome cancelled w)) = tw_closed w"
  by (cases outcome)
    (simp_all add: flush_settle_snd settle_error_def settle_success_def settle_mismatch_def Let_def)

lemma fst_case_prod [simp]: "fst (case p of (r, w') \<Rightarrow> (f r, w')) = f (fst p)"
  by (cases p) simp

lemma flush_settle_value:
  "fst (flush_settle now outcome cancelled w) = Inr n \<Longrightarrow>
    0 \<le> n \<and> tw_written (snd (flush_settle now outcome cancelled w)) = tw_written w + n"
  by (cases outcome)
    (auto simp: flush_settle_def settle_error_def settle_success_def settle_mismatch_def Let_def
      rbind_Inr_iff restore_batch_effect split: if_splits)

lemma flush_once_counts:
  fixes now outcome cancelled w
  defines "w' \<equiv> snd (flush_once now outcome cancelled w)"
  assumes "tw_inflight w = []"
  shows "tw_inflight w' = []" "tw_closed w' = tw_closed w" "tw_accepted w' = tw_accepted w"
    "balance w' = balance w"
    and "fst (flush_once now outcome cancelled w) = Inr n \<Longrightarrow> 0 \<le> n \<and> tw_written w' = tw_written w + n"
proof -
  let ?b = "flush_begin w"
  note s = flush_settle_settled [of ?b outcome now cancelled]
  have "length (tw_inflight ?b) + length (tw_buffer ?b) = length (tw_buffer w)"
    by (simp add: flush_begin_effect)
  then have "balance ?b = balance w"
    using assms(2) by (simp add: balance_def queued_def flush_begin_effect)
  moreover have "balance (snd (flush_settle now outcome cancelled ?b)) = balance ?b"
    using s settled_balance by blast
  moreover have "tw_closed ?b = tw_closed w"
    by (simp add: flush_begin_def take_batch_def Let_def)
  moreover have "fst (flush_settle now outcome cancelled ?b) = Inr n \<Longrightarrow>
      0 \<le> n \<and> tw_written (snd (flush_settle now outcome cancelled ?b)) = tw_written w + n"
    using flush_settle_value [of now outcome cancelled ?b n] by (simp add: flush_begin_effect)
  ultimately show "tw_inflight w' = []" "tw_closed w' = tw_closed w" "tw_accepted w' = tw_accepted w"
    "balance w' = balance w"
    "fst (flush_once now outcome cancelled w) = Inr n \<Longrightarrow> 0 \<le> n \<and> tw_written w' = tw_written w + n"
    using assms s by (auto simp: flush_once_def flush_settle_closed flush_begin_effect)
qed

lemma flush_pending_loop_written:
  "flush_pending_loop k env i acc w = (Inr n, w') \<Longrightarrow> tw_inflight w = [] \<Longrightarrow>
    tw_written w' - tw_written w = n - acc \<and> balance w' = balance w \<and> tw_accepted w' = tw_accepted w"
proof (induction k arbitrary: i acc w)
  case 0
  then show ?case by simp
next
  case (Suc k)
  obtain now outcome cancelled where e: "env i = (now, outcome, cancelled)" by (cases "env i")
  obtain r w1 where f: "flush_once now outcome cancelled w = (r, w1)" by fastforce
  note c = flush_once_counts [OF Suc.prems(2), of now outcome cancelled]
  show ?case
  proof (cases r)
    case (Inl x)
    then show ?thesis using Suc.prems e f by simp
  next
    case (Inr m)
    have w1: "tw_inflight w1 = []" "balance w1 = balance w" "tw_accepted w1 = tw_accepted w"
      "0 \<le> m" "tw_written w1 = tw_written w + m"
      using c f Inr by auto
    show ?thesis
    proof (cases "m \<le> 0 \<or> tw_buffer w1 = []")
      case True
      then show ?thesis using Suc.prems e f Inr w1 by (auto split: if_splits)
    next
      case False
      then have "flush_pending_loop k env (Suc i) (acc + m) w1 = (Inr n, w')"
        using Suc.prems e f Inr by (simp split: if_splits)
      then show ?thesis using Suc.IH w1 by fastforce
    qed
  qed
qed


lemma drop_buffered_counts:
  "tw_buffer (snd (drop_buffered now reason w)) = []"
  "balance (snd (drop_buffered now reason w)) = balance w"
  "tw_inflight (snd (drop_buffered now reason w)) = tw_inflight w"
  "tw_accepted (snd (drop_buffered now reason w)) = tw_accepted w"
  "tw_closed (snd (drop_buffered now reason w)) = tw_closed w"
  by (simp_all add: drop_buffered_def balance_def queued_def)

definition same_books :: "tick_writer \<Rightarrow> tick_writer \<Rightarrow> bool" where
  "same_books w w' \<longleftrightarrow> tw_inflight w' = tw_inflight w \<and> balance w' = balance w
     \<and> tw_accepted w' = tw_accepted w \<and> tw_closed w' = tw_closed w"

lemma drain_same_books:
  "tw_inflight w = [] \<Longrightarrow> same_books w (snd (drain_for_shutdown env i w))"
proof (induction env i w rule: drain_for_shutdown.induct)
  case (1 env i w)
  obtain now outcome cancelled where e: "env i = (now, outcome, cancelled)" by (cases "env i")
  obtain r w1 where f: "flush_once now outcome cancelled w = (r, w1)" by fastforce
  have w1: "same_books w w1" "tw_inflight w1 = []"
    using flush_once_counts(1-4) [OF 1(2), of now outcome cancelled] f 1(2) by (auto simp: same_books_def)
  show ?case
  proof (cases "tw_buffer w = []")
    case True
    then show ?thesis by (subst drain_for_shutdown.simps) (simp add: same_books_def)
  next
    case False
    show ?thesis
    proof (cases "\<exists>n. r = Inr n \<and> 0 < n")
      case True
      then obtain n where n: "r = Inr n" "0 < n" by blast
      have "same_books w1 (snd (drain_for_shutdown env (Suc i) w1))"
        using 1(1) [OF False e [symmetric] refl f [symmetric] n(1)] n(2) w1 by simp
      then show ?thesis
        using w1 False e f n by (subst drain_for_shutdown.simps) (simp add: same_books_def)
    next
      case False
      then show ?thesis
        using w1 \<open>tw_buffer w \<noteq> []\<close> e f drop_buffered_counts [of now _ w1]
        by (subst drain_for_shutdown.simps) (cases r; simp add: same_books_def)
    qed
  qed
qed

lemma same_books_refl [simp]: "same_books w w"
  by (simp add: same_books_def)

lemma same_books_trans: "same_books a b \<Longrightarrow> same_books b c \<Longrightarrow> same_books a c"
  by (simp add: same_books_def)

lemma same_books_event [simp]: "same_books w (w\<lparr>tw_flush_event := x\<rparr>)"
  by (simp add: same_books_def balance_def queued_def)

lemma flush_once_books: "tw_inflight w = [] \<Longrightarrow> same_books w (snd (flush_once now outcome cancelled w))"
  using flush_once_counts(1-4) by (simp add: same_books_def)

lemma flush_pending_loop_books:
  "tw_inflight w = [] \<Longrightarrow> same_books w (snd (flush_pending_loop k env i acc w))"
proof (induction k arbitrary: i acc w)
  case (Suc k)
  obtain now outcome cancelled where e: "env i = (now, outcome, cancelled)" by (cases "env i")
  obtain r w1 where f: "flush_once now outcome cancelled w = (r, w1)" by fastforce
  have w1: "same_books w w1" using flush_once_books [OF Suc.prems, of now outcome cancelled] f by simp
  then have "tw_inflight w1 = []" using Suc.prems by (simp add: same_books_def)
  with Suc.IH [OF this] w1 e f show ?case by (auto split: sum.split intro: same_books_trans)
qed simp

lemma flush_rearm_books: "same_books w (snd rw) \<Longrightarrow> same_books w (snd (flush_rearm rw))"
  by (auto simp: flush_rearm_def split: sum.split prod.split intro: same_books_trans)

lemma purge_settle_books: "same_books w (snd (purge_settle now outcome cancelled w))"
  by (auto simp: purge_settle_def Let_def record_purge_error_def same_books_def balance_def queued_def
    split: purge_outcome.split pyval.split sum.split)

lemma round_end_books: "same_books w (snd rw) \<Longrightarrow> same_books w (snd (round_end purge rw))"
  using purge_settle_books
  by (auto simp: round_end_def purge_once_if_due_def split: sum.split prod.split intro: same_books_trans)

text \<open>Awaiting the flush task settles its batch and loses nothing.\<close>

definition task_holds :: "flush_task \<Rightarrow> tick_writer \<Rightarrow> bool" where
  "task_holds task w = (case task of TaskWriting k \<Rightarrow> True | _ \<Rightarrow> tw_inflight w = [])"

lemma await_flush_task_books:
  assumes "task_holds task w"
  shows "tw_inflight (snd (await_flush_task task env purge w)) = []
    \<and> balance (snd (await_flush_task task env purge w)) = balance w
    \<and> tw_accepted (snd (await_flush_task task env purge w)) = tw_accepted w
    \<and> tw_closed (snd (await_flush_task task env purge w)) = tw_closed w"
proof (cases "\<exists>k. task = TaskWriting k")
  case True
  then obtain k where k: "task = TaskWriting k" by blast
  obtain now outcome cancelled where e: "env 0 = (now, outcome, cancelled)" by (cases "env 0")
  obtain r w1 where f: "flush_settle now outcome cancelled w = (r, w1)" by fastforce
  have w1: "tw_inflight w1 = []" "balance w1 = balance w" "tw_accepted w1 = tw_accepted w"
    "tw_closed w1 = tw_closed w"
    using flush_settle_settled [of w outcome now cancelled] settled_balance [of w outcome w1]
      flush_settle_closed [of now outcome cancelled w] f by auto
  have "same_books w1 (snd (await_flush_task task env purge w))"
    using flush_pending_loop_books [OF w1(1)]
    by (auto simp: k await_flush_task_def e f split: sum.split intro!: round_end_books flush_rearm_books)
  then show ?thesis using w1 by (simp add: same_books_def)
next
  case False
  then have w: "tw_inflight w = []" using assms by (cases task) (auto simp: task_holds_def)
  have c: "same_books w (w\<lparr>tw_flush_event := False\<rparr>)" by simp
  then have "same_books w (snd (flush_pending env (w\<lparr>tw_flush_event := False\<rparr>)))"
    unfolding flush_pending_def using w
    by (intro flush_rearm_books same_books_trans [OF c] flush_pending_loop_books) simp
  then have "same_books w (snd (await_flush_task task env purge w))"
    using False purge_settle_books [of w]
    by (cases task) (auto simp: await_flush_task_def split: option.split prod.split intro!: round_end_books)
  then show ?thesis using w by (simp add: same_books_def)
qed

lemma stop_finally_books:
  "same_books w (snd (stop_finally now w)) \<and> tw_buffer (snd (stop_finally now w)) = []"
proof (cases "tw_buffer w = []")
  case True
  then show ?thesis by (simp add: stop_finally_def same_books_def balance_def queued_def)
next
  case False
  obtain r w1 where d: "drop_buffered now ''shutdown_incomplete'' w = (r, w1)" by fastforce
  have w1: "same_books w w1" "tw_buffer w1 = []"
    using drop_buffered_counts [of now "''shutdown_incomplete''" w] d by (simp_all add: same_books_def)
  then show ?thesis
    using False d by (cases r) (auto simp: stop_finally_def same_books_def balance_def queued_def)
qed


section \<open>Properties\<close>

text \<open>C18: every outcome of the storage call settles the batch in flight exactly once: a full
  acknowledgement counts it as written and clears the error count; a wrong count, an unknown
  commit outcome, a rejected batch and the thirtieth consecutive error drop it under their own
  reason; only a typed, retryable error that says nothing was committed puts it back, in front
  of the buffer and as far as there is room.\<close>

theorem flush_settles_every_outcome:
  assumes "tw_inflight w \<noteq> []"
  shows "let w' = snd (flush_settle now outcome cancelled w); n = int (length (tw_inflight w));
      errors = tw_db_consecutive_errors w + 1; room = tw_max_buffer w - length (tw_buffer w);
      dropped = (\<lambda>reason. tw_buffer w' = tw_buffer w \<and> tw_written w' = tw_written w
        \<and> tw_dropped w' = tw_dropped w + n \<and> tw_last_drop_reason w' = reason
        \<and> tw_db_consecutive_errors w' = errors)
    in tw_inflight w' = [] \<and>
      (case outcome of
        WriteResult v got \<Rightarrow>
          if v = VInt n
          then tw_buffer w' = tw_buffer w \<and> tw_written w' = tw_written w + n
            \<and> tw_dropped w' = tw_dropped w \<and> tw_db_consecutive_errors w' = 0
            \<and> tw_last_flush_at w' = Some now
          else dropped ''db_ack_mismatch''
      | BatchWriteError m c retryable \<Rightarrow>
          if c = NotCommitted \<and> retryable
          then if errors < MAX_CONSECUTIVE_DB_ERRORS_BEFORE_DROP
            then tw_buffer w' = take room (tw_inflight w) @ tw_buffer w \<and> tw_written w' = tw_written w
              \<and> tw_dropped w' = tw_dropped w + int (length (drop room (tw_inflight w)))
              \<and> tw_db_consecutive_errors w' = errors
            else dropped ''db_error_circuit_open''
          else if c = NotCommitted then dropped ''db_write_rejected'' else dropped ''db_commit_unknown''
      | OtherWriteError m \<Rightarrow> dropped ''db_commit_unknown''
      | WriteFutureCancelled \<Rightarrow> dropped ''db_commit_unknown'')"
proof -
  have n: "0 < length (tw_inflight w)" using assms by simp
  show ?thesis
  proof (cases outcome)
    case (BatchWriteError m c r)
    then show ?thesis
      using n by (cases c; cases r)
        (simp_all add: Let_def flush_settle_snd settle_error_def restore_batch_effect)
  next
    case (WriteResult v got)
    then show ?thesis
      using n by (simp add: Let_def flush_settle_snd settle_success_def settle_mismatch_def)
  qed (use n in \<open>simp_all add: Let_def flush_settle_snd settle_error_def\<close>)
qed

text \<open>a recorded loss is visible where it matters: after the drop was recorded, the published
  quality of the lost tick's contract and route is incomplete for every window that contains
  the tick.\<close>

theorem recorded_loss_is_visible:
  assumes "record_drop_locked now count reason ticks w = (Inr (), w')" "0 < count" "t \<in> set ticks"
    and "a \<le> tk_ts t" "tk_ts t \<le> b"
    and "tick_ingest_quality (Some (tw_published w')) (VStr (tk_instrument_id t))
      (VStr (tk_route_fingerprint t)) (Some a) (Some b) = Inr q"
  shows "\<not> iq_complete q \<and> iq_drop_in_window q"
  using covered_window_incomplete [OF _ record_drop_covers(2) [OF assms(1-3)]] assms(4-6)
    record_drop_covers(1) [OF assms(1,2)] by simp

text \<open>An earlier loss stays visible when later losses are recorded, as long as it lies
  within the retention window: some event of the same contract and route still spans it.\<close>

theorem earlier_losses_stay_covered:
  assumes "record_drop_locked now count reason ticks w = (Inr (), w')" "0 < count"
    and "e \<in> set (tw_drop_events w)"
    and "rbind (timedelta_hours (tw_retention_hours w)) (\<lambda>d. instant_add now (- d)) = Inr cutoff"
    and "cutoff \<le> de_end_at e"
  shows "\<exists>e' \<in> set (tw_drop_events w'). de_instrument_id e' = de_instrument_id e
    \<and> de_route_fingerprint e' = de_route_fingerprint e
    \<and> de_start_at e' \<le> de_start_at e \<and> de_end_at e \<le> de_end_at e'"
  using record_drop_covers(3) [OF assms(1,2)] assms(3-5) by (auto simp: covers_def)

text \<open>\<open>flush_pending\<close> returns exactly the number of ticks storage acknowledged during the
  call.\<close>

theorem flush_pending_reports_what_was_written:
  assumes "flush_pending env w = (Inr n, w')" "tw_inflight w = []"
  shows "tw_written w' = tw_written w + n"
proof -
  obtain w1 where "flush_pending_loop (tw_max_flush_batches w) env 0 0 w = (Inr n, w1)"
    "tw_written w' = tw_written w1"
    using assms by (auto simp: flush_pending_def flush_rearm_def split: prod.splits sum.splits if_splits)
  with flush_pending_loop_written [OF _ assms(2)] show ?thesis by fastforce
qed

text \<open>C20: shutdown always comes to an end, and when it does nothing is left behind: the buffer is empty,
  no batch is in flight, the writer refuses further ticks, and every tick that was buffered or in
  flight when it began is counted as written or as dropped. This holds whatever the flush task was doing (ended,
  failed, waiting, purging, or in the middle of writing a batch, which it then settles before it goes
  on with its round), whatever storage and purge answered, and wherever the shutdown was cancelled. A batch in
  flight is the one the flush task is writing.\<close>

theorem stop_accounts_for_the_buffer:
  assumes "tw_inflight w \<noteq> [] \<longrightarrow> (\<exists>k. task = TaskWriting k)"
  shows "let w' = snd (stop now task env purge drain_env w) in
    tw_buffer w' = [] \<and> tw_inflight w' = [] \<and> tw_accepted w' = tw_accepted w
    \<and> tw_written w' + tw_dropped w'
        = tw_written w + tw_dropped w + int (length (tw_buffer w)) + int (length (tw_inflight w))
    \<and> fst (admit_tick later ok t w') \<noteq> Inr True"
proof -
  let ?c = "close_writer w"
  have c: "tw_closed ?c" "balance ?c = balance w" "tw_accepted ?c = tw_accepted w" "tw_inflight ?c = tw_inflight w"
    by (simp_all add: close_writer_def balance_def queued_def)
  obtain r1 w1 where a: "await_flush_task task env purge ?c = (r1, w1)" by fastforce
  have "task_holds task ?c" using assms c(4) by (auto simp: task_holds_def split: flush_task.split)
  from await_flush_task_books [OF this, of env purge] have w1: "tw_inflight w1 = []" "balance w1 = balance w"
    "tw_accepted w1 = tw_accepted w" "tw_closed w1"
    using a c by simp_all
  define w2 where "w2 = snd (case r1 of Inl e \<Rightarrow> (Inl e, w1) | Inr _ \<Rightarrow> drain_for_shutdown drain_env 0 w1)"
  have w2: "same_books w1 w2" using drain_same_books [OF w1(1)] by (simp add: w2_def split: sum.split)
  have s: "snd (stop now task env purge drain_env w) = snd (stop_finally now w2)"
    by (auto simp: stop_def Let_def w2_def a split: prod.splits sum.splits)
  have f: "same_books w2 (snd (stop_finally now w2))" "tw_buffer (snd (stop_finally now w2)) = []"
    using stop_finally_books by blast+
  have "fst (admit_tick later ok t (snd (stop_finally now w2))) \<noteq> Inr True"
    using f w2 w1(4) by (simp add: admit_tick_def same_books_def rbind_Inr_iff)
  then show ?thesis
    using f w2 w1 by (auto simp: Let_def s same_books_def balance_def queued_def)
qed

section \<open>A concrete writer\<close>

definition example_tick :: tick where
  "example_tick = \<lparr>tk_route_fingerprint = ''r'', tk_ts = us_per_minute, tk_price = Fin 1, tk_volume = 1,
    tk_delta_sign = 1, tk_instrument_id = ''i'', tk_tick_type = [], tk_bid = None, tk_ask = None,
    tk_exchange = [], tk_conditions = []\<rparr>"

definition example_writer :: tick_writer where
  "example_writer = (TickBulkAggregator 2 3 4 (Fin 24) (Fin 60))\<lparr>tw_retention_hours := Fin 24\<rparr>"


lemma example_fields [simp]: "tw_written example_writer = 0" "tw_dropped example_writer = 0"
  "tw_inflight example_writer = []" "tw_max_buffer example_writer = 4" "tw_buffer example_writer = []"
  "tw_db_consecutive_errors example_writer = 0"
  by (simp_all add: example_writer_def TickBulkAggregator_def publish_ingest_quality_def)

lemma example_retention: "timedelta_hours (Fin 24) = Inr 86400000000"
  by code_simp

lemma example_drop: "fst (record_drop_locked 100000000000000 1 ''buffer_full'' [example_tick] example_writer) = Inr ()"
  by (simp add: record_drop_locked_def Let_def example_writer_def TickBulkAggregator_def
    publish_ingest_quality_def example_retention instant_add_def
    route_losses_def add_loss_def place_loss_def dset_def in_dt_range_def dt_min_def dt_max_def)


lemma example_drop_pair:
  "record_drop_locked 100000000000000 1 ''buffer_full'' [example_tick] example_writer
    = (Inr (), snd (record_drop_locked 100000000000000 1 ''buffer_full'' [example_tick] example_writer))"
  using example_drop by (metis prod.collapse)

theorem flush_settles_every_outcome_witness:
  "tw_buffer (snd (flush_settle 0 (BatchWriteError ''x'' NotCommitted True) False
      (example_writer\<lparr>tw_inflight := [example_tick]\<rparr>))) = [example_tick]"
  using flush_settles_every_outcome [of "example_writer\<lparr>tw_inflight := [example_tick]\<rparr>" 0
      "BatchWriteError ''x'' NotCommitted True" False]
  by (simp add: Let_def example_writer_def TickBulkAggregator_def publish_ingest_quality_def
      MAX_CONSECUTIVE_DB_ERRORS_BEFORE_DROP_def)

theorem recorded_loss_is_visible_witness:
  "\<exists>q. tick_ingest_quality (Some (tw_published (snd
      (record_drop_locked 100000000000000 1 ''buffer_full'' [example_tick] example_writer))))
      (VStr ''i'') (VStr ''r'') (Some 0) (Some 100000000) = Inr q \<and> \<not> iq_complete q"
proof -
  define s where "s = tw_published (snd
      (record_drop_locked 100000000000000 1 ''buffer_full'' [example_tick] example_writer))"
  obtain q where q: "tick_ingest_quality (Some s) (VStr ''i'') (VStr ''r'') (Some 0) (Some 100000000) = Inr q"
    by (simp add: tick_ingest_quality_def require_exact_identity_text_def Let_def)
  then have "\<not> iq_complete q"
    using recorded_loss_is_visible [OF example_drop_pair _ _ _ _, of example_tick 0 100000000 q]
    by (simp add: s_def example_tick_def us_per_minute_def)
  then show ?thesis using q unfolding s_def by blast
qed

theorem earlier_losses_stay_covered_witness:
  "\<exists>e \<in> set (tw_drop_events (snd (record_drop_locked 100000000000000 1 ''buffer_full'' [example_tick]
      (example_writer\<lparr>tw_drop_events := [\<lparr>de_start_at = 99999000000000, de_end_at = 100000000000000,
        de_instrument_id = ''j'', de_route_fingerprint = ''r'', de_reason = ''x'', de_count = 2\<rparr>]\<rparr>)))).
    de_instrument_id e = ''j''"
proof -
  define w where "w = example_writer\<lparr>tw_drop_events := [\<lparr>de_start_at = 99999000000000,
    de_end_at = 100000000000000, de_instrument_id = ''j'', de_route_fingerprint = ''r'',
    de_reason = ''x'', de_count = 2\<rparr>]\<rparr>"
  have r: "tw_retention_hours w = Fin 24" "tw_drop_events w = [\<lparr>de_start_at = 99999000000000,
    de_end_at = 100000000000000, de_instrument_id = ''j'', de_route_fingerprint = ''r'',
    de_reason = ''x'', de_count = 2\<rparr>]"
    by (simp_all add: w_def example_writer_def)
  have "fst (record_drop_locked 100000000000000 1 ''buffer_full'' [example_tick] w) = Inr ()"
    by (simp add: r record_drop_locked_def Let_def publish_ingest_quality_def example_retention
      instant_add_def route_losses_def add_loss_def place_loss_def dset_def in_dt_range_def dt_min_def
      dt_max_def event_matches_def example_tick_def)
  then have "record_drop_locked 100000000000000 1 ''buffer_full'' [example_tick] w
    = (Inr (), snd (record_drop_locked 100000000000000 1 ''buffer_full'' [example_tick] w))"
    by (metis prod.collapse)
  from earlier_losses_stay_covered [OF this, of "hd (tw_drop_events w)" 99913600000000]
  show ?thesis
    by (auto simp: r example_retention instant_add_def in_dt_range_def dt_min_def dt_max_def w_def [symmetric])
qed

theorem flush_pending_reports_what_was_written_witness:
  "tw_written (snd (flush_pending (\<lambda>i. (0, WriteResult (VInt 1) ''1'', False))
     (example_writer\<lparr>tw_buffer := [example_tick]\<rparr>))) = 1"
proof -
  have f: "flush_pending (\<lambda>i. (0, WriteResult (VInt 1) ''1'', False))
     (example_writer\<lparr>tw_buffer := [example_tick]\<rparr>)
    = (Inr 1, snd (flush_pending (\<lambda>i. (0, WriteResult (VInt 1) ''1'', False))
       (example_writer\<lparr>tw_buffer := [example_tick]\<rparr>)))"
    by (simp add: flush_pending_def flush_rearm_def flush_once_def flush_begin_def take_batch_def flush_settle_def
      settle_success_def Let_def example_writer_def TickBulkAggregator_def publish_ingest_quality_def
      numeral_3_eq_3)
  show ?thesis
    using flush_pending_reports_what_was_written [OF f]
    by (simp add: example_writer_def TickBulkAggregator_def publish_ingest_quality_def)
qed

theorem stop_accounts_for_the_buffer_witness:
  "let w' = snd (stop 0 (TaskWriting 1) (\<lambda>i. (0, BatchWriteError ''x'' NotCommitted True, False))
      (0, PurgeError ''x'', False) (\<lambda>i. (0, WriteFutureCancelled, False))
      (example_writer\<lparr>tw_buffer := [example_tick], tw_inflight := [example_tick, example_tick]\<rparr>))
   in tw_buffer w' = [] \<and> tw_written w' + tw_dropped w' = 3"
  using stop_accounts_for_the_buffer [of "example_writer\<lparr>tw_buffer := [example_tick],
      tw_inflight := [example_tick, example_tick]\<rparr>" "TaskWriting 1" 0
      "\<lambda>i. (0, BatchWriteError ''x'' NotCommitted True, False)" "(0, PurgeError ''x'', False)"
      "\<lambda>i. (0, WriteFutureCancelled, False)" 0 True example_tick]
  by (simp add: Let_def)

end
