(* ===== verification/Domain.thy ===== *)
theory Domain
  imports Bars
begin

text \<open>
  The rest of \<open>domain.py\<close>: canonical codes, the projection of domain values (validated, copied
  for transport, or frozen), facts, and the decision types that carry them. Bars and ticks are in
  \<^theory_text>\<open>Bars\<close>. An object of a class the code does not name is taken to be neither a mapping nor a
  sequence. In the path of an error message a key that is an enumeration member is shown by its
  value.
\<close>

section \<open>Canonical codes\<close>

definition DOMAIN_FACT_FORBIDDEN_DISPLAY_KEYS :: "string list" where
  "DOMAIN_FACT_FORBIDDEN_DISPLAY_KEYS = [''reason'', ''message'', ''label'', ''trigger_label'',
     ''tooltip'', ''title'', ''do_now'', ''compact_label'', ''color'', ''bg'', ''border'', ''glyph'']"

definition is_code_start_character :: "char \<Rightarrow> bool" where
  "is_code_start_character c = (c \<in> set ''abcdefghijklmnopqrstuvwxyz0123456789'')"

definition is_code_character :: "char \<Rightarrow> bool" where
  "is_code_character c = (c \<in> set ''abcdefghijklmnopqrstuvwxyz0123456789_.:-'')"

definition validate_domain_code :: "pyval \<Rightarrow> string \<Rightarrow> string res" where
  "validate_domain_code v field_name =
    (if \<not> is_str v then Inl (TypeError (field_name @ '' must be a canonical string code''))
     else let value = str_of v in
       if value = [] \<or> value \<noteq> py_strip value \<or> 160 < length value
       then Inl (ValueError (field_name @ '' must be a non-empty canonical code of at most 160 characters''))
       else if value \<noteq> py_lower value \<or> \<not> is_code_start_character (hd value)
         \<or> \<not> list_all is_code_character value
       then Inl (ValueError (field_name @ '' must use lowercase canonical code characters''))
       else Inr value)"

section \<open>Domain values\<close>

text \<open>The argument \<open>frozen\<close>: \<open>None\<close>, \<open>False\<close> and \<open>True\<close>.\<close>

datatype projection = Validate | Wire | Freeze

definition mapping_result :: "projection \<Rightarrow> vdict \<Rightarrow> pyval" where
  "mapping_result p out = (case p of Validate \<Rightarrow> VNone | Wire \<Rightarrow> VDict out | Freeze \<Rightarrow> VFrozen out)"

definition sequence_result :: "projection \<Rightarrow> pyval list \<Rightarrow> pyval" where
  "sequence_result p items =
    (case p of Validate \<Rightarrow> VNone | Wire \<Rightarrow> VList items | Freeze \<Rightarrow> VTuple items)"

definition index_path :: "string \<Rightarrow> nat \<Rightarrow> string" where
  "index_path field_name i = field_name @ ''['' @ str_of_nat i @ '']''"

definition key_path :: "string \<Rightarrow> string \<Rightarrow> string" where
  "key_path field_name k = field_name @ ''.'' @ k"

definition text_key :: "pyval \<Rightarrow> bool" where
  "text_key k = (is_str k \<and> str_of k \<noteq> [])"

definition attribute_items :: "(string \<times> pyval) list \<Rightarrow> vdict" where
  "attribute_items as = map (\<lambda>(k, v). (VStr k, v)) as"

text \<open>
  \<open>_domain_value\<close> with the loops over items, elements and (in \<open>as_dict\<close>) attributes. A fact's
  attributes never contain the key \<open>code\<close>, so merging them behind it is appending.
\<close>

fun domain_value :: "projection \<Rightarrow> string \<Rightarrow> pyval \<Rightarrow> pyval res"
  and domain_items :: "projection \<Rightarrow> string \<Rightarrow> (pyval \<times> pyval) list \<Rightarrow> (pyval \<times> pyval) list res"
  and domain_elements :: "projection \<Rightarrow> string \<Rightarrow> nat \<Rightarrow> pyval list \<Rightarrow> pyval list res"
  and domain_attributes :: "(string \<times> pyval) list \<Rightarrow> (pyval \<times> pyval) list res" where
  "domain_value p f VNone = Inr VNone"
| "domain_value p f (VBool b) = Inr (VBool b)"
| "domain_value p f (VInt n) = Inr (VInt n)"
| "domain_value p f (VStr s) = Inr (VStr s)"
| "domain_value p f (VEnum c s) = Inr (VEnum c s)"
| "domain_value p f (VFloat x) =
    (if isfinite x then Inr (VFloat x) else Inl (ValueError (f @ '' must not contain non-finite numbers'')))"
| "domain_value p f (VFact code attributes) = (case p of
      Validate \<Rightarrow> Inr VNone
    | Freeze \<Rightarrow> Inr (VFrozen ((VStr ''code'', VStr code) # attribute_items attributes))
    | Wire \<Rightarrow> rbind (domain_attributes attributes) (\<lambda>items.
        Inr (VDict ((VStr ''code'', VStr code) # items))))"
| "domain_value p f (VDict d) = rbind (domain_items p f d) (\<lambda>out. Inr (mapping_result p out))"
| "domain_value p f (VFrozen d) = rbind (domain_items p f d) (\<lambda>out. Inr (mapping_result p out))"
| "domain_value p f (VList xs) = rbind (domain_elements p f 0 xs) (\<lambda>items. Inr (sequence_result p items))"
| "domain_value p f (VTuple xs) = rbind (domain_elements p f 0 xs) (\<lambda>items. Inr (sequence_result p items))"
| "domain_value p f (VBytes s) = Inl (TypeError (f @ '' must contain JSON-safe typed values''))"
| "domain_value p f (VDateTime t) = Inl (TypeError (f @ '' must contain JSON-safe typed values''))"
| "domain_value p f (VOther t) = Inl (TypeError (f @ '' must contain JSON-safe typed values''))"
| "domain_items p f [] = Inr []"
| "domain_items p f ((k, item) # items) =
    (if \<not> text_key k then Inl (TypeError (f @ '' mapping keys must be non-empty strings''))
     else rbind (domain_value p (key_path f (str_of k)) item) (\<lambda>projected.
       rbind (domain_items p f items) (\<lambda>out. Inr ((k, projected) # out))))"
| "domain_elements p f i [] = Inr []"
| "domain_elements p f i (item # items) =
    rbind (domain_value p (index_path f i) item) (\<lambda>projected.
      rbind (domain_elements p f (Suc i) items) (\<lambda>out. Inr (projected # out)))"
| "domain_attributes [] = Inr []"
| "domain_attributes ((k, item) # items) =
    rbind (domain_value Wire (key_path ''fact'' k) item) (\<lambda>projected.
      rbind (domain_attributes items) (\<lambda>out. Inr ((VStr k, projected) # out)))"

definition domain_wire_value :: "pyval \<Rightarrow> string \<Rightarrow> pyval res" where
  "domain_wire_value v field_name = domain_value Wire field_name v"

definition validate_domain_value :: "pyval \<Rightarrow> string \<Rightarrow> unit res" where
  "validate_domain_value v field_name = rbind (domain_value Validate field_name v) (\<lambda>_. Inr ())"

definition domain_frozen_value :: "pyval \<Rightarrow> string \<Rightarrow> pyval res" where
  "domain_frozen_value v field_name = domain_value Freeze field_name v"

section \<open>Facts\<close>

record domain_fact =
  fact_code :: string
  fact_attributes :: "(string \<times> pyval) list"

definition fact_value :: "domain_fact \<Rightarrow> pyval" where
  "fact_value f = VFact (fact_code f) (fact_attributes f)"

definition require_fact_attributes :: "vdict \<Rightarrow> unit res" where
  "require_fact_attributes attributes =
    (if \<not> list_all (\<lambda>(k, _). text_key k) attributes
     then Inl (TypeError ''fact attribute keys must be non-empty strings'')
     else let keys = map (\<lambda>(k, _). str_of k) attributes;
              invalid_keys = sort (filter (\<lambda>k. k \<in> set keys) DOMAIN_FACT_FORBIDDEN_DISPLAY_KEYS)
       in if invalid_keys \<noteq> []
          then Inl (ValueError (''domain facts must not contain legacy or display fields: ''
            @ concat (hd invalid_keys # map (\<lambda>k. '', '' @ k) (tl invalid_keys))))
          else if ''code'' \<in> set keys then Inl (ValueError ''fact attributes must not redefine code'')
          else Inr ())"

definition fact_mapping_fields :: "pyval \<Rightarrow> (pyval \<times> vdict) res" where
  "fact_mapping_fields value = (case mapping_items value of
      None \<Rightarrow> Inl (TypeError ''domain fact must be a mapping'')
    | Some d \<Rightarrow>
        if \<not> vhas d ''code'' then Inl (ValueError ''domain fact must contain a canonical code'')
        else Inr (vget d ''code'', filter (\<lambda>(k, _). k \<noteq> VStr ''code'') d))"

fun freeze_attributes :: "vdict \<Rightarrow> (string \<times> pyval) list res" where
  "freeze_attributes [] = Inr []"
| "freeze_attributes ((k, v) # items) =
    rbind (domain_frozen_value v (key_path ''fact'' (str_of k))) (\<lambda>u.
      rbind (freeze_attributes items) (\<lambda>out. Inr ((str_of k, u) # out)))"

definition DomainFact :: "pyval \<Rightarrow> pyval \<Rightarrow> domain_fact res" where
  "DomainFact code attributes =
    rbind (validate_domain_code code ''fact.code'') (\<lambda>c.
    (case mapping_items attributes of
       None \<Rightarrow> Inl (TypeError ''fact attributes must be a mapping'')
     | Some d \<Rightarrow>
        rbind (require_fact_attributes d) (\<lambda>_.
        rbind (freeze_attributes d) (\<lambda>typed.
          Inr \<lparr>fact_code = c, fact_attributes = typed\<rparr>))))"

definition from_mapping :: "pyval \<Rightarrow> domain_fact res" where
  "from_mapping value = rbind (fact_mapping_fields value) (\<lambda>(code, attributes).
    DomainFact code (VDict attributes))"

fun validate_attributes :: "vdict \<Rightarrow> unit res" where
  "validate_attributes [] = Inr ()"
| "validate_attributes ((k, v) # items) =
    rbind (validate_domain_value v (key_path ''fact'' (str_of k))) (\<lambda>_. validate_attributes items)"

definition validate_mapping :: "pyval \<Rightarrow> unit res" where
  "validate_mapping value = rbind (fact_mapping_fields value) (\<lambda>(code, attributes).
    rbind (validate_domain_code code ''fact.code'') (\<lambda>_.
    rbind (require_fact_attributes attributes) (\<lambda>_.
      validate_attributes attributes)))"

definition as_dict :: "domain_fact \<Rightarrow> pyval res" where
  "as_dict f = rbind (domain_attributes (fact_attributes f)) (\<lambda>items.
    Inr (VDict ((VStr ''code'', VStr (fact_code f)) # items)))"

section \<open>Decision types\<close>

datatype direction = LONG | SHORT | FLAT

datatype action_phase = WAIT | WATCH | CANDIDATE | ARM | GO | IN | TRAIL | TARGET_HIT | STOP_HIT | BLOCK

datatype scenario_kind = KindFade | KindTransit | KindWait

datatype candidate_finality = FinalConfirmed | FinalProvisional | FinalRetained | FinalExpired

fun direction_text :: "direction \<Rightarrow> string" where
  "direction_text LONG = ''long''" | "direction_text SHORT = ''short''" | "direction_text FLAT = ''flat''"

fun phase_text :: "action_phase \<Rightarrow> string" where
  "phase_text WAIT = ''WAIT''" | "phase_text WATCH = ''WATCH''" | "phase_text CANDIDATE = ''CANDIDATE''"
| "phase_text ARM = ''ARM''" | "phase_text GO = ''GO''" | "phase_text IN = ''IN''"
| "phase_text TRAIL = ''TRAIL''" | "phase_text TARGET_HIT = ''TARGET_HIT''"
| "phase_text STOP_HIT = ''STOP_HIT''" | "phase_text BLOCK = ''BLOCK''"

fun kind_text :: "scenario_kind \<Rightarrow> string" where
  "kind_text KindFade = ''fade''" | "kind_text KindTransit = ''transit''" | "kind_text KindWait = ''wait''"

fun finality_text :: "candidate_finality \<Rightarrow> string" where
  "finality_text FinalConfirmed = ''confirmed''" | "finality_text FinalProvisional = ''provisional''"
| "finality_text FinalRetained = ''retained''" | "finality_text FinalExpired = ''expired''"

text \<open>\<open>ActionPhase(text)\<close> and its siblings: \<open>None\<close> is the \<open>ValueError\<close>.\<close>

definition direction_of :: "string \<Rightarrow> direction option" where
  "direction_of s = List.find (\<lambda>d. direction_text d = s) [LONG, SHORT, FLAT]"

definition phase_of :: "string \<Rightarrow> action_phase option" where
  "phase_of s = List.find (\<lambda>p. phase_text p = s)
    [WAIT, WATCH, CANDIDATE, ARM, GO, IN, TRAIL, TARGET_HIT, STOP_HIT, BLOCK]"

definition kind_of :: "string \<Rightarrow> scenario_kind option" where
  "kind_of s = List.find (\<lambda>k. kind_text k = s) [KindFade, KindTransit, KindWait]"

definition finality_of :: "string \<Rightarrow> candidate_finality option" where
  "finality_of s = List.find (\<lambda>f. finality_text f = s)
    [FinalConfirmed, FinalProvisional, FinalRetained, FinalExpired]"

text \<open>\<open>isinstance(value, Direction)\<close> and the member it is.\<close>

definition member_of :: "string \<Rightarrow> (string \<Rightarrow> 'a option) \<Rightarrow> pyval \<Rightarrow> 'a option" where
  "member_of cls parse v = (case v of VEnum c s \<Rightarrow> if c = cls then parse s else None | _ \<Rightarrow> None)"

definition CANDIDATE_ENTRY_PHASES :: "action_phase list" where
  "CANDIDATE_ENTRY_PHASES = [CANDIDATE, WATCH, ARM, GO]"

definition normalize_phase :: "pyval \<Rightarrow> bool \<Rightarrow> bool \<Rightarrow> action_phase" where
  "normalize_phase value blocked filled =
    (if blocked then BLOCK
     else case member_of ''ActionPhase'' phase_of value of
       Some p \<Rightarrow> p
     | None \<Rightarrow>
        (case (if is_str value then phase_of (str_of value) else None) of
           Some p \<Rightarrow> p
         | None \<Rightarrow> if filled then IN else WAIT))"

definition require_member :: "string \<Rightarrow> (string \<Rightarrow> 'a option) \<Rightarrow> pyval \<Rightarrow> string \<Rightarrow> 'a res" where
  "require_member cls parse v message =
    (case member_of cls parse v of None \<Rightarrow> Inl (TypeError message) | Some m \<Rightarrow> Inr m)"

fun require_fact :: "pyval \<Rightarrow> string \<Rightarrow> domain_fact res" where
  "require_fact (VFact c as) message = Inr \<lparr>fact_code = c, fact_attributes = as\<rparr>"
| "require_fact _ message = Inl (TypeError message)"

record signal_candidate =
  sc_name :: string
  sc_direction :: direction
  sc_score :: pyfloat
  sc_level :: "pyfloat option"
  sc_reason :: string
  sc_trigger_event :: domain_fact
  sc_details :: vdict
  sc_kind :: scenario_kind
  sc_source :: string
  sc_role :: string
  sc_reason_code :: string
  sc_producer_phase :: "action_phase option"
  sc_finality :: candidate_finality

text \<open>\<open>name\<close>, \<open>reason\<close>, \<open>source\<close> and \<open>role\<close> are stored unchecked.\<close>

definition SignalCandidate ::
  "string \<Rightarrow> pyval \<Rightarrow> pyval \<Rightarrow> pyval \<Rightarrow> string \<Rightarrow> pyval \<Rightarrow> pyval \<Rightarrow> pyval \<Rightarrow> string \<Rightarrow> string \<Rightarrow> pyval
    \<Rightarrow> pyval \<Rightarrow> pyval \<Rightarrow> signal_candidate res" where
  "SignalCandidate name direction score level reason trigger_event details kind source role reason_code
      producer_phase finality =
    rbind (require_member ''Direction'' direction_of direction
      ''SignalCandidate.direction must be a Direction'') (\<lambda>d.
    rbind (require_member ''ScenarioKind'' kind_of kind
      ''SignalCandidate.kind must be a ScenarioKind'') (\<lambda>k.
    rbind (if producer_phase = VNone then Inr None
      else rbind (require_member ''ActionPhase'' phase_of producer_phase
        ''SignalCandidate.producer_phase must be an ActionPhase or None'') (\<lambda>p. Inr (Some p))) (\<lambda>phase.
    rbind (require (case phase of None \<Rightarrow> True | Some p \<Rightarrow> p \<in> set CANDIDATE_ENTRY_PHASES)
      (ValueError ''SignalCandidate.producer_phase must be a candidate entry phase'')) (\<lambda>_.
    rbind (require_member ''CandidateFinality'' finality_of finality
      ''SignalCandidate.finality must be a CandidateFinality'') (\<lambda>fin.
    rbind (finite_domain_number score ''SignalCandidate.score'') (\<lambda>s.
    rbind (finite_optional_domain_number level ''SignalCandidate.level'') (\<lambda>l.
    rbind (require_fact trigger_event ''SignalCandidate.trigger_event must be a DomainFact'') (\<lambda>event.
    rbind (require (mapping_items details \<noteq> None)
      (TypeError ''SignalCandidate.details must be a mapping'')) (\<lambda>_.
    rbind (domain_frozen_value details ''SignalCandidate.details'') (\<lambda>frozen.
    (case mapping_items frozen of
       None \<Rightarrow> Inl (TypeError ''SignalCandidate.details must be a mapping'')
     | Some frozen_details \<Rightarrow>
        rbind (validate_domain_code (if truthy reason_code then reason_code else VStr (fact_code event))
          ''SignalCandidate.reason_code'') (\<lambda>rc.
        Inr \<lparr>sc_name = name, sc_direction = d, sc_score = s, sc_level = l, sc_reason = reason,
          sc_trigger_event = event, sc_details = frozen_details, sc_kind = k, sc_source = source,
          sc_role = role, sc_reason_code = rc, sc_producer_phase = phase, sc_finality = fin\<rparr>))))))))))))"

definition decision_authoritative :: "signal_candidate \<Rightarrow> bool" where
  "decision_authoritative c = (sc_finality c = FinalConfirmed)"

record scenario_decision =
  sd_kind :: scenario_kind
  sd_direction :: direction
  sd_confidence :: pyfloat
  sd_action :: action_phase
  sd_trigger :: "pyfloat option"
  sd_stop :: "pyfloat option"
  sd_target :: "pyfloat option"
  sd_invalidation :: "pyfloat option"
  sd_trigger_event :: domain_fact
  sd_reasons :: "string list"
  sd_source :: string
  sd_reason_codes :: "string list"
  sd_metrics :: vdict

text \<open>A sequence that is neither text nor bytes.\<close>

fun sequence_items :: "pyval \<Rightarrow> pyval list option" where
  "sequence_items (VList xs) = Some xs"
| "sequence_items (VTuple xs) = Some xs"
| "sequence_items _ = None"

definition require_sequence :: "pyval \<Rightarrow> string \<Rightarrow> pyval list res" where
  "require_sequence v message =
    (case sequence_items v of None \<Rightarrow> Inl (TypeError message) | Some xs \<Rightarrow> Inr xs)"

definition ScenarioDecision ::
  "pyval \<Rightarrow> pyval \<Rightarrow> pyval \<Rightarrow> pyval \<Rightarrow> pyval \<Rightarrow> pyval \<Rightarrow> pyval \<Rightarrow> pyval \<Rightarrow> pyval \<Rightarrow> pyval \<Rightarrow> string
    \<Rightarrow> pyval \<Rightarrow> pyval \<Rightarrow> scenario_decision res" where
  "ScenarioDecision kind direction confidence action trigger stop_price target invalidation trigger_event
      reasons source reason_codes metrics =
    rbind (require_member ''ScenarioKind'' kind_of kind
      ''ScenarioDecision.kind must be a ScenarioKind'') (\<lambda>k.
    rbind (require_member ''Direction'' direction_of direction
      ''ScenarioDecision.direction must be a Direction'') (\<lambda>d.
    rbind (require_member ''ActionPhase'' phase_of action
      ''ScenarioDecision.action must be an ActionPhase'') (\<lambda>a.
    rbind (finite_domain_number confidence ''ScenarioDecision.confidence'') (\<lambda>c.
    rbind (finite_optional_domain_number trigger ''ScenarioDecision.trigger'') (\<lambda>ft.
    rbind (finite_optional_domain_number stop_price ''ScenarioDecision.stop'') (\<lambda>fs.
    rbind (finite_optional_domain_number target ''ScenarioDecision.target'') (\<lambda>fg.
    rbind (finite_optional_domain_number invalidation ''ScenarioDecision.invalidation'') (\<lambda>fi.
    rbind (require_fact trigger_event ''ScenarioDecision.trigger_event must be a DomainFact'') (\<lambda>event.
    rbind (require_sequence reasons ''ScenarioDecision.reasons must be a sequence of strings'') (\<lambda>rs.
    rbind (require (list_all is_str rs)
      (TypeError ''ScenarioDecision.reasons must be a sequence of strings'')) (\<lambda>_.
    rbind (require_sequence reason_codes
      ''ScenarioDecision.reason_codes must be a sequence of canonical codes'') (\<lambda>cs.
    rbind (mapM (\<lambda>x. validate_domain_code x ''ScenarioDecision.reason_codes'') cs) (\<lambda>codes.
    rbind (require (mapping_items metrics \<noteq> None)
      (TypeError ''ScenarioDecision.metrics must be a mapping'')) (\<lambda>_.
    rbind (domain_frozen_value metrics ''ScenarioDecision.metrics'') (\<lambda>frozen.
    (case mapping_items frozen of
       None \<Rightarrow> Inl (TypeError ''ScenarioDecision.metrics must be a mapping'')
     | Some frozen_metrics \<Rightarrow>
        Inr \<lparr>sd_kind = k, sd_direction = d, sd_confidence = c, sd_action = a, sd_trigger = ft,
          sd_stop = fs, sd_target = fg, sd_invalidation = fi, sd_trigger_event = event,
          sd_reasons = map str_of rs, sd_source = source, sd_reason_codes = codes,
          sd_metrics = frozen_metrics\<rparr>))))))))))))))))"

section \<open>Members and their texts\<close>

lemma kind_of_text [simp]: "kind_of (kind_text k) = Some k"
  by (cases k) (simp_all add: kind_of_def)

lemma direction_of_text [simp]: "direction_of (direction_text d) = Some d"
  by (cases d) (simp_all add: direction_of_def)

lemma phase_of_text [simp]: "phase_of (phase_text p) = Some p"
  by (cases p) (simp_all add: phase_of_def)

end
