(* ===== verification/DomainLaws.thy ===== *)
theory DomainLaws
  imports Domain
begin

text \<open>
  What \<^theory_text>\<open>Domain\<close> promises: the three projections of a value agree, frozen values are immutable
  and stable, and facts survive transport.
\<close>

section \<open>Frozen values\<close>

fun frozen_form :: "pyval \<Rightarrow> bool" where
  "frozen_form (VFloat x) = isfinite x"
| "frozen_form (VTuple xs) = list_all frozen_form xs"
| "frozen_form (VFrozen d) = list_all (\<lambda>p. text_key (fst p) \<and> frozen_form (snd p)) d"
| "frozen_form VNone = True" | "frozen_form (VBool _) = True" | "frozen_form (VInt _) = True"
| "frozen_form (VStr _) = True" | "frozen_form (VEnum _ _) = True"
| "frozen_form _ = False"

text \<open>The transport copy of a frozen value.\<close>

fun thaw :: "pyval \<Rightarrow> pyval" where
  "thaw (VTuple xs) = VList (map thaw xs)"
| "thaw (VFrozen d) = VDict (map (\<lambda>p. (fst p, thaw (snd p))) d)"
| "thaw v = v"

text \<open>Facts inside a value went through their constructor.\<close>

fun facts_ok :: "pyval \<Rightarrow> bool" where
  "facts_ok (VFact c as) = list_all (\<lambda>(k, v). k \<noteq> [] \<and> frozen_form v) as"
| "facts_ok (VList xs) = list_all facts_ok xs"
| "facts_ok (VTuple xs) = list_all facts_ok xs"
| "facts_ok (VDict d) = list_all (\<lambda>p. facts_ok (snd p)) d"
| "facts_ok (VFrozen d) = list_all (\<lambda>p. facts_ok (snd p)) d"
| "facts_ok _ = True"

lemma frozen_elements:
  assumes "\<And>x f. x \<in> set xs \<Longrightarrow> frozen_form x \<Longrightarrow>
      domain_value Freeze f x = Inr x \<and> domain_value Wire f x = Inr (thaw x)
      \<and> domain_value Freeze f (thaw x) = Inr x"
    and "list_all frozen_form xs"
  shows "domain_elements Freeze f i xs = Inr xs \<and> domain_elements Wire f i xs = Inr (map thaw xs)
    \<and> domain_elements Freeze f i (map thaw xs) = Inr xs"
  using assms by (induction xs arbitrary: i) auto

lemma frozen_items:
  assumes "\<And>p f. p \<in> set d \<Longrightarrow> frozen_form (snd p) \<Longrightarrow>
      domain_value Freeze f (snd p) = Inr (snd p) \<and> domain_value Wire f (snd p) = Inr (thaw (snd p))
      \<and> domain_value Freeze f (thaw (snd p)) = Inr (snd p)"
    and "list_all (\<lambda>p. text_key (fst p) \<and> frozen_form (snd p)) d"
  shows "domain_items Freeze f d = Inr d
    \<and> domain_items Wire f d = Inr (map (\<lambda>p. (fst p, thaw (snd p))) d)
    \<and> domain_items Freeze f (map (\<lambda>p. (fst p, thaw (snd p))) d) = Inr d"
  using assms
proof (induction d)
  case (Cons p d)
  obtain k v where p: "p = (k, v)" by (cases p)
  show ?case using Cons.IH Cons.prems(1) [of p] Cons.prems p by auto
qed simp

lemma frozen_fixed:
  "frozen_form u \<Longrightarrow> domain_value Freeze f u = Inr u \<and> domain_value Wire f u = Inr (thaw u)
    \<and> domain_value Freeze f (thaw u) = Inr u"
proof (induction u arbitrary: f)
  case (VTuple xs)
  then show ?case using frozen_elements [of xs f 0] by (simp add: sequence_result_def)
next
  case (VFrozen d)
  have "\<And>p f. p \<in> set d \<Longrightarrow> frozen_form (snd p) \<Longrightarrow>
      domain_value Freeze f (snd p) = Inr (snd p) \<and> domain_value Wire f (snd p) = Inr (thaw (snd p))
      \<and> domain_value Freeze f (thaw (snd p)) = Inr (snd p)"
    using VFrozen.IH by (metis snds.intros)
  then show ?case using frozen_items [of d f] VFrozen.prems by (simp add: mapping_result_def)
qed simp_all

definition projections_agree :: "'a res \<Rightarrow> 'b res \<Rightarrow> 'c res \<Rightarrow> ('c \<Rightarrow> 'a) \<Rightarrow> ('c \<Rightarrow> bool) \<Rightarrow> bool" where
  "projections_agree wire checked frozen un ok = (case frozen of
      Inl e \<Rightarrow> wire = Inl e \<and> checked = Inl e
    | Inr u \<Rightarrow> ok u \<and> wire = Inr (un u) \<and> is_ok checked)"

lemma agree_bind:
  assumes "projections_agree w c z un ok"
    and "\<And>u c'. z = Inr u \<Longrightarrow> ok u \<Longrightarrow> c = Inr c' \<Longrightarrow>
      projections_agree (fw (un u)) (fc c') (fz u) un' ok'"
  shows "projections_agree (rbind w fw) (rbind c fc) (rbind z fz) un' ok'"
proof (cases z)
  case (Inr u)
  then obtain c' where h: "ok u" "w = Inr (un u)" "c = Inr c'"
    using assms(1) by (auto simp: projections_agree_def is_ok_iff)
  show ?thesis using assms(2) [OF Inr h(1,3)] by (simp add: Inr h)
qed (use assms(1) in \<open>simp add: projections_agree_def\<close>)

lemma agree_ret [simp]:
  "projections_agree (Inr a) (Inr b) (Inr c) un ok \<longleftrightarrow> ok c \<and> a = un c"
  "projections_agree (Inl e) (Inl e) (Inl e) un ok"
  by (auto simp: projections_agree_def is_ok_def)

abbreviation value_agrees :: "string \<Rightarrow> pyval \<Rightarrow> bool" where
  "value_agrees f v \<equiv> projections_agree (domain_value Wire f v) (domain_value Validate f v)
     (domain_value Freeze f v) thaw frozen_form"

lemma elements_agree:
  assumes "\<And>x f. x \<in> set xs \<Longrightarrow> value_agrees f x"
  shows "projections_agree (domain_elements Wire f i xs) (domain_elements Validate f i xs)
    (domain_elements Freeze f i xs) (map thaw) (list_all frozen_form)"
  using assms
proof (induction xs arbitrary: i)
  case (Cons x xs)
  show ?case
    unfolding domain_elements.simps
    by (intro agree_bind [OF Cons.prems] agree_bind [OF Cons.IH]) (simp_all add: Cons.prems)
qed simp

lemma items_agree:
  assumes "\<And>p f. p \<in> set d \<Longrightarrow> value_agrees f (snd p)"
  shows "projections_agree (domain_items Wire f d) (domain_items Validate f d)
    (domain_items Freeze f d) (map (\<lambda>p. (fst p, thaw (snd p))))
    (list_all (\<lambda>p. text_key (fst p) \<and> frozen_form (snd p)))"
  using assms
proof (induction d)
  case (Cons p d)
  obtain k v where p: "p = (k, v)" by (cases p)
  have v: "value_agrees g v" for g using Cons.prems [of p] p by simp
  show ?case
  proof (cases "text_key k")
    case True
    then show ?thesis
      unfolding p domain_items.simps eqTrueI [OF True] not_True_eq_False if_False
      by (intro agree_bind [OF v] agree_bind [OF Cons.IH]) (simp_all add: Cons.prems True)
  qed (simp add: p)
qed simp

lemma attributes_thaw:
  "list_all (\<lambda>(k, v). k \<noteq> [] \<and> frozen_form v) as \<Longrightarrow>
    domain_attributes as = Inr (map (\<lambda>p. (fst p, thaw (snd p))) (attribute_items as))"
  by (induction as) (auto simp: attribute_items_def frozen_fixed)

lemma attribute_items_frozen:
  "list_all (\<lambda>(k, v). k \<noteq> [] \<and> frozen_form v) as \<Longrightarrow>
    list_all (\<lambda>p. text_key (fst p) \<and> frozen_form (snd p)) (attribute_items as)"
  by (induction as) (auto simp: attribute_items_def text_key_def)

lemma domain_value_agrees: "facts_ok v \<Longrightarrow> value_agrees f v"
proof (induction v arbitrary: f)
  case (VFact c as)
  then show ?case
    using attributes_thaw [of as] attribute_items_frozen [of as] by (simp add: text_key_def)
next
  case (VList xs)
  have "\<And>x f. x \<in> set xs \<Longrightarrow> value_agrees f x"
    using VList by (simp add: list_all_iff)
  then show ?case
    unfolding domain_value.simps
    by (intro agree_bind [OF elements_agree]) (simp_all add: sequence_result_def)
next
  case (VTuple xs)
  have "\<And>x f. x \<in> set xs \<Longrightarrow> value_agrees f x"
    using VTuple by (simp add: list_all_iff)
  then show ?case
    unfolding domain_value.simps
    by (intro agree_bind [OF elements_agree]) (simp_all add: sequence_result_def)
next
  case (VDict d)
  have "\<And>p f. p \<in> set d \<Longrightarrow> value_agrees f (snd p)"
    using VDict.IH VDict.prems by (metis (no_types, lifting) facts_ok.simps(4) list_all_iff snds.intros)
  then show ?case
    unfolding domain_value.simps
    by (intro agree_bind [OF items_agree]) (simp_all add: mapping_result_def)
next
  case (VFrozen d)
  have "\<And>p f. p \<in> set d \<Longrightarrow> value_agrees f (snd p)"
    using VFrozen.IH VFrozen.prems by (metis (no_types, lifting) facts_ok.simps(5) list_all_iff snds.intros)
  then show ?case
    unfolding domain_value.simps
    by (intro agree_bind [OF items_agree]) (simp_all add: mapping_result_def)
qed simp_all

section \<open>Facts\<close>

lemma attributes_agree:
  assumes "list_all (\<lambda>p. facts_ok (snd p)) d"
  shows "case freeze_attributes d of
      Inl e \<Rightarrow> validate_attributes d = Inl e
    | Inr out \<Rightarrow> validate_attributes d = Inr () \<and> map fst out = map (\<lambda>p. str_of (fst p)) d
        \<and> list_all (\<lambda>(k, v). frozen_form v) out"
  using assms
proof (induction d)
  case (Cons p d)
  obtain k v where p: "p = (k, v)" by (cases p)
  have a: "value_agrees (key_path ''fact'' (str_of k)) v"
    using Cons.prems p by (intro domain_value_agrees) simp
  show ?case
    using Cons a unfolding p
    by (auto simp: projections_agree_def is_ok_iff domain_frozen_value_def validate_domain_value_def
      split: sum.splits)
qed simp

definition fact_ok :: "domain_fact \<Rightarrow> bool" where
  "fact_ok f \<longleftrightarrow> validate_domain_code (VStr (fact_code f)) ''fact.code'' = Inr (fact_code f)
     \<and> require_fact_attributes (attribute_items (fact_attributes f)) = Inr ()
     \<and> list_all (\<lambda>(k, v). frozen_form v) (fact_attributes f)"

lemma validate_code_text: "validate_domain_code v f = Inr c \<Longrightarrow> validate_domain_code (VStr c) g = Inr c"
  by (auto simp: validate_domain_code_def Let_def split: if_splits)

lemma require_attributes_keys:
  assumes "require_fact_attributes d = Inr ()" "map fst as = map (\<lambda>p. str_of (fst p)) d"
  shows "require_fact_attributes (attribute_items as) = Inr ()"
proof -
  have "map (\<lambda>(k, _). str_of k) (attribute_items as) = map (\<lambda>(k, _). str_of k) d"
    using assms(2) by (simp add: attribute_items_def case_prod_beta comp_def)
  moreover have "list_all (\<lambda>(k, _). text_key k) d = list_all (\<lambda>k. k \<noteq> []) (map (\<lambda>p. str_of (fst p)) d)"
    if "list_all (\<lambda>(k, _). text_key k) d"
    using that by (auto simp: list_all_iff text_key_def)
  moreover have "list_all (\<lambda>(k, _). text_key k) (attribute_items as) = list_all (\<lambda>k. k \<noteq> []) (map fst as)"
    by (auto simp: list_all_iff text_key_def attribute_items_def)
  ultimately show ?thesis
    using assms by (simp add: require_fact_attributes_def Let_def split: if_splits)
qed

lemma require_attributes_map:
  "require_fact_attributes (map (\<lambda>p. (fst p, g (snd p))) d) = require_fact_attributes d"
proof -
  have "list_all (\<lambda>(k, _). text_key k) (map (\<lambda>p. (fst p, g (snd p))) d) = list_all (\<lambda>(k, _). text_key k) d"
    by (simp add: list_all_iff split_beta)
  moreover have "map (\<lambda>(k, _). str_of k) (map (\<lambda>p. (fst p, g (snd p))) d) = map (\<lambda>(k, _). str_of k) d"
    by (simp add: split_beta)
  ultimately show ?thesis by (simp only: require_fact_attributes_def)
qed

lemma require_attributes_not_code:
  "require_fact_attributes (attribute_items as) = Inr () \<Longrightarrow> ''code'' \<notin> set (map fst as)
    \<and> list_all (\<lambda>(k, _). k \<noteq> []) as"
  by (auto simp: require_fact_attributes_def Let_def attribute_items_def list_all_iff text_key_def
    image_iff case_prod_beta split: if_splits)

lemma DomainFact_ok:
  assumes "DomainFact code attributes = Inr f" "facts_ok attributes"
  shows "fact_ok f"
proof -
  obtain d c typed where d: "mapping_items attributes = Some d" "validate_domain_code code ''fact.code'' = Inr c"
    "require_fact_attributes d = Inr ()" "freeze_attributes d = Inr typed"
    "f = \<lparr>fact_code = c, fact_attributes = typed\<rparr>"
    using assms(1) by (auto simp: DomainFact_def rbind_Inr_iff split: option.splits)
  have "list_all (\<lambda>p. facts_ok (snd p)) d"
    using assms(2) d(1) by (cases attributes) auto
  from attributes_agree [OF this] show ?thesis
    using d validate_code_text [OF d(2)] require_attributes_keys [OF d(3)] by (simp add: fact_ok_def)
qed

lemma freeze_thawed_attributes:
  "list_all (\<lambda>(k, v). frozen_form v) as \<Longrightarrow>
    freeze_attributes (map (\<lambda>p. (fst p, thaw (snd p))) (attribute_items as)) = Inr as"
  by (induction as) (auto simp: attribute_items_def domain_frozen_value_def frozen_fixed)

section \<open>Properties\<close>

text \<open>C39: freezing yields a value without mutable containers, facts or foreign objects, and
  freezing it again changes nothing: no caller can alter a decision after it was admitted.\<close>

theorem frozen_values_are_immutable_and_stable:
  assumes "domain_frozen_value v field_name = Inr u" "facts_ok v"
  shows "frozen_form u \<and> domain_frozen_value u other_field = Inr u"
  using domain_value_agrees [OF assms(2), of field_name] assms(1) frozen_fixed [of u]
  by (simp add: domain_frozen_value_def projections_agree_def)

text \<open>Validation, the transport copy and freezing admit exactly the same values and refuse
  them with the same error; and the transport copy of a frozen value is that of the original.\<close>

theorem domain_projections_agree:
  assumes "facts_ok v"
  shows "case domain_frozen_value v field_name of
      Inl e \<Rightarrow> domain_wire_value v field_name = Inl e \<and> validate_domain_value v field_name = Inl e
    | Inr u \<Rightarrow> domain_wire_value v field_name = domain_wire_value u other_field
        \<and> is_ok (domain_wire_value v field_name) \<and> validate_domain_value v field_name = Inr ()"
proof (cases "domain_value Freeze field_name v")
  case (Inl e)
  then show ?thesis
    using domain_value_agrees [OF assms, of field_name]
    by (simp add: domain_frozen_value_def domain_wire_value_def validate_domain_value_def projections_agree_def)
next
  case (Inr u)
  then show ?thesis
    using domain_value_agrees [OF assms, of field_name] frozen_fixed [of u other_field]
    by (auto simp: domain_frozen_value_def domain_wire_value_def validate_domain_value_def
      projections_agree_def is_ok_iff)
qed

text \<open>\<open>validate_mapping\<close> is \<open>from_mapping\<close> without the fact: it accepts the same mappings and
  raises the same error otherwise.\<close>

theorem validate_mapping_agrees_with_from_mapping:
  assumes "facts_ok v"
  shows "validate_mapping v = rbind (from_mapping v) (\<lambda>_. Inr ())"
proof (cases "fact_mapping_fields v")
  case (Inr p)
  obtain code d where p: "p = (code, d)" by (cases p)
  have "list_all (\<lambda>p. facts_ok (snd p)) d"
    using assms Inr p
    by (cases v) (auto simp: fact_mapping_fields_def list_all_iff split: if_splits)
  from attributes_agree [OF this] show ?thesis
    by (cases "validate_domain_code code ''fact.code''"; cases "require_fact_attributes d";
        cases "freeze_attributes d")
      (simp_all add: validate_mapping_def from_mapping_def DomainFact_def Inr p)
qed (simp add: validate_mapping_def from_mapping_def)

text \<open>A fact survives transport: \<open>from_mapping\<close> of \<open>as_dict\<close> is the fact.\<close>

theorem fact_round_trip:
  assumes "DomainFact code attributes = Inr f" "facts_ok attributes"
  shows "rbind (as_dict f) from_mapping = Inr f"
proof -
  have ok: "fact_ok f" using DomainFact_ok [OF assms] .
  let ?as = "fact_attributes f"
  let ?items = "map (\<lambda>p. (fst p, thaw (snd p))) (attribute_items ?as)"
  have k: "''code'' \<notin> set (map fst ?as)" "list_all (\<lambda>(k, v). k \<noteq> [] \<and> frozen_form v) ?as"
    using ok require_attributes_not_code [of ?as] by (auto simp: fact_ok_def list_all_iff)
  have d: "as_dict f = Inr (VDict ((VStr ''code'', VStr (fact_code f)) # ?items))"
    using attributes_thaw [OF k(2)] by (simp add: as_dict_def)
  have "filter (\<lambda>(k, _). k \<noteq> VStr ''code'') ?items = ?items"
    using k(1) by (intro filter_True) (force simp: attribute_items_def)
  moreover have "require_fact_attributes ?items = Inr ()"
    using ok by (simp add: fact_ok_def require_attributes_map)
  ultimately show ?thesis
    using ok freeze_thawed_attributes [of ?as]
    by (simp add: d from_mapping_def fact_mapping_fields_def vhas_def vget_def DomainFact_def fact_ok_def)
qed


section \<open>Examples\<close>

definition example_value :: pyval where
  "example_value = VDict [(VStr ''a'', VList [VInt 1, VFact ''x.y'' [(''k'', VTuple [VStr ''s''])]])]"

definition example_attributes :: pyval where
  "example_attributes = VDict [(VStr ''k'', VList [VInt 1, VStr ''s''])]"

lemma example_frozen: "domain_frozen_value example_value f = Inr (VFrozen [(VStr ''a'',
    VTuple [VInt 1, VFrozen [(VStr ''code'', VStr ''x.y''), (VStr ''k'', VTuple [VStr ''s''])]])])"
  by (simp add: domain_frozen_value_def example_value_def text_key_def attribute_items_def
    mapping_result_def sequence_result_def)

lemma example_facts_ok: "facts_ok example_value" "facts_ok example_attributes"
  by (simp_all add: example_value_def example_attributes_def)

lemma example_fact: "DomainFact (VStr ''x.y'') example_attributes
    = Inr \<lparr>fact_code = ''x.y'', fact_attributes = [(''k'', VTuple [VInt 1, VStr ''s''])]\<rparr>"
  by code_simp

theorem frozen_values_are_immutable_and_stable_witness:
  "frozen_form (VFrozen [(VStr ''a'',
    VTuple [VInt 1, VFrozen [(VStr ''code'', VStr ''x.y''), (VStr ''k'', VTuple [VStr ''s''])]])])"
  using frozen_values_are_immutable_and_stable [OF example_frozen example_facts_ok(1)] by blast

theorem domain_projections_agree_witness:
  "validate_domain_value example_value ''f'' = Inr ()"
  using domain_projections_agree [OF example_facts_ok(1), of "''f''" "''g''"] by (simp add: example_frozen)

theorem validate_mapping_agrees_with_from_mapping_witness:
  "validate_mapping example_value = rbind (from_mapping example_value) (\<lambda>_. Inr ())"
  by (rule validate_mapping_agrees_with_from_mapping [OF example_facts_ok(1)])

theorem fact_round_trip_witness:
  "rbind (as_dict \<lparr>fact_code = ''x.y'', fact_attributes = [(''k'', VTuple [VInt 1, VStr ''s''])]\<rparr>) from_mapping
    = Inr \<lparr>fact_code = ''x.y'', fact_attributes = [(''k'', VTuple [VInt 1, VStr ''s''])]\<rparr>"
  by (rule fact_round_trip [OF example_fact example_facts_ok(2)])

end
