(* ===== verification/TradePlan.thy ===== *)
theory TradePlan
  imports Domain MathUtils
begin

text \<open>
  \<open>signals/trade_plan.py\<close>: the geometry of a trade plan (entry, stop, target), its anchoring to a
  signal bar, reward and risk, and the check at the moment of execution. Parameters the code
  declares \<open>float | None\<close> are float options, read through \<open>float_or_none\<close> as the code does.
\<close>

section \<open>Floats\<close>

text \<open>\<open>math.isclose(a, b, rel_tol=r, abs_tol=0.0)\<close>\<close>

definition isclose :: "pyfloat \<Rightarrow> pyfloat \<Rightarrow> pyfloat \<Rightarrow> bool" where
  "isclose a b rel_tol =
    (if feq a b then True
     else if \<not> isfinite a \<and> a \<noteq> NaN \<or> \<not> isfinite b \<and> b \<noteq> NaN then False
     else let diff = fabs (fsub b a) in
       fle diff (fabs (fmul rel_tol b)) \<or> fle diff (fabs (fmul rel_tol a)) \<or> fle diff (Fin 0))"

text \<open>A quotient whose divisor was tested to be positive cannot raise.\<close>

definition fquot :: "pyfloat \<Rightarrow> pyfloat \<Rightarrow> pyfloat" where
  "fquot a b = (case fdiv a b of Inr x \<Rightarrow> x | Inl _ \<Rightarrow> NaN)"

lemma fdiv_positive: "flt (Fin 0) b \<Longrightarrow> fdiv a b = Inr (fquot a b)"
  by (cases a; cases b) (simp_all add: fquot_def)

text \<open>The format \<open>:.2f\<close>.\<close>

definition two_digits :: "nat \<Rightarrow> string" where
  "two_digits n = [chr_of_digit (n div 10), chr_of_digit (n mod 10)]"

definition format_2f :: "pyfloat \<Rightarrow> string" where
  "format_2f x = (case x of
      Fin r \<Rightarrow> (let n = nat (round_half_even (\<bar>r\<bar> * 100)) in
        (if r < 0 then ''-'' else []) @ str_of_nat (n div 100) @ ''.'' @ two_digits (n mod 100))
    | PInf \<Rightarrow> ''inf'' | NInf \<Rightarrow> ''-inf'' | NaN \<Rightarrow> ''nan'')"

section \<open>Geometry\<close>

definition rr_below_minimum :: "pyfloat \<Rightarrow> pyfloat \<Rightarrow> bool" where
  "rr_below_minimum rr minimum =
    (flt rr minimum \<and> \<not> isclose rr minimum (rnd (1 / 10 ^ 12)))"

definition coherent_trade_plan ::
  "direction \<Rightarrow> pyfloat option \<Rightarrow> pyfloat option \<Rightarrow> pyfloat option \<Rightarrow> bool" where
  "coherent_trade_plan direction trigger stop_price target =
    (case (finite_or_none trigger, finite_or_none stop_price, finite_or_none target) of
       (Some e, Some s, Some t) \<Rightarrow>
         (case direction of
            LONG \<Rightarrow> flt s e \<and> flt e t
          | SHORT \<Rightarrow> flt t e \<and> flt e s
          | FLAT \<Rightarrow> False)
     | _ \<Rightarrow> False)"

definition plan_geometry_valid ::
  "pyfloat option \<Rightarrow> pyfloat option \<Rightarrow> pyfloat option \<Rightarrow> direction \<Rightarrow> bool" where
  "plan_geometry_valid entry stop_price target direction =
    (if entry = None \<or> stop_price = None \<or> target = None then True
     else coherent_trade_plan direction entry stop_price target)"

definition complete_coherent_trade_plan ::
  "pyfloat option \<Rightarrow> pyfloat option \<Rightarrow> pyfloat option \<Rightarrow> direction \<Rightarrow> bool" where
  "complete_coherent_trade_plan entry stop_price target direction =
    (entry \<noteq> None \<and> stop_price \<noteq> None \<and> target \<noteq> None
     \<and> coherent_trade_plan direction entry stop_price target)"

definition reward_risk ::
  "direction \<Rightarrow> pyfloat option \<Rightarrow> pyfloat option \<Rightarrow> pyfloat option \<Rightarrow> pyfloat option" where
  "reward_risk direction trigger stop_price target =
    (case (finite_or_none trigger, finite_or_none stop_price, finite_or_none target) of
       (Some e, Some s, Some t) \<Rightarrow>
         (if \<not> coherent_trade_plan direction (Some e) (Some s) (Some t) then None
          else let risk = fabs (fsub e s); reward = fabs (fsub t e) in
            if fle risk (Fin 0) then None else Some (fquot reward risk))
     | _ \<Rightarrow> None)"

definition trade_plan_rr ::
  "direction \<Rightarrow> pyfloat option \<Rightarrow> pyfloat option \<Rightarrow> pyfloat option \<Rightarrow> pyfloat option" where
  "trade_plan_rr direction entry stop_price target =
    map_option (fround 2) (reward_risk direction entry stop_price target)"

section \<open>Anchoring to the signal bar\<close>

definition plan_stop_breached :: "direction \<Rightarrow> pyfloat option \<Rightarrow> bar \<Rightarrow> bool" where
  "plan_stop_breached direction stop_price b = (case finite_or_none stop_price of
      None \<Rightarrow> False
    | Some s \<Rightarrow> (case direction of
        SHORT \<Rightarrow> fle s (bar_high b) | LONG \<Rightarrow> fle (bar_low b) s | FLAT \<Rightarrow> False))"

definition anchored_invalidation_stop ::
  "direction \<Rightarrow> pyfloat option \<Rightarrow> bar \<Rightarrow> pyfloat option \<Rightarrow> pyfloat res" where
  "anchored_invalidation_stop direction structural b atr_pad =
    (case (finite_or_none structural, finite_or_none atr_pad) of
       (Some s, Some p) \<Rightarrow>
         (let pad = fmax p (Fin 0) in Inr (case direction of
            SHORT \<Rightarrow> fadd (fmax (fmax s (bar_high b)) (bar_close b)) pad
          | LONG \<Rightarrow> fsub (fmin (fmin s (bar_low b)) (bar_close b)) pad
          | FLAT \<Rightarrow> s))
     | _ \<Rightarrow> Inl (ValueError ''structural price and atr_pad must be finite''))"

record normalized_plan =
  np_entry :: "pyfloat option"
  np_stop :: "pyfloat option"
  np_target :: "pyfloat option"
  np_coherent :: bool
  np_blocked_reason :: string
  np_rr :: "pyfloat option"

definition order_fault :: "direction \<Rightarrow> pyfloat \<Rightarrow> pyfloat \<Rightarrow> pyfloat \<Rightarrow> string" where
  "order_fault direction e s t = (case direction of
      SHORT \<Rightarrow> if fle s e then ''stop not above entry''
        else if fle e t then ''target not below entry'' else []
    | LONG \<Rightarrow> if fle e s then ''stop not below entry''
        else if fle t e then ''target not above entry'' else []
    | FLAT \<Rightarrow> ''flat direction'')"

text \<open>The part of \<open>normalize_trade_plan\<close> after the prices were anchored.\<close>

definition judge_plan ::
  "direction \<Rightarrow> pyfloat \<Rightarrow> pyfloat \<Rightarrow> pyfloat \<Rightarrow> bar option \<Rightarrow> pyfloat option \<Rightarrow> normalized_plan" where
  "judge_plan direction e s t b min_rr =
    (let fault = order_fault direction e s t;
         coherent = coherent_trade_plan direction (Some e) (Some s) (Some t);
         rr = reward_risk direction (Some e) (Some s) (Some t);
         (coherent, fault) =
           (if coherent \<and> min_rr \<noteq> None
            then (case finite_or_none min_rr of
                None \<Rightarrow> (False, ''invalid minimum reward/risk'')
              | Some m \<Rightarrow> (case rr of
                    Some r \<Rightarrow> if rr_below_minimum r (fmax m (Fin 0))
                      then (False, ''RR '' @ format_2f r @ '' below min '' @ format_2f m)
                      else (coherent, fault)
                  | None \<Rightarrow> (coherent, fault)))
            else (coherent, fault));
         fault = (if \<not> coherent \<and> fault = [] then ''incoherent trade plan'' else fault);
         (coherent, fault) =
           (case b of
              Some sb \<Rightarrow> if coherent \<and> plan_stop_breached direction (Some s) sb
                then (False, ''plan stop already breached on signal bar'') else (coherent, fault)
            | None \<Rightarrow> (coherent, fault))
     in \<lparr>np_entry = round_optional (Some e) 4, np_stop = round_optional (Some s) 4,
         np_target = round_optional (Some t) 4, np_coherent = coherent,
         np_blocked_reason = fault, np_rr = map_option (fround 4) rr\<rparr>)"

definition normalize_trade_plan ::
  "direction \<Rightarrow> pyfloat option \<Rightarrow> pyfloat option \<Rightarrow> pyfloat option \<Rightarrow> bar option \<Rightarrow> pyfloat option
    \<Rightarrow> pyfloat option \<Rightarrow> bool \<Rightarrow> normalized_plan res" where
  "normalize_trade_plan direction entry stop_price target b atr_pad min_rr use_market_entry =
    (let entry_value = finite_or_none entry; stop_value = finite_or_none stop_price;
         target_value = finite_or_none target;
         refused = (\<lambda>reason. \<lparr>np_entry = entry_value, np_stop = stop_value, np_target = target_value,
           np_coherent = False, np_blocked_reason = reason, np_rr = None\<rparr>)
     in case finite_or_none atr_pad of
          None \<Rightarrow> Inr (refused ''invalid trade plan distance'')
        | Some pad_value \<Rightarrow>
           (let pad = fmax pad_value (Fin 0) in
            case (entry_value, stop_value, target_value) of
              (Some e, Some s, Some t) \<Rightarrow>
                (case b of
                   None \<Rightarrow> Inr (judge_plan direction e s t None min_rr)
                 | Some sb \<Rightarrow>
                    rbind (anchored_invalidation_stop direction (Some s) sb (Some pad)) (\<lambda>s'.
                      Inr (judge_plan direction (if use_market_entry then bar_close sb else e) s' t b min_rr)))
            | _ \<Rightarrow> Inr (refused ''incomplete trade plan'')))"

section \<open>Execution\<close>

definition plan_stop_breached_at_price :: "direction \<Rightarrow> pyfloat option \<Rightarrow> pyfloat option \<Rightarrow> bool" where
  "plan_stop_breached_at_price direction stop_price price =
    (case (finite_or_none stop_price, finite_or_none price) of
       (Some s, Some p) \<Rightarrow> (case direction of
           SHORT \<Rightarrow> fle s p | LONG \<Rightarrow> fle p s | FLAT \<Rightarrow> False)
     | _ \<Rightarrow> False)"

definition float_fact :: "string \<Rightarrow> (string \<times> pyfloat) list \<Rightarrow> domain_fact option res" where
  "float_fact code values = rbind
     (DomainFact (VStr code) (VDict (map (\<lambda>(k, x). (VStr k, VFloat x)) values)))
     (\<lambda>f. Inr (Some f))"

definition distance_rejection :: "pyfloat \<Rightarrow> pyfloat \<Rightarrow> pyfloat \<Rightarrow> domain_fact option res" where
  "distance_rejection e s t =
    (let risk = fabs (fsub e s); reward = fabs (fsub t e) in
     if fle risk (Fin 0) \<or> fle reward (Fin 0) then float_fact ''invalid_trade_plan_risk'' []
     else if flt (fmax (fmul (fabs e) (rnd (1 / 5))) (fmul reward (Fin 25))) risk
     then float_fact ''unrealistic_stop_distance_at_fill'' [(''risk'', risk), (''reward'', reward)]
     else Inr None)"

definition execution_plan_rejection ::
  "direction \<Rightarrow> pyfloat option \<Rightarrow> pyfloat option \<Rightarrow> pyfloat option \<Rightarrow> pyfloat option
    \<Rightarrow> domain_fact option res" where
  "execution_plan_rejection direction fill_price stop_price target min_rr =
    (case (finite_or_none fill_price, finite_or_none stop_price, finite_or_none target) of
       (Some e, Some s, Some t) \<Rightarrow>
         (if plan_stop_breached_at_price direction (Some s) (Some e)
          then float_fact ''stop_through_fill'' [(''stop'', s), (''fill_price'', e)]
          else if \<not> coherent_trade_plan direction (Some e) (Some s) (Some t)
          then float_fact ''incoherent_trade_plan_at_fill'' []
          else if min_rr = None then distance_rejection e s t
          else (case finite_or_none min_rr of
              None \<Rightarrow> float_fact ''invalid_minimum_reward_risk'' []
            | Some minimum \<Rightarrow>
               (case reward_risk direction (Some e) (Some s) (Some t) of
                  Some rr \<Rightarrow>
                    if rr_below_minimum rr (fmax minimum (Fin 0))
                    then float_fact ''execution_rr_below_minimum'' [(''rr'', rr), (''minimum'', minimum)]
                    else distance_rejection e s t
                | None \<Rightarrow> distance_rejection e s t)))
     | _ \<Rightarrow> float_fact ''incomplete_trade_plan'' [])"

section \<open>Payloads\<close>

definition kv :: "string \<Rightarrow> pyval \<Rightarrow> pyval \<times> pyval" where
  "kv k v = (VStr k, v)"

definition rounded :: "nat \<Rightarrow> pyfloat option \<Rightarrow> pyval" where
  "rounded digits x = opt_val (round_optional x digits)"

text \<open>The optional entries: text entries only when not empty.\<close>

definition opt_text :: "string \<Rightarrow> string option \<Rightarrow> vdict" where
  "opt_text k x = (case x of None \<Rightarrow> [] | Some s \<Rightarrow> [kv k (VStr s)])"

definition some_text :: "string \<Rightarrow> string \<Rightarrow> vdict" where
  "some_text k s = (if s = [] then [] else [kv k (VStr s)])"

record plan_labels =
  pl_action :: "string option"
  pl_raw_action :: "string option"
  pl_state :: "string option"
  pl_score :: "pyfloat option"
  pl_reason :: string
  pl_blocked_reason :: string
  pl_code :: string

definition trade_plan_payload ::
  "string \<Rightarrow> direction \<Rightarrow> pyfloat option \<Rightarrow> pyfloat option \<Rightarrow> pyfloat option \<Rightarrow> pyfloat option
    \<Rightarrow> pyfloat option \<Rightarrow> plan_labels \<Rightarrow> bool \<Rightarrow> scenario_kind \<Rightarrow> vdict" where
  "trade_plan_payload source direction entry stop_price target invalidation trail labels actionable kind =
    (let e = finite_or_none entry; s = finite_or_none stop_price; t = finite_or_none target;
         complete = (e \<noteq> None \<and> s \<noteq> None \<and> t \<noteq> None);
         coherent = plan_geometry_valid e s t direction;
         risk = (case (e, s) of (Some e', Some s') \<Rightarrow> Some (fabs (fsub e' s')) | _ \<Rightarrow> None);
         reward = (case (e, t) of (Some e', Some t') \<Rightarrow> Some (fabs (fsub t' e')) | _ \<Rightarrow> None);
         rr = (case (reward, risk) of
             (Some w, Some r) \<Rightarrow> if flt (Fin 0) r then Some (fquot w r) else None
           | _ \<Rightarrow> None)
     in [kv ''source'' (VStr source), kv ''direction'' (VStr (direction_text direction)),
         kv ''kind'' (VStr (kind_text kind)), kv ''entry'' (rounded 4 e), kv ''trigger'' (rounded 4 e),
         kv ''stop'' (rounded 4 s), kv ''target'' (rounded 4 t),
         kv ''invalidation'' (rounded 4 (finite_or_none invalidation)),
         kv ''trail'' (rounded 4 (finite_or_none trail)), kv ''complete'' (VBool complete),
         kv ''coherent'' (VBool coherent), kv ''actionable'' (VBool (actionable \<and> complete \<and> coherent)),
         kv ''risk'' (rounded 4 risk), kv ''reward'' (rounded 4 reward), kv ''rr'' (rounded 2 rr)]
        @ opt_text ''action'' (pl_action labels) @ opt_text ''raw_action'' (pl_raw_action labels)
        @ opt_text ''state'' (pl_state labels)
        @ (case pl_score labels of None \<Rightarrow> [] | Some x \<Rightarrow> [kv ''score'' (VFloat (fround 2 x))])
        @ some_text ''reason'' (pl_reason labels)
        @ some_text ''blocked_reason'' (pl_blocked_reason labels) @ some_text ''code'' (pl_code labels))"

record plan_quality =
  pq_trigger :: "pyfloat option"
  pq_stop :: "pyfloat option"
  pq_target :: "pyfloat option"
  pq_invalid :: "pyfloat option"
  pq_rr :: "pyfloat option"
  pq_complete :: bool
  pq_coherent :: bool
  pq_low_rr :: bool
  pq_blocked_reason :: string

definition trade_plan_quality ::
  "direction \<Rightarrow> pyval \<Rightarrow> pyval \<Rightarrow> pyval \<Rightarrow> pyval \<Rightarrow> pyfloat option \<Rightarrow> plan_quality res" where
  "trade_plan_quality direction trigger stop_price target invalid min_rr =
    rbind (float_or_none trigger) (\<lambda>e.
    rbind (float_or_none (if stop_price \<noteq> VNone then stop_price else invalid)) (\<lambda>s.
    rbind (float_or_none (if invalid \<noteq> VNone then invalid else stop_price)) (\<lambda>i.
    rbind (float_or_none target) (\<lambda>t.
      let rr = reward_risk direction e s t;
          complete = (e \<noteq> None \<and> s \<noteq> None \<and> t \<noteq> None);
          low = (case (rr, min_rr) of
              (Some r, Some m) \<Rightarrow> rr_below_minimum r (fmax m (Fin 0)) | _ \<Rightarrow> False)
      in Inr \<lparr>pq_trigger = e, pq_stop = s, pq_target = t, pq_invalid = i,
           pq_rr = map_option (fround 4) rr, pq_complete = complete, pq_coherent = (rr \<noteq> None),
           pq_low_rr = low,
           pq_blocked_reason =
             (if complete \<and> rr = None then ''incoherent trade plan''
              else if low then ''RR '' @ format_2f (the rr) @ '' below min '' @ format_2f (the min_rr)
              else if \<not> complete then ''incomplete trade plan'' else [])\<rparr>))))"

end
