(* ===== verification/TradePlanLaws.thy ===== *)
theory TradePlanLaws
  imports TradePlan
begin

text \<open>
  What \<^theory_text>\<open>TradePlan\<close> promises: which plans the normaliser admits and what it returns for them, and
  exactly which fills the execution gate lets pass.
\<close>

section \<open>Trade plans\<close>

lemma finite_or_none_fin: "isfinite x \<Longrightarrow> finite_or_none (Some x) = Some x"
  by simp

lemma coherent_iff: "coherent_trade_plan d e s t \<longleftrightarrow> (\<exists>e' s' t'. e = Some (Fin e') \<and> s = Some (Fin s')
    \<and> t = Some (Fin t') \<and> (d = LONG \<and> s' < e' \<and> e' < t' \<or> d = SHORT \<and> t' < e' \<and> e' < s'))"
  by (cases d) (auto simp: coherent_trade_plan_def finite_or_none_def isfinite_iff split: option.splits)

text \<open>What the judge admits.\<close>

lemma judge_plan_coherent:
  assumes "np_coherent (judge_plan d e s t b min_rr)"
  shows "coherent_trade_plan d (Some e) (Some s) (Some t)"
    and "b = Some sb \<Longrightarrow> \<not> plan_stop_breached d (Some s) sb"
    and "min_rr = Some m \<Longrightarrow> isfinite m \<and> (\<forall>r. reward_risk d (Some e) (Some s) (Some t) = Some r
      \<longrightarrow> \<not> rr_below_minimum r (fmax m (Fin 0)))"
    and "np_blocked_reason (judge_plan d e s t b min_rr) = []"
proof -
  have c: "coherent_trade_plan d (Some e) (Some s) (Some t)
      \<and> (\<forall>sb. b = Some sb \<longrightarrow> \<not> plan_stop_breached d (Some s) sb)
      \<and> (\<forall>m. min_rr = Some m \<longrightarrow> isfinite m \<and> (\<forall>r. reward_risk d (Some e) (Some s) (Some t) = Some r
          \<longrightarrow> \<not> rr_below_minimum r (fmax m (Fin 0))))
      \<and> np_blocked_reason (judge_plan d e s t b min_rr) = order_fault d e s t"
    using assms
    by (auto simp: judge_plan_def Let_def finite_or_none_def split: option.splits if_splits prod.splits)
  moreover have "order_fault d e s t = []"
    using c by (auto simp: order_fault_def coherent_iff)
  ultimately show "coherent_trade_plan d (Some e) (Some s) (Some t)"
    "b = Some sb \<Longrightarrow> \<not> plan_stop_breached d (Some s) sb"
    "min_rr = Some m \<Longrightarrow> isfinite m \<and> (\<forall>r. reward_risk d (Some e) (Some s) (Some t) = Some r
      \<longrightarrow> \<not> rr_below_minimum r (fmax m (Fin 0)))"
    "np_blocked_reason (judge_plan d e s t b min_rr) = []" by auto
qed

lemma judge_plan_prices:
  "np_entry (judge_plan d e s t b min_rr) = Some (fround 4 e)"
  "np_stop (judge_plan d e s t b min_rr) = Some (fround 4 s)"
  "np_target (judge_plan d e s t b min_rr) = Some (fround 4 t)"
  by (simp_all add: judge_plan_def Let_def round_optional_def split: prod.split)

lemma normalize_total:
  "\<exists>plan. normalize_trade_plan d e s t b pad min_rr m = Inr plan"
  by (auto simp: normalize_trade_plan_def Let_def anchored_invalidation_stop_def fmax_def isfinite_iff
      split: option.splits)

lemma float_fact_not_None: "float_fact c vs \<noteq> Inr None"
  by (cases "DomainFact (VStr c) (VDict (map (\<lambda>(k, x). (VStr k, VFloat x)) vs))") (auto simp: float_fact_def)

lemma distance_rejection_None: "distance_rejection e s t = Inr None \<longleftrightarrow>
    \<not> fle (fabs (fsub e s)) (Fin 0) \<and> \<not> fle (fabs (fsub t e)) (Fin 0)
    \<and> \<not> flt (fmax (fmul (fabs e) (rnd (1 / 5))) (fmul (fabs (fsub t e)) (Fin 25))) (fabs (fsub e s))"
  by (simp add: distance_rejection_def Let_def float_fact_not_None)

section \<open>Properties of trade plans\<close>

text \<open>C29: an admitted plan is safe: the stop was moved beyond the signal bar and never to its wrong
  side, the entry lies strictly between stop and target, the target is the one that was passed in,
  the reward justifies the risk, and no reason to block remains. The returned prices are these,
  rounded.\<close>

theorem admitted_plan_is_safe:
  assumes "normalize_trade_plan d entry stop_price target (Some b) pad min_rr market = Inr plan"
    and "np_coherent plan" "bar_ok b"
  shows "\<exists>e s t. target = Some t \<and> entry \<noteq> None \<and> coherent_trade_plan d (Some e) (Some s) (Some t)
      \<and> (if market then e = bar_close b else entry = Some e)
      \<and> (if d = LONG then flt s (bar_low b) else flt (bar_high b) s)
      \<and> np_entry plan = Some (fround 4 e) \<and> np_stop plan = Some (fround 4 s)
      \<and> np_target plan = Some (fround 4 t) \<and> np_blocked_reason plan = []
      \<and> (case min_rr of None \<Rightarrow> True | Some m \<Rightarrow> isfinite m \<and>
          (case reward_risk d (Some e) (Some s) (Some t) of None \<Rightarrow> True
           | Some r \<Rightarrow> \<not> rr_below_minimum r (fmax m (Fin 0))))"
proof -
  obtain e0 s0 t p where v: "finite_or_none entry = Some e0" "finite_or_none stop_price = Some s0"
    "finite_or_none target = Some t" "finite_or_none pad = Some p"
    using assms(1,2) by (auto simp: normalize_trade_plan_def Let_def split: option.splits)
  define e where "e = (if market then bar_close b else e0)"
  obtain s where a: "anchored_invalidation_stop d (Some s0) b (Some (fmax p (Fin 0))) = Inr s"
    and plan: "plan = judge_plan d e s t (Some b) min_rr"
    using assms(1) v by (auto simp: normalize_trade_plan_def Let_def rbind_Inr_iff e_def)
  note j = judge_plan_coherent [of d e s t "Some b" min_rr, folded plan, OF assms(2)]
  have nb: "\<not> plan_stop_breached d (Some s) b" using j(2) by simp
  have "if d = LONG then flt s (bar_low b) else flt (bar_high b) s"
    using nb j(1) assms(3)
    by (cases d) (auto simp: plan_stop_breached_def coherent_iff bar_ok_def isfinite_iff)
  moreover have "case min_rr of None \<Rightarrow> True | Some m \<Rightarrow> isfinite m \<and>
      (case reward_risk d (Some e) (Some s) (Some t) of None \<Rightarrow> True
       | Some r \<Rightarrow> \<not> rr_below_minimum r (fmax m (Fin 0)))"
    using j(3) by (auto split: option.split)
  ultimately show ?thesis
    using v j(1,4) plan by (intro exI [of _ e] exI [of _ s] exI [of _ t])
      (auto simp: judge_plan_prices e_def)
qed

text \<open>C30: the execution gate lets a fill pass exactly when the plan is coherent at the fill price,
  its reward to risk reaches the required minimum, risk and reward are positive and the stop is not
  unrealistically far; everything else gets a typed rejection or an exception.\<close>

theorem execution_gate_is_exact:
  "execution_plan_rejection d fill stop_price target min_rr = Inr None \<longleftrightarrow>
    (\<exists>e s t. fill = Some e \<and> stop_price = Some s \<and> target = Some t
      \<and> coherent_trade_plan d (Some e) (Some s) (Some t)
      \<and> (case min_rr of None \<Rightarrow> True | Some m \<Rightarrow> isfinite m \<and>
          (case reward_risk d (Some e) (Some s) (Some t) of None \<Rightarrow> True
           | Some r \<Rightarrow> \<not> rr_below_minimum r (fmax m (Fin 0))))
      \<and> \<not> fle (fabs (fsub e s)) (Fin 0) \<and> \<not> fle (fabs (fsub t e)) (Fin 0)
      \<and> \<not> flt (fmax (fmul (fabs e) (rnd (1 / 5))) (fmul (fabs (fsub t e)) (Fin 25))) (fabs (fsub e s)))"
  (is "?gate \<longleftrightarrow> (\<exists>e s t. ?ok e s t)")
proof
  assume ?gate
  then obtain e s t where v: "finite_or_none fill = Some e" "finite_or_none stop_price = Some s"
    "finite_or_none target = Some t"
    by (auto simp: execution_plan_rejection_def float_fact_not_None split: option.splits)
  with \<open>?gate\<close> have "?ok e s t"
    by (auto simp: execution_plan_rejection_def float_fact_not_None distance_rejection_None
      finite_or_none_def split: if_splits option.splits)
  then show "\<exists>e s t. ?ok e s t" by blast
next
  assume "\<exists>e s t. ?ok e s t"
  then obtain e s t where ok: "?ok e s t" by blast
  then obtain e' s' t' where f: "e = Fin e'" "s = Fin s'" "t = Fin t'"
    "d = LONG \<and> s' < e' \<and> e' < t' \<or> d = SHORT \<and> t' < e' \<and> e' < s'"
    by (auto simp: coherent_iff)
  then have "\<not> plan_stop_breached_at_price d (Some s) (Some e)"
    by (auto simp: plan_stop_breached_at_price_def)
  with ok f show ?gate
    by (auto simp: execution_plan_rejection_def distance_rejection_None finite_or_none_def
      split: option.splits)
qed

definition small_price :: "int \<Rightarrow> pyfloat option" where
  "small_price k = Some (Fin (of_int k / 131072))"

text \<open>Rounding to four digits can undo what was admitted: a coherent plan on prices below one
  ten-thousandth is returned with entry, stop and target equal, which no later check accepts.\<close>

theorem rounded_plan_can_lose_its_geometry:
  "\<exists>plan. normalize_trade_plan LONG (small_price 3) (small_price 2) (small_price 4) None (Some (Fin 0))
      None True = Inr plan
    \<and> np_coherent plan
    \<and> \<not> complete_coherent_trade_plan (np_entry plan) (np_stop plan) (np_target plan) LONG"
proof -
  let ?p = "judge_plan LONG (Fin (3 / 131072)) (Fin (2 / 131072)) (Fin (4 / 131072)) None None"
  have r: "fround 4 (Fin (3 / 131072)) = Fin 0" "fround 4 (Fin (2 / 131072)) = Fin 0"
    by (simp_all add: round_half_even_def)
  have "normalize_trade_plan LONG (small_price 3) (small_price 2) (small_price 4) None (Some (Fin 0))
      None True = Inr ?p"
    by (simp add: normalize_trade_plan_def Let_def small_price_def)
  moreover have "np_coherent ?p"
    by (simp add: judge_plan_def Let_def coherent_trade_plan_def)
  moreover have "\<not> complete_coherent_trade_plan (np_entry ?p) (np_stop ?p) (np_target ?p) LONG"
    unfolding judge_plan_prices r complete_coherent_trade_plan_def by (simp add: coherent_iff)
  ultimately show ?thesis by blast
qed

theorem admitted_plan_is_safe_witness:
  "\<exists>plan s. normalize_trade_plan LONG (Some (Fin 101)) (Some (Fin 98)) (Some (Fin 110)) (Some example_bar)
      (Some (Fin 0)) None True = Inr plan \<and> flt s (bar_low example_bar) \<and> np_stop plan = Some (fround 4 s)"
proof -
  have n: "normalize_trade_plan LONG (Some (Fin 101)) (Some (Fin 98)) (Some (Fin 110)) (Some example_bar)
      (Some (Fin 0)) None True
    = Inr (judge_plan LONG (Fin 102) (Fin 98) (Fin 110) (Some example_bar) None)"
    by (simp add: normalize_trade_plan_def Let_def anchored_invalidation_stop_def fmax_def fmin_def
      fsub_def example_bar_def)
  have "np_coherent (judge_plan LONG (Fin 102) (Fin 98) (Fin 110) (Some example_bar) None)"
    by (simp add: judge_plan_def Let_def coherent_trade_plan_def plan_stop_breached_def example_bar_def)
  from admitted_plan_is_safe [OF n this example_bar_ok] n show ?thesis by auto
qed

end
