(* ===== verification/SignalState.thy ===== *)
theory SignalState
  imports TradePlan Timeframes
begin

text \<open>
  \<open>runtime/signal_state.py\<close>: the state of a signal, the life of its trade plan, the decoder of
  lifecycle payloads, the terminal event one bar proves, and the scan that replays signals over
  bars. The constructors take the fields at their declared types and keep the checks a value of
  those types can fail; what \<open>isinstance\<close> refuses is no value of the model's types.
\<close>

section \<open>Lifecycle states\<close>

datatype lifecycle_state = LcWait | LcWaitEntry | LcFollow | LcRide | LcTargetHit | LcStopHit
  | LcTargetAndStopHit | LcTrailStop | LcReversed | LcExpired

fun state_text :: "lifecycle_state \<Rightarrow> string" where
  "state_text LcWait = ''WAIT''" | "state_text LcWaitEntry = ''WAIT_ENTRY''"
| "state_text LcFollow = ''FOLLOW''" | "state_text LcRide = ''RIDE''"
| "state_text LcTargetHit = ''TP''" | "state_text LcStopHit = ''STOP''"
| "state_text LcTargetAndStopHit = ''TP/SL''" | "state_text LcTrailStop = ''TRAIL''"
| "state_text LcReversed = ''REV''" | "state_text LcExpired = ''EXPIRED''"

definition state_of :: "string \<Rightarrow> lifecycle_state option" where
  "state_of s = List.find (\<lambda>x. state_text x = s) [LcWait, LcWaitEntry, LcFollow, LcRide, LcTargetHit,
     LcStopHit, LcTargetAndStopHit, LcTrailStop, LcReversed, LcExpired]"

fun state_active :: "lifecycle_state \<Rightarrow> bool" where
  "state_active LcWaitEntry = True" | "state_active LcFollow = True" | "state_active LcRide = True"
| "state_active _ = False"

fun state_terminal :: "lifecycle_state \<Rightarrow> bool" where
  "state_terminal LcWait = False" | "state_terminal LcWaitEntry = False"
| "state_terminal LcFollow = False" | "state_terminal LcRide = False"
| "state_terminal _ = True"

definition lifecycle_state_from_value :: "pyval \<Rightarrow> lifecycle_state option" where
  "lifecycle_state_from_value v = (if is_str v then state_of (str_of v) else None)"

section \<open>Validated values\<close>

text \<open>\<open>value is not None and not finite\<close>\<close>

definition price_ok :: "pyfloat option \<Rightarrow> bool" where
  "price_ok x = (case x of None \<Rightarrow> True | Some f \<Rightarrow> isfinite f)"

text \<open>\<open>value is None\<close>, or it parses as an aware timestamp.\<close>

definition timestamp_ok :: "iso_parser \<Rightarrow> string option \<Rightarrow> bool res" where
  "timestamp_ok piso x = (case x of None \<Rightarrow> Inr True
     | Some s \<Rightarrow> rbind (parse_aware_utc_ts piso (VStr s)) (\<lambda>t. Inr (t \<noteq> None)))"

definition require_timestamp :: "iso_parser \<Rightarrow> string option \<Rightarrow> string \<Rightarrow> unit res" where
  "require_timestamp piso x message =
    rbind (timestamp_ok piso x) (\<lambda>ok. require ok (TypeError message))"

record close_event =
  ce_state :: lifecycle_state
  ce_exit_price :: "pyfloat option"
  ce_closed_ts :: "string option"

definition LifecycleCloseEvent :: "iso_parser \<Rightarrow> close_event \<Rightarrow> close_event res" where
  "LifecycleCloseEvent piso e =
    rbind (require (state_terminal (ce_state e))
      (TypeError ''LifecycleCloseEvent.state must be terminal'')) (\<lambda>_.
    rbind (require (price_ok (ce_exit_price e))
      (TypeError ''LifecycleCloseEvent.exit_price must be finite or None'')) (\<lambda>_.
    rbind (require_timestamp piso (ce_closed_ts e)
      ''LifecycleCloseEvent.closed_ts must be an aware ISO string or None'') (\<lambda>_.
    Inr e)))"

definition round_price :: "pyfloat option \<Rightarrow> pyval" where
  "round_price x = rounded 4 (finite_or_none x)"

definition opt_str :: "string option \<Rightarrow> pyval" where
  "opt_str x = (case x of None \<Rightarrow> VNone | Some s \<Rightarrow> VStr s)"

definition close_event_as_dict :: "close_event \<Rightarrow> vdict" where
  "close_event_as_dict e = [kv ''state'' (VStr (state_text (ce_state e))),
     kv ''exit_reason'' (VStr (state_text (ce_state e))),
     kv ''exit_price'' (round_price (ce_exit_price e)), kv ''closed_ts'' (opt_str (ce_closed_ts e))]"

record signal_state =
  sg_source :: string
  sg_action :: action_phase
  sg_direction :: direction
  sg_score :: pyfloat
  sg_raw_action :: string
  sg_confirmed :: bool
  sg_source_tf :: "string option"
  sg_trigger :: "pyfloat option"
  sg_stop :: "pyfloat option"
  sg_target :: "pyfloat option"
  sg_invalidation :: "pyfloat option"
  sg_reason :: string
  sg_blocked_reason :: string
  sg_code :: string
  sg_kind :: scenario_kind

definition SignalState :: "signal_state \<Rightarrow> signal_state res" where
  "SignalState s =
    rbind (require (sg_source s \<noteq> [])
      (ValueError ''SignalState.source must be an exact non-empty string'')) (\<lambda>_.
    rbind (require (isfinite (sg_score s)) (TypeError ''SignalState.score must be a finite number'')) (\<lambda>_.
    rbind (require (list_all price_ok [sg_trigger s, sg_stop s, sg_target s, sg_invalidation s])
      (TypeError ''SignalState price fields must be finite numbers or None'')) (\<lambda>_.
    Inr s)))"

definition signal_blocked :: "signal_state \<Rightarrow> bool" where
  "signal_blocked s = (sg_action s = BLOCK)"

definition signal_actionable :: "signal_state \<Rightarrow> bool" where
  "signal_actionable s = (sg_action s \<in> set [GO, ARM, WATCH] \<and> sg_direction s \<noteq> FLAT
     \<and> complete_coherent_trade_plan (sg_trigger s) (sg_stop s) (sg_target s) (sg_direction s))"

definition signal_trade_plan :: "signal_state \<Rightarrow> vdict" where
  "signal_trade_plan s = trade_plan_payload (sg_source s) (sg_direction s) (sg_trigger s) (sg_stop s)
     (sg_target s) (sg_invalidation s) None
     \<lparr>pl_action = Some (phase_text (sg_action s)), pl_raw_action = Some (sg_raw_action s),
      pl_state = None, pl_score = Some (sg_score s), pl_reason = sg_reason s,
      pl_blocked_reason = sg_blocked_reason s, pl_code = sg_code s\<rparr>
     (signal_actionable s) (sg_kind s)"

definition signal_as_dict :: "signal_state \<Rightarrow> vdict" where
  "signal_as_dict s = (let plan = signal_trade_plan s in
     [kv ''source'' (VStr (sg_source s)), kv ''action'' (VStr (phase_text (sg_action s))),
      kv ''raw_action'' (VStr (sg_raw_action s)),
      kv ''direction'' (VStr (direction_text (sg_direction s))),
      kv ''kind'' (VStr (kind_text (sg_kind s))), kv ''score'' (VFloat (fround 2 (sg_score s))),
      kv ''confirmed'' (VBool (sg_confirmed s)), kv ''source_tf'' (opt_str (sg_source_tf s)),
      kv ''trigger'' (round_price (sg_trigger s)), kv ''stop'' (round_price (sg_stop s)),
      kv ''target'' (round_price (sg_target s)), kv ''invalidation'' (round_price (sg_invalidation s)),
      kv ''reason'' (VStr (sg_reason s)), kv ''blocked'' (VBool (signal_blocked s)),
      kv ''blocked_reason'' (VStr (sg_blocked_reason s)), kv ''code'' (VStr (sg_code s)),
      kv ''plan_complete'' (vget plan ''complete''), kv ''plan_coherent'' (vget plan ''coherent''),
      kv ''signal_actionable'' (vget plan ''actionable''), kv ''trade_plan'' (VDict plan)])"

record plan_lifecycle =
  lc_source :: string
  lc_state :: lifecycle_state
  lc_direction :: direction
  lc_entry :: "pyfloat option"
  lc_stop :: "pyfloat option"
  lc_target :: "pyfloat option"
  lc_trail :: "pyfloat option"
  lc_opened_ts :: "string option"
  lc_filled_ts :: "string option"
  lc_closed_ts :: "string option"
  lc_exit_price :: "pyfloat option"
  lc_exit_reason :: "lifecycle_state option"
  lc_age_bars :: int
  lc_filled :: bool

text \<open>The default values of the dataclass.\<close>

definition lifecycle_defaults :: "string \<Rightarrow> lifecycle_state \<Rightarrow> direction \<Rightarrow> plan_lifecycle" where
  "lifecycle_defaults source state direction =
    \<lparr>lc_source = source, lc_state = state, lc_direction = direction, lc_entry = None, lc_stop = None,
     lc_target = None, lc_trail = None, lc_opened_ts = None, lc_filled_ts = None, lc_closed_ts = None,
     lc_exit_price = None, lc_exit_reason = None, lc_age_bars = 0, lc_filled = False\<rparr>"

definition exit_reason_check :: "plan_lifecycle \<Rightarrow> unit res" where
  "exit_reason_check p = (case lc_exit_reason p of
      Some r \<Rightarrow> require (state_terminal r \<and> r = lc_state p)
        (ValueError ''PlanLifecycle.exit_reason must match its terminal state'')
    | None \<Rightarrow> require (\<not> state_terminal (lc_state p))
        (ValueError ''Terminal PlanLifecycle state requires exit_reason''))"

definition PlanLifecycle :: "iso_parser \<Rightarrow> plan_lifecycle \<Rightarrow> plan_lifecycle res" where
  "PlanLifecycle piso p =
    rbind (require (lc_direction p \<noteq> FLAT \<or> lc_state p = LcWait)
      (ValueError ''Only WAIT PlanLifecycle may have a flat direction'')) (\<lambda>_.
    rbind (require (0 \<le> lc_age_bars p)
      (ValueError ''PlanLifecycle.age_bars must be a non-negative integer'')) (\<lambda>_.
    rbind (require (list_all price_ok [lc_entry p, lc_stop p, lc_target p, lc_trail p, lc_exit_price p])
      (TypeError ''PlanLifecycle price fields must be finite numbers or None'')) (\<lambda>_.
    rbind (require_timestamp piso (lc_opened_ts p)
      ''PlanLifecycle timestamps must be aware ISO strings or None'') (\<lambda>_.
    rbind (require_timestamp piso (lc_filled_ts p)
      ''PlanLifecycle timestamps must be aware ISO strings or None'') (\<lambda>_.
    rbind (require_timestamp piso (lc_closed_ts p)
      ''PlanLifecycle timestamps must be aware ISO strings or None'') (\<lambda>_.
    rbind (exit_reason_check p) (\<lambda>_.
    rbind (require (state_terminal (lc_state p) \<or> lc_exit_price p = None \<and> lc_closed_ts p = None)
      (ValueError ''Non-terminal PlanLifecycle cannot carry close fields'')) (\<lambda>_.
    rbind (require (\<not> (lc_state p \<in> set [LcWait, LcWaitEntry] \<and> lc_filled p))
      (ValueError ''WAIT/WAIT_ENTRY PlanLifecycle cannot be filled'')) (\<lambda>_.
    rbind (require (\<not> (lc_state p \<in> set [LcFollow, LcRide] \<and> \<not> lc_filled p))
      (ValueError ''FOLLOW/RIDE PlanLifecycle must be filled'')) (\<lambda>_.
    rbind (require (lc_filled p \<or> lc_filled_ts p = None)
      (ValueError ''Unfilled PlanLifecycle cannot carry filled_ts'')) (\<lambda>_.
    Inr p)))))))))))"

definition lc_active :: "plan_lifecycle \<Rightarrow> bool" where
  "lc_active p = state_active (lc_state p)"

definition lifecycle_trade_plan :: "plan_lifecycle \<Rightarrow> vdict" where
  "lifecycle_trade_plan p = trade_plan_payload (lc_source p) (lc_direction p) (lc_entry p) (lc_stop p)
     (lc_target p) None (lc_trail p)
     \<lparr>pl_action = Some (state_text (lc_state p)), pl_raw_action = None,
      pl_state = Some (state_text (lc_state p)), pl_score = None, pl_reason = [],
      pl_blocked_reason = [], pl_code = []\<rparr>
     (lc_active p) KindWait"

definition lifecycle_as_dict :: "plan_lifecycle \<Rightarrow> vdict" where
  "lifecycle_as_dict p =
     [kv ''source'' (VStr (lc_source p)), kv ''state'' (VStr (state_text (lc_state p))),
      kv ''direction'' (VStr (direction_text (lc_direction p))), kv ''entry'' (round_price (lc_entry p)),
      kv ''stop'' (round_price (lc_stop p)), kv ''target'' (round_price (lc_target p)),
      kv ''trail'' (round_price (lc_trail p)), kv ''opened_ts'' (opt_str (lc_opened_ts p)),
      kv ''filled_ts'' (opt_str (lc_filled_ts p)), kv ''closed_ts'' (opt_str (lc_closed_ts p)),
      kv ''exit_price'' (round_price (lc_exit_price p)),
      kv ''exit_reason'' (VStr (case lc_exit_reason p of Some r \<Rightarrow> state_text r | None \<Rightarrow> [])),
      kv ''age_bars'' (VInt (lc_age_bars p)), kv ''filled'' (VBool (lc_filled p)),
      kv ''active'' (VBool (lc_active p)), kv ''trade_plan'' (VDict (lifecycle_trade_plan p))]"

section \<open>Decoding a payload\<close>

definition direction_from_value :: "pyval \<Rightarrow> direction" where
  "direction_from_value v = (case (if is_str v then direction_of (str_of v) else None) of
     Some d \<Rightarrow> d | None \<Rightarrow> FLAT)"

definition direction_from_int :: "int \<Rightarrow> direction" where
  "direction_from_int v = (if v > 0 then LONG else if v < 0 then SHORT else FLAT)"

fun bool_of :: "pyval \<Rightarrow> bool option" where
  "bool_of (VBool b) = Some b"
| "bool_of _ = None"

text \<open>\<open>None\<close> and the empty text count as no exit reason.\<close>

definition no_reason :: "pyval \<Rightarrow> bool" where
  "no_reason v = (v = VNone \<or> is_str v \<and> str_of v = [])"

definition wire_price :: "vdict \<Rightarrow> string \<Rightarrow> pyfloat option option" where
  "wire_price d field = (let raw = vget d field; parsed = exact_finite_number_or_none raw in
     if raw \<noteq> VNone \<and> parsed = None then None else Some parsed)"

definition wire_timestamp :: "iso_parser \<Rightarrow> vdict \<Rightarrow> string \<Rightarrow> string option option res" where
  "wire_timestamp piso d field = (let raw = vget d field in
     rbind (if is_str raw then parse_aware_utc_ts piso raw else Inr None) (\<lambda>parsed.
       Inr (if raw \<noteq> VNone \<and> parsed = None then None else Some (map_option isoformat_utc parsed))))"

text \<open>A guard: the decoder returns \<open>None\<close> when it fails.\<close>

definition admit :: "bool \<Rightarrow> ('a option res) \<Rightarrow> 'a option res" where
  "admit b r = (if b then r else Inr None)"

definition admit_some :: "'b option \<Rightarrow> ('b \<Rightarrow> 'a option res) \<Rightarrow> 'a option res" where
  "admit_some x f = (case x of None \<Rightarrow> Inr None | Some y \<Rightarrow> f y)"

definition construct_or_none :: "plan_lifecycle res \<Rightarrow> plan_lifecycle option res" where
  "construct_or_none r = (case r of
      Inl e \<Rightarrow> if is_type_error e \<or> is_value_error e then Inr None else Inl e
    | Inr p \<Rightarrow> Inr (Some p))"

text \<open>The part after state and reason were admitted.\<close>

definition decode_fields ::
  "iso_parser \<Rightarrow> vdict \<Rightarrow> lifecycle_state \<Rightarrow> lifecycle_state option \<Rightarrow> plan_lifecycle option res" where
  "decode_fields piso d state exit_reason =
    (let raw_direction = vget_default d ''direction'' (VStr ''flat'') in
    admit_some (if is_str raw_direction then direction_of (str_of raw_direction) else None) (\<lambda>direction.
    admit (direction \<noteq> FLAT \<or> state = LcWait)
    (admit_some (wire_price d ''entry'') (\<lambda>entry.
    admit_some (wire_price d ''stop'') (\<lambda>stop_price.
    admit_some (wire_price d ''target'') (\<lambda>target.
    admit_some (wire_price d ''trail'') (\<lambda>trail.
    admit_some (wire_price d ''exit_price'') (\<lambda>exit_price.
    rbind (wire_timestamp piso d ''opened_ts'') (\<lambda>o_ts. admit_some o_ts (\<lambda>opened_ts.
    rbind (wire_timestamp piso d ''filled_ts'') (\<lambda>f_ts. admit_some f_ts (\<lambda>filled_ts.
    rbind (wire_timestamp piso d ''closed_ts'') (\<lambda>c_ts. admit_some c_ts (\<lambda>closed_ts.
    admit (state_terminal state \<or> exit_price = None \<and> closed_ts = None)
    (case vget_default d ''age_bars'' (VInt 0) of
       VInt age \<Rightarrow>
        admit (0 \<le> age)
        (admit_some (bool_of (vget_default d ''filled'' (VBool False))) (\<lambda>filled.
         admit (\<not> (state \<in> set [LcWait, LcWaitEntry] \<and> filled))
         (admit (\<not> (state \<in> set [LcFollow, LcRide] \<and> \<not> filled))
         (admit (filled \<or> filled_ts = None)
         (let raw_source = vget_default d ''source'' (VStr ''lifecycle'') in
          admit (is_str raw_source)
          (construct_or_none (PlanLifecycle piso
            \<lparr>lc_source = str_of raw_source, lc_state = state, lc_direction = direction,
             lc_entry = entry, lc_stop = stop_price, lc_target = target, lc_trail = trail,
             lc_opened_ts = opened_ts, lc_filled_ts = filled_ts, lc_closed_ts = closed_ts,
             lc_exit_price = exit_price, lc_exit_reason = exit_reason, lc_age_bars = age,
             lc_filled = filled\<rparr>)))))))
     | _ \<Rightarrow> Inr None)))))))))))))))"

definition plan_lifecycle_from_wire :: "iso_parser \<Rightarrow> pyval \<Rightarrow> plan_lifecycle option res" where
  "plan_lifecycle_from_wire piso v =
    admit_some (mapping_items v) (\<lambda>d.
    admit (bool_of (vget_default d ''contract_invalid'' (VBool False)) = Some False)
    (admit_some (lifecycle_state_from_value (vget d ''state'')) (\<lambda>state.
     admit (bool_of (vget d ''active'') = Some (state_active state))
     (let raw = vget d ''exit_reason'';
          exit_reason = (if no_reason raw then None else lifecycle_state_from_value raw)
      in admit (if state_terminal state then exit_reason = Some state else exit_reason = None)
      (admit_some (bool_of (vget_default d ''obsolete'' (VBool False))) (\<lambda>obsolete.
       admit (\<not> obsolete \<or> state_terminal state)
       (decode_fields piso d state exit_reason)))))))"

section \<open>A signal from scores and prices\<close>

definition action_from_thresholds :: "pyfloat \<Rightarrow> pyfloat \<Rightarrow> pyfloat \<Rightarrow> action_phase" where
  "action_from_thresholds score watch go = (if fle go score then GO else if fle watch score then WATCH else WAIT)"

record signal_input =
  si_source :: string
  si_direction :: direction
  si_score :: pyfloat
  si_watch_score :: pyfloat
  si_go_score :: pyfloat
  si_trigger :: "pyfloat option"
  si_stop :: "pyfloat option"
  si_target :: "pyfloat option"
  si_code :: string
  si_reason :: string
  si_gate_ok :: bool
  si_blocked_reason :: string
  si_confirmed :: "bool option"
  si_kind :: scenario_kind

definition first_text :: "string list \<Rightarrow> string" where
  "first_text xs = (case List.find (\<lambda>s. s \<noteq> []) xs of Some s \<Rightarrow> s | None \<Rightarrow> [])"

text \<open>The prices, the phase and the reason after the plan was normalised.\<close>

definition plan_prices ::
  "signal_input \<Rightarrow> bar \<Rightarrow> action_phase
    \<Rightarrow> (pyfloat option \<times> pyfloat option \<times> pyfloat option \<times> action_phase \<times> string) res" where
  "plan_prices i b raw_phase =
    (let given = (finite_or_none (si_trigger i), finite_or_none (si_stop i), finite_or_none (si_target i)) in
     if si_direction i \<noteq> FLAT \<and> si_trigger i \<noteq> None \<and> si_stop i \<noteq> None \<and> si_target i \<noteq> None
     then rbind (normalize_trade_plan (si_direction i) (si_trigger i) (si_stop i) (si_target i) (Some b)
         (Some (Fin 0)) None True) (\<lambda>plan.
       Inr (if np_coherent plan
            then (np_entry plan, np_stop plan, np_target plan, raw_phase, si_blocked_reason i)
            else (case given of (t, s, g) \<Rightarrow>
              (t, s, g, if raw_phase = GO then WATCH else raw_phase,
               first_text [np_blocked_reason plan, si_blocked_reason i, ''incoherent trade plan'']))))
     else Inr (case given of (t, s, g) \<Rightarrow> (t, s, g, raw_phase, si_blocked_reason i)))"

definition plan_from_signal :: "signal_input \<Rightarrow> bar \<Rightarrow> signal_state res" where
  "plan_from_signal i b =
    (let raw_phase = (if si_direction i \<noteq> FLAT
         then action_from_thresholds (si_score i) (si_watch_score i) (si_go_score i) else WAIT)
     in rbind (plan_prices i b raw_phase) (\<lambda>(norm_trigger, norm_stop, norm_target, phase, plan_blocked).
       let action = (if phase = GO \<and> \<not> si_gate_ok i then BLOCK else phase);
           action = (if plan_blocked \<noteq> [] \<and> phase = GO then WATCH else action)
       in SignalState
         \<lparr>sg_source = si_source i, sg_action = action, sg_direction = si_direction i,
          sg_score = clamp (si_score i) (Fin 0) (Fin 99), sg_raw_action = phase_text phase,
          sg_confirmed = (case si_confirmed i of None \<Rightarrow> bar_closed b | Some c \<Rightarrow> c),
          sg_source_tf = Some (bar_timeframe b), sg_trigger = norm_trigger, sg_stop = norm_stop,
          sg_target = norm_target, sg_invalidation = norm_stop, sg_reason = si_reason i,
          sg_blocked_reason = (if action \<in> set [BLOCK, WATCH] \<and> plan_blocked \<noteq> [] then plan_blocked
            else if action = BLOCK then si_blocked_reason i else []),
          sg_code = si_code i, sg_kind = si_kind i\<rparr>))"

section \<open>What one bar proves about a plan\<close>

definition touched :: "bar \<Rightarrow> pyfloat option \<Rightarrow> bool" where
  "touched b price = (case finite_or_none price of None \<Rightarrow> False
     | Some p \<Rightarrow> fle (bar_low b) p \<and> fle p (bar_high b))"

text \<open>\<open>level is not None and\<close> the comparison of the direction.\<close>

definition beyond ::
  "direction \<Rightarrow> (pyfloat \<Rightarrow> pyfloat \<Rightarrow> bool) \<Rightarrow> (pyfloat \<Rightarrow> pyfloat \<Rightarrow> bool) \<Rightarrow> pyfloat
    \<Rightarrow> pyfloat option \<Rightarrow> bool" where
  "beyond direction long_test short_test price level = (case level of None \<Rightarrow> False
     | Some v \<Rightarrow> direction = LONG \<and> long_test price v \<or> direction = SHORT \<and> short_test price v)"

definition trail_is_stricter ::
  "direction \<Rightarrow> pyfloat option \<Rightarrow> pyfloat option \<Rightarrow> pyfloat \<Rightarrow> bool" where
  "trail_is_stricter direction stop_value target_value trail =
    (direction = LONG \<and> (case stop_value of None \<Rightarrow> True | Some s \<Rightarrow> flt s trail)
       \<and> (case target_value of None \<Rightarrow> True | Some t \<Rightarrow> flt trail t)
     \<or> direction = SHORT \<and> (case stop_value of None \<Rightarrow> True | Some s \<Rightarrow> flt trail s)
       \<and> (case target_value of None \<Rightarrow> True | Some t \<Rightarrow> flt t trail))"

definition protective_level ::
  "direction \<Rightarrow> pyfloat option \<Rightarrow> pyfloat option \<Rightarrow> pyfloat option \<Rightarrow> pyfloat option \<times> lifecycle_state" where
  "protective_level direction stop_value target_value trail_value = (case trail_value of
      Some tr \<Rightarrow> if trail_is_stricter direction stop_value target_value tr then (Some tr, LcTrailStop)
        else (stop_value, LcStopHit)
    | None \<Rightarrow> (stop_value, LcStopHit))"

text \<open>Which terminal state with which price, from the facts about target and protective level.\<close>

definition terminal_fact ::
  "bool \<Rightarrow> bool \<Rightarrow> lifecycle_state \<Rightarrow> pyfloat option \<Rightarrow> pyfloat option
    \<Rightarrow> (lifecycle_state \<times> pyfloat option) option" where
  "terminal_fact target_hit protective_hit protective_state target_price protective_price =
    (if target_hit \<and> protective_hit then Some (LcTargetAndStopHit, None)
     else if protective_hit then Some (protective_state, protective_price)
     else if target_hit then Some (LcTargetHit, target_price) else None)"

definition bar_fact ::
  "direction \<Rightarrow> pyfloat option \<Rightarrow> pyfloat option \<Rightarrow> bar \<Rightarrow> pyfloat option \<Rightarrow> bool
    \<Rightarrow> (lifecycle_state \<times> pyfloat option) option" where
  "bar_fact direction stop_price target b trail started_after =
    (let target_value = finite_or_none target;
         (protective, protective_state) =
           protective_level direction (finite_or_none stop_price) target_value (finite_or_none trail)
     in if direction = FLAT then None
        else if \<not> started_after
        then terminal_fact (beyond direction (\<lambda>c t. fle t c) fle (bar_close b) target_value)
          (beyond direction fle (\<lambda>c v. fle v c) (bar_close b) protective) protective_state None None
        else case terminal_fact (beyond direction (\<lambda>x t. flt t x) flt (bar_open b) target_value)
            (beyond direction flt (\<lambda>x v. flt v x) (bar_open b) protective) protective_state None None of
          Some f \<Rightarrow> Some f
        | None \<Rightarrow> terminal_fact (touched b target_value) (touched b protective) protective_state
            target_value protective)"

definition resolve_plan_bar_close_event ::
  "iso_parser \<Rightarrow> direction \<Rightarrow> pyfloat option \<Rightarrow> pyfloat option \<Rightarrow> bar \<Rightarrow> pyfloat option \<Rightarrow> bool
    \<Rightarrow> close_event option res" where
  "resolve_plan_bar_close_event piso direction stop_price target b trail started_after =
    (case bar_fact direction stop_price target b trail started_after of
       None \<Rightarrow> Inr None
     | Some (state, price) \<Rightarrow> rbind (LifecycleCloseEvent piso
         \<lparr>ce_state = state, ce_exit_price = price, ce_closed_ts = Some (isoformat_utc (bar_ts b))\<rparr>)
         (\<lambda>e. Inr (Some e)))"

definition next_plan_trail ::
  "direction \<Rightarrow> pyfloat option \<Rightarrow> pyfloat option \<Rightarrow> pyfloat option \<Rightarrow> pyfloat option \<Rightarrow> pyfloat option
    \<Rightarrow> pyfloat option" where
  "next_plan_trail direction carried_trail stop_price close_price atr trail_atr =
    (if direction = FLAT then None
     else case (finite_or_none close_price, finite_or_none atr, finite_or_none trail_atr) of
       (Some c, Some a, Some m) \<Rightarrow>
         (let base = (case finite_or_none carried_trail of Some t \<Rightarrow> t
                | None \<Rightarrow> (case finite_or_none stop_price of Some s \<Rightarrow> s | None \<Rightarrow> c));
              distance = fmul (fmax a (Fin 0)) (fmax m (Fin 0))
          in Some (if direction = LONG then fmax base (fsub c distance) else fmin base (fadd c distance)))
     | _ \<Rightarrow> None)"

end
