(* ===== verification/SignalLaws.thy ===== *)
theory SignalLaws
  imports TradePlanLaws SignalState
begin

text \<open>
  Facts about \<^theory_text>\<open>SignalState\<close> the replay and the payload decoder rest on: timestamps the program
  writes are read back, what one bar proves about a plan, and the trail.
\<close>

section \<open>Timestamps\<close>

lemma pad_int_no_Z: "CHR ''Z'' \<notin> set (pad_int w n)"
proof -
  have d: "CHR ''Z'' \<notin> set (str_of_nat k)" for k
    using str_of_nat_decimal [of k] by (auto simp: list_all_iff is_decimal_chr_def code_point_def)
  then have "CHR ''Z'' \<notin> set (str_of_int n)"
    by (auto simp: str_of_int_def split: if_splits)
  then show ?thesis by (auto simp: pad_int_def Let_def)
qed

lemma isoformat_no_Z: "CHR ''Z'' \<notin> set (isoformat_utc t)"
  by (auto simp: isoformat_utc_def Let_def isoformat_date_def pad_int_no_Z split: prod.splits)

lemma replace_Z_id: "CHR ''Z'' \<notin> set s \<Longrightarrow> replace_Z s = s"
  by (induction s) (auto simp: replace_Z_def)

lemma parse_isoformat:
  "reads_back piso t \<Longrightarrow> in_dt_range t \<Longrightarrow>
    parse_aware_utc_ts piso (VStr (isoformat_utc t)) = Inr (Some t)"
  by (simp add: parse_aware_utc_ts_def replace_Z_id isoformat_no_Z reads_back_def)

lemma require_timestamp_isoformat:
  "reads_back piso t \<Longrightarrow> in_dt_range t \<Longrightarrow> require_timestamp piso (Some (isoformat_utc t)) m = Inr ()"
  by (simp add: require_timestamp_def timestamp_ok_def parse_isoformat)

lemma require_timestamp_None [simp]: "require_timestamp piso None m = Inr ()"
  by (simp add: require_timestamp_def timestamp_ok_def)

section \<open>One bar\<close>

lemma LifecycleCloseEvent_not_None:
  "resolve_plan_bar_close_event piso d s t b trail after = Inr None \<longleftrightarrow> bar_fact d s t b trail after = None"
  by (auto simp: resolve_plan_bar_close_event_def rbind_Inr_iff split: option.splits prod.splits)

lemma resolve_Some:
  "resolve_plan_bar_close_event piso d s t b trail after = Inr (Some e) \<Longrightarrow>
    bar_fact d s t b trail after = Some (ce_state e, ce_exit_price e)
    \<and> ce_closed_ts e = Some (isoformat_utc (bar_ts b)) \<and> state_terminal (ce_state e)
    \<and> price_ok (ce_exit_price e)"
  by (auto simp: resolve_plan_bar_close_event_def LifecycleCloseEvent_def rbind_Inr_iff require_Inr_iff
    split: option.splits prod.splits)

lemma resolve_total:
  assumes "reads_back piso (bar_ts b)" "in_dt_range (bar_ts b)"
    and "bar_fact d s t b trail after = Some (state, price)" "state_terminal state" "price_ok price"
  shows "resolve_plan_bar_close_event piso d s t b trail after
    = Inr (Some \<lparr>ce_state = state, ce_exit_price = price, ce_closed_ts = Some (isoformat_utc (bar_ts b))\<rparr>)"
  using assms by (simp add: resolve_plan_bar_close_event_def LifecycleCloseEvent_def
    require_timestamp_isoformat)

lemma terminal_fact_cases:
  assumes "terminal_fact th ph ps tp pp = Some (state, price)"
  obtains "th" "ph" "state = LcTargetAndStopHit" "price = None"
    | "ph" "\<not> th" "state = ps" "price = pp"
    | "th" "\<not> ph" "state = LcTargetHit" "price = tp"
  using assms by (auto simp: terminal_fact_def split: if_splits)

lemma protective_level_cases:
  assumes "protective_level d s t trail = (p, ps)"
  obtains "p = s" "ps = LcStopHit" | x where "trail = Some x" "p = Some x" "ps = LcTrailStop"
      "trail_is_stricter d s t x"
  using assms by (auto simp: protective_level_def split: option.splits if_splits)

text \<open>The price reported with a terminal fact: the level of that state, and the bar traded there.\<close>

definition level_of :: "lifecycle_state \<Rightarrow> pyfloat option \<Rightarrow> pyfloat option \<Rightarrow> pyfloat option \<Rightarrow> pyfloat option" where
  "level_of state stop_price target trail = (case state of
     LcTargetHit \<Rightarrow> target | LcStopHit \<Rightarrow> stop_price | LcTrailStop \<Rightarrow> trail | _ \<Rightarrow> None)"

lemma bar_fact_facts:
  assumes "bar_fact d s t b trail after = Some (state, price)"
  shows "state \<in> {LcTargetAndStopHit, LcStopHit, LcTrailStop, LcTargetHit}"
    and "price = Some p \<Longrightarrow> isfinite p \<and> fle (bar_low b) p \<and> fle p (bar_high b)
      \<and> level_of state s t trail = Some p"
proof -
  obtain pv ps where pl: "protective_level d (finite_or_none s) (finite_or_none t) (finite_or_none trail) = (pv, ps)"
    by fastforce
  have ps: "ps = LcStopHit \<or> ps = LcTrailStop" using pl by (rule protective_level_cases) auto
  let ?closed = "\<lambda>th ph. terminal_fact th ph ps None None"
  obtain th ph where h: "?closed th ph = Some (state, price)
      \<or> terminal_fact (touched b (finite_or_none t)) (touched b pv) ps (finite_or_none t) pv = Some (state, price)"
    using assms pl by (auto simp: bar_fact_def Let_def split: if_splits option.splits)
  show "state \<in> {LcTargetAndStopHit, LcStopHit, LcTrailStop, LcTargetHit}"
    using h ps by (auto simp: terminal_fact_def split: if_splits)
  show "isfinite p \<and> fle (bar_low b) p \<and> fle p (bar_high b) \<and> level_of state s t trail = Some p"
    if p: "price = Some p"
  proof -
    have "terminal_fact (touched b (finite_or_none t)) (touched b pv) ps (finite_or_none t) pv = Some (state, Some p)"
      using h p by (auto simp: terminal_fact_def split: if_splits)
    then have "touched b pv \<and> state = ps \<and> pv = Some p
      \<or> touched b (finite_or_none t) \<and> state = LcTargetHit \<and> finite_or_none t = Some p"
      by (simp add: terminal_fact_def split: if_splits)
    then consider "touched b pv" "state = ps" "pv = Some p"
      | "touched b (finite_or_none t)" "state = LcTargetHit" "finite_or_none t = Some p"
      by blast
    then show ?thesis
    proof cases
      case 1
      have t: "isfinite p \<and> fle (bar_low b) p \<and> fle p (bar_high b)"
        using 1(1,3) by (simp add: touched_def split: option.splits)
      from pl show ?thesis
      proof (rule protective_level_cases)
        assume a: "pv = finite_or_none s" "ps = LcStopHit"
        then have "finite_or_none s = Some p" using 1(3) by metis
        then show ?thesis using t 1(2) a(2) by (simp add: level_of_def)
      next
        fix x assume a: "finite_or_none trail = Some x" "pv = Some x" "ps = LcTrailStop"
        then have "finite_or_none trail = Some p" using 1(3) by metis
        then show ?thesis using t 1(2) a(3) by (simp add: level_of_def)
      qed
    next
      case 2
      then show ?thesis by (auto simp: touched_def level_of_def finite_or_none_def split: option.splits if_splits)
    qed
  qed
qed

definition strictly_inside :: "direction \<Rightarrow> bar \<Rightarrow> pyfloat \<Rightarrow> pyfloat \<Rightarrow> bool" where
  "strictly_inside d b protective target = (case d of
      LONG \<Rightarrow> flt protective (bar_low b) \<and> flt (bar_high b) target
    | SHORT \<Rightarrow> flt (bar_high b) protective \<and> flt target (bar_low b)
    | FLAT \<Rightarrow> True)"

lemma untouched_iff:
  assumes "bar_ok b"
  shows "\<not> beyond LONG (\<lambda>x t. flt t x) flt (bar_open b) (Some (Fin v)) \<and> \<not> touched b (Some (Fin v))
      \<longleftrightarrow> flt (bar_high b) (Fin v)"
    and "\<not> beyond SHORT (\<lambda>x t. flt t x) flt (bar_open b) (Some (Fin v)) \<and> \<not> touched b (Some (Fin v))
      \<longleftrightarrow> flt (Fin v) (bar_low b)"
    and "\<not> beyond LONG flt (\<lambda>x t. flt t x) (bar_open b) (Some (Fin v)) \<and> \<not> touched b (Some (Fin v))
      \<longleftrightarrow> flt (Fin v) (bar_low b)"
    and "\<not> beyond SHORT flt (\<lambda>x t. flt t x) (bar_open b) (Some (Fin v)) \<and> \<not> touched b (Some (Fin v))
      \<longleftrightarrow> flt (bar_high b) (Fin v)"
  using assms by (auto simp: bar_ok_def isfinite_iff beyond_def touched_def)

lemma terminal_fact_None: "terminal_fact th ph ps tp pp = None \<longleftrightarrow> \<not> th \<and> \<not> ph"
  by (simp add: terminal_fact_def)

lemma protective_level_Some:
  "\<exists>p ps. protective_level d (Some (Fin s)) (Some (Fin t)) (finite_or_none trail) = (Some (Fin p), ps)"
  by (auto simp: protective_level_def finite_or_none_def isfinite_iff split: option.splits)

lemma first_fact_None: "(case x of Some f \<Rightarrow> Some f | None \<Rightarrow> y) = None \<longleftrightarrow> x = None \<and> y = None"
  by (cases x) auto

lemma bar_fact_None_iff:
  assumes "bar_ok b" "d \<noteq> FLAT"
    and "protective_level d (Some (Fin s)) (Some (Fin t)) (finite_or_none trail) = (Some (Fin p), ps)"
  shows "bar_fact d (Some (Fin s)) (Some (Fin t)) b trail True = None
    \<longleftrightarrow> strictly_inside d b (Fin p) (Fin t)"
proof -
  have f: "bar_fact d (Some (Fin s)) (Some (Fin t)) b trail True = None \<longleftrightarrow>
      \<not> beyond d (\<lambda>x t. flt t x) flt (bar_open b) (Some (Fin t)) \<and> \<not> touched b (Some (Fin t))
      \<and> \<not> beyond d flt (\<lambda>x t. flt t x) (bar_open b) (Some (Fin p)) \<and> \<not> touched b (Some (Fin p))"
    using assms(2,3) by (auto simp: bar_fact_def Let_def first_fact_None terminal_fact_None)
  show ?thesis
  proof (cases d)
    case LONG
    then show ?thesis
      using f untouched_iff(1) [OF assms(1), of t] untouched_iff(3) [OF assms(1), of p]
      by (simp add: strictly_inside_def) blast
  next
    case SHORT
    then show ?thesis
      using f untouched_iff(2) [OF assms(1), of t] untouched_iff(4) [OF assms(1), of p]
      by (simp add: strictly_inside_def) blast
  qed (use assms(2) in simp)
qed

section \<open>The trail\<close>

lemma fmul_nonneg:
  assumes "\<not> flt a (Fin 0)" "\<not> flt b (Fin 0)" "isfinite a" "isfinite b"
  shows "fmul a b = PInf \<or> (\<exists>r. fmul a b = Fin r \<and> 0 \<le> r)"
proof -
  obtain x y where xy: "a = Fin x" "b = Fin y" "0 \<le> x" "0 \<le> y"
    using assms by (auto simp: isfinite_iff)
  then have "fle (rnd 0) (rnd (x * y))" by (intro rnd_mono) simp
  then show ?thesis using xy by (cases "rnd (x * y)") auto
qed

lemma close_less_distance:
  assumes "fl_ok (Fin c)" "m = PInf \<or> (\<exists>r. m = Fin r \<and> 0 \<le> r)"
  shows "fsub (Fin c) m = NInf \<or> isfinite (fsub (Fin c) m)"
    and "fadd (Fin c) m = PInf \<or> isfinite (fadd (Fin c) m)"
proof -
  have "fle (rnd (c - r)) (rnd c)" "fle (rnd c) (rnd (c + r))" if "0 \<le> r" for r
    using that by (auto intro: rnd_mono)
  then have r: "rnd (c - r) = NInf \<or> isfinite (rnd (c - r))" "rnd (c + r) = PInf \<or> isfinite (rnd (c + r))"
    if "0 \<le> r" for r
    using that assms(1) rnd_not_NaN [of "c - r"] rnd_not_NaN [of "c + r"]
    by (cases "rnd (c - r)"; cases "rnd (c + r)"; fastforce)+
  from assms(2) consider "m = PInf" | k where "m = Fin k" "0 \<le> k" by blast
  then have "(fsub (Fin c) m = NInf \<or> isfinite (fsub (Fin c) m))
      \<and> (fadd (Fin c) m = PInf \<or> isfinite (fadd (Fin c) m))"
  proof cases
    case (2 k)
    then show ?thesis using r [of k] by (simp add: fsub_def)
  qed (simp add: fsub_def)
  then show "fsub (Fin c) m = NInf \<or> isfinite (fsub (Fin c) m)"
    "fadd (Fin c) m = PInf \<or> isfinite (fadd (Fin c) m)" by blast+
qed

lemma next_trail_facts:
  assumes "next_plan_trail d carried (Some (Fin s)) (Some (Fin c)) atr m = Some x"
    and "fl_ok (Fin c)" "price_ok carried"
  shows "isfinite x"
    and "d = LONG \<Longrightarrow> fle (case carried of Some t \<Rightarrow> t | None \<Rightarrow> Fin s) x"
    and "d = SHORT \<Longrightarrow> fle x (case carried of Some t \<Rightarrow> t | None \<Rightarrow> Fin s)"
proof -
  define base where "base = (case carried of Some t \<Rightarrow> t | None \<Rightarrow> Fin s)"
  obtain a k where v: "finite_or_none atr = Some a" "finite_or_none m = Some k" "d \<noteq> FLAT"
    using assms(1) by (auto simp: next_plan_trail_def split: option.splits if_splits)
  define dist where "dist = fmul (fmax a (Fin 0)) (fmax k (Fin 0))"
  have bf: "isfinite base" using assms(3) by (auto simp: base_def price_ok_def split: option.splits)
  have base: "finite_or_none carried = carried"
    using assms(3) by (auto simp: price_ok_def finite_or_none_def split: option.splits)
  have x: "x = (if d = LONG then fmax base (fsub (Fin c) dist) else fmin base (fadd (Fin c) dist))"
    using assms(1) v unfolding next_plan_trail_def base
    by (auto simp: Let_def base_def dist_def split: option.splits)
  have "isfinite a" "isfinite k" using v by simp_all
  then have "dist = PInf \<or> (\<exists>r. dist = Fin r \<and> 0 \<le> r)"
    unfolding dist_def by (intro fmul_nonneg) (auto simp: fmax_def isfinite_iff)
  note e = close_less_distance [OF assms(2) this]
  show "isfinite x"
    using e bf by (auto simp: x fmax_def fmin_def isfinite_iff)
  have n: "base \<noteq> NaN" using bf by auto
  show "d = LONG \<Longrightarrow> fle (case carried of Some t \<Rightarrow> t | None \<Rightarrow> Fin s) x"
    using fmax_ge [OF n] by (simp add: x flip: base_def)
  show "d = SHORT \<Longrightarrow> fle x (case carried of Some t \<Rightarrow> t | None \<Rightarrow> Fin s)"
    using fmin_le [OF n] by (simp add: x flip: base_def)
qed

end
