(* ===== verification/SignalScan.thy ===== *)
theory SignalScan
  imports SignalState
begin

text \<open>
  \<open>runtime/signal_state.py\<close>, the scans: \<open>lifecycle_from_signals\<close>, which replays signals over bars
  with at most one open plan, and the choice of the strongest active lifecycle the indicators
  publish.
\<close>

section \<open>Replaying signals over bars\<close>

record open_plan =
  op_direction :: direction
  op_entry :: pyfloat
  op_stop :: pyfloat
  op_target :: pyfloat
  op_trail :: "pyfloat option"
  op_opened_index :: nat
  op_opened_ts :: string
  op_filled :: bool
  op_filled_ts :: "string option"
  op_age_bars :: nat

record scan_config =
  sn_source :: string
  sn_max_age_bars :: int
  sn_trail_atr :: pyfloat

text \<open>The lifecycle of the open plan, in a given state.\<close>

definition plan_of :: "scan_config \<Rightarrow> open_plan \<Rightarrow> lifecycle_state \<Rightarrow> plan_lifecycle" where
  "plan_of cfg a state = \<lparr>lc_source = sn_source cfg, lc_state = state, lc_direction = op_direction a,
     lc_entry = Some (op_entry a), lc_stop = Some (op_stop a), lc_target = Some (op_target a),
     lc_trail = op_trail a, lc_opened_ts = Some (op_opened_ts a), lc_filled_ts = op_filled_ts a,
     lc_closed_ts = None, lc_exit_price = None, lc_exit_reason = None,
     lc_age_bars = int (op_age_bars a), lc_filled = op_filled a\<rparr>"

definition expired_plan :: "scan_config \<Rightarrow> bar \<Rightarrow> open_plan \<Rightarrow> plan_lifecycle" where
  "expired_plan cfg b a = (plan_of cfg a LcExpired)\<lparr>lc_filled_ts := None, lc_filled := False,
     lc_closed_ts := Some (isoformat_utc (bar_ts b)), lc_exit_reason := Some LcExpired\<rparr>"

definition closed_plan ::
  "scan_config \<Rightarrow> bar \<Rightarrow> open_plan \<Rightarrow> lifecycle_state \<Rightarrow> pyfloat option \<Rightarrow> plan_lifecycle" where
  "closed_plan cfg b a state price = (plan_of cfg a state)\<lparr>lc_filled := True,
     lc_closed_ts := Some (isoformat_utc (bar_ts b)), lc_exit_price := price,
     lc_exit_reason := Some state\<rparr>"

definition bar_atr :: "bar \<Rightarrow> pyfloat option \<Rightarrow> pyfloat" where
  "bar_atr b atr_input = (case finite_or_none atr_input of
      Some x \<Rightarrow> if flt (Fin 0) x then x else fmax (fsub (bar_high b) (bar_low b)) (rnd (1 / 10 ^ 6))
    | None \<Rightarrow> fmax (fsub (bar_high b) (bar_low b)) (rnd (1 / 10 ^ 6)))"

definition entry_action :: "signal_state \<Rightarrow> bool" where
  "entry_action s = (sg_action s \<in> set [GO, ARM])"

text \<open>An open plan meets a bar: what remains open, and the lifecycle that closed on it.\<close>

definition expire_open ::
  "iso_parser \<Rightarrow> scan_config \<Rightarrow> nat \<Rightarrow> bar \<Rightarrow> open_plan
    \<Rightarrow> (open_plan option \<times> plan_lifecycle option) res" where
  "expire_open piso cfg i b a =
    (let a = a\<lparr>op_age_bars := i - op_opened_index a\<rparr> in
     if \<not> op_filled a \<and> sn_max_age_bars cfg < int (op_age_bars a)
     then rbind (PlanLifecycle piso (expired_plan cfg b a)) (\<lambda>p. Inr (None, Some p))
     else Inr (Some a, None))"

definition exit_fact ::
  "iso_parser \<Rightarrow> bar \<Rightarrow> signal_state \<Rightarrow> open_plan \<Rightarrow> (lifecycle_state \<times> pyfloat option) option res" where
  "exit_fact piso b s a =
    rbind (resolve_plan_bar_close_event piso (op_direction a) (Some (op_stop a)) (Some (op_target a)) b
      (finite_or_none (op_trail a)) True) (\<lambda>event.
    Inr (case event of
        Some e \<Rightarrow> Some (ce_state e, ce_exit_price e)
      | None \<Rightarrow> if entry_action s \<and> sg_direction s \<notin> set [FLAT, op_direction a]
          then Some (LcReversed, Some (bar_close b)) else None))"

definition meet_bar ::
  "iso_parser \<Rightarrow> scan_config \<Rightarrow> bar \<Rightarrow> pyfloat \<Rightarrow> signal_state \<Rightarrow> open_plan
    \<Rightarrow> (open_plan option \<times> plan_lifecycle option) res" where
  "meet_bar piso cfg b atr s a =
    (if \<not> op_filled a
     then Inr (Some (if 0 < op_age_bars a \<and> touched b (Some (op_entry a))
        then a\<lparr>op_filled := True, op_filled_ts := Some (isoformat_utc (bar_ts b)),
               op_trail := Some (op_stop a)\<rparr>
        else a), None)
     else if 0 < op_age_bars a
     then rbind (exit_fact piso b s a) (\<lambda>exit.
        case exit of
          Some (state, price) \<Rightarrow>
            rbind (PlanLifecycle piso (closed_plan cfg b a state price)) (\<lambda>p. Inr (None, Some p))
        | None \<Rightarrow> Inr (Some (a\<lparr>op_trail := next_plan_trail (op_direction a) (finite_or_none (op_trail a))
              (Some (op_stop a)) (Some (bar_close b)) (Some atr) (Some (sn_trail_atr cfg))\<rparr>), None))
     else Inr (Some a, None))"

definition open_from_signal :: "nat \<Rightarrow> bar \<Rightarrow> signal_state \<Rightarrow> open_plan option" where
  "open_from_signal i b s =
    (let entry = (case finite_or_none (sg_trigger s) of Some e \<Rightarrow> Some e
           | None \<Rightarrow> finite_or_none (Some (bar_close b)));
         stop_price = (case finite_or_none (sg_stop s) of Some x \<Rightarrow> Some x
           | None \<Rightarrow> finite_or_none (sg_invalidation s));
         target = finite_or_none (sg_target s);
         filled = (sg_action s = GO)
     in if entry_action s \<and> sg_direction s \<noteq> FLAT
          \<and> complete_coherent_trade_plan entry stop_price target (sg_direction s)
        then Some \<lparr>op_direction = sg_direction s, op_entry = the entry, op_stop = the stop_price,
          op_target = the target, op_trail = stop_price, op_opened_index = i,
          op_opened_ts = isoformat_utc (bar_ts b), op_filled = filled,
          op_filled_ts = (if filled then Some (isoformat_utc (bar_ts b)) else None), op_age_bars = 0\<rparr>
        else None)"

text \<open>The state of the scan: the open plan and the lifecycle that closed last.\<close>

type_synonym scan_state = "open_plan option \<times> plan_lifecycle option"

definition last_of :: "plan_lifecycle option \<Rightarrow> plan_lifecycle option \<Rightarrow> plan_lifecycle option" where
  "last_of new old = (case new of Some p \<Rightarrow> Some p | None \<Rightarrow> old)"

definition scan_step ::
  "iso_parser \<Rightarrow> scan_config \<Rightarrow> nat \<Rightarrow> bar \<Rightarrow> pyfloat option \<Rightarrow> signal_state \<Rightarrow> scan_state \<Rightarrow> scan_state res" where
  "scan_step piso cfg i b atr_input s st = (case st of (active, last_closed) \<Rightarrow>
    rbind (case active of None \<Rightarrow> Inr (None, None) | Some a \<Rightarrow> expire_open piso cfg i b a)
      (\<lambda>(active, expired).
    rbind (case active of None \<Rightarrow> Inr (None, None)
        | Some a \<Rightarrow> meet_bar piso cfg b (bar_atr b atr_input) s a) (\<lambda>(active, closed).
    Inr (case active of Some a \<Rightarrow> Some a | None \<Rightarrow> open_from_signal i b s,
         last_of closed (last_of expired last_closed)))))"

text \<open>The loop; it breaks when the bars are used up.\<close>

fun scan_signals ::
  "iso_parser \<Rightarrow> scan_config \<Rightarrow> bar list \<Rightarrow> pyfloat list option \<Rightarrow> nat \<Rightarrow> signal_state list \<Rightarrow> scan_state
    \<Rightarrow> scan_state res" where
  "scan_signals piso cfg bars atrs i [] st = Inr st"
| "scan_signals piso cfg bars atrs i (s # ss) st =
    (if length bars \<le> i then Inr st
     else rbind (scan_step piso cfg i (bars ! i)
         (case atrs of None \<Rightarrow> None | Some xs \<Rightarrow> if i < length xs then Some (xs ! i) else None) s st)
       (\<lambda>st'. scan_signals piso cfg bars atrs (Suc i) ss st'))"

definition scan_result :: "iso_parser \<Rightarrow> scan_config \<Rightarrow> scan_state \<Rightarrow> plan_lifecycle option res" where
  "scan_result piso cfg st = (case st of
      (Some a, _) \<Rightarrow> rbind (PlanLifecycle piso (plan_of cfg a (if op_filled a then LcFollow else LcWaitEntry)))
        (\<lambda>p. Inr (Some p))
    | (None, last_closed) \<Rightarrow> Inr last_closed)"

definition lifecycle_from_signals ::
  "iso_parser \<Rightarrow> scan_config \<Rightarrow> bar list \<Rightarrow> signal_state list \<Rightarrow> pyfloat list option
    \<Rightarrow> plan_lifecycle option res" where
  "lifecycle_from_signals piso cfg bars signals atrs =
    (if bars = [] \<or> signals = [] then Inr None
     else rbind (scan_signals piso cfg bars atrs (length bars - length signals) signals (None, None))
       (scan_result piso cfg))"

section \<open>The strongest active lifecycle\<close>

definition DEFAULT_LIFECYCLE_LABELS :: "(string, string) pydict" where
  "DEFAULT_LIFECYCLE_LABELS = [(''breakout_accumulation'', ''BAR''), (''linda_volume'', ''Linda''),
     (''impulse_fib'', ''Impulse''), (''absorption_trap'', ''AbsTrap''), (''w5_structure'', ''W5''),
     (''wolfe_structure'', ''Wolfe'')]"

definition active_item ::
  "iso_parser \<Rightarrow> (pyval \<Rightarrow> string) \<Rightarrow> (string, string) pydict \<Rightarrow> string \<Rightarrow> vdict \<Rightarrow> plan_lifecycle
    \<Rightarrow> pyfloat \<Rightarrow> vdict res" where
  "active_item piso pystr label_map source lifecycle admitted score =
    rbind (PlanLifecycle piso (admitted\<lparr>lc_source := source\<rparr>)) (\<lambda>p.
      let label = vget lifecycle ''label'' in
      Inr (vset ''score'' (VFloat (fround 2 score))
        (vset ''direction'' (VStr (direction_text (lc_direction admitted)))
        (vset ''label'' (VStr (if truthy label then text_of pystr label else dget_default label_map source source))
          (dmerge lifecycle (lifecycle_as_dict p))))))"

definition indicator_item ::
  "iso_parser \<Rightarrow> (pyval \<Rightarrow> string) \<Rightarrow> (string, string) pydict \<Rightarrow> string \<Rightarrow> pyval \<Rightarrow> vdict option res" where
  "indicator_item piso pystr label_map source indicator =
    admit_some (dict_items indicator) (\<lambda>ind.
    admit_some (dict_items (vget ind ''latest'')) (\<lambda>latest.
    admit_some (dict_items (vget latest ''lifecycle'')) (\<lambda>lifecycle.
    rbind (plan_lifecycle_from_wire piso (VDict lifecycle)) (\<lambda>decoded.
    admit_some decoded (\<lambda>admitted.
    admit (lc_active admitted \<and> lc_direction admitted \<noteq> FLAT
      \<and> complete_coherent_trade_plan (lc_entry admitted) (lc_stop admitted) (lc_target admitted)
          (lc_direction admitted))
    (admit_some (dict_items (vget latest ''signal'')) (\<lambda>signal.
    admit_some (exact_finite_number_or_none (vget signal ''score'')) (\<lambda>score.
    rbind (active_item piso pystr label_map source lifecycle admitted score) (\<lambda>item.
    Inr (Some item))))))))))"

fun collect_items :: "(string \<Rightarrow> pyval \<Rightarrow> vdict option res) \<Rightarrow> (string \<times> pyval) list \<Rightarrow> vdict list res" where
  "collect_items f [] = Inr []"
| "collect_items f ((k, v) # kvs) = rbind (f k v) (\<lambda>x. rbind (collect_items f kvs) (\<lambda>xs.
    Inr (case x of None \<Rightarrow> xs | Some y \<Rightarrow> y # xs)))"

text \<open>The key \<open>(score, -age)\<close> of an item; both entries are numbers the scan wrote itself.\<close>

definition item_score :: "vdict \<Rightarrow> pyfloat" where
  "item_score d = (case vget d ''score'' of VFloat x \<Rightarrow> x | _ \<Rightarrow> Fin 0)"

definition item_age :: "vdict \<Rightarrow> int" where
  "item_age d = (case vget d ''age_bars'' of VInt n \<Rightarrow> n | _ \<Rightarrow> 0)"

definition stronger :: "vdict \<Rightarrow> vdict \<Rightarrow> bool" where
  "stronger a b = (flt (item_score b) (item_score a)
     \<or> feq (item_score a) (item_score b) \<and> item_age a < item_age b)"

text \<open>\<open>max\<close>: the first item no later one beats.\<close>

fun max_item :: "vdict \<Rightarrow> vdict list \<Rightarrow> vdict" where
  "max_item m [] = m"
| "max_item m (x # xs) = max_item (if stronger x m then x else m) xs"

definition active_lifecycle_from_indicators ::
  "iso_parser \<Rightarrow> (pyval \<Rightarrow> string) \<Rightarrow> (string \<times> pyval) list \<Rightarrow> (string, string) pydict \<Rightarrow> vdict option res" where
  "active_lifecycle_from_indicators piso pystr indicators labels =
    rbind (collect_items (indicator_item piso pystr (dmerge DEFAULT_LIFECYCLE_LABELS labels)) indicators)
      (\<lambda>items. Inr (case items of [] \<Rightarrow> None | m # xs \<Rightarrow> Some (max_item m xs)))"

end
