(* ===== verification/PlanLifeSpec.thy ===== *)
theory PlanLifeSpec
  imports SignalLaws SignalScan
begin

text \<open>
  The life of a trade plan, stated apart from the replay of \<^theory_text>\<open>SignalScan\<close>: which prices
  a bar proves, how a bar ends a plan, what a signal offers, and the one step a life makes at each bar.
\<close>

section \<open>Prices of a plan\<close>

text \<open>The terms of a plan: direction, entry, stop and target. \<open>worse d x y\<close>: for a plan in direction
  \<open>d\<close>, \<open>x\<close> is a worse price than \<open>y\<close>.\<close>

type_synonym plan_terms = "direction \<times> pyfloat \<times> pyfloat \<times> pyfloat"

fun worse :: "direction \<Rightarrow> pyfloat \<Rightarrow> pyfloat \<Rightarrow> bool" where
  "worse LONG x y = flt x y"
| "worse SHORT x y = flt y x"
| "worse FLAT x y = False"

fun terms_ok :: "plan_terms \<Rightarrow> bool" where
  "terms_ok (d, e, s, t) \<longleftrightarrow> isfinite e \<and> isfinite s \<and> isfinite t \<and> worse d s e \<and> worse d e t"

definition traded :: "bar \<Rightarrow> pyfloat \<Rightarrow> bool" where
  "traded b p \<longleftrightarrow> fle (bar_low b) p \<and> fle p (bar_high b)"

text \<open>The level that protects a plan, with the state an exit there is reported as: the trail where it
  lies strictly between stop and target, the stop otherwise.\<close>

definition guard :: "plan_terms \<Rightarrow> pyfloat option \<Rightarrow> pyfloat \<times> lifecycle_state" where
  "guard T tr = (case T of (d, e, s, t) \<Rightarrow> (case tr of
      Some x \<Rightarrow> if worse d s x \<and> worse d x t then (x, LcTrailStop) else (s, LcStopHit)
    | None \<Rightarrow> (s, LcStopHit)))"

text \<open>The same level where stop, target and trail may be missing or not finite.\<close>

definition protecting ::
  "direction \<Rightarrow> pyfloat option \<Rightarrow> pyfloat option \<Rightarrow> pyfloat option \<Rightarrow> pyfloat option" where
  "protecting d st target tr = (case finite_or_none tr of
      Some x \<Rightarrow>
        if (case finite_or_none st of Some s \<Rightarrow> worse d s x | None \<Rightarrow> True)
          \<and> (case finite_or_none target of Some t \<Rightarrow> worse d x t | None \<Rightarrow> True)
        then Some x else finite_or_none st
    | None \<Rightarrow> finite_or_none st)"

text \<open>The bar opens beyond a level: past the target, or past what protects the plan.\<close>

definition gaps ::
  "direction \<Rightarrow> bar \<Rightarrow> pyfloat option \<Rightarrow> pyfloat option \<Rightarrow> pyfloat option \<Rightarrow> bool" where
  "gaps d b st target tr \<longleftrightarrow>
     (case finite_or_none target of Some t \<Rightarrow> worse d t (bar_open b) | None \<Rightarrow> False)
     \<or> (case protecting d st target tr of Some g \<Rightarrow> worse d (bar_open b) g | None \<Rightarrow> False)"

text \<open>How a bar ends a plan: it opens past a level (no price is known), it trades at both levels (their
  order is not known), or it trades at one of them.\<close>

inductive plan_exit :: "bar \<Rightarrow> plan_terms \<Rightarrow> pyfloat option \<Rightarrow> lifecycle_state \<Rightarrow> pyfloat option \<Rightarrow> bool"
  for b :: bar where
  exit_target_gap: "worse d t (bar_open b) \<Longrightarrow> plan_exit b (d, e, s, t) tr LcTargetHit None"
| exit_guard_gap: "guard (d, e, s, t) tr = (g, st) \<Longrightarrow> worse d (bar_open b) g \<Longrightarrow>
    plan_exit b (d, e, s, t) tr st None"
| exit_both: "guard (d, e, s, t) tr = (g, st) \<Longrightarrow> \<not> worse d t (bar_open b) \<Longrightarrow> \<not> worse d (bar_open b) g \<Longrightarrow>
    traded b t \<Longrightarrow> traded b g \<Longrightarrow> plan_exit b (d, e, s, t) tr LcTargetAndStopHit None"
| exit_guard: "guard (d, e, s, t) tr = (g, st) \<Longrightarrow> \<not> worse d t (bar_open b) \<Longrightarrow> \<not> worse d (bar_open b) g \<Longrightarrow>
    \<not> traded b t \<Longrightarrow> traded b g \<Longrightarrow> plan_exit b (d, e, s, t) tr st (Some g)"
| exit_target: "guard (d, e, s, t) tr = (g, st) \<Longrightarrow> \<not> worse d t (bar_open b) \<Longrightarrow> \<not> worse d (bar_open b) g \<Longrightarrow>
    traded b t \<Longrightarrow> \<not> traded b g \<Longrightarrow> plan_exit b (d, e, s, t) tr LcTargetHit (Some t)"

inductive_simps plan_exit_iff: "plan_exit b (d, e, s, t) tr st p"

text \<open>A held plan is left at a bar that ends it, else at the close when the signal enters the other way.\<close>

definition opposite :: "signal_state \<Rightarrow> direction \<Rightarrow> bool" where
  "opposite s d \<longleftrightarrow> (sg_action s = GO \<or> sg_action s = ARM) \<and> sg_direction s \<noteq> FLAT \<and> sg_direction s \<noteq> d"

inductive left_at ::
  "bar \<Rightarrow> signal_state \<Rightarrow> plan_terms \<Rightarrow> pyfloat option \<Rightarrow> lifecycle_state \<Rightarrow> pyfloat option \<Rightarrow> bool"
  for b :: bar and s :: signal_state where
  left_by_bar: "plan_exit b T tr st p \<Longrightarrow> left_at b s T tr st p"
| left_by_signal: "\<nexists>st p. plan_exit b T tr st p \<Longrightarrow> opposite s (fst T) \<Longrightarrow>
    left_at b s T tr LcReversed (Some (bar_close b))"

text \<open>What a signal offers at a bar, and whether it is entered at once (GO) or waits for its entry (ARM).\<close>

definition first_price :: "pyfloat option list \<Rightarrow> pyfloat option" where
  "first_price xs = (case List.filter (\<lambda>x. case x of Some v \<Rightarrow> isfinite v | None \<Rightarrow> False) xs of
     [] \<Rightarrow> None | x # _ \<Rightarrow> x)"

definition offers :: "bar \<Rightarrow> signal_state \<Rightarrow> plan_terms \<Rightarrow> bool \<Rightarrow> bool" where
  "offers b s T now \<longleftrightarrow> (case T of (d, e, st, t) \<Rightarrow>
     sg_action s = (if now then GO else ARM) \<and> sg_direction s = d
     \<and> first_price [sg_trigger s, Some (bar_close b)] = Some e
     \<and> first_price [sg_stop s, sg_invalidation s] = Some st
     \<and> first_price [sg_target s] = Some t \<and> terms_ok T)"

section \<open>The life of a plan\<close>

text \<open>\<open>Waiting T k\<close>: offered at bar \<open>k\<close>. \<open>Held T k f tr\<close>: entered at bar \<open>f\<close>, trail \<open>tr\<close>.
  \<open>Ended T k f tr c st p\<close>: over since bar \<open>c\<close>, in state \<open>st\<close>, at price \<open>p\<close> where one is known.\<close>

datatype life = Idle
  | Waiting plan_terms nat
  | Held plan_terms nat nat "pyfloat option"
  | Ended plan_terms nat "nat option" "pyfloat option" nat lifecycle_state "pyfloat option"

fun resting :: "life \<Rightarrow> bool" where
  "resting (Waiting T k) = False" | "resting (Held T k f tr) = False" | "resting l = True"

fun terms_stop :: "plan_terms \<Rightarrow> pyfloat" where
  "terms_stop (d, e, s, t) = s"

fun terms_entry :: "plan_terms \<Rightarrow> pyfloat" where
  "terms_entry (d, e, s, t) = e"

text \<open>What bar \<open>i\<close> makes of a plan opened before it.\<close>

inductive fate :: "scan_config \<Rightarrow> nat \<Rightarrow> bar \<Rightarrow> pyfloat option \<Rightarrow> signal_state \<Rightarrow> life \<Rightarrow> life \<Rightarrow> bool"
  for cfg i b atr s where
  fate_rest: "resting l \<Longrightarrow> fate cfg i b atr s l l"
| fate_expire: "sn_max_age_bars cfg < int (i - k) \<Longrightarrow>
    fate cfg i b atr s (Waiting T k) (Ended T k None (Some (terms_stop T)) i LcExpired None)"
| fate_fill: "\<not> sn_max_age_bars cfg < int (i - k) \<Longrightarrow> traded b (terms_entry T) \<Longrightarrow>
    fate cfg i b atr s (Waiting T k) (Held T k i (Some (terms_stop T)))"
| fate_wait: "\<not> sn_max_age_bars cfg < int (i - k) \<Longrightarrow> \<not> traded b (terms_entry T) \<Longrightarrow>
    fate cfg i b atr s (Waiting T k) (Waiting T k)"
| fate_leave: "left_at b s T tr st p \<Longrightarrow> fate cfg i b atr s (Held T k f tr) (Ended T k (Some f) tr i st p)"
| fate_hold: "\<nexists>st p. left_at b s T tr st p \<Longrightarrow>
    fate cfg i b atr s (Held T k f tr) (Held T k f (next_plan_trail (fst T) tr (Some (terms_stop T))
      (Some (bar_close b)) (Some (bar_atr b atr)) (Some (sn_trail_atr cfg))))"

inductive_simps fate_waiting_iff: "fate cfg i b atr s (Waiting T k) m"
inductive_simps fate_held_iff: "fate cfg i b atr s (Held T k f tr) m"
inductive_simps fate_idle_iff: "fate cfg i b atr s Idle m"
inductive_simps fate_ended_iff: "fate cfg i b atr s (Ended T k f tr c st p) m"

lemmas fate_iffs = fate_waiting_iff fate_held_iff fate_idle_iff fate_ended_iff

text \<open>One bar: first its effect on the open plan, then, when none is open, what the signal offers.\<close>

inductive life_bar :: "scan_config \<Rightarrow> nat \<Rightarrow> bar \<Rightarrow> pyfloat option \<Rightarrow> signal_state \<Rightarrow> life \<Rightarrow> life \<Rightarrow> bool"
  for cfg i b atr s where
  bar_busy: "fate cfg i b atr s l m \<Longrightarrow> \<not> resting m \<Longrightarrow> life_bar cfg i b atr s l m"
| bar_no_offer: "fate cfg i b atr s l m \<Longrightarrow> resting m \<Longrightarrow> \<nexists>T now. offers b s T now \<Longrightarrow> life_bar cfg i b atr s l m"
| bar_opens: "fate cfg i b atr s l m \<Longrightarrow> resting m \<Longrightarrow> offers b s T now \<Longrightarrow>
    life_bar cfg i b atr s l (if now then Held T i i (Some (terms_stop T)) else Waiting T i)"

inductive_simps life_bar_iff: "life_bar cfg i b atr s l m"

text \<open>A life along the signals, exactly one step for each bar, from bar \<open>i\<close> on.\<close>

fun life_run ::
  "scan_config \<Rightarrow> bar list \<Rightarrow> pyfloat list option \<Rightarrow> nat \<Rightarrow> signal_state list \<Rightarrow> life \<Rightarrow> life \<Rightarrow> bool" where
  "life_run cfg bars atrs i [] l m \<longleftrightarrow> l = m"
| "life_run cfg bars atrs i (s # ss) l m \<longleftrightarrow>
    (if length bars \<le> i then l = m
     else \<exists>k. life_bar cfg i (bars ! i) (case atrs of None \<Rightarrow> None
         | Some xs \<Rightarrow> if i < length xs then Some (xs ! i) else None) s l k
       \<and> life_run cfg bars atrs (Suc i) ss k m)"

text \<open>The lifecycle a life is reported as after the last bar.\<close>

fun lifecycle_of :: "scan_config \<Rightarrow> bar list \<Rightarrow> nat \<Rightarrow> life \<Rightarrow> plan_lifecycle option" where
  "lifecycle_of cfg bars n Idle = None"
| "lifecycle_of cfg bars n (Waiting (d, e, s, t) k) = Some \<lparr>lc_source = sn_source cfg, lc_state = LcWaitEntry,
     lc_direction = d, lc_entry = Some e, lc_stop = Some s, lc_target = Some t, lc_trail = Some s,
     lc_opened_ts = Some (isoformat_utc (bar_ts (bars ! k))), lc_filled_ts = None, lc_closed_ts = None,
     lc_exit_price = None, lc_exit_reason = None, lc_age_bars = int (n - k), lc_filled = False\<rparr>"
| "lifecycle_of cfg bars n (Held (d, e, s, t) k f tr) = Some \<lparr>lc_source = sn_source cfg, lc_state = LcFollow,
     lc_direction = d, lc_entry = Some e, lc_stop = Some s, lc_target = Some t, lc_trail = tr,
     lc_opened_ts = Some (isoformat_utc (bar_ts (bars ! k))),
     lc_filled_ts = Some (isoformat_utc (bar_ts (bars ! f))), lc_closed_ts = None,
     lc_exit_price = None, lc_exit_reason = None, lc_age_bars = int (n - k), lc_filled = True\<rparr>"
| "lifecycle_of cfg bars n (Ended (d, e, s, t) k f tr c st p) = Some \<lparr>lc_source = sn_source cfg, lc_state = st,
     lc_direction = d, lc_entry = Some e, lc_stop = Some s, lc_target = Some t, lc_trail = tr,
     lc_opened_ts = Some (isoformat_utc (bar_ts (bars ! k))),
     lc_filled_ts = map_option (\<lambda>j. isoformat_utc (bar_ts (bars ! j))) f,
     lc_closed_ts = Some (isoformat_utc (bar_ts (bars ! c))),
     lc_exit_price = p, lc_exit_reason = Some st, lc_age_bars = int (c - k), lc_filled = (f \<noteq> None)\<rparr>"

section \<open>Lives are determined\<close>

lemma terms_ok_coherent: "terms_ok (d, e, s, t) \<longleftrightarrow> coherent_trade_plan d (Some e) (Some s) (Some t)"
  by (cases d) (auto simp: coherent_iff isfinite_iff)

lemma worse_iff [simp]: "isfinite x \<Longrightarrow> isfinite y \<Longrightarrow> d \<noteq> FLAT \<Longrightarrow> \<not> worse d x y \<longleftrightarrow> x = y \<or> worse d y x"
  by (cases d) (auto simp: isfinite_iff)

lemma guard_facts:
  assumes "terms_ok (d, e, s, t)" "guard (d, e, s, t) tr = (g, st)"
  shows "isfinite g" "worse d g t" "st = LcStopHit \<or> st = LcTrailStop"
proof -
  have "isfinite g \<and> worse d g t \<and> (st = LcStopHit \<or> st = LcTrailStop)"
  proof (cases "\<exists>x. tr = Some x \<and> worse d s x \<and> worse d x t")
    case True
    then obtain x where x: "tr = Some x" "worse d s x" "worse d x t" by blast
    then have "isfinite x" using assms(1) by (cases d; cases x) (auto simp: isfinite_iff)
    with x assms(2) show ?thesis by (auto simp: guard_def)
  next
    case False
    then show ?thesis using assms
      by (cases d) (auto simp: guard_def isfinite_iff split: option.splits if_splits)
  qed
  then show "isfinite g" "worse d g t" "st = LcStopHit \<or> st = LcTrailStop" by blast+
qed

lemma one_gap:
  assumes "terms_ok (d, e, s, t)" "guard (d, e, s, t) tr = (g, st)" "isfinite x"
  shows "\<not> (worse d t x \<and> worse d x g)"
  using guard_facts [OF assms(1,2)] assms(1,3) by (cases d) (auto simp: isfinite_iff)

lemma plan_exit_unique:
  assumes "terms_ok T" "bar_ok b" "plan_exit b T tr st p" "plan_exit b T tr st' p'"
  shows "st' = st \<and> p' = p"
proof -
  obtain d e s t where T: "T = (d, e, s, t)" by (cases T)
  obtain g gs where g: "guard (d, e, s, t) tr = (g, gs)" by fastforce
  have "isfinite (bar_open b)" using assms(2) by (simp add: bar_ok_def)
  with one_gap [OF assms(1) [unfolded T] g] have "\<not> (worse d t (bar_open b) \<and> worse d (bar_open b) g)" by blast
  then show ?thesis
    using assms(3,4) unfolding T plan_exit_iff g prod.inject by blast
qed

lemma left_at_unique:
  assumes "terms_ok T" "bar_ok b" "left_at b s T tr st p" "left_at b s T tr st' p'"
  shows "st' = st \<and> p' = p"
  using assms(3,4) plan_exit_unique [OF assms(1,2)] by (auto elim!: left_at.cases)

lemma offers_unique: "offers b s T now \<Longrightarrow> offers b s T' now' \<Longrightarrow> T' = T \<and> now' = now"
  by (auto simp: offers_def split: prod.splits if_splits)

text \<open>What becomes of an open plan is determined, and so is a life.\<close>

fun life_ok :: "life \<Rightarrow> bool" where
  "life_ok (Waiting T k) = terms_ok T" | "life_ok (Held T k f tr) = terms_ok T" | "life_ok l = True"

lemma fate_unique:
  assumes "life_ok l" "bar_ok b" "fate cfg i b atr s l m" "fate cfg i b atr s l m'"
  shows "m' = m"
proof (cases l)
  case (Held T k f tr)
  then have "terms_ok T" using assms(1) by simp
  note u = left_at_unique [OF this assms(2)]
  show ?thesis using assms(3,4) u unfolding Held fate_held_iff by auto
qed (use assms(3,4) in \<open>auto simp: fate_iffs\<close>)

lemma life_bar_unique:
  assumes "life_ok l" "bar_ok b" "life_bar cfg i b atr s l m" "life_bar cfg i b atr s l m'"
  shows "m' = m"
proof -
  obtain k where k: "\<And>j. fate cfg i b atr s l j \<longleftrightarrow> j = k"
    using fate_unique [OF assms(1,2)] assms(3) by (metis life_bar.cases)
  show ?thesis
    using assms(3,4) unfolding life_bar_iff k by (auto dest: offers_unique)
qed

lemma life_bar_ok: "life_ok l \<Longrightarrow> life_bar cfg i b atr s l m \<Longrightarrow> life_ok m"
proof -
  assume l: "life_ok l" and s: "life_bar cfg i b atr s l m"
  have f: "life_ok j" if "fate cfg i b atr s l j" for j
    using that l by (cases l) (auto simp: fate_iffs)
  have o: "terms_ok T" if "offers b s T now" for T now
    using that by (auto simp: offers_def)
  from s show "life_ok m" by cases (auto dest: f o)
qed

lemma life_run_unique:
  assumes "life_ok l" "list_all bar_ok bars" "life_run cfg bars atrs i ss l m" "life_run cfg bars atrs i ss l m'"
  shows "m' = m"
  using assms(1,3,4)
proof (induction ss arbitrary: i l)
  case (Cons s ss)
  show ?case
  proof (cases "length bars \<le> i")
    case False
    then have b: "bar_ok (bars ! i)" using assms(2) by (simp add: list_all_length)
    let ?step = "life_bar cfg i (bars ! i) (case atrs of None \<Rightarrow> None
      | Some xs \<Rightarrow> if i < length xs then Some (xs ! i) else None) s l"
    obtain k k' where k: "?step k" "life_run cfg bars atrs (Suc i) ss k m"
      "?step k'" "life_run cfg bars atrs (Suc i) ss k' m'"
      using Cons.prems(2,3) False by auto
    have "k' = k" by (rule life_bar_unique [OF Cons.prems(1) b k(1,3)])
    then show ?thesis using Cons.IH [OF life_bar_ok [OF Cons.prems(1) k(1)] k(2)] k(4) by simp
  qed (use Cons.prems in simp)
qed simp

end
