(* ===== verification/PlanLife.thy ===== *)
theory PlanLife
  imports PlanLifeSpec
begin

text \<open>
  The abstract life of a trade plan as a step relation, the refinement of it by the replay of
  \<^theory_text>\<open>SignalScan\<close>, and that the replay never raises.
\<close>

section \<open>The scan refines the life of a plan\<close>

definition open_terms :: "open_plan \<Rightarrow> plan_terms" where
  "open_terms a = (op_direction a, op_entry a, op_stop a, op_target a)"

lemma PlanLifecycle_same: "PlanLifecycle piso p = Inr q \<Longrightarrow> q = p"
  by (simp add: PlanLifecycle_def rbind_Inr_iff)

text \<open>A bar ends a plan in the code exactly as the specification says.\<close>

lemma protective_guard:
  assumes "terms_ok (d, e, s, t)"
  shows "protective_level d (Some s) (Some t) (finite_or_none tr)
    = (Some (fst (guard (d, e, s, t) tr)), snd (guard (d, e, s, t) tr))"
proof (cases tr)
  case (Some x)
  show ?thesis using assms
    by (cases d; cases x) (auto simp: Some protective_level_def trail_is_stricter_def guard_def isfinite_iff
      finite_or_none_def)
qed (simp add: protective_level_def guard_def)

lemma touched_traded: "isfinite p \<Longrightarrow> touched b (Some p) \<longleftrightarrow> traded b p"
  by (simp add: touched_def traded_def finite_or_none_def)

lemma bar_fact_exit:
  assumes "terms_ok (d, e, s, t)" "bar_ok b"
  shows "bar_fact d (Some s) (Some t) b (finite_or_none tr) True = Some (st, p)
    \<longleftrightarrow> plan_exit b (d, e, s, t) tr st p"
proof -
  obtain g gs where g: "guard (d, e, s, t) tr = (g, gs)" by fastforce
  have fin: "isfinite s" "isfinite t" "isfinite g" "isfinite (bar_open b)" "d \<noteq> FLAT"
    using assms guard_facts [OF assms(1) g] by (auto simp: bar_ok_def)
  have n: "\<not> (worse d t (bar_open b) \<and> worse d (bar_open b) g)" by (rule one_gap [OF assms(1) g fin(4)])
  have beyond: "beyond d (\<lambda>x t. flt t x) flt (bar_open b) (Some t) \<longleftrightarrow> worse d t (bar_open b)"
    "beyond d flt (\<lambda>x v. flt v x) (bar_open b) (Some g) \<longleftrightarrow> worse d (bar_open b) g"
    by (cases d; simp add: beyond_def)+
  have "bar_fact d (Some s) (Some t) b (finite_or_none tr) True
    = (case terminal_fact (worse d t (bar_open b)) (worse d (bar_open b) g) gs None None of Some f \<Rightarrow> Some f
       | None \<Rightarrow> terminal_fact (traded b t) (traded b g) gs (Some t) (Some g))"
    using fin protective_guard [OF assms(1), of tr] beyond
    by (simp add: bar_fact_def Let_def g touched_traded finite_or_none_fin split: option.split)
  then show ?thesis
    using n unfolding plan_exit_iff g prod.inject by (auto simp: terminal_fact_def)
qed

lemma exit_fact_left:
  assumes "terms_ok (open_terms a)" "bar_ok b" "exit_fact piso b s a = Inr x"
  shows "left_at b s (open_terms a) (op_trail a) st p \<longleftrightarrow> x = Some (st, p)"
proof -
  let ?r = "resolve_plan_bar_close_event piso (op_direction a) (Some (op_stop a)) (Some (op_target a)) b
      (finite_or_none (op_trail a)) True"
  note fact = bar_fact_exit [OF assms(1) [unfolded open_terms_def] assms(2), of "op_trail a"]
  obtain ev where ev: "?r = Inr ev" using assms(3) by (auto simp: exit_fact_def rbind_Inr_iff)
  show ?thesis
  proof (cases ev)
    case None
    then have no: "\<not> plan_exit b (open_terms a) (op_trail a) st p" for st p
      using ev fact [of st p] by (simp add: LifecycleCloseEvent_not_None flip: open_terms_def)
    have "x = (if opposite s (op_direction a) then Some (LcReversed, Some (bar_close b)) else None)"
      using assms(3) ev None by (auto simp: exit_fact_def entry_action_def opposite_def)
    moreover have "fst (open_terms a) = op_direction a" by (simp add: open_terms_def)
    ultimately show ?thesis by (auto simp: left_at.simps no)
  next
    case (Some c)
    then have yes: "plan_exit b (open_terms a) (op_trail a) (ce_state c) (ce_exit_price c)"
      using ev fact resolve_Some by (fastforce simp: open_terms_def)
    have "x = Some (ce_state c, ce_exit_price c)"
      using assms(3) ev Some by (simp add: exit_fact_def)
    then show ?thesis using left_by_bar [OF yes] left_at_unique [OF assms(1,2) left_by_bar [OF yes]] by blast
  qed
qed

text \<open>What the scan holds after bar \<open>n\<close>, as a life.\<close>

fun tells :: "scan_config \<Rightarrow> bar list \<Rightarrow> nat \<Rightarrow> scan_state \<Rightarrow> life \<Rightarrow> bool" where
  "tells cfg bars n (None, r) l \<longleftrightarrow> resting l \<and> lifecycle_of cfg bars n l = r"
| "tells cfg bars n (Some a, r) l \<longleftrightarrow> terms_ok (open_terms a)
     \<and> op_opened_ts a = isoformat_utc (bar_ts (bars ! op_opened_index a)) \<and> op_age_bars a = n - op_opened_index a
     \<and> op_opened_index a \<le> n
     \<and> (if op_filled a
        then \<exists>f. op_filled_ts a = Some (isoformat_utc (bar_ts (bars ! f)))
          \<and> l = Held (open_terms a) (op_opened_index a) f (op_trail a)
        else op_filled_ts a = None \<and> op_trail a = Some (op_stop a)
          \<and> l = Waiting (open_terms a) (op_opened_index a))"

lemma lifecycle_of_resting: "resting l \<Longrightarrow> lifecycle_of cfg bars n l = lifecycle_of cfg bars m l"
proof (cases l)
  case (Ended T k f tr c st p)
  then show ?thesis by (cases T) simp
qed simp_all

lemma terms_of_open: "terms_stop (open_terms a) = op_stop a" "terms_entry (open_terms a) = op_entry a"
    "fst (open_terms a) = op_direction a"
  by (simp_all add: open_terms_def)

text \<open>What a bar makes of the open plan is its fate.\<close>

lemma trail_carried: "next_plan_trail d (finite_or_none tr) x y z m = next_plan_trail d tr x y z m"
  unfolding next_plan_trail_def by (simp only: finite_or_none_idem)

lemma waiting_fate:
  assumes "tells cfg bars n (Some a, r) l" "\<not> op_filled a"
    "expire_open piso cfg (Suc n) b a = Inr (act1, ex)" "b = bars ! Suc n" "bar_ok b"
    "(case act1 of None \<Rightarrow> Inr (None, None) | Some a \<Rightarrow> meet_bar piso cfg b atr s a) = Inr (act2, cl)"
  shows "\<exists>m. fate cfg (Suc n) b atr0 s l m \<and> tells cfg bars (Suc n) (act2, last_of cl (last_of ex r)) m"
proof -
  let ?k = "op_opened_index a"
  have l: "l = Waiting (open_terms a) ?k" "op_trail a = Some (op_stop a)" "op_filled_ts a = None"
    "?k \<le> n" "terms_ok (open_terms a)"
    using assms(1,2) by auto
  show ?thesis
  proof (cases "sn_max_age_bars cfg < int (Suc n - ?k)")
    case True
    have r: "act2 = None" "cl = None" "ex = Some (expired_plan cfg b (a\<lparr>op_age_bars := Suc n - ?k\<rparr>))"
      using assms(2,3,6) True by (auto simp: expire_open_def rbind_Inr_iff dest!: PlanLifecycle_same)
    have f: "fate cfg (Suc n) b atr0 s l
        (Ended (open_terms a) ?k None (Some (terms_stop (open_terms a))) (Suc n) LcExpired None)"
      unfolding l(1) by (rule fate_expire [OF True])
    show ?thesis
      by (rule exI, rule conjI, rule f) (use assms(1,2,4) l(2) in \<open>simp add: r last_of_def expired_plan_def plan_of_def open_terms_def\<close>)
  next
    case False
    then have act1: "act1 = Some (a\<lparr>op_age_bars := Suc n - ?k\<rparr>)" "ex = None"
      using assms(3) by (auto simp: expire_open_def)
    have e: "touched b (Some (op_entry a)) \<longleftrightarrow> traded b (terms_entry (open_terms a))"
      using l(5) by (simp add: touched_traded open_terms_def)
    show ?thesis
    proof (cases "traded b (terms_entry (open_terms a))")
      case t: True
      have r: "cl = None" "act2 = Some (a\<lparr>op_age_bars := Suc n - ?k, op_filled := True,
          op_filled_ts := Some (isoformat_utc (bar_ts b)), op_trail := Some (op_stop a)\<rparr>)"
        using assms(2,6) l(4) t e by (auto simp: act1 meet_bar_def)
      have f: "fate cfg (Suc n) b atr0 s l (Held (open_terms a) ?k (Suc n) (Some (terms_stop (open_terms a))))"
        unfolding l(1) by (rule fate_fill [OF False t])
      show ?thesis
        by (rule exI, rule conjI, rule f) (use assms(1,4) l(4,5) in \<open>auto simp: r last_of_def open_terms_def\<close>)
    next
      case t: False
      have r: "cl = None" "act2 = Some (a\<lparr>op_age_bars := Suc n - ?k\<rparr>)"
        using assms(2,6) t e by (auto simp: act1 meet_bar_def)
      have f: "fate cfg (Suc n) b atr0 s l (Waiting (open_terms a) ?k)"
        unfolding l(1) by (rule fate_wait [OF False t])
      show ?thesis
        by (rule exI, rule conjI, rule f) (use assms(1,2) l in \<open>auto simp: r last_of_def open_terms_def\<close>)
    qed
  qed
qed

lemma held_fate:
  assumes "tells cfg bars n (Some a, r) l" "op_filled a"
    "expire_open piso cfg (Suc n) b a = Inr (act1, ex)" "b = bars ! Suc n" "bar_ok b"
    "(case act1 of None \<Rightarrow> Inr (None, None) | Some a \<Rightarrow> meet_bar piso cfg b (bar_atr b atr) s a) = Inr (act2, cl)"
  shows "\<exists>m. fate cfg (Suc n) b atr s l m \<and> tells cfg bars (Suc n) (act2, last_of cl (last_of ex r)) m"
proof -
  let ?k = "op_opened_index a" and ?T = "open_terms a"
  obtain f where l: "l = Held ?T ?k f (op_trail a)" "op_filled_ts a = Some (isoformat_utc (bar_ts (bars ! f)))"
    "?k \<le> n" "terms_ok ?T"
    using assms(1,2) by auto
  let ?a = "a\<lparr>op_age_bars := Suc n - ?k\<rparr>"
  have act1: "act1 = Some ?a" "ex = None" using assms(2,3) by (auto simp: expire_open_def)
  have T: "open_terms ?a = ?T" "op_trail ?a = op_trail a" by (simp_all add: open_terms_def)
  have m: "meet_bar piso cfg b (bar_atr b atr) s ?a = Inr (act2, cl)" using assms(6) by (simp add: act1)
  then obtain x where x: "exit_fact piso b s ?a = Inr x"
    using assms(2) l(3) by (auto simp: meet_bar_def rbind_Inr_iff)
  note left = exit_fact_left [OF _ assms(5) x, unfolded T, OF l(4)]
  show ?thesis
  proof (cases x)
    case None
    then have "\<nexists>st p. left_at b s ?T (op_trail a) st p" using left by blast
    then have f: "fate cfg (Suc n) b atr s l (Held ?T ?k f (next_plan_trail (fst ?T) (op_trail a)
        (Some (terms_stop ?T)) (Some (bar_close b)) (Some (bar_atr b atr)) (Some (sn_trail_atr cfg))))"
      unfolding l(1) by (rule fate_hold)
    have r: "cl = None" "act2 = Some (?a\<lparr>op_trail := next_plan_trail (op_direction a) (op_trail a)
        (Some (op_stop a)) (Some (bar_close b)) (Some (bar_atr b atr)) (Some (sn_trail_atr cfg))\<rparr>)"
      using m x None assms(2) l(3) by (auto simp: meet_bar_def trail_carried)
    show ?thesis
      by (rule exI, rule conjI, rule f) (use assms(1,2) l(2-4) in \<open>auto simp: r last_of_def open_terms_def\<close>)
  next
    case (Some y)
    obtain st p where y: "y = (st, p)" by (cases y)
    have "left_at b s ?T (op_trail a) st p" using left Some y by simp
    then have f: "fate cfg (Suc n) b atr s l (Ended ?T ?k (Some f) (op_trail a) (Suc n) st p)"
      unfolding l(1) by (rule fate_leave)
    have r: "act2 = None" "cl = Some (closed_plan cfg b ?a st p)"
      using m x Some y assms(2) l(3) by (auto simp: meet_bar_def rbind_Inr_iff dest!: PlanLifecycle_same)
    show ?thesis
      by (rule exI, rule conjI, rule f) (use assms(1,2,4) l(2) in \<open>simp add: r last_of_def closed_plan_def plan_of_def open_terms_def\<close>)
  qed
qed

text \<open>What the code opens is what the signal offers.\<close>

lemma open_from_signal_ok: "open_from_signal i b s = Some a \<Longrightarrow> terms_ok (open_terms a)"
  by (auto simp: open_from_signal_def Let_def open_terms_def terms_ok_coherent finite_or_none_fin
    complete_coherent_trade_plan_def simp del: terms_ok.simps split: if_splits)

lemma first_price_simps:
  "first_price [x] = finite_or_none x"
  "first_price [x, y] = (case finite_or_none x of Some v \<Rightarrow> Some v | None \<Rightarrow> finite_or_none y)"
  by (auto simp: first_price_def finite_or_none_def split: option.splits)

definition opened_plan :: "nat \<Rightarrow> bar \<Rightarrow> plan_terms \<Rightarrow> bool \<Rightarrow> open_plan" where
  "opened_plan i b T now = (case T of (d, e, s, t) \<Rightarrow> \<lparr>op_direction = d, op_entry = e, op_stop = s, op_target = t,
     op_trail = Some s, op_opened_index = i, op_opened_ts = isoformat_utc (bar_ts b), op_filled = now,
     op_filled_ts = (if now then Some (isoformat_utc (bar_ts b)) else None), op_age_bars = 0\<rparr>)"

lemma offers_open:
  assumes "offers b s T now"
  shows "open_from_signal i b s = Some (opened_plan i b T now)"
proof -
  obtain d e st t where T: "T = (d, e, st, t)" by (cases T)
  have o: "sg_action s = (if now then GO else ARM)" "sg_direction s = d" "d \<noteq> FLAT"
    "(case finite_or_none (sg_trigger s) of Some e \<Rightarrow> Some e | None \<Rightarrow> finite_or_none (Some (bar_close b))) = Some e"
    "(case finite_or_none (sg_stop s) of Some x \<Rightarrow> Some x | None \<Rightarrow> finite_or_none (sg_invalidation s)) = Some st"
    "finite_or_none (sg_target s) = Some t"
    using assms by (auto simp: offers_def T first_price_simps simp del: finite_or_none_Some)
  have "coherent_trade_plan d (Some e) (Some st) (Some t)"
    using assms unfolding terms_ok_coherent [symmetric] by (simp add: offers_def T)
  then show ?thesis
    unfolding open_from_signal_def Let_def o(4-6) o(2)
    using o(1,3) by (cases now) (simp_all add: T opened_plan_def entry_action_def complete_coherent_trade_plan_def)
qed

lemma open_offers: "open_from_signal i b s = Some a \<Longrightarrow> \<exists>T now. offers b s T now"
proof -
  assume a: "open_from_signal i b s = Some a"
  then have "offers b s (open_terms a) (op_filled a)"
    using open_from_signal_ok [OF a]
    by (auto simp: offers_def open_from_signal_def Let_def open_terms_def first_price_simps entry_action_def
      complete_coherent_trade_plan_def finite_or_none_fin simp del: terms_ok.simps split: if_splits)
  then show ?thesis by blast
qed

lemma open_life:
  assumes "fate cfg n b atr s l m" "tells cfg bars n (act, r) m" "b = bars ! n"
  shows "\<exists>m'. life_bar cfg n b atr s l m'
    \<and> tells cfg bars n (case act of Some a \<Rightarrow> Some a | None \<Rightarrow> open_from_signal n b s, r) m'"
proof (cases act)
  case (Some a)
  then have "\<not> resting m" using assms(2) by (auto split: if_splits)
  from bar_busy [OF assms(1) this] show ?thesis using assms(2) Some by auto
next
  case None
  then have m: "resting m" using assms(2) by simp
  show ?thesis
  proof (cases "\<exists>T now. offers b s T now")
    case True
    then obtain T now where o: "offers b s T now" by blast
    obtain d e st t where T: "T = (d, e, st, t)" by (cases T)
    have "terms_ok T" using o by (simp add: offers_def T)
    then have "tells cfg bars n (Some (opened_plan n b T now), r)
        (if now then Held T n n (Some (terms_stop T)) else Waiting T n)"
      using assms(3) by (auto simp: opened_plan_def open_terms_def T)
    then show ?thesis
      unfolding None using bar_opens [OF assms(1) m o] offers_open [OF o, of n] by auto
  next
    case False
    then have "open_from_signal n b s = None" using open_offers [of n b s] by (cases "open_from_signal n b s") auto
    then show ?thesis using bar_no_offer [OF assms(1) m False] assms(2) None by auto
  qed
qed

lemma scan_step_life:
  assumes "scan_step piso cfg (Suc n) b atr s st = Inr st'" "tells cfg bars n st l" "b = bars ! Suc n" "bar_ok b"
  shows "\<exists>m. life_bar cfg (Suc n) b atr s l m \<and> tells cfg bars (Suc n) st' m"
proof -
  obtain active r where st: "st = (active, r)" by (cases st)
  obtain act1 ex where 1: "(case active of None \<Rightarrow> Inr (None, None) | Some a \<Rightarrow> expire_open piso cfg (Suc n) b a)
      = Inr (act1, ex)"
    and "\<exists>act2 cl. (case act1 of None \<Rightarrow> Inr (None, None)
        | Some a \<Rightarrow> meet_bar piso cfg b (bar_atr b atr) s a) = Inr (act2, cl)
      \<and> st' = (case act2 of Some a \<Rightarrow> Some a | None \<Rightarrow> open_from_signal (Suc n) b s, last_of cl (last_of ex r))"
    using assms(1) by (auto simp: scan_step_def st rbind_Inr_iff)
  then obtain act2 cl where 2: "(case act1 of None \<Rightarrow> Inr (None, None)
        | Some a \<Rightarrow> meet_bar piso cfg b (bar_atr b atr) s a) = Inr (act2, cl)"
    and st': "st' = (case act2 of Some a \<Rightarrow> Some a | None \<Rightarrow> open_from_signal (Suc n) b s, last_of cl (last_of ex r))"
    by blast
  have "\<exists>m. fate cfg (Suc n) b atr s l m \<and> tells cfg bars (Suc n) (act2, last_of cl (last_of ex r)) m"
  proof (cases active)
    case None
    then have l: "resting l" "lifecycle_of cfg bars n l = r" using assms(2) st by simp_all
    have "tells cfg bars (Suc n) (None, r) l" using l lifecycle_of_resting [OF l(1), of cfg bars "Suc n" n] by simp
    moreover have "act2 = None" "cl = None" "ex = None" using None 1 2 by auto
    ultimately show ?thesis by (intro exI [of _ l]) (simp add: last_of_def fate_rest [OF l(1)] del: tells.simps)
  next
    case (Some a)
    then show ?thesis
      using waiting_fate [OF assms(2) [unfolded st Some] _ _ assms(3,4) 2]
        held_fate [OF assms(2) [unfolded st Some] _ _ assms(3,4) 2] 1 by (cases "op_filled a") auto
  qed
  then show ?thesis unfolding st' using open_life [OF _ _ assms(3)] by blast
qed

text \<open>The whole replay. Bar \<open>0\<close> is the only bar before which no bar was met; nothing is open there.\<close>

lemma scan_first_life:
  assumes "scan_step piso cfg i b atr s (None, None) = Inr st'" "b = bars ! i"
  shows "\<exists>m. life_bar cfg i b atr s Idle m \<and> tells cfg bars i st' m"
proof -
  have st': "st' = (open_from_signal i b s, None)"
    using assms(1) by (simp add: scan_step_def last_of_def)
  have "fate cfg i b atr s Idle Idle" by (rule fate_rest) simp
  from open_life [OF this, of bars None None] show ?thesis using assms(2) st' by simp
qed

lemma scan_signals_life:
  assumes "list_all bar_ok bars"
  shows "scan_signals piso cfg bars atrs (Suc n) ss st = Inr st' \<Longrightarrow> tells cfg bars n st l \<Longrightarrow>
    \<exists>m. life_run cfg bars atrs (Suc n) ss l m
      \<and> tells cfg bars (if ss = [] \<or> length bars \<le> Suc n then n else min (n + length ss) (length bars - 1)) st' m"
proof (induction ss arbitrary: n st l)
  case (Cons s ss)
  show ?case
  proof (cases "length bars \<le> Suc n")
    case False
    let ?atr = "case atrs of None \<Rightarrow> None | Some xs \<Rightarrow> if Suc n < length xs then Some (xs ! Suc n) else None"
    have b: "bar_ok (bars ! Suc n)" using assms False by (simp add: list_all_length)
    obtain st1 where 1: "scan_step piso cfg (Suc n) (bars ! Suc n) ?atr s st = Inr st1"
      "scan_signals piso cfg bars atrs (Suc (Suc n)) ss st1 = Inr st'"
      using Cons.prems(1) False by (auto simp: rbind_Inr_iff)
    obtain k where k: "life_bar cfg (Suc n) (bars ! Suc n) ?atr s l k" "tells cfg bars (Suc n) st1 k"
      using scan_step_life [OF 1(1) Cons.prems(2) refl b] by blast
    obtain m where m: "life_run cfg bars atrs (Suc (Suc n)) ss k m"
      "tells cfg bars (if ss = [] \<or> length bars \<le> Suc (Suc n) then Suc n
        else min (Suc n + length ss) (length bars - 1)) st' m"
      using Cons.IH [OF 1(2) k(2)] by blast
    have "(if ss = [] \<or> length bars \<le> Suc (Suc n) then Suc n else min (Suc n + length ss) (length bars - 1))
        = min (n + length (s # ss)) (length bars - 1)"
      using False by (cases ss) auto
    with m k(1) False show ?thesis by auto
  qed (use Cons.prems in simp)
qed simp

lemma scan_result_life:
  assumes "scan_result piso cfg st = Inr r" "tells cfg bars n st l"
  shows "r = lifecycle_of cfg bars n l"
proof -
  obtain active l where st: "st = (active, l)" by (cases st)
  show ?thesis
    using assms unfolding st
    by (cases active) (auto simp: scan_result_def rbind_Inr_iff plan_of_def open_terms_def
      dest!: PlanLifecycle_same split: if_splits)
qed

lemma scan_is_a_life:
  assumes "lifecycle_from_signals piso cfg bars signals atrs = Inr r" and "list_all bar_ok bars"
  shows "\<exists>m. life_run cfg bars atrs (length bars - length signals) signals Idle m
    \<and> r = lifecycle_of cfg bars (length bars - 1) m"
proof (cases "bars = [] \<or> signals = []")
  case True
  then show ?thesis
    using assms(1) by (cases signals) (auto simp: lifecycle_from_signals_def)
next
  case False
  define i where "i = length bars - length signals"
  obtain s ss where ss: "signals = s # ss" using False by (cases signals) auto
  have i: "\<not> length bars \<le> i" using False by (cases bars) (auto simp: ss i_def)
  let ?atr = "case atrs of None \<Rightarrow> None | Some xs \<Rightarrow> if i < length xs then Some (xs ! i) else None"
  obtain st1 st where st: "scan_step piso cfg i (bars ! i) ?atr s (None, None) = Inr st1"
    "scan_signals piso cfg bars atrs (Suc i) ss st1 = Inr st" "scan_result piso cfg st = Inr r"
    using assms(1) False i by (auto simp: lifecycle_from_signals_def rbind_Inr_iff ss simp flip: i_def [unfolded ss, simplified])
  obtain k where k: "life_bar cfg i (bars ! i) ?atr s Idle k" "tells cfg bars i st1 k"
    using scan_first_life [OF st(1) refl] by blast
  obtain m where m: "life_run cfg bars atrs (Suc i) ss k m"
    "tells cfg bars (if ss = [] \<or> length bars \<le> Suc i then i else min (i + length ss) (length bars - 1)) st m"
    using scan_signals_life [OF assms(2) st(2) k(2)] by blast
  have "(if ss = [] \<or> length bars \<le> Suc i then i else min (i + length ss) (length bars - 1)) = length bars - 1"
    using i by (cases ss) (auto simp: ss i_def)
  with scan_result_life [OF st(3) m(2)] have "r = lifecycle_of cfg bars (length bars - 1) m" by simp
  moreover have "life_run cfg bars atrs i signals Idle m"
    using i k(1) m(1) unfolding ss by auto
  ultimately show ?thesis unfolding i_def by blast
qed

section \<open>The scan does not raise\<close>

lemma coherent_terms: "terms_ok (open_terms a)
    \<longleftrightarrow> coherent_trade_plan (op_direction a) (Some (op_entry a)) (Some (op_stop a)) (Some (op_target a))"
  by (simp only: open_terms_def terms_ok_coherent)

definition timestamps_ok :: "iso_parser \<Rightarrow> string option \<Rightarrow> bool" where
  "timestamps_ok piso x = (timestamp_ok piso x = Inr True)"

definition open_ok :: "iso_parser \<Rightarrow> open_plan \<Rightarrow> bool" where
  "open_ok piso a \<longleftrightarrow> terms_ok (open_terms a) \<and> price_ok (op_trail a)
     \<and> timestamps_ok piso (Some (op_opened_ts a)) \<and> timestamps_ok piso (op_filled_ts a)
     \<and> (op_filled a \<or> op_filled_ts a = None)"

definition scan_bar_ok :: "bar \<Rightarrow> bool" where
  "scan_bar_ok b \<longleftrightarrow> bar_ok b \<and> fl_ok (bar_close b)"

lemma require_timestamp_ok: "timestamps_ok piso x \<Longrightarrow> require_timestamp piso x m = Inr ()"
  by (simp add: timestamps_ok_def require_timestamp_def)

lemma timestamps_ok_isoformat:
  "reads_back piso t \<Longrightarrow> in_dt_range t \<Longrightarrow> timestamps_ok piso (Some (isoformat_utc t))"
  by (simp add: timestamps_ok_def timestamp_ok_def parse_isoformat)

lemma timestamps_ok_None [simp]: "timestamps_ok piso None"
  by (simp add: timestamps_ok_def timestamp_ok_def)

text \<open>The constructor accepts what satisfies its checks.\<close>

definition lifecycle_ok :: "iso_parser \<Rightarrow> plan_lifecycle \<Rightarrow> bool" where
  "lifecycle_ok piso p \<longleftrightarrow> (lc_direction p = FLAT \<longrightarrow> lc_state p = LcWait) \<and> 0 \<le> lc_age_bars p
     \<and> list_all price_ok [lc_entry p, lc_stop p, lc_target p, lc_trail p, lc_exit_price p]
     \<and> list_all (timestamps_ok piso) [lc_opened_ts p, lc_filled_ts p, lc_closed_ts p]
     \<and> lc_exit_reason p = (if state_terminal (lc_state p) then Some (lc_state p) else None)
     \<and> (\<not> state_terminal (lc_state p) \<longrightarrow> lc_exit_price p = None \<and> lc_closed_ts p = None)
     \<and> (lc_state p \<in> {LcWait, LcWaitEntry} \<longrightarrow> \<not> lc_filled p)
     \<and> (lc_state p \<in> {LcFollow, LcRide} \<longrightarrow> lc_filled p) \<and> (lc_filled p \<or> lc_filled_ts p = None)"

lemma timestamps_ok_iff: "timestamps_ok piso x \<longleftrightarrow> require_timestamp piso x m = Inr ()"
  by (auto simp: timestamps_ok_def require_timestamp_def rbind_Inr_iff require_Inr_iff)

lemma exit_reason_check_iff: "exit_reason_check p = Inr () \<longleftrightarrow>
    lc_exit_reason p = (if state_terminal (lc_state p) then Some (lc_state p) else None)"
  by (auto simp: exit_reason_check_def require_Inr_iff split: option.split)

lemma PlanLifecycle_iff: "PlanLifecycle piso p = Inr p \<longleftrightarrow> lifecycle_ok piso p"
  unfolding PlanLifecycle_def lifecycle_ok_def
  by (auto simp: rbind_Inr_iff require_Inr_iff exit_reason_check_iff
    timestamps_ok_iff [where m = "''PlanLifecycle timestamps must be aware ISO strings or None''"])

lemma lifecycle_ok_ride: "lifecycle_ok piso p \<Longrightarrow> \<exists>q. PlanLifecycle piso p = Inr q"
  using PlanLifecycle_iff by blast

lemma open_ok_fin:
  assumes "open_ok piso a"
  obtains e s t where "op_entry a = Fin e" "op_stop a = Fin s" "op_target a = Fin t" "op_direction a \<noteq> FLAT"
  using assms by (auto simp: open_ok_def coherent_terms coherent_iff simp del: terms_ok.simps)

lemma expired_ok:
  assumes "open_ok piso a" "reads_back piso (bar_ts b)" "bar_ok b"
  shows "lifecycle_ok piso (expired_plan cfg b a)"
proof -
  obtain e s t where "op_entry a = Fin e" "op_stop a = Fin s" "op_target a = Fin t" "op_direction a \<noteq> FLAT"
    using assms(1) by (rule open_ok_fin)
  then show ?thesis
    using assms by (simp add: lifecycle_ok_def expired_plan_def plan_of_def open_ok_def price_ok_def
      timestamps_ok_isoformat bar_ok_def)
qed

lemma closed_ok:
  assumes "open_ok piso a" "op_filled a" "reads_back piso (bar_ts b)" "bar_ok b" "state_terminal st" "price_ok price"
  shows "lifecycle_ok piso (closed_plan cfg b a st price)"
proof -
  obtain e s t where "op_entry a = Fin e" "op_stop a = Fin s" "op_target a = Fin t" "op_direction a \<noteq> FLAT"
    using assms(1) by (rule open_ok_fin)
  then show ?thesis
    using assms by (cases st) (simp_all add: lifecycle_ok_def closed_plan_def plan_of_def open_ok_def
      price_ok_def timestamps_ok_isoformat bar_ok_def)
qed

lemma running_ok:
  assumes "open_ok piso a"
  shows "lifecycle_ok piso (plan_of cfg a (if op_filled a then LcFollow else LcWaitEntry))"
proof -
  obtain e s t where "op_entry a = Fin e" "op_stop a = Fin s" "op_target a = Fin t" "op_direction a \<noteq> FLAT"
    using assms(1) by (rule open_ok_fin)
  then show ?thesis
    using assms by (simp add: lifecycle_ok_def plan_of_def open_ok_def price_ok_def)
qed

definition outcome_ok :: "iso_parser \<Rightarrow> (open_plan option \<times> plan_lifecycle option) res \<Rightarrow> bool" where
  "outcome_ok piso r = (case r of Inl _ \<Rightarrow> False
     | Inr (act, ended) \<Rightarrow> (case act of None \<Rightarrow> True | Some a \<Rightarrow> open_ok piso a)
         \<and> (case ended of None \<Rightarrow> True | Some p \<Rightarrow> lifecycle_ok piso p))"

lemma outcome_ok_Some [simp]:
  "outcome_ok piso (Inr (Some a, None)) = open_ok piso a"
  "outcome_ok piso (Inr (None, None))"
  "outcome_ok piso (Inr (None, Some p)) = lifecycle_ok piso p"
  by (simp_all add: outcome_ok_def)

lemma expire_open_ok:
  assumes "open_ok piso a" "reads_back piso (bar_ts b)" "bar_ok b"
  shows "outcome_ok piso (expire_open piso cfg i b a)"
proof -
  let ?a = "a\<lparr>op_age_bars := i - op_opened_index a\<rparr>"
  have a: "open_ok piso ?a" using assms(1) by (simp add: open_ok_def open_terms_def)
  have e: "lifecycle_ok piso (expired_plan cfg b ?a)" by (rule expired_ok [OF a assms(2,3)])
  then have "PlanLifecycle piso (expired_plan cfg b ?a) = Inr (expired_plan cfg b ?a)"
    by (simp add: PlanLifecycle_iff)
  with a e show ?thesis by (simp add: expire_open_def Let_def)
qed

lemma next_trail_ok:
  assumes "open_ok piso a" "scan_bar_ok b"
  shows "price_ok (next_plan_trail (op_direction a) (finite_or_none (op_trail a)) (Some (op_stop a))
    (Some (bar_close b)) (Some atr) m)"
proof -
  obtain e s t where a: "op_stop a = Fin s" using assms(1) by (rule open_ok_fin)
  obtain c where c: "bar_close b = Fin c" "fl_ok (Fin c)"
    using assms(2) by (auto simp: scan_bar_ok_def bar_ok_def isfinite_iff)
  have "price_ok (finite_or_none (op_trail a))"
    by (auto simp: price_ok_def split: option.split)
  then show ?thesis
    using next_trail_facts(1) [of "op_direction a" "finite_or_none (op_trail a)" s c "Some atr" m] a c
    by (auto simp: price_ok_def split: option.splits)
qed

lemma exit_fact_ok:
  assumes "reads_back piso (bar_ts b)" "bar_ok b"
  shows "\<exists>x. exit_fact piso b s a = Inr x \<and>
    (\<forall>st price. x = Some (st, price) \<longrightarrow> state_terminal st \<and> price_ok price)"
proof (cases "bar_fact (op_direction a) (Some (op_stop a)) (Some (op_target a)) b
    (finite_or_none (op_trail a)) True")
  case None
  then have "resolve_plan_bar_close_event piso (op_direction a) (Some (op_stop a)) (Some (op_target a)) b
      (finite_or_none (op_trail a)) True = Inr None"
    by (simp add: LifecycleCloseEvent_not_None)
  then show ?thesis using assms by (auto simp: exit_fact_def price_ok_def bar_ok_def)
next
  case (Some f)
  obtain st price where f: "f = (st, price)" by (cases f)
  have t: "state_terminal st" using bar_fact_facts(1) [OF Some [unfolded f]] by auto
  have p: "price_ok price"
    using bar_fact_facts(2) [OF Some [unfolded f]] by (auto simp: price_ok_def split: option.split)
  show ?thesis
    using resolve_total [OF assms(1) _ Some [unfolded f] t p] assms(2) t p
    by (simp add: exit_fact_def bar_ok_def)
qed

lemma meet_bar_ok:
  assumes "open_ok piso a" "reads_back piso (bar_ts b)" "scan_bar_ok b"
  shows "outcome_ok piso (meet_bar piso cfg b atr s a)"
proof -
  have b: "bar_ok b" using assms(3) by (simp add: scan_bar_ok_def)
  show ?thesis
  proof (cases "op_filled a \<and> 0 < op_age_bars a")
    case True
    obtain x where x: "exit_fact piso b s a = Inr x"
      "\<forall>st price. x = Some (st, price) \<longrightarrow> state_terminal st \<and> price_ok price"
      using exit_fact_ok [OF assms(2) b] by blast
    show ?thesis
    proof (cases x)
      case None
      have "open_ok piso (a\<lparr>op_trail := next_plan_trail (op_direction a) (finite_or_none (op_trail a))
          (Some (op_stop a)) (Some (bar_close b)) (Some atr) (Some (sn_trail_atr cfg))\<rparr>)"
        using next_trail_ok [OF assms(1,3)] assms(1) by (simp add: open_ok_def open_terms_def)
      then show ?thesis using True x None by (simp add: meet_bar_def)
    next
      case (Some f)
      obtain st price where f: "f = (st, price)" by (cases f)
      have ok: "lifecycle_ok piso (closed_plan cfg b a st price)"
        using closed_ok [OF assms(1) _ assms(2) b] True x Some f by simp
      then have "PlanLifecycle piso (closed_plan cfg b a st price) = Inr (closed_plan cfg b a st price)"
        by (simp add: PlanLifecycle_iff)
      then show ?thesis using True x Some f ok by (simp add: meet_bar_def)
    qed
  next
    case False
    have "open_ok piso (a\<lparr>op_filled := True, op_filled_ts := Some (isoformat_utc (bar_ts b)),
        op_trail := Some (op_stop a)\<rparr>)"
      using assms b by (auto simp: open_ok_def open_terms_def coherent_iff price_ok_def
        timestamps_ok_isoformat bar_ok_def)
    then show ?thesis using False assms(1) by (auto simp: meet_bar_def)
  qed
qed

lemma open_from_signal_open_ok:
  assumes "open_from_signal i b s = Some a" "reads_back piso (bar_ts b)" "bar_ok b"
  shows "open_ok piso a"
proof -
  have t: "terms_ok (open_terms a)" by (rule open_from_signal_ok [OF assms(1)])
  have "op_trail a = Some (op_stop a)" "op_opened_ts a = isoformat_utc (bar_ts b)"
    "op_filled_ts a = (if op_filled a then Some (isoformat_utc (bar_ts b)) else None)"
    using assms(1) by (auto simp: open_from_signal_def Let_def complete_coherent_trade_plan_def split: if_splits)
  with t assms show ?thesis
    by (auto simp: open_ok_def open_terms_def coherent_iff price_ok_def timestamps_ok_isoformat bar_ok_def)
qed

definition scan_ok :: "iso_parser \<Rightarrow> scan_state \<Rightarrow> bool" where
  "scan_ok piso st = outcome_ok piso (Inr st)"

lemma scan_step_ok:
  assumes "scan_ok piso st" "reads_back piso (bar_ts b)" "scan_bar_ok b"
  shows "\<exists>st'. scan_step piso cfg i b atr s st = Inr st' \<and> scan_ok piso st'"
proof -
  obtain active l where st: "st = (active, l)" by (cases st)
  have b: "bar_ok b" using assms(3) by (simp add: scan_bar_ok_def)
  have "outcome_ok piso (case active of None \<Rightarrow> Inr (None, None) | Some a \<Rightarrow> expire_open piso cfg i b a)"
  proof (cases active)
    case (Some a)
    then have "open_ok piso a" using assms(1) st by (simp add: scan_ok_def outcome_ok_def)
    then show ?thesis using Some expire_open_ok [OF _ assms(2) b] by simp
  qed simp
  then obtain act1 ex where 1: "(case active of None \<Rightarrow> Inr (None, None) | Some a \<Rightarrow> expire_open piso cfg i b a)
      = Inr (act1, ex)" "outcome_ok piso (Inr (act1, ex))"
    by (auto simp: outcome_ok_def split: sum.splits)
  have "outcome_ok piso (case act1 of None \<Rightarrow> Inr (None, None)
      | Some a \<Rightarrow> meet_bar piso cfg b (bar_atr b atr) s a)"
  proof (cases act1)
    case (Some a)
    then have "open_ok piso a" using 1(2) by (simp add: outcome_ok_def)
    then show ?thesis using Some meet_bar_ok [OF _ assms(2,3)] by simp
  qed simp
  then obtain act2 cl where 2: "(case act1 of None \<Rightarrow> Inr (None, None)
      | Some a \<Rightarrow> meet_bar piso cfg b (bar_atr b atr) s a) = Inr (act2, cl)" "outcome_ok piso (Inr (act2, cl))"
    by (auto simp: outcome_ok_def split: sum.splits)
  have "scan_ok piso (case act2 of Some a \<Rightarrow> Some a | None \<Rightarrow> open_from_signal i b s, last_of cl (last_of ex l))"
    using assms(1) st 1(2) 2(2) open_from_signal_open_ok [OF _ assms(2) b]
    by (auto simp: scan_ok_def outcome_ok_def last_of_def split: option.splits)
  then show ?thesis using 1(1) 2(1) by (simp add: scan_step_def st)
qed

lemma scan_signals_ok:
  "scan_ok piso st \<Longrightarrow> list_all (\<lambda>b. scan_bar_ok b \<and> reads_back piso (bar_ts b)) bars \<Longrightarrow>
    \<exists>st'. scan_signals piso cfg bars atrs i ss st = Inr st' \<and> scan_ok piso st'"
proof (induction ss arbitrary: i st)
  case (Cons s ss)
  show ?case
  proof (cases "length bars \<le> i")
    case False
    then have "reads_back piso (bar_ts (bars ! i))" "scan_bar_ok (bars ! i)"
      using Cons.prems(2) by (simp_all add: list_all_length)
    from scan_step_ok [OF Cons.prems(1) this] obtain st1 where
      "scan_step piso cfg i (bars ! i) (case atrs of None \<Rightarrow> None
        | Some xs \<Rightarrow> if i < length xs then Some (xs ! i) else None) s st = Inr st1" "scan_ok piso st1" by blast
    with Cons.IH [OF _ Cons.prems(2)] False show ?thesis by simp
  qed (use Cons.prems in simp)
qed simp

section \<open>Properties\<close>

text \<open>C27: whatever the signals say, replaying them over accepted bars never raises: every lifecycle
  the scan builds passes its constructor, so the scan always returns, and what it returns is a
  well-formed lifecycle.\<close>

theorem lifecycle_scan_never_raises:
  assumes "list_all (\<lambda>b. scan_bar_ok b \<and> reads_back piso (bar_ts b)) bars"
  shows "\<exists>r. lifecycle_from_signals piso cfg bars signals atrs = Inr r
    \<and> (case r of None \<Rightarrow> True | Some p \<Rightarrow> lifecycle_ok piso p)"
proof -
  have "scan_ok piso (None, None)" by (simp add: scan_ok_def)
  from scan_signals_ok [OF this assms] obtain active l where s:
    "scan_signals piso cfg bars atrs (length bars - length signals) signals (None, None) = Inr (active, l)"
    "scan_ok piso (active, l)" by (metis surj_pair)
  have "\<exists>r. scan_result piso cfg (active, l) = Inr r \<and> (case r of None \<Rightarrow> True | Some p \<Rightarrow> lifecycle_ok piso p)"
  proof (cases active)
    case (Some a)
    then have ok: "lifecycle_ok piso (plan_of cfg a (if op_filled a then LcFollow else LcWaitEntry))"
      using s(2) by (intro running_ok) (simp add: scan_ok_def outcome_ok_def)
    then show ?thesis
      unfolding Some scan_result_def using PlanLifecycle_iff [THEN iffD2, OF ok] by simp
  qed (use s(2) in \<open>auto simp: scan_result_def scan_ok_def outcome_ok_def\<close>)
  then show ?thesis using s(1) by (auto simp: lifecycle_from_signals_def)
qed

text \<open>C26: the scan is the life of a plan, bar after bar. The life makes exactly one step at each bar: an
  offered plan waits until a later bar trades its entry, or expires as soon as it is older than the maximal
  age; a held plan is left at the first bar after its entry that opens past or trades at its target or its protective
  level, or at the close when the signal enters the other way, and otherwise carries the trail of that
  bar; and only when no plan is open does the bar's signal open one, with coherent terms. Over accepted
  bars such a life exists and is unique, and what the scan returns (state, terms, trail, exit price, the
  bars it was opened, filled and closed at, age) is exactly what that life is reported as.\<close>

theorem lifecycle_scan_refines_plan_life:
  assumes "lifecycle_from_signals piso cfg bars signals atrs = Inr r" and "list_all bar_ok bars"
  shows "\<exists>m. (\<forall>m'. life_run cfg bars atrs (length bars - length signals) signals Idle m' \<longleftrightarrow> m' = m)
    \<and> r = lifecycle_of cfg bars (length bars - 1) m"
proof -
  obtain m where m: "life_run cfg bars atrs (length bars - length signals) signals Idle m"
    "r = lifecycle_of cfg bars (length bars - 1) m"
    using scan_is_a_life [OF assms] by blast
  have "m' = m" if "life_run cfg bars atrs (length bars - length signals) signals Idle m'" for m'
    by (rule life_run_unique [OF _ assms(2) m(1) that]) simp
  then show ?thesis using m by blast
qed

text \<open>The stop that protects an open plan: the trail when it lies strictly between stop and target.\<close>

definition effective_stop :: "direction \<Rightarrow> rat \<Rightarrow> rat \<Rightarrow> pyfloat option \<Rightarrow> rat" where
  "effective_stop d s t trail = (case trail of
      Some (Fin tr) \<Rightarrow> if (if d = LONG then s < tr \<and> tr < t else t < tr \<and> tr < s) then tr else s
    | _ \<Rightarrow> s)"

lemma effective_stop_level:
  assumes "d \<noteq> FLAT" and "\<And>x. trail = Some x \<Longrightarrow> isfinite x"
  shows "fst (protective_level d (Some (Fin s)) (Some (Fin t)) trail) = Some (Fin (effective_stop d s t trail))"
proof (cases trail)
  case (Some x)
  then obtain r where "x = Fin r" using assms(2) by (auto simp: isfinite_iff)
  with Some assms(1) show ?thesis
    by (cases d) (simp_all add: protective_level_def trail_is_stricter_def effective_stop_def)
qed (simp add: protective_level_def effective_stop_def)

text \<open>A bar that began after the plan leaves it open exactly when it traded strictly between
  the protective level (the trail where it is stricter than the stop) and the target; any touch or
  gap is a terminal fact.\<close>

theorem bar_leaves_plan_open_iff_inside:
  assumes "bar_ok b" "d \<noteq> FLAT"
  shows "resolve_plan_bar_close_event piso d (Some (Fin s)) (Some (Fin t)) b trail True = Inr None
    \<longleftrightarrow> strictly_inside d b (Fin (effective_stop d s t (finite_or_none trail))) (Fin t)"
proof -
  obtain p ps where pl: "protective_level d (Some (Fin s)) (Some (Fin t)) (finite_or_none trail) = (Some (Fin p), ps)"
    using protective_level_Some by blast
  have "p = effective_stop d s t (finite_or_none trail)"
    using effective_stop_level [OF assms(2), where s = s and t = t and trail = "finite_or_none trail"] pl by auto
  then show ?thesis
    using bar_fact_None_iff [OF assms pl] by (simp add: LifecycleCloseEvent_not_None)
qed

lemma protective_protecting:
  "d \<noteq> FLAT \<Longrightarrow> fst (protective_level d (finite_or_none st) (finite_or_none t) (finite_or_none tr)) = protecting d st t tr"
  by (cases d; cases "finite_or_none tr"; cases "finite_or_none st"; cases "finite_or_none t")
    (simp_all add: protective_level_def protecting_def trail_is_stricter_def del: finite_or_none_Some)

lemma bar_fact_price_known:
  assumes "bar_fact d st target b tr after = Some (state, price)"
  shows "price = None \<longleftrightarrow> \<not> after \<or> gaps d b st target tr \<or> state = LcTargetAndStopHit"
proof -
  have d: "d \<noteq> FLAT" using assms by (auto simp: bar_fact_def Let_def split: prod.splits)
  obtain g gs where pl: "protective_level d (finite_or_none st) (finite_or_none target) (finite_or_none tr) = (g, gs)"
    by fastforce
  have g: "g = protecting d st target tr" using protective_protecting [OF d, of st target tr] pl by simp
  have gs: "gs = LcStopHit \<or> gs = LcTrailStop" using pl by (rule protective_level_cases) auto
  have beyond: "beyond d (\<lambda>x t. flt t x) flt (bar_open b) t'
      \<longleftrightarrow> (case t' of Some t \<Rightarrow> worse d t (bar_open b) | None \<Rightarrow> False)"
    "beyond d flt (\<lambda>x v. flt v x) (bar_open b) t' \<longleftrightarrow> (case t' of Some g \<Rightarrow> worse d (bar_open b) g | None \<Rightarrow> False)" for t'
    using d by (cases d; auto simp: beyond_def split: option.split)+
  have gap: "gaps d b st target tr \<longleftrightarrow> beyond d (\<lambda>x t. flt t x) flt (bar_open b) (finite_or_none target)
      \<or> beyond d flt (\<lambda>x v. flt v x) (bar_open b) g"
    by (simp add: gaps_def beyond g)
  show ?thesis
  proof (cases "after")
    case False
    then show ?thesis using assms d by (auto simp: bar_fact_def Let_def terminal_fact_def split: prod.splits if_splits)
  next
    case True
    note fact = assms [unfolded bar_fact_def Let_def pl prod.case, simplified True d if_False not_True_eq_False]
    show ?thesis
    proof (cases "gaps d b st target tr")
      case g: True
      then show ?thesis using fact True unfolding gap by (auto simp: terminal_fact_def split: if_splits)
    next
      case False
      then have "terminal_fact (touched b (finite_or_none target)) (touched b g) gs (finite_or_none target) g
          = Some (state, price)"
        using fact unfolding gap by (simp add: terminal_fact_def)
      then show ?thesis using False True gs
        by (auto simp: terminal_fact_def touched_def split: if_splits option.splits)
    qed
  qed
qed


text \<open>the trail is only ever tightened: for a long plan the next trail is at or above the
  carried trail (the stop when none is carried), for a short plan at or below it.\<close>

theorem trail_only_tightens:
  assumes "next_plan_trail d carried (Some (Fin s)) (Some (Fin c)) atr m = Some x"
    and "fl_ok (Fin c)" "price_ok carried"
  shows "isfinite x \<and> (case d of
      LONG \<Rightarrow> fle (case carried of Some t \<Rightarrow> t | None \<Rightarrow> Fin s) x
    | SHORT \<Rightarrow> fle x (case carried of Some t \<Rightarrow> t | None \<Rightarrow> Fin s)
    | FLAT \<Rightarrow> True)"
  using next_trail_facts [OF assms] by (cases d) simp_all

section \<open>Examples\<close>

definition example_signal :: signal_state where
  "example_signal = \<lparr>sg_source = ''w5'', sg_action = GO, sg_direction = LONG, sg_score = Fin 80,
     sg_raw_action = ''GO'', sg_confirmed = True, sg_source_tf = None, sg_trigger = Some (Fin 101),
     sg_stop = Some (Fin 98), sg_target = Some (Fin 110), sg_invalidation = None, sg_reason = [],
     sg_blocked_reason = [], sg_code = [], sg_kind = KindFade\<rparr>"

definition example_config :: scan_config where
  "example_config = \<lparr>sn_source = ''w5'', sn_max_age_bars = 18, sn_trail_atr = Fin 1\<rparr>"

definition example_piso :: iso_parser where
  "example_piso s = Some (utc_datetime 60000000)"

lemma example_bars_ok:
  "list_all (\<lambda>b. scan_bar_ok b \<and> reads_back example_piso (bar_ts b)) [example_bar]"
  using example_bar_ok by (simp add: scan_bar_ok_def reads_back_def example_piso_def example_bar_def)

lemma example_scan:
  "\<exists>p. lifecycle_from_signals example_piso example_config [example_bar] [example_signal] None = Inr (Some p)"
proof -
  define a where "a = \<lparr>op_direction = LONG, op_entry = Fin 101, op_stop = Fin 98, op_target = Fin 110,
    op_trail = Some (Fin 98), op_opened_index = 0, op_opened_ts = isoformat_utc (bar_ts example_bar),
    op_filled = True, op_filled_ts = Some (isoformat_utc (bar_ts example_bar)), op_age_bars = 0\<rparr>"
  have o: "open_from_signal 0 example_bar example_signal = Some a"
    by (simp add: open_from_signal_def Let_def example_signal_def entry_action_def
      complete_coherent_trade_plan_def coherent_trade_plan_def a_def)
  have "open_ok example_piso a"
    using open_from_signal_open_ok [OF o, of example_piso] example_bars_ok by (simp add: scan_bar_ok_def)
  then have "lifecycle_ok example_piso (plan_of example_config a LcFollow)"
    using running_ok [of example_piso a example_config] by (simp add: a_def)
  then have "PlanLifecycle example_piso (plan_of example_config a LcFollow) = Inr (plan_of example_config a LcFollow)"
    by (simp add: PlanLifecycle_iff)
  then show ?thesis
    using o by (simp add: lifecycle_from_signals_def scan_step_def scan_result_def a_def)
qed

lemma example_life:
  "life_run example_config [example_bar] None 0 [example_signal] Idle
    (Held (LONG, Fin 101, Fin 98, Fin 110) 0 0 (Some (Fin 98)))"
proof -
  have "offers example_bar example_signal (LONG, Fin 101, Fin 98, Fin 110) True"
    by (simp add: offers_def first_price_def example_signal_def)
  from bar_opens [OF fate_rest _ this, of Idle] show ?thesis by simp
qed

theorem lifecycle_scan_never_raises_witness:
  "\<exists>r. lifecycle_from_signals example_piso example_config [example_bar] [example_signal] None = Inr r
    \<and> (case r of None \<Rightarrow> True | Some p \<Rightarrow> lifecycle_ok example_piso p)"
  by (rule lifecycle_scan_never_raises [OF example_bars_ok])

theorem lifecycle_scan_refines_plan_life_witness:
  "\<exists>p. lifecycle_from_signals example_piso example_config [example_bar] [example_signal] None = Inr (Some p)
    \<and> lc_state p = LcFollow \<and> lc_trail p = Some (Fin 98) \<and> lc_age_bars p = 0"
proof -
  obtain p where p: "lifecycle_from_signals example_piso example_config [example_bar] [example_signal] None
      = Inr (Some p)"
    using example_scan by blast
  from lifecycle_scan_refines_plan_life [OF p] example_bar_ok obtain m where
    m: "\<forall>m'. life_run example_config [example_bar] None 0 [example_signal] Idle m' \<longleftrightarrow> m' = m"
    "Some p = lifecycle_of example_config [example_bar] 0 m" by auto
  have "m = Held (LONG, Fin 101, Fin 98, Fin 110) 0 0 (Some (Fin 98))"
    using m(1) example_life by (metis (full_types))
  with p m(2) show ?thesis by simp
qed

theorem bar_leaves_plan_open_iff_inside_witness:
  "resolve_plan_bar_close_event example_piso LONG (Some (Fin 90)) (Some (Fin 110)) example_bar None True = Inr None"
  using bar_leaves_plan_open_iff_inside [OF example_bar_ok, of LONG example_piso 90 110 None]
  by (simp add: effective_stop_def strictly_inside_def example_bar_def)


theorem trail_only_tightens_witness:
  "\<exists>x. next_plan_trail LONG (Some (Fin 98)) (Some (Fin 97)) (Some (Fin 102)) (Some (Fin 2)) (Some (Fin 1))
      = Some x \<and> fle (Fin 98) x"
proof -
  have t: "next_plan_trail LONG (Some (Fin 98)) (Some (Fin 97)) (Some (Fin 102)) (Some (Fin 2)) (Some (Fin 1))
      = Some (Fin 100)"
    by (simp add: next_plan_trail_def fmax_def fsub_def)
  from trail_only_tightens [OF t] t show ?thesis by (simp add: price_ok_def)
qed

end
