(* ===== verification/SignalLifecycle.thy ===== *)
theory SignalLifecycle
  imports SignalScan
begin

text \<open>
  \<open>engine/signal_lifecycle.py\<close>: closing the plans of candidates, signals and indicator lifecycles on
  the bars that followed them. A function that updates dictionaries in place returns them updated.
\<close>

section \<open>Plans of candidates\<close>

text \<open>\<open>value if isinstance(value, Mapping) else {}\<close>\<close>

definition nested_mapping :: "pyval \<Rightarrow> vdict" where
  "nested_mapping v = (case mapping_items v of Some d \<Rightarrow> d | None \<Rightarrow> [])"

fun plan_value :: "vdict \<Rightarrow> vdict \<Rightarrow> string list \<Rightarrow> pyfloat option res" where
  "plan_value details trade_plan [] = Inr None"
| "plan_value details trade_plan (k # ks) =
    rbind (float_or_none (vget details k)) (\<lambda>x.
      if x \<noteq> None then Inr x
      else rbind (float_or_none (vget trade_plan k)) (\<lambda>y.
        if y \<noteq> None then Inr y else plan_value details trade_plan ks))"

definition candidate_plan ::
  "signal_candidate \<Rightarrow> (pyfloat option \<times> pyfloat option \<times> pyfloat option) res" where
  "candidate_plan c =
    (let details = sc_details c; trade_plan = nested_mapping (vget details ''trade_plan'') in
     rbind (plan_value details trade_plan [''trigger'', ''entry'']) (\<lambda>e.
     let entry = (if e = None then finite_or_none (sc_level c) else e) in
     rbind (plan_value details trade_plan [''stop'', ''invalid'', ''invalidation'']) (\<lambda>s.
     rbind (plan_value details trade_plan [''target'']) (\<lambda>t.
     Inr (entry, s, t)))))"

section \<open>Closing a plan\<close>

definition bars_after_signal :: "iso_parser \<Rightarrow> bar list \<Rightarrow> pyval \<Rightarrow> bar list res" where
  "bars_after_signal piso bars ts_value =
    rbind (parse_aware_utc_ts piso ts_value) (\<lambda>opened.
      Inr (case opened of None \<Rightarrow> [] | Some t \<Rightarrow> filter (\<lambda>b. t < bar_ts b) bars))"

text \<open>The first bar that closes the plan decides.\<close>

fun scan_close ::
  "iso_parser \<Rightarrow> direction \<Rightarrow> pyfloat option \<Rightarrow> pyfloat option \<Rightarrow> bar list \<Rightarrow> close_event option res" where
  "scan_close piso direction stop_price target [] = Inr None"
| "scan_close piso direction stop_price target (b # bs) =
    rbind (resolve_plan_bar_close_event piso direction stop_price target b None True) (\<lambda>event.
      if event \<noteq> None then Inr event else scan_close piso direction stop_price target bs)"

definition trade_plan_close_event ::
  "iso_parser \<Rightarrow> direction \<Rightarrow> pyfloat option \<Rightarrow> pyfloat option \<Rightarrow> pyfloat option \<Rightarrow> bar list \<Rightarrow> pyval
    \<Rightarrow> close_event option res" where
  "trade_plan_close_event piso direction entry stop_price target bars opened_ts =
    (if bars = [] \<or> \<not> coherent_trade_plan direction entry stop_price target then Inr None
     else rbind (bars_after_signal piso bars opened_ts) (\<lambda>later.
       if later = []
       then resolve_plan_bar_close_event piso direction stop_price target (last bars) None False
       else scan_close piso direction stop_price target later))"

section \<open>Candidates\<close>

text \<open>\<open>a or b\<close>\<close>

definition either_value :: "pyval \<Rightarrow> pyval \<Rightarrow> pyval" where
  "either_value a b = (if truthy a then a else b)"

text \<open>
  \<open>replace(candidate, ...)\<close> runs \<open>__post_init__\<close> again: of its checks only the freezing of the new
  details can still fail.
\<close>

definition replace_candidate ::
  "signal_candidate \<Rightarrow> candidate_finality \<Rightarrow> vdict \<Rightarrow> signal_candidate res" where
  "replace_candidate c finality details =
    rbind (domain_frozen_value (VDict details) ''SignalCandidate.details'') (\<lambda>frozen.
      (case mapping_items frozen of
         None \<Rightarrow> Inl (TypeError ''SignalCandidate.details must be a mapping'')
       | Some d \<Rightarrow> Inr (c\<lparr>sc_finality := finality, sc_details := d\<rparr>)))"

definition annotate_candidate_lifecycle ::
  "iso_parser \<Rightarrow> (pyval \<Rightarrow> string) \<Rightarrow> bar list \<Rightarrow> signal_candidate \<Rightarrow> signal_candidate res" where
  "annotate_candidate_lifecycle piso pystr bars c =
    (let details = sc_details c;
         opened = either_value (vget details ''ts'') (vget details ''opened_ts'') in
     rbind (candidate_plan c) (\<lambda>(entry, stop_price, target).
     rbind (trade_plan_close_event piso (sc_direction c) entry stop_price target bars opened) (\<lambda>event.
     case event of
       None \<Rightarrow> Inr c
     | Some e \<Rightarrow>
        rbind (PlanLifecycle piso ((lifecycle_defaults (sc_name c) (ce_state e) (sc_direction c))
          \<lparr>lc_entry := entry, lc_stop := stop_price, lc_target := target,
           lc_opened_ts := (if truthy opened then Some (text_of pystr opened) else None),
           lc_closed_ts := ce_closed_ts e, lc_exit_price := ce_exit_price e,
           lc_exit_reason := Some (ce_state e)\<rparr>)) (\<lambda>p.
        replace_candidate c FinalExpired
          (vset ''lifecycle'' (VDict (vset ''obsolete'' (VBool True) (lifecycle_as_dict p)))
          (vset ''obsolete_reason'' (VStr (py_lower (state_text (ce_state e))))
          (vset ''obsolete'' (VBool True) details)))))))"

definition annotate_signal_candidate_lifecycles ::
  "iso_parser \<Rightarrow> (pyval \<Rightarrow> string) \<Rightarrow> signal_candidate list \<Rightarrow> bar list \<Rightarrow> signal_candidate list res" where
  "annotate_signal_candidate_lifecycles piso pystr candidates bars =
    mapM (annotate_candidate_lifecycle piso pystr bars) candidates"

definition active_signal_candidates :: "signal_candidate list \<Rightarrow> signal_candidate list" where
  "active_signal_candidates candidates = filter (\<lambda>c. sc_finality c \<noteq> FinalExpired) candidates"

section \<open>Lifecycle payloads\<close>

definition source_or :: "string \<Rightarrow> pyval \<Rightarrow> string" where
  "source_or dflt v = (if is_str v then str_of v else dflt)"

definition quarantine_payload :: "iso_parser \<Rightarrow> vdict \<Rightarrow> vdict res" where
  "quarantine_payload piso lifecycle =
    rbind (PlanLifecycle piso (lifecycle_defaults (source_or ''lifecycle'' (vget lifecycle ''source'')) LcWait
      (direction_from_value (vget lifecycle ''direction'')))) (\<lambda>p.
    Inr (vset ''obsolete_reason'' (VStr ''contract_invalid'')
      (vset ''contract_invalid'' (VBool True)
      (vset ''obsolete'' (VBool True) (dmerge lifecycle (lifecycle_as_dict p))))))"

definition expire_lifecycle_payload :: "iso_parser \<Rightarrow> vdict \<Rightarrow> bar list \<Rightarrow> vdict res" where
  "expire_lifecycle_payload piso lifecycle bars =
    rbind (plan_lifecycle_from_wire piso (VDict lifecycle)) (\<lambda>decoded.
    case decoded of
      None \<Rightarrow> quarantine_payload piso lifecycle
    | Some admitted \<Rightarrow>
       (let canonical = dmerge lifecycle (lifecycle_as_dict admitted) in
        if \<not> lc_active admitted
        then Inr (if state_terminal (lc_state admitted) then vset ''obsolete'' (VBool True) canonical
                  else canonical)
        else if bars = [] then Inr canonical
        else rbind (trade_plan_close_event piso (lc_direction admitted) (lc_entry admitted)
            (lc_stop admitted) (lc_target admitted) bars (opt_str (lc_opened_ts admitted))) (\<lambda>event.
          case event of
            None \<Rightarrow> Inr canonical
          | Some e \<Rightarrow>
             rbind (PlanLifecycle piso (admitted\<lparr>lc_state := ce_state e, lc_closed_ts := ce_closed_ts e,
                lc_exit_price := ce_exit_price e, lc_exit_reason := Some (ce_state e)\<rparr>)) (\<lambda>closed.
             Inr (vset ''obsolete'' (VBool True) (dmerge canonical (lifecycle_as_dict closed)))))))"

section \<open>Indicators\<close>

text \<open>\<open>reason\<close> and the lifecycle of \<open>_mark_signal_obsolete\<close>.\<close>

definition obsolete_lifecycle ::
  "iso_parser \<Rightarrow> string \<Rightarrow> direction \<Rightarrow> pyfloat option \<Rightarrow> pyfloat option \<Rightarrow> pyfloat option
    \<Rightarrow> close_event option \<Rightarrow> bool \<Rightarrow> (string \<times> vdict) res" where
  "obsolete_lifecycle piso source direction entry stop_price target event contract_invalid =
    (case (if contract_invalid then None else event) of
       None \<Rightarrow>
         rbind (PlanLifecycle piso (lifecycle_defaults source LcWait direction)) (\<lambda>p.
           Inr (''contract_invalid'', vset ''contract_invalid'' (VBool True) (lifecycle_as_dict p)))
     | Some e \<Rightarrow>
         rbind (PlanLifecycle piso ((lifecycle_defaults source (ce_state e) direction)
           \<lparr>lc_entry := entry, lc_stop := stop_price, lc_target := target,
            lc_closed_ts := ce_closed_ts e, lc_exit_price := ce_exit_price e,
            lc_exit_reason := Some (ce_state e)\<rparr>)) (\<lambda>p.
           Inr (py_lower (state_text (ce_state e)), lifecycle_as_dict p)))"

definition mark_signal_obsolete ::
  "iso_parser \<Rightarrow> vdict \<Rightarrow> direction \<Rightarrow> pyfloat option \<Rightarrow> pyfloat option \<Rightarrow> pyfloat option
    \<Rightarrow> close_event option \<Rightarrow> bool \<Rightarrow> vdict \<Rightarrow> vdict res" where
  "mark_signal_obsolete piso signal direction entry stop_price target event contract_invalid latest =
    rbind (obsolete_lifecycle piso (source_or ''signal'' (vget signal ''source'')) direction entry
      stop_price target event contract_invalid) (\<lambda>(reason, payload).
    let marked =
      vset ''lifecycle'' (VDict (vset ''obsolete'' (VBool True) payload))
      (vset ''obsolete'' (VBool True)
      (vset ''blocked_reason'' (VStr (''obsolete_'' @ reason))
      (vset ''blocked'' (VBool True)
      (vset ''raw_action'' (either_value (vget signal ''raw_action'') (vget signal ''action''))
      (vset ''action'' (VStr ''WAIT'') signal)))))
    in Inr (vset ''obsolete_reason'' (VStr reason)
      (vset ''obsolete'' (VBool True) (vset ''signal'' (VDict marked) latest))))"

definition signal_prices ::
  "vdict \<Rightarrow> (pyfloat option \<times> pyfloat option \<times> pyfloat option) res" where
  "signal_prices signal =
    rbind (float_or_none (vget signal ''trigger'')) (\<lambda>e.
    rbind (float_or_none (vget signal ''stop'')) (\<lambda>s.
    rbind (float_or_none (vget signal ''target'')) (\<lambda>t. Inr (e, s, t))))"

definition expire_latest_signal :: "iso_parser \<Rightarrow> bar list \<Rightarrow> vdict \<Rightarrow> (bool \<times> vdict) res" where
  "expire_latest_signal piso bars latest = (case dict_items (vget latest ''signal'') of
      None \<Rightarrow> Inr (False, latest)
    | Some signal \<Rightarrow>
       (let direction = direction_from_value (vget signal ''direction'') in
        rbind (signal_prices signal) (\<lambda>(entry, stop_price, target).
        rbind (trade_plan_close_event piso direction entry stop_price target bars
          (either_value (vget signal ''ts'') (vget latest ''ts''))) (\<lambda>event.
        case event of
          None \<Rightarrow> Inr (False, latest)
        | Some e \<Rightarrow>
           rbind (mark_signal_obsolete piso signal direction entry stop_price target (Some e) False latest)
             (\<lambda>latest'. Inr (True, latest'))))))"

definition mark_status_obsolete :: "(pyval \<Rightarrow> string) \<Rightarrow> vdict \<Rightarrow> vdict \<Rightarrow> vdict" where
  "mark_status_obsolete pystr latest indicator = (case dict_items (vget indicator ''status'') of
      None \<Rightarrow> indicator
    | Some status \<Rightarrow>
       (let r = vget latest ''obsolete_reason'';
            reason = text_of pystr (if truthy r then r else VStr ''closed'') in
        vset ''status'' (VDict (dmerge status
          [kv ''state_code'' (VStr ''obsolete''), kv ''health'' (VStr ''ok''),
           kv ''reason_code'' (VStr ''signal_obsolete''),
           kv ''trigger_event'' (VDict [kv ''code'' (VStr ''signal_obsolete''), kv ''exit_reason'' (VStr reason)]),
           kv ''has_signal'' (VBool False), kv ''blocked_signal'' (VBool False),
           kv ''obsolete_signal'' (VBool True)])) indicator))"

text \<open>The signal of an indicator whose lifecycle turned out to be obsolete.\<close>

definition close_companion_signal :: "iso_parser \<Rightarrow> vdict \<Rightarrow> bool \<Rightarrow> vdict \<Rightarrow> vdict res" where
  "close_companion_signal piso expired contract_invalid latest =
    (case dict_items (vget latest ''signal'') of
       None \<Rightarrow> Inr latest
     | Some signal \<Rightarrow>
        if truthy (vget signal ''obsolete'') then Inr latest
        else
         (let signal_direction = direction_from_value (vget signal ''direction'');
              lifecycle_direction = direction_from_value (vget expired ''direction'') in
          rbind (plan_lifecycle_from_wire piso (VDict expired)) (\<lambda>admitted.
          let terminal = (case admitted of
                Some p \<Rightarrow> if state_terminal (lc_state p) then Some p else None | None \<Rightarrow> None);
              invalid = (contract_invalid \<or> terminal = None \<or> signal_direction = FLAT
                \<or> lifecycle_direction = FLAT \<or> signal_direction \<noteq> lifecycle_direction)
          in rbind (signal_prices signal) (\<lambda>(entry, stop_price, target).
          rbind (case terminal of
              None \<Rightarrow> Inr None
            | Some p \<Rightarrow> rbind (LifecycleCloseEvent piso \<lparr>ce_state = lc_state p,
                  ce_exit_price = lc_exit_price p, ce_closed_ts = lc_closed_ts p\<rparr>) (\<lambda>e. Inr (Some e)))
            (\<lambda>event.
          mark_signal_obsolete piso signal signal_direction entry stop_price target event invalid latest)))))"

definition expire_latest_lifecycle ::
  "iso_parser \<Rightarrow> (pyval \<Rightarrow> string) \<Rightarrow> bar list \<Rightarrow> vdict \<Rightarrow> vdict res" where
  "expire_latest_lifecycle piso pystr bars latest = (case dict_items (vget latest ''lifecycle'') of
      None \<Rightarrow> Inr latest
    | Some lifecycle \<Rightarrow>
       rbind (expire_lifecycle_payload piso lifecycle bars) (\<lambda>expired.
       let latest = vset ''lifecycle'' (VDict expired) latest in
       if \<not> truthy (vget expired ''obsolete'') then Inr latest
       else
        (let reason = either_value (vget expired ''obsolete_reason'')
               (either_value (vget expired ''exit_reason'') (VStr ''closed''));
             latest = vset ''obsolete_reason'' (VStr (py_lower (text_of pystr reason)))
               (vset ''obsolete'' (VBool True) latest)
         in close_companion_signal piso expired (truthy (vget expired ''contract_invalid'')) latest)))"

definition expire_indicator ::
  "iso_parser \<Rightarrow> (pyval \<Rightarrow> string) \<Rightarrow> bar list \<Rightarrow> pyval \<Rightarrow> pyval res" where
  "expire_indicator piso pystr bars indicator = (case dict_items indicator of
      None \<Rightarrow> Inr indicator
    | Some ind \<Rightarrow> (case dict_items (vget ind ''latest'') of
        None \<Rightarrow> Inr indicator
      | Some latest \<Rightarrow>
         rbind (expire_latest_signal piso bars latest) (\<lambda>(signal_expired, latest).
         rbind (expire_latest_lifecycle piso pystr bars latest) (\<lambda>latest.
         let ind = vset ''latest'' (VDict latest) ind;
             lifecycle = (case dict_items (vget latest ''lifecycle'') of Some d \<Rightarrow> d | None \<Rightarrow> []) in
         Inr (VDict (if signal_expired \<or> truthy (vget lifecycle ''obsolete'')
           then mark_status_obsolete pystr latest ind else ind))))))"

definition expire_indicator_lifecycles ::
  "iso_parser \<Rightarrow> (pyval \<Rightarrow> string) \<Rightarrow> bar list \<Rightarrow> (string \<times> pyval) list \<Rightarrow> (string \<times> pyval) list res" where
  "expire_indicator_lifecycles piso pystr bars indicators =
    mapM (\<lambda>(k, v). rbind (expire_indicator piso pystr bars v) (\<lambda>u. Inr (k, u))) indicators"

end
