(* ===== verification/FloatBounds.thy ===== *)
theory FloatBounds
  imports PyFloat
begin

text \<open>
  A calculus of magnitudes: \<open>fbnd k x\<close> says that \<open>x\<close> is a number of at most \<open>2 ^ k\<close>. Every
  operation of binary64 carries such bounds from its arguments to its result, which is how a
  chain of operations is shown to stay finite.
\<close>

definition fbnd :: "nat \<Rightarrow> pyfloat \<Rightarrow> bool" where
  "fbnd k x = (case x of Fin r \<Rightarrow> \<bar>r\<bar> \<le> 2 ^ k | _ \<Rightarrow> False)"

named_theorems fbnd_intros "how the operations carry bounds"

lemma fbnd_Fin [simp]: "fbnd k (Fin r) \<longleftrightarrow> \<bar>r\<bar> \<le> 2 ^ k"
  by (simp add: fbnd_def)

lemma fbndE: "fbnd k x \<Longrightarrow> (\<And>r. x = Fin r \<Longrightarrow> \<bar>r\<bar> \<le> 2 ^ k \<Longrightarrow> P) \<Longrightarrow> P"
  by (cases x) (auto simp: fbnd_def)

lemma fbnd_finite: "fbnd k x \<Longrightarrow> isfinite x"
  by (erule fbndE) simp

lemma fbnd_mono: "fbnd k x \<Longrightarrow> k \<le> m \<Longrightarrow> fbnd m x"
  by (erule fbndE) (auto intro: order_trans power_increasing)

lemma rnd_val_bound: "\<bar>x\<bar> \<le> 2 ^ k \<Longrightarrow> \<bar>rnd_val x\<bar> \<le> 2 ^ k"
proof -
  assume x: "\<bar>x\<bar> \<le> 2 ^ k"
  have e: "rnd_val (2 ^ k) = 2 ^ k"
    using rnd_val_exact [of "2 ^ k" 1 "int k"] by (simp add: power_int_of_nat)
  have "x \<le> 2 ^ k" "- (2 ^ k) \<le> x" using x by linarith+
  then have "rnd_val x \<le> rnd_val (2 ^ k)" "rnd_val (- (2 ^ k)) \<le> rnd_val x"
    by (simp_all only: rnd_val_mono)
  then show ?thesis by (simp add: e rnd_val_minus)
qed

lemma fbnd_rnd: "\<bar>x\<bar> \<le> 2 ^ k \<Longrightarrow> k \<le> 1023 \<Longrightarrow> fbnd k (rnd x)"
proof -
  assume x: "\<bar>x\<bar> \<le> 2 ^ k" and k: "k \<le> 1023"
  have b: "\<bar>rnd_val x\<bar> \<le> 2 ^ k" by (rule rnd_val_bound [OF x])
  have "(2 ^ k :: rat) < 2 ^ 1024" by (rule power_strict_increasing) (use k in simp_all)
  with b have "\<bar>rnd_val x\<bar> < 2 ^ 1024" by linarith
  then have "rnd x = Fin (rnd_val x)" by (simp add: rnd_Fin_iff)
  with b show ?thesis by simp
qed

lemma fbnd_fadd [fbnd_intros]: "fbnd k x \<Longrightarrow> fbnd k y \<Longrightarrow> k \<le> 1022 \<Longrightarrow> fbnd (Suc k) (fadd x y)"
proof (elim fbndE)
  fix a b assume h: "x = Fin a" "\<bar>a\<bar> \<le> 2 ^ k" "y = Fin b" "\<bar>b\<bar> \<le> 2 ^ k" "k \<le> 1022"
  then have "\<bar>a + b\<bar> \<le> 2 ^ Suc k" using abs_triangle_ineq [of a b] by simp
  then show "fbnd (Suc k) (fadd x y)" using h by (simp add: fbnd_rnd del: power_Suc)
qed

lemma fbnd_fneg [simp]: "fbnd k (fneg x) \<longleftrightarrow> fbnd k x"
  by (cases x) (auto simp: fbnd_def)

lemma fbnd_fabs [simp]: "fbnd k (fabs x) \<longleftrightarrow> fbnd k x"
  by (cases x) (auto simp: fbnd_def)

lemma fbnd_fsub [fbnd_intros]: "fbnd k x \<Longrightarrow> fbnd k y \<Longrightarrow> k \<le> 1022 \<Longrightarrow> fbnd (Suc k) (fsub x y)"
  unfolding fsub_def by (rule fbnd_fadd) simp_all

lemma fbnd_fmul [fbnd_intros]: "fbnd j x \<Longrightarrow> fbnd k y \<Longrightarrow> j + k \<le> 1023 \<Longrightarrow> fbnd (j + k) (fmul x y)"
proof (elim fbndE)
  fix a b assume h: "x = Fin a" "\<bar>a\<bar> \<le> 2 ^ j" "y = Fin b" "\<bar>b\<bar> \<le> 2 ^ k" "j + k \<le> 1023"
  then have "\<bar>a * b\<bar> \<le> 2 ^ (j + k)"
    by (simp add: abs_mult power_add mult_mono)
  then show "fbnd (j + k) (fmul x y)" using h by (simp add: fbnd_rnd)
qed

lemma fbnd_fmax [fbnd_intros]: "fbnd k x \<Longrightarrow> fbnd k y \<Longrightarrow> fbnd k (fmax x y)"
  by (simp add: fmax_def)

lemma fbnd_fmin [fbnd_intros]: "fbnd k x \<Longrightarrow> fbnd k y \<Longrightarrow> fbnd k (fmin x y)"
  by (simp add: fmin_def)

text \<open>A quotient by a number of at least \<open>2 ^ - j\<close>.\<close>

lemma fbnd_fdiv:
  assumes "fbnd k x" and "fle (Fin (1 / 2 ^ j)) (Fin b)" and "j + k \<le> 1023"
  shows "\<exists>q. fdiv x (Fin b) = Inr q \<and> fbnd (k + j) q"
proof -
  obtain a where a: "x = Fin a" "\<bar>a\<bar> \<le> 2 ^ k" using assms(1) by (rule fbndE)
  have b: "1 / 2 ^ j \<le> b" using assms(2) by simp
  then have b0: "0 < b" by (meson less_le_trans zero_less_divide_1_iff zero_less_numeral zero_less_power)
  have "\<bar>a / b\<bar> = \<bar>a\<bar> / b" using b0 by (simp add: abs_divide)
  also have "\<dots> \<le> 2 ^ k / (1 / 2 ^ j)" by (rule frac_le) (use a b b0 in auto)
  finally have "\<bar>a / b\<bar> \<le> 2 ^ (k + j)" by (simp add: power_add)
  then show ?thesis using a b0 assms(3) by (auto simp: fbnd_rnd)
qed

lemma round_half_even_bound: "\<bar>r\<bar> \<le> 2 ^ k \<Longrightarrow> \<bar>round_half_even r\<bar> \<le> 2 ^ k"
proof -
  assume r: "\<bar>r\<bar> \<le> 2 ^ k"
  have "r \<le> of_int (2 ^ k)" "of_int (- (2 ^ k)) \<le> r" using r by auto
  then have "round_half_even r \<le> 2 ^ k" "- (2 ^ k) \<le> round_half_even r"
    by (metis rhe_mono rhe_of_int)+
  then show ?thesis by simp
qed

lemma float_of_int_bound: "\<bar>n\<bar> \<le> 2 ^ k \<Longrightarrow> k \<le> 1023 \<Longrightarrow> \<exists>x. float_of_int n = Inr x \<and> fbnd k x"
proof -
  assume n: "\<bar>n\<bar> \<le> 2 ^ k" and k: "k \<le> 1023"
  have "(of_int \<bar>n\<bar> :: rat) \<le> of_int (2 ^ k)" using n by (simp only: of_int_le_iff)
  then have "\<bar>of_int n :: rat\<bar> \<le> 2 ^ k" by simp
  then have b: "fbnd k (rnd (of_int n))" by (rule fbnd_rnd) (rule k)
  then show ?thesis by (elim fbndE) (simp add: float_of_int_def)
qed

end
