(* ===== verification/LifecycleLaws.thy ===== *)
theory LifecycleLaws
  imports PlanLife SignalLifecycle FloatBounds
begin

text \<open>
  What decoding and expiring lifecycles promise: payloads decode to what was written, the first
  later bar that proves a terminal fact closes a plan, and what an unreadable opening time does.
\<close>

section \<open>Payload round trip\<close>

lemma vget_kv [simp]: "vget (kv k v # d) k' = (if k = k' then v else vget d k')"
  by (simp add: vget_def kv_def)

lemma vget_default_kv [simp]: "vget_default (kv k v # d) k' x = (if k = k' then v else vget_default d k' x)"
  by (simp add: vget_default_def kv_def)

lemma vget_default_Nil [simp]: "vget_default [] k x = x"
  by (simp add: vget_default_def)

lemma state_of_text [simp]: "state_of (state_text s) = Some s"
  by (cases s) (simp_all add: state_of_def)

lemma state_text_not_Nil [simp]: "state_text s \<noteq> []"
  by (cases s) simp_all

text \<open>What a payload keeps: prices to four digits, and times as the decoder rewrites them, as the text
  \<open>isoformat\<close> gives for the same instant in UTC.\<close>

definition utc_text :: "iso_parser \<Rightarrow> string \<Rightarrow> string" where
  "utc_text piso s = (case parse_aware_utc_ts piso (VStr s) of Inr (Some t) \<Rightarrow> isoformat_utc t | _ \<Rightarrow> s)"

definition payload_lifecycle :: "iso_parser \<Rightarrow> plan_lifecycle \<Rightarrow> plan_lifecycle" where
  "payload_lifecycle piso p = p\<lparr>lc_entry := map_option (fround 4) (lc_entry p),
     lc_stop := map_option (fround 4) (lc_stop p), lc_target := map_option (fround 4) (lc_target p),
     lc_trail := map_option (fround 4) (lc_trail p), lc_exit_price := map_option (fround 4) (lc_exit_price p),
     lc_opened_ts := map_option (utc_text piso) (lc_opened_ts p),
     lc_filled_ts := map_option (utc_text piso) (lc_filled_ts p),
     lc_closed_ts := map_option (utc_text piso) (lc_closed_ts p)\<rparr>"

text \<open>\<open>fromisoformat\<close> reads back what \<open>isoformat\<close> writes for the instant a text names.\<close>

definition rereads :: "iso_parser \<Rightarrow> string option \<Rightarrow> bool" where
  "rereads piso x = (case x of None \<Rightarrow> True
     | Some s \<Rightarrow> (case parse_aware_utc_ts piso (VStr s) of Inr (Some t) \<Rightarrow> reads_back piso t | _ \<Rightarrow> True))"

definition price_float :: "pyfloat option \<Rightarrow> bool" where
  "price_float x = (case x of None \<Rightarrow> True | Some v \<Rightarrow> fl_ok v)"

text \<open>Rounding a finite float to decimal digits never overflows.\<close>

lemma fround_finite:
  assumes "fl_ok (Fin a)"
  shows "isfinite (fround n (Fin a))"
proof -
  obtain m where m: "rnd_val a = of_int m * pow2 (ulp_exp a)" "\<bar>m\<bar> \<le> 2 ^ 53" by (rule rnd_val_form [of a])
  have a: "a = of_int m * pow2 (ulp_exp a)" using assms m(1) by (simp add: rnd_Fin_iff)
  show ?thesis
  proof (cases "0 \<le> ulp_exp a")
    case True
    have "a = of_int (m * 2 ^ nat (ulp_exp a))" using a pow2_nat [OF True] by simp
    then obtain k where k: "a = of_int k" by blast
    have "a * 10 ^ n = of_int (k * 10 ^ n)" by (simp add: k)
    then have "round_half_even (a * 10 ^ n) = k * 10 ^ n" by (simp only: rhe_of_int)
    then have "fround n (Fin a) = rnd a" by (simp add: k)
    then show ?thesis using assms by simp
  next
    case False
    then have "pow2 (ulp_exp a) \<le> pow2 0" by (simp only: pow2_le_iff)
    then have "\<bar>of_int m * pow2 (ulp_exp a)\<bar> \<le> \<bar>of_int m :: rat\<bar> * 1"
      unfolding abs_mult by (intro mult_left_mono) simp_all
    moreover have "\<bar>of_int m :: rat\<bar> \<le> 2 ^ 53"
      using m(2) by (metis of_int_abs of_int_le_iff of_int_numeral of_int_power)
    ultimately have "\<bar>a\<bar> \<le> 2 ^ 53" using a by linarith
    then have b: "\<bar>a * 10 ^ n\<bar> \<le> 2 ^ 53 * 10 ^ n" by (simp add: abs_mult)
    let ?r = "round_half_even (a * 10 ^ n)"
    have "\<bar>of_int ?r :: rat\<bar> \<le> 2 ^ 53 * 10 ^ n + 1 / 2"
      using rhe_abs [of "a * 10 ^ n"] b by linarith
    then have "\<bar>of_int ?r :: rat\<bar> / 10 ^ n \<le> (2 ^ 53 * 10 ^ n + 1 / 2) / 10 ^ n"
      by (intro divide_right_mono) simp_all
    also have "\<dots> \<le> 2 ^ 54"
    proof -
      have "(2 ^ 53 * x + 1 / 2) / x \<le> 2 ^ 54" if "1 \<le> x" for x :: rat
        using that by (simp add: field_simps)
      then show ?thesis by simp
    qed
    finally have "\<bar>of_int ?r / 10 ^ n :: rat\<bar> \<le> 2 ^ 54" by (simp add: abs_divide)
    then have "fbnd 54 (rnd (of_int ?r / 10 ^ n))" by (rule fbnd_rnd) simp
    then show ?thesis by (simp add: fbnd_finite)
  qed
qed

lemma rounded_price_ok: "price_ok x \<Longrightarrow> price_float x \<Longrightarrow> price_ok (map_option (fround k) x)"
  by (auto simp: price_ok_def price_float_def isfinite_iff simp del: fround.simps fl_ok.simps
    dest: fround_finite split: option.splits)

lemma round_price_value:
  "price_ok x \<Longrightarrow> round_price x = opt_val (map_option (fround 4) x)"
  by (auto simp: round_price_def rounded_def round_optional_def price_ok_def finite_or_none_def
    split: option.splits)

lemma wire_price_round:
  "price_ok x \<Longrightarrow> price_ok (map_option (fround 4) x) \<Longrightarrow> vget d k = round_price x \<Longrightarrow>
    wire_price d k = Some (map_option (fround 4) x)"
  by (auto simp: wire_price_def round_price_value opt_val_def price_ok_def Let_def split: option.splits)

text \<open>Times: a text the constructor admits names an instant, and so does its rewriting.\<close>

lemma admitted_time:
  assumes "timestamps_ok piso (Some s)"
  obtains t where "parse_aware_utc_ts piso (VStr s) = Inr (Some t)" "in_dt_range t"
proof -
  obtain t where t: "parse_aware_utc_ts piso (VStr s) = Inr (Some t)"
    using assms by (auto simp: timestamps_ok_def timestamp_ok_def rbind_Inr_iff)
  moreover from t have "in_dt_range t"
    by (auto simp: parse_aware_utc_ts_def astimezone_utc_def rbind_Inr_iff Let_def split: if_splits option.splits)
  ultimately show ?thesis by (rule that)
qed

lemma rewritten_time_ok:
  "timestamps_ok piso x \<Longrightarrow> rereads piso x \<Longrightarrow> timestamps_ok piso (map_option (utc_text piso) x)"
  by (cases x) (auto elim!: admitted_time simp: rereads_def utc_text_def timestamps_ok_isoformat)

lemma wire_timestamp_utc:
  "timestamps_ok piso x \<Longrightarrow> vget d k = opt_str x \<Longrightarrow>
    wire_timestamp piso d k = Inr (Some (map_option (utc_text piso) x))"
  by (cases x) (auto elim!: admitted_time simp: wire_timestamp_def opt_str_def utc_text_def Let_def)

lemma utc_text_isoformat: "reads_back piso t \<Longrightarrow> in_dt_range t \<Longrightarrow> utc_text piso (isoformat_utc t) = isoformat_utc t"
  by (simp add: utc_text_def parse_isoformat)

text \<open>The facts about a lifecycle under which it survives.\<close>

definition portable :: "iso_parser \<Rightarrow> plan_lifecycle \<Rightarrow> bool" where
  "portable piso p \<longleftrightarrow>
     list_all price_float [lc_entry p, lc_stop p, lc_target p, lc_trail p, lc_exit_price p]
     \<and> list_all (rereads piso) [lc_opened_ts p, lc_filled_ts p, lc_closed_ts p]"

lemma payload_lifecycle_ok:
  "lifecycle_ok piso p \<Longrightarrow> portable piso p \<Longrightarrow> lifecycle_ok piso (payload_lifecycle piso p)"
  by (auto simp: lifecycle_ok_def portable_def payload_lifecycle_def rounded_price_ok rewritten_time_ok)

lemma decode_fields_round:
  fixes p
  defines "d \<equiv> lifecycle_as_dict p"
  assumes ok: "lifecycle_ok piso p" "portable piso p"
  shows "decode_fields piso d (lc_state p) (lc_exit_reason p) = Inr (Some (payload_lifecycle piso p))"
proof -
  note new = payload_lifecycle_ok [OF ok]
  have pr: "wire_price d ''entry'' = Some (map_option (fround 4) (lc_entry p))"
    "wire_price d ''stop'' = Some (map_option (fround 4) (lc_stop p))"
    "wire_price d ''target'' = Some (map_option (fround 4) (lc_target p))"
    "wire_price d ''trail'' = Some (map_option (fround 4) (lc_trail p))"
    "wire_price d ''exit_price'' = Some (map_option (fround 4) (lc_exit_price p))"
    using ok(1) new by (simp_all add: wire_price_round d_def lifecycle_as_dict_def lifecycle_ok_def
      payload_lifecycle_def)
  have tm: "wire_timestamp piso d ''opened_ts'' = Inr (Some (map_option (utc_text piso) (lc_opened_ts p)))"
    "wire_timestamp piso d ''filled_ts'' = Inr (Some (map_option (utc_text piso) (lc_filled_ts p)))"
    "wire_timestamp piso d ''closed_ts'' = Inr (Some (map_option (utc_text piso) (lc_closed_ts p)))"
    using ok(1) by (simp_all add: wire_timestamp_utc d_def lifecycle_as_dict_def lifecycle_ok_def)
  have v: "vget_default d ''direction'' (VStr ''flat'') = VStr (direction_text (lc_direction p))"
    "vget_default d ''age_bars'' (VInt 0) = VInt (lc_age_bars p)"
    "vget_default d ''filled'' (VBool False) = VBool (lc_filled p)"
    "vget_default d ''source'' (VStr ''lifecycle'') = VStr (lc_source p)"
    by (simp_all add: d_def lifecycle_as_dict_def)
  have c: "PlanLifecycle piso (payload_lifecycle piso p) = Inr (payload_lifecycle piso p)"
    using new by (simp add: PlanLifecycle_iff)
  have r: "\<lparr>lc_source = lc_source p, lc_state = lc_state p, lc_direction = lc_direction p,
      lc_entry = map_option (fround 4) (lc_entry p), lc_stop = map_option (fround 4) (lc_stop p),
      lc_target = map_option (fround 4) (lc_target p), lc_trail = map_option (fround 4) (lc_trail p),
      lc_opened_ts = map_option (utc_text piso) (lc_opened_ts p),
      lc_filled_ts = map_option (utc_text piso) (lc_filled_ts p),
      lc_closed_ts = map_option (utc_text piso) (lc_closed_ts p),
      lc_exit_price = map_option (fround 4) (lc_exit_price p), lc_exit_reason = lc_exit_reason p,
      lc_age_bars = lc_age_bars p, lc_filled = lc_filled p\<rparr> = payload_lifecycle piso p"
    by (simp add: payload_lifecycle_def)
  have g: "lc_direction p \<noteq> FLAT \<or> lc_state p = LcWait" "0 \<le> lc_age_bars p"
    "state_terminal (lc_state p) \<or> map_option (fround 4) (lc_exit_price p) = None
      \<and> map_option (utc_text piso) (lc_closed_ts p) = None"
    "\<not> (lc_state p \<in> set [LcWait, LcWaitEntry] \<and> lc_filled p)"
    "\<not> (lc_state p \<in> set [LcFollow, LcRide] \<and> \<not> lc_filled p)"
    "lc_filled p \<or> map_option (utc_text piso) (lc_filled_ts p) = None"
    using ok(1) unfolding lifecycle_ok_def by auto
  show ?thesis
    unfolding decode_fields_def Let_def v pr tm admit_some_def admit_def is_str.simps str_of.simps
      option.case rbind.simps direction_of_text pyval.case bool_of.simps if_P [OF g(1)] if_P [OF g(2)]
      if_P [OF g(3)] if_P [OF g(4)] if_P [OF g(5)] if_P [OF g(6)] if_True r c construct_or_none_def
      sum.case ..
qed

lemma no_reason_text [simp]: "no_reason (VStr s) \<longleftrightarrow> s = []"
  by (simp add: no_reason_def)

lemma lifecycle_wire_round:
  assumes "lifecycle_ok piso p" "portable piso p"
  shows "plan_lifecycle_from_wire piso (VDict (lifecycle_as_dict p)) = Inr (Some (payload_lifecycle piso p))"
proof -
  let ?d = "lifecycle_as_dict p"
  have v: "vget_default ?d ''contract_invalid'' (VBool False) = VBool False"
    "vget ?d ''state'' = VStr (state_text (lc_state p))" "vget ?d ''active'' = VBool (lc_active p)"
    "vget_default ?d ''obsolete'' (VBool False) = VBool False"
    "vget ?d ''exit_reason'' = VStr (case lc_exit_reason p of Some r \<Rightarrow> state_text r | None \<Rightarrow> [])"
    by (simp_all add: lifecycle_as_dict_def)
  have e: "lc_exit_reason p = (if state_terminal (lc_state p) then Some (lc_state p) else None)"
    using assms(1) by (simp add: lifecycle_ok_def)
  have "(if no_reason (vget ?d ''exit_reason'') then None
      else lifecycle_state_from_value (vget ?d ''exit_reason'')) = lc_exit_reason p"
    using e by (auto simp: v no_reason_def lifecycle_state_from_value_def)
  then show ?thesis
    using decode_fields_round [OF assms] e
    by (simp add: plan_lifecycle_from_wire_def Let_def v lifecycle_state_from_value_def lc_active_def
      admit_some_def admit_def)
qed

text \<open>C31: a lifecycle survives its payload. Decoding what \<open>as_dict\<close> wrote for an accepted lifecycle whose
  prices are floats gives back that lifecycle with its prices rounded to four digits and its times
  rewritten as \<open>isoformat\<close> writes the same instants in UTC, and nothing else changed; the decoder refuses none.
  Of the interpreter it needs that \<open>fromisoformat\<close> reads back what \<open>isoformat\<close> writes for the instants
  that occur in the lifecycle.\<close>

theorem lifecycle_payload_round_trip:
  assumes "PlanLifecycle piso p = Inr q"
    and "list_all price_float [lc_entry p, lc_stop p, lc_target p, lc_trail p, lc_exit_price p]"
    and "list_all (rereads piso) [lc_opened_ts p, lc_filled_ts p, lc_closed_ts p]"
  shows "plan_lifecycle_from_wire piso (VDict (lifecycle_as_dict q)) = Inr (Some (payload_lifecycle piso q))"
proof -
  have "q = p" using assms(1) by (rule PlanLifecycle_same)
  then show ?thesis
    using lifecycle_wire_round [of piso p] assms PlanLifecycle_iff by (simp add: portable_def)
qed

section \<open>Closing on later bars\<close>

lemma scan_close_Some:
  "scan_close piso d s t bs = Inr (Some e) \<Longrightarrow> \<exists>xs b ys. bs = xs @ b # ys
    \<and> list_all (\<lambda>x. resolve_plan_bar_close_event piso d s t x None True = Inr None) xs
    \<and> resolve_plan_bar_close_event piso d s t b None True = Inr (Some e)"
proof (induction bs)
  case (Cons b bs)
  obtain ev where ev: "resolve_plan_bar_close_event piso d s t b None True = Inr ev"
    using Cons.prems by (auto simp: rbind_Inr_iff)
  show ?case
  proof (cases ev)
    case None
    then obtain xs b' ys where "bs = xs @ b' # ys"
      "list_all (\<lambda>x. resolve_plan_bar_close_event piso d s t x None True = Inr None) xs"
      "resolve_plan_bar_close_event piso d s t b' None True = Inr (Some e)"
      using Cons ev by auto
    then show ?thesis using None ev by (intro exI [of _ "b # xs"] exI [of _ b'] exI [of _ ys]) simp
  next
    case (Some e')
    then show ?thesis
      using Cons.prems ev by (intro exI [of _ "[]"] exI [of _ b] exI [of _ bs]) simp
  qed
qed simp

lemma scan_close_None:
  "scan_close piso d s t bs = Inr None \<longleftrightarrow>
    list_all (\<lambda>x. resolve_plan_bar_close_event piso d s t x None True = Inr None) bs"
  by (induction bs) (auto simp: rbind_Inr_iff)

text \<open>A plan is closed by the first bar after its opening that proves a terminal fact: every
  earlier later bar left it open, and bars at or before the opening are never consulted.\<close>

theorem first_later_bar_closes_the_plan:
  assumes "parse_aware_utc_ts piso opened_ts = Inr (Some t0)" "\<exists>b \<in> set bars. t0 < bar_ts b"
    and "trade_plan_close_event piso d entry s t bars opened_ts = Inr event"
    and "coherent_trade_plan d entry s t"
  shows "case event of
      None \<Rightarrow> list_all (\<lambda>b. t0 < bar_ts b \<longrightarrow> resolve_plan_bar_close_event piso d s t b None True = Inr None) bars
    | Some e \<Rightarrow> (\<exists>xs b ys. filter (\<lambda>b. t0 < bar_ts b) bars = xs @ b # ys
        \<and> list_all (\<lambda>x. resolve_plan_bar_close_event piso d s t x None True = Inr None) xs
        \<and> resolve_plan_bar_close_event piso d s t b None True = Inr (Some e))"
proof -
  have "filter (\<lambda>b. t0 < bar_ts b) bars \<noteq> []" "bars \<noteq> []"
    using assms(2) by (auto simp: filter_empty_conv)
  then have "scan_close piso d s t (filter (\<lambda>b. t0 < bar_ts b) bars) = Inr event"
    using assms by (simp add: trade_plan_close_event_def bars_after_signal_def)
  then show ?thesis
    using scan_close_Some scan_close_None by (cases event) (auto simp: list_all_iff)
qed

text \<open>A candidate whose opening time cannot be read is not annotated but ends the whole pass
  with an exception: the close falls back to the last bar, and the lifecycle that records it
  refuses the unreadable time.\<close>

theorem unreadable_open_time_raises:
  assumes "vget (sc_details c) ''ts'' = VStr s" "s \<noteq> []" "piso (replace_Z s) = None"
    and "candidate_plan c = Inr (entry, stop_price, target)" "bars \<noteq> []"
    and "coherent_trade_plan (sc_direction c) entry stop_price target"
    and "resolve_plan_bar_close_event piso (sc_direction c) stop_price target (last bars) None False
      = Inr (Some e)"
  shows "annotate_candidate_lifecycle piso pystr bars c
    = Inl (TypeError ''PlanLifecycle timestamps must be aware ISO strings or None'')"
proof -
  have p: "parse_aware_utc_ts piso (VStr s) = Inr None"
    using assms(2,3) by (simp add: parse_aware_utc_ts_def)
  have o: "either_value (vget (sc_details c) ''ts'') (vget (sc_details c) ''opened_ts'') = VStr s"
    using assms(1,2) by (simp add: either_value_def)
  have e: "trade_plan_close_event piso (sc_direction c) entry stop_price target bars (VStr s) = Inr (Some e)"
    using assms(5-7) p by (simp add: trade_plan_close_event_def bars_after_signal_def)
  have f: "sc_direction c \<noteq> FLAT" "list_all price_ok [entry, stop_price, target]"
    using assms(6) by (auto simp: coherent_iff price_ok_def)
  have x: "price_ok (ce_exit_price e)" using resolve_Some [OF assms(7)] by blast
  have t: "require_timestamp piso (Some s) m = Inl (TypeError m)" for m
    using p by (simp add: require_timestamp_def timestamp_ok_def)
  show ?thesis
    using assms(2,4) e f x t
    by (simp add: annotate_candidate_lifecycle_def Let_def o text_of_def PlanLifecycle_def
      lifecycle_defaults_def price_ok_def)
qed

section \<open>Examples of the laws\<close>

definition example_lifecycle :: plan_lifecycle where
  "example_lifecycle = (lifecycle_defaults ''w5'' LcWaitEntry LONG)\<lparr>lc_entry := Some (Fin (809 / 8)),
     lc_stop := Some (Fin 98), lc_target := Some (Fin 110), lc_opened_ts := Some ''1970-01-01T01:01+01:00''\<rparr>"

text \<open>A parser that reads the local time of the example and the text \<open>isoformat\<close> writes for it.\<close>

definition local_piso :: iso_parser where
  "local_piso s = (if s = ''1970-01-01T01:01+01:00'' then Some (DateTime 3660000000 (Some 3600000000))
     else Some (utc_datetime 60000000))"

lemma example_reads: "reads_back example_piso 60000000" "in_dt_range 60000000"
  by (simp_all add: reads_back_def example_piso_def in_dt_range_def dt_min_def dt_max_def)

lemma local_reads: "reads_back local_piso 60000000"
proof -
  have "length (isoformat_utc 60000000) = 25" by code_simp
  then have "isoformat_utc 60000000 \<noteq> ''1970-01-01T01:01+01:00''" by auto
  then show ?thesis by (simp add: reads_back_def local_piso_def)
qed

lemma local_time: "parse_aware_utc_ts local_piso (VStr ''1970-01-01T01:01+01:00'') = Inr (Some 60000000)"
proof -
  have "replace_Z ''1970-01-01T01:01+01:00'' = ''1970-01-01T01:01+01:00''" by (rule replace_Z_id) simp
  then show ?thesis
    using example_reads(2) by (simp add: parse_aware_utc_ts_def local_piso_def is_aware_def astimezone_utc_def)
qed

lemma example_lifecycle_ok: "PlanLifecycle local_piso example_lifecycle = Inr example_lifecycle"
  by (simp add: PlanLifecycle_iff lifecycle_ok_def example_lifecycle_def lifecycle_defaults_def price_ok_def
    timestamps_ok_def timestamp_ok_def local_time)

theorem lifecycle_payload_round_trip_witness:
  "\<exists>p. plan_lifecycle_from_wire local_piso (VDict (lifecycle_as_dict example_lifecycle)) = Inr (Some p)
    \<and> lc_opened_ts p = Some (isoformat_utc 60000000) \<and> lc_stop p = Some (Fin 98)"
proof -
  have "fl_ok (Fin (809 / 8))"
    using fl_ok_rnd [of "809 / 8"] rnd_exact [of "809 / 8" 809 "- 3"] by (simp add: power_int_def power3_eq_cube)
  then have "list_all price_float [lc_entry example_lifecycle, lc_stop example_lifecycle,
      lc_target example_lifecycle, lc_trail example_lifecycle, lc_exit_price example_lifecycle]"
    by (simp add: price_float_def example_lifecycle_def lifecycle_defaults_def)
  moreover have "list_all (rereads local_piso) [lc_opened_ts example_lifecycle,
      lc_filled_ts example_lifecycle, lc_closed_ts example_lifecycle]"
    by (simp add: rereads_def example_lifecycle_def lifecycle_defaults_def local_time local_reads)
  ultimately show ?thesis
    using lifecycle_payload_round_trip [OF example_lifecycle_ok]
    by (simp add: payload_lifecycle_def example_lifecycle_def lifecycle_defaults_def utc_text_def local_time
      round_half_even_def)
qed

theorem first_later_bar_closes_the_plan_witness:
  "\<exists>e xs b ys. trade_plan_close_event example_piso LONG (Some (Fin 100)) (Some (Fin 90)) (Some (Fin 101))
      [example_bar] (VDateTime (utc_datetime 0)) = Inr (Some e)
    \<and> filter (\<lambda>b. 0 < bar_ts b) [example_bar] = xs @ b # ys
    \<and> resolve_plan_bar_close_event example_piso LONG (Some (Fin 90)) (Some (Fin 101)) b None True = Inr (Some e)"
proof -
  have f: "bar_fact LONG (Some (Fin 90)) (Some (Fin 101)) example_bar None True = Some (LcTargetHit, Some (Fin 101))"
    by (simp add: bar_fact_def Let_def protective_level_def beyond_def terminal_fact_def touched_def example_bar_def)
  obtain e where e: "resolve_plan_bar_close_event example_piso LONG (Some (Fin 90)) (Some (Fin 101))
      example_bar None True = Inr (Some e)"
    using resolve_total [OF _ _ f] example_reads by (simp add: price_ok_def example_bar_def)
  have p: "parse_aware_utc_ts example_piso (VDateTime (utc_datetime 0)) = Inr (Some 0)"
    by (simp add: parse_aware_utc_ts_def in_dt_range_def dt_min_def dt_max_def)
  have c: "coherent_trade_plan LONG (Some (Fin 100)) (Some (Fin 90)) (Some (Fin 101))"
    by (simp add: coherent_trade_plan_def)
  have ts: "0 < bar_ts example_bar" by (simp add: example_bar_def)
  then have t: "trade_plan_close_event example_piso LONG (Some (Fin 100)) (Some (Fin 90)) (Some (Fin 101))
      [example_bar] (VDateTime (utc_datetime 0)) = Inr (Some e)"
    using p c e by (simp add: trade_plan_close_event_def bars_after_signal_def)
  with first_later_bar_closes_the_plan [OF p _ t c] ts show ?thesis by fastforce
qed

definition unreadable_piso :: iso_parser where
  "unreadable_piso s = (if s = ''soon'' then None else Some (utc_datetime 60000000))"

definition example_candidate :: signal_candidate where
  "example_candidate = \<lparr>sc_name = ''w5'', sc_direction = LONG, sc_score = Fin 80, sc_level = None,
     sc_reason = [], sc_trigger_event = \<lparr>fact_code = ''x.y'', fact_attributes = []\<rparr>,
     sc_details = [(VStr ''ts'', VStr ''soon''), (VStr ''trigger'', VInt 100), (VStr ''stop'', VInt 90),
       (VStr ''target'', VInt 101)],
     sc_kind = KindFade, sc_source = [], sc_role = [], sc_reason_code = ''x.y'',
     sc_producer_phase = None, sc_finality = FinalConfirmed\<rparr>"

theorem unreadable_open_time_raises_witness:
  "annotate_candidate_lifecycle unreadable_piso (\<lambda>_. []) [example_bar] example_candidate
    = Inl (TypeError ''PlanLifecycle timestamps must be aware ISO strings or None'')"
proof -
  have f: "bar_fact LONG (Some (Fin 90)) (Some (Fin 101)) example_bar None False = Some (LcTargetHit, None)"
    by (simp add: bar_fact_def Let_def protective_level_def beyond_def terminal_fact_def example_bar_def)
  have "hd (isoformat_utc 60000000) = CHR ''1''" by code_simp
  then have "isoformat_utc 60000000 \<noteq> ''soon''" by auto
  then have "reads_back unreadable_piso 60000000" by (simp add: reads_back_def unreadable_piso_def)
  then obtain e where e: "resolve_plan_bar_close_event unreadable_piso LONG (Some (Fin 90)) (Some (Fin 101))
      example_bar None False = Inr (Some e)"
    using resolve_total [OF _ _ f, of unreadable_piso] example_reads by (simp add: price_ok_def example_bar_def)
  have p: "candidate_plan example_candidate = Inr (Some (Fin 100), Some (Fin 90), Some (Fin 101))"
    by (simp add: candidate_plan_def example_candidate_def Let_def float_or_none_def float_of_int_def
      vget_def nested_mapping_def)
  have "replace_Z ''soon'' = ''soon''" by (rule replace_Z_id) simp
  then have z: "unreadable_piso (replace_Z ''soon'') = None" by (simp only: unreadable_piso_def if_True simp_thms)
  have d: "sc_direction example_candidate = LONG" "vget (sc_details example_candidate) ''ts'' = VStr ''soon''"
    by (simp_all add: example_candidate_def vget_def)
  show ?thesis
    by (rule unreadable_open_time_raises [where c = example_candidate and s = "''soon''"
        and piso = unreadable_piso, OF d(2) list.distinct(2) z p])
      (use e in \<open>simp_all add: d coherent_trade_plan_def\<close>)
qed

end
