(* ===== verification/BarSeries.thy ===== *)
theory BarSeries
  imports Bars
begin

text \<open>
  Series of bars: \<open>runtime/bar_series.py\<close> (order, deduplication, merging by authority),
  \<open>runtime/derived_timeframes.py\<close> (the projection of stored bars onto a virtual timeframe) and
  \<open>runtime/bar_quality.py\<close> (which bars are authoritative). \<open>bar.ts\<close> is UTC, so \<open>astimezone(UTC)\<close>
  of it is the identity.
\<close>

section \<open>Ordered series\<close>

fun ordered_from :: "string \<Rightarrow> string \<Rightarrow> bool \<Rightarrow> instant option \<Rightarrow> bar list \<Rightarrow> unit res" where
  "ordered_from timeframe field confirmed previous [] = Inr ()"
| "ordered_from timeframe field confirmed previous (b # bs) =
    (if bar_timeframe b \<noteq> timeframe
     then Inl (ValueError (field @ '' timeframe mismatch: expected='' @ timeframe @ '' actual='' @ bar_timeframe b))
     else if (case previous of None \<Rightarrow> False | Some p \<Rightarrow> bar_ts b \<le> p)
     then Inl (ValueError (field @ '' must be strictly timestamp-ordered''))
     else if confirmed \<and> (\<not> bar_closed b \<or> bar_state b \<noteq> CONFIRMED)
     then Inl (ValueError (field @ '' must contain only confirmed bars''))
     else ordered_from timeframe field confirmed (Some (bar_ts b)) bs)"

text \<open>A value that is no list of bars is \<open>None\<close>.\<close>

definition require_ordered_bar_list :: "bar list option \<Rightarrow> string \<Rightarrow> string \<Rightarrow> bool \<Rightarrow> bar list res" where
  "require_ordered_bar_list v timeframe field confirmed = (case v of
      None \<Rightarrow> Inl (TypeError (field @ '' must be a Bar list''))
    | Some bs \<Rightarrow> rbind (ordered_from timeframe field confirmed None bs) (\<lambda>_. Inr bs))"

text \<open>A dictionary keyed by timestamp, assigned bar by bar, and its values in key order.\<close>

definition latest_by_timestamp :: "bar list \<Rightarrow> (instant, bar) pydict" where
  "latest_by_timestamp bars = foldl (\<lambda>d b. dset (bar_ts b) b d) [] bars"

definition values_by_key :: "(instant, 'v) pydict \<Rightarrow> 'v list" where
  "values_by_key d = map (\<lambda>k. the (dget d k)) (sort (dkeys d))"

definition dedupe_bars_by_timestamp :: "bar list \<Rightarrow> bar list" where
  "dedupe_bars_by_timestamp bars = values_by_key (latest_by_timestamp (sort_key bar_ts bars))"

text \<open>The candidates in order of priority; the first bar of a timestamp is selected.\<close>

definition select_first :: "int \<Rightarrow> (instant, int \<times> bar) pydict \<Rightarrow> bar \<Rightarrow> (instant, int \<times> bar) pydict" where
  "select_first priority selected b =
    (if dhas selected (bar_ts b) then selected else dset (bar_ts b) (priority, b) selected)"

definition merge_history_candidates_by_authority :: "(int \<times> bar list) list \<Rightarrow> bar list" where
  "merge_history_candidates_by_authority candidates =
    map snd (values_by_key
      (foldl (\<lambda>selected (priority, bars). foldl (select_first priority) selected (sort_key bar_ts bars))
        [] (sort_key fst candidates)))"

section \<open>Derived timeframes\<close>

definition route_contract :: "bar_provenance \<Rightarrow> string \<times> string \<times> string \<times> string \<times> string \<times> string" where
  "route_contract p = (bp_provider p, bp_instrument_id p, bp_route_fingerprint p,
     bp_provider_contract_id p, bp_provider_contract_type p, bp_data_type p)"

definition derived_provenance :: "bar list \<Rightarrow> string \<Rightarrow> bar_provenance option res" where
  "derived_provenance source_bars source_interval = (case map bar_provenance source_bars of
      Some first # rest \<Rightarrow>
        if list_ex (\<lambda>p. case p of None \<Rightarrow> True | Some q \<Rightarrow> route_contract q \<noteq> route_contract first) rest
        then Inr None
        else rbind (BarProvenance (VStr (bp_provider first)) (VStr (bp_instrument_id first))
            (VStr (bp_route_fingerprint first)) (VEnum ''BarProviderRequest'' ''deterministic_aggregation'')
            (VStr (if bp_provider_contract_id first \<noteq> [] then bp_provider_contract_id first
                   else ''CANONICAL_STORAGE''))
            (VStr (bp_provider_contract_type first)) (VStr (bp_data_type first)) (VStr source_interval))
          (\<lambda>p. Inr (Some p))
    | _ \<Rightarrow> Inr None)"

text \<open>
  \<open>sum\<close> of floats: the compensated summation of CPython 3.12 and later, started at the first
  value. \<open>max\<close> and \<open>min\<close> of a generator keep the first extreme value.
\<close>

definition cs_add :: "pyfloat \<times> pyfloat \<Rightarrow> pyfloat \<Rightarrow> pyfloat \<times> pyfloat" where
  "cs_add acc x = (case acc of (hi, lo) \<Rightarrow>
    (let t = fadd hi x in
     (t, fadd lo (if fle (fabs x) (fabs hi) then fadd (fsub hi t) x else fadd (fsub x t) hi))))"

fun py_sum :: "pyfloat list \<Rightarrow> pyfloat" where
  "py_sum [] = Fin 0"
| "py_sum (x # xs) = (case foldl cs_add (fadd (Fin 0) x, Fin 0) xs of
     (hi, lo) \<Rightarrow> if lo \<noteq> Fin 0 \<and> isfinite lo then fadd hi lo else hi)"

definition py_max :: "pyfloat list \<Rightarrow> pyfloat" where
  "py_max xs = foldl fmax (hd xs) (tl xs)"

definition py_min :: "pyfloat list \<Rightarrow> pyfloat" where
  "py_min xs = foldl fmin (hd xs) (tl xs)"

definition group_by_bucket :: "string \<Rightarrow> bar list \<Rightarrow> (instant, bar list) pydict res" where
  "group_by_bucket interval bars = foldM (\<lambda>grouped b.
     rbind (interval_bucket (bar_ts b) interval) (\<lambda>k.
       Inr (dset k (dget_default grouped k [] @ [b]) grouped))) [] bars"

text \<open>
  Whether a slot holds exactly its children. The shifts of the comparison stay inside the slot,
  whose end the caller computed before.
\<close>

definition slot_complete :: "int \<Rightarrow> int \<Rightarrow> instant \<Rightarrow> bar list \<Rightarrow> bool" where
  "slot_complete expected source_span bucket children =
    (int (length children) = expected
     \<and> list_all (\<lambda>(i, c). bar_ts c = bucket + source_span * int i) (enumerate 0 children))"

definition confirmed_bar :: "bar \<Rightarrow> bool" where
  "confirmed_bar b = (bar_closed b \<and> bar_state b = CONFIRMED)"

text \<open>One slot: \<open>None\<close> when it has elapsed and is not confirmed.\<close>

definition project_slot ::
  "string \<Rightarrow> string \<Rightarrow> int \<Rightarrow> int \<Rightarrow> instant \<Rightarrow> instant \<times> bar list \<Rightarrow> bar option res" where
  "project_slot interval source_interval target_seconds source_seconds current slot =
    (case slot of (bucket, children) \<Rightarrow>
     rbind (instant_add bucket (target_seconds * us_per_second)) (\<lambda>slot_end.
      let elapsed = (slot_end \<le> current);
          complete = slot_complete (target_seconds div source_seconds) (source_seconds * us_per_second)
            bucket children;
          confirmed = (elapsed \<and> complete \<and> list_all confirmed_bar children)
      in if elapsed \<and> \<not> confirmed then Inr None
         else rbind (derived_provenance children source_interval) (\<lambda>provenance.
           rbind (Bar (VStr (bar_symbol (last children))) (VDateTime (utc_datetime bucket))
             (VFloat (bar_open (hd children))) (VFloat (py_max (map bar_high children)))
             (VFloat (py_min (map bar_low children))) (VFloat (bar_close (last children)))
             (VFloat (py_sum (map (\<lambda>c. fmax (bar_volume c) (Fin 0)) children)))
             (VStr interval) (VStr (''derived:'' @ source_interval)) (VBool confirmed)
             (VEnum ''BarState'' (bar_state_text (if confirmed then CONFIRMED else FORMING))) provenance)
           (\<lambda>b. Inr (Some b)))))"

text \<open>The bars appended by the loop.\<close>

fun somes :: "'a option list \<Rightarrow> 'a list" where
  "somes [] = []"
| "somes (None # xs) = somes xs"
| "somes (Some x # xs) = x # somes xs"

text \<open>\<open>as_of\<close> is the argument of that name, \<open>now\<close> the clock.\<close>

definition derive_chart_bars :: "bar list \<Rightarrow> string \<Rightarrow> instant option \<Rightarrow> instant \<Rightarrow> bar list res" where
  "derive_chart_bars bars interval as_of now =
    (if \<not> is_derived_chart_interval interval then Inr bars
     else rbind (canonical_bar_source_interval interval) (\<lambda>source_interval.
      let ordered = values_by_key (latest_by_timestamp bars) in
      if list_ex (\<lambda>b. bar_timeframe b \<noteq> source_interval) ordered
      then Inl (ValueError (''DERIVED_CHART_SOURCE_TIMEFRAME_MISMATCH target='' @ interval
        @ '' source='' @ source_interval))
      else rbind (group_by_bucket interval ordered) (\<lambda>grouped.
        let target_seconds = interval_seconds interval;
            source_seconds = interval_seconds source_interval in
        if target_seconds mod source_seconds \<noteq> 0
        then Inl (ValueError (''DERIVED_CHART_INTERVAL_RATIO_INVALID target='' @ interval
          @ '' source='' @ source_interval))
        else rbind (mapM (project_slot interval source_interval target_seconds source_seconds
            (case as_of of Some t \<Rightarrow> t | None \<Rightarrow> now)) grouped) (\<lambda>projected.
          Inr (somes projected)))))"

section \<open>Authoritative bars\<close>

definition is_provisional_bar :: "bar \<Rightarrow> bool" where
  "is_provisional_bar b = (\<not> bar_closed b \<or> bar_state b \<noteq> CONFIRMED)"

definition confirmed_storage_bars :: "bar list \<Rightarrow> bar list" where
  "confirmed_storage_bars bars = filter (\<lambda>b. \<not> is_provisional_bar b) bars"

definition canonical_storage_bar_provenance :: "string \<Rightarrow> string \<Rightarrow> string \<Rightarrow> bar_provenance res" where
  "canonical_storage_bar_provenance provider instrument_id fingerprint =
    BarProvenance (VStr provider) (VStr instrument_id) (VStr fingerprint)
      (VEnum ''BarProviderRequest'' ''canonical_storage'') (VStr '''') (VStr ''CANONICAL_STORAGE'')
      (VStr ''canonical_ohlcv'') VNone"

text \<open>What the caller demands of the provenance; \<open>None\<close> demands nothing.\<close>

record bar_expectation =
  ex_instrument_id :: "string option"
  ex_route_fingerprint :: "string option"
  ex_request_types :: "provider_request list option"
  ex_contract_id :: "string option"
  ex_contract_type :: "string option"
  ex_data_type :: "string option"

text \<open>The minutes of a canonical timeframe text. \<open>isdigit\<close> admits digits \<open>int\<close> refuses.\<close>

definition exact_minutes :: "string \<Rightarrow> int option res" where
  "exact_minutes s =
    (if \<not> py_endswith s ''m'' \<or> \<not> py_isdigit (drop_last 1 s) then Inr None
     else rbind (py_int_of_str (drop_last 1 s)) (\<lambda>n.
       Inr (if n \<le> 0 \<or> s \<noteq> str_of_int n @ ''m'' then None else Some n)))"

definition aggregation_reject_reason :: "string \<Rightarrow> string \<Rightarrow> string option res" where
  "aggregation_reject_reason source_timeframe target_timeframe =
    (let mismatch = Some ''provider_aggregation_timeframe_mismatch'' in
     rbind (exact_minutes source_timeframe) (\<lambda>source_minutes. case source_minutes of
       None \<Rightarrow> Inr mismatch
     | Some n \<Rightarrow> rbind (exact_minutes target_timeframe) (\<lambda>target_minutes. case target_minutes of
         None \<Rightarrow> Inr mismatch
       | Some m \<Rightarrow> Inr (if m \<le> n \<or> m mod n \<noteq> 0 then mismatch else None))))"

definition demanded :: "'a option \<Rightarrow> 'a \<Rightarrow> bool" where
  "demanded expected actual = (case expected of None \<Rightarrow> True | Some x \<Rightarrow> actual = x)"

definition authoritative_bar_reject_reason :: "pyval \<Rightarrow> bar \<Rightarrow> bar_expectation \<Rightarrow> string option res" where
  "authoritative_bar_reject_reason provider b ex =
    (if is_provisional_bar b then Inr (Some ''provisional_bar'')
     else if bar_ts b mod (60 * us_per_second) \<noteq> 0
     then Inr (Some ''provider_timestamp_not_minute_aligned'')
     else case bar_provenance b of
       None \<Rightarrow> Inr (Some ''provider_provenance_missing'')
     | Some p \<Rightarrow>
        if bp_provider p \<noteq> str_of provider then Inr (Some ''provider_provenance_mismatch'')
        else if \<not> demanded (ex_instrument_id ex) (bp_instrument_id p)
        then Inr (Some ''instrument_id_mismatch'')
        else if \<not> demanded (ex_route_fingerprint ex) (bp_route_fingerprint p)
        then Inr (Some ''route_fingerprint_mismatch'')
        else if (case ex_request_types ex of None \<Rightarrow> False | Some ts \<Rightarrow> bp_request_type p \<notin> set ts)
        then Inr (Some ''provider_request_type_mismatch'')
        else if \<not> demanded (ex_contract_id ex) (bp_provider_contract_id p)
        then Inr (Some ''provider_contract_id_mismatch'')
        else if \<not> demanded (ex_contract_type ex) (bp_provider_contract_type p)
        then Inr (Some ''provider_contract_type_mismatch'')
        else if \<not> demanded (ex_data_type ex) (bp_data_type p)
        then Inr (Some ''provider_data_type_mismatch'')
        else if bp_request_type p = DETERMINISTIC_AGGREGATION
        then aggregation_reject_reason
          (case bp_source_timeframe p of None \<Rightarrow> [] | Some s \<Rightarrow> s) (bar_timeframe b)
        else Inr None)"

end
