(* ===== verification/BarSeriesLaws.thy ===== *)
theory BarSeriesLaws
  imports BarSeries
begin

text \<open>
  What \<^theory_text>\<open>BarSeries\<close> promises: the series it returns are strictly ordered by time, which bar of a
  timestamp survives, what a derived bar is made of, and that a derived bar of authoritative
  children is authoritative itself.
\<close>

section \<open>Ordered series\<close>

definition strictly_ordered :: "bar list \<Rightarrow> bool" where
  "strictly_ordered bs = sorted_wrt (<) (map bar_ts bs)"

lemma ordered_from_iff:
  "ordered_from tf field c previous bs = Inr u \<longleftrightarrow>
    sorted_wrt (<) ((case previous of None \<Rightarrow> [] | Some p \<Rightarrow> [p]) @ map bar_ts bs)
    \<and> (\<forall>b \<in> set bs. bar_timeframe b = tf) \<and> (c \<longrightarrow> (\<forall>b \<in> set bs. confirmed_bar b))"
proof (induction bs arbitrary: previous)
  case Nil
  then show ?case by (auto split: option.splits)
next
  case (Cons b bs)
  then show ?case
    by (cases previous) (auto simp: confirmed_bar_def intro: less_trans)
qed

lemma require_ordered_iff:
  "require_ordered_bar_list v tf field c = Inr bs \<longleftrightarrow>
    v = Some bs \<and> strictly_ordered bs \<and> (\<forall>b \<in> set bs. bar_timeframe b = tf)
    \<and> (c \<longrightarrow> (\<forall>b \<in> set bs. confirmed_bar b))"
  by (auto simp: require_ordered_bar_list_def strictly_ordered_def ordered_from_iff res_simps
      split: option.splits)

section \<open>Dictionaries keyed by timestamp\<close>

lemma set_dkeys_dset [simp]: "set (dkeys (dset k v d)) = insert k (set (dkeys d))"
  by (auto simp: dkeys_dset dhas_in_dkeys)

lemma sorted_dkeys: "dict_ok d \<Longrightarrow> sorted_wrt (<) (sort (dkeys d))"
  by (simp add: dict_ok_def dkeys_def strict_sorted_iff)

lemma values_by_key_keys:
  assumes "dict_ok d" and "\<And>k v. dget d k = Some v \<Longrightarrow> f v = k"
  shows "map f (values_by_key d) = sort (dkeys d)"
proof -
  have "f (the (dget d k)) = k" if "k \<in> set (dkeys d)" for k
    using that assms(2) by (auto simp: dhas_in_dkeys [symmetric] dhas_iff)
  then have "map (f \<circ> (\<lambda>k. the (dget d k))) (sort (dkeys d)) = sort (dkeys d)"
    by (intro map_idI) simp
  then show ?thesis by (simp add: values_by_key_def)
qed

lemma set_values_by_key: "set (values_by_key d) = {v. \<exists>k. dget d k = Some v}"
  by (auto simp: values_by_key_def dhas_in_dkeys [symmetric] dhas_iff image_iff)
    (metis dhas_iff dhas_in_dkeys option.sel)

lemma first_where_append:
  "first_where p (xs @ ys) = (case first_where p xs of None \<Rightarrow> first_where p ys | Some x \<Rightarrow> Some x)"
  by (induction xs) (auto simp: first_where_def)

lemma first_where_Cons: "first_where p (x # xs) = (if p x then Some x else first_where p xs)"
  by (simp add: first_where_def)

lemma first_where_Nil [simp]: "first_where p [] = None"
  by (simp add: first_where_def)

lemma first_where_filter: "first_where p xs = (case filter p xs of [] \<Rightarrow> None | x # _ \<Rightarrow> Some x)"
  by (induction xs) (auto simp: first_where_def)

lemma first_where_split:
  "first_where p xs = Some x \<longleftrightarrow> (\<exists>ys zs. xs = ys @ x # zs \<and> p x \<and> (\<forall>y \<in> set ys. \<not> p y))"
proof
  assume "first_where p xs = Some x"
  then show "\<exists>ys zs. xs = ys @ x # zs \<and> p x \<and> (\<forall>y \<in> set ys. \<not> p y)"
  proof (induction xs)
    case (Cons a xs)
    show ?case
    proof (cases "p a")
      case True
      with Cons.prems have "x = a" by (simp add: first_where_Cons)
      with True have "a # xs = [] @ x # xs \<and> p x" by simp
      then show ?thesis by fastforce
    next
      case False
      with Cons obtain ys zs where "xs = ys @ x # zs" "p x" "\<forall>y \<in> set ys. \<not> p y"
        by (auto simp: first_where_Cons)
      with False show ?thesis by (intro exI [of _ "a # ys"] exI [of _ zs]) simp
    qed
  qed (simp add: first_where_def)
next
  assume "\<exists>ys zs. xs = ys @ x # zs \<and> p x \<and> (\<forall>y \<in> set ys. \<not> p y)"
  then show "first_where p xs = Some x"
    by (auto simp: first_where_append first_where_Cons first_where_None split: option.splits
        dest!: first_where_Some)
qed

text \<open>A stable sort by time keeps the first and the last bar of every timestamp.\<close>

lemma first_where_sort_key:
  "first_where (\<lambda>b. f b = t) (sort_key f xs) = first_where (\<lambda>b. f b = t) xs"
  by (simp add: first_where_filter sort_key_stable)

lemma first_where_rev_sort_key:
  "first_where (\<lambda>b. f b = t) (rev (sort_key f xs)) = first_where (\<lambda>b. f b = t) (rev xs)"
  by (simp add: first_where_filter rev_filter [symmetric] sort_key_stable)

lemma latest_snoc: "latest_by_timestamp (bs @ [b]) = dset (bar_ts b) b (latest_by_timestamp bs)"
  by (simp add: latest_by_timestamp_def)

lemma latest_Nil [simp]: "latest_by_timestamp [] = []"
  by (simp add: latest_by_timestamp_def)

lemma latest_dget: "dget (latest_by_timestamp bs) t = first_where (\<lambda>b. bar_ts b = t) (rev bs)"
  by (induction bs rule: rev_induct) (auto simp: latest_snoc first_where_Cons)

lemma latest_ok: "dict_ok (latest_by_timestamp bs)"
  by (induction bs rule: rev_induct) (auto simp: latest_snoc)

lemma latest_ts: "dget (latest_by_timestamp bs) t = Some b \<Longrightarrow> bar_ts b = t"
  by (auto simp: latest_dget dest: first_where_Some)

lemma latest_ordered: "strictly_ordered (values_by_key (latest_by_timestamp bs))"
  unfolding strictly_ordered_def
  by (subst values_by_key_keys [OF latest_ok latest_ts]) (simp_all add: sorted_dkeys latest_ok)

lemma split_rev:
  "(\<exists>ys zs. rev bs = ys @ b # zs \<and> (\<forall>z \<in> set ys. p z)) \<longleftrightarrow>
    (\<exists>ys zs. bs = ys @ b # zs \<and> (\<forall>z \<in> set zs. p z))"
proof
  assume "\<exists>ys zs. rev bs = ys @ b # zs \<and> (\<forall>z \<in> set ys. p z)"
  then obtain ys zs where "rev (rev bs) = rev (ys @ b # zs)" "\<forall>z \<in> set ys. p z" by metis
  then show "\<exists>ys zs. bs = ys @ b # zs \<and> (\<forall>z \<in> set zs. p z)"
    by (intro exI [of _ "rev zs"] exI [of _ "rev ys"]) simp
next
  assume "\<exists>ys zs. bs = ys @ b # zs \<and> (\<forall>z \<in> set zs. p z)"
  then obtain ys zs where "bs = ys @ b # zs" "\<forall>z \<in> set zs. p z" by blast
  then show "\<exists>ys zs. rev bs = ys @ b # zs \<and> (\<forall>z \<in> set ys. p z)"
    by (intro exI [of _ "rev zs"] exI [of _ "rev ys"]) simp
qed

lemma latest_members:
  "b \<in> set (values_by_key (latest_by_timestamp bs)) \<longleftrightarrow>
    (\<exists>ys zs. bs = ys @ b # zs \<and> (\<forall>z \<in> set zs. bar_ts z \<noteq> bar_ts b))"
proof -
  have "b \<in> set (values_by_key (latest_by_timestamp bs)) \<longleftrightarrow>
      first_where (\<lambda>x. bar_ts x = bar_ts b) (rev bs) = Some b"
    by (auto simp: set_values_by_key latest_dget) (metis (mono_tags) first_where_Some)
  also have "\<dots> \<longleftrightarrow> (\<exists>ys zs. rev bs = ys @ b # zs \<and> (\<forall>z \<in> set ys. bar_ts z \<noteq> bar_ts b))"
    by (simp add: first_where_split)
  also have "\<dots> \<longleftrightarrow> (\<exists>ys zs. bs = ys @ b # zs \<and> (\<forall>z \<in> set zs. bar_ts z \<noteq> bar_ts b))"
    by (rule split_rev)
  finally show ?thesis .
qed

lemma strictly_ordered_eqI:
  assumes "strictly_ordered xs" "strictly_ordered ys" "set xs = set ys"
  shows "xs = ys"
proof -
  have "map bar_ts xs = map bar_ts ys"
    by (rule sorted_distinct_set_unique)
      (use assms in \<open>auto simp: strictly_ordered_def strict_sorted_iff\<close>)
  moreover have "inj_on bar_ts (set xs \<union> set ys)"
    using assms by (auto simp: strictly_ordered_def strict_sorted_iff distinct_map)
  ultimately show ?thesis by (rule map_inj_on)
qed

lemma dedupe_is_latest: "dedupe_bars_by_timestamp bs = values_by_key (latest_by_timestamp bs)"
proof (rule strictly_ordered_eqI)
  show "set (dedupe_bars_by_timestamp bs) = set (values_by_key (latest_by_timestamp bs))"
    by (auto simp: dedupe_bars_by_timestamp_def set_values_by_key latest_dget first_where_rev_sort_key)
qed (simp_all add: dedupe_bars_by_timestamp_def latest_ordered)

section \<open>Merging by authority\<close>

definition flat_candidates :: "(int \<times> bar list) list \<Rightarrow> (int \<times> bar) list" where
  "flat_candidates cs = concat (map (\<lambda>(p, bs). map (Pair p) (sort_key bar_ts bs)) cs)"

definition selected :: "(int \<times> bar) list \<Rightarrow> (instant, int \<times> bar) pydict" where
  "selected xs = foldl (\<lambda>d (p, b). select_first p d b) [] xs"

lemma selected_snoc: "selected (xs @ [x]) = select_first (fst x) (selected xs) (snd x)"
  by (simp add: selected_def case_prod_beta)

lemma foldl_Pair: "foldl (select_first p) d bs = foldl (\<lambda>d (p, b). select_first p d b) d (map (Pair p) bs)"
  by (induction bs arbitrary: d) simp_all

lemma merge_selected:
  "merge_history_candidates_by_authority cs =
    map snd (values_by_key (selected (flat_candidates (sort_key fst cs))))"
proof -
  have "foldl (\<lambda>d (p, bs). foldl (select_first p) d (sort_key bar_ts bs)) d xs =
      foldl (\<lambda>d (p, b). select_first p d b) d (flat_candidates xs)" for d xs
    by (induction xs arbitrary: d) (auto simp: flat_candidates_def foldl_Pair)
  then show ?thesis by (simp add: merge_history_candidates_by_authority_def selected_def)
qed

lemma selected_Nil [simp]: "selected [] = []"
  by (simp add: selected_def)

lemma selected_ok: "dict_ok (selected xs)"
  by (induction xs rule: rev_induct) (auto simp: selected_snoc select_first_def)

lemma selected_dget: "dget (selected xs) t = first_where (\<lambda>x. bar_ts (snd x) = t) xs"
proof (induction xs arbitrary: t rule: rev_induct)
  case Nil
  then show ?case by simp
next
  case (snoc x xs)
  note here = snoc.IH [of "bar_ts (snd x)"] and there = snoc.IH [of t]
  show ?case
  proof (cases "dget (selected xs) (bar_ts (snd x))")
    case None
    with here there show ?thesis
      by (auto simp: selected_snoc select_first_def first_where_append first_where_Cons dhas_iff
        split: option.splits)
  next
    case (Some y)
    with here there show ?thesis
      by (auto simp: selected_snoc select_first_def first_where_append first_where_Cons dhas_iff
        split: option.splits)
  qed
qed

lemma selected_ts: "dget (selected xs) t = Some x \<Longrightarrow> bar_ts (snd x) = t"
  by (auto simp: selected_dget dest: first_where_Some)

lemma merge_ordered: "strictly_ordered (merge_history_candidates_by_authority cs)"
proof -
  let ?d = "selected (flat_candidates (sort_key fst cs))"
  have "map (bar_ts \<circ> snd) (values_by_key ?d) = sort (dkeys ?d)"
    by (rule values_by_key_keys [OF selected_ok]) (simp add: selected_ts)
  then show ?thesis
    by (simp add: strictly_ordered_def merge_selected sorted_dkeys selected_ok)
qed

lemma first_where_concat_map:
  "first_where p (concat (map g cs)) = Some y \<longleftrightarrow>
    (\<exists>l c r. cs = l @ c # r \<and> (\<forall>c' \<in> set l. \<forall>x \<in> set (g c'). \<not> p x) \<and> first_where p (g c) = Some y)"
proof (induction cs)
  case Nil
  then show ?case by (simp add: first_where_def)
next
  case (Cons a cs)
  show ?case
  proof (cases "first_where p (g a)")
    case None
    then have none: "\<forall>x \<in> set (g a). \<not> p x" by (simp add: first_where_None)
    show ?thesis (is "?l \<longleftrightarrow> ?r")
    proof
      assume ?l
      with None Cons.IH obtain l c r where "cs = l @ c # r"
        "\<forall>c' \<in> set l. \<forall>x \<in> set (g c'). \<not> p x" "first_where p (g c) = Some y"
        by (auto simp: first_where_append)
      with none show ?r by (intro exI [of _ "a # l"] exI [of _ c] exI [of _ r]) simp
    next
      assume ?r
      then obtain l c r where s: "a # cs = l @ c # r"
        "\<forall>c' \<in> set l. \<forall>x \<in> set (g c'). \<not> p x" "first_where p (g c) = Some y" by blast
      with None obtain l' where "l = a # l'" by (cases l) auto
      with s None Cons.IH show ?l by (auto simp: first_where_append)
    qed
  next
    case (Some z)
    then have ex: "\<exists>x \<in> set (g a). p x" by (meson first_where_Some)
    show ?thesis (is "?l \<longleftrightarrow> ?r")
    proof
      assume ?l
      with Some show ?r
        by (intro exI [of _ "[]"] exI [of _ a] exI [of _ cs]) (simp add: first_where_append)
    next
      assume ?r
      then obtain l c r where s: "a # cs = l @ c # r"
        "\<forall>c' \<in> set l. \<forall>x \<in> set (g c'). \<not> p x" "first_where p (g c) = Some y" by blast
      with ex have "l = []" by (cases l) auto
      with s show ?l by (simp add: first_where_append)
    qed
  qed
qed

lemma split_sorted_priorities:
  assumes "distinct (map fst cs)" and "sort_key fst cs = l @ (p, bs) # r"
  shows "set l = {c \<in> set cs. fst c < (p :: int)}"
proof -
  have "sorted (map fst (sort_key fst cs))" by simp
  moreover have "distinct (map fst (sort_key fst cs))"
    using assms(1) by (simp add: distinct_map)
  ultimately have "sorted_wrt (<) (map fst (l @ (p, bs) # r))"
    by (simp add: strict_sorted_iff assms(2))
  moreover have "set cs = set (l @ (p, bs) # r)"
    by (metis assms(2) set_sort)
  ultimately show ?thesis by (auto simp: sorted_wrt_append)
qed

lemma merge_members:
  assumes "distinct (map fst cs)"
  shows "b \<in> set (merge_history_candidates_by_authority cs) \<longleftrightarrow>
    (\<exists>p bs ys zs. (p, bs) \<in> set cs \<and> bs = ys @ b # zs \<and> (\<forall>y \<in> set ys. bar_ts y \<noteq> bar_ts b)
      \<and> (\<forall>(q, bs') \<in> set cs. q < p \<longrightarrow> (\<forall>x \<in> set bs'. bar_ts x \<noteq> bar_ts b)))"
proof -
  let ?P = "\<lambda>x. bar_ts (snd x) = bar_ts b" and ?g = "\<lambda>(p, bs). map (Pair p) (sort_key bar_ts bs)"
  have g: "first_where ?P (?g c) = Some (q, b) \<longleftrightarrow>
      fst c = q \<and> first_where (\<lambda>x. bar_ts x = bar_ts b) (snd c) = Some b" for c :: "int \<times> bar list" and q
  proof -
    have "first_where ?P (map (Pair (fst c)) xs) =
        map_option (Pair (fst c)) (first_where (\<lambda>x. bar_ts x = bar_ts b) xs)" for xs
      by (induction xs) (auto simp: first_where_Cons)
    from this [of "sort_key bar_ts (snd c)"] show ?thesis
      by (cases c) (auto simp: first_where_sort_key)
  qed
  have none: "(\<forall>x \<in> set (?g c). \<not> ?P x) \<longleftrightarrow> (\<forall>x \<in> set (snd c). bar_ts x \<noteq> bar_ts b)" for c
    by (cases c) auto
  have "b \<in> set (merge_history_candidates_by_authority cs) \<longleftrightarrow>
      (\<exists>q. first_where ?P (flat_candidates (sort_key fst cs)) = Some (q, b))"
  proof -
    have "b \<in> set (merge_history_candidates_by_authority cs) \<longleftrightarrow>
        (\<exists>q k. dget (selected (flat_candidates (sort_key fst cs))) k = Some (q, b))"
      by (auto simp: merge_selected set_values_by_key image_iff)
    also have "\<dots> \<longleftrightarrow>
        (\<exists>q. dget (selected (flat_candidates (sort_key fst cs))) (bar_ts b) = Some (q, b))"
      using selected_ts by (metis snd_conv)
    finally show ?thesis by (simp only: selected_dget)
  qed
  also have "\<dots> \<longleftrightarrow> (\<exists>q l c r. sort_key fst cs = l @ c # r
      \<and> (\<forall>c' \<in> set l. \<forall>x \<in> set (?g c'). \<not> ?P x) \<and> first_where ?P (?g c) = Some (q, b))"
    unfolding flat_candidates_def first_where_concat_map by blast
  also have "\<dots> \<longleftrightarrow> (\<exists>l p bs r. sort_key fst cs = l @ (p, bs) # r
      \<and> (\<forall>c' \<in> set l. \<forall>x \<in> set (snd c'). bar_ts x \<noteq> bar_ts b)
      \<and> first_where (\<lambda>x. bar_ts x = bar_ts b) bs = Some b)"
    unfolding g none by (simp only: split_paired_Ex fst_conv snd_conv) blast
  also have "\<dots> \<longleftrightarrow> (\<exists>p bs. (p, bs) \<in> set cs
      \<and> (\<forall>c' \<in> {c \<in> set cs. fst c < p}. \<forall>x \<in> set (snd c'). bar_ts x \<noteq> bar_ts b)
      \<and> first_where (\<lambda>x. bar_ts x = bar_ts b) bs = Some b)" (is "?l \<longleftrightarrow> ?r")
  proof
    assume ?l
    then obtain l p bs r where s: "sort_key fst cs = l @ (p, bs) # r"
      "\<forall>c' \<in> set l. \<forall>x \<in> set (snd c'). bar_ts x \<noteq> bar_ts b"
      "first_where (\<lambda>x. bar_ts x = bar_ts b) bs = Some b" by blast
    have "set (sort_key fst cs) = set (l @ (p, bs) # r)" by (simp only: s(1))
    then have "(p, bs) \<in> set cs" by simp
    with s(2,3) split_sorted_priorities [OF assms s(1)] show ?r by blast
  next
    assume ?r
    then obtain p bs where m: "(p, bs) \<in> set cs"
      "\<forall>c' \<in> {c \<in> set cs. fst c < p}. \<forall>x \<in> set (snd c'). bar_ts x \<noteq> bar_ts b"
      "first_where (\<lambda>x. bar_ts x = bar_ts b) bs = Some b" by blast
    from m(1) have "(p, bs) \<in> set (sort_key fst cs)" by simp
    then obtain l r where s: "sort_key fst cs = l @ (p, bs) # r" by (meson split_list)
    with m(2,3) split_sorted_priorities [OF assms s] show ?l by blast
  qed
  also have "\<dots> \<longleftrightarrow> (\<exists>p bs ys zs. (p, bs) \<in> set cs \<and> bs = ys @ b # zs \<and> (\<forall>y \<in> set ys. bar_ts y \<noteq> bar_ts b)
      \<and> (\<forall>(q, bs') \<in> set cs. q < p \<longrightarrow> (\<forall>x \<in> set bs'. bar_ts x \<noteq> bar_ts b)))"
  proof -
    have e: "(\<forall>c' \<in> {c \<in> set cs. fst c < p}. \<forall>x \<in> set (snd c'). bar_ts x \<noteq> bar_ts b) \<longleftrightarrow>
        (\<forall>(q, bs') \<in> set cs. q < p \<longrightarrow> (\<forall>x \<in> set bs'. bar_ts x \<noteq> bar_ts b))" for p
      by auto
    show ?thesis unfolding e first_where_split simp_thms by blast
  qed
  finally show ?thesis .
qed

section \<open>Extremes of a slot\<close>

lemma foldl_pick:
  assumes "\<And>x y. f x y = x \<or> f x y = y"
  shows "foldl f a xs \<in> insert a (set xs)"
proof (induction xs arbitrary: a)
  case (Cons x xs)
  show ?case using Cons.IH [of "f a x"] assms [of a x] by auto
qed simp

lemma py_max_in: "xs \<noteq> [] \<Longrightarrow> py_max xs \<in> set xs"
  using foldl_pick [of fmax "hd xs" "tl xs"] by (cases xs) (auto simp: py_max_def fmax_def)

lemma py_min_in: "xs \<noteq> [] \<Longrightarrow> py_min xs \<in> set xs"
  using foldl_pick [of fmin "hd xs" "tl xs"] by (cases xs) (auto simp: py_min_def fmin_def)

lemma foldl_fmax_ge:
  "a \<noteq> NaN \<Longrightarrow> \<forall>x \<in> set xs. x \<noteq> NaN \<Longrightarrow> x \<in> insert a (set xs) \<Longrightarrow> fle x (foldl fmax a xs)"
proof (induction xs arbitrary: a x)
  case (Cons y ys)
  have m: "fmax a y \<noteq> NaN" "fle a (fmax a y)" "fle y (fmax a y)"
    using Cons.prems not_flt_fle [of a y] fle_refl by (auto simp: fmax_def flt_imp_fle)
  then have "fle (fmax a y) (foldl fmax (fmax a y) ys)" using Cons by simp
  moreover have "x \<in> set ys \<Longrightarrow> fle x (foldl fmax (fmax a y) ys)" using Cons m by simp
  ultimately show ?case using Cons.prems(3) m fle_trans by auto
qed (simp add: fle_refl)

lemma foldl_fmin_le:
  "a \<noteq> NaN \<Longrightarrow> \<forall>x \<in> set xs. x \<noteq> NaN \<Longrightarrow> x \<in> insert a (set xs) \<Longrightarrow> fle (foldl fmin a xs) x"
proof (induction xs arbitrary: a x)
  case (Cons y ys)
  have m: "fmin a y \<noteq> NaN" "fle (fmin a y) a" "fle (fmin a y) y"
    using Cons.prems not_flt_fle [of y a] fle_refl by (auto simp: fmin_def flt_imp_fle)
  then have "fle (foldl fmin (fmin a y) ys) (fmin a y)" using Cons by simp
  moreover have "x \<in> set ys \<Longrightarrow> fle (foldl fmin (fmin a y) ys) x" using Cons m by simp
  ultimately show ?case using Cons.prems(3) m fle_trans by auto
qed (simp add: fle_refl)

lemma py_max_ge: "\<forall>x \<in> set xs. x \<noteq> NaN \<Longrightarrow> x \<in> set xs \<Longrightarrow> fle x (py_max xs)"
  by (cases xs) (auto simp: py_max_def intro: foldl_fmax_ge)

lemma py_min_le: "\<forall>x \<in> set xs. x \<noteq> NaN \<Longrightarrow> x \<in> set xs \<Longrightarrow> fle (py_min xs) x"
  by (cases xs) (auto simp: py_min_def intro: foldl_fmin_le)

section \<open>Grouping by slot\<close>

lemma is_space_lower [simp]: "is_space_chr (lower_chr c) = is_space_chr c"
  by (auto simp: is_space_chr_def lower_chr_def code_point_def Let_def)

lemma strip_lower: "py_strip (py_lower s) = py_lower (py_strip s)"
  by (simp add: py_strip_def py_lstrip_def py_lower_def dropWhile_map rev_map o_def)

lemma derived_interval:
  assumes "is_derived_chart_interval interval"
  shows "canonical_bar_source_interval interval = Inr ''1m''" and "interval_seconds interval = 180"
    and "interval_seconds ''1m'' = 60"
proof -
  have n: "py_lower (py_strip interval) = ''3m''"
    using assms by (auto simp: is_derived_chart_interval_def DERIVED_CHART_INTERVAL_SOURCES_def dhas_def
      split: if_splits)
  then show "canonical_bar_source_interval interval = Inr ''1m''"
    by (simp add: canonical_bar_source_interval_def CHART_HISTORY_INTERVALS_def
      DERIVED_CHART_INTERVAL_SOURCES_def dget_default_def)
  have "interval_minutes interval = interval_minutes ''3m''"
    unfolding interval_minutes_def strip_lower n by code_simp
  moreover have "interval_minutes ''3m'' = 3" by code_simp
  ultimately show "interval_seconds interval = 180" by (simp add: interval_seconds_def)
  show "interval_seconds ''1m'' = 60" by code_simp
qed

definition slots_of :: "int \<Rightarrow> bar list \<Rightarrow> (instant, bar list) pydict" where
  "slots_of n bs = foldl (\<lambda>d b. dset (bucket_us n (bar_ts b))
     (dget_default d (bucket_us n (bar_ts b)) [] @ [b]) d) [] bs"

lemma group_by_bucket_slots:
  assumes "\<forall>b \<in> set bs. exact_epoch (bar_ts b)"
  shows "group_by_bucket i bs = Inr (slots_of (interval_seconds i) bs)"
proof -
  let ?f = "\<lambda>grouped b. rbind (interval_bucket (bar_ts b) i) (\<lambda>k.
     Inr (dset k (dget_default grouped k [] @ [b]) grouped))"
  have "foldM ?f d bs = Inr (foldl (\<lambda>d b. dset (bucket_us (interval_seconds i) (bar_ts b))
     (dget_default d (bucket_us (interval_seconds i) (bar_ts b)) [] @ [b]) d) d bs)" for d
    using assms by (induction bs arbitrary: d) (auto simp: interval_bucket_us)
  then show ?thesis by (simp add: group_by_bucket_def slots_of_def)
qed

lemma slots_snoc: "slots_of n (bs @ [b]) = dset (bucket_us n (bar_ts b))
    (dget_default (slots_of n bs) (bucket_us n (bar_ts b)) [] @ [b]) (slots_of n bs)"
  by (simp add: slots_of_def)

lemma slots_Nil [simp]: "slots_of n [] = []"
  by (simp add: slots_of_def)

lemma slots_ok: "dict_ok (slots_of n bs)"
  by (induction bs rule: rev_induct) (auto simp: slots_snoc)

lemma slots_children: "dget_default (slots_of n bs) k [] = filter (\<lambda>b. bucket_us n (bar_ts b) = k) bs"
  by (induction bs rule: rev_induct) (auto simp: slots_snoc dget_default_None)

lemma slots_keys: "set (dkeys (slots_of n bs)) = bucket_us n ` bar_ts ` set bs"
  by (induction bs rule: rev_induct) (auto simp: slots_snoc)

lemma slots_sorted:
  assumes "0 < n" "strictly_ordered bs"
  shows "sorted_wrt (<) (dkeys (slots_of n bs))"
  using assms(2)
proof (induction bs rule: rev_induct)
  case (snoc b bs)
  let ?k = "bucket_us n (bar_ts b)"
  have "strictly_ordered bs" and less: "\<forall>x \<in> set bs. bar_ts x < bar_ts b"
    using snoc.prems by (auto simp: strictly_ordered_def sorted_wrt_append)
  have "k < ?k" if "\<not> dhas (slots_of n bs) ?k" "k \<in> set (dkeys (slots_of n bs))" for k
  proof -
    from that(2) obtain x where x: "x \<in> set bs" "k = bucket_us n (bar_ts x)" by (auto simp: slots_keys)
    then have "k \<le> ?k" using less assms(1) by (auto intro: bucket_us_mono simp: less_imp_le)
    moreover have "k \<noteq> ?k" using that by (auto simp: dhas_in_dkeys)
    ultimately show ?thesis by simp
  qed
  with snoc.IH [OF \<open>strictly_ordered bs\<close>] show ?case
    by (auto simp: slots_snoc dkeys_dset sorted_wrt_append)
qed simp

lemma slots_entry:
  assumes "(k, cs) \<in> set (slots_of n bs)"
  shows "cs = filter (\<lambda>b. bucket_us n (bar_ts b) = k) bs" "cs \<noteq> []"
proof -
  have g: "dget (slots_of n bs) k = Some cs" by (rule in_set_dget [OF slots_ok assms])
  then show cs: "cs = filter (\<lambda>b. bucket_us n (bar_ts b) = k) bs"
    using slots_children [of n bs k] by (simp add: dget_default_Some)
  have "k \<in> set (dkeys (slots_of n bs))" using assms by (force simp: dkeys_def)
  then show "cs \<noteq> []" using cs by (auto simp: slots_keys filter_empty_conv)
qed

lemma slots_entryI:
  assumes "filter (\<lambda>b. bucket_us n (bar_ts b) = k) bs \<noteq> []"
  shows "(k, filter (\<lambda>b. bucket_us n (bar_ts b) = k) bs) \<in> set (slots_of n bs)"
proof -
  have "k \<in> set (dkeys (slots_of n bs))" using assms by (auto simp: slots_keys filter_empty_conv)
  then obtain cs where "dget (slots_of n bs) k = Some cs"
    by (auto simp: dhas_in_dkeys [symmetric] dhas_iff)
  with slots_children [of n bs k] show ?thesis by (auto simp: dget_default_Some dest: dget_in_set)
qed

section \<open>One slot\<close>

lemma slot_complete_iff:
  "slot_complete 3 d k cs \<longleftrightarrow> map bar_ts cs = [k, k + d, k + 2 * d]"
proof
  assume c: "slot_complete 3 d k cs"
  then have "length cs = 3" by (simp add: slot_complete_def)
  then obtain x y z where "cs = [x, y, z]" by (auto simp: numeral_3_eq_3 length_Suc_conv)
  with c show "map bar_ts cs = [k, k + d, k + 2 * d]" by (simp add: slot_complete_def)
next
  assume m: "map bar_ts cs = [k, k + d, k + 2 * d]"
  then have "length cs = 3" by (metis length_map list.size(3,4) One_nat_def add_Suc_right numeral_3_eq_3 add_0_right)
  then obtain x y z where "cs = [x, y, z]" by (auto simp: numeral_3_eq_3 length_Suc_conv)
  with m show "slot_complete 3 d k cs" by (simp add: slot_complete_def)
qed

text \<open>Whether a three minute slot is closed at \<open>t\<close> with exactly its confirmed minutes.\<close>

definition slot_end :: "instant \<Rightarrow> instant" where
  "slot_end k = k + 180 * us_per_second"

definition slot_confirmed :: "instant \<Rightarrow> bar list \<Rightarrow> bool" where
  "slot_confirmed k cs \<longleftrightarrow> map bar_ts cs = [k, k + 60 * us_per_second, k + 120 * us_per_second]
     \<and> (\<forall>c \<in> set cs. confirmed_bar c)"

lemma project_slot_None:
  assumes "project_slot interval src 180 60 t (k, cs) = Inr None"
  shows "slot_end k \<le> t \<and> \<not> slot_confirmed k cs"
  using assms
  by (auto simp: project_slot_def res_simps instant_add_Inr Let_def slot_end_def slot_confirmed_def
      slot_complete_iff list_all_iff split: if_splits)

lemma project_slot_Some:
  assumes "project_slot interval src 180 60 t (k, cs) = Inr (Some b)"
  shows "bar_ts b = k \<and> bar_timeframe b = interval \<and> bar_open b = bar_open (hd cs)
    \<and> bar_close b = bar_close (last cs) \<and> bar_high b = py_max (map bar_high cs)
    \<and> bar_low b = py_min (map bar_low cs) \<and> bar_closed b = (slot_end k \<le> t)
    \<and> (bar_closed b \<longrightarrow> slot_confirmed k cs) \<and> (bar_closed b \<longleftrightarrow> bar_state b = CONFIRMED)
    \<and> derived_provenance cs src = Inr (bar_provenance b)"
proof -
  obtain prov confirmed where p: "derived_provenance cs src = Inr prov"
    and b: "Bar (VStr (bar_symbol (last cs))) (VDateTime (utc_datetime k))
             (VFloat (bar_open (hd cs))) (VFloat (py_max (map bar_high cs)))
             (VFloat (py_min (map bar_low cs))) (VFloat (bar_close (last cs)))
             (VFloat (py_sum (map (\<lambda>c. fmax (bar_volume c) (Fin 0)) cs)))
             (VStr interval) (VStr (''derived:'' @ src)) (VBool confirmed)
             (VEnum ''BarState'' (bar_state_text (if confirmed then CONFIRMED else FORMING))) prov = Inr b"
    and c: "confirmed \<longleftrightarrow> slot_end k \<le> t" "confirmed \<longrightarrow> slot_confirmed k cs"
    using assms
    by (auto simp: project_slot_def res_simps instant_add_Inr Let_def slot_end_def slot_confirmed_def
        slot_complete_iff list_all_iff split: if_splits)
  from b have "bar_ts b = k" by (auto simp: Bar_Inr_iff astimezone_utc_def utc_datetime_def split: if_splits)
  moreover from b c(1) have "bar_closed b = (slot_end k \<le> t)" by (auto simp: Bar_Inr_iff)
  ultimately show ?thesis
    using b c p by (auto simp: Bar_Inr_iff dest: lifecycle_state_closed split: if_splits)
qed

lemma derive_slots:
  assumes "is_derived_chart_interval interval" "\<forall>b \<in> set bars. exact_epoch (bar_ts b)"
    and "derive_chart_bars bars interval (Some t) now = Inr out"
  shows "\<exists>projected. mapM (project_slot interval ''1m'' 180 60 t)
      (slots_of 180 (dedupe_bars_by_timestamp bars)) = Inr projected \<and> out = somes projected"
    and "\<forall>b \<in> set (dedupe_bars_by_timestamp bars). bar_timeframe b = ''1m''"
proof -
  note i = derived_interval [OF assms(1)]
  have "\<forall>b \<in> set (dedupe_bars_by_timestamp bars). exact_epoch (bar_ts b)"
    using assms(2) by (auto simp: dedupe_is_latest latest_members)
  note g = group_by_bucket_slots [OF this, of interval]
  show "\<exists>projected. mapM (project_slot interval ''1m'' 180 60 t)
      (slots_of 180 (dedupe_bars_by_timestamp bars)) = Inr projected \<and> out = somes projected"
    "\<forall>b \<in> set (dedupe_bars_by_timestamp bars). bar_timeframe b = ''1m''"
    using assms(3) g unfolding derive_chart_bars_def dedupe_is_latest [symmetric]
    by (auto simp: assms(1) i res_simps list_ex_iff Let_def split: if_splits)
qed

lemma mapM_filter_ordered:
  assumes "mapM f xs = Inr ys" "sorted_wrt (<) (map fst xs)"
    and "\<And>x b. f x = Inr (Some b) \<Longrightarrow> bar_ts b = fst x"
  shows "strictly_ordered (somes ys)"
    and "set (somes ys) = {b. \<exists>x \<in> set xs. f x = Inr (Some b)}"
proof -
  have "set (somes ys) = {b. \<exists>x \<in> set xs. f x = Inr (Some b)}
      \<and> strictly_ordered (somes ys)"
    using assms(1,2)
  proof (induction xs arbitrary: ys)
    case Nil
    then show ?case by (simp add: strictly_ordered_def)
  next
    case (Cons x xs)
    then obtain y zs where ys: "f x = Inr y" "mapM f xs = Inr zs" "ys = y # zs" by (auto simp: res_simps)
    with Cons have IH: "set (somes zs) = {b. \<exists>x \<in> set xs. f x = Inr (Some b)}"
      "strictly_ordered (somes zs)" by auto
    have "bar_ts b < bar_ts c" if "y = Some b" "c \<in> set (somes zs)" for b c
    proof -
      from that(2) IH(1) obtain x' where "x' \<in> set xs" "f x' = Inr (Some c)" by auto
      with Cons.prems(2) assms(3) ys(1) that(1) show ?thesis by auto
    qed
    with IH ys show ?case
      by (cases y) (auto simp: strictly_ordered_def)
  qed
  then show "strictly_ordered (somes ys)"
    "set (somes ys) = {b. \<exists>x \<in> set xs. f x = Inr (Some b)}" by simp_all
qed

text \<open>The stored minutes of a slot: the latest bar of every timestamp, in order.\<close>

definition slot_children :: "bar list \<Rightarrow> instant \<Rightarrow> bar list" where
  "slot_children bars k =
    filter (\<lambda>b. bucket_us 180 (bar_ts b) = k) (dedupe_bars_by_timestamp bars)"

lemma dedupe_ordered: "strictly_ordered (dedupe_bars_by_timestamp bars)"
  by (simp add: dedupe_is_latest latest_ordered)

lemma derive_facts:
  assumes "is_derived_chart_interval interval" "\<forall>b \<in> set bars. exact_epoch (bar_ts b)"
    and "derive_chart_bars bars interval (Some t) now = Inr out"
  shows "strictly_ordered out"
    and "b \<in> set out \<longleftrightarrow> (\<exists>k. slot_children bars k \<noteq> []
      \<and> project_slot interval ''1m'' 180 60 t (k, slot_children bars k) = Inr (Some b))"
    and "slot_children bars k \<noteq> [] \<Longrightarrow>
      \<exists>x. project_slot interval ''1m'' 180 60 t (k, slot_children bars k) = Inr x"
proof -
  let ?f = "project_slot interval ''1m'' 180 60 t" and ?xs = "slots_of 180 (dedupe_bars_by_timestamp bars)"
  from derive_slots(1) [OF assms] obtain ys where ys: "mapM ?f ?xs = Inr ys" "out = somes ys"
    by blast
  have sorted: "sorted_wrt (<) (map fst ?xs)"
    using slots_sorted [OF _ dedupe_ordered, of 180 bars] by (simp add: dkeys_def)
  have ts: "bar_ts b = fst x" if "?f x = Inr (Some b)" for x b
    using project_slot_Some [of interval "''1m''" t "fst x" "snd x" b] that by simp
  note m = mapM_filter_ordered [OF ys(1) sorted ts]
  show "strictly_ordered out" using m(1) ys(2) by simp
  have e: "(k, cs) \<in> set ?xs \<longleftrightarrow> cs = slot_children bars k \<and> cs \<noteq> []" for k cs
    using slots_entry [of k cs 180 "dedupe_bars_by_timestamp bars"]
      slots_entryI [of 180 k "dedupe_bars_by_timestamp bars"] by (auto simp: slot_children_def)
  have "b \<in> set out \<longleftrightarrow> (\<exists>k cs. (k, cs) \<in> set ?xs \<and> ?f (k, cs) = Inr (Some b))"
    using m(2) ys(2) by auto
  then show "b \<in> set out \<longleftrightarrow> (\<exists>k. slot_children bars k \<noteq> []
      \<and> project_slot interval ''1m'' 180 60 t (k, slot_children bars k) = Inr (Some b))"
    unfolding e by auto
  assume "slot_children bars k \<noteq> []"
  then have "(k, slot_children bars k) \<in> set ?xs" by (simp add: e)
  then show "\<exists>x. ?f (k, slot_children bars k) = Inr x"
    using ys(1) by (auto simp: mapM_Inr_iff list_all2_conv_all_nth in_set_conv_nth)
qed

section \<open>Derived provenance\<close>

lemma derived_provenance_fields:
  assumes "BarProvenance (VStr p) (VStr i) (VStr f) (VEnum c ''deterministic_aggregation'') (VStr ci)
      (VStr ct) (VStr d) (VStr tf) = Inr q"
  shows "bp_provider q = p \<and> bp_instrument_id q = i \<and> bp_route_fingerprint q = f
    \<and> bp_request_type q = DETERMINISTIC_AGGREGATION \<and> bp_provider_contract_id q = ci
    \<and> bp_provider_contract_type q = ct \<and> bp_data_type q = d \<and> bp_source_timeframe q = Some tf"
proof -
  have t: "provider_request_of ''deterministic_aggregation'' = Some DETERMINISTIC_AGGREGATION"
    by code_simp
  show ?thesis
    using assms by (auto simp: BarProvenance_def t res_simps aggregation_source_def Let_def split: if_splits)
qed

text \<open>The demands of one exact route and contract.\<close>

definition exact_expectation :: "string \<Rightarrow> string \<Rightarrow> string \<Rightarrow> string \<Rightarrow> string
    \<Rightarrow> provider_request list option \<Rightarrow> bar_expectation" where
  "exact_expectation i f ci ct d types = \<lparr>ex_instrument_id = Some i, ex_route_fingerprint = Some f,
     ex_request_types = types, ex_contract_id = Some ci, ex_contract_type = Some ct, ex_data_type = Some d\<rparr>"

lemma accepted_contract:
  assumes "authoritative_bar_reject_reason (VStr p) b (exact_expectation i f ci ct d types) = Inr None"
  shows "\<exists>q. bar_provenance b = Some q \<and> route_contract q = (p, i, f, ci, ct, d)"
  using assms
  by (auto simp: authoritative_bar_reject_reason_def exact_expectation_def demanded_def route_contract_def
      split: if_splits option.splits)

lemma derived_provenance_accepted:
  assumes "derived_provenance cs src = Inr prov" "cs \<noteq> []"
    and "\<forall>c \<in> set cs. \<exists>q. bar_provenance c = Some q \<and> route_contract q = (p, i, f, ci, ct, d)" "ci \<noteq> []"
  shows "\<exists>q. prov = Some q \<and> route_contract q = (p, i, f, ci, ct, d)
    \<and> bp_request_type q = DETERMINISTIC_AGGREGATION \<and> bp_source_timeframe q = Some src"
proof -
  obtain c rest where cs: "cs = c # rest" using assms(2) by (cases cs) auto
  then obtain q where q: "bar_provenance c = Some q" "route_contract q = (p, i, f, ci, ct, d)"
    using assms(3) by auto
  have "\<not> list_ex (\<lambda>x. case x of None \<Rightarrow> True | Some y \<Rightarrow> route_contract y \<noteq> route_contract q)
      (map bar_provenance rest)"
    using assms(3) q cs by (auto simp: list_ex_iff)
  moreover have "bp_provider_contract_id q \<noteq> []" using q(2) assms(4) by (simp add: route_contract_def)
  ultimately obtain r where r: "BarProvenance (VStr (bp_provider q)) (VStr (bp_instrument_id q))
      (VStr (bp_route_fingerprint q)) (VEnum ''BarProviderRequest'' ''deterministic_aggregation'')
      (VStr (bp_provider_contract_id q)) (VStr (bp_provider_contract_type q)) (VStr (bp_data_type q))
      (VStr src) = Inr r" "prov = Some r"
    using assms(1) q(1) cs by (auto simp: derived_provenance_def rbind_Inr_iff)
  show ?thesis using derived_provenance_fields [OF r(1)] r(2) q(2) by (simp add: route_contract_def)
qed

section \<open>Properties\<close>

text \<open>the series helpers are exact: the ordering check accepts precisely the strictly ordered bars
  of the timeframe; deduplication returns, in order, the last bar of every timestamp; merging
  returns, in order, the first bar of every timestamp in the candidate of highest authority.\<close>

theorem series_helpers_are_exact:
  assumes "distinct (map fst candidates)"
  shows "(require_ordered_bar_list v timeframe field confirmed = Inr bs \<longleftrightarrow>
      v = Some bs \<and> sorted_wrt (<) (map bar_ts bs)
      \<and> (\<forall>b \<in> set bs. bar_timeframe b = timeframe \<and> (confirmed \<longrightarrow> confirmed_bar b)))
    \<and> sorted_wrt (<) (map bar_ts (dedupe_bars_by_timestamp bars))
    \<and> (\<forall>b. b \<in> set (dedupe_bars_by_timestamp bars) \<longleftrightarrow>
        (\<exists>ys zs. bars = ys @ b # zs \<and> (\<forall>z \<in> set zs. bar_ts z \<noteq> bar_ts b)))
    \<and> sorted_wrt (<) (map bar_ts (merge_history_candidates_by_authority candidates))
    \<and> (\<forall>b. b \<in> set (merge_history_candidates_by_authority candidates) \<longleftrightarrow>
        (\<exists>p ys zs. (p, ys @ b # zs) \<in> set candidates \<and> (\<forall>y \<in> set ys. bar_ts y \<noteq> bar_ts b)
          \<and> (\<forall>(q, cs) \<in> set candidates. q < p \<longrightarrow> (\<forall>x \<in> set cs. bar_ts x \<noteq> bar_ts b))))"
    (is "?ordered \<and> _")
proof -
  have ?ordered by (auto simp: require_ordered_iff strictly_ordered_def)
  moreover have "sorted_wrt (<) (map bar_ts (dedupe_bars_by_timestamp bars))"
    using dedupe_ordered by (simp add: strictly_ordered_def)
  moreover have "sorted_wrt (<) (map bar_ts (merge_history_candidates_by_authority candidates))"
    using merge_ordered by (simp add: strictly_ordered_def)
  ultimately show ?thesis
    unfolding merge_members [OF assms] unfolding dedupe_is_latest latest_members by blast
qed

text \<open>C38: a derived bar is the exact aggregate of its stored minutes: bars are strictly ordered, open
  and close are those of the first and last minute, high and low are attained bounds; a bar is
  closed exactly when its slot elapsed, and then it has precisely its three confirmed minutes; a
  slot appears exactly when it has a minute and is still forming or is so confirmed.\<close>

theorem derived_bars_are_exact:
  assumes "is_derived_chart_interval interval"
    and "\<forall>b \<in> set bars. bar_ok b \<and> exact_epoch (bar_ts b)"
    and "derive_chart_bars bars interval (Some t) now = Inr out"
  shows "sorted_wrt (<) (map bar_ts out)
    \<and> (\<forall>b \<in> set out. let cs = slot_children bars (bar_ts b) in
        cs \<noteq> [] \<and> bar_timeframe b = interval
        \<and> bar_open b = bar_open (hd cs) \<and> bar_close b = bar_close (last cs)
        \<and> bar_high b \<in> bar_high ` set cs \<and> (\<forall>c \<in> set cs. fle (bar_high c) (bar_high b))
        \<and> bar_low b \<in> bar_low ` set cs \<and> (\<forall>c \<in> set cs. fle (bar_low b) (bar_low c))
        \<and> (bar_closed b \<longleftrightarrow> slot_end (bar_ts b) \<le> t)
        \<and> (bar_closed b \<longrightarrow> slot_confirmed (bar_ts b) cs))
    \<and> (\<forall>k. k \<in> bar_ts ` set out \<longleftrightarrow> slot_children bars k \<noteq> []
        \<and> (t < slot_end k \<or> slot_confirmed k (slot_children bars k)))"
proof -
  have e: "\<forall>b \<in> set bars. exact_epoch (bar_ts b)" using assms(2) by simp
  note d = derive_facts [OF assms(1) e assms(3)]
  have child: "c \<in> set bars" if "c \<in> set (slot_children bars k)" for c k
    using that by (auto simp: slot_children_def dedupe_is_latest latest_members)
  have finite: "\<forall>x \<in> set (map f (slot_children bars k)). x \<noteq> NaN"
    if "f = bar_high \<or> f = bar_low" for f k
    using that child assms(2) by (fastforce simp: bar_ok_def isfinite_iff)
  have bar: "let cs = slot_children bars (bar_ts b) in
        cs \<noteq> [] \<and> bar_timeframe b = interval
        \<and> bar_open b = bar_open (hd cs) \<and> bar_close b = bar_close (last cs)
        \<and> bar_high b \<in> bar_high ` set cs \<and> (\<forall>c \<in> set cs. fle (bar_high c) (bar_high b))
        \<and> bar_low b \<in> bar_low ` set cs \<and> (\<forall>c \<in> set cs. fle (bar_low b) (bar_low c))
        \<and> (bar_closed b \<longleftrightarrow> slot_end (bar_ts b) \<le> t)
        \<and> (bar_closed b \<longrightarrow> slot_confirmed (bar_ts b) cs)" if member: "b \<in> set out" for b
  proof -
    obtain k where k: "slot_children bars k \<noteq> []"
      "project_slot interval ''1m'' 180 60 t (k, slot_children bars k) = Inr (Some b)"
      using d(2) [THEN iffD1, OF member] by blast
    let ?cs = "slot_children bars k"
    have p: "py_max (map bar_high ?cs) \<in> bar_high ` set ?cs" "py_min (map bar_low ?cs) \<in> bar_low ` set ?cs"
      using py_max_in [of "map bar_high ?cs"] py_min_in [of "map bar_low ?cs"] k(1) by simp_all
    have q: "\<forall>c \<in> set ?cs. fle (bar_high c) (py_max (map bar_high ?cs))"
      "\<forall>c \<in> set ?cs. fle (py_min (map bar_low ?cs)) (bar_low c)"
      using py_max_ge [OF finite] py_min_le [OF finite] by simp_all
    show ?thesis using project_slot_Some [OF k(2)] k(1) p q by (simp add: Let_def)
  qed
  have slot: "k \<in> bar_ts ` set out \<longleftrightarrow> slot_children bars k \<noteq> []
        \<and> (t < slot_end k \<or> slot_confirmed k (slot_children bars k))" for k
  proof
    assume "k \<in> bar_ts ` set out"
    then obtain b where "b \<in> set out" "k = bar_ts b" by blast
    with bar [of b] show "slot_children bars k \<noteq> []
        \<and> (t < slot_end k \<or> slot_confirmed k (slot_children bars k))"
      by (auto simp: Let_def not_less)
  next
    assume r: "slot_children bars k \<noteq> [] \<and> (t < slot_end k \<or> slot_confirmed k (slot_children bars k))"
    then obtain x where x: "project_slot interval ''1m'' 180 60 t (k, slot_children bars k) = Inr x"
      using d(3) by blast
    then obtain b where b: "project_slot interval ''1m'' 180 60 t (k, slot_children bars k) = Inr (Some b)"
      using r project_slot_None [of interval "''1m''" t k "slot_children bars k"] by (cases x) auto
    have "b \<in> set out" by (rule d(2) [THEN iffD2]) (use r b in blast)
    then show "k \<in> bar_ts ` set out" using project_slot_Some [OF b] by (auto intro: rev_image_eqI)
  qed
  have "sorted_wrt (<) (map bar_ts out)" using d(1) by (simp add: strictly_ordered_def)
  then show ?thesis using bar slot by (intro conjI ballI allI) simp_all
qed

text \<open>Derivation composes with the authority check: when every stored minute of a confirmed derived
  bar is authoritative for one exact route and contract, the derived bar is authoritative for the
  same route and contract as a deterministic aggregation.\<close>

theorem derived_bars_stay_authoritative:
  assumes "derive_chart_bars bars ''3m'' (Some t) now = Inr out" "\<forall>b \<in> set bars. exact_epoch (bar_ts b)"
    and "b \<in> set out" "bar_closed b" "ci \<noteq> []"
    and "\<forall>c \<in> set (slot_children bars (bar_ts b)).
      authoritative_bar_reject_reason (VStr p) c (exact_expectation i f ci ct d types) = Inr None"
  shows "authoritative_bar_reject_reason (VStr p) b
    (exact_expectation i f ci ct d (Some [DETERMINISTIC_AGGREGATION])) = Inr None"
proof -
  have derived: "is_derived_chart_interval ''3m''" by code_simp
  obtain k where k: "slot_children bars k \<noteq> []"
    "project_slot ''3m'' ''1m'' 180 60 t (k, slot_children bars k) = Inr (Some b)"
    using derive_facts(2) [OF derived assms(2,1), THEN iffD1, OF assms(3)] by blast
  note f = project_slot_Some [OF k(2)]
  have prov: "derived_provenance (slot_children bars k) ''1m'' = Inr (bar_provenance b)" and ts: "bar_ts b = k"
    using f by blast+
  have "\<forall>c \<in> set (slot_children bars k). \<exists>q. bar_provenance c = Some q \<and> route_contract q = (p, i, f, ci, ct, d)"
    using assms(6) accepted_contract unfolding ts by blast
  from derived_provenance_accepted [OF prov k(1) this assms(5)] obtain q where
    q: "bar_provenance b = Some q" "route_contract q = (p, i, f, ci, ct, d)"
    "bp_request_type q = DETERMINISTIC_AGGREGATION" "bp_source_timeframe q = Some ''1m''" by blast
  obtain c where "c \<in> set (slot_children bars k)" using k(1) by (meson last_in_set)
  then have "180 * us_per_second dvd bar_ts b"
    using bucket_us_bounds(3) [of 180 "bar_ts c"] ts by (auto simp: slot_children_def)
  then have aligned: "bar_ts b mod (60 * us_per_second) = 0"
    by (auto simp: us_per_second_def elim!: dvdE)
  have "aggregation_reject_reason ''1m'' ''3m'' = Inr None" by code_simp
  then show ?thesis
    using f assms(4) q aligned
    by (simp add: authoritative_bar_reject_reason_def is_provisional_bar_def exact_expectation_def
      demanded_def route_contract_def)
qed

section \<open>Examples\<close>

definition example_provenance :: bar_provenance where
  "example_provenance = \<lparr>bp_provider = ''coinbase'', bp_instrument_id = ''coinbase:BTC-USD'',
     bp_route_fingerprint = ''f1'', bp_request_type = HISTORICAL, bp_provider_contract_id = ''BTC-USD'',
     bp_provider_contract_type = ''SPOT'', bp_data_type = ''TRADES'', bp_source_timeframe = None\<rparr>"

definition example_minute :: "int \<Rightarrow> pyfloat \<Rightarrow> bar" where
  "example_minute i c = \<lparr>bar_symbol = ''BTC'', bar_ts = i * 60000000, bar_open = Fin 10, bar_high = Fin 12,
     bar_low = Fin 9, bar_close = c, bar_volume = Fin 2, bar_timeframe = ''1m'', bar_source = ''coinbase'',
     bar_closed = True, bar_state = CONFIRMED, bar_provenance = Some example_provenance\<rparr>"

definition example_minutes :: "bar list" where
  "example_minutes = [example_minute 1 (Fin 11), example_minute 0 (Fin 10), example_minute 2 (Fin 12)]"

definition example_aggregate :: bar where
  "example_aggregate = \<lparr>bar_symbol = ''BTC'', bar_ts = 0, bar_open = Fin 10, bar_high = Fin 12,
     bar_low = Fin 9, bar_close = Fin 12, bar_volume = Fin 6, bar_timeframe = ''3m'',
     bar_source = ''derived:1m'', bar_closed = True, bar_state = CONFIRMED,
     bar_provenance = Some (example_provenance\<lparr>bp_request_type := DETERMINISTIC_AGGREGATION,
       bp_source_timeframe := Some ''1m''\<rparr>)\<rparr>"

lemma example_derived_interval: "is_derived_chart_interval ''3m''"
  by code_simp

lemma example_ordered: "values_by_key (latest_by_timestamp example_minutes) =
    [example_minute 0 (Fin 10), example_minute 1 (Fin 11), example_minute 2 (Fin 12)]"
  by (simp add: example_minutes_def latest_by_timestamp_def dset_def values_by_key_def dkeys_def dget_def
    example_minute_def)

lemma example_prov:
  "derived_provenance [example_minute 0 (Fin 10), example_minute 1 (Fin 11), example_minute 2 (Fin 12)] ''1m''
    = Inr (bar_provenance example_aggregate)"
  by code_simp

lemma example_derived:
  "derive_chart_bars example_minutes ''3m'' (Some 180000000) 0 = Inr [example_aggregate]"
proof -
  note i = derived_interval [OF example_derived_interval]
  let ?bs = "[example_minute 0 (Fin 10), example_minute 1 (Fin 11), example_minute 2 (Fin 12)]"
  have g: "group_by_bucket ''3m'' ?bs = Inr [(0, ?bs)]"
    by (subst group_by_bucket_slots)
      (simp_all add: i slots_of_def dset_def dget_default_def bucket_us_def us_per_second_def
        example_minute_def exact_epoch_def)
  have b: "Bar (VStr ''BTC'') (VDateTime (utc_datetime 0)) (VFloat (Fin 10)) (VFloat (Fin 12))
      (VFloat (Fin 9)) (VFloat (Fin 12)) (VFloat (Fin 6)) (VStr ''3m'') (VStr ''derived:1m'') (VBool True)
      (VEnum ''BarState'' ''confirmed'') (bar_provenance example_aggregate) = Inr example_aggregate"
    by (simp add: Bar_Inr_iff example_aggregate_def visible_text_def ohlc_geometry_invalid_def fmax_def
      fmin_def lifecycle_state_def in_dt_range_def dt_min_def dt_max_def) code_simp
  have p: "project_slot ''3m'' ''1m'' 180 60 180000000 (0, ?bs) = Inr (Some example_aggregate)"
    using b by (simp add: project_slot_def instant_add_def in_dt_range_def dt_min_def dt_max_def
      us_per_second_def slot_complete_def example_prov [unfolded example_minute_def, simplified] confirmed_bar_def Let_def example_minute_def
      py_max_def py_min_def fmax_def fmin_def cs_add_def fsub_def)
  show ?thesis
    by (simp add: derive_chart_bars_def example_derived_interval i example_ordered g p)
     (simp add: example_minute_def)
qed

lemma example_epoch: "\<forall>b \<in> set example_minutes. bar_ok b \<and> exact_epoch (bar_ts b)"
  by (simp add: example_minutes_def example_minute_def bar_ok_def exact_epoch_def in_dt_range_def
    dt_min_def dt_max_def)

lemma example_children: "slot_children example_minutes 0 =
    [example_minute 0 (Fin 10), example_minute 1 (Fin 11), example_minute 2 (Fin 12)]"
  by (simp add: slot_children_def dedupe_is_latest example_ordered bucket_us_def us_per_second_def)
    (simp add: example_minute_def)

theorem derived_bars_are_exact_witness:
  "\<forall>k. k \<in> bar_ts ` set [example_aggregate] \<longleftrightarrow> slot_children example_minutes k \<noteq> []
    \<and> (180000000 < slot_end k \<or> slot_confirmed k (slot_children example_minutes k))"
  using derived_bars_are_exact [OF example_derived_interval example_epoch example_derived] by blast

theorem derived_bars_stay_authoritative_witness:
  "authoritative_bar_reject_reason (VStr ''coinbase'') example_aggregate
    (exact_expectation ''coinbase:BTC-USD'' ''f1'' ''BTC-USD'' ''SPOT'' ''TRADES''
      (Some [DETERMINISTIC_AGGREGATION])) = Inr None"
proof (rule derived_bars_stay_authoritative [OF example_derived])
  show "\<forall>b \<in> set example_minutes. exact_epoch (bar_ts b)" using example_epoch by simp
  show "\<forall>c \<in> set (slot_children example_minutes (bar_ts example_aggregate)).
      authoritative_bar_reject_reason (VStr ''coinbase'') c
        (exact_expectation ''coinbase:BTC-USD'' ''f1'' ''BTC-USD'' ''SPOT'' ''TRADES'' None) = Inr None"
    by (simp add: example_aggregate_def example_children)
      (simp add: example_minute_def example_provenance_def authoritative_bar_reject_reason_def
        is_provisional_bar_def exact_expectation_def demanded_def us_per_second_def)
qed (simp_all add: example_aggregate_def)

theorem series_helpers_are_exact_witness:
  "sorted_wrt (<) (map bar_ts (merge_history_candidates_by_authority [(0, example_minutes), (1, [])]))
    \<and> require_ordered_bar_list (Some [example_minute 0 (Fin 10)]) ''1m'' ''history'' True
        = Inr [example_minute 0 (Fin 10)]"
  using series_helpers_are_exact [of "[(0, example_minutes), (1, [])]" "Some [example_minute 0 (Fin 10)]" "''1m''"
      "''history''" True "[example_minute 0 (Fin 10)]" "[]"]
  by (simp add: confirmed_bar_def) (simp add: example_minute_def)

end
