(* ===== verification/RepairContract.thy ===== *)
theory RepairContract
  imports BarSeries HistoryCoverage
begin

text \<open>
  The typed values of history repair from \<open>data/provider_contract.py\<close>: the commit receipt of a bar
  batch, the identity of a request, the intent of a repair, what a provider fetch returned, the
  outcome and the admission of a repair, and the storage route of a history. Constructors take
  their arguments as they come; an argument declared with a class of the program is \<open>None\<close> when
  it is no instance of it. A constructor that reads the clock takes every reading as an argument.
\<close>

section \<open>Texts and enumerations\<close>

definition exact_history_text :: "pyval \<Rightarrow> string \<Rightarrow> string res" where
  "exact_history_text v field =
    (if nonempty_text v then Inr (str_of v)
     else Inl (ValueError (field @ '' must be an exact non-empty string'')))"

text \<open>The member of a \<open>str\<close> enumeration with this value.\<close>

definition enum_member :: "('a \<Rightarrow> string) \<Rightarrow> 'a list \<Rightarrow> pyval \<Rightarrow> 'a option" where
  "enum_member text members v = (if is_str v then first_where (\<lambda>m. text m = str_of v) members else None)"

datatype repair_priority = FOREGROUND | BACKGROUND

fun priority_value :: "repair_priority \<Rightarrow> int" where
  "priority_value FOREGROUND = 0"
| "priority_value BACKGROUND = 1"

text \<open>\<open>HistoryRepairPriority(value)\<close>; a member is the number it stands for.\<close>

fun repair_priority_of :: "pyval \<Rightarrow> repair_priority option" where
  "repair_priority_of (VInt n) = (if n = 0 then Some FOREGROUND else if n = 1 then Some BACKGROUND else None)"
| "repair_priority_of (VBool b) = Some (if b then BACKGROUND else FOREGROUND)"
| "repair_priority_of (VFloat x) =
    (if x = Fin 0 then Some FOREGROUND else if x = Fin 1 then Some BACKGROUND else None)"
| "repair_priority_of _ = None"

datatype history_terminal =
  TerminalComplete | TerminalIncomplete | TerminalRollingComplete | TerminalRollingPartial | TerminalMalformed

fun terminal_text :: "history_terminal \<Rightarrow> string" where
  "terminal_text TerminalComplete = ''complete''"
| "terminal_text TerminalIncomplete = ''incomplete''"
| "terminal_text TerminalRollingComplete = ''rolling_complete''"
| "terminal_text TerminalRollingPartial = ''rolling_partial''"
| "terminal_text TerminalMalformed = ''malformed''"

definition terminal_of :: "pyval \<Rightarrow> history_terminal option" where
  "terminal_of = enum_member terminal_text [TerminalComplete, TerminalIncomplete, TerminalRollingComplete,
     TerminalRollingPartial, TerminalMalformed]"

datatype contract_resolution = ResolvedExact | ResolvedByResponse

fun resolution_text :: "contract_resolution \<Rightarrow> string" where
  "resolution_text ResolvedExact = ''exact''"
| "resolution_text ResolvedByResponse = ''provider_response''"

definition resolution_of :: "pyval \<Rightarrow> contract_resolution option" where
  "resolution_of = enum_member resolution_text [ResolvedExact, ResolvedByResponse]"

datatype admission_status = AdmScheduled | AdmRunning | AdmQueued | AdmAwaitingGeneration | AdmThrottled
  | AdmQueueFull

datatype outcome_status = OcCommitted | OcNoChange | OcIncomplete | OcMalformed | OcStaleGeneration
  | OcStaleRoute | OcFetchFailed | OcStorageFailed | OcCommitFailed | OcCommitQueueFull | OcCancelled
  | OcSuperseded

section \<open>The identity of a request\<close>

record request_identity =
  ri_request_version :: int
  ri_admission_version :: int
  ri_mode :: string
  ri_request_type :: provider_request
  ri_source :: string
  ri_contract_id :: string
  ri_contract_type :: string
  ri_data_type :: string
  ri_resolution :: contract_resolution

definition HistoryRequestAdmissionIdentity ::
  "pyval \<Rightarrow> pyval \<Rightarrow> pyval \<Rightarrow> pyval \<Rightarrow> pyval \<Rightarrow> pyval \<Rightarrow> pyval \<Rightarrow> pyval \<Rightarrow> pyval \<Rightarrow> request_identity res" where
  "HistoryRequestAdmissionIdentity request_v admission_v mode request_type source contract_id contract_type
      data_type resolution =
    rbind (positive_version request_v ''request_contract_version'') (\<lambda>rv.
    rbind (positive_version admission_v ''admission_contract_version'') (\<lambda>av.
    (case (if is_str request_type then provider_request_of (str_of request_type) else None) of
       None \<Rightarrow> Inl (ValueError ''history request_type must be canonical'')
     | Some rt \<Rightarrow>
    rbind (require (rt = HISTORICAL) (ValueError ''history request_type must be historical'')) (\<lambda>_.
    (case resolution_of resolution of
       None \<Rightarrow> Inl (ValueError ''history contract_resolution must be canonical'')
     | Some res \<Rightarrow>
    rbind (exact_history_text mode ''request_mode'') (\<lambda>m.
    rbind (exact_history_text source ''provider_source'') (\<lambda>src.
    rbind (exact_history_text contract_type ''provider_contract_type'') (\<lambda>ct.
    rbind (exact_history_text data_type ''data_type'') (\<lambda>dt.
    rbind (if res = ResolvedExact then exact_history_text contract_id ''provider_contract_id''
           else if \<not> is_str contract_id \<or> str_of contract_id \<noteq> [] \<or> ct \<noteq> ''CONTFUT''
           then Inl (ValueError ''provider-response history identity requires unresolved CONTFUT contract'')
           else Inr []) (\<lambda>ci.
    rbind (require (dt = ''TRADES'') (ValueError ''history data_type must be TRADES'')) (\<lambda>_.
    Inr \<lparr>ri_request_version = rv, ri_admission_version = av, ri_mode = m, ri_request_type = rt,
         ri_source = src, ri_contract_id = ci, ri_contract_type = ct, ri_data_type = dt,
         ri_resolution = res\<rparr>)))))))))))"

section \<open>Intents\<close>

record repair_intent =
  it_provider :: string
  it_instrument_id :: string
  it_route_fingerprint :: string
  it_timeframe :: string
  it_starts_at :: instant
  it_ends_at :: instant
  it_identity :: request_identity
  it_generation :: int
  it_priority :: repair_priority
  it_cooldown :: pyfloat
  it_target_starts_at :: instant
  it_target_ends_at :: instant

text \<open>The test of a range against the timeframe: whole seconds on the grid.\<close>

definition off_grid :: "int \<Rightarrow> instant \<Rightarrow> instant \<Rightarrow> bool" where
  "off_grid step a b = (a mod 1000000 \<noteq> 0 \<or> b mod 1000000 \<noteq> 0
     \<or> epoch_seconds a mod step \<noteq> 0 \<or> epoch_seconds b mod step \<noteq> 0)"

definition non_negative_seconds :: "pyval \<Rightarrow> string \<Rightarrow> pyfloat res" where
  "non_negative_seconds v message =
    (case v of
       VInt n \<Rightarrow> rbind (float_of_int n) (\<lambda>x. if \<not> isfinite x \<or> flt x (Fin 0) then Inl (ValueError message) else Inr x)
     | VFloat x \<Rightarrow> if \<not> isfinite x \<or> flt x (Fin 0) then Inl (ValueError message) else Inr x
     | _ \<Rightarrow> Inl (ValueError message))"

definition HistoryRepairIntent ::
  "instant \<Rightarrow> instant \<Rightarrow> pyval \<Rightarrow> pyval \<Rightarrow> pyval \<Rightarrow> pyval \<Rightarrow> pyval \<Rightarrow> pyval \<Rightarrow> request_identity option \<Rightarrow> pyval
    \<Rightarrow> pyval \<Rightarrow> pyval \<Rightarrow> pyval \<Rightarrow> pyval \<Rightarrow> repair_intent res" where
  "HistoryRepairIntent now now' provider instrument_id fingerprint timeframe starts_at ends_at identity
      generation priority cooldown target_starts_at target_ends_at =
    rbind (exact_history_text provider ''provider'') (\<lambda>p.
    rbind (exact_history_text instrument_id ''instrument_id'') (\<lambda>i.
    rbind (exact_history_text fingerprint ''route_fingerprint'') (\<lambda>f.
    rbind (exact_history_text timeframe ''timeframe'') (\<lambda>tf.
    rbind (require (tf \<in> set PERSISTED_BAR_INTERVALS)
      (ValueError ''history repair timeframe must be canonical'')) (\<lambda>_.
    rbind (require_aware_utc_datetime starts_at ''starts_at'') (\<lambda>s.
    rbind (require_aware_utc_datetime ends_at ''ends_at'') (\<lambda>e.
    rbind (require (\<not> off_grid (interval_seconds tf) s e)
      (ValueError ''history repair range must be timeframe-aligned'')) (\<lambda>_.
    rbind (require (s < e) (ValueError ''history repair range must be non-empty'')) (\<lambda>_.
    rbind (require (e \<le> now) (ValueError ''history repair range must be fully elapsed'')) (\<lambda>_.
    rbind (if target_starts_at = VNone then Inr s
           else require_aware_utc_datetime target_starts_at ''target_starts_at'') (\<lambda>ts.
    rbind (if target_ends_at = VNone then Inr e
           else require_aware_utc_datetime target_ends_at ''target_ends_at'') (\<lambda>te.
    rbind (require (\<not> off_grid (interval_seconds tf) ts te)
      (ValueError ''history repair target range must be timeframe-aligned'')) (\<lambda>_.
    rbind (require (ts < te \<and> te \<le> now' \<and> ts \<le> s \<and> e \<le> te)
      (ValueError ''history repair chunk must be inside one fully elapsed target range'')) (\<lambda>_.
    (case identity of
       None \<Rightarrow> Inl (TypeError ''history repair request_identity must be typed'')
     | Some ri \<Rightarrow>
    rbind (case generation of VInt n \<Rightarrow> if n < 0
             then Inl (ValueError ''canonical_generation must be a non-negative integer'') else Inr n
           | _ \<Rightarrow> Inl (ValueError ''canonical_generation must be a non-negative integer'')) (\<lambda>g.
    (case repair_priority_of priority of
       None \<Rightarrow> Inl (ValueError ''history repair priority must be canonical'')
     | Some pr \<Rightarrow>
    rbind (non_negative_seconds cooldown ''history repair cooldown must be finite and non-negative'') (\<lambda>c.
    Inr \<lparr>it_provider = p, it_instrument_id = i, it_route_fingerprint = f, it_timeframe = tf,
         it_starts_at = s, it_ends_at = e, it_identity = ri, it_generation = g, it_priority = pr,
         it_cooldown = c, it_target_starts_at = ts, it_target_ends_at = te\<rparr>))))))))))))))))))"

section \<open>What a fetch returned\<close>

record range_completion =
  rc_starts_at :: instant
  rc_ends_at :: instant
  rc_response_count :: int
  rc_completed_at :: instant
  rc_source :: string
  rc_request_limit :: "int option"
  rc_provider_limit :: "int option"

definition completion_limit :: "pyval \<Rightarrow> string \<Rightarrow> int option res" where
  "completion_limit v field = (case v of
      VNone \<Rightarrow> Inr None
    | VInt n \<Rightarrow> if n \<le> 0 then Inl (ValueError (''history completion '' @ field @ '' must be positive''))
        else Inr (Some n)
    | _ \<Rightarrow> Inl (ValueError (''history completion '' @ field @ '' must be positive'')))"

definition saturated :: "int \<Rightarrow> int option \<Rightarrow> bool" where
  "saturated count limit = (case limit of None \<Rightarrow> False | Some l \<Rightarrow> l \<le> count)"

definition HistoryRangeCompletion ::
  "pyval \<Rightarrow> pyval \<Rightarrow> pyval \<Rightarrow> pyval \<Rightarrow> pyval \<Rightarrow> pyval \<Rightarrow> pyval \<Rightarrow> range_completion res" where
  "HistoryRangeCompletion starts_at ends_at count completed_at source request_limit provider_limit =
    rbind (require_aware_utc_datetime starts_at ''starts_at'') (\<lambda>s.
    rbind (require_aware_utc_datetime ends_at ''ends_at'') (\<lambda>e.
    rbind (require_aware_utc_datetime completed_at ''completed_at'') (\<lambda>c.
    rbind (require (s < e \<and> e \<le> c) (ValueError ''history completion range must be fully elapsed'')) (\<lambda>_.
    rbind (exact_history_text source ''provider_source'') (\<lambda>src.
    rbind (case count of VInt n \<Rightarrow> if n < 0
             then Inl (ValueError ''history completion response_count must be non-negative'') else Inr n
           | _ \<Rightarrow> Inl (ValueError ''history completion response_count must be non-negative'')) (\<lambda>n.
    rbind (completion_limit request_limit ''request_limit'') (\<lambda>rl.
    rbind (completion_limit provider_limit ''provider_limit'') (\<lambda>pl.
    rbind (require (\<not> saturated n rl) (ValueError ''history completion request limit is saturated'')) (\<lambda>_.
    rbind (require (\<not> saturated n pl) (ValueError ''history completion provider limit is saturated'')) (\<lambda>_.
    Inr \<lparr>rc_starts_at = s, rc_ends_at = e, rc_response_count = n, rc_completed_at = c, rc_source = src,
         rc_request_limit = rl, rc_provider_limit = pl\<rparr>))))))))))"

record fetch_result =
  fr_intent :: repair_intent
  fr_terminal :: history_terminal
  fr_bars :: "bar list"
  fr_completions :: "range_completion list"
  fr_error_code :: pyval
  fr_resolved_contract_id :: "string option"
  fr_response_starts_at :: "instant option"
  fr_response_ends_at :: "instant option"

text \<open>Whether a returned bar is not the confirmed bar of the intent's route and contract.\<close>

definition foreign_bar :: "repair_intent \<Rightarrow> string option \<Rightarrow> bar \<Rightarrow> bool" where
  "foreign_bar it contract_id b =
    (bar_state b \<noteq> CONFIRMED \<or> \<not> bar_closed b \<or> bar_timeframe b \<noteq> it_timeframe it
     \<or> \<not> (it_starts_at it \<le> bar_ts b \<and> bar_ts b < it_ends_at it)
     \<or> (case bar_provenance b of None \<Rightarrow> True
        | Some p \<Rightarrow> bp_provider p \<noteq> it_provider it \<or> bp_instrument_id p \<noteq> it_instrument_id it
            \<or> bp_route_fingerprint p \<noteq> it_route_fingerprint it
            \<or> bp_request_type p \<noteq> ri_request_type (it_identity it)
            \<or> Some (bp_provider_contract_id p) \<noteq> contract_id
            \<or> bp_provider_contract_type p \<noteq> ri_contract_type (it_identity it)
            \<or> bp_data_type p \<noteq> ri_data_type (it_identity it)))"

definition response_bounds :: "pyval \<Rightarrow> pyval \<Rightarrow> (instant option \<times> instant option) res" where
  "response_bounds starts_at ends_at =
    (if (starts_at = VNone) \<noteq> (ends_at = VNone)
     then Inl (ValueError ''provider history response bounds must be paired'')
     else if starts_at = VNone then Inr (None, None)
     else rbind (require_aware_utc_datetime starts_at ''response_starts_at'') (\<lambda>s.
       rbind (require_aware_utc_datetime ends_at ''response_ends_at'') (\<lambda>e.
         if e \<le> s then Inl (ValueError ''provider history response bounds must be non-empty'')
         else Inr (Some s, Some e))))"

definition code_given :: "pyval \<Rightarrow> bool" where
  "code_given v = nonempty_text v"

text \<open>The completions of a complete fetch: the cursor and the number of bars they account for.\<close>

fun completions_tile :: "repair_intent \<Rightarrow> bar list \<Rightarrow> range_completion list \<Rightarrow> instant \<Rightarrow> int \<Rightarrow> (instant \<times> int) res" where
  "completions_tile it bars [] cursor admitted = Inr (cursor, admitted)"
| "completions_tile it bars (c # cs) cursor admitted =
    (if rc_starts_at c \<noteq> cursor \<or> it_ends_at it < rc_ends_at c \<or> rc_source c \<noteq> ri_source (it_identity it)
       \<or> off_grid (interval_seconds (it_timeframe it)) (rc_starts_at c) (rc_ends_at c)
     then Inl (ValueError ''provider history completion range mismatch'')
     else let chunk = int (length (filter (\<lambda>b. rc_starts_at c \<le> bar_ts b \<and> bar_ts b < rc_ends_at c) bars)) in
       if chunk \<noteq> rc_response_count c
       then Inl (ValueError ''provider history completion cardinality mismatch'')
       else completions_tile it bars cs (rc_ends_at c) (admitted + chunk))"

text \<open>The last part of the constructor, per kind of request.\<close>

definition check_rolling ::
  "repair_intent \<Rightarrow> history_terminal \<Rightarrow> bar list \<Rightarrow> range_completion list \<Rightarrow> pyval \<Rightarrow> instant option \<times> instant option
    \<Rightarrow> unit res" where
  "check_rolling it terminal bars completions error_code bounds =
    rbind (require (completions = [])
      (ValueError ''rolling provider history cannot carry exact completions'')) (\<lambda>_.
    if terminal = TerminalMalformed
    then rbind (require (bars = []) (ValueError ''malformed provider history cannot carry bars'')) (\<lambda>_.
      require (code_given error_code) (ValueError ''malformed provider history requires an error code''))
    else rbind (require (terminal \<in> {TerminalRollingComplete, TerminalRollingPartial})
      (ValueError ''provider-response history requires a rolling terminal'')) (\<lambda>_.
    rbind (require (bars = [] \<or> fst bounds \<noteq> None)
      (ValueError ''rolling provider bars require response bounds'')) (\<lambda>_.
    if terminal = TerminalRollingComplete
    then require (case bounds of (Some s, Some e) \<Rightarrow> s \<le> it_starts_at it \<and> it_ends_at it \<le> e \<and> error_code = VNone
        | _ \<Rightarrow> False)
      (ValueError ''complete rolling history must contain the target range'')
    else require (code_given error_code) (ValueError ''partial rolling history requires an error code''))))"

definition check_exact ::
  "repair_intent \<Rightarrow> history_terminal \<Rightarrow> bar list \<Rightarrow> range_completion list \<Rightarrow> pyval \<Rightarrow> instant option \<times> instant option
    \<Rightarrow> unit res" where
  "check_exact it terminal bars completions error_code bounds =
    rbind (require (bounds = (None, None))
      (ValueError ''exact provider history cannot carry rolling response bounds'')) (\<lambda>_.
    if terminal = TerminalComplete
    then rbind (require (completions \<noteq> [])
      (ValueError ''complete provider history requires range completions'')) (\<lambda>_.
    rbind (completions_tile it bars completions (it_starts_at it) 0) (\<lambda>(cursor, admitted).
    rbind (require (cursor = it_ends_at it \<and> admitted = int (length bars))
      (ValueError ''provider history completion coverage is incomplete'')) (\<lambda>_.
    require (error_code = VNone) (ValueError ''complete provider history cannot carry an error''))))
    else rbind (require (completions = [])
      (ValueError ''non-complete provider history cannot carry completions'')) (\<lambda>_.
    if terminal = TerminalMalformed
    then rbind (require (bars = []) (ValueError ''malformed provider history cannot carry bars'')) (\<lambda>_.
      require (code_given error_code) (ValueError ''malformed provider history requires an error code''))
    else Inr ()))"

definition ProviderHistoryFetchResult ::
  "repair_intent option \<Rightarrow> pyval \<Rightarrow> bar list option \<Rightarrow> range_completion list option \<Rightarrow> pyval \<Rightarrow> pyval \<Rightarrow> pyval
    \<Rightarrow> pyval \<Rightarrow> fetch_result res" where
  "ProviderHistoryFetchResult intent terminal raw_bars raw_completions error_code resolved starts_at ends_at =
    (case intent of
       None \<Rightarrow> Inl (TypeError ''provider history result intent must be typed'')
     | Some it \<Rightarrow>
    (case terminal_of terminal of
       None \<Rightarrow> Inl (ValueError ''provider history terminal must be canonical'')
     | Some t \<Rightarrow>
    (case raw_bars of
       None \<Rightarrow> Inl (TypeError ''provider history authoritative_bars must contain Bar values'')
     | Some unsorted \<Rightarrow>
    (let bars = sort_key bar_ts unsorted; rolling = (ri_resolution (it_identity it) = ResolvedByResponse) in
    rbind (require (distinct (map bar_ts bars))
      (ValueError ''provider history bars must have unique timestamps'')) (\<lambda>_.
    rbind (if rolling \<and> t \<noteq> TerminalMalformed
           then rbind (exact_history_text resolved ''resolved_provider_contract_id'') (\<lambda>r. Inr (Some r))
           else if \<not> rolling \<and> resolved \<noteq> VNone
           then Inl (ValueError ''exact provider history cannot carry a resolved response contract'')
           else Inr (if is_str resolved then Some (str_of resolved) else None)) (\<lambda>contract.
    rbind (require (\<not> list_ex (foreign_bar it
        (if rolling then contract else Some (ri_contract_id (it_identity it)))) bars)
      (ValueError ''provider history bar contract mismatch'')) (\<lambda>_.
    (case raw_completions of
       None \<Rightarrow> Inl (TypeError ''provider history completions must be typed'')
     | Some unsorted_completions \<Rightarrow>
    (let completions = sort_key (\<lambda>c. (rc_starts_at c, rc_ends_at c)) unsorted_completions in
    rbind (response_bounds starts_at ends_at) (\<lambda>bounds.
    rbind ((if rolling then check_rolling else check_exact) it t bars completions error_code bounds) (\<lambda>_.
    Inr \<lparr>fr_intent = it, fr_terminal = t, fr_bars = bars, fr_completions = completions,
         fr_error_code = error_code, fr_resolved_contract_id = contract,
         fr_response_starts_at = fst bounds, fr_response_ends_at = snd bounds\<rparr>)))))))))))"

section \<open>Outcomes and admissions\<close>

fun outcome_text :: "outcome_status \<Rightarrow> string" where
  "outcome_text OcCommitted = ''committed''"
| "outcome_text OcNoChange = ''no_change''"
| "outcome_text OcIncomplete = ''incomplete''"
| "outcome_text OcMalformed = ''malformed''"
| "outcome_text OcStaleGeneration = ''stale_generation''"
| "outcome_text OcStaleRoute = ''stale_route''"
| "outcome_text OcFetchFailed = ''fetch_failed''"
| "outcome_text OcStorageFailed = ''storage_failed''"
| "outcome_text OcCommitFailed = ''commit_failed''"
| "outcome_text OcCommitQueueFull = ''commit_queue_full''"
| "outcome_text OcCancelled = ''cancelled''"
| "outcome_text OcSuperseded = ''superseded''"

definition outcome_of :: "pyval \<Rightarrow> outcome_status option" where
  "outcome_of = enum_member outcome_text [OcCommitted, OcNoChange, OcIncomplete, OcMalformed,
     OcStaleGeneration, OcStaleRoute, OcFetchFailed, OcStorageFailed, OcCommitFailed, OcCommitQueueFull,
     OcCancelled, OcSuperseded]"

record repair_outcome =
  oc_status :: outcome_status
  oc_intent :: repair_intent
  oc_terminal :: "history_terminal option"
  oc_written_bars :: int
  oc_deleted_bars :: int
  oc_coverage_inserted :: int
  oc_coverage_expanded :: bool
  oc_generation :: "int option"
  oc_error_code :: pyval
  oc_response_starts_at :: "instant option"
  oc_response_ends_at :: "instant option"

definition outcome_count :: "pyval \<Rightarrow> string \<Rightarrow> int res" where
  "outcome_count v field =
    (let err = Inl (ValueError (''history repair outcome '' @ field @ '' must be non-negative'')) in
     case v of VInt n \<Rightarrow> if n < 0 then err else Inr n | _ \<Rightarrow> err)"

definition outcome_bounds :: "pyval \<Rightarrow> pyval \<Rightarrow> (instant option \<times> instant option) res" where
  "outcome_bounds starts_at ends_at =
    (if (starts_at = VNone) \<noteq> (ends_at = VNone)
     then Inl (ValueError ''history repair response bounds must be paired'')
     else if starts_at = VNone then Inr (None, None)
     else rbind (require_aware_utc_datetime starts_at ''response_starts_at'') (\<lambda>s.
       rbind (require_aware_utc_datetime ends_at ''response_ends_at'') (\<lambda>e.
         if e \<le> s then Inl (ValueError ''history repair response bounds must be non-empty'')
         else Inr (Some s, Some e))))"

definition HistoryRepairOutcome ::
  "pyval \<Rightarrow> repair_intent option \<Rightarrow> pyval \<Rightarrow> pyval \<Rightarrow> pyval \<Rightarrow> pyval \<Rightarrow> pyval \<Rightarrow> pyval \<Rightarrow> pyval \<Rightarrow> pyval \<Rightarrow> pyval
    \<Rightarrow> repair_outcome res" where
  "HistoryRepairOutcome status intent terminal written deleted inserted expanded generation error_code
      starts_at ends_at =
    (case outcome_of status of
       None \<Rightarrow> Inl (ValueError ''history repair outcome status must be canonical'')
     | Some st \<Rightarrow>
    (case intent of
       None \<Rightarrow> Inl (TypeError ''history repair outcome intent must be typed'')
     | Some it \<Rightarrow>
    rbind (if terminal = VNone then Inr None
           else case terminal_of terminal of None \<Rightarrow> Inl (ValueError ''not a valid ProviderHistoryTerminal'')
             | Some t \<Rightarrow> Inr (Some t)) (\<lambda>t.
    rbind (outcome_count written ''written_bars'') (\<lambda>w.
    rbind (outcome_count deleted ''deleted_bars'') (\<lambda>d.
    rbind (outcome_count inserted ''coverage_inserted'') (\<lambda>ins.
    rbind (case expanded of VBool b \<Rightarrow> Inr b
           | _ \<Rightarrow> Inl (TypeError ''history repair outcome coverage_expanded must be bool'')) (\<lambda>ex.
    rbind (if generation = VNone then Inr None
           else rbind (outcome_count generation ''generation'') (\<lambda>g. Inr (Some g))) (\<lambda>g.
    rbind (outcome_bounds starts_at ends_at) (\<lambda>bounds.
    Inr \<lparr>oc_status = st, oc_intent = it, oc_terminal = t, oc_written_bars = w, oc_deleted_bars = d,
         oc_coverage_inserted = ins, oc_coverage_expanded = ex, oc_generation = g,
         oc_error_code = error_code, oc_response_starts_at = fst bounds,
         oc_response_ends_at = snd bounds\<rparr>)))))))))"

definition remaining_range :: "repair_outcome \<Rightarrow> (instant \<times> instant) option" where
  "remaining_range oc =
    (let chunk_complete = (oc_status oc \<in> {OcCommitted, OcNoChange}
           \<and> oc_terminal oc \<in> {Some TerminalComplete, Some TerminalRollingComplete});
         e = (if chunk_complete then it_starts_at (oc_intent oc) else it_ends_at (oc_intent oc));
         s = it_target_starts_at (oc_intent oc)
     in if s < e then Some (s, e) else None)"

fun admission_text :: "admission_status \<Rightarrow> string" where
  "admission_text AdmScheduled = ''scheduled''"
| "admission_text AdmRunning = ''running''"
| "admission_text AdmQueued = ''queued''"
| "admission_text AdmAwaitingGeneration = ''awaiting_generation_advance''"
| "admission_text AdmThrottled = ''throttled''"
| "admission_text AdmQueueFull = ''queue_full''"

definition admission_of :: "pyval \<Rightarrow> admission_status option" where
  "admission_of = enum_member admission_text [AdmScheduled, AdmRunning, AdmQueued, AdmAwaitingGeneration,
     AdmThrottled, AdmQueueFull]"

record repair_admission =
  ad_status :: admission_status
  ad_intent :: repair_intent
  ad_newly_admitted :: bool
  ad_subscribed :: bool
  ad_retry_after :: pyfloat

definition HistoryRepairAdmission ::
  "pyval \<Rightarrow> repair_intent option \<Rightarrow> pyval \<Rightarrow> pyval \<Rightarrow> pyval \<Rightarrow> repair_admission res" where
  "HistoryRepairAdmission status intent newly subscribed retry_after =
    (case admission_of status of
       None \<Rightarrow> Inl (ValueError ''history repair admission status must be canonical'')
     | Some st \<Rightarrow>
    (case intent of
       None \<Rightarrow> Inl (TypeError ''history repair admission intent must be typed'')
     | Some it \<Rightarrow>
    rbind (case newly of VBool b \<Rightarrow> Inr b
           | _ \<Rightarrow> Inl (TypeError ''history repair admission newly_admitted must be bool'')) (\<lambda>n.
    rbind (case subscribed of VBool b \<Rightarrow> Inr b
           | _ \<Rightarrow> Inl (TypeError ''history repair admission completion_subscribed must be bool'')) (\<lambda>sub.
    rbind (non_negative_seconds retry_after
      ''history repair admission retry_after_seconds must be non-negative'') (\<lambda>r.
    Inr \<lparr>ad_status = st, ad_intent = it, ad_newly_admitted = n, ad_subscribed = sub,
         ad_retry_after = r\<rparr>)))))"

section \<open>Storage routes\<close>

datatype storage_kind = FuturesContinuous | FuturesContract

fun storage_kind_text :: "storage_kind \<Rightarrow> string" where
  "storage_kind_text FuturesContinuous = ''futures_continuous''"
| "storage_kind_text FuturesContract = ''futures_contract''"

definition storage_kind_of :: "pyval \<Rightarrow> storage_kind option" where
  "storage_kind_of = enum_member storage_kind_text [FuturesContinuous, FuturesContract]"

record history_route =
  hr_series_type :: string
  hr_roll_policy :: string
  hr_storage_kind :: storage_kind
  hr_contract_key :: string

definition CanonicalHistoryRoute :: "pyval \<Rightarrow> pyval \<Rightarrow> pyval \<Rightarrow> pyval \<Rightarrow> history_route res" where
  "CanonicalHistoryRoute series_type roll_policy kind contract_key =
    (case storage_kind_of kind of
       None \<Rightarrow> Inl (ValueError ''Canonical history storage kind must be typed'')
     | Some k \<Rightarrow>
    rbind (require (list_all (\<lambda>v. is_str v \<and> str_of v = py_strip (str_of v)) [series_type, roll_policy, contract_key])
      (ValueError ''Canonical history route fields must be exact strings'')) (\<lambda>_.
    rbind (if k = FuturesContinuous
           then require (str_of series_type \<noteq> [] \<and> str_of roll_policy \<noteq> [] \<and> str_of contract_key = [])
             (ValueError ''Continuous futures history requires series_type/roll_policy only'')
           else require (str_of contract_key \<noteq> [] \<and> str_of series_type = [] \<and> str_of roll_policy = [])
             (ValueError ''Exact futures history requires contract_key only'')) (\<lambda>_.
    Inr \<lparr>hr_series_type = str_of series_type, hr_roll_policy = str_of roll_policy, hr_storage_kind = k,
         hr_contract_key = str_of contract_key\<rparr>)))"

definition exact_futures_contract :: "pyval \<Rightarrow> history_route res" where
  "exact_futures_contract contract_key =
    CanonicalHistoryRoute (VStr []) (VStr []) (VEnum ''CanonicalHistoryStorageKind'' ''futures_contract'')
      contract_key"

section \<open>The receipt of a committed batch\<close>

record commit_receipt =
  cm_revision_sequence :: int
  cm_written :: int
  cm_acknowledged :: "bar list"
  cm_superseded :: "bar list"
  cm_rejected :: "bar list"
  cm_deleted :: int

definition CanonicalBarCommitReceipt ::
  "int \<Rightarrow> int \<Rightarrow> bar list \<Rightarrow> bar list \<Rightarrow> bar list \<Rightarrow> int \<Rightarrow> commit_receipt res" where
  "CanonicalBarCommitReceipt seq written acknowledged superseded rejected deleted =
    (if seq \<le> 0 then Inl (ValueError ''revision_sequence must be positive'')
     else if written < 0 then Inl (ValueError ''written must not be negative'')
     else if deleted < 0 then Inl (ValueError ''deleted must be a non-negative integer'')
     else Inr \<lparr>cm_revision_sequence = seq, cm_written = written, cm_acknowledged = acknowledged,
       cm_superseded = superseded, cm_rejected = rejected, cm_deleted = deleted\<rparr>)"

definition slot_of :: "(string \<Rightarrow> string) \<Rightarrow> bar \<Rightarrow> string \<times> instant" where
  "slot_of norm_tf b = (norm_tf (bar_timeframe b), bar_ts b)"

definition persisted_by_slot ::
  "(string \<Rightarrow> string) \<Rightarrow> (bar \<times> int) list \<Rightarrow> (string \<times> instant, bar \<times> int) pydict" where
  "persisted_by_slot norm_tf persisted = foldl (\<lambda>d (b, n). dset (slot_of norm_tf b) (b, n) d) [] persisted"

text \<open>The loop over the submitted bars with the acknowledged and the superseded ones so far.\<close>

fun classify_bars ::
  "int \<Rightarrow> (string \<Rightarrow> string) \<Rightarrow> (string \<times> instant, bar \<times> int) pydict \<Rightarrow> bar list \<Rightarrow> bar list \<times> bar list
    \<Rightarrow> (bar list \<times> bar list) res" where
  "classify_bars seq norm_tf slots [] acc = Inr acc"
| "classify_bars seq norm_tf slots (b # bs) (acknowledged, superseded) =
    (case dget slots (slot_of norm_tf b) of
       None \<Rightarrow> Inl (RuntimeError (''CANONICAL_BAR_COMMIT_NOT_DURABLE timeframe='' @ bar_timeframe b
         @ '' ts='' @ isoformat_utc (bar_ts b)))
     | Some (persisted, n) \<Rightarrow>
        if signature_of_bar persisted = signature_of_bar b
        then classify_bars seq norm_tf slots bs (acknowledged @ [b], superseded)
        else if seq < n then classify_bars seq norm_tf slots bs (acknowledged, superseded @ [b])
        else Inl (RuntimeError (''CANONICAL_BAR_REVISION_ORDER_VIOLATION submitted_sequence=''
          @ str_of_int seq @ '' persisted_sequence='' @ str_of_int n @ '' timeframe='' @ bar_timeframe b
          @ '' ts='' @ isoformat_utc (bar_ts b))))"

definition canonical_bar_commit_receipt ::
  "bar list \<Rightarrow> (bar \<times> int) list \<Rightarrow> int \<Rightarrow> int \<Rightarrow> bar list \<Rightarrow> int \<Rightarrow> (string \<Rightarrow> string) \<Rightarrow> commit_receipt res" where
  "canonical_bar_commit_receipt submitted persisted seq written rejected deleted norm_tf =
    rbind (classify_bars seq norm_tf (persisted_by_slot norm_tf persisted) submitted ([], []))
      (\<lambda>(acknowledged, superseded).
        CanonicalBarCommitReceipt seq (max written 0) acknowledged superseded rejected deleted)"

end
