(* ===== verification/RepairPlan.thy ===== *)
theory RepairPlan
  imports RepairContract
begin

text \<open>
  \<open>engine/history_repair.py\<close>: the gaps of a confirmed series inside a requested range, and the
  choice of the newest chunk of a repair envelope that one provider request may ask for.
\<close>

section \<open>Gaps\<close>

text \<open>\<open>ConfirmedHistoryGap\<close>: a non-empty span.\<close>

definition ConfirmedHistoryGap :: "pyval \<Rightarrow> pyval \<Rightarrow> span res" where
  "ConfirmedHistoryGap starts_at ends_at =
    rbind (require_aware_utc_datetime starts_at ''starts_at'') (\<lambda>s.
    rbind (require_aware_utc_datetime ends_at ''ends_at'') (\<lambda>e.
      if e \<le> s then Inl (ValueError ''confirmed history gap must be non-empty'') else Inr (s, e)))"

definition append_gap :: "span list \<Rightarrow> instant \<Rightarrow> instant \<Rightarrow> span list res" where
  "append_gap gaps s e = rbind
     (ConfirmedHistoryGap (VDateTime (utc_datetime s)) (VDateTime (utc_datetime e))) (\<lambda>g. Inr (gaps @ [g]))"

text \<open>The bars the scan counts: closed, on the grid and inside the range.\<close>

definition counted_bar :: "int \<Rightarrow> instant \<Rightarrow> instant \<Rightarrow> bar \<Rightarrow> bool" where
  "counted_bar step s e b =
    (\<not> (bar_ts b mod 1000000 \<noteq> 0 \<or> epoch_seconds (bar_ts b) mod step \<noteq> 0
       \<or> \<not> (s \<le> bar_ts b \<and> bar_ts b < e)) \<and> bar_closed b)"

definition counted_timestamps :: "int \<Rightarrow> instant \<Rightarrow> instant \<Rightarrow> bar list \<Rightarrow> instant list" where
  "counted_timestamps step s e bars = sort (remdups (map bar_ts (filter (counted_bar step s e) bars)))"

fun gap_loop :: "int \<Rightarrow> instant list \<Rightarrow> instant \<Rightarrow> span list \<Rightarrow> (instant \<times> span list) res" where
  "gap_loop step [] cursor gaps = Inr (cursor, gaps)"
| "gap_loop step (t # ts) cursor gaps =
    rbind (if cursor < t then append_gap gaps cursor t else Inr gaps) (\<lambda>gaps'.
    rbind (instant_add t step) (\<lambda>slot_end. gap_loop step ts (max cursor slot_end) gaps'))"

text \<open>\<open>bars\<close> is \<open>None\<close> when an element is no bar.\<close>

definition confirmed_history_gap_ranges ::
  "bar list option \<Rightarrow> string \<Rightarrow> pyval \<Rightarrow> pyval \<Rightarrow> bool \<Rightarrow> bool \<Rightarrow> span list res" where
  "confirmed_history_gap_ranges bars timeframe requested_from requested_to include_prefix include_tail =
    rbind (require_aware_utc_datetime requested_from ''requested_from'') (\<lambda>s.
    rbind (require_aware_utc_datetime requested_to ''requested_to'') (\<lambda>e.
    rbind (require (s < e) (ValueError ''requested history range must be non-empty'')) (\<lambda>_.
    let step_seconds = interval_seconds timeframe; step = step_seconds * us_per_second in
    rbind (require (\<not> off_grid step_seconds s e)
      (ValueError ''requested history range must be timeframe-aligned'')) (\<lambda>_.
    (case bars of
       None \<Rightarrow> Inl (TypeError ''confirmed history gap input must contain Bar values'')
     | Some bs \<Rightarrow> (case counted_timestamps step_seconds s e bs of
         [] \<Rightarrow> if include_prefix \<or> include_tail then append_gap [] s e else Inr []
       | first # rest \<Rightarrow>
         rbind (instant_add first step) (\<lambda>cursor.
         rbind (if include_prefix \<and> s < first then append_gap [] s first else Inr []) (\<lambda>gaps.
         rbind (gap_loop step rest cursor gaps) (\<lambda>(cursor, gaps).
           if include_tail \<and> cursor < e then append_gap gaps cursor e else Inr gaps)))))))))"

section \<open>The newest chunk\<close>

text \<open>
  \<open>now\<close> is the clock of the function, \<open>now1\<close> and \<open>now2\<close> the two readings of the intent's
  constructor. A span that is no timedelta is \<open>None\<close>, otherwise its microseconds.
\<close>

definition select_history_repair_intent ::
  "instant \<Rightarrow> instant \<Rightarrow> instant \<Rightarrow> pyval \<Rightarrow> pyval \<Rightarrow> pyval \<Rightarrow> string \<Rightarrow> pyval \<Rightarrow> pyval \<Rightarrow> request_identity option
    \<Rightarrow> pyval \<Rightarrow> pyval \<Rightarrow> pyval \<Rightarrow> int option \<Rightarrow> repair_intent res" where
  "select_history_repair_intent now now1 now2 provider instrument_id fingerprint timeframe requested_from
      requested_to identity generation priority cooldown max_request_span =
    rbind (require_aware_utc_datetime requested_from ''requested_from'') (\<lambda>s.
    rbind (require_aware_utc_datetime requested_to ''requested_to'') (\<lambda>e.
    rbind (require (s < e) (ValueError ''requested history range must be non-empty'')) (\<lambda>_.
    (case max_request_span of
       None \<Rightarrow> Inl (ValueError ''max_request_span must be a canonical positive timedelta'')
     | Some span_us \<Rightarrow>
    rbind (require (0 < span_us \<and> span_us mod 1000000 = 0)
      (ValueError ''max_request_span must be a canonical positive timedelta'')) (\<lambda>_.
    let step_seconds = interval_seconds timeframe in
    rbind (require (\<not> off_grid step_seconds s e)
      (ValueError ''requested history range must be timeframe-aligned'')) (\<lambda>_.
    rbind (require (e \<le> now) (ValueError ''requested history range must be fully elapsed'')) (\<lambda>_.
    let max_slots = trunc_rat (total_seconds span_us) div step_seconds in
    rbind (require (1 \<le> max_slots)
      (ValueError ''max_request_span must contain one complete timeframe'')) (\<lambda>_.
    rbind (instant_add e (- (max_slots * step_seconds * us_per_second))) (\<lambda>earliest.
    HistoryRepairIntent now1 now2 provider instrument_id fingerprint (VStr timeframe)
      (VDateTime (utc_datetime (max s earliest))) (VDateTime (utc_datetime e)) identity generation priority
      cooldown (VDateTime (utc_datetime s)) (VDateTime (utc_datetime e)))))))))))"

section \<open>Grid facts\<close>

lemma off_grid_iff:
  assumes "exact_epoch a" "exact_epoch b" "0 < n"
  shows "off_grid n a b \<longleftrightarrow> \<not> (n * us_per_second dvd a \<and> n * us_per_second dvd b)"
proof -
  have "(a' mod 1000000 = 0 \<and> epoch_seconds a' mod n = 0) \<longleftrightarrow> n * us_per_second dvd a'"
    if "exact_epoch a'" for a'
    using aligned_iff [OF that assms(3)] assms(3)
    by (auto simp: timestamp_is_bucket_aligned_def split: if_splits)
  from this [OF assms(1)] this [OF assms(2)] show ?thesis by (auto simp: off_grid_def)
qed

lemma exact_epoch_in_range: "exact_epoch t \<Longrightarrow> in_dt_range t"
  by (simp add: exact_epoch_def in_dt_range_def dt_min_def dt_max_def)

lemma exact_epoch_between: "exact_epoch s \<Longrightarrow> exact_epoch e \<Longrightarrow> s \<le> t \<Longrightarrow> t \<le> e \<Longrightarrow> exact_epoch t"
  by (simp add: exact_epoch_def)

lemma require_aware_exact [simp]:
  "exact_epoch t \<Longrightarrow> require_aware_utc_datetime (VDateTime (utc_datetime t)) f = Inr t"
  by (simp add: require_aware_utc_datetime_def exact_epoch_in_range)

lemma append_gap_exact:
  "exact_epoch s \<Longrightarrow> exact_epoch e \<Longrightarrow> s < e \<Longrightarrow> append_gap gaps s e = Inr (gaps @ [(s, e)])"
  by (simp add: append_gap_def ConfirmedHistoryGap_def)

lemma grid_step_le:
  assumes "(n :: int) dvd a" "n dvd b" "a < b"
  shows "a + n \<le> b"
proof -
  have "n dvd b - a" using assms(1,2) by simp
  with assms(3) have "n \<le> b - a" by (intro zdvd_imp_le) simp_all
  then show ?thesis by simp
qed

lemma grid_sorted:
  "sorted_wrt (<) xs \<Longrightarrow> \<forall>t \<in> set xs. (n :: int) dvd t \<Longrightarrow> sorted_wrt (\<lambda>a b. a + n \<le> b) xs"
  by (erule sorted_wrt_mono_rel [rotated]) (simp add: grid_step_le)

section \<open>The gaps are exact\<close>

lemma least_member_iff:
  fixes f :: "'a \<Rightarrow> 'b::linorder"
  assumes "A = f ` {b \<in> B. P b}" "x \<in> A" "\<forall>y \<in> A. x \<le> y"
  shows "(\<exists>b \<in> B. P b \<and> f b \<le> t) \<longleftrightarrow> x \<le> t"
  using assms by (auto intro: order_trans)

lemma greatest_member_iff:
  fixes f :: "'a \<Rightarrow> 'b::linorder"
  assumes "A = f ` {b \<in> B. P b}" "x \<in> A" "\<forall>y \<in> A. y \<le> x"
  shows "(\<exists>b \<in> B. P b \<and> t < f b) \<longleftrightarrow> t < x"
  using assms by (auto intro: less_le_trans)

text \<open>The slots of timestamps.\<close>

definition slot_spans :: "int \<Rightarrow> instant list \<Rightarrow> span list" where
  "slot_spans step ts = map (\<lambda>t. (t, t + step)) ts"

lemma gap_loop_correct:
  assumes "0 < step" "sorted_wrt (\<lambda>a b. a + step \<le> b) (c # ts)"
    and "exact_epoch c" "\<forall>t \<in> set (c # ts). t + step \<le> e" "exact_epoch e"
    and "separated gaps" "\<forall>g \<in> set gaps. snd g \<le> c"
  shows "\<exists>gaps'. gap_loop step ts (c + step) gaps = Inr (last (c # ts) + step, gaps')
    \<and> separated gaps' \<and> (\<forall>g \<in> set gaps'. snd g \<le> last (c # ts))
    \<and> points gaps' = points gaps \<union> (span_points (c + step, last (c # ts) + step) - points (slot_spans step ts))"
  using assms
proof (induction ts arbitrary: c gaps)
  case Nil
  then show ?case by (auto simp: span_points_def)
next
  case (Cons t ts)
  have ct: "c + step \<le> t" and later: "\<forall>x \<in> set ts. t + step \<le> x" using Cons.prems(2) by auto
  have t: "exact_epoch t" "exact_epoch (t + step)" "exact_epoch (c + step)"
    using Cons.prems(1,3,4,5) ct by (auto intro: exact_epoch_between)
  then have add: "instant_add t step = Inr (t + step)"
    by (simp add: instant_add_def exact_epoch_in_range)
  let ?gaps = "if c + step < t then gaps @ [(c + step, t)] else gaps"
  have step: "gap_loop step (t # ts) (c + step) gaps = gap_loop step ts (t + step) ?gaps"
    using ct t add Cons.prems(1) by (auto simp: append_gap_exact max_def)
  have "separated ?gaps" "\<forall>g \<in> set ?gaps. snd g \<le> t"
    using Cons.prems(1,6,7) ct by (auto simp: separated_append separated_simps)
  with Cons.IH [of t ?gaps] Cons.prems t obtain gaps' where IH:
    "gap_loop step ts (t + step) ?gaps = Inr (last (t # ts) + step, gaps')" "separated gaps'"
    "\<forall>g \<in> set gaps'. snd g \<le> last (t # ts)"
    "points gaps' = points ?gaps \<union> (span_points (t + step, last (t # ts) + step) - points (slot_spans step ts))"
    by auto
  have last_ge: "t \<le> last (t # ts)" using later Cons.prems(1) by (cases ts rule: rev_cases) auto
  have low: "x \<notin> points (slot_spans step ts)" if "x < t + step" for x
    using that later by (auto simp: points_def slot_spans_def span_points_def)
  have "points ?gaps = points gaps \<union> span_points (c + step, t)"
    using ct by (auto simp: span_points_def)
  moreover have "span_points (c + step, last (t # ts) + step) - points (slot_spans step (t # ts)) =
      span_points (c + step, t) \<union> (span_points (t + step, last (t # ts) + step) - points (slot_spans step ts))"
    using ct last_ge low Cons.prems(1) by (auto simp: slot_spans_def span_points_def)
  ultimately show ?case using IH step by (auto simp: Un_assoc)
qed

lemma counted_iff:
  assumes "exact_epoch s" "exact_epoch e" "0 < n"
  shows "counted_bar n s e b \<longleftrightarrow>
    n * us_per_second dvd bar_ts b \<and> s \<le> bar_ts b \<and> bar_ts b < e \<and> bar_closed b"
proof (cases "s \<le> bar_ts b \<and> bar_ts b < e")
  case True
  then have x: "exact_epoch (bar_ts b)" by (intro exact_epoch_between [OF assms(1,2)]) simp_all
  have grid: "n * us_per_second dvd bar_ts b \<longleftrightarrow>
      bar_ts b mod 1000000 = 0 \<and> epoch_seconds (bar_ts b) mod n = 0"
    using off_grid_iff [OF x x assms(3)] unfolding off_grid_def by argo
  show ?thesis unfolding grid counted_bar_def using True by simp
next
  case False
  then show ?thesis unfolding counted_bar_def by simp argo
qed

lemma counted_timestamps_facts:
  assumes "exact_epoch s" "exact_epoch e" "0 < n"
  defines "step \<equiv> n * us_per_second"
  shows "set (counted_timestamps n s e bars) = bar_ts ` {b \<in> set bars. counted_bar n s e b}"
    and "sorted_wrt (\<lambda>a b. a + step \<le> b) (counted_timestamps n s e bars)"
proof -
  show set: "set (counted_timestamps n s e bars) = bar_ts ` {b \<in> set bars. counted_bar n s e b}"
    by (auto simp: counted_timestamps_def)
  have "sorted_wrt (<) (counted_timestamps n s e bars)"
    by (simp add: counted_timestamps_def strict_sorted_iff)
  moreover have "\<forall>t \<in> set (counted_timestamps n s e bars). step dvd t"
    unfolding set step_def using counted_iff [OF assms(1-3)] by auto
  ultimately show "sorted_wrt (\<lambda>a b. a + step \<le> b) (counted_timestamps n s e bars)"
    by (rule grid_sorted)
qed

text \<open>The counted bars of a range as the slots they fill.\<close>

definition counted_slots :: "string \<Rightarrow> instant \<Rightarrow> instant \<Rightarrow> bar list \<Rightarrow> instant set" where
  "counted_slots timeframe s e bars =
    points (map (\<lambda>b. (bar_ts b, bar_ts b + interval_seconds timeframe * us_per_second))
      (filter (counted_bar (interval_seconds timeframe) s e) bars))"

lemma counted_slots_timestamps:
  "counted_slots tf s e bars = points (slot_spans (interval_seconds tf * us_per_second)
    (counted_timestamps (interval_seconds tf) s e bars))"
  by (auto simp: counted_slots_def points_def slot_spans_def counted_timestamps_def)

lemma gap_scan_correct:
  assumes "exact_epoch s" "exact_epoch e" "0 < step" "step dvd s" "step dvd e"
    and "ts = first # rest" "sorted_wrt (\<lambda>a b. a + step \<le> b) ts" "\<forall>t \<in> set ts. step dvd t \<and> s \<le> t \<and> t < e"
  shows "\<exists>gs. rbind (instant_add first step) (\<lambda>cursor.
         rbind (if pre \<and> s < first then append_gap [] s first else Inr []) (\<lambda>gaps.
         rbind (gap_loop step rest cursor gaps) (\<lambda>(cursor, gaps).
           if post \<and> cursor < e then append_gap gaps cursor e else Inr gaps))) = Inr gs
    \<and> separated gs
    \<and> points gs = span_points (if pre then s else first, if post then e else last ts + step) - points (slot_spans step ts)"
proof -
  have first: "exact_epoch first" "s \<le> first" "first + step \<le> e"
    using assms grid_step_le [of step first e] by (auto intro: exact_epoch_between)
  then have fs: "exact_epoch (first + step)"
    using exact_epoch_between [OF assms(1,2)] assms(3) by simp
  have ends: "\<forall>t \<in> set ts. t + step \<le> e" using assms(5,8) grid_step_le by blast
  let ?g0 = "if pre \<and> s < first then [(s, first)] else []"
  have g0: "(if pre \<and> s < first then append_gap [] s first else Inr []) = Inr ?g0"
    using assms(1) first by (simp add: append_gap_exact)
  have sep0: "separated ?g0" and snd0: "\<forall>g \<in> set ?g0. snd g \<le> first"
    by (simp_all add: separated_simps)
  obtain gaps where g: "gap_loop step rest (first + step) ?g0 = Inr (last ts + step, gaps)"
    "separated gaps" "\<forall>g \<in> set gaps. snd g \<le> last ts"
    "points gaps = points ?g0 \<union> (span_points (first + step, last ts + step) - points (slot_spans step rest))"
    using gap_loop_correct [OF assms(3) assms(7) [unfolded assms(6)] first(1) ends [unfolded assms(6)]
      assms(2) sep0 snd0] unfolding assms(6) by blast
  have last: "last ts \<in> set ts" using assms(6) by simp
  have "first \<le> last ts" using assms(3,6,7) by (cases rest rule: rev_cases) auto
  note last = last this
  then have le: "last ts + step \<le> e" "exact_epoch (last ts + step)"
    using ends assms(1,2,3) first by (auto intro: exact_epoch_between [OF first(1) assms(2)])
  let ?gs = "if post \<and> last ts + step < e then gaps @ [(last ts + step, e)] else gaps"
  have run: "rbind (instant_add first step) (\<lambda>cursor.
         rbind (if pre \<and> s < first then append_gap [] s first else Inr []) (\<lambda>gaps.
         rbind (gap_loop step rest cursor gaps) (\<lambda>(cursor, gaps).
           if post \<and> cursor < e then append_gap gaps cursor e else Inr gaps))) = Inr ?gs"
    unfolding g0 using fs g(1) le assms(2)
    by (simp add: instant_add_def exact_epoch_in_range append_gap_exact)
  have sep: "separated ?gs"
    using g(2,3) assms(3) le by (force simp: separated_append separated_simps)
  have inside: "x \<notin> points (slot_spans step ts)" if "x < first \<or> last ts + step \<le> x" for x
  proof
    assume "x \<in> points (slot_spans step ts)"
    then obtain t where t: "t \<in> set ts" "t \<le> x" "x < t + step"
      by (auto simp: points_def slot_spans_def span_points_def)
    have "first \<le> t" using t(1) assms(3,6,7) by auto
    moreover have "t \<le> last ts"
      using t(1) assms(3,7) by (cases ts rule: rev_cases) (auto simp: sorted_wrt_append)
    ultimately show False using that t assms(3) by linarith
  qed
  have "points ?gs = span_points (if pre then s else first, if post then e else last ts + step)
      - points (slot_spans step ts)"
  proof -
    have "points (slot_spans step ts) = span_points (first, first + step) \<union> points (slot_spans step rest)"
      by (simp add: assms(6) slot_spans_def)
    moreover have "points ?gs = points ?g0
        \<union> (span_points (first + step, last ts + step) - points (slot_spans step rest))
        \<union> (if post then span_points (last ts + step, e) else {})"
      using g(4) le by (auto simp: span_points_def)
    moreover have "points ?g0 = (if pre then span_points (s, first) else {})"
      using first by (auto simp: span_points_def)
    ultimately show ?thesis
      using inside le first last assms(3) by (auto simp: span_points_def)
  qed
  with run sep show ?thesis by blast
qed

text \<open>The gaps of a confirmed series are exact: the scan of an aligned range never raises, its gaps are
  in order, non-empty and apart, and a point is in a gap exactly when it is in the range, in no
  slot of a counted bar, and behind the first counted bar (unless the prefix is asked for) and
  before the last one (unless the tail is).\<close>

theorem confirmed_gaps_are_exact:
  assumes "exact_epoch s" "exact_epoch e" "s < e"
    and "interval_seconds timeframe * us_per_second dvd s" "interval_seconds timeframe * us_per_second dvd e"
  shows "\<exists>gs. confirmed_history_gap_ranges (Some bars) timeframe (VDateTime (utc_datetime s))
        (VDateTime (utc_datetime e)) include_prefix include_tail = Inr gs
    \<and> separated gs
    \<and> (if \<exists>b \<in> set bars. counted_bar (interval_seconds timeframe) s e b
       then \<forall>t. t \<in> points gs \<longleftrightarrow> s \<le> t \<and> t < e \<and> t \<notin> counted_slots timeframe s e bars
         \<and> (include_prefix \<or> (\<exists>b \<in> set bars. counted_bar (interval_seconds timeframe) s e b \<and> bar_ts b \<le> t))
         \<and> (include_tail \<or> (\<exists>b \<in> set bars. counted_bar (interval_seconds timeframe) s e b \<and> t < bar_ts b))
       else gs = (if include_prefix \<or> include_tail then [(s, e)] else []))"
proof -
  let ?n = "interval_seconds timeframe"
  let ?step = "?n * us_per_second" and ?ts = "counted_timestamps ?n s e bars"
  have n: "0 < ?n" and step: "0 < ?step" by (simp_all add: us_per_second_def)
  note c = counted_timestamps_facts [OF assms(1,2) n, of bars]
  have grid: "\<not> off_grid ?n s e" using assms off_grid_iff [OF assms(1,2) n] by simp
  show ?thesis
  proof (cases ?ts)
    case Nil
    then have "\<not> (\<exists>b \<in> set bars. counted_bar ?n s e b)" using c(1) by auto
    then show ?thesis
      using Nil grid assms
      by (auto simp: confirmed_history_gap_ranges_def Let_def append_gap_exact separated_simps)
  next
    case (Cons first rest)
    have counted: "\<forall>t \<in> set ?ts. ?step dvd t \<and> s \<le> t \<and> t < e"
      unfolding c(1) using counted_iff [OF assms(1,2) n] by auto
    obtain gs where gs: "confirmed_history_gap_ranges (Some bars) timeframe (VDateTime (utc_datetime s))
        (VDateTime (utc_datetime e)) include_prefix include_tail = Inr gs" "separated gs"
      "points gs = span_points (if include_prefix then s else first, if include_tail then e else last ?ts + ?step)
        - points (slot_spans ?step ?ts)"
      using gap_scan_correct [OF assms(1,2) step assms(4,5) Cons c(2) counted, of include_prefix include_tail]
        assms grid Cons
      by (auto simp: confirmed_history_gap_ranges_def Let_def)
    have mem: "t \<in> set ?ts \<longleftrightarrow> (\<exists>b \<in> set bars. counted_bar ?n s e b \<and> bar_ts b = t)" for t
      unfolding c(1) by auto
    have fl: "first \<in> set ?ts" "last ?ts \<in> set ?ts" "\<forall>t \<in> set ?ts. first \<le> t \<and> t \<le> last ?ts"
    proof -
      show "first \<in> set ?ts" "last ?ts \<in> set ?ts" by (simp_all add: Cons)
      have "sorted ?ts" by (simp add: counted_timestamps_def)
      then show "\<forall>t \<in> set ?ts. first \<le> t \<and> t \<le> last ?ts"
        unfolding Cons by (cases rest rule: rev_cases) (auto simp: sorted_append)
    qed
    have le_end: "last ?ts + ?step \<le> e" using grid_step_le [OF _ assms(5)] counted fl(2) by blast
    have behind: "(\<exists>b \<in> set bars. counted_bar ?n s e b \<and> bar_ts b \<le> t) \<longleftrightarrow> first \<le> t" for t
      by (rule least_member_iff [OF c(1) fl(1)]) (use fl(3) in blast)
    have before: "(\<exists>b \<in> set bars. counted_bar ?n s e b \<and> t < bar_ts b) \<longleftrightarrow> t < last ?ts" for t
      by (rule greatest_member_iff [OF c(1) fl(2)]) (use fl(3) in blast)
    have "t \<in> points (slot_spans ?step ?ts)" if "last ?ts \<le> t" "t < last ?ts + ?step" for t
      using that fl(2) by (auto simp: points_def slot_spans_def span_points_def)
    then have last_slot: "t \<in> points (slot_spans ?step ?ts) \<or> t < last ?ts \<or> last ?ts + ?step \<le> t" for t
      using not_le by blast
    have "t \<in> points gs \<longleftrightarrow> s \<le> t \<and> t < e \<and> t \<notin> counted_slots timeframe s e bars
        \<and> (include_prefix \<or> first \<le> t) \<and> (include_tail \<or> t < last ?ts)" for t
      using last_slot [of t] le_end counted fl(1,2) step
      unfolding gs(3) counted_slots_timestamps by (auto simp: span_points_def)
    moreover have "\<exists>b \<in> set bars. counted_bar ?n s e b" using fl(1) mem by blast
    ultimately show ?thesis using gs(1,2) unfolding behind before by auto
  qed
qed

section \<open>Well-formed intents\<close>

definition intent_ok :: "repair_intent \<Rightarrow> bool" where
  "intent_ok it \<longleftrightarrow> it_provider it \<noteq> [] \<and> it_instrument_id it \<noteq> [] \<and> it_route_fingerprint it \<noteq> []
     \<and> it_timeframe it \<in> set PERSISTED_BAR_INTERVALS
     \<and> exact_epoch (it_target_starts_at it) \<and> exact_epoch (it_target_ends_at it)
     \<and> it_target_starts_at it \<le> it_starts_at it \<and> it_starts_at it < it_ends_at it
     \<and> it_ends_at it \<le> it_target_ends_at it
     \<and> (\<forall>t \<in> {it_target_starts_at it, it_starts_at it, it_ends_at it, it_target_ends_at it}.
          interval_seconds (it_timeframe it) * us_per_second dvd t)
     \<and> 0 \<le> it_generation it \<and> isfinite (it_cooldown it) \<and> \<not> flt (it_cooldown it) (Fin 0)"

text \<open>The constructor over the fields of an intent, which is what \<open>replace\<close> runs.\<close>

definition rebuild_intent :: "instant \<Rightarrow> instant \<Rightarrow> repair_intent \<Rightarrow> repair_intent res" where
  "rebuild_intent now now' it = HistoryRepairIntent now now' (VStr (it_provider it)) (VStr (it_instrument_id it))
     (VStr (it_route_fingerprint it)) (VStr (it_timeframe it)) (VDateTime (utc_datetime (it_starts_at it)))
     (VDateTime (utc_datetime (it_ends_at it))) (Some (it_identity it)) (VInt (it_generation it))
     (VInt (priority_value (it_priority it))) (VFloat (it_cooldown it))
     (VDateTime (utc_datetime (it_target_starts_at it))) (VDateTime (utc_datetime (it_target_ends_at it)))"

lemma repair_priority_of_value [simp]: "repair_priority_of (VInt (priority_value p)) = Some p"
  by (cases p) simp_all

lemma intent_ok_epochs:
  assumes "intent_ok it"
  shows "exact_epoch (it_starts_at it)" "exact_epoch (it_ends_at it)"
    "exact_epoch (it_target_starts_at it)" "exact_epoch (it_target_ends_at it)"
  using assms by (auto simp: intent_ok_def exact_epoch_def)

lemma intent_ok_on_grid:
  assumes "intent_ok it"
  shows "\<not> off_grid (interval_seconds (it_timeframe it)) (it_starts_at it) (it_ends_at it)"
    "\<not> off_grid (interval_seconds (it_timeframe it)) (it_target_starts_at it) (it_target_ends_at it)"
  using assms intent_ok_epochs [OF assms] by (simp_all add: off_grid_iff intent_ok_def)

lemma rebuild_intent_ok:
  assumes "intent_ok it" "it_target_ends_at it \<le> now" "it_target_ends_at it \<le> now'"
  shows "rebuild_intent now now' it = Inr it"
proof -
  note e = intent_ok_epochs [OF assms(1)] and g = intent_ok_on_grid [OF assms(1)]
  have "it_ends_at it \<le> now" "it_target_starts_at it < it_target_ends_at it"
    using assms by (auto simp: intent_ok_def)
  moreover have "it_timeframe it \<noteq> []"
    using assms(1) by (auto simp: intent_ok_def PERSISTED_BAR_INTERVALS_def)
  ultimately show ?thesis
    using assms e g
    by (simp del: repair_priority_of.simps add: rebuild_intent_def HistoryRepairIntent_def exact_history_text_def nonempty_text_def
      intent_ok_def non_negative_seconds_def)
qed

section \<open>The newest chunk is the intent the constructor accepts\<close>

lemma slot_count_exact:
  assumes "0 < us" "us mod 1000000 = 0" "us < 2 ^ 33 * 10 ^ 6" "0 < n"
  shows "trunc_rat (total_seconds us) div n * n * us_per_second = us - us mod (n * us_per_second)"
proof -
  have us: "us = us div us_per_second * us_per_second"
    using assms(2) minus_mod_eq_div_mult [of us us_per_second] by (simp add: us_per_second_def)
  have s: "0 \<le> us div us_per_second" "us div us_per_second \<le> 2 ^ 53"
    using assms(1,3) by (auto simp: us_per_second_def)
  have "total_seconds us = of_int (us div us_per_second)"
    using total_seconds_exact [OF s] us by simp
  then have "trunc_rat (total_seconds us) = us div us_per_second"
    using s(1) by (simp add: trunc_rat_def)
  moreover have "us mod (n * us_per_second) = (us div us_per_second) mod n * us_per_second"
    using us by (metis mult_mod_left)
  moreover have "us div us_per_second div n * n = us div us_per_second - us div us_per_second mod n"
    by (simp add: minus_mod_eq_div_mult)
  ultimately show ?thesis using us by (metis left_diff_distrib)
qed

lemma earliest_start_facts:
  assumes "0 < (n :: int)" "n \<le> width" "n dvd s" "n dvd e" "s < e"
  defines "start \<equiv> max s (e - (width - width mod n))"
  shows "n dvd start" "s \<le> start" "start < e" "e - start \<le> width" "start = s \<or> width < e - start + n"
proof -
  have k: "n dvd width - width mod n" by (simp add: dvd_minus_mod)
  show "n dvd start" using k assms(3,4) unfolding start_def by (auto simp: max_def)
  have m: "0 \<le> width mod n" "width mod n < n" using assms(1) by simp_all
  have "0 < width - width mod n" using m assms(2) by linarith
  then show "s \<le> start" "start < e" "e - start \<le> width" "start = s \<or> width < e - start + n"
    using m assms(5) unfolding start_def by (auto simp: max_def)
qed

text \<open>The chunk a repair may ask for: for a fully elapsed, aligned envelope and a span that holds at
  least one bar, the choice succeeds with a well-formed intent that ends at the envelope's end,
  starts inside the envelope, is no longer than the span, and either starts where the envelope
  starts or could not hold one more slot.\<close>

theorem selected_chunk_is_newest_and_bounded:
  assumes "exact_epoch s" "exact_epoch e" "s < e" "timeframe \<in> set PERSISTED_BAR_INTERVALS"
    and "interval_seconds timeframe * us_per_second dvd s" "interval_seconds timeframe * us_per_second dvd e"
    and "e \<le> now" "e \<le> now1" "e \<le> now2"
    and "span_us mod 1000000 = 0" "interval_seconds timeframe * us_per_second \<le> span_us"
    and "span_us < 2 ^ 33 * 10 ^ 6"
    and "provider \<noteq> []" "instrument_id \<noteq> []" "fingerprint \<noteq> []" "0 \<le> generation"
    and "isfinite cooldown" "\<not> flt cooldown (Fin 0)"
  shows "\<exists>it. select_history_repair_intent now now1 now2 (VStr provider) (VStr instrument_id) (VStr fingerprint)
        timeframe (VDateTime (utc_datetime s)) (VDateTime (utc_datetime e)) (Some identity) (VInt generation)
        (VInt (priority_value priority)) (VFloat cooldown) (Some span_us) = Inr it
    \<and> intent_ok it \<and> it_target_starts_at it = s \<and> it_target_ends_at it = e \<and> it_ends_at it = e
    \<and> it_ends_at it - it_starts_at it \<le> span_us
    \<and> (it_starts_at it = s
       \<or> span_us < it_ends_at it - it_starts_at it + interval_seconds timeframe * us_per_second)"
proof -
  let ?n = "interval_seconds timeframe"
  let ?slot = "?n * us_per_second"
  let ?start = "max s (e - (span_us - span_us mod ?slot))"
  have pos: "0 < ?n" "0 < ?slot" "0 < span_us" using assms(11) by (simp_all add: us_per_second_def)
      (metis assms(11) interval_seconds_pos mult_pos_pos order_less_le_trans us_per_second_def zero_less_numeral)
  have slots: "trunc_rat (total_seconds span_us) div ?n * ?n * us_per_second = span_us - span_us mod ?slot"
    by (rule slot_count_exact [OF pos(3) assms(10,12) pos(1)])
  note st = earliest_start_facts [OF pos(2) assms(11,5,6,3)]
  have "0 < span_us - span_us mod ?slot"
    using assms(11) pos(2) pos_mod_bound [of ?slot span_us] by linarith
  then have some: "1 \<le> trunc_rat (total_seconds span_us) div ?n"
    unfolding slots [symmetric] using pos(1) by (simp add: zero_less_mult_iff us_per_second_def)
  have "exact_epoch ?start" using exact_epoch_between [OF assms(1,2) st(2)] st(3) by simp
  have low: "in_dt_range (e - (span_us - span_us mod ?slot))"
    using assms(1,2,12) pos(3) \<open>0 < span_us - span_us mod ?slot\<close> pos_mod_sign [OF pos(2), of span_us]
    by (simp add: in_dt_range_def dt_min_def dt_max_def exact_epoch_def)
  have add: "instant_add e (- (trunc_rat (total_seconds span_us) div ?n * ?n * us_per_second)) =
      Inr (e - (span_us - span_us mod ?slot))"
    using low by (simp only: slots instant_add_def diff_conv_add_uminus if_True)
  let ?it = "\<lparr>it_provider = provider, it_instrument_id = instrument_id, it_route_fingerprint = fingerprint,
    it_timeframe = timeframe, it_starts_at = ?start, it_ends_at = e, it_identity = identity,
    it_generation = generation, it_priority = priority, it_cooldown = cooldown,
    it_target_starts_at = s, it_target_ends_at = e\<rparr>"
  have ok: "intent_ok ?it" using assms st by (simp add: intent_ok_def)
  have "rebuild_intent now1 now2 ?it = Inr ?it" by (rule rebuild_intent_ok [OF ok]) (use assms in simp_all)
  moreover have "\<not> off_grid ?n s e" using assms off_grid_iff [OF assms(1,2) pos(1)] by simp
  ultimately have "select_history_repair_intent now now1 now2 (VStr provider) (VStr instrument_id) (VStr fingerprint)
      timeframe (VDateTime (utc_datetime s)) (VDateTime (utc_datetime e)) (Some identity) (VInt generation)
      (VInt (priority_value priority)) (VFloat cooldown) (Some span_us) = Inr ?it"
    using assms(1,2,3,7,10) pos(3) some unfolding select_history_repair_intent_def Let_def
    by (simp add: add rebuild_intent_def del: repair_priority_of.simps)
  with ok st(4,5) show ?thesis by (intro exI [of _ ?it]) simp
qed

section \<open>Examples\<close>

definition example_identity :: request_identity where
  "example_identity = \<lparr>ri_request_version = 2, ri_admission_version = 2, ri_mode = ''historical'',
     ri_request_type = HISTORICAL, ri_source = ''ibkr'', ri_contract_id = ''42'',
     ri_contract_type = ''STK'', ri_data_type = ''TRADES'', ri_resolution = ResolvedExact\<rparr>"

lemma minute_seconds: "interval_seconds ''1m'' = 60" by code_simp

definition example_history_bar :: "int \<Rightarrow> bar" where
  "example_history_bar i = \<lparr>bar_symbol = ''BTC'', bar_ts = i * 60000000, bar_open = Fin 10, bar_high = Fin 12,
     bar_low = Fin 9, bar_close = Fin 11, bar_volume = Fin 2, bar_timeframe = ''1m'', bar_source = ''coinbase'',
     bar_closed = True, bar_state = CONFIRMED, bar_provenance = None\<rparr>"

theorem confirmed_gaps_are_exact_witness:
  "\<exists>gs. confirmed_history_gap_ranges (Some [example_history_bar 3, example_history_bar 1]) ''1m''
      (VDateTime (utc_datetime 0)) (VDateTime (utc_datetime 360000000)) False True = Inr gs
    \<and> 120000000 \<in> points gs \<and> 0 \<notin> points gs \<and> 360000000 - 1 \<in> points gs"
proof -
  let ?bars = "[example_history_bar 3, example_history_bar 1]"
  have c: "counted_bar 60 0 360000000 (example_history_bar i) \<longleftrightarrow> 0 \<le> i \<and> i < 6" for i
    using counted_iff [of 0 360000000 60 "example_history_bar i"]
    by (auto simp: exact_epoch_def example_history_bar_def us_per_second_def)
  have "\<exists>gs. confirmed_history_gap_ranges (Some ?bars) ''1m'' (VDateTime (utc_datetime 0))
        (VDateTime (utc_datetime 360000000)) False True = Inr gs
    \<and> separated gs
    \<and> (if \<exists>b \<in> set ?bars. counted_bar (interval_seconds ''1m'') 0 360000000 b
       then \<forall>t. t \<in> points gs \<longleftrightarrow> 0 \<le> t \<and> t < 360000000 \<and> t \<notin> counted_slots ''1m'' 0 360000000 ?bars
         \<and> (False \<or> (\<exists>b \<in> set ?bars. counted_bar (interval_seconds ''1m'') 0 360000000 b \<and> bar_ts b \<le> t))
         \<and> (True \<or> (\<exists>b \<in> set ?bars. counted_bar (interval_seconds ''1m'') 0 360000000 b \<and> t < bar_ts b))
       else gs = (if False \<or> True then [(0, 360000000)] else []))"
    by (rule confirmed_gaps_are_exact) (simp_all add: exact_epoch_def minute_seconds us_per_second_def)
  then obtain gs where gs: "confirmed_history_gap_ranges (Some ?bars) ''1m'' (VDateTime (utc_datetime 0))
        (VDateTime (utc_datetime 360000000)) False True = Inr gs"
    "\<And>t. t \<in> points gs \<longleftrightarrow> 0 \<le> t \<and> t < 360000000 \<and> t \<notin> counted_slots ''1m'' 0 360000000 ?bars
       \<and> (\<exists>b \<in> set ?bars. counted_bar 60 0 360000000 b \<and> bar_ts b \<le> t)"
    by (auto simp: minute_seconds c)
  have "120000000 \<in> points gs \<and> 0 \<notin> points gs \<and> 360000000 - 1 \<in> points gs"
    unfolding gs(2) by (simp add: counted_slots_def minute_seconds c)
      (simp add: example_history_bar_def span_points_def us_per_second_def)
  with gs(1) show ?thesis by blast
qed

theorem selected_chunk_is_newest_and_bounded_witness:
  "\<exists>it. select_history_repair_intent 600000000 600000000 600000000 (VStr ''ibkr'') (VStr ''ibkr|contract|42'')
      (VStr ''ibkr|contract|42'') ''1m'' (VDateTime (utc_datetime 0)) (VDateTime (utc_datetime 360000000)) (Some example_identity)
      (VInt 3) (VInt (priority_value FOREGROUND)) (VFloat (Fin 30)) (Some 150000000) = Inr it
    \<and> it_ends_at it = 360000000 \<and> it_ends_at it - it_starts_at it \<le> 150000000"
  using selected_chunk_is_newest_and_bounded [of 0 360000000 "''1m''" 600000000 600000000 600000000 150000000
      "''ibkr''" "''ibkr|contract|42''" "''ibkr|contract|42''" 3 "Fin 30" example_identity FOREGROUND]
  by (simp add: exact_epoch_def minute_seconds us_per_second_def PERSISTED_BAR_INTERVALS_def del: priority_value.simps) auto

end
