(* ===== verification/RepairLane.thy ===== *)
theory RepairLane
  imports RepairPlan
begin

text \<open>
  \<open>data/history_repair.py\<close>: one lane of history repairs per provider. Requests are admitted under the
  orchestrator's lock, one task per provider fetches and commits a chunk, and the end of a task starts
  the continuation of its envelope or the next pending request. The state is the orchestrator's
  dictionaries; tasks, the callables of a request and completion callbacks are opaque handles, and
  every operation that calls callbacks returns the calls it makes.
\<close>

section \<open>Keys\<close>

text \<open>The two key tuples, each under a constructor of its own.\<close>

datatype repair_key = RepairKey (key_provider: string) string string string instant instant instant instant
  request_identity int

datatype cursor_key = CursorKey string string string string instant instant instant instant request_identity

definition repair_key :: "repair_intent \<Rightarrow> repair_key" where
  "repair_key it = RepairKey (it_provider it) (it_instrument_id it) (it_route_fingerprint it) (it_timeframe it)
     (it_starts_at it) (it_ends_at it) (it_target_starts_at it) (it_target_ends_at it) (it_identity it)
     (it_generation it)"

definition repair_cursor_key :: "repair_intent \<Rightarrow> cursor_key" where
  "repair_cursor_key it = CursorKey (it_provider it) (it_instrument_id it) (it_route_fingerprint it)
     (it_timeframe it) (it_starts_at it) (it_ends_at it) (it_target_starts_at it) (it_target_ends_at it)
     (it_identity it)"

text \<open>\<open>cursor_key[:4]\<close>; \<open>key[0]\<close> of a repair key is its selector \<open>key_provider\<close>.\<close>

fun chart_scope :: "cursor_key \<Rightarrow> string \<times> string \<times> string \<times> string" where
  "chart_scope (CursorKey p i f t _ _ _ _ _) = (p, i, f, t)"

section \<open>Requests, tasks and the state\<close>

text \<open>\<open>_PendingHistoryRepair\<close>, its callables as handles.\<close>

record 'h repair_request =
  rq_key :: repair_key
  rq_exact :: bool
  rq_instrument :: instrument
  rq_intent :: repair_intent
  rq_timeout :: pyfloat
  rq_fetch :: 'h
  rq_commit :: 'h
  rq_store :: 'h

text \<open>A task has an identity, the request it runs and whether it is done.\<close>

record 'h repair_task =
  tk_id :: nat
  tk_request :: "'h repair_request"
  tk_done :: bool

record ('h, 'c) lane =
  ln_tasks :: "(repair_key, 'h repair_task) pydict"
  ln_next_allowed :: "(repair_key, pyfloat) pydict"
  ln_awaiting :: "(cursor_key, int) pydict"
  ln_pending :: "(string, (repair_key, 'h repair_request) pydict) pydict"
  ln_callbacks :: "(repair_key, 'c list) pydict"
  ln_outcomes :: "(repair_key, repair_outcome) pydict"
  ln_created :: nat

type_synonym 'c completion_calls = "('c \<times> repair_outcome) list"

definition HistoryRepairOrchestrator :: "('h, 'c) lane" where
  "HistoryRepairOrchestrator = \<lparr>ln_tasks = [], ln_next_allowed = [], ln_awaiting = [], ln_pending = [],
     ln_callbacks = [], ln_outcomes = [], ln_created = 0\<rparr>"

definition MAX_PENDING_REPAIRS_PER_PROVIDER :: nat where
  "MAX_PENDING_REPAIRS_PER_PROVIDER = 32"

definition MAX_COMPLETION_CALLBACKS_PER_REPAIR :: nat where
  "MAX_COMPLETION_CALLBACKS_PER_REPAIR = 32"

definition MAX_RETAINED_HISTORY_REPAIR_OUTCOMES :: nat where
  "MAX_RETAINED_HISTORY_REPAIR_OUTCOMES = 256"

definition FAILURE_BACKOFF_SECONDS :: pyfloat where
  "FAILURE_BACKOFF_SECONDS = Fin 300"

section \<open>Outcomes the orchestrator makes itself\<close>

definition opt_pyval :: "('a \<Rightarrow> pyval) \<Rightarrow> 'a option \<Rightarrow> pyval" where
  "opt_pyval f x = (case x of None \<Rightarrow> VNone | Some y \<Rightarrow> f y)"

text \<open>The constructor with the keyword arguments this module passes; the others keep their defaults.\<close>

definition lane_outcome ::
  "outcome_status \<Rightarrow> repair_intent \<Rightarrow> history_terminal option \<Rightarrow> int option \<Rightarrow> pyval
    \<Rightarrow> instant option \<Rightarrow> instant option \<Rightarrow> repair_outcome res" where
  "lane_outcome status it terminal generation error_code starts_at ends_at =
    HistoryRepairOutcome (VStr (outcome_text status)) (Some it)
      (opt_pyval (\<lambda>t. VStr (terminal_text t)) terminal) (VInt 0) (VInt 0) (VInt 0) (VBool False)
      (opt_pyval VInt generation) error_code
      (opt_pyval (\<lambda>t. VDateTime (utc_datetime t)) starts_at) (opt_pyval (\<lambda>t. VDateTime (utc_datetime t)) ends_at)"

text \<open>\<open>str(exc) or exc.__class__.__name__\<close>: the message the exception carries, else its class.\<close>

fun exn_text :: "exn \<Rightarrow> string" where
  "exn_text (ValueError m) = (if m = [] then ''ValueError'' else m)"
| "exn_text (TypeError m) = (if m = [] then ''TypeError'' else m)"
| "exn_text (RuntimeError m) = (if m = [] then ''RuntimeError'' else m)"
| "exn_text (InstrumentIdentityError m) = (if m = [] then ''InstrumentIdentityError'' else m)"
| "exn_text (ProviderPriceIncrementError m) = (if m = [] then ''ProviderPriceIncrementError'' else m)"
| "exn_text (ChartHistoryRangeError code _ _ _) = (if code = [] then ''ChartHistoryRangeError'' else code)"
| "exn_text OverflowError = ''OverflowError''"
| "exn_text ZeroDivisionError = ''ZeroDivisionError''"
| "exn_text IndexError = ''IndexError''"
| "exn_text KeyError = ''KeyError''"
| "exn_text AttributeError = ''AttributeError''"
| "exn_text AssertionError = ''AssertionError''"
| "exn_text CancelledError = ''CancelledError''"
| "exn_text (ChartBarsGenerationChanged _ _ _ _) = ''ChartBarsGenerationChanged''"

section \<open>Continuation\<close>

definition repair_progressed :: "repair_outcome \<Rightarrow> bool" where
  "repair_progressed oc = (oc_status oc = OcCommitted \<or> oc_written_bars oc \<noteq> 0 \<or> oc_deleted_bars oc \<noteq> 0
     \<or> oc_coverage_expanded oc)"

text \<open>\<open>now\<close> and \<open>now'\<close> are the clock readings of the intent's constructor, run by \<open>replace\<close>.\<close>

definition continuation_request ::
  "instant \<Rightarrow> instant \<Rightarrow> 'h repair_request \<Rightarrow> repair_outcome \<Rightarrow> 'h repair_request option res" where
  "continuation_request now now' rq oc =
    (let it = rq_intent rq; target_start = it_target_starts_at it in
     if ri_resolution (it_identity it) = ResolvedByResponse then Inr None
     else if oc_status oc \<notin> {OcCommitted, OcNoChange} \<or> \<not> repair_progressed oc \<or> it_starts_at it \<le> target_start
     then Inr None
     else let chunk_span = it_ends_at it - it_starts_at it; next_end = it_starts_at it in
       rbind (instant_add next_end (- chunk_span)) (\<lambda>earliest.
       let generation = (case oc_generation oc of None \<Rightarrow> it_generation it | Some g \<Rightarrow> g) in
       rbind (rebuild_intent now now' (it\<lparr>it_starts_at := max target_start earliest, it_ends_at := next_end,
           it_generation := generation\<rparr>)) (\<lambda>next.
         Inr (Some (rq\<lparr>rq_key := repair_key next, rq_intent := next\<rparr>)))))"

definition terminal_no_progress :: "repair_outcome \<Rightarrow> bool" where
  "terminal_no_progress oc = (oc_status oc \<in> {OcNoChange, OcIncomplete, OcMalformed}
     \<and> oc_written_bars oc = 0 \<and> oc_deleted_bars oc = 0 \<and> \<not> oc_coverage_expanded oc)"

section \<open>Operations under the lock\<close>

definition remember_outcome :: "repair_outcome \<Rightarrow> ('h, 'c) lane \<Rightarrow> ('h, 'c) lane" where
  "remember_outcome oc st =
    (let key = repair_key (oc_intent oc); outcomes = dset key oc (dpop key (ln_outcomes st)) in
     st\<lparr>ln_outcomes := drop (length outcomes - MAX_RETAINED_HISTORY_REPAIR_OUTCOMES) outcomes\<rparr>)"

definition latest_outcome :: "repair_intent option \<Rightarrow> ('h, 'c) lane \<Rightarrow> (repair_outcome option \<times> ('h, 'c) lane) res" where
  "latest_outcome intent st = (case intent of
      None \<Rightarrow> Inl (TypeError ''history repair intent must be typed'')
    | Some it \<Rightarrow> (case dget (ln_outcomes st) (repair_key it) of
        None \<Rightarrow> Inr (None, st)
      | Some oc \<Rightarrow> Inr (Some oc,
          st\<lparr>ln_outcomes := dset (repair_key it) oc (dpop (repair_key it) (ln_outcomes st))\<rparr>)))"

definition subscribe :: "repair_key \<Rightarrow> 'c option \<Rightarrow> ('h, 'c) lane \<Rightarrow> bool \<times> ('h, 'c) lane" where
  "subscribe key callback st = (case callback of
      None \<Rightarrow> (False, st)
    | Some cb \<Rightarrow>
       (let callbacks = dget_default (ln_callbacks st) key [] in
        if MAX_COMPLETION_CALLBACKS_PER_REPAIR \<le> length callbacks
        then (False, st\<lparr>ln_callbacks := dset key callbacks (ln_callbacks st)\<rparr>)
        else (True, st\<lparr>ln_callbacks := dset key (callbacks @ [cb]) (ln_callbacks st)\<rparr>)))"

definition request_priority :: "'h repair_request \<Rightarrow> int" where
  "request_priority rq = priority_value (it_priority (rq_intent rq))"

definition prioritize_pending ::
  "(repair_key, 'h repair_request) pydict \<Rightarrow> (repair_key, 'h repair_request) pydict" where
  "prioritize_pending pending = sort_key (\<lambda>(key, rq). request_priority rq) pending"

definition start_task :: "'h repair_request \<Rightarrow> ('h, 'c) lane \<Rightarrow> ('h, 'c) lane" where
  "start_task rq st = st\<lparr>ln_tasks := dset (rq_key rq)
      \<lparr>tk_id = ln_created st, tk_request = rq, tk_done = False\<rparr> (ln_tasks st),
     ln_created := ln_created st + 1\<rparr>"

definition pop_next :: "string \<Rightarrow> ('h, 'c) lane \<Rightarrow> 'h repair_request option \<times> ('h, 'c) lane" where
  "pop_next provider st = (case dget_default (ln_pending st) provider [] of
      [] \<Rightarrow> (None, st\<lparr>ln_pending := dpop provider (ln_pending st)\<rparr>)
    | (_, rq) # pending \<Rightarrow> (Some rq, st\<lparr>ln_pending :=
        (if pending = [] then dpop provider (ln_pending st) else dset provider pending (ln_pending st))\<rparr>))"

text \<open>\<open>self._callbacks.pop(key, ())\<close>, each callback with its outcome.\<close>

definition take_callbacks :: "repair_key \<Rightarrow> repair_outcome \<Rightarrow> ('h, 'c) lane \<Rightarrow> 'c completion_calls \<times> ('h, 'c) lane" where
  "take_callbacks key oc st = (map (\<lambda>cb. (cb, oc)) (dget_default (ln_callbacks st) key []),
     st\<lparr>ln_callbacks := dpop key (ln_callbacks st)\<rparr>)"

section \<open>The end of a task\<close>

datatype 'a awaited = Returned 'a | Raised exn | Cancelled

definition request_cooldown :: "repair_intent \<Rightarrow> outcome_status \<Rightarrow> pyfloat" where
  "request_cooldown it status =
    (if status \<in> {OcFetchFailed, OcStorageFailed, OcCommitFailed, OcCommitQueueFull, OcMalformed}
     then fmax (it_cooldown it) FAILURE_BACKOFF_SECONDS else it_cooldown it)"

text \<open>
  The part of the locked block that ends the task itself: its outcome is kept, a chunk without
  progress waits for a new generation, the key is throttled, the task leaves the table if it is
  still the table's task, and its callbacks are collected.
\<close>

definition settle_task ::
  "pyfloat \<Rightarrow> 'h repair_task \<Rightarrow> repair_outcome \<Rightarrow> ('h, 'c) lane \<Rightarrow> 'c completion_calls \<times> ('h, 'c) lane" where
  "settle_task now t oc st =
    (let it = rq_intent (tk_request t); key = rq_key (tk_request t); st = remember_outcome oc st;
         st = (if terminal_no_progress oc
               then st\<lparr>ln_awaiting := dset (repair_cursor_key it) (it_generation it) (ln_awaiting st)\<rparr> else st);
         st = st\<lparr>ln_next_allowed := dset key (fadd now (request_cooldown it (oc_status oc))) (ln_next_allowed st)\<rparr>;
         st = (case dget (ln_tasks st) key of
                 Some current \<Rightarrow> if tk_id current = tk_id t then st\<lparr>ln_tasks := dpop key (ln_tasks st)\<rparr> else st
               | None \<Rightarrow> st)
     in take_callbacks key oc st)"

fun cancel_pending ::
  "(repair_key \<times> 'h repair_request) list \<Rightarrow> 'c completion_calls \<times> ('h, 'c) lane \<Rightarrow> ('c completion_calls \<times> ('h, 'c) lane) res"
where
  "cancel_pending [] acc = Inr acc"
| "cancel_pending ((key, rq) # rest) (calls, st) =
    rbind (lane_outcome OcCancelled (rq_intent rq) None None VNone None None) (\<lambda>oc.
      case take_callbacks key oc (remember_outcome oc st) of (taken, st') \<Rightarrow>
        cancel_pending rest (calls @ taken, st'))"

definition start_next :: "string \<Rightarrow> 'h repair_request option \<Rightarrow> ('h, 'c) lane \<Rightarrow> ('h, 'c) lane" where
  "start_next provider continuation st = (case continuation of
      Some rq \<Rightarrow> start_task rq st
    | None \<Rightarrow> (case pop_next provider st of
        (None, st') \<Rightarrow> st'
      | (Some rq, st') \<Rightarrow> start_task rq st'))"

text \<open>
  \<open>_run_request\<close> from the end of \<open>execute_history_repair\<close>: how that ended is an argument, with the
  clock readings of a continuation's constructor and the monotonic clock.
\<close>

definition run_request_end ::
  "instant \<Rightarrow> instant \<Rightarrow> pyfloat \<Rightarrow> 'h repair_task \<Rightarrow> repair_outcome awaited \<Rightarrow> ('h, 'c) lane
    \<Rightarrow> ('c completion_calls \<times> ('h, 'c) lane) res" where
  "run_request_end utc utc' now t result st =
    (let rq = tk_request t; it = rq_intent rq; provider = it_provider it in
     case result of
       Cancelled \<Rightarrow>
         rbind (lane_outcome OcCancelled it None None VNone None None) (\<lambda>oc.
         case settle_task now t oc st of (calls, st') \<Rightarrow>
           cancel_pending (dget_default (ln_pending st') provider [])
             (calls, st'\<lparr>ln_pending := dpop provider (ln_pending st')\<rparr>))
     | _ \<Rightarrow>
         rbind (case result of Returned oc \<Rightarrow> Inr oc
                | Raised e \<Rightarrow> lane_outcome OcFetchFailed it None None (VStr (exn_text e)) None None
                | Cancelled \<Rightarrow> Inl CancelledError) (\<lambda>oc.
         rbind (continuation_request utc utc' rq oc) (\<lambda>continuation.
         case settle_task now t oc st of (calls, st') \<Rightarrow>
           Inr (calls, start_next provider continuation st'))))"

section \<open>Admission\<close>

text \<open>\<open>_instrument_matches_intent\<close>: the fingerprint is read outside the guarded part.\<close>

definition instrument_matches_intent :: "instrument \<Rightarrow> repair_intent \<Rightarrow> bool res" where
  "instrument_matches_intent inst it = (case require_provider_identity inst (Some (it_provider it)) of
      Inl _ \<Rightarrow> Inr False
    | Inr qualified \<Rightarrow>
       if vget qualified ''instrument_id'' \<noteq> VStr (it_instrument_id it) then Inr False
       else rbind (route_fingerprint (Some qualified)) (\<lambda>f. Inr (f = it_route_fingerprint it)))"

definition positive_timeout :: "pyval \<Rightarrow> pyfloat res" where
  "positive_timeout v =
    (let check = (\<lambda>x. if \<not> isfinite x \<or> fle x (Fin 0) then Inl (ValueError ''HISTORY_REPAIR_TIMEOUT_INVALID'')
       else Inr x) in
     case v of
       VInt n \<Rightarrow> rbind (float_of_int n) check
     | VFloat x \<Rightarrow> check x
     | _ \<Rightarrow> Inl (ValueError ''HISTORY_REPAIR_TIMEOUT_INVALID''))"

text \<open>The arguments of \<open>schedule\<close> once they are checked; a handle that is not callable is \<open>None\<close>.\<close>

definition checked_request ::
  "bool \<Rightarrow> string \<Rightarrow> pyval \<Rightarrow> instrument \<Rightarrow> repair_intent \<Rightarrow> pyval \<Rightarrow> 'h option \<Rightarrow> 'h option \<Rightarrow> 'h option
    \<Rightarrow> 'h repair_request res" where
  "checked_request running_loop provider exact inst it timeout fetch commit store_factory =
    (case exact of
       VBool exact_flag \<Rightarrow>
    rbind (if provider \<noteq> it_provider it then Inr False else instrument_matches_intent inst it) (\<lambda>ok.
    rbind (require ok (ValueError ''HISTORY_REPAIR_ROUTE_MISMATCH'')) (\<lambda>_.
    (case fetch of None \<Rightarrow> Inl (TypeError ''HISTORY_REPAIR_FETCH_REQUIRED'') | Some f \<Rightarrow>
    (case commit of None \<Rightarrow> Inl (TypeError ''HISTORY_REPAIR_COMMIT_REQUIRED'') | Some c \<Rightarrow>
    (case store_factory of None \<Rightarrow> Inl (TypeError ''HISTORY_REPAIR_STORE_FACTORY_REQUIRED'') | Some s \<Rightarrow>
    rbind (positive_timeout timeout) (\<lambda>seconds.
    rbind (require running_loop (RuntimeError ''no running event loop'')) (\<lambda>_.
    Inr \<lparr>rq_key = repair_key it, rq_exact = exact_flag, rq_instrument = inst, rq_intent = it,
         rq_timeout = seconds, rq_fetch = f, rq_commit = c, rq_store = s\<rparr>)))))))
     | _ \<Rightarrow> Inl (TypeError ''HISTORY_REPAIR_SNAPSHOT_AUTHORITY_BOOL_REQUIRED''))"

text \<open>The admission with the keyword arguments of this module.\<close>

definition lane_admission :: "admission_status \<Rightarrow> repair_intent \<Rightarrow> bool \<Rightarrow> bool \<Rightarrow> pyfloat \<Rightarrow> repair_admission res" where
  "lane_admission status it newly subscribed retry_after =
    HistoryRepairAdmission (VStr (admission_text status)) (Some it) (VBool newly) (VBool subscribed)
      (VFloat retry_after)"

definition purge_awaiting :: "repair_intent \<Rightarrow> ('h, 'c) lane \<Rightarrow> ('h, 'c) lane" where
  "purge_awaiting it st = st\<lparr>ln_awaiting := filter (\<lambda>(key, generation).
     \<not> (chart_scope key = chart_scope (repair_cursor_key it) \<and> generation < it_generation it)) (ln_awaiting st)\<rparr>"

definition purge_tasks :: "('h, 'c) lane \<Rightarrow> ('h, 'c) lane" where
  "purge_tasks st = st\<lparr>ln_tasks := filter (\<lambda>(key, t). \<not> tk_done t) (ln_tasks st)\<rparr>"

definition purge_next_allowed :: "pyfloat \<Rightarrow> ('h, 'c) lane \<Rightarrow> ('h, 'c) lane" where
  "purge_next_allowed now st = st\<lparr>ln_next_allowed := filter (\<lambda>(key, deadline).
     \<not> (fle deadline now \<and> \<not> dhas (ln_tasks st) key)) (ln_next_allowed st)\<rparr>"

text \<open>A request whose key is pending already: a more urgent one replaces the intent and the callables.\<close>

definition update_pending ::
  "'h repair_request \<Rightarrow> 'h repair_request \<Rightarrow> (repair_key, 'h repair_request) pydict
    \<Rightarrow> (repair_key, 'h repair_request) pydict" where
  "update_pending existing rq pending =
    (if request_priority rq < request_priority existing
     then prioritize_pending (dset (rq_key rq)
       (existing\<lparr>rq_intent := rq_intent rq, rq_timeout := fmin (rq_timeout existing) (rq_timeout rq),
         rq_fetch := rq_fetch rq, rq_commit := rq_commit rq, rq_store := rq_store rq\<rparr>) pending)
     else pending)"

text \<open>The newest background request of a full queue, only for a foreground one.\<close>

definition eviction_victim ::
  "repair_intent \<Rightarrow> (repair_key, 'h repair_request) pydict \<Rightarrow> (repair_key \<times> 'h repair_request) option" where
  "eviction_victim it pending =
    (if it_priority it = FOREGROUND
     then first_where (\<lambda>(key, rq). it_priority (rq_intent rq) = BACKGROUND) (rev pending) else None)"

definition enqueue ::
  "'h repair_request \<Rightarrow> 'c option \<Rightarrow> (repair_key, 'h repair_request) pydict \<Rightarrow> ('h, 'c) lane
    \<Rightarrow> bool \<times> ('h, 'c) lane" where
  "enqueue rq callback pending st =
    (let provider = it_provider (rq_intent rq);
         st = st\<lparr>ln_pending := dset provider (prioritize_pending (dset (rq_key rq) rq pending)) (ln_pending st),
                 ln_outcomes := dpop (rq_key rq) (ln_outcomes st)\<rparr>
     in subscribe (rq_key rq) callback st)"

text \<open>The locked block of \<open>schedule\<close>.\<close>

definition admit_request ::
  "pyfloat \<Rightarrow> 'h repair_request \<Rightarrow> 'c option \<Rightarrow> ('h, 'c) lane
    \<Rightarrow> (repair_admission \<times> 'c completion_calls \<times> ('h, 'c) lane) res" where
  "admit_request now rq callback st =
    (let it = rq_intent rq; key = rq_key rq; provider = it_provider it; st = purge_awaiting it st in
     if (case dget (ln_awaiting st) (repair_cursor_key it) of None \<Rightarrow> False | Some g \<Rightarrow> it_generation it \<le> g)
     then rbind (lane_admission AdmAwaitingGeneration it False False (Fin 0)) (\<lambda>a. Inr (a, [], st))
     else
     let st = purge_next_allowed now (purge_tasks st) in
     if dhas (ln_tasks st) key
     then (case subscribe key callback st of (subscribed, st) \<Rightarrow>
       rbind (lane_admission AdmRunning it False subscribed (Fin 0)) (\<lambda>a. Inr (a, [], st)))
     else
     let pending = dget_default (ln_pending st) provider [] in
     case dget pending key of
       Some existing \<Rightarrow>
         let st = st\<lparr>ln_pending := dset provider (update_pending existing rq pending) (ln_pending st)\<rparr> in
         (case subscribe key callback st of (subscribed, st) \<Rightarrow>
           rbind (lane_admission AdmQueued it False subscribed (Fin 0)) (\<lambda>a. Inr (a, [], st)))
     | None \<Rightarrow>
     let next_allowed = dget_default (ln_next_allowed st) key (Fin 0) in
     if flt now next_allowed
     then rbind (lane_admission AdmThrottled it False False (fmax (fsub next_allowed now) (Fin 0)))
       (\<lambda>a. Inr (a, [], st))
     else if list_ex (\<lambda>(k, t). key_provider k = provider) (ln_tasks st)
     then
       if MAX_PENDING_REPAIRS_PER_PROVIDER \<le> length pending
       then (case eviction_victim it pending of
           None \<Rightarrow> rbind (lane_admission AdmQueueFull it False False (Fin 0)) (\<lambda>a. Inr (a, [], st))
         | Some (victim, evicted) \<Rightarrow>
             rbind (lane_outcome OcSuperseded (rq_intent evicted) None None VNone None None) (\<lambda>superseded.
             case take_callbacks victim superseded (remember_outcome superseded st) of (calls, st) \<Rightarrow>
             (case enqueue rq callback (dpop victim pending) st of (subscribed, st) \<Rightarrow>
               rbind (lane_admission AdmQueued it True subscribed (Fin 0)) (\<lambda>a. Inr (a, calls, st)))))
       else (case enqueue rq callback pending st of (subscribed, st) \<Rightarrow>
         rbind (lane_admission AdmQueued it True subscribed (Fin 0)) (\<lambda>a. Inr (a, [], st)))
     else (case subscribe key callback st of (subscribed, st) \<Rightarrow>
       rbind (lane_admission AdmScheduled it True subscribed (Fin 0)) (\<lambda>a.
         Inr (a, [], start_task rq (st\<lparr>ln_outcomes := dpop key (ln_outcomes st)\<rparr>)))))"

definition schedule ::
  "bool \<Rightarrow> pyfloat \<Rightarrow> string \<Rightarrow> pyval \<Rightarrow> instrument \<Rightarrow> repair_intent \<Rightarrow> pyval \<Rightarrow> 'h option \<Rightarrow> 'h option \<Rightarrow> 'h option
    \<Rightarrow> 'c option \<Rightarrow> ('h, 'c) lane \<Rightarrow> (repair_admission \<times> 'c completion_calls \<times> ('h, 'c) lane) res" where
  "schedule running_loop now provider exact inst it timeout fetch commit store_factory callback st =
    rbind (checked_request running_loop provider exact inst it timeout fetch commit store_factory)
      (\<lambda>rq. admit_request now rq callback st)"

text \<open>\<open>provider.upper()\<close> of a provider the identity gate let through, which is a token of ASCII characters.\<close>

definition token_upper :: "string \<Rightarrow> string" where
  "token_upper = map (\<lambda>c. if CHR ''a'' \<le> c \<and> c \<le> CHR ''z'' then char_of (code_point c - 32) else c)"

text \<open>
  \<open>schedule_provider_history_repair\<close>: the adapter is the identity and the span it reports, \<open>None\<close>
  where it reports something of another type, and its fetch.
\<close>

record 'h history_adapter =
  ha_identity :: "vdict \<Rightarrow> request_identity option res"
  ha_max_span :: "vdict \<Rightarrow> string \<Rightarrow> int option res"
  ha_fetch :: 'h

definition schedule_provider_history_repair ::
  "bool \<Rightarrow> pyfloat \<Rightarrow> string \<Rightarrow> pyval \<Rightarrow> 'h history_adapter option \<Rightarrow> instrument \<Rightarrow> repair_intent
    \<Rightarrow> pyval \<Rightarrow> 'h option \<Rightarrow> 'h option \<Rightarrow> 'c option \<Rightarrow> ('h, 'c) lane
    \<Rightarrow> (repair_admission \<times> 'c completion_calls \<times> ('h, 'c) lane) res" where
  "schedule_provider_history_repair running_loop now provider exact adapter inst it timeout commit
      store_factory callback st =
    rbind (require_provider_identity inst (Some provider)) (\<lambda>qualified.
    (case adapter of
       None \<Rightarrow> Inl (TypeError (token_upper provider @ '' history repair contract is not implemented''))
     | Some ha \<Rightarrow>
    rbind (ha_identity ha qualified) (\<lambda>identity.
    (case identity of
       None \<Rightarrow> Inl (TypeError (token_upper provider @ '' history request identity must be typed''))
     | Some ri \<Rightarrow>
    rbind (require (it_identity it = ri)
      (ValueError (token_upper provider @ '' history request identity changed''))) (\<lambda>_.
    rbind (ha_max_span ha qualified (it_timeframe it)) (\<lambda>max_span.
    (case max_span of
       None \<Rightarrow> Inl (ValueError (token_upper provider @ '' history request bound must be canonical''))
     | Some us \<Rightarrow>
    rbind (require (0 < us \<and> us mod 1000000 = 0
        \<and> max (interval_minutes (it_timeframe it)) 1 * 60 * us_per_second \<le> us)
      (ValueError (token_upper provider @ '' history request bound must be canonical''))) (\<lambda>_.
    rbind (require (it_ends_at it - it_starts_at it \<le> us)
      (ValueError (token_upper provider @ '' history request exceeds provider bound''))) (\<lambda>_.
    schedule running_loop now provider exact (Some qualified) it timeout (Some (ha_fetch ha)) commit
      store_factory callback st)))))))))"

end
