(* ===== verification/RepairLaneLaws.thy ===== *)
theory RepairLaneLaws
  imports RepairLane "HOL-Library.Multiset"
begin

text \<open>
  What the operations of the repair lane keep: well-formed requests under their own keys, at most one
  task per provider, bounded queues in order of urgency, bounded callbacks and outcomes; and what the
  continuation of a chunk is.
\<close>

section \<open>Dictionaries as finite sums\<close>

text \<open>A sum over the entries of a dictionary, for the multisets and measures of this component.\<close>

definition dsum :: "('k \<times> 'v \<Rightarrow> 'm::comm_monoid_add) \<Rightarrow> ('k, 'v) pydict \<Rightarrow> 'm" where
  "dsum f d = sum_list (map f d)"

lemma dsum_simps [simp]: "dsum f [] = 0" "dsum f (p # d) = f p + dsum f d"
  by (simp_all add: dsum_def)

lemma dpop_absent: "dget d k = None \<Longrightarrow> dpop k d = d"
  by (induction d) (auto simp: dpop_def dget_def)

lemma dsum_dpop: "dict_ok d \<Longrightarrow> dget d k = Some v \<Longrightarrow> dsum f d = f (k, v) + dsum f (dpop k d)"
proof (induction d)
  case Nil
  then show ?case by (simp add: dget_def)
next
  case (Cons p d)
  show ?case
  proof (cases "fst p = k")
    case True
    with Cons.prems have "dget d k = None" by (auto simp: dict_ok_def dget_def map_of_eq_None_iff)
    then have "AList.delete k d = d" using dpop_absent by (simp add: dpop_def)
    with True Cons.prems show ?thesis by (cases p) (simp add: dpop_def dget_def)
  next
    case False
    then have "dsum f d = f (k, v) + dsum f (dpop k d)"
      using Cons by (cases p) (auto simp: dict_ok_def dget_def)
    with False show ?thesis by (cases p) (simp add: dpop_def ac_simps)
  qed
qed

lemma dpop_dset [simp]: "dpop k (dset k v d) = dpop k d"
  by (induction d) (auto simp: dpop_def dset_def)

lemma dsum_dset: "dict_ok d \<Longrightarrow> dsum f (dset k v d) = f (k, v) + dsum f (dpop k d)"
  using dsum_dpop [of "dset k v d" k v f] by (simp add: dpop_dset)

lemma dsum_mset: "mset d = mset d' \<Longrightarrow> dsum f d = dsum f d'"
  unfolding dsum_def by (metis mset_map sum_mset_sum_list)

lemma dget_mset:
  assumes "dict_ok d" "mset d' = mset d"
  shows "dict_ok d'" "dget d' k = dget d k"
proof -
  show ok: "dict_ok d'" using assms by (metis dict_ok_def distinct_map mset_eq_setD mset_eq_imp_distinct_iff)
  have "set d' = set d" using assms(2) by (rule mset_eq_setD)
  then show "dget d' k = dget d k"
    using assms(1) ok by (metis dget_def dict_ok_def map_of_inject_set)
qed

lemma dget_filter:
  "dict_ok d \<Longrightarrow> dget (filter P d) k = (case dget d k of Some v \<Rightarrow> if P (k, v) then Some v else None | None \<Rightarrow> None)"
proof (induction d)
  case Nil
  then show ?case by (simp add: dget_def)
next
  case (Cons p d)
  have "dget d k = None" if "fst p = k"
    using that Cons.prems by (auto simp: dict_ok_def dget_def map_of_eq_None_iff)
  with Cons show ?case by (cases p) (auto simp: dget_def dict_ok_def split: option.splits)
qed

lemma dict_ok_filter [simp]: "dict_ok d \<Longrightarrow> dict_ok (filter P d)"
  unfolding dict_ok_def by (rule distinct_map_filter)

lemma dict_ok_drop [simp]: "dict_ok d \<Longrightarrow> dict_ok (drop n d)"
  unfolding dict_ok_def by (simp flip: drop_map)

lemma dget_drop: "dict_ok d \<Longrightarrow> dget (drop n d) k = Some v \<Longrightarrow> dget d k = Some v"
  by (metis dget_in_set dict_ok_drop in_set_dget set_drop_subset subsetD)

section \<open>A stable queue by urgency\<close>

text \<open>
  The interface of a queue that is rearranged after every insertion: the same entries, by ascending
  urgency, entries of one urgency in their order. Its head is then the first of the most urgent.
\<close>

locale stable_queue =
  fixes arrange :: "'a list \<Rightarrow> 'a list" and urgency :: "'a \<Rightarrow> int"
  assumes arrange_mset: "mset (arrange xs) = mset xs"
    and arrange_sorted: "sorted (map urgency (arrange xs))"
    and arrange_stable: "filter (\<lambda>x. urgency x = u) (arrange xs) = filter (\<lambda>x. urgency x = u) xs"
begin

lemma arrange_length [simp]: "length (arrange xs) = length xs"
  using arrange_mset [of xs] by (metis size_mset)

lemma arrange_set: "set (arrange xs) = set xs"
  using arrange_mset by (rule mset_eq_setD)

lemma head_most_urgent:
  assumes "arrange xs = x # rest" "y \<in> set xs"
  shows "urgency x \<le> urgency y"
proof -
  have "y \<in> set (x # rest)" using assms(2) arrange_set [of xs] by (simp add: assms(1))
  then show ?thesis using arrange_sorted [of xs] by (auto simp: assms(1))
qed

lemma head_first_of_its_urgency:
  assumes "arrange xs = x # rest"
  shows "\<exists>later. filter (\<lambda>y. urgency y = urgency x) xs = x # later"
proof -
  have "filter (\<lambda>y. urgency y = urgency x) xs = x # filter (\<lambda>y. urgency y = urgency x) rest"
    using arrange_stable [of "urgency x" xs] by (simp add: assms)
  then show ?thesis by blast
qed

end

definition entry_priority :: "repair_key \<times> 'h repair_request \<Rightarrow> int" where
  "entry_priority = (\<lambda>(key, rq). request_priority rq)"

interpretation pq: stable_queue prioritize_pending entry_priority
proof unfold_locales
  fix xs :: "(repair_key \<times> 'a repair_request) list" and u :: int
  show "mset (prioritize_pending xs) = mset xs" by (simp add: prioritize_pending_def)
  show "sorted (map entry_priority (prioritize_pending xs))"
    by (simp add: prioritize_pending_def entry_priority_def sorted_sort_key)
  show "filter (\<lambda>x. entry_priority x = u) (prioritize_pending xs) = filter (\<lambda>x. entry_priority x = u) xs"
    using sort_key_stable [of entry_priority u xs] by (simp add: prioritize_pending_def entry_priority_def)
qed

lemma prioritize_dict [simp]:
  "dict_ok q \<Longrightarrow> dict_ok (prioritize_pending q)"
  "dict_ok q \<Longrightarrow> dget (prioritize_pending q) k = dget q k"
  by (simp_all add: dget_mset [OF _ pq.arrange_mset])

section \<open>Well-formed requests\<close>

definition request_ok :: "'h repair_request \<Rightarrow> bool" where
  "request_ok rq \<longleftrightarrow> rq_key rq = repair_key (rq_intent rq) \<and> intent_ok (rq_intent rq)"

lemma key_provider_repair_key [simp]: "key_provider (repair_key it) = it_provider it"
  by (simp add: repair_key_def)

lemma request_ok_provider: "request_ok rq \<Longrightarrow> key_provider (rq_key rq) = it_provider (rq_intent rq)"
  by (simp add: request_ok_def)

lemma repair_key_intent:
  "repair_key it = repair_key it' \<Longrightarrow> it_provider it = it_provider it' \<and> it_starts_at it = it_starts_at it'
    \<and> it_ends_at it = it_ends_at it' \<and> it_target_starts_at it = it_target_starts_at it'
    \<and> it_timeframe it = it_timeframe it' \<and> it_identity it = it_identity it' \<and> it_generation it = it_generation it'"
  by (simp add: repair_key_def)

section \<open>The continuation of a chunk\<close>

text \<open>The clocks of the constructor run after the envelope's end, the committed generation is a counter.\<close>

definition continuation_env :: "instant \<Rightarrow> instant \<Rightarrow> 'h repair_request \<Rightarrow> repair_outcome \<Rightarrow> bool" where
  "continuation_env now now' rq oc \<longleftrightarrow> it_target_ends_at (rq_intent rq) \<le> now \<and> it_target_ends_at (rq_intent rq) \<le> now'
     \<and> (\<forall>g. oc_generation oc = Some g \<longrightarrow> 0 \<le> g)"

definition continues :: "'h repair_request \<Rightarrow> repair_outcome \<Rightarrow> bool" where
  "continues rq oc \<longleftrightarrow> ri_resolution (it_identity (rq_intent rq)) = ResolvedExact
     \<and> oc_status oc \<in> {OcCommitted, OcNoChange} \<and> repair_progressed oc
     \<and> it_target_starts_at (rq_intent rq) < it_starts_at (rq_intent rq)"

definition next_chunk :: "repair_intent \<Rightarrow> repair_outcome \<Rightarrow> repair_intent" where
  "next_chunk it oc = it\<lparr>it_starts_at := max (it_target_starts_at it) (it_starts_at it - (it_ends_at it - it_starts_at it)),
     it_ends_at := it_starts_at it,
     it_generation := (case oc_generation oc of None \<Rightarrow> it_generation it | Some g \<Rightarrow> g)\<rparr>"

lemma next_chunk_ok:
  assumes "intent_ok it" "it_target_starts_at it < it_starts_at it" "\<forall>g. oc_generation oc = Some g \<longrightarrow> 0 \<le> g"
  shows "intent_ok (next_chunk it oc)"
  using assms by (auto simp: intent_ok_def next_chunk_def max_def split: option.splits intro: dvd_diff)

lemma continuation_request_exact:
  assumes "request_ok rq" "continuation_env now now' rq oc"
  shows "continuation_request now now' rq oc = Inr (if continues rq oc
    then Some (rq\<lparr>rq_key := repair_key (next_chunk (rq_intent rq) oc), rq_intent := next_chunk (rq_intent rq) oc\<rparr>)
    else None)"
proof (cases "continues rq oc")
  case False
  then show ?thesis
    by (cases "ri_resolution (it_identity (rq_intent rq))")
      (auto simp: continuation_request_def Let_def continues_def not_less)
next
  case True
  let ?it = "rq_intent rq"
  let ?width = "it_ends_at ?it - it_starts_at ?it"
  have it: "intent_ok ?it" using assms(1) by (simp add: request_ok_def)
  have earliest: "instant_add (it_starts_at ?it) (- ?width) = Inr (it_starts_at ?it - ?width)"
    using intent_ok_epochs [OF it]
    by (simp add: instant_add_def in_dt_range_def dt_min_def dt_max_def exact_epoch_def)
  have ok: "intent_ok (next_chunk ?it oc)"
    using next_chunk_ok [OF it] True assms(2) by (simp add: continues_def continuation_env_def)
  have "rebuild_intent now now' (next_chunk ?it oc) = Inr (next_chunk ?it oc)"
    using assms(2) by (intro rebuild_intent_ok [OF ok]) (simp_all add: continuation_env_def next_chunk_def)
  with True earliest show ?thesis
    by (auto simp: continuation_request_def Let_def continues_def next_chunk_def)
qed

end
