(* ===== verification/RepairLaneRuns.thy ===== *)
theory RepairLaneRuns
  imports RepairLaneLaws
begin

text \<open>
  Runs of the repair lane: admissions, ends of tasks, tasks cancelled before they start and reads of
  an outcome, in any order. The invariant of the state, the accounting of completion callbacks and
  the draining of the lane are proved by rule induction over the runs.
\<close>

section \<open>The invariant\<close>

definition tasks_ok :: "(repair_key, 'h repair_task) pydict \<Rightarrow> nat \<Rightarrow> bool" where
  "tasks_ok tasks created \<longleftrightarrow> dict_ok tasks
     \<and> (\<forall>k t. dget tasks k = Some t \<longrightarrow> request_ok (tk_request t) \<and> rq_key (tk_request t) = k \<and> tk_id t < created)
     \<and> (\<forall>k k'. dhas tasks k \<longrightarrow> dhas tasks k' \<longrightarrow> key_provider k = key_provider k' \<longrightarrow> k = k')"

definition queue_ok :: "string \<Rightarrow> (repair_key, 'h repair_request) pydict \<Rightarrow> bool" where
  "queue_ok p q \<longleftrightarrow> dict_ok q \<and> q \<noteq> [] \<and> length q \<le> MAX_PENDING_REPAIRS_PER_PROVIDER
     \<and> sorted (map entry_priority q)
     \<and> (\<forall>k rq. dget q k = Some rq \<longrightarrow> request_ok rq \<and> rq_key rq = k \<and> it_provider (rq_intent rq) = p)"

definition pending_ok :: "(string, (repair_key, 'h repair_request) pydict) pydict \<Rightarrow> bool" where
  "pending_ok pd \<longleftrightarrow> dict_ok pd \<and> (\<forall>p q. dget pd p = Some q \<longrightarrow> queue_ok p q)"

definition callbacks_ok :: "(repair_key, 'c list) pydict \<Rightarrow> bool" where
  "callbacks_ok cbs \<longleftrightarrow> dict_ok cbs
     \<and> (\<forall>k l. dget cbs k = Some l \<longrightarrow> length l \<le> MAX_COMPLETION_CALLBACKS_PER_REPAIR)"

definition outcomes_ok :: "(repair_key, repair_outcome) pydict \<Rightarrow> bool" where
  "outcomes_ok os \<longleftrightarrow> dict_ok os \<and> length os \<le> MAX_RETAINED_HISTORY_REPAIR_OUTCOMES
     \<and> (\<forall>k oc. dget os k = Some oc \<longrightarrow> repair_key (oc_intent oc) = k)"

definition lane_ok :: "('h, 'c) lane \<Rightarrow> bool" where
  "lane_ok st \<longleftrightarrow> tasks_ok (ln_tasks st) (ln_created st) \<and> pending_ok (ln_pending st)
     \<and> callbacks_ok (ln_callbacks st) \<and> outcomes_ok (ln_outcomes st)"

lemma lane_ok_init: "lane_ok HistoryRepairOrchestrator"
  by (simp add: lane_ok_def HistoryRepairOrchestrator_def tasks_ok_def pending_ok_def callbacks_ok_def
    outcomes_ok_def dget_def dhas_def)

text \<open>The callbacks that wait for a completion.\<close>

definition waiting :: "('h, 'c) lane \<Rightarrow> 'c multiset" where
  "waiting st = dsum (\<lambda>(k, cbs). mset cbs) (ln_callbacks st)"

definition awaits :: "('h, 'c) lane \<Rightarrow> repair_key \<Rightarrow> bool" where
  "awaits st k \<longleftrightarrow> dget_default (ln_callbacks st) k [] \<noteq> []"

section \<open>Callbacks and outcomes\<close>

lemma subscribe_fields:
  assumes "subscribe key cb st = (b, st')"
  shows "ln_tasks st' = ln_tasks st" "ln_created st' = ln_created st" "ln_pending st' = ln_pending st"
    "ln_outcomes st' = ln_outcomes st" "ln_awaiting st' = ln_awaiting st" "ln_next_allowed st' = ln_next_allowed st"
  using assms by (auto simp: subscribe_def Let_def split: option.splits if_splits)

lemma subscribe_callbacks:
  assumes "subscribe key cb st = (b, st')" "callbacks_ok (ln_callbacks st)"
  shows "callbacks_ok (ln_callbacks st')"
    "waiting st' = waiting st + (if b then {#the cb#} else {#})"
    "awaits st' k \<Longrightarrow> k = key \<or> awaits st k"
proof -
  let ?cbs = "ln_callbacks st" and ?old = "dget_default (ln_callbacks st) key []"
  have ok: "dict_ok ?cbs" using assms(2) by (simp add: callbacks_ok_def)
  have old: "length ?old \<le> MAX_COMPLETION_CALLBACKS_PER_REPAIR"
    using assms(2) by (cases "dget ?cbs key")
      (auto simp: callbacks_ok_def dget_default_None dget_default_Some)
  have sum: "dsum (\<lambda>(k, cbs). mset cbs) (dset key new ?cbs) + mset ?old = mset new + waiting st" for new
    using dsum_dpop [OF ok, of key _ "\<lambda>(k, cbs). mset cbs"] dpop_absent [of ?cbs key]
    by (cases "dget ?cbs key")
      (auto simp: dsum_dset [OF ok] waiting_def dget_default_None dget_default_Some ac_simps)
  have same: "dsum (\<lambda>(k, cbs). mset cbs) (dset key ?old ?cbs) = waiting st"
    using sum [of ?old] by simp
  have more: "dsum (\<lambda>(k, cbs). mset cbs) (dset key (?old @ [c]) ?cbs) = waiting st + {#c#}" for c
    using sum [of "?old @ [c]"] by (simp add: ac_simps)
  show "callbacks_ok (ln_callbacks st')"
    using assms(1,2) old
    by (auto simp: subscribe_def Let_def callbacks_ok_def split: option.splits if_splits)
  show "waiting st' = waiting st + (if b then {#the cb#} else {#})"
    using assms(1) same more
    by (auto simp: subscribe_def Let_def waiting_def split: option.splits if_splits)
  show "awaits st' k \<Longrightarrow> k = key \<or> awaits st k"
    using assms(1) by (auto simp: subscribe_def Let_def awaits_def split: option.splits if_splits)
qed

lemma subscribe_keeps:
  assumes "subscribe key cb st = (b, st')" "lane_ok st"
  shows "lane_ok st'"
  using assms subscribe_fields [OF assms(1)] subscribe_callbacks(1) [OF assms(1)] by (simp add: lane_ok_def)

lemma take_callbacks_fields:
  assumes "take_callbacks key oc st = (calls, st')"
  shows "ln_tasks st' = ln_tasks st" "ln_created st' = ln_created st" "ln_pending st' = ln_pending st"
    "ln_outcomes st' = ln_outcomes st" "ln_awaiting st' = ln_awaiting st" "ln_next_allowed st' = ln_next_allowed st"
    "awaits st' k \<longleftrightarrow> k \<noteq> key \<and> awaits st k" "\<forall>(c, oc') \<in> set calls. oc' = oc"
  using assms by (auto simp: take_callbacks_def awaits_def split: if_splits)

lemma take_callbacks_waiting:
  assumes "take_callbacks key oc st = (calls, st')" "callbacks_ok (ln_callbacks st)"
  shows "callbacks_ok (ln_callbacks st')" "waiting st = mset (map fst calls) + waiting st'"
proof -
  have ok: "dict_ok (ln_callbacks st)" using assms(2) by (simp add: callbacks_ok_def)
  show "callbacks_ok (ln_callbacks st')" using assms by (auto simp: take_callbacks_def callbacks_ok_def split: if_splits)
  show "waiting st = mset (map fst calls) + waiting st'"
    using assms(1) dsum_dpop [OF ok, of key _ "\<lambda>(k, cbs). mset cbs"] dpop_absent [of "ln_callbacks st" key]
    by (cases "dget (ln_callbacks st) key")
      (auto simp: take_callbacks_def waiting_def multiset.map_comp comp_def dget_default_None dget_default_Some)
qed

lemma take_callbacks_keeps:
  assumes "take_callbacks key oc st = (calls, st')" "lane_ok st"
  shows "lane_ok st'"
  using assms take_callbacks_fields [OF assms(1)] take_callbacks_waiting(1) [OF assms(1)] by (simp add: lane_ok_def)

lemma remember_outcome_fields [simp]:
  "ln_tasks (remember_outcome oc st) = ln_tasks st" "ln_created (remember_outcome oc st) = ln_created st"
  "ln_pending (remember_outcome oc st) = ln_pending st" "ln_callbacks (remember_outcome oc st) = ln_callbacks st"
  "ln_awaiting (remember_outcome oc st) = ln_awaiting st"
  "ln_next_allowed (remember_outcome oc st) = ln_next_allowed st"
  by (simp_all add: remember_outcome_def Let_def)

lemma remember_outcome_keeps [simp]: "outcomes_ok (ln_outcomes st) \<Longrightarrow> outcomes_ok (ln_outcomes (remember_outcome oc st))"
  by (auto simp: remember_outcome_def Let_def outcomes_ok_def split: if_splits dest!: dget_drop [rotated])

lemma remember_outcome_lane_ok [simp]: "lane_ok st \<Longrightarrow> lane_ok (remember_outcome oc st)"
  by (simp add: lane_ok_def)

lemma same_callbacks:
  "ln_callbacks st' = ln_callbacks st \<Longrightarrow> waiting st' = waiting st \<and> (awaits st' k \<longleftrightarrow> awaits st k)"
  by (simp add: waiting_def awaits_def)

section \<open>Tasks and queues\<close>

lemma start_task_tasks:
  assumes "tasks_ok tasks created" "request_ok rq" "\<forall>k. dhas tasks k \<longrightarrow> key_provider k \<noteq> it_provider (rq_intent rq)"
  shows "tasks_ok (dset (rq_key rq) \<lparr>tk_id = created, tk_request = rq, tk_done = False\<rparr> tasks) (created + 1)"
  using assms by (auto simp: tasks_ok_def request_ok_provider less_Suc_eq split: if_splits)

lemma tasks_ok_dpop: "tasks_ok tasks created \<Longrightarrow> tasks_ok (dpop k tasks) created"
  by (auto simp: tasks_ok_def split: if_splits)

lemma tasks_ok_filter: "tasks_ok tasks created \<Longrightarrow> tasks_ok (filter P tasks) created"
  by (auto simp: tasks_ok_def dget_filter dhas_iff split: option.splits if_splits)

lemma queue_okI:
  assumes "dict_ok q" "0 < length q" "length q \<le> MAX_PENDING_REPAIRS_PER_PROVIDER"
    and "\<forall>k rq. dget q k = Some rq \<longrightarrow> request_ok rq \<and> rq_key rq = k \<and> it_provider (rq_intent rq) = p"
  shows "queue_ok p (prioritize_pending q)"
  using assms pq.arrange_sorted [of q] pq.arrange_length [of q]
  by (auto simp: queue_ok_def simp del: pq.arrange_length)

lemma queue_entries:
  "pending_ok pd \<Longrightarrow> dget (dget_default pd p []) k = Some rq
    \<Longrightarrow> request_ok rq \<and> rq_key rq = k \<and> it_provider (rq_intent rq) = p"
  by (cases "dget pd p") (auto simp: pending_ok_def queue_ok_def dget_default_None dget_default_Some dget_def)

lemma queue_dict: "pending_ok pd \<Longrightarrow> dict_ok (dget_default pd p [])"
  "pending_ok pd \<Longrightarrow> length (dget_default pd p []) \<le> MAX_PENDING_REPAIRS_PER_PROVIDER"
  by (cases "dget pd p"; simp add: pending_ok_def queue_ok_def dget_default_None dget_default_Some)+

lemma pending_ok_dset: "pending_ok pd \<Longrightarrow> queue_ok p q \<Longrightarrow> pending_ok (dset p q pd)"
  by (auto simp: pending_ok_def split: if_splits)

lemma pending_ok_dpop: "pending_ok pd \<Longrightarrow> pending_ok (dpop p pd)"
  by (auto simp: pending_ok_def split: if_splits)

section \<open>Admission\<close>

lemma lane_admission_fields:
  "lane_admission status it n s r = Inr a \<Longrightarrow> ad_status a = status \<and> ad_intent a = it \<and> ad_newly_admitted a = n
    \<and> ad_subscribed a = s"
  by (cases status) (auto simp: lane_admission_def HistoryRepairAdmission_def res_simps admission_of_def
    enum_member_def first_where_def)

text \<open>The state after the dead tasks and the expired deadlines are dropped.\<close>

definition purged :: "pyfloat \<Rightarrow> repair_intent \<Rightarrow> ('h, 'c) lane \<Rightarrow> ('h, 'c) lane" where
  "purged now it st = purge_next_allowed now (purge_tasks (purge_awaiting it st))"

lemma purged_fields [simp]:
  "ln_tasks (purged now it st) = filter (\<lambda>(key, t). \<not> tk_done t) (ln_tasks st)"
  "ln_created (purged now it st) = ln_created st" "ln_pending (purged now it st) = ln_pending st"
  "ln_callbacks (purged now it st) = ln_callbacks st" "ln_outcomes (purged now it st) = ln_outcomes st"
  by (simp_all add: purged_def purge_next_allowed_def purge_tasks_def purge_awaiting_def)

lemma purge_awaiting_fields [simp]:
  "ln_tasks (purge_awaiting it st) = ln_tasks st" "ln_created (purge_awaiting it st) = ln_created st"
  "ln_pending (purge_awaiting it st) = ln_pending st" "ln_callbacks (purge_awaiting it st) = ln_callbacks st"
  "ln_outcomes (purge_awaiting it st) = ln_outcomes st"
  by (simp_all add: purge_awaiting_def)

lemma purged_lane_ok: "lane_ok st \<Longrightarrow> lane_ok (purged now it st)" "lane_ok st \<Longrightarrow> lane_ok (purge_awaiting it st)"
  by (simp_all add: lane_ok_def tasks_ok_filter)

text \<open>Every way an admission may go.\<close>

lemma admit_cases:
  assumes "admit_request now rq cb st = Inr (a, calls, st')"
  defines "key \<equiv> rq_key rq" and "p \<equiv> it_provider (rq_intent rq)" and "st2 \<equiv> purged now (rq_intent rq) st"
  defines "pending \<equiv> dget_default (ln_pending st2) p []"
  obtains (rejected) "\<not> ad_subscribed a" "calls = []" "st' = purge_awaiting (rq_intent rq) st \<or> st' = st2"
      "ad_status a \<in> {AdmAwaitingGeneration, AdmThrottled, AdmQueueFull}"
  | (running) "dhas (ln_tasks st2) key" "subscribe key cb st2 = (ad_subscribed a, st')" "calls = []"
      "ad_status a = AdmRunning"
  | (queued) existing where "dget pending key = Some existing" "calls = []" "ad_status a = AdmQueued"
      "subscribe key cb (st2\<lparr>ln_pending := dset p (update_pending existing rq pending) (ln_pending st2)\<rparr>)
        = (ad_subscribed a, st')"
  | (evicting) victim evicted superseded st3 where "eviction_victim (rq_intent rq) pending = Some (victim, evicted)"
      "dget pending key = None" "MAX_PENDING_REPAIRS_PER_PROVIDER \<le> length pending"
      "\<not> dhas (ln_tasks st2) key" "list_ex (\<lambda>(k, t). key_provider k = p) (ln_tasks st2)"
      "lane_outcome OcSuperseded (rq_intent evicted) None None VNone None None = Inr superseded"
      "take_callbacks victim superseded (remember_outcome superseded st2) = (calls, st3)"
      "enqueue rq cb (dpop victim pending) st3 = (ad_subscribed a, st')" "ad_status a = AdmQueued"
  | (enqueued) "dget pending key = None" "length pending < MAX_PENDING_REPAIRS_PER_PROVIDER" "calls = []"
      "\<not> dhas (ln_tasks st2) key" "list_ex (\<lambda>(k, t). key_provider k = p) (ln_tasks st2)"
      "enqueue rq cb pending st2 = (ad_subscribed a, st')" "ad_status a = AdmQueued"
  | (started) st3 where "dget pending key = None" "\<not> list_ex (\<lambda>(k, t). key_provider k = p) (ln_tasks st2)"
      "calls = []" "subscribe key cb st2 = (ad_subscribed a, st3)" "ad_status a = AdmScheduled"
      "st' = start_task rq (st3\<lparr>ln_outcomes := dpop key (ln_outcomes st3)\<rparr>)"
proof -
  have eq: "admit_request now rq cb st = Inr (a, calls, st')" by (rule assms(1))
  note folds = key_def [symmetric] p_def [symmetric] st2_def [symmetric] pending_def [symmetric]
  show thesis
  proof (cases "case dget (ln_awaiting (purge_awaiting (rq_intent rq) st)) (repair_cursor_key (rq_intent rq)) of
      None \<Rightarrow> False | Some g \<Rightarrow> it_generation (rq_intent rq) \<le> g")
    case True
    then show ?thesis using eq rejected
      by (auto simp: admit_request_def Let_def res_simps dest!: lane_admission_fields)
  next
    case False
    note eq = eq [unfolded admit_request_def Let_def purged_def [symmetric] if_not_P [OF False] folds]
    show ?thesis
    proof (cases "dhas (ln_tasks st2) key")
      case True
      then show ?thesis using eq running
        by (auto simp: res_simps split: prod.splits dest!: lane_admission_fields)
    next
      case nt: False
      show ?thesis
      proof (cases "dget pending key")
        case (Some existing)
        then show ?thesis using eq nt queued
          by (auto simp: res_simps split: prod.splits dest!: lane_admission_fields)
      next
        case None
        note eq = eq [unfolded if_not_P [OF nt] None option.case]
        show ?thesis
        proof (cases "flt now (dget_default (ln_next_allowed st2) key (Fin 0))")
          case True
          then show ?thesis using eq rejected by (auto simp: res_simps dest!: lane_admission_fields)
        next
          case not_throttled: False
          show ?thesis
          proof (cases "list_ex (\<lambda>(k, t). key_provider k = p) (ln_tasks st2)")
            case active: True
            note eq = eq [unfolded if_not_P [OF not_throttled] if_P [OF active]]
            show ?thesis
            proof (cases "MAX_PENDING_REPAIRS_PER_PROVIDER \<le> length pending")
              case True
              note eq = eq [unfolded if_P [OF True]]
              show ?thesis
              proof (cases "eviction_victim (rq_intent rq) pending")
                case no_victim: None
                then show ?thesis using eq rejected by (auto simp: res_simps dest!: lane_admission_fields)
              next
                case (Some victim)
                obtain k evicted where v: "victim = (k, evicted)" by (cases victim)
                obtain superseded where o: "lane_outcome OcSuperseded (rq_intent evicted) None None VNone None None
                    = Inr superseded"
                  using eq Some v by (auto simp: res_simps)
                obtain calls' st3 where c: "take_callbacks k superseded (remember_outcome superseded st2) = (calls', st3)"
                  by (cases "take_callbacks k superseded (remember_outcome superseded st2)")
                obtain b st4 where q: "enqueue rq cb (dpop k pending) st3 = (b, st4)"
                  by (cases "enqueue rq cb (dpop k pending) st3")
                have "calls' = calls" "st4 = st'" "b = ad_subscribed a" "ad_status a = AdmQueued"
                  using eq Some v o c q by (auto simp: res_simps dest!: lane_admission_fields)
                with Some v o c q show ?thesis
                  using evicting [of k evicted superseded st3] nt None active True by simp
              qed
            next
              case False
              then show ?thesis using eq nt None active enqueued
                by (auto simp: res_simps split: prod.splits dest!: lane_admission_fields)
            qed
          next
            case False
            then show ?thesis using eq not_throttled None started
              by (auto simp: res_simps split: prod.splits dest!: lane_admission_fields)
          qed
        qed
      qed
    qed
  qed
qed

lemma enqueue_fields:
  assumes "enqueue rq cb q st = (b, st')"
  shows "ln_tasks st' = ln_tasks st" "ln_created st' = ln_created st"
    "ln_pending st' = dset (it_provider (rq_intent rq)) (prioritize_pending (dset (rq_key rq) rq q)) (ln_pending st)"
    "ln_outcomes st' = dpop (rq_key rq) (ln_outcomes st)"
  using subscribe_fields [of _ cb _ b st'] assms by (auto simp: enqueue_def Let_def)

lemma enqueue_callbacks:
  assumes "enqueue rq cb q st = (b, st')" "callbacks_ok (ln_callbacks st)"
  shows "callbacks_ok (ln_callbacks st')" "waiting st' = waiting st + (if b then {#the cb#} else {#})"
    "awaits st' k \<Longrightarrow> k = rq_key rq \<or> awaits st k"
proof -
  note s = assms(1) [unfolded enqueue_def Let_def]
  note c = subscribe_callbacks [OF s]
  show "callbacks_ok (ln_callbacks st')" "waiting st' = waiting st + (if b then {#the cb#} else {#})"
    "awaits st' k \<Longrightarrow> k = rq_key rq \<or> awaits st k"
    using assms(2) c by (simp_all add: same_callbacks waiting_def awaits_def)
qed

lemma outcomes_ok_dpop [simp]: "outcomes_ok os \<Longrightarrow> outcomes_ok (dpop k os)"
  using dpop_length_le [of k os] by (auto simp: outcomes_ok_def split: if_splits)

lemma queue_add:
  assumes "dict_ok q" "length q < MAX_PENDING_REPAIRS_PER_PROVIDER" "request_ok rq"
    and "\<forall>k r. dget q k = Some r \<longrightarrow> request_ok r \<and> rq_key r = k \<and> it_provider (rq_intent r) = it_provider (rq_intent rq)"
  shows "queue_ok (it_provider (rq_intent rq)) (prioritize_pending (dset (rq_key rq) rq q))"
  using assms by (intro queue_okI) (auto simp: dset_length split: if_splits)

lemma enqueue_keeps:
  assumes "enqueue rq cb q st = (b, st')" "lane_ok st" "request_ok rq"
    and "dict_ok q" "length q < MAX_PENDING_REPAIRS_PER_PROVIDER"
    and "\<forall>k r. dget q k = Some r \<longrightarrow> request_ok r \<and> rq_key r = k \<and> it_provider (rq_intent r) = it_provider (rq_intent rq)"
  shows "lane_ok st'"
  using assms(2) queue_add [OF assms(4,5,3,6)] enqueue_callbacks(1) [OF assms(1)]
  by (simp add: lane_ok_def enqueue_fields [OF assms(1)] pending_ok_dset)

lemma update_pending_queue:
  assumes "queue_ok p q" "dget q (rq_key rq) = Some existing" "request_ok rq" "it_provider (rq_intent rq) = p"
  shows "queue_ok p (update_pending existing rq q)" "dhas (update_pending existing rq q) k \<longleftrightarrow> dhas q k"
proof -
  have e: "rq_key existing = rq_key rq" using assms(1,2) by (simp add: queue_ok_def)
  have h: "dhas q (rq_key rq)" using assms(2) by (simp add: dhas_iff)
  show "queue_ok p (update_pending existing rq q)"
  proof (cases "request_priority rq < request_priority existing")
    case True
    then show ?thesis
      using assms e h unfolding update_pending_def if_P [OF True]
      by (intro queue_okI) (auto simp: queue_ok_def request_ok_def dset_length split: if_splits, metis)
  qed (simp add: update_pending_def assms(1))
  have "dict_ok q" using assms(1) by (simp add: queue_ok_def)
  then show "dhas (update_pending existing rq q) k \<longleftrightarrow> dhas q k"
    using h by (auto simp: update_pending_def dhas_iff)
qed

lemma eviction_facts:
  assumes "eviction_victim it q = Some (victim, evicted)" "dict_ok q"
  shows "dget q victim = Some evicted" "it_priority it = FOREGROUND" "it_priority (rq_intent evicted) = BACKGROUND"
  using assms in_set_dget [OF assms(2), of victim evicted]
  by (auto simp: eviction_victim_def dest!: first_where_Some split: if_splits)

lemma provider_not_active:
  assumes "\<not> list_ex (\<lambda>(k, t). key_provider k = p) tasks"
  shows "\<forall>k. dhas tasks k \<longrightarrow> key_provider k \<noteq> p"
  using assms by (auto simp: list_ex_iff dhas_iff dest!: dget_in_set)

lemma dpop_shorter: "dict_ok q \<Longrightarrow> dget q k = Some v \<Longrightarrow> length (dpop k q) < length q"
  using dpop_length [of q k] by (simp add: dhas_iff)

theorem admit_keeps_lane_ok:
  assumes "admit_request now rq cb st = Inr (a, calls, st')" "lane_ok st" "request_ok rq"
  shows "lane_ok st'"
proof -
  let ?p = "it_provider (rq_intent rq)" and ?st = "purged now (rq_intent rq) st"
  let ?q = "dget_default (ln_pending ?st) ?p []"
  note ok = purged_lane_ok(1) [OF assms(2), of now "rq_intent rq"] purged_lane_ok(2) [OF assms(2), of "rq_intent rq"]
  have pd: "pending_ok (ln_pending ?st)" using ok(1) by (simp add: lane_ok_def)
  note q = queue_dict [OF pd, of ?p] and e = queue_entries [OF pd, of ?p]
  from assms(1) show ?thesis
  proof (cases rule: admit_cases)
    case rejected
    then show ?thesis using ok by auto
  next
    case running
    then show ?thesis using subscribe_keeps ok(1) by blast
  next
    case (queued existing)
    have "dget (ln_pending ?st) ?p = Some ?q"
      using queued(1) by (cases "dget (ln_pending ?st) ?p") (auto simp: dget_default_None dget_default_Some dget_def)
    then have "queue_ok ?p ?q" using pd by (simp add: pending_ok_def)
    then have "queue_ok ?p (update_pending existing rq ?q)"
      using queued(1) assms(3) by (intro update_pending_queue) simp_all
    then have "lane_ok (?st\<lparr>ln_pending := dset ?p (update_pending existing rq ?q) (ln_pending ?st)\<rparr>)"
      using ok(1) pending_ok_dset [OF pd] by (simp add: lane_ok_def)
    then show ?thesis using subscribe_keeps queued(4) by blast
  next
    case (evicting victim evicted superseded st3)
    note v = eviction_facts [OF evicting(1) q(1)]
    have "lane_ok st3" using take_callbacks_keeps [OF evicting(7)] ok(1) by simp
    moreover have "length (dpop victim ?q) < MAX_PENDING_REPAIRS_PER_PROVIDER"
      using dpop_shorter [OF q(1) v(1)] q(2) by simp
    ultimately show ?thesis
      using q(1) e assms(3) by (intro enqueue_keeps [OF evicting(8)]) (auto split: if_splits)
  next
    case enqueued
    then show ?thesis using q(1) e assms(3) ok(1) by (intro enqueue_keeps [OF enqueued(6)]) auto
  next
    case (started st3)
    have l: "lane_ok st3" using subscribe_keeps [OF started(4) ok(1)] .
    have "ln_tasks st3 = ln_tasks ?st" using subscribe_fields [OF started(4)] by simp
    then have "\<forall>k. dhas (ln_tasks st3) k \<longrightarrow> key_provider k \<noteq> ?p" using provider_not_active [OF started(2)] by simp
    then show ?thesis
      using l start_task_tasks [OF _ assms(3)] by (simp add: started(6) start_task_def lane_ok_def)
  qed
qed

text \<open>An admission adds the callback it accepted and takes those of the request it evicts.\<close>

theorem admit_accounts:
  assumes "admit_request now rq cb st = Inr (a, calls, st')" "lane_ok st"
  shows "waiting st + (if ad_subscribed a then {#the cb#} else {#}) = mset (map fst calls) + waiting st'"
proof -
  let ?st = "purged now (rq_intent rq) st"
  have w: "waiting ?st = waiting st" "waiting (purge_awaiting (rq_intent rq) st) = waiting st"
    by (simp_all add: waiting_def)
  have cb: "callbacks_ok (ln_callbacks ?st)" using assms(2) by (simp add: lane_ok_def)
  from assms(1) show ?thesis
  proof (cases rule: admit_cases)
    case (evicting victim evicted superseded st3)
    have t: "callbacks_ok (ln_callbacks st3)" "waiting st = mset (map fst calls) + waiting st3"
      using take_callbacks_waiting [OF evicting(7)] cb w(1) by (simp_all add: same_callbacks waiting_def)
    then show ?thesis using enqueue_callbacks(2) [OF evicting(8) t(1)] by (simp add: ac_simps)
  next
    case (queued existing)
    then show ?thesis using subscribe_callbacks(2) [OF queued(4)] cb w(1) by (simp add: waiting_def)
  next
    case (started st3)
    then show ?thesis
      using subscribe_callbacks(2) [OF started(4) cb] w(1) by (simp add: start_task_def waiting_def)
  qed (use w cb in \<open>auto dest!: subscribe_callbacks(2) enqueue_callbacks(2)\<close>)
qed

end
