(* ===== verification/RepairLaneEnd.thy ===== *)
theory RepairLaneEnd
  imports RepairLaneRuns
begin

text \<open>
  The end of a task of the repair lane: it always succeeds for a well-formed task, keeps the invariant,
  hands out the task's callbacks and makes the remaining work strictly smaller. Without tasks killed
  before their start, every pending request has a running task before it and every waiting callback
  a running or pending request.
\<close>

section \<open>Settling\<close>

lemma settle_task_fields:
  assumes "settle_task now t oc st = (calls, st')" "dget (ln_tasks st) (rq_key (tk_request t)) = Some t"
  shows "ln_tasks st' = dpop (rq_key (tk_request t)) (ln_tasks st)" "ln_created st' = ln_created st"
    "ln_pending st' = ln_pending st" "awaits st' k \<longleftrightarrow> k \<noteq> rq_key (tk_request t) \<and> awaits st k"
    "\<forall>(c, oc') \<in> set calls. oc' = oc"
proof -
  let ?key = "rq_key (tk_request t)"
  define st1 where "st1 = remember_outcome oc st"
  define st2 where "st2 = (if terminal_no_progress oc
    then st1\<lparr>ln_awaiting := dset (repair_cursor_key (rq_intent (tk_request t))) (it_generation (rq_intent (tk_request t)))
      (ln_awaiting st1)\<rparr> else st1)"
  define st3 where "st3 = st2\<lparr>ln_next_allowed := dset ?key (fadd now (request_cooldown (rq_intent (tk_request t))
    (oc_status oc))) (ln_next_allowed st2), ln_tasks := dpop ?key (ln_tasks st2)\<rparr>"
  have st2: "ln_tasks st2 = ln_tasks st" "ln_created st2 = ln_created st" "ln_pending st2 = ln_pending st"
    "ln_callbacks st2 = ln_callbacks st"
    by (simp_all add: st1_def st2_def)
  have "take_callbacks ?key oc st3 = (calls, st')"
    using assms st2 by (simp add: settle_task_def Let_def st1_def [symmetric] st2_def [symmetric] st3_def)
  note f = take_callbacks_fields [OF this]
  show "ln_tasks st' = dpop ?key (ln_tasks st)" "ln_created st' = ln_created st" "ln_pending st' = ln_pending st"
    "awaits st' k \<longleftrightarrow> k \<noteq> ?key \<and> awaits st k" "\<forall>(c, oc') \<in> set calls. oc' = oc"
    using f st2 by (simp_all add: st3_def awaits_def)
qed

lemma settle_task_keeps:
  assumes "settle_task now t oc st = (calls, st')" "lane_ok st" "dget (ln_tasks st) (rq_key (tk_request t)) = Some t"
  shows "lane_ok st'" "waiting st = mset (map fst calls) + waiting st'"
proof -
  let ?key = "rq_key (tk_request t)"
  obtain st3 where st3: "take_callbacks ?key oc st3 = (calls, st')" "ln_callbacks st3 = ln_callbacks st"
    "ln_outcomes st3 = ln_outcomes (remember_outcome oc st)"
    using assms(1) by (auto simp: settle_task_def Let_def split: if_splits option.splits)
  have cb: "callbacks_ok (ln_callbacks st3)" using assms(2) st3(2) by (simp add: lane_ok_def)
  note t = take_callbacks_waiting [OF st3(1) cb] and f = settle_task_fields [OF assms(1,3)]
  show "waiting st = mset (map fst calls) + waiting st'" using t(2) st3(2) by (simp add: waiting_def)
  show "lane_ok st'"
    using assms(2) t(1) f(1-3) take_callbacks_fields(4) [OF st3(1)] st3(3)
    by (simp add: lane_ok_def tasks_ok_dpop)
qed

section \<open>Cancellation empties the provider's queue\<close>

lemma lane_outcome_cancelled:
  "\<exists>oc. lane_outcome OcCancelled it None None VNone None None = Inr oc \<and> oc_intent oc = it \<and> oc_status oc = OcCancelled"
  by (simp add: lane_outcome_def HistoryRepairOutcome_def opt_pyval_def outcome_count_def outcome_bounds_def
    outcome_of_def enum_member_def first_where_def)

lemma cancel_pending_keeps:
  assumes "lane_ok st"
  shows "\<exists>calls' st'. cancel_pending q (calls, st) = Inr (calls', st') \<and> lane_ok st'
    \<and> ln_tasks st' = ln_tasks st \<and> ln_pending st' = ln_pending st
    \<and> mset (map fst calls) + waiting st = mset (map fst calls') + waiting st'
    \<and> (\<forall>k. awaits st' k \<longleftrightarrow> k \<notin> fst ` set q \<and> awaits st k)"
  using assms
proof (induction q arbitrary: calls st)
  case Nil
  then show ?case by simp
next
  case (Cons p q)
  obtain k rq where p: "p = (k, rq)" by (cases p)
  obtain oc where oc: "lane_outcome OcCancelled (rq_intent rq) None None VNone None None = Inr oc"
    using lane_outcome_cancelled by blast
  obtain more st1 where t: "take_callbacks k oc (remember_outcome oc st) = (more, st1)"
    by (cases "take_callbacks k oc (remember_outcome oc st)")
  have l1: "lane_ok st1" using take_callbacks_keeps [OF t] Cons.prems by simp
  have w: "waiting st = mset (map fst more) + waiting st1"
    using take_callbacks_waiting(2) [OF t] Cons.prems by (simp add: lane_ok_def waiting_def)
  have a: "awaits st1 x \<longleftrightarrow> x \<noteq> k \<and> awaits st x" for x
    using take_callbacks_fields(7) [OF t, of x] by (simp add: awaits_def)
  obtain calls' st' where r: "cancel_pending q (calls @ more, st1) = Inr (calls', st')" "lane_ok st'"
    "ln_tasks st' = ln_tasks st1" "ln_pending st' = ln_pending st1"
    "mset (map fst (calls @ more)) + waiting st1 = mset (map fst calls') + waiting st'"
    "\<forall>k. awaits st' k \<longleftrightarrow> k \<notin> fst ` set q \<and> awaits st1 k"
    using Cons.IH [OF l1] by blast
  have "cancel_pending (p # q) (calls, st) = Inr (calls', st')" using oc t r(1) by (simp add: p)
  moreover have "mset (map fst calls) + waiting st = mset (map fst calls') + waiting st'"
    using r(5) w by (simp add: ac_simps)
  ultimately show ?case
    using r(2-4,6) a take_callbacks_fields(1,3) [OF t] by (auto simp: p)
qed

section \<open>The next request\<close>

lemma pop_next_cases:
  assumes "pending_ok (ln_pending st)"
  shows "(dget (ln_pending st) p = None \<and> pop_next p st = (None, st\<lparr>ln_pending := dpop p (ln_pending st)\<rparr>))
    \<or> (\<exists>k rq q. dget (ln_pending st) p = Some ((k, rq) # q) \<and> request_ok rq \<and> rq_key rq = k \<and> it_provider (rq_intent rq) = p
        \<and> pop_next p st = (Some rq, st\<lparr>ln_pending := (if q = [] then dpop p (ln_pending st) else dset p q (ln_pending st))\<rparr>)
        \<and> (q \<noteq> [] \<longrightarrow> queue_ok p q))"
proof (cases "dget (ln_pending st) p")
  case None
  then show ?thesis by (simp add: pop_next_def dget_default_None)
next
  case (Some l)
  then have l: "queue_ok p l" using assms by (simp add: pending_ok_def)
  then obtain k rq q where q: "l = (k, rq) # q" by (cases l) (auto simp: queue_ok_def)
  have "dget l k = Some rq" by (simp add: q dget_def)
  then have h: "request_ok rq \<and> rq_key rq = k \<and> it_provider (rq_intent rq) = p" using l unfolding queue_ok_def by blast
  have "request_ok r \<and> rq_key r = k' \<and> it_provider (rq_intent r) = p" if "dget q k' = Some r" for k' r
  proof -
    have "k' \<noteq> k" using l that by (auto simp: queue_ok_def q dict_ok_def dest!: dget_in_set) force
    then have "dget l k' = Some r" using that by (simp add: q dget_def)
    then show ?thesis using l unfolding queue_ok_def by blast
  qed
  then have "queue_ok p q" if "q \<noteq> []"
    using that l by (auto simp: queue_ok_def q dict_ok_def)
  then show ?thesis using Some q h by (simp add: pop_next_def dget_default_Some)
qed

section \<open>Work and quiet states\<close>

text \<open>The chunks a request may still need, one per slot of the envelope before it and one for itself.\<close>

definition intent_work :: "repair_intent \<Rightarrow> nat" where
  "intent_work it = nat ((it_starts_at it - it_target_starts_at it) div (interval_seconds (it_timeframe it) * us_per_second)) + 1"

definition work :: "('h, 'c) lane \<Rightarrow> nat" where
  "work st = dsum (\<lambda>(k, t). intent_work (rq_intent (tk_request t))) (ln_tasks st)
     + dsum (\<lambda>(p, q). dsum (\<lambda>(k, rq). intent_work (rq_intent rq)) q) (ln_pending st)"

lemma next_chunk_work:
  assumes "intent_ok it" "it_target_starts_at it < it_starts_at it"
  shows "intent_work (next_chunk it oc) < intent_work it"
proof -
  let ?slot = "interval_seconds (it_timeframe it) * us_per_second" and ?n = "next_chunk it oc"
  have slot: "0 < ?slot" by (simp add: us_per_second_def)
  have d: "?slot dvd it_target_starts_at it" "?slot dvd it_starts_at it" "?slot dvd it_ends_at it"
    using assms(1) by (simp_all add: intent_ok_def)
  have n: "it_target_starts_at it \<le> it_starts_at ?n" "it_starts_at ?n < it_starts_at it"
    "?slot dvd it_starts_at ?n" "it_target_starts_at ?n = it_target_starts_at it" "it_timeframe ?n = it_timeframe it"
    using assms d by (auto simp: next_chunk_def intent_ok_def max_def intro: dvd_diff)
  then obtain a b where ab: "it_starts_at ?n - it_target_starts_at it = ?slot * a"
    "it_starts_at it - it_target_starts_at it = ?slot * b"
    using d by (metis dvd_def dvd_diff)
  have "?slot * a < ?slot * b" using n(2) ab by linarith
  moreover have "0 \<le> ?slot * a" using n(1) ab(1) by linarith
  ultimately have "a < b" "0 \<le> a"
    using mult_less_cancel_left_pos [OF slot] mult_pos_neg [OF slot, of a] by (blast, linarith)
  moreover have "?slot * a div ?slot = a" "?slot * b div ?slot = b"
    by (rule nonzero_mult_div_cancel_left, use slot in linarith)+
  ultimately show ?thesis unfolding intent_work_def n(4,5) ab by simp
qed

definition queued :: "('h, 'c) lane \<Rightarrow> repair_key \<Rightarrow> bool" where
  "queued st k \<longleftrightarrow> dhas (dget_default (ln_pending st) (key_provider k) []) k"

definition quiet :: "('h, 'c) lane \<Rightarrow> bool" where
  "quiet st \<longleftrightarrow> (\<forall>k t. dget (ln_tasks st) k = Some t \<longrightarrow> \<not> tk_done t)
     \<and> (\<forall>p. dhas (ln_pending st) p \<longrightarrow> (\<exists>k. dhas (ln_tasks st) k \<and> key_provider k = p))
     \<and> (\<forall>k. awaits st k \<longrightarrow> dhas (ln_tasks st) k \<or> queued st k)"

text \<open>What the environment keeps: clocks past the envelope, generations that count up from zero.\<close>

definition end_env :: "instant \<Rightarrow> instant \<Rightarrow> 'h repair_task \<Rightarrow> repair_outcome awaited \<Rightarrow> bool" where
  "end_env utc utc' t result \<longleftrightarrow> it_target_ends_at (rq_intent (tk_request t)) \<le> utc
     \<and> it_target_ends_at (rq_intent (tk_request t)) \<le> utc'
     \<and> (\<forall>oc g. result = Returned oc \<longrightarrow> oc_generation oc = Some g \<longrightarrow> 0 \<le> g)"

lemma lane_outcome_failed:
  "\<exists>oc. lane_outcome OcFetchFailed it None None code None None = Inr oc \<and> oc_status oc = OcFetchFailed
    \<and> oc_generation oc = None"
  by (simp add: lane_outcome_def HistoryRepairOutcome_def opt_pyval_def outcome_count_def outcome_bounds_def
    outcome_of_def enum_member_def first_where_def)

text \<open>A task that was not cancelled ends with an outcome, its own or a failure.\<close>

lemma run_request_end_outcome:
  assumes "result \<noteq> Cancelled" "end_env utc utc' t result" "request_ok (tk_request t)"
  obtains oc where "run_request_end utc utc' now t result st =
      (case settle_task now t oc st of (calls, st1) \<Rightarrow> Inr (calls, start_next (it_provider (rq_intent (tk_request t)))
        (if continues (tk_request t) oc
         then Some ((tk_request t)\<lparr>rq_key := repair_key (next_chunk (rq_intent (tk_request t)) oc),
           rq_intent := next_chunk (rq_intent (tk_request t)) oc\<rparr>) else None) st1))"
    "\<forall>g. oc_generation oc = Some g \<longrightarrow> 0 \<le> g"
proof -
  obtain oc where oc: "(case result of Returned oc \<Rightarrow> Inr oc
      | Raised e \<Rightarrow> lane_outcome OcFetchFailed (rq_intent (tk_request t)) None None (VStr (exn_text e)) None None
      | Cancelled \<Rightarrow> Inl CancelledError) = Inr oc" "\<forall>g. oc_generation oc = Some g \<longrightarrow> 0 \<le> g"
    using assms(1,2) lane_outcome_failed [of "rq_intent (tk_request t)"]
    by (cases result) (auto simp: end_env_def, metis option.distinct(1))
  then have "continuation_env utc utc' (tk_request t) oc"
    using assms(2) by (simp add: continuation_env_def end_env_def)
  note c = continuation_request_exact [OF assms(3) this]
  show ?thesis
    by (rule that [OF _ oc(2)]) (use assms(1) oc(1) c in \<open>cases result; simp add: run_request_end_def Let_def\<close>)
qed

section \<open>The end of a task\<close>

lemma removed_task:
  assumes "tasks_ok tasks created" "dget tasks k = Some t"
  shows "\<forall>k'. dhas (dpop k tasks) k' \<longrightarrow> key_provider k' \<noteq> it_provider (rq_intent (tk_request t))"
proof -
  have "key_provider k = it_provider (rq_intent (tk_request t))"
    using assms request_ok_provider by (metis tasks_ok_def)
  then show ?thesis using assms by (auto simp: tasks_ok_def dhas_iff)
qed

lemma start_task_lane_ok:
  assumes "lane_ok st" "request_ok rq" "\<forall>k. dhas (ln_tasks st) k \<longrightarrow> key_provider k \<noteq> it_provider (rq_intent rq)"
  shows "lane_ok (start_task rq st)" "waiting (start_task rq st) = waiting st"
    "work (start_task rq st) = work st + intent_work (rq_intent rq)"
proof -
  show "lane_ok (start_task rq st)" using assms start_task_tasks [OF _ assms(2), of "ln_tasks st" "ln_created st"]
    by (simp add: lane_ok_def start_task_def)
  show "waiting (start_task rq st) = waiting st" by (simp add: start_task_def waiting_def)
  have "dget (ln_tasks st) (rq_key rq) = None"
    using assms(2,3) request_ok_provider [OF assms(2)] by (auto simp: dhas_iff dest: not_Some_eq [THEN iffD1])
  then show "work (start_task rq st) = work st + intent_work (rq_intent rq)"
    using assms(1) by (simp add: work_def start_task_def lane_ok_def tasks_ok_def dsum_dset dpop_absent)
qed

lemma work_settled:
  assumes "lane_ok st" "dget (ln_tasks st) k = Some t" "ln_tasks st' = dpop k (ln_tasks st)" "ln_pending st' = ln_pending st"
  shows "work st = work st' + intent_work (rq_intent (tk_request t))"
  using assms dsum_dpop [of "ln_tasks st" k t "\<lambda>(k, t). intent_work (rq_intent (tk_request t))"]
  by (simp add: work_def lane_ok_def tasks_ok_def)

lemma work_dpop_pending:
  assumes "pending_ok (ln_pending st)"
  shows "work (st\<lparr>ln_pending := dpop p (ln_pending st)\<rparr>) \<le> work st"
  using assms dsum_dpop [of "ln_pending st" p _ "\<lambda>(p, q). dsum (\<lambda>(k, rq). intent_work (rq_intent rq)) q"]
    dpop_absent [of "ln_pending st" p]
  by (cases "dget (ln_pending st) p") (auto simp: work_def pending_ok_def)

lemma popped_facts:
  assumes "lane_ok st" "pop_next p st = (Some rq, st')"
  shows "lane_ok st'" "request_ok rq" "it_provider (rq_intent rq) = p" "ln_tasks st' = ln_tasks st"
    "ln_callbacks st' = ln_callbacks st" "work st = work st' + intent_work (rq_intent rq)"
    "\<And>k. queued st k \<Longrightarrow> k = rq_key rq \<or> queued st' k" "\<And>p'. dhas (ln_pending st') p' \<Longrightarrow> dhas (ln_pending st) p'"
proof -
  have pd: "pending_ok (ln_pending st)" using assms(1) by (simp add: lane_ok_def)
  then obtain q where q: "dget (ln_pending st) p = Some ((rq_key rq, rq) # q)" "request_ok rq"
    "it_provider (rq_intent rq) = p" "q \<noteq> [] \<longrightarrow> queue_ok p q"
    "st' = st\<lparr>ln_pending := (if q = [] then dpop p (ln_pending st) else dset p q (ln_pending st))\<rparr>"
    using pop_next_cases [OF pd, of p] assms(2) by auto
  show "request_ok rq" "it_provider (rq_intent rq) = p" by (fact q)+
  show "lane_ok st'" using assms(1) q(4) pending_ok_dset [OF pd] pending_ok_dpop [OF pd] by (simp add: lane_ok_def q(5))
  show "ln_tasks st' = ln_tasks st" "ln_callbacks st' = ln_callbacks st" by (simp_all add: q(5))
  have d: "dict_ok (ln_pending st)" using pd by (simp add: pending_ok_def)
  show "work st = work st' + intent_work (rq_intent rq)"
    by (simp add: work_def q(5) dsum_dpop [OF d q(1)] dsum_dset [OF d])
  show "k = rq_key rq \<or> queued st' k" if "queued st k" for k
  proof (cases "key_provider k = p")
    case True
    have "dget_default (ln_pending st) p [] = (rq_key rq, rq) # q" by (rule dget_default_Some [OF q(1)])
    moreover have "dget_default (ln_pending st') p [] = q" by (simp add: q(5))
    ultimately show ?thesis
      using that True by (auto simp: queued_def dhas_def split: if_splits)
  next
    case False
    with that show ?thesis by (auto simp: queued_def q(5))
  qed
  show "dhas (ln_pending st) p'" if "dhas (ln_pending st') p'" for p'
    using that q(1) by (auto simp: q(5) dhas_iff split: if_splits)
qed

lemma quiet_after_end:
  assumes "quiet st" "lane_ok st" "dget (ln_tasks st) key = Some t"
    and "\<And>k. k \<noteq> key \<Longrightarrow> dhas (ln_tasks st) k \<Longrightarrow> dget (ln_tasks st') k = dget (ln_tasks st) k"
    and "\<And>k t'. dget (ln_tasks st') k = Some t' \<Longrightarrow> dget (ln_tasks st) k = Some t' \<or> \<not> tk_done t'"
    and "\<And>p. dhas (ln_pending st') p \<Longrightarrow> dhas (ln_pending st) p
      \<and> (p = key_provider key \<longrightarrow> (\<exists>k. dhas (ln_tasks st') k \<and> key_provider k = p))"
    and "\<And>k. awaits st' k \<Longrightarrow> k \<noteq> key \<and> awaits st k"
    and "\<And>k. awaits st' k \<Longrightarrow> queued st k \<Longrightarrow> dhas (ln_tasks st') k \<or> queued st' k"
  shows "quiet st'"
proof -
  have "\<not> tk_done t'" if "dget (ln_tasks st') k = Some t'" for k t'
    using assms(1,5) that by (auto simp: quiet_def)
  moreover have "\<exists>k. dhas (ln_tasks st') k \<and> key_provider k = p" if p: "dhas (ln_pending st') p" for p
  proof (cases "p = key_provider key")
    case False
    then obtain k where "dhas (ln_tasks st) k" "key_provider k = p" using assms(1,6) p unfolding quiet_def by blast
    moreover have "k \<noteq> key" using False calculation(2) by blast
    ultimately show ?thesis using assms(4) [of k] by (metis dhas_iff)
  qed (use assms(6) p in blast)
  moreover have "dhas (ln_tasks st') k \<or> queued st' k" if "awaits st' k" for k
    using assms(1,4,7,8) that unfolding quiet_def by (metis dhas_iff)
  ultimately show ?thesis unfolding quiet_def by blast
qed

text \<open>
  Ending a live task of a well-formed lane succeeds, keeps the invariant, accounts for its callbacks and
  leaves strictly less work; a quiet lane stays quiet.
\<close>

definition end_keeps :: "('h, 'c) lane \<Rightarrow> ('c completion_calls \<times> ('h, 'c) lane) res \<Rightarrow> bool" where
  "end_keeps st r \<longleftrightarrow> (\<exists>calls st'. r = Inr (calls, st') \<and> lane_ok st' \<and> waiting st = mset (map fst calls) + waiting st'
     \<and> work st' < work st \<and> (quiet st \<longrightarrow> quiet st'))"

lemma intent_work_pos [simp]: "0 < intent_work it"
  by (simp add: intent_work_def)

lemma cancelled_end_keeps:
  assumes "lane_ok st" "dget (ln_tasks st) key = Some t"
  shows "end_keeps st (run_request_end utc utc' now t Cancelled st)"
proof -
  let ?it = "rq_intent (tk_request t)" and ?p = "it_provider (rq_intent (tk_request t))"
  have key: "rq_key (tk_request t) = key" "request_ok (tk_request t)" using assms by (auto simp: lane_ok_def tasks_ok_def)
  have kp: "key_provider key = ?p" using request_ok_provider [OF key(2)] key(1) by simp
  obtain oc where oc: "lane_outcome OcCancelled ?it None None VNone None None = Inr oc"
    using lane_outcome_cancelled by blast
  obtain c1 st1 where s1: "settle_task now t oc st = (c1, st1)" by (cases "settle_task now t oc st")
  have in_table: "dget (ln_tasks st) (rq_key (tk_request t)) = Some t" using assms(2) key(1) by simp
  note f1 = settle_task_fields [OF s1 in_table, unfolded key(1)] and k1 = settle_task_keeps [OF s1 assms(1) in_table]
  let ?st2 = "st1\<lparr>ln_pending := dpop ?p (ln_pending st1)\<rparr>" and ?q = "dget_default (ln_pending st1) ?p []"
  have l2: "lane_ok ?st2" using k1(1) by (simp add: lane_ok_def pending_ok_dpop)
  obtain calls st' where e: "cancel_pending ?q (c1, ?st2) = Inr (calls, st')" "lane_ok st'"
    "ln_tasks st' = ln_tasks ?st2" "ln_pending st' = ln_pending ?st2"
    "mset (map fst c1) + waiting ?st2 = mset (map fst calls) + waiting st'"
    "\<forall>k. awaits st' k \<longleftrightarrow> k \<notin> fst ` set ?q \<and> awaits ?st2 k"
    using cancel_pending_keeps [OF l2] by blast
  have run: "run_request_end utc utc' now t Cancelled st = Inr (calls, st')"
    using oc s1 e(1) by (simp add: run_request_end_def Let_def)
  have "waiting ?st2 = waiting st1" by (simp add: waiting_def)
  then have w: "waiting st = mset (map fst calls) + waiting st'" using k1(2) e(5) by simp
  have "work st = work st1 + intent_work ?it" using work_settled [OF assms f1(1,3)] .
  moreover have "work ?st2 \<le> work st1" using k1(1) by (simp add: lane_ok_def work_dpop_pending)
  moreover have "work st' = work ?st2" using e(3,4) by (simp add: work_def)
  ultimately have less: "work st' < work st" using intent_work_pos [of ?it] by linarith
  have "quiet st'" if "quiet st"
  proof (rule quiet_after_end [OF that assms])
    show "k \<noteq> key \<and> awaits st k" if "awaits st' k" for k
      using that e(6) f1(4) [of k] by (auto simp: awaits_def)
    show "dhas (ln_tasks st') k \<or> queued st' k" if "awaits st' k" "queued st k" for k
    proof (cases "key_provider k = ?p")
      case True
      then have "dhas ?q k" using that(2) f1(3) by (simp add: queued_def)
      then have "k \<in> fst ` set ?q" using dhas_in_dkeys by (fastforce simp: dkeys_def)
      then show ?thesis using that(1) e(6) by blast
    next
      case False
      then show ?thesis using that(2) f1(3) e(4) by (simp add: queued_def)
    qed
  qed (use e(3,4) f1 kp in \<open>auto split: if_splits\<close>)
  with run e(2) w less show ?thesis unfolding end_keeps_def by blast
qed

lemma completed_end_keeps:
  assumes "lane_ok st" "dget (ln_tasks st) key = Some t" "result \<noteq> Cancelled" "end_env utc utc' t result"
  shows "end_keeps st (run_request_end utc utc' now t result st)"
proof -
  let ?rq = "tk_request t"
  let ?it = "rq_intent ?rq" and ?p = "it_provider (rq_intent ?rq)"
  have key: "rq_key ?rq = key" "request_ok ?rq" using assms(1,2) by (auto simp: lane_ok_def tasks_ok_def)
  have kp: "key_provider key = ?p" using request_ok_provider [OF key(2)] key(1) by simp
  obtain oc where oc: "run_request_end utc utc' now t result st =
      (case settle_task now t oc st of (calls, st1) \<Rightarrow> Inr (calls, start_next ?p
        (if continues ?rq oc then Some (?rq\<lparr>rq_key := repair_key (next_chunk ?it oc), rq_intent := next_chunk ?it oc\<rparr>)
         else None) st1))" "\<forall>g. oc_generation oc = Some g \<longrightarrow> 0 \<le> g"
    by (rule run_request_end_outcome [OF assms(3,4) key(2)])
  obtain calls st1 where s1: "settle_task now t oc st = (calls, st1)" by (cases "settle_task now t oc st")
  have in_table: "dget (ln_tasks st) (rq_key ?rq) = Some t" using assms(2) key(1) by simp
  note f1 = settle_task_fields [OF s1 in_table, unfolded key(1)] and k1 = settle_task_keeps [OF s1 assms(1) in_table]
  have w1: "work st = work st1 + intent_work ?it" using work_settled [OF assms(1,2) f1(1,3)] .
  have free: "\<forall>k. dhas (ln_tasks st1) k \<longrightarrow> key_provider k \<noteq> ?p"
    using removed_task [of "ln_tasks st" "ln_created st" key t] assms(1,2) f1(1) by (simp add: lane_ok_def)
  have q1: "queued st1 k \<longleftrightarrow> queued st k" for k using f1(3) by (simp add: queued_def)
  show ?thesis
  proof (cases "continues ?rq oc")
    case True
    let ?next = "?rq\<lparr>rq_key := repair_key (next_chunk ?it oc), rq_intent := next_chunk ?it oc\<rparr>"
    have it: "intent_ok ?it" "it_target_starts_at ?it < it_starts_at ?it"
      using key(2) True by (simp_all add: request_ok_def continues_def)
    have n: "request_ok ?next" "it_provider (rq_intent ?next) = ?p"
      using next_chunk_ok [OF it oc(2)] by (simp_all add: request_ok_def next_chunk_def)
    have np: "key_provider (rq_key ?next) = ?p" using request_ok_provider [OF n(1)] n(2) by simp
    note st = start_task_lane_ok [OF k1(1) n(1) free [folded n(2)]]
    have "work (start_task ?next st1) < work st" using st(3) w1 next_chunk_work [OF it, of oc] by simp
    moreover have "quiet (start_task ?next st1)" if "quiet st"
    proof (rule quiet_after_end [OF that assms(1,2)])
      fix k assume "k \<noteq> key" "dhas (ln_tasks st) k"
      then have "dhas (ln_tasks st1) k" by (simp add: f1(1))
      then have "k \<noteq> rq_key ?next" using free np by metis
      then show "dget (ln_tasks (start_task ?next st1)) k = dget (ln_tasks st) k"
        using \<open>k \<noteq> key\<close> by (simp add: start_task_def f1(1))
    next
      fix p assume "dhas (ln_pending (start_task ?next st1)) p"
      then show "dhas (ln_pending st) p \<and> (p = key_provider key \<longrightarrow>
          (\<exists>k. dhas (ln_tasks (start_task ?next st1)) k \<and> key_provider k = p))"
        using np kp f1(3) by (auto simp: start_task_def)
    next
      fix k assume "awaits (start_task ?next st1) k"
      then show "k \<noteq> key \<and> awaits st k" using f1(4) [of k] by (simp add: start_task_def awaits_def)
    qed (use f1 q1 in \<open>auto simp: start_task_def queued_def split: if_splits\<close>)
    ultimately show ?thesis
      using oc(1) s1 True st(1,2) k1(2) by (simp add: end_keeps_def start_next_def)
  next
    case False
    show ?thesis
    proof (cases "pop_next ?p st1")
      case (Pair popped st2)
      show ?thesis
      proof (cases popped)
        case None
        have pd: "pending_ok (ln_pending st1)" using k1(1) by (simp add: lane_ok_def)
        have none: "dget (ln_pending st1) ?p = None" "st2 = st1\<lparr>ln_pending := dpop ?p (ln_pending st1)\<rparr>"
          using pop_next_cases [OF pd, of ?p] Pair None by auto
        have same: "dpop ?p (ln_pending st1) = ln_pending st1" using none(1) by (rule dpop_absent)
        have st2: "st2 = st1" using none(2) by (simp add: same)
        have "quiet st1" if "quiet st"
          by (rule quiet_after_end [OF that assms(1,2)]) (use f1 q1 kp none(1) in \<open>auto simp: dhas_iff split: if_splits\<close>)
        then show ?thesis
          using oc(1) s1 False Pair None st2 k1 w1 by (simp add: end_keeps_def start_next_def)
      next
        case (Some rq)
        note pop = popped_facts [OF k1(1) Pair [unfolded Some]]
        have free2: "\<forall>k. dhas (ln_tasks st2) k \<longrightarrow> key_provider k \<noteq> it_provider (rq_intent rq)"
          using free pop(3,4) by simp
        note st = start_task_lane_ok [OF pop(1,2) free2]
        have rp: "key_provider (rq_key rq) = ?p" using request_ok_provider [OF pop(2)] pop(3) by simp
        have "work (start_task rq st2) < work st" using st(3) pop(6) w1 intent_work_pos [of ?it] by linarith
        moreover have "waiting (start_task rq st2) = waiting st1" using st(2) pop(5) by (simp add: waiting_def)
        moreover have "quiet (start_task rq st2)" if "quiet st"
        proof (rule quiet_after_end [OF that assms(1,2)])
          fix k assume "k \<noteq> key" "dhas (ln_tasks st) k"
          then have "dhas (ln_tasks st1) k" by (simp add: f1(1))
          then have "k \<noteq> rq_key rq" using free rp by metis
          then show "dget (ln_tasks (start_task rq st2)) k = dget (ln_tasks st) k"
            using \<open>k \<noteq> key\<close> by (simp add: start_task_def f1(1) pop(4))
        next
          fix p assume "dhas (ln_pending (start_task rq st2)) p"
          then show "dhas (ln_pending st) p \<and> (p = key_provider key \<longrightarrow>
              (\<exists>k. dhas (ln_tasks (start_task rq st2)) k \<and> key_provider k = p))"
            using rp kp f1(3) pop(8) [of p] by (auto simp: start_task_def)
        next
          fix k assume "awaits (start_task rq st2) k"
          then show "k \<noteq> key \<and> awaits st k" using f1(4) [of k] pop(5) by (simp add: start_task_def awaits_def)
        next
          fix k assume "queued st k"
          then show "dhas (ln_tasks (start_task rq st2)) k \<or> queued (start_task rq st2) k"
            using pop(7) [of k] q1 by (auto simp: start_task_def queued_def)
        qed (use f1 pop(4) in \<open>auto simp: start_task_def split: if_splits\<close>)
        ultimately show ?thesis
          using oc(1) s1 False Pair Some st(1) k1(2) by (simp add: end_keeps_def start_next_def)
      qed
    qed
  qed
qed

end
