(* ===== verification/RepairRun.thy ===== *)
theory RepairRun
  imports RepairLane
begin

text \<open>
  \<open>data/history_repair.py\<close>: one repair from its request to its outcome. Everything awaited - the store,
  its two lookups, the fetch and the commit - and the two readings of the chart generation come from
  outside and are the services of the model; what the code decides between them is the definition.
\<close>

section \<open>Coverage receipts of a complete fetch\<close>

definition coverage_receipts :: "fetch_result \<Rightarrow> coverage_receipt list res" where
  "coverage_receipts fr =
    (let it = fr_intent fr; ri = it_identity it in
    rbind (require (ri_resolution ri = ResolvedExact)
      (ValueError ''HISTORY_REPAIR_EXACT_COVERAGE_IDENTITY_REQUIRED'')) (\<lambda>_.
    rbind (require (ri_request_version ri = 2 \<and> ri_admission_version ri = 2)
      (ValueError ''HISTORY_REPAIR_COVERAGE_CONTRACT_VERSION_MISMATCH'')) (\<lambda>_.
    rbind (current_history_coverage_contract (VStr (it_provider it)) (VStr (it_instrument_id it))
        (VStr (it_route_fingerprint it)) (VStr (it_timeframe it)) (VStr (ri_mode ri))
        (VStr (provider_request_text (ri_request_type ri))) (VStr (ri_source ri)) (VStr (ri_contract_id ri))
        (VStr (ri_contract_type ri)) (VStr (ri_data_type ri))) (\<lambda>contract.
    mapM (\<lambda>c. HistoryCoverageReceipt contract (VDateTime (utc_datetime (rc_starts_at c)))
        (VDateTime (utc_datetime (rc_ends_at c))) (VInt (rc_response_count c))
        (VDateTime (utc_datetime (rc_completed_at c))) (opt_pyval VInt (rc_provider_limit c)))
      (fr_completions fr)))))"

section \<open>Services\<close>

record commit_call =
  cm_instrument :: vdict
  cm_intent :: repair_intent
  cm_terminal :: history_terminal
  cm_bars :: "bar list"
  cm_receipts :: "coverage_receipt list"
  cm_error_code :: pyval

datatype service_call = FetchCalled repair_intent pyfloat vdict | CommitCalled commit_call

text \<open>What is no fetch result or no outcome is \<open>None\<close>.\<close>

record history_services =
  hs_open :: "unit awaited"
  hs_lookup_before :: "pyval awaited"
  hs_generation_before :: int
  hs_fetch :: "repair_intent \<Rightarrow> pyfloat \<Rightarrow> vdict \<Rightarrow> fetch_result option awaited"
  hs_lookup_after :: "pyval awaited"
  hs_generation_after :: int
  hs_commit :: "commit_call \<Rightarrow> repair_outcome option awaited"

primrec awaited_of :: "'a res \<Rightarrow> 'a awaited" where
  "awaited_of (Inl e) = Raised e"
| "awaited_of (Inr x) = Returned x"

fun abind :: "'a awaited \<Rightarrow> ('a \<Rightarrow> 'b awaited) \<Rightarrow> 'b awaited" where
  "abind (Returned x) f = f x"
| "abind (Raised e) f = Raised e"
| "abind Cancelled f = Cancelled"

definition lookup_persisted_instrument :: "pyval awaited \<Rightarrow> repair_intent \<Rightarrow> vdict option awaited" where
  "lookup_persisted_instrument persisted it = abind persisted (\<lambda>v. case v of
      VDict d \<Rightarrow> awaited_of (rbind (instrument_matches_intent (Some d) it) (\<lambda>ok.
        if ok then rbind (require_provider_identity (Some d) (Some (it_provider it))) (\<lambda>q. Inr (Some q))
        else Inr None))
    | _ \<Rightarrow> Returned None)"

section \<open>From the fetch result to the outcome\<close>

text \<open>\<open>replace(outcome, response_starts_at=..., response_ends_at=...)\<close>: the constructor over its fields.\<close>

definition with_response_bounds :: "instant option \<Rightarrow> instant option \<Rightarrow> repair_outcome \<Rightarrow> repair_outcome res" where
  "with_response_bounds starts_at ends_at oc =
    HistoryRepairOutcome (VStr (outcome_text (oc_status oc))) (Some (oc_intent oc))
      (opt_pyval (\<lambda>t. VStr (terminal_text t)) (oc_terminal oc)) (VInt (oc_written_bars oc))
      (VInt (oc_deleted_bars oc)) (VInt (oc_coverage_inserted oc)) (VBool (oc_coverage_expanded oc))
      (opt_pyval VInt (oc_generation oc)) (oc_error_code oc)
      (opt_pyval (\<lambda>t. VDateTime (utc_datetime t)) starts_at) (opt_pyval (\<lambda>t. VDateTime (utc_datetime t)) ends_at)"

definition commit_result ::
  "repair_intent \<Rightarrow> fetch_result \<Rightarrow> vdict \<Rightarrow> coverage_receipt list \<Rightarrow> history_services
    \<Rightarrow> service_call list \<times> repair_outcome awaited" where
  "commit_result it fr persisted receipts hs =
    (let call = \<lparr>cm_instrument = persisted, cm_intent = it, cm_terminal = fr_terminal fr, cm_bars = fr_bars fr,
           cm_receipts = receipts, cm_error_code = fr_error_code fr\<rparr>;
         failed = (\<lambda>e. awaited_of (lane_outcome OcCommitFailed it (Some (fr_terminal fr)) None (VStr (exn_text e))
           (fr_response_starts_at fr) (fr_response_ends_at fr))) in
     ([CommitCalled call],
      case hs_commit hs call of
        Cancelled \<Rightarrow> Cancelled
      | Raised e \<Rightarrow> failed e
      | Returned oc \<Rightarrow> (case oc of
          None \<Rightarrow> failed (TypeError ''HISTORY_REPAIR_COMMIT_OUTCOME_MISMATCH'')
        | Some oc \<Rightarrow>
            if oc_intent oc \<noteq> it then failed (TypeError ''HISTORY_REPAIR_COMMIT_OUTCOME_MISMATCH'')
            else (case with_response_bounds (fr_response_starts_at fr) (fr_response_ends_at fr) oc of
                Inl e \<Rightarrow> failed e
              | Inr oc' \<Rightarrow> Returned oc'))))"

definition settle_result ::
  "bool \<Rightarrow> repair_intent \<Rightarrow> fetch_result option \<Rightarrow> history_services
    \<Rightarrow> service_call list \<times> repair_outcome awaited" where
  "settle_result snapshot it result hs = (case result of
      None \<Rightarrow> ([], awaited_of (lane_outcome OcMalformed it None None
        (VStr ''HISTORY_REPAIR_TYPED_RESULT_MISMATCH'') None None))
    | Some fr \<Rightarrow>
       let outcome = (\<lambda>status generation code. awaited_of (lane_outcome status it (Some (fr_terminal fr)) generation
             code (fr_response_starts_at fr) (fr_response_ends_at fr)));
           authoritative = (fr_terminal fr = TerminalComplete \<and> snapshot) in
       if fr_intent fr \<noteq> it
       then ([], awaited_of (lane_outcome OcMalformed it None None
         (VStr ''HISTORY_REPAIR_TYPED_RESULT_MISMATCH'') None None))
       else if fr_terminal fr = TerminalMalformed then ([], outcome OcMalformed None (fr_error_code fr))
       else (case lookup_persisted_instrument (hs_lookup_after hs) it of
           Cancelled \<Rightarrow> ([], Cancelled)
         | Raised e \<Rightarrow> ([], outcome OcStorageFailed None (VStr (exn_text e)))
         | Returned None \<Rightarrow> ([], outcome OcStaleRoute None (VStr ''HISTORY_REPAIR_PERSISTED_ROUTE_STALE''))
         | Returned (Some persisted) \<Rightarrow>
             if hs_generation_after hs \<noteq> it_generation it
             then ([], outcome OcStaleGeneration (Some (hs_generation_after hs)) VNone)
             else (case if authoritative then coverage_receipts fr else Inr [] of
                 Inl e \<Rightarrow> ([], outcome OcMalformed None (VStr (exn_text e)))
               | Inr receipts \<Rightarrow>
                   if \<not> authoritative \<and> fr_terminal fr = TerminalRollingComplete \<and> fr_bars fr = []
                   then ([], outcome OcNoChange (Some (hs_generation_after hs)) VNone)
                   else if \<not> authoritative \<and> fr_terminal fr \<noteq> TerminalComplete \<and> fr_bars fr = []
                   then ([], outcome OcIncomplete None (fr_error_code fr))
                   else commit_result it fr persisted receipts hs)))"

section \<open>The whole repair\<close>

definition execute_history_repair ::
  "string \<Rightarrow> pyval \<Rightarrow> instrument \<Rightarrow> repair_intent \<Rightarrow> pyfloat \<Rightarrow> bool \<Rightarrow> bool \<Rightarrow> history_services
    \<Rightarrow> service_call list \<times> repair_outcome awaited" where
  "execute_history_repair provider exact inst it timeout store_callable commit_callable hs =
    (let outcome = (\<lambda>status generation code. awaited_of (lane_outcome status it None generation code None None)) in
     case exact of
       VBool snapshot \<Rightarrow>
        (case if provider \<noteq> it_provider it then Inr False else instrument_matches_intent inst it of
           Inl e \<Rightarrow> ([], Raised e)
         | Inr matches \<Rightarrow>
             if \<not> matches then ([], outcome OcStaleRoute None (VStr ''HISTORY_REPAIR_ROUTE_MISMATCH''))
             else if \<not> store_callable
             then ([], outcome OcStorageFailed None (VStr ''HISTORY_REPAIR_STORE_FACTORY_REQUIRED''))
             else if \<not> commit_callable
             then ([], outcome OcCommitFailed None (VStr ''HISTORY_REPAIR_COMMIT_REQUIRED''))
             else (case abind (hs_open hs) (\<lambda>_. lookup_persisted_instrument (hs_lookup_before hs) it) of
                 Cancelled \<Rightarrow> ([], Cancelled)
               | Raised e \<Rightarrow> ([], outcome OcStorageFailed None (VStr (exn_text e)))
               | Returned None \<Rightarrow> ([], outcome OcStaleRoute None (VStr ''HISTORY_REPAIR_PERSISTED_ROUTE_STALE''))
               | Returned (Some persisted) \<Rightarrow>
                   if hs_generation_before hs \<noteq> it_generation it
                   then ([], outcome OcStaleGeneration (Some (hs_generation_before hs)) VNone)
                   else (case hs_fetch hs it timeout persisted of
                       Cancelled \<Rightarrow> ([FetchCalled it timeout persisted], Cancelled)
                     | Raised e \<Rightarrow> ([FetchCalled it timeout persisted],
                         outcome OcFetchFailed None (VStr (exn_text e)))
                     | Returned result \<Rightarrow> (case settle_result snapshot it result hs of
                         (calls, res) \<Rightarrow> (FetchCalled it timeout persisted # calls, res)))))
     | _ \<Rightarrow> ([], Raised (TypeError ''HISTORY_REPAIR_SNAPSHOT_AUTHORITY_BOOL_REQUIRED'')))"

end
