(* ===== verification/RepairRunLaws.thy ===== *)
theory RepairRunLaws
  imports RepairRun
begin

text \<open>
  What one repair guarantees: a complete fetch result covers exactly the requested range, a commit is
  only submitted for the route and the generation the request was made for, and every run reports an
  outcome about its own request.
\<close>

section \<open>What the constructors establish\<close>

definition completion_ok :: "range_completion \<Rightarrow> bool" where
  "completion_ok c \<longleftrightarrow> in_dt_range (rc_starts_at c) \<and> in_dt_range (rc_ends_at c) \<and> in_dt_range (rc_completed_at c)
     \<and> rc_starts_at c < rc_ends_at c \<and> rc_ends_at c \<le> rc_completed_at c \<and> 0 \<le> rc_response_count c
     \<and> (\<forall>l. rc_provider_limit c = Some l \<longrightarrow> rc_response_count c < l)"

lemma require_aware_in_range: "require_aware_utc_datetime v f = Inr t \<Longrightarrow> in_dt_range t"
  by (auto simp: require_aware_utc_datetime_def astimezone_utc_def Let_def split: pyval.splits if_splits option.splits)

lemma completion_constructor_ok:
  "HistoryRangeCompletion starts_at ends_at count completed_at source request_limit provider_limit = Inr c
    \<Longrightarrow> completion_ok c"
  by (auto simp: HistoryRangeCompletion_def res_simps completion_ok_def saturated_def require_aware_in_range not_le
    split: pyval.splits if_splits option.splits)

text \<open>A completion some call of its constructor returned.\<close>

definition completion_built :: "range_completion \<Rightarrow> bool" where
  "completion_built c \<longleftrightarrow> (\<exists>starts_at ends_at count completed_at source request_limit provider_limit.
     HistoryRangeCompletion starts_at ends_at count completed_at source request_limit provider_limit = Inr c)"

lemma completion_built_ok: "completion_built c \<Longrightarrow> completion_ok c"
  by (auto simp: completion_built_def intro: completion_constructor_ok)

text \<open>What the coverage contract needs of an intent.\<close>

definition intent_named :: "repair_intent \<Rightarrow> bool" where
  "intent_named it \<longleftrightarrow> it_provider it \<noteq> [] \<and> it_instrument_id it \<noteq> [] \<and> it_route_fingerprint it \<noteq> []
     \<and> it_timeframe it \<in> set PERSISTED_BAR_INTERVALS \<and> it_starts_at it < it_ends_at it"

lemma intent_constructor_named:
  "HistoryRepairIntent now now' provider instrument fingerprint timeframe starts_at ends_at identity generation
    priority cooldown target_starts_at target_ends_at = Inr it \<Longrightarrow> intent_named it"
  unfolding HistoryRepairIntent_def exact_history_text_def
  by (auto simp: res_simps intent_named_def nonempty_text_def split: option.splits if_splits)

definition identity_ok :: "request_identity \<Rightarrow> bool" where
  "identity_ok ri \<longleftrightarrow> 0 < ri_request_version ri \<and> 0 < ri_admission_version ri \<and> ri_mode ri \<noteq> []
     \<and> ri_request_type ri = HISTORICAL \<and> ri_source ri \<noteq> [] \<and> ri_contract_type ri \<noteq> [] \<and> ri_data_type ri = ''TRADES''
     \<and> (ri_resolution ri = ResolvedExact \<longrightarrow> ri_contract_id ri \<noteq> [])"

lemma identity_constructor_ok:
  "HistoryRequestAdmissionIdentity a b c d e f g h i = Inr ri \<Longrightarrow> identity_ok ri"
  by (auto simp: HistoryRequestAdmissionIdentity_def res_simps identity_ok_def positive_version_def
    exact_history_text_def nonempty_text_def split: pyval.splits if_splits option.splits)

lemma fetch_result_parts:
  assumes "ProviderHistoryFetchResult (Some it) terminal bars completions code contract s e = Inr fr"
  shows "\<exists>t bs cs resolved. terminal_of terminal = Some t \<and> bars = Some bs \<and> completions = Some cs
    \<and> response_bounds s e = Inr (fr_response_starts_at fr, fr_response_ends_at fr)
    \<and> (if ri_resolution (it_identity it) = ResolvedByResponse then check_rolling else check_exact) it t
        (sort_key bar_ts bs) (sort_key (\<lambda>c. (rc_starts_at c, rc_ends_at c)) cs) code
        (fr_response_starts_at fr, fr_response_ends_at fr) = Inr ()
    \<and> fr = \<lparr>fr_intent = it, fr_terminal = t, fr_bars = sort_key bar_ts bs,
        fr_completions = sort_key (\<lambda>c. (rc_starts_at c, rc_ends_at c)) cs, fr_error_code = code,
        fr_resolved_contract_id = resolved, fr_response_starts_at = fr_response_starts_at fr,
        fr_response_ends_at = fr_response_ends_at fr\<rparr>"
  using assms unfolding ProviderHistoryFetchResult_def Let_def
  by (cases "terminal_of terminal"; cases bars; cases completions) (simp_all add: res_simps, fastforce)

lemma check_exact_complete:
  assumes "check_exact it TerminalComplete bars cs code bounds = Inr ()"
  shows "cs \<noteq> []" "completions_tile it bars cs (it_starts_at it) 0 = Inr (it_ends_at it, int (length bars))"
  using assms by (auto simp: check_exact_def res_simps)

lemma check_rolling_not_complete: "check_rolling it TerminalComplete bars cs code bounds \<noteq> Inr ()"
  by (auto simp: check_rolling_def res_simps)

lemma fetch_result_complete:
  assumes "ProviderHistoryFetchResult (Some it) terminal bars completions code contract s e = Inr fr"
    and "fr_terminal fr = TerminalComplete"
  shows "fr_intent fr = it" "ri_resolution (it_identity it) = ResolvedExact" "fr_completions fr \<noteq> []"
    "completions_tile it (fr_bars fr) (fr_completions fr) (it_starts_at it) 0
      = Inr (it_ends_at it, int (length (fr_bars fr)))"
    "\<exists>cs. completions = Some cs \<and> set (fr_completions fr) = set cs"
proof -
  obtain t bs cs resolved where p: "completions = Some cs"
    "(if ri_resolution (it_identity it) = ResolvedByResponse then check_rolling else check_exact) it t
        (sort_key bar_ts bs) (sort_key (\<lambda>c. (rc_starts_at c, rc_ends_at c)) cs) code
        (fr_response_starts_at fr, fr_response_ends_at fr) = Inr ()"
    "fr = \<lparr>fr_intent = it, fr_terminal = t, fr_bars = sort_key bar_ts bs,
        fr_completions = sort_key (\<lambda>c. (rc_starts_at c, rc_ends_at c)) cs, fr_error_code = code,
        fr_resolved_contract_id = resolved, fr_response_starts_at = fr_response_starts_at fr,
        fr_response_ends_at = fr_response_ends_at fr\<rparr>"
    using fetch_result_parts [OF assms(1)] by blast
  have f: "fr_intent fr = it" "fr_terminal fr = t" "fr_bars fr = sort_key bar_ts bs"
    "fr_completions fr = sort_key (\<lambda>c. (rc_starts_at c, rc_ends_at c)) cs"
    by (subst p(3), simp)+
  have t: "t = TerminalComplete" using f(2) assms(2) by simp
  show exact: "ri_resolution (it_identity it) = ResolvedExact"
    using p(2) check_rolling_not_complete unfolding t
    by (cases "ri_resolution (it_identity it)") (auto split: if_splits)
  with p(2) t have c: "check_exact it TerminalComplete (fr_bars fr) (fr_completions fr) code
      (fr_response_starts_at fr, fr_response_ends_at fr) = Inr ()"
    unfolding f(3,4) by simp
  show "fr_intent fr = it" "fr_completions fr \<noteq> []"
    "completions_tile it (fr_bars fr) (fr_completions fr) (it_starts_at it) 0
      = Inr (it_ends_at it, int (length (fr_bars fr)))"
    using f(1) check_exact_complete [OF c] by auto
  show "\<exists>cs. completions = Some cs \<and> set (fr_completions fr) = set cs" using p(1) f(4) by simp
qed

section \<open>The completions of a complete fetch tile the range\<close>

definition completion_span :: "range_completion \<Rightarrow> span" where
  "completion_span c = (rc_starts_at c, rc_ends_at c)"

lemma completions_tile_spans:
  assumes "completions_tile it bars cs cursor n = Inr (e, m)" "\<forall>c \<in> set cs. completion_ok c"
  shows "points (map completion_span cs) = span_points (cursor, e)" "cursor \<le> e"
    "m = n + sum_list (map rc_response_count cs)"
proof -
  have "points (map completion_span cs) = span_points (cursor, e) \<and> cursor \<le> e
      \<and> m = n + sum_list (map rc_response_count cs)"
    using assms
  proof (induction cs arbitrary: cursor n)
    case Nil
    then show ?case by (auto simp: span_points_def)
  next
    case (Cons c cs)
    then have "rc_starts_at c = cursor" "cursor < rc_ends_at c"
      "completions_tile it bars cs (rc_ends_at c) (n + rc_response_count c) = Inr (e, m)"
      by (auto simp: Let_def completion_ok_def split: if_splits)
    with Cons.IH [of "rc_ends_at c" "n + rc_response_count c"] Cons.prems(2) show ?case
      by (auto simp: completion_span_def span_points_def)
  qed
  then show "points (map completion_span cs) = span_points (cursor, e)" "cursor \<le> e"
    "m = n + sum_list (map rc_response_count cs)" by auto
qed

section \<open>The receipts of a complete fetch\<close>

lemma receipt_of_completion:
  assumes "completion_ok c"
  shows "HistoryCoverageReceipt contract (VDateTime (utc_datetime (rc_starts_at c)))
      (VDateTime (utc_datetime (rc_ends_at c))) (VInt (rc_response_count c))
      (VDateTime (utc_datetime (rc_completed_at c))) (opt_pyval VInt (rc_provider_limit c)) =
    Inr \<lparr>cr_contract = contract, cr_covered_from = rc_starts_at c, cr_covered_to = rc_ends_at c,
      cr_response_count = rc_response_count c, cr_completed_at = rc_completed_at c,
      cr_provider_limit = rc_provider_limit c\<rparr>"
  using assms
  by (cases "rc_provider_limit c")
    (auto simp: HistoryCoverageReceipt_def completion_ok_def require_aware_utc_datetime_def
      non_negative_count_def positive_version_def opt_pyval_def)

lemma mapM_pure: "\<forall>x \<in> set xs. f x = Inr (g x) \<Longrightarrow> mapM f xs = Inr (map g xs)"
  by (induction xs) auto

lemma coverage_contract_of_intent:
  assumes "intent_named it" "identity_ok (it_identity it)" "ri_resolution (it_identity it) = ResolvedExact"
  shows "\<exists>contract. current_history_coverage_contract (VStr (it_provider it)) (VStr (it_instrument_id it))
        (VStr (it_route_fingerprint it)) (VStr (it_timeframe it)) (VStr (ri_mode (it_identity it)))
        (VStr (provider_request_text (ri_request_type (it_identity it)))) (VStr (ri_source (it_identity it)))
        (VStr (ri_contract_id (it_identity it))) (VStr (ri_contract_type (it_identity it)))
        (VStr (ri_data_type (it_identity it))) = Inr contract"
proof -
  have "it_timeframe it \<noteq> []" using assms(1) by (auto simp: intent_named_def PERSISTED_BAR_INTERVALS_def)
  then show ?thesis using assms
    by (simp add: current_history_coverage_contract_def HistoryCoverageContract_def
      require_exact_identity_text_def positive_version_def intent_named_def identity_ok_def)
qed

lemma complete_receipts_cover:
  assumes "ProviderHistoryFetchResult (Some it) terminal bars (Some completions) code contract_id s e = Inr fr"
    and "fr_terminal fr = TerminalComplete" "list_all completion_built completions"
    and "intent_named it" "identity_ok (it_identity it)"
    and "ri_request_version (it_identity it) = 2" "ri_admission_version (it_identity it) = 2"
  shows "\<exists>rs. coverage_receipts fr = Inr rs
    \<and> sum_list (map cr_response_count rs) = int (length (fr_bars fr))
    \<and> history_coverage_union rs = Inr [(it_starts_at it, it_ends_at it)]"
proof -
  note f = fetch_result_complete [OF assms(1,2)]
  have ok: "\<forall>c \<in> set (fr_completions fr). completion_ok c"
    using f(5) assms(3) completion_built_ok by (auto simp: list_all_iff)
  note tile = completions_tile_spans [OF f(4) ok]
  obtain contract where k: "current_history_coverage_contract (VStr (it_provider it)) (VStr (it_instrument_id it))
        (VStr (it_route_fingerprint it)) (VStr (it_timeframe it)) (VStr (ri_mode (it_identity it)))
        (VStr (provider_request_text (ri_request_type (it_identity it)))) (VStr (ri_source (it_identity it)))
        (VStr (ri_contract_id (it_identity it))) (VStr (ri_contract_type (it_identity it)))
        (VStr (ri_data_type (it_identity it))) = Inr contract"
    using coverage_contract_of_intent [OF assms(4,5) f(2)] by blast
  define receipt :: "range_completion \<Rightarrow> coverage_receipt" where "receipt c = \<lparr>cr_contract = contract, cr_covered_from = rc_starts_at c,
      cr_covered_to = rc_ends_at c, cr_response_count = rc_response_count c,
      cr_completed_at = rc_completed_at c, cr_provider_limit = rc_provider_limit c\<rparr>" for c
  let ?rs = "map receipt (fr_completions fr)"
  have rs: "coverage_receipts fr = Inr ?rs"
    using ok receipt_of_completion f(2) assms(6,7)
    by (simp add: coverage_receipts_def Let_def f(1) k receipt_def mapM_pure)
  have spans: "map receipt_span ?rs = map completion_span (fr_completions fr)"
    by (simp add: receipt_span_def completion_span_def receipt_def)
  have nonempty: "\<forall>p \<in> set (map receipt_span ?rs). fst p < snd p"
    using ok by (auto simp: receipt_span_def receipt_def completion_ok_def)
  have "it_starts_at it < it_ends_at it" using assms(4) by (simp add: intent_named_def)
  moreover have "separated (merge_spans (map receipt_span ?rs))"
    "points (merge_spans (map receipt_span ?rs)) = span_points (it_starts_at it, it_ends_at it)"
    using merge_spans_correct [OF nonempty] tile(1) unfolding spans by auto
  ultimately have "merge_spans (map receipt_span ?rs) = [(it_starts_at it, it_ends_at it)]"
    by (intro separated_unique) (simp_all add: separated_simps del: map_map)
  moreover have "one_contract ?rs" by (auto simp: one_contract_def receipt_def)
  ultimately have "history_coverage_union ?rs = Inr [(it_starts_at it, it_ends_at it)]"
    by (simp add: union_one_contract)
  moreover have "sum_list (map cr_response_count ?rs) = int (length (fr_bars fr))"
    using tile(3) by (simp add: receipt_def comp_def)
  ultimately show ?thesis using rs by blast
qed

text \<open>C35: a complete fetch covers what was asked. Take an intent, an identity and completions as their
  constructors return them, and a result the constructor accepts as complete for that intent. When the
  identity carries the request and admission versions of the coverage contract (both 2), the receipts
  can be made, they account for every returned bar, and their union is exactly the requested range;
  under any other versions no receipt is made and the version mismatch is raised.\<close>

theorem complete_fetch_covers_the_request:
  assumes "ProviderHistoryFetchResult (Some it) terminal bars (Some completions) code contract_id s e = Inr fr"
    and "fr_terminal fr = TerminalComplete" "list_all completion_built completions"
    and "HistoryRepairIntent now now' provider instrument fingerprint timeframe starts_at ends_at identity
      generation priority cooldown target_starts_at target_ends_at = Inr it"
    and "HistoryRequestAdmissionIdentity request_version admission_version mode request_type source contract
      contract_type data_type resolution = Inr (it_identity it)"
  shows "if ri_request_version (it_identity it) = 2 \<and> ri_admission_version (it_identity it) = 2
    then \<exists>rs. coverage_receipts fr = Inr rs
      \<and> sum_list (map cr_response_count rs) = int (length (fr_bars fr))
      \<and> history_coverage_union rs = Inr [(it_starts_at it, it_ends_at it)]
    else coverage_receipts fr = Inl (ValueError ''HISTORY_REPAIR_COVERAGE_CONTRACT_VERSION_MISMATCH'')"
proof -
  note i = intent_constructor_named [OF assms(4)] identity_constructor_ok [OF assms(5)]
  note f = fetch_result_complete(1,2) [OF assms(1,2)]
  have "coverage_receipts fr = Inl (ValueError ''HISTORY_REPAIR_COVERAGE_CONTRACT_VERSION_MISMATCH'')"
    if "\<not> (ri_request_version (it_identity it) = 2 \<and> ri_admission_version (it_identity it) = 2)"
    using that f by (auto simp: coverage_receipts_def Let_def require_def)
  then show ?thesis using complete_receipts_cover [OF assms(1-3) i] by simp
qed

section \<open>A commit is for the current route and generation\<close>

text \<open>A lookup that answers with a row answers with the persisted row, which is the intent's route.\<close>

lemma matches_total: "\<exists>b. instrument_matches_intent inst it = Inr b"
proof (cases "require_provider_identity inst (Some (it_provider it))")
  case (Inl e)
  then show ?thesis by (auto simp: instrument_matches_intent_def)
next
  case (Inr q)
  have "inst = Some q" "require_provider_identity inst None = Inr q"
    using gate_facts(1) [OF Inr] gate_facts(8) [OF Inr] by simp_all
  with Inr show ?thesis
    by (auto simp: instrument_matches_intent_def route_fingerprint_def qualified_instrument_id_def)
qed

lemma lookup_found:
  assumes "lookup_persisted_instrument persisted it = Returned (Some row)"
  shows "persisted = Returned (VDict row)" "instrument_matches_intent (Some row) it = Inr True"
proof -
  obtain d where d: "persisted = Returned (VDict d)"
    "awaited_of (rbind (instrument_matches_intent (Some d) it) (\<lambda>ok.
        if ok then rbind (require_provider_identity (Some d) (Some (it_provider it))) (\<lambda>q. Inr (Some q))
        else Inr None)) = Returned (Some row)"
    using assms by (cases persisted) (auto simp: lookup_persisted_instrument_def split: pyval.splits)
  obtain b where b: "instrument_matches_intent (Some d) it = Inr b" using matches_total by blast
  with d(2) have "b" "require_provider_identity (Some d) (Some (it_provider it)) = Inr row"
    by (cases b; cases "require_provider_identity (Some d) (Some (it_provider it))"; simp)+
  then show "persisted = Returned (VDict row)" "instrument_matches_intent (Some row) it = Inr True"
    using b d(1) gate_facts(1) by auto
qed

definition current_commit ::
  "repair_intent \<Rightarrow> pyfloat \<Rightarrow> history_services \<Rightarrow> service_call list \<Rightarrow> commit_call \<Rightarrow> bool" where
  "current_commit it timeout hs calls c \<longleftrightarrow> (\<exists>row fr.
     hs_lookup_before hs = Returned (VDict row) \<and> instrument_matches_intent (Some row) it = Inr True
     \<and> hs_generation_before hs = it_generation it
     \<and> hs_fetch hs it timeout row = Returned (Some fr) \<and> fr_intent fr = it \<and> fr_terminal fr \<noteq> TerminalMalformed
     \<and> hs_lookup_after hs = Returned (VDict (cm_instrument c))
     \<and> instrument_matches_intent (Some (cm_instrument c)) it = Inr True
     \<and> hs_generation_after hs = it_generation it
     \<and> calls = [FetchCalled it timeout row, CommitCalled c]
     \<and> cm_intent c = it \<and> cm_bars c = fr_bars fr \<and> cm_terminal c = fr_terminal fr
     \<and> (cm_receipts c = [] \<or> fr_terminal fr = TerminalComplete \<and> coverage_receipts fr = Inr (cm_receipts c)))"

lemma settle_result_commit:
  assumes "settle_result snapshot it result hs = (calls, res)" "CommitCalled c \<in> set calls"
  shows "\<exists>fr. result = Some fr \<and> fr_intent fr = it \<and> fr_terminal fr \<noteq> TerminalMalformed
    \<and> (\<exists>row. lookup_persisted_instrument (hs_lookup_after hs) it = Returned (Some row)
      \<and> hs_generation_after hs = it_generation it \<and> calls = [CommitCalled c]
      \<and> c = \<lparr>cm_instrument = row, cm_intent = it, cm_terminal = fr_terminal fr, cm_bars = fr_bars fr,
           cm_receipts = cm_receipts c, cm_error_code = fr_error_code fr\<rparr>
      \<and> (cm_receipts c = [] \<or> snapshot \<and> fr_terminal fr = TerminalComplete
           \<and> coverage_receipts fr = Inr (cm_receipts c)))"
  using assms
  by (cases result) (auto simp: settle_result_def commit_result_def Let_def
    split: awaited.splits option.splits sum.splits if_splits)

text \<open>C34: a repair commits only what it may: a commit is submitted at most once, after the fetch, with the row
  the store holds at that moment; that row is the intent's route, the chart generation is the
  intent's both before and after the fetch, the bars are the fetch's own, and coverage is claimed
  only with the receipts of a complete fetch.\<close>

theorem commit_only_for_the_current_route:
  assumes "execute_history_repair provider exact inst it timeout store_callable commit_callable hs = (calls, res)"
    and "CommitCalled c \<in> set calls"
  shows "current_commit it timeout hs calls c"
proof -
  obtain persisted result calls' where e: "hs_generation_before hs = it_generation it"
    "lookup_persisted_instrument (hs_lookup_before hs) it = Returned (Some persisted)"
    "hs_fetch hs it timeout persisted = Returned result" "calls = FetchCalled it timeout persisted # calls'"
    "settle_result (exact = VBool True) it result hs = (calls', res)"
    using assms
    by (cases "hs_open hs") (auto simp: execute_history_repair_def Let_def
      split: pyval.splits sum.splits awaited.splits option.splits if_splits prod.splits)
  have "CommitCalled c \<in> set calls'" using assms(2) e(4) by simp
  note s = settle_result_commit [OF e(5) this]
  then obtain fr row where s: "result = Some fr" "fr_intent fr = it" "fr_terminal fr \<noteq> TerminalMalformed"
    "lookup_persisted_instrument (hs_lookup_after hs) it = Returned (Some row)"
    "hs_generation_after hs = it_generation it" "calls' = [CommitCalled c]"
    "c = \<lparr>cm_instrument = row, cm_intent = it, cm_terminal = fr_terminal fr, cm_bars = fr_bars fr,
           cm_receipts = cm_receipts c, cm_error_code = fr_error_code fr\<rparr>"
    "cm_receipts c = [] \<or> fr_terminal fr = TerminalComplete \<and> coverage_receipts fr = Inr (cm_receipts c)"
    by blast
  have c: "cm_instrument c = row" "cm_intent c = it" "cm_terminal c = fr_terminal fr" "cm_bars c = fr_bars fr"
    by (subst s(7), simp)+
  show ?thesis
    unfolding current_commit_def
    using e s(1-6,8) c lookup_found [OF e(2)] lookup_found [OF s(4)] by auto
qed

section \<open>Every repair reports\<close>

definition bounds_ok :: "instant option \<Rightarrow> instant option \<Rightarrow> bool" where
  "bounds_ok s e \<longleftrightarrow> (s = None \<longleftrightarrow> e = None)
     \<and> (\<forall>a b. s = Some a \<longrightarrow> e = Some b \<longrightarrow> in_dt_range a \<and> in_dt_range b \<and> a < b)"

lemma response_bounds_ok: "response_bounds a b = Inr (s, e) \<Longrightarrow> bounds_ok s e"
  by (auto simp: response_bounds_def bounds_ok_def res_simps require_aware_in_range split: if_splits)

lemma terminal_of_text [simp]: "terminal_of (VStr (terminal_text t)) = Some t"
  by (cases t) (simp_all add: terminal_of_def enum_member_def first_where_def)

lemma outcome_of_text [simp]: "outcome_of (VStr (outcome_text st)) = Some st"
  by (cases st) (simp_all add: outcome_of_def enum_member_def first_where_def)

lemma outcome_bounds_exact:
  "bounds_ok s e \<Longrightarrow> outcome_bounds (opt_pyval (\<lambda>t. VDateTime (utc_datetime t)) s)
    (opt_pyval (\<lambda>t. VDateTime (utc_datetime t)) e) = Inr (s, e)"
  by (cases s; cases e)
    (auto simp: bounds_ok_def outcome_bounds_def opt_pyval_def require_aware_utc_datetime_def)

lemma lane_outcome_exact:
  assumes "bounds_ok s e" "\<forall>g. generation = Some g \<longrightarrow> 0 \<le> g"
  shows "lane_outcome status it terminal generation code s e =
    Inr \<lparr>oc_status = status, oc_intent = it, oc_terminal = terminal, oc_written_bars = 0, oc_deleted_bars = 0,
      oc_coverage_inserted = 0, oc_coverage_expanded = False, oc_generation = generation, oc_error_code = code,
      oc_response_starts_at = s, oc_response_ends_at = e\<rparr>"
  using assms outcome_bounds_exact [OF assms(1)]
  by (cases terminal; cases generation)
    (simp_all add: lane_outcome_def HistoryRepairOutcome_def opt_pyval_def outcome_count_def)

definition reports :: "repair_intent \<Rightarrow> history_services \<Rightarrow> service_call list \<Rightarrow> repair_outcome awaited \<Rightarrow> bool" where
  "reports it hs calls res \<longleftrightarrow> res = Cancelled \<or> (\<exists>oc. res = Returned oc \<and> oc_intent oc = it
     \<and> (repair_progressed oc \<longrightarrow> (\<exists>c committed. CommitCalled c \<in> set calls
          \<and> hs_commit hs c = Returned (Some committed) \<and> oc_intent committed = it
          \<and> oc_status committed = oc_status oc \<and> oc_written_bars committed = oc_written_bars oc
          \<and> oc_deleted_bars committed = oc_deleted_bars oc)))"

lemma reports_cancelled: "reports it hs calls Cancelled"
  by (simp add: reports_def)

lemma reports_lane_outcome:
  assumes "bounds_ok s e" "\<forall>g. generation = Some g \<longrightarrow> 0 \<le> g" "status \<noteq> OcCommitted"
  shows "reports it hs calls (awaited_of (lane_outcome status it terminal generation code s e))"
  using assms by (simp add: reports_def lane_outcome_exact repair_progressed_def)

lemma bounds_ok_None [simp]: "bounds_ok None None"
  by (simp add: bounds_ok_def)

lemma with_response_bounds_Inr:
  assumes "with_response_bounds s e oc = Inr oc'"
  shows "oc_intent oc' = oc_intent oc" "oc_status oc' = oc_status oc" "oc_written_bars oc' = oc_written_bars oc"
    "oc_deleted_bars oc' = oc_deleted_bars oc" "oc_coverage_expanded oc' = oc_coverage_expanded oc"
  using assms by (auto simp: with_response_bounds_def HistoryRepairOutcome_def res_simps outcome_count_def
    split: if_splits option.splits)

lemma commit_result_reports:
  assumes "bounds_ok (fr_response_starts_at fr) (fr_response_ends_at fr)"
    and "commit_result it fr row receipts hs = (calls, res)"
  shows "reports it hs calls res"
proof -
  have failed: "reports it hs calls (awaited_of (lane_outcome OcCommitFailed it t None code
      (fr_response_starts_at fr) (fr_response_ends_at fr)))" for t code
    using assms(1) by (intro reports_lane_outcome) simp_all
  define c where "c = \<lparr>cm_instrument = row, cm_intent = it, cm_terminal = fr_terminal fr, cm_bars = fr_bars fr,
       cm_receipts = receipts, cm_error_code = fr_error_code fr\<rparr>"
  show ?thesis
  proof (cases "hs_commit hs c")
    case (Returned oc)
    show ?thesis
    proof (cases "\<exists>o0 oc'. oc = Some o0 \<and> oc_intent o0 = it
        \<and> with_response_bounds (fr_response_starts_at fr) (fr_response_ends_at fr) o0 = Inr oc'")
      case True
      then obtain o0 oc' where o: "oc = Some o0" "oc_intent o0 = it"
        "with_response_bounds (fr_response_starts_at fr) (fr_response_ends_at fr) o0 = Inr oc'" by blast
      then have "calls = [CommitCalled c]" "res = Returned oc'"
        using assms(2) Returned by (simp_all add: commit_result_def Let_def c_def)
      then show ?thesis
        using o Returned with_response_bounds_Inr [OF o(3)] by (auto simp: reports_def)
    next
      case False
      then have "\<exists>t code. res = awaited_of (lane_outcome OcCommitFailed it t None code
          (fr_response_starts_at fr) (fr_response_ends_at fr))"
        using assms(2) Returned
        by (auto simp: commit_result_def Let_def c_def split: option.splits sum.splits if_splits)
      then show ?thesis using failed by blast
    qed
  next
    case (Raised e)
    then show ?thesis using assms(2) failed by (auto simp: commit_result_def Let_def c_def)
  next
    case Cancelled
    then show ?thesis using assms(2) by (auto simp: commit_result_def Let_def c_def reports_cancelled)
  qed
qed

lemma settle_result_reports:
  assumes "\<forall>fr. result = Some fr \<longrightarrow> bounds_ok (fr_response_starts_at fr) (fr_response_ends_at fr)"
    and "0 \<le> hs_generation_after hs" "settle_result snapshot it result hs = (calls, res)"
  shows "reports it hs calls res"
proof (cases result)
  case None
  then show ?thesis using assms(3) by (auto simp: settle_result_def intro!: reports_lane_outcome)
next
  case (Some fr)
  then have b: "bounds_ok (fr_response_starts_at fr) (fr_response_ends_at fr)" using assms(1) by simp
  show ?thesis
    using assms(2,3) b unfolding settle_result_def Some Let_def option.case
    by (auto split: awaited.splits option.splits sum.splits if_splits
      intro!: reports_lane_outcome reports_cancelled intro: commit_result_reports)
qed

lemma reports_more_calls: "reports it hs calls res \<Longrightarrow> reports it hs (c # calls) res"
  by (auto simp: reports_def)

text \<open>A repair always reports: for a boolean snapshot flag, non-negative generations and fetch results the
  constructor accepted, the coroutine never raises; unless it is cancelled it returns an outcome of
  its own request, and an outcome that claims progress repeats what a submitted commit returned.\<close>

theorem repair_always_reports:
  assumes "0 \<le> hs_generation_before hs" "0 \<le> hs_generation_after hs"
    and "\<forall>row fr. hs_fetch hs it timeout row = Returned (Some fr) \<longrightarrow>
      bounds_ok (fr_response_starts_at fr) (fr_response_ends_at fr)"
    and "execute_history_repair provider (VBool snapshot) inst it timeout store_callable commit_callable hs
      = (calls, res)"
  shows "reports it hs calls res"
proof -
  obtain matches where m: "(if provider \<noteq> it_provider it then Inr False else instrument_matches_intent inst it)
      = Inr matches"
    using matches_total by (cases "provider = it_provider it") auto
  have settled: "reports it hs (x # calls') r"
    if "hs_fetch hs it timeout row = Returned result" "settle_result snapshot it result hs = (calls', r)"
    for x row result calls' r
    using that assms(2,3) by (intro reports_more_calls settle_result_reports) auto
  show ?thesis
    using assms(1,4) unfolding execute_history_repair_def Let_def m
    by (auto split: awaited.splits option.splits if_splits prod.splits
      intro!: reports_lane_outcome reports_cancelled intro: settled)
qed

section \<open>Examples\<close>

definition example_intent :: repair_intent where
  "example_intent = \<lparr>it_provider = ''ibkr'', it_instrument_id = ''ibkr|contract|42'',
     it_route_fingerprint = ''ibkr|contract|42'', it_timeframe = ''1m'', it_starts_at = 60000000,
     it_ends_at = 180000000, it_identity = example_identity, it_generation = 3, it_priority = FOREGROUND,
     it_cooldown = Fin 30, it_target_starts_at = 0, it_target_ends_at = 180000000\<rparr>"

definition example_fetched_bar :: bar where
  "example_fetched_bar = (example_history_bar 2)\<lparr>bar_provenance := Some \<lparr>bp_provider = ''ibkr'',
     bp_instrument_id = ''ibkr|contract|42'', bp_route_fingerprint = ''ibkr|contract|42'',
     bp_request_type = HISTORICAL, bp_provider_contract_id = ''42'', bp_provider_contract_type = ''STK'',
     bp_data_type = ''TRADES'', bp_source_timeframe = None\<rparr>\<rparr>"

definition example_completion :: "instant \<Rightarrow> instant \<Rightarrow> int \<Rightarrow> range_completion" where
  "example_completion s e n = \<lparr>rc_starts_at = s, rc_ends_at = e, rc_response_count = n, rc_completed_at = 200000000,
     rc_source = ''ibkr'', rc_request_limit = None, rc_provider_limit = Some 10\<rparr>"

definition example_completions :: "range_completion list" where
  "example_completions = [example_completion 60000000 120000000 0, example_completion 120000000 180000000 1]"

definition example_fetch_result :: fetch_result where
  "example_fetch_result = \<lparr>fr_intent = example_intent, fr_terminal = TerminalComplete,
     fr_bars = [example_fetched_bar], fr_completions = example_completions, fr_error_code = VNone,
     fr_resolved_contract_id = None, fr_response_starts_at = None, fr_response_ends_at = None\<rparr>"

lemma example_intent_ok: "intent_ok example_intent" "identity_ok (it_identity example_intent)"
  by (simp_all add: intent_ok_def identity_ok_def example_intent_def example_identity_def exact_epoch_def
    minute_seconds us_per_second_def PERSISTED_BAR_INTERVALS_def)

lemma example_on_grid: "\<not> off_grid 60 60000000 120000000" "\<not> off_grid 60 120000000 180000000"
  by (simp_all add: off_grid_iff exact_epoch_def us_per_second_def)

lemma example_bar_admitted: "\<not> foreign_bar example_intent (Some ''42'') example_fetched_bar"
  by (simp add: foreign_bar_def example_intent_def example_fetched_bar_def example_history_bar_def
    example_identity_def)

lemma example_completions_tile:
  "completions_tile example_intent [example_fetched_bar] example_completions 60000000 0 = Inr (180000000, 1)"
  using example_on_grid
  by (simp add: example_completions_def example_completion_def Let_def minute_seconds example_intent_def
      example_identity_def)
    (simp add: example_fetched_bar_def example_history_bar_def)

lemma example_fetch:
  "ProviderHistoryFetchResult (Some example_intent) (VStr (terminal_text TerminalComplete))
    (Some [example_fetched_bar]) (Some (rev example_completions)) VNone VNone VNone VNone = Inr example_fetch_result"
proof -
  have sorted: "sort_key (\<lambda>c. (rc_starts_at c, rc_ends_at c)) (rev example_completions) = example_completions"
    by (simp add: example_completions_def example_completion_def)
  have i: "ri_resolution (it_identity example_intent) = ResolvedExact"
    "ri_contract_id (it_identity example_intent) = ''42''"
    "it_starts_at example_intent = 60000000" "it_ends_at example_intent = 180000000"
    by (simp_all add: example_intent_def example_identity_def)
  have "check_exact example_intent TerminalComplete [example_fetched_bar] example_completions VNone (None, None) = Inr ()"
    by (simp add: check_exact_def i example_completions_tile) (simp add: example_completions_def)
  then show ?thesis
    by (simp del: terminal_text.simps add: ProviderHistoryFetchResult_def Let_def sorted i example_bar_admitted
      response_bounds_def example_fetch_result_def)
qed

lemma example_completion_built:
  "0 \<le> s \<Longrightarrow> s < e \<Longrightarrow> e \<le> 200000000 \<Longrightarrow> 0 \<le> n \<Longrightarrow> n < 10 \<Longrightarrow> completion_built (example_completion s e n)"
  unfolding completion_built_def example_completion_def
  by (rule exI [of _ "VDateTime (utc_datetime s)"], rule exI [of _ "VDateTime (utc_datetime e)"],
      rule exI [of _ "VInt n"], rule exI [of _ "VDateTime (utc_datetime 200000000)"],
      rule exI [of _ "VStr ''ibkr''"], rule exI [of _ VNone], rule exI [of _ "VInt 10"])
    (simp add: HistoryRangeCompletion_def require_aware_utc_datetime_def in_dt_range_def dt_min_def dt_max_def
      exact_history_text_def nonempty_text_def completion_limit_def saturated_def require_def)

lemma example_identity_built:
  "HistoryRequestAdmissionIdentity (VInt 2) (VInt 2) (VStr ''historical'') (VStr (provider_request_text HISTORICAL))
    (VStr ''ibkr'') (VStr ''42'') (VStr ''STK'') (VStr ''TRADES'') (VStr (resolution_text ResolvedExact))
    = Inr (it_identity example_intent)"
  by code_simp

theorem complete_fetch_covers_the_request_witness:
  "\<exists>rs. coverage_receipts example_fetch_result = Inr rs
    \<and> sum_list (map cr_response_count rs) = 1 \<and> history_coverage_union rs = Inr [(60000000, 180000000)]"
proof -
  have c: "list_all completion_built (rev example_completions)"
    by (simp add: example_completions_def example_completion_built)
  have t: "fr_terminal example_fetch_result = TerminalComplete" by (simp add: example_fetch_result_def)
  have i: "rebuild_intent 180000000 180000000 example_intent = Inr example_intent"
    by (rule rebuild_intent_ok [OF example_intent_ok(1)]) (simp_all add: example_intent_def)
  from complete_fetch_covers_the_request [OF example_fetch t c i [unfolded rebuild_intent_def] example_identity_built]
  show ?thesis by (simp add: example_fetch_result_def example_intent_def example_identity_def)
qed

definition example_commit_outcome :: repair_outcome where
  "example_commit_outcome = \<lparr>oc_status = OcCommitted, oc_intent = example_intent,
     oc_terminal = Some TerminalComplete, oc_written_bars = 1, oc_deleted_bars = 0, oc_coverage_inserted = 2,
     oc_coverage_expanded = True, oc_generation = Some 4, oc_error_code = VNone,
     oc_response_starts_at = None, oc_response_ends_at = None\<rparr>"

definition example_services :: history_services where
  "example_services = \<lparr>hs_open = Returned (), hs_lookup_before = Returned (VDict (example_contract_row ''AAPL'')),
     hs_generation_before = 3, hs_fetch = (\<lambda>_ _ _. Returned (Some (example_fetch_result\<lparr>fr_terminal := TerminalIncomplete\<rparr>))),
     hs_lookup_after = Returned (VDict (example_contract_row ''AAPL'')), hs_generation_after = 3,
     hs_commit = (\<lambda>_. Returned (Some example_commit_outcome))\<rparr>"

lemma example_row_admitted:
  "require_provider_identity (Some (example_contract_row ''AAPL'')) (Some ''ibkr'') = Inr (example_contract_row ''AAPL'')"
  by (simp add: require_provider_identity_def example_contract_row_def row_eval token_eval
      require_matching_field_def require_expected_provider_def require_contract_identity_def
      expected_instrument_id_def require_exact_identity_text_def)

lemma example_row_matches:
  "instrument_matches_intent (Some (example_contract_row ''AAPL'')) example_intent = Inr True"
  by (simp add: instrument_matches_intent_def example_intent_def example_row_admitted example_contract_fingerprint)
    (simp add: example_contract_row_def row_eval)

definition example_commit_call :: commit_call where
  "example_commit_call = \<lparr>cm_instrument = example_contract_row ''AAPL'', cm_intent = example_intent,
     cm_terminal = TerminalIncomplete, cm_bars = [example_fetched_bar], cm_receipts = [], cm_error_code = VNone\<rparr>"

lemma example_run:
  "execute_history_repair ''ibkr'' (VBool True) (Some (example_contract_row ''AAPL'')) example_intent (Fin 5) True True
      example_services =
    ([FetchCalled example_intent (Fin 5) (example_contract_row ''AAPL''), CommitCalled example_commit_call],
     Returned example_commit_outcome)"
proof -
  have look: "lookup_persisted_instrument (Returned (VDict (example_contract_row ''AAPL''))) example_intent
      = Returned (Some (example_contract_row ''AAPL''))"
    using example_row_admitted
    by (simp add: lookup_persisted_instrument_def example_row_matches) (simp add: example_intent_def)
  have bounds: "with_response_bounds None None example_commit_outcome = Inr example_commit_outcome"
    by (simp add: with_response_bounds_def HistoryRepairOutcome_def example_commit_outcome_def opt_pyval_def
      outcome_count_def outcome_bounds_def del: outcome_text.simps terminal_text.simps)
  have i: "it_provider example_intent = ''ibkr''" "it_generation example_intent = 3"
    by (simp_all add: example_intent_def)
  have o: "oc_intent example_commit_outcome = example_intent" by (simp add: example_commit_outcome_def)
  show ?thesis
    by (simp add: execute_history_repair_def settle_result_def commit_result_def Let_def example_services_def
      example_fetch_result_def look i example_row_matches bounds o example_commit_call_def)
qed

theorem commit_only_for_the_current_route_witness:
  "current_commit example_intent (Fin 5) example_services
    [FetchCalled example_intent (Fin 5) (example_contract_row ''AAPL''), CommitCalled example_commit_call]
    example_commit_call"
  by (rule commit_only_for_the_current_route [OF example_run]) simp

theorem repair_always_reports_witness:
  "reports example_intent example_services
    [FetchCalled example_intent (Fin 5) (example_contract_row ''AAPL''), CommitCalled example_commit_call]
    (Returned example_commit_outcome)"
  by (rule repair_always_reports [OF _ _ _ example_run])
    (simp_all add: example_services_def example_fetch_result_def)

end
