(* ===== verification/RepairDrain.thy ===== *)
theory RepairDrain
  imports RepairLaneEnd RepairRunLaws
begin

text \<open>
  Runs of the repair lane and what holds of all of them: one task per provider, bounded queues, every
  accepted callback called exactly once, and a lane that empties once nothing is scheduled.
\<close>

section \<open>Steps and runs\<close>

text \<open>
  A step with the callback it accepts and the calls it makes: an admission of a well-formed intent, the
  end of a live task, a read of an outcome.
\<close>

inductive lane_step :: "('h, 'c) lane \<Rightarrow> 'c multiset \<Rightarrow> 'c completion_calls \<Rightarrow> ('h, 'c) lane \<Rightarrow> bool" where
  scheduled: "intent_ok it
    \<Longrightarrow> schedule running_loop now provider exact inst it timeout fetch commit store_factory cb st = Inr (a, calls, st')
    \<Longrightarrow> lane_step st (if ad_subscribed a then {#the cb#} else {#}) calls st'"
| ended: "dget (ln_tasks st) key = Some t \<Longrightarrow> \<not> tk_done t \<Longrightarrow> end_env utc utc' t result
    \<Longrightarrow> run_request_end utc utc' now t result st = Inr (calls, st') \<Longrightarrow> lane_step st {#} calls st'"
| read: "latest_outcome intent st = Inr (oc, st') \<Longrightarrow> lane_step st {#} [] st'"

text \<open>A task cancelled before its first step is done without having run its last block.\<close>

inductive lane_kill :: "('h, 'c) lane \<Rightarrow> ('h, 'c) lane \<Rightarrow> bool" where
  killed: "dget (ln_tasks st) key = Some t \<Longrightarrow> \<not> tk_done t
    \<Longrightarrow> lane_kill st (st\<lparr>ln_tasks := dset key (t\<lparr>tk_done := True\<rparr>) (ln_tasks st)\<rparr>)"

text \<open>A run: whether a task was killed, the accepted callbacks, the calls made, the state.\<close>

inductive lane_run :: "bool \<Rightarrow> 'c multiset \<Rightarrow> 'c completion_calls \<Rightarrow> ('h, 'c) lane \<Rightarrow> bool" where
  run_start: "lane_run False {#} [] HistoryRepairOrchestrator"
| run_step: "lane_run kills subs calls st \<Longrightarrow> lane_step st new made st'
    \<Longrightarrow> lane_run kills (subs + new) (calls @ made) st'"
| run_kill: "lane_run kills subs calls st \<Longrightarrow> lane_kill st st' \<Longrightarrow> lane_run True subs calls st'"

inductive_cases lane_step_cases: "lane_step st new made st'"
inductive_cases lane_kill_cases: "lane_kill st st'"

section \<open>Admissions of a quiet lane\<close>

lemma filter_live:
  assumes "dict_ok tasks" "\<forall>k t. dget tasks k = Some t \<longrightarrow> \<not> tk_done t"
  shows "filter (\<lambda>(k, t). \<not> tk_done t) tasks = tasks"
  using assms by (auto simp: filter_id_conv dest: in_set_dget)

lemma quiet_purged:
  assumes "quiet st" "lane_ok st"
  shows "ln_tasks (purged now it st) = ln_tasks st"
  using assms filter_live [of "ln_tasks st"] by (simp add: quiet_def lane_ok_def tasks_ok_def)

lemma quiet_fields:
  assumes "quiet st" "ln_tasks st' = ln_tasks st" "ln_pending st' = ln_pending st" "ln_callbacks st' = ln_callbacks st"
  shows "quiet st'"
  using assms by (simp add: quiet_def queued_def awaits_def)

lemma quiet_served: "quiet st \<Longrightarrow> dhas (ln_pending st) p \<Longrightarrow> \<exists>k. dhas (ln_tasks st) k \<and> key_provider k = p"
  and quiet_live: "quiet st \<Longrightarrow> \<forall>k t. dget (ln_tasks st) k = Some t \<longrightarrow> \<not> tk_done t"
  and quiet_awaits: "quiet st \<Longrightarrow> awaits st k \<Longrightarrow> dhas (ln_tasks st) k \<or> queued st k"
  unfolding quiet_def by blast+

lemma quietI:
  assumes "\<And>k t. dget (ln_tasks st) k = Some t \<Longrightarrow> \<not> tk_done t"
    and "\<And>p. dhas (ln_pending st) p \<Longrightarrow> \<exists>k. dhas (ln_tasks st) k \<and> key_provider k = p"
    and "\<And>k. awaits st k \<Longrightarrow> dhas (ln_tasks st) k \<or> queued st k"
  shows "quiet st"
  using assms unfolding quiet_def by blast

lemma quiet_more_callbacks:
  assumes "quiet st" "ln_tasks st' = ln_tasks st" "ln_pending st' = ln_pending st"
    and "\<And>k. awaits st' k \<Longrightarrow> dhas (ln_tasks st) k \<or> awaits st k"
  shows "quiet st'"
proof (rule quietI)
  fix k assume "awaits st' k"
  then have "dhas (ln_tasks st) k \<or> queued st k" using assms(4) quiet_awaits [OF assms(1)] by blast
  then show "dhas (ln_tasks st') k \<or> queued st' k" by (simp add: queued_def assms(2,3))
qed (unfold assms(2,3), (use quiet_live [OF assms(1)] quiet_served [OF assms(1)] in blast)+)

lemma quiet_started:
  assumes "quiet st" "ln_tasks st' = dset key t (ln_tasks st)" "\<not> tk_done t" "ln_pending st' = ln_pending st"
    and "\<And>k. awaits st' k \<Longrightarrow> k = key \<or> awaits st k"
  shows "quiet st'"
proof (rule quietI)
  fix k t' assume "dget (ln_tasks st') k = Some t'"
  then show "\<not> tk_done t'" using quiet_live [OF assms(1)] assms(2,3) by (auto split: if_splits)
next
  fix p assume "dhas (ln_pending st') p"
  then obtain k where "dhas (ln_tasks st) k" "key_provider k = p" using quiet_served [OF assms(1)] assms(4) by auto
  then show "\<exists>k. dhas (ln_tasks st') k \<and> key_provider k = p" using assms(2) by auto
next
  fix k assume "awaits st' k"
  then have "k = key \<or> dhas (ln_tasks st) k \<or> queued st k" using assms(5) quiet_awaits [OF assms(1)] by blast
  then show "dhas (ln_tasks st') k \<or> queued st' k" by (auto simp: queued_def assms(2,4))
qed

lemma active_provider:
  "list_ex (\<lambda>(k, t). key_provider k = p) tasks \<Longrightarrow> \<exists>k. dhas tasks k \<and> key_provider k = p"
  by (force simp: list_ex_iff dhas_in_dkeys dkeys_def)

text \<open>A lane whose queue of one provider is replaced and whose callbacks are for tasks or queues stays quiet.\<close>

lemma quiet_new_queue:
  assumes "quiet st" "ln_tasks st' = ln_tasks st" "ln_pending st' = dset p q (ln_pending st)"
    and "\<exists>k. dhas (ln_tasks st) k \<and> key_provider k = p"
    and "\<And>k. awaits st' k \<Longrightarrow> dhas q k \<and> key_provider k = p \<or> awaits st k \<and> (key_provider k = p \<longrightarrow> queued st k \<longrightarrow> dhas q k)"
  shows "quiet st'"
proof -
  have "dhas (ln_tasks st') k \<or> queued st' k" if "awaits st' k" for k
  proof (cases "dhas q k \<and> key_provider k = p")
    case True
    then show ?thesis by (simp add: queued_def assms(3))
  next
    case False
    then have a: "awaits st k" "key_provider k = p \<longrightarrow> queued st k \<longrightarrow> dhas q k" using assms(5) [OF that] by auto
    then have "dhas (ln_tasks st) k \<or> queued st k" using quiet_awaits [OF assms(1)] by blast
    with a(2) show ?thesis by (auto simp: assms(2,3) queued_def)
  qed
  moreover have "\<exists>k. dhas (ln_tasks st') k \<and> key_provider k = p'" if "dhas (ln_pending st') p'" for p'
  proof (cases "p' = p")
    case True
    then show ?thesis using assms(2,4) by simp
  next
    case False
    then have "dhas (ln_pending st) p'" using that assms(3) by simp
    then show ?thesis unfolding assms(2) by (rule quiet_served [OF assms(1)])
  qed
  moreover have "\<forall>k t. dget (ln_tasks st') k = Some t \<longrightarrow> \<not> tk_done t" unfolding assms(2) by (rule quiet_live [OF assms(1)])
  ultimately show ?thesis unfolding quiet_def by blast
qed

theorem admit_keeps_quiet:
  assumes "admit_request now rq cb st = Inr (a, calls, st')" "lane_ok st" "request_ok rq" "quiet st"
  shows "quiet st'"
proof -
  let ?p = "it_provider (rq_intent rq)" and ?st = "purged now (rq_intent rq) st"
  let ?q = "dget_default (ln_pending ?st) ?p []"
  have kp: "key_provider (rq_key rq) = ?p" using request_ok_provider [OF assms(3)] .
  have ok: "lane_ok ?st" using purged_lane_ok(1) assms(2) .
  have pd: "pending_ok (ln_pending ?st)" and cb_ok: "callbacks_ok (ln_callbacks ?st)" using ok by (simp_all add: lane_ok_def)
  have qt: "quiet ?st" using quiet_fields [OF assms(4)] quiet_purged [OF assms(4,2)] by simp
  from assms(1) show ?thesis
  proof (cases rule: admit_cases)
    case rejected
    then show ?thesis using qt quiet_fields [OF assms(4), of "purge_awaiting (rq_intent rq) st"] by auto
  next
    case running
    note f = subscribe_fields [OF running(2)] and c = subscribe_callbacks(3) [OF running(2) cb_ok]
    show ?thesis by (rule quiet_more_callbacks [OF qt f(1,3)]) (use c running(1) in blast)
  next
    case (queued existing)
    have some: "dget (ln_pending ?st) ?p = Some ?q"
      using queued(1) by (cases "dget (ln_pending ?st) ?p") (auto simp: dget_default_None dget_default_Some dget_def)
    then have "queue_ok ?p ?q" using pd by (simp add: pending_ok_def)
    note u = update_pending_queue(2) [OF this queued(1) assms(3) refl]
    note f = subscribe_fields [OF queued(4)]
    have c: "awaits st' k \<Longrightarrow> k = rq_key rq \<or> awaits ?st k" for k
      using subscribe_callbacks(3) [OF queued(4), of k] cb_ok by (simp add: awaits_def)
    have "\<exists>k. dhas (ln_tasks ?st) k \<and> key_provider k = ?p" using quiet_served [OF qt, of ?p] some by (simp add: dhas_iff)
    then show ?thesis
      using f(1,3) c u queued(1) kp
      by (intro quiet_new_queue [OF qt, of _ ?p "update_pending existing rq ?q"])
        (auto simp: queued_def dhas_iff)
  next
    case (evicting victim evicted superseded st3)
    note f = enqueue_fields [OF evicting(8)] and t = take_callbacks_fields [OF evicting(7)]
    have cb3: "callbacks_ok (ln_callbacks st3)" using take_callbacks_waiting(1) [OF evicting(7)] cb_ok by simp
    have c: "awaits st' k \<Longrightarrow> k = rq_key rq \<or> k \<noteq> victim \<and> awaits ?st k" for k
      using enqueue_callbacks(3) [OF evicting(8) cb3, of k] t(7) [of k] by (auto simp: awaits_def)
    have "dict_ok (dset (rq_key rq) rq (dpop victim ?q))" using queue_dict(1) [OF pd] by simp
    then have h: "dhas (prioritize_pending (dset (rq_key rq) rq (dpop victim ?q))) k \<longleftrightarrow>
        k = rq_key rq \<or> k \<noteq> victim \<and> dhas ?q k" for k
      by (auto simp: dhas_iff)
    show ?thesis
      using f(1,3) t(1,3) c h active_provider [OF evicting(5)] kp
      by (intro quiet_new_queue [OF qt, of _ ?p "prioritize_pending (dset (rq_key rq) rq (dpop victim ?q))"])
        (auto simp: queued_def)
  next
    case enqueued
    note f = enqueue_fields [OF enqueued(6)]
    have c: "awaits st' k \<Longrightarrow> k = rq_key rq \<or> awaits ?st k" for k
      using enqueue_callbacks(3) [OF enqueued(6) cb_ok, of k] .
    have "dict_ok (dset (rq_key rq) rq ?q)" using queue_dict(1) [OF pd] by simp
    then have h: "dhas (prioritize_pending (dset (rq_key rq) rq ?q)) k \<longleftrightarrow> k = rq_key rq \<or> dhas ?q k" for k
      by (auto simp: dhas_iff)
    show ?thesis
      using f(1,3) c h active_provider [OF enqueued(5)] kp
      by (intro quiet_new_queue [OF qt, of _ ?p "prioritize_pending (dset (rq_key rq) rq ?q)"])
        (auto simp: queued_def)
  next
    case (started st3)
    note f = subscribe_fields [OF started(4)]
    have c: "awaits st' k \<Longrightarrow> k = rq_key rq \<or> awaits ?st k" for k
      using subscribe_callbacks(3) [OF started(4) cb_ok, of k] by (simp add: started(6) start_task_def awaits_def)
    show ?thesis
      by (rule quiet_started [OF qt, of st' "rq_key rq" "\<lparr>tk_id = ln_created st3, tk_request = rq, tk_done = False\<rparr>"])
        (use f c in \<open>simp_all add: started(6) start_task_def\<close>)
  qed
qed

section \<open>Every step keeps the invariant\<close>

lemma checked_request_ok:
  assumes "checked_request running_loop provider exact inst it timeout fetch commit store_factory = Inr rq" "intent_ok it"
  shows "request_ok rq" "rq_intent rq = it" "it_provider it = provider"
    "instrument_matches_intent (rq_instrument rq) it = Inr True"
proof -
  have "request_ok rq \<and> rq_intent rq = it \<and> it_provider it = provider
      \<and> instrument_matches_intent (rq_instrument rq) it = Inr True"
    using assms by (auto simp: checked_request_def res_simps request_ok_def split: pyval.splits option.splits if_splits)
  then show "request_ok rq" "rq_intent rq = it" "it_provider it = provider"
    "instrument_matches_intent (rq_instrument rq) it = Inr True" by auto
qed

lemma read_keeps:
  assumes "latest_outcome intent st = Inr (oc, st')"
  shows "ln_tasks st' = ln_tasks st" "ln_created st' = ln_created st" "ln_pending st' = ln_pending st"
    "ln_callbacks st' = ln_callbacks st" "outcomes_ok (ln_outcomes st) \<Longrightarrow> outcomes_ok (ln_outcomes st')"
proof -
  show "ln_tasks st' = ln_tasks st" "ln_created st' = ln_created st" "ln_pending st' = ln_pending st"
    "ln_callbacks st' = ln_callbacks st"
    using assms by (auto simp: latest_outcome_def split: option.splits)
  assume ok: "outcomes_ok (ln_outcomes st)"
  show "outcomes_ok (ln_outcomes st')"
  proof (cases "intent = None \<or> dget (ln_outcomes st) (repair_key (the intent)) = None")
    case True
    then show ?thesis using assms ok by (auto simp: latest_outcome_def split: option.splits)
  next
    case False
    then obtain it old where i: "intent = Some it" "dget (ln_outcomes st) (repair_key it) = Some old" by auto
    have "length (dset (repair_key it) old (dpop (repair_key it) (ln_outcomes st))) \<le> length (ln_outcomes st)"
      using i(2) ok dpop_length [of "ln_outcomes st" "repair_key it"] by (simp add: dset_length outcomes_ok_def dhas_iff)
    then have "length (dset (repair_key it) old (dpop (repair_key it) (ln_outcomes st))) \<le> MAX_RETAINED_HISTORY_REPAIR_OUTCOMES"
      using ok by (simp add: outcomes_ok_def)
    then show ?thesis
      using assms ok i by (auto simp: latest_outcome_def outcomes_ok_def split: if_splits)
  qed
qed

lemma lane_step_keeps:
  assumes "lane_step st new made st'" "lane_ok st"
  shows "lane_ok st' \<and> waiting st + new = mset (map fst made) + waiting st' \<and> (quiet st \<longrightarrow> quiet st')"
  using assms(1)
proof (cases rule: lane_step.cases)
  case (scheduled it running_loop now provider exact inst timeout fetch commit store_factory cb a)
  obtain rq where rq: "checked_request running_loop provider exact inst it timeout fetch commit store_factory = Inr rq"
    "admit_request now rq cb st = Inr (a, made, st')"
    using scheduled(3) by (auto simp: schedule_def res_simps)
  note c = checked_request_ok [OF rq(1) scheduled(2)]
  show ?thesis
    using admit_keeps_lane_ok [OF rq(2) assms(2) c(1)] admit_accounts [OF rq(2) assms(2)]
      admit_keeps_quiet [OF rq(2) assms(2) c(1)] scheduled(1) by auto
next
  case (ended key t utc utc' result now)
  have "end_keeps st (run_request_end utc utc' now t result st)"
    using cancelled_end_keeps [OF assms(2) ended(2)] completed_end_keeps [OF assms(2) ended(2) _ ended(4)]
    by (cases "result = Cancelled") auto
  with ended(1,5) show ?thesis by (auto simp: end_keeps_def)
next
  case (read intent oc)
  note r = read_keeps [OF read(3)]
  have "lane_ok st'" using assms(2) r by (simp add: lane_ok_def)
  moreover have "waiting st' = waiting st" using r(4) by (simp add: waiting_def)
  ultimately show ?thesis using quiet_fields [of st st'] r(1,3,4) read(1,2) by auto
qed

lemma lane_kill_keeps:
  assumes "lane_kill st st'" "lane_ok st"
  shows "lane_ok st'" "waiting st' = waiting st"
  using assms by (auto simp: lane_ok_def tasks_ok_def waiting_def dhas_iff elim!: lane_kill_cases split: if_splits)

lemma lane_run_invariant:
  assumes "lane_run kills subs calls st"
  shows "lane_ok st \<and> subs = mset (map fst calls) + waiting st \<and> (\<not> kills \<longrightarrow> quiet st)"
  using assms
proof (induction rule: lane_run.induct)
  case run_start
  have "quiet HistoryRepairOrchestrator"
    by (simp add: quiet_def HistoryRepairOrchestrator_def awaits_def dget_default_def)
  then show ?case using lane_ok_init by (simp add: waiting_def HistoryRepairOrchestrator_def)
next
  case (run_step kills subs calls st new made st')
  then show ?case using lane_step_keeps [OF run_step(2)] by (auto simp: ac_simps)
next
  case (run_kill kills subs calls st st')
  then show ?case using lane_kill_keeps [OF run_kill(2)] by simp
qed

text \<open>C33: one repair at a time per provider, and everything bounded: in every state a run of the orchestrator
  reaches there is at most one task per provider, every pending queue is non-empty, has at most 32
  requests in order of urgency, a request has at most 32 callbacks, and at most 256 outcomes are kept.\<close>

theorem one_repair_per_provider_and_bounded_queues:
  assumes "lane_run kills subs calls st"
  shows "(\<forall>k t k' t'. dget (ln_tasks st) k = Some t \<longrightarrow> dget (ln_tasks st) k' = Some t'
      \<longrightarrow> it_provider (rq_intent (tk_request t)) = it_provider (rq_intent (tk_request t')) \<longrightarrow> k = k')
    \<and> (\<forall>p q. dget (ln_pending st) p = Some q \<longrightarrow> q \<noteq> [] \<and> length q \<le> 32 \<and> sorted (map entry_priority q)
      \<and> (\<forall>k rq. dget q k = Some rq \<longrightarrow> rq_key rq = k \<and> it_provider (rq_intent rq) = p))
    \<and> (\<forall>k cbs. dget (ln_callbacks st) k = Some cbs \<longrightarrow> length cbs \<le> 32)
    \<and> length (ln_outcomes st) \<le> 256"
proof -
  have ok: "lane_ok st" using lane_run_invariant [OF assms] by blast
  have "key_provider k = it_provider (rq_intent (tk_request t))" if "dget (ln_tasks st) k = Some t" for k t
    using ok that request_ok_provider unfolding lane_ok_def tasks_ok_def by metis
  then have "\<forall>k t k' t'. dget (ln_tasks st) k = Some t \<longrightarrow> dget (ln_tasks st) k' = Some t'
      \<longrightarrow> it_provider (rq_intent (tk_request t)) = it_provider (rq_intent (tk_request t')) \<longrightarrow> k = k'"
    using ok unfolding lane_ok_def tasks_ok_def dhas_iff by metis
  moreover have "\<forall>p q. dget (ln_pending st) p = Some q \<longrightarrow> q \<noteq> [] \<and> length q \<le> 32 \<and> sorted (map entry_priority q)
      \<and> (\<forall>k rq. dget q k = Some rq \<longrightarrow> rq_key rq = k \<and> it_provider (rq_intent rq) = p)"
    using ok by (simp add: lane_ok_def pending_ok_def queue_ok_def MAX_PENDING_REPAIRS_PER_PROVIDER_def)
  moreover have "\<forall>k cbs. dget (ln_callbacks st) k = Some cbs \<longrightarrow> length cbs \<le> 32" "length (ln_outcomes st) \<le> 256"
    using ok by (auto simp: lane_ok_def callbacks_ok_def outcomes_ok_def MAX_COMPLETION_CALLBACKS_PER_REPAIR_def
      MAX_RETAINED_HISTORY_REPAIR_OUTCOMES_def)
  ultimately show ?thesis by blast
qed

section \<open>The lane drains\<close>

text \<open>Ends of live tasks only, counted.\<close>

inductive drain :: "nat \<Rightarrow> 'c completion_calls \<Rightarrow> ('h, 'c) lane \<Rightarrow> ('h, 'c) lane \<Rightarrow> bool" where
  drained: "drain 0 [] st st"
| drain_end: "drain n made st st1 \<Longrightarrow> dget (ln_tasks st1) key = Some t \<Longrightarrow> \<not> tk_done t \<Longrightarrow> end_env utc utc' t result
    \<Longrightarrow> run_request_end utc utc' now t result st1 = Inr (calls, st2) \<Longrightarrow> drain (Suc n) (made @ calls) st st2"

lemma end_always_keeps:
  assumes "lane_ok st" "dget (ln_tasks st) key = Some t" "end_env utc utc' t result"
  shows "end_keeps st (run_request_end utc utc' now t result st)"
  using cancelled_end_keeps [OF assms(1,2)] completed_end_keeps [OF assms(1,2) _ assms(3)]
  by (cases "result = Cancelled") auto

lemma drain_invariant:
  assumes "drain n made st st'" "lane_ok st"
  shows "lane_ok st' \<and> waiting st = mset (map fst made) + waiting st' \<and> n + work st' \<le> work st \<and> (quiet st \<longrightarrow> quiet st')"
  using assms
proof (induction rule: drain.induct)
  case (drain_end n made st st1 key t utc utc' result now calls st2)
  then have "lane_ok st1" by blast
  from end_always_keeps [OF this drain_end(2,4), of now] drain_end show ?case by (auto simp: end_keeps_def)
qed simp

lemma quiet_idle:
  assumes "quiet st" "ln_tasks st = []"
  shows "ln_pending st = []" "awaits st k = False"
proof -
  have "\<not> dhas (ln_pending st) p" for p using quiet_served [OF assms(1), of p] assms(2) by auto
  moreover have "dhas (x # xs) (fst x)" for x :: "string \<times> (repair_key, 'a repair_request) pydict" and xs
    by (simp add: dhas_def)
  ultimately show pending: "ln_pending st = []" by (metis list.exhaust)
  show "awaits st k = False"
    using quiet_awaits [OF assms(1), of k] assms(2) pending by (auto simp: queued_def dget_default_def)
qed

lemma nothing_waits:
  assumes "dict_ok (ln_callbacks st)" "\<And>k. \<not> awaits st k"
  shows "waiting st = {#}"
proof -
  have "cbs = []" if "(k, cbs) \<in> set (ln_callbacks st)" for k cbs
    using assms(2) [of k] in_set_dget [OF assms(1) that] by (simp add: awaits_def dget_default_Some)
  then have "map (\<lambda>(k, cbs). mset cbs) (ln_callbacks st) = map (\<lambda>_. {#}) (ln_callbacks st)" by auto
  then show ?thesis unfolding waiting_def dsum_def by (simp only: sum_list_0)
qed

text \<open>C32: every accepted callback is called exactly once: in every run the accepted callbacks are those already
  called and those waiting; and if no task was killed before its start and nothing more is
  scheduled, each end of a task succeeds and takes at least one unit of the work left, so that the
  lane is empty after at most that many ends - and then every accepted callback has been called.\<close>

theorem callbacks_called_once_and_lane_drains:
  assumes "lane_run kills subs calls st"
  shows "subs = mset (map fst calls) + waiting st
    \<and> (\<not> kills \<longrightarrow> drain n made st st' \<longrightarrow> n + work st' \<le> work st
      \<and> (\<forall>k t utc utc' result now. dget (ln_tasks st') k = Some t \<longrightarrow> end_env utc utc' t result
          \<longrightarrow> \<not> tk_done t \<and> (\<exists>r. run_request_end utc utc' now t result st' = Inr r))
      \<and> (ln_tasks st' = [] \<longrightarrow> ln_pending st' = [] \<and> subs = mset (map fst (calls @ made))))"
proof (intro conjI impI)
  have inv: "lane_ok st" "subs = mset (map fst calls) + waiting st" "\<not> kills \<longrightarrow> quiet st"
    using lane_run_invariant [OF assms] by auto
  show "subs = mset (map fst calls) + waiting st" by (fact inv(2))
  assume k: "\<not> kills" and d: "drain n made st st'"
  have d': "lane_ok st'" "waiting st = mset (map fst made) + waiting st'" "n + work st' \<le> work st" "quiet st'"
    using drain_invariant [OF d inv(1)] inv(3) k by auto
  show "n + work st' \<le> work st" by (fact d'(3))
  show "\<forall>k t utc utc' result now. dget (ln_tasks st') k = Some t \<longrightarrow> end_env utc utc' t result
      \<longrightarrow> \<not> tk_done t \<and> (\<exists>r. run_request_end utc utc' now t result st' = Inr r)"
    using end_always_keeps [OF d'(1)] quiet_live [OF d'(4)] unfolding end_keeps_def by blast
  assume empty: "ln_tasks st' = []"
  show "ln_pending st' = []" using quiet_idle(1) [OF d'(4) empty] .
  have "dict_ok (ln_callbacks st')" using d'(1) by (simp add: lane_ok_def callbacks_ok_def)
  then have "waiting st' = {#}" using quiet_idle(2) [OF d'(4) empty] by (intro nothing_waits) simp_all
  then show "subs = mset (map fst (calls @ made))" using inv(2) d'(2) by simp
qed

section \<open>An example run\<close>

definition example_request :: "nat repair_request" where
  "example_request = \<lparr>rq_key = repair_key example_intent, rq_exact = True,
     rq_instrument = Some (example_contract_row ''AAPL''), rq_intent = example_intent, rq_timeout = Fin 5,
     rq_fetch = 0, rq_commit = 1, rq_store = 2\<rparr>"

definition example_task :: "nat repair_task" where
  "example_task = \<lparr>tk_id = 0, tk_request = example_request, tk_done = False\<rparr>"

definition example_lane :: "(nat, nat) lane" where
  "example_lane = \<lparr>ln_tasks = [(repair_key example_intent, example_task)], ln_next_allowed = [], ln_awaiting = [],
     ln_pending = [], ln_callbacks = [(repair_key example_intent, [7])], ln_outcomes = [], ln_created = 1\<rparr>"

lemma lane_admission_exact:
  "lane_admission status it n s (Fin 0) = Inr \<lparr>ad_status = status, ad_intent = it, ad_newly_admitted = n,
    ad_subscribed = s, ad_retry_after = Fin 0\<rparr>"
  by (cases status) (simp_all add: lane_admission_def HistoryRepairAdmission_def admission_of_def
    enum_member_def first_where_def non_negative_seconds_def)

lemma example_scheduled:
  "schedule True (Fin 100) ''ibkr'' (VBool True) (Some (example_contract_row ''AAPL'')) example_intent (VFloat (Fin 5))
    (Some 0) (Some 1) (Some 2) (Some 7) HistoryRepairOrchestrator =
    Inr (\<lparr>ad_status = AdmScheduled, ad_intent = example_intent, ad_newly_admitted = True, ad_subscribed = True,
      ad_retry_after = Fin 0\<rparr>, [], example_lane)"
proof -
  have "checked_request True ''ibkr'' (VBool True) (Some (example_contract_row ''AAPL'')) example_intent (VFloat (Fin 5))
      (Some 0) (Some 1) (Some 2) = Inr example_request"
    by (simp add: checked_request_def example_row_matches positive_timeout_def example_request_def)
      (simp add: example_intent_def)
  then show ?thesis
    by (simp add: schedule_def admit_request_def Let_def HistoryRepairOrchestrator_def example_request_def
      purge_awaiting_def purge_tasks_def purge_next_allowed_def dhas_def dget_def dget_default_def subscribe_def
      start_task_def lane_admission_exact MAX_COMPLETION_CALLBACKS_PER_REPAIR_def dset_def dpop_def
      example_lane_def example_task_def)
qed

lemma example_lane_run: "lane_run False {#7#} [] example_lane"
proof -
  have "lane_step HistoryRepairOrchestrator {#7#} [] example_lane"
    using lane_step.scheduled [OF example_intent_ok(1) example_scheduled] by simp
  from run_step [OF run_start this] show ?thesis by simp
qed

lemma example_lane_ok: "lane_ok example_lane"
  using lane_run_invariant [OF example_lane_run] by blast

lemma example_request_ok: "request_ok example_request"
  by (simp add: request_ok_def example_request_def example_intent_ok)

lemma example_live: "dget (ln_tasks example_lane) (repair_key example_intent) = Some example_task"
  by (simp add: example_lane_def dget_def)

lemma example_end:
  assumes "\<forall>g. oc_generation oc = Some g \<longrightarrow> 0 \<le> g"
  obtains calls st where "run_request_end 200000000 200000000 (Fin 110) example_task (Returned oc) example_lane
    = Inr (calls, st)" "drain 1 calls example_lane st"
proof -
  have env: "end_env 200000000 200000000 example_task (Returned oc)"
    using assms by (simp add: end_env_def example_task_def example_request_def example_intent_def)
  obtain calls st where r: "run_request_end 200000000 200000000 (Fin 110) example_task (Returned oc) example_lane
      = Inr (calls, st)"
    using end_always_keeps [OF example_lane_ok example_live env, of "Fin 110"] by (auto simp: end_keeps_def)
  moreover have "drain (Suc 0) ([] @ calls) example_lane st"
    by (rule drain_end [OF drained example_live _ env r]) (simp add: example_task_def)
  ultimately show thesis using that by simp
qed

theorem one_repair_per_provider_and_bounded_queues_witness:
  "length [7 :: nat] \<le> 32 \<and> dget (ln_callbacks example_lane) (repair_key example_intent) = Some [7]"
proof -
  have cb: "dget (ln_callbacks example_lane) (repair_key example_intent) = Some [7]"
    by (simp add: example_lane_def dget_def)
  with one_repair_per_provider_and_bounded_queues [OF example_lane_run] show ?thesis by blast
qed

theorem callbacks_called_once_and_lane_drains_witness:
  "\<exists>made st'. drain 1 made example_lane st' \<and> 1 + work st' \<le> work example_lane"
proof -
  obtain calls st where "drain 1 calls example_lane st"
    by (rule example_end [of example_commit_outcome]) (simp_all add: example_commit_outcome_def)
  then show ?thesis
    using callbacks_called_once_and_lane_drains [OF example_lane_run, of 1 calls st] by blast
qed

end
