(* ===== verification/RepairPolicy.thy ===== *)
theory RepairPolicy
  imports RepairDrain
begin

text \<open>
  What the lane promises its callers: urgent requests run first and are never dropped for others, a
  chunk that made no progress is not asked for again before the chart's generation moves, and the
  chunks of an envelope tile it from its end to its start.
\<close>

section \<open>Urgency\<close>

text \<open>The most urgent request runs next, the oldest of its urgency: after a request is enqueued, the request
  the lane takes from the queue is at least as urgent as every queued one, and it is the first of its
  urgency in the order of insertion.\<close>

theorem most_urgent_repair_runs_next:
  assumes "enqueue rq cb q st = (b, st1)" "pop_next (it_provider (rq_intent rq)) st1 = (Some r, st2)"
  shows "(\<forall>(k, x) \<in> set (dset (rq_key rq) rq q). request_priority r \<le> request_priority x)
    \<and> (\<exists>k later. filter (\<lambda>(k, x). request_priority x = request_priority r) (dset (rq_key rq) rq q) = (k, r) # later)"
proof -
  let ?q = "dset (rq_key rq) rq q" and ?p = "it_provider (rq_intent rq)"
  have "dget_default (ln_pending st1) ?p [] = prioritize_pending ?q" by (simp add: enqueue_fields [OF assms(1)])
  then obtain k rest where head: "prioritize_pending ?q = (k, r) # rest"
    using assms(2) by (auto simp: pop_next_def split: list.splits)
  show ?thesis
    using pq.head_most_urgent [OF head] pq.head_first_of_its_urgency [OF head]
    by (fastforce simp: entry_priority_def case_prod_unfold)
qed

lemma take_callbacks_called:
  "take_callbacks key oc st = (calls, st') \<Longrightarrow> calls = map (\<lambda>cb. (cb, oc)) (dget_default (ln_callbacks st) key [])"
  by (auto simp: take_callbacks_def)

lemma lane_outcome_superseded:
  "lane_outcome OcSuperseded it None None VNone None None = Inr oc \<Longrightarrow> oc_status oc = OcSuperseded \<and> oc_intent oc = it"
  using lane_outcome_exact [of None None None OcSuperseded it None VNone] by auto

text \<open>C37: no admission drops an urgent request: a pending request that an admission removes from its queue is a
  background one, the admitted request is a foreground one, and every callback waiting for the
  removed request is called with the outcome that it was superseded.\<close>

theorem admission_never_drops_foreground:
  assumes "admit_request now rq cb st = Inr (a, calls, st')" "lane_ok st" "request_ok rq"
    and "dget (dget_default (ln_pending st) p []) k = Some old"
    and "\<not> dhas (dget_default (ln_pending st') p []) k"
  shows "it_priority (rq_intent old) = BACKGROUND \<and> it_priority (rq_intent rq) = FOREGROUND
    \<and> (\<forall>c \<in> set (dget_default (ln_callbacks st) k []). \<exists>oc. (c, oc) \<in> set calls
        \<and> oc_status oc = OcSuperseded \<and> oc_intent oc = rq_intent old)"
proof -
  let ?p = "it_provider (rq_intent rq)" and ?st = "purged now (rq_intent rq) st"
  let ?q = "dget_default (ln_pending ?st) ?p []"
  have pd: "pending_ok (ln_pending st)" using assms(2) by (simp add: lane_ok_def)
  note q = queue_dict(1) [OF pd, of ?p]
  have kept: False if "dhas (dget_default (ln_pending st') p []) k" using that assms(5) by simp
  have k: "dhas (dget_default (ln_pending st) p []) k" using assms(4) by (simp add: dhas_iff)
  from assms(1) show ?thesis
  proof (cases rule: admit_cases)
    case rejected
    then show ?thesis using k kept by auto
  next
    case running
    then show ?thesis using k kept subscribe_fields(3) [OF running(2)] by simp
  next
    case (queued existing)
    have "dget (ln_pending st) ?p = Some ?q"
      using queued(1) by (cases "dget (ln_pending st) ?p") (auto simp: dget_default_None dget_default_Some dget_def)
    then have "queue_ok ?p ?q" using pd by (simp add: pending_ok_def)
    note update_pending_queue(2) [OF this queued(1) assms(3) refl, of k]
    then show ?thesis using k kept subscribe_fields(3) [OF queued(4)] by (cases "p = ?p") simp_all
  next
    case (evicting victim evicted superseded st3)
    note f = enqueue_fields(3) [OF evicting(8)] take_callbacks_fields(3) [OF evicting(7)]
    have h: "dhas (prioritize_pending (dset (rq_key rq) rq (dpop victim ?q))) k" if "dhas ?q k" "k \<noteq> victim"
      using that q by (simp add: dhas_iff)
    have "p = ?p" using k kept f by (cases "p = ?p") simp_all
    moreover from this have "k = victim" using k kept f h by (cases "k = victim") simp_all
    ultimately have old: "old = evicted" "it_priority (rq_intent evicted) = BACKGROUND"
      "it_priority (rq_intent rq) = FOREGROUND"
      using eviction_facts [OF evicting(1)] q assms(4) by simp_all
    have "(c, superseded) \<in> set calls" if "c \<in> set (dget_default (ln_callbacks st) k [])" for c
      using that take_callbacks_called [OF evicting(7)] \<open>k = victim\<close> by simp
    then show ?thesis using old lane_outcome_superseded [OF evicting(6)] by auto
  next
    case enqueued
    have "dhas (prioritize_pending (dset (rq_key rq) rq ?q)) k" if "dhas ?q k"
      using that q by (simp add: dhas_iff)
    then show ?thesis using k kept enqueue_fields(3) [OF enqueued(6)] by (cases "p = ?p") simp_all
  next
    case (started st3)
    then show ?thesis using k kept subscribe_fields(3) [OF started(4)] by (simp add: start_task_def)
  qed
qed

section \<open>Waiting for a new generation\<close>

lemma start_next_awaiting [simp]: "ln_awaiting (start_next p c st) = ln_awaiting st"
  by (auto simp: start_next_def start_task_def pop_next_def split: option.splits list.splits)

lemma settle_task_awaiting:
  assumes "settle_task now t oc st = (calls, st')" "terminal_no_progress oc"
  shows "dget (ln_awaiting st') (repair_cursor_key (rq_intent (tk_request t))) = Some (it_generation (rq_intent (tk_request t)))"
  using assms by (auto simp: settle_task_def Let_def take_callbacks_def split: option.splits if_splits)

lemma dget_filter_keep: "dget d k = Some v \<Longrightarrow> P (k, v) \<Longrightarrow> dget (filter P d) k = Some v"
  by (induction d) (auto simp: dget_def split: if_splits)

lemma no_progress_ends_chain:
  "terminal_no_progress oc \<Longrightarrow> \<not> repair_progressed oc"
  by (auto simp: terminal_no_progress_def repair_progressed_def)

lemma no_progress_blocks:
  assumes "run_request_end utc utc' now t (Returned oc) st = Inr (calls, st1)" "terminal_no_progress oc"
    and "it_generation it \<le> it_generation (rq_intent (tk_request t))"
  shows "dget (ln_awaiting (purge_awaiting it st1)) (repair_cursor_key (rq_intent (tk_request t)))
    = Some (it_generation (rq_intent (tk_request t)))"
proof -
  obtain c1 st0 where s: "settle_task now t oc st = (c1, st0)" by (cases "settle_task now t oc st")
  have "ln_awaiting st1 = ln_awaiting st0" using assms(1) s by (auto simp: run_request_end_def Let_def res_simps)
  then show ?thesis
    using settle_task_awaiting [OF s assms(2)] assms(3) by (simp add: purge_awaiting_def dget_filter_keep)
qed

text \<open>A chunk without progress waits for the chart: after a task ended with no change, an incomplete or a
  malformed answer and nothing written, a request for the same chunk is admitted only with a newer
  chart generation; with the old one it is told to wait and the lane makes no call.\<close>

theorem no_progress_waits_for_a_new_generation:
  assumes "run_request_end utc utc' now t (Returned oc) st = Inr (calls, st1)" "terminal_no_progress oc"
    and "repair_cursor_key (rq_intent rq) = repair_cursor_key (rq_intent (tk_request t))"
    and "it_generation (rq_intent rq) \<le> it_generation (rq_intent (tk_request t))"
    and "admit_request now' rq cb st1 = Inr (a, made, st2)"
  shows "ad_status a = AdmAwaitingGeneration \<and> \<not> ad_newly_admitted a \<and> made = [] \<and> ln_tasks st2 = ln_tasks st1
    \<and> ln_pending st2 = ln_pending st1 \<and> ln_callbacks st2 = ln_callbacks st1"
  using assms(3-5) no_progress_blocks [OF assms(1,2,4)]
  by (auto simp: admit_request_def Let_def res_simps dest!: lane_admission_fields)

section \<open>The chunks of an envelope\<close>

text \<open>The requests a first request becomes, one after the end of each chunk.\<close>

fun chunk_chain :: "instant \<Rightarrow> instant \<Rightarrow> 'h repair_request \<Rightarrow> repair_outcome list \<Rightarrow> 'h repair_request list" where
  "chunk_chain now now' rq [] = [rq]"
| "chunk_chain now now' rq (oc # ocs) = (case continuation_request now now' rq oc of
      Inr (Some next) \<Rightarrow> rq # chunk_chain now now' next ocs
    | _ \<Rightarrow> [rq])"

definition chunk_span :: "'h repair_request \<Rightarrow> span" where
  "chunk_span rq = (it_starts_at (rq_intent rq), it_ends_at (rq_intent rq))"

lemma chunk_chain_nonempty [simp]: "chunk_chain now now' rq ocs \<noteq> []"
  by (cases ocs) (auto split: sum.splits option.splits)

lemma chunk_chain_tiles:
  assumes "request_ok rq" "it_target_ends_at (rq_intent rq) \<le> now" "it_target_ends_at (rq_intent rq) \<le> now'"
    and "\<forall>oc \<in> set ocs. repair_progressed oc \<and> oc_status oc \<in> {OcCommitted, OcNoChange}
      \<and> (\<forall>g. oc_generation oc = Some g \<longrightarrow> 0 \<le> g)"
    and "ri_resolution (it_identity (rq_intent rq)) = ResolvedExact"
  defines "chain \<equiv> chunk_chain now now' rq ocs"
  shows "points (map chunk_span chain) = span_points (it_starts_at (rq_intent (last chain)), it_ends_at (rq_intent rq))
    \<and> sorted_wrt (\<lambda>later earlier. it_ends_at (rq_intent earlier) \<le> it_starts_at (rq_intent later)) chain
    \<and> (\<forall>r \<in> set chain. request_ok r \<and> it_target_starts_at (rq_intent r) = it_target_starts_at (rq_intent rq)
         \<and> it_ends_at (rq_intent r) \<le> it_ends_at (rq_intent rq)
         \<and> it_ends_at (rq_intent r) - it_starts_at (rq_intent r) \<le> it_ends_at (rq_intent rq) - it_starts_at (rq_intent rq))
    \<and> (intent_work (rq_intent rq) \<le> Suc (length ocs)
         \<longrightarrow> it_starts_at (rq_intent (last chain)) = it_target_starts_at (rq_intent rq))"
  using assms(1-5) unfolding chain_def
proof (induction ocs arbitrary: rq)
  case Nil
  let ?it = "rq_intent rq"
  have it: "intent_ok ?it" using Nil(1) by (simp add: request_ok_def)
  have "it_starts_at ?it = it_target_starts_at ?it" if "intent_work ?it \<le> Suc 0"
  proof (rule ccontr)
    assume "it_starts_at ?it \<noteq> it_target_starts_at ?it"
    then have "it_target_starts_at ?it < it_starts_at ?it" using it by (simp add: intent_ok_def)
    from next_chunk_work [OF it this, of undefined] have "intent_work (next_chunk ?it undefined) < Suc 0"
      using that by linarith
    then show False using intent_work_pos [of "next_chunk ?it undefined"] by linarith
  qed
  then show ?case using Nil(1) by (simp add: chunk_span_def)
next
  case (Cons oc ocs)
  let ?it = "rq_intent rq"
  have it: "intent_ok ?it" using Cons.prems(1) by (simp add: request_ok_def)
  have env: "continuation_env now now' rq oc" using Cons.prems by (simp add: continuation_env_def)
  note c = continuation_request_exact [OF Cons.prems(1) env]
  show ?case
  proof (cases "it_target_starts_at ?it < it_starts_at ?it")
    case False
    then have stop: "it_starts_at ?it = it_target_starts_at ?it" using it by (simp add: intent_ok_def)
    have "chunk_chain now now' rq (oc # ocs) = [rq]" using c False by (simp add: continues_def)
    then show ?thesis using Cons.prems(1) stop by (simp add: chunk_span_def)
  next
    case True
    let ?next = "rq\<lparr>rq_key := repair_key (next_chunk ?it oc), rq_intent := next_chunk ?it oc\<rparr>"
    let ?rest = "chunk_chain now now' ?next ocs"
    have chain: "chunk_chain now now' rq (oc # ocs) = rq # ?rest"
      using c True Cons.prems by (simp add: continues_def)
    have ok: "request_ok ?next" using next_chunk_ok [OF it True] Cons.prems(4) by (simp add: request_ok_def)
    have n: "it_target_starts_at (rq_intent ?next) = it_target_starts_at ?it"
      "it_target_ends_at (rq_intent ?next) = it_target_ends_at ?it" "it_identity (rq_intent ?next) = it_identity ?it"
      "it_ends_at (rq_intent ?next) = it_starts_at ?it" "it_starts_at ?it < it_ends_at ?it"
      "it_starts_at ?it - it_starts_at (rq_intent ?next) \<le> it_ends_at ?it - it_starts_at ?it"
      using it by (auto simp: next_chunk_def intent_ok_def)
    have IH: "points (map chunk_span ?rest) = span_points (it_starts_at (rq_intent (last ?rest)), it_starts_at ?it)
      \<and> sorted_wrt (\<lambda>later earlier. it_ends_at (rq_intent earlier) \<le> it_starts_at (rq_intent later)) ?rest
      \<and> (\<forall>r \<in> set ?rest. request_ok r \<and> it_target_starts_at (rq_intent r) = it_target_starts_at ?it
           \<and> it_ends_at (rq_intent r) \<le> it_starts_at ?it
           \<and> it_ends_at (rq_intent r) - it_starts_at (rq_intent r) \<le> it_starts_at ?it - it_starts_at (rq_intent ?next))
      \<and> (intent_work (rq_intent ?next) \<le> Suc (length ocs)
           \<longrightarrow> it_starts_at (rq_intent (last ?rest)) = it_target_starts_at ?it)"
      using Cons.IH [OF ok] Cons.prems(2-5) unfolding n by simp
    have "last ?rest \<in> set ?rest" by simp
    then have "request_ok (last ?rest)" "it_ends_at (rq_intent (last ?rest)) \<le> it_starts_at ?it" using IH by blast+
    then have before: "it_starts_at (rq_intent (last ?rest)) \<le> it_starts_at ?it"
      by (simp add: request_ok_def intent_ok_def)
    have "intent_work (rq_intent ?next) < intent_work ?it" using next_chunk_work [OF it True] by simp
    then have reach: "intent_work ?it \<le> Suc (length (oc # ocs)) \<Longrightarrow>
        it_starts_at (rq_intent (last ?rest)) = it_target_starts_at ?it"
      using IH by simp
    have pts: "points (map chunk_span (rq # ?rest)) = span_points (it_starts_at (rq_intent (last ?rest)), it_ends_at ?it)"
      using IH n(5) before by (auto simp: chunk_span_def span_points_def)
    have "request_ok r \<and> it_target_starts_at (rq_intent r) = it_target_starts_at ?it
        \<and> it_ends_at (rq_intent r) \<le> it_ends_at ?it
        \<and> it_ends_at (rq_intent r) - it_starts_at (rq_intent r) \<le> it_ends_at ?it - it_starts_at ?it"
      if "r \<in> set (rq # ?rest)" for r
    proof (cases "r = rq")
      case False
      then have "r \<in> set ?rest" using that by simp
      then show ?thesis using IH n(5,6) by force
    qed (use Cons.prems(1) in simp)
    then have members: "\<forall>r \<in> set (rq # ?rest). request_ok r
        \<and> it_target_starts_at (rq_intent r) = it_target_starts_at ?it \<and> it_ends_at (rq_intent r) \<le> it_ends_at ?it
        \<and> it_ends_at (rq_intent r) - it_starts_at (rq_intent r) \<le> it_ends_at ?it - it_starts_at ?it"
      by blast
    have ordered: "sorted_wrt (\<lambda>later earlier. it_ends_at (rq_intent earlier) \<le> it_starts_at (rq_intent later)) (rq # ?rest)"
      using IH by simp
    have last: "last (rq # ?rest) = last ?rest" by simp
    show ?thesis
      unfolding chain last using pts members ordered reach by blast
  qed
qed

text \<open>C36: the chunks of an envelope tile it: as long as chunks make progress, the requests a repair becomes are
  well-formed, run backwards without gap or overlap, are never longer than the first and never leave
  the envelope; after as many of them as the envelope has slots before the first chunk, the last one
  starts where the envelope starts.\<close>

theorem chunks_tile_the_envelope:
  assumes "request_ok rq" "it_target_ends_at (rq_intent rq) \<le> now" "it_target_ends_at (rq_intent rq) \<le> now'"
    and "\<forall>oc \<in> set ocs. repair_progressed oc \<and> oc_status oc \<in> {OcCommitted, OcNoChange}
      \<and> (\<forall>g. oc_generation oc = Some g \<longrightarrow> 0 \<le> g)"
    and "ri_resolution (it_identity (rq_intent rq)) = ResolvedExact"
  shows "points (map chunk_span (chunk_chain now now' rq ocs))
        = span_points (it_starts_at (rq_intent (last (chunk_chain now now' rq ocs))), it_ends_at (rq_intent rq))
    \<and> sorted_wrt (\<lambda>later earlier. it_ends_at (rq_intent earlier) \<le> it_starts_at (rq_intent later))
        (chunk_chain now now' rq ocs)
    \<and> (\<forall>r \<in> set (chunk_chain now now' rq ocs). request_ok r
         \<and> it_target_starts_at (rq_intent r) = it_target_starts_at (rq_intent rq)
         \<and> it_ends_at (rq_intent r) \<le> it_ends_at (rq_intent rq)
         \<and> it_ends_at (rq_intent r) - it_starts_at (rq_intent r) \<le> it_ends_at (rq_intent rq) - it_starts_at (rq_intent rq))
    \<and> (intent_work (rq_intent rq) \<le> Suc (length ocs)
         \<longrightarrow> it_starts_at (rq_intent (last (chunk_chain now now' rq ocs))) = it_target_starts_at (rq_intent rq))"
  using chunk_chain_tiles [OF assms] .

section \<open>Examples of contention\<close>

definition example_background :: "nat \<Rightarrow> nat repair_request" where
  "example_background i = example_request\<lparr>rq_intent := example_intent\<lparr>it_priority := BACKGROUND, it_generation := int i + 10\<rparr>,
     rq_key := repair_key (example_intent\<lparr>it_priority := BACKGROUND, it_generation := int i + 10\<rparr>)\<rparr>"

theorem most_urgent_repair_runs_next_witness:
  "\<exists>r st2. pop_next ''ibkr'' (snd (enqueue example_request (Some 3)
      [(rq_key (example_background 0), example_background 0)] example_lane)) = (Some r, st2)
    \<and> request_priority r \<le> request_priority (example_background 0)"
proof -
  let ?q = "[(rq_key (example_background 0), example_background 0)]"
  obtain b st1 where e: "enqueue example_request (Some 3) ?q example_lane = (b, st1)"
    by (cases "enqueue example_request (Some 3) ?q example_lane")
  have p: "it_provider (rq_intent example_request) = ''ibkr''" by (simp add: example_request_def example_intent_def)
  have "0 < length (prioritize_pending (dset (rq_key example_request) example_request ?q))"
    by (simp add: dset_length)
  then have "prioritize_pending (dset (rq_key example_request) example_request ?q) \<noteq> []"
    by (simp only: length_greater_0_conv not_False_eq_True)
  then obtain k' r rest where "prioritize_pending (dset (rq_key example_request) example_request ?q) = (k', r) # rest"
    by (cases "prioritize_pending (dset (rq_key example_request) example_request ?q)") auto
  then obtain st2 where r: "pop_next ''ibkr'' st1 = (Some r, st2)"
    using enqueue_fields(3) [OF e] by (simp add: p pop_next_def)
  have k: "rq_key (example_background 0) \<noteq> rq_key example_request"
    by (simp add: example_background_def example_request_def repair_key_def example_intent_def)
  have "request_priority r \<le> request_priority (example_background 0)"
    using most_urgent_repair_runs_next [OF e, unfolded p, OF r] k by (simp add: dset_def)
  with r e show ?thesis by auto
qed

definition example_queue :: "(repair_key, nat repair_request) pydict" where
  "example_queue = map (\<lambda>i. (rq_key (example_background i), example_background i)) [0..<32]"

definition example_full_lane :: "(nat, nat) lane" where
  "example_full_lane = example_lane\<lparr>ln_pending := [(''ibkr'', example_queue)]\<rparr>"

definition example_urgent :: "nat repair_request" where
  "example_urgent = example_request\<lparr>rq_intent := example_intent\<lparr>it_generation := 4\<rparr>,
     rq_key := repair_key (example_intent\<lparr>it_generation := 4\<rparr>)\<rparr>"

lemma example_background_key: "rq_key (example_background i) = rq_key (example_background j) \<longleftrightarrow> i = j"
  "rq_key (example_background i) \<noteq> rq_key example_urgent"
  by (simp_all add: example_background_def example_urgent_def repair_key_def)

lemma example_background_ok: "request_ok (example_background i)" "it_provider (rq_intent (example_background i)) = ''ibkr''"
  "request_priority (example_background i) = 1"
  using example_intent_ok(1) by (simp_all add: request_ok_def example_background_def intent_ok_def request_priority_def
      example_intent_def)

lemma example_priorities: "it_priority (rq_intent example_urgent) = FOREGROUND"
  "it_priority (rq_intent (example_background i)) = BACKGROUND"
  by (simp_all add: example_urgent_def example_background_def example_intent_def)

lemma example_queue_ok: "queue_ok ''ibkr'' example_queue"
proof -
  have d: "dict_ok example_queue"
    by (simp add: dict_ok_def example_queue_def distinct_map inj_on_def example_background_key comp_def)
  have e: "request_ok rq \<and> rq_key rq = k \<and> it_provider (rq_intent rq) = ''ibkr''"
    if "dget example_queue k = Some rq" for k rq
    using dget_in_set [OF that] example_background_ok by (auto simp: example_queue_def)
  have "map entry_priority example_queue = replicate 32 1"
    by (simp add: example_queue_def comp_def entry_priority_def example_background_ok map_replicate_const)
  moreover have "length example_queue = 32" by (simp add: example_queue_def)
  ultimately show ?thesis using d e by (auto simp: queue_ok_def MAX_PENDING_REPAIRS_PER_PROVIDER_def)
qed

lemma example_full_lane_ok: "lane_ok example_full_lane"
  using example_lane_ok example_queue_ok
  by (auto simp: lane_ok_def example_full_lane_def pending_ok_def dict_ok_def dget_def split: if_splits)

theorem admission_never_drops_foreground_witness:
  "\<exists>a calls st'. admit_request (Fin 100) example_urgent None example_full_lane = Inr (a, calls, st')
    \<and> \<not> dhas (dget_default (ln_pending st') ''ibkr'' []) (rq_key (example_background 31))
    \<and> it_priority (rq_intent (example_background 31)) = BACKGROUND"
proof -
  let ?k = "rq_key (example_background 31)"
  have ok: "request_ok example_urgent"
    using example_intent_ok(1) by (simp add: request_ok_def example_urgent_def intent_ok_def example_intent_def)
  have p: "it_provider (rq_intent example_urgent) = ''ibkr''" by (simp add: example_urgent_def example_intent_def)
  have q: "dict_ok example_queue" using example_queue_ok by (simp add: queue_ok_def)
  have in_q: "dget example_queue ?k = Some (example_background 31)"
    by (rule in_set_dget [OF q]) (auto simp: example_queue_def)
  have newest: "example_queue = map (\<lambda>i. (rq_key (example_background i), example_background i)) [0..<31]
      @ [(?k, example_background 31)]"
    unfolding example_queue_def by (simp add: upt_Suc_append [of 0 31, simplified])
  have victim: "eviction_victim (rq_intent example_urgent) example_queue = Some (?k, example_background 31)"
    unfolding eviction_victim_def first_where_def newest by (simp add: example_priorities)
  have absent: "dget example_queue (rq_key example_urgent) = None"
    using example_background_key(2) by (force simp: dget_def map_of_eq_None_iff example_queue_def)
  have len: "length example_queue = 32" by (simp add: example_queue_def)
  have st: "ln_pending example_full_lane = [(''ibkr'', example_queue)]" "ln_awaiting example_full_lane = []"
    "ln_next_allowed example_full_lane = []" "ln_tasks example_full_lane = [(repair_key example_intent, example_task)]"
    by (simp_all add: example_full_lane_def example_lane_def)
  obtain oc where oc: "lane_outcome OcSuperseded (rq_intent (example_background 31)) None None VNone None None = Inr oc"
    using lane_outcome_exact [of None None None OcSuperseded] by simp
  have "rq_key example_urgent \<noteq> repair_key example_intent" "key_provider (repair_key example_intent) = ''ibkr''"
    "\<not> tk_done example_task"
    by (simp_all add: example_urgent_def repair_key_def example_intent_def example_task_def)
  then obtain a calls st' where r: "admit_request (Fin 100) example_urgent None example_full_lane = Inr (a, calls, st')"
    "ln_pending st' = dset ''ibkr'' (prioritize_pending (dset (rq_key example_urgent) example_urgent (dpop ?k example_queue)))
      [(''ibkr'', example_queue)]"
    using victim absent len oc st
    by (simp add: admit_request_def Let_def p purge_awaiting_def purge_tasks_def purge_next_allowed_def dhas_def
      dget_def dget_default_def MAX_PENDING_REPAIRS_PER_PROVIDER_def lane_admission_exact take_callbacks_def
      enqueue_def subscribe_def)
  have gone: "\<not> dhas (dget_default (ln_pending st') ''ibkr'' []) ?k"
    using q example_background_key(2) by (simp add: r(2) dhas_iff)
  have "dget (dget_default (ln_pending example_full_lane) ''ibkr'' []) ?k = Some (example_background 31)"
    using in_q by (simp add: st dget_default_def)
  from admission_never_drops_foreground [OF r(1) example_full_lane_ok ok this gone] r(1) gone
  show ?thesis by blast
qed

theorem no_progress_waits_for_a_new_generation_witness:
  "\<exists>calls st1 a st2. run_request_end 200000000 200000000 (Fin 110) example_task
      (Returned (example_commit_outcome\<lparr>oc_status := OcNoChange, oc_written_bars := 0, oc_coverage_expanded := False\<rparr>))
      example_lane = Inr (calls, st1)
    \<and> admit_request (Fin 1000) example_request None st1 = Inr (a, [], st2) \<and> ad_status a = AdmAwaitingGeneration"
proof -
  let ?oc = "example_commit_outcome\<lparr>oc_status := OcNoChange, oc_written_bars := 0, oc_coverage_expanded := False\<rparr>"
  obtain calls st1 where r: "run_request_end 200000000 200000000 (Fin 110) example_task (Returned ?oc) example_lane
      = Inr (calls, st1)"
    by (rule example_end [of ?oc]) (simp_all add: example_commit_outcome_def)
  have np: "terminal_no_progress ?oc" by (simp add: terminal_no_progress_def example_commit_outcome_def)
  have t: "tk_request example_task = example_request" by (simp add: example_task_def)
  have "dget (ln_awaiting (purge_awaiting (rq_intent example_request) st1)) (repair_cursor_key (rq_intent example_request))
      = Some (it_generation (rq_intent example_request))"
    using no_progress_blocks [OF r np, of "rq_intent example_request"] by (simp add: t)
  then obtain a st2 where a: "admit_request (Fin 1000) example_request None st1 = Inr (a, [], st2)"
    by (simp add: admit_request_def Let_def lane_admission_exact)
  show ?thesis
    using no_progress_waits_for_a_new_generation [OF r np _ _ a] r a by (auto simp: t)
qed

theorem chunks_tile_the_envelope_witness:
  "it_starts_at (rq_intent (last (chunk_chain 200000000 200000000 example_request [example_commit_outcome]))) = 0"
proof -
  have "intent_work example_intent \<le> 2"
    by (simp add: intent_work_def example_intent_def minute_seconds us_per_second_def)
  then show ?thesis
    using chunks_tile_the_envelope [OF example_request_ok, of 200000000 200000000 "[example_commit_outcome]"]
    by (simp add: example_request_def example_commit_outcome_def repair_progressed_def del: chunk_chain.simps)
      (simp add: example_intent_def example_identity_def)
qed

end
