(* ===== verification/InstrumentProfiles.thy ===== *)
theory InstrumentProfiles
  imports Identity SignalScan
begin

text \<open>
  \<open>runtime/instruments.py\<close>: the analysis profile of an instrument (tolerances in units of the
  average true range, thresholds of the indicators, the padding of stops and the reward multiples
  of targets), the table of profiles, and the choice of a profile for a persisted instrument row;
  and the price rounding of \<open>engine/common.py\<close>.
\<close>

section \<open>Profiles\<close>

text \<open>A decimal literal of the source is the float nearest to it.\<close>

record instrument_profile =
  ip_key :: string
  ip_label :: string
  ip_family :: string
  ip_tick_size :: pyfloat
  ip_bar_coil_min :: int
  ip_bar_barcode_min :: int
  ip_bar_range_max_atr :: pyfloat
  ip_bar_squeeze_max :: pyfloat
  ip_bar_late_rvol :: pyfloat
  ip_bar_level_near_atr :: pyfloat
  ip_bar_approach_body_atr :: pyfloat
  ip_bar_impulse_range_atr :: pyfloat
  ip_bar_barcode_max_mult :: pyfloat
  ip_bar_confirm_min_atr :: "pyfloat option"
  ip_bar_confirm_max_atr :: "pyfloat option"
  ip_etf_option :: bool
  ip_es_touch_break :: bool
  ip_w5_watch :: int
  ip_w5_arm :: int
  ip_w5_runaway :: int
  ip_wolfe_pivot_len :: int
  ip_vsa_impulse_rvol :: pyfloat
  ip_vsa_fuel_rvol :: pyfloat
  ip_vsa_pullback_rvol :: pyfloat
  ip_fuel_range_atr :: pyfloat
  ip_indian_adx_min :: pyfloat
  ip_indian_volume_mult :: pyfloat
  ip_indian_extension_atr :: pyfloat
  ip_stop_pad_atr :: pyfloat
  ip_target_r_fade :: pyfloat
  ip_target_r_transit :: pyfloat
  ip_is_futures :: bool
  ip_is_index :: bool

text \<open>The fields of a profile that the constructor may leave out.\<close>

definition InstrumentProfile ::
  "string \<Rightarrow> string \<Rightarrow> string \<Rightarrow> pyfloat \<Rightarrow> int \<Rightarrow> int \<Rightarrow> pyfloat \<Rightarrow> pyfloat
    \<Rightarrow> pyfloat \<Rightarrow> pyfloat \<Rightarrow> pyfloat \<Rightarrow> pyfloat \<Rightarrow> pyfloat \<Rightarrow> instrument_profile" where
  "InstrumentProfile key label family tick_size coil_min barcode_min range_max_atr squeeze_max
      late_rvol level_near_atr approach_body_atr impulse_range_atr barcode_max_mult = \<lparr>
     ip_key = key, ip_label = label, ip_family = family, ip_tick_size = tick_size,
     ip_bar_coil_min = coil_min, ip_bar_barcode_min = barcode_min,
     ip_bar_range_max_atr = range_max_atr, ip_bar_squeeze_max = squeeze_max,
     ip_bar_late_rvol = late_rvol, ip_bar_level_near_atr = level_near_atr,
     ip_bar_approach_body_atr = approach_body_atr, ip_bar_impulse_range_atr = impulse_range_atr,
     ip_bar_barcode_max_mult = barcode_max_mult, ip_bar_confirm_min_atr = None,
     ip_bar_confirm_max_atr = None, ip_etf_option = False, ip_es_touch_break = False,
     ip_w5_watch = 58, ip_w5_arm = 70, ip_w5_runaway = 75, ip_wolfe_pivot_len = 3,
     ip_vsa_impulse_rvol = rnd (155 / 100), ip_vsa_fuel_rvol = rnd (22 / 10),
     ip_vsa_pullback_rvol = rnd (105 / 100), ip_fuel_range_atr = rnd (115 / 100),
     ip_indian_adx_min = Fin 24, ip_indian_volume_mult = rnd (8 / 10),
     ip_indian_extension_atr = rnd (35 / 100), ip_stop_pad_atr = rnd (18 / 100),
     ip_target_r_fade = rnd (135 / 100), ip_target_r_transit = rnd (18 / 10),
     ip_is_futures = False, ip_is_index = False\<rparr>"

definition profile_crypto :: instrument_profile where
  "profile_crypto =
    (InstrumentProfile ''CRYPTO'' ''BTC / Crypto'' ''crypto'' (Fin 1) 14 60 (rnd (38 / 10))
      (rnd (13 / 10)) (rnd (235 / 100)) (rnd (28 / 100)) (rnd (13 / 10))
      (rnd (145 / 100)) (rnd (34 / 10)))
    \<lparr>ip_bar_confirm_min_atr := Some (rnd (5 / 100)), ip_w5_watch := 62, ip_w5_arm := 76,
      ip_w5_runaway := 82, ip_wolfe_pivot_len := 5, ip_vsa_impulse_rvol := rnd (24 / 10),
      ip_vsa_fuel_rvol := Fin 3, ip_vsa_pullback_rvol := rnd (12 / 10),
      ip_fuel_range_atr := rnd (125 / 100), ip_indian_adx_min := Fin 26,
      ip_indian_volume_mult := Fin 1, ip_indian_extension_atr := rnd (42 / 100),
      ip_stop_pad_atr := rnd (25 / 100), ip_target_r_fade := rnd (15 / 10),
      ip_target_r_transit := rnd (25 / 10), ip_is_futures := False\<rparr>"

definition profile_es :: instrument_profile where
  "profile_es =
    (InstrumentProfile ''ES'' ''ES'' ''index_future'' (rnd (25 / 100)) 10 36 (rnd (315 / 100))
      (rnd (112 / 100)) (rnd (205 / 100)) (rnd (2 / 10)) (Fin 1) (rnd (12 / 10))
      (rnd (285 / 100)))
    \<lparr>ip_bar_confirm_max_atr := Some (rnd (2 / 100)), ip_es_touch_break := True,
      ip_w5_watch := 58, ip_w5_arm := 70, ip_w5_runaway := 75, ip_wolfe_pivot_len := 3,
      ip_vsa_impulse_rvol := Fin 2, ip_vsa_fuel_rvol := rnd (25 / 10),
      ip_vsa_pullback_rvol := rnd (105 / 100), ip_fuel_range_atr := rnd (115 / 100),
      ip_indian_adx_min := Fin 24, ip_indian_volume_mult := rnd (8 / 10),
      ip_indian_extension_atr := rnd (35 / 100), ip_stop_pad_atr := rnd (32 / 100),
      ip_target_r_fade := rnd (135 / 100), ip_target_r_transit := rnd (185 / 100),
      ip_is_futures := True, ip_is_index := True\<rparr>"

definition profile_spy :: instrument_profile where
  "profile_spy =
    (InstrumentProfile ''SPY'' ''SPY'' ''equity_etf'' (rnd (1 / 100)) 12 36 (rnd (285 / 100))
      (rnd (108 / 100)) (rnd (195 / 100)) (rnd (3 / 10)) (Fin 1) (rnd (12 / 10))
      (rnd (285 / 100)))
    \<lparr>ip_etf_option := True, ip_w5_watch := 58, ip_w5_arm := 70, ip_w5_runaway := 75,
      ip_vsa_impulse_rvol := rnd (18 / 10), ip_vsa_fuel_rvol := rnd (24 / 10),
      ip_vsa_pullback_rvol := Fin 1, ip_fuel_range_atr := rnd (11 / 10),
      ip_indian_adx_min := Fin 22, ip_indian_volume_mult := rnd (75 / 100),
      ip_indian_extension_atr := rnd (32 / 100), ip_stop_pad_atr := rnd (12 / 100),
      ip_target_r_fade := rnd (125 / 100), ip_target_r_transit := rnd (165 / 100),
      ip_is_futures := False, ip_is_index := True\<rparr>"

definition profile_qqq :: instrument_profile where
  "profile_qqq =
    (InstrumentProfile ''QQQ'' ''QQQ'' ''tech_index'' (rnd (1 / 100)) 10 36 (rnd (32 / 10))
      (rnd (118 / 100)) (rnd (215 / 100)) (rnd (3 / 10)) (rnd (115 / 100))
      (rnd (12 / 10)) (rnd (31 / 10)))
    \<lparr>ip_bar_confirm_min_atr := Some (rnd (6 / 100)), ip_etf_option := True, ip_w5_watch := 60,
      ip_w5_arm := 72, ip_w5_runaway := 77, ip_vsa_impulse_rvol := rnd (21 / 10),
      ip_vsa_fuel_rvol := rnd (26 / 10), ip_vsa_pullback_rvol := rnd (11 / 10),
      ip_fuel_range_atr := rnd (12 / 10), ip_indian_adx_min := Fin 25,
      ip_indian_volume_mult := rnd (85 / 100), ip_indian_extension_atr := rnd (38 / 100),
      ip_stop_pad_atr := rnd (15 / 100), ip_target_r_fade := rnd (13 / 10),
      ip_target_r_transit := rnd (18 / 10), ip_is_futures := False, ip_is_index := True\<rparr>"

definition profile_spx_index :: instrument_profile where
  "profile_spx_index =
    (InstrumentProfile ''SPX_INDEX'' ''SPX'' ''equity_index'' (rnd (1 / 100)) 12 36 (rnd (285 / 100))
      (rnd (108 / 100)) (rnd (195 / 100)) (rnd (3 / 10)) (Fin 1) (rnd (12 / 10))
      (rnd (285 / 100)))
    \<lparr>ip_etf_option := True, ip_w5_watch := 58, ip_w5_arm := 70, ip_w5_runaway := 75,
      ip_vsa_impulse_rvol := rnd (18 / 10), ip_vsa_fuel_rvol := rnd (24 / 10),
      ip_vsa_pullback_rvol := Fin 1, ip_fuel_range_atr := rnd (11 / 10),
      ip_indian_adx_min := Fin 22, ip_indian_volume_mult := rnd (75 / 100),
      ip_indian_extension_atr := rnd (32 / 100), ip_stop_pad_atr := rnd (12 / 100),
      ip_target_r_fade := rnd (125 / 100), ip_target_r_transit := rnd (165 / 100),
      ip_is_futures := False, ip_is_index := True\<rparr>"

definition profile_equity_stock :: instrument_profile where
  "profile_equity_stock =
    (InstrumentProfile ''EQUITY_STOCK'' ''Stock'' ''equity_stock'' (rnd (1 / 100)) 12 36 (Fin 3)
      (rnd (11 / 10)) (Fin 2) (rnd (3 / 10)) (rnd (105 / 100)) (rnd (125 / 100))
      (rnd (295 / 100)))
    \<lparr>ip_w5_watch := 58, ip_w5_arm := 70, ip_w5_runaway := 76, ip_vsa_impulse_rvol := Fin 2,
      ip_vsa_fuel_rvol := rnd (25 / 10), ip_vsa_pullback_rvol := rnd (105 / 100),
      ip_fuel_range_atr := rnd (115 / 100), ip_indian_adx_min := Fin 24,
      ip_indian_volume_mult := rnd (8 / 10), ip_indian_extension_atr := rnd (35 / 100),
      ip_stop_pad_atr := rnd (14 / 100), ip_target_r_fade := rnd (125 / 100),
      ip_target_r_transit := rnd (175 / 100), ip_is_futures := False, ip_is_index := False\<rparr>"

definition profile_future :: instrument_profile where
  "profile_future =
    (InstrumentProfile ''FUTURE'' ''Future'' ''future'' (rnd (1 / 100)) 12 36 (Fin 3) (rnd (108 / 100))
      (rnd (195 / 100)) (rnd (3 / 10)) (Fin 1) (rnd (12 / 10)) (rnd (285 / 100)))
    \<lparr>ip_vsa_impulse_rvol := rnd (19 / 10), ip_vsa_fuel_rvol := rnd (24 / 10),
      ip_vsa_pullback_rvol := rnd (105 / 100), ip_fuel_range_atr := rnd (115 / 100),
      ip_indian_adx_min := Fin 24, ip_indian_volume_mult := rnd (8 / 10),
      ip_indian_extension_atr := rnd (35 / 100), ip_is_futures := True\<rparr>"

definition profile_gold :: instrument_profile where
  "profile_gold =
    (InstrumentProfile ''GOLD'' ''Gold / GC'' ''metal_future'' (rnd (1 / 10)) 12 40 (rnd (305 / 100))
      (rnd (114 / 100)) (rnd (195 / 100)) (rnd (24 / 100)) (rnd (105 / 100))
      (rnd (125 / 100)) (rnd (295 / 100)))
    \<lparr>ip_w5_watch := 56, ip_w5_arm := 68, ip_w5_runaway := 75, ip_wolfe_pivot_len := 2,
      ip_vsa_impulse_rvol := rnd (22 / 10), ip_vsa_fuel_rvol := rnd (27 / 10),
      ip_vsa_pullback_rvol := rnd (11 / 10), ip_fuel_range_atr := rnd (12 / 10),
      ip_indian_adx_min := Fin 23, ip_indian_volume_mult := rnd (9 / 10),
      ip_indian_extension_atr := rnd (38 / 100), ip_stop_pad_atr := rnd (18 / 100),
      ip_target_r_fade := rnd (135 / 100), ip_target_r_transit := rnd (19 / 10),
      ip_is_futures := True\<rparr>"

definition profile_oil :: instrument_profile where
  "profile_oil =
    (InstrumentProfile ''OIL'' ''Crude / CL'' ''energy_future'' (rnd (1 / 100)) 14 44 (rnd (345 / 100))
      (rnd (122 / 100)) (rnd (22 / 10)) (rnd (26 / 100)) (rnd (11 / 10))
      (rnd (135 / 100)) (rnd (315 / 100)))
    \<lparr>ip_w5_watch := 60, ip_w5_arm := 72, ip_w5_runaway := 78,
      ip_vsa_impulse_rvol := rnd (23 / 10), ip_vsa_fuel_rvol := rnd (28 / 10),
      ip_vsa_pullback_rvol := rnd (115 / 100), ip_fuel_range_atr := rnd (125 / 100),
      ip_indian_adx_min := Fin 25, ip_indian_volume_mult := Fin 1,
      ip_indian_extension_atr := rnd (42 / 100), ip_stop_pad_atr := rnd (2 / 10),
      ip_target_r_fade := rnd (14 / 10), ip_target_r_transit := Fin 2, ip_is_futures := True\<rparr>"

definition profile_custom :: instrument_profile where
  "profile_custom =
    (InstrumentProfile ''CUSTOM'' ''Custom'' ''custom'' (rnd (1 / 100)) 12 36 (Fin 3) (rnd (108 / 100))
      (rnd (195 / 100)) (rnd (3 / 10)) (Fin 1) (rnd (12 / 10)) (rnd (285 / 100)))
    \<lparr>ip_vsa_impulse_rvol := rnd (19 / 10), ip_vsa_fuel_rvol := rnd (24 / 10),
      ip_vsa_pullback_rvol := rnd (105 / 100), ip_fuel_range_atr := rnd (115 / 100),
      ip_indian_adx_min := Fin 24, ip_indian_volume_mult := rnd (8 / 10),
      ip_indian_extension_atr := rnd (35 / 100)\<rparr>"

section \<open>The table\<close>

definition PROFILES :: "(string, instrument_profile) pydict" where
  "PROFILES = [(''CRYPTO'', profile_crypto), (''ES'', profile_es), (''SPY'', profile_spy),
     (''QQQ'', profile_qqq), (''SPX_INDEX'', profile_spx_index),
     (''EQUITY_STOCK'', profile_equity_stock), (''FUTURE'', profile_future), (''GOLD'', profile_gold),
     (''OIL'', profile_oil), (''CUSTOM'', profile_custom)]"

definition EQUITY_STOCK_INSTRUMENT_KEYS :: "string list" where
  "EQUITY_STOCK_INSTRUMENT_KEYS = [''AAPL'', ''AMZN'', ''GOOG'', ''GOOGL'', ''META'', ''MSFT'', ''NVDA'',
     ''PLTR'', ''TSLA'']"

definition PROFILE_BY_INSTRUMENT_KEY :: "(string, string) pydict" where
  "PROFILE_BY_INSTRUMENT_KEY = [(''BTC'', ''CRYPTO''), (''ETH'', ''CRYPTO''), (''ES'', ''ES''),
     (''SPY'', ''SPY''), (''QQQ'', ''QQQ''), (''SPX'', ''SPX_INDEX''), (''GC'', ''GOLD''), (''CL'', ''OIL'')]
     @ map (\<lambda>k. (k, ''EQUITY_STOCK'')) EQUITY_STOCK_INSTRUMENT_KEYS"

definition PROFILE_BY_ASSET_CLASS :: "(string, string) pydict" where
  "PROFILE_BY_ASSET_CLASS = [(''crypto'', ''CRYPTO''), (''stock'', ''EQUITY_STOCK''),
     (''equity'', ''EQUITY_STOCK''), (''future'', ''FUTURE'')]"

text \<open>
  \<open>str.upper\<close> on characters below 256. The capital of the sharp s is two letters; the capitals
  of the micro sign and of y with diaeresis lie above 255 and are left as they are (no profile
  name contains either).
\<close>

definition upper_chr :: "char \<Rightarrow> string" where
  "upper_chr c = (let n = code_point c in
     if n = 223 then ''SS''
     else if 97 \<le> n \<and> n \<le> 122 \<or> 224 \<le> n \<and> n \<le> 254 \<and> n \<noteq> 247 then [char_of (n - 32)]
     else [c])"

definition py_upper :: "string \<Rightarrow> string" where
  "py_upper s = concat (map upper_chr s)"

definition configured_profile :: "(pyval \<Rightarrow> string) \<Rightarrow> vdict \<Rightarrow> string" where
  "configured_profile pystr qualified =
    (let v = vget qualified ''profile'' in
     py_upper (py_strip (if truthy v then text_of pystr v else [])))"

definition resolve_instrument_profile ::
  "(pyval \<Rightarrow> string) \<Rightarrow> instrument \<Rightarrow> instrument_profile res" where
  "resolve_instrument_profile pystr instrument =
    rbind (require_provider_identity instrument None) (\<lambda>qualified.
      let configured_key = configured_profile pystr qualified; key = instrument_key (Some qualified) in
      if configured_key \<noteq> []
      then (case dget PROFILES configured_key of
          None \<Rightarrow> Inl (ValueError (''INSTRUMENT_PROFILE_UNKNOWN profile='' @ configured_key
            @ '' instrument_key='' @ key))
        | Some profile \<Rightarrow> Inr profile)
      else let profile_key = (case dget PROFILE_BY_INSTRUMENT_KEY key of
                 Some k \<Rightarrow> k
               | None \<Rightarrow> dget_default PROFILE_BY_ASSET_CLASS
                   (instrument_asset_class (Some qualified)) ''CUSTOM'')
           in (case dget PROFILES profile_key of
                 None \<Rightarrow> Inl KeyError | Some profile \<Rightarrow> Inr profile))"

section \<open>Distances and targets\<close>

text \<open>\<open>atr or 0.0\<close> replaces only a zero.\<close>

definition calculate_stop_distance ::
  "instrument_profile \<Rightarrow> pyfloat \<Rightarrow> pyfloat \<Rightarrow> pyfloat res" where
  "calculate_stop_distance p atr price_increment =
    (let atr_value = fmax atr (Fin 0) in
     if fle price_increment (Fin 0) then Inl (ValueError ''PRICE_INCREMENT_INVALID'')
     else let base = fmax (fmul atr_value (ip_stop_pad_atr p)) (fmul price_increment (Fin 2)) in
       Inr (if ip_is_futures p
            then fmax (fmax base (fmul atr_value (rnd (28 / 100)))) (fmul price_increment (Fin 8))
            else base))"

text \<open>The direction is given by its text, the value of the enumeration member or the argument.\<close>

definition calculate_target_price ::
  "instrument_profile \<Rightarrow> string \<Rightarrow> pyfloat \<Rightarrow> pyfloat \<Rightarrow> bool \<Rightarrow> pyfloat" where
  "calculate_target_price p dir_val trigger stop_price is_fade =
    (let risk = fabs (fsub trigger stop_price);
         rr = (if is_fade then ip_target_r_fade p else ip_target_r_transit p)
     in if py_lower dir_val = ''short'' then fsub trigger (fmul risk rr)
        else fadd trigger (fmul risk rr))"

definition breakout_confirm_atr :: "instrument_profile \<Rightarrow> pyfloat \<Rightarrow> pyfloat" where
  "breakout_confirm_atr p base =
    (let v = (case ip_bar_confirm_min_atr p of None \<Rightarrow> base | Some m \<Rightarrow> fmax base m)
     in case ip_bar_confirm_max_atr p of None \<Rightarrow> v | Some m \<Rightarrow> fmin v m)"

section \<open>Export\<close>

definition as_meta :: "instrument_profile \<Rightarrow> vdict" where
  "as_meta p = [kv ''key'' (VStr (ip_key p)), kv ''label'' (VStr (ip_label p)),
     kv ''family'' (VStr (ip_family p)), kv ''tick_size'' (VFloat (ip_tick_size p)),
     kv ''bar_coil_min'' (VInt (ip_bar_coil_min p)),
     kv ''bar_barcode_min'' (VInt (ip_bar_barcode_min p)),
     kv ''bar_range_max_atr'' (VFloat (ip_bar_range_max_atr p)),
     kv ''bar_squeeze_max'' (VFloat (ip_bar_squeeze_max p)),
     kv ''bar_late_rvol'' (VFloat (ip_bar_late_rvol p)),
     kv ''bar_level_near_atr'' (VFloat (ip_bar_level_near_atr p)),
     kv ''bar_approach_body_atr'' (VFloat (ip_bar_approach_body_atr p)),
     kv ''bar_impulse_range_atr'' (VFloat (ip_bar_impulse_range_atr p)),
     kv ''bar_barcode_max_mult'' (VFloat (ip_bar_barcode_max_mult p)),
     kv ''bar_confirm_min_atr'' (opt_val (ip_bar_confirm_min_atr p)),
     kv ''bar_confirm_max_atr'' (opt_val (ip_bar_confirm_max_atr p)),
     kv ''etf_option'' (VBool (ip_etf_option p)),
     kv ''es_touch_break'' (VBool (ip_es_touch_break p)), kv ''w5_watch'' (VInt (ip_w5_watch p)),
     kv ''w5_arm'' (VInt (ip_w5_arm p)), kv ''w5_runaway'' (VInt (ip_w5_runaway p)),
     kv ''wolfe_pivot_len'' (VInt (ip_wolfe_pivot_len p)),
     kv ''vsa_impulse_rvol'' (VFloat (ip_vsa_impulse_rvol p)),
     kv ''vsa_fuel_rvol'' (VFloat (ip_vsa_fuel_rvol p)),
     kv ''vsa_pullback_rvol'' (VFloat (ip_vsa_pullback_rvol p)),
     kv ''fuel_range_atr'' (VFloat (ip_fuel_range_atr p)),
     kv ''indian_adx_min'' (VFloat (ip_indian_adx_min p)),
     kv ''indian_volume_mult'' (VFloat (ip_indian_volume_mult p)),
     kv ''indian_extension_atr'' (VFloat (ip_indian_extension_atr p)),
     kv ''stop_pad_atr'' (VFloat (ip_stop_pad_atr p)),
     kv ''target_r_fade'' (VFloat (ip_target_r_fade p)),
     kv ''target_r_transit'' (VFloat (ip_target_r_transit p)),
     kv ''is_futures'' (VBool (ip_is_futures p)), kv ''is_index'' (VBool (ip_is_index p))]"

section \<open>Rounding a price to the increment\<close>

text \<open>\<open>round(x)\<close> without digits is an integer; it raises for infinities and \<open>nan\<close>.\<close>

fun round_to_int :: "pyfloat \<Rightarrow> int res" where
  "round_to_int (Fin r) = Inr (round_half_even r)"
| "round_to_int NaN = Inl (ValueError ''cannot convert float NaN to integer'')"
| "round_to_int _ = Inl OverflowError"

text \<open>A number that is no bool, and \<open>float\<close> of it (which raises for a huge integer).\<close>

definition exact_number :: "pyval \<Rightarrow> pyfloat option res" where
  "exact_number v = (case v of
      VInt n \<Rightarrow> rbind (float_of_int n) (\<lambda>x. Inr (Some x))
    | VFloat x \<Rightarrow> Inr (Some x)
    | _ \<Rightarrow> Inr None)"

definition round_to_tick :: "pyval \<Rightarrow> pyval \<Rightarrow> pyfloat res" where
  "round_to_tick v tick =
    rbind (exact_number tick) (\<lambda>t. (case t of
       None \<Rightarrow> Inl (ValueError ''PRICE_INCREMENT_INVALID'')
     | Some t \<Rightarrow>
        if \<not> isfinite t \<or> fle t (Fin 0) then Inl (ValueError ''PRICE_INCREMENT_INVALID'')
        else rbind (exact_number v) (\<lambda>x. (case x of
           None \<Rightarrow> Inl (ValueError ''PRICE_VALUE_INVALID'')
         | Some x \<Rightarrow>
            if \<not> isfinite x then Inl (ValueError ''PRICE_VALUE_INVALID'')
            else rbind (fdiv x t) (\<lambda>q. rbind (round_to_int q) (\<lambda>n.
              rbind (float_of_int n) (\<lambda>m. Inr (fmul m t))))))))"

definition complete_trade_plan :: "pyfloat option \<Rightarrow> pyfloat option \<Rightarrow> pyfloat option \<Rightarrow> bool" where
  "complete_trade_plan entry stop_price target = (entry \<noteq> None \<and> stop_price \<noteq> None \<and> target \<noteq> None)"

definition maybe_round :: "pyval \<Rightarrow> pyval \<Rightarrow> pyfloat option res" where
  "maybe_round v tick =
    (if v = VNone then Inr None
     else if tick = VNone
     then rbind (exact_number v) (\<lambda>x. (case x of
        None \<Rightarrow> Inl (ValueError ''PRICE_VALUE_INVALID'')
      | Some x \<Rightarrow> if \<not> isfinite x then Inl (ValueError ''PRICE_VALUE_INVALID'')
          else Inr (Some (fround 10 x))))
     else rbind (round_to_tick v tick) (\<lambda>x. Inr (Some x)))"

end
