(* ===== verification/Decision.thy ===== *)
theory Decision
  imports InstrumentProfiles SignalState
begin

text \<open>
  \<open>engine/decision.py\<close>: the decision loop. From the signal candidates of all producers it picks the
  strongest authoritative one, derives and rounds its plan, and answers with a scenario decision: an
  executable plan, or a waiting decision that says why. The context is immutable and the answer is a
  function of it; exceptions of the validators it calls are \<open>Inl\<close>.
\<close>

section \<open>Policy\<close>

definition OPTION_FLOW_TRANSIT_MIN_RVOL :: pyfloat where
  "OPTION_FLOW_TRANSIT_MIN_RVOL = rnd (18 / 10)"

definition OPTION_FLOW_TRANSIT_MAX_OPPOSITE_RATE_RATIO :: pyfloat where
  "OPTION_FLOW_TRANSIT_MAX_OPPOSITE_RATE_RATIO = rnd (125 / 100)"

definition PROJECTED_LEVEL_CONFIDENCE_FACTOR :: pyfloat where
  "PROJECTED_LEVEL_CONFIDENCE_FACTOR = rnd (92 / 100)"

definition DECISION_CONFIDENCE_CAP :: pyfloat where
  "DECISION_CONFIDENCE_CAP = Fin 99"

definition DECISION_ARM_SCORE :: pyfloat where
  "DECISION_ARM_SCORE = Fin 62"

definition DECISION_GO_SCORE :: pyfloat where
  "DECISION_GO_SCORE = Fin 78"

definition MEAN_REVERSION_FADE_WEIGHT :: pyfloat where
  "MEAN_REVERSION_FADE_WEIGHT = rnd (114 / 100)"

definition MEAN_REVERSION_TRANSIT_WEIGHT :: pyfloat where
  "MEAN_REVERSION_TRANSIT_WEIGHT = rnd (82 / 100)"

definition MEAN_REVERSION_WAIT_WEIGHT :: pyfloat where
  "MEAN_REVERSION_WAIT_WEIGHT = rnd (96 / 100)"

definition BREAKOUT_TRANSIT_WEIGHT :: pyfloat where
  "BREAKOUT_TRANSIT_WEIGHT = rnd (112 / 100)"

definition BREAKOUT_FADE_WEIGHT :: pyfloat where
  "BREAKOUT_FADE_WEIGHT = rnd (76 / 100)"

definition BREAKOUT_WAIT_WEIGHT :: pyfloat where
  "BREAKOUT_WAIT_WEIGHT = rnd (95 / 100)"

section \<open>The input\<close>

datatype strategy_mode = Balanced | Breakout | MeanReversion

fun strategy_text :: "strategy_mode \<Rightarrow> string" where
  "strategy_text Balanced = ''balanced''"
| "strategy_text Breakout = ''breakout''"
| "strategy_text MeanReversion = ''mean_reversion''"

record decision_context =
  dc_candidates :: "signal_candidate list"
  dc_bars :: "bar list"
  dc_atr_value :: pyfloat
  dc_strategy_mode :: strategy_mode
  dc_option_flow :: "vdict option"
  dc_instrument_profile :: instrument_profile
  dc_price_increment :: "pyfloat option"

definition chronological :: "bar list \<Rightarrow> bool" where
  "chronological bars = list_all (\<lambda>(p, c). bar_ts p < bar_ts c) (zip bars (tl bars))"

definition context_increment :: "pyval \<Rightarrow> pyfloat option res" where
  "context_increment v =
    (let err = Inl (ValueError ''DecisionContext.price_increment must be a finite positive number'') in
     if v = VNone then Inr None
     else rbind (exact_number v) (\<lambda>x. (case x of
        None \<Rightarrow> err
      | Some x \<Rightarrow> if \<not> isfinite x \<or> fle x (Fin 0) then err else Inr (Some x))))"

definition context_option_flow :: "pyval \<Rightarrow> vdict option res" where
  "context_option_flow v =
    (if v = VNone then Inr None
     else if mapping_items v = None
     then Inl (TypeError ''DecisionContext.option_flow must be a mapping or None'')
     else rbind (domain_frozen_value v ''option_flow'') (\<lambda>typed. (case mapping_items typed of
        None \<Rightarrow> Inl AssertionError | Some d \<Rightarrow> Inr (Some d))))"

text \<open>\<open>DecisionContext.__post_init__\<close>; the members typed by a class are values of their type.\<close>

definition DecisionContext ::
  "signal_candidate list \<Rightarrow> bar list \<Rightarrow> pyval \<Rightarrow> strategy_mode \<Rightarrow> pyval \<Rightarrow> instrument_profile \<Rightarrow> pyval
    \<Rightarrow> decision_context res" where
  "DecisionContext candidates bars atr strategy option_flow profile increment =
    rbind (require (chronological bars)
      (ValueError ''DecisionContext.bars must be strictly chronological and unique'')) (\<lambda>_.
    rbind (exact_number atr) (\<lambda>a. (case a of
        None \<Rightarrow> Inl (TypeError ''DecisionContext.atr_value must be a finite non-negative number'')
      | Some a \<Rightarrow>
         rbind (require (isfinite a \<and> \<not> flt a (Fin 0))
           (ValueError ''DecisionContext.atr_value must be a finite non-negative number'')) (\<lambda>_.
         rbind (context_increment increment) (\<lambda>i.
         rbind (context_option_flow option_flow) (\<lambda>flow.
         Inr \<lparr>dc_candidates = candidates, dc_bars = bars, dc_atr_value = a, dc_strategy_mode = strategy,
           dc_option_flow = flow, dc_instrument_profile = profile, dc_price_increment = i\<rparr>))))))"

section \<open>Option flow\<close>

record flow_veto =
  fv_code :: string
  fv_metrics :: vdict

definition option_flow_number :: "vdict \<Rightarrow> string \<Rightarrow> pyfloat option res" where
  "option_flow_number flow key = rbind (exact_number (vget flow key)) (\<lambda>x. (case x of
      None \<Rightarrow> Inr None
    | Some x \<Rightarrow> Inr (if isfinite x then Some x else None)))"

definition veto :: "string \<Rightarrow> vdict \<Rightarrow> flow_veto option res" where
  "veto code metrics = Inr (Some \<lparr>fv_code = code, fv_metrics = metrics\<rparr>)"

text \<open>The rates: what follows the test of the relative volume.\<close>

definition rate_veto ::
  "pyfloat \<Rightarrow> string \<Rightarrow> pyfloat option \<Rightarrow> pyfloat option \<Rightarrow> flow_veto option res" where
  "rate_veto rvol primary_name primary secondary = (case (primary, secondary) of
      (None, _) \<Rightarrow> veto ''option_flow_invalid'' [kv ''missing'' (VStr primary_name)]
    | (Some _, None) \<Rightarrow> veto ''option_flow_invalid'' [kv ''missing'' (VStr ''opposite_rate_per_minute'')]
    | (Some p, Some s) \<Rightarrow>
       if fle p (Fin 0)
       then veto ''option_primary_rate_not_positive'' [kv primary_name (VFloat p), kv ''option_rvol'' (VFloat rvol)]
       else if flt (fmul p OPTION_FLOW_TRANSIT_MAX_OPPOSITE_RATE_RATIO) s
       then rbind (fdiv s (fmax p (rnd (1 / 10 ^ 9)))) (\<lambda>ratio.
         veto ''option_opposite_rate_dominant'' [kv ''primary_rate_per_minute'' (VFloat p),
           kv ''opposite_rate_per_minute'' (VFloat s), kv ''dominance_ratio'' (VFloat ratio)])
       else Inr None)"

definition option_flow_transit_veto ::
  "direction \<Rightarrow> vdict option \<Rightarrow> flow_veto option res" where
  "option_flow_transit_veto direction option_flow = (case option_flow of
      None \<Rightarrow> Inr None
    | Some flow \<Rightarrow> rbind (option_flow_number flow ''option_rvol'') (\<lambda>rvol. (case rvol of
        None \<Rightarrow> veto ''option_flow_invalid'' [kv ''missing'' (VStr ''option_rvol'')]
      | Some rvol \<Rightarrow>
         if flt rvol OPTION_FLOW_TRANSIT_MIN_RVOL
         then veto ''option_rvol_below_minimum'' [kv ''option_rvol'' (VFloat rvol),
           kv ''minimum_option_rvol'' (VFloat OPTION_FLOW_TRANSIT_MIN_RVOL)]
         else (case direction of
            LONG \<Rightarrow> rbind (option_flow_number flow ''call_rate_per_minute'') (\<lambda>p.
              rbind (option_flow_number flow ''put_rate_per_minute'') (\<lambda>s.
                rate_veto rvol ''call_rate_per_minute'' p s))
          | SHORT \<Rightarrow> rbind (option_flow_number flow ''put_rate_per_minute'') (\<lambda>p.
              rbind (option_flow_number flow ''call_rate_per_minute'') (\<lambda>s.
                rate_veto rvol ''put_rate_per_minute'' p s))
          | FLAT \<Rightarrow> Inr None))))"

section \<open>Prices\<close>

definition directional_price_ok ::
  "direction \<Rightarrow> pyfloat option \<Rightarrow> pyfloat option \<Rightarrow> bool \<Rightarrow> bool" where
  "directional_price_ok direction trigger v target = (case (trigger, v) of
      (Some e, Some x) \<Rightarrow> (case direction of
          SHORT \<Rightarrow> if target then flt x e else flt e x
        | LONG \<Rightarrow> if target then flt e x else flt x e
        | FLAT \<Rightarrow> False)
    | _ \<Rightarrow> False)"

definition complete_coherent_plan ::
  "direction \<Rightarrow> pyfloat option \<Rightarrow> pyfloat option \<Rightarrow> pyfloat option \<Rightarrow> bool" where
  "complete_coherent_plan direction trigger stop_price target = (case (trigger, stop_price, target) of
      (Some e, Some s, Some t) \<Rightarrow> (case direction of
          LONG \<Rightarrow> flt s e \<and> flt e t
        | SHORT \<Rightarrow> flt t e \<and> flt e s
        | FLAT \<Rightarrow> False)
    | _ \<Rightarrow> False)"

definition plan_breached ::
  "iso_parser \<Rightarrow> direction \<Rightarrow> pyfloat option \<Rightarrow> bar \<Rightarrow> pyval \<Rightarrow> bool res" where
  "plan_breached piso direction stop_price latest opened_ts =
    (if stop_price = None then Inr False
     else rbind (parse_aware_utc_ts piso opened_ts) (\<lambda>opened_at.
       let bar_started_after_plan = (bar_closed latest
             \<and> (case opened_at of None \<Rightarrow> False | Some t \<Rightarrow> t < bar_ts latest))
       in rbind (resolve_plan_bar_close_event piso direction stop_price None latest None
             bar_started_after_plan) (\<lambda>e.
         Inr (case e of None \<Rightarrow> False | Some ev \<Rightarrow> ce_state ev \<in> {LcStopHit, LcTrailStop}))))"

section \<open>Ranking\<close>

definition strategy_weight :: "signal_candidate \<Rightarrow> strategy_mode \<Rightarrow> pyfloat" where
  "strategy_weight c mode = (case mode of
      MeanReversion \<Rightarrow> (case sc_kind c of
          KindFade \<Rightarrow> MEAN_REVERSION_FADE_WEIGHT
        | KindTransit \<Rightarrow> MEAN_REVERSION_TRANSIT_WEIGHT
        | KindWait \<Rightarrow> MEAN_REVERSION_WAIT_WEIGHT)
    | Breakout \<Rightarrow> (case sc_kind c of
          KindTransit \<Rightarrow> BREAKOUT_TRANSIT_WEIGHT
        | KindFade \<Rightarrow> BREAKOUT_FADE_WEIGHT
        | KindWait \<Rightarrow> BREAKOUT_WAIT_WEIGHT)
    | Balanced \<Rightarrow> Fin 1)"

definition indicator_reliability_weight :: "signal_candidate \<Rightarrow> pyfloat res" where
  "indicator_reliability_weight c =
    rbind (float_or_none (vget (sc_details c) ''indicator_score_weight'')) (\<lambda>w. (case w of
       None \<Rightarrow> Inr (Fin 1)
     | Some w \<Rightarrow> Inr (fmax (Fin (3 / 4)) (fmin w (Fin (5 / 4))))))"

definition candidate_rank_score :: "signal_candidate \<Rightarrow> strategy_mode \<Rightarrow> pyfloat res" where
  "candidate_rank_score c mode = rbind (indicator_reliability_weight c) (\<lambda>w.
    Inr (fmul (fmul (sc_score c) (strategy_weight c mode)) w))"

text \<open>\<open>max(candidates, key=...)\<close>: the first candidate no later one exceeds.\<close>

fun first_max :: "(pyfloat \<times> 'a) \<Rightarrow> (pyfloat \<times> 'a) list \<Rightarrow> pyfloat \<times> 'a" where
  "first_max b [] = b"
| "first_max b (x # xs) = first_max (if flt (fst b) (fst x) then x else b) xs"

definition best_candidate ::
  "signal_candidate list \<Rightarrow> strategy_mode \<Rightarrow> (pyfloat \<times> signal_candidate) option res" where
  "best_candidate candidates mode =
    rbind (mapM (\<lambda>c. rbind (candidate_rank_score c mode) (\<lambda>r. Inr (r, c))) candidates) (\<lambda>ranked.
      Inr (case ranked of [] \<Rightarrow> None | x # xs \<Rightarrow> Some (first_max x xs)))"

section \<open>Confidence and action\<close>

text \<open>Projected levels carry slightly less confidence than confirmed ones.\<close>

definition decision_confidence :: "pyfloat \<Rightarrow> signal_candidate \<Rightarrow> pyfloat" where
  "decision_confidence rank best =
    (let confidence = fmin rank DECISION_CONFIDENCE_CAP in
     if truthy (vget (sc_details best) ''is_ghost'')
     then fmul confidence PROJECTED_LEVEL_CONFIDENCE_FACTOR else confidence)"

definition score_action :: "pyfloat \<Rightarrow> action_phase" where
  "score_action confidence =
    (if flt confidence DECISION_ARM_SCORE then WATCH
     else if flt confidence DECISION_GO_SCORE then ARM else GO)"

text \<open>The phase the producer reached is a ceiling.\<close>

definition capped_action :: "action_phase option \<Rightarrow> action_phase \<Rightarrow> action_phase" where
  "capped_action producer_phase action =
    (if producer_phase \<in> {Some CANDIDATE, Some WATCH} then WATCH
     else if producer_phase = Some ARM \<and> action = GO then ARM else action)"

section \<open>The plan of the chosen candidate\<close>

record draft_plan =
  dp_trigger :: "pyfloat option"
  dp_stop :: "pyfloat option"
  dp_target :: "pyfloat option"
  dp_invalidation :: "pyfloat option"

text \<open>Stop and target from the last bars, for a direction.\<close>

definition derived_plan ::
  "decision_context \<Rightarrow> signal_candidate \<Rightarrow> pyfloat \<Rightarrow> pyfloat option \<Rightarrow> draft_plan res" where
  "derived_plan ctx best increment trigger =
    (let bars = dc_bars ctx; latest = last bars; profile = dc_instrument_profile ctx;
         prior = (if 1 < length bars then last (butlast bars) else latest);
         is_fade = (sc_kind best = KindFade); d = sc_direction best
     in rbind (calculate_stop_distance profile (dc_atr_value ctx) increment) (\<lambda>risk_pad.
          let e = (case trigger of Some x \<Rightarrow> x | None \<Rightarrow> bar_close latest);
              with_stop = (\<lambda>inv. \<lparr>dp_trigger = Some e, dp_stop = Some inv,
                dp_target = Some (calculate_target_price profile (direction_text d) e inv is_fade),
                dp_invalidation = Some inv\<rparr>)
          in Inr (case d of
               SHORT \<Rightarrow> with_stop (fadd (fmax (bar_high prior) e) risk_pad)
             | LONG \<Rightarrow> with_stop (fsub (fmin (bar_low prior) e) risk_pad)
             | FLAT \<Rightarrow> \<lparr>dp_trigger = trigger, dp_stop = None, dp_target = None, dp_invalidation = None\<rparr>)))"

text \<open>Prices the candidate brings itself replace the derived ones where they fit its direction.\<close>

definition prefer_details ::
  "direction \<Rightarrow> pyfloat option \<Rightarrow> pyfloat option \<Rightarrow> pyfloat option \<Rightarrow> draft_plan \<Rightarrow> draft_plan" where
  "prefer_details d details_stop details_invalidation details_target p =
    (let e = dp_trigger p in
     p\<lparr>dp_stop := (if directional_price_ok d e details_stop False then details_stop else dp_stop p),
       dp_invalidation := (if directional_price_ok d e details_invalidation False
         then details_invalidation else dp_invalidation p),
       dp_target := (if directional_price_ok d e details_target True
         then details_target else dp_target p)\<rparr>)"

definition raw_plan :: "decision_context \<Rightarrow> signal_candidate \<Rightarrow> draft_plan res" where
  "raw_plan ctx best =
    (let number = (\<lambda>k. float_or_none (vget (sc_details best) k)) in
     rbind (number ''trigger'') (\<lambda>details_trigger.
     rbind (number ''stop'') (\<lambda>details_stop.
     rbind (number ''invalid'') (\<lambda>details_invalidation.
     rbind (number ''target'') (\<lambda>details_target.
     let own_stop = (if details_stop = None then details_invalidation else details_stop);
         trigger = (if details_trigger \<noteq> None then details_trigger else sc_level best)
     in if sc_kind best \<noteq> KindWait \<and> dc_bars ctx \<noteq> []
        then (case dc_price_increment ctx of
            None \<Rightarrow> Inl AssertionError
          | Some i \<Rightarrow> rbind (derived_plan ctx best i trigger) (\<lambda>p.
              Inr (prefer_details (sc_direction best) own_stop details_invalidation details_target p)))
        else Inr \<lparr>dp_trigger = trigger, dp_stop = None, dp_target = None, dp_invalidation = None\<rparr>)))))"

definition round_price_to_tick :: "pyfloat \<Rightarrow> pyfloat option \<Rightarrow> pyfloat option res" where
  "round_price_to_tick tick price = (case price of
      None \<Rightarrow> Inr None
    | Some x \<Rightarrow> rbind (round_to_tick (VFloat x) (VFloat tick)) (\<lambda>r. Inr (Some r)))"

definition round_plan :: "direction \<Rightarrow> pyfloat option \<Rightarrow> draft_plan \<Rightarrow> draft_plan res" where
  "round_plan d increment p = (case increment of
      Some i \<Rightarrow> if d = FLAT then Inr p
        else rbind (round_price_to_tick i (dp_trigger p)) (\<lambda>e.
          rbind (round_price_to_tick i (dp_stop p)) (\<lambda>s.
          rbind (round_price_to_tick i (dp_target p)) (\<lambda>t.
          rbind (round_price_to_tick i (dp_invalidation p)) (\<lambda>v.
            Inr \<lparr>dp_trigger = e, dp_stop = s, dp_target = t, dp_invalidation = v\<rparr>))))
    | None \<Rightarrow> Inr p)"

section \<open>The decision\<close>

definition waiting_decision ::
  "action_phase \<Rightarrow> string \<Rightarrow> domain_fact \<Rightarrow> string list \<Rightarrow> vdict \<Rightarrow> scenario_decision res" where
  "waiting_decision action source trigger_event reason_codes metrics =
    ScenarioDecision (VEnum ''ScenarioKind'' (kind_text KindWait)) (VEnum ''Direction'' (direction_text FLAT))
      (VFloat (Fin 0)) (VEnum ''ActionPhase'' (phase_text action)) VNone VNone VNone VNone
      (fact_value trigger_event) (VList []) source (VList (map VStr reason_codes)) (VDict metrics)"

definition planned_decision ::
  "signal_candidate \<Rightarrow> pyfloat \<Rightarrow> action_phase \<Rightarrow> string \<Rightarrow> string list \<Rightarrow> vdict \<Rightarrow> draft_plan
    \<Rightarrow> scenario_decision res" where
  "planned_decision best confidence action source reason_codes metrics p =
    ScenarioDecision (VEnum ''ScenarioKind'' (kind_text (sc_kind best)))
      (VEnum ''Direction'' (direction_text (sc_direction best))) (VFloat confidence)
      (VEnum ''ActionPhase'' (phase_text action)) (opt_val (dp_trigger p)) (opt_val (dp_stop p))
      (opt_val (dp_target p)) (opt_val (dp_invalidation p)) (fact_value (sc_trigger_event best)) (VList [])
      source (VList (map VStr reason_codes)) (VDict metrics)"

definition decision_metrics ::
  "decision_context \<Rightarrow> signal_candidate \<Rightarrow> pyfloat \<Rightarrow> vdict" where
  "decision_metrics ctx best confidence =
    [kv ''candidate_score'' (VFloat (sc_score best)), kv ''rank_score'' (VFloat confidence),
     kv ''strategy_mode'' (VStr (strategy_text (dc_strategy_mode ctx))),
     kv ''score_action'' (VStr (phase_text (score_action confidence))),
     kv ''producer_phase'' (case sc_producer_phase best of None \<Rightarrow> VNone | Some p \<Rightarrow> VStr (phase_text p)),
     kv ''price_increment'' (opt_val (dc_price_increment ctx))]"

definition candidate_opened_ts :: "signal_candidate \<Rightarrow> pyval" where
  "candidate_opened_ts best =
    (let ts = vget (sc_details best) ''ts'' in
     if ts \<noteq> VNone then ts
     else case mapping_items (vget (sc_details best) ''trade_plan'') of
       None \<Rightarrow> VNone | Some plan \<Rightarrow> vget plan ''opened_ts'')"

text \<open>From the rounded plan on: the gates in the order of the code, then the decision.\<close>

definition gate_plan ::
  "iso_parser \<Rightarrow> decision_context \<Rightarrow> signal_candidate \<Rightarrow> pyfloat \<Rightarrow> action_phase \<Rightarrow> string \<Rightarrow> string list
    \<Rightarrow> vdict \<Rightarrow> draft_plan \<Rightarrow> scenario_decision res" where
  "gate_plan piso ctx best confidence action source reason_codes metrics p =
    (let d = sc_direction best; event = sc_trigger_event best in
     if sc_kind best = KindWait
     then waiting_decision WAIT source event (reason_codes @ [''missing_actionable_scenario_kind'']) metrics
     else if \<not> complete_coherent_plan d (dp_trigger p) (dp_stop p) (dp_target p)
     then waiting_decision WAIT source event (reason_codes @ [''incomplete_or_incoherent_trade_plan'']) metrics
     else rbind (if sc_kind best = KindTransit \<and> action = GO
                 then option_flow_transit_veto d (dc_option_flow ctx) else Inr None) (\<lambda>flow.
       case flow of
         Some v \<Rightarrow> waiting_decision WAIT source event (reason_codes @ [fv_code v])
           (dmerge metrics (fv_metrics v))
       | None \<Rightarrow>
          rbind (if dc_bars ctx \<noteq> [] \<and> dp_stop p \<noteq> None
                 then plan_breached piso d (dp_stop p) (last (dc_bars ctx)) (candidate_opened_ts best)
                 else Inr False) (\<lambda>breached.
            if breached
            then waiting_decision WAIT source event (reason_codes @ [''plan_stop_breached''])
              (vset ''stop'' (opt_val (dp_stop p)) metrics)
            else planned_decision best confidence action source reason_codes metrics p)))"

definition decision_action :: "pyfloat \<Rightarrow> signal_candidate \<Rightarrow> action_phase" where
  "decision_action rank best =
    capped_action (sc_producer_phase best) (score_action (decision_confidence rank best))"

definition decision_source :: "signal_candidate \<Rightarrow> string" where
  "decision_source best = (if sc_source best \<noteq> [] then sc_source best else sc_name best)"

definition mode_codes :: "decision_context \<Rightarrow> signal_candidate \<Rightarrow> string list" where
  "mode_codes ctx best = [sc_reason_code best, ''strategy_mode_'' @ strategy_text (dc_strategy_mode ctx)]"

definition decision_codes :: "decision_context \<Rightarrow> pyfloat \<Rightarrow> signal_candidate \<Rightarrow> string list" where
  "decision_codes ctx rank best = mode_codes ctx best
    @ (if decision_action rank best \<noteq> score_action (decision_confidence rank best)
       then [''producer_phase_ceiling''] else [])"

definition increment_unavailable :: "decision_context \<Rightarrow> signal_candidate \<Rightarrow> scenario_decision res" where
  "increment_unavailable ctx best =
    rbind (DomainFact (VStr ''price_increment_unavailable'')
      (VDict [kv ''candidate'' (VStr (sc_name best))])) (\<lambda>event.
      waiting_decision BLOCK (decision_source best) event
        (mode_codes ctx best @ [''price_increment_unavailable''])
        [kv ''price_increment_available'' (VBool False)])"

definition decide_best ::
  "iso_parser \<Rightarrow> decision_context \<Rightarrow> pyfloat \<Rightarrow> signal_candidate \<Rightarrow> scenario_decision res" where
  "decide_best piso ctx rank best =
    (if sc_kind best \<noteq> KindWait \<and> dc_price_increment ctx = None then increment_unavailable ctx best
     else rbind (raw_plan ctx best) (\<lambda>raw.
       rbind (round_plan (sc_direction best) (dc_price_increment ctx) raw) (\<lambda>p.
         gate_plan piso ctx best (decision_confidence rank best) (decision_action rank best)
           (decision_source best) (decision_codes ctx rank best)
           (decision_metrics ctx best (decision_confidence rank best)) p)))"

definition no_candidate_decision :: "scenario_decision res" where
  "no_candidate_decision = rbind (DomainFact (VStr ''no_candidate'') (VDict [])) (\<lambda>event.
    waiting_decision WAIT ''decision'' event [''no_candidate''] [])"

definition choose_decision :: "iso_parser \<Rightarrow> decision_context \<Rightarrow> scenario_decision res" where
  "choose_decision piso ctx =
    rbind (best_candidate (filter decision_authoritative (dc_candidates ctx)) (dc_strategy_mode ctx)) (\<lambda>b.
      case b of None \<Rightarrow> no_candidate_decision | Some (rank, best) \<Rightarrow> decide_best piso ctx rank best)"

end
