(* ===== verification/InstrumentLaws.thy ===== *)
theory InstrumentLaws
  imports InstrumentProfiles FloatBounds
begin

text \<open>
  Facts about \<^theory_text>\<open>InstrumentProfiles\<close>: the table of profiles, the choice of a profile, the
  distance of stops, and the rounding of prices to the increment.
\<close>

section \<open>Comparing decimal literals\<close>

lemma rnd_near: "0 \<le> x \<Longrightarrow> x \<le> 1000 \<Longrightarrow> \<exists>r. rnd x = Fin r \<and> \<bar>r - x\<bar> \<le> 1 / 1000000"
proof -
  assume x: "0 \<le> x" "x \<le> 1000"
  then have "fbnd 10 (rnd x)" by (intro fbnd_rnd) auto
  then obtain r where r: "rnd x = Fin r" by (rule fbndE)
  then have v: "rnd_val x = r" by (simp add: rnd_Fin_iff)
  have "\<bar>rnd_val x - x\<bar> \<le> 1 / 1000000"
  proof (cases "x = 0")
    case False
    with x have x0: "0 < x" by simp
    have "x < pow2 10" using x by simp
    with ilog2_bounds(1) [OF x0] have "pow2 (ilog2 x) < pow2 10" by linarith
    then have "ilog2 x < 10" by (simp only: pow2_less_iff)
    then have "ulp_exp x \<le> - 40" using x0 by (simp add: ulp_exp_def)
    then have "pow2 (ulp_exp x) \<le> pow2 (- 40)" by (simp only: pow2_le_iff)
    moreover have "pow2 (- 40) \<le> 1 / 1000000" by (simp add: power_int_minus)
    ultimately have "pow2 (ulp_exp x) \<le> 1 / 1000000" by (rule order_trans)
    with rnd_val_error [of x] pow2_pos [of "ulp_exp x"] show ?thesis by linarith
  qed simp
  with r v show ?thesis by auto
qed

lemma rnd_apart [simp]:
  "0 \<le> x \<Longrightarrow> y \<le> 1000 \<Longrightarrow> x + 1 / 1000 \<le> y \<Longrightarrow> flt (rnd x) (rnd y)"
  "0 \<le> x \<Longrightarrow> y \<le> 1000 \<Longrightarrow> x + 1 / 1000 \<le> y \<Longrightarrow> flt (Fin x) (rnd y)"
  "0 \<le> x \<Longrightarrow> y \<le> 1000 \<Longrightarrow> x + 1 / 1000 \<le> y \<Longrightarrow> flt (rnd x) (Fin y)"
proof -
  assume h: "0 \<le> x" "y \<le> 1000" "x + 1 / 1000 \<le> y"
  have "x \<le> 1000" "0 \<le> y" using h by linarith+
  with h obtain r s where r: "rnd x = Fin r" "\<bar>r - x\<bar> \<le> 1 / 1000000"
    and s: "rnd y = Fin s" "\<bar>s - y\<bar> \<le> 1 / 1000000"
    using rnd_near [of x] rnd_near [of y] by blast
  from r(2) s(2) have "r < x + 1 / 2000" "y - 1 / 2000 < s" by linarith+
  with h(3) have "r < s" "x < s" "r < y" by linarith+
  then show "flt (rnd x) (rnd y)" "flt (Fin x) (rnd y)" "flt (rnd x) (Fin y)"
    by (simp_all only: r(1) s(1) flt.simps)
qed

section \<open>The table\<close>

text \<open>The thresholds of an indicator are ordered, pads and reward multiples positive.\<close>

definition profile_ok :: "instrument_profile \<Rightarrow> bool" where
  "profile_ok p \<longleftrightarrow> ip_w5_watch p < ip_w5_arm p \<and> ip_w5_arm p < ip_w5_runaway p
     \<and> flt (ip_vsa_pullback_rvol p) (ip_vsa_impulse_rvol p) \<and> flt (ip_vsa_impulse_rvol p) (ip_vsa_fuel_rvol p)
     \<and> flt (Fin 0) (ip_tick_size p) \<and> flt (Fin 0) (ip_stop_pad_atr p) \<and> flt (ip_stop_pad_atr p) (Fin 1)
     \<and> flt (Fin 1) (ip_target_r_fade p) \<and> flt (ip_target_r_fade p) (ip_target_r_transit p)
     \<and> flt (ip_target_r_transit p) (Fin 3)"

lemmas profile_defs = profile_crypto_def profile_es_def profile_spy_def profile_qqq_def
  profile_spx_index_def profile_equity_stock_def profile_future_def profile_gold_def profile_oil_def
  profile_custom_def

lemma profiles_ok: "list_all (\<lambda>(k, p). ip_key p = k \<and> profile_ok p) PROFILES"
  by (simp add: PROFILES_def profile_ok_def InstrumentProfile_def profile_defs)

lemma profile_keys: "map fst PROFILES = [''CRYPTO'', ''ES'', ''SPY'', ''QQQ'', ''SPX_INDEX'',
    ''EQUITY_STOCK'', ''FUTURE'', ''GOLD'', ''OIL'', ''CUSTOM'']"
  by (simp add: PROFILES_def)

lemma profile_found: "dget PROFILES k = Some p \<Longrightarrow> ip_key p = k \<and> profile_ok p"
  using profiles_ok by (auto simp: dget_def list_all_iff dest!: map_of_SomeD)

lemma known_profile: "k \<in> set (map fst PROFILES) \<Longrightarrow> \<exists>p. dget PROFILES k = Some p"
  by (metis dget_def map_of_eq_None_iff not_None_eq set_map)

lemma instrument_key_profile:
  "dget PROFILE_BY_INSTRUMENT_KEY key = Some k \<Longrightarrow> k \<in> set (map fst PROFILES)"
  unfolding profile_keys dget_def
  by (drule map_of_SomeD) (auto simp: PROFILE_BY_INSTRUMENT_KEY_def)

lemma asset_class_profile: "dget_default PROFILE_BY_ASSET_CLASS c ''CUSTOM'' \<in> set (map fst PROFILES)"
  unfolding profile_keys by (auto simp: dget_default_def PROFILE_BY_ASSET_CLASS_def)

section \<open>Choice of a profile\<close>

text \<open>Every row the identity gate admits gets a profile unless it names an unknown one: the
  choice succeeds exactly when no profile is configured or the configured name is in the table, the
  only refusal is the unknown name, and the profile is the one configured (if any), is registered
  under its own key and has ordered thresholds and sensible multiples.\<close>

theorem profile_choice_is_total:
  assumes "require_provider_identity i None = Inr q" and "name = configured_profile pystr q"
  shows "(is_ok (resolve_instrument_profile pystr i) \<longleftrightarrow> name = [] \<or> name \<in> set (map fst PROFILES))
    \<and> (case resolve_instrument_profile pystr i of
        Inl e \<Rightarrow> e = ValueError (''INSTRUMENT_PROFILE_UNKNOWN profile='' @ name
          @ '' instrument_key='' @ instrument_key (Some q))
      | Inr p \<Rightarrow> profile_ok p \<and> dget PROFILES (ip_key p) = Some p \<and> (name \<noteq> [] \<longrightarrow> ip_key p = name))"
proof (cases "name = []")
  case True
  define k where "k = (case dget PROFILE_BY_INSTRUMENT_KEY (instrument_key (Some q)) of Some k \<Rightarrow> k
    | None \<Rightarrow> dget_default PROFILE_BY_ASSET_CLASS (instrument_asset_class (Some q)) ''CUSTOM'')"
  have "k \<in> set (map fst PROFILES)"
    unfolding k_def using instrument_key_profile asset_class_profile by (auto split: option.splits)
  then obtain p where p: "dget PROFILES k = Some p" using known_profile by blast
  then have "resolve_instrument_profile pystr i = Inr p"
    using True assms by (simp add: resolve_instrument_profile_def Let_def k_def)
  with True p profile_found [OF p] show ?thesis by (simp add: is_ok_def)
next
  case False
  show ?thesis
  proof (cases "dget PROFILES name")
    case None
    then have "name \<notin> set (map fst PROFILES)" using known_profile by fastforce
    with None False assms show ?thesis
      by (simp add: resolve_instrument_profile_def Let_def is_ok_def)
  next
    case (Some p)
    then have "name \<in> set (map fst PROFILES)"
      by (auto simp: dget_def dest: map_of_SomeD intro: rev_image_eqI)
    with Some False assms profile_found [OF Some] show ?thesis
      by (simp add: resolve_instrument_profile_def Let_def is_ok_def)
  qed
qed

section \<open>Stop distance\<close>

lemma fmax_upper: "a \<noteq> NaN \<Longrightarrow> b \<noteq> NaN \<Longrightarrow> fle a (fmax a b) \<and> fle b (fmax a b)"
  by (cases a; cases b) (auto simp: fmax_def)

lemma fmul_not_NaN: "isfinite a \<Longrightarrow> isfinite b \<Longrightarrow> fmul a b \<noteq> NaN"
  by (cases a; cases b) auto

lemma fmax_not_NaN: "a \<noteq> NaN \<Longrightarrow> b \<noteq> NaN \<Longrightarrow> fmax a b \<noteq> NaN"
  by (simp add: fmax_def)

lemma doubled_positive:
  assumes "fl_ok (Fin i)" "0 < i"
  shows "flt (Fin 0) (fmul (Fin i) (Fin 2))"
proof -
  have "fle (rnd i) (rnd (i * 2))" using assms by (intro rnd_mono) simp
  with assms show ?thesis using flt_fle_trans [of "Fin 0" "Fin i"] by simp
qed

definition stop_floors :: "instrument_profile \<Rightarrow> pyfloat \<Rightarrow> pyfloat \<Rightarrow> pyfloat list" where
  "stop_floors p atr inc = [fmul (fmax atr (Fin 0)) (ip_stop_pad_atr p), fmul inc (Fin 2)]
     @ (if ip_is_futures p then [fmul (fmax atr (Fin 0)) (rnd (28 / 100)), fmul inc (Fin 8)] else [])"

lemma stop_floors_not_NaN:
  assumes "profile_ok p" "isfinite atr" "isfinite inc" "x \<in> set (stop_floors p atr inc)"
  shows "x \<noteq> NaN"
proof -
  have pad: "isfinite (ip_stop_pad_atr p)"
    using assms(1) by (cases "ip_stop_pad_atr p") (auto simp: profile_ok_def)
  have a: "isfinite (fmax atr (Fin 0))" using assms(2) by (simp add: fmax_def)
  have c: "isfinite (rnd (28 / 100))" using rnd_near [of "28 / 100"] by auto
  show ?thesis
    using assms(4) fmul_not_NaN [OF a pad] fmul_not_NaN [OF a c] fmul_not_NaN [OF assms(3), of "Fin 2"]
      fmul_not_NaN [OF assms(3), of "Fin 8"] by (auto simp: stop_floors_def split: if_splits)
qed

lemma fmax_is_least:
  assumes "\<forall>x \<in> set (a # xs). x \<noteq> NaN"
  shows "foldl fmax a xs \<in> set (a # xs)" and "\<forall>x \<in> set (a # xs). fle x (foldl fmax a xs)"
proof -
  show "foldl fmax a xs \<in> set (a # xs)"
    by (induction xs arbitrary: a) (auto simp: fmax_def split: if_splits)
  show "\<forall>x \<in> set (a # xs). fle x (foldl fmax a xs)"
    using assms
  proof (induction xs arbitrary: a)
    case Nil
    then show ?case by (simp add: fle_refl)
  next
    case (Cons b xs)
    then have n: "a \<noteq> NaN" "b \<noteq> NaN" by auto
    from Cons.prems have "\<forall>x \<in> set (fmax a b # xs). x \<noteq> NaN" by (auto simp: fmax_def)
    from Cons.IH [OF this] show ?case
      using fmax_upper [OF n] by (auto intro: fle_trans)
  qed
qed

text \<open>The padding of a stop is the least distance that respects every floor: with finite
  inputs and a positive representable increment it is computed without exception, it is positive, at
  least the profile's share of the average true range and two increments (for futures also 0.28 of
  the range and eight increments), and equal to one of these.\<close>

theorem stop_distance_is_least_floor:
  assumes "profile_ok p" "isfinite atr" "fl_ok (Fin i)" "0 < i"
  shows "\<exists>d. calculate_stop_distance p atr (Fin i) = Inr d \<and> flt (Fin 0) d
    \<and> d \<in> set (stop_floors p atr (Fin i)) \<and> (\<forall>x \<in> set (stop_floors p atr (Fin i)). fle x d)"
proof -
  have n: "\<forall>x \<in> set (stop_floors p atr (Fin i)). x \<noteq> NaN"
    using stop_floors_not_NaN [OF assms(1,2), of "Fin i"] by auto
  obtain a xs where f: "stop_floors p atr (Fin i) = a # xs" by (simp add: stop_floors_def)
  have d: "calculate_stop_distance p atr (Fin i) = Inr (foldl fmax a xs)"
    using f assms(4) by (auto simp: calculate_stop_distance_def stop_floors_def Let_def)
  have "fmul (Fin i) (Fin 2) \<in> set (a # xs)" unfolding f [symmetric] by (simp add: stop_floors_def)
  then have "fle (fmul (Fin i) (Fin 2)) (foldl fmax a xs)"
    using fmax_is_least(2) [of a xs] n unfolding f by blast
  with doubled_positive [OF assms(3,4)] have "flt (Fin 0) (foldl fmax a xs)" by (rule flt_fle_trans)
  with d fmax_is_least [of a xs] n show ?thesis unfolding f by blast
qed

section \<open>Rounding to the increment\<close>

lemma round_to_tick_floats:
  assumes "0 < t"
  shows "round_to_tick (VFloat (Fin v)) (VFloat (Fin t)) =
    rbind (round_to_int (rnd (v / t))) (\<lambda>n. rbind (float_of_int n) (\<lambda>m. Inr (fmul m (Fin t))))"
  using assms by (simp add: round_to_tick_def exact_number_def)

lemma round_to_tick_Inr:
  assumes "0 < t" "round_to_tick (VFloat (Fin v)) (VFloat (Fin t)) = Inr x"
  obtains q m where "rnd (v / t) = Fin q" "rnd (of_int (round_half_even q)) = Fin m" "x = rnd (m * t)"
proof -
  from assms obtain n y where n: "round_to_int (rnd (v / t)) = Inr n" "float_of_int n = Inr y"
    "x = fmul y (Fin t)" by (auto simp: round_to_tick_floats rbind_Inr_iff)
  obtain q where "rnd (v / t) = Fin q" "n = round_half_even q"
    using n(1) by (cases "rnd (v / t)") auto
  moreover obtain m where "rnd (of_int n) = Fin m" "y = Fin m"
    using n(2) by (auto simp: float_of_int_def split: pyfloat.splits)
  ultimately show thesis using that n(3) by simp
qed

lemma round_to_tick_mono:
  assumes t: "0 < t" and "v \<le> w"
    and x: "round_to_tick (VFloat (Fin v)) (VFloat (Fin t)) = Inr x"
    and y: "round_to_tick (VFloat (Fin w)) (VFloat (Fin t)) = Inr y"
  shows "fle x y"
proof -
  obtain q m where q: "rnd (v / t) = Fin q" "rnd (of_int (round_half_even q)) = Fin m" "x = rnd (m * t)"
    using x t by (blast elim: round_to_tick_Inr)
  obtain q' m' where q': "rnd (w / t) = Fin q'" "rnd (of_int (round_half_even q')) = Fin m'" "y = rnd (m' * t)"
    using y t by (blast elim: round_to_tick_Inr)
  have "fle (rnd (v / t)) (rnd (w / t))" using assms by (intro rnd_mono divide_right_mono) auto
  then have "round_half_even q \<le> round_half_even q'" using q q' by (simp add: rhe_mono)
  then have "fle (rnd (of_int (round_half_even q))) (rnd (of_int (round_half_even q')))"
    by (intro rnd_mono) simp
  then have "m * t \<le> m' * t" using q q' t by (simp add: mult_right_mono)
  then show ?thesis using q q' by (simp add: rnd_mono)
qed

lemma round_to_tick_multiple:
  assumes "0 < t" "\<bar>n\<bar> \<le> 2 ^ 53" "fl_ok (Fin (of_int n * t))"
  shows "round_to_tick (VFloat (Fin (of_int n * t))) (VFloat (Fin t)) = Inr (Fin (of_int n * t))"
  using assms rnd_of_int [OF assms(2)]
  by (simp add: round_to_tick_floats float_of_int_def)

lemma round_to_tick_near:
  assumes t: "0 < t" and v: "\<bar>v\<bar> \<le> 2 ^ 52 * t"
    and x: "round_to_tick (VFloat (Fin v)) (VFloat (Fin t)) = Inr x"
  shows "\<exists>n. x = rnd (of_int n * t) \<and> \<bar>of_int n * t - v\<bar> \<le> t"
proof -
  obtain q m where q: "rnd (v / t) = Fin q" "rnd (of_int (round_half_even q)) = Fin m" "x = rnd (m * t)"
    using x t by (blast elim: round_to_tick_Inr)
  have vt: "\<bar>v / t\<bar> \<le> 2 ^ 52" using v t by (simp add: divide_le_eq)
  have "\<bar>rnd_val (v / t)\<bar> \<le> 2 ^ 52" using vt by (rule rnd_val_bound)
  then have "\<bar>q\<bar> \<le> 2 ^ 52" using q(1) by (simp add: rnd_Fin_iff)
  then have n: "\<bar>round_half_even q\<bar> \<le> 2 ^ 52" by (rule round_half_even_bound)
  then have m: "m = of_int (round_half_even q)"
    using q(2) rnd_of_int [of "round_half_even q"] by simp
  have "ulp_exp (v / t) \<le> 0"
  proof (cases "v / t = 0")
    case False
    have "pow2 (ilog2 \<bar>v / t\<bar>) \<le> \<bar>v / t\<bar>" using False by (intro ilog2_bounds) simp
    with vt have "pow2 (ilog2 \<bar>v / t\<bar>) \<le> pow2 52" by simp
    then show ?thesis by (simp only: pow2_le_iff ulp_exp_def)
  next
    case True
    have "ulp_exp 0 \<le> 0" by (simp add: ulp_exp_def ilog2_def Let_def bitlen_alt_def)
    then show ?thesis by (simp only: True)
  qed
  then have "pow2 (ulp_exp (v / t)) \<le> pow2 0" by (simp only: pow2_le_iff)
  then have "\<bar>q - v / t\<bar> \<le> 1 / 2" using rnd_val_error [of "v / t"] q(1) by (simp add: rnd_Fin_iff)
  with rhe_abs [of q] have "\<bar>m - v / t\<bar> \<le> 1" unfolding m by linarith
  then have "\<bar>m - v / t\<bar> * t \<le> 1 * t" using t by (intro mult_right_mono) auto
  moreover have "m * t - v = (m - v / t) * t" using t by (simp add: left_diff_distrib)
  ultimately have "\<bar>m * t - v\<bar> \<le> t" using t by (simp add: abs_mult)
  then show ?thesis using q(3) m by blast
qed

text \<open>C40: Rounding to the price increment is sound: it keeps the order of prices, leaves every
  representable multiple of the increment as it is, and moves a price of up to 2^52 increments by
  at most one increment, to the float nearest to a multiple of it.\<close>

theorem tick_rounding_is_sound:
  assumes "0 < t" "v \<le> w" "\<bar>v\<bar> \<le> 2 ^ 52 * t" "\<bar>n\<bar> \<le> 2 ^ 53" "fl_ok (Fin (of_int n * t))"
    and "round_to_tick (VFloat (Fin v)) (VFloat (Fin t)) = Inr x"
    and "round_to_tick (VFloat (Fin w)) (VFloat (Fin t)) = Inr y"
  shows "fle x y
    \<and> round_to_tick (VFloat (Fin (of_int n * t))) (VFloat (Fin t)) = Inr (Fin (of_int n * t))
    \<and> (\<exists>k. x = rnd (of_int k * t) \<and> \<bar>of_int k * t - v\<bar> \<le> t)"
  using round_to_tick_mono [OF assms(1,2,6,7)] round_to_tick_multiple [OF assms(1,4,5)]
    round_to_tick_near [OF assms(1,3,6)] by blast

section \<open>Witnesses\<close>

lemma example_unconfigured: "configured_profile pystr (example_contract_row symbol) = []"
  by (simp add: configured_profile_def example_contract_row_def vget_def py_strip_def py_lstrip_def
      py_upper_def)

theorem profile_choice_is_total_witness:
  "is_ok (resolve_instrument_profile (\<lambda>_. []) (Some (example_contract_row ''AAPL'')))"
  using profile_choice_is_total [OF example_contract_admitted [of "''AAPL''"] refl, of "\<lambda>_. []"]
  by (simp add: example_unconfigured)

lemma example_profile_ok: "profile_ok profile_es"
  using profile_found [of "''ES''" profile_es] by (simp add: PROFILES_def dget_def)

lemma quarter: "rnd (numeral k / 4) = Fin (numeral k / 4)" if "numeral k \<le> (2 ^ 53 :: int)"
proof (rule rnd_exact [of _ "numeral k" "- 2"])
  have "(numeral k :: rat) \<le> 2 ^ 53" using that by (metis of_int_le_iff of_int_numeral of_int_power)
  moreover have "(2 ^ 53 :: rat) < 2 ^ 1024" by (rule power_strict_increasing) simp_all
  moreover have "0 \<le> (numeral k :: rat)" by simp
  ultimately show "\<bar>numeral k / 4 :: rat\<bar> < 2 ^ 1024" by linarith
qed (use that in \<open>simp_all add: power_int_minus\<close>)

lemma one_quarter: "rnd (1 / 4) = Fin (1 / 4)"
  by (rule rnd_exact [of _ 1 "- 2"]) (simp_all add: power_int_minus)

theorem stop_distance_is_least_floor_witness:
  "\<exists>d. calculate_stop_distance profile_es (Fin 2) (Fin (1 / 4)) = Inr d \<and> flt (Fin 0) d
     \<and> fle (Fin 2) d"
proof -
  obtain d where d: "calculate_stop_distance profile_es (Fin 2) (Fin (1 / 4)) = Inr d" "flt (Fin 0) d"
    "\<forall>x \<in> set (stop_floors profile_es (Fin 2) (Fin (1 / 4))). fle x d"
    using stop_distance_is_least_floor [OF example_profile_ok, of "Fin 2" "1 / 4"] by (auto simp: one_quarter)
  have "Fin 2 \<in> set (stop_floors profile_es (Fin 2) (Fin (1 / 4)))"
    by (simp add: stop_floors_def profile_es_def)
  with d show ?thesis by blast
qed

theorem tick_rounding_is_sound_witness:
  "fle (Fin (201 / 2)) (Fin 101)"
  using tick_rounding_is_sound [of "1 / 4" "803 / 8" 101 5 "Fin (201 / 2)" "Fin 101"]
  by (simp add: round_to_tick_floats float_of_int_def quarter round_half_even_def Let_def)

end
