(* ===== verification/DecisionLaws.thy ===== *)
theory DecisionLaws
  imports Decision InstrumentLaws SignalLaws
begin

text \<open>
  What the decision loop promises: an actionable decision is a coherent, rounded plan of the
  strongest authoritative candidate that passed every gate; a waiting decision carries no plan; and
  within ordinary magnitudes the loop always answers.
\<close>

section \<open>Building the answer\<close>

lemma require_member_text [simp]:
  "parse s = Some m \<Longrightarrow> require_member cls parse (VEnum cls s) msg = Inr m"
  by (simp add: require_member_def member_of_def)

lemma finite_optional_opt_val:
  "finite_optional_domain_number (opt_val x) n =
    (if price_ok x then Inr x else Inl (ValueError (n @ '' must be a finite number'')))"
  by (cases x) (auto simp: finite_optional_domain_number_def finite_domain_number_def opt_val_def
      price_ok_def)

lemma finite_optional_None: "finite_optional_domain_number VNone n = Inr None"
  by (simp add: finite_optional_domain_number_def)

lemma require_fact_value [simp]: "require_fact (fact_value f) msg = Inr f"
  by (cases f) (simp add: fact_value_def)

text \<open>An answer that was built has the fields it was built from.\<close>

lemma ScenarioDecision_fields:
  assumes "ScenarioDecision (VEnum ''ScenarioKind'' (kind_text k)) (VEnum ''Direction'' (direction_text d))
    (VFloat c) (VEnum ''ActionPhase'' (phase_text a)) (opt_val e) (opt_val s) (opt_val t) (opt_val i)
    event reasons source codes metrics = Inr r"
  shows "sd_kind r = k \<and> sd_direction r = d \<and> sd_confidence r = c \<and> sd_action r = a
    \<and> sd_trigger r = e \<and> sd_stop r = s \<and> sd_target r = t \<and> sd_invalidation r = i
    \<and> sd_source r = source \<and> isfinite c \<and> price_ok s"
  using assms by (auto simp: ScenarioDecision_def rbind_Inr_iff finite_optional_opt_val
      finite_domain_number_def split: if_splits option.splits)

lemma waiting_decision_fields:
  assumes "waiting_decision a source event codes metrics = Inr r"
  shows "sd_kind r = KindWait \<and> sd_direction r = FLAT \<and> sd_confidence r = Fin 0 \<and> sd_action r = a
    \<and> sd_trigger r = None \<and> sd_stop r = None \<and> sd_target r = None \<and> sd_invalidation r = None
    \<and> sd_source r = source"
  using ScenarioDecision_fields [of KindWait FLAT "Fin 0" a None None None None] assms
  by (auto simp: waiting_decision_def opt_val_def)

lemma planned_decision_fields:
  assumes "planned_decision best confidence action source codes metrics p = Inr r"
  shows "sd_kind r = sc_kind best \<and> sd_direction r = sc_direction best \<and> sd_confidence r = confidence
    \<and> sd_action r = action \<and> sd_trigger r = dp_trigger p \<and> sd_stop r = dp_stop p
    \<and> sd_target r = dp_target p \<and> sd_invalidation r = dp_invalidation p \<and> price_ok (dp_stop p)
    \<and> isfinite confidence"
  using ScenarioDecision_fields assms unfolding planned_decision_def by blast

section \<open>The answer is accepted\<close>

fun simple_value :: "pyval \<Rightarrow> bool" where
  "simple_value VNone = True"
| "simple_value (VBool _) = True"
| "simple_value (VStr _) = True"
| "simple_value (VFloat x) = isfinite x"
| "simple_value _ = False"

definition simple_metrics :: "vdict \<Rightarrow> bool" where
  "simple_metrics m \<longleftrightarrow> (\<forall>(k, v) \<in> set m. text_key k \<and> simple_value v)"

definition codes_ok :: "string list \<Rightarrow> bool" where
  "codes_ok codes \<longleftrightarrow> (\<forall>c \<in> set codes.
     validate_domain_code (VStr c) ''ScenarioDecision.reason_codes'' = Inr c)"

lemma simple_value_frozen: "simple_value v \<Longrightarrow> domain_value Freeze f v = Inr v"
  by (cases v) auto

lemma simple_items_frozen: "simple_metrics m \<Longrightarrow> domain_items Freeze f m = Inr m"
  by (induction m) (auto simp: simple_metrics_def simple_value_frozen)

lemma codes_accepted:
  "codes_ok codes \<Longrightarrow> mapM (\<lambda>x. validate_domain_code x ''ScenarioDecision.reason_codes'') (map VStr codes)
     = Inr codes"
  by (induction codes) (auto simp: codes_ok_def)

lemma ScenarioDecision_total:
  assumes "isfinite c" "list_all price_ok [e, s, t, i]" "codes_ok codes" "simple_metrics metrics"
  shows "is_ok (ScenarioDecision (VEnum ''ScenarioKind'' (kind_text k)) (VEnum ''Direction'' (direction_text d))
    (VFloat c) (VEnum ''ActionPhase'' (phase_text a)) (opt_val e) (opt_val s) (opt_val t) (opt_val i)
    (fact_value event) (VList []) source (VList (map VStr codes)) (VDict metrics))"
  using assms by (simp add: ScenarioDecision_def finite_optional_opt_val finite_domain_number_def
      require_sequence_def codes_accepted domain_frozen_value_def simple_items_frozen mapping_result_def
      is_ok_def)

lemma waiting_decision_total:
  assumes "codes_ok codes" "simple_metrics metrics"
  shows "is_ok (waiting_decision action source event codes metrics)"
  using ScenarioDecision_total [of "Fin 0" None None None None codes metrics KindWait FLAT action event source]
    assms
  by (simp add: waiting_decision_def opt_val_def price_ok_def)

lemma planned_decision_total:
  assumes "isfinite c" "list_all price_ok [dp_trigger p, dp_stop p, dp_target p, dp_invalidation p]"
    "codes_ok codes" "simple_metrics metrics"
  shows "is_ok (planned_decision best c a source codes metrics p)"
  using ScenarioDecision_total [OF assms] by (simp add: planned_decision_def)

lemma set_dset_subset: "set (dset k v d) \<subseteq> insert (k, v) (set d)"
  by (induction d) (auto simp: dset_def)

lemma simple_metrics_merge:
  "simple_metrics a \<Longrightarrow> simple_metrics b \<Longrightarrow> simple_metrics (dmerge a b)"
proof -
  have "simple_metrics a \<Longrightarrow> \<forall>(k, v) \<in> set b. text_key k \<and> simple_value v \<Longrightarrow> simple_metrics (dmerge a b)"
  proof (induction b arbitrary: a)
    case Nil
    then show ?case by (simp add: dmerge_def)
  next
    case (Cons x b)
    obtain k v where x: "x = (k, v)" by fastforce
    have "simple_metrics (dset k v a)"
      using Cons.prems x set_dset_subset [of k v a] by (auto simp: simple_metrics_def)
    with Cons.IH [of "dset k v a"] Cons.prems x show ?case by (simp add: dmerge_def)
  qed
  then show "simple_metrics a \<Longrightarrow> simple_metrics b \<Longrightarrow> simple_metrics (dmerge a b)"
    by (simp add: simple_metrics_def)
qed

section \<open>Ranking\<close>

lemma first_max_split:
  assumes "\<forall>y \<in> set (b # xs). fst y \<noteq> NaN"
  shows "\<exists>pre post. b # xs = pre @ first_max b xs # post
    \<and> (\<forall>y \<in> set pre. flt (fst y) (fst (first_max b xs))) \<and> (\<forall>y \<in> set post. fle (fst y) (fst (first_max b xs)))"
  using assms
proof (induction xs arbitrary: b)
  case Nil
  then show ?case by (auto intro: exI [of _ "[]"])
next
  case (Cons x xs)
  let ?b = "if flt (fst b) (fst x) then x else b"
  define m where "m = first_max ?b xs"
  have eq: "first_max b (x # xs) = m" by (simp add: m_def)
  have "\<forall>y \<in> set (?b # xs). fst y \<noteq> NaN" using Cons.prems by auto
  from Cons.IH [OF this] obtain pre post where ih: "?b # xs = pre @ m # post"
    "\<forall>y \<in> set pre. flt (fst y) (fst m)" "\<forall>y \<in> set post. fle (fst y) (fst m)"
    unfolding m_def by blast
  show ?case
  proof (cases "flt (fst b) (fst x)")
    case True
    have "fle (fst x) (fst m)"
      using ih Cons.prems True by (cases pre) (auto intro: fle_refl flt_imp_fle)
    with True have "flt (fst b) (fst m)" by (rule flt_fle_trans)
    then have "b # x # xs = (b # pre) @ m # post" "\<forall>y \<in> set (b # pre). flt (fst y) (fst m)"
      using ih True by simp_all
    with ih(3) show ?thesis unfolding eq by blast
  next
    case False
    then have le: "fle (fst x) (fst b)" using Cons.prems not_flt_fle by auto
    show ?thesis
    proof (cases pre)
      case Nil
      with False ih have "b # x # xs = [] @ m # x # post" "b = m" by simp_all
      with ih(3) le show ?thesis unfolding eq by (metis empty_iff empty_set set_ConsD)
    next
      case (Cons z zs)
      with False ih have lt: "flt (fst b) (fst m)" by auto
      with le have "flt (fst x) (fst m)" by (rule fle_flt_trans)
      with lt have "b # x # xs = (b # x # zs) @ m # post" "\<forall>y \<in> set (b # x # zs). flt (fst y) (fst m)"
        using False ih Cons by auto
      with ih(3) show ?thesis unfolding eq by blast
    qed
  qed
qed

text \<open>The strongest authoritative candidate, and the first of those equally strong.\<close>

definition strongest :: "decision_context \<Rightarrow> pyfloat \<Rightarrow> signal_candidate \<Rightarrow> bool" where
  "strongest ctx rank best \<longleftrightarrow>
    (\<exists>pre post. filter decision_authoritative (dc_candidates ctx) = pre @ best # post
      \<and> candidate_rank_score best (dc_strategy_mode ctx) = Inr rank
      \<and> (\<forall>c \<in> set pre. \<exists>r. candidate_rank_score c (dc_strategy_mode ctx) = Inr r \<and> flt r rank)
      \<and> (\<forall>c \<in> set post. \<exists>r. candidate_rank_score c (dc_strategy_mode ctx) = Inr r \<and> fle r rank))"

definition scores_finite :: "decision_context \<Rightarrow> bool" where
  "scores_finite ctx \<longleftrightarrow> (\<forall>c \<in> set (dc_candidates ctx). isfinite (sc_score c))"

lemma weight_bounds:
  assumes "indicator_reliability_weight c = Inr w"
  obtains r where "w = Fin r" "3 / 4 \<le> r" "r \<le> 5 / 4"
proof -
  obtain v where v: "float_or_none (vget (sc_details c) ''indicator_score_weight'') = Inr v"
    "w = (case v of None \<Rightarrow> Fin 1 | Some w \<Rightarrow> fmax (Fin (3 / 4)) (fmin w (Fin (5 / 4))))"
    using assms by (auto simp: indicator_reliability_weight_def rbind_Inr_iff split: option.splits)
  show thesis
  proof (cases v)
    case None
    with v that [of 1] show ?thesis by simp
  next
    case (Some x)
    then obtain r where "x = Fin r" using v(1) float_or_none_finite isfinite_iff by blast
    with Some v(2) that [of "max (3 / 4) (min r (5 / 4))"] show ?thesis
      by (auto simp: fmax_def fmin_def max_def min_def split: if_splits)
  qed
qed

lemma strategy_weight_bounds:
  obtains r where "strategy_weight c m = Fin r" "0 < r" "r \<le> 2"
proof -
  have "\<exists>r. strategy_weight c m = rnd r \<and> 1 / 2 \<le> r \<and> r \<le> 3 / 2"
    by (cases m; cases "sc_kind c") (auto simp: strategy_weight_def MEAN_REVERSION_FADE_WEIGHT_def
        MEAN_REVERSION_TRANSIT_WEIGHT_def MEAN_REVERSION_WAIT_WEIGHT_def BREAKOUT_TRANSIT_WEIGHT_def
        BREAKOUT_FADE_WEIGHT_def BREAKOUT_WAIT_WEIGHT_def intro: exI [of _ "1::rat"] exI [of _ "19 / 25"]
        exI [of _ "28 / 25"] exI [of _ "19 / 20"] exI [of _ "57 / 50"] exI [of _ "41 / 50"] exI [of _ "24 / 25"])
  then obtain x where x: "strategy_weight c m = rnd x" "1 / 2 \<le> x" "x \<le> 3 / 2" by blast
  then have "0 \<le> x" "x \<le> 1000" by linarith+
  from rnd_near [OF this] obtain r where r: "rnd x = Fin r" "\<bar>r - x\<bar> \<le> 1 / 1000000" by blast
  have "0 < r" "r \<le> 2" using r(2) x(2,3) by linarith+
  with r(1) x(1) show thesis by (simp add: that)
qed

lemma candidate_rank_not_NaN:
  assumes "isfinite (sc_score c)" "candidate_rank_score c m = Inr r"
  shows "r \<noteq> NaN"
proof -
  obtain w where w: "indicator_reliability_weight c = Inr w"
    "r = fmul (fmul (sc_score c) (strategy_weight c m)) w"
    using assms(2) by (auto simp: candidate_rank_score_def rbind_Inr_iff)
  obtain x where x: "w = Fin x" "3 / 4 \<le> x" by (rule weight_bounds [OF w(1)])
  obtain y where y: "strategy_weight c m = Fin y" "0 < y" by (rule strategy_weight_bounds)
  obtain z where z: "sc_score c = Fin z" using assms(1) by (auto simp: isfinite_iff)
  have "fmul (Fin z) (Fin y) \<noteq> NaN" by simp
  with x show ?thesis unfolding w(2) x(1) y(1) z
    by (cases "fmul (Fin z) (Fin y)") (auto simp: inf_of_sign_def)
qed

lemma best_candidate_strongest:
  assumes best: "best_candidate (filter decision_authoritative (dc_candidates ctx)) (dc_strategy_mode ctx)
      = Inr (Some (rank, best))" and fin: "scores_finite ctx"
  shows "strongest ctx rank best"
proof -
  let ?cs = "filter decision_authoritative (dc_candidates ctx)"
  let ?score = "\<lambda>c. candidate_rank_score c (dc_strategy_mode ctx)"
  obtain ranked where r: "mapM (\<lambda>c. rbind (?score c) (\<lambda>r. Inr (r, c))) ?cs = Inr ranked"
    and m: "(case ranked of [] \<Rightarrow> None | x # xs \<Rightarrow> Some (first_max x xs)) = Some (rank, best)"
    using best by (auto simp: best_candidate_def rbind_Inr_iff)
  from m obtain x xs where xs: "ranked = x # xs" "first_max x xs = (rank, best)" by (cases ranked) auto
  have al: "list_all2 (\<lambda>c y. ?score c = Inr (fst y) \<and> snd y = c) ?cs ranked"
    using r unfolding mapM_Inr_iff
    by (rule list_all2_mono) (auto simp: rbind_Inr_iff)
  then have cs: "?cs = map snd ranked"
    by (auto simp: list_all2_conv_all_nth intro: nth_equalityI)
  have sc: "\<forall>y \<in> set ranked. ?score (snd y) = Inr (fst y)"
    using al by (induction rule: list_all2_induct) auto
  have "\<forall>y \<in> set ranked. snd y \<in> set (dc_candidates ctx)"
    using cs by (metis image_eqI list.set_map filter_is_subset subset_iff)
  with sc fin have "\<forall>y \<in> set ranked. fst y \<noteq> NaN"
    using candidate_rank_not_NaN unfolding scores_finite_def by blast
  from first_max_split [of x xs] this obtain pre post where
    "ranked = pre @ (rank, best) # post" "\<forall>y \<in> set pre. flt (fst y) rank" "\<forall>y \<in> set post. fle (fst y) rank"
    unfolding xs by auto
  with sc cs show ?thesis
    unfolding strongest_def
    by (intro exI [of _ "map snd pre"] exI [of _ "map snd post"]) (auto simp: ball_Un)
qed

lemma best_candidate_None:
  "best_candidate cs m = Inr None \<longleftrightarrow> cs = []"
  by (cases cs) (auto simp: best_candidate_def rbind_Inr_iff split: list.splits dest: mapM_length)

section \<open>Gates\<close>

lemma rounded_on_tick:
  assumes "round_price_to_tick inc x = Inr (Some y)"
  shows "\<exists>v. round_to_tick (VFloat v) (VFloat inc) = Inr y"
  using assms by (auto simp: round_price_to_tick_def rbind_Inr_iff split: option.splits)

lemma coherent_cases:
  assumes "complete_coherent_plan d te st tg"
  obtains e s t where "te = Some e" "st = Some s" "tg = Some t"
    "d = LONG \<and> flt s e \<and> flt e t \<or> d = SHORT \<and> flt t e \<and> flt e s"
  using assms by (auto simp: complete_coherent_plan_def split: option.splits direction.splits)

lemma gate_plan_actionable:
  assumes "gate_plan piso ctx best confidence action source codes metrics p = Inr r" "sd_kind r \<noteq> KindWait"
  shows "sc_kind best \<noteq> KindWait
    \<and> complete_coherent_plan (sc_direction best) (dp_trigger p) (dp_stop p) (dp_target p)
    \<and> (sc_kind best = KindTransit \<and> action = GO \<longrightarrow>
        option_flow_transit_veto (sc_direction best) (dc_option_flow ctx) = Inr None)
    \<and> (dc_bars ctx \<noteq> [] \<longrightarrow> plan_breached piso (sc_direction best) (dp_stop p) (last (dc_bars ctx))
        (candidate_opened_ts best) = Inr False)
    \<and> sd_kind r = sc_kind best \<and> sd_direction r = sc_direction best \<and> sd_confidence r = confidence
    \<and> sd_action r = action \<and> sd_trigger r = dp_trigger p \<and> sd_stop r = dp_stop p
    \<and> sd_target r = dp_target p \<and> sd_invalidation r = dp_invalidation p \<and> price_ok (dp_stop p)
    \<and> isfinite confidence"
proof -
  have c: "complete_coherent_plan (sc_direction best) (dp_trigger p) (dp_stop p) (dp_target p)"
    and k: "sc_kind best \<noteq> KindWait"
    using assms by (auto simp: gate_plan_def Let_def dest: waiting_decision_fields split: if_splits)
  obtain st where st: "dp_stop p = Some st" using c by (rule coherent_cases)
  from assms c k st obtain flow br where
    f: "(if sc_kind best = KindTransit \<and> action = GO
       then option_flow_transit_veto (sc_direction best) (dc_option_flow ctx) else Inr None) = Inr flow"
    and g: "flow = None" and b: "(if dc_bars ctx \<noteq> []
       then plan_breached piso (sc_direction best) (dp_stop p) (last (dc_bars ctx)) (candidate_opened_ts best)
       else Inr False) = Inr br" "\<not> br"
    and r: "planned_decision best confidence action source codes metrics p = Inr r"
    by (fastforce simp: gate_plan_def Let_def rbind_Inr_iff dest: waiting_decision_fields
        split: if_splits option.splits)
  show ?thesis using c k f g b planned_decision_fields [OF r] by (auto split: if_splits)
qed

lemma gate_plan_waiting:
  assumes "gate_plan piso ctx best confidence action source codes metrics p = Inr r" "sd_kind r = KindWait"
  shows "\<exists>codes' metrics'. waiting_decision WAIT source (sc_trigger_event best) codes' metrics' = Inr r"
proof (rule ccontr)
  assume n: "\<not> ?thesis"
  then have "sc_kind best \<noteq> KindWait"
    "complete_coherent_plan (sc_direction best) (dp_trigger p) (dp_stop p) (dp_target p)"
    using assms(1) by (auto simp: gate_plan_def Let_def split: if_splits)
  with assms n show False
    by (auto simp: gate_plan_def Let_def rbind_Inr_iff dest!: planned_decision_fields
        split: if_splits option.splits)
qed

text \<open>A stop that the last bar did not breach lies on the right side of its close.\<close>

lemma unbreached_close:
  assumes "plan_breached piso d (Some s) b opened = Inr False" "bar_ok b" "isfinite s"
  shows "(d = LONG \<longrightarrow> flt s (bar_close b)) \<and> (d = SHORT \<longrightarrow> flt (bar_close b) s)"
proof -
  obtain after e where e: "resolve_plan_bar_close_event piso d (Some s) None b None after = Inr e"
    and ne: "\<not> (case e of None \<Rightarrow> False | Some ev \<Rightarrow> ce_state ev \<in> {LcStopHit, LcTrailStop})"
    using assms(1) by (auto simp: plan_breached_def Let_def rbind_Inr_iff)
  have "e = None"
  proof (rule ccontr)
    assume "e \<noteq> None"
    then obtain ev where ev: "e = Some ev" by blast
    with e have "bar_fact d (Some s) None b None after = Some (ce_state ev, ce_exit_price ev)"
      using resolve_Some by blast
    then have "ce_state ev = LcStopHit"
      by (auto simp: bar_fact_def Let_def terminal_fact_def beyond_def touched_def protective_level_def
          split: if_splits option.splits)
    with ne ev show False by simp
  qed
  with e have f: "bar_fact d (Some s) None b None after = None"
    by (simp add: LifecycleCloseEvent_not_None)
  obtain x where x: "s = Fin x" using assms(3) by (auto simp: isfinite_iff)
  obtain o' h l c where bar: "bar_open b = Fin o'" "bar_high b = Fin h" "bar_low b = Fin l" "bar_close b = Fin c"
    using assms(2) by (auto simp: bar_ok_def isfinite_iff)
  have geo: "l \<le> o'" "o' \<le> h" "l \<le> c" "c \<le> h" using assms(2) by (auto simp: bar_ok_def bar)
  show ?thesis
    using f geo by (auto simp: bar_fact_def Let_def terminal_fact_def beyond_def touched_def
        protective_level_def bar x split: if_splits)
qed

section \<open>What a decision says\<close>

lemma increment_unavailable_fields:
  assumes "increment_unavailable ctx best = Inr r"
  shows "sd_kind r = KindWait \<and> sd_direction r = FLAT \<and> sd_confidence r = Fin 0 \<and> sd_action r = BLOCK
    \<and> sd_trigger r = None \<and> sd_stop r = None \<and> sd_target r = None \<and> sd_invalidation r = None"
  using assms unfolding increment_unavailable_def rbind_Inr_iff by (blast dest: waiting_decision_fields)

lemma no_candidate_fields:
  assumes "no_candidate_decision = Inr r"
  shows "sd_kind r = KindWait \<and> sd_direction r = FLAT \<and> sd_confidence r = Fin 0 \<and> sd_action r = WAIT
    \<and> sd_trigger r = None \<and> sd_stop r = None \<and> sd_target r = None \<and> sd_invalidation r = None"
  using assms unfolding no_candidate_decision_def rbind_Inr_iff by (blast dest: waiting_decision_fields)

lemma decide_best_actionable:
  assumes "decide_best piso ctx rank best = Inr r" "sd_kind r \<noteq> KindWait"
  obtains inc raw p where "dc_price_increment ctx = Some inc" "raw_plan ctx best = Inr raw"
    "round_plan (sc_direction best) (Some inc) raw = Inr p"
    "gate_plan piso ctx best (decision_confidence rank best) (decision_action rank best)
       (decision_source best) (decision_codes ctx rank best)
       (decision_metrics ctx best (decision_confidence rank best)) p = Inr r"
proof -
  have n: "\<not> (sc_kind best \<noteq> KindWait \<and> dc_price_increment ctx = None)"
    using assms by (auto simp: decide_best_def dest: increment_unavailable_fields split: if_splits)
  with assms(1) obtain raw p where p: "raw_plan ctx best = Inr raw"
    "round_plan (sc_direction best) (dc_price_increment ctx) raw = Inr p"
    and g: "gate_plan piso ctx best (decision_confidence rank best) (decision_action rank best)
       (decision_source best) (decision_codes ctx rank best)
       (decision_metrics ctx best (decision_confidence rank best)) p = Inr r"
    by (auto simp: decide_best_def rbind_Inr_iff)
  from gate_plan_actionable [OF g assms(2)] n have "dc_price_increment ctx \<noteq> None" by simp
  then obtain inc where "dc_price_increment ctx = Some inc" by blast
  with p g that show thesis by simp
qed

lemma choose_actionable:
  assumes "choose_decision piso ctx = Inr r" "sd_kind r \<noteq> KindWait"
  obtains rank best where
    "best_candidate (filter decision_authoritative (dc_candidates ctx)) (dc_strategy_mode ctx)
       = Inr (Some (rank, best))" "decide_best piso ctx rank best = Inr r"
  using assms by (auto simp: choose_decision_def rbind_Inr_iff dest: no_candidate_fields
      split: option.splits)

lemma round_plan_ticks:
  assumes "round_plan d (Some inc) raw = Inr p" "d \<noteq> FLAT"
  shows "x \<in> {dp_trigger p, dp_stop p, dp_target p, dp_invalidation p} \<Longrightarrow> x = Some y
    \<Longrightarrow> \<exists>v. round_to_tick (VFloat v) (VFloat inc) = Inr y"
  using assms by (auto simp: round_plan_def rbind_Inr_iff dest: rounded_on_tick)

lemma stop_needs_bars:
  assumes "raw_plan ctx best = Inr raw" "round_plan d inc raw = Inr p" "dp_stop p \<noteq> None"
  shows "dc_bars ctx \<noteq> []"
proof
  assume "dc_bars ctx = []"
  with assms(1) have "dp_stop raw = None" by (auto simp: raw_plan_def Let_def rbind_Inr_iff)
  with assms(2) have "dp_stop p = None"
    by (auto simp: round_plan_def round_price_to_tick_def rbind_Inr_iff split: option.splits if_splits)
  with assms(3) show False by simp
qed

text \<open>C21: An actionable decision is a sound plan: it is the plan of the strongest authoritative
  candidate (the first of equals), in that candidate's kind and direction; stop, trigger and target
  are all present and strictly ordered for the direction, each is a price rounded to the
  instrument's increment, and the close of the last bar has not passed the stop.\<close>

theorem actionable_decision_is_sound:
  assumes "choose_decision piso ctx = Inr r" "sd_kind r \<noteq> KindWait"
    and "scores_finite ctx" "list_all bar_ok (dc_bars ctx)"
  shows "\<exists>rank best inc e s t. strongest ctx rank best
    \<and> sd_kind r = sc_kind best \<and> sd_direction r = sc_direction best
    \<and> dc_price_increment ctx = Some inc \<and> dc_bars ctx \<noteq> []
    \<and> sd_trigger r = Some e \<and> sd_stop r = Some s \<and> sd_target r = Some t
    \<and> (\<forall>x \<in> {e, s, t}. \<exists>v. round_to_tick (VFloat v) (VFloat inc) = Inr x)
    \<and> (sd_direction r = LONG \<and> flt s e \<and> flt e t \<and> flt s (bar_close (last (dc_bars ctx)))
       \<or> sd_direction r = SHORT \<and> flt t e \<and> flt e s \<and> flt (bar_close (last (dc_bars ctx))) s)"
proof -
  obtain rank best where b: "best_candidate (filter decision_authoritative (dc_candidates ctx))
      (dc_strategy_mode ctx) = Inr (Some (rank, best))" and d: "decide_best piso ctx rank best = Inr r"
    using assms(1,2) by (rule choose_actionable)
  obtain inc raw p where i: "dc_price_increment ctx = Some inc"
    and p: "raw_plan ctx best = Inr raw" "round_plan (sc_direction best) (Some inc) raw = Inr p"
    and g: "gate_plan piso ctx best (decision_confidence rank best) (decision_action rank best)
       (decision_source best) (decision_codes ctx rank best)
       (decision_metrics ctx best (decision_confidence rank best)) p = Inr r"
    using d assms(2) by (rule decide_best_actionable)
  note f = gate_plan_actionable [OF g assms(2)]
  then obtain e s t where est: "dp_trigger p = Some e" "dp_stop p = Some s" "dp_target p = Some t"
    "sc_direction best = LONG \<and> flt s e \<and> flt e t \<or> sc_direction best = SHORT \<and> flt t e \<and> flt e s"
    by (blast elim: coherent_cases)
  have bars: "dc_bars ctx \<noteq> []" using stop_needs_bars [OF p] est by simp
  then have ok: "bar_ok (last (dc_bars ctx))" using assms(4) by (simp add: list_all_iff)
  have "plan_breached piso (sc_direction best) (Some s) (last (dc_bars ctx)) (candidate_opened_ts best) = Inr False"
    and "isfinite s" using f bars est by (auto simp: price_ok_def)
  note u = unbreached_close [OF this(1) ok this(2)]
  have "\<forall>x \<in> {e, s, t}. \<exists>v. round_to_tick (VFloat v) (VFloat inc) = Inr x"
    using round_plan_ticks [OF p(2)] est by auto
  moreover have "sd_direction r = LONG \<and> flt s e \<and> flt e t \<and> flt s (bar_close (last (dc_bars ctx)))
       \<or> sd_direction r = SHORT \<and> flt t e \<and> flt e s \<and> flt (bar_close (last (dc_bars ctx))) s"
    using est(4) f u by auto
  moreover have "sd_trigger r = Some e" "sd_stop r = Some s" "sd_target r = Some t"
    "sd_kind r = sc_kind best" "sd_direction r = sc_direction best" using f est by simp_all
  ultimately show ?thesis using best_candidate_strongest [OF b assms(3)] i bars by blast
qed

lemma veto_Some [simp]: "veto code metrics \<noteq> Inr None"
  by (simp add: veto_def)

lemma rate_veto_passed:
  "rate_veto rvol name p s = Inr None \<Longrightarrow> \<exists>own opposite. p = Some own \<and> s = Some opposite
    \<and> \<not> fle own (Fin 0) \<and> \<not> flt (fmul own (rnd (125 / 100))) opposite"
  by (auto simp: rate_veto_def rbind_Inr_iff OPTION_FLOW_TRANSIT_MAX_OPPOSITE_RATE_RATIO_def
      split: option.splits if_splits)

lemma veto_passed:
  assumes "option_flow_transit_veto d (Some flow) = Inr None" "d \<noteq> FLAT"
  shows "\<exists>rvol own opposite. option_flow_number flow ''option_rvol'' = Inr (Some rvol)
    \<and> option_flow_number flow (if d = LONG then ''call_rate_per_minute'' else ''put_rate_per_minute'')
        = Inr (Some own)
    \<and> option_flow_number flow (if d = LONG then ''put_rate_per_minute'' else ''call_rate_per_minute'')
        = Inr (Some opposite)
    \<and> \<not> flt rvol (rnd (18 / 10)) \<and> \<not> fle own (Fin 0) \<and> \<not> flt (fmul own (rnd (125 / 100))) opposite"
proof -
  obtain rvol where r: "option_flow_number flow ''option_rvol'' = Inr (Some rvol)"
    "\<not> flt rvol (rnd (18 / 10))"
    using assms(1) by (auto simp: option_flow_transit_veto_def rbind_Inr_iff
        OPTION_FLOW_TRANSIT_MIN_RVOL_def split: option.splits if_splits)
  with assms have "\<exists>p s. option_flow_number flow (if d = LONG then ''call_rate_per_minute'' else ''put_rate_per_minute'') = Inr p
    \<and> option_flow_number flow (if d = LONG then ''put_rate_per_minute'' else ''call_rate_per_minute'') = Inr s
    \<and> (\<exists>n. rate_veto rvol n p s = Inr None)"
    by (cases d) (auto simp: option_flow_transit_veto_def rbind_Inr_iff
        OPTION_FLOW_TRANSIT_MIN_RVOL_def split: if_splits)
  with r show ?thesis by (auto dest!: rate_veto_passed)
qed

text \<open>A transit entry at GO has the option flow behind it: when option flow is known, its relative
  volume is at least 1.8, the rate of the direction's own side is positive, and the opposite rate is
  at most 1.25 times as high.\<close>

theorem transit_go_has_option_flow:
  assumes "choose_decision piso ctx = Inr r" "sd_kind r = KindTransit" "sd_action r = GO"
    and "dc_option_flow ctx = Some flow"
  shows "\<exists>rvol own opposite. option_flow_number flow ''option_rvol'' = Inr (Some rvol)
    \<and> option_flow_number flow (if sd_direction r = LONG then ''call_rate_per_minute''
        else ''put_rate_per_minute'') = Inr (Some own)
    \<and> option_flow_number flow (if sd_direction r = LONG then ''put_rate_per_minute''
        else ''call_rate_per_minute'') = Inr (Some opposite)
    \<and> \<not> flt rvol (rnd (18 / 10)) \<and> \<not> fle own (Fin 0) \<and> \<not> flt (fmul own (rnd (125 / 100))) opposite"
proof -
  have w: "sd_kind r \<noteq> KindWait" using assms(2) by simp
  obtain rank best where "decide_best piso ctx rank best = Inr r"
    using assms(1) w by (rule choose_actionable)
  then obtain p where g: "gate_plan piso ctx best (decision_confidence rank best)
       (decision_action rank best) (decision_source best) (decision_codes ctx rank best)
       (decision_metrics ctx best (decision_confidence rank best)) p = Inr r"
    using w by (rule decide_best_actionable)
  note f = gate_plan_actionable [OF g w]
  have v: "option_flow_transit_veto (sd_direction r) (Some flow) = Inr None" and "sd_direction r \<noteq> FLAT"
    using f assms by (auto simp: complete_coherent_plan_def split: option.splits direction.splits)
  then show ?thesis by (rule veto_passed)
qed

section \<open>Action and confidence\<close>

definition phases_admissible :: "decision_context \<Rightarrow> bool" where
  "phases_admissible ctx \<longleftrightarrow> (\<forall>c \<in> set (dc_candidates ctx). case sc_producer_phase c of
     None \<Rightarrow> True | Some p \<Rightarrow> p \<in> set CANDIDATE_ENTRY_PHASES)"

lemma strongest_member: "strongest ctx rank best \<Longrightarrow> best \<in> set (dc_candidates ctx)"
proof -
  assume "strongest ctx rank best"
  then obtain pre post where "filter decision_authoritative (dc_candidates ctx) = pre @ best # post"
    by (auto simp: strongest_def)
  then have "best \<in> set (filter decision_authoritative (dc_candidates ctx))" by simp
  then show ?thesis by (simp only: set_filter mem_Collect_eq)
qed

lemma confidence_at_most_99:
  assumes "scores_finite ctx" "strongest ctx rank best" "isfinite (decision_confidence rank best)"
  shows "fle (decision_confidence rank best) (Fin 99)"
proof -
  have "isfinite (sc_score best)" using assms(1) strongest_member [OF assms(2)]
    by (auto simp: scores_finite_def)
  moreover have "candidate_rank_score best (dc_strategy_mode ctx) = Inr rank"
    using assms(2) by (auto simp: strongest_def)
  ultimately have "rank \<noteq> NaN" by (rule candidate_rank_not_NaN)
  then have le: "fle (fmin rank (Fin 99)) (Fin 99)" by (cases rank) (auto simp: fmin_def)
  show ?thesis
  proof (cases "fmin rank (Fin 99)")
    case (Fin a)
    obtain f where f: "rnd (23 / 25) = Fin f" "\<bar>f - 23 / 25\<bar> \<le> 1 / 1000000"
      using rnd_near [of "23 / 25"] by auto
    have f01: "0 \<le> f" "f \<le> 1" using f(2) by linarith+
    have "a * f \<le> 99"
    proof (cases "0 \<le> a")
      case True
      have "a * f \<le> 99 * 1" using le Fin True f01 by (intro mult_mono) auto
      then show ?thesis by simp
    next
      case False
      then have "a * f \<le> 0" using f01 by (intro mult_nonpos_nonneg) linarith+
      then show ?thesis by simp
    qed
    then have "fle (rnd (a * f)) (rnd 99)" by (rule rnd_mono)
    with le Fin f show ?thesis
      by (simp add: decision_confidence_def Let_def DECISION_CONFIDENCE_CAP_def
          PROJECTED_LEVEL_CONFIDENCE_FACTOR_def)
  next
    case NInf
    obtain f where "rnd (23 / 25) = Fin f" "\<bar>f - 23 / 25\<bar> \<le> 1 / 1000000"
      using rnd_near [of "23 / 25"] by auto
    with NInf assms(3) show ?thesis
      by (auto simp: decision_confidence_def Let_def DECISION_CONFIDENCE_CAP_def
          PROJECTED_LEVEL_CONFIDENCE_FACTOR_def inf_of_sign_def split: if_splits)
  qed (use le in auto)
qed

lemma action_ladder:
  assumes "isfinite c" "case phase of None \<Rightarrow> True | Some p \<Rightarrow> p \<in> set CANDIDATE_ENTRY_PHASES"
  shows "(capped_action phase (score_action c) = GO \<longleftrightarrow> fle (Fin 78) c \<and> phase \<in> {None, Some GO})
    \<and> (capped_action phase (score_action c) = ARM \<longleftrightarrow> fle (Fin 62) c
        \<and> (phase = Some ARM \<or> flt c (Fin 78) \<and> phase \<in> {None, Some GO}))
    \<and> (capped_action phase (score_action c) = WATCH \<longleftrightarrow> flt c (Fin 62) \<or> phase \<in> {Some WATCH, Some CANDIDATE})"
proof -
  obtain x where "c = Fin x" using assms(1) by (auto simp: isfinite_iff)
  then show ?thesis
    using assms(2) by (auto simp: capped_action_def score_action_def DECISION_ARM_SCORE_def
        DECISION_GO_SCORE_def CANDIDATE_ENTRY_PHASES_def split: option.splits)
qed

lemma waiting_kind_fields:
  assumes "choose_decision piso ctx = Inr r" "sd_kind r = KindWait"
  shows "sd_direction r = FLAT \<and> sd_confidence r = Fin 0 \<and> sd_action r \<in> {WAIT, BLOCK}
    \<and> sd_trigger r = None \<and> sd_stop r = None \<and> sd_target r = None \<and> sd_invalidation r = None"
proof -
  consider "no_candidate_decision = Inr r" | best where "increment_unavailable ctx best = Inr r"
    | best conf action source codes metrics p where
      "gate_plan piso ctx best conf action source codes metrics p = Inr r"
  proof -
    fix thesis
    assume c: "no_candidate_decision = Inr r \<Longrightarrow> thesis"
      "\<And>best. increment_unavailable ctx best = Inr r \<Longrightarrow> thesis"
      "\<And>best conf action source codes metrics p.
        gate_plan piso ctx best conf action source codes metrics p = Inr r \<Longrightarrow> thesis"
    from assms(1) obtain b where b: "(case b of None \<Rightarrow> no_candidate_decision
        | Some (rank, best) \<Rightarrow> decide_best piso ctx rank best) = Inr r"
      by (auto simp: choose_decision_def rbind_Inr_iff)
    show thesis
    proof (cases b)
      case None
      with b c(1) show ?thesis by simp
    next
      case (Some rb)
      with b have "decide_best piso ctx (fst rb) (snd rb) = Inr r" by (simp split: prod.splits)
      then show ?thesis using c(2,3) by (auto simp: decide_best_def rbind_Inr_iff split: if_splits)
    qed
  qed
  then show ?thesis
  proof cases
    case 1
    then show ?thesis by (auto dest: no_candidate_fields)
  next
    case 2
    then show ?thesis by (auto dest: increment_unavailable_fields)
  next
    case 3
    from gate_plan_waiting [OF this assms(2)] show ?thesis by (auto dest: waiting_decision_fields)
  qed
qed

text \<open>C22: A decision says exactly what was decided. A waiting one carries no plan: it is flat, of
  confidence 0, without prices, and its action is WAIT or BLOCK. An actionable one has a confidence of
  at most 99 and the action of the confidence (WATCH below 62, ARM below 78, GO from 78), lowered to
  the phase its producer reached and never raised.\<close>

theorem decision_action_is_exact:
  assumes "choose_decision piso ctx = Inr r" "scores_finite ctx" "phases_admissible ctx"
  shows "(if sd_kind r = KindWait
     then sd_direction r = FLAT \<and> sd_confidence r = Fin 0 \<and> sd_action r \<in> {WAIT, BLOCK}
       \<and> sd_trigger r = None \<and> sd_stop r = None \<and> sd_target r = None \<and> sd_invalidation r = None
     else \<exists>rank best. strongest ctx rank best \<and> sd_confidence r = decision_confidence rank best
       \<and> fle (sd_confidence r) (Fin 99)
       \<and> (sd_action r = GO \<longleftrightarrow> fle (Fin 78) (sd_confidence r) \<and> sc_producer_phase best \<in> {None, Some GO})
       \<and> (sd_action r = ARM \<longleftrightarrow> fle (Fin 62) (sd_confidence r) \<and> (sc_producer_phase best = Some ARM
            \<or> flt (sd_confidence r) (Fin 78) \<and> sc_producer_phase best \<in> {None, Some GO}))
       \<and> (sd_action r = WATCH \<longleftrightarrow> flt (sd_confidence r) (Fin 62)
            \<or> sc_producer_phase best \<in> {Some WATCH, Some CANDIDATE}))"
proof (cases "sd_kind r = KindWait")
  case True
  with waiting_kind_fields [OF assms(1)] show ?thesis by simp
next
  case False
  obtain rank best where b: "best_candidate (filter decision_authoritative (dc_candidates ctx))
      (dc_strategy_mode ctx) = Inr (Some (rank, best))" and d: "decide_best piso ctx rank best = Inr r"
    using assms(1) False by (rule choose_actionable)
  obtain inc raw p where g: "gate_plan piso ctx best (decision_confidence rank best)
       (decision_action rank best) (decision_source best) (decision_codes ctx rank best)
       (decision_metrics ctx best (decision_confidence rank best)) p = Inr r"
    using d False by (rule decide_best_actionable)
  note f = gate_plan_actionable [OF g False]
  have s: "strongest ctx rank best" by (rule best_candidate_strongest [OF b assms(2)])
  have fin: "isfinite (decision_confidence rank best)"
    using f by simp
  have ph: "case sc_producer_phase best of None \<Rightarrow> True | Some p \<Rightarrow> p \<in> set CANDIDATE_ENTRY_PHASES"
    using assms(3) strongest_member [OF s] unfolding phases_admissible_def by blast
  show ?thesis
    using False s f confidence_at_most_99 [OF assms(2) s fin] action_ladder [OF fin ph]
    unfolding decision_action_def by auto
qed

section \<open>Witnesses\<close>

definition example_candidate :: signal_candidate where
  "example_candidate = \<lparr>sc_name = ''breakout'', sc_direction = LONG, sc_score = Fin 85,
     sc_level = Some (Fin 104), sc_reason = [], sc_trigger_event = \<lparr>fact_code = ''level_break'', fact_attributes = []\<rparr>,
     sc_details = [(VStr ''target'', VInt 110), (VStr ''invalid'', VInt 100)], sc_kind = KindTransit,
     sc_source = ''breakout'', sc_role = [], sc_reason_code = ''level_break'', sc_producer_phase = Some GO,
     sc_finality = FinalConfirmed\<rparr>"

definition example_flow :: vdict where
  "example_flow = [(VStr ''option_rvol'', VInt 2), (VStr ''call_rate_per_minute'', VInt 4),
     (VStr ''put_rate_per_minute'', VInt 3)]"

definition example_context :: decision_context where
  "example_context = \<lparr>dc_candidates = [example_candidate], dc_bars = [example_bar], dc_atr_value = Fin 2,
     dc_strategy_mode = Balanced, dc_option_flow = Some example_flow, dc_instrument_profile = profile_custom,
     dc_price_increment = Some (Fin 1)\<rparr>"

lemma example_answer:
  "\<exists>r. choose_decision (\<lambda>_. None) example_context = Inr r \<and> sd_kind r = KindTransit \<and> sd_action r = GO
     \<and> sd_direction r = LONG \<and> sd_stop r = Some (Fin 100)"
proof -
  let ?c = example_candidate and ?x = example_context
  let ?p = "\<lparr>dp_trigger = Some (Fin 104), dp_stop = Some (Fin 100), dp_target = Some (Fin 110),
    dp_invalidation = Some (Fin 100)\<rparr>"
  have w: "indicator_reliability_weight ?c = Inr (Fin 1)"
    by (simp add: indicator_reliability_weight_def example_candidate_def vget_def float_or_none_def)
  have b: "best_candidate (filter decision_authoritative (dc_candidates ?x)) (dc_strategy_mode ?x)
      = Inr (Some (Fin 85, ?c))"
    by (simp add: best_candidate_def example_context_def decision_authoritative_def candidate_rank_score_def
        strategy_weight_def w) (simp add: example_candidate_def)
  have conf: "decision_confidence (Fin 85) ?c = Fin 85"
    by (simp add: decision_confidence_def example_candidate_def vget_def DECISION_CONFIDENCE_CAP_def fmin_def)
  then have act: "decision_action (Fin 85) ?c = GO"
    by (simp add: decision_action_def score_action_def capped_action_def DECISION_ARM_SCORE_def
        DECISION_GO_SCORE_def example_candidate_def)
  have raw: "raw_plan ?x ?c = Inr ?p"
    by (simp add: raw_plan_def Let_def example_candidate_def example_context_def vget_def float_or_none_def
        float_of_int_def derived_plan_def calculate_stop_distance_def prefer_details_def
        directional_price_ok_def profile_custom_def InstrumentProfile_def)
  have tick: "round_price_to_tick (Fin 1) (Some (Fin (numeral k))) = Inr (Some (Fin (numeral k)))"
    if "numeral k \<le> (2 ^ 53 :: int)" for k
    using that rhe_of_int [of "numeral k"]
    by (simp add: round_price_to_tick_def round_to_tick_def exact_number_def float_of_int_def)
  have rnd: "round_plan (sc_direction ?c) (dc_price_increment ?x) ?p = Inr ?p"
    by (simp add: round_plan_def example_candidate_def example_context_def tick)
  have v18: "\<not> flt (Fin 2) (rnd (9 / 5))"
    using rnd_apart(3) [of "9 / 5" 2] by (cases "rnd (9 / 5)") auto
  have veto: "option_flow_transit_veto LONG (dc_option_flow ?x) = Inr None"
    by (simp add: option_flow_transit_veto_def example_context_def example_flow_def option_flow_number_def
        vget_def exact_number_def float_of_int_def rate_veto_def OPTION_FLOW_TRANSIT_MIN_RVOL_def
        OPTION_FLOW_TRANSIT_MAX_OPPOSITE_RATE_RATIO_def v18 quarter)
  have br: "plan_breached (\<lambda>_. None) LONG (Some (Fin 100)) (last (dc_bars ?x)) (candidate_opened_ts ?c) = Inr False"
    by (simp add: plan_breached_def candidate_opened_ts_def example_candidate_def vget_def
        parse_aware_utc_ts_def example_context_def example_bar_def resolve_plan_bar_close_event_def
        bar_fact_def protective_level_def beyond_def terminal_fact_def)
  have kind: "sc_kind ?c = KindTransit" "sc_direction ?c = LONG" by (simp_all add: example_candidate_def)
  have inc: "dc_price_increment ?x = Some (Fin 1)" by (simp add: example_context_def)
  let ?d = "planned_decision ?c (Fin 85) GO (decision_source ?c) (decision_codes ?x (Fin 85) ?c)
    (decision_metrics ?x ?c (Fin 85)) ?p"
  have eq: "choose_decision (\<lambda>_. None) ?x = ?d"
    using b raw rnd veto br kind inc
    by (simp add: choose_decision_def decide_best_def conf act gate_plan_def Let_def
        complete_coherent_plan_def)
  have "codes_ok [''level_break'', ''strategy_mode_balanced'']" unfolding codes_ok_def by code_simp
  then have codes: "codes_ok (decision_codes ?x (Fin 85) ?c)"
    by (simp add: decision_codes_def mode_codes_def conf act score_action_def DECISION_ARM_SCORE_def
        DECISION_GO_SCORE_def) (simp add: example_candidate_def example_context_def)
  have "simple_metrics (decision_metrics ?x ?c (Fin 85))"
    by (simp add: simple_metrics_def decision_metrics_def kv_def text_key_def example_candidate_def
        example_context_def opt_val_def)
  with codes have "is_ok ?d" by (intro planned_decision_total) (simp_all add: price_ok_def)
  then obtain r where "?d = Inr r" by (auto simp: is_ok_iff)
  with planned_decision_fields [OF this] eq kind show ?thesis by auto
qed

lemma example_context_ok: "scores_finite example_context" "list_all bar_ok (dc_bars example_context)"
  "phases_admissible example_context"
  using example_bar_ok
  by (simp_all add: scores_finite_def phases_admissible_def example_context_def example_candidate_def
      CANDIDATE_ENTRY_PHASES_def)

theorem actionable_decision_is_sound_witness:
  "\<exists>r s. choose_decision (\<lambda>_. None) example_context = Inr r \<and> sd_stop r = Some s \<and> flt s (Fin 102)"
proof -
  obtain r where r: "choose_decision (\<lambda>_. None) example_context = Inr r" "sd_kind r = KindTransit"
    "sd_direction r = LONG" using example_answer by blast
  then have "sd_kind r \<noteq> KindWait" by simp
  from actionable_decision_is_sound [OF r(1) this example_context_ok(1,2)] r show ?thesis
    by (auto simp: example_context_def example_bar_def)
qed

theorem transit_go_has_option_flow_witness:
  "\<exists>rvol. option_flow_number example_flow ''option_rvol'' = Inr (Some rvol) \<and> \<not> flt rvol (rnd (18 / 10))"
proof -
  obtain r where "choose_decision (\<lambda>_. None) example_context = Inr r" "sd_kind r = KindTransit"
    "sd_action r = GO" using example_answer by blast
  from transit_go_has_option_flow [OF this, of example_flow] show ?thesis
    by (auto simp: example_context_def)
qed

theorem decision_action_is_exact_witness:
  "\<exists>r. choose_decision (\<lambda>_. None) example_context = Inr r \<and> fle (Fin 78) (sd_confidence r)"
proof -
  obtain r where r: "choose_decision (\<lambda>_. None) example_context = Inr r" "sd_kind r = KindTransit"
    "sd_action r = GO" using example_answer by blast
  from decision_action_is_exact [OF r(1) example_context_ok(1,3)] r show ?thesis by auto
qed

end
