(* ===== verification/DecisionTotal.thy ===== *)
theory DecisionTotal
  imports DecisionLaws
begin

text \<open>
  The decision loop always answers: for inputs of ordinary magnitude (numbers of at most
  \<open>2 ^ 40\<close>, a price increment of at least \<open>2 ^ - 40\<close>) no arithmetic overflows, no validator refuses
  and no exception leaves the loop. Bounds are carried through the arithmetic by \<^theory_text>\<open>FloatBounds\<close>.
\<close>

section \<open>Ordinary inputs\<close>

text \<open>A value a price or weight is read from: a number of at most \<open>2 ^ 40\<close>, or something that is no number. A text
  counts for the number it spells; \<open>nan\<close> and infinities count as missing.\<close>

definition float_ordinary :: "pyfloat \<Rightarrow> bool" where
  "float_ordinary x \<longleftrightarrow> \<not> isfinite x \<or> fbnd 40 x"

definition text_ordinary :: "string \<Rightarrow> bool" where
  "text_ordinary s \<longleftrightarrow> (case py_float_of_str s of Inl _ \<Rightarrow> True | Inr x \<Rightarrow> float_ordinary x)"

fun value_ordinary :: "pyval \<Rightarrow> bool" where
  "value_ordinary (VInt n) \<longleftrightarrow> \<bar>n\<bar> \<le> 2 ^ 40"
| "value_ordinary (VFloat x) \<longleftrightarrow> float_ordinary x"
| "value_ordinary (VStr s) \<longleftrightarrow> text_ordinary s"
| "value_ordinary (VEnum e s) \<longleftrightarrow> text_ordinary s"
| "value_ordinary (VBytes s) \<longleftrightarrow> text_ordinary s"
| "value_ordinary v \<longleftrightarrow> True"

text \<open>An opening time: where it is given as an aware time, its instant lies in the calendar (years 1 to
  9999 in UTC).\<close>

definition opening_ordinary :: "iso_parser \<Rightarrow> pyval \<Rightarrow> bool" where
  "opening_ordinary piso v \<longleftrightarrow>
    (case (case v of VDateTime d \<Rightarrow> Some d | VStr s \<Rightarrow> piso (replace_Z s) | _ \<Rightarrow> None) of
       None \<Rightarrow> True
     | Some d \<Rightarrow> (case dt_offset d of None \<Rightarrow> True | Some off \<Rightarrow> in_dt_range (dt_wall d - off)))"

text \<open>A reason code as the candidate's constructor demands it.\<close>

definition canonical_code :: "string \<Rightarrow> bool" where
  "canonical_code s \<longleftrightarrow> s \<noteq> [] \<and> s = py_strip s \<and> length s \<le> 160 \<and> s = py_lower s
     \<and> is_code_start_character (hd s) \<and> list_all is_code_character s"

definition candidate_ordinary :: "iso_parser \<Rightarrow> signal_candidate \<Rightarrow> bool" where
  "candidate_ordinary piso c \<longleftrightarrow> fbnd 40 (sc_score c)
     \<and> (case sc_level c of None \<Rightarrow> True | Some x \<Rightarrow> fbnd 40 x)
     \<and> list_all (\<lambda>k. value_ordinary (vget (sc_details c) k))
         [''indicator_score_weight'', ''trigger'', ''stop'', ''invalid'', ''target'']
     \<and> canonical_code (sc_reason_code c) \<and> opening_ordinary piso (candidate_opened_ts c)"

definition bar_ordinary :: "iso_parser \<Rightarrow> bar \<Rightarrow> bool" where
  "bar_ordinary piso b \<longleftrightarrow> bar_ok b \<and> reads_back piso (bar_ts b)
     \<and> fbnd 40 (bar_high b) \<and> fbnd 40 (bar_low b) \<and> fbnd 40 (bar_close b)"

definition flow_ordinary :: "vdict \<Rightarrow> bool" where
  "flow_ordinary flow \<longleftrightarrow> list_all (\<lambda>k. value_ordinary (vget flow k))
     [''option_rvol'', ''call_rate_per_minute'', ''put_rate_per_minute'']"

definition context_ordinary :: "iso_parser \<Rightarrow> decision_context \<Rightarrow> bool" where
  "context_ordinary piso ctx \<longleftrightarrow> list_all (candidate_ordinary piso) (dc_candidates ctx)
     \<and> list_all (bar_ordinary piso) (dc_bars ctx) \<and> fbnd 40 (dc_atr_value ctx)
     \<and> profile_ok (dc_instrument_profile ctx)
     \<and> (case dc_price_increment ctx of None \<Rightarrow> True
        | Some i \<Rightarrow> fle (Fin (1 / 2 ^ 40)) i \<and> fbnd 40 i)
     \<and> (case dc_option_flow ctx of None \<Rightarrow> True | Some flow \<Rightarrow> flow_ordinary flow)"

section \<open>Ordinary inputs can be read\<close>

lemma float_of_int_ordinary: "\<bar>n\<bar> \<le> 2 ^ 40 \<Longrightarrow> \<exists>x. float_of_int n = Inr x \<and> fbnd 40 x"
  by (rule float_of_int_bound) simp_all

lemma py_float_of_str_error: "py_float_of_str s = Inl e \<Longrightarrow> is_value_error e"
  by (auto simp: py_float_of_str_def Let_def split: option.splits)

lemma text_number:
  assumes "text_ordinary s" "py_float v = py_float_of_str s" "v \<noteq> VNone \<and> \<not> is_bool v"
  shows "\<exists>x. float_or_none v = Inr x \<and> (\<forall>y. x = Some y \<longrightarrow> fbnd 40 y)"
proof (cases "py_float_of_str s")
  case (Inl e)
  then show ?thesis using assms py_float_of_str_error [OF Inl] by (simp add: float_or_none_def)
next
  case (Inr x)
  then show ?thesis using assms by (auto simp: float_or_none_def text_ordinary_def float_ordinary_def)
qed

lemma value_number: "value_ordinary v \<Longrightarrow> \<exists>x. float_or_none v = Inr x \<and> (\<forall>y. x = Some y \<longrightarrow> fbnd 40 y)"
proof (cases v)
  case (VInt n)
  moreover assume "value_ordinary v"
  ultimately obtain x where "float_of_int n = Inr x" "fbnd 40 x" using float_of_int_ordinary [of n] by auto
  then show ?thesis using VInt fbnd_finite by (auto simp: float_or_none_def)
next
  case (VFloat x)
  moreover assume "value_ordinary v"
  ultimately show ?thesis by (auto simp: float_or_none_def float_ordinary_def)
next
  case (VStr s)
  moreover assume "value_ordinary v"
  ultimately show ?thesis by (intro text_number [of s]) simp_all
next
  case (VEnum e s)
  moreover assume "value_ordinary v"
  ultimately show ?thesis by (intro text_number [of s]) simp_all
next
  case (VBytes s)
  moreover assume "value_ordinary v"
  ultimately show ?thesis by (intro text_number [of s]) simp_all
qed (simp_all add: float_or_none_def)

lemma flow_number:
  "value_ordinary (vget flow k) \<Longrightarrow> \<exists>x. option_flow_number flow k = Inr x \<and> (\<forall>y. x = Some y \<longrightarrow> fbnd 40 y)"
  using float_of_int_ordinary
  by (cases "vget flow k") (fastforce simp: option_flow_number_def exact_number_def float_ordinary_def)+

lemma opening_time: "opening_ordinary piso v \<Longrightarrow> is_ok (parse_aware_utc_ts piso v)"
  by (auto simp: opening_ordinary_def parse_aware_utc_ts_def is_aware_def astimezone_utc_def is_ok_iff
    Let_def split: option.splits)

lemma canonical_code_valid: "canonical_code s \<Longrightarrow> validate_domain_code (VStr s) f = Inr s"
  unfolding canonical_code_def validate_domain_code_def Let_def by simp

section \<open>Gates answer\<close>

text \<open>What a veto needs to become part of an answer.\<close>

definition veto_ok :: "flow_veto option res \<Rightarrow> bool" where
  "veto_ok r = (case r of Inl _ \<Rightarrow> False | Inr None \<Rightarrow> True
     | Inr (Some v) \<Rightarrow> codes_ok [fv_code v] \<and> simple_metrics (fv_metrics v))"

lemma veto_codes:
  "codes_ok [''option_flow_invalid'']" "codes_ok [''option_rvol_below_minimum'']"
  "codes_ok [''option_primary_rate_not_positive'']" "codes_ok [''option_opposite_rate_dominant'']"
  unfolding codes_ok_def by code_simp+

lemma small_divisor: "fbnd 40 x \<Longrightarrow> \<exists>b. fmax x (rnd (1 / 10 ^ 9)) = Fin b \<and> fle (Fin (1 / 2 ^ 40)) (Fin b)"
proof -
  assume "fbnd 40 x"
  then obtain a where a: "x = Fin a" by (rule fbndE)
  have "rnd (1 / 2 ^ 40) = Fin (1 / 2 ^ 40)"
    by (rule rnd_exact [of _ 1 "- 40"]) (simp_all add: power_int_minus)
  moreover have "fle (rnd (1 / 2 ^ 40)) (rnd (1 / 10 ^ 9))" by (rule rnd_mono) simp
  moreover obtain c where "rnd (1 / 10 ^ 9) = Fin c" using rnd_near [of "1 / 10 ^ 9"] by auto
  ultimately show ?thesis using a by (auto simp: fmax_def)
qed

lemma rate_veto_total:
  assumes "isfinite rvol" "name \<noteq> []" "\<forall>y. p = Some y \<longrightarrow> fbnd 40 y" "\<forall>y. q = Some y \<longrightarrow> fbnd 40 y"
  shows "veto_ok (rate_veto rvol name p q)"
proof (cases "p = None \<or> q = None")
  case True
  with veto_codes assms show ?thesis
    by (auto simp: rate_veto_def veto_def veto_ok_def simple_metrics_def kv_def text_key_def
        split: option.splits)
next
  case False
  then obtain x y where xy: "p = Some x" "q = Some y" by auto
  then have b: "fbnd 40 x" "fbnd 40 y" using assms by auto
  obtain d where d: "fmax x (rnd (1 / 10 ^ 9)) = Fin d" "fle (Fin (1 / 2 ^ 40)) (Fin d)"
    using small_divisor [OF b(1)] by blast
  obtain r where r: "fdiv y (Fin d) = Inr r" "fbnd 80 r" using fbnd_fdiv [OF b(2) d(2)] by auto
  have "isfinite x" "isfinite y" "isfinite r" using b r fbnd_finite by blast+
  then show ?thesis
    using veto_codes assms(1,2) r(1) d(1)
    by (simp add: rate_veto_def veto_def veto_ok_def xy simple_metrics_def kv_def text_key_def)
qed

lemma veto_total:
  assumes "case flow of None \<Rightarrow> True | Some f \<Rightarrow> flow_ordinary f"
  shows "veto_ok (option_flow_transit_veto d flow)"
proof (cases flow)
  case None
  then show ?thesis by (simp add: option_flow_transit_veto_def veto_ok_def)
next
  case (Some f)
  then have o: "flow_ordinary f" using assms by simp
  have n: "\<exists>x. option_flow_number f k = Inr x \<and> (\<forall>y. x = Some y \<longrightarrow> fbnd 40 y)"
    if "k \<in> {''option_rvol'', ''call_rate_per_minute'', ''put_rate_per_minute''}" for k
    using o that by (intro flow_number) (auto simp: flow_ordinary_def)
  obtain rv c p where rv: "option_flow_number f ''option_rvol'' = Inr rv" "\<forall>y. rv = Some y \<longrightarrow> fbnd 40 y"
    and c: "option_flow_number f ''call_rate_per_minute'' = Inr c" "\<forall>y. c = Some y \<longrightarrow> fbnd 40 y"
    and p: "option_flow_number f ''put_rate_per_minute'' = Inr p" "\<forall>y. p = Some y \<longrightarrow> fbnd 40 y"
    using n [of "''option_rvol''"] n [of "''call_rate_per_minute''"] n [of "''put_rate_per_minute''"] by auto
  have min: "isfinite OPTION_FLOW_TRANSIT_MIN_RVOL"
    using rnd_near [of "9 / 5"] by (auto simp: OPTION_FLOW_TRANSIT_MIN_RVOL_def)
  show ?thesis
  proof (cases rv)
    case None
    with Some rv(1) veto_codes show ?thesis
      by (simp add: option_flow_transit_veto_def veto_def veto_ok_def simple_metrics_def kv_def text_key_def)
  next
    case (Some x)
    then have x: "isfinite x" using rv fbnd_finite by blast
    show ?thesis
      using \<open>flow = Some f\<close> Some rv(1) c(1) p(1) x min veto_codes
        rate_veto_total [OF x _ c(2) p(2)] rate_veto_total [OF x _ p(2) c(2)]
      by (cases d) (auto simp: option_flow_transit_veto_def veto_ok_def veto_def simple_metrics_def
          kv_def text_key_def)
  qed
qed

lemma plan_breached_total:
  assumes "bar_ordinary piso b" "is_ok (parse_aware_utc_ts piso opened)"
  shows "is_ok (plan_breached piso d s b opened)"
proof -
  have b: "reads_back piso (bar_ts b)" "in_dt_range (bar_ts b)"
    using assms(1) by (auto simp: bar_ordinary_def bar_ok_def)
  have "is_ok (resolve_plan_bar_close_event piso d s None b None after)" for after
  proof (cases "bar_fact d s None b None after")
    case None
    then have "resolve_plan_bar_close_event piso d s None b None after = Inr None"
      by (simp add: LifecycleCloseEvent_not_None)
    then show ?thesis by (simp add: is_ok_def)
  next
    case (Some f)
    obtain state price where f: "f = (state, price)" by fastforce
    with Some have "state = LcStopHit \<and> price_ok price"
      by (auto simp: bar_fact_def Let_def terminal_fact_def beyond_def touched_def protective_level_def
          price_ok_def finite_or_none_def split: if_splits option.splits)
    then have "state_terminal state" "price_ok price" by simp_all
    from resolve_total [OF b Some [unfolded f] this] show ?thesis by (simp add: is_ok_def)
  qed
  then show ?thesis using assms(2)
    by (auto simp: plan_breached_def Let_def is_ok_iff rbind_Inr_iff)
qed

lemma gate_plan_total:
  assumes "codes_ok codes" "simple_metrics metrics" "isfinite confidence"
    and p: "list_all price_ok [dp_trigger p, dp_stop p, dp_target p, dp_invalidation p]"
    and flow: "case dc_option_flow ctx of None \<Rightarrow> True | Some f \<Rightarrow> flow_ordinary f"
    and bars: "list_all (bar_ordinary piso) (dc_bars ctx)"
    and ts: "is_ok (parse_aware_utc_ts piso (candidate_opened_ts best))"
  shows "is_ok (gate_plan piso ctx best confidence action source codes metrics p)"
proof -
  have more: "codes_ok (codes @ [c])" if "codes_ok [c]" for c
    using assms(1) that by (auto simp: codes_ok_def)
  have lits: "codes_ok [''missing_actionable_scenario_kind'']" "codes_ok [''plan_stop_breached'']"
    "codes_ok [''incomplete_or_incoherent_trade_plan'']"
    unfolding codes_ok_def by code_simp+
  have stop_metric: "simple_metrics (vset ''stop'' (opt_val (dp_stop p)) metrics)"
    using assms(2) p set_dset_subset [of "VStr ''stop''" "opt_val (dp_stop p)" metrics]
    by (auto simp: simple_metrics_def vset_def text_key_def opt_val_def price_ok_def split: option.splits)
  have br: "is_ok (plan_breached piso d (dp_stop p) (last (dc_bars ctx)) (candidate_opened_ts best))"
    if "dc_bars ctx \<noteq> []" for d
    using plan_breached_total [OF _ ts] bars that by (simp add: list_all_iff)
  have fin: "is_ok (planned_decision best confidence action source codes metrics p)"
    by (rule planned_decision_total [OF assms(3) p assms(1,2)])
  have after: "is_ok (rbind (if dc_bars ctx \<noteq> [] \<and> dp_stop p \<noteq> None
      then plan_breached piso d (dp_stop p) (last (dc_bars ctx)) (candidate_opened_ts best) else Inr False)
      (\<lambda>breached. if breached then waiting_decision WAIT source event (codes @ [''plan_stop_breached''])
         (vset ''stop'' (opt_val (dp_stop p)) metrics)
       else planned_decision best confidence action source codes metrics p))" for d event
    using br [of d] fin waiting_decision_total [OF more [OF lits(2)] stop_metric, of WAIT source event]
    by (auto simp: is_ok_iff)
  have veto: "is_ok (waiting_decision WAIT source event (codes @ [fv_code v]) (dmerge metrics (fv_metrics v)))"
    if "veto_ok (Inr (Some v))" for v event
    using that more simple_metrics_merge [OF assms(2)] waiting_decision_total by (simp add: veto_ok_def)
  have flow_ok: "\<exists>v. (if sc_kind best = KindTransit \<and> action = GO
      then option_flow_transit_veto d (dc_option_flow ctx) else Inr None) = Inr v \<and> veto_ok (Inr v)" for d
    using veto_total [OF flow, of d] by (auto simp: veto_ok_def split: sum.splits)
  show ?thesis
    using waiting_decision_total [OF more [OF lits(1)] assms(2)]
      waiting_decision_total [OF more [OF lits(3)] assms(2)] flow_ok [of "sc_direction best"] veto after
    by (auto simp: gate_plan_def Let_def split: option.splits)
qed

section \<open>Prices stay finite\<close>

definition obnd :: "nat \<Rightarrow> pyfloat option \<Rightarrow> bool" where
  "obnd k x = (case x of None \<Rightarrow> True | Some y \<Rightarrow> fbnd k y)"

lemma obnd_simps [simp]: "obnd k None" "obnd k (Some y) \<longleftrightarrow> fbnd k y"
  by (simp_all add: obnd_def)

lemma obnd_mono: "obnd k x \<Longrightarrow> k \<le> m \<Longrightarrow> obnd m x"
  by (cases x) (auto intro: fbnd_mono)

definition plan_bnd :: "nat \<Rightarrow> draft_plan \<Rightarrow> bool" where
  "plan_bnd k p \<longleftrightarrow> obnd k (dp_trigger p) \<and> obnd k (dp_stop p) \<and> obnd k (dp_target p)
     \<and> obnd k (dp_invalidation p)"

lemma number_total:
  "value_ordinary (vget d k) \<Longrightarrow> \<exists>x. float_or_none (vget d k) = Inr x \<and> obnd 40 x"
  using value_number [of "vget d k"] by (auto simp: obnd_def split: option.split)

lemma profile_bounds:
  assumes "profile_ok p"
  shows "fbnd 0 (ip_stop_pad_atr p)" "fbnd 2 (ip_target_r_fade p)" "fbnd 2 (ip_target_r_transit p)"
proof -
  show "fbnd 0 (ip_stop_pad_atr p)"
    using assms by (cases "ip_stop_pad_atr p") (auto simp: profile_ok_def)
  have f: "flt (Fin 1) (ip_target_r_fade p)" "flt (ip_target_r_fade p) (ip_target_r_transit p)"
    "flt (ip_target_r_transit p) (Fin 3)" using assms by (auto simp: profile_ok_def)
  show "fbnd 2 (ip_target_r_fade p)" "fbnd 2 (ip_target_r_transit p)"
    using f by (cases "ip_target_r_fade p"; cases "ip_target_r_transit p"; auto)+
qed

lemma stop_distance_bound:
  assumes "profile_ok p" "fbnd 40 atr" "fbnd 40 i" "fle (Fin (1 / 2 ^ 40)) i"
  shows "\<exists>d. calculate_stop_distance p atr i = Inr d \<and> fbnd 43 d"
proof -
  have a: "fbnd 40 (fmax atr (Fin 0))" by (rule fbnd_fmax) (use assms in simp_all)
  have pos: "\<not> fle i (Fin 0)" using assms(4) by (cases i) auto
  have c: "fbnd 0 (rnd (28 / 100))" by (rule fbnd_rnd) simp_all
  have "fbnd (40 + 0) (fmul (fmax atr (Fin 0)) (ip_stop_pad_atr p))"
    "fbnd (40 + 0) (fmul (fmax atr (Fin 0)) (rnd (28 / 100)))"
    "fbnd (40 + 3) (fmul i (Fin 2))" "fbnd (40 + 3) (fmul i (Fin 8))"
    by (rule fbnd_fmul; use a c assms profile_bounds(1) in simp)+
  then have "fbnd 43 (fmul (fmax atr (Fin 0)) (ip_stop_pad_atr p))"
    "fbnd 43 (fmul (fmax atr (Fin 0)) (rnd (28 / 100)))"
    "fbnd 43 (fmul i (Fin 2))" "fbnd 43 (fmul i (Fin 8))"
    by (auto intro: fbnd_mono)
  then show ?thesis using pos
    by (auto simp: calculate_stop_distance_def Let_def intro!: fbnd_fmax)
qed

lemma target_bound:
  assumes "profile_ok p" "fbnd 44 e" "fbnd 44 s"
  shows "fbnd 48 (calculate_target_price p txt e s fade)"
proof -
  have risk: "fbnd 45 (fabs (fsub e s))" using fbnd_fsub [OF assms(2,3)] by simp
  let ?rr = "if fade then ip_target_r_fade p else ip_target_r_transit p"
  have "fbnd (45 + 2) (fmul (fabs (fsub e s)) ?rr)"
    by (rule fbnd_fmul [OF risk]) (use profile_bounds assms(1) in auto)
  then have r: "fbnd 47 (fmul (fabs (fsub e s)) ?rr)" by simp
  have e: "fbnd 47 e" using assms(2) by (rule fbnd_mono) simp
  show ?thesis
    using fbnd_fsub [OF e r] fbnd_fadd [OF e r] by (simp add: calculate_target_price_def Let_def)
qed

lemma derived_plan_bound:
  assumes ctx: "context_ordinary piso ctx" "dc_price_increment ctx = Some i" "dc_bars ctx \<noteq> []"
    and t: "obnd 40 trigger"
  shows "\<exists>p. derived_plan ctx best i trigger = Inr p \<and> plan_bnd 48 p"
proof -
  have ok: "profile_ok (dc_instrument_profile ctx)" "fbnd 40 (dc_atr_value ctx)" "fbnd 40 i"
    "fle (Fin (1 / 2 ^ 40)) i" "list_all (bar_ordinary piso) (dc_bars ctx)"
    using ctx by (auto simp: context_ordinary_def)
  define prior where "prior = (if 1 < length (dc_bars ctx) then last (butlast (dc_bars ctx)) else last (dc_bars ctx))"
  have "prior \<in> set (dc_bars ctx)"
  proof (cases "1 < length (dc_bars ctx)")
    case True
    then have "butlast (dc_bars ctx) \<noteq> []" by (metis length_butlast length_0_conv zero_less_diff less_irrefl)
    then show ?thesis using True last_in_set in_set_butlastD by (fastforce simp: prior_def)
  next
    case False
    then show ?thesis using ctx(3) by (simp add: prior_def)
  qed
  then have pr: "fbnd 40 (bar_high prior)" "fbnd 40 (bar_low prior)" and lc: "fbnd 40 (bar_close (last (dc_bars ctx)))"
    using ok(5) ctx(3) by (auto simp: list_all_iff bar_ordinary_def)
  define e where "e = (case trigger of Some x \<Rightarrow> x | None \<Rightarrow> bar_close (last (dc_bars ctx)))"
  have e: "fbnd 40 e" using t lc by (auto simp: e_def split: option.splits)
  obtain d where d: "calculate_stop_distance (dc_instrument_profile ctx) (dc_atr_value ctx) i = Inr d" "fbnd 43 d"
    using stop_distance_bound [OF ok(1-4)] by blast
  have "fbnd 43 (fmax (bar_high prior) e)" "fbnd 43 (fmin (bar_low prior) e)"
    using pr e by (auto intro: fbnd_mono fbnd_fmax fbnd_fmin)
  then have inv: "fbnd 44 (fadd (fmax (bar_high prior) e) d)" "fbnd 44 (fsub (fmin (bar_low prior) e) d)"
    using d(2) fbnd_fadd [of 43] fbnd_fsub [of 43] by auto
  have e44: "fbnd 44 e" using e by (rule fbnd_mono) simp
  have up: "fbnd 44 x \<Longrightarrow> fbnd 48 x" for x by (erule fbnd_mono) simp
  show ?thesis
    using inv target_bound [OF ok(1) e44] up e44 obnd_mono [OF t, of 48]
    unfolding derived_plan_def Let_def prior_def [symmetric] e_def [symmetric] d(1) rbind.simps
    by (cases "sc_direction best") (simp_all add: plan_bnd_def)
qed

lemma raw_plan_bound:
  assumes ctx: "context_ordinary piso ctx" and c: "candidate_ordinary piso best"
    and i: "sc_kind best = KindWait \<or> dc_price_increment ctx \<noteq> None"
  shows "\<exists>p. raw_plan ctx best = Inr p \<and> plan_bnd 48 p"
proof -
  obtain e s v t where n: "float_or_none (vget (sc_details best) ''trigger'') = Inr e" "obnd 40 e"
    "float_or_none (vget (sc_details best) ''stop'') = Inr s" "obnd 40 s"
    "float_or_none (vget (sc_details best) ''invalid'') = Inr v" "obnd 40 v"
    "float_or_none (vget (sc_details best) ''target'') = Inr t" "obnd 40 t"
    using c number_total [of "sc_details best"] by (simp add: candidate_ordinary_def) meson
  have lvl: "obnd 40 (sc_level best)" using c by (auto simp: candidate_ordinary_def obnd_def)
  define trigger where "trigger = (if e \<noteq> None then e else sc_level best)"
  have tr: "obnd 40 trigger" using n lvl by (auto simp: trigger_def)
  have up: "obnd 40 x \<Longrightarrow> obnd 48 x" for x by (erule obnd_mono) simp
  show ?thesis
  proof (cases "sc_kind best \<noteq> KindWait \<and> dc_bars ctx \<noteq> []")
    case True
    then obtain inc where inc: "dc_price_increment ctx = Some inc" using i by auto
    obtain p where p: "derived_plan ctx best inc trigger = Inr p" "plan_bnd 48 p"
      using derived_plan_bound [OF ctx inc _ tr] True by blast
    have "plan_bnd 48 (prefer_details (sc_direction best) (if s = None then v else s) v t p)"
      using p(2) up n by (auto simp: plan_bnd_def prefer_details_def Let_def)
    then show ?thesis
      unfolding raw_plan_def Let_def n(1,3,5,7) rbind.simps trigger_def [symmetric]
      using True inc p(1) by simp
  next
    case False
    then show ?thesis
      unfolding raw_plan_def Let_def n(1,3,5,7) rbind.simps trigger_def [symmetric]
      using False up [OF tr] by (auto simp: plan_bnd_def)
  qed
qed

lemma round_price_bound:
  assumes "fbnd 40 i" "fle (Fin (1 / 2 ^ 40)) i" "obnd 48 x"
  shows "\<exists>y. round_price_to_tick i x = Inr y \<and> price_ok y"
proof (cases x)
  case None
  then show ?thesis by (simp add: round_price_to_tick_def price_ok_def)
next
  case (Some v)
  then have v: "fbnd 48 v" using assms(3) by simp
  obtain t where t: "i = Fin t" using assms(1) by (rule fbndE)
  have pos: "0 < t" using assms(2) t by (simp add: less_le_trans [of 0 "1 / 2 ^ 40"])
  obtain q where q: "fdiv v (Fin t) = Inr q" "fbnd 88 q"
    using fbnd_fdiv [OF v, of 40 t] assms(2) t by auto
  obtain r where r: "q = Fin r" "\<bar>r\<bar> \<le> 2 ^ 88" using q(2) by (rule fbndE)
  obtain m where m: "float_of_int (round_half_even r) = Inr m" "fbnd 88 m"
    using float_of_int_bound [OF round_half_even_bound [OF r(2)]] by auto
  have "fbnd (88 + 40) (fmul m i)" by (rule fbnd_fmul [OF m(2) assms(1)]) simp
  then have "isfinite (fmul m i)" by (rule fbnd_finite)
  with Some v fbnd_finite [OF v] pos t q(1) r(1) m(1) show ?thesis
    by (simp add: round_price_to_tick_def round_to_tick_def exact_number_def price_ok_def)
qed

lemma plan_bnd_ok: "plan_bnd k p \<Longrightarrow> list_all price_ok [dp_trigger p, dp_stop p, dp_target p, dp_invalidation p]"
  by (auto simp: plan_bnd_def obnd_def price_ok_def split: option.splits dest: fbnd_finite)

lemma round_plan_total:
  assumes "case inc of None \<Rightarrow> True | Some i \<Rightarrow> fle (Fin (1 / 2 ^ 40)) i \<and> fbnd 40 i" "plan_bnd 48 p"
  shows "\<exists>q. round_plan d inc p = Inr q
    \<and> list_all price_ok [dp_trigger q, dp_stop q, dp_target q, dp_invalidation q]"
proof (cases "inc = None \<or> d = FLAT")
  case True
  then show ?thesis using plan_bnd_ok [OF assms(2)] by (auto simp: round_plan_def split: option.splits)
next
  case False
  then obtain i where i: "inc = Some i" "fbnd 40 i" "fle (Fin (1 / 2 ^ 40)) i" using assms(1) by auto
  obtain e s t v where "round_price_to_tick i (dp_trigger p) = Inr e \<and> price_ok e"
    "round_price_to_tick i (dp_stop p) = Inr s \<and> price_ok s"
    "round_price_to_tick i (dp_target p) = Inr t \<and> price_ok t"
    "round_price_to_tick i (dp_invalidation p) = Inr v \<and> price_ok v"
    using assms(2) round_price_bound [OF i(2,3)] unfolding plan_bnd_def by meson
  then show ?thesis using i(1) False by (simp add: round_plan_def)
qed

section \<open>The loop answers\<close>

lemma rank_bound:
  assumes "candidate_ordinary piso c"
  shows "\<exists>r. candidate_rank_score c m = Inr r \<and> fbnd 42 r"
proof -
  obtain v where v: "float_or_none (vget (sc_details c) ''indicator_score_weight'') = Inr v" "obnd 40 v"
    using assms number_total [of "sc_details c"] by (auto simp: candidate_ordinary_def)
  then obtain w where w: "indicator_reliability_weight c = Inr w"
    by (cases v) (simp_all add: indicator_reliability_weight_def)
  have wb: "fbnd 1 w" by (rule weight_bounds [OF w]) (simp add: abs_le_iff)
  have sb: "fbnd 1 (strategy_weight c m)" by (rule strategy_weight_bounds [of c m]) simp
  have "fbnd 40 (sc_score c)" using assms by (simp add: candidate_ordinary_def)
  from fbnd_fmul [OF fbnd_fmul [OF this sb] wb] have "fbnd 42 (fmul (fmul (sc_score c) (strategy_weight c m)) w)"
    by simp
  with w show ?thesis by (simp add: candidate_rank_score_def)
qed

lemma best_candidate_total:
  assumes "list_all (candidate_ordinary piso) cs"
  shows "\<exists>b. best_candidate cs m = Inr b \<and> (case b of None \<Rightarrow> True
    | Some (rank, best) \<Rightarrow> fbnd 42 rank \<and> best \<in> set cs)"
proof -
  have "\<exists>ranked. mapM (\<lambda>c. rbind (candidate_rank_score c m) (\<lambda>r. Inr (r, c))) cs = Inr ranked
    \<and> (\<forall>y \<in> set ranked. fbnd 42 (fst y) \<and> snd y \<in> set cs)"
    using assms
  proof (induction cs)
    case (Cons c cs)
    then obtain r where "candidate_rank_score c m = Inr r" "fbnd 42 r"
      using rank_bound [of piso c m] by auto
    with Cons show ?case by auto
  qed simp
  then obtain ranked where r: "mapM (\<lambda>c. rbind (candidate_rank_score c m) (\<lambda>r. Inr (r, c))) cs = Inr ranked"
    "\<forall>y \<in> set ranked. fbnd 42 (fst y) \<and> snd y \<in> set cs" by blast
  have member: "first_max x xs \<in> set (x # xs)" for x :: "pyfloat \<times> signal_candidate" and xs
    by (induction xs arbitrary: x) (auto split: if_splits)
  show ?thesis
  proof (cases ranked)
    case Nil
    with r(1) show ?thesis by (simp add: best_candidate_def)
  next
    case (Cons x xs)
    obtain rank best where "first_max x xs = (rank, best)" by fastforce
    with r Cons member [of x xs] show ?thesis by (fastforce simp: best_candidate_def)
  qed
qed

lemma confidence_bound: "fbnd 42 rank \<Longrightarrow> isfinite (decision_confidence rank best)"
proof -
  assume "fbnd 42 rank"
  then have c: "fbnd 42 (fmin rank DECISION_CONFIDENCE_CAP)"
    by (rule fbnd_fmin) (simp add: DECISION_CONFIDENCE_CAP_def)
  have "fbnd 0 PROJECTED_LEVEL_CONFIDENCE_FACTOR"
    unfolding PROJECTED_LEVEL_CONFIDENCE_FACTOR_def by (rule fbnd_rnd) simp_all
  from fbnd_fmul [OF c this] have "fbnd 42 (fmul (fmin rank DECISION_CONFIDENCE_CAP) PROJECTED_LEVEL_CONFIDENCE_FACTOR)"
    by simp
  with c show ?thesis by (auto simp: decision_confidence_def Let_def dest: fbnd_finite)
qed

lemma decision_codes_ok:
  assumes "candidate_ordinary piso best"
  shows "codes_ok (mode_codes ctx best)" "codes_ok (decision_codes ctx rank best)"
proof -
  have "codes_ok [''strategy_mode_balanced'']" "codes_ok [''strategy_mode_breakout'']"
    "codes_ok [''strategy_mode_mean_reversion'']" unfolding codes_ok_def by code_simp+
  then have m: "codes_ok [''strategy_mode_'' @ strategy_text mode]" for mode
    by (cases mode) simp_all
  show mode: "codes_ok (mode_codes ctx best)"
    using assms m [of "dc_strategy_mode ctx"] by (simp add: mode_codes_def candidate_ordinary_def codes_ok_def canonical_code_valid)
  have "codes_ok [''producer_phase_ceiling'']" unfolding codes_ok_def by code_simp
  with mode show "codes_ok (decision_codes ctx rank best)" by (auto simp: decision_codes_def codes_ok_def)
qed

lemma decision_metrics_simple:
  assumes "isfinite (sc_score best)" "isfinite confidence"
    "case dc_price_increment ctx of None \<Rightarrow> True | Some i \<Rightarrow> isfinite i"
  shows "simple_metrics (decision_metrics ctx best confidence)"
  using assms by (auto simp: simple_metrics_def decision_metrics_def kv_def text_key_def opt_val_def
      split: option.splits)

lemma no_candidate_total: "is_ok no_candidate_decision"
proof -
  have "codes_ok [''no_candidate'']" unfolding codes_ok_def by code_simp
  moreover have "DomainFact (VStr ''no_candidate'') (VDict [])
      = Inr \<lparr>fact_code = ''no_candidate'', fact_attributes = []\<rparr>" by code_simp
  ultimately show ?thesis using waiting_decision_total [of "[''no_candidate'']" "[]"]
    by (auto simp: no_candidate_decision_def simple_metrics_def)
qed

lemma increment_unavailable_total:
  assumes "candidate_ordinary piso best"
  shows "is_ok (increment_unavailable ctx best)"
proof -
  have v: "validate_domain_code (VStr ''price_increment_unavailable'') ''fact.code'' = Inr ''price_increment_unavailable''"
    by code_simp
  have "require_fact_attributes [kv ''candidate'' (VStr n)] = Inr ()" for n
    by (simp add: require_fact_attributes_def kv_def text_key_def DOMAIN_FACT_FORBIDDEN_DISPLAY_KEYS_def)
  then have "\<exists>e. DomainFact (VStr ''price_increment_unavailable'') (VDict [kv ''candidate'' (VStr (sc_name best))]) = Inr e"
    by (simp add: DomainFact_def v kv_def domain_frozen_value_def)
  moreover have "codes_ok [''price_increment_unavailable'']" unfolding codes_ok_def by code_simp
  with decision_codes_ok(1) [OF assms] have "codes_ok (mode_codes ctx best @ [''price_increment_unavailable''])"
    by (simp add: codes_ok_def ball_Un)
  then have "is_ok (waiting_decision BLOCK (decision_source best) e
      (mode_codes ctx best @ [''price_increment_unavailable'']) [kv ''price_increment_available'' (VBool False)])" for e
    by (rule waiting_decision_total) (simp add: simple_metrics_def kv_def text_key_def)
  ultimately show ?thesis by (auto simp: increment_unavailable_def)
qed

text \<open>C23: The decision loop always answers. Its inputs are of ordinary magnitude: scores, levels, prices,
  weights, the range, the increment and the option flow are at most \<open>2 ^ 40\<close> where they are numbers at all
  (the increment at least \<open>2 ^ - 40\<close>), bars are accepted bars, the instrument
  profile is ordered as every registered one is, reason codes are as the constructor of
  candidates demands them, and an opening time, where it is given and aware, lies inside the
  calendar. Then no step overflows, no parse or validator raises and no exception leaves the
  loop, whatever the candidates say. Of the interpreter it needs that \<open>fromisoformat\<close> reads back what
  \<open>isoformat\<close> wrote for the times of the bars.\<close>

theorem decision_loop_always_answers:
  assumes "context_ordinary piso ctx"
  shows "\<exists>r. choose_decision piso ctx = Inr r"
proof -
  let ?cs = "filter decision_authoritative (dc_candidates ctx)"
  have "list_all (candidate_ordinary piso) ?cs"
    using assms by (auto simp: context_ordinary_def list_all_iff)
  from best_candidate_total [OF this, of "dc_strategy_mode ctx"] obtain b where
    b: "best_candidate ?cs (dc_strategy_mode ctx) = Inr b" "case b of None \<Rightarrow> True
      | Some (rank, best) \<Rightarrow> fbnd 42 rank \<and> best \<in> set ?cs" by blast
  have "is_ok (choose_decision piso ctx)"
  proof (cases b)
    case None
    with b no_candidate_total show ?thesis by (simp add: choose_decision_def)
  next
    case (Some rb)
    obtain rank best where rb: "rb = (rank, best)" by fastforce
    with b Some have rank: "fbnd 42 rank" and "best \<in> set (dc_candidates ctx)" by auto
    then have c: "candidate_ordinary piso best" using assms by (simp add: context_ordinary_def list_all_iff)
    have "is_ok (decide_best piso ctx rank best)"
    proof (cases "sc_kind best \<noteq> KindWait \<and> dc_price_increment ctx = None")
      case True
      then show ?thesis using increment_unavailable_total [OF c] by (simp add: decide_best_def)
    next
      case False
      then obtain raw where raw: "raw_plan ctx best = Inr raw" "plan_bnd 48 raw"
        using raw_plan_bound [OF assms c] by blast
      have inc: "case dc_price_increment ctx of None \<Rightarrow> True | Some i \<Rightarrow> fle (Fin (1 / 2 ^ 40)) i \<and> fbnd 40 i"
        using assms by (simp add: context_ordinary_def)
      obtain p where p: "round_plan (sc_direction best) (dc_price_increment ctx) raw = Inr p"
        "list_all price_ok [dp_trigger p, dp_stop p, dp_target p, dp_invalidation p]"
        using round_plan_total [OF inc raw(2)] by blast
      have conf: "isfinite (decision_confidence rank best)" by (rule confidence_bound [OF rank])
      have "isfinite (sc_score best)" using c by (auto simp: candidate_ordinary_def dest: fbnd_finite)
      with conf inc have "simple_metrics (decision_metrics ctx best (decision_confidence rank best))"
        by (intro decision_metrics_simple) (auto split: option.splits dest: fbnd_finite)
      then have "is_ok (gate_plan piso ctx best (decision_confidence rank best) (decision_action rank best)
          (decision_source best) (decision_codes ctx rank best)
          (decision_metrics ctx best (decision_confidence rank best)) p)"
        by (rule gate_plan_total [OF decision_codes_ok(2) [OF c] _ conf p(2)])
          (use assms c in \<open>simp_all add: context_ordinary_def candidate_ordinary_def opening_time\<close>)
      then show ?thesis unfolding decide_best_def if_not_P [OF False] raw(1) p(1) rbind.simps .
    qed
    with b Some rb show ?thesis by (simp add: choose_decision_def)
  qed
  then show ?thesis by (simp add: is_ok_iff)
qed

section \<open>Witness\<close>

definition example_iso :: iso_parser where
  "example_iso s = Some (utc_datetime 60000000)"

lemma example_context_ordinary: "context_ordinary example_iso example_context"
proof -
  have p: "profile_ok profile_custom"
    using profile_found [of "''CUSTOM''" profile_custom] by (simp add: PROFILES_def dget_def)
  have c: "canonical_code ''level_break''" unfolding canonical_code_def by code_simp
  have b: "bar_ordinary example_iso example_bar"
    using example_bar_ok by (simp add: bar_ordinary_def reads_back_def example_iso_def) (simp add: example_bar_def)
  show ?thesis using p c b
    by (simp add: context_ordinary_def example_context_def example_candidate_def candidate_ordinary_def
        vget_def candidate_opened_ts_def opening_ordinary_def flow_ordinary_def example_flow_def
        float_ordinary_def)
qed

theorem decision_loop_always_answers_witness:
  "\<exists>r. choose_decision example_iso example_context = Inr r"
  by (rule decision_loop_always_answers [OF example_context_ordinary])

end
