(* ===== verification/ProviderHistory.thy ===== *)
theory ProviderHistory
  imports BarSeries
begin

text \<open>
  \<open>data/provider_history.py\<close>: reading confirmed history through the route of an instrument, as one page
  before a timestamp, as a window, as recent tails of one or many routes, and as logical projections;
  with the route types of \<open>data/provider_contract.py\<close>. The store is a parameter: a record of its reader
  functions, whose behaviour is that of the SQL statements behind them.
\<close>

section \<open>Routes\<close>

datatype history_storage_kind = FUTURES_CONTINUOUS | FUTURES_CONTRACT

fun storage_kind_text :: "history_storage_kind \<Rightarrow> string" where
  "storage_kind_text FUTURES_CONTINUOUS = ''futures_continuous''"
| "storage_kind_text FUTURES_CONTRACT = ''futures_contract''"

definition storage_kind_of :: "string \<Rightarrow> history_storage_kind option" where
  "storage_kind_of s = List.find (\<lambda>k. storage_kind_text k = s) [FUTURES_CONTINUOUS, FUTURES_CONTRACT]"

record canonical_history_route =
  hr_series_type :: string
  hr_roll_policy :: string
  hr_storage_kind :: history_storage_kind
  hr_contract_key :: string

definition CanonicalHistoryRoute :: "pyval \<Rightarrow> pyval \<Rightarrow> pyval \<Rightarrow> pyval \<Rightarrow> canonical_history_route res" where
  "CanonicalHistoryRoute series_type roll_policy storage_kind contract_key =
    (case (if is_str storage_kind then storage_kind_of (str_of storage_kind) else None) of
       None \<Rightarrow> Inl (ValueError ''Canonical history storage kind must be typed'')
     | Some kind \<Rightarrow>
        if list_ex (\<lambda>v. \<not> is_str v \<or> str_of v \<noteq> py_strip (str_of v)) [series_type, roll_policy, contract_key]
        then Inl (ValueError ''Canonical history route fields must be exact strings'')
        else let st = str_of series_type; rp = str_of roll_policy; ck = str_of contract_key;
                 route = \<lparr>hr_series_type = st, hr_roll_policy = rp, hr_storage_kind = kind, hr_contract_key = ck\<rparr>
          in if kind = FUTURES_CONTINUOUS
             then (if st = [] \<or> rp = [] \<or> ck \<noteq> []
               then Inl (ValueError ''Continuous futures history requires series_type/roll_policy only'')
               else Inr route)
             else if ck = [] \<or> st \<noteq> [] \<or> rp \<noteq> []
             then Inl (ValueError ''Exact futures history requires contract_key only'')
             else Inr route)"

definition exact_futures_contract :: "pyval \<Rightarrow> canonical_history_route res" where
  "exact_futures_contract contract_key =
    CanonicalHistoryRoute (VStr []) (VStr []) (VEnum ''CanonicalHistoryStorageKind'' ''futures_contract'') contract_key"

text \<open>Of an adapter, what the readers use.\<close>

record history_adapter =
  ad_key :: string
  ad_db_providers :: "string list"
  ad_canonical_history_route :: "vdict \<Rightarrow> canonical_history_route option"

record instrument_route =
  ir_instrument :: vdict
  ir_adapter :: history_adapter
  ir_provider :: string
  ir_provider_symbol :: string
  ir_instrument_id :: string
  ir_instrument_key :: string
  ir_fingerprint :: string
  ir_price_increment :: "pyfloat option"

section \<open>The store\<close>

text \<open>Which futures reader, with its keyword arguments.\<close>

datatype futures_reader = ContinuousReader string string | ContractReader string

record futures_query =
  fq_provider :: string
  fq_instrument_id :: string
  fq_route_fingerprint :: string
  fq_symbol :: string
  fq_timeframe :: string
  fq_start :: "pydatetime option"
  fq_end :: "pydatetime option"
  fq_limit :: "int option"
  fq_latest :: bool

record multi_query =
  mq_timeframes :: "string list"
  mq_providers :: "string list"
  mq_instrument :: vdict
  mq_start :: "pydatetime option"
  mq_end :: "pydatetime option"
  mq_windows :: "(string \<times> (instant option \<times> instant \<times> int)) list"

record recent_query =
  rq_timeframe :: string
  rq_provider :: string
  rq_limit :: int
  rq_instrument :: vdict

text \<open>A reader that answers with something else than a list of bars answers \<open>None\<close>.\<close>

record history_store =
  st_futures :: "futures_reader \<Rightarrow> futures_query \<Rightarrow> bar list option res"
  st_bars_multi :: "multi_query \<Rightarrow> (string \<times> string \<Rightarrow> bar list option) res"
  st_recent :: "recent_query \<Rightarrow> bar list option res"
  st_recent_batch :: "recent_query list \<Rightarrow> ((string \<times> string) \<times> bar list option) list option res"

definition canonical_futures_reader :: "canonical_history_route \<Rightarrow> futures_reader" where
  "canonical_futures_reader r =
    (if hr_storage_kind r = FUTURES_CONTINUOUS then ContinuousReader (hr_series_type r) (hr_roll_policy r)
     else ContractReader (hr_contract_key r))"

text \<open>\<open>list(...)\<close> of an answer that is no list of bars raises.\<close>

definition listed :: "bar list option \<Rightarrow> bar list res" where
  "listed bars = (case bars of None \<Rightarrow> Inl (TypeError ''not iterable'') | Some bs \<Rightarrow> Inr bs)"

definition history_route_of :: "instrument_route \<Rightarrow> canonical_history_route option" where
  "history_route_of route = ad_canonical_history_route (ir_adapter route) (ir_instrument route)"

text \<open>The candidates of the providers, in the order of their priority.\<close>

definition merge_providers ::
  "(string \<times> string \<Rightarrow> bar list option) \<Rightarrow> string list \<Rightarrow> string \<Rightarrow> bar list" where
  "merge_providers grouped providers timeframe = merge_history_candidates_by_authority
     (map (\<lambda>(priority, provider). (int priority,
        case grouped (provider, timeframe) of None \<Rightarrow> [] | Some bs \<Rightarrow> bs)) (enumerate 0 providers))"

section \<open>One page\<close>

record history_page =
  pg_bars :: "bar list"
  pg_next_before_ts :: "instant option"
  pg_has_more :: bool

text \<open>The slice \<open>xs[-n:]\<close> for positive \<open>n\<close>.\<close>

definition last_items :: "nat \<Rightarrow> 'a list \<Rightarrow> 'a list" where
  "last_items n xs = drop (length xs - n) xs"

definition page_source ::
  "history_store \<Rightarrow> instrument_route \<Rightarrow> string \<Rightarrow> instant \<Rightarrow> int \<Rightarrow> bar list res" where
  "page_source store route source_timeframe boundary source_limit =
    (case history_route_of route of
       Some r \<Rightarrow>
         rbind (instant_add boundary (- 1)) (\<lambda>read_end.
         rbind (st_futures store (canonical_futures_reader r)
           \<lparr>fq_provider = ir_provider route, fq_instrument_id = ir_instrument_id route,
            fq_route_fingerprint = ir_fingerprint route, fq_symbol = ir_instrument_key route,
            fq_timeframe = source_timeframe, fq_start = None,
            fq_end = Some (utc_datetime read_end), fq_limit = Some source_limit, fq_latest = True\<rparr>) listed)
     | None \<Rightarrow>
         let providers = ad_db_providers (ir_adapter route) in
         rbind (st_bars_multi store
           \<lparr>mq_timeframes = [source_timeframe], mq_providers = providers, mq_instrument = ir_instrument route,
            mq_start = None, mq_end = None,
            mq_windows = [(source_timeframe, (None, boundary, source_limit))]\<rparr>) (\<lambda>grouped.
           Inr (merge_providers grouped providers source_timeframe)))"

definition page_of ::
  "bool \<Rightarrow> nat \<Rightarrow> int \<Rightarrow> instant \<Rightarrow> bar list \<Rightarrow> bar list \<Rightarrow> history_page" where
  "page_of derived limit source_limit boundary source_bars projected =
    (let confirmed = filter (\<lambda>b. bar_ts b < boundary \<and> bar_closed b \<and> bar_state b = CONFIRMED) projected;
         candidates = sort_key bar_ts (dedupe_bars_by_timestamp confirmed);
         has_more = (limit < length candidates \<or> derived \<and> source_limit \<le> int (length source_bars));
         page_bars = last_items limit candidates;
         first_ts = (case page_bars of [] \<Rightarrow> None | b # _ \<Rightarrow> Some (bar_ts b));
         next_before_ts = (if has_more \<and> first_ts = None \<and> source_bars \<noteq> []
           then Some (Min (set (map bar_ts source_bars))) else first_ts)
     in \<lparr>pg_bars = page_bars, pg_next_before_ts = (if has_more then next_before_ts else None),
         pg_has_more = has_more\<rparr>)"

definition page_source_limit :: "string \<Rightarrow> int \<Rightarrow> int \<Rightarrow> int" where
  "page_source_limit timeframe ratio limit =
    (limit + 1) * ratio * (if is_derived_chart_interval timeframe then 2 else 1)"

definition read_provider_history_page ::
  "instrument_route \<Rightarrow> string \<Rightarrow> pydatetime \<Rightarrow> pyval \<Rightarrow> history_store option \<Rightarrow> instant \<Rightarrow> history_page res" where
  "read_provider_history_page route timeframe before_ts limit store now =
    (if \<not> is_aware before_ts then Inl (ValueError ''before_ts must be timezone-aware'')
     else case limit of
       VInt n \<Rightarrow>
        if n < 1 \<or> 1000 < n then Inl (ValueError ''limit must be an integer from 1 to 1000'')
        else (case store of
          None \<Rightarrow> Inl (RuntimeError ''canonical history store is required'')
        | Some db \<Rightarrow>
           rbind (astimezone_utc before_ts) (\<lambda>boundary.
           rbind (canonical_bar_source_interval timeframe) (\<lambda>source_timeframe.
           let target_seconds = interval_seconds timeframe;
               source_seconds = interval_seconds source_timeframe in
           if target_seconds mod source_seconds \<noteq> 0
           then Inl (ValueError (''HISTORY_PAGE_INTERVAL_RATIO_INVALID target='' @ timeframe
             @ '' source='' @ source_timeframe))
           else let source_limit = page_source_limit timeframe (target_seconds div source_seconds) n in
             rbind (page_source db route source_timeframe boundary source_limit) (\<lambda>source_bars.
             rbind (derive_chart_bars (dedupe_bars_by_timestamp source_bars) timeframe (Some boundary) now)
               (\<lambda>projected. Inr (page_of (is_derived_chart_interval timeframe) (nat n) source_limit boundary
                  source_bars projected))))))
     | _ \<Rightarrow> Inl (ValueError ''limit must be an integer from 1 to 1000''))"

section \<open>One window\<close>

text \<open>\<open>d - timedelta(microseconds=1)\<close>, and the instant a derived projection is taken at.\<close>

definition just_before :: "pydatetime \<Rightarrow> pydatetime res" where
  "just_before d = rbind (instant_add (dt_wall d) (- 1)) (\<lambda>w. Inr (DateTime w (dt_offset d)))"

definition projection_time :: "string \<Rightarrow> pydatetime \<Rightarrow> instant option res" where
  "projection_time interval d =
    (if is_derived_chart_interval interval then rbind (astimezone_utc d) (\<lambda>t. Inr (Some t)) else Inr None)"

definition read_provider_history ::
  "history_store option \<Rightarrow> vdict \<Rightarrow> string \<Rightarrow> string \<Rightarrow> history_adapter \<Rightarrow> history_window option \<Rightarrow> instant
    \<Rightarrow> bar list res" where
  "read_provider_history store instrument interval range_key adapter window now = (case store of
      None \<Rightarrow> Inr []
    | Some db \<Rightarrow>
       rbind (require_provider_identity (Some instrument) (Some (ad_key adapter))) (\<lambda>resolved.
       rbind (qualified_instrument_id (Some resolved)) (\<lambda>instrument_id.
       rbind (route_fingerprint (Some resolved)) (\<lambda>fingerprint.
       rbind (canonical_bar_source_interval interval) (\<lambda>source_interval.
       rbind (case window of Some w \<Rightarrow> Inr w | None \<Rightarrow> history_range_window range_key interval now) (\<lambda>w.
       rbind (just_before (hw_ends_at w)) (\<lambda>read_end.
       if ad_db_providers adapter = [] then Inr []
       else rbind (case ad_canonical_history_route adapter resolved of
           Some r \<Rightarrow> rbind (st_futures db (canonical_futures_reader r)
             \<lparr>fq_provider = ad_key adapter, fq_instrument_id = instrument_id,
              fq_route_fingerprint = fingerprint, fq_symbol = instrument_key (Some resolved),
              fq_timeframe = source_interval, fq_start = hw_starts_at w, fq_end = Some read_end,
              fq_limit = None, fq_latest = False\<rparr>) (\<lambda>bars. Inr (case bars of None \<Rightarrow> [] | Some bs \<Rightarrow> bs))
         | None \<Rightarrow> rbind (st_bars_multi db
             \<lparr>mq_timeframes = [source_interval], mq_providers = ad_db_providers adapter,
              mq_instrument = resolved, mq_start = hw_starts_at w, mq_end = Some read_end,
              mq_windows = []\<rparr>) (\<lambda>grouped.
             Inr (merge_providers grouped (ad_db_providers adapter) source_interval))) (\<lambda>exact_bars.
         rbind (projection_time interval (hw_ends_at w)) (\<lambda>as_of.
         derive_chart_bars (dedupe_bars_by_timestamp exact_bars) interval as_of now)))))))))"

section \<open>Recent tails\<close>

definition recent_source_limit :: "string \<Rightarrow> int \<Rightarrow> int" where
  "recent_source_limit timeframe limit =
    (if is_derived_chart_interval timeframe then limit * 3 + 2 else limit)"

definition recent_tail ::
  "string \<Rightarrow> string \<Rightarrow> nat \<Rightarrow> bar list \<Rightarrow> instant \<Rightarrow> bar list res" where
  "recent_tail timeframe field limit source_bars now =
    rbind (derive_chart_bars source_bars timeframe None now) (\<lambda>projected.
      require_ordered_bar_list (Some (last_items limit (filter bar_closed projected))) timeframe field True)"

definition read_recent_provider_bars ::
  "instrument_route \<Rightarrow> string \<Rightarrow> history_store \<Rightarrow> pyval \<Rightarrow> instant \<Rightarrow> bar list res" where
  "read_recent_provider_bars route timeframe store limit now = (case limit of
      VInt n \<Rightarrow>
        if n \<le> 0 then Inl (ValueError ''PROVIDER_HISTORY_LIMIT_INVALID'')
        else rbind (canonical_bar_source_interval timeframe) (\<lambda>source_timeframe.
          let source_limit = recent_source_limit timeframe n in
          rbind (case history_route_of route of
              Some r \<Rightarrow> st_futures store (canonical_futures_reader r)
                \<lparr>fq_provider = ir_provider route, fq_instrument_id = ir_instrument_id route,
                 fq_route_fingerprint = ir_fingerprint route, fq_symbol = ir_instrument_key route,
                 fq_timeframe = source_timeframe, fq_start = None, fq_end = None,
                 fq_limit = Some source_limit, fq_latest = True\<rparr>
            | None \<Rightarrow> st_recent store \<lparr>rq_timeframe = source_timeframe, rq_provider = ir_provider route,
                rq_limit = source_limit, rq_instrument = ir_instrument route\<rparr>) (\<lambda>answer.
          rbind (require_ordered_bar_list answer source_timeframe ''recent provider history'' True)
            (\<lambda>source_bars.
              if \<not> is_derived_chart_interval timeframe then Inr source_bars
              else recent_tail timeframe ''derived recent provider history'' (nat n) source_bars now)))
    | _ \<Rightarrow> Inl (ValueError ''PROVIDER_HISTORY_LIMIT_INVALID''))"

section \<open>Recent tails of many routes\<close>

type_synonym batch_requests = "((string \<times> string) \<times> (instrument_route \<times> int)) list"

definition resolve_request ::
  "batch_requests \<Rightarrow> instrument_route \<times> string \<times> pyval \<Rightarrow> batch_requests res" where
  "resolve_request resolved request = (case request of (route, timeframe, limit) \<Rightarrow>
    (case limit of
       VInt n \<Rightarrow>
        if n \<le> 0 then Inl (ValueError ''PROVIDER_HISTORY_BATCH_LIMIT_INVALID'')
        else let key = (ir_instrument_id route, timeframe) in
          (case dget resolved key of
             None \<Rightarrow> Inr (dset key (route, n) resolved)
           | Some (previous, previous_limit) \<Rightarrow>
              if ir_fingerprint previous \<noteq> ir_fingerprint route
              then Inl (ValueError (''PROVIDER_HISTORY_BATCH_ROUTE_MISMATCH instrument_id=''
                @ ir_instrument_id route @ '' timeframe='' @ timeframe))
              else Inr (if previous_limit < n then dset key (route, n) resolved else resolved))
     | _ \<Rightarrow> Inl (ValueError ''PROVIDER_HISTORY_BATCH_LIMIT_INVALID'')))"

definition batch_query :: "(string \<times> string) \<times> (instrument_route \<times> int) \<Rightarrow> recent_query res" where
  "batch_query item = (case item of ((_, timeframe), (route, limit)) \<Rightarrow>
    rbind (canonical_bar_source_interval timeframe) (\<lambda>source_timeframe.
      Inr \<lparr>rq_timeframe = source_timeframe, rq_provider = ir_provider route,
        rq_limit = recent_source_limit timeframe limit, rq_instrument = ir_instrument route\<rparr>))"

definition batch_answer ::
  "((string \<times> string) \<times> bar list option) list \<Rightarrow> instant \<Rightarrow> (string \<times> string) \<times> (instrument_route \<times> int)
    \<Rightarrow> ((string \<times> string) \<times> bar list) res" where
  "batch_answer recent now item = (case item of ((instrument_id, timeframe), (route, limit)) \<Rightarrow>
    rbind (canonical_bar_source_interval timeframe) (\<lambda>source_timeframe.
    (case dget recent (instrument_id, source_timeframe) of
       None \<Rightarrow> Inl KeyError
     | Some answer \<Rightarrow>
        rbind (require_ordered_bar_list answer source_timeframe ''canonical recent-bar storage'' True)
          (\<lambda>source_bars.
            rbind (if is_derived_chart_interval timeframe
              then recent_tail timeframe ''derived canonical recent-bar storage'' (nat limit) source_bars now
              else Inr (last_items (nat limit) source_bars)) (\<lambda>bars.
            Inr ((instrument_id, timeframe), bars))))))"

definition read_recent_provider_bars_batch ::
  "(instrument_route \<times> string \<times> pyval) list \<Rightarrow> history_store \<Rightarrow> instant
    \<Rightarrow> ((string \<times> string) \<times> bar list) list res" where
  "read_recent_provider_bars_batch requests store now =
    rbind (foldM resolve_request [] requests) (\<lambda>resolved.
    rbind (mapM batch_query resolved) (\<lambda>queries.
    rbind (st_recent_batch store queries) (\<lambda>answer. (case answer of
       None \<Rightarrow> Inl (TypeError ''canonical recent-bar storage must return a mapping'')
     | Some recent \<Rightarrow>
        rbind (mapM (\<lambda>((instrument_id, timeframe), _).
          rbind (canonical_bar_source_interval timeframe) (\<lambda>s. Inr (instrument_id, s))) resolved) (\<lambda>expected.
        if set (dkeys recent) \<noteq> set expected
        then Inl (RuntimeError ''canonical recent-bar storage returned incomplete scope membership'')
        else mapM (batch_answer recent now) resolved)))))"

end
