(* ===== verification/BarStore.thy ===== *)
theory BarStore
  imports ProviderHistory
begin

text \<open>
  The reads of \<open>storage/repos/bars.py\<close> the page reader rests on, with the meaning of their SQL over a
  table of rows: the columns that scope a row and the bar built from the others. Which instrument
  and route a row of the catalogue names (\<open>_storage_route\<close>) is a parameter.
\<close>

record bar_row =
  br_instrument_id :: string
  br_route_fingerprint :: string
  br_provider :: string
  br_bar :: bar

record table_scope =
  sc_rows :: "bar_row list"
  sc_instrument_id :: string
  sc_fingerprint :: string
  sc_timeframe :: string

text \<open>The \<open>WHERE\<close> clause.\<close>

definition scoped :: "table_scope \<Rightarrow> string \<Rightarrow> bar list" where
  "scoped t provider = map br_bar (filter (\<lambda>r. br_instrument_id r = sc_instrument_id t
     \<and> br_route_fingerprint r = sc_fingerprint t \<and> bar_timeframe (br_bar r) = sc_timeframe t
     \<and> br_provider r = provider) (sc_rows t))"

text \<open>\<open>ORDER BY ts DESC LIMIT n\<close> inside, \<open>ORDER BY ts ASC\<close> outside.\<close>

definition window_rows ::
  "table_scope \<Rightarrow> string \<Rightarrow> instant option \<Rightarrow> instant option \<Rightarrow> nat option \<Rightarrow> bar list" where
  "window_rows t provider window_start window_end row_limit =
    (let matching = filter (\<lambda>b. (case window_start of None \<Rightarrow> True | Some s \<Rightarrow> s \<le> bar_ts b)
           \<and> (case window_end of None \<Rightarrow> True | Some e \<Rightarrow> bar_ts b < e)) (scoped t provider);
         newest_first = rev (sort_key bar_ts matching);
         limited = (case row_limit of None \<Rightarrow> newest_first | Some n \<Rightarrow> take n newest_first)
     in sort_key bar_ts limited)"

definition range_rows :: "table_scope \<Rightarrow> string \<Rightarrow> instant option \<Rightarrow> instant option \<Rightarrow> bar list" where
  "range_rows t provider start_at end_at = sort_key bar_ts (filter (\<lambda>b.
     (case start_at of None \<Rightarrow> True | Some s \<Rightarrow> s \<le> bar_ts b)
     \<and> (case end_at of None \<Rightarrow> True | Some e \<Rightarrow> bar_ts b \<le> e)) (scoped t provider))"

definition grouped_rows ::
  "string list \<Rightarrow> string list \<Rightarrow> (string \<Rightarrow> string \<Rightarrow> bar list) \<Rightarrow> string \<times> string \<Rightarrow> bar list option" where
  "grouped_rows timeframes providers rows key = (case key of (provider, timeframe) \<Rightarrow>
    (if timeframe \<in> set timeframes \<and> provider \<in> set providers \<and> provider \<noteq> [] \<and> rows provider timeframe \<noteq> []
     then Some (rows provider timeframe) else None))"

definition optional_utc :: "pydatetime option \<Rightarrow> instant option res" where
  "optional_utc d = (case d of None \<Rightarrow> Inr None | Some x \<Rightarrow> rbind (astimezone_utc x) (\<lambda>t. Inr (Some t)))"

definition normalized_window ::
  "string \<times> (instant option \<times> instant \<times> int) \<Rightarrow> (string \<times> (instant option \<times> instant \<times> int)) res" where
  "normalized_window w = (case w of (timeframe, (s, e, n)) \<Rightarrow>
    rbind (require_persisted_bar_timeframe timeframe) (\<lambda>tf. Inr (tf, (s, e, max n 1))))"

text \<open>\<open>bind\<close> is the resolved route of the instrument: its id and fingerprint.\<close>

definition read_bars_multi ::
  "bar_row list \<Rightarrow> (string list \<Rightarrow> vdict \<Rightarrow> (string \<times> string) res) \<Rightarrow> multi_query
    \<Rightarrow> (string \<times> string \<Rightarrow> bar list option) res" where
  "read_bars_multi table bind q =
    rbind (bind (mq_providers q) (mq_instrument q)) (\<lambda>(instrument_id, fingerprint).
    rbind (mapM require_persisted_bar_timeframe (mq_timeframes q)) (\<lambda>timeframes.
    let scope = (\<lambda>tf. \<lparr>sc_rows = table, sc_instrument_id = instrument_id, sc_fingerprint = fingerprint,
          sc_timeframe = tf\<rparr>) in
    if timeframes = [] \<or> list_all (\<lambda>p. p = []) (mq_providers q) then Inr (\<lambda>_. None)
    else rbind (mapM normalized_window (mq_windows q)) (\<lambda>windows.
      if windows \<noteq> []
      then (if \<not> list_all (\<lambda>tf. tf \<in> set (map fst windows)) timeframes
        then Inl (ValueError ''timeframe_read_windows must cover every requested timeframe'')
        else Inr (grouped_rows timeframes (mq_providers q) (\<lambda>p tf.
          case map_of (rev windows) tf of None \<Rightarrow> []
          | Some (s, e, n) \<Rightarrow> window_rows (scope tf) p s (Some e) (Some (nat n)))))
      else rbind (optional_utc (mq_start q)) (\<lambda>s. rbind (optional_utc (mq_end q)) (\<lambda>e.
        Inr (grouped_rows timeframes (mq_providers q) (\<lambda>p tf. range_rows (scope tf) p s e)))))))"

text \<open>What the table holds: a row per instrument, route, provider, timeframe and timestamp, of
  confirmed bars (the primary key of the table and the contract of its writers) at instants a
  \<open>datetime\<close> can hold.\<close>

definition table_ok :: "table_scope \<Rightarrow> bool" where
  "table_ok t \<longleftrightarrow> (\<forall>p. distinct (map bar_ts (scoped t p))
     \<and> list_all (\<lambda>b. confirmed_bar b \<and> in_dt_range (bar_ts b)) (scoped t p))"

definition table_series :: "table_scope \<Rightarrow> string \<Rightarrow> bar list" where
  "table_series t provider = sort_key bar_ts (scoped t provider)"

definition read_newest :: "table_scope \<Rightarrow> string \<Rightarrow> instant \<Rightarrow> nat \<Rightarrow> bar list" where
  "read_newest t provider boundary n = window_rows t provider None (Some boundary) (Some n)"

end
