(* ===== verification/HistoryPageLaws.thy ===== *)
theory HistoryPageLaws
  imports BarStore BarSeriesLaws
begin

text \<open>
  Paging backwards through stored history: the page before a timestamp holds exactly the newest
  bars of the merged series below it, and following the cursors visits every bar once.
\<close>

section \<open>Newest elements of ordered series\<close>

lemma ordered_filter: "strictly_ordered bs \<Longrightarrow> strictly_ordered (filter P bs)"
  by (simp add: strictly_ordered_def sorted_wrt_map sorted_wrt_filter)

lemma ordered_append:
  "strictly_ordered (xs @ ys) \<longleftrightarrow> strictly_ordered xs \<and> strictly_ordered ys
    \<and> (\<forall>x \<in> set xs. \<forall>y \<in> set ys. bar_ts x < bar_ts y)"
  by (auto simp: strictly_ordered_def sorted_wrt_append)

lemma ordered_last_items: "strictly_ordered bs \<Longrightarrow> strictly_ordered (last_items n bs)"
  unfolding last_items_def by (metis append_take_drop_id ordered_append)

lemma ordered_sort_key: "strictly_ordered bs \<Longrightarrow> sort_key bar_ts bs = bs"
  by (rule sort_key_id_if_sorted) (simp add: strictly_ordered_def strict_sorted_iff)

lemma ordered_distinct_ts: "strictly_ordered bs \<Longrightarrow> distinct (map bar_ts bs)"
  by (simp add: strictly_ordered_def strict_sorted_iff)

lemma ordered_inj: "strictly_ordered bs \<Longrightarrow> a \<in> set bs \<Longrightarrow> b \<in> set bs \<Longrightarrow> bar_ts a = bar_ts b \<Longrightarrow> a = b"
  using ordered_distinct_ts [of bs] by (auto simp: distinct_map dest: inj_onD)

lemma last_items_split: "\<exists>older. bs = older @ last_items n bs"
  unfolding last_items_def by (metis append_take_drop_id)

lemma last_items_all: "length bs \<le> n \<Longrightarrow> last_items n bs = bs"
  by (simp add: last_items_def)

lemma length_last_items: "length (last_items n bs) = min n (length bs)"
  by (simp add: last_items_def)

lemma last_items_subset: "set (last_items n bs) \<subseteq> set bs"
  by (simp add: last_items_def set_drop_subset)

lemma last_items_append: "length ys = n \<Longrightarrow> last_items n (xs @ ys) = ys"
  by (simp add: last_items_def)

text \<open>An ordered series that holds the newest bars of another, and no timestamps of its own, has the
  same newest bars.\<close>

lemma newest_agree:
  assumes M: "strictly_ordered M" and R: "strictly_ordered R"
    and sub: "set (last_items n M) \<subseteq> set R" and ts: "bar_ts ` set R \<subseteq> bar_ts ` set M"
  shows "last_items n R = last_items n M"
proof (cases "length M \<le> n")
  case True
  have "set R = set M"
  proof
    show "set M \<subseteq> set R" using sub True by (simp add: last_items_all)
    show "set R \<subseteq> set M"
    proof
      fix r assume r: "r \<in> set R"
      then have "bar_ts r \<in> bar_ts ` set M" using ts by blast
      then obtain m where "bar_ts r = bar_ts m" "m \<in> set M" by blast
      with \<open>set M \<subseteq> set R\<close> ordered_inj [OF R r] show "r \<in> set M" by auto
    qed
  qed
  then have "R = M" by (rule strictly_ordered_eqI [OF R M])
  then show ?thesis by simp
next
  case False
  define U where "U = last_items n M"
  obtain A where A: "M = A @ U" unfolding U_def using last_items_split by blast
  have len: "length U = n" using False by (simp add: U_def length_last_items)
  note sub = sub [folded U_def]
  show ?thesis
  proof (cases U)
    case Nil
    with len show ?thesis by (simp add: last_items_def)
  next
    case (Cons u us)
    let ?P = "\<lambda>b. bar_ts u \<le> bar_ts b"
    have ordM: "strictly_ordered (A @ U)" using M A by simp
    then have ordU: "strictly_ordered U" by (simp add: ordered_append)
    have above: "\<forall>b \<in> set U. ?P b" using ordU Cons by (auto simp: strictly_ordered_def less_imp_le)
    have below: "\<forall>a \<in> set A. \<not> ?P a"
      using ordM Cons by (auto simp: ordered_append)
    have "set (filter ?P R) = set U"
    proof
      show "set U \<subseteq> set (filter ?P R)" using sub above by auto
      show "set (filter ?P R) \<subseteq> set U"
      proof
        fix r assume "r \<in> set (filter ?P R)"
        then have r: "r \<in> set R" "?P r" by auto
        then have "bar_ts r \<in> bar_ts ` set M" using ts by blast
        then obtain m where m: "m \<in> set M" "bar_ts m = bar_ts r" by (metis imageE)
        then have "m \<in> set U" using A below r(2) by (metis Un_iff set_append)
        moreover have "m = r" using ordered_inj [OF R _ r(1) m(2)] sub calculation by blast
        ultimately show "r \<in> set U" by simp
      qed
    qed
    then have eq: "filter ?P R = U" by (rule strictly_ordered_eqI [OF ordered_filter [OF R] ordU])
    have "R = filter (\<lambda>b. \<not> ?P b) R @ filter ?P R"
    proof (rule strictly_ordered_eqI [OF R])
      show "strictly_ordered (filter (\<lambda>b. \<not> ?P b) R @ filter ?P R)"
        using R by (auto simp: ordered_append ordered_filter)
    qed auto
    then show ?thesis unfolding eq U_def [symmetric] using last_items_append [OF len] by metis
  qed
qed

lemma last_items_rank:
  assumes xs: "strictly_ordered xs"
  shows "b \<in> set (last_items n xs) \<longleftrightarrow> b \<in> set xs \<and> card {t \<in> bar_ts ` set xs. bar_ts b < t} < n"
proof -
  define U where "U = last_items n xs"
  obtain A where A: "xs = A @ U" unfolding U_def using last_items_split by blast
  have ord: "strictly_ordered (A @ U)" using xs A by simp
  have len: "length U = min n (length xs)" by (simp add: U_def length_last_items)
  have ts: "card (bar_ts ` set ys) = length ys" if "strictly_ordered ys" for ys
    using ordered_distinct_ts [OF that] distinct_card by fastforce
  have U: "strictly_ordered U" using ord by (simp add: ordered_append)
  show ?thesis
  proof (cases "b \<in> set U")
    case True
    have "{t \<in> bar_ts ` set xs. bar_ts b < t} \<subseteq> bar_ts ` set U - {bar_ts b}"
      using ord True unfolding A by (force simp: ordered_append)
    then have "card {t \<in> bar_ts ` set xs. bar_ts b < t} \<le> card (bar_ts ` set U - {bar_ts b})"
      by (intro card_mono) auto
    also have "\<dots> < card (bar_ts ` set U)" using True by (intro card_Diff1_less) auto
    also have "\<dots> \<le> n" using ts [OF U] len by simp
    finally show ?thesis using True A unfolding U_def by (auto dest: subsetD [OF last_items_subset])
  next
    case False
    have "\<not> card {t \<in> bar_ts ` set xs. bar_ts b < t} < n" if "b \<in> set xs"
    proof -
      have bA: "b \<in> set A" using that False A by auto
      then have "bar_ts ` set U \<subseteq> {t \<in> bar_ts ` set xs. bar_ts b < t}"
        using ord A by (auto simp: ordered_append)
      then have "card (bar_ts ` set U) \<le> card {t \<in> bar_ts ` set xs. bar_ts b < t}"
        by (intro card_mono) auto
      moreover have "length U = n" using len bA A by (cases "n \<le> length xs") auto
      ultimately show ?thesis using ts [OF U] by simp
    qed
    with False show ?thesis unfolding U_def by blast
  qed
qed

section \<open>Merged series\<close>

definition merged_series :: "(string \<Rightarrow> bar list) \<Rightarrow> string list \<Rightarrow> bar list" where
  "merged_series series providers = merge_history_candidates_by_authority
     (map (\<lambda>(i, p). (int i, series p)) (enumerate 0 providers))"

lemma merged_ordered: "strictly_ordered (merged_series series ps)"
  by (simp add: merged_series_def merge_ordered)

lemma merged_candidates:
  "map (\<lambda>(i, p). (int i, series p)) (enumerate 0 ps) = map (\<lambda>i. (int i, series (ps ! i))) [0..<length ps]"
  by (rule nth_equalityI) (simp_all add: nth_enumerate_eq)

lemma merged_members:
  assumes "\<And>p. strictly_ordered (series p)"
  shows "b \<in> set (merged_series series ps) \<longleftrightarrow> (\<exists>i < length ps. b \<in> set (series (ps ! i))
    \<and> (\<forall>j < i. bar_ts b \<notin> bar_ts ` set (series (ps ! j))))"
proof -
  let ?cs = "map (\<lambda>i. (int i, series (ps ! i))) [0..<length ps]"
  have d: "distinct (map fst ?cs)" by (simp add: comp_def distinct_map inj_on_def)
  have mem: "(q, bs) \<in> set ?cs \<longleftrightarrow> (\<exists>i < length ps. q = int i \<and> bs = series (ps ! i))" for q bs
    by auto
  have split: "(\<exists>ys zs. bs = ys @ b # zs \<and> (\<forall>y \<in> set ys. bar_ts y \<noteq> bar_ts b)) \<longleftrightarrow> b \<in> set bs"
    if "strictly_ordered bs" for bs
    using that by (auto simp: ordered_append dest!: split_list) (metis less_irrefl list.set_intros(1))
  show ?thesis
    unfolding merged_series_def merged_candidates merge_members [OF d] split_beta mem
  proof
    assume "\<exists>q bs ys zs. (\<exists>i < length ps. q = int i \<and> bs = series (ps ! i)) \<and> bs = ys @ b # zs
      \<and> (\<forall>y \<in> set ys. bar_ts y \<noteq> bar_ts b)
      \<and> (\<forall>c \<in> set ?cs. fst c < q \<longrightarrow> (\<forall>x \<in> set (snd c). bar_ts x \<noteq> bar_ts b))"
    then obtain i ys zs where i: "i < length ps" "series (ps ! i) = ys @ b # zs"
      and n: "\<forall>c \<in> set ?cs. fst c < int i \<longrightarrow> (\<forall>x \<in> set (snd c). bar_ts x \<noteq> bar_ts b)" by metis
    have "bar_ts b \<notin> bar_ts ` set (series (ps ! j))" if "j < i" for j
      using n that i(1) by (fastforce simp: image_iff)
    with i show "\<exists>i < length ps. b \<in> set (series (ps ! i))
        \<and> (\<forall>j < i. bar_ts b \<notin> bar_ts ` set (series (ps ! j)))" by (metis in_set_conv_decomp)
  next
    assume "\<exists>i < length ps. b \<in> set (series (ps ! i)) \<and> (\<forall>j < i. bar_ts b \<notin> bar_ts ` set (series (ps ! j)))"
    then obtain i where i: "i < length ps" "b \<in> set (series (ps ! i))"
      "\<forall>j < i. bar_ts b \<notin> bar_ts ` set (series (ps ! j))" by blast
    from i(2) obtain ys zs where yz: "series (ps ! i) = ys @ b # zs" "\<forall>y \<in> set ys. bar_ts y \<noteq> bar_ts b"
      using split [OF assms] by blast
    have "\<forall>c \<in> set ?cs. fst c < int i \<longrightarrow> (\<forall>x \<in> set (snd c). bar_ts x \<noteq> bar_ts b)"
      using i(3) by (auto simp: image_iff) metis
    with i(1) yz show "\<exists>q bs ys zs. (\<exists>i < length ps. q = int i \<and> bs = series (ps ! i)) \<and> bs = ys @ b # zs
      \<and> (\<forall>y \<in> set ys. bar_ts y \<noteq> bar_ts b)
      \<and> (\<forall>c \<in> set ?cs. fst c < q \<longrightarrow> (\<forall>x \<in> set (snd c). bar_ts x \<noteq> bar_ts b))" by blast
  qed
qed

lemma merged_timestamps:
  assumes "\<And>p. strictly_ordered (series p)"
  shows "bar_ts ` set (merged_series series ps) = (\<Union>p \<in> set ps. bar_ts ` set (series p))"
proof
  show "bar_ts ` set (merged_series series ps) \<subseteq> (\<Union>p \<in> set ps. bar_ts ` set (series p))"
    using merged_members [of series, OF assms] nth_mem by fastforce
  show "(\<Union>p \<in> set ps. bar_ts ` set (series p)) \<subseteq> bar_ts ` set (merged_series series ps)"
  proof
    fix t assume "t \<in> (\<Union>p \<in> set ps. bar_ts ` set (series p))"
    then have "\<exists>i. i < length ps \<and> t \<in> bar_ts ` set (series (ps ! i))" by (metis UN_E in_set_conv_nth)
    then obtain i where i: "i < length ps \<and> t \<in> bar_ts ` set (series (ps ! i))"
      and least: "\<forall>j < i. \<not> (j < length ps \<and> t \<in> bar_ts ` set (series (ps ! j)))"
      using exists_least_iff [of "\<lambda>i. i < length ps \<and> t \<in> bar_ts ` set (series (ps ! i))"] by blast
    from i obtain b where b: "b \<in> set (series (ps ! i))" "bar_ts b = t" by blast
    with i least have "b \<in> set (merged_series series ps)"
      using merged_members [of series, OF assms] by auto
    with b(2) show "t \<in> bar_ts ` set (merged_series series ps)" by blast
  qed
qed

lemma merged_below:
  assumes "\<And>p. strictly_ordered (series p)"
  shows "merged_series (\<lambda>p. filter (\<lambda>b. bar_ts b < e) (series p)) ps
    = filter (\<lambda>b. bar_ts b < e) (merged_series series ps)"
proof (rule strictly_ordered_eqI)
  show "strictly_ordered (merged_series (\<lambda>p. filter (\<lambda>b. bar_ts b < e) (series p)) ps)"
    by (rule merged_ordered)
  show "strictly_ordered (filter (\<lambda>b. bar_ts b < e) (merged_series series ps))"
    by (rule ordered_filter [OF merged_ordered])
  have f: "strictly_ordered (filter (\<lambda>b. bar_ts b < e) (series p))" for p
    by (rule ordered_filter [OF assms])
  show "set (merged_series (\<lambda>p. filter (\<lambda>b. bar_ts b < e) (series p)) ps)
      = set (filter (\<lambda>b. bar_ts b < e) (merged_series series ps))"
    by (rule set_eqI) (simp add: merged_members [of series, OF assms] merged_members [OF f] image_iff, metis)
qed

lemma merged_newest:
  assumes ord: "\<And>p. strictly_ordered (series p)"
  shows "last_items n (merged_series (\<lambda>p. last_items n (series p)) ps) = last_items n (merged_series series ps)"
proof (rule newest_agree)
  have o: "strictly_ordered (last_items n (series p))" for p by (rule ordered_last_items [OF ord])
  let ?R = "merged_series (\<lambda>p. last_items n (series p)) ps" and ?M = "merged_series series ps"
  show "bar_ts ` set ?R \<subseteq> bar_ts ` set ?M"
    unfolding merged_timestamps [of "\<lambda>p. last_items n (series p)", OF o] merged_timestamps [of series, OF ord]
    using last_items_subset by fast
  show "set (last_items n ?M) \<subseteq> set ?R"
  proof
    fix b assume "b \<in> set (last_items n ?M)"
    then have b: "b \<in> set ?M" "card {t \<in> bar_ts ` set ?M. bar_ts b < t} < n"
      by (simp_all add: last_items_rank [OF merged_ordered])
    then obtain i where i: "i < length ps" "b \<in> set (series (ps ! i))"
      "\<forall>j < i. bar_ts b \<notin> bar_ts ` set (series (ps ! j))"
      using merged_members [of series, OF ord] by blast
    have "{t \<in> bar_ts ` set (series (ps ! i)). bar_ts b < t} \<subseteq> {t \<in> bar_ts ` set ?M. bar_ts b < t}"
      unfolding merged_timestamps [of series, OF ord] using i(1) by auto
    then have "card {t \<in> bar_ts ` set (series (ps ! i)). bar_ts b < t} \<le> card {t \<in> bar_ts ` set ?M. bar_ts b < t}"
      by (intro card_mono) auto
    with b(2) i(2) have "b \<in> set (last_items n (series (ps ! i)))"
      by (simp add: last_items_rank [OF ord])
    moreover have "\<forall>j < i. bar_ts b \<notin> bar_ts ` set (last_items n (series (ps ! j)))"
      using i(3) last_items_subset by fast
    ultimately show "b \<in> set ?R"
      unfolding merged_members [of "\<lambda>p. last_items n (series p)", OF o] using i(1) by blast
  qed
qed (rule merged_ordered)+

lemma dedupe_id: "strictly_ordered bs \<Longrightarrow> dedupe_bars_by_timestamp bs = bs"
proof (rule strictly_ordered_eqI [OF dedupe_ordered])
  assume o: "strictly_ordered bs"
  show "set (dedupe_bars_by_timestamp bs) = set bs"
    unfolding dedupe_is_latest
  proof (rule set_eqI)
    fix b
    have "\<exists>ys zs. bs = ys @ b # zs \<and> (\<forall>z \<in> set zs. bar_ts z \<noteq> bar_ts b)" if b: "b \<in> set bs"
    proof -
      obtain ys zs where e: "bs = ys @ b # zs" using split_list [OF b] by blast
      with o have "strictly_ordered (b # zs)" by (simp add: ordered_append)
      then have "\<forall>z \<in> set zs. bar_ts z \<noteq> bar_ts b" by (auto simp: strictly_ordered_def)
      with e show ?thesis by blast
    qed
    then show "b \<in> set (values_by_key (latest_by_timestamp bs)) \<longleftrightarrow> b \<in> set bs"
      unfolding latest_members by auto
  qed
qed

section \<open>Following the cursors\<close>

text \<open>A reader of pages that goes on from the cursor of each page until there is none. \<open>None\<close> when the
  fuel runs out.\<close>

fun follow_pages :: "nat \<Rightarrow> (instant \<Rightarrow> history_page res) \<Rightarrow> instant \<Rightarrow> bar list res option" where
  "follow_pages 0 page e = None"
| "follow_pages (Suc fuel) page e = (case page e of
      Inl err \<Rightarrow> Some (Inl err)
    | Inr p \<Rightarrow> (case pg_next_before_ts p of
        None \<Rightarrow> Some (Inr (pg_bars p))
      | Some e' \<Rightarrow> (case follow_pages fuel page e' of
          Some (Inr older) \<Rightarrow> Some (Inr (older @ pg_bars p))
        | answer \<Rightarrow> answer)))"

text \<open>The page of the newest bars of an ordered series.\<close>

definition newest_page :: "nat \<Rightarrow> bar list \<Rightarrow> history_page" where
  "newest_page n bs = \<lparr>pg_bars = last_items n bs,
     pg_next_before_ts = (if n < length bs then Some (bar_ts (hd (last_items n bs))) else None),
     pg_has_more = n < length bs\<rparr>"

lemma older_than_page:
  assumes "strictly_ordered bs" "0 < n" "n < length bs" "e = bar_ts (hd (last_items n bs))"
  shows "filter (\<lambda>b. bar_ts b < e) bs @ last_items n bs = bs"
    and "length (filter (\<lambda>b. bar_ts b < e) bs) < length bs"
    and "hd (last_items n bs) \<in> set bs"
proof -
  obtain A where A: "bs = A @ last_items n bs" using last_items_split by blast
  obtain u us where U: "last_items n bs = u # us"
    using assms(2,3) length_last_items [of n bs] by (cases "last_items n bs") auto
  have o: "strictly_ordered (A @ u # us)" using assms(1) A U by simp
  then have "\<forall>a \<in> set A. bar_ts a < bar_ts u" "strictly_ordered (u # us)" by (simp_all add: ordered_append)
  moreover from this(2) have "\<forall>b \<in> set us. bar_ts u < bar_ts b" by (auto simp: strictly_ordered_def)
  moreover have "bs = A @ u # us" "e = bar_ts u" using A U assms(4) by simp_all
  ultimately have "filter (\<lambda>b. bar_ts b < e) bs = A"
    by (auto simp: filter_empty_conv less_le_not_le intro!: filter_True)
  moreover have "bs = A @ u # us" using A U by simp
  ultimately show "filter (\<lambda>b. bar_ts b < e) bs @ last_items n bs = bs"
    "length (filter (\<lambda>b. bar_ts b < e) bs) < length bs" "hd (last_items n bs) \<in> set bs"
    using A U by simp_all
qed

section \<open>The interface to the store\<close>

text \<open>What the page reader relies on: every scope holds one ordered series of confirmed bars per
  provider, and a read returns the newest of them below the boundary.\<close>

locale window_store =
  fixes ok :: "'s \<Rightarrow> bool" and read :: "'s \<Rightarrow> string \<Rightarrow> instant \<Rightarrow> nat \<Rightarrow> bar list"
    and series :: "'s \<Rightarrow> string \<Rightarrow> bar list"
  assumes series_ordered: "ok s \<Longrightarrow> strictly_ordered (series s p)"
    and series_confirmed: "ok s \<Longrightarrow> b \<in> set (series s p) \<Longrightarrow> confirmed_bar b \<and> in_dt_range (bar_ts b)"
    and reads_newest: "ok s \<Longrightarrow> read s p e n = last_items n (filter (\<lambda>b. bar_ts b < e) (series s p))"
begin

definition history :: "'s \<Rightarrow> string list \<Rightarrow> instant \<Rightarrow> bar list" where
  "history s ps e = filter (\<lambda>b. bar_ts b < e) (merged_series (series s) ps)"

lemma read_ordered: "ok s \<Longrightarrow> strictly_ordered (read s p e n)"
  by (simp add: reads_newest ordered_last_items ordered_filter series_ordered)

lemma merged_read_newest:
  assumes "ok s"
  shows "last_items n (merged_series (\<lambda>p. read s p e n) ps) = last_items n (history s ps e)"
proof -
  have o: "strictly_ordered (filter (\<lambda>b. bar_ts b < e) (series s p))" for p
    by (simp add: ordered_filter series_ordered assms)
  have "merged_series (\<lambda>p. filter (\<lambda>b. bar_ts b < e) (series s p)) ps = history s ps e"
    unfolding history_def by (rule merged_below) (rule series_ordered [OF assms])
  with merged_newest [of "\<lambda>p. filter (\<lambda>b. bar_ts b < e) (series s p)" n ps, OF o]
  show ?thesis by (simp add: reads_newest [OF assms])
qed

lemma merged_read_members:
  assumes "ok s" "b \<in> set (merged_series (\<lambda>p. read s p e n) ps)"
  shows "confirmed_bar b \<and> in_dt_range (bar_ts b) \<and> bar_ts b < e"
proof -
  obtain p where "b \<in> set (read s p e n)"
    using assms(2) merged_members [of "\<lambda>p. read s p e n", OF read_ordered [OF assms(1)]] by blast
  then have "b \<in> set (filter (\<lambda>b. bar_ts b < e) (series s p))"
    unfolding reads_newest [OF assms(1)] using last_items_subset by fast
  then show ?thesis using series_confirmed [OF assms(1)] by auto
qed

lemma history_ordered: "strictly_ordered (history s ps e)"
  unfolding history_def by (rule ordered_filter [OF merged_ordered])

lemma history_in_range: "ok s \<Longrightarrow> b \<in> set (history s ps e) \<Longrightarrow> in_dt_range (bar_ts b) \<and> bar_ts b < e"
  unfolding history_def using merged_members [of "series s", OF series_ordered] series_confirmed by fastforce

lemma page_of_reads:
  assumes "ok s" "0 < n"
  shows "page_of False n limit e (merged_series (\<lambda>p. read s p e (Suc n)) ps)
      (merged_series (\<lambda>p. read s p e (Suc n)) ps) = newest_page n (history s ps e)"
proof -
  let ?R = "merged_series (\<lambda>p. read s p e (Suc n)) ps" and ?H = "history s ps e"
  have new: "last_items (Suc n) ?R = last_items (Suc n) ?H" by (rule merged_read_newest [OF assms(1)])
  have conf: "filter (\<lambda>b. bar_ts b < e \<and> bar_closed b \<and> bar_state b = CONFIRMED) ?R = ?R"
    using merged_read_members [OF assms(1)] by (auto simp: confirmed_bar_def intro: filter_True)
  have ded: "dedupe_bars_by_timestamp ?R = ?R"
    by (rule dedupe_id [OF merged_ordered])
  have len: "n < length ?R \<longleftrightarrow> n < length ?H"
    using arg_cong [OF new, of length] by (auto simp: length_last_items)
  have shorter: "last_items n xs = last_items n (last_items (Suc n) xs)" for xs :: "bar list"
    by (cases "n < length xs") (simp_all add: last_items_def Suc_diff_Suc)
  have last: "last_items n ?R = last_items n ?H" using new shorter by metis
  show ?thesis
    using assms(2) len by (auto simp: page_of_def newest_page_def Let_def conf ded ordered_sort_key [OF merged_ordered] last
        length_last_items split: list.splits dest: arg_cong [of _ _ length])
qed

lemma follow_newest_pages:
  assumes "ok s" "0 < n" "in_dt_range e" "length (history s ps e) < fuel"
    and page: "\<And>e. in_dt_range e \<Longrightarrow> page e = Inr (newest_page n (history s ps e))"
  shows "follow_pages fuel page e = Some (Inr (history s ps e))"
  using assms(3,4)
proof (induction fuel arbitrary: e)
  case (Suc fuel)
  let ?H = "history s ps e"
  show ?case
  proof (cases "n < length ?H")
    case False
    then show ?thesis using page [OF Suc.prems(1)] by (simp add: newest_page_def last_items_all)
  next
    case True
    define e' where "e' = bar_ts (hd (last_items n ?H))"
    note older = older_than_page [OF history_ordered assms(2) True e'_def]
    have e': "in_dt_range e'" "e' < e"
      using history_in_range [OF assms(1) older(3)] by (simp_all add: e'_def)
    have H': "history s ps e' = filter (\<lambda>b. bar_ts b < e') ?H"
      using e'(2) by (auto simp: history_def intro!: filter_cong)
    with older(2) Suc.prems(2) have "length (history s ps e') < fuel" by simp
    from Suc.IH [OF e'(1) this] page [OF Suc.prems(1)] True older(1) H' show ?thesis
      by (simp add: newest_page_def e'_def)
  qed
qed simp

end

section \<open>The bars table\<close>

lemma window_rows_newest:
  assumes "distinct (map bar_ts (scoped t p))"
  shows "read_newest t p e n = last_items n (filter (\<lambda>b. bar_ts b < e) (table_series t p))"
    and "strictly_ordered (table_series t p)"
proof -
  let ?S = "table_series t p"
  have so: "strictly_ordered (sort_key bar_ts bs)" if "distinct (map bar_ts bs)" for bs
    using that by (simp add: strictly_ordered_def strict_sorted_iff distinct_map)
  show o: "strictly_ordered ?S" unfolding table_series_def by (rule so [OF assms])
  let ?L = "filter (\<lambda>b. bar_ts b < e) ?S"
  have "take n (rev ?L) = rev (last_items n ?L)" by (simp add: take_rev last_items_def)
  moreover have "sort_key bar_ts (rev (last_items n ?L)) = last_items n ?L"
  proof (rule strictly_ordered_eqI)
    show L: "strictly_ordered (last_items n ?L)" by (rule ordered_last_items [OF ordered_filter [OF o]])
    show "strictly_ordered (sort_key bar_ts (rev (last_items n ?L)))"
      using ordered_distinct_ts [OF L] by (intro so) (simp add: rev_map [symmetric])
  qed simp
  ultimately show "read_newest t p e n = last_items n ?L"
    by (simp add: read_newest_def window_rows_def table_series_def filter_sort Let_def)
qed

lemma set_table_series: "set (table_series t p) = set (scoped t p)"
  by (simp add: table_series_def)

interpretation bw: window_store table_ok read_newest table_series
  by unfold_locales (auto simp: table_ok_def window_rows_newest list_all_iff set_table_series)

section \<open>Pages of the table\<close>

lemma merged_cong: "(\<And>p. p \<in> set ps \<Longrightarrow> f p = g p) \<Longrightarrow> merged_series f ps = merged_series g ps"
  unfolding merged_series_def merged_candidates by (auto intro!: arg_cong [where f = merge_history_candidates_by_authority])

lemma stored_timeframe:
  assumes "tf \<in> set PERSISTED_BAR_INTERVALS"
  shows "require_persisted_bar_timeframe tf = Inr tf" "canonical_bar_source_interval tf = Inr tf"
    "\<not> is_derived_chart_interval tf" "interval_seconds tf \<noteq> 0"
proof -
  have "list_all (\<lambda>tf. require_persisted_bar_timeframe tf = Inr tf \<and> canonical_bar_source_interval tf = Inr tf
      \<and> \<not> is_derived_chart_interval tf \<and> interval_seconds tf \<noteq> 0) PERSISTED_BAR_INTERVALS" by code_simp
  with assms show "require_persisted_bar_timeframe tf = Inr tf" "canonical_bar_source_interval tf = Inr tf"
    "\<not> is_derived_chart_interval tf" "interval_seconds tf \<noteq> 0" by (simp_all add: list_all_iff)
qed

definition table_scope_of :: "bar_row list \<Rightarrow> string \<times> string \<Rightarrow> string \<Rightarrow> table_scope" where
  "table_scope_of table route tf = \<lparr>sc_rows = table, sc_instrument_id = fst route, sc_fingerprint = snd route,
     sc_timeframe = tf\<rparr>"

definition stored_history :: "bar_row list \<Rightarrow> string \<times> string \<Rightarrow> string \<Rightarrow> string list \<Rightarrow> instant \<Rightarrow> bar list" where
  "stored_history table route tf providers e =
    filter (\<lambda>b. bar_ts b < e) (merged_series (table_series (table_scope_of table route tf)) providers)"

lemma page_source_reads:
  assumes "history_route_of route = None" "tf \<in> set PERSISTED_BAR_INTERVALS" "1 \<le> limit"
    and "[] \<notin> set (ad_db_providers (ir_adapter route))"
    and "bind (ad_db_providers (ir_adapter route)) (ir_instrument route) = Inr r"
    and "st_bars_multi store = read_bars_multi table bind"
  shows "page_source store route tf e limit = Inr (merged_series
    (\<lambda>p. read_newest (table_scope_of table r tf) p e (nat limit)) (ad_db_providers (ir_adapter route)))"
proof -
  let ?ps = "ad_db_providers (ir_adapter route)"
  define rows where "rows = (\<lambda>p (tf' :: string). if tf' = tf
    then read_newest (table_scope_of table r tf) p e (nat limit) else [])"
  have merge: "merge_providers (grouped_rows [tf] ?ps f) ?ps tf = merged_series (\<lambda>p. f p tf) ?ps" for f
    unfolding merge_providers_def merged_series_def merged_candidates
    using assms(4) nth_mem by (fastforce simp: merged_candidates grouped_rows_def
        intro!: arg_cong [where f = merge_history_candidates_by_authority])
  show ?thesis
  proof (cases "?ps = []")
    case True
    then show ?thesis using assms
      by (simp add: page_source_def read_bars_multi_def merge_providers_def merged_series_def stored_timeframe res_simps
          split: prod.split)
  next
    case False
    then have "\<not> list_all (\<lambda>p. p = []) ?ps" using assms(4) by (cases ?ps) auto
    with assms show ?thesis
      by (simp add: page_source_def read_bars_multi_def normalized_window_def stored_timeframe res_simps merge
          read_newest_def table_scope_of_def Let_def max_def split: prod.split)
  qed
qed

lemma page_of_table:
  assumes "history_route_of route = None" "tf \<in> set PERSISTED_BAR_INTERVALS" "1 \<le> n" "n \<le> 1000"
    and "[] \<notin> set (ad_db_providers (ir_adapter route))"
    and "bind (ad_db_providers (ir_adapter route)) (ir_instrument route) = Inr r"
    and "st_bars_multi store = read_bars_multi table bind"
    and "table_ok (table_scope_of table r tf)" "is_aware before_ts" "astimezone_utc before_ts = Inr e"
  shows "read_provider_history_page route tf before_ts (VInt n) (Some store) now
    = Inr (newest_page (nat n) (stored_history table r tf (ad_db_providers (ir_adapter route)) e))"
proof -
  have limit: "page_source_limit tf (interval_seconds tf div interval_seconds tf) n = n + 1"
    using stored_timeframe(3,4) [OF assms(2)] by (simp add: page_source_limit_def)
  note src = page_source_reads [OF assms(1,2) _ assms(5,6,7), of "n + 1" e]
  have n: "nat (n + 1) = Suc (nat n)" using assms(3) by simp
  let ?R = "merged_series (\<lambda>p. read_newest (table_scope_of table r tf) p e (Suc (nat n))) (ad_db_providers (ir_adapter route))"
  have "derive_chart_bars (dedupe_bars_by_timestamp ?R) tf (Some e) now = Inr ?R"
    using stored_timeframe(3) [OF assms(2)] by (simp add: derive_chart_bars_def dedupe_id merged_ordered)
  then show ?thesis
    using assms stored_timeframe [OF assms(2)] limit src n
      bw.page_of_reads [OF assms(8), of "nat n" "n + 1" e "ad_db_providers (ir_adapter route)"]
    by (simp add: read_provider_history_page_def res_simps stored_history_def bw.history_def)
qed

section \<open>The properties\<close>

text \<open>C24: a page of stored history is exact. For a route whose bars are in the bars table, at a
  persisted timeframe, reading the page of \<open>n\<close> bars before a timestamp through
  \<open>read_provider_history_page\<close> and the SQL of \<open>read_bars_multi\<close> returns the newest \<open>n\<close> bars below the
  boundary of the complete merged history: every provider's series, one bar per timestamp, that of the
  first provider in the order of authority. Although each provider is read only to \<open>n + 1\<close> rows, none is
  missed. There is more exactly when the history holds more than \<open>n\<close> bars, and the cursor is then the
  timestamp of the oldest bar of the page.\<close>

theorem history_page_is_exact:
  assumes "history_route_of route = None" "tf \<in> set PERSISTED_BAR_INTERVALS" "1 \<le> n" "n \<le> 1000"
    and "[] \<notin> set (ad_db_providers (ir_adapter route))"
    and "bind (ad_db_providers (ir_adapter route)) (ir_instrument route) = Inr r"
    and "st_bars_multi store = read_bars_multi table bind"
    and "table_ok (table_scope_of table r tf)" "is_aware before_ts" "astimezone_utc before_ts = Inr e"
  shows "\<exists>page. read_provider_history_page route tf before_ts (VInt n) (Some store) now = Inr page
    \<and> (let history = stored_history table r tf (ad_db_providers (ir_adapter route)) e in
       pg_bars page = last_items (nat n) history
       \<and> (pg_has_more page \<longleftrightarrow> nat n < length history)
       \<and> (pg_has_more page \<longrightarrow> pg_next_before_ts page = Some (bar_ts (hd (pg_bars page))))
       \<and> (\<not> pg_has_more page \<longrightarrow> pg_next_before_ts page = None))"
  using page_of_table [OF assms] by (simp add: newest_page_def Let_def)

text \<open>C25: following the cursors reads the whole history. From any timestamp, a client that requests page
  after page, each before the cursor of the last one, stops after at most one page per bar, and the pages
  it received, put together oldest first, are the complete merged history below the timestamp: every bar
  once, none missed between two pages and none twice.\<close>

theorem pages_cover_history:
  assumes "history_route_of route = None" "tf \<in> set PERSISTED_BAR_INTERVALS" "1 \<le> n" "n \<le> 1000"
    and "[] \<notin> set (ad_db_providers (ir_adapter route))"
    and "bind (ad_db_providers (ir_adapter route)) (ir_instrument route) = Inr r"
    and "st_bars_multi store = read_bars_multi table bind"
    and "table_ok (table_scope_of table r tf)" "in_dt_range e"
    and "length (stored_history table r tf (ad_db_providers (ir_adapter route)) e) < fuel"
  shows "follow_pages fuel
      (\<lambda>e. read_provider_history_page route tf (utc_datetime e) (VInt n) (Some store) now) e
    = Some (Inr (stored_history table r tf (ad_db_providers (ir_adapter route)) e))"
proof -
  have page: "read_provider_history_page route tf (utc_datetime e) (VInt n) (Some store) now
      = Inr (newest_page (nat n) (bw.history (table_scope_of table r tf) (ad_db_providers (ir_adapter route)) e))"
    if "in_dt_range e" for e
    using page_of_table [OF assms(1-8), of "utc_datetime e" e] that
    by (simp add: stored_history_def bw.history_def utc_datetime_def is_aware_def astimezone_utc_def)
  have "bw.history (table_scope_of table r tf) (ad_db_providers (ir_adapter route)) e
      = stored_history table r tf (ad_db_providers (ir_adapter route)) e"
    by (simp add: stored_history_def bw.history_def)
  moreover have "0 < nat n" using assms(3) by simp
  ultimately show ?thesis using bw.follow_newest_pages [OF assms(8) _ assms(9) _ page] assms(10) by simp
qed

section \<open>Witnesses\<close>

definition sample_bar :: "string \<Rightarrow> instant \<Rightarrow> bar" where
  "sample_bar source ts = \<lparr>bar_symbol = ''X'', bar_ts = ts, bar_open = Fin 1, bar_high = Fin 1, bar_low = Fin 1,
     bar_close = Fin 1, bar_volume = Fin 0, bar_timeframe = ''1m'', bar_source = source, bar_closed = True,
     bar_state = CONFIRMED, bar_provenance = None\<rparr>"

definition sample_rows :: "bar_row list" where
  "sample_rows = map (\<lambda>(p, t). \<lparr>br_instrument_id = ''i'', br_route_fingerprint = ''f'', br_provider = p,
     br_bar = sample_bar p t\<rparr>) [(''b'', 120), (''a'', 60), (''b'', 60), (''b'', 180), (''a'', 240)]"

definition sample_route :: instrument_route where
  "sample_route = \<lparr>ir_instrument = [], ir_adapter = \<lparr>ad_key = ''a'', ad_db_providers = [''a'', ''b''],
     ad_canonical_history_route = (\<lambda>_. None)\<rparr>, ir_provider = ''a'', ir_provider_symbol = ''X'',
     ir_instrument_id = ''i'', ir_instrument_key = ''k'', ir_fingerprint = ''f'', ir_price_increment = None\<rparr>"

definition sample_store :: history_store where
  "sample_store = \<lparr>st_futures = (\<lambda>_ _. Inr None), st_bars_multi = read_bars_multi sample_rows (\<lambda>_ _. Inr (''i'', ''f'')),
     st_recent = (\<lambda>_. Inr None), st_recent_batch = (\<lambda>_. Inr None)\<rparr>"

lemma sample_facts:
  "history_route_of sample_route = None" "ad_db_providers (ir_adapter sample_route) = [''a'', ''b'']"
  "st_bars_multi sample_store = read_bars_multi sample_rows (\<lambda>_ _. Inr (''i'', ''f''))"
  "''1m'' \<in> set PERSISTED_BAR_INTERVALS"
  by (simp_all add: history_route_of_def sample_route_def sample_store_def PERSISTED_BAR_INTERVALS_def)

lemma sample_table: "table_ok (table_scope_of sample_rows (''i'', ''f'') ''1m'')"
  by (auto simp: table_ok_def scoped_def table_scope_of_def sample_rows_def sample_bar_def confirmed_bar_def
      in_dt_range_def dt_min_def dt_max_def)

lemma sample_history:
  "stored_history sample_rows (''i'', ''f'') ''1m'' [''a'', ''b''] 240
    = [sample_bar ''a'' 60, sample_bar ''b'' 120, sample_bar ''b'' 180]"
  by code_simp

theorem history_page_is_exact_witness:
  "\<exists>page. read_provider_history_page sample_route ''1m'' (DateTime 240 (Some 0)) (VInt 2) (Some sample_store) 0 = Inr page
    \<and> pg_bars page = [sample_bar ''b'' 120, sample_bar ''b'' 180] \<and> pg_has_more page
    \<and> pg_next_before_ts page = Some 120"
proof -
  have d: "is_aware (DateTime 240 (Some 0))" "astimezone_utc (DateTime 240 (Some 0)) = Inr 240" by code_simp+
  from history_page_is_exact [of sample_route "''1m''" 2 "\<lambda>_ _. Inr (''i'', ''f'')" "(''i'', ''f'')" sample_store
      sample_rows, OF _ _ _ _ _ _ _ sample_table d, of 0]
  obtain page where "read_provider_history_page sample_route ''1m'' (DateTime 240 (Some 0)) (VInt 2) (Some sample_store) 0
      = Inr page" "pg_bars page = [sample_bar ''b'' 120, sample_bar ''b'' 180]" "pg_has_more page"
    "pg_next_before_ts page = Some (bar_ts (sample_bar ''b'' 120))"
    by (auto simp: sample_facts sample_history last_items_def)
  moreover have "bar_ts (sample_bar ''b'' 120) = 120" by (simp add: sample_bar_def)
  ultimately show ?thesis by metis
qed

theorem pages_cover_history_witness:
  "follow_pages 4 (\<lambda>e. read_provider_history_page sample_route ''1m'' (utc_datetime e) (VInt 1) (Some sample_store) 0) 240
    = Some (Inr [sample_bar ''a'' 60, sample_bar ''b'' 120, sample_bar ''b'' 180])"
proof -
  have d: "in_dt_range 240" by code_simp
  from pages_cover_history [of sample_route "''1m''" 1 "\<lambda>_ _. Inr (''i'', ''f'')" "(''i'', ''f'')" sample_store
      sample_rows, OF _ _ _ _ _ _ _ sample_table d, of 4 0]
  show ?thesis by (simp add: sample_facts sample_history)
qed

end
