(* ===== verification/PyEq.thy ===== *)
theory PyEq
  imports Identity
begin

text \<open>
  Equality of values as \<open>==\<close> sees it: numbers by value whatever their type, dictionaries by their
  entries in any order, members of the program's enumerations as the texts they are; and membership
  in a set display, which raises for values that cannot be hashed.
\<close>

fun num_of :: "pyval \<Rightarrow> pyfloat + int \<Rightarrow> bool" where
  "num_of (VInt n) (Inr m) = (n = m)"
| "num_of (VBool b) (Inr m) = ((if b then 1 else 0) = m)"
| "num_of (VInt n) (Inl x) = (x = Fin (of_int n))"
| "num_of (VBool b) (Inl x) = (x = Fin (if b then 1 else 0))"
| "num_of (VFloat x) (Inl y) = (x = y \<and> x \<noteq> NaN)"
| "num_of (VFloat x) (Inr m) = (x = Fin (of_int m))"
| "num_of _ _ = False"

definition datetime_eq :: "pydatetime \<Rightarrow> pydatetime \<Rightarrow> bool" where
  "datetime_eq a b = (case (dt_offset a, dt_offset b) of
      (None, None) \<Rightarrow> dt_wall a = dt_wall b
    | (Some x, Some y) \<Rightarrow> dt_wall a - x = dt_wall b - y
    | _ \<Rightarrow> False)"

text \<open>Objects of other classes are equal when they are the same, facts when their fields are.\<close>

fun py_eq :: "pyval \<Rightarrow> pyval \<Rightarrow> bool" where
  "py_eq VNone v = (v = VNone)"
| "py_eq (VBool b) v = num_of v (Inr (if b then 1 else 0))"
| "py_eq (VInt n) v = num_of v (Inr n)"
| "py_eq (VFloat x) v = num_of v (Inl x)"
| "py_eq (VStr s) v = (is_str v \<and> str_of v = s)"
| "py_eq (VEnum _ s) v = (is_str v \<and> str_of v = s)"
| "py_eq (VBytes s) v = (v = VBytes s)"
| "py_eq (VDateTime d) v = (case v of VDateTime e \<Rightarrow> datetime_eq d e | _ \<Rightarrow> False)"
| "py_eq (VList xs) v = (case v of VList ys \<Rightarrow> list_all2 py_eq xs ys | _ \<Rightarrow> False)"
| "py_eq (VTuple xs) v = (case v of VTuple ys \<Rightarrow> list_all2 py_eq xs ys | _ \<Rightarrow> False)"
| "py_eq (VDict d) v = (case mapping_items v of None \<Rightarrow> False
    | Some e \<Rightarrow> length d = length e
        \<and> list_all (\<lambda>(k, x). case map_of e k of None \<Rightarrow> False | Some y \<Rightarrow> py_eq x y) d)"
| "py_eq (VFrozen d) v = (case mapping_items v of None \<Rightarrow> False
    | Some e \<Rightarrow> length d = length e
        \<and> list_all (\<lambda>(k, x). case map_of e k of None \<Rightarrow> False | Some y \<Rightarrow> py_eq x y) d)"
| "py_eq (VFact c d) v = (case v of VFact c' e \<Rightarrow> c = c' \<and> length d = length e
        \<and> list_all (\<lambda>(k, x). case map_of e k of None \<Rightarrow> False | Some y \<Rightarrow> py_eq x y) d
      | _ \<Rightarrow> False)"
| "py_eq (VOther t) v = (v = VOther t)"

fun hashable :: "pyval \<Rightarrow> bool" where
  "hashable (VTuple xs) = list_all hashable xs"
| "hashable (VList _) = False"
| "hashable (VDict _) = False"
| "hashable (VFrozen _) = False"
| "hashable (VFact _ _) = False"
| "hashable _ = True"

text \<open>\<open>value in {text, ...}\<close>\<close>

definition in_texts :: "pyval \<Rightarrow> string list \<Rightarrow> bool res" where
  "in_texts v texts = (if hashable v then Inr (is_str v \<and> str_of v \<in> set texts)
     else Inl (TypeError ''unhashable type''))"

end
