(* ===== verification/PaperContract.thy ===== *)
theory PaperContract
  imports PyEq MathUtils Timeframes
begin

text \<open>
  \<open>paper_contract.py\<close>: the physical contract a paper order trades, with its payload and its scope key,
  and the protective levels of an order: either absolute, or distances from the fill price. Payloads
  are dictionaries with text keys. \<open>str\<close> of a value that is no text is the argument \<open>pystr\<close>.
\<close>

section \<open>The contract\<close>

definition netstring :: "string \<Rightarrow> string" where
  "netstring value = str_of_nat (length value) @ '':'' @ value"

fun join_bar :: "string list \<Rightarrow> string" where
  "join_bar [] = []"
| "join_bar [p] = p"
| "join_bar (p # ps) = p @ ''|'' @ join_bar ps"

definition paper_contract_scope_key :: "string list \<Rightarrow> string" where
  "paper_contract_scope_key parts = ''paper-contract-v1|'' @ join_bar (map netstring parts)"

definition exact_utc_iso :: "iso_parser \<Rightarrow> pyval \<Rightarrow> string \<Rightarrow> string res" where
  "exact_utc_iso piso v field =
    rbind (case v of VDateTime d \<Rightarrow> Inr d
      | _ \<Rightarrow> if is_str v \<and> str_of v \<noteq> []
        then (case piso (replace_Z (str_of v)) of None \<Rightarrow> Inl (ValueError (field @ ''_INVALID'')) | Some d \<Rightarrow> Inr d)
        else Inl (ValueError (field @ ''_REQUIRED''))) (\<lambda>parsed.
    if \<not> is_aware parsed then Inl (ValueError (field @ ''_UTC_REQUIRED''))
    else rbind (astimezone_utc parsed) (\<lambda>t. Inr (isoformat_utc t)))"

record paper_contract =
  ct_scope_kind :: string
  ct_provider :: string
  ct_provider_contract_id :: string
  ct_sec_type :: pyval
  ct_con_id :: pyval
  ct_exchange :: pyval
  ct_expiry :: pyval
  ct_expiry_at :: pyval
  ct_strike :: pyval
  ct_right :: pyval
  ct_trading_class :: pyval
  ct_multiplier :: pyval
  ct_currency :: pyval

text \<open>\<open>datetime.strptime(s, "%Y%m%d")\<close> of eight digits: the date exists.\<close>

definition days_in_month :: "int \<Rightarrow> int \<Rightarrow> int" where
  "days_in_month y m = (if m = 2 then (if y mod 4 = 0 \<and> (y mod 100 \<noteq> 0 \<or> y mod 400 = 0) then 29 else 28)
     else if m \<in> {4, 6, 9, 11} then 30 else 31)"

definition valid_ymd :: "string \<Rightarrow> bool" where
  "valid_ymd s = (py_isdecimal s \<and> length s = 8
     \<and> (let y = decimal_value (take 4 s); m = decimal_value (take 2 (drop 4 s)); d = decimal_value (drop 6 s)
        in 1 \<le> y \<and> 1 \<le> m \<and> m \<le> 12 \<and> 1 \<le> d \<and> d \<le> days_in_month y m))"

definition positive_number :: "pyval \<Rightarrow> string \<Rightarrow> pyval res" where
  "positive_number v code =
    (case v of
       VInt n \<Rightarrow> rbind (py_float v) (\<lambda>x. if isfinite x \<and> \<not> fle x (Fin 0) then Inr (VFloat x)
         else Inl (ValueError code))
     | VFloat x \<Rightarrow> if isfinite x \<and> \<not> fle x (Fin 0) then Inr (VFloat x) else Inl (ValueError code)
     | _ \<Rightarrow> Inl (ValueError code))"

text \<open>The facts of an option, in the order the constructor checks them.\<close>

definition option_facts :: "iso_parser \<Rightarrow> paper_contract \<Rightarrow> paper_contract res" where
  "option_facts piso c =
    rbind (in_texts (ct_sec_type c) [''OPT'', ''FOP'']) (\<lambda>sec_type_ok.
    rbind (require sec_type_ok (ValueError ''PAPER_OPTION_SEC_TYPE_INVALID'')) (\<lambda>_.
    rbind (case ct_con_id c of VInt n \<Rightarrow> if n \<le> 0 then Inl (ValueError ''PAPER_OPTION_CON_ID_INVALID'') else Inr n
      | _ \<Rightarrow> Inl (ValueError ''PAPER_OPTION_CON_ID_INVALID'')) (\<lambda>con_id.
    rbind (require (\<not> (ct_provider c = ''ibkr'' \<and> ct_provider_contract_id c \<noteq> str_of_int con_id))
      (ValueError ''PAPER_OPTION_PROVIDER_CONTRACT_ID_MISMATCH'')) (\<lambda>_.
    rbind (require_exact_identity_text (ct_exchange c) ''PAPER_OPTION_EXCHANGE'' False) (\<lambda>exchange.
    rbind (require_exact_identity_text (ct_expiry c) ''PAPER_OPTION_EXPIRY'' False) (\<lambda>expiry.
    rbind (require_exact_identity_text (ct_trading_class c) ''PAPER_OPTION_TRADING_CLASS'' False) (\<lambda>trading_class.
    rbind (require_exact_identity_text (ct_currency c) ''PAPER_OPTION_CURRENCY'' False) (\<lambda>currency.
    rbind (require (length expiry = 8 \<and> py_isdigit expiry) (ValueError ''PAPER_OPTION_EXPIRY_INVALID'')) (\<lambda>_.
    rbind (require (valid_ymd expiry) (ValueError ''PAPER_OPTION_EXPIRY_INVALID'')) (\<lambda>_.
    rbind (exact_utc_iso piso (ct_expiry_at c) ''PAPER_OPTION_EXPIRY_AT'') (\<lambda>expiry_at.
    rbind (in_texts (ct_right c) [''C'', ''P'']) (\<lambda>right_ok.
    rbind (require right_ok (ValueError ''PAPER_OPTION_RIGHT_INVALID'')) (\<lambda>_.
    rbind (positive_number (ct_strike c) ''PAPER_OPTION_STRIKE_INVALID'') (\<lambda>strike.
    rbind (positive_number (ct_multiplier c) ''PAPER_OPTION_MULTIPLIER_INVALID'') (\<lambda>multiplier.
      Inr (c\<lparr>ct_exchange := VStr exchange, ct_expiry := VStr expiry, ct_trading_class := VStr trading_class,
        ct_currency := VStr currency, ct_expiry_at := VStr expiry_at, ct_strike := strike,
        ct_multiplier := multiplier\<rparr>))))))))))))))))"

definition PaperContractIdentity ::
  "iso_parser \<Rightarrow> pyval \<Rightarrow> pyval \<Rightarrow> pyval \<Rightarrow> (string \<Rightarrow> pyval) \<Rightarrow> paper_contract res" where
  "PaperContractIdentity piso scope_kind provider contract_id option_fact =
    rbind (require_exact_identity_text provider ''PAPER_CONTRACT_PROVIDER'' False) (\<lambda>p.
    if p \<noteq> py_lower p then Inl (ValueError ''PAPER_CONTRACT_PROVIDER_NOT_CANONICAL'')
    else rbind (require_exact_identity_text contract_id ''PAPER_CONTRACT_PROVIDER_CONTRACT_ID'' False) (\<lambda>pid.
      let c = \<lparr>ct_scope_kind = str_of scope_kind, ct_provider = p, ct_provider_contract_id = pid,
            ct_sec_type = option_fact ''sec_type'', ct_con_id = option_fact ''con_id'', ct_exchange = option_fact ''exchange'',
            ct_expiry = option_fact ''expiry'', ct_expiry_at = option_fact ''expiry_at'', ct_strike = option_fact ''strike'',
            ct_right = option_fact ''right'', ct_trading_class = option_fact ''trading_class'',
            ct_multiplier = option_fact ''multiplier'', ct_currency = option_fact ''currency''\<rparr> in
      if is_str scope_kind \<and> str_of scope_kind = ''instrument''
      then (if list_ex (\<lambda>v. v \<noteq> VNone) [ct_sec_type c, ct_con_id c, ct_exchange c, ct_expiry c, ct_expiry_at c,
                ct_strike c, ct_right c, ct_trading_class c, ct_multiplier c, ct_currency c]
        then Inl (ValueError ''PAPER_INSTRUMENT_CONTRACT_OPTION_FACTS_FORBIDDEN'') else Inr c)
      else if \<not> (is_str scope_kind \<and> str_of scope_kind = ''option'')
      then Inl (ValueError ''PAPER_CONTRACT_SCOPE_KIND_INVALID'')
      else option_facts piso c))"

text \<open>\<open>str\<close> of the facts in the key: texts and the contract number.\<close>

definition fact_text :: "pyval \<Rightarrow> string" where
  "fact_text v = (case v of VInt n \<Rightarrow> str_of_int n | _ \<Rightarrow> str_of v)"

definition scope_key :: "paper_contract \<Rightarrow> string" where
  "scope_key c = paper_contract_scope_key
    (if ct_scope_kind c = ''instrument'' then [ct_scope_kind c, ct_provider c, ct_provider_contract_id c]
     else [ct_scope_kind c, ct_provider c, fact_text (ct_sec_type c), ct_provider_contract_id c,
           fact_text (ct_con_id c), fact_text (ct_exchange c)])"

definition contract_payload :: "paper_contract \<Rightarrow> vdict" where
  "contract_payload c = [
     (VStr ''version'', VInt 1), (VStr ''scope_kind'', VStr (ct_scope_kind c)), (VStr ''scope_key'', VStr (scope_key c)),
     (VStr ''provider'', VStr (ct_provider c)), (VStr ''provider_contract_id'', VStr (ct_provider_contract_id c)),
     (VStr ''sec_type'', ct_sec_type c), (VStr ''con_id'', ct_con_id c), (VStr ''exchange'', ct_exchange c),
     (VStr ''expiry'', ct_expiry c), (VStr ''expiry_at'', ct_expiry_at c), (VStr ''strike'', ct_strike c),
     (VStr ''right'', ct_right c), (VStr ''trading_class'', ct_trading_class c),
     (VStr ''multiplier'', ct_multiplier c), (VStr ''currency'', ct_currency c)]"

definition paper_instrument_contract :: "iso_parser \<Rightarrow> pyval \<Rightarrow> pyval \<Rightarrow> paper_contract res" where
  "paper_instrument_contract piso provider contract_id =
    rbind (require_exact_identity_text provider ''PAPER_CONTRACT_PROVIDER'' False) (\<lambda>p.
    rbind (require_exact_identity_text contract_id ''PAPER_CONTRACT_PROVIDER_CONTRACT_ID'' False) (\<lambda>pid.
      PaperContractIdentity piso (VStr ''instrument'') (VStr p) (VStr pid) (\<lambda>_. VNone)))"

definition contract_keys :: "pyval list" where
  "contract_keys = map VStr [''version'', ''scope_kind'', ''scope_key'', ''provider'', ''provider_contract_id'',
     ''sec_type'', ''con_id'', ''exchange'', ''expiry'', ''expiry_at'', ''strike'', ''right'', ''trading_class'',
     ''multiplier'', ''currency'']"

definition require_paper_contract_identity :: "iso_parser \<Rightarrow> vdict \<Rightarrow> paper_contract res" where
  "require_paper_contract_identity piso payload =
    (let raw_contract = vget payload ''paper_contract'' in
    rbind (require_exact_identity_text (vget payload ''provider'') ''PAPER_CONTRACT_PROVIDER'' False) (\<lambda>provider.
    rbind (require_exact_identity_text (vget payload ''provider_contract_id'')
      ''PAPER_CONTRACT_PROVIDER_CONTRACT_ID'' False) (\<lambda>contract_id.
    if raw_contract = VNone then Inl (ValueError ''PAPER_CONTRACT_PAYLOAD_REQUIRED'')
    else case mapping_items raw_contract of
      None \<Rightarrow> Inl (ValueError ''PAPER_CONTRACT_PAYLOAD_INVALID'')
    | Some raw \<Rightarrow>
        if set (dkeys raw) \<noteq> set contract_keys then Inl (ValueError ''PAPER_CONTRACT_PAYLOAD_SHAPE_INVALID'')
        else if \<not> py_eq (vget raw ''version'') (VInt 1) then Inl (ValueError ''PAPER_CONTRACT_VERSION_INVALID'')
        else rbind (PaperContractIdentity piso (vget raw ''scope_kind'') (vget raw ''provider'')
            (vget raw ''provider_contract_id'') (vget raw)) (\<lambda>c.
          if ct_provider c \<noteq> provider \<or> ct_provider_contract_id c \<noteq> contract_id
            \<or> \<not> py_eq (vget raw ''scope_key'') (VStr (scope_key c)) \<or> \<not> py_eq (VDict raw) (VDict (contract_payload c))
          then Inl (ValueError ''PAPER_CONTRACT_PAYLOAD_CONTRADICTORY'') else Inr c))))"

definition require_paper_position_contract_identity :: "iso_parser \<Rightarrow> vdict \<Rightarrow> paper_contract res" where
  "require_paper_position_contract_identity piso position =
    (case mapping_items (vget position ''payload'') of
       None \<Rightarrow> Inl (ValueError ''PAPER_POSITION_PAYLOAD_REQUIRED'')
     | Some raw_payload \<Rightarrow> rbind (require_paper_contract_identity piso raw_payload) (\<lambda>c.
         if \<not> py_eq (vget position ''paper_contract'') (VDict (contract_payload c))
         then Inl (ValueError ''PAPER_POSITION_CONTRACT_COPIES_CONTRADICT'') else Inr c))"

section \<open>Protective levels\<close>

type_synonym levels = "pyfloat option \<times> pyfloat option"

definition use_flag :: "vdict \<Rightarrow> string \<Rightarrow> string \<Rightarrow> pyval" where
  "use_flag payload flag points = vget_default payload flag (VBool (vget payload points \<noteq> VNone))"

definition side_text :: "(pyval \<Rightarrow> string) \<Rightarrow> pyval \<Rightarrow> string" where
  "side_text pystr v = py_lower (if truthy v then text_of pystr v else [])"

text \<open>\<open>None\<close> when there is nothing to protect; the levels are the stop and the target.\<close>

definition paper_manual_protective_levels :: "(pyval \<Rightarrow> string) \<Rightarrow> vdict \<Rightarrow> levels option res" where
  "paper_manual_protective_levels pystr payload =
    (case (use_flag payload ''use_stop_loss'' ''stop_points'', use_flag payload ''use_target'' ''target_points'') of
       (VBool use_stop, VBool use_target) \<Rightarrow>
         if vget payload ''stop_loss'' \<noteq> VNone \<or> vget payload ''target'' \<noteq> VNone then Inr None
         else rbind (float_or_none (vget payload ''entry'')) (\<lambda>entry. (case entry of
           None \<Rightarrow> Inr None
         | Some e \<Rightarrow>
           let side = side_text pystr (vget payload ''side'') in
           if side \<noteq> ''long'' \<and> side \<noteq> ''short'' then Inr None
           else rbind (float_or_none (vget payload ''stop_points'')) (\<lambda>stop_points.
             rbind (float_or_none (vget payload ''target_points'')) (\<lambda>target_points.
             if \<not> use_stop \<and> \<not> use_target then Inr None
             else Inr (Some (
               (case stop_points of Some p \<Rightarrow> if use_stop \<and> flt (Fin 0) p
                  then Some (if side = ''long'' then fsub e p else fadd e p) else None | None \<Rightarrow> None),
               (case target_points of Some p \<Rightarrow> if use_target \<and> flt (Fin 0) p
                  then Some (if side = ''long'' then fadd e p else fsub e p) else None | None \<Rightarrow> None)))))))
     | (VBool _, _) \<Rightarrow> Inl (ValueError ''use_target must be a boolean'')
     | _ \<Rightarrow> Inl (ValueError ''use_stop_loss must be a boolean''))"

definition positive :: "pyfloat option \<Rightarrow> bool" where
  "positive p = (case p of None \<Rightarrow> False | Some x \<Rightarrow> flt (Fin 0) x)"

definition fill_distance_intent :: "pyfloat option \<Rightarrow> pyfloat option \<Rightarrow> pyval" where
  "fill_distance_intent stop_points target_points = VDict [(VStr ''basis'', VStr ''fill_distance''),
     (VStr ''stop_points'', opt_val stop_points), (VStr ''target_points'', opt_val target_points)]"

definition canonical_manual_paper_protection ::
  "(pyval \<Rightarrow> string) \<Rightarrow> vdict \<Rightarrow> vdict \<Rightarrow> (levels option \<times> vdict) res" where
  "canonical_manual_paper_protection pystr order metadata =
    (if vhas metadata ''absolute_level'' then Inl (ValueError ''PAPER_PROTECTION_LEGACY_ABSOLUTE_LEVEL_FORBIDDEN'')
     else
     let has_basis = vhas metadata ''protection_basis''; has_intent = vhas metadata ''paper_protection_intent'';
         has_point_fields = (vhas order ''stop_points'' \<or> vhas order ''target_points'') in
     if has_point_fields \<and> (has_basis \<or> has_intent) then Inl (ValueError ''PAPER_PROTECTION_INPUT_CONTRADICTORY'')
     else if has_point_fields
     then (if vget order ''stop_loss'' \<noteq> VNone \<or> vget order ''target'' \<noteq> VNone
       then Inl (ValueError ''PAPER_PROTECTION_POINT_AND_ABSOLUTE_LEVELS_CONTRADICT'')
       else rbind (paper_manual_protective_levels pystr order) (\<lambda>levels.
         let use_stop = truthy (use_flag order ''use_stop_loss'' ''stop_points'');
             use_target = truthy (use_flag order ''use_target'' ''target_points'') in
         rbind (float_or_none (vget order ''stop_points'')) (\<lambda>stop_points.
         rbind (float_or_none (vget order ''target_points'')) (\<lambda>target_points.
         if \<not> use_stop \<and> \<not> use_target
         then Inr (None, dpop (VStr ''paper_protection_intent'') (vset ''protection_basis'' (VStr ''absolute_structure'') metadata))
         else if (use_stop \<and> \<not> positive stop_points) \<or> (use_target \<and> \<not> positive target_points) \<or> levels = None
         then Inl (ValueError ''PAPER_FILL_DISTANCE_INTENT_INVALID'')
         else Inr (levels, vset ''paper_protection_intent''
             (fill_distance_intent (if use_stop then stop_points else None) (if use_target then target_points else None))
             (vset ''protection_basis'' (VStr ''fill_distance'') metadata))))))
     else if \<not> has_basis
     then (if has_intent then Inl (ValueError ''PAPER_PROTECTION_BASIS_REQUIRED'')
       else Inr (None, vset ''protection_basis'' (VStr ''absolute_structure'') metadata))
     else Inr (None, metadata))"

definition intent_keys :: "pyval list" where
  "intent_keys = map VStr [''basis'', ''stop_points'', ''target_points'']"

text \<open>A level is present exactly when its flag is set.\<close>

definition level_mismatch :: "bool \<Rightarrow> pyfloat option \<Rightarrow> pyval \<Rightarrow> bool" where
  "level_mismatch flag level raw = ((flag \<and> level = None) \<or> (\<not> flag \<and> raw \<noteq> VNone))"

definition points_mismatch :: "bool \<Rightarrow> pyfloat option \<Rightarrow> pyval \<Rightarrow> bool" where
  "points_mismatch flag points raw = ((flag \<and> \<not> positive points) \<or> (\<not> flag \<and> raw \<noteq> VNone))"

definition require_paper_order_protection :: "vdict \<Rightarrow> vdict res" where
  "require_paper_order_protection order =
    (case mapping_items (vget order ''payload'') of
       None \<Rightarrow> Inl (ValueError ''PAPER_ORDER_PROTECTION_PAYLOAD_REQUIRED'')
     | Some payload \<Rightarrow>
      if vhas payload ''absolute_level'' then Inl (ValueError ''PAPER_PROTECTION_LEGACY_ABSOLUTE_LEVEL_FORBIDDEN'')
      else rbind (in_texts (vget payload ''protection_basis'') [''absolute_structure'', ''fill_distance'']) (\<lambda>basis_ok.
      if \<not> basis_ok then Inl (ValueError ''PAPER_PROTECTION_BASIS_INVALID'')
      else case (vget order ''use_stop_loss'', vget order ''use_target'') of
        (VBool use_stop_loss, VBool use_target) \<Rightarrow>
          rbind (float_or_none (vget order ''stop_loss'')) (\<lambda>stop_loss.
          rbind (float_or_none (vget order ''target'')) (\<lambda>target.
          if level_mismatch use_stop_loss stop_loss (vget order ''stop_loss'')
            \<or> level_mismatch use_target target (vget order ''target'')
          then Inl (ValueError ''PAPER_PROTECTION_LEVELS_INVALID'')
          else let basis = str_of (vget payload ''protection_basis'');
                   intent = vget payload ''paper_protection_intent'' in
          if basis = ''absolute_structure''
          then (if intent \<noteq> VNone then Inl (ValueError ''PAPER_ABSOLUTE_PROTECTION_INTENT_FORBIDDEN'')
            else Inr payload)
          else case mapping_items intent of
            None \<Rightarrow> Inl (ValueError ''PAPER_FILL_DISTANCE_INTENT_INVALID'')
          | Some i \<Rightarrow>
            if set (dkeys i) \<noteq> set intent_keys \<or> \<not> py_eq (vget i ''basis'') (VStr ''fill_distance'')
            then Inl (ValueError ''PAPER_FILL_DISTANCE_INTENT_INVALID'')
            else rbind (float_or_none (vget i ''stop_points'')) (\<lambda>stop_points.
              rbind (float_or_none (vget i ''target_points'')) (\<lambda>target_points.
              if (\<not> use_stop_loss \<and> \<not> use_target) \<or> points_mismatch use_stop_loss stop_points (vget i ''stop_points'')
                \<or> points_mismatch use_target target_points (vget i ''target_points'')
              then Inl (ValueError ''PAPER_FILL_DISTANCE_INTENT_INVALID'')
              else Inr (vset ''protection_basis'' (VStr basis) (vset ''paper_protection_intent''
                (fill_distance_intent (if use_stop_loss then stop_points else None)
                  (if use_target then target_points else None)) payload))))))
      | _ \<Rightarrow> Inl (ValueError ''PAPER_PROTECTION_FLAGS_INVALID'')))"

end
