(* ===== verification/PaperCommand.thy ===== *)
theory PaperCommand
  imports PaperContract
begin

text \<open>
  The commands of the paper journal, \<open>storage/repos/paper.py\<close>: what an order asks for in canonical form,
  what a filled order asks to be applied, and the checks of a fill that need no table. Orders are
  dictionaries with text keys; \<open>now\<close> is the clock.
\<close>

definition paper_utc_datetime :: "iso_parser \<Rightarrow> instant \<Rightarrow> pyval \<Rightarrow> instant option \<Rightarrow> instant res" where
  "paper_utc_datetime piso now v dflt = (case v of
      VNone \<Rightarrow> Inr (case dflt of None \<Rightarrow> now | Some d \<Rightarrow> d)
    | VDateTime d \<Rightarrow> if is_aware d then astimezone_utc d else Inl (ValueError ''PAPER_DATETIME_TIMEZONE_REQUIRED'')
    | _ \<Rightarrow> if is_str v \<and> py_strip (str_of v) \<noteq> []
        then (case piso (replace_Z (str_of v)) of
            None \<Rightarrow> Inl (ValueError ''PAPER_DATETIME_INVALID'')
          | Some d \<Rightarrow> if is_aware d then astimezone_utc d
              else Inl (ValueError ''PAPER_DATETIME_TIMEZONE_REQUIRED''))
        else Inl (ValueError ''PAPER_DATETIME_INVALID''))"

section \<open>The command of an order\<close>

record paper_command =
  pc_id :: string
  pc_instrument_id :: string
  pc_route_fingerprint :: string
  pc_symbol :: string
  pc_provider :: string
  pc_provider_contract_id :: string
  pc_contract :: paper_contract
  pc_timeframe :: string
  pc_side :: "string option"
  pc_order_type :: string
  pc_qty :: "pyfloat option"
  pc_entry :: "pyfloat option"
  pc_stop_loss :: "pyfloat option"
  pc_target :: "pyfloat option"
  pc_use_stop_loss :: bool
  pc_use_target :: bool
  pc_role :: string
  pc_position_id :: "string option"
  pc_parent_order_id :: "string option"
  pc_oco_group_id :: "string option"
  pc_reduce_only :: bool
  pc_source :: string
  pc_note :: string
  pc_exit_reason :: string
  pc_payload :: vdict

definition opt_text :: "string option \<Rightarrow> pyval" where
  "opt_text s = (case s of None \<Rightarrow> VNone | Some t \<Rightarrow> VStr t)"

text \<open>What the protection of a dictionary with these entries depends on.\<close>

definition protection_view :: "vdict \<Rightarrow> bool \<Rightarrow> bool \<Rightarrow> pyfloat option \<Rightarrow> pyfloat option \<Rightarrow> vdict" where
  "protection_view payload use_stop use_target stop target = [
     (VStr ''payload'', VDict payload), (VStr ''use_stop_loss'', VBool use_stop), (VStr ''use_target'', VBool use_target),
     (VStr ''stop_loss'', opt_val stop), (VStr ''target'', opt_val target)]"

definition command_dict :: "paper_command \<Rightarrow> vdict" where
  "command_dict c = [
     (VStr ''id'', VStr (pc_id c)), (VStr ''instrument_id'', VStr (pc_instrument_id c)),
     (VStr ''route_fingerprint'', VStr (pc_route_fingerprint c)), (VStr ''symbol'', VStr (pc_symbol c)),
     (VStr ''provider'', VStr (pc_provider c)), (VStr ''provider_contract_id'', VStr (pc_provider_contract_id c)),
     (VStr ''paper_contract'', VDict (contract_payload (pc_contract c))), (VStr ''timeframe'', VStr (pc_timeframe c)),
     (VStr ''side'', opt_text (pc_side c)), (VStr ''order_type'', VStr (pc_order_type c)),
     (VStr ''qty'', opt_val (pc_qty c)), (VStr ''entry'', opt_val (pc_entry c)),
     (VStr ''stop_loss'', opt_val (pc_stop_loss c)), (VStr ''target'', opt_val (pc_target c)),
     (VStr ''use_stop_loss'', VBool (pc_use_stop_loss c)), (VStr ''use_target'', VBool (pc_use_target c)),
     (VStr ''role'', VStr (pc_role c)), (VStr ''position_id'', opt_text (pc_position_id c)),
     (VStr ''parent_order_id'', opt_text (pc_parent_order_id c)), (VStr ''oco_group_id'', opt_text (pc_oco_group_id c)),
     (VStr ''reduce_only'', VBool (pc_reduce_only c)), (VStr ''source'', VStr (pc_source c)),
     (VStr ''note'', VStr (pc_note c)), (VStr ''exit_reason'', VStr (pc_exit_reason c)),
     (VStr ''payload'', VDict (pc_payload c))]"

text \<open>\<open>str(value or default)\<close>\<close>

definition text_or :: "(pyval \<Rightarrow> string) \<Rightarrow> pyval \<Rightarrow> string \<Rightarrow> string" where
  "text_or pystr v dflt = (if truthy v then text_of pystr v else dflt)"

definition optional_id :: "vdict \<Rightarrow> string \<Rightarrow> string \<Rightarrow> string option res" where
  "optional_id order key field = (let raw = vget order key in
    if raw = VNone \<or> py_eq raw (VStr []) then Inr None
    else rbind (require_exact_identity_text raw field False) (\<lambda>t. Inr (Some t)))"

definition non_positive :: "pyfloat option \<Rightarrow> bool" where
  "non_positive q = (case q of None \<Rightarrow> True | Some x \<Rightarrow> fle x (Fin 0))"

definition paper_order_command_payload ::
  "iso_parser \<Rightarrow> (pyval \<Rightarrow> string) \<Rightarrow> vdict \<Rightarrow> paper_command res" where
  "paper_order_command_payload piso pystr order =
    rbind (require_exact_identity_text (vget order ''id'') ''PAPER_ORDER_ID'' False) (\<lambda>order_id.
    rbind (require_exact_identity_text (vget order ''instrument_id'') ''PAPER_ORDER_INSTRUMENT_ID'' False) (\<lambda>instrument_id.
    rbind (require_exact_identity_text (vget order ''route_fingerprint'') ''PAPER_ORDER_ROUTE_FINGERPRINT'' False) (\<lambda>fingerprint.
    rbind (require_exact_identity_text (vget order ''provider_contract_id'') ''PAPER_ORDER_PROVIDER_CONTRACT_ID'' False) (\<lambda>contract_id.
    rbind (require_paper_contract_identity piso order) (\<lambda>contract.
    let symbol = py_strip (text_or pystr (vget order ''symbol'') []);
        provider = py_lower (py_strip (text_or pystr (vget order ''provider'') []));
        timeframe = py_strip (text_or pystr (vget order ''timeframe'') []);
        order_type = py_lower (py_strip (text_or pystr (vget order ''order_type'') []));
        role = text_or pystr (vget order ''role'') ''entry'';
        reduce_only = vget_default order ''reduce_only'' (VBool (role \<in> {''stop'', ''take'', ''close''}));
        manual_close = (role = ''close'' \<and> reduce_only = VBool True);
        side_raw = py_lower (py_strip (text_or pystr (vget order ''side'') []));
        side = (if manual_close then None else Some side_raw) in
    rbind (if manual_close then Inr None else float_or_none (vget order ''qty'')) (\<lambda>qty.
    rbind (if manual_close then Inr None else float_or_none (vget order ''entry'')) (\<lambda>entry.
    rbind (float_or_none (vget order ''stop_loss'')) (\<lambda>stop_loss.
    rbind (float_or_none (vget order ''target'')) (\<lambda>target.
    let use_stop_loss = vget_default order ''use_stop_loss'' (VBool (stop_loss \<noteq> None));
        use_target = vget_default order ''use_target'' (VBool (target \<noteq> None));
        nested = (if vget order ''payload'' = VNone then VDict [] else vget order ''payload'') in
    case nested of
      VDict nested_payload \<Rightarrow>
      let canonical_payload = dpop (VStr ''paper_execution_config'') nested_payload in
      if symbol = [] \<or> provider = [] \<or> timeframe = [] \<or> order_type \<notin> {''market'', ''limit'', ''stop''}
        \<or> role \<notin> {''entry'', ''stop'', ''take'', ''close''} \<or> \<not> is_bool reduce_only
        \<or> \<not> is_bool use_stop_loss \<or> \<not> is_bool use_target
        \<or> (\<not> manual_close \<and> side_raw \<notin> {''long'', ''short''})
        \<or> (\<not> manual_close \<and> non_positive qty) \<or> (\<not> manual_close \<and> entry = None)
        \<or> vhas order ''requested_exit_price''
        \<or> (vget order ''stop_loss'' \<noteq> VNone \<and> stop_loss = None) \<or> (vget order ''target'' \<noteq> VNone \<and> target = None)
      then Inl (ValueError ''PAPER_ORDER_COMMAND_INVALID'')
      else
      rbind (optional_id order ''position_id'' ''PAPER_ORDER_POSITION_ID'') (\<lambda>position_id.
      rbind (optional_id order ''parent_order_id'' ''PAPER_ORDER_PARENT_ORDER_ID'') (\<lambda>parent_order_id.
      rbind (optional_id order ''oco_group_id'' ''PAPER_ORDER_OCO_GROUP_ID'') (\<lambda>oco_group_id.
      if truthy reduce_only \<and> position_id = None then Inl (ValueError ''PAPER_REDUCE_ONLY_POSITION_ID_REQUIRED'')
      else let command = \<lparr>pc_id = order_id, pc_instrument_id = instrument_id, pc_route_fingerprint = fingerprint,
             pc_symbol = symbol, pc_provider = provider, pc_provider_contract_id = contract_id, pc_contract = contract,
             pc_timeframe = timeframe, pc_side = side, pc_order_type = order_type, pc_qty = qty, pc_entry = entry,
             pc_stop_loss = stop_loss, pc_target = target, pc_use_stop_loss = truthy use_stop_loss,
             pc_use_target = truthy use_target, pc_role = role, pc_position_id = position_id,
             pc_parent_order_id = parent_order_id, pc_oco_group_id = oco_group_id, pc_reduce_only = truthy reduce_only,
             pc_source = text_or pystr (vget order ''source'') ''manual'',
             pc_note = text_or pystr (vget order ''note'') [],
             pc_exit_reason = text_or pystr (vget order ''exit_reason'') [], pc_payload = canonical_payload\<rparr>
        in rbind (require_paper_order_protection (protection_view canonical_payload (pc_use_stop_loss command)
             (pc_use_target command) stop_loss target)) (\<lambda>protected. Inr (command\<lparr>pc_payload := protected\<rparr>)))))
    | _ \<Rightarrow> Inl (ValueError ''PAPER_ORDER_COMMAND_PAYLOAD_INVALID''))))))))))"

section \<open>The command of a fill\<close>

text \<open>The identity, the quantity and the levels are those of the command.\<close>

record fill_command =
  fc_order :: vdict
  fc_command :: paper_command
  fc_protection_payload :: vdict
  fc_manual_close :: bool
  fc_price :: pyfloat
  fc_entry_price :: pyfloat
  fc_filled_at :: instant
  fc_order_payload :: vdict
  fc_create_command :: paper_command

abbreviation fc_order_id :: "fill_command \<Rightarrow> string" where "fc_order_id f \<equiv> pc_id (fc_command f)"
abbreviation fc_reduce_only :: "fill_command \<Rightarrow> bool" where "fc_reduce_only f \<equiv> pc_reduce_only (fc_command f)"

definition fc_side :: "fill_command \<Rightarrow> string" where
  "fc_side f = (case pc_side (fc_command f) of None \<Rightarrow> [] | Some s \<Rightarrow> s)"

definition fc_target_position_id :: "fill_command \<Rightarrow> string option" where
  "fc_target_position_id f = (if fc_reduce_only f then pc_position_id (fc_command f) else None)"

definition fc_signed_delta :: "fill_command \<Rightarrow> pyfloat" where
  "fc_signed_delta f = (if fc_manual_close f then Fin 0
     else case pc_qty (fc_command f) of None \<Rightarrow> Fin 0
       | Some q \<Rightarrow> if fc_side f = ''long'' then q else fneg q)"

definition fc_incoming_order :: "fill_command \<Rightarrow> vdict" where
  "fc_incoming_order f = vset ''create_command'' (VDict (command_dict (fc_create_command f)))
     (vset ''payload'' (VDict (fc_protection_payload f))
       (vset ''paper_contract'' (VDict (contract_payload (pc_contract (fc_command f)))) (fc_order f)))"

definition paper_fill_command ::
  "iso_parser \<Rightarrow> (pyval \<Rightarrow> string) \<Rightarrow> instant \<Rightarrow> vdict \<Rightarrow> fill_command res" where
  "paper_fill_command piso pystr now order =
    rbind (paper_order_command_payload piso pystr order) (\<lambda>command.
    rbind (require_paper_order_protection order) (\<lambda>protection_payload.
    let manual_close = (pc_reduce_only command \<and> pc_role command = ''close'') in
    rbind (float_or_none (if vget order ''fill_price'' \<noteq> VNone then vget order ''fill_price'' else vget order ''entry'')) (\<lambda>price.
    rbind (if manual_close \<or> vget order ''entry'' = VNone then Inr price else float_or_none (vget order ''entry'')) (\<lambda>entry_price.
    case (price, entry_price) of
      (Some p, Some e) \<Rightarrow>
        let order_payload = vset ''paper_contract'' (VDict (contract_payload (pc_contract command)))
          (vset ''provider_contract_id'' (VStr (pc_provider_contract_id command))
            (vset ''provider'' (VStr (pc_provider command))
              (vset ''route_fingerprint'' (VStr (pc_route_fingerprint command))
                (vset ''instrument_id'' (VStr (pc_instrument_id command)) protection_payload)))) in
        rbind (case vget order ''create_command'' of VDict raw \<Rightarrow> paper_order_command_payload piso pystr raw
          | _ \<Rightarrow> Inr command) (\<lambda>create_command.
        rbind (paper_utc_datetime piso now (vget order ''filled_at'') None) (\<lambda>filled_at.
          Inr \<lparr>fc_order = order, fc_command = command, fc_protection_payload = protection_payload,
            fc_manual_close = manual_close, fc_price = p, fc_entry_price = e, fc_filled_at = filled_at,
            fc_order_payload = order_payload, fc_create_command = create_command\<rparr>))
    | _ \<Rightarrow> Inl (ValueError ''valid provider-qualified filled paper order is required'')))))"

section \<open>Checks of a fill\<close>

text \<open>\<open>max(1e-9, abs(expected) * 1e-12)\<close>, and whether a level is the fill price moved by the points.\<close>

definition dust :: pyfloat where
  "dust = rnd (1 / 10 ^ 9)"

definition level_follows_fill ::
  "bool \<Rightarrow> pyfloat option \<Rightarrow> pyfloat option \<Rightarrow> bool \<Rightarrow> pyfloat \<Rightarrow> bool" where
  "level_follows_fill enabled level points upward fill_price =
    (if \<not> enabled then level = None
     else case (points, level) of
       (Some p, Some l) \<Rightarrow> \<not> fle p (Fin 0)
         \<and> (let expected = fadd fill_price (fmul (if upward then Fin 1 else Fin (- 1)) p);
                tolerance = fmax dust (fmul (fabs expected) (rnd (1 / 10 ^ 12)))
            in \<not> flt tolerance (fabs (fsub l expected)))
     | _ \<Rightarrow> False)"

definition without_levels :: "vdict \<Rightarrow> vdict" where
  "without_levels d = filter (\<lambda>(k, _). k \<noteq> VStr ''stop_loss'' \<and> k \<noteq> VStr ''target'') d"

definition paper_fill_distance_execution_update_allowed ::
  "vdict \<Rightarrow> vdict \<Rightarrow> paper_command \<Rightarrow> pyfloat \<Rightarrow> bool res" where
  "paper_fill_distance_execution_update_allowed existing incoming command fill_price =
    (case (vget existing ''execution_command'', vget existing ''create_command'', vget existing ''payload'',
        vget incoming ''payload'') of
       (VDict existing_command, VDict existing_create, VDict existing_payload, VDict incoming_payload) \<Rightarrow>
         if \<not> py_eq (VDict existing_create) (vget incoming ''create_command'')
           \<or> \<not> py_eq (vget existing_payload ''protection_basis'') (vget incoming_payload ''protection_basis'')
           \<or> \<not> py_eq (vget existing_payload ''paper_protection_intent'') (vget incoming_payload ''paper_protection_intent'')
           \<or> \<not> py_eq (vget existing_command ''role'') (VStr ''entry'')
           \<or> vget existing_command ''reduce_only'' \<noteq> VBool False
         then Inr False
         else (case vget existing_payload ''paper_protection_intent'' of
           VDict intent \<Rightarrow>
             if \<not> py_eq (vget intent ''basis'') (VStr ''fill_distance'')
               \<or> \<not> py_eq (VDict (without_levels existing_command)) (VDict (without_levels (command_dict command)))
               \<or> pc_side command \<notin> {Some ''long'', Some ''short''}
             then Inr False
             else let is_long = (pc_side command = Some ''long'') in
               rbind (if pc_use_stop_loss command then float_or_none (vget intent ''stop_points'') else Inr None) (\<lambda>stop_points.
               if \<not> level_follows_fill (pc_use_stop_loss command) (pc_stop_loss command) stop_points (\<not> is_long) fill_price
               then Inr False
               else rbind (if pc_use_target command then float_or_none (vget intent ''target_points'') else Inr None) (\<lambda>target_points.
                 Inr (level_follows_fill (pc_use_target command) (pc_target command) target_points is_long fill_price)))
         | _ \<Rightarrow> Inr False)
     | _ \<Rightarrow> Inr False)"

text \<open>The protective quantity an entry adds.\<close>

definition paper_entry_protective_qty :: "pyfloat \<Rightarrow> pyfloat \<Rightarrow> pyfloat \<Rightarrow> bool \<Rightarrow> pyfloat option res" where
  "paper_entry_protective_qty delta current previous reversed =
    (if \<not> isfinite delta \<or> \<not> isfinite current \<or> \<not> isfinite previous
     then Inl (ValueError ''PAPER_PROTECTIVE_QTY_INVALID'')
     else if reversed
     then (if fle (fabs current) dust then Inl (ValueError ''PAPER_PROTECTIVE_QTY_INVALID'')
       else Inr (Some (fabs current)))
     else if fle (fabs previous) dust \<or> flt (Fin 0) (fmul previous delta)
     then (if fle (fabs delta) dust then Inl (ValueError ''PAPER_PROTECTIVE_QTY_INVALID'')
       else Inr (Some (fabs delta)))
     else Inr None)"

text \<open>What an order may expect of the position it meets; the code and the reason of a rejection.\<close>

definition paper_position_expectation_rejection :: "vdict option \<Rightarrow> pyval \<Rightarrow> (string \<times> string) option res" where
  "paper_position_expectation_rejection position expectation =
    (case expectation of
       VNone \<Rightarrow> Inr None
     | VDict e \<Rightarrow>
        let state = vget e ''state'' in
        if py_eq state (VStr ''absent'')
        then Inr (if set (dkeys e) \<noteq> {VStr ''state''}
          then Some (''PAPER_POSITION_EXPECTATION_INVALID'', ''absent paper position expectation has unexpected fields'')
          else if position \<noteq> None
          then Some (''PAPER_POSITION_EXPECTATION_STALE'', ''paper position was opened before execution'') else None)
        else if \<not> py_eq state (VStr ''open'')
          \<or> set (dkeys e) \<noteq> set (map VStr [''state'', ''position_id'', ''side'', ''qty'', ''updated_at''])
        then Inr (Some (''PAPER_POSITION_EXPECTATION_INVALID'', ''open paper position expectation is incomplete''))
        else (case (require_exact_identity_text (vget e ''position_id'') ''PAPER_EXPECTED_POSITION_ID'' False,
            require_exact_identity_text (vget e ''updated_at'') ''PAPER_EXPECTED_POSITION_UPDATED_AT'' False) of
          (Inr expected_id, Inr expected_updated_at) \<Rightarrow>
            rbind (float_or_none (vget e ''qty'')) (\<lambda>expected_qty.
            rbind (in_texts (vget e ''side'') [''long'', ''short'']) (\<lambda>side_ok.
            case (if side_ok then expected_qty else None) of
              None \<Rightarrow> Inr (Some (''PAPER_POSITION_EXPECTATION_INVALID'', ''paper position expectation state is invalid''))
            | Some q \<Rightarrow> (case position of
                None \<Rightarrow> Inr (Some (''PAPER_POSITION_EXPECTATION_STALE'', ''expected paper position is no longer open''))
              | Some pos \<Rightarrow>
                  rbind (float_or_none (vget pos ''qty'')) (\<lambda>current_qty.
                  Inr (if \<not> py_eq (vget pos ''id'') (VStr expected_id)
                      \<or> \<not> py_eq (vget (dict_or_empty (vget pos ''payload'')) ''side'') (vget e ''side'')
                      \<or> (case current_qty of None \<Rightarrow> True | Some c \<Rightarrow> flt dust (fabs (fsub c q)))
                      \<or> \<not> py_eq (vget pos ''updated_at'') (VStr expected_updated_at)
                    then Some (''PAPER_POSITION_EXPECTATION_STALE'', ''paper position changed before execution'')
                    else None)))))
        | _ \<Rightarrow> Inr (Some (''PAPER_POSITION_EXPECTATION_INVALID'', ''paper position expectation identity is invalid'')))
     | _ \<Rightarrow> Inr (Some (''PAPER_POSITION_EXPECTATION_INVALID'', ''paper position expectation must be an object'')))"

end
