(* ===== verification/PaperLedger.thy ===== *)
theory PaperLedger
  imports PaperCommand BarSeries
begin

text \<open>
  The ledger of paper trading, \<open>storage/repos/paper.py\<close> and the row readers of \<open>storage/db_utils.py\<close>: orders,
  positions, fills and events as the rows of four tables, and the transactions over them with the
  meaning of their SQL statements. A transaction that raises leaves the tables as they were, so it
  returns either the exception or its answer with the new tables. Constraint violations of the database
  are \<open>RuntimeError\<close>. The JSON column of a row is a dictionary; the generated columns are read from it.
\<close>

section \<open>Rows\<close>

record order_row =
  ow_id :: string
  ow_symbol :: string
  ow_timeframe :: string
  ow_side :: string
  ow_order_type :: string
  ow_status :: string
  ow_qty :: pyfloat
  ow_entry :: pyfloat
  ow_stop_loss :: "pyfloat option"
  ow_target :: "pyfloat option"
  ow_use_stop_loss :: bool
  ow_use_target :: bool
  ow_created_at :: instant
  ow_updated_at :: instant
  ow_filled_at :: "instant option"
  ow_fill_price :: "pyfloat option"
  ow_role :: string
  ow_position_id :: "string option"
  ow_parent_order_id :: "string option"
  ow_oco_group_id :: "string option"
  ow_reduce_only :: bool
  ow_payload :: vdict

record position_row =
  ps_id :: string
  ps_symbol :: string
  ps_timeframe :: string
  ps_status :: string
  ps_qty :: pyfloat
  ps_avg_entry :: "pyfloat option"
  ps_opened_at :: instant
  ps_updated_at :: instant
  ps_closed_at :: "instant option"
  ps_realized_pnl :: pyfloat
  ps_payload :: vdict

record fill_row =
  fr_order_id :: string
  fr_position_id :: string
  fr_symbol :: string
  fr_timeframe :: string
  fr_side :: string
  fr_qty :: pyfloat
  fr_price :: pyfloat
  fr_role :: string
  fr_reduce_only :: bool
  fr_pnl_points :: "pyfloat option"
  fr_filled_at :: instant
  fr_payload :: vdict

record trade_event =
  te_type :: string
  te_order_id :: "string option"
  te_trade_id :: "string option"

record ledger =
  lg_orders :: "order_row list"
  lg_positions :: "position_row list"
  lg_fills :: "fill_row list"
  lg_events :: "trade_event list"

text \<open>The generated columns: instrument, route fingerprint, scope key.\<close>

type_synonym ledger_route = "string \<times> string \<times> string"

definition payload_route :: "vdict \<Rightarrow> ledger_route" where
  "payload_route p = (str_of (vget p ''instrument_id''), str_of (vget p ''route_fingerprint''),
     str_of (vget (dict_or_empty (vget p ''paper_contract'')) ''scope_key''))"

definition command_route :: "paper_command \<Rightarrow> ledger_route" where
  "command_route c = (pc_instrument_id c, pc_route_fingerprint c, scope_key (pc_contract c))"

abbreviation fc_route :: "fill_command \<Rightarrow> ledger_route" where "fc_route f \<equiv> command_route (fc_command f)"

definition iso_or_none :: "instant option \<Rightarrow> pyval" where
  "iso_or_none t = (case t of None \<Rightarrow> VNone | Some x \<Rightarrow> VStr (isoformat_utc x))"

definition text_or_empty :: "string option \<Rightarrow> pyval" where
  "text_or_empty s = VStr (case s of None \<Rightarrow> [] | Some t \<Rightarrow> t)"

section \<open>Reading rows\<close>

definition protection_signature_eq :: "vdict \<Rightarrow> vdict \<Rightarrow> bool" where
  "protection_signature_eq a b = (py_eq (vget a ''protection_basis'') (vget b ''protection_basis'')
     \<and> py_eq (vget a ''paper_protection_intent'') (vget b ''paper_protection_intent''))"

definition command_copy_ok :: "iso_parser \<Rightarrow> paper_contract \<Rightarrow> vdict \<Rightarrow> string \<Rightarrow> vdict \<Rightarrow> unit res" where
  "command_copy_ok piso contract canonical key order = (case mapping_items (vget order key) of
      None \<Rightarrow> Inl (ValueError (''PAPER_ORDER_ROW_REQUIRED '' @ key))
    | Some command \<Rightarrow>
        rbind (require_paper_order_protection command) (\<lambda>p.
        if \<not> py_eq (VDict p) (vget command ''payload'')
        then Inl (ValueError (''PAPER_ORDER_ROW_PROTECTION_NOT_CANONICAL '' @ key))
        else if \<not> protection_signature_eq p canonical
        then Inl (ValueError ''PAPER_ORDER_ROW_PROTECTION_COPIES_CONTRADICT'')
        else rbind (require_paper_contract_identity piso command) (\<lambda>c.
          if c \<noteq> contract then Inl (ValueError ''PAPER_ORDER_ROW_CONTRACT_COPIES_CONTRADICT'') else Inr ())))"

definition order_columns :: "order_row \<Rightarrow> paper_contract \<Rightarrow> vdict" where
  "order_columns r contract = [
     (VStr ''id'', VStr (ow_id r)), (VStr ''symbol'', VStr (ow_symbol r)),
     (VStr ''instrument_id'', VStr (fst (payload_route (ow_payload r)))),
     (VStr ''route_fingerprint'', VStr (fst (snd (payload_route (ow_payload r))))),
     (VStr ''paper_contract'', VDict (contract_payload contract)), (VStr ''contract_scope_key'', VStr (scope_key contract)),
     (VStr ''timeframe'', VStr (ow_timeframe r)), (VStr ''side'', VStr (ow_side r)),
     (VStr ''order_type'', VStr (ow_order_type r)), (VStr ''status'', VStr (ow_status r)),
     (VStr ''qty'', VFloat (ow_qty r)), (VStr ''entry'', VFloat (ow_entry r)),
     (VStr ''stop_loss'', opt_val (ow_stop_loss r)), (VStr ''target'', opt_val (ow_target r)),
     (VStr ''use_stop_loss'', VBool (ow_use_stop_loss r)), (VStr ''use_target'', VBool (ow_use_target r)),
     (VStr ''created_at'', VStr (isoformat_utc (ow_created_at r))), (VStr ''updated_at'', VStr (isoformat_utc (ow_updated_at r))),
     (VStr ''filled_at'', iso_or_none (ow_filled_at r)), (VStr ''fill_price'', opt_val (ow_fill_price r)),
     (VStr ''role'', VStr (ow_role r)), (VStr ''position_id'', text_or_empty (ow_position_id r)),
     (VStr ''parent_order_id'', text_or_empty (ow_parent_order_id r)),
     (VStr ''oco_group_id'', text_or_empty (ow_oco_group_id r)), (VStr ''reduce_only'', VBool (ow_reduce_only r))]"

definition paper_order_from_row :: "iso_parser \<Rightarrow> order_row \<Rightarrow> vdict res" where
  "paper_order_from_row piso r =
    (if ow_role r \<notin> {''entry'', ''stop'', ''take'', ''close''} then Inl (ValueError ''PAPER_ORDER_ROW_ROLE_INVALID'')
     else
     rbind (require_exact_identity_text (vget (ow_payload r) ''instrument_id'') ''PAPER_ORDER_INSTRUMENT_ID'' False) (\<lambda>_.
     rbind (require_exact_identity_text (vget (ow_payload r) ''route_fingerprint'') ''PAPER_ORDER_ROUTE_FINGERPRINT'' False) (\<lambda>_.
     rbind (require_paper_contract_identity piso (ow_payload r)) (\<lambda>contract.
     rbind (require_exact_identity_text (VStr (ow_id r)) ''PAPER_ORDER_ID'' False) (\<lambda>_.
     let order = dmerge (ow_payload r) (order_columns r contract) in
     rbind (require_paper_order_protection order) (\<lambda>canonical.
     if \<not> py_eq (VDict canonical) (vget order ''payload'')
     then Inl (ValueError ''PAPER_ORDER_ROW_PROTECTION_NOT_CANONICAL'')
     else rbind (command_copy_ok piso contract canonical ''create_command'' order) (\<lambda>_.
       rbind (command_copy_ok piso contract canonical ''execution_command'' order) (\<lambda>_. Inr order))))))))"

definition paper_position_from_row :: "iso_parser \<Rightarrow> position_row \<Rightarrow> vdict res" where
  "paper_position_from_row piso r =
    rbind (require_exact_identity_text (VStr (ps_id r)) ''PAPER_POSITION_ID'' False) (\<lambda>_.
    rbind (require_exact_identity_text (vget (ps_payload r) ''instrument_id'') ''PAPER_POSITION_INSTRUMENT_ID'' False) (\<lambda>instrument_id.
    rbind (require_exact_identity_text (vget (ps_payload r) ''route_fingerprint'') ''PAPER_POSITION_ROUTE_FINGERPRINT'' False) (\<lambda>fingerprint.
    rbind (require_paper_contract_identity piso (ps_payload r)) (\<lambda>contract.
      Inr [(VStr ''id'', VStr (ps_id r)), (VStr ''symbol'', VStr (ps_symbol r)), (VStr ''instrument_id'', VStr instrument_id),
        (VStr ''route_fingerprint'', VStr fingerprint), (VStr ''paper_contract'', VDict (contract_payload contract)),
        (VStr ''contract_scope_key'', VStr (scope_key contract)), (VStr ''timeframe'', VStr (ps_timeframe r)),
        (VStr ''status'', VStr (ps_status r)), (VStr ''qty'', VFloat (ps_qty r)), (VStr ''avg_entry'', opt_val (ps_avg_entry r)),
        (VStr ''opened_at'', VStr (isoformat_utc (ps_opened_at r))), (VStr ''updated_at'', VStr (isoformat_utc (ps_updated_at r))),
        (VStr ''closed_at'', iso_or_none (ps_closed_at r)), (VStr ''realized_pnl'', VFloat (ps_realized_pnl r)),
        (VStr ''payload'', VDict (ps_payload r))]))))"

definition paper_fill_from_row :: "iso_parser \<Rightarrow> fill_row \<Rightarrow> vdict res" where
  "paper_fill_from_row piso r =
    rbind (require_exact_identity_text (vget (fr_payload r) ''instrument_id'') ''PAPER_FILL_INSTRUMENT_ID'' False) (\<lambda>instrument_id.
    rbind (require_exact_identity_text (vget (fr_payload r) ''route_fingerprint'') ''PAPER_FILL_ROUTE_FINGERPRINT'' False) (\<lambda>fingerprint.
    rbind (require_paper_contract_identity piso (fr_payload r)) (\<lambda>contract.
      Inr [(VStr ''order_id'', VStr (fr_order_id r)), (VStr ''position_id'', VStr (fr_position_id r)),
        (VStr ''symbol'', VStr (fr_symbol r)), (VStr ''instrument_id'', VStr instrument_id),
        (VStr ''route_fingerprint'', VStr fingerprint), (VStr ''paper_contract'', VDict (contract_payload contract)),
        (VStr ''contract_scope_key'', VStr (scope_key contract)), (VStr ''timeframe'', VStr (fr_timeframe r)),
        (VStr ''side'', VStr (fr_side r)), (VStr ''qty'', VFloat (fr_qty r)), (VStr ''price'', VFloat (fr_price r)),
        (VStr ''role'', VStr (fr_role r)), (VStr ''reduce_only'', VBool (fr_reduce_only r)),
        (VStr ''pnl_points'', opt_val (fr_pnl_points r)), (VStr ''filled_at'', VStr (isoformat_utc (fr_filled_at r))),
        (VStr ''payload'', VDict (fr_payload r))])))"

section \<open>Statements\<close>

definition find_order :: "string \<Rightarrow> ledger \<Rightarrow> order_row option" where
  "find_order i L = first_where (\<lambda>r. ow_id r = i) (lg_orders L)"

text \<open>\<open>UPDATE ... WHERE p\<close> and the rows it returns.\<close>

definition update_orders :: "(order_row \<Rightarrow> bool) \<Rightarrow> (order_row \<Rightarrow> order_row) \<Rightarrow> ledger \<Rightarrow> order_row list \<times> ledger" where
  "update_orders p g L = (map g (filter p (lg_orders L)),
     L\<lparr>lg_orders := map (\<lambda>r. if p r then g r else r) (lg_orders L)\<rparr>)"

definition update_positions :: "(position_row \<Rightarrow> bool) \<Rightarrow> (position_row \<Rightarrow> position_row) \<Rightarrow> ledger \<Rightarrow> nat \<times> ledger" where
  "update_positions p g L = (length (filter p (lg_positions L)),
     L\<lparr>lg_positions := map (\<lambda>r. if p r then g r else r) (lg_positions L)\<rparr>)"

definition insert_position :: "position_row \<Rightarrow> ledger \<Rightarrow> ledger res" where
  "insert_position r L = (if ps_id r \<in> ps_id ` set (lg_positions L) then Inl (RuntimeError ''UniqueViolation'')
     else Inr (L\<lparr>lg_positions := lg_positions L @ [r]\<rparr>))"

definition insert_fill :: "fill_row \<Rightarrow> ledger \<Rightarrow> ledger res" where
  "insert_fill r L = (if fr_order_id r \<in> fr_order_id ` set (lg_fills L) then Inl (RuntimeError ''UniqueViolation'')
     else Inr (L\<lparr>lg_fills := lg_fills L @ [r]\<rparr>))"

definition append_event :: "string \<Rightarrow> string option \<Rightarrow> string option \<Rightarrow> ledger \<Rightarrow> ledger" where
  "append_event t order_id trade_id L = L\<lparr>lg_events := lg_events L @
     [\<lparr>te_type = t, te_order_id = order_id, te_trade_id = trade_id\<rparr>]\<rparr>"

definition pending_in :: "ledger_route \<Rightarrow> order_row \<Rightarrow> bool" where
  "pending_in route r = (payload_route (ow_payload r) = route \<and> ow_status r = ''pending'')"

definition position_in :: "ledger_route \<Rightarrow> string \<Rightarrow> position_row \<Rightarrow> bool" where
  "position_in route i r = (ps_id r = i \<and> payload_route (ps_payload r) = route)"

text \<open>\<open>_cancel_paper_order_if_pending_with_cursor\<close>; without a scope key the instrument's own contract is meant.\<close>

definition cancel_scope :: "string \<Rightarrow> string \<Rightarrow> string option \<Rightarrow> order_row \<Rightarrow> bool" where
  "cancel_scope instrument_id fingerprint key r = (case payload_route (ow_payload r) of (i, fp, k) \<Rightarrow>
     i = instrument_id \<and> fp = fingerprint \<and> (case key of Some s \<Rightarrow> k = s
       | None \<Rightarrow> str_of (vget (dict_or_empty (vget (ow_payload r) ''paper_contract'')) ''scope_kind'') = ''instrument''))"

definition cancel_row :: "instant \<Rightarrow> vdict \<Rightarrow> order_row \<Rightarrow> order_row" where
  "cancel_row ts patch r = r\<lparr>ow_status := ''cancelled'', ow_updated_at := ts,
     ow_payload := dmerge (vset ''cancelled_at'' (VStr (isoformat_utc ts)) (ow_payload r)) patch\<rparr>"

definition cancel_if_pending ::
  "string \<Rightarrow> instant \<Rightarrow> string \<Rightarrow> string \<Rightarrow> string option \<Rightarrow> vdict \<Rightarrow> ledger \<Rightarrow> order_row option \<times> ledger" where
  "cancel_if_pending order_id ts instrument_id fingerprint key patch L =
    (case update_orders (\<lambda>r. ow_id r = order_id \<and> cancel_scope instrument_id fingerprint key r \<and> ow_status r = ''pending'')
        (cancel_row ts patch) L of
       (rows, L') \<Rightarrow> (case rows of [] \<Rightarrow> None | r # _ \<Rightarrow> Some r, L'))"

abbreviation fill_cancel :: "fill_command \<Rightarrow> vdict \<Rightarrow> ledger \<Rightarrow> order_row option \<times> ledger" where
  "fill_cancel f patch L \<equiv> cancel_if_pending (fc_order_id f) (fc_filled_at f) (pc_instrument_id (fc_command f))
     (pc_route_fingerprint (fc_command f)) (Some (scope_key (pc_contract (fc_command f)))) patch L"

section \<open>Reserving the order of a fill\<close>

record fill_result =
  fo_outcome :: string
  fo_order :: vdict
  fo_position :: "vdict option"
  fo_fill :: "vdict option"
  fo_created_orders :: "vdict list"
  fo_cancelled_orders :: "vdict list"
  fo_closed_position :: "vdict option"
  fo_opened_new_position :: bool

definition no_op_result :: "vdict \<Rightarrow> vdict option \<Rightarrow> vdict option \<Rightarrow> fill_result" where
  "no_op_result order position fill_dict = \<lparr>fo_outcome = ''no_op'', fo_order = order, fo_position = position,
     fo_fill = fill_dict, fo_created_orders = [], fo_cancelled_orders = [], fo_closed_position = None,
     fo_opened_new_position = False\<rparr>"

definition find_position :: "fill_command \<Rightarrow> string option \<Rightarrow> ledger \<Rightarrow> position_row option" where
  "find_position f position_id L = (case position_id of None \<Rightarrow> None
     | Some i \<Rightarrow> first_where (position_in (fc_route f) i) (lg_positions L))"

definition paper_position_by_id ::
  "iso_parser \<Rightarrow> fill_command \<Rightarrow> string option \<Rightarrow> ledger \<Rightarrow> vdict option res" where
  "paper_position_by_id piso f position_id L = (case find_position f position_id L of None \<Rightarrow> Inr None
     | Some r \<Rightarrow> rbind (paper_position_from_row piso r) (\<lambda>d. Inr (Some d)))"

definition paper_fill_replay_outcome ::
  "iso_parser \<Rightarrow> fill_command \<Rightarrow> vdict \<Rightarrow> ledger \<Rightarrow> fill_result res" where
  "paper_fill_replay_outcome piso f existing L =
    (case filter (\<lambda>r. fr_order_id r = fc_order_id f \<and> payload_route (fr_payload r) = fc_route f) (lg_fills L) of
       [r] \<Rightarrow> rbind (paper_fill_from_row piso r) (\<lambda>replay.
         rbind (require_exact_identity_text (VStr (fr_position_id r)) ''PAPER_POSITION_ID'' False) (\<lambda>position_id.
         rbind (paper_position_by_id piso f (Some position_id) L) (\<lambda>position. (case position of
           None \<Rightarrow> Inl (ValueError ''PAPER_ORDER_IDEMPOTENCY_POSITION_MISSING'')
         | Some p \<Rightarrow> Inr (no_op_result existing (Some p) (Some replay))))))
     | _ \<Rightarrow> Inl (ValueError ''PAPER_ORDER_IDEMPOTENCY_FILL_INVALID''))"

definition paper_manual_close_replay_outcome ::
  "iso_parser \<Rightarrow> fill_command \<Rightarrow> vdict \<Rightarrow> ledger \<Rightarrow> fill_result res" where
  "paper_manual_close_replay_outcome piso f existing L =
    rbind (paper_position_by_id piso f (fc_target_position_id f) L) (\<lambda>position.
    (case (position, find_position f (fc_target_position_id f) L) of
       (Some p, Some r) \<Rightarrow> if ps_status r \<noteq> ''closed'' \<or> \<not> fle (fabs (ps_qty r)) dust
         then Inl (ValueError ''PAPER_ORDER_NOT_FILLABLE'') else Inr (no_op_result existing (Some p) None)
     | _ \<Rightarrow> Inl (ValueError ''PAPER_ORDER_IDEMPOTENCY_POSITION_MISSING'')))"

definition paper_fill_existing_order_outcome ::
  "iso_parser \<Rightarrow> fill_command \<Rightarrow> ledger \<Rightarrow> fill_result option res" where
  "paper_fill_existing_order_outcome piso f L = (case find_order (fc_order_id f) L of
      None \<Rightarrow> Inl (ValueError ''PAPER_ORDER_IDEMPOTENCY_STATE_MISSING'')
    | Some row \<Rightarrow>
      rbind (paper_order_from_row piso row) (\<lambda>existing.
      if \<not> py_eq (vget existing ''instrument_id'') (VStr (pc_instrument_id (fc_command f)))
        \<or> \<not> py_eq (vget existing ''route_fingerprint'') (VStr (pc_route_fingerprint (fc_command f)))
      then Inl (ValueError ''PAPER_ORDER_ID_ROUTE_COLLISION'')
      else if \<not> py_eq (vget existing ''create_command'') (VDict (command_dict (fc_create_command f)))
      then Inl (PaperJournalError ''PAPER_ORDER_ID_COMMAND_COLLISION'')
      else if ow_status row = ''filled''
      then rbind (paper_fill_replay_outcome piso f existing L) (\<lambda>r. Inr (Some r))
      else if ow_status row = ''cancelled'' \<and> fc_manual_close f
      then rbind (paper_manual_close_replay_outcome piso f existing L) (\<lambda>r. Inr (Some r))
      else
        rbind (if py_eq (vget existing ''execution_command'') (VDict (command_dict (fc_command f))) then Inr True
          else if ow_status row = ''pending''
          then paper_fill_distance_execution_update_allowed existing (fc_incoming_order f) (fc_command f) (fc_price f)
          else Inr False) (\<lambda>admitted.
        if \<not> admitted then Inl (PaperJournalError ''PAPER_ORDER_ID_COMMAND_COLLISION'')
        else if ow_status row \<noteq> ''pending'' then Inl (ValueError ''PAPER_ORDER_NOT_FILLABLE'')
        else Inr None)))"

definition reservation_payload :: "fill_command \<Rightarrow> vdict" where
  "reservation_payload f = vset ''execution_command'' (VDict (command_dict (fc_command f)))
     (vset ''create_command'' (VDict (command_dict (fc_create_command f))) (fc_incoming_order f))"

definition reserve_paper_fill_order ::
  "iso_parser \<Rightarrow> instant \<Rightarrow> fill_command \<Rightarrow> ledger \<Rightarrow> (fill_result option \<times> ledger) res" where
  "reserve_paper_fill_order piso now f L =
    rbind (paper_utc_datetime piso now (vget (fc_order f) ''created_at'') (Some (fc_filled_at f))) (\<lambda>created_at.
    rbind (paper_utc_datetime piso now (vget (fc_order f) ''updated_at'') (Some (fc_filled_at f))) (\<lambda>updated_at.
    let c = fc_command f;
        row = \<lparr>ow_id = fc_order_id f, ow_symbol = pc_symbol c, ow_timeframe = pc_timeframe c,
          ow_side = (if fc_side f = [] then ''long'' else fc_side f), ow_order_type = pc_order_type c,
          ow_status = ''pending'', ow_qty = (case pc_qty c of None \<Rightarrow> Fin 1 | Some q \<Rightarrow> q), ow_entry = fc_entry_price f,
          ow_stop_loss = pc_stop_loss c, ow_target = pc_target c, ow_use_stop_loss = pc_use_stop_loss c,
          ow_use_target = pc_use_target c, ow_created_at = created_at, ow_updated_at = updated_at,
          ow_filled_at = None, ow_fill_price = None, ow_role = pc_role c, ow_position_id = fc_target_position_id f,
          ow_parent_order_id = pc_parent_order_id c, ow_oco_group_id = pc_oco_group_id c,
          ow_reduce_only = pc_reduce_only c, ow_payload = reservation_payload f\<rparr>
    in if find_order (fc_order_id f) L = None
       then Inr (None, L\<lparr>lg_orders := lg_orders L @ [row]\<rparr>)
       else rbind (paper_fill_existing_order_outcome piso f L) (\<lambda>r. Inr (r, L))))"

section \<open>Early outcomes\<close>

definition execution_details :: "(pyval \<Rightarrow> string) \<Rightarrow> fill_command \<Rightarrow> vdict res" where
  "execution_details pystr f =
    rbind (float_or_none (vget (fc_order f) ''execution_bar_slot'')) (\<lambda>bar_slot.
    rbind (float_or_none (vget (fc_order_payload f) ''planned_entry'')) (\<lambda>planned_entry.
      Inr [(VStr ''fill_price'', VFloat (fc_price f)), (VStr ''source'', VStr (text_or pystr (vget (fc_order f) ''execution_source'') [])),
        (VStr ''ts'', vget (fc_order f) ''execution_ts''), (VStr ''bar_slot'', opt_val bar_slot),
        (VStr ''planned_entry'', opt_val planned_entry),
        (VStr ''analysis_bar_ts'', vget (fc_order_payload f) ''analysis_bar_ts''),
        (VStr ''analysis_generation'', vget (fc_order_payload f) ''analysis_generation'')]))"

definition cancelled_result :: "string \<Rightarrow> vdict \<Rightarrow> vdict option \<Rightarrow> fill_result" where
  "cancelled_result outcome order position = \<lparr>fo_outcome = outcome, fo_order = order, fo_position = position,
     fo_fill = None, fo_created_orders = [], fo_cancelled_orders = [order], fo_closed_position = None,
     fo_opened_new_position = False\<rparr>"

definition rejection_dict :: "string \<Rightarrow> string \<Rightarrow> vdict \<Rightarrow> vdict" where
  "rejection_dict code reason execution = [(VStr ''code'', VStr code), (VStr ''reason'', VStr reason),
     (VStr ''execution'', VDict execution)]"

definition paper_position_expectation_outcome ::
  "iso_parser \<Rightarrow> (pyval \<Rightarrow> string) \<Rightarrow> fill_command \<Rightarrow> vdict option \<Rightarrow> ledger \<Rightarrow> (fill_result option \<times> ledger) res" where
  "paper_position_expectation_outcome piso pystr f position L =
    rbind (paper_position_expectation_rejection position (vget (fc_order_payload f) ''position_expectation'')) (\<lambda>rejected.
    case rejected of None \<Rightarrow> Inr (None, L)
    | Some (code, reason) \<Rightarrow>
        rbind (execution_details pystr f) (\<lambda>execution.
        case fill_cancel f [(VStr ''execution_rejection'', VDict (rejection_dict code reason execution))] L of
          (None, _) \<Rightarrow> Inl (ValueError ''PAPER_POSITION_EXPECTATION_CANCEL_RESULT_MISSING'')
        | (Some row, L') \<Rightarrow> rbind (paper_order_from_row piso row) (\<lambda>cancelled.
            Inr (Some (cancelled_result ''cancelled'' cancelled position),
              append_event ''order_execution_rejected'' (Some (fc_order_id f)) None L'))))"

definition paper_stale_reduce_only_outcome ::
  "iso_parser \<Rightarrow> fill_command \<Rightarrow> vdict option \<Rightarrow> ledger \<Rightarrow> (fill_result option \<times> ledger) res" where
  "paper_stale_reduce_only_outcome piso f position L =
    (if \<not> fc_reduce_only f \<or> position \<noteq> None then Inr (None, L)
     else case fill_cancel f [] L of
        (None, _) \<Rightarrow> Inl (ValueError ''PAPER_ORDER_STALE_CANCEL_RESULT_MISSING'')
      | (Some row, L') \<Rightarrow> rbind (paper_order_from_row piso row) (\<lambda>cancelled.
          rbind (if fc_manual_close f then paper_position_by_id piso f (fc_target_position_id f) L' else Inr None) (\<lambda>current.
            Inr (Some (cancelled_result (if fc_manual_close f then ''no_op'' else ''cancelled'') cancelled current), L'))))"

section \<open>The position\<close>

text \<open>The open position of the route, contract and timeframe; of a reduce-only fill, the one it names.\<close>

definition locked_paper_fill_position ::
  "iso_parser \<Rightarrow> fill_command \<Rightarrow> ledger \<Rightarrow> (position_row \<times> vdict) option res" where
  "locked_paper_fill_position piso f L =
    (case first_where (\<lambda>r. payload_route (ps_payload r) = fc_route f \<and> ps_timeframe r = pc_timeframe (fc_command f)
        \<and> ps_status r = ''open'' \<and> (case fc_target_position_id f of None \<Rightarrow> True | Some i \<Rightarrow> ps_id r = i))
        (sort_key ps_opened_at (lg_positions L)) of
       None \<Rightarrow> Inr None
     | Some r \<Rightarrow> rbind (paper_position_from_row piso r) (\<lambda>d.
         if \<not> py_eq (vget d ''paper_contract'') (VDict (contract_payload (pc_contract (fc_command f))))
         then Inl (ValueError ''PAPER_POSITION_CONTRACT_METADATA_CONTRADICTORY'') else Inr (Some (r, d))))"

definition paper_fill_delta :: "fill_command \<Rightarrow> pyfloat \<Rightarrow> (pyfloat \<times> string \<times> pyfloat) res" where
  "paper_fill_delta f position_qty =
    (if fc_reduce_only f
     then (if fle (fabs position_qty) dust then Inl (ValueError ''PAPER_REDUCE_ONLY_POSITION_EMPTY'')
       else if fc_manual_close f
       then Inr (fabs position_qty, if flt (Fin 0) position_qty then ''short'' else ''long'', fneg position_qty)
       else if fle (Fin 0) (fmul position_qty (fc_signed_delta f))
       then Inl (ValueError ''PAPER_REDUCE_ONLY_DIRECTION_INVALID'')
       else let qty = fmin (fabs position_qty) (fabs (fc_signed_delta f))
            in Inr (qty, fc_side f, if flt (Fin 0) position_qty then fneg qty else qty))
     else case pc_qty (fc_command f) of
        None \<Rightarrow> Inl (ValueError ''PAPER_FILL_QUANTITY_REQUIRED'')
      | Some qty \<Rightarrow> Inr (qty, fc_side f, fc_signed_delta f))"

definition position_signal_payload :: "vdict \<Rightarrow> vdict" where
  "position_signal_payload order_payload =
    (let signal = dict_or_empty (vget order_payload ''signal'');
         entries = filter (\<lambda>(k, v). v \<noteq> VNone) (map (\<lambda>k. (k,
           if vget order_payload k = VNone then vget signal k else vget order_payload k))
           [''signal_source'', ''signal_source_label'', ''confluence_sources'', ''setup'', ''code'', ''reason'', ''score'',
            ''action_card''])
     in map (\<lambda>(k, v). (VStr k, v)) entries @ (if signal \<noteq> [] then [(VStr ''signal'', VDict signal)] else []))"

definition set_if :: "bool \<Rightarrow> string \<Rightarrow> pyval \<Rightarrow> vdict \<Rightarrow> vdict" where
  "set_if b k v d = (if b then vset k v d else d)"

definition paper_position_payload_from_order ::
  "iso_parser \<Rightarrow> (pyval \<Rightarrow> string) \<Rightarrow> string \<Rightarrow> vdict \<Rightarrow> pyfloat \<Rightarrow> vdict res" where
  "paper_position_payload_from_order piso pystr order_id p new_qty =
    rbind (require_exact_identity_text (vget p ''instrument_id'') ''instrument_id'' False) (\<lambda>instrument_id.
    rbind (require_exact_identity_text (vget p ''route_fingerprint'') ''route_fingerprint'' False) (\<lambda>fingerprint.
    rbind (require_exact_identity_text (vget p ''provider_contract_id'') ''provider_contract_id'' False) (\<lambda>contract_id.
    let provider = py_lower (py_strip (text_or pystr (vget p ''provider'') [])) in
    rbind (require_paper_contract_identity piso p) (\<lambda>contract.
    let setup_source = py_strip (text_or pystr (vget p ''setup_source'') []);
        base = [(VStr ''source'', VStr (if truthy (vget p ''indicator_source'') then ''indicator_position'' else ''manual_position'')),
          (VStr ''entry_order_id'', VStr order_id), (VStr ''side'', VStr (if flt (Fin 0) new_qty then ''long'' else ''short'')),
          (VStr ''instrument_id'', VStr instrument_id), (VStr ''route_fingerprint'', VStr fingerprint),
          (VStr ''provider_contract_id'', VStr contract_id)] in
    rbind (if vget p ''signal_rank'' = VNone then Inr VNone
      else rbind (py_float (vget p ''signal_rank'')) (\<lambda>x. Inr (VFloat x))) (\<lambda>rank.
    Inr (dmerge
      (set_if (rank \<noteq> VNone) ''signal_rank'' rank
        (set_if (truthy (vget p ''entry_channel'')) ''entry_channel'' (VStr (text_of pystr (vget p ''entry_channel'')))
          (set_if (setup_source \<noteq> []) ''setup_source'' (VStr setup_source)
            (set_if (truthy (vget p ''indicator_source'')) ''indicator_source'' (VStr (text_of pystr (vget p ''indicator_source'')))
              (vset ''paper_contract'' (VDict (contract_payload contract))
                (set_if (provider \<noteq> []) ''provider'' (VStr provider) base))))))
      (position_signal_payload p)))))))"

definition new_position ::
  "fill_command \<Rightarrow> string \<Rightarrow> pyfloat \<Rightarrow> pyfloat \<Rightarrow> vdict \<Rightarrow> position_row" where
  "new_position f position_id qty avg payload = \<lparr>ps_id = position_id, ps_symbol = pc_symbol (fc_command f),
     ps_timeframe = pc_timeframe (fc_command f), ps_status = ''open'', ps_qty = qty, ps_avg_entry = Some avg,
     ps_opened_at = fc_filled_at f, ps_updated_at = fc_filled_at f, ps_closed_at = None, ps_realized_pnl = Fin 0,
     ps_payload = payload\<rparr>"

text \<open>An update must meet one row.\<close>

definition update_one_position ::
  "fill_command \<Rightarrow> string \<Rightarrow> (position_row \<Rightarrow> position_row) \<Rightarrow> ledger \<Rightarrow> ledger res" where
  "update_one_position f position_id g L = (case update_positions (position_in (fc_route f) position_id) g L of
     (n, L') \<Rightarrow> if n \<noteq> 1 then Inl (ValueError ''PAPER_POSITION_UPDATE_CARDINALITY_INVALID'') else Inr L')"

definition average_price :: "pyfloat \<Rightarrow> pyfloat \<Rightarrow> pyfloat \<Rightarrow> pyfloat \<Rightarrow> pyfloat \<Rightarrow> pyfloat res" where
  "average_price position_qty average_entry delta price new_qty =
    fdiv (fadd (fmul (fabs position_qty) average_entry) (fmul (fabs delta) price)) (fmax (fabs new_qty) dust)"

definition increase_paper_position ::
  "iso_parser \<Rightarrow> (pyval \<Rightarrow> string) \<Rightarrow> fill_command \<Rightarrow> position_row option \<Rightarrow> string \<Rightarrow> pyfloat \<Rightarrow> pyfloat \<Rightarrow> pyfloat
    \<Rightarrow> ledger \<Rightarrow> (bool \<times> ledger) res" where
  "increase_paper_position piso pystr f position position_id position_qty average_entry delta L =
    (let new_qty = fadd position_qty delta in
     rbind (average_price position_qty average_entry delta (fc_price f) new_qty) (\<lambda>new_avg.
     case position of
       None \<Rightarrow> rbind (paper_position_payload_from_order piso pystr (fc_order_id f) (fc_order_payload f) new_qty) (\<lambda>payload.
         rbind (insert_position (new_position f position_id new_qty new_avg payload) L) (\<lambda>L'. Inr (True, L')))
     | Some _ \<Rightarrow>
         if fc_reduce_only f then Inl (ValueError ''PAPER_REDUCE_ONLY_REVERSAL_BLOCKED'')
         else rbind (update_one_position f position_id
             (\<lambda>r. r\<lparr>ps_qty := new_qty, ps_avg_entry := Some new_avg, ps_updated_at := fc_filled_at f\<rparr>) L) (\<lambda>L'. Inr (False, L'))))"

definition closed_row :: "fill_command \<Rightarrow> pyfloat \<Rightarrow> position_row \<Rightarrow> position_row" where
  "closed_row f pnl r = r\<lparr>ps_qty := Fin 0, ps_status := ''closed'', ps_closed_at := Some (fc_filled_at f),
     ps_updated_at := fc_filled_at f, ps_realized_pnl := fadd (ps_realized_pnl r) pnl\<rparr>"

text \<open>The position the fill goes to, the profit, the position closed by a reversal, and whether one was opened.\<close>

definition reduce_paper_position ::
  "iso_parser \<Rightarrow> (pyval \<Rightarrow> string) \<Rightarrow> fill_command \<Rightarrow> position_row \<Rightarrow> string \<Rightarrow> pyfloat \<Rightarrow> pyfloat \<Rightarrow> pyfloat
    \<Rightarrow> ledger \<Rightarrow> ((string \<times> pyfloat \<times> string option \<times> bool) \<times> ledger) res" where
  "reduce_paper_position piso pystr f position position_id position_qty average_entry delta L =
    (let close_qty = fmin (fabs position_qty) (fabs delta);
         pnl = (if flt (Fin 0) position_qty then fmul (fsub (fc_price f) average_entry) close_qty
           else fmul (fsub average_entry (fc_price f)) close_qty);
         new_qty = fadd position_qty delta in
     if fle (fabs new_qty) dust
     then rbind (update_one_position f position_id (closed_row f pnl) L) (\<lambda>L'. Inr ((position_id, pnl, None, False), L'))
     else if flt (Fin 0) (fmul position_qty new_qty)
     then rbind (update_one_position f position_id
         (\<lambda>r. r\<lparr>ps_qty := new_qty, ps_updated_at := fc_filled_at f, ps_realized_pnl := fadd (ps_realized_pnl r) pnl\<rparr>) L)
         (\<lambda>L'. Inr ((position_id, pnl, None, False), L'))
     else rbind (update_one_position f position_id (closed_row f pnl) L) (\<lambda>L1.
       let reversal_id = ''pos-'' @ fc_order_id f @ ''-rev'' in
       rbind (paper_position_payload_from_order piso pystr (fc_order_id f)
         (vset ''reversal'' (VBool True) (fc_order_payload f)) new_qty) (\<lambda>payload.
       rbind (insert_position (new_position f reversal_id new_qty (fc_price f) payload) L1) (\<lambda>L2.
         Inr ((reversal_id, pnl, Some (ps_id position), True), L2)))))"

record position_transition =
  pt_position_id :: string
  pt_previous_qty :: pyfloat
  pt_side :: string
  pt_qty :: pyfloat
  pt_signed_delta :: pyfloat
  pt_pnl :: pyfloat
  pt_closed_position :: "string option"
  pt_opened_new_position :: bool

definition transition_paper_position ::
  "iso_parser \<Rightarrow> (pyval \<Rightarrow> string) \<Rightarrow> fill_command \<Rightarrow> position_row option \<Rightarrow> ledger
    \<Rightarrow> (position_transition \<times> ledger) res" where
  "transition_paper_position piso pystr f position L =
    (let position_id = (case position of Some r \<Rightarrow> ps_id r
           | None \<Rightarrow> text_or pystr (vget (fc_order f) ''position_id'') (''pos-'' @ fc_order_id f));
         position_qty = (case position of Some r \<Rightarrow> finite_or_none (Some (ps_qty r)) | None \<Rightarrow> Some (Fin 0));
         average_entry = (case position of Some r \<Rightarrow> (if ps_avg_entry r = None then Some (fc_price f)
             else finite_or_none (ps_avg_entry r)) | None \<Rightarrow> Some (fc_price f)) in
     case (position_qty, average_entry) of
       (Some q, Some avg) \<Rightarrow>
         rbind (paper_fill_delta f q) (\<lambda>(qty, side, delta).
         rbind (if q = Fin 0 \<or> flt (Fin 0) (fmul q delta)
           then rbind (increase_paper_position piso pystr f position position_id q avg delta L)
             (\<lambda>(opened, L'). Inr ((position_id, Fin 0, None, opened), L'))
           else case position of None \<Rightarrow> Inl (ValueError ''PAPER_POSITION_REQUIRED'')
             | Some r \<Rightarrow> reduce_paper_position piso pystr f r position_id q avg delta L) (\<lambda>((pid, pnl, closed, opened), L').
           Inr (\<lparr>pt_position_id = pid, pt_previous_qty = q, pt_side = side, pt_qty = qty, pt_signed_delta = delta,
             pt_pnl = pnl, pt_closed_position = closed, pt_opened_new_position = opened\<rparr>, L')))
     | _ \<Rightarrow> Inl (ValueError ''stored paper position contains non-finite values''))"

section \<open>Records of a fill\<close>

definition committed_payload :: "fill_command \<Rightarrow> position_transition \<Rightarrow> vdict" where
  "committed_payload f tr = dmerge (fc_incoming_order f) [
     (VStr ''status'', VStr ''filled''), (VStr ''side'', VStr (pt_side tr)), (VStr ''qty'', VFloat (pt_qty tr)),
     (VStr ''position_id'', VStr (pt_position_id tr)), (VStr ''reduce_only'', VBool (fc_reduce_only f)),
     (VStr ''create_command'', VDict (command_dict (fc_create_command f))),
     (VStr ''execution_command'', VDict (command_dict (fc_command f)))]"

definition filled_row :: "fill_command \<Rightarrow> position_transition \<Rightarrow> order_row \<Rightarrow> order_row" where
  "filled_row f tr r = r\<lparr>ow_status := ''filled'', ow_qty := pt_qty tr, ow_stop_loss := pc_stop_loss (fc_command f),
     ow_target := pc_target (fc_command f), ow_use_stop_loss := pc_use_stop_loss (fc_command f),
     ow_use_target := pc_use_target (fc_command f), ow_filled_at := Some (fc_filled_at f),
     ow_fill_price := Some (fc_price f), ow_updated_at := fc_filled_at f, ow_position_id := Some (pt_position_id tr),
     ow_payload := dmerge (ow_payload r) (committed_payload f tr)\<rparr>"

definition fill_record :: "fill_command \<Rightarrow> position_transition \<Rightarrow> fill_row" where
  "fill_record f tr = \<lparr>fr_order_id = fc_order_id f, fr_position_id = pt_position_id tr,
     fr_symbol = pc_symbol (fc_command f), fr_timeframe = pc_timeframe (fc_command f), fr_side = pt_side tr,
     fr_qty = pt_qty tr, fr_price = fc_price f, fr_role = pc_role (fc_command f), fr_reduce_only = fc_reduce_only f,
     fr_pnl_points = (if pt_pnl tr = Fin 0 then None else Some (pt_pnl tr)), fr_filled_at = fc_filled_at f,
     fr_payload = committed_payload f tr\<rparr>"

text \<open>The upsert meets the reserved row, so that only its conflict branch is reached; it must still be pending.\<close>

definition persist_paper_fill_records ::
  "iso_parser \<Rightarrow> fill_command \<Rightarrow> position_transition \<Rightarrow> ledger \<Rightarrow> ((vdict \<times> vdict) \<times> ledger) res" where
  "persist_paper_fill_records piso f tr L =
    (case update_orders (\<lambda>r. ow_id r = fc_order_id f \<and> pending_in (fc_route f) r) (filled_row f tr) L of
       ([], _) \<Rightarrow> Inl (ValueError ''PAPER_ORDER_ID_ROUTE_COLLISION'')
     | (row # _, L1) \<Rightarrow>
       rbind (paper_order_from_row piso row) (\<lambda>saved.
       rbind (insert_fill (fill_record f tr) L1) (\<lambda>L2.
       rbind (paper_fill_from_row piso (fill_record f tr)) (\<lambda>fill_dict. Inr ((saved, fill_dict), L2)))))"

text \<open>The current position, its row, and the closed one.\<close>

definition paper_fill_position_results ::
  "iso_parser \<Rightarrow> fill_command \<Rightarrow> position_transition \<Rightarrow> ledger \<Rightarrow> (vdict \<times> position_row \<times> vdict option) res" where
  "paper_fill_position_results piso f tr L =
    (case find_position f (Some (pt_position_id tr)) L of
       None \<Rightarrow> Inl (ValueError ''PAPER_POSITION_RESULT_MISSING'')
     | Some r \<Rightarrow> rbind (paper_position_from_row piso r) (\<lambda>current.
         if \<not> isfinite (ps_qty r) then Inl (ValueError ''stored paper position contains non-finite quantity'')
         else case pt_closed_position tr of None \<Rightarrow> Inr (current, r, None)
           | Some closed_id \<Rightarrow> rbind (require_exact_identity_text (VStr closed_id) ''PAPER_CLOSED_POSITION_ID'' False) (\<lambda>i.
               rbind (paper_position_by_id piso f (Some i) L) (\<lambda>closed. case closed of
                 None \<Rightarrow> Inl (ValueError ''PAPER_CLOSED_POSITION_RESULT_MISSING'')
               | Some d \<Rightarrow> Inr (current, r, Some d)))))"

section \<open>Protective orders\<close>

definition protects :: "ledger_route \<Rightarrow> string \<Rightarrow> order_row \<Rightarrow> bool" where
  "protects route position_id r = (ow_position_id r = Some position_id \<and> pending_in route r \<and> ow_reduce_only r)"

text \<open>Orders of one group stand for the same quantity.\<close>

definition group_key :: "order_row \<Rightarrow> string" where
  "group_key r = (let oco = (case ow_oco_group_id r of None \<Rightarrow> [] | Some s \<Rightarrow> s);
       parent = (case ow_parent_order_id r of None \<Rightarrow> [] | Some s \<Rightarrow> s) in
     if oco \<noteq> [] then oco else if parent \<noteq> [] then parent else ow_id r)"

definition protective_groups :: "order_row list \<Rightarrow> (string, order_row list) pydict" where
  "protective_groups rows = foldl (\<lambda>g r. dset (group_key r) (dget_default g (group_key r) [] @ [r]) g) [] rows"

text \<open>One pending order brought to the admitted quantity; the cancelled orders are collected.\<close>

definition resize_protective_order ::
  "iso_parser \<Rightarrow> (pyval \<Rightarrow> string) \<Rightarrow> ledger_route \<Rightarrow> instant \<Rightarrow> pyfloat \<Rightarrow> vdict list \<times> ledger \<Rightarrow> order_row
    \<Rightarrow> (vdict list \<times> ledger) res" where
  "resize_protective_order piso pystr route ts admitted acc r = (case acc of (cancelled, L) \<Rightarrow>
    (if fle admitted dust
     then (case cancel_if_pending (ow_id r) ts (fst route) (fst (snd route)) (Some (snd (snd route))) [] L of
        (None, L') \<Rightarrow> Inr (cancelled, L')
      | (Some row, L') \<Rightarrow> rbind (paper_order_from_row piso row) (\<lambda>d. Inr (cancelled @ [d], L')))
     else if fle (fabs (fsub (fabs (ow_qty r)) admitted)) dust then Inr (cancelled, L)
     else rbind (paper_order_from_row piso r) (\<lambda>order.
       let resized = vset ''updated_at'' (VStr (isoformat_utc ts)) (vset ''qty'' (VFloat admitted) order) in
       rbind (paper_order_command_payload piso pystr resized) (\<lambda>command.
       rbind (require_paper_order_protection resized) (\<lambda>protection.
       case update_orders (\<lambda>x. ow_id x = ow_id r \<and> pending_in route x)
           (\<lambda>x. x\<lparr>ow_qty := admitted, ow_updated_at := ts, ow_payload := dmerge (ow_payload x)
              (vset ''execution_command'' (VDict (command_dict command)) (vset ''payload'' (VDict protection) resized))\<rparr>) L of
         (rows, L') \<Rightarrow> if length rows \<noteq> 1 then Inl (ValueError ''PAPER_PROTECTIVE_RESIZE_CARDINALITY_INVALID'')
           else Inr (cancelled, L')))))) "

text \<open>The largest of the group is admitted, as far as the position still has quantity.\<close>

definition resize_group ::
  "iso_parser \<Rightarrow> (pyval \<Rightarrow> string) \<Rightarrow> ledger_route \<Rightarrow> instant \<Rightarrow> pyfloat \<times> vdict list \<times> ledger \<Rightarrow> string \<times> order_row list
    \<Rightarrow> (pyfloat \<times> vdict list \<times> ledger) res" where
  "resize_group piso pystr route ts acc grp = (case acc of (remaining, cancelled, L) \<Rightarrow>
    (let admitted = fmin (py_max (map (\<lambda>r. fabs (ow_qty r)) (snd grp))) remaining in
     rbind (foldM (resize_protective_order piso pystr route ts admitted) (cancelled, L) (snd grp))
       (\<lambda>(cancelled', L'). Inr (fmax (Fin 0) (fsub remaining admitted), cancelled', L'))))"

text \<open>\<open>ORDER BY created_at, id\<close>; \<open>id_rank\<close> is the collation of the database.\<close>

definition by_creation :: "(string \<Rightarrow> int) \<Rightarrow> order_row list \<Rightarrow> order_row list" where
  "by_creation id_rank rows = sort_key ow_created_at (sort_key (\<lambda>r. id_rank (ow_id r)) rows)"

definition sync_paper_protective_orders ::
  "iso_parser \<Rightarrow> (pyval \<Rightarrow> string) \<Rightarrow> (string \<Rightarrow> int) \<Rightarrow> ledger_route \<Rightarrow> string \<Rightarrow> pyfloat \<Rightarrow> string
    \<Rightarrow> instant \<Rightarrow> ledger \<Rightarrow> (vdict list \<times> ledger) res" where
  "sync_paper_protective_orders piso pystr id_rank route position_id qty status ts L =
    (if status = ''open'' \<and> \<not> fle (fabs qty) dust
     then let pending = by_creation id_rank (filter (protects route position_id) (lg_orders L)) in
       rbind (mapM (paper_order_from_row piso) pending) (\<lambda>_.
       rbind (foldM (resize_group piso pystr route ts) (fabs qty, [], L) (protective_groups pending))
         (\<lambda>(_, cancelled, L'). Inr (cancelled, L')))
     else (case update_orders (protects route position_id) (\<lambda>r. r\<lparr>ow_status := ''cancelled'', ow_updated_at := ts\<rparr>) L of
       (rows, L') \<Rightarrow> rbind (mapM (paper_order_from_row piso) rows) (\<lambda>ds. Inr (ds, L'))))"

text \<open>The other orders of the group of a filled exit order are cancelled.\<close>

definition oco_text :: "(pyval \<Rightarrow> string) \<Rightarrow> fill_command \<Rightarrow> string" where
  "oco_text pystr f = text_or pystr (vget (fc_order f) ''oco_group_id'') []"

definition cancel_oco_siblings :: "(pyval \<Rightarrow> string) \<Rightarrow> fill_command \<Rightarrow> ledger \<Rightarrow> order_row list \<times> ledger" where
  "cancel_oco_siblings pystr f L =
    (if fc_reduce_only f \<and> truthy (vget (fc_order f) ''oco_group_id'')
     then update_orders (\<lambda>r. ow_oco_group_id r = Some (oco_text pystr f) \<and> ow_id r \<noteq> fc_order_id f
         \<and> pending_in (fc_route f) r) (\<lambda>r. r\<lparr>ow_status := ''cancelled'', ow_updated_at := fc_filled_at f\<rparr>) L
     else ([], L))"

definition sync_paper_fill_protective_orders ::
  "iso_parser \<Rightarrow> (pyval \<Rightarrow> string) \<Rightarrow> (string \<Rightarrow> int) \<Rightarrow> fill_command \<Rightarrow> position_transition \<Rightarrow> position_row
    \<Rightarrow> ledger \<Rightarrow> (vdict list \<times> ledger) res" where
  "sync_paper_fill_protective_orders piso pystr id_rank f tr current L =
    (case cancel_oco_siblings pystr f L of (rows, L1) \<Rightarrow>
     rbind (mapM (paper_order_from_row piso) rows) (\<lambda>siblings.
     rbind (case pt_closed_position tr of None \<Rightarrow> Inr ([], L1)
       | Some closed_id \<Rightarrow> sync_paper_protective_orders piso pystr id_rank (fc_route f) closed_id (Fin 0) ''closed''
           (fc_filled_at f) L1) (\<lambda>(of_closed, L2).
     rbind (sync_paper_protective_orders piso pystr id_rank (fc_route f) (pt_position_id tr) (ps_qty current)
       (if ps_status current = [] then ''open'' else ps_status current) (fc_filled_at f) L2) (\<lambda>(of_current, L3).
       Inr (siblings @ of_closed @ of_current, L3)))))"

definition child_metadata :: "(pyval \<Rightarrow> string) \<Rightarrow> fill_command \<Rightarrow> string \<Rightarrow> vdict \<Rightarrow> vdict" where
  "child_metadata pystr f child_role execution_config =
    (let p = fc_order_payload f; c = fc_command f;
         source = py_strip (text_or pystr (vget p ''indicator_source'') []);
         or_none = (\<lambda>v. if truthy v then v else VNone);
         or_source = (\<lambda>v. if truthy v then v else if source \<noteq> [] then VStr source else VNone)
     in [(VStr ''source'', VStr (if source \<noteq> [] then ''indicator_protective_order'' else ''manual_protective_order'')),
       (VStr ''instrument_id'', VStr (pc_instrument_id c)), (VStr ''route_fingerprint'', VStr (pc_route_fingerprint c)),
       (VStr ''provider'', VStr (pc_provider c)), (VStr ''provider_contract_id'', VStr (pc_provider_contract_id c)),
       (VStr ''paper_contract'', VDict (contract_payload (pc_contract c))), (VStr ''role'', VStr child_role),
       (VStr ''indicator_source'', or_source (vget p ''indicator_source'')),
       (VStr ''setup_source'', or_none (vget p ''setup_source'')), (VStr ''entry_channel'', or_none (vget p ''entry_channel'')),
       (VStr ''signal_source'', or_source (vget p ''signal_source'')),
       (VStr ''signal_source_label'', or_none (vget p ''signal_source_label'')),
       (VStr ''signal'', if is_dict (vget p ''signal'') then vget p ''signal'' else VNone),
       (VStr ''confluence_sources'', vget p ''confluence_sources''), (VStr ''setup'', vget p ''setup''),
       (VStr ''code'', vget p ''code''), (VStr ''reason'', vget p ''reason''), (VStr ''score'', vget p ''score''),
       (VStr ''action_card'', vget p ''action_card''), (VStr ''paper_execution_config'', VDict execution_config),
       (VStr ''protection_basis'', VStr ''absolute_structure''), (VStr ''parent_entry_order_id'', VStr (fc_order_id f))])"

definition paper_protective_child_intent ::
  "(pyval \<Rightarrow> string) \<Rightarrow> fill_command \<Rightarrow> position_transition \<Rightarrow> string \<Rightarrow> string \<Rightarrow> pyfloat \<Rightarrow> pyfloat \<Rightarrow> string
    \<Rightarrow> string \<Rightarrow> vdict res" where
  "paper_protective_child_intent pystr f tr child_role child_type child_entry qty exit_side oco_group =
    (case vget (fc_order_payload f) ''paper_execution_config'' of
       VDict execution_config \<Rightarrow>
        let metadata = child_metadata pystr f child_role execution_config; c = fc_command f in
        Inr [(VStr ''id'', VStr (child_role @ ''-'' @ fc_order_id f)), (VStr ''symbol'', VStr (pc_symbol c)),
          (VStr ''instrument_id'', VStr (pc_instrument_id c)), (VStr ''route_fingerprint'', VStr (pc_route_fingerprint c)),
          (VStr ''provider'', VStr (pc_provider c)), (VStr ''provider_contract_id'', VStr (pc_provider_contract_id c)),
          (VStr ''paper_contract'', VDict (contract_payload (pc_contract c))), (VStr ''timeframe'', VStr (pc_timeframe c)),
          (VStr ''side'', VStr exit_side), (VStr ''order_type'', VStr child_type), (VStr ''status'', VStr ''pending''),
          (VStr ''qty'', VFloat qty), (VStr ''entry'', VFloat child_entry), (VStr ''stop_loss'', VNone),
          (VStr ''target'', VNone), (VStr ''use_stop_loss'', VBool False), (VStr ''use_target'', VBool False),
          (VStr ''created_at'', VStr (isoformat_utc (fc_filled_at f))), (VStr ''updated_at'', VStr (isoformat_utc (fc_filled_at f))),
          (VStr ''role'', VStr child_role), (VStr ''position_id'', VStr (pt_position_id tr)),
          (VStr ''parent_order_id'', VStr (fc_order_id f)), (VStr ''oco_group_id'', VStr oco_group),
          (VStr ''reduce_only'', VBool True), (VStr ''source'', vget metadata ''source''), (VStr ''payload'', VDict metadata)]
     | _ \<Rightarrow> Inl (ValueError ''PAPER_EXECUTION_CONFIG_REQUIRED''))"

definition child_row ::
  "fill_command \<Rightarrow> position_transition \<Rightarrow> string \<Rightarrow> string \<Rightarrow> pyfloat \<Rightarrow> pyfloat \<Rightarrow> string \<Rightarrow> string \<Rightarrow> vdict \<Rightarrow> order_row" where
  "child_row f tr child_role child_type child_entry qty exit_side oco_group payload =
    \<lparr>ow_id = child_role @ ''-'' @ fc_order_id f, ow_symbol = pc_symbol (fc_command f),
     ow_timeframe = pc_timeframe (fc_command f), ow_side = exit_side, ow_order_type = child_type, ow_status = ''pending'',
     ow_qty = qty, ow_entry = child_entry, ow_stop_loss = None, ow_target = None, ow_use_stop_loss = False,
     ow_use_target = False, ow_created_at = fc_filled_at f, ow_updated_at = fc_filled_at f, ow_filled_at = None,
     ow_fill_price = None, ow_role = child_role, ow_position_id = Some (pt_position_id tr),
     ow_parent_order_id = Some (fc_order_id f), ow_oco_group_id = Some oco_group, ow_reduce_only = True,
     ow_payload = payload\<rparr>"

definition create_child ::
  "iso_parser \<Rightarrow> (pyval \<Rightarrow> string) \<Rightarrow> fill_command \<Rightarrow> position_transition \<Rightarrow> pyfloat \<Rightarrow> string \<Rightarrow> string
    \<Rightarrow> vdict list \<times> ledger \<Rightarrow> string \<times> string \<times> pyfloat \<Rightarrow> (vdict list \<times> ledger) res" where
  "create_child piso pystr f tr qty exit_side oco_group acc child = (case (acc, child) of
     ((created, L), (child_role, child_type, child_entry)) \<Rightarrow>
      rbind (paper_protective_child_intent pystr f tr child_role child_type child_entry qty exit_side oco_group) (\<lambda>intent.
      rbind (paper_order_command_payload piso pystr intent) (\<lambda>command.
      let row = child_row f tr child_role child_type child_entry qty exit_side oco_group
            (vset ''execution_command'' (VDict (command_dict command))
              (vset ''create_command'' (VDict (command_dict command))
                (vset ''paper_contract'' (VDict (contract_payload (pc_contract (fc_command f)))) intent))) in
      if find_order (ow_id row) L \<noteq> None then Inl (ValueError ''PAPER_PROTECTIVE_ORDER_ID_COLLISION'')
      else rbind (paper_order_from_row piso row) (\<lambda>d.
        Inr (created @ [d], L\<lparr>lg_orders := lg_orders L @ [row]\<rparr>)))))"

definition create_paper_fill_protective_orders ::
  "iso_parser \<Rightarrow> (pyval \<Rightarrow> string) \<Rightarrow> fill_command \<Rightarrow> position_transition \<Rightarrow> position_row \<Rightarrow> ledger
    \<Rightarrow> (vdict list \<times> ledger) res" where
  "create_paper_fill_protective_orders piso pystr f tr current L =
    rbind (if ps_status current = ''open'' \<and> \<not> fc_reduce_only f \<and> pc_role (fc_command f) = ''entry''
      then paper_entry_protective_qty (pt_signed_delta tr) (ps_qty current) (pt_previous_qty tr) (pt_closed_position tr \<noteq> None)
      else Inr None) (\<lambda>protective_qty. case protective_qty of
        None \<Rightarrow> Inr ([], L)
      | Some qty \<Rightarrow>
          let exit_side = (if flt (Fin 0) (ps_qty current) then ''short'' else ''long'');
              oco_group = text_or pystr (vget (fc_order f) ''oco_group_id'') (''oco-'' @ fc_order_id f);
              children = (case pc_stop_loss (fc_command f) of None \<Rightarrow> [] | Some s \<Rightarrow> [(''stop'', ''stop'', s)])
                @ (case pc_target (fc_command f) of None \<Rightarrow> [] | Some t \<Rightarrow> [(''take'', ''limit'', t)])
          in foldM (create_child piso pystr f tr qty exit_side oco_group) ([], L) children)"

section \<open>Applying a fill\<close>

definition append_paper_fill_events :: "fill_command \<Rightarrow> position_transition \<Rightarrow> position_row \<Rightarrow> ledger \<Rightarrow> ledger" where
  "append_paper_fill_events f tr current L =
    append_event (if ps_status current = ''closed'' then ''position_closed'' else ''position_filled'')
      (Some (fc_order_id f)) (Some (ps_id current))
      (case pt_closed_position tr of None \<Rightarrow> L
       | Some closed_id \<Rightarrow> append_event ''position_closed'' (Some (fc_order_id f)) (Some closed_id) L)"

definition commit_paper_fill ::
  "iso_parser \<Rightarrow> (pyval \<Rightarrow> string) \<Rightarrow> (string \<Rightarrow> int) \<Rightarrow> fill_command \<Rightarrow> position_row option \<Rightarrow> ledger
    \<Rightarrow> (fill_result \<times> ledger) res" where
  "commit_paper_fill piso pystr id_rank f position L =
    rbind (transition_paper_position piso pystr f position L) (\<lambda>(tr, L1).
    rbind (persist_paper_fill_records piso f tr L1) (\<lambda>((saved, paper_fill), L2).
    rbind (paper_fill_position_results piso f tr L2) (\<lambda>(current_dict, current, closed).
    rbind (sync_paper_fill_protective_orders piso pystr id_rank f tr current L2) (\<lambda>(cancelled, L3).
    rbind (create_paper_fill_protective_orders piso pystr f tr current L3) (\<lambda>(created, L4).
      Inr (\<lparr>fo_outcome = ''filled'', fo_order = saved, fo_position = Some current_dict, fo_fill = Some paper_fill,
          fo_created_orders = created, fo_cancelled_orders = cancelled, fo_closed_position = closed,
          fo_opened_new_position = pt_opened_new_position tr\<rparr>,
        append_paper_fill_events f tr current L4))))))"

definition apply_paper_fill ::
  "iso_parser \<Rightarrow> (pyval \<Rightarrow> string) \<Rightarrow> (string \<Rightarrow> int) \<Rightarrow> instant \<Rightarrow> fill_command \<Rightarrow> ledger \<Rightarrow> (fill_result \<times> ledger) res" where
  "apply_paper_fill piso pystr id_rank now f L =
    rbind (reserve_paper_fill_order piso now f L) (\<lambda>(replay, L1). case replay of
      Some r \<Rightarrow> Inr (r, L1)
    | None \<Rightarrow>
      rbind (locked_paper_fill_position piso f L1) (\<lambda>position.
      rbind (paper_position_expectation_outcome piso pystr f (map_option snd position) L1) (\<lambda>(expected, L2). case expected of
        Some r \<Rightarrow> Inr (r, L2)
      | None \<Rightarrow>
        rbind (paper_stale_reduce_only_outcome piso f (map_option snd position) L2) (\<lambda>(stale, L3). case stale of
          Some r \<Rightarrow> Inr (r, L3)
        | None \<Rightarrow> commit_paper_fill piso pystr id_rank f (map_option fst position) L3))))"

definition apply_filled_paper_order ::
  "iso_parser \<Rightarrow> (pyval \<Rightarrow> string) \<Rightarrow> (string \<Rightarrow> int) \<Rightarrow> instant \<Rightarrow> vdict \<Rightarrow> ledger \<Rightarrow> (fill_result \<times> ledger) res" where
  "apply_filled_paper_order piso pystr id_rank now order L =
    rbind (paper_fill_command piso pystr now order) (\<lambda>f. apply_paper_fill piso pystr id_rank now f L)"

end
