(* ===== verification/PaperJournal.thy ===== *)
theory PaperJournal
  imports PaperLedger
begin

text \<open>
  The other transactions of the paper ledger (\<open>storage/repos/paper.py\<close>): reserving, updating, cancelling and
  rejecting an order, cancelling the protection of a position; and the runs of a ledger, in which the
  transactions follow each other in any order (they are serialised by row locks, an advisory lock per route
  and contract, and the writer lease, all of which are the database's).
\<close>

definition upsert_paper_order ::
  "iso_parser \<Rightarrow> (pyval \<Rightarrow> string) \<Rightarrow> instant \<Rightarrow> vdict \<Rightarrow> ledger \<Rightarrow> (vdict \<times> ledger) res" where
  "upsert_paper_order piso pystr now order L =
    rbind (paper_order_command_payload piso pystr order) (\<lambda>c.
    rbind (if pc_role c = ''close'' \<and> pc_reduce_only c
      then let side = py_lower (py_strip (text_or pystr (vget order ''side'') [])) in
        rbind (float_or_none (vget order ''qty'')) (\<lambda>qty.
        rbind (float_or_none (vget order ''entry'')) (\<lambda>entry.
        (case (qty, entry) of
           (Some q, Some e) \<Rightarrow> if side \<notin> {''long'', ''short''} \<or> fle q (Fin 0)
             then Inl (ValueError ''PAPER_CLOSE_RESERVATION_SHAPE_INVALID'') else Inr (side, q, e)
         | _ \<Rightarrow> Inl (ValueError ''PAPER_CLOSE_RESERVATION_SHAPE_INVALID''))))
      else Inr (case pc_side c of None \<Rightarrow> [] | Some t \<Rightarrow> t, case pc_qty c of None \<Rightarrow> Fin 0 | Some q \<Rightarrow> q,
        case pc_entry c of None \<Rightarrow> Fin 0 | Some e \<Rightarrow> e)) (\<lambda>(storage_side, storage_qty, storage_entry).
    rbind (require_paper_order_protection order) (\<lambda>protection.
    if py_lower (text_or pystr (vget order ''status'') ''pending'') \<noteq> ''pending''
    then Inl (ValueError ''PAPER_ORDER_PENDING_WRITE_REQUIRED'')
    else
    rbind (paper_utc_datetime piso now (vget order ''created_at'') None) (\<lambda>created_at.
    rbind (paper_utc_datetime piso now (vget order ''updated_at'') (Some created_at)) (\<lambda>updated_at.
    case find_order (pc_id c) L of
      None \<Rightarrow>
        let row = \<lparr>ow_id = pc_id c, ow_symbol = pc_symbol c, ow_timeframe = pc_timeframe c, ow_side = storage_side,
              ow_order_type = pc_order_type c, ow_status = ''pending'', ow_qty = storage_qty, ow_entry = storage_entry,
              ow_stop_loss = pc_stop_loss c, ow_target = pc_target c, ow_use_stop_loss = pc_use_stop_loss c,
              ow_use_target = pc_use_target c, ow_created_at = created_at, ow_updated_at = updated_at,
              ow_filled_at = None, ow_fill_price = None, ow_role = pc_role c, ow_position_id = pc_position_id c,
              ow_parent_order_id = pc_parent_order_id c, ow_oco_group_id = pc_oco_group_id c,
              ow_reduce_only = pc_reduce_only c,
              ow_payload = vset ''execution_command'' (VDict (command_dict c)) (vset ''create_command'' (VDict (command_dict c))
                (vset ''payload'' (VDict protection) (vset ''paper_contract'' (VDict (contract_payload (pc_contract c))) order)))\<rparr>
        in rbind (paper_order_from_row piso row) (\<lambda>saved.
          Inr (saved, append_event ''order_placed'' (Some (pc_id c)) None (L\<lparr>lg_orders := lg_orders L @ [row]\<rparr>)))
    | Some row \<Rightarrow>
        rbind (paper_order_from_row piso row) (\<lambda>saved.
        if \<not> py_eq (vget saved ''instrument_id'') (VStr (pc_instrument_id c))
          \<or> \<not> py_eq (vget saved ''route_fingerprint'') (VStr (pc_route_fingerprint c))
        then Inl (ValueError ''PAPER_ORDER_ID_ROUTE_COLLISION'')
        else if \<not> py_eq (vget saved ''create_command'') (VDict (command_dict c))
        then Inl (PaperJournalError ''PAPER_ORDER_ID_COMMAND_COLLISION'')
        else Inr (saved, L)))))))"

definition paper_order_identity ::
  "pyval \<Rightarrow> pyval \<Rightarrow> pyval \<Rightarrow> (string \<times> string \<times> string) res" where
  "paper_order_identity order_id instrument_id fingerprint =
    rbind (require_exact_identity_text order_id ''PAPER_ORDER_ID'' False) (\<lambda>i.
    rbind (require_exact_identity_text instrument_id ''PAPER_ORDER_INSTRUMENT_ID'' False) (\<lambda>instrument.
    rbind (require_exact_identity_text fingerprint ''PAPER_ORDER_ROUTE_FINGERPRINT'' False) (\<lambda>fp.
      Inr (i, instrument, fp))))"

definition update_paper_order_if_pending ::
  "iso_parser \<Rightarrow> (pyval \<Rightarrow> string) \<Rightarrow> instant \<Rightarrow> vdict \<Rightarrow> pyval \<Rightarrow> pyval \<Rightarrow> ledger \<Rightarrow> (vdict option \<times> ledger) res" where
  "update_paper_order_if_pending piso pystr now order instrument_id fingerprint L =
    rbind (paper_order_identity (vget order ''id'') instrument_id fingerprint) (\<lambda>(order_id, identity, fp).
    rbind (require_exact_identity_text (vget order ''instrument_id'') ''PAPER_ORDER_PAYLOAD_INSTRUMENT_ID'' False) (\<lambda>own.
    rbind (if own \<noteq> identity then Inr False
      else rbind (require_exact_identity_text (vget order ''route_fingerprint'') ''PAPER_ORDER_PAYLOAD_ROUTE_FINGERPRINT'' False)
        (\<lambda>own_fp. Inr (own_fp = fp))) (\<lambda>same.
    if \<not> same then Inl (ValueError ''PAPER_ORDER_UPDATE_IDENTITY_MISMATCH'')
    else
    rbind (paper_utc_datetime piso now (vget order ''updated_at'') None) (\<lambda>updated_at.
    rbind (float_or_none (vget order ''entry'')) (\<lambda>entry.
    rbind (float_or_none (vget order ''stop_loss'')) (\<lambda>stop_loss.
    rbind (float_or_none (vget order ''target'')) (\<lambda>target.
    case entry of
      None \<Rightarrow> Inl (ValueError ''paper order prices must be finite numbers'')
    | Some e \<Rightarrow>
      if (vget order ''stop_loss'' \<noteq> VNone \<and> stop_loss = None) \<or> (vget order ''target'' \<noteq> VNone \<and> target = None)
      then Inl (ValueError ''paper order prices must be finite numbers'')
      else
      rbind (paper_order_command_payload piso pystr order) (\<lambda>c.
      rbind (require_paper_order_protection order) (\<lambda>protection.
      case update_orders (\<lambda>r. ow_id r = order_id \<and> pending_in (identity, fp, scope_key (pc_contract c)) r)
          (\<lambda>r. r\<lparr>ow_entry := e, ow_stop_loss := stop_loss, ow_target := target, ow_use_stop_loss := pc_use_stop_loss c,
             ow_use_target := pc_use_target c, ow_updated_at := updated_at,
             ow_payload := dmerge (ow_payload r) (vset ''execution_command'' (VDict (command_dict c))
               (vset ''payload'' (VDict protection) order))\<rparr>) L of
        ([], _) \<Rightarrow> Inr (None, L)
      | (row # _, L') \<Rightarrow> rbind (paper_order_from_row piso row) (\<lambda>saved.
          Inr (Some saved, append_event ''order_updated'' (Some order_id) None L')))))))))))"

definition cancel_paper_order_if_pending ::
  "iso_parser \<Rightarrow> instant \<Rightarrow> pyval \<Rightarrow> pydatetime option \<Rightarrow> pyval \<Rightarrow> pyval \<Rightarrow> paper_contract option \<Rightarrow> ledger
    \<Rightarrow> (vdict option \<times> ledger) res" where
  "cancel_paper_order_if_pending piso now order_id cancelled_at instrument_id fingerprint contract L =
    rbind (paper_order_identity order_id instrument_id fingerprint) (\<lambda>(i, identity, fp).
    rbind (case cancelled_at of None \<Rightarrow> Inr now | Some d \<Rightarrow> astimezone_utc d) (\<lambda>ts.
    case cancel_if_pending i ts identity fp (map_option scope_key contract) [] L of
      (None, _) \<Rightarrow> Inr (None, L)
    | (Some row, L') \<Rightarrow> rbind (paper_order_from_row piso row) (\<lambda>saved.
        Inr (Some saved, append_event ''order_cancelled'' (Some i) None L'))))"

definition reject_paper_order_execution_if_pending ::
  "iso_parser \<Rightarrow> instant \<Rightarrow> pyval \<Rightarrow> pydatetime option \<Rightarrow> pyval \<Rightarrow> pyval \<Rightarrow> string \<Rightarrow> string \<Rightarrow> vdict
    \<Rightarrow> paper_contract option \<Rightarrow> ledger \<Rightarrow> (vdict option \<times> ledger) res" where
  "reject_paper_order_execution_if_pending piso now order_id rejected_at instrument_id fingerprint code reason execution
      contract L =
    rbind (paper_order_identity order_id instrument_id fingerprint) (\<lambda>(i, identity, fp).
    if py_strip code = [] \<or> py_strip reason = [] then Inl (ValueError ''PAPER_EXECUTION_REJECTION_PAYLOAD_INVALID'')
    else
    rbind (case rejected_at of None \<Rightarrow> Inr now | Some d \<Rightarrow> astimezone_utc d) (\<lambda>ts.
    case cancel_if_pending i ts identity fp (map_option scope_key contract)
        [(VStr ''execution_rejection'', VDict (rejection_dict (py_strip code) (py_strip reason) execution))] L of
      (None, _) \<Rightarrow> Inr (None, L)
    | (Some row, L') \<Rightarrow> rbind (paper_order_from_row piso row) (\<lambda>saved.
        Inr (Some saved, append_event ''order_execution_rejected'' (Some i) None L'))))"

text \<open>Its rows are read after the commit, so that a row that cannot be read raises with the tables changed.\<close>

definition in_contract_scope :: "string \<Rightarrow> string \<Rightarrow> paper_contract option \<Rightarrow> order_row \<Rightarrow> bool" where
  "in_contract_scope instrument_id fingerprint contract r =
    cancel_scope instrument_id fingerprint (map_option scope_key contract) r"

definition cancel_paper_protective_orders ::
  "iso_parser \<Rightarrow> instant \<Rightarrow> pyval \<Rightarrow> pyval \<Rightarrow> pyval \<Rightarrow> paper_contract option \<Rightarrow> ledger \<Rightarrow> vdict list res \<times> ledger" where
  "cancel_paper_protective_orders piso now position_id instrument_id fingerprint contract L =
    (case (require_exact_identity_text position_id ''PAPER_POSITION_ID'' False,
        require_exact_identity_text instrument_id ''PAPER_POSITION_INSTRUMENT_ID'' False,
        require_exact_identity_text fingerprint ''PAPER_POSITION_ROUTE_FINGERPRINT'' False) of
       (Inr p, Inr i, Inr fp) \<Rightarrow>
         (case update_orders (\<lambda>r. ow_position_id r = Some p \<and> in_contract_scope i fp contract r
             \<and> ow_reduce_only r \<and> ow_status r = ''pending'')
             (\<lambda>r. r\<lparr>ow_status := ''cancelled'', ow_updated_at := now\<rparr>) L of
            (rows, L') \<Rightarrow> (mapM (paper_order_from_row piso) rows, L'))
     | (Inl e, _) \<Rightarrow> (Inl e, L) | (_, Inl e, _) \<Rightarrow> (Inl e, L) | (_, _, Inl e) \<Rightarrow> (Inl e, L))"

section \<open>Runs\<close>

datatype paper_op =
    OpUpsert instant vdict
  | OpFill instant vdict
  | OpUpdate instant vdict pyval pyval
  | OpCancel instant pyval "pydatetime option" pyval pyval "paper_contract option"
  | OpReject instant pyval "pydatetime option" pyval pyval string string vdict "paper_contract option"
  | OpCancelProtective instant pyval pyval pyval "paper_contract option"

definition committed :: "ledger \<Rightarrow> ('a \<times> ledger) res \<Rightarrow> ledger" where
  "committed L r = (case r of Inl _ \<Rightarrow> L | Inr (_, L') \<Rightarrow> L')"

fun paper_step :: "iso_parser \<Rightarrow> (pyval \<Rightarrow> string) \<Rightarrow> (string \<Rightarrow> int) \<Rightarrow> paper_op \<Rightarrow> ledger \<Rightarrow> ledger" where
  "paper_step piso pystr id_rank (OpUpsert now order) L = committed L (upsert_paper_order piso pystr now order L)"
| "paper_step piso pystr id_rank (OpFill now order) L = committed L (apply_filled_paper_order piso pystr id_rank now order L)"
| "paper_step piso pystr id_rank (OpUpdate now order i fp) L = committed L (update_paper_order_if_pending piso pystr now order i fp L)"
| "paper_step piso pystr id_rank (OpCancel now oid ts i fp ct) L = committed L (cancel_paper_order_if_pending piso now oid ts i fp ct L)"
| "paper_step piso pystr id_rank (OpReject now oid ts i fp code reason ex ct) L =
     committed L (reject_paper_order_execution_if_pending piso now oid ts i fp code reason ex ct L)"
| "paper_step piso pystr id_rank (OpCancelProtective now pid i fp ct) L =
     snd (cancel_paper_protective_orders piso now pid i fp ct L)"

definition empty_ledger :: ledger where
  "empty_ledger = \<lparr>lg_orders = [], lg_positions = [], lg_fills = [], lg_events = []\<rparr>"

fun paper_run :: "iso_parser \<Rightarrow> (pyval \<Rightarrow> string) \<Rightarrow> (string \<Rightarrow> int) \<Rightarrow> paper_op list \<Rightarrow> ledger \<Rightarrow> ledger" where
  "paper_run piso pystr id_rank [] L = L"
| "paper_run piso pystr id_rank (op # ops) L = paper_run piso pystr id_rank ops (paper_step piso pystr id_rank op L)"

end
