(* ===== verification/ResultLogic.thy ===== *)
theory ResultLogic
  imports PyValue
begin

text \<open>
  Partial correctness of terms of the result monad: \<open>when_ok r P\<close> says that the value of \<open>r\<close>, if it is
  one and not an exception, satisfies \<open>P\<close>. The introduction rules follow the syntax of the term, so that
  a long chain of checks is taken apart without unfolding the values it binds.
\<close>

definition when_ok :: "'a res \<Rightarrow> ('a \<Rightarrow> bool) \<Rightarrow> bool" where
  "when_ok r P \<longleftrightarrow> (\<forall>y. r = Inr y \<longrightarrow> P y)"

named_theorems ok_intros "how a result term is taken apart"

lemma when_okI: "(\<And>y. r = Inr y \<Longrightarrow> P y) \<Longrightarrow> when_ok r P"
  by (simp add: when_ok_def)

lemma when_okD: "when_ok r P \<Longrightarrow> r = Inr y \<Longrightarrow> P y"
  by (simp add: when_ok_def)

lemma when_ok_Inl [ok_intros]: "when_ok (Inl e) P"
  by (simp add: when_ok_def)

lemma when_ok_Inr [ok_intros]: "P y \<Longrightarrow> when_ok (Inr y) P"
  by (simp add: when_ok_def)

lemma when_ok_rbind [ok_intros]: "(\<And>x. m = Inr x \<Longrightarrow> when_ok (f x) P) \<Longrightarrow> when_ok (rbind m f) P"
  by (auto simp: when_ok_def rbind_Inr_iff)

lemma when_ok_if [ok_intros]:
  "(b \<Longrightarrow> when_ok r P) \<Longrightarrow> (\<not> b \<Longrightarrow> when_ok s P) \<Longrightarrow> when_ok (if b then r else s) P"
  by simp

lemma when_ok_Let [ok_intros]: "(\<And>x. x = v \<Longrightarrow> when_ok (f x) P) \<Longrightarrow> when_ok (Let v f) P"
  by simp

lemma when_ok_option [ok_intros]:
  "(v = None \<Longrightarrow> when_ok r P) \<Longrightarrow> (\<And>x. v = Some x \<Longrightarrow> when_ok (f x) P) \<Longrightarrow> when_ok (case v of None \<Rightarrow> r | Some x \<Rightarrow> f x) P"
  by (simp split: option.split)

lemma when_ok_prod [ok_intros]: "(\<And>x y. v = (x, y) \<Longrightarrow> when_ok (f x y) P) \<Longrightarrow> when_ok (case v of (x, y) \<Rightarrow> f x y) P"
  by (simp split: prod.split)

lemma when_ok_list [ok_intros]:
  "(v = [] \<Longrightarrow> when_ok r P) \<Longrightarrow> (\<And>x xs. v = x # xs \<Longrightarrow> when_ok (f x xs) P) \<Longrightarrow> when_ok (case v of [] \<Rightarrow> r | x # xs \<Rightarrow> f x xs) P"
  by (simp split: list.split)

lemma when_ok_dict [ok_intros]:
  "(\<And>d. v = VDict d \<Longrightarrow> when_ok (f d) P) \<Longrightarrow> (\<And>d. v \<noteq> VDict d \<Longrightarrow> when_ok r P)
    \<Longrightarrow> when_ok (case v of VDict d \<Rightarrow> f d | _ \<Rightarrow> r) P"
  by (simp split: pyval.split)

end
