(* ===== verification/PaperLedgerLaws.thy ===== *)
theory PaperLedgerLaws
  imports PaperJournal ResultLogic "HOL-Library.Sublist"
begin

text \<open>
  What every run of the paper ledger keeps: one row per id, at most one open position per route, contract
  and timeframe, closed positions empty, exactly one fill per filled order; and that settled rows are never
  rewritten.
\<close>

section \<open>The invariant\<close>

definition position_slot :: "position_row \<Rightarrow> ledger_route \<times> string" where
  "position_slot p = (payload_route (ps_payload p), ps_timeframe p)"

abbreviation is_open :: "position_row \<Rightarrow> bool" where "is_open p \<equiv> ps_status p = ''open''"

definition positions_ok :: "position_row list \<Rightarrow> bool" where
  "positions_ok ps \<longleftrightarrow> distinct (map ps_id ps) \<and> distinct (map position_slot (filter is_open ps))
     \<and> list_all (\<lambda>p. is_open p \<or> ps_status p = ''closed'' \<and> ps_qty p = Fin 0) ps"

definition filled_ids :: "order_row list \<Rightarrow> string set" where
  "filled_ids os = {ow_id r | r. r \<in> set os \<and> ow_status r = ''filled''}"

definition orders_ok :: "order_row list \<Rightarrow> bool" where
  "orders_ok os \<longleftrightarrow> distinct (map ow_id os) \<and> list_all (\<lambda>r. ow_status r \<in> {''pending'', ''filled'', ''cancelled''}) os"

definition ledger_ok :: "ledger \<Rightarrow> bool" where
  "ledger_ok L \<longleftrightarrow> orders_ok (lg_orders L) \<and> positions_ok (lg_positions L)
     \<and> distinct (map fr_order_id (lg_fills L)) \<and> set (map fr_order_id (lg_fills L)) = filled_ids (lg_orders L)"

text \<open>Settled rows, fills and events are kept, and every position keeps what names it.\<close>

definition position_identity :: "position_row \<Rightarrow> string \<times> vdict \<times> string" where
  "position_identity p = (ps_id p, ps_payload p, ps_timeframe p)"

definition ledger_extends :: "ledger \<Rightarrow> ledger \<Rightarrow> bool" where
  "ledger_extends L L' \<longleftrightarrow> set (filter (\<lambda>r. ow_status r \<noteq> ''pending'') (lg_orders L)) \<subseteq> set (lg_orders L')
     \<and> set (filter (\<lambda>p. \<not> is_open p) (lg_positions L)) \<subseteq> set (lg_positions L')
     \<and> set (map position_identity (lg_positions L)) \<subseteq> set (map position_identity (lg_positions L'))
     \<and> prefix (lg_fills L) (lg_fills L') \<and> prefix (lg_events L) (lg_events L')"

lemma ledger_extends_refl: "ledger_extends L L"
  by (auto simp: ledger_extends_def)

lemma ledger_extends_trans: "ledger_extends L M \<Longrightarrow> ledger_extends M N \<Longrightarrow> ledger_extends L N"
proof -
  assume "ledger_extends L M" "ledger_extends M N"
  then have "set (map position_identity (lg_positions L)) \<subseteq> set (map position_identity (lg_positions N))"
    unfolding ledger_extends_def by blast
  moreover have "prefix (lg_fills L) (lg_fills N)" "prefix (lg_events L) (lg_events N)"
    using \<open>ledger_extends L M\<close> \<open>ledger_extends M N\<close>
    unfolding ledger_extends_def by (blast intro: prefix_order.trans)+
  ultimately show ?thesis
    using \<open>ledger_extends L M\<close> \<open>ledger_extends M N\<close> unfolding ledger_extends_def by auto
qed

section \<open>Transactions that only touch orders\<close>

definition touched :: "order_row \<Rightarrow> order_row \<Rightarrow> bool" where
  "touched r r' \<longleftrightarrow> r' = r \<or> ow_status r = ''pending'' \<and> ow_id r' = ow_id r \<and> ow_status r' \<in> {''pending'', ''cancelled''}"

definition orders_grow :: "ledger \<Rightarrow> ledger \<Rightarrow> bool" where
  "orders_grow L L' \<longleftrightarrow> lg_positions L' = lg_positions L \<and> lg_fills L' = lg_fills L \<and> prefix (lg_events L) (lg_events L')
     \<and> (\<exists>os new. list_all2 touched (lg_orders L) os \<and> lg_orders L' = os @ new
        \<and> list_all (\<lambda>r. ow_status r \<in> {''pending'', ''cancelled''}) new
        \<and> distinct (map ow_id new) \<and> set (map ow_id new) \<inter> set (map ow_id (lg_orders L)) = {})"

lemma filled_ids_Nil [simp]: "filled_ids [] = {}"
  by (simp add: filled_ids_def)

lemma filled_ids_Cons: "filled_ids (r # rs) = (if ow_status r = ''filled'' then {ow_id r} else {}) \<union> filled_ids rs"
  by (auto simp: filled_ids_def)

lemma filled_ids_append: "filled_ids (rs @ ss) = filled_ids rs \<union> filled_ids ss"
  by (auto simp: filled_ids_def)

lemma orders_growI:
  assumes "lg_positions L' = lg_positions L" "lg_fills L' = lg_fills L" "prefix (lg_events L) (lg_events L')"
    and "list_all2 touched (lg_orders L) os" "lg_orders L' = os @ new"
    and "list_all (\<lambda>r. ow_status r \<in> {''pending'', ''cancelled''}) new"
    and "distinct (map ow_id new)" "set (map ow_id new) \<inter> set (map ow_id (lg_orders L)) = {}"
  shows "orders_grow L L'"
  using assms unfolding orders_grow_def by blast

lemma touched_refl [simp]: "touched r r"
  by (simp add: touched_def)

lemma touched_refls [simp]: "list_all2 touched rs rs"
  by (simp add: list_all2_same)

lemma touched_trans: "touched r s \<Longrightarrow> touched s t \<Longrightarrow> touched r t"
  by (auto simp: touched_def)

lemma touched_id: "touched r r' \<Longrightarrow> ow_id r' = ow_id r"
  by (auto simp: touched_def)

lemma touched_ids: "list_all2 touched os os' \<Longrightarrow> map ow_id os' = map ow_id os"
  by (induction rule: list_all2_induct) (auto simp: touched_id)

lemma touched_status: "list_all2 touched os os' \<Longrightarrow> list_all (\<lambda>r. ow_status r \<in> {''pending'', ''cancelled''}) os
  \<Longrightarrow> list_all (\<lambda>r. ow_status r \<in> {''pending'', ''cancelled''}) os'"
  by (induction rule: list_all2_induct) (auto simp: touched_def)

lemma touched_settled: "list_all2 touched os os' \<Longrightarrow> r \<in> set os \<Longrightarrow> ow_status r \<noteq> ''pending'' \<Longrightarrow> r \<in> set os'"
  by (induction rule: list_all2_induct) (auto simp: touched_def)

lemma touched_filled: "list_all2 touched os os' \<Longrightarrow> filled_ids os' = filled_ids os"
proof (induction rule: list_all2_induct)
  case (Cons r os r' os')
  then have "(if ow_status r' = ''filled'' then {ow_id r'} else {}) = (if ow_status r = ''filled'' then {ow_id r} else {})"
    by (auto simp: touched_def)
  with Cons show ?case by (simp add: filled_ids_Cons)
qed simp

lemma touched_all_ok: "list_all2 touched os os' \<Longrightarrow> orders_ok os \<Longrightarrow> orders_ok os'"
  unfolding orders_ok_def by (auto simp: touched_ids)
    (induction rule: list_all2_induct, auto simp: touched_def)

lemma orders_grow_refl: "orders_grow L L"
  by (rule orders_growI [OF refl refl _ touched_refls, of _ "[]"]) simp_all

lemma orders_grow_trans:
  assumes "orders_grow L M" "orders_grow M N"
  shows "orders_grow L N"
proof -
  from assms(1) obtain os new where M: "list_all2 touched (lg_orders L) os" "lg_orders M = os @ new"
    "list_all (\<lambda>r. ow_status r \<in> {''pending'', ''cancelled''}) new" "distinct (map ow_id new)"
    "set (map ow_id new) \<inter> set (map ow_id (lg_orders L)) = {}" unfolding orders_grow_def by blast
  from assms(2) obtain os' new' where N: "list_all2 touched (os @ new) os'" "lg_orders N = os' @ new'"
    "list_all (\<lambda>r. ow_status r \<in> {''pending'', ''cancelled''}) new'" "distinct (map ow_id new')"
    "set (map ow_id new') \<inter> set (map ow_id (os @ new)) = {}" unfolding orders_grow_def M(2) by blast
  from N(1) obtain a b where ab: "os' = a @ b" "list_all2 touched os a" "list_all2 touched new b"
    by (auto simp: list_all2_append1)
  have t: "list_all2 touched (lg_orders L) a"
    using M(1) ab(2) by (rule list_all2_trans [rotated]) (rule touched_trans)
  have "list_all (\<lambda>r. ow_status r \<in> {''pending'', ''cancelled''}) (b @ new')"
    using touched_status [OF ab(3) M(3)] N(3) by simp
  moreover have "distinct (map ow_id (b @ new'))" "set (map ow_id (b @ new')) \<inter> set (map ow_id (lg_orders L)) = {}"
    using M(4,5) N(4,5) touched_ids [OF ab(3)] touched_ids [OF M(1)] by auto
  ultimately show ?thesis using t N(2) ab(1) assms
    by (intro orders_growI [where os = a and new = "b @ new'"]) (auto simp: orders_grow_def intro: prefix_order.trans)
qed

lemma orders_grow_ok:
  assumes "orders_grow L L'" "ledger_ok L"
  shows "ledger_ok L'"
proof -
  from assms(1) obtain os new where g: "list_all2 touched (lg_orders L) os" "lg_orders L' = os @ new"
    "list_all (\<lambda>r. ow_status r \<in> {''pending'', ''cancelled''}) new" "distinct (map ow_id new)"
    "set (map ow_id new) \<inter> set (map ow_id (lg_orders L)) = {}"
    and same: "lg_positions L' = lg_positions L" "lg_fills L' = lg_fills L"
    unfolding orders_grow_def by blast
  have "orders_ok os" using touched_all_ok [OF g(1)] assms(2) by (simp add: ledger_ok_def)
  then have "orders_ok (os @ new)"
    using g(3,4,5) touched_ids [OF g(1)] by (auto simp: orders_ok_def list_all_iff)
  moreover have "filled_ids (os @ new) = filled_ids (lg_orders L)"
    unfolding filled_ids_append touched_filled [OF g(1)] using g(3) by (auto simp: filled_ids_def list_all_iff)
  ultimately show ?thesis using assms(2) same g(2) by (simp add: ledger_ok_def)
qed

lemma orders_grow_extends: "orders_grow L L' \<Longrightarrow> ledger_extends L L'"
  unfolding orders_grow_def ledger_extends_def by (auto dest: touched_settled)

lemma update_orders_grow:
  assumes "update_orders p g L = (rows, L')" "\<And>r. p r \<Longrightarrow> touched r (g r)"
  shows "orders_grow L L'"
  using assms by (intro orders_growI [where os = "lg_orders L'" and new = "[]"])
    (auto simp: update_orders_def list_all2_map2 intro!: list.rel_refl_strong)

lemma append_event_grow: "orders_grow L (append_event t i j L)"
  by (rule orders_growI [where os = "lg_orders L" and new = "[]"]) (simp_all add: append_event_def)

lemma add_order_grow:
  assumes "find_order (ow_id r) L = None" "ow_status r = ''pending''"
  shows "orders_grow L (L\<lparr>lg_orders := lg_orders L @ [r]\<rparr>)"
  using assms by (intro orders_growI [where os = "lg_orders L" and new = "[r]"])
    (auto simp: find_order_def first_where_None)

lemma cancel_if_pending_grow: "cancel_if_pending i ts a b k patch L = (row, L') \<Longrightarrow> orders_grow L L'"
  unfolding cancel_if_pending_def
  by (auto split: prod.splits elim!: update_orders_grow simp: touched_def cancel_row_def)

lemma update_snd_grow: "(\<And>r. p r \<Longrightarrow> touched r (g r)) \<Longrightarrow> orders_grow L (snd (update_orders p g L))"
  by (rule update_orders_grow [OF surjective_pairing])

lemma cancel_snd_grow: "orders_grow L (snd (cancel_if_pending i ts a b k patch L))"
  by (rule cancel_if_pending_grow [OF surjective_pairing])

section \<open>Protective orders and early outcomes\<close>

lemma foldM_grow:
  assumes "foldM f s xs = Inr s'" "\<And>s x s'. f s x = Inr s' \<Longrightarrow> orders_grow (snd s) (snd s')"
  shows "orders_grow (snd s) (snd s')"
  using assms(1) by (rule foldM_inv [where I = "\<lambda>t. orders_grow (snd s) (snd t)"])
    (auto intro: orders_grow_refl orders_grow_trans assms(2))

lemma foldM_grow2:
  assumes "foldM f s xs = Inr s'" "\<And>s x s'. f s x = Inr s' \<Longrightarrow> orders_grow (snd (snd s)) (snd (snd s'))"
  shows "orders_grow (snd (snd s)) (snd (snd s'))"
  using assms(1) by (rule foldM_inv [where I = "\<lambda>t. orders_grow (snd (snd s)) (snd (snd t))"])
    (auto intro: orders_grow_refl orders_grow_trans assms(2))

lemma resize_protective_order_grow:
  assumes "resize_protective_order piso pystr route ts admitted (ds, L) r = Inr (ds', L')"
  shows "orders_grow L L'"
  using assms unfolding resize_protective_order_def
  by (auto simp: res_simps Let_def touched_def pending_in_def split_beta
      intro: orders_grow_refl intro!: cancel_snd_grow update_snd_grow split: if_splits option.splits)

lemma resize_group_grow:
  assumes "resize_group piso pystr route ts (q, ds, L) grp = Inr (q', ds', L')"
  shows "orders_grow L L'"
proof -
  obtain ds1 where "foldM (resize_protective_order piso pystr route ts (fmin (py_max (map (\<lambda>r. fabs (ow_qty r)) (snd grp))) q))
      (ds, L) (snd grp) = Inr (ds1, L')"
    using assms by (auto simp: resize_group_def res_simps Let_def split: prod.splits)
  from foldM_grow [OF this] show ?thesis using resize_protective_order_grow by fastforce
qed

lemma sync_grow:
  assumes "sync_paper_protective_orders piso pystr id_rank route pid q status ts L = Inr (ds, L')"
  shows "orders_grow L L'"
proof (cases "status = ''open'' \<and> \<not> fle (fabs q) dust")
  case True
  then obtain pending q' where
    "foldM (resize_group piso pystr route ts) (fabs q, [], L) (protective_groups pending) = Inr (q', ds, L')"
    using assms by (auto simp: sync_paper_protective_orders_def res_simps Let_def split: prod.splits)
  from foldM_grow2 [OF this] show ?thesis using resize_group_grow by fastforce
next
  case False
  with assms show ?thesis
    by (auto simp: sync_paper_protective_orders_def res_simps touched_def protects_def pending_in_def split_beta
        intro!: update_snd_grow)
qed

lemma sync_fill_grow:
  assumes "sync_paper_fill_protective_orders piso pystr id_rank f tr current L = Inr (ds, L')"
  shows "orders_grow L L'"
proof -
  obtain rows L1 where c: "cancel_oco_siblings pystr f L = (rows, L1)" by (cases "cancel_oco_siblings pystr f L")
  have "orders_grow L L1"
    using c by (auto simp: cancel_oco_siblings_def touched_def pending_in_def intro: orders_grow_refl
        elim!: update_orders_grow split: if_splits)
  with assms c show ?thesis
    by (auto simp: sync_paper_fill_protective_orders_def res_simps split: option.splits
        dest!: sync_grow intro: orders_grow_trans)
qed

lemma create_child_grow:
  assumes "create_child piso pystr f tr q side oco (ds, L) child = Inr (ds', L')"
  shows "orders_grow L L'"
  using assms by (cases child)
    (auto simp: create_child_def res_simps Let_def child_row_def intro!: add_order_grow split: if_splits)

lemma create_protective_grow:
  assumes "create_paper_fill_protective_orders piso pystr f tr current L = Inr (ds, L')"
  shows "orders_grow L L'"
  using assms by (auto simp: create_paper_fill_protective_orders_def res_simps Let_def intro: orders_grow_refl
    intro: orders_grow_trans dest!: create_child_grow split: option.splits)

lemma expectation_grow:
  assumes "paper_position_expectation_outcome piso pystr f position L = Inr (r, L')"
  shows "orders_grow L L'" and "r = None \<Longrightarrow> L' = L"
  using assms unfolding paper_position_expectation_outcome_def
  by (auto simp: res_simps split_beta orders_grow_refl orders_grow_trans [OF cancel_snd_grow append_event_grow]
      split: option.splits prod.splits)

lemma stale_grow:
  assumes "paper_stale_reduce_only_outcome piso f position L = Inr (r, L')"
  shows "orders_grow L L'" and "r = None \<Longrightarrow> L' = L \<and> (fc_reduce_only f \<longrightarrow> position \<noteq> None)"
  using assms unfolding paper_stale_reduce_only_outcome_def
  by (auto simp: res_simps split_beta intro: orders_grow_refl cancel_snd_grow split: if_splits option.splits)

lemma reserve_grow:
  assumes "reserve_paper_fill_order piso now f L = Inr (r, L')"
  shows "orders_grow L L'" and "r \<noteq> None \<Longrightarrow> L' = L"
  using assms unfolding reserve_paper_fill_order_def
  by (auto simp: res_simps Let_def intro: orders_grow_refl add_order_grow split: if_splits)

section \<open>The position of a fill\<close>

text \<open>What the fill command of an order guarantees: the payload names the route of the command.\<close>

definition fill_ok :: "fill_command \<Rightarrow> bool" where
  "fill_ok f \<longleftrightarrow> payload_route (fc_order_payload f) = fc_route f \<and> payload_route (fc_incoming_order f) = fc_route f
     \<and> vget (fc_order_payload f) ''paper_contract'' = VDict (contract_payload (pc_contract (fc_command f)))"

lemma contract_payload_key [simp]: "vget (contract_payload c) ''scope_key'' = VStr (scope_key c)"
  by (simp add: contract_payload_def vget_def)

lemma py_eq_text [simp]: "py_eq v (VStr s) \<longleftrightarrow> is_str v \<and> str_of v = s"
  by (cases v) auto

lemma required_contract_key:
  assumes "require_paper_contract_identity piso p = Inr c" "vget p ''paper_contract'' = VDict raw"
  shows "str_of (vget raw ''scope_key'') = scope_key c"
  using assms by (auto simp: require_paper_contract_identity_def res_simps Let_def split: if_splits)

lemma exact_text: "require_exact_identity_text v field b = Inr t \<Longrightarrow> is_str v \<and> str_of v = t"
  by (auto simp: require_exact_identity_text_def split: if_splits)

lemma command_identity:
  assumes "paper_order_command_payload piso pystr order = Inr c"
  shows "str_of (vget order ''instrument_id'') = pc_instrument_id c
    \<and> str_of (vget order ''route_fingerprint'') = pc_route_fingerprint c \<and> str_of (vget order ''id'') = pc_id c"
  using assms
proof (rule when_okD [rotated])
  show "when_ok (paper_order_command_payload piso pystr order) (\<lambda>c. str_of (vget order ''instrument_id'') = pc_instrument_id c
    \<and> str_of (vget order ''route_fingerprint'') = pc_route_fingerprint c \<and> str_of (vget order ''id'') = pc_id c)"
    unfolding paper_order_command_payload_def by (intro ok_intros) (simp_all add: exact_text)
qed

lemma fill_command_ok:
  assumes "paper_fill_command piso pystr now order = Inr f"
  shows "fill_ok f \<and> fc_order f = order"
  using assms
proof (rule when_okD [rotated])
  show "when_ok (paper_fill_command piso pystr now order) (\<lambda>f. fill_ok f \<and> fc_order f = order)"
    unfolding paper_fill_command_def
    by (intro ok_intros) (simp_all add: fill_ok_def payload_route_def command_route_def fc_incoming_order_def
        dict_or_empty_def command_identity)
qed

lemma vget_dmerge_other: "VStr k \<notin> set (dkeys b) \<Longrightarrow> vget (dmerge a b) k = vget a k"
  unfolding dmerge_def
proof (induction b arbitrary: a)
  case (Cons e b)
  have "vget (dset (fst e) (snd e) a) k = vget a k"
    using Cons.prems by (simp add: dkeys_def vget_def dset_def update_conv')
  with Cons show ?case by (simp add: dkeys_def split_beta)
qed simp

lemma vget_set_if [simp]: "vget (set_if b k v d) k' = (if b \<and> k' = k then v else vget d k')"
  by (simp add: set_if_def)

lemma vget_Cons: "vget ((VStr k, v) # d) k' = (if k' = k then v else vget d k')"
  by (simp add: vget_def)

lemma entry_keys: "set (map fst (map (\<lambda>(k, v). (VStr k, v)) (filter P (map (\<lambda>k. (k, h k)) ks)))) \<subseteq> VStr ` set ks"
  by auto

lemma signal_payload_keys:
  assumes "k \<in> {''instrument_id'', ''route_fingerprint'', ''paper_contract''}"
  shows "VStr k \<notin> set (dkeys (position_signal_payload p))"
proof -
  have "set (dkeys (position_signal_payload p)) \<subseteq> VStr ` set [''signal_source'', ''signal_source_label'',
      ''confluence_sources'', ''setup'', ''code'', ''reason'', ''score'', ''action_card''] \<union> {VStr ''signal''}"
    unfolding position_signal_payload_def dkeys_def Let_def map_append set_append
    by (rule Un_mono [OF entry_keys]) (auto split: if_splits)
  with assms show ?thesis by auto
qed

lemma position_payload_route:
  assumes "vget p ''paper_contract'' = VDict raw"
  shows "when_ok (paper_position_payload_from_order piso pystr i p q) (\<lambda>d. payload_route d = payload_route p)"
proof -
  have key: "vget (dmerge a (position_signal_payload p)) k = vget a k"
    if "k \<in> {''instrument_id'', ''route_fingerprint'', ''paper_contract''}" for a k
    by (rule vget_dmerge_other [OF signal_payload_keys [OF that]])
  show ?thesis unfolding paper_position_payload_from_order_def
    by (intro ok_intros)
      (simp_all add: payload_route_def key vget_Cons exact_text assms dict_or_empty_def required_contract_key [OF _ assms])
qed

lemma positions_ok_insert:
  assumes "positions_ok ps" "ps_id r \<notin> ps_id ` set ps" "is_open r" "\<forall>x \<in> set ps. is_open x \<longrightarrow> position_slot x \<noteq> position_slot r"
  shows "positions_ok (ps @ [r])"
  using assms by (auto simp: positions_ok_def)

lemma positions_ok_update:
  assumes "positions_ok ps" "\<forall>x \<in> set ps. P x \<longrightarrow> is_open x"
    and g: "\<And>x. position_identity (g x) = position_identity x
      \<and> (is_open x \<longrightarrow> is_open (g x) \<or> ps_status (g x) = ''closed'' \<and> ps_qty (g x) = Fin 0)"
  shows "positions_ok (map (\<lambda>x. if P x then g x else x) ps)"
    and "set (filter (\<lambda>p. \<not> is_open p) ps) \<subseteq> set (map (\<lambda>x. if P x then g x else x) ps)"
    and "map position_identity (map (\<lambda>x. if P x then g x else x) ps) = map position_identity ps"
proof -
  have gid: "ps_id (g x) = ps_id x" "position_slot (g x) = position_slot x" for x
    using g [of x] by (auto simp: position_identity_def position_slot_def)
  show "map position_identity (map (\<lambda>x. if P x then g x else x) ps) = map position_identity ps" by (simp add: g)
  let ?h = "\<lambda>x. if P x then g x else x"
  have "map ps_id (map ?h ps) = map ps_id ps" by (simp add: gid)
  then have "distinct (map ps_id (map ?h ps))" using assms(1) unfolding positions_ok_def by metis
  moreover have "list_all (\<lambda>p. is_open p \<or> ps_status p = ''closed'' \<and> ps_qty p = Fin 0) (map ?h ps)"
    using assms by (auto simp: positions_ok_def list_all_iff)
  moreover have "set (map position_slot (filter is_open (map ?h ps))) \<subseteq> set (map position_slot (filter is_open ps))
      \<and> distinct (map position_slot (filter is_open (map ?h ps)))"
    if "distinct (map position_slot (filter is_open ps))" "\<forall>x \<in> set ps. P x \<longrightarrow> is_open x"
    using that g by (induction ps) (auto simp: gid)
  ultimately show "positions_ok (map ?h ps)" using assms(1,2) unfolding positions_ok_def by blast
  show "set (filter (\<lambda>p. \<not> is_open p) ps) \<subseteq> set (map ?h ps)" using assms(2) by force
qed

lemma open_unique:
  assumes "positions_ok ps" "x \<in> set ps" "y \<in> set ps" "is_open x" "is_open y" "position_slot x = position_slot y"
  shows "x = y"
  using assms by (auto simp: positions_ok_def distinct_map dest: inj_onD)

lemma id_unique: "positions_ok ps \<Longrightarrow> x \<in> set ps \<Longrightarrow> y \<in> set ps \<Longrightarrow> ps_id x = ps_id y \<Longrightarrow> x = y"
  by (auto simp: positions_ok_def distinct_map dest: inj_onD)

text \<open>What a transition of positions keeps.\<close>

definition positions_move :: "ledger \<Rightarrow> ledger \<Rightarrow> bool" where
  "positions_move L L' \<longleftrightarrow> lg_orders L' = lg_orders L \<and> lg_fills L' = lg_fills L \<and> lg_events L' = lg_events L
     \<and> set (map position_identity (lg_positions L)) \<subseteq> set (map position_identity (lg_positions L'))
     \<and> positions_ok (lg_positions L') \<and> set (filter (\<lambda>p. \<not> is_open p) (lg_positions L)) \<subseteq> set (lg_positions L')"

definition fill_slot :: "fill_command \<Rightarrow> ledger_route \<times> string" where
  "fill_slot f = (fc_route f, pc_timeframe (fc_command f))"

definition met_position :: "fill_command \<Rightarrow> position_row option \<Rightarrow> ledger \<Rightarrow> bool" where
  "met_position f position L = (case position of
      Some r \<Rightarrow> r \<in> set (lg_positions L) \<and> is_open r \<and> position_slot r = fill_slot f
    | None \<Rightarrow> \<forall>r \<in> set (lg_positions L). is_open r \<longrightarrow> position_slot r \<noteq> fill_slot f)"

lemma insert_position_move:
  assumes "positions_ok (lg_positions L)" "is_open r" "\<forall>x \<in> set (lg_positions L). is_open x \<longrightarrow> position_slot x \<noteq> position_slot r"
  shows "when_ok (insert_position r L) (positions_move L)"
  using assms positions_ok_insert [of "lg_positions L" r]
  by (auto simp: insert_position_def when_ok_def positions_move_def)

lemma update_one_position_move:
  assumes ok: "positions_ok (lg_positions L)" "r \<in> set (lg_positions L)" "is_open r"
    and g: "\<And>x. position_identity (g x) = position_identity x
      \<and> (is_open x \<longrightarrow> is_open (g x) \<or> ps_status (g x) = ''closed'' \<and> ps_qty (g x) = Fin 0)"
  shows "when_ok (update_one_position f (ps_id r) g L) (\<lambda>L'. positions_move L L'
    \<and> lg_positions L' = map (\<lambda>x. if position_in (fc_route f) (ps_id r) x then g x else x) (lg_positions L))"
proof -
  have "\<forall>x \<in> set (lg_positions L). position_in (fc_route f) (ps_id r) x \<longrightarrow> is_open x"
    using id_unique [OF ok(1) _ ok(2)] ok(3) by (auto simp: position_in_def)
  note u = positions_ok_update [OF ok(1) this, of g, OF g]
  from arg_cong [OF u(3), of set] u(1,2) show ?thesis
    by (simp add: update_one_position_def update_positions_def when_ok_def positions_move_def del: set_map)
qed

lemma fill_position_payload:
  assumes "fill_ok f" "order_payload \<in> {fc_order_payload f, vset ''reversal'' (VBool True) (fc_order_payload f)}"
    and "paper_position_payload_from_order piso pystr i order_payload q = Inr d"
  shows "position_slot (new_position f j n a d) = fill_slot f"
proof -
  have c: "vget order_payload ''paper_contract'' = VDict (contract_payload (pc_contract (fc_command f)))"
    and r: "payload_route order_payload = fc_route f"
    using assms(1,2) by (auto simp: fill_ok_def payload_route_def)
  have "payload_route d = fc_route f"
    using when_okD [OF position_payload_route [OF c] assms(3)] r by simp
  then show ?thesis by (simp add: position_slot_def new_position_def fill_slot_def)
qed

lemma open_new_position:
  assumes "positions_ok (lg_positions L)" "fill_ok f" "met_position f None L"
    and "order_payload \<in> {fc_order_payload f, vset ''reversal'' (VBool True) (fc_order_payload f)}"
    and "paper_position_payload_from_order piso pystr i order_payload q = Inr d"
    and "insert_position (new_position f j n a d) L = Inr L'"
  shows "positions_move L L'"
  using when_okD [OF insert_position_move [OF assms(1)] assms(6)] assms(3) fill_position_payload [OF assms(2,4,5)]
  by (simp add: met_position_def new_position_def)

lemma update_met_position:
  assumes "positions_ok (lg_positions L)" "met_position f (Some r) L" "update_one_position f (ps_id r) g L = Inr L'"
    and "\<And>x. position_identity (g x) = position_identity x
      \<and> (is_open x \<longrightarrow> is_open (g x) \<or> ps_status (g x) = ''closed'' \<and> ps_qty (g x) = Fin 0)"
  shows "positions_move L L'"
    and "lg_positions L' = map (\<lambda>x. if position_in (fc_route f) (ps_id r) x then g x else x) (lg_positions L)"
  using when_okD [OF update_one_position_move [OF assms(1), of r g f, OF _ _ assms(4)] assms(3)] assms(2)
  by (auto simp: met_position_def)

lemma increase_keeps:
  assumes "positions_ok (lg_positions L)" "fill_ok f" "met_position f position L"
    and "position = None \<or> position_id = ps_id (the position)"
    and "increase_paper_position piso pystr f position position_id q avg delta L = Inr (opened, L')"
  shows "positions_move L L'"
proof (cases position)
  case None
  with assms(5) obtain n a d where "paper_position_payload_from_order piso pystr (fc_order_id f) (fc_order_payload f) n = Inr d"
    "insert_position (new_position f position_id n a d) L = Inr L'"
    by (auto simp: increase_paper_position_def res_simps Let_def)
  with assms(1-3) None show ?thesis using open_new_position by blast
next
  case (Some r)
  with assms(4,5) obtain n a where "update_one_position f (ps_id r)
      (\<lambda>r. r\<lparr>ps_qty := n, ps_avg_entry := Some a, ps_updated_at := fc_filled_at f\<rparr>) L = Inr L'"
    by (auto simp: increase_paper_position_def res_simps Let_def split: if_splits)
  from update_met_position(1) [OF assms(1) _ this] assms(3) Some show ?thesis by (simp add: position_identity_def)
qed

lemma closing_frees_slot:
  assumes "positions_ok (lg_positions L)" "met_position f (Some r) L"
    and "update_one_position f (ps_id r) (closed_row f pnl) L = Inr L'"
  shows "positions_move L L'" and "met_position f None L'"
proof -
  have g: "position_identity (closed_row f pnl x) = position_identity x
      \<and> (is_open x \<longrightarrow> is_open (closed_row f pnl x)
        \<or> ps_status (closed_row f pnl x) = ''closed'' \<and> ps_qty (closed_row f pnl x) = Fin 0)" for x
    by (simp add: closed_row_def position_identity_def)
  note u = update_met_position [OF assms, OF g]
  show "positions_move L L'" by (rule u(1))
  have "position_slot x \<noteq> fill_slot f" if "x \<in> set (lg_positions L)" "is_open x" "\<not> position_in (fc_route f) (ps_id r) x" for x
    using open_unique [OF assms(1) that(1), of r] that assms(2)
    by (auto simp: met_position_def position_in_def position_slot_def fill_slot_def)
  then show "met_position f None L'"
    unfolding met_position_def u(2) by (auto simp: closed_row_def)
qed

lemma positions_move_trans:
  assumes "positions_move L L1" "positions_move L1 L'"
  shows "positions_move L L'"
proof -
  have c: "set (filter (\<lambda>p. \<not> is_open p) (lg_positions L)) \<subseteq> set (filter (\<lambda>p. \<not> is_open p) (lg_positions L1))"
    using assms(1) unfolding positions_move_def by (auto simp only: set_filter)
  have d: "set (map position_identity (lg_positions L)) \<subseteq> set (map position_identity (lg_positions L'))"
    using assms unfolding positions_move_def by (elim conjE) (rule subset_trans)
  have e: "set (filter (\<lambda>p. \<not> is_open p) (lg_positions L)) \<subseteq> set (lg_positions L')"
    by (rule subset_trans [OF c]) (use assms(2) in \<open>simp only: positions_move_def\<close>)
  show ?thesis
    using assms d e by (simp only: positions_move_def)
qed

lemma reduce_keeps:
  assumes "positions_ok (lg_positions L)" "fill_ok f" "met_position f (Some r) L"
    and "reduce_paper_position piso pystr f r (ps_id r) q avg delta L = Inr (out, L')"
  shows "positions_move L L'"
proof -
  define pnl where "pnl = (if flt (Fin 0) q then fmul (fsub (fc_price f) avg) (fmin (fabs q) (fabs delta))
           else fmul (fsub avg (fc_price f)) (fmin (fabs q) (fabs delta)))"
  consider (close) "update_one_position f (ps_id r) (closed_row f pnl) L = Inr L'"
    | (shrink) n where "update_one_position f (ps_id r)
         (\<lambda>r. r\<lparr>ps_qty := n, ps_updated_at := fc_filled_at f, ps_realized_pnl := fadd (ps_realized_pnl r) pnl\<rparr>) L = Inr L'"
    | (reverse) L1 n a d j where "update_one_position f (ps_id r) (closed_row f pnl) L = Inr L1"
        "paper_position_payload_from_order piso pystr (fc_order_id f) (vset ''reversal'' (VBool True) (fc_order_payload f)) n = Inr d"
        "insert_position (new_position f j n a d) L1 = Inr L'"
    using assms(4) unfolding reduce_paper_position_def Let_def pnl_def by (auto simp: res_simps split: if_splits)
  then show ?thesis
  proof cases
    case close
    then show ?thesis by (rule closing_frees_slot(1) [OF assms(1,3)])
  next
    case (shrink n)
    show ?thesis by (rule update_met_position(1) [OF assms(1,3) shrink]) (simp add: position_identity_def)
  next
    case (reverse L1 n a d j)
    note c = closing_frees_slot [OF assms(1,3) reverse(1)]
    have m: "positions_move L1 L'"
      using open_new_position [OF _ assms(2) c(2) _ reverse(2,3)] c(1) by (simp add: positions_move_def)
    show ?thesis by (rule positions_move_trans [OF c(1) m])
  qed
qed

lemma transition_keeps:
  assumes "positions_ok (lg_positions L)" "fill_ok f" "met_position f position L"
    and "transition_paper_position piso pystr f position L = Inr (tr, L')"
  shows "positions_move L L'"
proof (cases position)
  case None
  with assms(4) show ?thesis unfolding transition_paper_position_def Let_def
    by (auto simp: res_simps split: option.splits if_splits
        dest: increase_keeps [rotated -1, OF _ assms(1,2) assms(3) [unfolded None]])
next
  case (Some r)
  with assms(4) show ?thesis unfolding transition_paper_position_def Let_def
    by (auto simp: res_simps split: option.splits if_splits
        dest: increase_keeps [rotated -1, OF _ assms(1,2) assms(3) [unfolded Some]]
          reduce_keeps [rotated -1, OF _ assms(1,2) assms(3) [unfolded Some]])
qed

lemma positions_move_ledger:
  assumes "positions_move L L'" "ledger_ok L"
  shows "ledger_ok L'" and "ledger_extends L L'"
  using assms by (auto simp: positions_move_def ledger_ok_def ledger_extends_def)

lemma locked_met:
  assumes "locked_paper_fill_position piso f L = Inr position"
  shows "position = Some (r, d) \<Longrightarrow> met_position f (Some r) L"
    and "position = None \<Longrightarrow> \<not> fc_reduce_only f \<Longrightarrow> met_position f None L"
  using assms unfolding locked_paper_fill_position_def met_position_def position_slot_def fill_slot_def
  by (auto simp: res_simps fc_target_position_id_def first_where_None split: option.splits if_splits dest!: first_where_Some)

section \<open>Committing a fill\<close>

lemma filled_row_simps [simp]:
  "ow_id (filled_row f tr r) = ow_id r" "ow_status (filled_row f tr r) = ''filled''"
  by (simp_all add: filled_row_def)

lemma settle_order_ids:
  assumes "\<And>r. p r \<Longrightarrow> ow_id r = i" "\<exists>r \<in> set os. p r"
  shows "filled_ids (map (\<lambda>r. if p r then filled_row f tr r else r) os) = insert i (filled_ids os)"
proof -
  have "filled_ids (map (\<lambda>r. if p r then filled_row f tr r else r) os)
      = (if \<exists>r \<in> set os. p r then {i} else {}) \<union> filled_ids (filter (\<lambda>r. \<not> p r) os)" (is "_ = _ \<union> ?rest os")
    by (induction os) (auto simp: filled_ids_Cons assms(1))
  moreover have "filled_ids os \<subseteq> insert i (?rest os)" using assms(1) by (auto simp: filled_ids_def)
  moreover have "?rest os \<subseteq> filled_ids os" by (auto simp: filled_ids_def)
  ultimately show ?thesis using assms(2) by auto
qed

lemma fill_record_simps [simp]:
  "fr_order_id (fill_record f tr) = fc_order_id f" "fr_position_id (fill_record f tr) = pt_position_id tr"
  "fr_payload (fill_record f tr) = committed_payload f tr"
  by (simp_all add: fill_record_def)

definition settled_by :: "fill_command \<Rightarrow> order_row \<Rightarrow> bool" where
  "settled_by f r \<longleftrightarrow> ow_id r = fc_order_id f \<and> pending_in (fc_route f) r"

lemma persist_stages:
  assumes "persist_paper_fill_records piso f tr L = Inr (out, L')"
  obtains r where "r \<in> set (lg_orders L)" "settled_by f r" "fc_order_id f \<notin> fr_order_id ` set (lg_fills L)"
    "L' = L\<lparr>lg_orders := map (\<lambda>r. if settled_by f r then filled_row f tr r else r) (lg_orders L),
       lg_fills := lg_fills L @ [fill_record f tr]\<rparr>"
    "paper_order_from_row piso (filled_row f tr r) = Inr (fst out)"
    "paper_fill_from_row piso (fill_record f tr) = Inr (snd out)"
proof (cases "filter (settled_by f) (lg_orders L)")
  case Nil
  with assms show ?thesis
    by (simp add: persist_paper_fill_records_def update_orders_def settled_by_def [symmetric, abs_def])
next
  case (Cons r rs)
  have "r \<in> set (filter (settled_by f) (lg_orders L))" using Cons by simp
  then have "r \<in> set (lg_orders L)" "settled_by f r" by simp_all
  then show ?thesis using assms Cons that [of r]
    by (auto simp: persist_paper_fill_records_def update_orders_def settled_by_def [symmetric, abs_def]
        insert_fill_def res_simps split: if_splits)
qed

lemma persist_ok:
  assumes "persist_paper_fill_records piso f tr L = Inr (out, L')" "ledger_ok L"
  shows "ledger_ok L'" and "ledger_extends L L'"
proof -
  let ?os = "map (\<lambda>r. if settled_by f r then filled_row f tr r else r) (lg_orders L)"
  from assms(1) obtain r where r: "r \<in> set (lg_orders L)" "settled_by f r" "fc_order_id f \<notin> fr_order_id ` set (lg_fills L)"
    and L': "L' = L\<lparr>lg_orders := ?os, lg_fills := lg_fills L @ [fill_record f tr]\<rparr>" by (rule persist_stages)
  have ids: "map ow_id ?os = map ow_id (lg_orders L)" by simp
  have "orders_ok ?os" using assms(2) unfolding ledger_ok_def orders_ok_def ids by (auto simp: list_all_iff)
  moreover have "filled_ids ?os = insert (fc_order_id f) (filled_ids (lg_orders L))"
    by (rule settle_order_ids) (use r in \<open>auto simp: settled_by_def\<close>)
  ultimately show "ledger_ok L'" using assms(2) r(3) by (auto simp: L' ledger_ok_def)
  show "ledger_extends L L'" by (force simp: L' ledger_extends_def settled_by_def pending_in_def)
qed

lemma events_grow: "orders_grow L (append_paper_fill_events f tr current L)"
  by (auto simp: append_paper_fill_events_def split: option.split intro: orders_grow_trans append_event_grow)

lemma commit_stages:
  assumes "commit_paper_fill piso pystr id_rank f position L = Inr (out, L')"
  obtains tr L1 rec L2 current_dict current closed L3 ds L4 created where
    "transition_paper_position piso pystr f position L = Inr (tr, L1)"
    "persist_paper_fill_records piso f tr L1 = Inr (rec, L2)"
    "paper_fill_position_results piso f tr L2 = Inr (current_dict, current, closed)"
    "sync_paper_fill_protective_orders piso pystr id_rank f tr current L2 = Inr (ds, L3)"
    "create_paper_fill_protective_orders piso pystr f tr current L3 = Inr (created, L4)"
    "L' = append_paper_fill_events f tr current L4"
    "out = \<lparr>fo_outcome = ''filled'', fo_order = fst rec, fo_position = Some current_dict, fo_fill = Some (snd rec),
          fo_created_orders = created, fo_cancelled_orders = ds, fo_closed_position = closed,
          fo_opened_new_position = pt_opened_new_position tr\<rparr>"
  using assms unfolding commit_paper_fill_def by (auto simp: res_simps)

lemma commit_ok:
  assumes "commit_paper_fill piso pystr id_rank f position L = Inr (out, L')"
    and "ledger_ok L" "fill_ok f" "met_position f position L"
  shows "ledger_ok L'" and "ledger_extends L L'"
proof -
  from assms(1) obtain tr L1 rec L2 current L3 ds L4 created where
    st: "transition_paper_position piso pystr f position L = Inr (tr, L1)"
    "persist_paper_fill_records piso f tr L1 = Inr (rec, L2)"
    "sync_paper_fill_protective_orders piso pystr id_rank f tr current L2 = Inr (ds, L3)"
    "create_paper_fill_protective_orders piso pystr f tr current L3 = Inr (created, L4)"
    "L' = append_paper_fill_events f tr current L4" by (rule commit_stages)
  have "positions_move L L1" using transition_keeps [OF _ assms(3,4) st(1)] assms(2) by (simp add: ledger_ok_def)
  from positions_move_ledger [OF this assms(2)] have 1: "ledger_ok L1" "ledger_extends L L1" .
  note 2 = persist_ok [OF st(2) 1(1)]
  have g: "orders_grow L2 L'"
    using sync_fill_grow [OF st(3)] create_protective_grow [OF st(4)] events_grow st(5) orders_grow_trans by metis
  show "ledger_ok L'" by (rule orders_grow_ok [OF g 2(1)])
  show "ledger_extends L L'"
    using 1(2) 2(2) orders_grow_extends [OF g] ledger_extends_trans by blast
qed

lemma apply_stages:
  assumes "apply_paper_fill piso pystr id_rank now f L = Inr (out, L')"
  shows "(\<exists>L1. orders_grow L L1 \<and> orders_grow L1 L')
    \<or> (\<exists>L1 position. reserve_paper_fill_order piso now f L = Inr (None, L1) \<and> orders_grow L L1
        \<and> met_position f position L1 \<and> (fc_reduce_only f \<longrightarrow> position \<noteq> None)
        \<and> commit_paper_fill piso pystr id_rank f position L1 = Inr (out, L'))"
proof -
  obtain replay L1 where r: "reserve_paper_fill_order piso now f L = Inr (replay, L1)"
    using assms by (auto simp: apply_paper_fill_def res_simps)
  note g1 = reserve_grow(1) [OF r]
  show ?thesis
  proof (cases replay)
    case (Some x)
    with assms r have "L' = L1" by (simp add: apply_paper_fill_def)
    with g1 orders_grow_refl show ?thesis by blast
  next
    case None
    then obtain position expected L2 where p: "locked_paper_fill_position piso f L1 = Inr position"
      "paper_position_expectation_outcome piso pystr f (map_option snd position) L1 = Inr (expected, L2)"
      using assms r by (auto simp: apply_paper_fill_def res_simps)
    note g2 = expectation_grow [OF p(2)]
    show ?thesis
    proof (cases expected)
      case (Some x)
      with assms r p None have "L' = L2" by (simp add: apply_paper_fill_def)
      with g1 g2(1) show ?thesis by blast
    next
      case e: None
      then have L2: "L2 = L1" by (rule g2(2))
      obtain stale L3 where s: "paper_stale_reduce_only_outcome piso f (map_option snd position) L1 = Inr (stale, L3)"
        using assms r p None e L2 by (auto simp: apply_paper_fill_def res_simps)
      note g3 = stale_grow [OF s]
      show ?thesis
      proof (cases stale)
        case (Some x)
        with assms r p None e L2 s have "L' = L3" by (simp add: apply_paper_fill_def)
        with g1 g3(1) show ?thesis by blast
      next
        case st: None
        then have L3: "L3 = L1" "fc_reduce_only f \<longrightarrow> position \<noteq> None" using g3(2) by auto
        have "commit_paper_fill piso pystr id_rank f (map_option fst position) L1 = Inr (out, L')"
          using assms r p None e L2 s st L3(1) by (simp add: apply_paper_fill_def)
        moreover have "met_position f (map_option fst position) L1"
          using locked_met [OF p(1)] L3(2) by (cases position) auto
        ultimately show ?thesis using r None g1 L3(2) by (cases position) auto
      qed
    qed
  qed
qed

lemma apply_ok:
  assumes "apply_paper_fill piso pystr id_rank now f L = Inr (out, L')" "ledger_ok L" "fill_ok f"
  shows "ledger_ok L'" and "ledger_extends L L'"
  using apply_stages [OF assms(1)] assms(2,3)
  by (auto dest: orders_grow_ok orders_grow_extends commit_ok ledger_extends_trans)

section \<open>Runs\<close>

lemma upsert_grow: "when_ok (upsert_paper_order piso pystr now order L) (\<lambda>(_, L'). orders_grow L L')"
  unfolding upsert_paper_order_def
  by (intro ok_intros)
    (auto intro!: orders_grow_refl orders_grow_trans [OF add_order_grow append_event_grow])

lemma update_if_pending_grow:
  "when_ok (update_paper_order_if_pending piso pystr now order i fp L) (\<lambda>(_, L'). orders_grow L L')"
  unfolding update_paper_order_if_pending_def
  by (intro ok_intros)
    (auto intro!: orders_grow_refl orders_grow_trans [OF _ append_event_grow] elim!: update_orders_grow
      simp: touched_def pending_in_def)

lemma cancel_grow: "when_ok (cancel_paper_order_if_pending piso now oid ts i fp ct L) (\<lambda>(_, L'). orders_grow L L')"
  unfolding cancel_paper_order_if_pending_def
  by (intro ok_intros) (auto intro!: orders_grow_refl orders_grow_trans [OF cancel_if_pending_grow append_event_grow])

lemma reject_grow:
  "when_ok (reject_paper_order_execution_if_pending piso now oid ts i fp code reason ex ct L) (\<lambda>(_, L'). orders_grow L L')"
  unfolding reject_paper_order_execution_if_pending_def
  by (intro ok_intros) (auto intro!: orders_grow_refl orders_grow_trans [OF cancel_if_pending_grow append_event_grow])

lemma cancel_protective_grow: "orders_grow L (snd (cancel_paper_protective_orders piso now pid i fp ct L))"
  unfolding cancel_paper_protective_orders_def
  by (auto simp: touched_def split_beta intro!: orders_grow_refl update_snd_grow split: sum.split)

lemma committed_cases: "committed L r = L \<or> (\<exists>x. r = Inr (x, committed L r))"
  by (auto simp: committed_def split: sum.splits)

lemma committed_grow: "when_ok r (\<lambda>(_, L'). orders_grow L L') \<Longrightarrow> orders_grow L (committed L r)"
  using committed_cases [of L r] by (auto dest: when_okD intro: orders_grow_refl)

lemma step_ok:
  assumes "ledger_ok L"
  shows "ledger_ok (paper_step piso pystr id_rank op L) \<and> ledger_extends L (paper_step piso pystr id_rank op L)"
proof -
  have grow: "ledger_ok L' \<and> ledger_extends L L'" if "orders_grow L L'" for L'
    using orders_grow_ok [OF that assms] orders_grow_extends [OF that] by blast
  show ?thesis
  proof (cases op)
    case (OpFill now order)
    show ?thesis using committed_cases [of L "apply_filled_paper_order piso pystr id_rank now order L"]
    proof
      assume "committed L (apply_filled_paper_order piso pystr id_rank now order L) = L"
      then show ?thesis using OpFill assms ledger_extends_refl by simp
    next
      assume "\<exists>x. apply_filled_paper_order piso pystr id_rank now order L
        = Inr (x, committed L (apply_filled_paper_order piso pystr id_rank now order L))"
      then obtain x f where "paper_fill_command piso pystr now order = Inr f"
        "apply_paper_fill piso pystr id_rank now f L = Inr (x, paper_step piso pystr id_rank op L)"
        using OpFill by (auto simp: apply_filled_paper_order_def res_simps)
      with apply_ok [OF _ assms] fill_command_ok show ?thesis by blast
    qed
  qed (auto intro!: grow committed_grow upsert_grow update_if_pending_grow cancel_grow reject_grow cancel_protective_grow
      simp: conj_commute)
qed

lemma empty_ledger_ok: "ledger_ok empty_ledger"
  by (simp add: ledger_ok_def empty_ledger_def orders_ok_def positions_ok_def)

lemma run_ok: "ledger_ok L \<Longrightarrow> ledger_ok (paper_run piso pystr id_rank ops L)"
  by (induction ops arbitrary: L) (simp_all add: step_ok)

section \<open>The properties\<close>

text \<open>C4: the paper ledger is consistent after any transactions, in any order: an id names one order and
  one position; per instrument, route, contract and timeframe at most one position is open; a position is
  open, or closed and empty; and the orders marked filled are exactly those with a fill, each with one
  fill.\<close>

theorem paper_ledger_is_consistent:
  "let L = paper_run piso pystr id_rank ops empty_ledger in
    distinct (map ow_id (lg_orders L)) \<and> distinct (map ps_id (lg_positions L))
    \<and> distinct (map position_slot (filter is_open (lg_positions L)))
    \<and> list_all (\<lambda>p. is_open p \<or> ps_status p = ''closed'' \<and> ps_qty p = Fin 0) (lg_positions L)
    \<and> distinct (map fr_order_id (lg_fills L))
    \<and> set (map fr_order_id (lg_fills L)) = {ow_id r | r. r \<in> set (lg_orders L) \<and> ow_status r = ''filled''}"
  using run_ok [OF empty_ledger_ok, of piso pystr id_rank ops]
  by (simp add: Let_def ledger_ok_def orders_ok_def positions_ok_def filled_ids_def)

text \<open>C8: what is settled stays as it is. From any state of the ledger, no transaction changes a filled or a
  cancelled order, no transaction changes a closed position, every position keeps its id, its contract and
  its timeframe, and fills and events are only ever appended: the journal is an audit trail.\<close>

theorem settled_records_are_final:
  "let L = paper_run piso pystr id_rank ops empty_ledger; L' = paper_step piso pystr id_rank op L in
    set (filter (\<lambda>r. ow_status r \<noteq> ''pending'') (lg_orders L)) \<subseteq> set (lg_orders L')
    \<and> set (filter (\<lambda>p. \<not> is_open p) (lg_positions L)) \<subseteq> set (lg_positions L')
    \<and> set (map (\<lambda>p. (ps_id p, ps_payload p, ps_timeframe p)) (lg_positions L))
      \<subseteq> set (map (\<lambda>p. (ps_id p, ps_payload p, ps_timeframe p)) (lg_positions L'))
    \<and> prefix (lg_fills L) (lg_fills L') \<and> prefix (lg_events L) (lg_events L')"
  using step_ok [OF run_ok [OF empty_ledger_ok], of piso pystr id_rank op piso pystr id_rank ops]
  unfolding Let_def ledger_extends_def position_identity_def [abs_def] by blast

end
