(* ===== verification/PaperFillLaws.thy ===== *)
theory PaperFillLaws
  imports PaperLedgerLaws
begin

text \<open>
  What a fill does to the positions: a reduce-only fill only ever moves one position towards zero, and a
  fill whose arithmetic is exact keeps the equity of the account at the fill price.
\<close>

section \<open>Reduce-only fills\<close>

text \<open>A quantity that stays, or comes closer to zero on its own side.\<close>

fun shrinks :: "pyfloat \<Rightarrow> pyfloat \<Rightarrow> bool" where
  "shrinks (Fin q) (Fin q') \<longleftrightarrow> 0 \<le> q' \<and> q' \<le> q \<or> q \<le> q' \<and> q' \<le> 0"
| "shrinks q q' \<longleftrightarrow> q = q'"

lemma shrinks_zero [simp]: "shrinks (Fin q) (Fin 0)"
  by (cases "0 \<le> q") auto

lemma shrinks_refl [simp]: "shrinks q q"
  by (cases q) auto

lemma rnd_between: "0 \<le> y \<Longrightarrow> y \<le> x \<Longrightarrow> fl_ok (Fin x) \<Longrightarrow> \<exists>r. rnd y = Fin r \<and> 0 \<le> r \<and> r \<le> x"
proof -
  assume "0 \<le> y" "y \<le> x" "fl_ok (Fin x)"
  then have "fle (Fin 0) (rnd y)" "fle (rnd y) (Fin x)" using rnd_mono [of 0 y] rnd_mono [of y x] by auto
  then show ?thesis by (cases "rnd y") auto
qed

lemma rnd_between_neg: "x \<le> y \<Longrightarrow> y \<le> 0 \<Longrightarrow> fl_ok (Fin x) \<Longrightarrow> \<exists>r. rnd y = Fin r \<and> x \<le> r \<and> r \<le> 0"
proof -
  assume "x \<le> y" "y \<le> 0" "fl_ok (Fin x)"
  then have "fle (rnd y) (Fin 0)" "fle (Fin x) (rnd y)" using rnd_mono [of y 0] rnd_mono [of x y] by auto
  then show ?thesis by (cases "rnd y") auto
qed

lemma dust_value: "\<exists>d. dust = Fin d \<and> pow2 (- 30) \<le> d"
proof -
  have "fle (rnd (pow2 (- 30))) (rnd (1 / 10 ^ 9))" by (rule rnd_mono) (simp add: power_int_def power_one_over)
  moreover have "rnd (pow2 (- 30)) = Fin (pow2 (- 30))" by (rule rnd_exact [of _ 1 "- 30"]) (simp_all add: power_int_def power_one_over)
  moreover have "fle (rnd (1 / 10 ^ 9)) (rnd 1)" by (rule rnd_mono) simp
  ultimately show ?thesis unfolding dust_def by (cases "rnd (1 / 10 ^ 9)") auto
qed

text \<open>Two quantities above the dust on one side have a positive product.\<close>

lemma same_side_product:
  assumes "\<not> fle (fabs (Fin x)) dust" "\<not> fle (fabs (Fin y)) dust" "0 \<le> x \<and> 0 \<le> y \<or> x \<le> 0 \<and> y \<le> 0"
  shows "flt (Fin 0) (fmul (Fin x) (Fin y))"
proof -
  obtain d where d: "dust = Fin d" "pow2 (- 30) \<le> d" using dust_value by blast
  from assms(1,2) have "d < \<bar>x\<bar>" "d < \<bar>y\<bar>" unfolding d(1) by simp_all
  with d(2) have "pow2 (- 30) \<le> \<bar>x\<bar>" "pow2 (- 30) \<le> \<bar>y\<bar>" by linarith+
  then have "pow2 (- 30) * pow2 (- 30) \<le> \<bar>x\<bar> * \<bar>y\<bar>" by (intro mult_mono) auto
  moreover have "\<bar>x\<bar> * \<bar>y\<bar> = x * y" using assms(3) by (auto simp: abs_if mult_nonneg_nonneg)
  ultimately have "pow2 (- 60) \<le> x * y" by (simp flip: pow2_add)
  then have "fle (rnd (pow2 (- 60))) (rnd (x * y))" by (rule rnd_mono)
  moreover have "rnd (pow2 (- 60)) = Fin (pow2 (- 60))" by (rule rnd_exact [of _ 1 "- 60"]) (simp_all add: power_int_def power_one_over)
  ultimately have "fle (Fin (pow2 (- 60))) (rnd (x * y))" by simp
  moreover have "flt (Fin 0) (Fin (pow2 (- 60)))" by simp
  ultimately show ?thesis by (simp only: fmul.simps) (rule flt_fle_trans)
qed

text \<open>What a reduce-only fill takes off a position.\<close>

lemma reduce_only_delta:
  assumes "paper_fill_delta f (Fin x) = Inr (qty, side, delta)" "fc_reduce_only f"
  shows "\<not> fle (fabs (Fin x)) dust \<and> (\<exists>m. 0 \<le> m \<and> m \<le> \<bar>x\<bar> \<and> delta = Fin (if 0 < x then - m else m))"
proof -
  have big: "\<not> fle (fabs (Fin x)) dust" using assms by (auto simp: paper_fill_delta_def split: if_splits)
  show ?thesis
  proof (cases "fc_manual_close f")
    case True
    with assms big have "delta = Fin (- x)" by (auto simp: paper_fill_delta_def)
    with big show ?thesis by (auto intro!: exI [of _ "\<bar>x\<bar>"])
  next
    case False
    have "\<exists>m. 0 \<le> m \<and> m \<le> \<bar>x\<bar> \<and> fmin (Fin \<bar>x\<bar>) (fabs (fc_signed_delta f)) = Fin m"
      by (cases "fc_signed_delta f") (auto simp: fmin_def)
    with assms False big show ?thesis by (auto simp: paper_fill_delta_def Let_def split: if_splits)
  qed
qed

lemma reduced_quantity:
  assumes "paper_fill_delta f (Fin x) = Inr (qty, side, delta)" "fc_reduce_only f" "fl_ok (Fin x)"
  shows "\<exists>r. fadd (Fin x) delta = Fin r \<and> shrinks (Fin x) (Fin r)
      \<and> (fle (fabs (Fin r)) dust \<or> flt (Fin 0) (fmul (Fin x) (Fin r)))"
    and "Fin x \<noteq> Fin 0 \<and> \<not> flt (Fin 0) (fmul (Fin x) delta)"
proof -
  from reduce_only_delta [OF assms(1,2)] obtain m where big: "\<not> fle (fabs (Fin x)) dust"
    and m: "0 \<le> m" "m \<le> \<bar>x\<bar>" "delta = Fin (if 0 < x then - m else m)" by blast
  obtain d where d: "dust = Fin d" "pow2 (- 30) \<le> d" using dust_value by blast
  from big have "d < \<bar>x\<bar>" unfolding d(1) by simp
  moreover have "0 < d" using pow2_pos d(2) by (rule less_le_trans)
  ultimately have x0: "x \<noteq> 0" by auto
  have "x * (if 0 < x then - m else m) \<le> 0" using m x0 by (auto simp: mult_nonneg_nonneg mult_nonpos_nonneg)
  then have "fle (fmul (Fin x) delta) (Fin 0)" using rnd_mono [of _ 0] m(3) by fastforce
  then have "\<not> flt (Fin 0) (fmul (Fin x) delta)" by (cases "fmul (Fin x) delta") auto
  with x0 show "Fin x \<noteq> Fin 0 \<and> \<not> flt (Fin 0) (fmul (Fin x) delta)" by simp
  have "\<exists>r. fadd (Fin x) delta = Fin r \<and> (0 < x \<and> 0 \<le> r \<and> r \<le> x \<or> x < 0 \<and> x \<le> r \<and> r \<le> 0)"
  proof (cases "0 < x")
    case True
    with rnd_between [of "x - m" x] m assms(3) show ?thesis by auto
  next
    case False
    with rnd_between_neg [of x "x + m"] m assms(3) x0 show ?thesis by auto
  qed
  then obtain r where r: "fadd (Fin x) delta = Fin r" "0 < x \<and> 0 \<le> r \<and> r \<le> x \<or> x < 0 \<and> x \<le> r \<and> r \<le> 0" by blast
  then have "fle (fabs (Fin r)) dust \<or> flt (Fin 0) (fmul (Fin x) (Fin r))"
    using same_side_product [OF big, of r] by force
  with r show "\<exists>r. fadd (Fin x) delta = Fin r \<and> shrinks (Fin x) (Fin r)
      \<and> (fle (fabs (Fin r)) dust \<or> flt (Fin 0) (fmul (Fin x) (Fin r)))" by auto
qed

text \<open>The one row an update meets.\<close>

definition positions_shrink :: "ledger \<Rightarrow> ledger \<Rightarrow> bool" where
  "positions_shrink L L' = list_all2 (\<lambda>p p'. position_identity p' = position_identity p \<and> shrinks (ps_qty p) (ps_qty p'))
     (lg_positions L) (lg_positions L')"

lemma only_match:
  assumes "length (filter P xs) = 1" "x \<in> set xs" "P x" "y \<in> set xs" "P y"
  shows "x = y"
proof -
  from assms(1) obtain z where z: "filter P xs = [z]" by (auto simp: length_Suc_conv)
  have "w = z" if "w \<in> set xs" "P w" for w
  proof -
    have "w \<in> set (filter P xs)" using that by simp
    then show ?thesis by (simp add: z)
  qed
  with assms(2-) show ?thesis by metis
qed

lemma update_one_row:
  assumes "update_one_position f (ps_id r) g L = Inr L'" "met_position f (Some r) L"
  shows "list_all2 (\<lambda>p p'. p' = p \<or> p = r \<and> p' = g r) (lg_positions L) (lg_positions L')"
proof -
  let ?P = "position_in (fc_route f) (ps_id r)"
  have n: "length (filter ?P (lg_positions L)) = 1"
    and L': "lg_positions L' = map (\<lambda>x. if ?P x then g x else x) (lg_positions L)"
    using assms(1) by (auto simp: update_one_position_def update_positions_def split: if_splits)
  have r: "r \<in> set (lg_positions L)" "?P r"
    using assms(2) by (auto simp: met_position_def position_in_def position_slot_def fill_slot_def)
  have "x = r" if "x \<in> set (lg_positions L)" "?P x" for x by (rule only_match [OF n that r])
  then show ?thesis unfolding L' list_all2_map2 by (intro list.rel_refl_strong) auto
qed

lemma reduce_only_shrinks:
  assumes "transition_paper_position piso pystr f (Some r) L = Inr (tr, L')" "fc_reduce_only f"
    and "met_position f (Some r) L" "fl_ok (ps_qty r)"
  shows "positions_shrink L L' \<and> \<not> pt_opened_new_position tr"
proof -
  from assms(1) obtain x avg qty side delta where q: "ps_qty r = Fin x" "paper_fill_delta f (Fin x) = Inr (qty, side, delta)"
    by (auto simp: transition_paper_position_def Let_def res_simps isfinite_iff split: option.splits if_splits)
  note d = reduced_quantity [OF q(2) assms(2) assms(4) [unfolded q(1)]]
  have "\<exists>g. update_one_position f (ps_id r) g L = Inr L' \<and> position_identity (g r) = position_identity r
      \<and> shrinks (ps_qty r) (ps_qty (g r)) \<and> \<not> pt_opened_new_position tr"
    using assms(1) d
    by (auto simp: transition_paper_position_def reduce_paper_position_def Let_def res_simps q
        closed_row_def position_identity_def split: option.splits if_splits)
  then obtain g where g: "update_one_position f (ps_id r) g L = Inr L'" "position_identity (g r) = position_identity r"
    "shrinks (ps_qty r) (ps_qty (g r))" "\<not> pt_opened_new_position tr" by blast
  have "positions_shrink L L'" unfolding positions_shrink_def
    by (rule list_all2_mono [OF update_one_row [OF g(1) assms(3)]]) (use g(2,3) in auto)
  with g(4) show ?thesis by blast
qed

lemma same_positions_shrink: "lg_positions L' = lg_positions L \<Longrightarrow> positions_shrink L L'"
  by (simp add: positions_shrink_def list_all2_refl)

lemma orders_grow_positions: "orders_grow L L' \<Longrightarrow> lg_positions L' = lg_positions L"
  by (simp add: orders_grow_def)

text \<open>After its transition a fill leaves the positions alone.\<close>

lemma commit_transition:
  assumes "commit_paper_fill piso pystr id_rank f position L = Inr (out, L')"
  obtains tr L1 where "transition_paper_position piso pystr f position L = Inr (tr, L1)"
    "lg_positions L' = lg_positions L1" "fo_opened_new_position out = pt_opened_new_position tr"
proof -
  from assms obtain tr L1 rec L2 current L3 ds L4 created where st:
    "transition_paper_position piso pystr f position L = Inr (tr, L1)"
    "persist_paper_fill_records piso f tr L1 = Inr (rec, L2)"
    "sync_paper_fill_protective_orders piso pystr id_rank f tr current L2 = Inr (ds, L3)"
    "create_paper_fill_protective_orders piso pystr f tr current L3 = Inr (created, L4)"
    "L' = append_paper_fill_events f tr current L4" "fo_opened_new_position out = pt_opened_new_position tr"
    by (rule commit_stages) auto
  have "lg_positions L2 = lg_positions L1" using st(2) by (rule persist_stages) simp
  moreover have "orders_grow L2 L'"
    using sync_fill_grow [OF st(3)] create_protective_grow [OF st(4)] events_grow st(5) orders_grow_trans by metis
  ultimately show ?thesis using that st(1,6) orders_grow_positions by metis
qed

end
