(* ===== verification/PaperExample.thy ===== *)
theory PaperExample
  imports PaperJournal
begin

text \<open>
  A small ledger to evaluate: an open position of two units bought at 100, the entry order
  that opens it, and a reduce-only order that sells one of them at 101. Rounding is given equations that the simplifier can run: integers of at most 53 bits are
  their own rounding, and \<open>dust\<close> is a dyadic number.
\<close>

definition rnd_general :: "rat \<Rightarrow> pyfloat" where
  "rnd_general x = (let r = rnd_val x in if 2 ^ 1024 \<le> r then PInf else if r \<le> - (2 ^ 1024) then NInf else Fin r)"

lemma rnd_code [code]:
  "rnd x = (case quotient_of x of (a, b) \<Rightarrow> if b = 1 \<and> \<bar>a\<bar> \<le> 9007199254740992 then Fin x else rnd_general x)"
proof (cases "quotient_of x")
  case (Pair a b)
  show ?thesis
  proof (cases "b = 1 \<and> \<bar>a\<bar> \<le> 9007199254740992")
    case True
    then have "x = of_int a" using quotient_of_div [OF Pair] by simp
    with True rnd_of_int [of a] Pair show ?thesis by simp
  next
    case False
    then show ?thesis unfolding rnd_def rnd_general_def Pair by auto
  qed
qed

lemma dust_code [code]: "dust = Fin (4835703278458517 / 4835703278458516698824704)"
proof -
  have "rnd_val (1 / 10 ^ 9) = of_int (round_half_even (1 / 10 ^ 9 / pow2 (- 30 - 52))) * pow2 (- 30 - 52)"
    by (rule rnd_val_eval) (simp_all add: power_int_def power_one_over)
  then show ?thesis by (simp add: dust_def rnd_Fin_iff power_int_def round_half_even_def power_one_over)
qed

definition no_iso :: iso_parser where "no_iso = (\<lambda>_. None)"

definition no_str :: "pyval \<Rightarrow> string" where "no_str = (\<lambda>_. [])"

definition no_rank :: "string \<Rightarrow> int" where "no_rank = (\<lambda>_. 0)"

definition example_contract :: paper_contract where
  "example_contract = \<lparr>ct_scope_kind = ''instrument'', ct_provider = ''b'', ct_provider_contract_id = ''c'',
     ct_sec_type = VNone, ct_con_id = VNone, ct_exchange = VNone, ct_expiry = VNone, ct_expiry_at = VNone,
     ct_strike = VNone, ct_right = VNone, ct_trading_class = VNone, ct_multiplier = VNone, ct_currency = VNone\<rparr>"

definition example_order :: "string \<Rightarrow> string \<Rightarrow> pyfloat \<Rightarrow> pyfloat \<Rightarrow> int \<Rightarrow> vdict \<Rightarrow> vdict" where
  "example_order i side qty price ts rest = [(VStr ''id'', VStr i), (VStr ''instrument_id'', VStr ''n''),
     (VStr ''route_fingerprint'', VStr ''f''), (VStr ''provider'', VStr ''b''), (VStr ''provider_contract_id'', VStr ''c''),
     (VStr ''paper_contract'', VDict (contract_payload example_contract)), (VStr ''symbol'', VStr ''S''),
     (VStr ''timeframe'', VStr ''1m''), (VStr ''order_type'', VStr ''market''), (VStr ''side'', VStr side),
     (VStr ''qty'', VFloat qty), (VStr ''entry'', VFloat price), (VStr ''filled_at'', VDateTime (DateTime ts (Some 0))),
     (VStr ''use_stop_loss'', VBool False), (VStr ''use_target'', VBool False),
     (VStr ''payload'', VDict [(VStr ''protection_basis'', VStr ''absolute_structure'')])] @ rest"

definition example_entry :: vdict where
  "example_entry = example_order ''e'' ''long'' (Fin 2) (Fin 100) 0 []"

definition example_reduction :: vdict where
  "example_reduction = example_order ''x'' ''short'' (Fin 1) (Fin 101) 5
     [(VStr ''reduce_only'', VBool True), (VStr ''position_id'', VStr ''pos-e'')]"

abbreviation example_fill :: "vdict \<Rightarrow> ledger \<Rightarrow> (fill_result \<times> ledger) res" where
  "example_fill order L \<equiv> apply_filled_paper_order no_iso no_str no_rank 0 order L"

definition example_position :: position_row where
  "example_position = \<lparr>ps_id = ''pos-e'', ps_symbol = ''S'', ps_timeframe = ''1m'', ps_status = ''open'', ps_qty = Fin 2,
     ps_avg_entry = Some (Fin 100), ps_opened_at = 0, ps_updated_at = 0, ps_closed_at = None, ps_realized_pnl = Fin 0,
     ps_payload = [(VStr ''source'', VStr ''manual_position''), (VStr ''entry_order_id'', VStr ''e''), (VStr ''side'', VStr ''long''),
       (VStr ''instrument_id'', VStr ''n''), (VStr ''route_fingerprint'', VStr ''f''), (VStr ''provider_contract_id'', VStr ''c''),
       (VStr ''provider'', VStr ''b''), (VStr ''paper_contract'', VDict (contract_payload example_contract))]\<rparr>"

definition example_ledger :: ledger where
  "example_ledger = empty_ledger\<lparr>lg_positions := [example_position]\<rparr>"

end
