(* ===== verification/PaperReplay.thy ===== *)
theory PaperReplay
  imports PaperFillLaws PaperExample
begin

text \<open>
  Fills are applied once: an order that was filled can be sent again at any later time, and gets the first
  answer without a change of the ledger.
\<close>

section \<open>Merged payloads\<close>

lemma distinct_dset: "distinct (dkeys d) \<Longrightarrow> distinct (dkeys (dset k v d))"
  by (simp add: dkeys_def dset_def distinct_update)

lemma distinct_dmerge: "distinct (dkeys a) \<Longrightarrow> distinct (dkeys (dmerge a b))"
  unfolding dmerge_def by (induction b arbitrary: a) (auto simp: distinct_dset)

lemma vget_dmerge:
  assumes "distinct (dkeys b)"
  shows "vget (dmerge a b) k = (if VStr k \<in> set (dkeys b) then vget b k else vget a k)"
  using assms
proof (induction b arbitrary: a)
  case Nil
  then show ?case by (simp add: dmerge_def dkeys_def)
next
  case (Cons e b)
  have "dmerge a (e # b) = dmerge (dset (fst e) (snd e) a) b" by (simp add: dmerge_def split_beta)
  with Cons show ?case
    by (cases e) (auto simp: dkeys_def vget_def dset_def update_conv' split: option.splits)
qed

lemma vset_dset: "vset k v d = dset (VStr k) v d"
  by (simp add: vset_def)

lemma incoming_distinct: "distinct (dkeys (fc_order f)) \<Longrightarrow> distinct (dkeys (fc_incoming_order f))"
  by (simp add: fc_incoming_order_def vset_dset distinct_dset)

lemma committed_distinct: "distinct (dkeys (fc_order f)) \<Longrightarrow> distinct (dkeys (committed_payload f tr))"
  by (simp add: committed_payload_def distinct_dmerge incoming_distinct)

lemma committed_get:
  "k \<notin> {''status'', ''side'', ''qty'', ''position_id'', ''reduce_only'', ''create_command'', ''execution_command''}
    \<Longrightarrow> vget (committed_payload f tr) k = vget (fc_incoming_order f) k"
  by (simp add: committed_payload_def vget_dmerge_other dkeys_def)

lemma committed_create: "vget (committed_payload f tr) ''create_command'' = VDict (command_dict (fc_create_command f))"
  by (simp add: committed_payload_def vget_dmerge dkeys_def vget_Cons)

lemma vget_absent: "VStr k \<notin> set (dkeys d) \<Longrightarrow> vget d k = VNone"
proof -
  assume "VStr k \<notin> set (dkeys d)"
  then have "map_of d (VStr k) = None" by (simp add: map_of_eq_None_iff dkeys_def)
  then show ?thesis by (simp add: vget_def)
qed

lemma committed_has_create: "VStr ''create_command'' \<in> set (dkeys (committed_payload f tr))"
proof (rule ccontr)
  assume "VStr ''create_command'' \<notin> set (dkeys (committed_payload f tr))"
  from vget_absent [OF this] show False by (simp add: committed_create)
qed

lemma committed_route: "fill_ok f \<Longrightarrow> payload_route (committed_payload f tr) = fc_route f"
  by (simp add: payload_route_def committed_get fill_ok_def)

lemma filled_payload:
  assumes "fill_ok f" "distinct (dkeys (fc_order f))" "payload_route p = fc_route f"
  shows "payload_route (dmerge p (committed_payload f tr)) = fc_route f"
    and "vget (dmerge p (committed_payload f tr)) ''create_command'' = VDict (command_dict (fc_create_command f))"
proof -
  note d = vget_dmerge [OF committed_distinct [OF assms(2)], of p tr]
  show "payload_route (dmerge p (committed_payload f tr)) = fc_route f"
    using committed_route [OF assms(1), of tr] assms(3)
    by (cases "fc_route f") (auto simp: payload_route_def d)
  show "vget (dmerge p (committed_payload f tr)) ''create_command'' = VDict (command_dict (fc_create_command f))"
    by (simp add: d committed_has_create committed_create)
qed

lemma read_order:
  assumes "paper_order_from_row piso r = Inr d"
  shows "vget d ''instrument_id'' = VStr (fst (payload_route (ow_payload r)))"
    and "vget d ''route_fingerprint'' = VStr (fst (snd (payload_route (ow_payload r))))"
    and "vget d ''create_command'' = vget (ow_payload r) ''create_command''"
proof -
  from assms obtain c where d: "d = dmerge (ow_payload r) (order_columns r c)"
    by (auto simp: paper_order_from_row_def Let_def res_simps split: if_splits)
  have "distinct (dkeys (order_columns r c))" by (simp add: order_columns_def dkeys_def)
  from vget_dmerge [OF this, of "ow_payload r"]
  show "vget d ''instrument_id'' = VStr (fst (payload_route (ow_payload r)))"
    "vget d ''route_fingerprint'' = VStr (fst (snd (payload_route (ow_payload r))))"
    "vget d ''create_command'' = vget (ow_payload r) ''create_command''"
    by (simp_all add: d order_columns_def dkeys_def vget_Cons)
qed

section \<open>A fill that was committed\<close>

lemma replay_outcome:
  assumes "reserve_paper_fill_order piso now f L = Inr (Some x, L')"
  shows "fo_outcome x = ''no_op''"
proof -
  have 1: "when_ok (paper_fill_replay_outcome piso f d L) (\<lambda>x. fo_outcome x = ''no_op'')" for d
    unfolding paper_fill_replay_outcome_def by (intro ok_intros) (auto simp: no_op_result_def when_ok_def split: list.split)
  have 2: "when_ok (paper_manual_close_replay_outcome piso f d L) (\<lambda>x. fo_outcome x = ''no_op'')" for d
    unfolding paper_manual_close_replay_outcome_def by (intro ok_intros) (simp_all add: no_op_result_def)
  have 3: "when_ok (paper_fill_existing_order_outcome piso f L) (\<lambda>v. \<forall>x. v = Some x \<longrightarrow> fo_outcome x = ''no_op'')"
    unfolding paper_fill_existing_order_outcome_def
    by (intro ok_intros) (simp_all add: when_okD [OF 1] when_okD [OF 2])
  have "when_ok (reserve_paper_fill_order piso now f L) (\<lambda>(v, _). \<forall>x. v = Some x \<longrightarrow> fo_outcome x = ''no_op'')"
    unfolding reserve_paper_fill_order_def Let_def by (intro ok_intros) (use 3 in \<open>auto dest: when_okD\<close>)
  from when_okD [OF this assms] show ?thesis by simp
qed

lemma early_not_filled:
  "paper_position_expectation_outcome piso pystr f position L = Inr (Some x, L') \<Longrightarrow> fo_outcome x \<noteq> ''filled''"
  "paper_stale_reduce_only_outcome piso f position L = Inr (Some x, L') \<Longrightarrow> fo_outcome x \<noteq> ''filled''"
proof -
  have 1: "when_ok (paper_position_expectation_outcome piso pystr f position L)
      (\<lambda>(v, _). \<forall>x. v = Some x \<longrightarrow> fo_outcome x \<noteq> ''filled'')"
    unfolding paper_position_expectation_outcome_def by (intro ok_intros) (simp_all add: cancelled_result_def)
  show "paper_position_expectation_outcome piso pystr f position L = Inr (Some x, L') \<Longrightarrow> fo_outcome x \<noteq> ''filled''"
    using when_okD [OF 1] by fastforce
  have 2: "when_ok (paper_stale_reduce_only_outcome piso f position L) (\<lambda>(v, _). \<forall>x. v = Some x \<longrightarrow> fo_outcome x \<noteq> ''filled'')"
    unfolding paper_stale_reduce_only_outcome_def by (intro ok_intros) (simp_all add: cancelled_result_def)
  show "paper_stale_reduce_only_outcome piso f position L = Inr (Some x, L') \<Longrightarrow> fo_outcome x \<noteq> ''filled''"
    using when_okD [OF 2] by fastforce
qed

lemma filled_stages:
  assumes "apply_paper_fill piso pystr id_rank now f L = Inr (out, L')" "fo_outcome out = ''filled''"
  obtains L1 position where "reserve_paper_fill_order piso now f L = Inr (None, L1)"
    "commit_paper_fill piso pystr id_rank f position L1 = Inr (out, L')"
proof -
  obtain replay L1 where r: "reserve_paper_fill_order piso now f L = Inr (replay, L1)"
    using assms by (auto simp: apply_paper_fill_def res_simps)
  with assms replay_outcome have n: "replay = None" by (cases replay) (auto simp: apply_paper_fill_def)
  obtain position expected L2 where p: "locked_paper_fill_position piso f L1 = Inr position"
    "paper_position_expectation_outcome piso pystr f (map_option snd position) L1 = Inr (expected, L2)"
    using assms r n by (auto simp: apply_paper_fill_def res_simps)
  with assms r n early_not_filled(1) have e: "expected = None" by (cases expected) (auto simp: apply_paper_fill_def)
  obtain stale L3 where s: "paper_stale_reduce_only_outcome piso f (map_option snd position) L2 = Inr (stale, L3)"
    using assms r n p e by (auto simp: apply_paper_fill_def res_simps)
  with assms r n p e early_not_filled(2) have t: "stale = None" by (cases stale) (auto simp: apply_paper_fill_def)
  have "L2 = L1" "L3 = L2" using expectation_grow(2) [OF p(2) e] stale_grow(2) [OF s t] by simp_all
  moreover have "commit_paper_fill piso pystr id_rank f (map_option fst position) L3 = Inr (out, L')"
    using assms(1) r n p e s t by (simp add: apply_paper_fill_def)
  ultimately show ?thesis using that r n by simp
qed

text \<open>What a committed fill leaves in the ledger, and any later transaction keeps.\<close>

definition fill_on_record :: "iso_parser \<Rightarrow> fill_command \<Rightarrow> fill_result \<Rightarrow> ledger \<Rightarrow> bool" where
  "fill_on_record piso f out L \<longleftrightarrow>
    (\<exists>row \<in> set (lg_orders L). ow_id row = fc_order_id f \<and> ow_status row = ''filled'' \<and> payload_route (ow_payload row) = fc_route f
       \<and> vget (ow_payload row) ''create_command'' = VDict (command_dict (fc_create_command f))
       \<and> paper_order_from_row piso row = Inr (fo_order out))
    \<and> (\<exists>rec \<in> set (lg_fills L). fr_order_id rec = fc_order_id f \<and> payload_route (fr_payload rec) = fc_route f
       \<and> (\<exists>d. fo_fill out = Some d \<and> paper_fill_from_row piso rec = Inr d)
       \<and> (\<exists>p \<in> set (lg_positions L). ps_id p = fr_position_id rec \<and> payload_route (ps_payload p) = fc_route f
            \<and> is_ok (paper_position_from_row piso p)))"

lemma readable_position:
  "is_ok (paper_position_from_row piso p) \<longleftrightarrow>
    is_ok (require_exact_identity_text (VStr (ps_id p)) ''PAPER_POSITION_ID'' False)
    \<and> is_ok (require_exact_identity_text (vget (ps_payload p) ''instrument_id'') ''PAPER_POSITION_INSTRUMENT_ID'' False)
    \<and> is_ok (require_exact_identity_text (vget (ps_payload p) ''route_fingerprint'') ''PAPER_POSITION_ROUTE_FINGERPRINT'' False)
    \<and> is_ok (require_paper_contract_identity piso (ps_payload p))"
  by (auto simp: paper_position_from_row_def is_ok_iff res_simps)

lemma position_result:
  assumes "paper_fill_position_results piso f tr L = Inr (d, current, shut)"
  shows "find_position f (Some (pt_position_id tr)) L = Some current \<and> is_ok (paper_position_from_row piso current)"
proof -
  have "when_ok (paper_fill_position_results piso f tr L) (\<lambda>(d, current, shut).
      find_position f (Some (pt_position_id tr)) L = Some current \<and> is_ok (paper_position_from_row piso current))"
    unfolding paper_fill_position_results_def by (intro ok_intros) (simp_all add: is_ok_def)
  from when_okD [OF this assms] show ?thesis by simp
qed

lemma committed_on_record:
  assumes "commit_paper_fill piso pystr id_rank f position L = Inr (out, L')" "fill_ok f" "distinct (dkeys (fc_order f))"
  shows "fill_on_record piso f out L'"
proof -
  from assms(1) obtain tr L1 rec L2 current_dict current closed L3 ds L4 created where st:
    "persist_paper_fill_records piso f tr L1 = Inr (rec, L2)"
    "paper_fill_position_results piso f tr L2 = Inr (current_dict, current, closed)"
    "sync_paper_fill_protective_orders piso pystr id_rank f tr current L2 = Inr (ds, L3)"
    "create_paper_fill_protective_orders piso pystr f tr current L3 = Inr (created, L4)"
    "L' = append_paper_fill_events f tr current L4"
    "fo_order out = fst rec" "fo_fill out = Some (snd rec)" by (rule commit_stages) auto
  from st(1) obtain r where r: "r \<in> set (lg_orders L1)" "settled_by f r"
    "L2 = L1\<lparr>lg_orders := map (\<lambda>r. if settled_by f r then filled_row f tr r else r) (lg_orders L1),
       lg_fills := lg_fills L1 @ [fill_record f tr]\<rparr>"
    "paper_order_from_row piso (filled_row f tr r) = Inr (fst rec)" "paper_fill_from_row piso (fill_record f tr) = Inr (snd rec)"
    by (rule persist_stages)
  have grow: "orders_grow L2 L'"
    using sync_fill_grow [OF st(3)] create_protective_grow [OF st(4)] events_grow st(5) orders_grow_trans by metis
  have row: "filled_row f tr r \<in> set (lg_orders L2)" using r(1,2) by (auto simp: r(3))
  have "filled_row f tr r \<in> set (lg_orders L')"
    using orders_grow_extends [OF grow] row by (auto simp: ledger_extends_def)
  moreover have "payload_route (ow_payload r) = fc_route f" using r(2) by (simp add: settled_by_def pending_in_def)
  moreover have "ow_id r = fc_order_id f" using r(2) by (simp add: settled_by_def)
  moreover have "fill_record f tr \<in> set (lg_fills L')" using grow by (simp add: orders_grow_def r(3))
  moreover note position_result [OF st(2)]
  then have "current \<in> set (lg_positions L')" "ps_id current = pt_position_id tr" "payload_route (ps_payload current) = fc_route f"
    "is_ok (paper_position_from_row piso current)"
    using orders_grow_positions [OF grow] by (auto simp: find_position_def position_in_def dest!: first_where_Some)
  ultimately show ?thesis unfolding fill_on_record_def
    using filled_payload [OF assms(2,3)] committed_route [OF assms(2)] r(4,5) st(6,7)
    by (intro conjI bexI [of _ "filled_row f tr r"] bexI [of _ "fill_record f tr"] bexI [of _ current])
      (simp_all add: filled_row_def)
qed

lemma extends_on_record:
  assumes "fill_on_record piso f out L" "ledger_extends L L'"
  shows "fill_on_record piso f out L'"
proof -
  from assms(1) obtain row rec p d where r: "row \<in> set (lg_orders L)" "ow_id row = fc_order_id f" "ow_status row = ''filled''"
      "payload_route (ow_payload row) = fc_route f" "paper_order_from_row piso row = Inr (fo_order out)"
      "vget (ow_payload row) ''create_command'' = VDict (command_dict (fc_create_command f))"
    and c: "rec \<in> set (lg_fills L)" "fr_order_id rec = fc_order_id f" "payload_route (fr_payload rec) = fc_route f"
      "fo_fill out = Some d" "paper_fill_from_row piso rec = Inr d"
    and p: "p \<in> set (lg_positions L)" "ps_id p = fr_position_id rec" "payload_route (ps_payload p) = fc_route f"
      "is_ok (paper_position_from_row piso p)"
    unfolding fill_on_record_def by blast
  have row: "row \<in> set (lg_orders L')" using r(1,3) assms(2) by (auto simp: ledger_extends_def)
  have rec: "rec \<in> set (lg_fills L')" using c(1) assms(2) set_mono_prefix by (auto simp: ledger_extends_def)
  have "position_identity p \<in> set (map position_identity (lg_positions L'))"
    using p(1) assms(2) by (auto simp: ledger_extends_def)
  then obtain p' where p': "p' \<in> set (lg_positions L')" "ps_id p' = ps_id p" "ps_payload p' = ps_payload p"
    by (auto simp: position_identity_def)
  then have "is_ok (paper_position_from_row piso p')" using p(4) by (simp add: readable_position)
  with p' p(2,3) have pos: "\<exists>p \<in> set (lg_positions L'). ps_id p = fr_position_id rec \<and> payload_route (ps_payload p) = fc_route f
            \<and> is_ok (paper_position_from_row piso p)" by metis
  show ?thesis unfolding fill_on_record_def using row rec r(2-6) c(2-5) pos by blast
qed

lemma run_extends: "ledger_ok L \<Longrightarrow> ledger_extends L (paper_run piso pystr id_rank ops L)"
proof (induction ops arbitrary: L)
  case (Cons op ops)
  from step_ok [OF Cons.prems] have "ledger_ok (paper_step piso pystr id_rank op L)"
    "ledger_extends L (paper_step piso pystr id_rank op L)" by blast+
  with Cons.IH show ?case using ledger_extends_trans by simp
qed (simp add: ledger_extends_refl)

section \<open>The order sent again\<close>

lemma filter_unique:
  assumes "distinct (map g xs)" "x \<in> set xs" "P x" "\<And>y. P y \<Longrightarrow> g y = g x"
  shows "filter P xs = [x]"
proof -
  have "\<forall>y \<in> set (filter P xs). y = x" using assms by (auto simp: distinct_map dest: inj_onD)
  moreover have "distinct (filter P xs)" using assms(1) by (simp add: distinct_map)
  moreover have "x \<in> set (filter P xs)" using assms(2,3) by simp
  ultimately show ?thesis by (cases "filter P xs") (auto, metis list.set_sel(1))
qed

lemma first_row: "filter P xs = [x] \<Longrightarrow> first_where P xs = Some x"
  by (induction xs) (auto simp: first_where_def split: if_splits)

lemma clock_unread: "paper_utc_datetime piso now v (Some d) = paper_utc_datetime piso now' v (Some d)"
  by (cases v) (simp_all add: paper_utc_datetime_def)

lemma given_clock_unread: "v \<noteq> VNone \<Longrightarrow> paper_utc_datetime piso now v dflt = paper_utc_datetime piso now' v dflt"
  by (cases v) (simp_all add: paper_utc_datetime_def)

lemma command_clock_unread:
  assumes "vget order ''filled_at'' \<noteq> VNone"
  shows "paper_fill_command piso pystr now order = paper_fill_command piso pystr now' order"
  by (simp only: paper_fill_command_def given_clock_unread [OF assms, of piso now None now'])

lemma replay_answer:
  assumes "fill_on_record piso f out L" "ledger_ok L"
    and "py_eq (VDict (command_dict (fc_create_command f))) (VDict (command_dict (fc_create_command f)))"
  shows "\<exists>p. paper_fill_existing_order_outcome piso f L = Inr (Some (no_op_result (fo_order out) (Some p) (fo_fill out)))"
proof -
  from assms(1) obtain row rec p d where r: "row \<in> set (lg_orders L)" "ow_id row = fc_order_id f" "ow_status row = ''filled''"
      "payload_route (ow_payload row) = fc_route f" "paper_order_from_row piso row = Inr (fo_order out)"
      "vget (ow_payload row) ''create_command'' = VDict (command_dict (fc_create_command f))"
    and c: "rec \<in> set (lg_fills L)" "fr_order_id rec = fc_order_id f" "payload_route (fr_payload rec) = fc_route f"
      "fo_fill out = Some d" "paper_fill_from_row piso rec = Inr d"
    and p: "p \<in> set (lg_positions L)" "ps_id p = fr_position_id rec" "payload_route (ps_payload p) = fc_route f"
      "is_ok (paper_position_from_row piso p)"
    unfolding fill_on_record_def by blast
  have "filter (\<lambda>x. ow_id x = fc_order_id f) (lg_orders L) = [row]"
    by (rule filter_unique [of ow_id]) (use assms(2) r in \<open>auto simp: ledger_ok_def orders_ok_def\<close>)
  then have order: "find_order (fc_order_id f) L = Some row" by (simp add: find_order_def first_row)
  have fills: "filter (\<lambda>x. fr_order_id x = fc_order_id f \<and> payload_route (fr_payload x) = fc_route f) (lg_fills L) = [rec]"
    by (rule filter_unique [of fr_order_id]) (use assms(2) c in \<open>auto simp: ledger_ok_def\<close>)
  have "filter (position_in (fc_route f) (fr_position_id rec)) (lg_positions L) = [p]"
    by (rule filter_unique [of ps_id]) (use assms(2) p in \<open>auto simp: ledger_ok_def positions_ok_def position_in_def\<close>)
  then have position: "find_position f (Some (fr_position_id rec)) L = Some p" by (simp add: find_position_def first_row)
  from p(4) obtain pd where pd: "paper_position_from_row piso p = Inr pd" by (auto simp: is_ok_iff)
  from p(4) [unfolded readable_position] obtain t where
    t: "require_exact_identity_text (VStr (fr_position_id rec)) ''PAPER_POSITION_ID'' False = Inr t"
    by (auto simp: is_ok_iff p(2))
  with exact_text [OF t] have id:
    "require_exact_identity_text (VStr (fr_position_id rec)) ''PAPER_POSITION_ID'' False = Inr (fr_position_id rec)" by simp
  have "paper_fill_replay_outcome piso f (fo_order out) L = Inr (no_op_result (fo_order out) (Some pd) (fo_fill out))"
    by (simp add: paper_fill_replay_outcome_def fills c(4,5) id paper_position_by_id_def position pd)
  then have "paper_fill_existing_order_outcome piso f L = Inr (Some (no_op_result (fo_order out) (Some pd) (fo_fill out)))"
    using read_order [OF r(5)] assms(3)
    by (simp add: paper_fill_existing_order_outcome_def order r(3-6) command_route_def del: py_eq.simps)
  then show ?thesis by blast
qed

lemma reserve_times:
  "reserve_paper_fill_order piso now f L = Inr out
    \<Longrightarrow> is_ok (paper_utc_datetime piso now' (vget (fc_order f) ''created_at'') (Some (fc_filled_at f)))
      \<and> is_ok (paper_utc_datetime piso now' (vget (fc_order f) ''updated_at'') (Some (fc_filled_at f)))"
  by (auto simp: reserve_paper_fill_order_def res_simps is_ok_iff clock_unread [of _ now' _ _ now])

lemma replayed_fill:
  assumes "fill_on_record piso f out L" "ledger_ok L"
    and "py_eq (VDict (command_dict (fc_create_command f))) (VDict (command_dict (fc_create_command f)))"
    and "is_ok (paper_utc_datetime piso now (vget (fc_order f) ''created_at'') (Some (fc_filled_at f)))"
    and "is_ok (paper_utc_datetime piso now (vget (fc_order f) ''updated_at'') (Some (fc_filled_at f)))"
  shows "\<exists>p. apply_paper_fill piso pystr id_rank now f L = Inr (no_op_result (fo_order out) (Some p) (fo_fill out), L)"
proof -
  from replay_answer [OF assms(1-3)] obtain p where
    p: "paper_fill_existing_order_outcome piso f L = Inr (Some (no_op_result (fo_order out) (Some p) (fo_fill out)))" ..
  have "find_order (fc_order_id f) L \<noteq> None"
    using p by (cases "find_order (fc_order_id f) L") (simp_all add: paper_fill_existing_order_outcome_def)
  with p assms(4,5) show ?thesis
    by (auto simp: apply_paper_fill_def reserve_paper_fill_order_def is_ok_iff Let_def)
qed

text \<open>C5: a fill is applied once: when an order was filled, in whatever state of the ledger, then after any
  later transactions the same order sent again, at any time, is answered with the stored order and the
  stored fill as no operation, and the ledger stays as it is; no second fill, position or protective order
  comes out of a retry. (The order carries its time of filling, its keys are distinct as those of any
  dictionary, and its create command equals itself, which says that it holds no not-a-number.)\<close>

theorem fill_is_applied_once:
  assumes "paper_fill_command piso pystr now order = Inr f"
    and "apply_filled_paper_order piso pystr id_rank now order (paper_run piso pystr id_rank ops empty_ledger) = Inr (out, L1)"
    and "fo_outcome out = ''filled''"
    and "vget order ''filled_at'' \<noteq> VNone" and "distinct (dkeys order)"
    and "py_eq (VDict (command_dict (fc_create_command f))) (VDict (command_dict (fc_create_command f)))"
  shows "let L2 = paper_run piso pystr id_rank later L1 in
    \<exists>p. apply_filled_paper_order piso pystr id_rank now' order L2
      = Inr (no_op_result (fo_order out) (Some p) (fo_fill out), L2)"
proof -
  let ?L = "paper_run piso pystr id_rank ops empty_ledger" and ?L2 = "paper_run piso pystr id_rank later L1"
  have f: "fill_ok f" "fc_order f = order" using fill_command_ok [OF assms(1)] by auto
  have a: "apply_paper_fill piso pystr id_rank now f ?L = Inr (out, L1)"
    using assms(1,2) by (simp add: apply_filled_paper_order_def)
  from a assms(3) obtain L0 position where st: "reserve_paper_fill_order piso now f ?L = Inr (None, L0)"
    "commit_paper_fill piso pystr id_rank f position L0 = Inr (out, L1)" by (rule filled_stages)
  have ok: "ledger_ok L1" by (rule apply_ok(1) [OF a run_ok [OF empty_ledger_ok] f(1)])
  have "fill_on_record piso f out ?L2"
    by (rule extends_on_record [OF committed_on_record [OF st(2) f(1)] run_extends [OF ok]]) (simp add: f(2) assms(5))
  from replayed_fill [OF this run_ok [OF ok] assms(6)] reserve_times [OF st(1), of now']
  obtain p where "apply_paper_fill piso pystr id_rank now' f ?L2 = Inr (no_op_result (fo_order out) (Some p) (fo_fill out), ?L2)"
    by blast
  moreover have "paper_fill_command piso pystr now' order = Inr f"
    using assms(1) command_clock_unread [OF assms(4), of piso pystr now now'] by simp
  ultimately show ?thesis by (auto simp: apply_filled_paper_order_def Let_def)
qed

lemma example_entry_filled:
  "case paper_fill_command no_iso no_str 0 example_entry of Inl _ \<Rightarrow> False | Inr f \<Rightarrow>
    py_eq (VDict (command_dict (fc_create_command f))) (VDict (command_dict (fc_create_command f)))
    \<and> (case apply_paper_fill no_iso no_str no_rank 0 f empty_ledger of Inl _ \<Rightarrow> False
        | Inr (out, L) \<Rightarrow> fo_outcome out = ''filled'')"
  by code_simp

text \<open>The entry is filled, part of the position is sold, and the entry is sent again.\<close>

theorem fill_is_applied_once_witness:
  "\<exists>out L1 p. example_fill example_entry empty_ledger = Inr (out, L1) \<and> fo_outcome out = ''filled''
    \<and> (let L2 = paper_run no_iso no_str no_rank [OpFill 5 example_reduction] L1 in
        apply_filled_paper_order no_iso no_str no_rank 9 example_entry L2
          = Inr (no_op_result (fo_order out) (Some p) (fo_fill out), L2))"
proof -
  obtain f out L1 where e: "paper_fill_command no_iso no_str 0 example_entry = Inr f"
    "py_eq (VDict (command_dict (fc_create_command f))) (VDict (command_dict (fc_create_command f)))"
    "example_fill example_entry (paper_run no_iso no_str no_rank [] empty_ledger) = Inr (out, L1)" "fo_outcome out = ''filled''"
    using example_entry_filled by (auto simp: apply_filled_paper_order_def split: sum.splits)
  have "vget example_entry ''filled_at'' \<noteq> VNone" "distinct (dkeys example_entry)"
    by (simp_all add: example_entry_def example_order_def dkeys_def vget_Cons)
  from fill_is_applied_once [OF e(1,3,4) this e(2), of "[OpFill 5 example_reduction]" 9] e(3,4) show ?thesis
    by (auto simp: Let_def)
qed

end
