(* ===== verification/PaperEquity.thy ===== *)
theory PaperEquity
  imports PaperFillLaws PaperExample
begin

text \<open>
  The bookkeeping of a fill: the account's equity at the fill price - realised profit plus the value of the
  open quantities over their average entry - is the same before and after a fill, as long as the float
  operations of the fill are exact.
\<close>

section \<open>Equity\<close>

fun val :: "pyfloat \<Rightarrow> rat" where
  "val (Fin x) = x"
| "val _ = 0"

definition equity :: "pyfloat \<Rightarrow> position_row \<Rightarrow> rat" where
  "equity price r = val (ps_realized_pnl r)
     + val (ps_qty r) * (val price - val (case ps_avg_entry r of None \<Rightarrow> price | Some a \<Rightarrow> a))"

definition account_equity :: "pyfloat \<Rightarrow> ledger \<Rightarrow> rat" where
  "account_equity price L = sum_list (map (equity price) (lg_positions L))"

text \<open>The operations of a fill on a position, and when none of them rounds.\<close>

definition all_exact :: "rat list \<Rightarrow> bool" where
  "all_exact xs = list_all (\<lambda>x. fl_ok (Fin x)) xs"

fun exact_at :: "pyfloat \<Rightarrow> pyfloat \<Rightarrow> pyfloat \<Rightarrow> pyfloat \<Rightarrow> pyfloat \<Rightarrow> bool" where
  "exact_at (Fin x) (Fin a) (Fin d) (Fin p) (Fin r) =
    (all_exact [x + d, x * d, x * (x + d)] \<and> (x + d = 0 \<or> \<not> fle (Fin \<bar>x + d\<bar>) dust)
     \<and> (if x = 0 \<or> 0 < x * d then all_exact [\<bar>x\<bar> * a, \<bar>d\<bar> * p, \<bar>x\<bar> * a + \<bar>d\<bar> * p, (\<bar>x\<bar> * a + \<bar>d\<bar> * p) / \<bar>x + d\<bar>]
        else all_exact [p - a, a - p, (p - a) * min \<bar>x\<bar> \<bar>d\<bar>, (a - p) * min \<bar>x\<bar> \<bar>d\<bar>,
          r + (if 0 < x then p - a else a - p) * min \<bar>x\<bar> \<bar>d\<bar>]))"
| "exact_at _ _ _ _ _ = False"

definition exact_on :: "fill_command \<Rightarrow> pyfloat \<Rightarrow> pyfloat option \<Rightarrow> pyfloat \<Rightarrow> bool" where
  "exact_on f qty average realized = (case paper_fill_delta f qty of Inl _ \<Rightarrow> True
    | Inr (_, _, delta) \<Rightarrow> exact_at qty (case average of None \<Rightarrow> fc_price f | Some a \<Rightarrow> a) delta (fc_price f) realized)"

definition exact_fill :: "fill_command \<Rightarrow> ledger \<Rightarrow> bool" where
  "exact_fill f L = (exact_on f (Fin 0) None (Fin 0)
    \<and> list_all (\<lambda>r. is_open r \<and> position_slot r = fill_slot f \<longrightarrow> exact_on f (ps_qty r) (ps_avg_entry r) (ps_realized_pnl r))
        (lg_positions L))"

section \<open>One transition\<close>

lemma exact_atE:
  assumes "exact_at q avg delta price realized"
  obtains x a d p r where "q = Fin x" "avg = Fin a" "delta = Fin d" "price = Fin p" "realized = Fin r"
  using assms by (cases "(q, avg, delta, price, realized)" rule: exact_at.cases) auto

lemma update_keeps_equity:
  assumes "update_one_position f (ps_id r) g L = Inr L'" "met_position f (Some r) L" "equity P (g r) = equity P r"
  shows "account_equity P L' = account_equity P L"
proof -
  have "map (equity P) (lg_positions L') = map (equity P) (lg_positions L)"
    using update_one_row [OF assms(1,2)] by (induction rule: list_all2_induct) (auto simp: assms(3))
  then show ?thesis by (simp add: account_equity_def)
qed

lemma insert_equity:
  assumes "insert_position row L = Inr L'"
  shows "account_equity P L' = account_equity P L + equity P row"
  using assms by (auto simp: insert_position_def account_equity_def split: if_splits)

text \<open>Adding to a position: quantity times average is what was paid.\<close>

lemma average_times_quantity:
  fixes x d a p :: rat
  assumes "x = 0 \<or> 0 < x * d" "x + d \<noteq> 0"
  shows "(x + d) * ((\<bar>x\<bar> * a + \<bar>d\<bar> * p) / \<bar>x + d\<bar>) = x * a + d * p"
proof -
  consider "0 < x + d" "0 \<le> x" "0 \<le> d" | "x + d < 0" "x \<le> 0" "d \<le> 0"
    using assms by (cases "0 < x"; cases "0 < d") (auto simp: zero_less_mult_iff)
  then show ?thesis by cases (simp_all add: field_simps)
qed

lemma exact_average:
  assumes "exact_at (Fin x) (Fin a) (Fin d) (Fin p) (Fin r)" "x = 0 \<or> 0 < x * d" "x + d \<noteq> 0"
  shows "average_price (Fin x) (Fin a) (Fin d) (Fin p) (Fin (x + d)) = Inr (Fin ((\<bar>x\<bar> * a + \<bar>d\<bar> * p) / \<bar>x + d\<bar>))"
proof -
  have "fmax (Fin \<bar>x + d\<bar>) dust = Fin \<bar>x + d\<bar>"
    using assms by (auto simp: fmax_def dest: flt_imp_fle)
  then show ?thesis using assms by (simp add: average_price_def all_exact_def)
qed

lemma increase_equity:
  assumes step: "increase_paper_position piso pystr f position pid (Fin x) (Fin a) (Fin d) L = Inr (opened, L')"
    and exact: "exact_at (Fin x) (Fin a) (Fin d) (fc_price f) (Fin realized)" and side: "x = 0 \<or> 0 < x * d"
    and met: "met_position f position L"
    and old: "case position of None \<Rightarrow> x = 0
      | Some r \<Rightarrow> pid = ps_id r \<and> ps_qty r = Fin x \<and> ps_realized_pnl r = Fin realized
          \<and> (case ps_avg_entry r of None \<Rightarrow> fc_price f | Some v \<Rightarrow> v) = Fin a"
  shows "account_equity (fc_price f) L' = account_equity (fc_price f) L"
proof -
  from exact obtain p where p: "fc_price f = Fin p" by (rule exact_atE) simp
  have n: "rnd (x + d) = Fin (x + d)" using exact by (simp add: p all_exact_def)
  obtain v where v: "average_price (Fin x) (Fin a) (Fin d) (Fin p) (Fin (x + d)) = Inr v"
    using step by (auto simp: increase_paper_position_def Let_def res_simps n p)
  have bal: "(x + d) * (p - val v) = x * (p - a)"
  proof (cases "x + d = 0")
    case True
    with side have "x = 0" by (auto simp: zero_less_mult_iff)
    with True show ?thesis by simp
  next
    case False
    have "v = Fin ((\<bar>x\<bar> * a + \<bar>d\<bar> * p) / \<bar>x + d\<bar>)"
      using exact_average [OF exact [unfolded p] side False] v by simp
    then have "(x + d) * val v = x * a + d * p" using average_times_quantity [OF side False] by simp
    then show ?thesis by (simp add: algebra_simps)
  qed
  show ?thesis
  proof (cases position)
    case None
    with step v old obtain dct where "insert_position (new_position f pid (Fin (x + d)) v dct) L = Inr L'" "x = 0"
      by (auto simp: increase_paper_position_def Let_def res_simps n p)
    from insert_equity [OF this(1), of "fc_price f"] bal this(2) show ?thesis by (simp add: equity_def new_position_def p)
  next
    case (Some r)
    with step v old have u: "update_one_position f (ps_id r)
        (\<lambda>r. r\<lparr>ps_qty := Fin (x + d), ps_avg_entry := Some v, ps_updated_at := fc_filled_at f\<rparr>) L = Inr L'"
      by (auto simp: increase_paper_position_def Let_def res_simps n p split: if_splits)
    show ?thesis
      by (rule update_keeps_equity [OF u met [unfolded Some]]) (use bal old Some p in \<open>simp add: equity_def split: option.splits\<close>)
  qed
qed

lemma fmin_Fin [simp]: "fmin (Fin a) (Fin b) = Fin (min a b)"
  by (simp add: fmin_def min_def)

lemma reduce_equity:
  assumes step: "reduce_paper_position piso pystr f r (ps_id r) (Fin x) (Fin a) (Fin d) L = Inr (out, L')"
    and exact: "exact_at (Fin x) (Fin a) (Fin d) (fc_price f) (Fin realized)" and side: "x \<noteq> 0" "\<not> 0 < x * d"
    and met: "met_position f (Some r) L"
    and old: "ps_qty r = Fin x" "ps_realized_pnl r = Fin realized"
      "(case ps_avg_entry r of None \<Rightarrow> fc_price f | Some v \<Rightarrow> v) = Fin a"
  shows "account_equity (fc_price f) L' = account_equity (fc_price f) L"
proof -
  from exact obtain p where p: "fc_price f = Fin p" by (rule exact_atE) simp
  have n: "rnd (x + d) = Fin (x + d)" "rnd (x * (x + d)) = Fin (x * (x + d))"
    using exact by (simp_all add: p all_exact_def)
  have av: "val (case ps_avg_entry r of None \<Rightarrow> Fin p | Some v \<Rightarrow> v) = a" using old(3) p by (auto split: option.splits)
  define k where "k = (if 0 < x then p - a else a - p) * min \<bar>x\<bar> \<bar>d\<bar>"
  have pnl: "(if flt (Fin 0) (Fin x) then fmul (rnd (p - a)) (Fin (min \<bar>x\<bar> \<bar>d\<bar>))
      else fmul (rnd (a - p)) (Fin (min \<bar>x\<bar> \<bar>d\<bar>))) = Fin k"
    and add: "rnd (realized + k) = Fin (realized + k)"
    using exact side by (auto simp: p all_exact_def k_def)
  have whole: "k = x * (p - a)" if "\<bar>x\<bar> \<le> \<bar>d\<bar>" using that by (auto simp: k_def min_def algebra_simps)
  have part: "k = - (d * (p - a))" if "\<bar>d\<bar> \<le> \<bar>x\<bar>"
    using that side by (auto simp: k_def min_def abs_if algebra_simps zero_less_mult_iff not_less mult_less_0_iff split: if_splits)
  have sides: "0 < x * (x + d) \<longleftrightarrow> \<bar>d\<bar> < \<bar>x\<bar>"
    using side by (auto simp: zero_less_mult_iff not_less abs_if split: if_splits)
  have closing: "equity (fc_price f) (closed_row f (Fin k) r) = equity (fc_price f) r" if "\<bar>x\<bar> \<le> \<bar>d\<bar>"
    using whole [OF that] old(1,2) add av by (simp add: equity_def closed_row_def p)
  consider (close) "x + d = 0" "update_one_position f (ps_id r) (closed_row f (Fin k)) L = Inr L'"
    | (shrink) "\<bar>d\<bar> < \<bar>x\<bar>" "update_one_position f (ps_id r)
         (\<lambda>r. r\<lparr>ps_qty := Fin (x + d), ps_updated_at := fc_filled_at f, ps_realized_pnl := fadd (ps_realized_pnl r) (Fin k)\<rparr>) L = Inr L'"
    | (reverse) L1 dct j where "\<bar>x\<bar> \<le> \<bar>d\<bar>" "update_one_position f (ps_id r) (closed_row f (Fin k)) L = Inr L1"
        "insert_position (new_position f j (Fin (x + d)) (fc_price f) dct) L1 = Inr L'"
    using step exact unfolding reduce_paper_position_def Let_def p fadd.simps fmul.simps fsub_Fin fabs.simps fmin_Fin pnl n
    by (auto simp: res_simps sides not_less split: if_splits)
  then show ?thesis
  proof cases
    case close
    then have "\<bar>x\<bar> \<le> \<bar>d\<bar>" by (simp add: eq_neg_iff_add_eq_0 [symmetric])
    from update_keeps_equity [OF close(2) met closing [OF this]] show ?thesis .
  next
    case shrink
    show ?thesis
      by (rule update_keeps_equity [OF shrink(2) met])
        (use part shrink(1) old(1,2) add av in \<open>simp add: equity_def p algebra_simps\<close>)
  next
    case reverse
    from update_keeps_equity [OF reverse(2) met closing [OF reverse(1)]] insert_equity [OF reverse(3), of "fc_price f"]
    show ?thesis by (simp add: equity_def new_position_def)
  qed
qed

lemma exact_onE:
  assumes "exact_on f q average realized" "paper_fill_delta f q = Inr (qty, side, delta)"
  obtains x a d p y where "q = Fin x" "(case average of None \<Rightarrow> fc_price f | Some v \<Rightarrow> v) = Fin a" "delta = Fin d"
    "fc_price f = Fin p" "realized = Fin y" "exact_at (Fin x) (Fin a) (Fin d) (fc_price f) (Fin y)"
    "rnd (x * d) = Fin (x * d)"
proof -
  have e: "exact_at q (case average of None \<Rightarrow> fc_price f | Some v \<Rightarrow> v) delta (fc_price f) realized"
    using assms by (simp add: exact_on_def)
  from exact_atE [OF e] obtain x a d p y where v: "q = Fin x" "(case average of None \<Rightarrow> fc_price f | Some v \<Rightarrow> v) = Fin a"
    "delta = Fin d" "fc_price f = Fin p" "realized = Fin y" by metis
  with e have "exact_at (Fin x) (Fin a) (Fin d) (fc_price f) (Fin y)" by simp
  moreover from this v(4) have "rnd (x * d) = Fin (x * d)" by (simp add: all_exact_def)
  ultimately show ?thesis using that v by blast
qed

lemma transition_equity:
  assumes step: "transition_paper_position piso pystr f position L = Inr (tr, L')"
    and met: "met_position f position L" and exact: "exact_fill f L"
  shows "account_equity (fc_price f) L' = account_equity (fc_price f) L"
proof (cases position)
  case None
  then obtain qty side delta where del: "paper_fill_delta f (Fin 0) = Inr (qty, side, delta)"
    using step by (auto simp: transition_paper_position_def Let_def res_simps split: option.splits)
  from exact have "exact_on f (Fin 0) None (Fin 0)" by (simp add: exact_fill_def)
  then obtain d p where e: "delta = Fin d" "fc_price f = Fin p" "exact_at (Fin 0) (Fin p) (Fin d) (fc_price f) (Fin 0)"
    by (rule exact_onE [OF _ del]) simp
  from step None del e(1,2) obtain pid opened where
    "increase_paper_position piso pystr f None pid (Fin 0) (Fin p) (Fin d) L = Inr (opened, L')"
    by (auto simp: transition_paper_position_def Let_def res_simps split: option.splits)
  from increase_equity [OF this e(3)] met None show ?thesis by simp
next
  case (Some r)
  have on: "exact_on f (ps_qty r) (ps_avg_entry r) (ps_realized_pnl r)"
    using exact met Some by (auto simp: exact_fill_def met_position_def list_all_iff)
  obtain qty side delta where del: "paper_fill_delta f (ps_qty r) = Inr (qty, side, delta)"
    using step Some by (auto simp: transition_paper_position_def Let_def res_simps split: option.splits if_splits)
  from exact_onE [OF on del] obtain x a d p y where e: "ps_qty r = Fin x"
    "(case ps_avg_entry r of None \<Rightarrow> fc_price f | Some v \<Rightarrow> v) = Fin a" "delta = Fin d" "fc_price f = Fin p"
    "ps_realized_pnl r = Fin y" "exact_at (Fin x) (Fin a) (Fin d) (fc_price f) (Fin y)" "rnd (x * d) = Fin (x * d)" by metis
  have avg: "(if ps_avg_entry r = None then Some (fc_price f) else finite_or_none (ps_avg_entry r)) = Some (Fin a)"
    using e(2) by (cases "ps_avg_entry r") auto
  have test: "(Fin x = Fin 0 \<or> flt (Fin 0) (fmul (Fin x) (Fin d))) = (x = 0 \<or> 0 < x * d)" by (simp add: e(7))
  have t: "rbind (if x = 0 \<or> 0 < x * d
           then rbind (increase_paper_position piso pystr f position (ps_id r) (Fin x) (Fin a) (Fin d) L)
             (\<lambda>(opened, L'). Inr ((ps_id r, Fin 0, None, opened), L'))
           else reduce_paper_position piso pystr f r (ps_id r) (Fin x) (Fin a) (Fin d) L) (\<lambda>((pid, pnl, closed, opened), L').
           Inr (\<lparr>pt_position_id = pid, pt_previous_qty = Fin x, pt_side = side, pt_qty = qty, pt_signed_delta = Fin d,
             pt_pnl = pnl, pt_closed_position = closed, pt_opened_new_position = opened\<rparr>, L')) = Inr (tr, L')"
    using step del unfolding transition_paper_position_def Let_def Some option.case avg e(1,3) finite_or_none_Fin prod.case
    by (simp only: test [symmetric] rbind.simps prod.case Some option.case e)
  show ?thesis
  proof (cases "x = 0 \<or> 0 < x * d")
    case True
    with t obtain opened where "increase_paper_position piso pystr f position (ps_id r) (Fin x) (Fin a) (Fin d) L = Inr (opened, L')"
      by (auto simp: res_simps)
    from increase_equity [OF this e(6) True met] Some e show ?thesis by simp
  next
    case False
    with t obtain out where "reduce_paper_position piso pystr f r (ps_id r) (Fin x) (Fin a) (Fin d) L = Inr (out, L')"
      by (auto simp: res_simps)
    from reduce_equity [OF this e(6) _ _ met [unfolded Some] e(1,5,2)] False show ?thesis by simp
  qed
qed

section \<open>A whole fill\<close>

lemma same_positions_equity: "lg_positions L' = lg_positions L \<Longrightarrow> account_equity P L' = account_equity P L"
  by (simp add: account_equity_def)

text \<open>C9: a reduce-only fill is safe: whenever an order that is reduce-only (an exit order or a manual close) is
  applied to the ledger, whatever its quantity, its side and the position it meets, no position is opened or
  reversed, no quantity grows, and none changes sides: the positions afterwards are those before, in the
  same order and with the same identity, each with its quantity or one closer to zero on the same side.\<close>

theorem reduce_only_fill_never_opens:
  assumes "paper_fill_command piso pystr now order = Inr f" and "fc_reduce_only f"
    and "apply_filled_paper_order piso pystr id_rank now order L = Inr (out, L')"
    and "list_all (\<lambda>p. fl_ok (ps_qty p)) (lg_positions L)"
  shows "list_all2 (\<lambda>p p'. (ps_id p', ps_payload p', ps_timeframe p') = (ps_id p, ps_payload p, ps_timeframe p)
    \<and> shrinks (ps_qty p) (ps_qty p')) (lg_positions L) (lg_positions L')"
proof -
  have "apply_paper_fill piso pystr id_rank now f L = Inr (out, L')"
    using assms(1,3) by (simp add: apply_filled_paper_order_def)
  from apply_stages [OF this] have "positions_shrink L L'"
  proof (elim disjE exE conjE)
    fix L1 assume "orders_grow L L1" "orders_grow L1 L'"
    then show ?thesis by (intro same_positions_shrink) (simp add: orders_grow_positions)
  next
    fix L1 position assume g: "orders_grow L L1" and m: "met_position f position L1" "fc_reduce_only f \<longrightarrow> position \<noteq> None"
      and c: "commit_paper_fill piso pystr id_rank f position L1 = Inr (out, L')"
    from m(2) assms(2) obtain r where r: "position = Some r" by blast
    from c obtain tr L2 where t: "transition_paper_position piso pystr f position L1 = Inr (tr, L2)"
      "lg_positions L' = lg_positions L2" by (rule commit_transition)
    have "fl_ok (ps_qty r)" using m(1) assms(4) orders_grow_positions [OF g] by (auto simp: r met_position_def list_all_iff)
    from reduce_only_shrinks [OF t(1) [unfolded r] assms(2) m(1) [unfolded r] this] show ?thesis
      by (simp add: positions_shrink_def t(2) orders_grow_positions [OF g])
  qed
  then show ?thesis by (simp add: positions_shrink_def position_identity_def)
qed

text \<open>C10: a fill keeps the equity of the account: applying an order - opening a position, adding to it, reducing,
  closing or reversing it, or finding nothing to do - leaves the sum over all positions of the realised profit
  and the open quantity times the distance of the fill price from the average entry as it was, whenever the
  float operations of the fill are exact (and what would be left as dust is nothing): the average price, the
  realised profit and the quantities that the branches compute agree with each other.\<close>

theorem fill_keeps_equity:
  assumes "paper_fill_command piso pystr now order = Inr f"
    and "apply_filled_paper_order piso pystr id_rank now order L = Inr (out, L')" and "exact_fill f L"
  shows "account_equity (fc_price f) L' = account_equity (fc_price f) L"
proof -
  have "apply_paper_fill piso pystr id_rank now f L = Inr (out, L')"
    using assms(1,2) by (simp add: apply_filled_paper_order_def)
  from apply_stages [OF this] show ?thesis
  proof (elim disjE exE conjE)
    fix L1 assume "orders_grow L L1" "orders_grow L1 L'"
    then show ?thesis by (intro same_positions_equity) (simp add: orders_grow_positions)
  next
    fix L1 position assume g: "orders_grow L L1" and m: "met_position f position L1"
      and c: "commit_paper_fill piso pystr id_rank f position L1 = Inr (out, L')"
    from c obtain tr L2 where t: "transition_paper_position piso pystr f position L1 = Inr (tr, L2)"
      "lg_positions L' = lg_positions L2" by (rule commit_transition)
    have "exact_fill f L1" using assms(3) by (simp add: exact_fill_def orders_grow_positions [OF g])
    from transition_equity [OF t(1) m this] show ?thesis
      using same_positions_equity [OF orders_grow_positions [OF g]] same_positions_equity [OF t(2)] by simp
  qed
qed

section \<open>An example\<close>

lemma example_filled:
  "case paper_fill_command no_iso no_str 0 example_reduction of Inl _ \<Rightarrow> False | Inr f \<Rightarrow>
    fc_reduce_only f \<and> exact_fill f example_ledger
    \<and> (case apply_paper_fill no_iso no_str no_rank 0 f example_ledger of Inl _ \<Rightarrow> False
        | Inr (out, L) \<Rightarrow> fo_outcome out = ''filled'' \<and> map ps_qty (lg_positions L) = [Fin 1])"
  by code_simp

lemma example_command:
  obtains f out L where "paper_fill_command no_iso no_str 0 example_reduction = Inr f" "fc_reduce_only f"
    "exact_fill f example_ledger" "example_fill example_reduction example_ledger = Inr (out, L)"
    "fo_outcome out = ''filled''" "map ps_qty (lg_positions L) = [Fin 1]"
  using example_filled by (auto simp: apply_filled_paper_order_def split: sum.splits)

theorem reduce_only_fill_never_opens_witness:
  "\<exists>f out L. paper_fill_command no_iso no_str 0 example_reduction = Inr f \<and> fc_reduce_only f
    \<and> example_fill example_reduction example_ledger = Inr (out, L)
    \<and> list_all2 (\<lambda>p p'. (ps_id p', ps_payload p', ps_timeframe p') = (ps_id p, ps_payload p, ps_timeframe p)
         \<and> shrinks (ps_qty p) (ps_qty p')) (lg_positions example_ledger) (lg_positions L)
    \<and> map ps_qty (lg_positions example_ledger) = [Fin 2] \<and> map ps_qty (lg_positions L) = [Fin 1]"
proof -
  obtain f out L where e: "paper_fill_command no_iso no_str 0 example_reduction = Inr f" "fc_reduce_only f"
    "example_fill example_reduction example_ledger = Inr (out, L)" "map ps_qty (lg_positions L) = [Fin 1]"
    by (rule example_command)
  have "list_all (\<lambda>p. fl_ok (ps_qty p)) (lg_positions example_ledger)"
    by (simp add: example_ledger_def example_position_def)
  from reduce_only_fill_never_opens [OF e(1-3) this] e show ?thesis
    by (auto simp: example_ledger_def example_position_def)
qed

theorem fill_keeps_equity_witness:
  "\<exists>f out L. paper_fill_command no_iso no_str 0 example_reduction = Inr f \<and> exact_fill f example_ledger
    \<and> example_fill example_reduction example_ledger = Inr (out, L) \<and> fo_outcome out = ''filled''
    \<and> account_equity (fc_price f) L = account_equity (fc_price f) example_ledger"
proof -
  obtain f out L where e: "paper_fill_command no_iso no_str 0 example_reduction = Inr f" "exact_fill f example_ledger"
    "example_fill example_reduction example_ledger = Inr (out, L)" "fo_outcome out = ''filled''"
    by (rule example_command)
  from fill_keeps_equity [OF e(1,3,2)] e show ?thesis by blast
qed

end
