(* ===== verification/PaperOrders.thy ===== *)
theory PaperOrders
  imports PaperCommand
begin

text \<open>
  The orders of paper trading before they reach the ledger, \<open>ui/paper/orders.py\<close>: a request brought to its
  canonical form, the update of a pending order, and the marking of a filled one. \<open>order_digest\<close> is the
  hexadecimal SHA-1 of the JSON of a list of texts, \<open>clock\<close> the current time as text.
\<close>

definition active_paper_orders :: "(pyval \<Rightarrow> string) \<Rightarrow> vdict list \<Rightarrow> vdict list" where
  "active_paper_orders pystr orders =
    filter (\<lambda>order. py_lower (text_or pystr (vget order ''status'') ''pending'') = ''pending'') orders"

definition paper_order_id :: "(pyval \<Rightarrow> string) \<Rightarrow> (string list \<Rightarrow> string) \<Rightarrow> vdict \<Rightarrow> string \<Rightarrow> string res" where
  "paper_order_id pystr order_digest payload created_at =
    rbind (require_exact_identity_text (vget payload ''instrument_id'') ''instrument_id'' False) (\<lambda>instrument_id.
    rbind (require_exact_identity_text (vget payload ''route_fingerprint'') ''route_fingerprint'' False) (\<lambda>fingerprint.
      Inr (''po-'' @ take 14 (order_digest [instrument_id, fingerprint, text_or pystr (vget payload ''timeframe'') [],
        text_or pystr (vget payload ''side'') [], text_or pystr (vget payload ''order_type'') [],
        (if vget payload ''entry'' = VNone then [] else text_of pystr (vget payload ''entry'')), created_at]))))"

text \<open>The levels a protection by distance gives the request.\<close>

definition with_levels :: "levels option \<Rightarrow> vdict \<Rightarrow> vdict" where
  "with_levels levels payload = (case levels of None \<Rightarrow> payload
     | Some (stop, target) \<Rightarrow>
        let p = (case stop of None \<Rightarrow> payload
          | Some s \<Rightarrow> vset ''use_stop_loss'' (VBool True) (vset ''stop_loss'' (VFloat s) payload)) in
        (case target of None \<Rightarrow> p | Some t \<Rightarrow> vset ''use_target'' (VBool True) (vset ''target'' (VFloat t) p)))"

definition level_given :: "bool \<Rightarrow> pyval \<Rightarrow> pyfloat option" where
  "level_given use_level raw = (if use_level \<and> raw \<noteq> VNone then exact_finite_number_or_none raw else None)"

definition sides_fault :: "string \<Rightarrow> pyfloat \<Rightarrow> pyfloat option \<Rightarrow> pyfloat option \<Rightarrow> string" where
  "sides_fault side entry stop_loss target =
    (if side = ''long''
     then (if (case stop_loss of None \<Rightarrow> False | Some s \<Rightarrow> \<not> flt s entry) then ''long order requires stop_loss < entry''
       else if (case target of None \<Rightarrow> False | Some t \<Rightarrow> \<not> flt entry t) then ''long order requires entry < target'' else [])
     else (if (case stop_loss of None \<Rightarrow> False | Some s \<Rightarrow> \<not> flt entry s) then ''short order requires entry < stop_loss''
       else if (case target of None \<Rightarrow> False | Some t \<Rightarrow> \<not> flt t entry) then ''short order requires target < entry'' else []))"

definition add_reference :: "vdict \<Rightarrow> string \<Rightarrow> string \<Rightarrow> vdict \<Rightarrow> vdict res" where
  "add_reference payload key field order = (if vget payload key = VNone then Inr order
     else rbind (require_exact_identity_text (vget payload key) field False) (\<lambda>t. Inr (vset key (VStr t) order)))"

definition normalize_paper_order ::
  "iso_parser \<Rightarrow> (pyval \<Rightarrow> string) \<Rightarrow> (string list \<Rightarrow> string) \<Rightarrow> string \<Rightarrow> string option \<Rightarrow> vdict \<Rightarrow> vdict res" where
  "normalize_paper_order piso pystr order_digest clock now_iso request =
    rbind (canonical_manual_paper_protection pystr request
      (dpop (VStr ''paper_execution_config'') (case vget request ''payload'' of VDict d \<Rightarrow> d | _ \<Rightarrow> []))) (\<lambda>(levels, nested).
    let payload = with_levels levels request;
        created_at = (case now_iso of None \<Rightarrow> clock | Some t \<Rightarrow> if t = [] then clock else t);
        symbol = text_or pystr (vget payload ''symbol'') [] in
    rbind (require_exact_identity_text (vget payload ''instrument_id'') ''instrument_id'' False) (\<lambda>instrument_id.
    rbind (require_exact_identity_text (vget payload ''route_fingerprint'') ''route_fingerprint'' False) (\<lambda>fingerprint.
    let provider = py_lower (py_strip (text_or pystr (vget payload ''provider'') [])) in
    rbind (require_exact_identity_text (vget payload ''provider_contract_id'') ''provider_contract_id'' False) (\<lambda>contract_id.
    let timeframe = py_strip (text_or pystr (vget payload ''timeframe'') []);
        side = py_lower (py_strip (text_or pystr (vget payload ''side'') []));
        order_type = py_lower (py_strip (text_or pystr (vget payload ''order_type'') ''limit''));
        role = text_or pystr (vget payload ''role'') ''entry'' in
    if order_type \<notin> {''market'', ''limit'', ''stop''} then Inl (ValueError ''order_type must be market, limit or stop'')
    else if role \<notin> {''entry'', ''stop'', ''take'', ''close''} then Inl (ValueError ''role must be entry, stop, take or close'')
    else case vget_default payload ''reduce_only'' (VBool (role \<in> {''stop'', ''take'', ''close''})) of
      VBool reduce_only \<Rightarrow>
      rbind (if vget payload ''position_id'' = VNone then Inr None
        else rbind (require_exact_identity_text (vget payload ''position_id'') ''PAPER_POSITION_ID'' False) (\<lambda>t. Inr (Some t)))
        (\<lambda>position_id.
      if reduce_only \<and> position_id = None then Inl (ValueError ''reduce-only paper order requires position_id'')
      else if role \<in> {''stop'', ''take'', ''close''} \<and> \<not> reduce_only
      then Inl (ValueError ''protective and close paper orders must be reduce-only'')
      else case vget_default payload ''use_stop_loss'' (VBool (vget payload ''stop_loss'' \<noteq> VNone)) of
        VBool use_stop_loss \<Rightarrow>
        (case vget_default payload ''use_target'' (VBool (vget payload ''target'' \<noteq> VNone)) of
          VBool use_target \<Rightarrow>
          let stop_loss = level_given use_stop_loss (vget payload ''stop_loss'');
              target = level_given use_target (vget payload ''target'') in
          (case exact_finite_number_or_none (vget payload ''entry'') of
            None \<Rightarrow> Inl (ValueError ''entry and checked stop_loss/target must be finite numbers'')
          | Some entry \<Rightarrow>
            if (use_stop_loss \<and> stop_loss = None) \<or> (use_target \<and> target = None)
            then Inl (ValueError ''entry and checked stop_loss/target must be finite numbers'')
            else (case exact_finite_number_or_none (if vget payload ''qty'' = VNone then VInt 1 else vget payload ''qty'') of
              None \<Rightarrow> Inl (ValueError ''qty must be a positive finite number'')
            | Some qty \<Rightarrow>
              if fle qty (Fin 0) then Inl (ValueError ''qty must be a positive finite number'')
              else if symbol = [] \<or> timeframe = [] then Inl (ValueError ''symbol and timeframe are required'')
              else if provider = []
              then Inl (ValueError ''instrument_id, route_fingerprint, provider and provider_contract_id are required'')
              else if side \<notin> {''long'', ''short''} then Inl (ValueError ''side must be long or short'')
              else
              rbind (if vget payload ''paper_contract'' = VNone
                then paper_instrument_contract piso (VStr provider) (VStr contract_id)
                else require_paper_contract_identity piso payload) (\<lambda>contract.
              if sides_fault side entry stop_loss target \<noteq> [] then Inl (ValueError (sides_fault side entry stop_loss target))
              else
              rbind (if vget payload ''id'' = VNone then paper_order_id pystr order_digest payload created_at
                else require_exact_identity_text (vget payload ''id'') ''PAPER_ORDER_ID'' False) (\<lambda>order_id.
              let order = [(VStr ''id'', VStr order_id), (VStr ''symbol'', VStr symbol), (VStr ''instrument_id'', VStr instrument_id),
                    (VStr ''route_fingerprint'', VStr fingerprint), (VStr ''provider'', VStr provider),
                    (VStr ''provider_contract_id'', VStr contract_id), (VStr ''paper_contract'', VDict (contract_payload contract)),
                    (VStr ''timeframe'', VStr timeframe), (VStr ''side'', VStr side), (VStr ''order_type'', VStr order_type),
                    (VStr ''status'', VStr ''pending''), (VStr ''qty'', VFloat qty), (VStr ''entry'', VFloat entry),
                    (VStr ''stop_loss'', opt_val stop_loss), (VStr ''target'', opt_val target),
                    (VStr ''use_stop_loss'', VBool (stop_loss \<noteq> None)), (VStr ''use_target'', VBool (target \<noteq> None)),
                    (VStr ''created_at'', VStr created_at), (VStr ''updated_at'', VStr created_at),
                    (VStr ''source'', VStr (text_or pystr (vget payload ''source'') ''manual'')),
                    (VStr ''note'', VStr (take 240 (py_strip (text_or pystr (vget payload ''note'') [])))),
                    (VStr ''payload'', VDict nested), (VStr ''role'', VStr role), (VStr ''reduce_only'', VBool reduce_only)]
                    @ (case position_id of None \<Rightarrow> [] | Some t \<Rightarrow> [(VStr ''position_id'', VStr t)]) in
              rbind (add_reference payload ''parent_order_id'' ''PAPER_ORDER_PARENT_ORDER_ID'' order) (\<lambda>order1.
              rbind (add_reference payload ''oco_group_id'' ''PAPER_ORDER_OCO_GROUP_ID'' order1) (\<lambda>order2.
              rbind (require_paper_order_protection order2) (\<lambda>protection.
                Inr (vset ''payload'' (VDict protection) order2))))))))
        | _ \<Rightarrow> Inl (ValueError ''use_target must be a boolean''))
      | _ \<Rightarrow> Inl (ValueError ''use_stop_loss must be a boolean''))
    | _ \<Rightarrow> Inl (ValueError ''reduce_only must be a boolean'')))))"

section \<open>Updating a pending order\<close>

text \<open>\<open>except TypeError, ValueError: pass\<close> after the part of a patch that was already written.\<close>

definition unless_caught :: "vdict \<Rightarrow> 'a res \<Rightarrow> ('a \<Rightarrow> vdict res) \<Rightarrow> vdict res" where
  "unless_caught patch r k = (case r of Inr x \<Rightarrow> k x
     | Inl e \<Rightarrow> if is_type_error e \<or> is_value_error e then Inr patch else Inl e)"

text \<open>Moving only the entry moves the levels with it.\<close>

definition shifted_patch :: "vdict \<Rightarrow> vdict \<Rightarrow> vdict res" where
  "shifted_patch order patch =
    (if vhas patch ''entry'' \<and> \<not> vhas patch ''stop_loss'' \<and> \<not> vhas patch ''target''
     then unless_caught patch (py_float (vget order ''entry'')) (\<lambda>old_entry.
       unless_caught patch (py_float (vget patch ''entry'')) (\<lambda>new_entry.
       let delta = fsub new_entry old_entry in
       if vget order ''use_stop_loss'' \<noteq> VBool False \<and> vget order ''stop_loss'' \<noteq> VNone
       then unless_caught patch (py_float (vget order ''stop_loss'')) (\<lambda>s.
         let patch1 = vset ''stop_loss'' (VFloat (fadd s delta)) patch in
         if vget order ''use_target'' \<noteq> VBool False \<and> vget order ''target'' \<noteq> VNone
         then unless_caught patch1 (py_float (vget order ''target'')) (\<lambda>t. Inr (vset ''target'' (VFloat (fadd t delta)) patch1))
         else Inr patch1)
       else if vget order ''use_target'' \<noteq> VBool False \<and> vget order ''target'' \<noteq> VNone
       then unless_caught patch (py_float (vget order ''target'')) (\<lambda>t. Inr (vset ''target'' (VFloat (fadd t delta)) patch))
       else Inr patch))
     else Inr patch)"

definition patched_payload :: "bool \<Rightarrow> vdict \<Rightarrow> vdict \<Rightarrow> vdict \<Rightarrow> vdict" where
  "patched_payload explicit_basis current_payload patch merged =
    (if explicit_basis
     then vset ''payload'' (VDict (dpop (VStr ''paper_protection_intent'') (dpop (VStr ''protection_basis'') current_payload))) merged
     else case vget current_payload ''paper_protection_intent'' of
       VDict intent \<Rightarrow>
         let intent1 = (if vget patch ''use_stop_loss'' = VBool False then vset ''stop_points'' VNone intent else intent);
             intent2 = (if vget patch ''use_target'' = VBool False then vset ''target_points'' VNone intent1 else intent1)
         in vset ''payload'' (VDict (vset ''paper_protection_intent'' (VDict intent2) current_payload)) merged
     | _ \<Rightarrow> merged)"

definition kept_fields :: "string list" where
  "kept_fields = [''instrument_id'', ''route_fingerprint'', ''provider'', ''provider_contract_id'', ''role'', ''position_id'',
     ''parent_order_id'', ''oco_group_id'', ''reduce_only'', ''source'']"

definition keep_field :: "vdict \<Rightarrow> string \<Rightarrow> vdict \<Rightarrow> vdict" where
  "keep_field order key updated = (if vhas order key then vset key (vget order key) updated else updated)"

definition update_paper_order ::
  "iso_parser \<Rightarrow> (pyval \<Rightarrow> string) \<Rightarrow> (string list \<Rightarrow> string) \<Rightarrow> string \<Rightarrow> string option \<Rightarrow> vdict \<Rightarrow> vdict \<Rightarrow> vdict res" where
  "update_paper_order piso pystr order_digest clock now_iso order patch0 =
    (let explicit_basis = list_ex (vhas patch0) [''stop_loss'', ''target'', ''stop_points'', ''target_points''];
         current_payload = (case vget order ''payload'' of VDict d \<Rightarrow> d | _ \<Rightarrow> []) in
     case vget current_payload ''paper_execution_config'' of
       VDict config \<Rightarrow>
        rbind (shifted_patch order patch0) (\<lambda>patch.
        let merged = patched_payload explicit_basis current_payload patch (dmerge order patch);
            created_at = text_or pystr (vget order ''created_at'') clock in
        rbind (require_exact_identity_text (vget order ''id'') ''PAPER_ORDER_ID'' False) (\<lambda>order_id.
        rbind (normalize_paper_order piso pystr order_digest clock (Some created_at)
          (vset ''created_at'' (VStr created_at) (vset ''id'' (VStr order_id) merged))) (\<lambda>updated.
        Inr (fold (keep_field order) kept_fields
          (vset ''payload'' (VDict (vset ''paper_execution_config'' (VDict config)
              (case vget updated ''payload'' of VDict d \<Rightarrow> d | _ \<Rightarrow> [])))
            (vset ''updated_at'' (VStr (case now_iso of None \<Rightarrow> clock | Some t \<Rightarrow> if t = [] then clock else t))
              (vset ''created_at'' (VStr (text_or pystr (vget order ''created_at'') (text_or pystr (vget updated ''created_at'') clock)))
                (vset ''status'' (VStr (text_or pystr (vget order ''status'') ''pending''))
                  (vset ''id'' (VStr order_id) updated)))))))))
     | _ \<Rightarrow> Inl (ValueError ''PAPER_EXECUTION_CONFIG_REQUIRED''))"

definition mark_order_filled :: "string \<Rightarrow> vdict \<Rightarrow> string option \<Rightarrow> pyfloat option \<Rightarrow> vdict res" where
  "mark_order_filled clock order filled_at fill_price =
    (let ts = (case filled_at of None \<Rightarrow> clock | Some t \<Rightarrow> if t = [] then clock else t) in
     rbind (case fill_price of Some x \<Rightarrow> Inr (finite_or_none (Some x)) | None \<Rightarrow> float_or_none (vget order ''entry'')) (\<lambda>resolved.
     case resolved of
       None \<Rightarrow> Inl (ValueError ''fill_price must be a finite number'')
     | Some price \<Rightarrow> Inr (dmerge order [(VStr ''status'', VStr ''filled''), (VStr ''filled_at'', VStr ts),
         (VStr ''fill_price'', VFloat price), (VStr ''updated_at'', VStr ts)])))"

end
