(* ===== verification/PaperExecution.thy ===== *)
theory PaperExecution
  imports PaperOrders TradePlan
begin

text \<open>
  \<open>ui/paper/execution.py\<close>: what a price snapshot does to a pending order, without the ledger. A snapshot
  is brought to one form, the order is touched or not, the levels of an order protected by distance follow the fill,
  the plan is judged at the fill price, and the outcome is an order ready for the ledger, a rejection, or nothing yet.
  Also \<open>ui/paper/config.py\<close>, \<open>signals/direction.py\<close> and the rejection texts of \<open>runtime/presentation.py\<close>.
\<close>

section \<open>Values\<close>

text \<open>\<open>round(frac * 1e6)\<close> of the fraction of a second, as \<open>datetime.fromtimestamp\<close> computes it.\<close>

definition from_timestamp :: "pyfloat \<Rightarrow> instant option" where
  "from_timestamp x = (case x of
      Fin r \<Rightarrow> (case fmul (Fin (r - of_int (trunc_rat r))) (Fin 1000000) of
          Fin us \<Rightarrow> let t = trunc_rat r * us_per_second + round_half_even us in if in_dt_range t then Some t else None
        | _ \<Rightarrow> None)
    | _ \<Rightarrow> None)"

definition number_instant :: "pyval \<Rightarrow> instant option res" where
  "number_instant v = rbind (py_float v) (\<lambda>raw.
     if \<not> isfinite raw then Inr None
     else rbind (if flt (Fin 10000000000) raw then fdiv raw (Fin 1000) else Inr raw) (\<lambda>seconds. Inr (from_timestamp seconds)))"

definition aware_instant :: "pydatetime \<Rightarrow> instant option res" where
  "aware_instant d = (if is_aware d then rbind (astimezone_utc d) (\<lambda>t. Inr (Some t)) else Inr None)"

definition utc_datetime_or_none :: "iso_parser \<Rightarrow> pyval \<Rightarrow> instant option res" where
  "utc_datetime_or_none piso v = (case v of
      VDateTime d \<Rightarrow> aware_instant d
    | VInt n \<Rightarrow> number_instant v
    | VFloat x \<Rightarrow> number_instant v
    | _ \<Rightarrow> if is_str v \<and> py_strip (str_of v) \<noteq> []
        then (case piso (replace_Z (str_of v)) of None \<Rightarrow> Inr None | Some d \<Rightarrow> aware_instant d)
        else Inr None)"

definition finite_price :: "pyval \<Rightarrow> pyfloat option" where
  "finite_price v = exact_finite_number_or_none v"

definition direction_from_any :: "pyval \<Rightarrow> direction" where
  "direction_from_any v = (case (if is_str v then direction_of (str_of v) else None) of Some d \<Rightarrow> d | None \<Rightarrow> FLAT)"

text \<open>The format \<open>:g\<close>: six significant digits, no trailing zeros, an exponent outside \<open>1e-4 \<le> x < 1e6\<close>.\<close>

definition decimal_exponent :: "rat \<Rightarrow> int" where
  "decimal_exponent q = (if 1 \<le> q then int (length (str_of_nat (nat \<lfloor>q\<rfloor>))) - 1
     else - int (length (str_of_nat (nat (\<lceil>1 / q\<rceil> - 1)))))"

definition six_digits :: "rat \<Rightarrow> int \<times> string" where
  "six_digits q = (let e = decimal_exponent q; m = round_half_even (q * 10 powi (5 - e)) in
     if m = 1000000 then (e + 1, ''100000'') else (e, str_of_nat (nat m)))"

definition strip_zeros :: "string \<Rightarrow> string" where
  "strip_zeros s = rev (dropWhile (\<lambda>c. c = CHR ''0'') (rev s))"

definition dotted :: "string \<Rightarrow> string \<Rightarrow> string" where
  "dotted whole fraction = (if fraction = [] then whole else whole @ ''.'' @ fraction)"

definition format_g :: "pyfloat \<Rightarrow> string" where
  "format_g x = (case x of PInf \<Rightarrow> ''inf'' | NInf \<Rightarrow> ''-inf'' | NaN \<Rightarrow> ''nan''
    | Fin r \<Rightarrow> (if r = 0 then ''0''
       else (if r < 0 then ''-'' else []) @ (case six_digits \<bar>r\<bar> of (e, ds) \<Rightarrow>
         if e < -4 \<or> 6 \<le> e
         then dotted (take 1 ds) (strip_zeros (drop 1 ds)) @ ''e'' @ (if e < 0 then ''-'' else ''+'') @ pad_int 2 \<bar>e\<bar>
         else if 0 \<le> e then dotted (take (nat (e + 1)) ds) (strip_zeros (drop (nat (e + 1)) ds))
         else dotted ''0'' (replicate (nat (- e - 1)) (CHR ''0'') @ strip_zeros ds))))"

definition attribute_of :: "domain_fact \<Rightarrow> string \<Rightarrow> pyfloat" where
  "attribute_of f k = (case map_of (fact_attributes f) k of Some (VFloat x) \<Rightarrow> x | _ \<Rightarrow> NaN)"

definition trade_plan_rejection_text :: "domain_fact option \<Rightarrow> string res" where
  "trade_plan_rejection_text rejection = (case rejection of None \<Rightarrow> Inr []
    | Some f \<Rightarrow>
      if fact_code f = ''stop_through_fill''
      then Inr (''stop '' @ format_g (attribute_of f ''stop'') @ '' through fill '' @ format_g (attribute_of f ''fill_price''))
      else if fact_code f = ''target_through_fill''
      then Inr (''target '' @ format_g (attribute_of f ''target'') @ '' through fill '' @ format_g (attribute_of f ''fill_price''))
      else if fact_code f = ''execution_rr_below_minimum''
      then Inr (''RR '' @ format_2f (attribute_of f ''rr'') @ '' below min '' @ format_2f (attribute_of f ''minimum'') @ '' at fill'')
      else (case map_of [(''flat_direction'', ''flat direction''), (''incomplete_trade_plan'', ''incomplete trade plan''),
            (''incoherent_trade_plan_at_fill'', ''trade plan incoherent at execution price''),
            (''invalid_minimum_reward_risk'', ''invalid minimum reward/risk''),
            (''invalid_trade_plan_risk'', ''invalid trade plan risk''),
            (''unrealistic_stop_distance_at_fill'', ''unrealistic stop distance at fill'')] (fact_code f) of
          None \<Rightarrow> Inl KeyError | Some t \<Rightarrow> Inr t))"

section \<open>Configuration\<close>

definition PAPER_ALLOWED_MIN_RR :: "pyfloat list" where
  "PAPER_ALLOWED_MIN_RR = [Fin (3 / 4), Fin (5 / 4), Fin (3 / 2), Fin 2]"

definition paper_min_rr :: "pyval \<Rightarrow> pyfloat res" where
  "paper_min_rr v = (if is_bool v then Inl (ValueError ''PAPER_MIN_RR_INVALID'')
     else case py_float v of
       Inl e \<Rightarrow> if is_type_error e \<or> is_value_error e then Inl (ValueError ''PAPER_MIN_RR_INVALID'') else Inl e
     | Inr raw \<Rightarrow> if list_ex (feq raw) PAPER_ALLOWED_MIN_RR then Inr raw else Inl (ValueError ''PAPER_MIN_RR_INVALID''))"

definition paper_config :: "vdict \<Rightarrow> vdict res" where
  "paper_config raw =
    (if set (dkeys raw) \<noteq> {VStr ''min_rr'', VStr ''edge_gate''} then Inl (ValueError ''PAPER_CONFIG_FIELDS_INVALID'')
     else case vget raw ''edge_gate'' of
       VBool edge_gate \<Rightarrow> rbind (paper_min_rr (vget raw ''min_rr'')) (\<lambda>min_rr.
         Inr [(VStr ''min_rr'', VFloat min_rr), (VStr ''edge_gate'', VBool edge_gate)])
     | _ \<Rightarrow> Inl (ValueError ''PAPER_EDGE_GATE_INVALID''))"

section \<open>The snapshot and the touch\<close>

definition snapshot_fields :: "(pyval \<Rightarrow> string) \<Rightarrow> vdict \<Rightarrow> pyfloat \<Rightarrow> instant option \<Rightarrow> vdict" where
  "snapshot_fields pystr s price ts = [
     (VStr ''price'', VFloat price),
     (VStr ''low'', VFloat (case finite_price (vget s ''low'') of None \<Rightarrow> price | Some x \<Rightarrow> x)),
     (VStr ''high'', VFloat (case finite_price (vget s ''high'') of None \<Rightarrow> price | Some x \<Rightarrow> x)),
     (VStr ''range_kind'', VStr (text_or pystr (vget s ''range_kind'') ''price'')),
     (VStr ''ts'', case ts of None \<Rightarrow> VNone | Some t \<Rightarrow> VDateTime (utc_datetime t)),
     (VStr ''source'', VStr (text_or pystr (vget s ''source'') ''screen'')),
     (VStr ''bar_slot'', opt_val (finite_price
       (if vget s ''bar_slot'' \<noteq> VNone then vget s ''bar_slot'' else vget s ''barSlot'')))]"

definition normalize_execution_snapshot ::
  "iso_parser \<Rightarrow> (pyval \<Rightarrow> string) \<Rightarrow> vdict option \<Rightarrow> vdict option res" where
  "normalize_execution_snapshot piso pystr snapshot = (case snapshot of None \<Rightarrow> Inr None
    | Some s \<Rightarrow> (case finite_price (vget s ''price'') of None \<Rightarrow> Inr None
       | Some price \<Rightarrow> rbind (utc_datetime_or_none piso (vget s ''ts'')) (\<lambda>ts.
           Inr (Some (snapshot_fields pystr s price ts)))))"

text \<open>A price and the time of a normalised snapshot.\<close>

definition price_at :: "vdict \<Rightarrow> string \<Rightarrow> pyfloat" where
  "price_at snap k = (case vget snap k of VFloat x \<Rightarrow> x | _ \<Rightarrow> NaN)"

definition snapshot_time :: "vdict \<Rightarrow> instant option" where
  "snapshot_time snap = (case vget snap ''ts'' of VDateTime (DateTime t _) \<Rightarrow> Some t | _ \<Rightarrow> None)"

record execution_touch =
  et_fill_price :: pyfloat
  et_authority_ts :: "instant option"

definition touch_price :: "string \<Rightarrow> string \<Rightarrow> pyfloat \<Rightarrow> vdict \<Rightarrow> pyfloat option" where
  "touch_price order_type side entry snap =
    (let price = price_at snap ''price''; bar = (vget snap ''range_kind'' = VStr ''bar'');
         low = price_at snap ''low''; high = price_at snap ''high'' in
     if order_type = ''market'' \<and> side \<in> {''long'', ''short''} \<and> vget snap ''range_kind'' = VStr ''quote'' then Some price
     else if side = ''long'' \<and> order_type = ''limit''
     then (if fle price entry then Some price else if bar \<and> fle low entry then Some entry else None)
     else if side = ''long'' \<and> order_type = ''stop''
     then (if fle entry price then Some price else if bar \<and> fle entry high then Some entry else None)
     else if side = ''short'' \<and> order_type = ''limit''
     then (if fle entry price then Some price else if bar \<and> fle entry high then Some entry else None)
     else if side = ''short'' \<and> order_type = ''stop''
     then (if fle price entry then Some price else if bar \<and> fle low entry then Some entry else None)
     else None)"

definition paper_order_touch ::
  "iso_parser \<Rightarrow> (pyval \<Rightarrow> string) \<Rightarrow> vdict \<Rightarrow> vdict option \<Rightarrow> execution_touch option res" where
  "paper_order_touch piso pystr order snapshot =
    rbind (normalize_execution_snapshot piso pystr snapshot) (\<lambda>snapped. (case snapped of None \<Rightarrow> Inr None
    | Some snap \<Rightarrow>
      (case finite_price (vget order ''entry'') of None \<Rightarrow> Inr None
       | Some entry \<Rightarrow>
         let order_type = py_lower (text_or pystr (vget order ''order_type'') ''limit'');
             side = py_lower (text_or pystr (vget order ''side'') []) in
         Inr (map_option (\<lambda>p. \<lparr>et_fill_price = p, et_authority_ts = snapshot_time snap\<rparr>)
           (touch_price order_type side entry snap)))))"

section \<open>The order at the fill\<close>

definition paper_execution_config :: "vdict \<Rightarrow> vdict res" where
  "paper_execution_config order = (case vget order ''payload'' of
      VDict payload \<Rightarrow> (case vget payload ''paper_execution_config'' of
          VDict stored \<Rightarrow> paper_config stored
        | _ \<Rightarrow> Inl (ValueError ''PAPER_EXECUTION_CONFIG_REQUIRED''))
    | _ \<Rightarrow> Inl (ValueError ''PAPER_EXECUTION_CONFIG_REQUIRED''))"

text \<open>\<open>str(exc)\<close> of the \<open>ValueError\<close> the protection raises.\<close>

definition error_text :: "exn \<Rightarrow> string" where
  "error_text e = (case e of ValueError t \<Rightarrow> t | _ \<Rightarrow> [])"

definition flag_set :: "vdict \<Rightarrow> string \<Rightarrow> bool" where
  "flag_set order k = (vget order k = VBool True)"

definition distance_missing :: "bool \<Rightarrow> pyfloat option \<Rightarrow> bool" where
  "distance_missing use_level points = (use_level \<and> (case points of None \<Rightarrow> True | Some p \<Rightarrow> fle p (Fin 0)))"

definition paper_order_at_fill :: "(pyval \<Rightarrow> string) \<Rightarrow> vdict \<Rightarrow> pyfloat \<Rightarrow> (vdict \<times> string) res" where
  "paper_order_at_fill pystr order fill_price =
    (case require_paper_order_protection order of
       Inl e \<Rightarrow> if is_value_error e then Inr (order, error_text e) else Inl e
     | Inr payload \<Rightarrow>
       if vget payload ''protection_basis'' = VStr ''absolute_structure'' then Inr (order, [])
       else (case mapping_items (vget payload ''paper_protection_intent'') of
          None \<Rightarrow> Inl AttributeError
        | Some intent \<Rightarrow>
          let stop_points = exact_finite_number_or_none (vget intent ''stop_points'');
              target_points = exact_finite_number_or_none (vget intent ''target_points'');
              use_stop_loss = flag_set order ''use_stop_loss''; use_target = flag_set order ''use_target'' in
          if distance_missing use_stop_loss stop_points \<or> distance_missing use_target target_points
          then Inr (order, ''incomplete fill-distance protection intent'')
          else rbind (paper_manual_protective_levels pystr [
              (VStr ''entry'', VFloat fill_price), (VStr ''side'', vget order ''side''),
              (VStr ''stop_points'', opt_val stop_points), (VStr ''target_points'', opt_val target_points),
              (VStr ''use_stop_loss'', VBool use_stop_loss), (VStr ''use_target'', VBool use_target)]) (\<lambda>levels.
            (case levels of
               None \<Rightarrow> Inr (order, ''invalid fill-distance protection intent'')
             | Some (stop, target) \<Rightarrow> Inr (dmerge order [
                 (VStr ''stop_loss'', if use_stop_loss then opt_val stop else VNone),
                 (VStr ''target'', if use_target then opt_val target else VNone),
                 (VStr ''use_stop_loss'', VBool use_stop_loss), (VStr ''use_target'', VBool use_target)], [])))))"

definition paper_execution_plan_rejection ::
  "string \<Rightarrow> pyfloat option \<Rightarrow> pyfloat option \<Rightarrow> pyfloat option \<Rightarrow> vdict \<Rightarrow> domain_fact option res" where
  "paper_execution_plan_rejection side fill_price stop target config =
    rbind (paper_config config) (\<lambda>c.
    let direction = direction_from_any (VStr side) in
    if direction = FLAT then float_fact ''flat_direction'' []
    else execution_plan_rejection direction fill_price stop target (Some (price_at c ''min_rr'')))"

definition paper_fill_plan_rejection ::
  "(pyval \<Rightarrow> string) \<Rightarrow> vdict \<Rightarrow> pyfloat \<Rightarrow> vdict \<Rightarrow> domain_fact option res" where
  "paper_fill_plan_rejection pystr order fill_price config =
    (let use_stop_loss = flag_set order ''use_stop_loss''; use_target = flag_set order ''use_target'' in
     if \<not> use_stop_loss \<and> \<not> use_target then Inr None
     else
     let direction = direction_from_any (vget order ''side'') in
     if direction = FLAT then float_fact ''flat_direction'' []
     else
     let stop = (if use_stop_loss then finite_price (vget order ''stop_loss'') else None);
         target = (if use_target then finite_price (vget order ''target'') else None) in
     if use_stop_loss \<and> stop = None then float_fact ''incomplete_trade_plan'' []
     else if use_target \<and> target = None then float_fact ''incomplete_trade_plan'' []
     else case (stop, target) of
       (Some s, None) \<Rightarrow>
         if plan_stop_breached_at_price direction stop (Some fill_price)
         then float_fact ''stop_through_fill'' [(''stop'', s), (''fill_price'', fill_price)] else Inr None
     | (None, Some t) \<Rightarrow>
         if (direction = LONG \<and> fle t fill_price) \<or> (direction = SHORT \<and> fle fill_price t)
         then float_fact ''target_through_fill'' [(''target'', t), (''fill_price'', fill_price)] else Inr None
     | _ \<Rightarrow> paper_execution_plan_rejection (text_or pystr (vget order ''side'') []) (Some fill_price) stop target config)"

section \<open>The transition\<close>

datatype execution_outcome = ExecPending | ExecFilled | ExecRejected | ExecPriceUnavailable

record execution_metadata =
  em_fill_price :: "pyfloat option"
  em_source :: string
  em_ts :: "string option"
  em_bar_slot :: "pyfloat option"
  em_planned_entry :: "pyfloat option"
  em_analysis_bar_ts :: "string option"
  em_analysis_generation :: "string option"

definition opt_str_val :: "string option \<Rightarrow> pyval" where
  "opt_str_val s = (case s of None \<Rightarrow> VNone | Some t \<Rightarrow> VStr t)"

definition metadata_dict :: "execution_metadata \<Rightarrow> vdict" where
  "metadata_dict m = [
     (VStr ''fill_price'', opt_val (em_fill_price m)), (VStr ''source'', VStr (em_source m)),
     (VStr ''ts'', opt_str_val (em_ts m)), (VStr ''bar_slot'', opt_val (em_bar_slot m)),
     (VStr ''planned_entry'', opt_val (em_planned_entry m)), (VStr ''analysis_bar_ts'', opt_str_val (em_analysis_bar_ts m)),
     (VStr ''analysis_generation'', opt_str_val (em_analysis_generation m))]"

record execution_transition =
  ex_outcome :: execution_outcome
  ex_order :: vdict
  ex_code :: string
  ex_message :: string
  ex_execution :: execution_metadata

definition transition_of ::
  "execution_outcome \<Rightarrow> vdict \<Rightarrow> string \<Rightarrow> string \<Rightarrow> execution_metadata \<Rightarrow> execution_transition" where
  "transition_of outcome order code message execution =
    \<lparr>ex_outcome = outcome, ex_order = order, ex_code = code, ex_message = message, ex_execution = execution\<rparr>"

text \<open>No price yet: a market order says so, another order waits.\<close>

definition no_price :: "(pyval \<Rightarrow> string) \<Rightarrow> string \<Rightarrow> vdict \<Rightarrow> execution_metadata \<Rightarrow> execution_transition" where
  "no_price pystr message order execution =
    (if py_lower (text_or pystr (vget order ''order_type'') ''limit'') = ''market''
     then transition_of ExecPriceUnavailable order ''PAPER_EXECUTION_PRICE_UNAVAILABLE'' message execution
     else transition_of ExecPending order [] [] execution)"

text \<open>The analysis an order was made from: whether it names a bar, the bar's time, and its text.\<close>

definition analysis_facts ::
  "iso_parser \<Rightarrow> (pyval \<Rightarrow> string) \<Rightarrow> vdict \<Rightarrow> (bool \<times> instant option \<times> string option) res" where
  "analysis_facts piso pystr plan_payload =
    (let raw = vget plan_payload ''analysis_bar_ts'';
         present = (raw \<noteq> VNone \<and> (\<not> is_str raw \<or> py_strip (str_of raw) \<noteq> [])) in
     if \<not> present then Inr (False, None, None)
     else rbind (utc_datetime_or_none piso raw) (\<lambda>bar.
       Inr (True, bar, Some (case bar of Some t \<Rightarrow> isoformat_utc t | None \<Rightarrow> py_strip (text_of pystr raw)))))"

definition create_command_of :: "vdict \<Rightarrow> vdict" where
  "create_command_of order = (case vget order ''create_command'' of VDict c \<Rightarrow> c | _ \<Rightarrow> order)"

definition filled_transition ::
  "instant \<Rightarrow> instant option \<Rightarrow> vdict \<Rightarrow> vdict \<Rightarrow> vdict \<Rightarrow> pyfloat \<Rightarrow> execution_metadata \<Rightarrow> execution_transition res" where
  "filled_transition now filled_at snap order fill_ready fill_price execution =
    (let fill_time = (case filled_at of Some t \<Rightarrow> t | None \<Rightarrow> (case snapshot_time snap of Some t \<Rightarrow> t | None \<Rightarrow> now)) in
     rbind (mark_order_filled (isoformat_utc now) fill_ready (Some (isoformat_utc fill_time)) (Some fill_price)) (\<lambda>filled.
       Inr (transition_of ExecFilled (dmerge filled [
         (VStr ''create_command'', VDict (create_command_of order)), (VStr ''execution_source'', vget snap ''source''),
         (VStr ''execution_price'', VFloat fill_price), (VStr ''execution_ts'', opt_str_val (em_ts execution)),
         (VStr ''execution_bar_slot'', opt_val (em_bar_slot execution))]) [] [] execution)))"

definition paper_order_execution_transition ::
  "iso_parser \<Rightarrow> (pyval \<Rightarrow> string) \<Rightarrow> instant \<Rightarrow> vdict \<Rightarrow> vdict option \<Rightarrow> instant option \<Rightarrow> execution_transition res" where
  "paper_order_execution_transition piso pystr now order snapshot filled_at =
    (let plan_payload = (case vget order ''payload'' of VDict d \<Rightarrow> d | _ \<Rightarrow> []);
         planned_entry = finite_price (vget plan_payload ''planned_entry'');
         generation = py_strip (text_or pystr (vget plan_payload ''analysis_generation'') []) in
     rbind (analysis_facts piso pystr plan_payload) (\<lambda>(has_analysis, analysis_bar, analysis_text).
     rbind (normalize_execution_snapshot piso pystr snapshot) (\<lambda>snapped.
     let blank = \<lparr>em_fill_price = None, em_source = [], em_ts = None, em_bar_slot = None, em_planned_entry = planned_entry,
           em_analysis_bar_ts = analysis_text, em_analysis_generation = (if generation = [] then None else Some generation)\<rparr> in
     (case snapped of
        None \<Rightarrow> Inr (no_price pystr ''screen execution price is not available'' order blank)
      | Some snap \<Rightarrow>
        let snapshot_ts = snapshot_time snap;
            execution = blank\<lparr>em_source := str_of (vget snap ''source''), em_ts := map_option isoformat_utc snapshot_ts,
              em_bar_slot := finite_price (vget snap ''bar_slot'')\<rparr> in
        if has_analysis \<and> analysis_bar = None
        then Inr (transition_of ExecRejected order ''PAPER_EXECUTION_PLAN_GENERATION_INVALID''
          ''analysis bar timestamp is invalid'' execution)
        else if has_analysis \<and> snapshot_ts = None
        then Inr (transition_of ExecPriceUnavailable order ''PAPER_EXECUTION_SNAPSHOT_TIMESTAMP_UNAVAILABLE''
          ''execution snapshot timestamp is not available'' execution)
        else if has_analysis \<and> the snapshot_ts < the analysis_bar
        then Inr (transition_of ExecRejected order ''PAPER_EXECUTION_SNAPSHOT_STALE''
          ''execution snapshot predates the analysis bar'' execution)
        else rbind (paper_order_touch piso pystr order (Some snap)) (\<lambda>touched_at. (case touched_at of
            None \<Rightarrow> Inr (no_price pystr ''current paper reference price is not available'' order execution)
          | Some touch \<Rightarrow>
            let fill_price = et_fill_price touch;
                execution2 = execution\<lparr>em_fill_price := Some fill_price, em_ts := (case et_authority_ts touch of
                  None \<Rightarrow> em_ts execution | Some t \<Rightarrow> Some (isoformat_utc t))\<rparr> in
            if has_analysis \<and> (case (et_authority_ts touch, analysis_bar) of (Some a, Some b) \<Rightarrow> a < b | _ \<Rightarrow> True)
            then Inr (transition_of ExecRejected order ''PAPER_EXECUTION_SNAPSHOT_STALE''
              ''execution authority predates the analysis bar'' execution2)
            else
            rbind (paper_order_at_fill pystr order fill_price) (\<lambda>(fill_ready, intent_rejection).
            if intent_rejection \<noteq> []
            then Inr (transition_of ExecRejected order ''PAPER_EXECUTION_PLAN_REJECTED'' intent_rejection execution2)
            else
            rbind (paper_execution_config order) (\<lambda>config.
            rbind (paper_fill_plan_rejection pystr fill_ready fill_price config) (\<lambda>rejection.
            (case rejection of
               Some _ \<Rightarrow> rbind (trade_plan_rejection_text rejection) (\<lambda>text.
                 Inr (transition_of ExecRejected order ''PAPER_EXECUTION_PLAN_REJECTED'' text execution2))
             | None \<Rightarrow> filled_transition now filled_at snap order fill_ready fill_price execution2))))))))))"

end
