(* ===== verification/PaperSubmit.thy ===== *)
theory PaperSubmit
  imports PaperExecution PaperJournal
begin

text \<open>
  \<open>submit_paper_order_execution\<close> of \<open>ui/paper/execution.py\<close>: the command is reserved in the ledger, the snapshot
  is resolved, and the outcome is committed, each step in a transaction of its own. Between two of them
  other workers commit theirs: \<open>others n\<close> are the operations that reach the ledger before the \<open>n\<close>-th transaction
  of this submission. A pass either ends or starts the submission again; the passes are iterated as a partial function.
\<close>

section \<open>Transactions among others\<close>

record session =
  ss_turn :: nat
  ss_ledger :: ledger

type_synonym 'a step = "session \<Rightarrow> 'a res \<times> session"

text \<open>An exception leaves the ledger as the transaction found it.\<close>

definition transact ::
  "(paper_op list \<Rightarrow> ledger \<Rightarrow> ledger) \<Rightarrow> (nat \<Rightarrow> paper_op list) \<Rightarrow> (ledger \<Rightarrow> ('a \<times> ledger) res) \<Rightarrow> 'a step" where
  "transact perform others f s = (let L = perform (others (ss_turn s)) (ss_ledger s) in
    (case f L of
       Inl e \<Rightarrow> (Inl e, \<lparr>ss_turn = Suc (ss_turn s), ss_ledger = L\<rparr>)
     | Inr (x, L') \<Rightarrow> (Inr x, \<lparr>ss_turn = Suc (ss_turn s), ss_ledger = L'\<rparr>)))"

definition read_paper_order :: "iso_parser \<Rightarrow> string \<Rightarrow> string \<Rightarrow> string \<Rightarrow> ledger \<Rightarrow> (vdict option \<times> ledger) res" where
  "read_paper_order piso order_id instrument_id fingerprint L =
    (case filter (\<lambda>r. ow_id r = order_id \<and> fst (payload_route (ow_payload r)) = instrument_id
        \<and> fst (snd (payload_route (ow_payload r))) = fingerprint) (lg_orders L) of
       [] \<Rightarrow> Inr (None, L)
     | row # _ \<Rightarrow> rbind (paper_order_from_row piso row) (\<lambda>saved. Inr (Some saved, L)))"

section \<open>The submission\<close>

datatype submission_outcome = SubPending | SubFilled | SubNoOp | SubCancelled | SubRejected

record submission =
  sm_outcome :: submission_outcome
  sm_replayed :: bool
  sm_order :: vdict
  sm_result :: "fill_result option"
  sm_code :: string
  sm_message :: string
  sm_execution :: execution_metadata

text \<open>\<open>str(value) if value else None\<close>\<close>

definition text_if :: "(pyval \<Rightarrow> string) \<Rightarrow> pyval \<Rightarrow> string option" where
  "text_if pystr v = (if truthy v then Some (text_of pystr v) else None)"

definition replayed_execution :: "(pyval \<Rightarrow> string) \<Rightarrow> vdict \<Rightarrow> execution_metadata" where
  "replayed_execution pystr order = (let payload = dict_or_empty (vget order ''payload'') in
     \<lparr>em_fill_price = finite_price (vget order ''fill_price''), em_source = text_or pystr (vget order ''execution_source'') [],
      em_ts = text_if pystr (vget order ''execution_ts''), em_bar_slot = finite_price (vget order ''execution_bar_slot''),
      em_planned_entry = finite_price (vget payload ''planned_entry''),
      em_analysis_bar_ts = text_if pystr (vget payload ''analysis_bar_ts''),
      em_analysis_generation = text_if pystr (vget payload ''analysis_generation'')\<rparr>)"

definition rejected_execution :: "(pyval \<Rightarrow> string) \<Rightarrow> vdict \<Rightarrow> execution_metadata" where
  "rejected_execution pystr e =
     \<lparr>em_fill_price = finite_price (vget e ''fill_price''), em_source = text_or pystr (vget e ''source'') [],
      em_ts = text_if pystr (vget e ''ts''), em_bar_slot = finite_price (vget e ''bar_slot''),
      em_planned_entry = finite_price (vget e ''planned_entry''),
      em_analysis_bar_ts = text_if pystr (vget e ''analysis_bar_ts''),
      em_analysis_generation = text_if pystr (vget e ''analysis_generation'')\<rparr>"

text \<open>The command that already holds the id of a signal order, when it is of the same generation.\<close>

definition stable_generation_keys :: "string list" where
  "stable_generation_keys = [''trade_id'', ''analysis_generation'', ''analysis_bar_ts'', ''planned_entry'']"

definition resume_order :: "instant \<Rightarrow> exn \<Rightarrow> vdict \<Rightarrow> vdict option \<Rightarrow> vdict res" where
  "resume_order now collision order collided = (case collided of None \<Rightarrow> Inl collision
    | Some saved \<Rightarrow> (case vget saved ''create_command'' of
        VDict command \<Rightarrow>
          let requested = dict_or_empty (vget order ''payload''); stored = dict_or_empty (vget command ''payload'') in
          if \<not> truthy (vget requested ''trade_id'') \<or> \<not> truthy (vget requested ''analysis_generation'')
            \<or> list_ex (\<lambda>k. \<not> py_eq (vget stored k) (vget requested k)) stable_generation_keys
          then Inl collision
          else (case vget saved ''payload'' of
            VDict runtime \<Rightarrow>
              let or_else = (\<lambda>v w. if truthy v then v else w); created = or_else (vget saved ''created_at'') (VStr (isoformat_utc now)) in
              Inr (dmerge command [(VStr ''payload'', VDict runtime), (VStr ''status'', VStr ''pending''),
                (VStr ''created_at'', created), (VStr ''updated_at'', or_else (vget saved ''updated_at'') created)])
          | _ \<Rightarrow> Inl (ValueError ''PAPER_EXECUTION_CONFIG_REQUIRED''))
      | _ \<Rightarrow> Inl collision))"

datatype attempt = Done "submission res" session | Again vdict "instant option" session

text \<open>The next step of a pass, unless the step raised.\<close>

definition after :: "'a res \<times> session \<Rightarrow> ('a \<Rightarrow> session \<Rightarrow> attempt) \<Rightarrow> attempt" where
  "after m k = (case m of (Inl e, s) \<Rightarrow> Done (Inl e) s | (Inr x, s) \<Rightarrow> k x s)"

definition same_identity :: "vdict \<Rightarrow> string \<Rightarrow> string \<Rightarrow> string \<Rightarrow> bool res" where
  "same_identity saved order_id instrument_id fingerprint =
    rbind (require_exact_identity_text (vget saved ''id'') ''PAPER_ORDER_RESULT_ID'' False) (\<lambda>i.
    if i \<noteq> order_id then Inr False
    else rbind (require_exact_identity_text (vget saved ''instrument_id'') ''PAPER_ORDER_RESULT_INSTRUMENT_ID'' False) (\<lambda>n.
      if n \<noteq> instrument_id then Inr False
      else rbind (require_exact_identity_text (vget saved ''route_fingerprint'') ''PAPER_ORDER_RESULT_ROUTE_FINGERPRINT'' False)
        (\<lambda>f. Inr (f = fingerprint))))"

text \<open>An order that is already filled is filled again, which the ledger answers with what it holds.\<close>

definition replayed_submission :: "(pyval \<Rightarrow> string) \<Rightarrow> fill_result \<Rightarrow> submission res" where
  "replayed_submission pystr r =
    (if fo_outcome r \<notin> {''filled'', ''no_op''} then Inl (ValueError ''PAPER_ORDER_REPLAY_RESULT_INVALID'')
     else Inr \<lparr>sm_outcome = (if fo_outcome r = ''filled'' then SubFilled else SubNoOp), sm_replayed = True,
       sm_order = fo_order r, sm_result = Some r, sm_code = ''PAPER_ORDER_REPLAYED'',
       sm_message = ''paper order command is already filled'', sm_execution = replayed_execution pystr (fo_order r)\<rparr>)"

definition cancelled_submission :: "(pyval \<Rightarrow> string) \<Rightarrow> vdict \<Rightarrow> submission" where
  "cancelled_submission pystr saved =
    (let rejection = dict_or_empty (vget saved ''execution_rejection'') in
     \<lparr>sm_outcome = (if rejection = [] then SubCancelled else SubRejected), sm_replayed = True, sm_order = saved,
      sm_result = None, sm_code = text_or pystr (vget rejection ''code'') ''PAPER_ORDER_ALREADY_CANCELLED'',
      sm_message = text_or pystr (vget rejection ''reason'') ''paper order command is already cancelled'',
      sm_execution = rejected_execution pystr (dict_or_empty (vget rejection ''execution''))\<rparr>)"

definition committed_submission :: "(pyval \<Rightarrow> string) \<Rightarrow> execution_transition \<Rightarrow> fill_result \<Rightarrow> submission res" where
  "committed_submission pystr t r =
    (if fo_outcome r \<notin> {''filled'', ''cancelled'', ''no_op''} then Inl (ValueError ''PAPER_ORDER_FILL_RESULT_INVALID'')
     else let rejection = dict_or_empty (vget (fo_order r) ''execution_rejection'') in
     Inr \<lparr>sm_outcome = (if fo_outcome r = ''filled'' then SubFilled else if fo_outcome r = ''no_op'' then SubNoOp
         else if rejection \<noteq> [] then SubRejected else SubCancelled),
       sm_replayed = (fo_outcome r = ''no_op''), sm_order = fo_order r, sm_result = Some r,
       sm_code = text_or pystr (vget rejection ''code'') [], sm_message = text_or pystr (vget rejection ''reason'') [],
       sm_execution = ex_execution t\<rparr>)"

text \<open>An outcome that leaves the order pending, and one that was rejected and cancelled.\<close>

definition pending_submission :: "vdict \<Rightarrow> execution_transition \<Rightarrow> submission" where
  "pending_submission saved t = \<lparr>sm_outcome = SubPending, sm_replayed = False, sm_order = saved, sm_result = None,
     sm_code = ex_code t, sm_message = ex_message t, sm_execution = ex_execution t\<rparr>"

definition rejected_submission :: "vdict \<Rightarrow> execution_transition \<Rightarrow> submission" where
  "rejected_submission cancelled t = \<lparr>sm_outcome = SubRejected, sm_replayed = False, sm_order = cancelled, sm_result = None,
     sm_code = ex_code t, sm_message = ex_message t, sm_execution = ex_execution t\<rparr>"

definition status_of :: "(pyval \<Rightarrow> string) \<Rightarrow> vdict \<Rightarrow> string" where
  "status_of pystr order = py_lower (text_or pystr (vget order ''status'') [])"

text \<open>The time of a fresh execution.\<close>

definition resolution_time :: "iso_parser \<Rightarrow> instant \<Rightarrow> vdict option \<Rightarrow> instant option \<Rightarrow> instant res" where
  "resolution_time piso now snapshot execution_at = (case execution_at of Some t \<Rightarrow> Inr t
     | None \<Rightarrow> rbind (utc_datetime_or_none piso (case snapshot of None \<Rightarrow> VNone | Some s \<Rightarrow> vget s ''ts''))
         (\<lambda>t. Inr (case t of None \<Rightarrow> now | Some u \<Rightarrow> u)))"

record store =
  st_parser :: iso_parser
  st_text :: "pyval \<Rightarrow> string"
  st_rank :: "string \<Rightarrow> int"
  st_now :: instant
  st_others :: "nat \<Rightarrow> paper_op list"

definition in_store :: "store \<Rightarrow> (ledger \<Rightarrow> ('a \<times> ledger) res) \<Rightarrow> 'a step" where
  "in_store st = transact (paper_run (st_parser st) (st_text st) (st_rank st)) (st_others st)"

definition store_reserve :: "store \<Rightarrow> vdict \<Rightarrow> vdict step" where
  "store_reserve st order = in_store st (upsert_paper_order (st_parser st) (st_text st) (st_now st) order)"

definition store_fill :: "store \<Rightarrow> vdict \<Rightarrow> fill_result step" where
  "store_fill st order = in_store st (apply_filled_paper_order (st_parser st) (st_text st) (st_rank st) (st_now st) order)"

definition store_reject :: "store \<Rightarrow> string \<Rightarrow> instant \<Rightarrow> string \<Rightarrow> string \<Rightarrow> execution_transition \<Rightarrow> vdict option step" where
  "store_reject st i resolved n f t = in_store st (reject_paper_order_execution_if_pending (st_parser st) (st_now st) (VStr i)
     (Some (utc_datetime resolved)) (VStr n) (VStr f) (ex_code t) (ex_message t) (metadata_dict (ex_execution t)) None)"

text \<open>What the pass does with an order that is still pending.\<close>

definition execute_pending ::
  "store \<Rightarrow> (string \<times> string \<times> string) \<Rightarrow> vdict \<Rightarrow> vdict option \<Rightarrow> instant option \<Rightarrow> vdict \<Rightarrow> session \<Rightarrow> attempt" where
  "execute_pending st identity order snapshot execution_at saved s = (case identity of (i, n, f) \<Rightarrow>
    after (resolution_time (st_parser st) (st_now st) snapshot execution_at, s) (\<lambda>resolved s1.
    after (paper_order_execution_transition (st_parser st) (st_text st) (st_now st) saved snapshot (Some resolved), s1) (\<lambda>t s2.
    (case ex_outcome t of
       ExecPending \<Rightarrow> Done (Inr (pending_submission saved t)) s2
     | ExecPriceUnavailable \<Rightarrow> Done (Inr (pending_submission saved t)) s2
     | ExecRejected \<Rightarrow> after (store_reject st i resolved n f t s2) (\<lambda>cancelled s3. (case cancelled of
         Some c \<Rightarrow> Done (Inr (rejected_submission c t)) s3
       | None \<Rightarrow> after (store_reserve st order s3) (\<lambda>reconciled s4.
           if status_of (st_text st) reconciled \<notin> {''filled'', ''cancelled''}
           then Done (Inl (ValueError ''PAPER_ORDER_REJECTION_RACE_UNRESOLVED'')) s4
           else Again order (Some resolved) s4)))
     | ExecFilled \<Rightarrow> after (store_fill st (ex_order t) s2) (\<lambda>r s3. Done (committed_submission (st_text st) t r) s3)))))"

definition reserved_order ::
  "store \<Rightarrow> (string \<times> string \<times> string) \<Rightarrow> vdict \<Rightarrow> vdict option \<Rightarrow> instant option \<Rightarrow> vdict \<Rightarrow> session \<Rightarrow> attempt" where
  "reserved_order st identity order snapshot execution_at saved s = (case identity of (i, n, f) \<Rightarrow>
    after (same_identity saved i n f, s) (\<lambda>same s1.
    if \<not> same then Done (Inl (ValueError ''PAPER_ORDER_RESERVATION_IDENTITY_MISMATCH'')) s1
    else let status = status_of (st_text st) saved in
    if status = ''filled'' then after (store_fill st saved s1) (\<lambda>r s2. Done (replayed_submission (st_text st) r) s2)
    else if status = ''cancelled'' then Done (Inr (cancelled_submission (st_text st) saved)) s1
    else if status \<noteq> ''pending'' then Done (Inl (ValueError ''PAPER_ORDER_RESERVATION_STATUS_INVALID'')) s1
    else execute_pending st identity order snapshot execution_at saved s1))"

text \<open>Only a collision over the id of a signal order is resumed, with the command the ledger holds.\<close>

definition resumable :: "exn \<Rightarrow> string \<Rightarrow> bool" where
  "resumable e order_id = (e = PaperJournalError ''PAPER_ORDER_ID_COMMAND_COLLISION'' \<and> take 4 order_id = ''sig-'')"

definition submission_pass :: "store \<Rightarrow> vdict \<Rightarrow> vdict option \<Rightarrow> instant option \<Rightarrow> session \<Rightarrow> attempt" where
  "submission_pass st order snapshot execution_at s =
    after (paper_order_identity (vget order ''id'') (vget order ''instrument_id'') (vget order ''route_fingerprint''), s) (\<lambda>(i, n, f) s1.
    (case store_reserve st order s1 of
       (Inl e, s2) \<Rightarrow>
         if \<not> resumable e i then Done (Inl e) s2
         else after (in_store st (read_paper_order (st_parser st) i n f) s2) (\<lambda>collided s3.
           after (resume_order (st_now st) e order collided, s3) (\<lambda>resumed s4. Again resumed execution_at s4))
     | (Inr saved, s2) \<Rightarrow> reserved_order st (i, n, f) order snapshot execution_at saved s2))"

partial_function (option) submit_paper_order_execution ::
  "store \<Rightarrow> vdict \<Rightarrow> vdict option \<Rightarrow> instant option \<Rightarrow> session \<Rightarrow> (submission res \<times> session) option" where
  "submit_paper_order_execution st order snapshot execution_at s =
    (case submission_pass st order snapshot execution_at s of
       Done r s' \<Rightarrow> Some (r, s')
     | Again order' execution_at' s' \<Rightarrow> submit_paper_order_execution st order' snapshot execution_at' s')"

end
