(* ===== verification/PaperOrdersLaws.thy ===== *)
theory PaperOrdersLaws
  imports PaperOrders PaperReplay PaperExample
begin

text \<open>
  What a normalised and an updated order look like, and whether the ledger takes them.
\<close>

section \<open>The basis of a protection\<close>

definition basis_text :: "vdict \<Rightarrow> string" where
  "basis_text payload = str_of (vget payload ''protection_basis'')"

lemma protection_keeps_basis:
  assumes "require_paper_order_protection order = Inr p"
  shows "\<exists>d. mapping_items (vget order ''payload'') = Some d \<and> is_str (vget p ''protection_basis'')
    \<and> basis_text p = basis_text d"
proof -
  have "when_ok (require_paper_order_protection order) (\<lambda>p. \<exists>d. mapping_items (vget order ''payload'') = Some d
      \<and> is_str (vget p ''protection_basis'') \<and> basis_text p = basis_text d)"
    unfolding require_paper_order_protection_def
    by (intro ok_intros) (auto simp: basis_text_def in_texts_def when_ok_def Let_def res_simps
        split: if_splits pyval.splits bool.splits option.splits)
  then show ?thesis using assms by (rule when_okD)
qed

text \<open>Without distances and without a basis the levels are absolute.\<close>

lemma no_distances_absolute:
  assumes "\<not> vhas order ''stop_points''" "\<not> vhas order ''target_points''" "\<not> vhas meta ''protection_basis''"
    "canonical_manual_paper_protection pystr order meta = Inr (levels, nested)"
  shows "levels = None \<and> basis_text nested = ''absolute_structure''"
  using assms by (auto simp: canonical_manual_paper_protection_def basis_text_def Let_def split: if_splits)

section \<open>The normalised order\<close>

lemma add_reference_other: "add_reference payload key field order = Inr order' \<Longrightarrow> k \<noteq> key \<Longrightarrow> vget order' k = vget order k"
  by (auto simp: add_reference_def res_simps split: if_splits)

lemma dpop_vget: "vget (dpop (VStr k) d) k' = (if k' = k then VNone else vget d k')"
  by (simp add: vget_def dpop_def map_of_filter_in) (auto simp: delete_conv')

lemma when_ok_bool [ok_intros]:
  "(\<And>b. v = VBool b \<Longrightarrow> when_ok (f b) P) \<Longrightarrow> (\<And>b. v \<noteq> VBool b \<Longrightarrow> when_ok r P)
    \<Longrightarrow> when_ok (case v of VBool b \<Rightarrow> f b | _ \<Rightarrow> r) P"
  by (simp split: pyval.split)

definition basis_kept :: "vdict \<Rightarrow> vdict \<Rightarrow> bool" where
  "basis_kept nested order \<longleftrightarrow> (\<exists>protection. vget order ''payload'' = VDict protection
      \<and> is_str (vget protection ''protection_basis'') \<and> basis_text protection = basis_text nested)
    \<and> VStr ''create_command'' \<notin> set (dkeys order) \<and> distinct (dkeys order)"

lemma dkeys_vset [simp]: "set (dkeys (vset k v d)) = insert (VStr k) (set (dkeys d))"
  by (auto simp: vset_dset dkeys_dset dhas_in_dkeys)

lemma distinct_vset [simp]: "distinct (dkeys d) \<Longrightarrow> distinct (dkeys (vset k v d))"
  by (simp add: vset_dset distinct_dset)

lemma add_reference_keys:
  assumes "add_reference payload key field order = Inr order'"
  shows "set (dkeys order') \<subseteq> insert (VStr key) (set (dkeys order))" "distinct (dkeys order) \<Longrightarrow> distinct (dkeys order')"
  using assms by (auto simp: add_reference_def res_simps split: if_splits)

lemma normalized_leaf:
  assumes "vget order ''payload'' = VDict nested" "VStr ''create_command'' \<notin> set (dkeys order)" "distinct (dkeys order)"
    "add_reference request ''parent_order_id'' field1 order = Inr order1"
    "add_reference request ''oco_group_id'' field2 order1 = Inr order2"
    "require_paper_order_protection order2 = Inr protection"
  shows "basis_kept nested (vset ''payload'' (VDict protection) order2)"
proof -
  have payload: "vget order2 ''payload'' = VDict nested"
    using add_reference_other [OF assms(4), of "''payload''"] add_reference_other [OF assms(5), of "''payload''"] assms(1) by simp
  have "VStr ''create_command'' \<notin> set (dkeys order2)" "distinct (dkeys order2)"
    using add_reference_keys [OF assms(4)] add_reference_keys [OF assms(5)] assms(2,3) by auto
  with payload protection_keeps_basis [OF assms(6)] show ?thesis
    by (auto simp: basis_kept_def)
qed

lemma normalized_order:
  assumes "normalize_paper_order piso pystr digest clock now request = Inr order"
  shows "\<exists>levels nested. canonical_manual_paper_protection pystr request
        (dpop (VStr ''paper_execution_config'') (case vget request ''payload'' of VDict d \<Rightarrow> d | _ \<Rightarrow> [])) = Inr (levels, nested)
      \<and> basis_kept nested order"
    (is "?P order")
proof -
  have "when_ok (normalize_paper_order piso pystr digest clock now request) ?P"
    unfolding normalize_paper_order_def
    apply (intro ok_intros)
    subgoal premises p
      by (rule exI, rule exI, rule conjI, rule p(1) [unfolded p(2)], rule normalized_leaf [OF _ _ _ p(35) p(36) p(37)])
        (auto simp: p(34) vget_Cons dkeys_def split: option.split)
    done
  then show ?thesis using assms by (rule when_okD)
qed

section \<open>The updated order\<close>

lemma fold_kept:
  shows "k \<notin> set ks \<Longrightarrow> vget (fold (keep_field order) ks u) k = vget u k"
    and "set (dkeys (fold (keep_field order) ks u)) \<subseteq> VStr ` set ks \<union> set (dkeys u)"
    and "distinct (dkeys u) \<Longrightarrow> distinct (dkeys (fold (keep_field order) ks u))"
  unfolding keep_field_def by (induction ks arbitrary: u) (auto, fastforce)

lemma vhas_keys: "vhas d k \<longleftrightarrow> VStr k \<in> set (dkeys d)"
  by (simp add: vhas_def dkeys_def map_of_eq_None_iff)

lemma dkeys_dmerge: "set (dkeys (dmerge a b)) = set (dkeys a) \<union> set (dkeys b)"
proof (induction b arbitrary: a)
  case Nil
  then show ?case by (simp add: dmerge_def dkeys_def)
next
  case (Cons e b)
  have "dmerge a (e # b) = dmerge (dset (fst e) (snd e) a) b" by (simp add: dmerge_def split_beta)
  moreover have "set (dkeys (dset (fst e) (snd e) a)) = insert (fst e) (set (dkeys a))"
    by (auto simp: dkeys_dset dhas_in_dkeys)
  ultimately show ?case using Cons by (simp add: dkeys_def)
qed

lemma basis_kept_vset:
  assumes "basis_kept nested order" "k \<notin> {''payload'', ''create_command''}"
  shows "basis_kept nested (vset k v order)"
  using assms by (auto simp: basis_kept_def)

lemma basis_kept_payload:
  assumes "basis_kept nested order" "is_str (vget protection ''protection_basis'')" "basis_text protection = basis_text nested"
  shows "basis_kept nested (vset ''payload'' (VDict protection) order)"
  using assms by (auto simp: basis_kept_def)

lemma basis_kept_fold:
  "basis_kept nested u \<Longrightarrow> set ks \<inter> {''payload'', ''create_command''} = {}
    \<Longrightarrow> basis_kept nested (fold (keep_field order) ks u)"
  by (induction ks arbitrary: u) (auto simp: keep_field_def basis_kept_vset)

lemma dpop_keys: "set (dkeys (dpop k d)) = set (dkeys d) - {k}"
  by (simp add: dkeys_def dpop_def AList.delete_keys)

lemma level_edit_makes_absolute:
  assumes "update_paper_order piso pystr digest clock now order patch = Inr updated"
    and edit: "vhas patch ''stop_loss'' \<or> vhas patch ''target''"
    and free: "\<not> vhas order ''stop_points''" "\<not> vhas order ''target_points''"
      "\<not> vhas patch ''stop_points''" "\<not> vhas patch ''target_points''"
  shows "(\<exists>nested. basis_text nested = ''absolute_structure'' \<and> basis_kept nested updated)
    \<and> is_str (vget order ''id'') \<and> vget updated ''id'' = VStr (str_of (vget order ''id''))" (is "?P updated")
proof -
  have explicit: "list_ex (vhas patch) [''stop_loss'', ''target'', ''stop_points'', ''target_points'']"
    using edit by auto
  have shifted: "shifted_patch order patch = Inr patch" using edit by (auto simp: shifted_patch_def)
  have "when_ok (update_paper_order piso pystr digest clock now order patch) ?P"
    unfolding update_paper_order_def
    apply (intro ok_intros)
    subgoal premises p for _ payload config patch1 merged created i norm
    proof -
      have merged: "merged = vset ''payload'' (VDict (dpop (VStr ''paper_protection_intent'')
          (dpop (VStr ''protection_basis'') payload))) (dmerge order patch)"
        using p(1,4,5) explicit shifted by (simp add: patched_payload_def)
      define request where "request = vset ''created_at'' (VStr created) (vset ''id'' (VStr i) merged)"
      from normalized_order [OF p(8)] obtain levels nested where
        canon: "canonical_manual_paper_protection pystr request (dpop (VStr ''paper_execution_config'')
          (dpop (VStr ''paper_protection_intent'') (dpop (VStr ''protection_basis'') payload))) = Inr (levels, nested)"
        and kept: "basis_kept nested norm"
        by (auto simp: request_def merged)
      have "basis_text nested = ''absolute_structure''"
        using no_distances_absolute [OF _ _ _ canon] free by (simp add: vhas_keys dkeys_dmerge dpop_keys request_def merged)
      moreover from kept obtain protection where "vget norm ''payload'' = VDict protection" by (auto simp: basis_kept_def)
      with kept have "is_str (vget (vset ''paper_execution_config'' (VDict config) protection) ''protection_basis'')"
          "basis_text (vset ''paper_execution_config'' (VDict config) protection) = basis_text nested"
          "vget norm ''payload'' = VDict protection"
        by (auto simp: basis_kept_def basis_text_def)
      note facts = this
      have "basis_kept nested (fold (keep_field order) kept_fields (vset ''payload'' (VDict (vset ''paper_execution_config''
          (VDict config) (case vget norm ''payload'' of VDict d \<Rightarrow> d | _ \<Rightarrow> [])))
          (vset ''updated_at'' u (vset ''created_at'' c (vset ''status'' s (vset ''id'' (VStr i) norm))))))" for u c s
        unfolding facts(3) pyval.case
        by (rule basis_kept_fold, rule basis_kept_payload [OF _ facts(1,2)])
          (simp_all add: basis_kept_vset kept kept_fields_def)
      moreover have "vget (fold (keep_field order) kept_fields (vset ''payload'' d (vset ''updated_at'' u
          (vset ''created_at'' c (vset ''status'' s (vset ''id'' (VStr i) norm)))))) ''id'' = VStr i" for d u c s
        by (subst fold_kept(1)) (simp_all add: kept_fields_def)
      ultimately show ?thesis using exact_text [OF p(7)] by blast
    qed
    done
  then show ?thesis using assms(1) by (rule when_okD)
qed

section \<open>Orders that name no position\<close>

lemma vhas_vset [simp]: "vhas (vset k v d) k' \<longleftrightarrow> k' = k \<or> vhas d k'"
  by (auto simp: vhas_keys)

lemma shifted_patch_other:
  assumes "shifted_patch order patch = Inr patch'" "k \<notin> {''stop_loss'', ''target''}"
  shows "vget patch' k = vget patch k" "vhas patch' k = vhas patch k"
proof -
  have "when_ok (shifted_patch order patch) (\<lambda>p. vget p k = vget patch k \<and> vhas p k = vhas patch k)"
    using assms(2) unfolding shifted_patch_def unless_caught_def Let_def
    by (simp add: when_ok_def split: if_splits sum.splits)
  from when_okD [OF this assms(1)] show "vget patch' k = vget patch k" "vhas patch' k = vhas patch k" by auto
qed

lemma patched_other: "k \<noteq> ''payload'' \<Longrightarrow> vget (patched_payload explicit payload patch merged) k = vget merged k"
  by (simp add: patched_payload_def Let_def split: pyval.split)

abbreviation optional_ids :: "string list" where
  "optional_ids \<equiv> [''position_id'', ''parent_order_id'', ''oco_group_id'']"

lemma with_levels_other:
  "k \<notin> {''stop_loss'', ''use_stop_loss'', ''target'', ''use_target''} \<Longrightarrow> vget (with_levels levels payload) k = vget payload k"
  by (auto simp: with_levels_def Let_def split: option.splits prod.splits)

lemma reference_not_empty: "add_reference payload key field order = Inr order' \<Longrightarrow> vget payload key \<noteq> VStr []"
  by (auto simp: add_reference_def require_exact_identity_text_def res_simps split: if_splits)

lemma normalized_ids:
  assumes "normalize_paper_order piso pystr digest clock now request = Inr order" "k \<in> set optional_ids"
  shows "vget request k \<noteq> VStr []"
proof -
  have "when_ok (normalize_paper_order piso pystr digest clock now request) (\<lambda>_. \<forall>k \<in> set optional_ids. vget request k \<noteq> VStr [])"
    unfolding normalize_paper_order_def
    apply (intro ok_intros)
    subgoal premises p
      using p(17) reference_not_empty [OF p(35)] reference_not_empty [OF p(36)]
      by (auto simp: p(3) with_levels_other require_exact_identity_text_def res_simps split: if_splits)
    done
  then show ?thesis using assms by (blast dest: when_okD)
qed

lemma read_ids:
  assumes "paper_order_from_row piso row = Inr order"
  shows "vget order ''position_id'' = text_or_empty (ow_position_id row)"
    and "vget order ''parent_order_id'' = text_or_empty (ow_parent_order_id row)"
    and "vget order ''oco_group_id'' = text_or_empty (ow_oco_group_id row)"
proof -
  from assms obtain c where order: "order = dmerge (ow_payload row) (order_columns row c)"
    by (auto simp: paper_order_from_row_def Let_def res_simps split: if_splits)
  have "distinct (dkeys (order_columns row c))" by (simp add: order_columns_def dkeys_def)
  from vget_dmerge [OF this, of "ow_payload row"]
  show "vget order ''position_id'' = text_or_empty (ow_position_id row)"
    "vget order ''parent_order_id'' = text_or_empty (ow_parent_order_id row)"
    "vget order ''oco_group_id'' = text_or_empty (ow_oco_group_id row)"
    by (simp_all add: order order_columns_def dkeys_def vget_Cons)
qed

text \<open>C12: The ledger reads an absent position, parent or group id back as the empty text, and the update of an order
  refuses that text. So a stored order that lacks one of the three ids cannot be changed by a patch that names none of
  them, as a patch that only moves the entry, the stop or the target does: whatever else such a patch says, the update raises.
\<close>

theorem stored_orders_without_ids_cannot_be_updated:
  assumes "paper_order_from_row piso row = Inr order"
    and "ow_position_id row = None \<or> ow_parent_order_id row = None \<or> ow_oco_group_id row = None"
    and "\<forall>k \<in> set optional_ids. \<not> vhas patch k"
  shows "update_paper_order piso pystr digest clock now_iso order patch \<noteq> Inr updated"
proof
  assume "update_paper_order piso pystr digest clock now_iso order patch = Inr updated"
  have "\<exists>k \<in> set optional_ids. vget order k = VStr []"
    using assms(2) read_ids [OF assms(1)] by (elim disjE) (simp_all add: text_or_empty_def)
  then obtain k where k: "k \<in> set optional_ids" "vget order k = VStr []" by blast
  have "when_ok (update_paper_order piso pystr digest clock now_iso order patch) (\<lambda>_. False)"
    unfolding update_paper_order_def
    apply (intro ok_intros)
    subgoal premises p for explicit payload _ patch1 merged
    proof -
      have "vget patch1 k = vget patch k" "\<not> vhas patch1 k"
        using shifted_patch_other [OF p(4), of k] k(1) assms(3) by auto
      then have "vget merged k = VStr []"
        using k by (auto simp: p(5) patched_other vhas_keys vget_dmerge_other)
      then have "vget (vset ''created_at'' c (vset ''id'' i merged)) k = VStr []" for c i
        using k(1) by auto
      with normalized_ids [OF p(8) k(1)] show ?thesis by simp
    qed
    done
  with \<open>update_paper_order piso pystr digest clock now_iso order patch = Inr updated\<close> show False
    by (auto dest: when_okD)
qed

section \<open>The row an update writes\<close>

lemma mapping_VDict: "v = VDict d \<Longrightarrow> mapping_items v = Some d"
  by simp

text \<open>A row that can be read holds a creation command with the basis of its own protection.\<close>

lemma read_basis:
  assumes "paper_order_from_row piso r = Inr order"
  shows "\<exists>payload command p. mapping_items (vget (ow_payload r) ''payload'') = Some payload
    \<and> vget order ''payload'' = vget (ow_payload r) ''payload'' \<and> vget order ''id'' = VStr (ow_id r)
    \<and> mapping_items (vget (ow_payload r) ''create_command'') = Some command
    \<and> require_paper_order_protection command = Inr p \<and> basis_text p = basis_text payload"
proof -
  from assms obtain c canonical where order: "order = dmerge (ow_payload r) (order_columns r c)"
    and canonical: "require_paper_order_protection order = Inr canonical"
    and copy: "command_copy_ok piso c canonical ''create_command'' order = Inr ()"
    by (auto simp: paper_order_from_row_def Let_def res_simps split: if_splits)
  have get: "vget order k = vget (ow_payload r) k" if "k \<in> {''payload'', ''create_command''}" for k
    using that by (auto simp: order order_columns_def dkeys_def intro!: vget_dmerge_other)
  have "distinct (dkeys (order_columns r c))" by (simp add: order_columns_def dkeys_def)
  from vget_dmerge [OF this, of "ow_payload r"] have i: "vget order ''id'' = VStr (ow_id r)"
    by (simp add: order order_columns_def dkeys_def vget_Cons)
  from copy obtain command p where "mapping_items (vget order ''create_command'') = Some command"
      "require_paper_order_protection command = Inr p" "protection_signature_eq p canonical"
    by (auto simp: command_copy_ok_def res_simps split: option.splits if_splits)
  moreover from this protection_keeps_basis [OF canonical] have "basis_text p = basis_text canonical"
    by (cases "vget p ''protection_basis''"; cases "vget canonical ''protection_basis''")
      (auto simp: protection_signature_eq_def basis_text_def)
  moreover note protection_keeps_basis [OF canonical]
  ultimately show ?thesis by (auto simp: get i)
qed

lemma written_row_unreadable:
  assumes "mapping_items (vget (ow_payload row) ''create_command'') = Some command"
    and "require_paper_order_protection command = Inr p" "basis_text p \<noteq> basis_text nested"
    and "basis_kept nested updated" "require_paper_order_protection updated = Inr protection"
    and "ow_payload row' = dmerge (ow_payload row) (vset ''execution_command'' e (vset ''payload'' (VDict protection) updated))"
  shows "paper_order_from_row piso row' \<noteq> Inr saved"
proof
  assume "paper_order_from_row piso row' = Inr saved"
  from read_basis [OF this] obtain payload command' p' where
    payload: "mapping_items (vget (ow_payload row') ''payload'') = Some payload"
    and command': "mapping_items (vget (ow_payload row') ''create_command'') = Some command'"
    and p': "require_paper_order_protection command' = Inr p'" "basis_text p' = basis_text payload" by auto
  have d: "distinct (dkeys (vset ''execution_command'' e (vset ''payload'' (VDict protection) updated)))"
    using assms(4) by (simp add: basis_kept_def)
  have "vget (ow_payload row') ''payload'' = VDict protection"
    by (simp add: assms(6) vget_dmerge [OF d])
  with payload have "payload = protection" by simp
  moreover have "vget (ow_payload row') ''create_command'' = vget (ow_payload row) ''create_command''"
    using assms(4) by (simp add: assms(6) vget_dmerge [OF d] basis_kept_def)
  with command' assms(1) have "command' = command" by simp
  moreover have "basis_text protection = basis_text nested"
    using protection_keeps_basis [OF assms(5)] assms(4) by (auto simp: basis_kept_def)
  ultimately show False using p' assms(2,3) by simp
qed

lemma update_orders_hit:
  assumes "update_orders P g L = (r' # rs, L')"
  shows "\<exists>r \<in> set (lg_orders L). P r \<and> r' = g r"
proof -
  from assms have "map g (filter P (lg_orders L)) = r' # rs" by (simp add: update_orders_def)
  then have "r' \<in> g ` set (filter P (lg_orders L))" by (metis list.set_intros(1) list.set_map)
  then show ?thesis by auto
qed

text \<open>
  A pending order whose protection is a distance from the fill cannot get an absolute level either: whatever
  stop or target the patch names, the updated order is never saved, because the row would hold two commands whose
  protections differ and reading it back fails.
\<close>

theorem level_edits_of_distance_orders_are_refused:
  assumes "row \<in> set (lg_orders L)" "distinct (map ow_id (lg_orders L))"
    and "paper_order_from_row piso row = Inr order"
    and "vget order ''payload'' = VDict payload" "str_of (vget payload ''protection_basis'') = ''fill_distance''"
    and "\<not> vhas order ''stop_points''" "\<not> vhas order ''target_points''"
    and "vhas patch ''stop_loss'' \<or> vhas patch ''target''"
    and "\<not> vhas patch ''stop_points''" "\<not> vhas patch ''target_points''"
    and "update_paper_order piso pystr digest clock now_iso order patch = Inr updated"
  shows "update_paper_order_if_pending piso pystr now updated i fp L \<noteq> Inr (Some saved, L')"
proof -
  have "mapping_items (vget (ow_payload row) ''payload'') = Some payload"
    using read_basis [OF assms(3)] assms(4) by (metis mapping_VDict)
  with read_basis [OF assms(3)] obtain command p where
    order: "vget order ''payload'' = vget (ow_payload row) ''payload''" "vget order ''id'' = VStr (ow_id row)"
    and command: "mapping_items (vget (ow_payload row) ''create_command'') = Some command"
      "require_paper_order_protection command = Inr p" "basis_text p = ''fill_distance''"
    using assms(4,5) by (auto simp: basis_text_def)
  from level_edit_makes_absolute [OF assms(11,8,6,7,9,10)] obtain nested where
    nested: "basis_text nested = ''absolute_structure''" "basis_kept nested updated"
    and updated: "vget updated ''id'' = VStr (ow_id row)"
    using order(2) by auto
  have differ: "basis_text p \<noteq> basis_text nested" using command(3) nested(1) by simp
  have "when_ok (update_paper_order_if_pending piso pystr now updated i fp L) (\<lambda>(v, _). v = None)"
    unfolding update_paper_order_if_pending_def
    apply (intro ok_intros)
     apply simp
    subgoal premises p for x order_id y identity fingerprint _ _ _ _ _ _ _ command' protection rows L1 row1 rows1 read
    proof -
      have "order_id = ow_id row"
        using p(1-3) updated by (auto simp: paper_order_identity_def require_exact_identity_text_def res_simps split: if_splits)
      moreover from p(15,16) obtain r where r: "r \<in> set (lg_orders L)" "ow_id r = order_id"
        and row1: "ow_payload row1 = dmerge (ow_payload r) (vset ''execution_command'' (VDict (command_dict command'))
            (vset ''payload'' (VDict protection) updated))"
        by (auto dest: update_orders_hit)
      ultimately have "r = row"
        using assms(1,2) by (metis distinct_map inj_on_def)
      with written_row_unreadable [OF command(1,2) differ nested(2) p(14)] row1 p(17) show ?thesis by blast
    qed
    done
  then show ?thesis by (auto dest: when_okD)
qed

text \<open>A limit order at 100 with its stop one point and its target two points from the fill.\<close>

definition epoch_iso :: iso_parser where "epoch_iso = (\<lambda>_. Some (DateTime 0 (Some 0)))"

definition one_digest :: "string list \<Rightarrow> string" where "one_digest = (\<lambda>_. ''d'')"

definition example_config :: vdict where
  "example_config = [(VStr ''min_rr'', VFloat (Fin 2)), (VStr ''edge_gate'', VBool False)]"

definition distance_protection :: vdict where
  "distance_protection = [(VStr ''protection_basis'', VStr ''fill_distance''),
     (VStr ''paper_protection_intent'', fill_distance_intent (Some (Fin 1)) (Some (Fin 2)))]"

definition distance_command :: vdict where
  "distance_command = [(VStr ''instrument_id'', VStr ''n''), (VStr ''route_fingerprint'', VStr ''f''),
     (VStr ''provider'', VStr ''b''), (VStr ''provider_contract_id'', VStr ''c''),
     (VStr ''paper_contract'', VDict (contract_payload example_contract)),
     (VStr ''use_stop_loss'', VBool True), (VStr ''use_target'', VBool True), (VStr ''stop_loss'', VFloat (Fin 99)),
     (VStr ''target'', VFloat (Fin 102)), (VStr ''payload'', VDict distance_protection)]"

definition distance_row :: order_row where
  "distance_row = \<lparr>ow_id = ''o'', ow_symbol = ''S'', ow_timeframe = ''1m'', ow_side = ''long'', ow_order_type = ''limit'',
     ow_status = ''pending'', ow_qty = Fin 1, ow_entry = Fin 100, ow_stop_loss = Some (Fin 99), ow_target = Some (Fin 102),
     ow_use_stop_loss = True, ow_use_target = True, ow_created_at = 0, ow_updated_at = 0, ow_filled_at = None,
     ow_fill_price = None, ow_role = ''entry'', ow_position_id = None, ow_parent_order_id = None, ow_oco_group_id = None,
     ow_reduce_only = False,
     ow_payload = vset ''payload'' (VDict (vset ''paper_execution_config'' (VDict example_config) distance_protection))
       (vset ''create_command'' (VDict distance_command) (vset ''execution_command'' (VDict distance_command) distance_command))\<rparr>"

lemma distance_row_readable: "is_ok (paper_order_from_row epoch_iso distance_row)"
  by code_simp

lemma stored_orders_without_ids_cannot_be_updated_witness:
  "\<exists>order. paper_order_from_row epoch_iso distance_row = Inr order
    \<and> (\<forall>updated. update_paper_order epoch_iso no_str one_digest ''t'' None order [(VStr ''stop_loss'', VInt 98)] \<noteq> Inr updated)"
proof -
  from distance_row_readable obtain order where "paper_order_from_row epoch_iso distance_row = Inr order"
    by (auto simp: is_ok_iff)
  with stored_orders_without_ids_cannot_be_updated [OF this] show ?thesis
    by (simp add: distance_row_def vhas_def)
qed

end
