(* ===== verification/PaperExecutionLaws.thy ===== *)
theory PaperExecutionLaws
  imports PaperExecution PaperOrdersLaws TradePlanLaws
begin

text \<open>
  What the execution of an order promises: the price it fills at, the levels of the filled order, and that
  the ledger's check of those levels accepts them.
\<close>

section \<open>Snapshots\<close>

lemma from_timestamp_in_range: "from_timestamp x = Some t \<Longrightarrow> in_dt_range t"
  by (auto simp: from_timestamp_def Let_def split: pyfloat.splits if_splits)

lemma aware_instant_in_range: "aware_instant d = Inr (Some t) \<Longrightarrow> in_dt_range t"
  by (auto simp: aware_instant_def res_simps astimezone_utc_def Let_def split: if_splits)

lemma number_instant_in_range: "number_instant v = Inr (Some t) \<Longrightarrow> in_dt_range t"
  by (auto simp: number_instant_def res_simps from_timestamp_in_range split: if_splits)

lemma utc_datetime_in_range: "utc_datetime_or_none piso v = Inr (Some t) \<Longrightarrow> in_dt_range t"
  by (auto simp: utc_datetime_or_none_def number_instant_in_range aware_instant_in_range
      split: pyval.splits if_splits option.splits)

lemma utc_datetime_again: "in_dt_range t \<Longrightarrow> utc_datetime_or_none piso (VDateTime (utc_datetime t)) = Inr (Some t)"
  by (simp add: utc_datetime_or_none_def aware_instant_def)

lemma finite_price_isfinite: "finite_price v = Some x \<Longrightarrow> isfinite x"
  unfolding finite_price_def by (rule exact_finite_number_finite)

lemma finite_price_float [simp]: "isfinite x \<Longrightarrow> finite_price (VFloat x) = Some x"
  by (simp add: finite_price_def)

lemma finite_price_none [simp]: "finite_price VNone = None"
  by (simp add: finite_price_def)

lemma normalized_snapshot:
  assumes "normalize_execution_snapshot piso pystr snapshot = Inr (Some snap)"
  obtains s price ts where "snapshot = Some s" "finite_price (vget s ''price'') = Some price"
    "utc_datetime_or_none piso (vget s ''ts'') = Inr ts" "snap = snapshot_fields pystr s price ts"
proof (cases snapshot)
  case None
  with assms show ?thesis by (simp add: normalize_execution_snapshot_def)
next
  case (Some s)
  with assms that [OF Some] show ?thesis
    by (cases "finite_price (vget s ''price'')") (auto simp: normalize_execution_snapshot_def res_simps)
qed

text \<open>Normalising again keeps the prices, the time, and whether the snapshot is a bar or a quote.\<close>

definition same_view :: "vdict \<Rightarrow> vdict \<Rightarrow> bool" where
  "same_view a b \<longleftrightarrow> (\<forall>k \<in> {''price'', ''low'', ''high'', ''ts''}. vget b k = vget a k)
    \<and> (\<forall>kind \<in> {''bar'', ''quote''}. vget b ''range_kind'' = VStr kind \<longleftrightarrow> vget a ''range_kind'' = VStr kind)"

lemma normalize_snapshot_again:
  assumes "normalize_execution_snapshot piso pystr snapshot = Inr (Some snap)"
  shows "\<exists>snap'. normalize_execution_snapshot piso pystr (Some snap) = Inr (Some snap') \<and> same_view snap snap'"
    and "isfinite (price_at snap ''price'')"
proof -
  from normalized_snapshot [OF assms] obtain s price ts where
    s: "finite_price (vget s ''price'') = Some price" and ts: "utc_datetime_or_none piso (vget s ''ts'') = Inr ts"
    and snap: "snap = snapshot_fields pystr s price ts" by metis
  have price: "isfinite price" by (rule finite_price_isfinite [OF s])
  have finite: "isfinite (case finite_price v of None \<Rightarrow> price | Some x \<Rightarrow> x)" for v
    using price by (auto simp: finite_price_isfinite split: option.split)
  show "isfinite (price_at snap ''price'')" by (simp add: price_at_def snap snapshot_fields_def vget_Cons price)
  have "utc_datetime_or_none piso (case ts of None \<Rightarrow> VNone | Some t \<Rightarrow> VDateTime (utc_datetime t)) = Inr ts"
    using ts by (cases ts) (auto simp: utc_datetime_again utc_datetime_in_range, simp add: utc_datetime_or_none_def)
  then have get: "finite_price (vget snap ''price'') = Some price" "finite_price (vget snap ''low'') = Some (price_at snap ''low'')"
      "finite_price (vget snap ''high'') = Some (price_at snap ''high'')" "utc_datetime_or_none piso (vget snap ''ts'') = Inr ts"
    by (simp_all add: snap snapshot_fields_def vget_Cons price finite price_at_def)
  have kinds: "text_or pystr (VStr k) ''price'' = kind \<longleftrightarrow> k = kind" if "kind \<in> {''bar'', ''quote''}" for k kind
    using that by (auto simp: text_or_def text_of_def)
  have "same_view snap (snapshot_fields pystr snap price ts)"
    unfolding snapshot_fields_def [of _ snap] get option.case
    by (simp add: same_view_def vget_Cons) (simp add: snap snapshot_fields_def vget_Cons price_at_def kinds)
  then show "\<exists>snap'. normalize_execution_snapshot piso pystr (Some snap) = Inr (Some snap') \<and> same_view snap snap'"
    by (simp add: normalize_execution_snapshot_def get)
qed

section \<open>Touches\<close>

text \<open>A limit order never fills at a worse price than its entry, a stop order never at a better one.\<close>

definition fair_price :: "string \<Rightarrow> string \<Rightarrow> pyfloat \<Rightarrow> pyfloat \<Rightarrow> bool" where
  "fair_price order_type side entry x \<longleftrightarrow>
    (order_type = ''limit'' \<longrightarrow> (side = ''long'' \<and> fle x entry) \<or> (side = ''short'' \<and> fle entry x))
    \<and> (order_type = ''stop'' \<longrightarrow> (side = ''long'' \<and> fle entry x) \<or> (side = ''short'' \<and> fle x entry))"

text \<open>The price was seen: it is the last price, or the bar reached it between the last price and its extreme.\<close>

definition seen_price :: "vdict \<Rightarrow> pyfloat \<Rightarrow> bool" where
  "seen_price snap x \<longleftrightarrow> x = price_at snap ''price'' \<or> (vget snap ''range_kind'' = VStr ''bar''
    \<and> ((fle (price_at snap ''low'') x \<and> flt x (price_at snap ''price''))
      \<or> (flt (price_at snap ''price'') x \<and> fle x (price_at snap ''high''))))"

lemma fle_or_flt: "isfinite a \<Longrightarrow> isfinite b \<Longrightarrow> \<not> fle a b \<longleftrightarrow> flt b a"
  by (cases a; cases b) auto

lemma isfinite_fle_refl: "isfinite x \<Longrightarrow> fle x x"
  by (cases x) auto

lemma touch_price_fair:
  assumes "touch_price order_type side entry snap = Some x" "isfinite (price_at snap ''price'')" "isfinite entry"
  shows "fair_price order_type side entry x \<and> seen_price snap x \<and> isfinite x \<and> side \<in> {''long'', ''short''}"
proof -
  note order = fle_or_flt [OF assms(2,3)] fle_or_flt [OF assms(3,2)]
  from assms(1) show ?thesis
    unfolding touch_price_def Let_def
    using assms(2,3) order
    by (auto simp: fair_price_def seen_price_def isfinite_fle_refl split: if_splits)
qed

lemma touch_fair:
  assumes "paper_order_touch piso pystr order (Some snap) = Inr (Some touch)"
    and "normalize_execution_snapshot piso pystr snapshot = Inr (Some snap)"
  shows "\<exists>entry. finite_price (vget order ''entry'') = Some entry
    \<and> fair_price (py_lower (text_or pystr (vget order ''order_type'') ''limit'')) (py_lower (text_or pystr (vget order ''side'') []))
        entry (et_fill_price touch)
    \<and> seen_price snap (et_fill_price touch) \<and> isfinite (et_fill_price touch)"
proof -
  from normalize_snapshot_again(1) [OF assms(2)] obtain snap' where
    again: "normalize_execution_snapshot piso pystr (Some snap) = Inr (Some snap')" and view: "same_view snap snap'" by blast
  have same: "price_at snap' k = price_at snap k" if "k \<in> {''price'', ''low'', ''high''}" for k
    using view that by (auto simp: same_view_def price_at_def)
  from assms(1) obtain entry where entry: "finite_price (vget order ''entry'') = Some entry"
    and touch: "touch_price (py_lower (text_or pystr (vget order ''order_type'') ''limit''))
      (py_lower (text_or pystr (vget order ''side'') [])) entry snap' = Some (et_fill_price touch)"
    by (auto simp: paper_order_touch_def again Let_def split: option.splits)
  have "isfinite (price_at snap' ''price'')" using normalize_snapshot_again(2) [OF again] .
  from touch_price_fair [OF touch this finite_price_isfinite [OF entry]] entry
  show ?thesis using view by (auto simp: seen_price_def same same_view_def)
qed

section \<open>The order at the fill\<close>

lemma when_ok_sum [ok_intros]:
  "(\<And>e. v = Inl e \<Longrightarrow> when_ok (f e) P) \<Longrightarrow> (\<And>x. v = Inr x \<Longrightarrow> when_ok (g x) P)
    \<Longrightarrow> when_ok (case v of Inl e \<Rightarrow> f e | Inr x \<Rightarrow> g x) P"
  by (simp split: sum.split)

abbreviation level_keys :: "string set" where
  "level_keys \<equiv> {''stop_loss'', ''target'', ''use_stop_loss'', ''use_target''}"

lemma at_fill_other:
  assumes "paper_order_at_fill pystr order x = Inr (ready, fault)" "k \<notin> level_keys"
  shows "vget ready k = vget order k"
proof -
  have "when_ok (paper_order_at_fill pystr order x) (\<lambda>(ready, _). vget ready k = vget order k)"
    unfolding paper_order_at_fill_def
    by (intro ok_intros) (use assms(2) in \<open>simp_all add: vget_dmerge_other dkeys_def\<close>)
  from when_okD [OF this assms(1)] show ?thesis by simp
qed

lemma float_fact_some: "float_fact code values \<noteq> Inr None"
  by (auto simp: float_fact_def res_simps)

lemma gate_coherent:
  assumes "execution_plan_rejection d (Some e) (Some s) (Some t) min_rr = Inr None"
  shows "coherent_trade_plan d (Some e) (Some s) (Some t)"
proof -
  from assms have "\<exists>e' s' t'. finite_or_none (Some e) = Some e' \<and> finite_or_none (Some s) = Some s' \<and> finite_or_none (Some t) = Some t'
      \<and> coherent_trade_plan d (Some e') (Some s') (Some t')"
    by (auto simp: execution_plan_rejection_def float_fact_some split: option.splits if_splits)
  then show ?thesis by (auto simp: finite_or_none_def split: if_splits)
qed

text \<open>Each level in use is a finite price on its side of the fill.\<close>

definition levels_outside :: "vdict \<Rightarrow> pyfloat \<Rightarrow> bool" where
  "levels_outside order x \<longleftrightarrow>
    (flag_set order ''use_stop_loss'' \<longrightarrow> (\<exists>s. finite_price (vget order ''stop_loss'') = Some s
      \<and> (case direction_from_any (vget order ''side'') of LONG \<Rightarrow> flt s x | SHORT \<Rightarrow> flt x s | FLAT \<Rightarrow> False)))
    \<and> (flag_set order ''use_target'' \<longrightarrow> (\<exists>t. finite_price (vget order ''target'') = Some t
      \<and> (case direction_from_any (vget order ''side'') of LONG \<Rightarrow> flt x t | SHORT \<Rightarrow> flt t x | FLAT \<Rightarrow> False)))"

lemma direction_text:
  assumes "direction_from_any v \<noteq> FLAT"
  shows "direction_from_any (VStr (text_or pystr v [])) = direction_from_any v"
proof -
  have "is_str v \<and> direction_of (str_of v) \<noteq> None"
    using assms by (auto simp: direction_from_any_def split: if_splits option.splits)
  then show ?thesis
    by (cases v) (auto simp: direction_from_any_def text_or_def text_of_def direction_of_def)
qed

lemma judged_levels:
  assumes "paper_fill_plan_rejection pystr order x config = Inr None" "isfinite x"
  shows "levels_outside order x"
proof (cases "\<not> flag_set order ''use_stop_loss'' \<and> \<not> flag_set order ''use_target''")
  case True
  then show ?thesis by (simp add: levels_outside_def)
next
  case False
  let ?d = "direction_from_any (vget order ''side'')"
  let ?s = "if flag_set order ''use_stop_loss'' then finite_price (vget order ''stop_loss'') else None"
  let ?t = "if flag_set order ''use_target'' then finite_price (vget order ''target'') else None"
  from assms(1) False have dir: "?d \<noteq> FLAT"
    and s: "flag_set order ''use_stop_loss'' \<Longrightarrow> \<exists>s. finite_price (vget order ''stop_loss'') = Some s"
    and t: "flag_set order ''use_target'' \<Longrightarrow> \<exists>t. finite_price (vget order ''target'') = Some t"
    by (auto simp: paper_fill_plan_rejection_def Let_def float_fact_some split: if_splits)
  consider (stop) s where "?s = Some s" "?t = None" | (target) t where "?s = None" "?t = Some t"
    | (both) s t where "?s = Some s" "?t = Some t"
    using False s t by (cases ?s; cases ?t) (auto split: if_splits)
  then show ?thesis
  proof cases
    case stop
    then have flags: "flag_set order ''use_stop_loss''" "\<not> flag_set order ''use_target''"
      using t by (auto split: if_splits)
    have "isfinite s" using stop flags by (auto intro: finite_price_isfinite)
    moreover have "\<not> plan_stop_breached_at_price ?d (Some s) (Some x)"
      using assms(1) stop flags dir by (auto simp: paper_fill_plan_rejection_def Let_def float_fact_some)
    ultimately show ?thesis
      using stop flags dir assms(2)
      by (cases ?d) (auto simp: levels_outside_def plan_stop_breached_at_price_def finite_or_none_def fle_or_flt)
  next
    case target
    then have flags: "\<not> flag_set order ''use_stop_loss''" "flag_set order ''use_target''"
      using s by (auto split: if_splits)
    have "isfinite t" using target flags by (auto intro: finite_price_isfinite)
    moreover have "\<not> (?d = LONG \<and> fle t x \<or> ?d = SHORT \<and> fle x t)"
      using assms(1) target flags dir by (auto simp: paper_fill_plan_rejection_def Let_def float_fact_some split: if_splits)
    ultimately show ?thesis
      using target flags dir assms(2) by (cases ?d) (auto simp: levels_outside_def fle_or_flt)
  next
    case both
    then have flags: "flag_set order ''use_stop_loss''" "flag_set order ''use_target''"
      by (auto split: if_splits)
    from assms(1) both flags dir obtain m where
      "execution_plan_rejection ?d (Some x) (Some s) (Some t) m = Inr None"
      by (auto simp: paper_fill_plan_rejection_def paper_execution_plan_rejection_def direction_text Let_def res_simps
          float_fact_some)
    from gate_coherent [OF this] both flags dir show ?thesis
      by (cases ?d) (auto simp: levels_outside_def coherent_iff)
  qed
qed

section \<open>The filled order\<close>

abbreviation fill_keys :: "string set" where
  "fill_keys \<equiv> {''status'', ''filled_at'', ''fill_price'', ''updated_at'', ''create_command'', ''execution_source'',
     ''execution_price'', ''execution_ts'', ''execution_bar_slot''}"

lemma marked_filled:
  assumes "mark_order_filled clock order (Some ts) (Some x) = Inr order'" "ts \<noteq> []"
  shows "order' = dmerge order [(VStr ''status'', VStr ''filled''), (VStr ''filled_at'', VStr ts),
    (VStr ''fill_price'', VFloat x), (VStr ''updated_at'', VStr ts)]"
  using assms by (auto simp: mark_order_filled_def finite_or_none_def Let_def split: if_splits)

lemma filled_transition_facts:
  assumes "filled_transition now filled_at snap order ready x execution = Inr t"
  shows "vget (ex_order t) ''status'' = VStr ''filled''" "vget (ex_order t) ''fill_price'' = VFloat x"
    and "k \<notin> fill_keys \<Longrightarrow> vget (ex_order t) k = vget ready k"
    and "ex_execution t = execution" "vget (ex_order t) ''create_command'' = VDict (create_command_of order)"
proof -
  from assms obtain filled ts where
    "mark_order_filled (isoformat_utc now) ready (Some (isoformat_utc ts)) (Some x) = Inr filled"
    and t: "t = transition_of ExecFilled (dmerge filled [
         (VStr ''create_command'', VDict (create_command_of order)), (VStr ''execution_source'', vget snap ''source''),
         (VStr ''execution_price'', VFloat x), (VStr ''execution_ts'', opt_str_val (em_ts execution)),
         (VStr ''execution_bar_slot'', opt_val (em_bar_slot execution))]) [] [] execution"
    unfolding filled_transition_def Let_def res_simps by blast
  note filled = marked_filled [OF this(1) isoformat_utc_not_Nil]
  show "vget (ex_order t) ''status'' = VStr ''filled''" "vget (ex_order t) ''fill_price'' = VFloat x"
    "ex_execution t = execution" "vget (ex_order t) ''create_command'' = VDict (create_command_of order)"
    by (simp_all add: t filled transition_of_def vget_dmerge dkeys_def vget_Cons)
  show "vget (ex_order t) k = vget ready k" if "k \<notin> fill_keys"
    using that by (simp add: t filled transition_of_def vget_dmerge_other dkeys_def)
qed

text \<open>How a transition comes to a fill.\<close>

definition fill_steps ::
  "iso_parser \<Rightarrow> (pyval \<Rightarrow> string) \<Rightarrow> vdict \<Rightarrow> vdict option \<Rightarrow> vdict \<Rightarrow> pyfloat \<Rightarrow> vdict \<Rightarrow> execution_transition \<Rightarrow> bool" where
  "fill_steps piso pystr order snapshot snap x ready t \<longleftrightarrow>
    normalize_execution_snapshot piso pystr snapshot = Inr (Some snap)
    \<and> (\<exists>touch. paper_order_touch piso pystr order (Some snap) = Inr (Some touch) \<and> et_fill_price touch = x)
    \<and> paper_order_at_fill pystr order x = Inr (ready, [])
    \<and> (\<exists>config. paper_fill_plan_rejection pystr ready x config = Inr None)
    \<and> (\<forall>bar text. analysis_facts piso pystr (case vget order ''payload'' of VDict d \<Rightarrow> d | _ \<Rightarrow> []) = Inr (True, bar, text)
        \<longrightarrow> (\<exists>b s. bar = Some b \<and> snapshot_time snap = Some s \<and> b \<le> s))
    \<and> (\<exists>now filled_at execution. filled_transition now filled_at snap order ready x execution = Inr t)"

lemma not_filled:
  "v \<noteq> ExecFilled \<Longrightarrow> ex_outcome (transition_of v order code message execution) = ExecFilled \<longrightarrow> P"
  "ex_outcome (no_price pystr message order execution) = ExecFilled \<longrightarrow> P"
  by (simp_all add: transition_of_def no_price_def)

lemma filled_steps:
  assumes "paper_order_execution_transition piso pystr now order snapshot filled_at = Inr t" "ex_outcome t = ExecFilled"
  shows "\<exists>snap x ready. fill_steps piso pystr order snapshot snap x ready t"
proof -
  have "when_ok (paper_order_execution_transition piso pystr now order snapshot filled_at)
      (\<lambda>t. ex_outcome t = ExecFilled \<longrightarrow> (\<exists>snap x ready. fill_steps piso pystr order snapshot snap x ready t))"
    unfolding paper_order_execution_transition_def
    apply (intro ok_intros)
          apply ((rule not_filled(2) | rule not_filled(1), simp)+)
     subgoal premises p for _ _ _ _ has_analysis _ bar _ _ _ snap _ _ _ touch x _ _ ready
      by (rule when_okI, rule impI, rule exI [of _ snap], rule exI [of _ x], rule exI [of _ ready], unfold fill_steps_def)
        (use p(4-7,9,10,12-17,20-22,24,25) in \<open>auto simp: p(1)\<close>)
    by (rule not_filled(1), simp)
  then show ?thesis using assms by (blast dest: when_okD)
qed

section \<open>Properties\<close>

lemma filled_levels:
  assumes "fill_steps piso pystr order snapshot snap x ready t"
  shows "levels_outside (ex_order t) x" and "isfinite x"
proof -
  from assms show "isfinite x" by (auto simp: fill_steps_def dest: touch_fair)
  with assms have "levels_outside ready x" by (auto simp: fill_steps_def intro: judged_levels)
  moreover from assms obtain now filled_at execution where
    "filled_transition now filled_at snap order ready x execution = Inr t" by (auto simp: fill_steps_def)
  note filled_transition_facts(3) [OF this]
  then have "vget (ex_order t) ''stop_loss'' = vget ready ''stop_loss''" "vget (ex_order t) ''target'' = vget ready ''target''"
    "vget (ex_order t) ''use_stop_loss'' = vget ready ''use_stop_loss''"
    "vget (ex_order t) ''use_target'' = vget ready ''use_target''" "vget (ex_order t) ''side'' = vget ready ''side''"
    by simp_all
  ultimately show "levels_outside (ex_order t) x" by (simp add: levels_outside_def flag_set_def)
qed

text \<open>C3: When the execution of an order reports a fill, the price is one the snapshot saw, it is no worse than the limit
  of a limit order and not better than the trigger of a stop order, the stop and the target in use lie on their sides
  of it, and the snapshot is not older than the bar the order was derived from.
\<close>

theorem orders_fill_at_a_fair_price:
  assumes "paper_order_execution_transition piso pystr now order snapshot filled_at = Inr t" "ex_outcome t = ExecFilled"
  shows "\<exists>snap entry x. normalize_execution_snapshot piso pystr snapshot = Inr (Some snap) \<and> seen_price snap x
    \<and> finite_price (vget order ''entry'') = Some entry
    \<and> fair_price (py_lower (text_or pystr (vget order ''order_type'') ''limit''))
        (py_lower (text_or pystr (vget order ''side'') [])) entry x
    \<and> vget (ex_order t) ''status'' = VStr ''filled'' \<and> vget (ex_order t) ''fill_price'' = VFloat x
    \<and> levels_outside (ex_order t) x
    \<and> (\<forall>bar text. analysis_facts piso pystr (case vget order ''payload'' of VDict d \<Rightarrow> d | _ \<Rightarrow> []) = Inr (True, bar, text)
        \<longrightarrow> (\<exists>b s. bar = Some b \<and> snapshot_time snap = Some s \<and> b \<le> s))"
proof -
  from filled_steps [OF assms] obtain snap x ready where steps: "fill_steps piso pystr order snapshot snap x ready t" by blast
  then obtain touch where "paper_order_touch piso pystr order (Some snap) = Inr (Some touch)" "et_fill_price touch = x"
    and norm: "normalize_execution_snapshot piso pystr snapshot = Inr (Some snap)"
    by (auto simp: fill_steps_def)
  with touch_fair [OF _ norm] obtain entry where "finite_price (vget order ''entry'') = Some entry"
    "fair_price (py_lower (text_or pystr (vget order ''order_type'') ''limit''))
        (py_lower (text_or pystr (vget order ''side'') [])) entry x" "seen_price snap x" by blast
  moreover from steps have "vget (ex_order t) ''status'' = VStr ''filled''" "vget (ex_order t) ''fill_price'' = VFloat x"
    by (auto simp: fill_steps_def filled_transition_facts(1,2))
  moreover note norm filled_levels(1) [OF steps]
  moreover from steps have "\<forall>bar text. analysis_facts piso pystr (case vget order ''payload'' of VDict d \<Rightarrow> d | _ \<Rightarrow> []) = Inr (True, bar, text)
        \<longrightarrow> (\<exists>b s. bar = Some b \<and> snapshot_time snap = Some s \<and> b \<le> s)"
    unfolding fill_steps_def by blast
  ultimately show ?thesis by blast
qed

section \<open>Levels that follow the fill\<close>

lemma distance_levels:
  assumes "paper_manual_protective_levels pystr [(VStr ''entry'', VFloat x), (VStr ''side'', side),
      (VStr ''stop_points'', opt_val sp), (VStr ''target_points'', opt_val tp),
      (VStr ''use_stop_loss'', VBool us), (VStr ''use_target'', VBool ut)] = Inr (Some (stop, target))"
    and "isfinite x" "\<forall>p. sp = Some p \<longrightarrow> isfinite p" "\<forall>p. tp = Some p \<longrightarrow> isfinite p"
  shows "us \<Longrightarrow> sp = Some p \<Longrightarrow> flt (Fin 0) p \<Longrightarrow> stop = Some (if side_text pystr side = ''long'' then fsub x p else fadd x p)"
    and "ut \<Longrightarrow> tp = Some q \<Longrightarrow> flt (Fin 0) q \<Longrightarrow> target = Some (if side_text pystr side = ''long'' then fadd x q else fsub x q)"
  using assms
  by (auto simp: paper_manual_protective_levels_def use_flag_def vget_default_def vget_Cons opt_val_def float_or_none_def
      Let_def res_simps split: if_splits option.splits)

lemma fmax_dust_positive: "\<not> flt (fmax dust y) (Fin 0)"
proof -
  have "flt (Fin 0) dust" by (simp add: dust_code)
  then show ?thesis by (cases y) (auto simp: fmax_def dust_code)
qed

text \<open>A level computed as the fill moved by the points passes the ledger's tolerance.\<close>

lemma computed_level_follows:
  assumes "flt (Fin 0) p" "isfinite p" "fl_ok p" "isfinite x" "isfinite l" "l = (if upward then fadd x p else fsub x p)"
  shows "level_follows_fill True (Some l) (Some p) upward x"
proof -
  from assms(2,3) obtain q where p: "p = Fin q" "rnd q = Fin q" by (auto simp: isfinite_iff)
  moreover from this have "rnd (- q) = Fin (- q)" by (auto simp: rnd_Fin_iff rnd_val_minus)
  ultimately have "fmul (if upward then Fin 1 else Fin (- 1)) p = (if upward then p else fneg p)"
    by simp
  then have "fadd x (fmul (if upward then Fin 1 else Fin (- 1)) p) = l"
    using assms(6) by (simp add: fsub_def)
  moreover have "fabs (fsub l l) = Fin 0"
    using assms(5) by (cases l) (simp_all add: fsub_def)
  ultimately show ?thesis
    using assms(1,2) p by (auto simp: level_follows_fill_def Let_def fmax_dust_positive)
qed

lemma at_fill_distance:
  assumes "paper_order_at_fill pystr order x = Inr (ready, [])" "require_paper_order_protection order = Inr protection"
    and "basis_text protection = ''fill_distance''" "vget protection ''paper_protection_intent'' = VDict intent"
  defines "sp \<equiv> exact_finite_number_or_none (vget intent ''stop_points'')"
    and "tp \<equiv> exact_finite_number_or_none (vget intent ''target_points'')"
    and "us \<equiv> flag_set order ''use_stop_loss''" and "ut \<equiv> flag_set order ''use_target''"
  shows "\<exists>stop target. \<not> distance_missing us sp \<and> \<not> distance_missing ut tp
    \<and> paper_manual_protective_levels pystr [(VStr ''entry'', VFloat x), (VStr ''side'', vget order ''side''),
      (VStr ''stop_points'', opt_val sp), (VStr ''target_points'', opt_val tp),
      (VStr ''use_stop_loss'', VBool us), (VStr ''use_target'', VBool ut)] = Inr (Some (stop, target))
    \<and> vget ready ''stop_loss'' = (if us then opt_val stop else VNone) \<and> vget ready ''target'' = (if ut then opt_val target else VNone)
    \<and> flag_set ready ''use_stop_loss'' = us \<and> flag_set ready ''use_target'' = ut"
proof -
  have "vget protection ''protection_basis'' \<noteq> VStr ''absolute_structure''"
    using assms(3) by (auto simp: basis_text_def)
  then have "when_ok (paper_order_at_fill pystr order x) (\<lambda>(ready, fault). fault = [] \<longrightarrow>
    (\<exists>stop target. \<not> distance_missing us sp \<and> \<not> distance_missing ut tp
    \<and> paper_manual_protective_levels pystr [(VStr ''entry'', VFloat x), (VStr ''side'', vget order ''side''),
      (VStr ''stop_points'', opt_val sp), (VStr ''target_points'', opt_val tp),
      (VStr ''use_stop_loss'', VBool us), (VStr ''use_target'', VBool ut)] = Inr (Some (stop, target))
    \<and> vget ready ''stop_loss'' = (if us then opt_val stop else VNone) \<and> vget ready ''target'' = (if ut then opt_val target else VNone)
    \<and> flag_set ready ''use_stop_loss'' = us \<and> flag_set ready ''use_target'' = ut))"
    unfolding paper_order_at_fill_def assms(2,4) sum.case mapping_items.simps(1) option.case
    by (intro ok_intros) (simp_all add: vget_dmerge dkeys_def vget_Cons sp_def tp_def us_def ut_def flag_set_def)
  from when_okD [OF this assms(1)] show ?thesis by simp
qed

text \<open>C11: The levels of an order protected by distance are set from the price it filled at, and the ledger's check of
  them, with its tolerance, accepts both: a fill of such an order is never refused for its own levels.
\<close>

theorem distance_levels_pass_the_ledger:
  assumes "paper_order_execution_transition piso pystr now order snapshot filled_at = Inr t" "ex_outcome t = ExecFilled"
    and "require_paper_order_protection order = Inr protection" "basis_text protection = ''fill_distance''"
    and "vget protection ''paper_protection_intent'' = VDict intent"
    and "exact_finite_number_or_none (vget intent ''stop_points'') = sp" "exact_finite_number_or_none (vget intent ''target_points'') = tp"
    and "\<forall>p. sp = Some p \<longrightarrow> fl_ok p" "\<forall>p. tp = Some p \<longrightarrow> fl_ok p"
  shows "\<exists>x. vget (ex_order t) ''fill_price'' = VFloat x
    \<and> level_follows_fill (flag_set order ''use_stop_loss'') (finite_price (vget (ex_order t) ''stop_loss'')) sp
        (side_text pystr (vget order ''side'') \<noteq> ''long'') x
    \<and> level_follows_fill (flag_set order ''use_target'') (finite_price (vget (ex_order t) ''target'')) tp
        (side_text pystr (vget order ''side'') = ''long'') x"
proof -
  from filled_steps [OF assms(1,2)] obtain snap x ready where steps: "fill_steps piso pystr order snapshot snap x ready t" by blast
  then obtain now' filled_at' execution where
    filled: "filled_transition now' filled_at' snap order ready x execution = Inr t"
    and at_fill: "paper_order_at_fill pystr order x = Inr (ready, [])" by (auto simp: fill_steps_def)
  let ?us = "flag_set order ''use_stop_loss''" and ?ut = "flag_set order ''use_target''"
  from at_fill_distance [OF at_fill assms(3-5)] obtain stop target where
    given: "\<not> distance_missing ?us sp" "\<not> distance_missing ?ut tp"
    and levels: "paper_manual_protective_levels pystr [(VStr ''entry'', VFloat x), (VStr ''side'', vget order ''side''),
      (VStr ''stop_points'', opt_val sp), (VStr ''target_points'', opt_val tp),
      (VStr ''use_stop_loss'', VBool ?us), (VStr ''use_target'', VBool ?ut)] = Inr (Some (stop, target))"
    and ready: "vget ready ''stop_loss'' = (if ?us then opt_val stop else VNone)" "vget ready ''target'' = (if ?ut then opt_val target else VNone)"
      "flag_set ready ''use_stop_loss'' = ?us" "flag_set ready ''use_target'' = ?ut"
    unfolding assms(6,7) by blast
  have finite: "\<forall>p. sp = Some p \<longrightarrow> isfinite p" "\<forall>p. tp = Some p \<longrightarrow> isfinite p"
    using assms(6,7) by (auto intro: exact_finite_number_finite)
  have x: "isfinite x" and outside: "levels_outside (ex_order t) x" using filled_levels [OF steps] by auto
  note computed = distance_levels [OF levels x finite] and kept = filled_transition_facts(3) [OF filled]
  have "vget (ex_order t) ''fill_price'' = VFloat x" by (rule filled_transition_facts(2) [OF filled])
  moreover have "level_follows_fill ?us (finite_price (vget (ex_order t) ''stop_loss'')) sp
        (side_text pystr (vget order ''side'') \<noteq> ''long'') x"
  proof (cases ?us)
    case True
    with given obtain p where p: "sp = Some p" "flt (Fin 0) p"
      using finite by (auto simp: distance_missing_def fle_or_flt split: option.splits)
    from computed(1) [OF True p] ready(1) True have level: "vget (ex_order t) ''stop_loss'' =
        VFloat (if side_text pystr (vget order ''side'') = ''long'' then fsub x p else fadd x p)"
      by (simp add: kept opt_val_def)
    from outside ready(3) True obtain s where s: "finite_price (vget (ex_order t) ''stop_loss'') = Some s"
      by (auto simp: levels_outside_def flag_set_def kept)
    with level have "s = (if side_text pystr (vget order ''side'') = ''long'' then fsub x p else fadd x p)"
      by (auto simp: finite_price_def split: if_splits)
    then show ?thesis
      using computed_level_follows [OF p(2) finite(1) [rule_format, OF p(1)] _ x finite_price_isfinite [OF s]] assms(8) p(1) s True by auto
  qed (simp add: level_follows_fill_def kept ready)
  moreover have "level_follows_fill ?ut (finite_price (vget (ex_order t) ''target'')) tp
        (side_text pystr (vget order ''side'') = ''long'') x"
  proof (cases ?ut)
    case True
    with given obtain p where p: "tp = Some p" "flt (Fin 0) p"
      using finite by (auto simp: distance_missing_def fle_or_flt split: option.splits)
    from computed(2) [OF True p] ready(2) True have level: "vget (ex_order t) ''target'' =
        VFloat (if side_text pystr (vget order ''side'') = ''long'' then fadd x p else fsub x p)"
      by (simp add: kept opt_val_def)
    from outside ready(4) True obtain s where s: "finite_price (vget (ex_order t) ''target'') = Some s"
      by (auto simp: levels_outside_def flag_set_def kept)
    with level have "s = (if side_text pystr (vget order ''side'') = ''long'' then fadd x p else fsub x p)"
      by (auto simp: finite_price_def split: if_splits)
    then show ?thesis
      using computed_level_follows [OF p(2) finite(2) [rule_format, OF p(1)] _ x finite_price_isfinite [OF s]] assms(9) p(1) s True by auto
  qed (simp add: level_follows_fill_def kept ready)
  ultimately show ?thesis by blast
qed

section \<open>An execution\<close>

text \<open>A long limit order at 100 with its stop one point below the fill meets a bar that traded down to 99.\<close>

definition stop_protection :: vdict where
  "stop_protection = [(VStr ''protection_basis'', VStr ''fill_distance''),
     (VStr ''paper_protection_intent'', fill_distance_intent (Some (Fin 1)) None)]"

definition example_limit_order :: vdict where
  "example_limit_order = [(VStr ''side'', VStr ''long''), (VStr ''order_type'', VStr ''limit''), (VStr ''entry'', VFloat (Fin 100)),
     (VStr ''use_stop_loss'', VBool True), (VStr ''use_target'', VBool False), (VStr ''stop_loss'', VFloat (Fin 99)),
     (VStr ''payload'', VDict (vset ''paper_execution_config'' (VDict example_config) stop_protection))]"

definition bar_snapshot :: vdict where
  "bar_snapshot = [(VStr ''price'', VFloat (Fin 101)), (VStr ''low'', VFloat (Fin 99)), (VStr ''high'', VFloat (Fin 102)),
     (VStr ''range_kind'', VStr ''bar'')]"

lemma example_execution:
  "case paper_order_execution_transition epoch_iso no_str 0 example_limit_order (Some bar_snapshot) (Some 0) of
     Inr t \<Rightarrow> ex_outcome t = ExecFilled | Inl _ \<Rightarrow> False"
  by code_simp

lemma orders_fill_at_a_fair_price_witness:
  "\<exists>t x. paper_order_execution_transition epoch_iso no_str 0 example_limit_order (Some bar_snapshot) (Some 0) = Inr t
    \<and> vget (ex_order t) ''fill_price'' = VFloat x \<and> fle x (Fin 100) \<and> levels_outside (ex_order t) x"
proof -
  from example_execution obtain t where
    t: "paper_order_execution_transition epoch_iso no_str 0 example_limit_order (Some bar_snapshot) (Some 0) = Inr t"
      "ex_outcome t = ExecFilled" by (auto split: sum.splits)
  have "finite_price (vget example_limit_order ''entry'') = Some (Fin 100)"
    "py_lower (text_or no_str (vget example_limit_order ''order_type'') ''limit'') = ''limit''"
    "py_lower (text_or no_str (vget example_limit_order ''side'') []) = ''long''" by code_simp+
  with orders_fill_at_a_fair_price [OF t] t(1) show ?thesis by (auto simp: fair_price_def)
qed

lemma distance_levels_pass_the_ledger_witness:
  "\<exists>t x. paper_order_execution_transition epoch_iso no_str 0 example_limit_order (Some bar_snapshot) (Some 0) = Inr t
    \<and> vget (ex_order t) ''fill_price'' = VFloat x
    \<and> level_follows_fill True (finite_price (vget (ex_order t) ''stop_loss'')) (Some (Fin 1)) False x"
proof -
  from example_execution obtain t where
    t: "paper_order_execution_transition epoch_iso no_str 0 example_limit_order (Some bar_snapshot) (Some 0) = Inr t"
      "ex_outcome t = ExecFilled" by (auto split: sum.splits)
  have "case require_paper_order_protection example_limit_order of Inl _ \<Rightarrow> False
    | Inr p \<Rightarrow> basis_text p = ''fill_distance'' \<and> vget p ''paper_protection_intent'' = fill_distance_intent (Some (Fin 1)) None"
    by code_simp
  then obtain p where p: "require_paper_order_protection example_limit_order = Inr p" "basis_text p = ''fill_distance''"
      "vget p ''paper_protection_intent'' = VDict [(VStr ''basis'', VStr ''fill_distance''),
        (VStr ''stop_points'', VFloat (Fin 1)), (VStr ''target_points'', VNone)]"
    by (auto simp: fill_distance_intent_def opt_val_def split: sum.splits)
  have "flag_set example_limit_order ''use_stop_loss''" "side_text no_str (vget example_limit_order ''side'') = ''long''"
    by code_simp+
  with distance_levels_pass_the_ledger [OF t p, of "Some (Fin 1)" None] t(1) fl_ok_int [of 1] show ?thesis
    by (auto simp: vget_Cons)
qed

end
