(* ===== verification/PaperSubmitLaws.thy ===== *)
theory PaperSubmitLaws
  imports PaperSubmit PaperExecutionLaws
begin

text \<open>
  A submission among other workers: it only uses the transactions of the ledger, it ends, and what it
  reports is what the ledger holds when it ends.
\<close>

section \<open>Taking a pass apart\<close>

definition attempt_holds ::
  "(submission res \<Rightarrow> session \<Rightarrow> bool) \<Rightarrow> (vdict \<Rightarrow> instant option \<Rightarrow> session \<Rightarrow> bool) \<Rightarrow> attempt \<Rightarrow> bool" where
  "attempt_holds P Q a \<longleftrightarrow> (case a of Done r s \<Rightarrow> P r s | Again order t s \<Rightarrow> Q order t s)"

named_theorems pass_intros "how a pass is taken apart"

lemma attempt_Done [pass_intros]: "P r s \<Longrightarrow> attempt_holds P Q (Done r s)"
  by (simp add: attempt_holds_def)

lemma attempt_Again [pass_intros]: "Q order t s \<Longrightarrow> attempt_holds P Q (Again order t s)"
  by (simp add: attempt_holds_def)

lemma attempt_after [pass_intros]:
  "(\<And>e s. m = (Inl e, s) \<Longrightarrow> P (Inl e) s) \<Longrightarrow> (\<And>x s. m = (Inr x, s) \<Longrightarrow> attempt_holds P Q (k x s)) \<Longrightarrow> attempt_holds P Q (after m k)"
  by (cases m; cases "fst m") (auto simp: after_def attempt_Done)

lemma attempt_if [pass_intros]:
  "(b \<Longrightarrow> attempt_holds P Q x) \<Longrightarrow> (\<not> b \<Longrightarrow> attempt_holds P Q y) \<Longrightarrow> attempt_holds P Q (if b then x else y)"
  by simp

lemma attempt_Let [pass_intros]: "(\<And>x. x = v \<Longrightarrow> attempt_holds P Q (f x)) \<Longrightarrow> attempt_holds P Q (Let v f)"
  by simp

lemma attempt_option [pass_intros]:
  "(v = None \<Longrightarrow> attempt_holds P Q x) \<Longrightarrow> (\<And>w. v = Some w \<Longrightarrow> attempt_holds P Q (f w))
    \<Longrightarrow> attempt_holds P Q (case v of None \<Rightarrow> x | Some w \<Rightarrow> f w)"
  by (simp split: option.split)

lemma attempt_prod [pass_intros]:
  "(\<And>x y. v = (x, y) \<Longrightarrow> attempt_holds P Q (f x y)) \<Longrightarrow> attempt_holds P Q (case v of (x, y) \<Rightarrow> f x y)"
  by (simp split: prod.split)

lemma attempt_sum [pass_intros]:
  "(\<And>e. v = Inl e \<Longrightarrow> attempt_holds P Q (f e)) \<Longrightarrow> (\<And>x. v = Inr x \<Longrightarrow> attempt_holds P Q (g x))
    \<Longrightarrow> attempt_holds P Q (case v of Inl e \<Rightarrow> f e | Inr x \<Rightarrow> g x)"
  by (simp split: sum.split)

lemma attempt_outcome [pass_intros]:
  "(v = ExecPending \<Longrightarrow> attempt_holds P Q a) \<Longrightarrow> (v = ExecFilled \<Longrightarrow> attempt_holds P Q b)
    \<Longrightarrow> (v = ExecRejected \<Longrightarrow> attempt_holds P Q c) \<Longrightarrow> (v = ExecPriceUnavailable \<Longrightarrow> attempt_holds P Q d)
    \<Longrightarrow> attempt_holds P Q (case v of ExecPending \<Rightarrow> a | ExecFilled \<Rightarrow> b | ExecRejected \<Rightarrow> c | ExecPriceUnavailable \<Rightarrow> d)"
  by (cases v) auto

lemma attempt_mono: "attempt_holds P Q a \<Longrightarrow> (\<And>r s. P r s \<Longrightarrow> P' r s) \<Longrightarrow> (\<And>x t s. Q x t s \<Longrightarrow> Q' x t s) \<Longrightarrow> attempt_holds P' Q' a"
  by (cases a) (auto simp: attempt_holds_def)

section \<open>The ledger under a submission\<close>

text \<open>What the ledger looks like later: some transactions further on.\<close>

definition reaches :: "store \<Rightarrow> ledger \<Rightarrow> ledger \<Rightarrow> bool" where
  "reaches st L L' \<longleftrightarrow> (\<exists>ops. L' = paper_run (st_parser st) (st_text st) (st_rank st) ops L)"

lemma paper_run_append: "paper_run piso pystr id_rank (xs @ ys) L = paper_run piso pystr id_rank ys (paper_run piso pystr id_rank xs L)"
  by (induction xs arbitrary: L) auto

lemma reaches_refl [simp]: "reaches st L L"
  unfolding reaches_def by (rule exI [of _ "[]"]) simp

lemma reaches_trans [trans]: "reaches st L M \<Longrightarrow> reaches st M N \<Longrightarrow> reaches st L N"
  unfolding reaches_def by (metis paper_run_append)

lemma reaches_run: "reaches st L (paper_run (st_parser st) (st_text st) (st_rank st) ops L)"
  unfolding reaches_def by blast

lemma reaches_step: "reaches st L (paper_step (st_parser st) (st_text st) (st_rank st) op L)"
  unfolding reaches_def by (rule exI [of _ "[op]"]) simp

lemma reaches_ok: "reaches st L L' \<Longrightarrow> ledger_ok L \<Longrightarrow> ledger_ok L' \<and> ledger_extends L L'"
  unfolding reaches_def using run_ok run_extends by blast

text \<open>A transaction of the submission: the others commit theirs, then it commits its own or raises.\<close>

lemma in_store_raised: "in_store st f s = (Inl e, s') \<Longrightarrow> reaches st (ss_ledger s) (ss_ledger s')"
  by (auto simp: in_store_def transact_def Let_def reaches_run split: sum.splits prod.splits)

lemma in_store_returned:
  assumes "in_store st f s = (Inr x, s')"
  shows "\<exists>L. reaches st (ss_ledger s) L \<and> f L = Inr (x, ss_ledger s')"
  by (rule exI [of _ "paper_run (st_parser st) (st_text st) (st_rank st) (st_others st (ss_turn s)) (ss_ledger s)"])
    (use assms in \<open>auto simp: in_store_def transact_def Let_def reaches_run split: sum.splits prod.splits\<close>)

lemma in_store_op:
  assumes "in_store st f s = (Inr x, s')"
    and "\<And>L. paper_step (st_parser st) (st_text st) (st_rank st) op L = committed L (f L)"
  shows "\<exists>L. reaches st (ss_ledger s) L \<and> f L = Inr (x, ss_ledger s') \<and> reaches st L (ss_ledger s')"
proof -
  from in_store_returned [OF assms(1)] obtain L where L: "reaches st (ss_ledger s) L" "f L = Inr (x, ss_ledger s')" by blast
  then have "paper_step (st_parser st) (st_text st) (st_rank st) op L = ss_ledger s'" by (simp add: assms(2) committed_def)
  with L reaches_step [of st L op] show ?thesis by auto
qed

lemma reserve_cases:
  "store_reserve st order s = (Inl e, s') \<Longrightarrow> reaches st (ss_ledger s) (ss_ledger s')"
  "store_reserve st order s = (Inr x, s') \<Longrightarrow> \<exists>L. reaches st (ss_ledger s) L
     \<and> upsert_paper_order (st_parser st) (st_text st) (st_now st) order L = Inr (x, ss_ledger s') \<and> reaches st L (ss_ledger s')"
  unfolding store_reserve_def by (erule in_store_raised, erule in_store_op, rule paper_step.simps(1))

lemma fill_cases:
  "store_fill st order s = (Inl e, s') \<Longrightarrow> reaches st (ss_ledger s) (ss_ledger s')"
  "store_fill st order s = (Inr x, s') \<Longrightarrow> \<exists>L. reaches st (ss_ledger s) L
     \<and> apply_filled_paper_order (st_parser st) (st_text st) (st_rank st) (st_now st) order L = Inr (x, ss_ledger s')
     \<and> reaches st L (ss_ledger s')"
  unfolding store_fill_def by (erule in_store_raised, erule in_store_op, rule paper_step.simps(2))

lemma reject_cases:
  "store_reject st i t n f tr s = (Inl e, s') \<Longrightarrow> reaches st (ss_ledger s) (ss_ledger s')"
  "store_reject st i t n f tr s = (Inr x, s') \<Longrightarrow> \<exists>L. reaches st (ss_ledger s) L
     \<and> reject_paper_order_execution_if_pending (st_parser st) (st_now st) (VStr i) (Some (utc_datetime t)) (VStr n) (VStr f)
         (ex_code tr) (ex_message tr) (metadata_dict (ex_execution tr)) None L = Inr (x, ss_ledger s')
     \<and> reaches st L (ss_ledger s')"
  unfolding store_reject_def by (erule in_store_raised, erule in_store_op, rule paper_step.simps(5))

lemma read_cases:
  "in_store st (read_paper_order (st_parser st) i n f) s = (Inl e, s') \<Longrightarrow> reaches st (ss_ledger s) (ss_ledger s')"
  "in_store st (read_paper_order (st_parser st) i n f) s = (Inr x, s') \<Longrightarrow> reaches st (ss_ledger s) (ss_ledger s')"
  by (auto dest!: in_store_returned in_store_raised simp: read_paper_order_def res_simps split: list.splits)

section \<open>The order in the ledger\<close>

text \<open>The ledger holds an order that reads as \<open>d\<close>, with one of these statuses.\<close>

definition shows_order :: "iso_parser \<Rightarrow> string \<Rightarrow> vdict \<Rightarrow> string set \<Rightarrow> ledger \<Rightarrow> bool" where
  "shows_order piso i d S L \<longleftrightarrow>
    (\<exists>row \<in> set (lg_orders L). ow_id row = i \<and> ow_status row \<in> S \<and> paper_order_from_row piso row = Inr d)"

lemma shows_weaken: "shows_order piso i d S L \<Longrightarrow> S \<subseteq> T \<Longrightarrow> shows_order piso i d T L"
  by (auto simp: shows_order_def)

lemma shows_later:
  assumes "shows_order piso i d S L" "''pending'' \<notin> S" "ledger_extends L L'"
  shows "shows_order piso i d S L'"
  using assms by (auto simp: shows_order_def ledger_extends_def)

lemma shows_unique:
  assumes "shows_order piso i d S L" "shows_order piso i e T L" "ledger_ok L"
  shows "\<exists>status \<in> S \<inter> T. shows_order piso i d {status} L"
proof -
  from assms(1,2) obtain r q where r: "r \<in> set (lg_orders L)" "ow_id r = i" "ow_status r \<in> S" "paper_order_from_row piso r = Inr d"
    and q: "q \<in> set (lg_orders L)" "ow_id q = i" "ow_status q \<in> T" unfolding shows_order_def by blast
  have "r = q" using assms(3) r(1,2) q(1,2) by (auto simp: ledger_ok_def orders_ok_def distinct_map dest: inj_onD)
  with r q(3) show ?thesis by (auto simp: shows_order_def)
qed

lemma shows_status: "shows_order piso i d {status} L \<Longrightarrow> vget d ''status'' = VStr status \<and> vget d ''id'' = VStr i"
proof -
  assume "shows_order piso i d {status} L"
  then obtain row c where d: "d = dmerge (ow_payload row) (order_columns row c)" "ow_id row = i" "ow_status row = status"
    by (auto simp: shows_order_def paper_order_from_row_def Let_def res_simps split: if_splits)
  have "distinct (dkeys (order_columns row c))" by (simp add: order_columns_def dkeys_def)
  from vget_dmerge [OF this, of "ow_payload row"] d(2,3) show ?thesis
    by (simp add: d(1) order_columns_def dkeys_def vget_Cons)
qed

lemma shows_event [simp]: "shows_order piso i d S (append_event t a b L) \<longleftrightarrow> shows_order piso i d S L"
  by (simp add: shows_order_def append_event_def)

lemma cancel_row_in: "cancel_if_pending i ts n f key patch L = (Some row, L')
    \<Longrightarrow> row \<in> set (lg_orders L') \<and> ow_id row = i \<and> ow_status row = ''cancelled''"
  by (auto simp: cancel_if_pending_def update_orders_def cancel_row_def filter_eq_Cons_iff split: list.splits)

lemma cancel_shows:
  assumes "cancel_if_pending i ts n f key patch L = (Some row, L')" "paper_order_from_row piso row = Inr d"
  shows "shows_order piso i d {''cancelled''} L'"
  using cancel_row_in [OF assms(1)] assms(2) by (auto simp: shows_order_def)

lemma find_order_in: "find_order i L = Some row \<Longrightarrow> row \<in> set (lg_orders L) \<and> ow_id row = i"
  by (auto simp: find_order_def dest!: first_where_Some)

lemma find_shows:
  assumes "find_order i L = Some row" "paper_order_from_row piso row = Inr d"
  shows "shows_order piso i d {ow_status row} L"
  using find_order_in [OF assms(1)] assms(2) by (auto simp: shows_order_def)

lemma identity_id: "paper_order_identity v w u = Inr (i, n, f) \<Longrightarrow> str_of v = i"
  by (auto simp: paper_order_identity_def res_simps dest!: exact_text)

lemma reject_shows:
  "when_ok (reject_paper_order_execution_if_pending piso now (VStr i) ts n f code reason e ct L)
    (\<lambda>(v, L'). case v of None \<Rightarrow> True | Some d \<Rightarrow> shows_order piso i d {''cancelled''} L')"
  unfolding reject_paper_order_execution_if_pending_def
  by (intro ok_intros) (auto dest!: identity_id intro: cancel_shows)

lemma command_id:
  assumes "paper_order_command_payload piso pystr order = Inr c"
  shows "str_of (vget order ''id'') = pc_id c"
proof -
  have "when_ok (paper_order_command_payload piso pystr order) (\<lambda>c. str_of (vget order ''id'') = pc_id c)"
    unfolding paper_order_command_payload_def Let_def
    by (intro ok_intros when_ok_dict) (use exact_text in simp_all)
  from when_okD [OF this assms] show ?thesis .
qed

lemma upsert_shows:
  "when_ok (upsert_paper_order piso pystr now order L)
    (\<lambda>(d, L'). \<exists>status. shows_order piso (str_of (vget order ''id'')) d {status} L')"
  unfolding upsert_paper_order_def
  apply (intro ok_intros)
  subgoal premises p using p(1, 8-) by (simp add: command_id [OF p(1)]) (force simp: shows_order_def)
  subgoal premises p using find_shows p by (simp only: prod.case command_id) blast
  done

lemma existing_outcome_shows:
  "when_ok (paper_fill_existing_order_outcome piso f L)
    (\<lambda>v. case v of None \<Rightarrow> True | Some r \<Rightarrow> fo_outcome r = ''no_op''
       \<and> shows_order piso (fc_order_id f) (fo_order r) {''filled'', ''cancelled''} L)"
proof -
  have replay: "when_ok (paper_fill_replay_outcome piso f d L) (\<lambda>x. fo_outcome x = ''no_op'' \<and> fo_order x = d)" for d
    unfolding paper_fill_replay_outcome_def by (intro ok_intros) (auto simp: no_op_result_def when_ok_def split: list.split)
  have manual: "when_ok (paper_manual_close_replay_outcome piso f d L) (\<lambda>x. fo_outcome x = ''no_op'' \<and> fo_order x = d)" for d
    unfolding paper_manual_close_replay_outcome_def by (intro ok_intros) (simp_all add: no_op_result_def)
  show ?thesis
    unfolding paper_fill_existing_order_outcome_def
    by (intro ok_intros) (auto dest!: when_okD [OF replay] when_okD [OF manual] find_shows intro: shows_weaken)
qed

text \<open>What the answer to a fill says of the order.\<close>

definition result_statuses :: "string \<Rightarrow> string set" where
  "result_statuses outcome = (if outcome = ''filled'' then {''filled''} else if outcome = ''cancelled'' then {''cancelled''}
     else {''filled'', ''cancelled''})"

definition result_shown :: "iso_parser \<Rightarrow> string \<Rightarrow> fill_result \<Rightarrow> ledger \<Rightarrow> bool" where
  "result_shown piso i r L \<longleftrightarrow> fo_outcome r \<in> {''filled'', ''cancelled'', ''no_op''}
     \<and> shows_order piso i (fo_order r) (result_statuses (fo_outcome r)) L"

lemma expectation_shown:
  "when_ok (paper_position_expectation_outcome piso pystr f position L)
    (\<lambda>(v, L'). case v of None \<Rightarrow> True | Some r \<Rightarrow> result_shown piso (fc_order_id f) r L')"
  unfolding paper_position_expectation_outcome_def
  by (intro ok_intros) (auto simp: result_shown_def result_statuses_def cancelled_result_def intro: cancel_shows)

lemma stale_shown:
  "when_ok (paper_stale_reduce_only_outcome piso f position L)
    (\<lambda>(v, L'). case v of None \<Rightarrow> True | Some r \<Rightarrow> result_shown piso (fc_order_id f) r L')"
  unfolding paper_stale_reduce_only_outcome_def
  by (intro ok_intros) (auto simp: result_shown_def result_statuses_def cancelled_result_def intro: shows_weaken [OF cancel_shows])

lemma reserve_shown:
  "when_ok (reserve_paper_fill_order piso now f L)
    (\<lambda>(v, L'). case v of None \<Rightarrow> True | Some r \<Rightarrow> result_shown piso (fc_order_id f) r L')"
  unfolding reserve_paper_fill_order_def Let_def
  by (intro ok_intros) (auto simp: result_shown_def result_statuses_def dest!: when_okD [OF existing_outcome_shows] split: option.splits)

lemma commit_shown:
  assumes "commit_paper_fill piso pystr id_rank f position L = Inr (out, L')"
  shows "result_shown piso (fc_order_id f) out L'"
proof -
  from assms obtain tr L1 rec L2 current_dict current shut L3 ds L4 created where st:
    "persist_paper_fill_records piso f tr L1 = Inr (rec, L2)"
    "sync_paper_fill_protective_orders piso pystr id_rank f tr current L2 = Inr (ds, L3)"
    "create_paper_fill_protective_orders piso pystr f tr current L3 = Inr (created, L4)"
    "L' = append_paper_fill_events f tr current L4" "fo_outcome out = ''filled''" "fo_order out = fst rec"
    by (rule commit_stages) auto
  from st(1) obtain r where r: "r \<in> set (lg_orders L1)" "settled_by f r"
    "L2 = L1\<lparr>lg_orders := map (\<lambda>r. if settled_by f r then filled_row f tr r else r) (lg_orders L1),
       lg_fills := lg_fills L1 @ [fill_record f tr]\<rparr>"
    "paper_order_from_row piso (filled_row f tr r) = Inr (fst rec)" by (rule persist_stages)
  have grow: "orders_grow L2 L'"
    using sync_fill_grow [OF st(2)] create_protective_grow [OF st(3)] events_grow st(4) orders_grow_trans by metis
  have "shows_order piso (fc_order_id f) (fst rec) {''filled''} L2"
    using r unfolding shows_order_def by (intro bexI [of _ "filled_row f tr r"]) (auto simp: settled_by_def)
  from shows_later [OF this _ orders_grow_extends [OF grow]] show ?thesis
    using st(5,6) by (simp add: result_shown_def result_statuses_def)
qed

lemma apply_shown:
  "when_ok (apply_filled_paper_order piso pystr id_rank now order L)
    (\<lambda>(r, L'). result_shown piso (str_of (vget order ''id'')) r L')"
proof -
  have id: "fc_order_id f = str_of (vget order ''id'')" if "paper_fill_command piso pystr now order = Inr f" for f
  proof -
    have "when_ok (paper_fill_command piso pystr now order) (\<lambda>f. fc_order_id f = str_of (vget order ''id''))"
      unfolding paper_fill_command_def by (intro ok_intros) (simp_all add: command_id)
    from when_okD [OF this that] show ?thesis .
  qed
  have "when_ok (apply_paper_fill piso pystr id_rank now f L) (\<lambda>(r, L'). result_shown piso (fc_order_id f) r L')" for f
    unfolding apply_paper_fill_def
    apply (intro ok_intros)
    subgoal by (rule when_okI) (auto dest: commit_shown)
    subgoal using when_okD [OF stale_shown] by fastforce
    subgoal using when_okD [OF expectation_shown] by fastforce
    subgoal using when_okD [OF reserve_shown] by fastforce
    done
  then show ?thesis unfolding apply_filled_paper_order_def by (intro ok_intros) (metis id)
qed


section \<open>One pass\<close>

definition reported_statuses :: "submission_outcome \<Rightarrow> string set" where
  "reported_statuses outcome = (case outcome of SubPending \<Rightarrow> {''pending''} | SubFilled \<Rightarrow> {''filled''}
     | SubNoOp \<Rightarrow> {''filled'', ''cancelled''} | SubCancelled \<Rightarrow> {''cancelled''} | SubRejected \<Rightarrow> {''cancelled''})"

definition reported :: "store \<Rightarrow> string \<Rightarrow> submission res \<Rightarrow> session \<Rightarrow> bool" where
  "reported st i r s \<longleftrightarrow> (case r of Inl _ \<Rightarrow> True
     | Inr sm \<Rightarrow> shows_order (st_parser st) i (sm_order sm) (reported_statuses (sm_outcome sm)) (ss_ledger s))"

lemma lowered_status [simp]:
  "py_lower ''pending'' = ''pending''" "py_lower ''filled'' = ''filled''" "py_lower ''cancelled'' = ''cancelled''"
  by code_simp+

text \<open>The status the submission reads off a saved order is the status of its row.\<close>

lemma status_known:
  assumes "shows_order piso i d {status} L" "ledger_ok L"
  shows "status \<in> {''pending'', ''filled'', ''cancelled''}" and "status_of pystr d = status"
proof -
  show st: "status \<in> {''pending'', ''filled'', ''cancelled''}"
    using assms by (auto simp: shows_order_def ledger_ok_def orders_ok_def list_all_iff)
  then show "status_of pystr d = status"
    using shows_status [OF assms(1)] by (auto simp: status_of_def text_or_def text_of_def)
qed

lemma reserved_shows:
  assumes "store_reserve st order s = (Inr saved, s')" "ledger_ok (ss_ledger s)"
  shows "ledger_ok (ss_ledger s')" and "reaches st (ss_ledger s) (ss_ledger s')"
    and "shows_order (st_parser st) (str_of (vget order ''id'')) saved {status_of (st_text st) saved} (ss_ledger s')"
proof -
  from reserve_cases(2) [OF assms(1)] obtain L where L: "reaches st (ss_ledger s) L" "reaches st L (ss_ledger s')"
    "upsert_paper_order (st_parser st) (st_text st) (st_now st) order L = Inr (saved, ss_ledger s')" by blast
  then show r: "reaches st (ss_ledger s) (ss_ledger s')" by (blast intro: reaches_trans)
  from reaches_ok [OF this assms(2)] show ok: "ledger_ok (ss_ledger s')" by simp
  from when_okD [OF upsert_shows L(3)] obtain status where
    "shows_order (st_parser st) (str_of (vget order ''id'')) saved {status} (ss_ledger s')" by auto
  with status_known(2) [OF this ok] show
    "shows_order (st_parser st) (str_of (vget order ''id'')) saved {status_of (st_text st) saved} (ss_ledger s')" by metis
qed

lemma transition_id:
  assumes "paper_order_execution_transition piso pystr now order snapshot filled_at = Inr t" "ex_outcome t = ExecFilled"
  shows "vget (ex_order t) ''id'' = vget order ''id''"
proof -
  from filled_steps [OF assms] obtain snap x ready now' at' execution where
    "paper_order_at_fill pystr order x = Inr (ready, [])" "filled_transition now' at' snap order ready x execution = Inr t"
    unfolding fill_steps_def by blast
  from at_fill_other [OF this(1)] filled_transition_facts(3) [OF this(2)] show ?thesis
    by simp
qed

lemma filled_shows:
  assumes "store_fill st order s = (Inr r, s')"
  shows "reaches st (ss_ledger s) (ss_ledger s')" and "result_shown (st_parser st) (str_of (vget order ''id'')) r (ss_ledger s')"
  using fill_cases(2) [OF assms] when_okD [OF apply_shown] by (fastforce intro: reaches_trans)+

lemma rejected_shows:
  assumes "store_reject st i t n f tr s = (Inr v, s')"
  shows "reaches st (ss_ledger s) (ss_ledger s')"
    and "v = Some d \<Longrightarrow> shows_order (st_parser st) i d {''cancelled''} (ss_ledger s')"
  using reject_cases(2) [OF assms] when_okD [OF reject_shows] by (fastforce intro: reaches_trans)+

lemma reported_simps [simp]:
  "reported st i (Inl e) s"
  "reported st i (Inr sm) s \<longleftrightarrow> shows_order (st_parser st) i (sm_order sm) (reported_statuses (sm_outcome sm)) (ss_ledger s)"
  by (simp_all add: reported_def)

lemma committed_reported: "result_shown (st_parser st) i r (ss_ledger s) \<Longrightarrow> reported st i (committed_submission pystr t r) s"
  by (auto simp: committed_submission_def result_shown_def result_statuses_def reported_statuses_def Let_def split: if_splits)

lemma replayed_reported: "result_shown (st_parser st) i r (ss_ledger s) \<Longrightarrow> reported st i (replayed_submission pystr r) s"
  by (auto simp: replayed_submission_def result_shown_def result_statuses_def reported_statuses_def split: if_splits)

text \<open>A pass reports the order it reserved; it starts again only when the order was settled meanwhile.\<close>

lemma pending_pass:
  assumes "shows_order (st_parser st) i saved {''pending''} (ss_ledger s)" "ledger_ok (ss_ledger s)"
    and "str_of (vget order ''id'') = i"
  shows "attempt_holds (\<lambda>r s'. reaches st (ss_ledger s) (ss_ledger s') \<and> reported st i r s')
      (\<lambda>order' _ s'. reaches st (ss_ledger s) (ss_ledger s') \<and> order' = order
        \<and> (\<exists>d. shows_order (st_parser st) i d {''filled'', ''cancelled''} (ss_ledger s')))
    (execute_pending st (i, n, f) order snapshot execution_at saved s)"
  unfolding execute_pending_def
  apply (intro pass_intros)
  subgoal by simp
  subgoal by simp
  subgoal using assms by (simp add: pending_submission_def reported_statuses_def)
  subgoal using fill_cases(1) by auto
  subgoal premises p for _ _ _ _ _ _ t s2 r
    using p filled_shows [OF p(6)] transition_id [of _ _ _ _ _ _ t] shows_status [OF assms(1)] by (auto intro: committed_reported)
  subgoal using reject_cases(1) by auto
  subgoal premises p using p rejected_shows(1) [OF p(6)] reserve_cases(1) [OF p(8)] by (auto intro: reaches_trans)
  subgoal premises p using p rejected_shows(1) [OF p(6)] reserve_cases(2) [OF p(8)] by (auto intro: reaches_trans)
  subgoal premises p for _ _ _ _ _ _ _ _ _ s3 saved' s4
  proof -
    have "reaches st (ss_ledger s) (ss_ledger s3)" "ledger_ok (ss_ledger s3)"
      using p(3,4) rejected_shows(1) [OF p(6)] reaches_ok assms(2) by auto
    with reserved_shows [OF p(8)] p(9) assms(3) show ?thesis
      by (auto intro: reaches_trans shows_weaken)
  qed
  subgoal premises p using p rejected_shows [OF p(6)] by (auto simp: rejected_submission_def reported_statuses_def)
  subgoal using assms by (simp add: pending_submission_def reported_statuses_def)
  done


lemma reserved_pass:
  assumes "shows_order (st_parser st) i saved {status_of (st_text st) saved} (ss_ledger s)" "ledger_ok (ss_ledger s)"
    and "str_of (vget order ''id'') = i"
  shows "attempt_holds (\<lambda>r s'. reaches st (ss_ledger s) (ss_ledger s') \<and> reported st i r s')
      (\<lambda>order' _ s'. reaches st (ss_ledger s) (ss_ledger s') \<and> order' = order \<and> status_of (st_text st) saved = ''pending''
        \<and> (\<exists>d. shows_order (st_parser st) i d {''filled'', ''cancelled''} (ss_ledger s')))
    (reserved_order st (i, n, f) order snapshot execution_at saved s)"
proof -
  have id: "str_of (vget saved ''id'') = i" using shows_status [OF assms(1)] by simp
  have pend: "attempt_holds (\<lambda>r s'. reaches st (ss_ledger s) (ss_ledger s') \<and> reported st i r s')
      (\<lambda>order' _ s'. reaches st (ss_ledger s) (ss_ledger s') \<and> order' = order \<and> status_of (st_text st) saved = ''pending''
        \<and> (\<exists>d. shows_order (st_parser st) i d {''filled'', ''cancelled''} (ss_ledger s')))
      (execute_pending st (i, n, f) order snapshot execution_at saved s)" if "status_of (st_text st) saved = ''pending''"
    by (rule attempt_mono [OF pending_pass [OF _ assms(2,3)]]) (use assms(1) that in auto)
  show ?thesis
    unfolding reserved_order_def
    apply (intro pass_intros)
    subgoal by simp
    subgoal by simp
    subgoal using fill_cases(1) by auto
    subgoal premises p using p filled_shows [OF p(7)] id by (auto intro: replayed_reported)
    subgoal using assms(1) by (auto simp: cancelled_submission_def reported_statuses_def Let_def)
    subgoal by simp
    subgoal using pend by auto
    done
qed

lemma settled_not_pending:
  assumes "shows_order piso i d {''pending''} L" "ledger_ok L"
  shows "\<not> shows_order piso i e {''filled'', ''cancelled''} L"
  using shows_unique [OF assms(1) _ assms(2)] by fastforce

lemma submission_pass_holds:
  fixes order :: vdict
  assumes "ledger_ok (ss_ledger s)"
  defines "i \<equiv> str_of (vget order ''id'')"
  shows "attempt_holds (\<lambda>r s'. reaches st (ss_ledger s) (ss_ledger s') \<and> reported st i r s')
      (\<lambda>order' _ s'. reaches st (ss_ledger s) (ss_ledger s')
        \<and> (take 4 i \<noteq> ''sig-'' \<longrightarrow> order' = order \<and> (\<exists>d. shows_order (st_parser st) i d {''filled'', ''cancelled''} (ss_ledger s'))
            \<and> (\<forall>d. \<not> shows_order (st_parser st) i d {''filled'', ''cancelled''} (ss_ledger s))))
    (submission_pass st order snapshot execution_at s)"
  unfolding submission_pass_def
  apply (intro pass_intros)
  subgoal by simp
  subgoal premises p for x s1
  proof -
    obtain j n f where x: "x = (j, n, f)" by (cases x)
    have i_eq: "str_of (vget order ''id'') = i" by (simp add: i_def)
    from x p identity_id have j: "j = i" "s1 = s" by (auto simp: i_def)
    show ?thesis
      unfolding x prod.case j
      apply (intro pass_intros)
      subgoal using reserve_cases(1) by auto
      subgoal using reserve_cases(1) read_cases(1) by (fastforce intro: reaches_trans)
      subgoal using reserve_cases(1) read_cases(2) by (fastforce intro: reaches_trans)
      subgoal using reserve_cases(1) read_cases(2) by (fastforce simp: resumable_def intro: reaches_trans)
      subgoal premises q for _ s2 saved
      proof -
        from q have r: "store_reserve st order s = (Inr saved, s2)" by simp
        note sh = reserved_shows [OF r assms(1), folded i_def]
        show ?thesis
        proof (rule attempt_mono [OF reserved_pass [OF sh(3,1) i_eq]])
          fix order' t s'
          assume a: "reaches st (ss_ledger s2) (ss_ledger s') \<and> order' = order \<and> status_of (st_text st) saved = ''pending''
            \<and> (\<exists>d. shows_order (st_parser st) i d {''filled'', ''cancelled''} (ss_ledger s'))"
          have "\<not> shows_order (st_parser st) i d {''filled'', ''cancelled''} (ss_ledger s)" for d
          proof
            assume "shows_order (st_parser st) i d {''filled'', ''cancelled''} (ss_ledger s)"
            with reaches_ok [OF sh(2) assms(1)] have "shows_order (st_parser st) i d {''filled'', ''cancelled''} (ss_ledger s2)"
              by (auto elim: shows_later)
            with settled_not_pending [OF _ sh(1)] sh(3) a show False by fastforce
          qed
          with a sh(2) show "reaches st (ss_ledger s) (ss_ledger s') \<and> (take 4 i \<noteq> ''sig-'' \<longrightarrow> order' = order
              \<and> (\<exists>d. shows_order (st_parser st) i d {''filled'', ''cancelled''} (ss_ledger s'))
              \<and> (\<forall>d. \<not> shows_order (st_parser st) i d {''filled'', ''cancelled''} (ss_ledger s)))"
            by (auto intro: reaches_trans)
        qed (use sh(2) in \<open>auto intro: reaches_trans\<close>)
      qed
      done
  qed
  done

section \<open>Properties\<close>

lemma pass_done: "attempt_holds P Q a \<Longrightarrow> a = Done r s \<Longrightarrow> P r s"
  and pass_again: "attempt_holds P Q a \<Longrightarrow> a = Again order t s \<Longrightarrow> Q order t s"
  by (simp_all add: attempt_holds_def)

definition submission_sound :: "store \<Rightarrow> vdict \<Rightarrow> session \<Rightarrow> submission res \<times> session \<Rightarrow> bool" where
  "submission_sound st order s y \<longleftrightarrow> reaches st (ss_ledger s) (ss_ledger (snd y)) \<and> (\<exists>i. reported st i (fst y) (snd y)
    \<and> (take 4 (str_of (vget order ''id'')) \<noteq> ''sig-'' \<longrightarrow> i = str_of (vget order ''id'')))"

lemma submission_result:
  assumes "submit_paper_order_execution st order snapshot execution_at s = Some y" "ledger_ok (ss_ledger s)"
  shows "submission_sound st order s y"
proof -
  have "ledger_ok (ss_ledger s) \<longrightarrow> submission_sound st order s y"
    using assms(1)
  proof (rule submit_paper_order_execution.raw_induct [rotated])
    fix submit st order snapshot execution_at s y
    assume IH: "\<And>st order snapshot execution_at s y. submit st order snapshot execution_at s = Some y
        \<Longrightarrow> ledger_ok (ss_ledger s) \<longrightarrow> submission_sound st order s y"
      and body: "(case submission_pass st order snapshot execution_at s of Done r s' \<Rightarrow> Some (r, s')
        | Again order' execution_at' s' \<Rightarrow> submit st order' snapshot execution_at' s') = Some y"
    show "ledger_ok (ss_ledger s) \<longrightarrow> submission_sound st order s y"
    proof
      assume ok: "ledger_ok (ss_ledger s)"
      note pass = submission_pass_holds [OF ok, of st order snapshot execution_at]
      show "submission_sound st order s y"
      proof (cases "submission_pass st order snapshot execution_at s")
        case (Done r s')
        with body pass_done [OF pass] show ?thesis by (auto simp: submission_sound_def)
      next
        case (Again order' t s')
        from pass_again [OF pass this] have a: "reaches st (ss_ledger s) (ss_ledger s')"
          "take 4 (str_of (vget order ''id'')) \<noteq> ''sig-'' \<longrightarrow> order' = order" by auto
        from Again body have "submit st order' snapshot t s' = Some y" by simp
        with IH reaches_ok [OF a(1) ok] have "submission_sound st order' s' y" by blast
        with a show ?thesis by (auto simp: submission_sound_def intro: reaches_trans)
      qed
    qed
  qed
  with assms(2) show ?thesis by simp
qed

text \<open>A market order for two units, submitted before any price is known.\<close>

definition submitted_order :: vdict where
  "submitted_order = vset ''payload'' (VDict [(VStr ''protection_basis'', VStr ''absolute_structure''),
       (VStr ''paper_execution_config'', VDict example_config)])
     (filter (\<lambda>(k, _). k \<noteq> VStr ''filled_at'') (example_order ''e'' ''long'' (Fin 2) (Fin 100) 0 []))"

definition quiet_store :: store where
  "quiet_store = \<lparr>st_parser = epoch_iso, st_text = no_str, st_rank = no_rank, st_now = 0, st_others = (\<lambda>_. [])\<rparr>"

definition fresh_session :: session where
  "fresh_session = \<lparr>ss_turn = 0, ss_ledger = empty_ledger\<rparr>"

lemma example_pass:
  "case submission_pass quiet_store submitted_order None None fresh_session of
     Done (Inr sm) _ \<Rightarrow> sm_outcome sm = SubPending | _ \<Rightarrow> False"
  by code_simp



text \<open>C7: the submission of an order that is not a signal's (its id does not begin with \<open>sig-\<close>) comes to an
  end, whatever the other workers commit before each of its own transactions. Only a race starts it again: it lost the
  cancellation of a rejected order to another worker; then the order is settled for good, and the second pass ends.
  Nothing is claimed here for the orders of signals: they are also started again under the command the ledger holds,
  and how often depends on the commands that are stored meanwhile.\<close>

theorem submission_ends:
  assumes "take 4 (str_of (vget order ''id'')) \<noteq> ''sig-''"
  shows "\<exists>r s'. submit_paper_order_execution st order snapshot execution_at
    \<lparr>ss_turn = n, ss_ledger = paper_run (st_parser st) (st_text st) (st_rank st) ops empty_ledger\<rparr> = Some (r, s')"
proof -
  let ?s = "\<lparr>ss_turn = n, ss_ledger = paper_run (st_parser st) (st_text st) (st_rank st) ops empty_ledger\<rparr>"
  have ok: "ledger_ok (ss_ledger ?s)" using run_ok [OF empty_ledger_ok] by simp
  note 1 = submission_pass_holds [OF ok, of st order snapshot execution_at]
  show ?thesis
  proof (cases "submission_pass st order snapshot execution_at ?s")
    case (Done r s')
    then show ?thesis by (subst submit_paper_order_execution.simps) simp
  next
    case (Again order' t s2)
    from pass_again [OF 1 this] assms have a: "order' = order" "ledger_ok (ss_ledger s2)"
      "\<exists>d. shows_order (st_parser st) (str_of (vget order ''id'')) d {''filled'', ''cancelled''} (ss_ledger s2)"
      using reaches_ok [OF _ ok] by auto
    note 2 = submission_pass_holds [OF a(2), of st order snapshot t]
    have "\<exists>r s'. submission_pass st order snapshot t s2 = Done r s'"
      using pass_again [OF 2] a(3) assms by (cases "submission_pass st order snapshot t s2") auto
    then have "\<exists>r s'. submit_paper_order_execution st order snapshot t s2 = Some (r, s')"
      by (subst submit_paper_order_execution.simps) auto
    with Again a(1) show ?thesis by (subst submit_paper_order_execution.simps) simp
  qed
qed

theorem submission_ends_witness:
  "\<exists>r s'. submit_paper_order_execution (quiet_store\<lparr>st_others := (\<lambda>turn. if turn = 1 then [OpFill 5 example_entry] else [])\<rparr>)
      submitted_order (Some bar_snapshot) None
      \<lparr>ss_turn = 0, ss_ledger = paper_run epoch_iso no_str no_rank [] empty_ledger\<rparr> = Some (r, s')"
proof -
  have "str_of (vget submitted_order ''id'') = ''e''" by code_simp
  with submission_ends [of submitted_order "quiet_store\<lparr>st_others := (\<lambda>turn. if turn = 1 then [OpFill 5 example_entry] else [])\<rparr>"
      "Some bar_snapshot" None 0 "[]"] show ?thesis by (simp add: quiet_store_def)
qed

end
