(* ===== verification/Spec2Isabelle.thy ===== *)
theory Spec2Isabelle
  imports HistoryCoverage ChartWait TickLoss DomainLaws LifecycleLaws BarSeriesLaws RepairPolicy DecisionTotal HistoryPageLaws PaperReplay PaperEquity PaperSubmitLaws
begin

text \<open>
  A model of the decision and data core of the trading terminal under \<open>src/aef_terminal\<close>. Paths below are relative
  to that directory.

  \<^bold>\<open>The program.\<close> Providers deliver bars and ticks of an instrument over one route. Bars are stored, fenced
  against concurrent readers and writers by an in-process registry, repaired where the stored history has
  gaps, and read back in pages. Indicators turn confirmed bars into signals; signals become trade plans whose
  life is replayed over the bars; the decision loop picks at most one plan to act on; the paper ledger books the
  orders, fills and positions that follow.

  \<^bold>\<open>Theories and sources.\<close>

  \<^item> Ground: \<^theory_text>\<open>Prelude\<close> (exceptions, the result type, insertion-ordered dictionaries, their lemmas and collections),
    \<^theory_text>\<open>PyFloat\<close> (binary64), \<^theory_text>\<open>PyText\<close> (strings), \<^theory_text>\<open>PyTime\<close> (datetimes), \<^theory_text>\<open>PyValue\<close> and \<^theory_text>\<open>PyEq\<close> (dynamically typed
    values and their equality), \<^theory_text>\<open>ResultLogic\<close> (partial correctness of result terms), \<^theory_text>\<open>FloatBounds\<close> (magnitudes),
    \<^theory_text>\<open>MathUtils\<close> (\<open>runtime/math_utils.py\<close>).
  \<^item> Identity and time: \<^theory_text>\<open>Identity\<close> (\<open>data/instrument_identity.py\<close>), \<^theory_text>\<open>Timeframes\<close> (\<open>runtime/timeframes.py\<close>), \<^theory_text>\<open>HistoryCoverage\<close>
    (\<open>data/history_coverage.py\<close>: receipts, their union and the ranges they leave uncovered).
  \<^item> Values: \<^theory_text>\<open>Bars\<close> and \<^theory_text>\<open>Domain\<close> (\<open>domain.py\<close>); \<^theory_text>\<open>DomainLaws\<close> shows that the three projections of a value agree and that
    frozen values are stable.
  \<^item> Chart registry: \<^theory_text>\<open>ChartEvents\<close> (\<open>runtime/chart_events.py\<close>, one definition per method), \<^theory_text>\<open>ChartCore\<close> (the methods as the
    steps of one machine), \<^theory_text>\<open>ChartFence\<close> (exclusive write guards, pinned generations, gap-free events),
    \<^theory_text>\<open>ChartWait\<close> (no lost wake-up).
  \<^item> Bar series: \<^theory_text>\<open>BarSeries\<close> (\<open>runtime/bar_series.py\<close>, \<open>derived_timeframes.py\<close>, \<open>bar_quality.py\<close>), \<^theory_text>\<open>BarSeriesLaws\<close>.
  \<^item> Tick writer: \<^theory_text>\<open>TickBuffer\<close> (\<open>data/tick_buffer.py\<close>), \<^theory_text>\<open>TickAccounting\<close> (every tick is written, dropped for a reason, buffered
    or in flight; order), \<^theory_text>\<open>TickLoss\<close> (outcomes of the storage call; stopping, which lets the flush task finish its round first).
  \<^item> History: \<^theory_text>\<open>ProviderHistory\<close> (\<open>data/provider_history.py\<close>) over \<^theory_text>\<open>BarStore\<close> (\<open>storage/repos/bars.py\<close>, \<open>read_bars_multi\<close>);
    \<^theory_text>\<open>HistoryPageLaws\<close> states what the pages need of a store as the locale \<open>window_store\<close>, which the table interprets.
  \<^item> Repair: \<^theory_text>\<open>RepairContract\<close> (types of \<open>data/provider_contract.py\<close>), \<^theory_text>\<open>RepairPlan\<close> (\<open>engine/history_repair.py\<close>), \<^theory_text>\<open>RepairLane\<close> and
    \<^theory_text>\<open>RepairRun\<close> (\<open>data/history_repair.py\<close>: the lane per provider, and one repair from request to outcome);
    \<^theory_text>\<open>RepairLaneLaws\<close>, \<^theory_text>\<open>RepairLaneEnd\<close>, \<^theory_text>\<open>RepairLaneRuns\<close>, \<^theory_text>\<open>RepairDrain\<close>, \<^theory_text>\<open>RepairPolicy\<close>, \<^theory_text>\<open>RepairRunLaws\<close> hold what operations, runs
    and single repairs guarantee.
  \<^item> Signals: \<^theory_text>\<open>TradePlan\<close> (\<open>signals/trade_plan.py\<close>), \<^theory_text>\<open>SignalState\<close> and \<^theory_text>\<open>SignalScan\<close> (\<open>runtime/signal_state.py\<close>), \<^theory_text>\<open>SignalLifecycle\<close>
    (\<open>engine/signal_lifecycle.py\<close>); \<^theory_text>\<open>PlanLifeSpec\<close> states the life of a plan apart from the code, one determined step for each bar, and
    \<^theory_text>\<open>PlanLife\<close> shows that the replay reports exactly that life; \<^theory_text>\<open>TradePlanLaws\<close>, \<^theory_text>\<open>SignalLaws\<close>, \<^theory_text>\<open>LifecycleLaws\<close>.
  \<^item> Decision: \<^theory_text>\<open>InstrumentProfiles\<close> (\<open>runtime/instruments.py\<close>), \<^theory_text>\<open>Decision\<close> (\<open>engine/decision.py\<close>), \<^theory_text>\<open>InstrumentLaws\<close>, \<^theory_text>\<open>DecisionLaws\<close>
    (what an actionable answer guarantees, which answer is given), \<^theory_text>\<open>DecisionTotal\<close> (inputs of ordinary
    magnitude are always answered).
  \<^item> Paper trading: \<^theory_text>\<open>PaperContract\<close> (\<open>paper_contract.py\<close>), \<^theory_text>\<open>PaperCommand\<close>, \<^theory_text>\<open>PaperLedger\<close> and \<^theory_text>\<open>PaperJournal\<close>
    (\<open>storage/repos/paper.py\<close> with the row readers of \<open>storage/db_utils.py\<close>); \<^theory_text>\<open>PaperLedgerLaws\<close> (the invariant of the
    tables over all runs, settled rows are final), \<^theory_text>\<open>PaperFillLaws\<close> and \<^theory_text>\<open>PaperEquity\<close> (reduce-only fills, equity),
    \<^theory_text>\<open>PaperReplay\<close> (a fill is applied once), on the concrete ledger of \<^theory_text>\<open>PaperExample\<close>.
  \<^item> Paper execution: \<^theory_text>\<open>PaperOrders\<close> (\<open>ui/paper/orders.py\<close>), \<^theory_text>\<open>PaperExecution\<close> (the transition of one order under a
    price snapshot, \<open>ui/paper/execution.py\<close> with what it calls of \<open>ui/paper/config.py\<close>, \<open>ui/paper/signals.py\<close>,
    \<open>signals/direction.py\<close> and \<open>runtime/presentation.py\<close>) and \<^theory_text>\<open>PaperSubmit\<close> (the submission: reserve, execute, commit,
    each in its own transaction among those of other workers). \<^theory_text>\<open>PaperOrdersLaws\<close> (updates that cannot succeed),
    \<^theory_text>\<open>PaperExecutionLaws\<close> (fill prices and levels), \<^theory_text>\<open>PaperSubmitLaws\<close> (a submission reports what the ledger holds; the submission of an order that is not a signal's ends).

  The theory for a source file comes before the theories of its laws; inside a theory the definitions
  follow the order of the source, each under the name the source gives it.

  \<^bold>\<open>How the code is read.\<close> A dataclass is a record, an enumeration or union a datatype. A function that can raise
  returns \<open>Inl\<close> of the exception or \<open>Inr\<close> of its value, so that every \<open>raise\<close> and every exception of a called
  operation is a branch. Where the code tests the type of an argument, the argument is a \<open>pyval\<close>; where it relies on
  the annotation, it has the HOL type. Mutable objects are passed and returned. A lock is not a state: what runs under
  one lock is one step. Tasks, callbacks and events are handles; what is awaited from outside is a value, so that a
  theorem covers every answer the awaited service may give. Environment, clock, \<open>datetime.fromisoformat\<close> (\<open>piso\<close>), \<open>str\<close>
  of a value that is no text (\<open>pystr\<close>), digests, and the readers of the store are arguments. An SQL statement is
  given by its meaning on lists of rows, a transaction by the exception (nothing changed) or its answer with the
  new tables; a JSON column is the dictionary it was written from, generated columns are read from it, the database's
  order of texts is an argument (\<open>id_rank\<close>).

  \<^bold>\<open>Approximations, all of values.\<close> A finite float is the rational number it denotes, operations are exact and then
  rounded to even (\<open>rnd\<close>); the two zeros are one value; a decimal literal is the rounding of its rational; sums of
  floats use the compensated sum of CPython 3.12. Strings are Latin-1 (the two letters whose upper case leaves
  Latin-1 keep their form). A datetime is its wall clock in microseconds with an optional offset;
  \<open>timestamp()\<close> is exact between 1970 and 2242, and the claims that use it say so. Logs and metrics are left out.

  \<^bold>\<open>Bounds and fuel.\<close> A flush of the tick writer stops after \<open>max_flush_batches\<close> batches, as in the code. The repair lane
  has no fuel: a run is an inductive path, and the claim that it drains bounds its length by the sum of the
  remaining chunks (\<open>work\<close>). The reader of pages of \<^theory_text>\<open>HistoryPageLaws\<close> takes fuel, one more than the number of
  stored bars is shown to be enough. A submission has no fuel either: it is a partial function that iterates
  its passes, and the claim that it ends, for orders that are not of a signal, shows that the second pass is the last. All other loops recurse on the list they read, or have a termination proof.

  \<^bold>\<open>What the groups of lemmas show.\<close> Per component: the invariant of its state and that each operation keeps it; what
  each branch returns, errors included; then the claims (C1 onwards, named in the text before the theorem) about
  all runs or all inputs. Claims with hypotheses are followed by a witness that meets them at concrete data. The
  locales state interfaces: \<open>keyed_store\<close> and \<open>guarded_machine\<close> (\<^theory_text>\<open>Prelude\<close>), \<open>range_union\<close> (\<^theory_text>\<open>HistoryCoverage\<close>), \<open>window_store\<close>
  (\<^theory_text>\<open>HistoryPageLaws\<close>) and \<open>stable_queue\<close> (\<^theory_text>\<open>RepairLaneLaws\<close>); each is interpreted on the model's own definitions.

  \<^bold>\<open>Not modelled.\<close> The indicator modules, features and learned models (series arithmetic without a contract but its
  formula, on numpy); network clients of brokers and exchanges; the schema and the remaining queries of the store;
  HTTP, websockets, drawing, alerts and research scripts; asynchronous glue. Of the modelled files: metrics and
  logging; in \<open>storage/repos/paper.py\<close> the queries that only read, the payload of events, the writer lease, and
  \<open>update_paper_protective_levels\<close>, which nothing calls; in \<open>ui/paper/execution.py\<close> the caches of snapshots;
  in \<open>ui/paper/orders.py\<close> the query \<open>read_paper_orders\<close>; in \<open>storage/repos/bars.py\<close> everything but \<open>read_bars_multi\<close>; in
  \<open>data/provider_contract.py\<close> everything but the types of routes and repairs.
\<close>

end
